(* ===== verification/Prelude.thy ===== *)
theory Prelude
  imports Main "HOL-Library.Word" "HOL-Library.Char_ord" "HOL-Library.List_Lexorder"
    "HOL-Library.AList" "HOL-Library.Finite_Map"
begin

text \<open>
  The Go values and library functions that the components share.

  A Go \<^verbatim>\<open>string\<close> and a Go \<^verbatim>\<open>[]byte\<close> are both sequences of bytes; an
  Isabelle \<^typ>\<open>char\<close> is exactly one byte, so both are \<^typ>\<open>string\<close> here and the
  conversions \<^verbatim>\<open>string(b)\<close> and \<^verbatim>\<open>[]byte(s)\<close> are the identity. A nil slice
  and an empty slice are both \<open>[]\<close>: the code modelled here only builds slices with
  \<^verbatim>\<open>append([]byte(nil), v...)\<close>, which is nil exactly when \<^verbatim>\<open>v\<close> is empty.
  \<^verbatim>\<open>bytes.Compare\<close> is the lexicographic order on unsigned bytes, which is the order
  of \<^theory_text>\<open>List_Lexorder\<close> over \<^theory_text>\<open>Char_ord\<close>.

  An error is a value of \<^theory_text>\<open>go_error\<close>; a function that returns \<^verbatim>\<open>(T, error)\<close> returns
  a sum. A Go map that the code ranges over is an association list, whose order stands for the
  unspecified iteration order; a map that is only looked up is a finite map or a function.
\<close>

named_theorems go_simps \<open>equations of the Go library functions used by the code\<close>
named_theorems wf_intros \<open>introduction rules for the well-formedness invariants\<close>
named_theorems wf_dests \<open>what the well-formedness invariants give\<close>

section \<open>Types\<close>

type_synonym byte = char
type_synonym bytes = "char list"
type_synonym u8 = "8 word"
type_synonym u16 = "16 word"
type_synonym u32 = "32 word"
type_synonym u64 = "64 word"

text \<open>
  A \<^verbatim>\<open>time.Time\<close> is the number of nanoseconds since January 1 of year 1, UTC, so that
  the zero time is \<open>0\<close>; a \<^verbatim>\<open>time.Duration\<close> is an \<^verbatim>\<open>int64\<close> number of
  nanoseconds. Arithmetic on durations wraps; \<open>i64\<close> writes the wrap-around out.
\<close>

type_synonym time = int
type_synonym duration = int

datatype go_error =
    ErrNotFound
  | ErrMsg string
  | Panic string

fun go_error_text :: "go_error \<Rightarrow> string" where
  "go_error_text ErrNotFound = ''not found''"
| "go_error_text (ErrMsg t) = t"
| "go_error_text (Panic t) = t"

definition i64 :: "int \<Rightarrow> int" where
  "i64 x = (x + 2 ^ 63) mod 2 ^ 64 - 2 ^ 63"

definition second_ns :: int where "second_ns = 1000000000"
definition minute_ns :: int where "minute_ns = 60 * second_ns"
definition hour_ns :: int where "hour_ns = 60 * minute_ns"

text \<open>\<^verbatim>\<open>Time.Unix\<close>: seconds since 1970, rounded towards minus infinity.\<close>

definition unix_epoch_s :: int where "unix_epoch_s = 62135596800"

definition time_unix :: "time \<Rightarrow> int" where
  "time_unix t = t div second_ns - unix_epoch_s"

definition is_zero_time :: "time \<Rightarrow> bool" where
  "is_zero_time t \<longleftrightarrow> t = 0"

text \<open>Go's integer division truncates towards zero.\<close>

definition go_div :: "int \<Rightarrow> int \<Rightarrow> int" where
  "go_div a b = sgn a * sgn b * (\<bar>a\<bar> div \<bar>b\<bar>)"

lemma go_div_nonneg [simp]: "0 \<le> a \<Longrightarrow> 0 < b \<Longrightarrow> go_div a b = a div b"
  by (cases "a = 0") (simp_all add: go_div_def)

lemma i64_id [simp]: "- (2 ^ 63) \<le> x \<Longrightarrow> x < 2 ^ 63 \<Longrightarrow> i64 x = x"
  by (simp add: i64_def)

lemma i64_range: "- (2 ^ 63) \<le> i64 x \<and> i64 x < 2 ^ 63"
proof -
  have "(x + 2 ^ 63) mod 2 ^ 64 < (2 ^ 64 :: int)" by simp
  moreover have "0 \<le> (x + 2 ^ 63) mod (2 ^ 64 :: int)" by simp
  ultimately show ?thesis by (simp add: i64_def)
qed

section \<open>Results\<close>

fun is_ok :: "'e + 'a \<Rightarrow> bool" where
  "is_ok (Inl e) = False"
| "is_ok (Inr x) = True"

fun rbind :: "'e + 'a \<Rightarrow> ('a \<Rightarrow> 'e + 'b) \<Rightarrow> 'e + 'b" where
  "rbind (Inl e) f = Inl e"
| "rbind (Inr x) f = f x"

lemma rbind_Inr_conv: "rbind r f = Inr y \<longleftrightarrow> (\<exists>x. r = Inr x \<and> f x = Inr y)"
  by (cases r) auto

lemma rbind_assoc: "rbind (rbind r f) g = rbind r (\<lambda>x. rbind (f x) g)"
  by (cases r) auto

section \<open>Maps as association lists\<close>

abbreviation mput :: "'k \<Rightarrow> 'v \<Rightarrow> ('k \<times> 'v) list \<Rightarrow> ('k \<times> 'v) list" where
  "mput \<equiv> AList.update"

abbreviation mdel :: "'k \<Rightarrow> ('k \<times> 'v) list \<Rightarrow> ('k \<times> 'v) list" where
  "mdel \<equiv> AList.delete"

abbreviation mkeys :: "('k \<times> 'v) list \<Rightarrow> 'k list" where
  "mkeys m \<equiv> map fst m"

lemma map_of_mput [simp]: "map_of (mput k v m) = (map_of m)(k \<mapsto> v)"
  by (rule update_conv')

lemma map_of_mdel [simp]: "map_of (mdel k m) = (map_of m)(k := None)"
  by (rule delete_conv')

lemma distinct_mput [intro, simp]: "distinct (mkeys m) \<Longrightarrow> distinct (mkeys (mput k v m))"
  by (rule distinct_update)

lemma distinct_mdel [intro, simp]: "distinct (mkeys m) \<Longrightarrow> distinct (mkeys (mdel k m))"
  by (rule distinct_delete)

lemma set_mput: "set (mput k v m) \<subseteq> insert (k, v) (set m)"
  by (induction m) auto

lemma mput_fresh: "k \<notin> set (mkeys m) \<Longrightarrow> mput k v m = m @ [(k, v)]"
  by (induction m) auto

section \<open>Bytes, big-endian integers\<close>

definition byte_nat :: "byte \<Rightarrow> nat" where
  "byte_nat c = of_char c"

definition nat_byte :: "nat \<Rightarrow> byte" where
  "nat_byte n = char_of n"

lemma byte_nat_less [simp]: "byte_nat c < 256"
  by (simp add: byte_nat_def)

lemma byte_nat_of [simp]: "byte_nat (nat_byte n) = n mod 256"
  by (simp add: byte_nat_def nat_byte_def)

lemma nat_byte_of [simp]: "nat_byte (byte_nat c) = c"
  by (simp add: byte_nat_def nat_byte_def)

text \<open>\<open>be k n\<close>: the low \<open>k\<close> bytes of \<open>n\<close>, most significant first
  (\<^verbatim>\<open>binary.BigEndian.PutUint16/32\<close>); \<open>be_nat\<close> reads them back.\<close>

fun be :: "nat \<Rightarrow> nat \<Rightarrow> bytes" where
  "be 0 n = []"
| "be (Suc k) n = be k (n div 256) @ [nat_byte n]"

fun be_nat_acc :: "nat \<Rightarrow> bytes \<Rightarrow> nat" where
  "be_nat_acc a [] = a"
| "be_nat_acc a (c # cs) = be_nat_acc (a * 256 + byte_nat c) cs"

definition be_nat :: "bytes \<Rightarrow> nat" where
  "be_nat cs = be_nat_acc 0 cs"

lemma length_be [simp]: "length (be k n) = k"
  by (induction k arbitrary: n) auto

lemma drop_app: "length xs = n \<Longrightarrow> drop n (xs @ ys) = ys"
  by simp

lemma take_app: "length xs = n \<Longrightarrow> take n (xs @ ys) = xs"
  by simp

lemma be_nat_acc_append: "be_nat_acc a (xs @ ys) = be_nat_acc (be_nat_acc a xs) ys"
  by (induction xs arbitrary: a) auto

lemma be_nat_be: "be_nat (be k n) = n mod 256 ^ k"
proof (induction k arbitrary: n)
  case 0
  then show ?case by (simp add: be_nat_def)
next
  case (Suc k)
  have "be_nat (be (Suc k) n) = be_nat (be k (n div 256)) * 256 + n mod 256"
    by (simp add: be_nat_def be_nat_acc_append)
  also have "\<dots> = n mod 256 ^ Suc k"
    by (simp add: Suc mod_mult2_eq)
  finally show ?case .
qed

lemma be_nat_be_id [simp]: "n < 256 ^ k \<Longrightarrow> be_nat (be k n) = n"
  by (simp add: be_nat_be)

lemma be_nat_acc_bound: "be_nat_acc a cs < (a + 1) * 256 ^ length cs"
proof (induction cs arbitrary: a)
  case Nil
  then show ?case by simp
next
  case (Cons c cs)
  have "be_nat_acc a (c # cs) < (a * 256 + byte_nat c + 1) * 256 ^ length cs"
    using Cons [of "a * 256 + byte_nat c"] by simp
  also have "\<dots> \<le> (a * 256 + 256) * 256 ^ length cs"
    using Suc_leI [OF byte_nat_less [of c]] by (intro mult_right_mono) auto
  finally show ?case by (simp add: algebra_simps)
qed

lemma be_nat_bound: "be_nat cs < 256 ^ length cs"
  using be_nat_acc_bound [of 0 cs] by (simp add: be_nat_def)

lemma be_nat_acc_be: "be (length cs) (be_nat_acc a cs) = cs"
proof (induction cs rule: rev_induct)
  case Nil
  then show ?case by simp
next
  case (snoc c cs)
  have "be_nat_acc a (cs @ [c]) = be_nat_acc a cs * 256 + byte_nat c"
    by (simp add: be_nat_acc_append)
  moreover have "nat_byte (be_nat_acc a cs * 256 + byte_nat c) = c"
    by (metis byte_nat_of mod_mult_self3 nat_byte_of)
  ultimately show ?case
    using snoc by simp
qed

lemma be_be_nat [simp]: "length cs = k \<Longrightarrow> be k (be_nat cs) = cs"
  using be_nat_acc_be [of cs 0] by (simp add: be_nat_def)

section \<open>Sorting\<close>

text \<open>
  \<^verbatim>\<open>sort.Slice\<close> with a comparison \<open>lt\<close>, by insertion. Where the comparison is not a strict order
  on the items Go's result is not determined, and this takes one.
\<close>

fun insert_by :: "('a \<Rightarrow> 'a \<Rightarrow> bool) \<Rightarrow> 'a \<Rightarrow> 'a list \<Rightarrow> 'a list" where
  "insert_by lt x [] = [x]"
| "insert_by lt x (y # ys) = (if lt y x then y # insert_by lt x ys else x # y # ys)"

definition sort_by :: "('a \<Rightarrow> 'a \<Rightarrow> bool) \<Rightarrow> 'a list \<Rightarrow> 'a list" where
  "sort_by lt xs = foldr (insert_by lt) xs []"

lemma set_insert_by [simp]: "set (insert_by lt x xs) = insert x (set xs)"
  by (induction xs) auto

lemma set_sort_by [simp]: "set (sort_by lt xs) = set xs"
  by (induction xs) (auto simp: sort_by_def)

end
