(* ===== verification/Kv.thy ===== *)
theory Kv
  imports Prelude
begin

text \<open>
  The interface of a key-value store, as the write-ahead log and the recovery of the engine rely
  on it: an update changes one key, a delete removes one key, and both keep the store's invariant.
  A log of writes is a list of pairs of a key and \<open>Some v\<close> (a put) or \<open>None\<close> (a delete);
  \<open>kv_run\<close> replays it. The lemmas of the locale say what a replay leaves in the store: the last
  write of each key wins, so that replaying a log over a store that already holds a prefix of it
  gives what replaying it once gives. \<open>BTree\<close> and \<open>StorageEngine\<close> interpret the locale.
\<close>

fun kv_run :: "('k \<Rightarrow> 'v \<Rightarrow> 's \<Rightarrow> 's) \<Rightarrow> ('k \<Rightarrow> 's \<Rightarrow> 's) \<Rightarrow> ('k \<times> 'v option) list \<Rightarrow> 's \<Rightarrow> 's" where
  "kv_run upd del [] s = s"
| "kv_run upd del ((k, Some v) # ws) s = kv_run upd del ws (upd k v s)"
| "kv_run upd del ((k, None) # ws) s = kv_run upd del ws (del k s)"

text \<open>The same log over a plain map: the specification.\<close>

fun map_run :: "('k \<times> 'v option) list \<Rightarrow> ('k \<rightharpoonup> 'v) \<Rightarrow> ('k \<rightharpoonup> 'v)" where
  "map_run [] m = m"
| "map_run ((k, w) # ws) m = map_run ws (m(k := w))"

lemma map_run_append: "map_run (xs @ ys) m = map_run ys (map_run xs m)"
  by (induction xs arbitrary: m) auto

lemma kv_run_append: "kv_run upd del (xs @ ys) s = kv_run upd del ys (kv_run upd del xs s)"
  by (induction upd del xs s rule: kv_run.induct) auto

lemma map_run_last_write:
  "map_run ws m k = (case map_of (rev ws) k of None \<Rightarrow> m k | Some w \<Rightarrow> w)"
proof (induction ws arbitrary: m)
  case (Cons w ws)
  then show ?case
    by (cases w) (auto simp: map_add_def split: option.split)
qed simp

lemma map_run_touched: "k \<in> fst ` set ws \<Longrightarrow> map_run ws m k = map_run ws m' k"
proof -
  assume "k \<in> fst ` set ws"
  then have "map_of (rev ws) k \<noteq> None" by (simp add: map_of_eq_None_iff)
  then show ?thesis by (auto simp: map_run_last_write)
qed

lemma map_run_untouched: "k \<notin> fst ` set ws \<Longrightarrow> map_run ws m k = m k"
proof -
  assume "k \<notin> fst ` set ws"
  then have "map_of (rev ws) k = None" by (simp add: map_of_eq_None_iff)
  then show ?thesis by (simp add: map_run_last_write)
qed

text \<open>Replaying a log over the effect of one of its prefixes changes nothing.\<close>

lemma map_run_absorb: "map_run (xs @ ys) (map_run xs m) = map_run (xs @ ys) m"
proof (rule ext)
  fix k
  show "map_run (xs @ ys) (map_run xs m) k = map_run (xs @ ys) m k"
  proof (cases "k \<in> fst ` set xs")
    case True
    then have "k \<in> fst ` set (xs @ ys)" by auto
    then show ?thesis by (rule map_run_touched)
  next
    case False
    then have "map_run xs m k = m k" by (rule map_run_untouched)
    then show ?thesis by (simp only: map_run_last_write [of "xs @ ys"])
  qed
qed

locale kv_map =
  fixes get :: "'s \<Rightarrow> 'k \<Rightarrow> 'v option"
    and upd :: "'k \<Rightarrow> 'v \<Rightarrow> 's \<Rightarrow> 's"
    and del :: "'k \<Rightarrow> 's \<Rightarrow> 's"
    and inv :: "'s \<Rightarrow> bool"
  assumes get_upd: "inv s \<Longrightarrow> get (upd k v s) = (get s)(k \<mapsto> v)"
    and get_del: "inv s \<Longrightarrow> get (del k s) = (get s)(k := None)"
    and inv_upd: "inv s \<Longrightarrow> inv (upd k v s)"
    and inv_del: "inv s \<Longrightarrow> inv (del k s)"
begin

lemma inv_run: "inv s \<Longrightarrow> inv (kv_run upd del ws s)"
proof (induction ws arbitrary: s)
  case (Cons w ws)
  then show ?case by (cases w; cases "snd w") (auto simp: inv_upd inv_del)
qed simp

lemma get_run: "inv s \<Longrightarrow> get (kv_run upd del ws s) = map_run ws (get s)"
proof (induction ws arbitrary: s)
  case (Cons w ws)
  then show ?case
    by (cases w; cases "snd w") (simp_all del: fun_upd_apply add: inv_upd inv_del get_upd get_del)
qed simp

lemma run_absorb:
  assumes "inv s"
  shows "get (kv_run upd del (xs @ ys) (kv_run upd del xs s)) = get (kv_run upd del (xs @ ys) s)"
proof -
  have "get (kv_run upd del (xs @ ys) (kv_run upd del xs s))
      = map_run (xs @ ys) (map_run xs (get s))"
    using get_run [OF inv_run [OF assms]] get_run [OF assms] by simp
  also have "\<dots> = get (kv_run upd del (xs @ ys) s)"
    by (simp only: map_run_absorb get_run [OF assms])
  finally show ?thesis .
qed

lemma run_untouched:
  assumes "inv s" "k \<notin> fst ` set ws"
  shows "get (kv_run upd del ws s) k = get s k"
  using assms by (simp add: get_run map_run_untouched)

end

end
