(* ===== verification/BTree.thy ===== *)
theory BTree
  imports Kv
begin

text \<open>
  \<^verbatim>\<open>src/internal/storage/btree.go\<close>: the ordered key-value tree of the storage
  engine. In spite of its name it is a sorted slice of keys beside a Go map of values. The model
  keeps both (\<open>bt_keys\<close>, \<open>bt_items\<close>) and the binary search of Go's \<^verbatim>\<open>sort.Search\<close>.
  \<open>bt_inv\<close> says that the slice is strictly sorted and lists exactly the map's keys;
  \<open>bt_map\<close> is the map the tree stands for. The locale \<open>kv_map\<close> is the interface the
  engine relies on, interpreted here on the tree.
\<close>

section \<open>sort.Search\<close>

text \<open>
  The loop of Go's \<^verbatim>\<open>sort.Search\<close>: the smallest index at which the monotone
  predicate \<open>f\<close> holds, by bisection of \<open>[i, j)\<close>.
\<close>

function search_loop :: "(nat \<Rightarrow> bool) \<Rightarrow> nat \<Rightarrow> nat \<Rightarrow> nat" where
  "search_loop f i j =
     (if i < j then
        (let h = (i + j) div 2 in if \<not> f h then search_loop f (h + 1) j else search_loop f i h)
      else i)"
  by pat_completeness auto
termination
  by (relation "measure (\<lambda>(f, i, j). j - i)") auto

declare search_loop.simps [simp del]

definition sort_search :: "nat \<Rightarrow> (nat \<Rightarrow> bool) \<Rightarrow> nat" where
  "sort_search n f = search_loop f 0 n"

text \<open>
  If \<open>f\<close> is false below \<open>p\<close> and true from \<open>p\<close> on (within the bounds), the loop ends
  at \<open>p\<close>.
\<close>

lemma search_loop_split:
  assumes "i \<le> p" "p \<le> j" "\<And>x. i \<le> x \<Longrightarrow> x < j \<Longrightarrow> f x \<longleftrightarrow> p \<le> x"
  shows "search_loop f i j = p"
  using assms
proof (induction f i j rule: search_loop.induct)
  case (1 f i j)
  show ?case
  proof (cases "i < j")
    case False
    with "1.prems" show ?thesis by (simp add: search_loop.simps [of f i j])
  next
    case True
    define h where "h = (i + j) div 2"
    have h: "i \<le> h" "h < j" using True by (auto simp: h_def)
    have fh: "f h \<longleftrightarrow> p \<le> h" using "1.prems"(3) h by blast
    show ?thesis
    proof (cases "f h")
      case False
      then have "search_loop f (h + 1) j = p"
        using "1.IH"(1) [OF True h_def] "1.prems" h fh by force
      with True False show ?thesis by (simp add: search_loop.simps [of f i j] h_def [symmetric])
    next
      case fhT: True
      then have "search_loop f i h = p"
        using "1.IH"(2) [OF True h_def] "1.prems" h fh by force
      with True fhT show ?thesis by (simp add: search_loop.simps [of f i j] h_def [symmetric])
    qed
  qed
qed

definition lower_bound :: "bytes list \<Rightarrow> bytes \<Rightarrow> nat" where
  "lower_bound ks k = sort_search (length ks) (\<lambda>i. ks ! i \<ge> k)"

lemma lower_bound_split:
  assumes "ks = xs @ ys" "\<forall>x\<in>set xs. x < k" "\<forall>y\<in>set ys. k \<le> y"
  shows "lower_bound ks k = length xs"
proof -
  have "ks ! i \<ge> k \<longleftrightarrow> length xs \<le> i" if "i < length ks" for i
  proof (cases "i < length xs")
    case True
    then have "ks ! i \<in> set xs" using assms(1) by (simp add: nth_append)
    with assms(2) True show ?thesis by auto
  next
    case False
    then have "ks ! i \<in> set ys" using assms(1) that by (simp add: nth_append)
    with assms(3) False show ?thesis by auto
  qed
  then show ?thesis
    unfolding lower_bound_def sort_search_def
    by (intro search_loop_split) (auto simp: assms(1))
qed

lemma sorted_split:
  fixes ks :: "bytes list"
  assumes "sorted_wrt (<) ks"
  obtains xs ys where "ks = xs @ ys" "\<forall>x\<in>set xs. x < k" "\<forall>y\<in>set ys. k \<le> y"
proof
  show "ks = takeWhile (\<lambda>x. x < k) ks @ dropWhile (\<lambda>x. x < k) ks" by simp
  show "\<forall>x\<in>set (takeWhile (\<lambda>x. x < k) ks). x < k" by (auto dest: set_takeWhileD)
  show "\<forall>y\<in>set (dropWhile (\<lambda>x. x < k) ks). k \<le> y"
    using assms
  proof (induction ks)
    case Nil
    then show ?case by simp
  next
    case (Cons a ks)
    then show ?case by (auto simp: not_less intro: less_imp_le le_less_trans)
  qed
qed

section \<open>The tree\<close>

record btree =
  bt_keys :: "bytes list"
  bt_items :: "(bytes, bytes) fmap"

definition NewBTree :: btree where
  "NewBTree = \<lparr>bt_keys = [], bt_items = fmempty\<rparr>"

definition bt_Get :: "btree \<Rightarrow> bytes \<Rightarrow> bytes option" where
  "bt_Get t key = fmlookup (bt_items t) key"

definition bt_Set :: "bytes \<Rightarrow> bytes \<Rightarrow> btree \<Rightarrow> btree" where
  "bt_Set key val t =
     (let t1 =
        (case fmlookup (bt_items t) key of
           None \<Rightarrow>
             (let idx = lower_bound (bt_keys t) key
              in t\<lparr>bt_keys := take idx (bt_keys t) @ key # drop idx (bt_keys t)\<rparr>)
         | Some _ \<Rightarrow> t)
      in t1\<lparr>bt_items := fmupd key val (bt_items t1)\<rparr>)"

text \<open>\<^verbatim>\<open>Delete\<close> returns whether the key was there, and the tree afterwards.\<close>

definition bt_Delete :: "bytes \<Rightarrow> btree \<Rightarrow> bool \<times> btree" where
  "bt_Delete key t =
     (case fmlookup (bt_items t) key of
        None \<Rightarrow> (False, t)
      | Some _ \<Rightarrow>
          (let t1 = t\<lparr>bt_items := fmdrop key (bt_items t)\<rparr>;
               idx = lower_bound (bt_keys t1) key
           in if idx < length (bt_keys t1) \<and> bt_keys t1 ! idx = key
              then (True, t1\<lparr>bt_keys := take idx (bt_keys t1) @ drop (idx + 1) (bt_keys t1)\<rparr>)
              else (True, t1)))"

definition bt_Len :: "btree \<Rightarrow> nat" where
  "bt_Len t = fcard (fmdom (bt_items t))"

text \<open>Reading a missing key of the Go map gives nil.\<close>

definition bt_val :: "btree \<Rightarrow> bytes \<Rightarrow> bytes" where
  "bt_val t k = (case fmlookup (bt_items t) k of None \<Rightarrow> [] | Some v \<Rightarrow> v)"

definition bt_Snapshot :: "btree \<Rightarrow> (bytes \<times> bytes) list" where
  "bt_Snapshot t = map (\<lambda>k. (k, bt_val t k)) (bt_keys t)"

text \<open>
  \<^verbatim>\<open>Iterate\<close>: the callback \<open>fn\<close> takes the caller's state, the key and the value, and
  returns the new state and whether to go on.
\<close>

fun iterate_from :: "btree \<Rightarrow> bytes \<Rightarrow> ('s \<Rightarrow> bytes \<Rightarrow> bytes \<Rightarrow> 's \<times> bool) \<Rightarrow> bytes list \<Rightarrow> 's \<Rightarrow> 's" where
  "iterate_from t end fn [] s = s"
| "iterate_from t end fn (k # ks) s =
     (if end \<noteq> [] \<and> k > end then s
      else (case fn s k (bt_val t k) of (s', go) \<Rightarrow> if go then iterate_from t end fn ks s' else s'))"

definition bt_Iterate ::
  "btree \<Rightarrow> bytes \<Rightarrow> bytes \<Rightarrow> ('s \<Rightarrow> bytes \<Rightarrow> bytes \<Rightarrow> 's \<times> bool) \<Rightarrow> 's \<Rightarrow> 's" where
  "bt_Iterate t start end fn s =
     (let idx = (if start \<noteq> [] then lower_bound (bt_keys t) start else 0)
      in iterate_from t end fn (drop idx (bt_keys t)) s)"

section \<open>Invariant and abstraction\<close>

definition bt_inv :: "btree \<Rightarrow> bool" where
  "bt_inv t \<longleftrightarrow> sorted_wrt (<) (bt_keys t) \<and> set (bt_keys t) = fmdom' (bt_items t)"

definition bt_map :: "btree \<Rightarrow> (bytes \<rightharpoonup> bytes)" where
  "bt_map t = fmlookup (bt_items t)"

lemma bt_inv_New [simp, wf_intros]: "bt_inv NewBTree"
  by (simp add: bt_inv_def NewBTree_def)

lemma bt_map_New [simp]: "bt_map NewBTree = Map.empty"
  by (simp add: bt_map_def NewBTree_def fun_eq_iff)

lemma bt_Get_map [simp]: "bt_Get t k = bt_map t k"
  by (simp add: bt_Get_def bt_map_def)

lemma bt_map_Set [simp]: "bt_map (bt_Set k v t) = (bt_map t)(k \<mapsto> v)"
  by (auto simp: bt_map_def bt_Set_def Let_def split: option.splits)

lemma bt_map_Delete [simp]: "bt_map (snd (bt_Delete k t)) = (bt_map t)(k := None)"
  by (auto simp: bt_map_def bt_Delete_def Let_def fun_eq_iff split: option.splits)

lemma fst_bt_Delete [simp]: "fst (bt_Delete k t) \<longleftrightarrow> bt_map t k \<noteq> None"
  by (simp add: bt_map_def bt_Delete_def Let_def split: option.split)

lemma bt_keys_dom: "bt_inv t \<Longrightarrow> set (bt_keys t) = dom (bt_map t)"
  by (simp add: bt_inv_def bt_map_def)

lemma bt_inv_sorted [wf_dests]: "bt_inv t \<Longrightarrow> sorted_wrt (<) (bt_keys t)"
  by (simp add: bt_inv_def)

lemma sorted_lt_distinct: "sorted_wrt (<) (ks :: bytes list) \<Longrightarrow> distinct ks"
  by (simp add: strict_sorted_iff)

lemma bt_inv_distinct [wf_dests]: "bt_inv t \<Longrightarrow> distinct (bt_keys t)"
  by (simp add: bt_inv_def sorted_lt_distinct)

lemma bt_inv_Set [simp, wf_intros]:
  assumes "bt_inv t"
  shows "bt_inv (bt_Set k v t)"
proof (cases "fmlookup (bt_items t) k")
  case (Some w)
  then have "k \<in> fmdom' (bt_items t)" by (rule fmdom'I)
  with Some assms show ?thesis by (auto simp: bt_inv_def bt_Set_def Let_def)
next
  case None
  from assms have s: "sorted_wrt (<) (bt_keys t)" by (simp add: bt_inv_def)
  obtain xs ys where xy: "bt_keys t = xs @ ys" "\<forall>x\<in>set xs. x < k" "\<forall>y\<in>set ys. k \<le> y"
    using sorted_split [OF s] .
  have "k \<notin> set (bt_keys t)"
    using None assms by (simp add: bt_inv_def fmdom'_notI)
  with xy have "\<forall>y\<in>set ys. k < y" by (auto simp: less_le)
  with xy s have "sorted_wrt (<) (xs @ k # ys)"
    by (auto simp: sorted_wrt_append)
  moreover have "lower_bound (bt_keys t) k = length xs"
    using lower_bound_split [OF xy] .
  ultimately show ?thesis
    using None assms xy(1) by (auto simp: bt_inv_def bt_Set_def Let_def)
qed

lemma bt_inv_Delete [simp, wf_intros]:
  assumes "bt_inv t"
  shows "bt_inv (snd (bt_Delete k t))"
proof (cases "fmlookup (bt_items t) k")
  case None
  with assms show ?thesis by (simp add: bt_Delete_def)
next
  case (Some w)
  from assms have s: "sorted_wrt (<) (bt_keys t)" by (simp add: bt_inv_def)
  obtain xs ys where xy: "bt_keys t = xs @ ys" "\<forall>x\<in>set xs. x < k" "\<forall>y\<in>set ys. k \<le> y"
    using sorted_split [OF s] .
  have lb: "lower_bound (bt_keys t) k = length xs"
    using lower_bound_split [OF xy] .
  have "k \<in> set (bt_keys t)"
    using Some assms by (auto simp: bt_inv_def fmdom'I)
  with xy have "k \<in> set ys" by auto
  then obtain y zs where ys: "ys = y # zs" by (cases ys) auto
  have "sorted_wrt (<) ys" using s xy by (simp add: sorted_wrt_append)
  with ys xy(3) \<open>k \<in> set ys\<close> have y: "y = k" by force
  have fresh: "k \<notin> set xs" "k \<notin> set zs"
    using s xy(1) ys y by (auto simp: sorted_wrt_append)
  have keys: "bt_keys (snd (bt_Delete k t)) = xs @ zs"
    using Some xy(1) ys y lb by (simp add: bt_Delete_def Let_def)
  have items: "bt_items (snd (bt_Delete k t)) = fmdrop k (bt_items t)"
    using Some by (simp add: bt_Delete_def Let_def)
  have "sorted_wrt (<) (xs @ zs)"
    using s xy(1) ys by (simp add: sorted_wrt_append)
  moreover have "set (xs @ zs) = fmdom' (fmdrop k (bt_items t))"
    using assms xy(1) ys y fresh by (auto simp: bt_inv_def)
  ultimately show ?thesis by (simp add: bt_inv_def keys items)
qed

text \<open>Two well-formed trees with the same map are equal: the keys slice is determined.\<close>

lemma sorted_lt_set_unique:
  "sorted_wrt (<) (xs :: bytes list) \<Longrightarrow> sorted_wrt (<) ys \<Longrightarrow> set xs = set ys \<Longrightarrow> xs = ys"
  by (simp add: strict_sorted_iff sorted_distinct_set_unique)

lemma bt_eq_iff: "bt_inv t \<Longrightarrow> bt_inv u \<Longrightarrow> bt_map t = bt_map u \<Longrightarrow> (t :: btree) = u"
proof (rule btree.equality)
  assume *: "bt_inv t" "bt_inv u" "bt_map t = bt_map u"
  then show "bt_keys t = bt_keys u"
    using bt_keys_dom sorted_lt_set_unique by (metis bt_inv_sorted)
  from *(3) show "bt_items t = bt_items u"
    by (simp add: bt_map_def fmlookup_inject)
qed simp

lemma bt_Len_keys: "bt_inv t \<Longrightarrow> bt_Len t = length (bt_keys t)"
  by (metis bt_Len_def bt_inv_def bt_inv_distinct distinct_card fcard.rep_eq fmdom'_alt_def)

lemma bt_val_map: "bt_map t k = Some v \<Longrightarrow> bt_val t k = v"
  by (simp add: bt_val_def bt_map_def)

lemma set_bt_Snapshot: "bt_inv t \<Longrightarrow> (k, v) \<in> set (bt_Snapshot t) \<longleftrightarrow> bt_map t k = Some v"
  using bt_keys_dom [of t] by (auto simp: bt_Snapshot_def bt_val_map image_iff dom_def)

lemma map_fst_Snapshot [simp]: "map fst (bt_Snapshot t) = bt_keys t"
  by (simp add: bt_Snapshot_def comp_def)

lemma map_of_Snapshot: "bt_inv t \<Longrightarrow> map_of (bt_Snapshot t) = bt_map t"
  by (rule ext) (metis bt_inv_distinct map_fst_Snapshot map_of_eq_Some_iff not_None_eq set_bt_Snapshot)

text \<open>The tree is a key-value store in the sense of the interface.\<close>

interpretation bt: kv_map bt_Get bt_Set "\<lambda>k t. snd (bt_Delete k t)" bt_inv
  by unfold_locales (auto simp: bt_Get_def bt_map_def [symmetric])

section \<open>Iteration\<close>

text \<open>
  What \<^verbatim>\<open>Iterate\<close> promises: the callback runs over the rows whose key lies in the
  closed range, in key order, until it asks to stop.
\<close>

fun run_rows :: "('s \<Rightarrow> bytes \<Rightarrow> bytes \<Rightarrow> 's \<times> bool) \<Rightarrow> (bytes \<times> bytes) list \<Rightarrow> 's \<Rightarrow> 's" where
  "run_rows fn [] s = s"
| "run_rows fn ((k, v) # rs) s = (case fn s k v of (s', go) \<Rightarrow> if go then run_rows fn rs s' else s')"

definition in_range :: "bytes \<Rightarrow> bytes \<Rightarrow> bytes \<Rightarrow> bool" where
  "in_range start end k \<longleftrightarrow> start \<le> k \<and> (end = [] \<or> k \<le> end)"

lemma iterate_from_rows:
  assumes "sorted_wrt (<) ks"
  shows "iterate_from t end fn ks s =
    run_rows fn (map (\<lambda>k. (k, bt_val t k)) (filter (\<lambda>k. end = [] \<or> k \<le> end) ks)) s"
  using assms
proof (induction ks arbitrary: s)
  case Nil
  then show ?case by simp
next
  case (Cons k ks)
  show ?case
  proof (cases "end \<noteq> [] \<and> k > end")
    case True
    then have "filter (\<lambda>k. end = [] \<or> k \<le> end) (k # ks) = []"
      using Cons.prems by (auto simp: filter_empty_conv dest: less_trans)
    with True show ?thesis by simp
  next
    case False
    then show ?thesis
      using Cons by (auto simp: not_less split: prod.splits)
  qed
qed

lemma drop_lower_bound:
  assumes "sorted_wrt (<) ks"
  shows "drop (lower_bound ks k) ks = filter (\<lambda>x. k \<le> x) ks"
proof -
  obtain xs ys where xy: "ks = xs @ ys" "\<forall>x\<in>set xs. x < k" "\<forall>y\<in>set ys. k \<le> y"
    using sorted_split [OF assms] .
  have "filter (\<lambda>x. k \<le> x) xs = []" using xy(2) by (auto simp: filter_empty_conv not_le)
  moreover have "filter (\<lambda>x. k \<le> x) ys = ys" using xy(3) by simp
  ultimately show ?thesis
    using xy(1) lower_bound_split [OF xy] by simp
qed

theorem bt_Iterate_rows:
  assumes "bt_inv t"
  shows "bt_Iterate t start end fn s =
    run_rows fn (filter (\<lambda>(k, v). in_range start end k) (bt_Snapshot t)) s"
proof -
  have s: "sorted_wrt (<) (bt_keys t)" using assms by (rule bt_inv_sorted)
  have d: "drop (if start \<noteq> [] then lower_bound (bt_keys t) start else 0) (bt_keys t)
    = filter (\<lambda>x. start \<le> x) (bt_keys t)"
    using drop_lower_bound [OF s] by simp
  have "bt_Iterate t start end fn s =
      iterate_from t end fn (filter (\<lambda>x. start \<le> x) (bt_keys t)) s"
    by (simp add: bt_Iterate_def d)
  also have "\<dots> = run_rows fn (map (\<lambda>k. (k, bt_val t k))
      (filter (\<lambda>k. end = [] \<or> k \<le> end) (filter (\<lambda>x. start \<le> x) (bt_keys t)))) s"
    by (rule iterate_from_rows) (simp add: s sorted_wrt_filter)
  also have "map (\<lambda>k. (k, bt_val t k))
      (filter (\<lambda>k. end = [] \<or> k \<le> end) (filter (\<lambda>x. start \<le> x) (bt_keys t)))
    = filter (\<lambda>(k, v). in_range start end k) (bt_Snapshot t)"
    by (simp add: bt_Snapshot_def filter_map comp_def in_range_def conj_commute)
  finally show ?thesis .
qed

end
