(* ===== verification/Index.thy ===== *)
theory Index
  imports BTree
begin

text \<open>
  \<^verbatim>\<open>src/internal/storage/index.go\<close>: the secondary indexes of the engine. An index is a
  function from a row to its index keys; its tree maps \<open>indexKey 0x00 primaryKey\<close> to the primary
  key. \<^verbatim>\<open>m.indexes\<close> and \<^verbatim>\<open>m.trees\<close> always have the same names
  (\<open>ix_inv\<close>), so the lookup of a tree in \<^verbatim>\<open>Update\<close> never misses.
\<close>

type_synonym index_fn = "bytes \<Rightarrow> bytes \<Rightarrow> bytes list"

record index_mgr =
  ix_indexes :: "(string \<times> index_fn) list"
  ix_trees :: "(string \<times> btree) list"

definition NewIndexManager :: index_mgr where
  "NewIndexManager = \<lparr>ix_indexes = [], ix_trees = []\<rparr>"

definition ix_Create :: "string \<Rightarrow> index_fn \<Rightarrow> index_mgr \<Rightarrow> go_error + index_mgr" where
  "ix_Create name fn m =
     (case map_of (ix_indexes m) name of
        Some _ \<Rightarrow> Inl (ErrMsg ''index already exists'')
      | None \<Rightarrow> Inr (m\<lparr>ix_indexes := mput name fn (ix_indexes m),
                     ix_trees := mput name NewBTree (ix_trees m)\<rparr>))"

definition composeIndexKey :: "bytes \<Rightarrow> bytes \<Rightarrow> bytes" where
  "composeIndexKey indexKey primaryKey = indexKey @ [CHR 0x00] @ primaryKey"

definition ix_delete_keys :: "bytes \<Rightarrow> bytes list \<Rightarrow> btree \<Rightarrow> btree" where
  "ix_delete_keys pk ks t = fold (\<lambda>ik t. snd (bt_Delete (composeIndexKey ik pk) t)) ks t"

definition ix_set_keys :: "bytes \<Rightarrow> bytes list \<Rightarrow> btree \<Rightarrow> btree" where
  "ix_set_keys pk ks t = fold (\<lambda>ik t. bt_Set (composeIndexKey ik pk) pk t) ks t"

text \<open>One turn of the loop of \<^verbatim>\<open>Update\<close>; a nil value is \<open>[]\<close>.\<close>

definition ix_update_tree :: "index_fn \<Rightarrow> bytes \<Rightarrow> bytes \<Rightarrow> bytes \<Rightarrow> btree \<Rightarrow> btree" where
  "ix_update_tree fn pk oldValue newValue t =
     (let t1 = (if oldValue \<noteq> [] then ix_delete_keys pk (fn pk oldValue) t else t)
      in if newValue \<noteq> [] then ix_set_keys pk (fn pk newValue) t1 else t1)"

fun ix_update_loop ::
  "(string \<times> index_fn) list \<Rightarrow> bytes \<Rightarrow> bytes \<Rightarrow> bytes \<Rightarrow> (string \<times> btree) list \<Rightarrow> (string \<times> btree) list" where
  "ix_update_loop [] pk old new ts = ts"
| "ix_update_loop ((name, fn) # ixs) pk old new ts =
     ix_update_loop ixs pk old new
       (mput name (ix_update_tree fn pk old new (the (map_of ts name))) ts)"

definition ix_Update :: "bytes \<Rightarrow> bytes \<Rightarrow> bytes \<Rightarrow> index_mgr \<Rightarrow> index_mgr" where
  "ix_Update pk old new m =
     m\<lparr>ix_trees := ix_update_loop (ix_indexes m) pk old new (ix_trees m)\<rparr>"

definition has_prefix :: "bytes \<Rightarrow> bytes \<Rightarrow> bool" where
  "has_prefix s p \<longleftrightarrow> length p \<le> length s \<and> take (length p) s = p"

definition ix_Scan :: "string \<Rightarrow> bytes \<Rightarrow> index_mgr \<Rightarrow> bytes list" where
  "ix_Scan name prefix m =
     (case map_of (ix_trees m) name of
        None \<Rightarrow> []
      | Some tree \<Rightarrow>
          bt_Iterate tree prefix []
            (\<lambda>res k v. if \<not> has_prefix k prefix then (res, False) else (res @ [v], True)) [])"

section \<open>What an update leaves in the index trees\<close>

definition ix_inv :: "index_mgr \<Rightarrow> bool" where
  "ix_inv m \<longleftrightarrow> distinct (mkeys (ix_indexes m)) \<and> distinct (mkeys (ix_trees m)) \<and>
     set (mkeys (ix_indexes m)) = set (mkeys (ix_trees m)) \<and> (\<forall>t\<in>snd ` set (ix_trees m). bt_inv t)"

lemma ix_inv_New [wf_intros]: "ix_inv NewIndexManager"
  by (simp add: ix_inv_def NewIndexManager_def)

lemma fold_delete_inv: "bt_inv t \<Longrightarrow> bt_inv (ix_delete_keys pk ks t)"
  unfolding ix_delete_keys_def by (induction ks arbitrary: t) auto

lemma fold_set_inv: "bt_inv t \<Longrightarrow> bt_inv (ix_set_keys pk ks t)"
  unfolding ix_set_keys_def by (induction ks arbitrary: t) auto

lemma ix_update_tree_inv: "bt_inv t \<Longrightarrow> bt_inv (ix_update_tree fn pk old new t)"
  by (simp add: ix_update_tree_def Let_def fold_delete_inv fold_set_inv)

lemma bt_map_delete_keys:
  "bt_map (ix_delete_keys pk ks t) = bt_map t |` (- (\<lambda>ik. composeIndexKey ik pk) ` set ks)"
proof (induction ks arbitrary: t)
  case Nil
  then show ?case by (simp add: ix_delete_keys_def)
next
  case (Cons k ks)
  have "ix_delete_keys pk (k # ks) t = ix_delete_keys pk ks (snd (bt_Delete (composeIndexKey k pk) t))"
    by (simp add: ix_delete_keys_def)
  then show ?case
    by (auto simp: Cons restrict_map_def fun_eq_iff)
qed

lemma bt_map_set_keys:
  "bt_map (ix_set_keys pk ks t) x =
     (if x \<in> (\<lambda>ik. composeIndexKey ik pk) ` set ks then Some pk else bt_map t x)"
proof (induction ks arbitrary: t)
  case Nil
  then show ?case by (simp add: ix_set_keys_def)
next
  case (Cons k ks)
  have "ix_set_keys pk (k # ks) t = ix_set_keys pk ks (bt_Set (composeIndexKey k pk) pk t)"
    by (simp add: ix_set_keys_def)
  then show ?case by (auto simp: Cons)
qed

text \<open>
  An index is in step with a table when its tree holds exactly the composed keys of the table's
  rows. Composed keys of different primary keys are different when the index keys have one length,
  or when primary keys hold no zero byte; \<open>sep_free\<close> is the second condition.
\<close>

definition sep_free :: "bytes \<Rightarrow> bool" where
  "sep_free pk \<longleftrightarrow> CHR 0x00 \<notin> set pk"

lemma composeIndexKey_inj:
  "sep_free pk \<Longrightarrow> sep_free pk' \<Longrightarrow>
   composeIndexKey ik pk = composeIndexKey ik' pk' \<Longrightarrow> ik = ik' \<and> pk = pk'"
proof -
  assume a: "sep_free pk" "sep_free pk'" "composeIndexKey ik pk = composeIndexKey ik' pk'"
  have pk: "takeWhile (\<lambda>c. c \<noteq> CHR 0x00) (rev (composeIndexKey i p)) = rev p"
    if "sep_free p" for i p
  proof -
    have "takeWhile (\<lambda>c. c \<noteq> CHR 0x00) (rev p) = rev p"
      using that by (auto simp: sep_free_def takeWhile_eq_all_conv)
    then show ?thesis by (simp add: composeIndexKey_def takeWhile_tail)
  qed
  then have "rev pk = rev pk'" using a by metis
  then show ?thesis using a(3) by (simp add: composeIndexKey_def)
qed

definition index_in_step :: "index_fn \<Rightarrow> (bytes \<rightharpoonup> bytes) \<Rightarrow> btree \<Rightarrow> bool" where
  "index_in_step fn tab t \<longleftrightarrow>
     (\<forall>x p. bt_map t x = Some p \<longleftrightarrow>
        (\<exists>v ik. tab p = Some v \<and> v \<noteq> [] \<and> ik \<in> set (fn p v) \<and> x = composeIndexKey ik p))"

lemma map_of_update_loop:
  assumes "distinct (mkeys ixs)" "(name, fn) \<in> set ixs"
  shows "map_of (ix_update_loop ixs pk old new ts) name =
    Some (ix_update_tree fn pk old new (the (map_of ts name)))"
  using assms
proof (induction ixs arbitrary: ts)
  case Nil
  then show ?case by simp
next
  case (Cons ix ixs)
  obtain n f where ix: "ix = (n, f)" by (cases ix)
  have untouched: "map_of (ix_update_loop ixs pk old new us) n = map_of us n"
    if "n \<notin> set (mkeys ixs)" for us n
    using that by (induction ixs pk old new us rule: ix_update_loop.induct) auto
  show ?case
  proof (cases "name = n")
    case True
    with Cons.prems ix have "fn = f" by (auto simp: image_iff)
    moreover have "n \<notin> set (mkeys ixs)" using Cons.prems ix by auto
    ultimately show ?thesis using ix True untouched by simp
  next
    case False
    with Cons.prems ix have "(name, fn) \<in> set ixs" by auto
    then show ?thesis using Cons ix False by simp
  qed
qed


text \<open>One update of a row keeps an index in step with the table.\<close>

lemma ix_update_tree_step:
  assumes step: "index_in_step fn tab t"
    and free: "sep_free pk" "\<forall>p\<in>dom tab. sep_free p"
    and old: "old = (case tab pk of None \<Rightarrow> [] | Some v \<Rightarrow> v)"
    and new: "tab' = tab(pk := w)" "new = (case w of None \<Rightarrow> [] | Some v \<Rightarrow> v)"
  shows "index_in_step fn tab' (ix_update_tree fn pk old new t)"
proof -
  let ?old = "if old \<noteq> [] then (\<lambda>ik. composeIndexKey ik pk) ` set (fn pk old) else {}"
  let ?new = "if new \<noteq> [] then (\<lambda>ik. composeIndexKey ik pk) ` set (fn pk new) else {}"
  have m: "bt_map (ix_update_tree fn pk old new t) x =
      (if x \<in> ?new then Some pk else if x \<in> ?old then None else bt_map t x)" for x
    by (auto simp: ix_update_tree_def Let_def bt_map_set_keys bt_map_delete_keys restrict_map_def)
  have old_iff: "x \<in> ?old \<longleftrightarrow> (\<exists>v ik. tab pk = Some v \<and> v \<noteq> [] \<and> ik \<in> set (fn pk v) \<and> x = composeIndexKey ik pk)"
    for x by (auto simp: old split: option.splits)
  have new_iff: "x \<in> ?new \<longleftrightarrow> (\<exists>v ik. tab' pk = Some v \<and> v \<noteq> [] \<and> ik \<in> set (fn pk v) \<and> x = composeIndexKey ik pk)"
    for x by (auto simp: new split: option.splits)
  have t_iff: "bt_map t x = Some p \<longleftrightarrow>
      (\<exists>v ik. tab p = Some v \<and> v \<noteq> [] \<and> ik \<in> set (fn p v) \<and> x = composeIndexKey ik p)" for x p
    using step by (simp add: index_in_step_def)
  show ?thesis
    unfolding index_in_step_def
  proof (intro allI)
    fix x p
    show "bt_map (ix_update_tree fn pk old new t) x = Some p \<longleftrightarrow>
      (\<exists>v ik. tab' p = Some v \<and> v \<noteq> [] \<and> ik \<in> set (fn p v) \<and> x = composeIndexKey ik p)"
    proof (cases "p = pk")
      case True
      have "bt_map t x = Some pk \<longleftrightarrow> x \<in> ?old" by (simp only: t_iff old_iff)
      then show ?thesis unfolding True m new_iff [symmetric] by auto
    next
      case False
      have tp: "tab' p = tab p" using False new by simp
      have inj: "p = pk" if "composeIndexKey ik p = composeIndexKey ik' pk" "tab p = Some v" for ik ik' v
        using composeIndexKey_inj [OF _ free(1) that(1)] free(2) that(2) by blast
      have fresh: "x \<notin> ?old \<and> x \<notin> ?new" if x: "bt_map t x = Some p"
      proof -
        obtain v ik where "tab p = Some v" "x = composeIndexKey ik p" using x t_iff by blast
        then show ?thesis using inj False by (auto split: if_splits)
      qed
      have "bt_map (ix_update_tree fn pk old new t) x = Some p \<longleftrightarrow> bt_map t x = Some p"
        unfolding m using fresh False by (cases "x \<in> ?new"; cases "x \<in> ?old") auto
      then show ?thesis unfolding tp by (simp only: t_iff)
    qed
  qed
qed

end
