(* ===== verification/Wal.thy ===== *)
theory Wal
  imports Kv
begin

unbundle bit_operations_syntax

text \<open>
  \<^verbatim>\<open>src/internal/storage/wal.go\<close> and \<^verbatim>\<open>numeric.go\<close>: the segmented
  write-ahead log. The log's directory is \<open>wal_dir\<close>, the segment files with the number in their
  name and their bytes; that directory is what survives a crash. Operating-system calls are taken to
  succeed; every error that the code itself raises (a key that is too long, a checksum that does
  not match, \<dots>) is a branch of the model.
\<close>

section \<open>Checksum and checked conversions\<close>

text \<open>\<^verbatim>\<open>crc32.ChecksumIEEE\<close>: the reflected CRC-32 with polynomial \<open>0xEDB88320\<close>.\<close>

definition crc32_bit :: "u32 \<Rightarrow> u32" where
  "crc32_bit c = (if c AND 1 = 1 then drop_bit 1 c XOR 0xEDB88320 else drop_bit 1 c)"

definition crc32_byte :: "u32 \<Rightarrow> byte \<Rightarrow> u32" where
  "crc32_byte c b = (crc32_bit ^^ 8) (c XOR of_nat (byte_nat b))"

definition crc32_ieee :: "bytes \<Rightarrow> u32" where
  "crc32_ieee bs = NOT (foldl crc32_byte (NOT 0) bs)"

definition safeUint16FromInt :: "nat \<Rightarrow> go_error + nat" where
  "safeUint16FromInt value =
     (if value > 0xffff then Inl (ErrMsg ''out of uint16 range'') else Inr value)"

definition safeUint32FromInt :: "nat \<Rightarrow> go_error + nat" where
  "safeUint32FromInt value =
     (if value > 0xffffffff then Inl (ErrMsg ''out of uint32 range'') else Inr value)"

section \<open>The log\<close>

abbreviation OpPut :: byte where "OpPut \<equiv> CHR 0x01"
abbreviation OpDel :: byte where "OpDel \<equiv> CHR 0x02"

definition defaultSegmentSize :: nat where
  "defaultSegmentSize = 64 * 1024 * 1024"

record wal =
  wal_dir :: "(nat \<times> bytes) list"
  wal_segmentSize :: nat
  wal_file :: "nat option"
  wal_offset :: nat
  wal_segmentID :: nat

text \<open>Opening a segment creates its file when it is not there.\<close>

definition openSegment :: "nat \<Rightarrow> wal \<Rightarrow> wal" where
  "openSegment sid w =
     (case map_of (wal_dir w) sid of
        None \<Rightarrow> w\<lparr>wal_dir := mput sid [] (wal_dir w), wal_file := Some sid\<rparr>
      | Some _ \<Rightarrow> w\<lparr>wal_file := Some sid\<rparr>)"

definition openLatest :: "wal \<Rightarrow> wal" where
  "openLatest w =
     (let ids = sort (mkeys (wal_dir w)) in
      if ids = [] then openSegment 1 (w\<lparr>wal_segmentID := 1\<rparr>)
      else (let w1 = openSegment (last ids) (w\<lparr>wal_segmentID := last ids\<rparr>)
            in w1\<lparr>wal_offset := length (the (map_of (wal_dir w1) (last ids)))\<rparr>))"

definition OpenWAL :: "(nat \<times> bytes) list \<Rightarrow> wal" where
  "OpenWAL dir =
     openLatest \<lparr>wal_dir = dir, wal_segmentSize = defaultSegmentSize, wal_file = None,
       wal_offset = 0, wal_segmentID = 0\<rparr>"

definition rotateIfNeeded :: "nat \<Rightarrow> wal \<Rightarrow> go_error + wal" where
  "rotateIfNeeded n w =
     (case wal_file w of
        None \<Rightarrow> Inl (ErrMsg ''wal not opened'')
      | Some _ \<Rightarrow>
          if wal_offset w + n \<le> wal_segmentSize w then Inr w
          else Inr (openSegment (wal_segmentID w + 1)
                 (w\<lparr>wal_segmentID := wal_segmentID w + 1, wal_offset := 0\<rparr>)))"

definition marshalPayload :: "byte \<Rightarrow> bytes \<Rightarrow> bytes \<Rightarrow> go_error + bytes" where
  "marshalPayload op key val =
     rbind (safeUint16FromInt (length key)) (\<lambda>keyLen.
     rbind (safeUint32FromInt (length val)) (\<lambda>valueLen.
       Inr (op # be 2 keyLen @ key @ be 4 valueLen @ val)))"

text \<open>A write goes to the end of the open segment's file.\<close>

definition file_write :: "bytes \<Rightarrow> wal \<Rightarrow> wal" where
  "file_write buf w =
     (let sid = the (wal_file w); old = the (map_of (wal_dir w) sid)
      in w\<lparr>wal_dir := mput sid (old @ buf) (wal_dir w), wal_offset := wal_offset w + length buf\<rparr>)"

definition frame :: "bytes \<Rightarrow> bytes" where
  "frame payload = be 4 (length payload) @ be 4 (unat (crc32_ieee payload)) @ payload"

definition wal_Append :: "byte \<Rightarrow> bytes \<Rightarrow> bytes \<Rightarrow> wal \<Rightarrow> go_error + wal" where
  "wal_Append op key val w =
     rbind (marshalPayload op key val) (\<lambda>payload.
     rbind (safeUint32FromInt (length payload)) (\<lambda>payloadLen.
       (let buf = be 4 payloadLen @ be 4 (unat (crc32_ieee payload)) @ payload
        in rbind (rotateIfNeeded (length buf) w) (\<lambda>w1. Inr (file_write buf w1)))))"

section \<open>Replay\<close>

text \<open>The checks and the split of one payload, in the code's order.\<close>

definition parsePayload :: "bytes \<Rightarrow> go_error + (byte \<times> bytes \<times> bytes)" where
  "parsePayload payload =
     (if length payload < 7 then Inl (ErrMsg ''invalid wal payload'')
      else
        (let op = payload ! 0;
             klen = be_nat (take 2 (drop 1 payload))
         in if length payload < 3 + klen + 4 then Inl (ErrMsg ''invalid wal key length'')
            else
              (let key = take klen (drop 3 payload);
                   vlenPos = 3 + klen;
                   vlen = be_nat (take 4 (drop vlenPos payload))
               in if length payload < vlenPos + 4 + vlen
                  then Inl (ErrMsg ''invalid wal value length'')
                  else Inr (op, key, take vlen (drop (vlenPos + 4) payload)))))"

text \<open>
  \<^verbatim>\<open>replayFile\<close>. A header or a payload that is cut short ends the replay without an
  error, and so does a length of zero.
\<close>

function replayFile ::
  "(byte \<Rightarrow> bytes \<Rightarrow> bytes \<Rightarrow> 's \<Rightarrow> go_error + 's) \<Rightarrow> bytes \<Rightarrow> 's \<Rightarrow> go_error + 's" where
  "replayFile apply_fn bs s =
     (if length bs < 8 then Inr s
      else
        (let len = be_nat (take 4 bs);
             expectedCRC = be_nat (take 4 (drop 4 bs));
             rest = drop 8 bs
         in if len = 0 then Inr s
            else if length rest < len then Inr s
            else
              (let payload = take len rest
               in if unat (crc32_ieee payload) \<noteq> expectedCRC then Inl (ErrMsg ''wal crc mismatch'')
                  else
                    (case parsePayload payload of
                       Inl e \<Rightarrow> Inl e
                     | Inr (op, key, val) \<Rightarrow>
                         (case apply_fn op key val s of
                            Inl e \<Rightarrow> Inl e
                          | Inr s' \<Rightarrow> replayFile apply_fn (drop len rest) s')))))"
  by pat_completeness auto
termination
  by (relation "measure (\<lambda>(f, bs, s). length bs)") auto

declare replayFile.simps [simp del]

fun replay_segments ::
  "(byte \<Rightarrow> bytes \<Rightarrow> bytes \<Rightarrow> 's \<Rightarrow> go_error + 's) \<Rightarrow> bytes list \<Rightarrow> 's \<Rightarrow> go_error + 's" where
  "replay_segments f [] s = Inr s"
| "replay_segments f (p # ps) s =
     (case replayFile f p s of Inl e \<Rightarrow> Inl e | Inr s' \<Rightarrow> replay_segments f ps s')"

definition segmentPaths :: "wal \<Rightarrow> bytes list" where
  "segmentPaths w = map snd (sort_key fst (wal_dir w))"

definition wal_Replay ::
  "(byte \<Rightarrow> bytes \<Rightarrow> bytes \<Rightarrow> 's \<Rightarrow> go_error + 's) \<Rightarrow> wal \<Rightarrow> 's \<Rightarrow> go_error + 's" where
  "wal_Replay f w s = replay_segments f (segmentPaths w) s"

definition wal_Close :: "wal \<Rightarrow> wal" where
  "wal_Close w = w\<lparr>wal_file := None\<rparr>"

section \<open>Entries and the files that hold them\<close>

type_synonym entry = "byte \<times> bytes \<times> bytes"

fun payload_of :: "entry \<Rightarrow> bytes" where
  "payload_of (op, key, val) = op # be 2 (length key) @ key @ be 4 (length val) @ val"

fun encodable :: "entry \<Rightarrow> bool" where
  "encodable (op, key, val) \<longleftrightarrow>
     length key \<le> 0xffff \<and> length val \<le> 0xffffffff \<and> 7 + length key + length val \<le> 0xffffffff"

definition enc_entry :: "entry \<Rightarrow> bytes" where
  "enc_entry e = frame (payload_of e)"

definition enc_log :: "entry list \<Rightarrow> bytes" where
  "enc_log es = concat (map enc_entry es)"

fun apply_entries ::
  "(byte \<Rightarrow> bytes \<Rightarrow> bytes \<Rightarrow> 's \<Rightarrow> go_error + 's) \<Rightarrow> entry list \<Rightarrow> 's \<Rightarrow> go_error + 's" where
  "apply_entries f [] s = Inr s"
| "apply_entries f ((op, k, v) # es) s =
     (case f op k v s of Inl e \<Rightarrow> Inl e | Inr s' \<Rightarrow> apply_entries f es s')"

lemma apply_entries_append:
  "apply_entries f (xs @ ys) s = rbind (apply_entries f xs s) (apply_entries f ys)"
  by (induction f xs s rule: apply_entries.induct) (auto split: sum.splits)

lemma length_payload_of [simp]: "length (payload_of (op, k, v)) = 7 + length k + length v"
  by simp

lemma parse_payload_of: "encodable e \<Longrightarrow> parsePayload (payload_of e) = Inr e"
proof -
  assume e: "encodable e"
  obtain op k v where eq: "e = (op, k, v)" by (cases e)
  have k: "be_nat (be 2 (length k)) = length k" and v: "be_nat (be 4 (length v)) = length v"
    using e eq by (auto intro!: be_nat_be_id)
  let ?p = "payload_of (op, k, v)"
  have d3: "drop (3 + length k) ?p = be 4 (length v) @ v"
    using drop_app [of "op # be 2 (length k) @ k" "3 + length k" "be 4 (length v) @ v"] by simp
  then have d7: "drop (3 + length k + 4) ?p = v"
    using drop_drop [of 4 "3 + length k" ?p] by (simp add: add.commute)
  have k': "be_nat (take 2 (drop 1 ?p)) = length k" by (simp add: k)
  have k3: "take (length k) (drop 3 ?p) = k" by simp
  show ?thesis
    unfolding eq parsePayload_def Let_def k' d3 d7 k3 by (simp add: v)
qed

lemma wal_Append_encodable:
  assumes "wal_Append op k v w = Inr w'"
  shows "encodable (op, k, v)"
    and "rbind (rotateIfNeeded (length (enc_entry (op, k, v))) w)
           (\<lambda>w1. Inr (file_write (enc_entry (op, k, v)) w1)) = Inr w'"
  using assms
  by (auto simp: wal_Append_def marshalPayload_def safeUint16FromInt_def safeUint32FromInt_def
      enc_entry_def frame_def Let_def rbind_Inr_conv split: if_splits)

lemma wal_Append_eq:
  assumes "encodable (op, k, v)"
  shows "wal_Append op k v w = rbind (rotateIfNeeded (length (enc_entry (op, k, v))) w)
           (\<lambda>w1. Inr (file_write (enc_entry (op, k, v)) w1))"
  using assms
  by (simp add: wal_Append_def marshalPayload_def safeUint16FromInt_def safeUint32FromInt_def
      enc_entry_def frame_def Let_def)

lemma length_frame [simp]: "length (frame p) = 8 + length p"
  by (simp add: frame_def)

lemma replayFile_frame:
  assumes "0 < length p" "length p \<le> 0xffffffff"
  shows "replayFile f (frame p @ bs) s =
    (case parsePayload p of
       Inl e \<Rightarrow> Inl e
     | Inr (op, key, val) \<Rightarrow>
         (case f op key val s of Inl e \<Rightarrow> Inl e | Inr s' \<Rightarrow> replayFile f bs s'))"
proof -
  let ?x = "frame p @ bs"
  have len: "be_nat (take 4 ?x) = length p"
    using assms by (simp add: frame_def)
  have crc: "be_nat (take 4 (drop 4 ?x)) = unat (crc32_ieee p)"
    using unsigned_less [of "crc32_ieee p", where ?'a = nat] by (simp add: frame_def)
  have rest: "drop 8 ?x = p @ bs"
    by (simp add: frame_def)
  have dp: "drop (length p) (p @ bs) = bs" and tp: "take (length p) (p @ bs) = p"
    by simp_all
  have "\<not> length ?x < 8" "length p \<noteq> 0" "\<not> length (p @ bs) < length p"
    using assms by auto
  then show ?thesis
    unfolding replayFile.simps [of f ?x s] Let_def len crc rest dp tp by simp
qed

lemma encodable_payload: "encodable e \<Longrightarrow> 0 < length (payload_of e) \<and> length (payload_of e) \<le> 0xffffffff"
  by (cases e) auto

lemma replayFile_entry:
  "encodable (op, k, v) \<Longrightarrow> replayFile f (enc_entry (op, k, v) @ bs) s =
     (case f op k v s of Inl e \<Rightarrow> Inl e | Inr s' \<Rightarrow> replayFile f bs s')"
  using encodable_payload [of "(op, k, v)"]
  by (simp only: enc_entry_def replayFile_frame parse_payload_of) simp

lemma replayFile_log:
  "\<forall>e\<in>set es. encodable e \<Longrightarrow> replayFile f (enc_log es @ bs) s =
     rbind (apply_entries f es s) (replayFile f bs)"
proof (induction es arbitrary: s)
  case Nil
  then show ?case by (simp add: enc_log_def)
next
  case (Cons e es)
  obtain op k v where e: "e = (op, k, v)" by (cases e)
  have "replayFile f (enc_log (e # es) @ bs) s =
      (case f op k v s of Inl x \<Rightarrow> Inl x | Inr s' \<Rightarrow> replayFile f (enc_log es @ bs) s')"
    using Cons.prems replayFile_entry [of op k v f "enc_log es @ bs" s] by (simp add: enc_log_def e)
  then show ?case
    using Cons by (auto simp: e split: sum.splits)
qed

lemma replayFile_short: "length bs < 8 \<Longrightarrow> replayFile f bs s = Inr s"
  by (simp add: replayFile.simps)

text \<open>A proper prefix of a frame is ignored: the torn tail of a crash.\<close>

lemma replayFile_torn:
  assumes "length p \<le> 0xffffffff" "n < length (frame p)"
  shows "replayFile f (take n (frame p)) s = Inr s"
proof (cases "n < 8")
  case True
  then show ?thesis by (intro replayFile_short) simp
next
  case False
  let ?x = "take n (frame p)"
  have len: "be_nat (take 4 ?x) = length p"
    using assms False by (simp add: frame_def min_def)
  have "\<not> length ?x < 8" "length (drop 8 ?x) < length p"
    using assms False by auto
  then show ?thesis
    unfolding replayFile.simps [of f ?x s] Let_def len by (simp del: length_drop length_take)
qed

section \<open>Invariant of the log\<close>

definition wal_wf :: "wal \<Rightarrow> bool" where
  "wal_wf w \<longleftrightarrow> sorted_wrt (<) (mkeys (wal_dir w)) \<and> wal_dir w \<noteq> [] \<and>
     wal_file w = Some (wal_segmentID w) \<and> wal_segmentID w = fst (last (wal_dir w)) \<and>
     wal_offset w = length (snd (last (wal_dir w)))"

text \<open>\<open>wal_holds w es\<close>: the segments, in order, hold exactly the entries \<open>es\<close>.\<close>

definition dir_holds :: "(nat \<times> bytes) list \<Rightarrow> entry list \<Rightarrow> bool" where
  "dir_holds dir es \<longleftrightarrow>
     (\<exists>ess. es = concat ess \<and> map snd dir = map enc_log ess) \<and> (\<forall>e\<in>set es. encodable e)"

abbreviation wal_holds :: "wal \<Rightarrow> entry list \<Rightarrow> bool" where
  "wal_holds w \<equiv> dir_holds (wal_dir w)"

lemma sorted_lt_sort_key: "sorted_wrt (<) (mkeys (d :: (nat \<times> 'b) list)) \<Longrightarrow> sort_key fst d = d"
proof -
  assume "sorted_wrt (<) (mkeys d)"
  then have "sorted (mkeys d)" by (simp add: strict_sorted_iff)
  then show ?thesis by (rule sort_key_id_if_sorted)
qed

lemma replay_segments_holds:
  assumes "map snd d = map enc_log ess" "\<forall>e\<in>set (concat ess). encodable e"
  shows "replay_segments f (map snd d) s = apply_entries f (concat ess) s"
  using assms
proof (induction ess arbitrary: d s)
  case Nil
  then show ?case by simp
next
  case (Cons es ess)
  then obtain x d' where d: "d = x # d'" by (cases d) auto
  have "replayFile f (snd x) s = apply_entries f es s"
  proof -
    have "replayFile f (enc_log es @ []) s = rbind (apply_entries f es s) (replayFile f [])"
      using Cons.prems(2) by (intro replayFile_log) auto
    moreover have "rbind (apply_entries f es s) (replayFile f []) = apply_entries f es s"
      by (cases "apply_entries f es s") (auto simp: replayFile_short)
    ultimately show ?thesis using Cons.prems(1) d by simp
  qed
  then show ?case
    using Cons.IH [of d'] Cons.prems d
    by (auto simp: apply_entries_append split: sum.splits)
qed

lemma wal_Replay_holds:
  assumes "sorted_wrt (<) (mkeys (wal_dir w))" "wal_holds w es"
  shows "wal_Replay f w s = apply_entries f es s"
  using assms replay_segments_holds [of "wal_dir w" _ f s]
  by (auto simp: wal_Replay_def segmentPaths_def dir_holds_def sorted_lt_sort_key)


text \<open>Appending to the last segment, or opening a new one, adds the entry at the end.\<close>

lemma dir_holds_extend:
  assumes "dir_holds (d @ [(i, c)]) es" "encodable e"
  shows "dir_holds (d @ [(i, c @ enc_entry e)]) (es @ [e])"
proof -
  obtain ess where ess: "es = concat ess" "map snd (d @ [(i, c)]) = map enc_log ess"
    and enc: "\<forall>e\<in>set es. encodable e"
    using assms(1) by (auto simp: dir_holds_def)
  then obtain ess' l where l: "ess = ess' @ [l]" "map snd d = map enc_log ess'" "c = enc_log l"
    by (cases ess rule: rev_cases) auto
  have "map snd (d @ [(i, c @ enc_entry e)]) = map enc_log (ess' @ [l @ [e]])"
    using l by (simp add: enc_log_def)
  moreover have "es @ [e] = concat (ess' @ [l @ [e]])"
    using ess l by simp
  ultimately show ?thesis
    unfolding dir_holds_def using enc assms(2) by (metis Un_iff empty_iff insert_iff list.set(1) list.simps(15) set_append)
qed

lemma dir_holds_new:
  assumes "dir_holds d es"
  shows "dir_holds (d @ [(i, [])]) es"
proof -
  obtain ess where "es = concat ess" "map snd d = map enc_log ess"
    and enc: "\<forall>e\<in>set es. encodable e"
    using assms by (auto simp: dir_holds_def)
  then have "es = concat (ess @ [[]])" "map snd (d @ [(i, [])]) = map enc_log (ess @ [[]])"
    by (simp_all add: enc_log_def)
  then show ?thesis
    unfolding dir_holds_def using enc by blast
qed

lemma wal_wf_last:
  assumes "wal_wf w"
  obtains d c where "wal_dir w = d @ [(wal_segmentID w, c)]" "wal_segmentID w \<notin> set (mkeys d)"
    "\<forall>k\<in>set (mkeys d). k < wal_segmentID w" "wal_offset w = length c"
    "wal_file w = Some (wal_segmentID w)" "sorted_wrt (<) (mkeys d)"
proof -
  from assms have ne: "wal_dir w \<noteq> []" by (simp add: wal_wf_def)
  then obtain d x where d: "wal_dir w = d @ [x]" by (cases "wal_dir w" rule: rev_cases) auto
  obtain i c where x: "x = (i, c)" by (cases x)
  have i: "i = wal_segmentID w" using assms d x by (simp add: wal_wf_def)
  have s: "sorted_wrt (<) (mkeys d @ [i])" using assms d x by (simp add: wal_wf_def)
  then have lt: "\<forall>k\<in>set (mkeys d). k < i" by (auto simp: sorted_wrt_append)
  show ?thesis
  proof (rule that)
    show "wal_dir w = d @ [(wal_segmentID w, c)]" using d x i by simp
    show "wal_segmentID w \<notin> set (mkeys d)" using lt i by auto
    show "\<forall>k\<in>set (mkeys d). k < wal_segmentID w" using lt i by simp
    show "wal_offset w = length c" using assms d x by (simp add: wal_wf_def)
    show "wal_file w = Some (wal_segmentID w)" using assms by (simp add: wal_wf_def)
    show "sorted_wrt (<) (mkeys d)" using s by (simp add: sorted_wrt_append)
  qed
qed

lemma mput_last: "k \<notin> set (mkeys d) \<Longrightarrow> mput k v (d @ [(k, x)]) = d @ [(k, v)]"
  by (induction d) auto

lemma map_of_last: "k \<notin> set (mkeys d) \<Longrightarrow> map_of (d @ [(k, x)]) k = Some x"
  by (induction d) auto

lemma file_write_last:
  assumes "wal_dir w = d @ [(i, c)]" "i \<notin> set (mkeys d)" "wal_file w = Some i"
  shows "file_write buf w =
    w\<lparr>wal_dir := d @ [(i, c @ buf)], wal_offset := wal_offset w + length buf\<rparr>"
proof -
  have "map_of (wal_dir w) i = Some c"
    by (simp only: assms(1) map_of_last [OF assms(2)])
  moreover have "mput i (c @ buf) (wal_dir w) = d @ [(i, c @ buf)]"
    by (simp only: assms(1) mput_last [OF assms(2)])
  ultimately show ?thesis
    by (simp add: file_write_def assms(3) Let_def)
qed

text \<open>What one append leaves on disk: in the last segment, or alone in a new one.\<close>

lemma wal_Append_dir:
  assumes wf: "wal_wf w" and ap: "wal_Append op k v w = Inr w'"
  defines "buf \<equiv> enc_entry (op, k, v)"
  obtains
    (same) d c where "wal_dir w = d @ [(wal_segmentID w, c)]"
      "wal_dir w' = d @ [(wal_segmentID w, c @ buf)]"
  | (rotated) "wal_dir w' = wal_dir w @ [(wal_segmentID w + 1, buf)]"
      "wal_offset w + length buf > wal_segmentSize w"
proof -
  obtain d c where dc: "wal_dir w = d @ [(wal_segmentID w, c)]" "wal_segmentID w \<notin> set (mkeys d)"
    "\<forall>k\<in>set (mkeys d). k < wal_segmentID w" "wal_offset w = length c"
    "wal_file w = Some (wal_segmentID w)"
    using wal_wf_last [OF wf] by metis
  have w': "rbind (rotateIfNeeded (length buf) w) (\<lambda>w1. Inr (file_write buf w1)) = Inr w'"
    using wal_Append_encodable(2) [OF ap] by (simp add: buf_def)
  show ?thesis
  proof (cases "wal_offset w + length buf \<le> wal_segmentSize w")
    case True
    then have "w' = file_write buf w"
      using w' dc(5) by (simp add: rotateIfNeeded_def)
    then show ?thesis
      using file_write_last [OF dc(1,2,5), of buf] dc(1) by (intro same) auto
  next
    case False
    let ?n = "wal_segmentID w + 1"
    have fresh: "?n \<notin> set (mkeys (wal_dir w))" using dc(1,3) by auto
    then have no: "map_of (wal_dir w) ?n = None" by (simp add: map_of_eq_None_iff)
    have "w' = file_write buf (openSegment ?n (w\<lparr>wal_segmentID := ?n, wal_offset := 0\<rparr>))"
      using w' dc(5) False by (simp add: rotateIfNeeded_def)
    moreover have "openSegment ?n (w\<lparr>wal_segmentID := ?n, wal_offset := 0\<rparr>)
        = w\<lparr>wal_segmentID := ?n, wal_offset := 0,
            wal_dir := wal_dir w @ [(?n, [])], wal_file := Some ?n\<rparr>"
      using no fresh by (simp add: openSegment_def mput_fresh)
    ultimately have "wal_dir w' = wal_dir w @ [(?n, buf)]"
      using fresh by (simp add: file_write_last)
    with False show ?thesis by (intro rotated) auto
  qed
qed

lemma wal_Append_wf:
  assumes wf: "wal_wf w" and ap: "wal_Append op k v w = Inr w'"
  shows "wal_wf w'"
proof -
  let ?buf = "enc_entry (op, k, v)"
  obtain d c where dc: "wal_dir w = d @ [(wal_segmentID w, c)]" "wal_segmentID w \<notin> set (mkeys d)"
    "\<forall>k\<in>set (mkeys d). k < wal_segmentID w" "wal_offset w = length c"
    "wal_file w = Some (wal_segmentID w)" "sorted_wrt (<) (mkeys d)"
    using wal_wf_last [OF wf] by metis
  have w': "rbind (rotateIfNeeded (length ?buf) w) (\<lambda>w1. Inr (file_write ?buf w1)) = Inr w'"
    using wal_Append_encodable(2) [OF ap] .
  let ?n = "wal_segmentID w + 1"
  have fresh: "?n \<notin> set (mkeys (wal_dir w))" using dc(1,3) by auto
  then have no: "map_of (wal_dir w) ?n = None" by (simp add: map_of_eq_None_iff)
  show ?thesis
  proof (cases "wal_offset w + length ?buf \<le> wal_segmentSize w")
    case True
    then have "w' = file_write ?buf w"
      using w' dc(5) by (simp add: rotateIfNeeded_def)
    then show ?thesis
      using dc by (simp add: file_write_last wal_wf_def sorted_wrt_append)
  next
    case False
    then have "w' = file_write ?buf (w\<lparr>wal_segmentID := ?n, wal_offset := 0,
        wal_dir := wal_dir w @ [(?n, [])], wal_file := Some ?n\<rparr>)"
      using w' dc(5) no fresh by (simp add: rotateIfNeeded_def openSegment_def mput_fresh)
    then show ?thesis
      using fresh dc by (auto simp: file_write_last wal_wf_def sorted_wrt_append)
  qed
qed

lemma wal_Append_holds:
  assumes "wal_wf w" "wal_holds w es" "wal_Append op k v w = Inr w'"
  shows "wal_holds w' (es @ [(op, k, v)])"
  using assms(1,3)
proof (cases rule: wal_Append_dir)
  case (same d c)
  then show ?thesis
    using assms(2) wal_Append_encodable(1) [OF assms(3)] dir_holds_extend by metis
next
  case rotated
  then show ?thesis
    using dir_holds_extend [OF dir_holds_new [OF assms(2)] wal_Append_encodable(1) [OF assms(3)]]
    by simp
qed

lemma wal_wf_sorted: "wal_wf w \<Longrightarrow> sorted_wrt (<) (mkeys (wal_dir w))"
  by (simp add: wal_wf_def)

text \<open>Reopening a directory gives a log in the invariant that holds the same entries.\<close>

lemma OpenWAL_dir:
  assumes "sorted_wrt (<) (mkeys d)"
  shows "wal_wf (OpenWAL d)" "wal_dir (OpenWAL d) = (if d = [] then [(1, [])] else d)"
proof -
  have s: "sort (mkeys d) = mkeys d"
    using assms by (simp add: strict_sorted_iff sorted_sort_id)
  show "wal_dir (OpenWAL d) = (if d = [] then [(1, [])] else d)"
  proof (cases d rule: rev_cases)
    case Nil
    then show ?thesis by (simp add: OpenWAL_def openLatest_def openSegment_def)
  next
    case (snoc d' x)
    have "map_of d (last (mkeys d)) \<noteq> None"
      using snoc by (simp add: map_of_eq_None_iff del: map_of_append)
    then obtain c where "map_of d (last (mkeys d)) = Some c" by blast
    moreover have "d \<noteq> []" using snoc by simp
    ultimately show ?thesis
      by (simp add: OpenWAL_def openLatest_def openSegment_def s Let_def)
  qed
  show "wal_wf (OpenWAL d)"
  proof (cases d rule: rev_cases)
    case Nil
    then show ?thesis by (simp add: OpenWAL_def openLatest_def openSegment_def wal_wf_def)
  next
    case (snoc d' x)
    obtain i c where x: "x = (i, c)" by (cases x)
    have "i \<notin> set (mkeys d')" using assms snoc x by (auto simp: sorted_wrt_append)
    then have m: "map_of d (last (mkeys d)) = Some c"
      using map_of_last snoc x by (metis fst_conv last_snoc last_map snoc_eq_iff_butlast)
    have "d \<noteq> []" "last d = (i, c)" using snoc x by simp_all
    with m assms show ?thesis
      by (simp add: OpenWAL_def openLatest_def openSegment_def wal_wf_def s Let_def last_map)
  qed
qed

lemma dir_holds_empty: "dir_holds [(i, [])] []" "dir_holds [] []"
  by (auto simp: dir_holds_def enc_log_def intro: exI [of _ "[[]]"] exI [of _ "[]"])

lemma dir_holds_nil: "dir_holds [] es \<Longrightarrow> es = []"
  by (auto simp: dir_holds_def)

lemma OpenWAL_holds:
  "sorted_wrt (<) (mkeys d) \<Longrightarrow> dir_holds d es \<Longrightarrow> wal_holds (OpenWAL d) es"
  using dir_holds_empty(1) [of 1] dir_holds_nil [of es] by (cases "d = []") (auto simp: OpenWAL_dir)

end
