(* ===== verification/Snapshot.thy ===== *)
theory Snapshot
  imports BTree Wal
begin

text \<open>
  \<^verbatim>\<open>src/internal/storage/snapshot.go\<close>: the snapshot file. The writer ranges over the Go
  map of trees, so the trees are an association list whose order is the (unspecified) order of that
  loop; the reader keeps the order of the file. \<open>snapshot_roundtrip\<close> holds for every order.
\<close>

type_synonym trees = "(string \<times> btree) list"

definition snapshotMagic :: bytes where
  "snapshotMagic = ''MONSNAP1''"

section \<open>Writing\<close>

fun write_rows :: "(bytes \<times> bytes) list \<Rightarrow> go_error + bytes" where
  "write_rows [] = Inr []"
| "write_rows ((k, v) # rows) =
     rbind (safeUint32FromInt (length k)) (\<lambda>keyLen.
     rbind (safeUint32FromInt (length v)) (\<lambda>valueLen.
     rbind (write_rows rows) (\<lambda>more.
       Inr (be 4 keyLen @ k @ be 4 valueLen @ v @ more))))"

fun write_trees :: "trees \<Rightarrow> go_error + bytes" where
  "write_trees [] = Inr []"
| "write_trees ((name, tree) # ts) =
     (let rows = bt_Snapshot tree in
      rbind (safeUint16FromInt (length name)) (\<lambda>nameLen.
      rbind (safeUint32FromInt (length rows)) (\<lambda>rowCount.
      rbind (write_rows rows) (\<lambda>body.
      rbind (write_trees ts) (\<lambda>more.
        Inr (be 2 nameLen @ name @ be 4 rowCount @ body @ more))))))"

definition WriteSnapshot :: "trees \<Rightarrow> go_error + bytes" where
  "WriteSnapshot ts =
     rbind (safeUint32FromInt (length ts)) (\<lambda>treeCount.
     rbind (write_trees ts) (\<lambda>body.
       Inr (snapshotMagic @ be 4 treeCount @ body)))"

section \<open>Reading\<close>

text \<open>\<^verbatim>\<open>io.ReadFull\<close> and \<^verbatim>\<open>binary.Read\<close> on the rest of the file.\<close>

definition read_full :: "nat \<Rightarrow> bytes \<Rightarrow> go_error + (bytes \<times> bytes)" where
  "read_full n r =
     (if length r < n then Inl (ErrMsg ''unexpected EOF'') else Inr (take n r, drop n r))"

definition read_uint :: "nat \<Rightarrow> bytes \<Rightarrow> go_error + (nat \<times> bytes)" where
  "read_uint n r = rbind (read_full n r) (\<lambda>(raw, r1). Inr (be_nat raw, r1))"

fun read_rows :: "nat \<Rightarrow> btree \<Rightarrow> bytes \<Rightarrow> go_error + (btree \<times> bytes)" where
  "read_rows 0 tree r = Inr (tree, r)"
| "read_rows (Suc j) tree r =
     rbind (read_uint 4 r) (\<lambda>(keyLen, r1).
     rbind (read_full keyLen r1) (\<lambda>(key, r2).
     rbind (read_uint 4 r2) (\<lambda>(valueLen, r3).
     rbind (read_full valueLen r3) (\<lambda>(val, r4).
       read_rows j (bt_Set key val tree) r4))))"

fun read_trees :: "nat \<Rightarrow> trees \<Rightarrow> bytes \<Rightarrow> go_error + trees" where
  "read_trees 0 out r = Inr out"
| "read_trees (Suc i) out r =
     rbind (read_uint 2 r) (\<lambda>(nameLen, r1).
     rbind (read_full nameLen r1) (\<lambda>(name, r2).
     rbind (read_uint 4 r2) (\<lambda>(rowCount, r3).
     rbind (read_rows rowCount NewBTree r3) (\<lambda>(tree, r4).
       read_trees i (mput name tree out) r4))))"

definition ReadSnapshot :: "bytes \<Rightarrow> go_error + trees" where
  "ReadSnapshot f =
     rbind (read_full (length snapshotMagic) f) (\<lambda>(magic, r).
       if magic \<noteq> snapshotMagic then Inl (ErrMsg ''invalid snapshot file'')
       else rbind (read_uint 4 r) (\<lambda>(treeCount, r1). read_trees treeCount [] r1))"

section \<open>Round trip\<close>

definition trees_inv :: "trees \<Rightarrow> bool" where
  "trees_inv ts \<longleftrightarrow> distinct (mkeys ts) \<and> (\<forall>t\<in>snd ` set ts. bt_inv t)"

lemma read_full_app: "length xs = n \<Longrightarrow> read_full n (xs @ r) = Inr (xs, r)"
  by (simp add: read_full_def)

lemma read_uint_be: "m < 256 ^ n \<Longrightarrow> read_uint n (be n m @ r) = Inr (m, r)"
  by (simp add: read_uint_def read_full_app)

lemma safe32: "safeUint32FromInt n = Inr m \<longleftrightarrow> m = n \<and> n < 256 ^ 4"
  by (auto simp: safeUint32FromInt_def)

lemma safe16: "safeUint16FromInt n = Inr m \<longleftrightarrow> m = n \<and> n < 256 ^ 2"
  by (auto simp: safeUint16FromInt_def)

definition set_rows :: "(bytes \<times> bytes) list \<Rightarrow> btree \<Rightarrow> btree" where
  "set_rows rows t = fold (\<lambda>(k, v) t. bt_Set k v t) rows t"

lemma read_rows_write:
  "write_rows rows = Inr bs \<Longrightarrow> read_rows (length rows) t (bs @ r) = Inr (set_rows rows t, r)"
proof (induction rows arbitrary: t bs)
  case Nil
  then show ?case by (simp add: set_rows_def)
next
  case (Cons row rows)
  obtain k v where row: "row = (k, v)" by (cases row)
  obtain more where more: "write_rows rows = Inr more"
    "bs = be 4 (length k) @ k @ be 4 (length v) @ v @ more"
    "length k < 256 ^ 4" "length v < 256 ^ 4"
    using Cons.prems by (auto simp: row rbind_Inr_conv safe32)
  show ?case
    using Cons.IH [OF more(1)] more
    by (simp add: row read_uint_be read_full_app set_rows_def)
qed

lemma bt_inv_set_rows: "bt_inv t \<Longrightarrow> bt_inv (set_rows rows t)"
  unfolding set_rows_def by (induction rows arbitrary: t) auto

lemma bt_map_set_rows: "bt_map (set_rows rows t) = bt_map t ++ map_of (rev rows)"
proof (induction rows arbitrary: t)
  case Nil
  then show ?case by (simp add: set_rows_def)
next
  case (Cons row rows)
  obtain k v where row: "row = (k, v)" by (cases row)
  have "set_rows (row # rows) t = set_rows rows (bt_Set k v t)"
    by (simp add: set_rows_def row)
  moreover have "bt_map t ++ map_of (rev (row # rows)) = (bt_map t)(k \<mapsto> v) ++ map_of (rev rows)"
    by (simp add: row)
  ultimately show ?case by (simp only: Cons bt_map_Set)
qed

lemma set_rows_Snapshot: "bt_inv t \<Longrightarrow> set_rows (bt_Snapshot t) NewBTree = t"
proof (rule bt_eq_iff)
  assume t: "bt_inv t"
  have "distinct (map fst (bt_Snapshot t))"
    using bt_inv_distinct [OF t] by simp
  then have "map_of (rev (bt_Snapshot t)) = map_of (bt_Snapshot t)"
    by (metis distinct_map distinct_rev map_of_inject_set rev_map set_rev)
  then show "bt_map (set_rows (bt_Snapshot t) NewBTree) = bt_map t"
    using t by (simp add: bt_map_set_rows map_of_Snapshot)
qed (auto intro: bt_inv_set_rows)

lemma read_trees_write:
  assumes "write_trees ts = Inr bs" "\<forall>t\<in>snd ` set ts. bt_inv t" "distinct (mkeys (out @ ts))"
  shows "read_trees (length ts) out (bs @ r) = Inr (out @ ts)"
  using assms
proof (induction ts arbitrary: out bs)
  case Nil
  then show ?case by simp
next
  case (Cons nt ts)
  obtain n t where nt: "nt = (n, t)" by (cases nt)
  obtain body more where w: "write_rows (bt_Snapshot t) = Inr body" "write_trees ts = Inr more"
    "bs = be 2 (length n) @ n @ be 4 (length (bt_Snapshot t)) @ body @ more"
    "length n < 256 ^ 2" "length (bt_Snapshot t) < 256 ^ 4"
    using Cons.prems(1) by (auto simp: nt Let_def rbind_Inr_conv safe32 safe16)
  have t: "bt_inv t" using Cons.prems(2) nt by simp
  have rows: "read_rows (length (bt_Snapshot t)) NewBTree (body @ more @ r) = Inr (t, more @ r)"
    using read_rows_write [OF w(1)] set_rows_Snapshot [OF t] by simp
  have "n \<notin> set (mkeys out)" using Cons.prems(3) nt by auto
  then have put: "mput n t out = out @ [nt]" by (simp add: mput_fresh nt)
  have "read_trees (length ts) (out @ [nt]) (more @ r) = Inr ((out @ [nt]) @ ts)"
    using Cons.prems w(2) by (intro Cons.IH) auto
  then show ?case
    using w rows put by (simp add: read_uint_be read_full_app)
qed

lemma ReadSnapshot_Write:
  assumes "trees_inv ts" "WriteSnapshot ts = Inr f"
  shows "ReadSnapshot f = Inr ts"
proof -
  obtain body where b: "write_trees ts = Inr body" "length ts < 256 ^ 4"
    "f = snapshotMagic @ be 4 (length ts) @ body"
    using assms(2) by (auto simp: WriteSnapshot_def rbind_Inr_conv safe32)
  have "read_trees (length ts) [] (body @ []) = Inr ([] @ ts)"
    using assms(1) b(1) by (intro read_trees_write) (auto simp: trees_inv_def)
  then show ?thesis
    using b by (simp add: ReadSnapshot_def read_full_app read_uint_be)
qed

end
