(* ===== verification/StorageEngine.thy ===== *)
theory StorageEngine
  imports Index Snapshot
begin

text \<open>
  \<^verbatim>\<open>src/internal/storage/engine.go\<close> and \<^verbatim>\<open>types.go\<close>: the embedded store. Its
  state is the trees, the indexes, the open log, the watchers with their buffered channels and, on
  disk, the snapshot file (\<open>e_snap\<close>) and the log's directory (\<open>wal_dir (e_wal e)\<close>). The
  lock \<^verbatim>\<open>e.mu\<close> makes each operation atomic; a transaction's closure only fills its list of
  mutations, so it is a function on that list.
\<close>

section \<open>State\<close>

record mutation =
  m_tree :: string
  m_op :: byte
  m_key :: bytes
  m_value :: bytes

record tx_event =
  ev_sequence :: int
  ev_timestamp :: time
  ev_mutations :: "mutation list"

record engine =
  e_trees :: trees
  e_index :: index_mgr
  e_wal :: wal
  e_closed :: bool
  e_sequence :: int
  e_nextWatchID :: int
  e_watchers :: "(int \<times> tx_event list) list"
  e_snap :: "bytes option"

text \<open>What survives a crash: the snapshot file and the segment files.\<close>

type_synonym disk = "bytes option \<times> (nat \<times> bytes) list"

definition disk_of :: "engine \<Rightarrow> disk" where
  "disk_of e = (e_snap e, wal_dir (e_wal e))"

abbreviation treeKeySep :: byte where "treeKeySep \<equiv> CHR 0x1F"

definition makeTreeKey :: "string \<Rightarrow> bytes \<Rightarrow> bytes" where
  "makeTreeKey tree key = tree @ [treeKeySep] @ key"

text \<open>\<^verbatim>\<open>bytes.IndexByte\<close>, with \<open>None\<close> for -1.\<close>

fun index_byte :: "bytes \<Rightarrow> byte \<Rightarrow> nat option" where
  "index_byte [] c = None"
| "index_byte (x # xs) c = (if x = c then Some 0 else map_option Suc (index_byte xs c))"

definition splitTreeKey :: "bytes \<Rightarrow> go_error + (string \<times> bytes)" where
  "splitTreeKey key =
     (case index_byte key treeKeySep of
        None \<Rightarrow> Inl (ErrMsg ''invalid wal tree key'')
      | Some idx \<Rightarrow>
          if idx \<le> 0 then Inl (ErrMsg ''invalid wal tree key'')
          else Inr (take idx key, drop (idx + 1) key))"

definition mustTree :: "string \<Rightarrow> trees \<Rightarrow> trees" where
  "mustTree name ts = (case map_of ts name of None \<Rightarrow> mput name NewBTree ts | Some _ \<Rightarrow> ts)"

definition tree_of :: "string \<Rightarrow> trees \<Rightarrow> btree" where
  "tree_of name ts = the (map_of (mustTree name ts) name)"

section \<open>Opening\<close>

definition loadSnapshot :: "bytes option \<Rightarrow> go_error + trees" where
  "loadSnapshot snap = (case snap of None \<Rightarrow> Inr [] | Some f \<Rightarrow> ReadSnapshot f)"

definition replay_apply :: "byte \<Rightarrow> bytes \<Rightarrow> bytes \<Rightarrow> trees \<Rightarrow> go_error + trees" where
  "replay_apply op key val ts =
     (case splitTreeKey key of
        Inl err \<Rightarrow> Inl err
      | Inr (treeName, realKey) \<Rightarrow>
          (let ts1 = mustTree treeName ts; tree = tree_of treeName ts in
           if op = OpPut then Inr (mput treeName (bt_Set realKey val tree) ts1)
           else if op = OpDel then Inr (mput treeName (snd (bt_Delete realKey tree)) ts1)
           else Inl (ErrMsg ''unknown wal op'')))"

definition OpenEngine :: "disk \<Rightarrow> string list \<Rightarrow> go_error + engine" where
  "OpenEngine d treeNames =
     rbind (loadSnapshot (fst d)) (\<lambda>loaded.
       (let ts = fold mustTree treeNames loaded; w = OpenWAL (snd d) in
        rbind (wal_Replay replay_apply w ts) (\<lambda>ts'.
          Inr \<lparr>e_trees = ts', e_index = NewIndexManager, e_wal = w, e_closed = False,
            e_sequence = 0, e_nextWatchID = 0, e_watchers = [], e_snap = fst d\<rparr>)))"

section \<open>Reading\<close>

definition eng_Get :: "engine \<Rightarrow> string \<Rightarrow> bytes \<Rightarrow> go_error + bytes" where
  "eng_Get e tree key =
     (case map_of (e_trees e) tree of
        None \<Rightarrow> Inl ErrNotFound
      | Some t \<Rightarrow> (case bt_Get t key of None \<Rightarrow> Inl ErrNotFound | Some v \<Rightarrow> Inr v))"

definition eng_Iterate ::
  "engine \<Rightarrow> string \<Rightarrow> bytes \<Rightarrow> bytes \<Rightarrow> ('s \<Rightarrow> bytes \<Rightarrow> bytes \<Rightarrow> 's \<times> bool) \<Rightarrow> 's \<Rightarrow> go_error + 's" where
  "eng_Iterate e tree start end fn s =
     (case map_of (e_trees e) tree of
        None \<Rightarrow> Inl ErrNotFound
      | Some t \<Rightarrow> Inr (bt_Iterate t start end fn s))"

section \<open>Transactions\<close>

definition tx_Put :: "string \<Rightarrow> bytes \<Rightarrow> bytes \<Rightarrow> mutation list \<Rightarrow> mutation list" where
  "tx_Put tree key val ms = ms @ [\<lparr>m_tree = tree, m_op = OpPut, m_key = key, m_value = val\<rparr>]"

definition tx_Delete :: "string \<Rightarrow> bytes \<Rightarrow> mutation list \<Rightarrow> mutation list" where
  "tx_Delete tree key ms = ms @ [\<lparr>m_tree = tree, m_op = OpDel, m_key = key, m_value = []\<rparr>]"

text \<open>
  One turn of the loop over the mutations: the tree is created first, then the log is written, and
  only then the tree and the indexes change. An error of the log leaves the loop.
\<close>

definition tx_step :: "mutation \<Rightarrow> engine \<Rightarrow> engine \<times> go_error option" where
  "tx_step m e =
     (let e1 = e\<lparr>e_trees := mustTree (m_tree m) (e_trees e)\<rparr>;
          tree = tree_of (m_tree m) (e_trees e);
          combined = makeTreeKey (m_tree m) (m_key m)
      in case wal_Append (m_op m) combined (m_value m) (e_wal e1) of
           Inl err \<Rightarrow> (e1, Some err)
         | Inr w \<Rightarrow>
             (let e2 = e1\<lparr>e_wal := w\<rparr>; old = bt_val tree (m_key m) in
              if m_op m = OpPut then
                (e2\<lparr>e_trees := mput (m_tree m) (bt_Set (m_key m) (m_value m) tree) (e_trees e2),
                    e_index := ix_Update (m_key m) old (m_value m) (e_index e2)\<rparr>, None)
              else if m_op m = OpDel then
                (e2\<lparr>e_trees := mput (m_tree m) (snd (bt_Delete (m_key m) tree)) (e_trees e2),
                    e_index := ix_Update (m_key m) old [] (e_index e2)\<rparr>, None)
              else (e2, None)))"

fun tx_loop :: "mutation list \<Rightarrow> engine \<Rightarrow> engine \<times> go_error option" where
  "tx_loop [] e = (e, None)"
| "tx_loop (m # ms) e =
     (case tx_step m e of (e', Some err) \<Rightarrow> (e', Some err) | (e', None) \<Rightarrow> tx_loop ms e')"

text \<open>A send on a watcher's channel of capacity 32; a full channel drops the event.\<close>

definition offer :: "tx_event \<Rightarrow> tx_event list \<Rightarrow> tx_event list" where
  "offer evt ch = (if length ch < 32 then ch @ [evt] else ch)"

definition notify_watchers :: "time \<Rightarrow> mutation list \<Rightarrow> engine \<Rightarrow> engine" where
  "notify_watchers now ms e =
     (let s = i64 (e_sequence e + 1);
          evt = \<lparr>ev_sequence = s, ev_timestamp = now, ev_mutations = ms\<rparr>
      in e\<lparr>e_sequence := s, e_watchers := map (\<lambda>(i, ch). (i, offer evt ch)) (e_watchers e)\<rparr>)"

definition eng_tx ::
  "(mutation list \<Rightarrow> go_error + mutation list) \<Rightarrow> bool \<Rightarrow> time \<Rightarrow> engine \<Rightarrow> engine \<times> go_error option" where
  "eng_tx fn notify now e =
     (if e_closed e then (e, Some (ErrMsg ''engine closed''))
      else
        (case fn [] of
           Inl err \<Rightarrow> (e, Some err)
         | Inr ms \<Rightarrow>
             if ms = [] then (e, None)
             else
               (case tx_loop ms e of
                  (e', Some err) \<Rightarrow> (e', Some err)
                | (e', None) \<Rightarrow> (if notify then (notify_watchers now ms e', None) else (e', None)))))"

definition eng_Tx :: "(mutation list \<Rightarrow> go_error + mutation list) \<Rightarrow> time \<Rightarrow> engine \<Rightarrow> engine \<times> go_error option" where
  "eng_Tx fn now e = eng_tx fn True now e"

definition eng_TxSilent :: "(mutation list \<Rightarrow> go_error + mutation list) \<Rightarrow> time \<Rightarrow> engine \<Rightarrow> engine \<times> go_error option" where
  "eng_TxSilent fn now e = eng_tx fn False now e"

definition eng_Put :: "string \<Rightarrow> bytes \<Rightarrow> bytes \<Rightarrow> time \<Rightarrow> engine \<Rightarrow> engine \<times> go_error option" where
  "eng_Put tree key val now e = eng_Tx (\<lambda>ms. Inr (tx_Put tree key val ms)) now e"

definition eng_Delete :: "string \<Rightarrow> bytes \<Rightarrow> time \<Rightarrow> engine \<Rightarrow> engine \<times> go_error option" where
  "eng_Delete tree key now e = eng_Tx (\<lambda>ms. Inr (tx_Delete tree key ms)) now e"

section \<open>Watchers, snapshots, closing\<close>

text \<open>A watch on a closed engine gets id 0 and an already closed channel.\<close>

definition WatchTx :: "engine \<Rightarrow> engine \<times> int" where
  "WatchTx e =
     (if e_closed e then (e, 0)
      else (let i = i64 (e_nextWatchID e + 1)
            in (e\<lparr>e_nextWatchID := i, e_watchers := mput i [] (e_watchers e)\<rparr>, i)))"

definition unsubscribe :: "int \<Rightarrow> engine \<Rightarrow> engine" where
  "unsubscribe i e = e\<lparr>e_watchers := mdel i (e_watchers e)\<rparr>"

definition CurrentSequence :: "engine \<Rightarrow> int" where
  "CurrentSequence e = e_sequence e"

text \<open>
  The snapshot file is truncated before it is written; when the writer fails the model leaves it
  empty (how much the buffered writer had flushed by then is not modelled).
\<close>

definition CreateSnapshot :: "engine \<Rightarrow> engine \<times> go_error option" where
  "CreateSnapshot e =
     (case WriteSnapshot (e_trees e) of
        Inl err \<Rightarrow> (e\<lparr>e_snap := Some []\<rparr>, Some err)
      | Inr f \<Rightarrow> (e\<lparr>e_snap := Some f\<rparr>, None))"

definition RestoreSnapshot :: "bytes \<Rightarrow> engine \<Rightarrow> engine \<times> go_error option" where
  "RestoreSnapshot file e =
     (case ReadSnapshot file of
        Inl err \<Rightarrow> (e, Some err)
      | Inr ts \<Rightarrow>
          if e_closed e then (e, Some (ErrMsg ''engine closed''))
          else
            (let merged = fold (\<lambda>(n, t) m. mput n t m) ts (map (\<lambda>(n, t). (n, NewBTree)) (e_trees e))
             in case WriteSnapshot merged of
                  Inl err \<Rightarrow> (e\<lparr>e_snap := Some []\<rparr>, Some err)
                | Inr f \<Rightarrow> (e\<lparr>e_snap := Some f, e_wal := OpenWAL [], e_trees := merged\<rparr>, None)))"

definition eng_Close :: "engine \<Rightarrow> engine" where
  "eng_Close e = e\<lparr>e_closed := True, e_watchers := [], e_wal := wal_Close (e_wal e)\<rparr>"

end
