(* ===== verification/Recovery.thy ===== *)
theory Recovery
  imports StorageEngine
begin

text \<open>
  What the storage engine promises: its trees are a map from (tree, key) to values, a transaction
  is a list of writes to that map, and the map comes back from disk. \<open>eng_ok\<close> is the engine's
  invariant: the log on disk holds exactly the mutations made since the snapshot on disk was
  restored or first written, so that replaying it over the snapshot gives the trees in memory.
\<close>

section \<open>The trees as one map\<close>

fun eget :: "trees \<Rightarrow> string \<times> bytes \<Rightarrow> bytes option" where
  "eget ts (n, k) = (case map_of ts n of None \<Rightarrow> None | Some t \<Rightarrow> bt_map t k)"

fun eupd :: "string \<times> bytes \<Rightarrow> bytes \<Rightarrow> trees \<Rightarrow> trees" where
  "eupd (n, k) v ts = mput n (bt_Set k v (tree_of n ts)) (mustTree n ts)"

fun edel :: "string \<times> bytes \<Rightarrow> trees \<Rightarrow> trees" where
  "edel (n, k) ts = mput n (snd (bt_Delete k (tree_of n ts))) (mustTree n ts)"

lemma eget_mustTree [simp]: "eget (mustTree n ts) = eget ts"
proof
  fix p :: "string \<times> bytes"
  obtain m k where "p = (m, k)" by (cases p)
  then show "eget (mustTree n ts) p = eget ts p"
    by (auto simp: mustTree_def split: option.splits)
qed

lemma trees_inv_mput: "trees_inv ts \<Longrightarrow> bt_inv t \<Longrightarrow> trees_inv (mput n t ts)"
  using set_mput [of n t ts] by (auto simp: trees_inv_def)

lemma trees_inv_mustTree [simp, wf_intros]: "trees_inv ts \<Longrightarrow> trees_inv (mustTree n ts)"
  by (auto simp: mustTree_def trees_inv_mput split: option.split)

lemma trees_inv_tree: "trees_inv ts \<Longrightarrow> map_of ts n = Some t \<Longrightarrow> bt_inv t"
  by (force simp: trees_inv_def dest: map_of_SomeD)

lemma tree_of_inv [wf_intros]: "trees_inv ts \<Longrightarrow> bt_inv (tree_of n ts)"
  by (auto simp: tree_of_def mustTree_def dest: trees_inv_tree split: option.splits)

lemma tree_of_get: "bt_map (tree_of n ts) k = eget ts (n, k)"
  by (auto simp: tree_of_def mustTree_def split: option.splits)

lemma map_of_mustTree: "m \<noteq> n \<Longrightarrow> map_of (mustTree n ts) m = map_of ts m"
  by (auto simp: mustTree_def split: option.splits)

lemma eget_upd: "eget (eupd p v ts) = (eget ts)(p \<mapsto> v)"
proof
  fix q :: "string \<times> bytes"
  obtain n k where p: "p = (n, k)" by (cases p)
  obtain m l where q: "q = (m, l)" by (cases q)
  show "eget (eupd p v ts) q = ((eget ts)(p \<mapsto> v)) q"
    using tree_of_get [of n ts l] by (auto simp: p q map_of_mustTree)
qed

lemma eget_del: "eget (edel p ts) = (eget ts)(p := None)"
proof
  fix q :: "string \<times> bytes"
  obtain n k where p: "p = (n, k)" by (cases p)
  obtain m l where q: "q = (m, l)" by (cases q)
  show "eget (edel p ts) q = ((eget ts)(p := None)) q"
    using tree_of_get [of n ts l] by (auto simp: p q map_of_mustTree)
qed

lemma trees_inv_upd: "trees_inv ts \<Longrightarrow> trees_inv (eupd p v ts)"
  by (cases p) (simp add: trees_inv_mput tree_of_inv)

lemma trees_inv_del: "trees_inv ts \<Longrightarrow> trees_inv (edel p ts)"
  by (cases p) (simp add: trees_inv_mput tree_of_inv)

interpretation et: kv_map eget eupd edel trees_inv
  by unfold_locales (simp_all only: eget_upd eget_del trees_inv_upd trees_inv_del)

lemma eng_Get_eget: "eng_Get e n k = (case eget (e_trees e) (n, k) of None \<Rightarrow> Inl ErrNotFound | Some v \<Rightarrow> Inr v)"
  by (simp add: eng_Get_def split: option.split)

section \<open>Mutations as log entries and as writes\<close>

definition wf_name :: "string \<Rightarrow> bool" where
  "wf_name n \<longleftrightarrow> n \<noteq> [] \<and> treeKeySep \<notin> set n"

definition wf_mut :: "mutation \<Rightarrow> bool" where
  "wf_mut m \<longleftrightarrow> wf_name (m_tree m) \<and> (m_op m = OpPut \<or> m_op m = OpDel)"

definition entry_of :: "mutation \<Rightarrow> entry" where
  "entry_of m = (m_op m, makeTreeKey (m_tree m) (m_key m), m_value m)"

definition write_of :: "mutation \<Rightarrow> (string \<times> bytes) \<times> bytes option" where
  "write_of m = ((m_tree m, m_key m), if m_op m = OpPut then Some (m_value m) else None)"

lemma index_byte_app: "c \<notin> set xs \<Longrightarrow> index_byte (xs @ c # ys) c = Some (length xs)"
  by (induction xs) auto

lemma splitTreeKey_make: "wf_name n \<Longrightarrow> splitTreeKey (makeTreeKey n k) = Inr (n, k)"
  by (simp add: splitTreeKey_def makeTreeKey_def wf_name_def index_byte_app)

lemma replay_apply_entry:
  assumes "wf_mut m" "entry_of m = (op, k, v)"
  shows "replay_apply op k v ts = Inr (kv_run eupd edel [write_of m] ts)"
  using assms
  by (auto simp: replay_apply_def entry_of_def write_of_def wf_mut_def splitTreeKey_make Let_def)

lemma apply_entries_muts:
  "\<forall>m\<in>set ms. wf_mut m \<Longrightarrow>
   apply_entries replay_apply (map entry_of ms) ts = Inr (kv_run eupd edel (map write_of ms) ts)"
proof (induction ms arbitrary: ts)
  case Nil
  then show ?case by simp
next
  case (Cons m ms)
  obtain op k v where e: "entry_of m = (op, k, v)" by (cases "entry_of m")
  show ?case
    using Cons replay_apply_entry [of m op k v ts] kv_run_append [of eupd edel "[write_of m]" "map write_of ms" ts]
    by (simp add: e)
qed

section \<open>One transaction\<close>

lemma wal_Append_fails:
  assumes "\<not> encodable (op, k, v)"
  shows "\<exists>err. wal_Append op k v w = Inl err"
  using wal_Append_encodable(1) [of op k v w] assms by (cases "wal_Append op k v w") auto

lemma wal_Append_ok:
  assumes "encodable (op, k, v)" "wal_file w \<noteq> None"
  shows "\<exists>w'. wal_Append op k v w = Inr w'"
  using assms by (auto simp: wal_Append_eq rotateIfNeeded_def)

text \<open>The fields that a turn of the loop never writes.\<close>

lemma tx_step_frame:
  "tx_step m e = (e', r) \<Longrightarrow> e_snap e' = e_snap e \<and> e_closed e' = e_closed e \<and>
     e_sequence e' = e_sequence e \<and> e_watchers e' = e_watchers e \<and> e_nextWatchID e' = e_nextWatchID e"
  by (auto simp: tx_step_def Let_def split: sum.splits if_splits)

lemma tx_step_ok:
  assumes "tx_step m e = (e', None)" "wf_mut m" "trees_inv (e_trees e)"
  shows "eget (e_trees e') = map_run [write_of m] (eget (e_trees e))"
    and "trees_inv (e_trees e')"
    and "wal_Append (m_op m) (makeTreeKey (m_tree m) (m_key m)) (m_value m) (e_wal e) = Inr (e_wal e')"
proof -
  let ?T = "kv_run eupd edel [write_of m] (e_trees e)"
  obtain w where w: "wal_Append (m_op m) (makeTreeKey (m_tree m) (m_key m)) (m_value m) (e_wal e) = Inr w"
    using assms(1) by (auto simp: tx_step_def Let_def split: sum.splits if_splits)
  have e': "e_trees e' = ?T" "e_wal e' = w"
    using assms(1,2) w
    by (auto simp: tx_step_def write_of_def wf_mut_def Let_def split: if_splits)
  show "eget (e_trees e') = map_run [write_of m] (eget (e_trees e))"
    unfolding e' by (rule et.get_run [OF assms(3)])
  show "trees_inv (e_trees e')"
    unfolding e' by (rule et.inv_run [OF assms(3)])
  show "wal_Append (m_op m) (makeTreeKey (m_tree m) (m_key m)) (m_value m) (e_wal e) = Inr (e_wal e')"
    using w e' by simp
qed

lemma tx_step_err:
  assumes "tx_step m e = (e', Some err)" "trees_inv (e_trees e)"
  shows "eget (e_trees e') = eget (e_trees e)" "trees_inv (e_trees e')" "e_wal e' = e_wal e"
  using assms
  by (auto simp: tx_step_def Let_def split: sum.splits if_splits)

text \<open>
  The loop applies a prefix of the mutations: all of them when it ends without an error.
\<close>

lemma tx_loop_prefix:
  assumes "tx_loop ms e = (e', r)" "\<forall>m\<in>set ms. wf_mut m" "trees_inv (e_trees e)"
    and "wal_wf (e_wal e)" "wal_holds (e_wal e) es"
  shows "\<exists>n\<le>length ms. (r = None \<longrightarrow> n = length ms) \<and>
    eget (e_trees e') = map_run (map write_of (take n ms)) (eget (e_trees e)) \<and>
    trees_inv (e_trees e') \<and> wal_wf (e_wal e') \<and>
    wal_holds (e_wal e') (es @ map entry_of (take n ms)) \<and>
    e_snap e' = e_snap e \<and> e_closed e' = e_closed e \<and> e_sequence e' = e_sequence e \<and>
    e_watchers e' = e_watchers e"
  using assms
proof (induction ms arbitrary: e es)
  case Nil
  then show ?case by simp
next
  case (Cons m ms)
  obtain e1 r1 where s: "tx_step m e = (e1, r1)" by (cases "tx_step m e")
  note frame = tx_step_frame [OF s]
  show ?case
  proof (cases r1)
    case (Some err)
    then have "e' = e1" "r = Some err" using Cons.prems(1) s by auto
    with tx_step_err [OF s [unfolded Some] Cons.prems(3)] frame Cons.prems(4,5) show ?thesis
      by (intro exI [of _ 0]) auto
  next
    case None
    note step = tx_step_ok [OF s [unfolded None] _ Cons.prems(3)]
    have m: "wf_mut m" using Cons.prems(2) by simp
    have w: "wal_wf (e_wal e1)" using wal_Append_wf [OF Cons.prems(4) step(3) [OF m]] .
    have h: "wal_holds (e_wal e1) (es @ [entry_of m])"
      using wal_Append_holds [OF Cons.prems(4,5) step(3) [OF m]] by (simp add: entry_of_def)
    have "tx_loop ms e1 = (e', r)" using Cons.prems(1) s None by simp
    from Cons.IH [OF this _ step(2) [OF m] w h] Cons.prems(2)
    obtain n where n: "n \<le> length ms" "r = None \<longrightarrow> n = length ms"
      "eget (e_trees e') = map_run (map write_of (take n ms)) (eget (e_trees e1))"
      "trees_inv (e_trees e')" "wal_wf (e_wal e')"
      "wal_holds (e_wal e') ((es @ [entry_of m]) @ map entry_of (take n ms))"
      "e_snap e' = e_snap e1" "e_closed e' = e_closed e1" "e_sequence e' = e_sequence e1"
      "e_watchers e' = e_watchers e1"
      by auto
    have "eget (e_trees e') = map_run (map write_of (take (Suc n) (m # ms))) (eget (e_trees e))"
      unfolding n(3) step(1) [OF m] by (simp flip: map_run_append)
    with n frame show ?thesis by (intro exI [of _ "Suc n"]) auto
  qed
qed


section \<open>The invariant and recovery\<close>

definition disk_ok :: "disk \<Rightarrow> (string \<times> bytes \<Rightarrow> bytes option) \<Rightarrow> bool" where
  "disk_ok d contents \<longleftrightarrow>
     sorted_wrt (<) (mkeys (snd d)) \<and>
     (\<exists>ms base. (\<forall>m\<in>set ms. wf_mut m) \<and> dir_holds (snd d) (map entry_of ms) \<and>
        loadSnapshot (fst d) = Inr base \<and> trees_inv base \<and>
        contents = map_run (map write_of ms) (eget base))"

lemma disk_okI:
  assumes "sorted_wrt (<) (mkeys (snd d))" "\<forall>m\<in>set ms. wf_mut m"
    "dir_holds (snd d) (map entry_of ms)" "loadSnapshot (fst d) = Inr base" "trees_inv base"
    "contents = map_run (map write_of ms) (eget base)"
  shows "disk_ok d contents"
  using assms unfolding disk_ok_def by blast

definition eng_ok :: "engine \<Rightarrow> bool" where
  "eng_ok e \<longleftrightarrow> trees_inv (e_trees e) \<and> disk_ok (disk_of e) (eget (e_trees e)) \<and>
     (\<not> e_closed e \<longrightarrow> wal_wf (e_wal e))"

lemma fold_mustTree: "eget (fold mustTree ns ts) = eget ts"
  by (induction ns arbitrary: ts) simp_all

lemma fold_mustTree_inv: "trees_inv ts \<Longrightarrow> trees_inv (fold mustTree ns ts)"
  by (induction ns arbitrary: ts) simp_all

lemma read_rows_inv: "read_rows n t r = Inr (t', r') \<Longrightarrow> bt_inv t \<Longrightarrow> bt_inv t'"
  by (induction n arbitrary: t r) (auto simp: rbind_Inr_conv)

lemma read_trees_inv: "read_trees n out r = Inr ts \<Longrightarrow> trees_inv out \<Longrightarrow> trees_inv ts"
proof (induction n arbitrary: out r)
  case (Suc n)
  then obtain name t r4 rc r3 where
    "read_rows rc NewBTree r3 = Inr (t, r4)" "read_trees n (mput name t out) r4 = Inr ts"
    by (auto simp: rbind_Inr_conv)
  with Suc show ?case
    using read_rows_inv trees_inv_mput by (metis bt_inv_New)
qed simp

lemma trees_inv_Nil [simp, wf_intros]: "trees_inv []"
  by (simp add: trees_inv_def)

lemma ReadSnapshot_inv:
  assumes "ReadSnapshot f = Inr ts"
  shows "trees_inv ts"
proof -
  obtain n r where "read_trees n [] r = Inr ts"
    using assms by (auto simp: ReadSnapshot_def rbind_Inr_conv split: if_splits)
  then show ?thesis by (rule read_trees_inv) simp
qed

lemma loadSnapshot_inv: "loadSnapshot s = Inr ts \<Longrightarrow> trees_inv ts"
  by (cases s) (simp_all add: loadSnapshot_def ReadSnapshot_inv)

text \<open>Opening a disk in the invariant succeeds and brings back the contents.\<close>

lemma OpenEngine_ok:
  assumes "disk_ok d contents"
  shows "\<exists>e. OpenEngine d ns = Inr e \<and> eng_ok e \<and> eget (e_trees e) = contents \<and>
    \<not> e_closed e \<and> e_sequence e = 0"
proof -
  obtain ms base where d: "sorted_wrt (<) (mkeys (snd d))" "\<forall>m\<in>set ms. wf_mut m"
    "dir_holds (snd d) (map entry_of ms)" "loadSnapshot (fst d) = Inr base" "trees_inv base"
    "contents = map_run (map write_of ms) (eget base)"
    using assms by (auto simp: disk_ok_def)
  let ?w = "OpenWAL (snd d)" and ?ts = "fold mustTree ns base"
  let ?T = "kv_run eupd edel (map write_of ms) ?ts"
  have w: "wal_wf ?w" "wal_holds ?w (map entry_of ms)"
    using OpenWAL_dir(1) OpenWAL_holds d by auto
  have "wal_Replay replay_apply ?w ?ts = Inr ?T"
    by (simp only: wal_Replay_holds [OF wal_wf_sorted [OF w(1)] w(2)] apply_entries_muts [OF d(2)])
  moreover have inv: "trees_inv ?T"
    using et.inv_run fold_mustTree_inv d(5) by blast
  moreover have g: "eget ?T = contents"
    by (simp only: et.get_run [OF fold_mustTree_inv [OF d(5)]] fold_mustTree d(6))
  moreover have "disk_ok (fst d, wal_dir ?w) contents"
    by (rule disk_okI [OF _ d(2) _ _ d(5,6)]) (simp_all add: w d wal_wf_sorted)
  ultimately show ?thesis
    using d(4) w(1) by (simp add: OpenEngine_def Let_def eng_ok_def disk_of_def)
qed

lemma eng_ok_tx_loop:
  assumes "tx_loop ms e = (e', r)" "\<forall>m\<in>set ms. wf_mut m" "eng_ok e" "\<not> e_closed e"
  shows "eng_ok e'"
proof -
  obtain ms0 base where d: "\<forall>m\<in>set ms0. wf_mut m" "wal_holds (e_wal e) (map entry_of ms0)"
    "loadSnapshot (e_snap e) = Inr base" "trees_inv base"
    "eget (e_trees e) = map_run (map write_of ms0) (eget base)"
    using assms(3) by (auto simp: eng_ok_def disk_ok_def disk_of_def)
  have ok: "trees_inv (e_trees e)" "wal_wf (e_wal e)"
    using assms(3,4) by (auto simp: eng_ok_def)
  obtain n where n: "eget (e_trees e') = map_run (map write_of (take n ms)) (eget (e_trees e))"
    "trees_inv (e_trees e')" "wal_wf (e_wal e')"
    "wal_holds (e_wal e') (map entry_of ms0 @ map entry_of (take n ms))" "e_snap e' = e_snap e"
    using tx_loop_prefix [OF assms(1,2) ok d(2)] by auto
  have "\<forall>m\<in>set (ms0 @ take n ms). wf_mut m"
    using d(1) assms(2) by (auto dest: in_set_takeD)
  moreover have "wal_holds (e_wal e') (map entry_of (ms0 @ take n ms))"
    using n(4) by simp
  moreover have "eget (e_trees e') = map_run (map write_of (ms0 @ take n ms)) (eget base)"
    by (simp add: n(1) d(5) map_run_append)
  ultimately have "disk_ok (disk_of e') (eget (e_trees e'))"
    using d(3,4) wal_wf_sorted [OF n(3)]
    by (intro disk_okI [where ms = "ms0 @ take n ms" and base = base]) (simp_all add: disk_of_def n(5))
  then show ?thesis using n(2,3) by (simp add: eng_ok_def)
qed

text \<open>A transaction of mutations that can be logged succeeds.\<close>

lemma tx_loop_ok:
  assumes "eng_ok e" "\<not> e_closed e" "\<forall>m\<in>set ms. wf_mut m \<and> encodable (entry_of m)"
  shows "\<exists>e'. tx_loop ms e = (e', None)"
  using assms
proof (induction ms arbitrary: e)
  case (Cons m ms)
  have wf: "wal_wf (e_wal e)" using Cons.prems by (simp add: eng_ok_def)
  obtain e1 r1 where s1: "tx_step m e = (e1, r1)" by (cases "tx_step m e")
  have "wal_file (e_wal e) \<noteq> None" using wf by (simp add: wal_wf_def)
  then have r1: "r1 = None"
    using wal_Append_ok [of "m_op m" "makeTreeKey (m_tree m) (m_key m)" "m_value m" "e_wal e"]
      Cons.prems(3) s1 by (auto simp: entry_of_def tx_step_def Let_def split: if_splits)
  have l1: "tx_loop [m] e = (e1, None)" using s1 r1 by simp
  have "eng_ok e1" using eng_ok_tx_loop [OF l1] Cons.prems by simp
  moreover have "\<not> e_closed e1" using tx_step_frame [OF s1] Cons.prems(2) by simp
  ultimately show ?case using Cons.IH [of e1] Cons.prems(3) s1 r1 by simp
qed simp

lemma eng_ok_cong:
  "eng_ok e \<Longrightarrow> e_trees e' = e_trees e \<Longrightarrow> e_wal e' = e_wal e \<Longrightarrow> e_snap e' = e_snap e \<Longrightarrow>
   e_closed e' = e_closed e \<Longrightarrow> eng_ok e'"
  by (simp add: eng_ok_def disk_of_def)

lemma notify_frame:
  "e_trees (notify_watchers now ms e) = e_trees e" "e_wal (notify_watchers now ms e) = e_wal e"
  "e_snap (notify_watchers now ms e) = e_snap e" "e_closed (notify_watchers now ms e) = e_closed e"
  by (simp_all add: notify_watchers_def Let_def)

lemma eng_ok_notify: "eng_ok e \<Longrightarrow> eng_ok (notify_watchers now ms e)"
  by (rule eng_ok_cong) (simp_all add: notify_frame)

lemma eng_ok_tx:
  assumes "\<And>ms. fn [] = Inr ms \<Longrightarrow> \<forall>m\<in>set ms. wf_mut m" "eng_ok e"
  shows "eng_ok (fst (eng_tx fn notify now e))"
proof (cases "e_closed e \<or> (\<exists>err. fn [] = Inl err) \<or> fn [] = Inr []")
  case True
  then show ?thesis using assms(2) by (auto simp: eng_tx_def)
next
  case False
  then obtain ms' where ms': "fn [] = Inr ms'" "ms' \<noteq> []" "\<not> e_closed e"
    by (cases "fn []") auto
  obtain e' r where l: "tx_loop ms' e = (e', r)" by (cases "tx_loop ms' e")
  have "eng_ok e'"
    using eng_ok_tx_loop [OF l assms(1) [OF ms'(1)] assms(2) ms'(3)] .
  then show ?thesis
    using l ms' by (cases r) (auto simp: eng_tx_def eng_ok_notify)
qed

lemma eng_tx_ok:
  assumes "eng_ok e" "\<not> e_closed e" "fn [] = Inr ms" "\<forall>m\<in>set ms. wf_mut m \<and> encodable (entry_of m)"
  shows "\<exists>e'. eng_tx fn notify now e = (e', None) \<and> eng_ok e' \<and> \<not> e_closed e' \<and>
    eget (e_trees e') = map_run (map write_of ms) (eget (e_trees e))"
proof (cases "ms = []")
  case True
  then show ?thesis using assms by (simp add: eng_tx_def)
next
  case False
  obtain es where es: "wal_holds (e_wal e) es" using assms(1) by (auto simp: eng_ok_def disk_ok_def disk_of_def)
  obtain e1 where l: "tx_loop ms e = (e1, None)" using tx_loop_ok [OF assms(1,2,4)] by blast
  have ok: "eng_ok e1" using eng_ok_tx_loop [OF l _ assms(1,2)] assms(4) by blast
  have "e_closed e1 = e_closed e \<and> eget (e_trees e1) = map_run (map write_of ms) (eget (e_trees e))"
    using tx_loop_prefix [OF l _ _ _ es] assms(1,2,4) by (auto simp: eng_ok_def)
  then show ?thesis
    using assms(2,3) False l ok by (auto simp: eng_tx_def notify_frame eng_ok_notify)
qed

lemma eng_ok_WatchTx: "eng_ok e \<Longrightarrow> eng_ok (fst (WatchTx e))"
  by (cases "e_closed e") (auto simp: WatchTx_def Let_def intro: eng_ok_cong)

lemma eng_ok_unsubscribe: "eng_ok e \<Longrightarrow> eng_ok (unsubscribe i e)"
  by (rule eng_ok_cong) (simp_all add: unsubscribe_def)

text \<open>A snapshot taken while the log is kept: replaying the log over it changes nothing.\<close>

lemma eng_ok_CreateSnapshot:
  assumes "eng_ok e" "CreateSnapshot e = (e', None)"
  shows "eng_ok e'" "e_trees e' = e_trees e"
proof -
  obtain f where f: "WriteSnapshot (e_trees e) = Inr f" "e' = e\<lparr>e_snap := Some f\<rparr>"
    using assms(2) by (auto simp: CreateSnapshot_def split: sum.splits)
  obtain ms base where d: "sorted_wrt (<) (mkeys (wal_dir (e_wal e)))" "\<forall>m\<in>set ms. wf_mut m"
    "wal_holds (e_wal e) (map entry_of ms)" "eget (e_trees e) = map_run (map write_of ms) (eget base)"
    using assms(1) by (auto simp: eng_ok_def disk_ok_def disk_of_def)
  have inv: "trees_inv (e_trees e)" using assms(1) by (simp add: eng_ok_def)
  have "eget (e_trees e) = map_run (map write_of ms) (eget (e_trees e))"
    using map_run_absorb [of "map write_of ms" "[]" "eget base"] by (simp add: d(4))
  then have "disk_ok (Some f, wal_dir (e_wal e)) (eget (e_trees e))"
    using d ReadSnapshot_Write [OF inv f(1)] inv
    by (intro disk_okI [where ms = ms and base = "e_trees e"]) (auto simp: loadSnapshot_def)
  then show "eng_ok e'" using assms(1) f(2) by (simp add: eng_ok_def disk_of_def)
  show "e_trees e' = e_trees e" using f(2) by simp
qed

lemma trees_inv_fold_put:
  "trees_inv m \<Longrightarrow> \<forall>t\<in>snd ` set ts. bt_inv t \<Longrightarrow> trees_inv (fold (\<lambda>(n, t) m. mput n t m) ts m)"
  by (induction ts arbitrary: m) (auto simp: trees_inv_mput)

lemma map_of_fold_put:
  "map_of (fold (\<lambda>(n, t) m. mput n t m) ts m) = map_of m ++ map_of (rev ts)"
proof (induction ts arbitrary: m)
  case (Cons nt ts)
  obtain n t where nt: "nt = (n, t)" by (cases nt)
  have eq: "map_of m ++ map_of (rev (nt # ts)) = (map_of m)(n \<mapsto> t) ++ map_of (rev ts)"
    by (rule ext) (simp add: nt map_add_def split: option.split)
  have st: "fold (\<lambda>(n, t) m. mput n t m) (nt # ts) m = fold (\<lambda>(n, t) m. mput n t m) ts (mput n t m)"
    by (simp add: nt)
  show ?case unfolding eq st Cons.IH map_of_mput by (rule refl)
qed simp

text \<open>The trees after a restore: those of the file, and an empty tree for every other name.\<close>

definition merged_trees :: "trees \<Rightarrow> trees \<Rightarrow> trees" where
  "merged_trees ts old = fold (\<lambda>(n, t) m. mput n t m) ts (map (\<lambda>(n, t). (n, NewBTree)) old)"

lemma merged_trees_inv: "trees_inv ts \<Longrightarrow> trees_inv old \<Longrightarrow> trees_inv (merged_trees ts old)"
  unfolding merged_trees_def
  by (intro trees_inv_fold_put) (auto simp: trees_inv_def comp_def case_prod_beta)

lemma eget_merged:
  assumes "trees_inv ts"
  shows "eget (merged_trees ts old) = eget ts"
proof
  fix p :: "string \<times> bytes"
  obtain n k where p: "p = (n, k)" by (cases p)
  have e: "map_of (map (\<lambda>(n, t). (n, NewBTree)) old) n = Some t \<Longrightarrow> bt_map t k = None" for t
    by (induction old) (auto split: if_splits)
  have "distinct (mkeys ts)" using assms by (simp add: trees_inv_def)
  then have "map_of (rev ts) = map_of ts" by (metis distinct_map distinct_rev map_of_inject_set rev_map set_rev)
  then have "map_of (merged_trees ts old) n =
      (case map_of ts n of None \<Rightarrow> map_of (map (\<lambda>(n, t). (n, NewBTree)) old) n | Some t \<Rightarrow> Some t)"
    by (simp add: merged_trees_def map_of_fold_put map_add_def)
  then show "eget (merged_trees ts old) p = eget ts p"
    using e by (auto simp: p split: option.splits)
qed

lemma eng_ok_RestoreSnapshot:
  assumes "eng_ok e" "RestoreSnapshot file e = (e', None)"
  shows "eng_ok e'" "\<exists>ts. ReadSnapshot file = Inr ts \<and> eget (e_trees e') = eget ts" "\<not> e_closed e'"
proof -
  obtain ts f where f: "ReadSnapshot file = Inr ts" "\<not> e_closed e"
    "WriteSnapshot (merged_trees ts (e_trees e)) = Inr f"
    "e' = e\<lparr>e_snap := Some f, e_wal := OpenWAL [], e_trees := merged_trees ts (e_trees e)\<rparr>"
    using assms(2) by (auto simp: RestoreSnapshot_def merged_trees_def Let_def split: sum.splits if_splits)
  have ts: "trees_inv ts" using ReadSnapshot_inv [OF f(1)] .
  have m: "trees_inv (merged_trees ts (e_trees e))"
    using assms(1) ts by (simp add: merged_trees_inv eng_ok_def)
  have "wal_holds (OpenWAL []) []" by (simp add: OpenWAL_holds dir_holds_empty)
  then have "disk_ok (disk_of e') (eget (e_trees e'))"
    using f(4) ReadSnapshot_Write [OF m f(3)] m wal_wf_sorted [OF OpenWAL_dir(1) [of "[]"]]
    by (intro disk_okI [of _ "[]"]) (auto simp: disk_of_def loadSnapshot_def)
  then show "eng_ok e'" using f(4) m OpenWAL_dir(1) [of "[]"] by (simp add: eng_ok_def)
  show "\<exists>ts. ReadSnapshot file = Inr ts \<and> eget (e_trees e') = eget ts"
    using f(1,4) eget_merged [OF ts] by auto
  show "\<not> e_closed e'" using f by simp
qed

lemma eng_ok_Close: "eng_ok e \<Longrightarrow> eng_ok (eng_Close e)"
  by (simp add: eng_ok_def eng_Close_def disk_of_def wal_Close_def)

section \<open>Every reachable engine\<close>

text \<open>
  The runs of the program over one data directory: any sequence of transactions whose tree names
  are not empty and hold no separator (all the names the program uses are such), watches, successful
  snapshots and restores, closes, and crashes between two operations followed by a restart.
\<close>

inductive storage_step :: "engine \<Rightarrow> engine \<Rightarrow> bool" where
  step_tx: "(\<And>ms. fn [] = Inr ms \<Longrightarrow> \<forall>m\<in>set ms. wf_mut m) \<Longrightarrow>
     storage_step e (fst (eng_tx fn notify now e))"
| step_watch: "storage_step e (fst (WatchTx e))"
| step_unsubscribe: "storage_step e (unsubscribe i e)"
| step_snapshot: "CreateSnapshot e = (e', None) \<Longrightarrow> storage_step e e'"
| step_restore: "RestoreSnapshot file e = (e', None) \<Longrightarrow> storage_step e e'"
| step_close: "storage_step e (eng_Close e)"
| step_restart: "OpenEngine (disk_of e) names = Inr e' \<Longrightarrow> storage_step e e'"

inductive storage_reachable :: "engine \<Rightarrow> bool" where
  reach_open: "OpenEngine (None, []) names = Inr e \<Longrightarrow> storage_reachable e"
| reach_step: "storage_reachable e \<Longrightarrow> storage_step e e' \<Longrightarrow> storage_reachable e'"

lemma disk_ok_empty: "disk_ok (None, []) Map.empty"
  by (rule disk_okI [of _ "[]" "[]"])
    (auto simp: loadSnapshot_def dir_holds_empty fun_eq_iff)

lemma eng_ok_step: "storage_step e e' \<Longrightarrow> eng_ok e \<Longrightarrow> eng_ok e'"
proof (induction rule: storage_step.induct)
  case (step_tx fn e notify now)
  then show ?case by (intro eng_ok_tx) auto
next
  case (step_restart e names e')
  then have "disk_ok (disk_of e) (eget (e_trees e))" by (simp add: eng_ok_def)
  from OpenEngine_ok [OF this, of names] step_restart(1) show ?case by auto
qed (auto intro: eng_ok_WatchTx eng_ok_unsubscribe eng_ok_CreateSnapshot eng_ok_RestoreSnapshot eng_ok_Close)

lemma reachable_eng_ok: "storage_reachable e \<Longrightarrow> eng_ok e"
proof (induction rule: storage_reachable.induct)
  case (reach_open names e)
  then show ?case using OpenEngine_ok [OF disk_ok_empty, of names] by auto
next
  case (reach_step e e')
  then show ?case by (blast intro: eng_ok_step)
qed

end
