(* ===== verification/StorageProps.thy ===== *)
theory StorageProps
  imports Recovery
begin

text \<open>
  The properties of the storage engine, over the operations of \<open>StorageEngine\<close> and the
  reachable engines of \<open>Recovery\<close>, and their instances at a small engine.
\<close>

section \<open>Torn segments\<close>

text \<open>A crash in the middle of a write leaves a prefix of the last segment: it loses \<open>n\<close> bytes.\<close>

definition lose_tail :: "nat \<Rightarrow> disk \<Rightarrow> disk" where
  "lose_tail n d =
     (fst d, butlast (snd d) @
       [(fst (last (snd d)), take (length (snd (last (snd d))) - n) (snd (last (snd d))))])"

lemma replay_segments_append:
  "replay_segments f (xs @ ys) s = rbind (replay_segments f xs s) (replay_segments f ys)"
  by (induction xs arbitrary: s) (auto split: sum.splits)

lemma OpenWAL_replay:
  "sorted_wrt (<) (mkeys d) \<Longrightarrow> d \<noteq> [] \<Longrightarrow> wal_Replay f (OpenWAL d) s = replay_segments f (map snd d) s"
  using OpenWAL_dir(2) [of d] by (simp add: wal_Replay_def segmentPaths_def sorted_lt_sort_key)

lemma replay_tail:
  assumes "dir_holds (d @ [(i, c)]) es" "\<And>s'. replayFile f tail s' = Inr s'"
  shows "replay_segments f (map snd (d @ [(i, c @ tail)])) s = apply_entries f es s"
proof -
  obtain ess where ess: "es = concat ess" "map snd (d @ [(i, c)]) = map enc_log ess"
    and enc: "\<forall>e\<in>set es. encodable e"
    using assms(1) by (auto simp: dir_holds_def)
  then obtain ess' l where l: "ess = ess' @ [l]" "map snd d = map enc_log ess'" "c = enc_log l"
    by (cases ess rule: rev_cases) auto
  have "replay_segments f (map snd d) s = apply_entries f (concat ess') s"
    using replay_segments_holds [OF l(2)] enc ess(1) l(1) by auto
  moreover have tail: "replay_segments f [c @ tail] s' = apply_entries f l s'" for s'
    using replayFile_log [of l f tail s'] enc ess(1) l(1) assms(2)
    by (cases "apply_entries f l s'") (auto simp: l(3))
  moreover have "replay_segments f [c @ tail] = apply_entries f l" using tail by (rule ext)
  ultimately show ?thesis
    by (simp add: replay_segments_append apply_entries_append ess(1) l(1)
        del: replay_segments.simps(2))
qed

text \<open>Replaying a disk whose last segment has a tail that the replay skips.\<close>

lemma OpenEngine_tail:
  assumes "sorted_wrt (<) (mkeys (d @ [(i, c)]))" "dir_holds (d @ [(i, c)]) (map entry_of ms)"
    "\<forall>m\<in>set ms. wf_mut m" "loadSnapshot snap = Inr base" "trees_inv base"
    "\<And>(s :: trees). replayFile replay_apply tail s = Inr s"
  shows "\<exists>e. OpenEngine (snap, d @ [(i, c @ tail)]) ns = Inr e \<and>
    eget (e_trees e) = map_run (map write_of ms) (eget base)"
proof -
  let ?ts = "fold mustTree ns base" and ?T = "kv_run eupd edel (map write_of ms) (fold mustTree ns base)"
  have "wal_Replay replay_apply (OpenWAL (d @ [(i, c @ tail)])) ?ts = Inr ?T"
    using OpenWAL_replay [of "d @ [(i, c @ tail)]" replay_apply ?ts] replay_tail [OF assms(2,6)] assms(1)
      apply_entries_muts [OF assms(3)] by simp
  moreover have "eget ?T = map_run (map write_of ms) (eget base)"
    by (simp only: et.get_run [OF fold_mustTree_inv [OF assms(5)]] fold_mustTree)
  ultimately show ?thesis
    using assms(4) by (simp add: OpenEngine_def)
qed

lemma eng_Get_cong: "eget (e_trees e) = eget (e_trees e') \<Longrightarrow> eng_Get e n k = eng_Get e' n k"
  by (simp add: eng_Get_eget)

text \<open>A header that starts with zero bytes: its length field reads as zero, and the replay stops.\<close>

lemma be_nat_zeros: "be_nat (replicate n (CHR 0x00)) = 0"
proof -
  have "be_nat_acc 0 (replicate n (CHR 0x00)) = 0"
    by (induction n) (simp_all add: byte_nat_def)
  then show ?thesis by (simp add: be_nat_def)
qed

lemma replayFile_zero: "replayFile f (replicate 4 (CHR 0x00) @ rest) s = Inr s"
proof -
  have "be_nat (take 4 (replicate 4 (CHR 0x00) @ rest)) = 0"
    by (simp add: be_nat_zeros)
  then show ?thesis by (simp add: replayFile.simps Let_def)
qed

lemma be4_small: "n < 256 \<Longrightarrow> be 4 n = replicate 3 (CHR 0x00) @ [nat_byte n]"
proof -
  assume n: "n < 256"
  have four: "(4 :: nat) = Suc (Suc (Suc (Suc 0)))" and three: "(3 :: nat) = Suc (Suc (Suc 0))" by simp_all
  show ?thesis
    unfolding four three be.simps replicate.simps using n by (simp add: nat_byte_def char_of_def)
qed

lemma replayFile_zero_tail:
  assumes "0 < z" "z \<le> 3" "length p < 256"
  shows "replayFile f (replicate z (CHR 0x00) @ frame p) s = Inr s"
proof -
  have "replicate z (CHR 0x00) @ frame p =
      replicate 4 (CHR 0x00) @ drop (4 - z) (frame p)"
  proof -
    have "z \<in> {1, 2, 3}" using assms by auto
    then have "frame p = replicate (4 - z) (CHR 0x00) @ drop (4 - z) (frame p)"
      using assms(3) by (auto simp: frame_def be4_small numeral_3_eq_3 numeral_2_eq_2)
    then have "replicate z (CHR 0x00) @ frame p =
        replicate z (CHR 0x00) @ replicate (4 - z) (CHR 0x00) @ drop (4 - z) (frame p)"
      by simp
    also have "\<dots> = replicate 4 (CHR 0x00) @ drop (4 - z) (frame p)"
      using assms by (simp add: replicate_add [symmetric] flip: append_assoc)
    finally show ?thesis .
  qed
  then show ?thesis by (simp only: replayFile_zero)
qed

section \<open>Properties\<close>

text \<open>C1: A crash that falls between two records of the log loses nothing, in every run whose crashes so far fell there as well: from
  empty files, through any transactions, watches, snapshots, restores, closes and restarts, reopening the files succeeds and every lookup gives
  what it gave before. What a crash inside a record leaves is C5; runs that go on writing after such a
  crash are not covered, since the code then loses writes (\<open>write_after_torn_tail_lost\<close>).\<close>

theorem crash_recovery:
  assumes "storage_reachable e"
  shows "\<exists>e'. OpenEngine (disk_of e) names = Inr e' \<and> storage_reachable e' \<and> \<not> e_closed e' \<and>
    (\<forall>n k. eng_Get e' n k = eng_Get e n k)"
proof -
  have "disk_ok (disk_of e) (eget (e_trees e))"
    using reachable_eng_ok [OF assms] by (simp add: eng_ok_def)
  from OpenEngine_ok [OF this, of names] obtain e' where e':
    "OpenEngine (disk_of e) names = Inr e'" "eget (e_trees e') = eget (e_trees e)" "\<not> e_closed e'"
    by blast
  then have "storage_reachable e'"
    using reach_step [OF assms step_restart] by blast
  with e' show ?thesis using eng_Get_cong by blast
qed

lemma tx_loop_snoc: "tx_loop (ms @ [m]) e = (e1, None) \<Longrightarrow> \<exists>e0. tx_loop ms e = (e0, None) \<and> tx_step m e0 = (e1, None)"
  by (induction ms arbitrary: e) (auto split: prod.splits option.splits)

lemma torn_step:
  assumes "eng_ok e" "\<not> e_closed e" "wf_mut m" "tx_step m e = (e1, None)"
    and "0 < n" "n \<le> length (enc_entry (entry_of m))"
  shows "\<exists>e2. OpenEngine (lose_tail n (disk_of e1)) names = Inr e2 \<and> (\<forall>t k. eng_Get e2 t k = eng_Get e t k)"
proof -
  obtain ms base where b: "sorted_wrt (<) (mkeys (wal_dir (e_wal e)))" "\<forall>m\<in>set ms. wf_mut m"
    "wal_holds (e_wal e) (map entry_of ms)" "loadSnapshot (e_snap e) = Inr base" "trees_inv base"
    "eget (e_trees e) = map_run (map write_of ms) (eget base)"
    using assms(1) by (auto simp: eng_ok_def disk_ok_def disk_of_def)
  have wf: "wal_wf (e_wal e)" "trees_inv (e_trees e)" using assms(1,2) by (auto simp: eng_ok_def)
  note st = assms(4)
  have ap: "wal_Append (m_op m) (makeTreeKey (m_tree m) (m_key m)) (m_value m) (e_wal e) = Inr (e_wal e1)"
    using tx_step_ok(3) [OF st assms(3) wf(2)] .
  have snap: "e_snap e1 = e_snap e" using tx_step_frame [OF st] by simp
  let ?buf = "enc_entry (entry_of m)"
  have enc: "encodable (entry_of m)"
    using wal_Append_encodable(1) [OF ap] by (simp add: entry_of_def)
  have torn: "replayFile replay_apply (take (length ?buf - n) ?buf) s = Inr s" for s :: trees
    unfolding enc_entry_def
    by (rule replayFile_torn) (use encodable_payload [OF enc] assms(5) in auto)
  have "\<exists>dd i c. sorted_wrt (<) (mkeys (dd @ [(i, c)])) \<and>
      dir_holds (dd @ [(i, c)]) (map entry_of ms) \<and>
      lose_tail n (disk_of e1) = (e_snap e, dd @ [(i, c @ take (length ?buf - n) ?buf)])"
    using wf(1) ap
  proof (cases rule: wal_Append_dir)
    case (same dd c)
    have "lose_tail n (disk_of e1) =
        (e_snap e, dd @ [(wal_segmentID (e_wal e), c @ take (length ?buf - n) ?buf)])"
      using same(2) snap assms(6) by (simp add: lose_tail_def disk_of_def entry_of_def)
    then show ?thesis using b(1,3) unfolding same(1) by blast
  next
    case rotated
    let ?dd = "wal_dir (e_wal e)" and ?i = "wal_segmentID (e_wal e) + 1"
    have "sorted_wrt (<) (mkeys (?dd @ [(?i, [])]))"
      using wal_Append_wf [OF wf(1) ap] rotated(1) by (simp add: wal_wf_def sorted_wrt_append)
    moreover have "lose_tail n (disk_of e1) = (e_snap e, ?dd @ [(?i, [] @ take (length ?buf - n) ?buf)])"
      using rotated(1) snap by (simp add: lose_tail_def disk_of_def entry_of_def)
    ultimately show ?thesis using dir_holds_new [OF b(3)] by blast
  qed
  then obtain dd i c where x: "sorted_wrt (<) (mkeys (dd @ [(i, c)]))"
    "dir_holds (dd @ [(i, c)]) (map entry_of ms)"
    "lose_tail n (disk_of e1) = (e_snap e, dd @ [(i, c @ take (length ?buf - n) ?buf)])"
    by blast
  from OpenEngine_tail [OF x(1,2) b(2,4,5) torn, of names] show ?thesis
    unfolding x(3) using b(6) eng_Get_cong by metis
qed

text \<open>C5: A crash while the record of a mutation is being written keeps the mutations of the transaction before it, and neither it nor
  those after it: whatever proper part of the record reached the file, reopening succeeds and every lookup gives what it gave when
  the records before it had been written. So a transaction of one mutation is done or not done, and a longer one leaves a beginning of it.\<close>

theorem torn_write_recovery:
  assumes "storage_reachable e" "\<not> e_closed e" "\<forall>m'\<in>set ms. wf_mut m'" "wf_mut m"
    and "tx_loop (ms @ [m]) e = (e1, None)" "0 < n" "n \<le> length (enc_entry (entry_of m))"
  shows "\<exists>e0 e2. tx_loop ms e = (e0, None) \<and> eget (e_trees e0) = map_run (map write_of ms) (eget (e_trees e)) \<and>
    OpenEngine (lose_tail n (disk_of e1)) names = Inr e2 \<and> (\<forall>t k. eng_Get e2 t k = eng_Get e0 t k)"
proof -
  have ok: "eng_ok e" using reachable_eng_ok assms(1) .
  then obtain es where es: "wal_holds (e_wal e) es" by (auto simp: eng_ok_def disk_ok_def disk_of_def)
  obtain e0 where l: "tx_loop ms e = (e0, None)" and st: "tx_step m e0 = (e1, None)"
    using tx_loop_snoc [OF assms(5)] by blast
  have e0: "eng_ok e0" using eng_ok_tx_loop [OF l assms(3) ok assms(2)] .
  have run: "e_closed e0 = e_closed e \<and> eget (e_trees e0) = map_run (map write_of ms) (eget (e_trees e))"
    using tx_loop_prefix [OF l assms(3) _ _ es] ok assms(2) by (auto simp: eng_ok_def)
  then obtain e2 where "OpenEngine (lose_tail n (disk_of e1)) names = Inr e2" "\<forall>t k. eng_Get e2 t k = eng_Get e0 t k"
    using torn_step [OF e0 _ assms(4) st assms(6,7), of names] assms(2) by auto
  then show ?thesis using l run by blast
qed

text \<open>the log does not cut off a torn tail when it is reopened. When a crash left one to three
  bytes of a record's length field (zero bytes, for every record below 64 KiB with two, below 16 MiB
  with one), the next small record is appended behind them without an error, and a later replay
  stops before it: the acknowledged write is lost.\<close>

theorem write_after_torn_tail_lost:
  assumes "sorted_wrt (<) (mkeys (d @ [(i, c)]))" "dir_holds (d @ [(i, c)]) es"
    and "0 < z" "z \<le> 3" "length k + length v < 249"
    and "length c + 300 \<le> defaultSegmentSize"
  shows "\<exists>w. wal_Append op k v (OpenWAL (d @ [(i, c @ replicate z (CHR 0x00))])) = Inr w \<and>
    wal_Replay f (OpenWAL (wal_dir w)) s = apply_entries f es s"
proof -
  let ?c = "c @ replicate z (CHR 0x00)" and ?buf = "enc_entry (op, k, v)"
  let ?w = "OpenWAL (d @ [(i, ?c)])"
  have s: "sorted_wrt (<) (mkeys (d @ [(i, ?c)]))" using assms(1) by simp
  have wf: "wal_wf ?w" and dir: "wal_dir ?w = d @ [(i, ?c)]"
    using OpenWAL_dir [OF s] by auto
  have id: "wal_segmentID ?w = i" "wal_offset ?w = length ?c" "wal_file ?w = Some i"
    using wf by (auto simp: wal_wf_def dir)
  have size: "wal_segmentSize ?w = defaultSegmentSize"
    by (simp add: OpenWAL_def openLatest_def openSegment_def Let_def split: option.split)
  have enc: "encodable (op, k, v)" using assms(5) by simp
  have fit: "wal_offset ?w + length ?buf \<le> wal_segmentSize ?w"
    using assms(4,5,6) by (simp add: id size enc_entry_def)
  have i: "i \<notin> set (mkeys d)" using assms(1) by (auto simp: sorted_wrt_append)
  have ap: "wal_Append op k v ?w = Inr (file_write ?buf ?w)"
    using fit by (simp add: wal_Append_eq [OF enc] rotateIfNeeded_def id)
  have d': "wal_dir (file_write ?buf ?w) = d @ [(i, c @ (replicate z (CHR 0x00) @ ?buf))]"
    by (simp add: file_write_last [OF dir i id(3)])
  have "replayFile f (replicate z (CHR 0x00) @ ?buf) s' = Inr s'" for s'
    unfolding enc_entry_def using assms(3,4,5) by (intro replayFile_zero_tail) auto
  then have "wal_Replay f (OpenWAL (wal_dir (file_write ?buf ?w))) s = apply_entries f es s"
    using OpenWAL_replay [of "wal_dir (file_write ?buf ?w)" f s]
      replay_tail [OF assms(2), of f "replicate z (CHR 0x00) @ ?buf" s] s
    by (simp add: d')
  with ap show ?thesis by blast
qed

text \<open>C17: a transaction that returns no error has applied all its mutations, in order, as if the
  trees were one map; one that returns an error has applied a prefix of them.\<close>

theorem tx_effect:
  assumes "storage_reachable e" "\<not> e_closed e" "fn [] = Inr ms" "\<forall>m\<in>set ms. wf_mut m"
    and "eng_tx fn notify now e = (e', r)"
  shows "\<exists>n\<le>length ms. (r = None \<longrightarrow> n = length ms) \<and>
    eget (e_trees e') = map_run (map write_of (take n ms)) (eget (e_trees e))"
proof (cases "ms = []")
  case True
  then show ?thesis using assms(2,3,5) by (auto simp: eng_tx_def)
next
  case False
  have ok: "eng_ok e" using reachable_eng_ok assms(1) .
  then obtain es where es: "wal_holds (e_wal e) es" by (auto simp: eng_ok_def disk_ok_def disk_of_def)
  obtain e1 r1 where l: "tx_loop ms e = (e1, r1)" by (cases "tx_loop ms e")
  have "r1 = r \<and> e_trees e' = e_trees e1"
    using assms(2,3,5) l False by (cases r1) (auto simp: eng_tx_def notify_frame split: if_splits)
  then show ?thesis
    using tx_loop_prefix [OF l assms(4) _ _ es] ok assms(2) by (auto simp: eng_ok_def)
qed

text \<open>a transaction is not atomic: when a later mutation cannot be logged (its tree key is
  longer than 65,535 bytes) the transaction returns an error, but an earlier mutation is applied
  and is there after a restart.\<close>

theorem tx_not_atomic:
  assumes "storage_reachable e" "\<not> e_closed e" "wf_mut m1" "wf_mut m2" "m_op m1 = OpPut"
    and "encodable (entry_of m1)" "\<not> encodable (entry_of m2)"
  shows "\<exists>e' err e2. eng_tx (\<lambda>ms. Inr [m1, m2]) True now e = (e', Some err) \<and>
    eng_Get e' (m_tree m1) (m_key m1) = Inr (m_value m1) \<and>
    OpenEngine (disk_of e') names = Inr e2 \<and> eng_Get e2 (m_tree m1) (m_key m1) = Inr (m_value m1)"
proof -
  have ok: "eng_ok e" using reachable_eng_ok assms(1) .
  then have wf: "wal_wf (e_wal e)" "trees_inv (e_trees e)" using assms(2) by (auto simp: eng_ok_def)
  obtain e1 r1 where s1: "tx_step m1 e = (e1, r1)" by (cases "tx_step m1 e")
  have "wal_file (e_wal e) \<noteq> None" using wf(1) by (simp add: wal_wf_def)
  then have "r1 = None"
    using wal_Append_ok [of "m_op m1" "makeTreeKey (m_tree m1) (m_key m1)" "m_value m1" "e_wal e"]
      assms(6) s1 by (auto simp: entry_of_def tx_step_def Let_def split: if_splits)
  note t1 = tx_step_ok [OF s1 [unfolded this] assms(3) wf(2)]
  obtain e2 r2 where s2: "tx_step m2 e1 = (e2, r2)" by (cases "tx_step m2 e1")
  then obtain err where err: "r2 = Some err"
    using wal_Append_fails [of "m_op m2" "makeTreeKey (m_tree m2) (m_key m2)" "m_value m2" "e_wal e1"]
      assms(7) by (auto simp: entry_of_def tx_step_def Let_def split: sum.splits)
  have tx: "eng_tx (\<lambda>ms. Inr [m1, m2]) True now e = (e2, Some err)"
    using s1 s2 \<open>r1 = None\<close> err assms(2) by (simp add: eng_tx_def)
  have g: "eget (e_trees e2) (m_tree m1, m_key m1) = Some (m_value m1)"
    using tx_step_err(1) [OF s2 [unfolded err] t1(2)] assms(5) by (simp add: t1(1) write_of_def)
  have "storage_reachable e2"
    using reach_step [OF assms(1) step_tx [of "\<lambda>ms. Inr [m1, m2]" e True now]] assms(3,4) tx by simp
  then obtain e3 where "OpenEngine (disk_of e2) names = Inr e3" "eget (e_trees e3) = eget (e_trees e2)"
    using OpenEngine_ok [of "disk_of e2" "eget (e_trees e2)" names] reachable_eng_ok
    by (auto simp: eng_ok_def)
  with tx g show ?thesis by (auto simp del: eget.simps simp: eng_Get_eget)
qed

lemma restored_contents:
  assumes "storage_reachable e" "CreateSnapshot e = (e1, None)" "e_snap e1 = Some file"
    and "storage_reachable e2" "RestoreSnapshot file e2 = (e3, None)"
  shows "\<exists>e4. OpenEngine (disk_of e3) names = Inr e4 \<and>
    (\<forall>n k. eng_Get e3 n k = eng_Get e n k \<and> eng_Get e4 n k = eng_Get e n k)"
proof -
  have ok: "eng_ok e" "eng_ok e2" using reachable_eng_ok assms by auto
  have "WriteSnapshot (e_trees e) = Inr file"
    using assms(2,3) by (auto simp: CreateSnapshot_def split: sum.splits)
  then have "ReadSnapshot file = Inr (e_trees e)"
    using ReadSnapshot_Write ok(1) by (simp add: eng_ok_def)
  then have g: "eget (e_trees e3) = eget (e_trees e)"
    using eng_ok_RestoreSnapshot [OF ok(2) assms(5)] by auto
  have "disk_ok (disk_of e3) (eget (e_trees e3))"
    using eng_ok_RestoreSnapshot(1) [OF ok(2) assms(5)] by (simp add: eng_ok_def)
  from OpenEngine_ok [OF this, of names] g show ?thesis using eng_Get_cong by metis
qed

text \<open>C15: a backup restores: the snapshot that one engine wrote, restored into any other open
  engine, replaces its contents by those of the first, and they survive a crash.\<close>

theorem backup_restore:
  assumes "storage_reachable e" "CreateSnapshot e = (e1, None)" "e_snap e1 = Some file"
    and "storage_reachable e2" "RestoreSnapshot file e2 = (e3, None)"
  shows "\<exists>e4. OpenEngine (disk_of e3) names = Inr e4 \<and>
    (\<forall>n k. eng_Get e3 n k = eng_Get e n k \<and> eng_Get e4 n k = eng_Get e n k)"
  by (rule restored_contents [OF assms])

text \<open>C21: the tree is an ordered map: after any sequence of \<^verbatim>\<open>Set\<close> and \<^verbatim>\<open>Delete\<close> its
  lookups are those of a plain map under the same writes, its snapshot lists that map in key order,
  and \<^verbatim>\<open>Iterate\<close> runs its callback over exactly the rows of the range, in order, until it stops.\<close>

theorem btree_refines_map:
  "let t = kv_run bt_Set (\<lambda>k t. snd (bt_Delete k t)) ws NewBTree in
     bt_Get t = map_run ws Map.empty \<and> map_of (bt_Snapshot t) = map_run ws Map.empty \<and>
     sorted_wrt (<) (map fst (bt_Snapshot t)) \<and> bt_Len t = length (bt_Snapshot t) \<and>
     bt_Iterate t start end fn s = run_rows fn (filter (\<lambda>(k, v). in_range start end k) (bt_Snapshot t)) s"
proof -
  let ?t = "kv_run bt_Set (\<lambda>k t. snd (bt_Delete k t)) ws NewBTree"
  have inv: "bt_inv ?t" by (rule bt.inv_run) simp
  have g: "bt_Get ?t = map_run ws (bt_Get NewBTree)" by (rule bt.get_run) simp
  have e: "bt_Get NewBTree = Map.empty" "bt_Get ?t = bt_map ?t" by (simp_all add: fun_eq_iff)
  have len: "bt_Len ?t = length (bt_Snapshot ?t)"
    using bt_Len_keys [OF inv] by (simp add: bt_Snapshot_def)
  show ?thesis
    unfolding Let_def
    using g e map_of_Snapshot [OF inv] bt_inv_sorted [OF inv] len bt_Iterate_rows [OF inv]
    by simp
qed

text \<open>A transaction that returns no error offers one event to every watcher, with the next
  sequence number and its mutations in order; a watcher that is 32 events behind misses it, and no
  channel ever holds more than 32. A silent transaction offers nothing.\<close>

theorem watch_delivery:
  assumes "eng_tx fn notify now e = (e', None)" "\<not> e_closed e" "fn [] = Inr ms" "ms \<noteq> []"
    and "map_of (e_watchers e) i = Some ch"
  shows "map_of (e_watchers e') i = Some (if notify \<and> length ch < 32
      then ch @ [\<lparr>ev_sequence = i64 (e_sequence e + 1), ev_timestamp = now, ev_mutations = ms\<rparr>] else ch)"
    (is "?l = Some ?r")
proof -
  obtain e1 where l: "tx_loop ms e = (e1, None)"
    and e': "e' = (if notify then notify_watchers now ms e1 else e1)"
    using assms by (auto simp: eng_tx_def split: prod.splits option.splits if_splits)
  have fr: "e_watchers e1 = e_watchers e \<and> e_sequence e1 = e_sequence e"
    using l
  proof (induction ms arbitrary: e)
    case (Cons m ms)
    then show ?case
      using tx_step_frame [of m e] by (auto split: prod.splits option.splits)
  qed simp
  have m: "map_of (map (\<lambda>(i, c). (i, offer evt c)) ws) i = map_option (offer evt) (map_of ws i)" for evt ws
    by (induction ws) auto
  show ?thesis
    using assms(5) fr by (simp add: e' notify_watchers_def m Let_def) (simp add: offer_def)
qed

text \<open>An update of a row keeps every secondary index in step with its table: the index's tree
  holds exactly the composed keys of the rows, with no stale and no missing entry.\<close>

theorem index_update_in_step:
  assumes "ix_inv m" "(name, fn) \<in> set (ix_indexes m)" "map_of (ix_trees m) name = Some t"
    and "index_in_step fn tab t" "sep_free pk" "\<forall>p\<in>dom tab. sep_free p"
    and "old = (case tab pk of None \<Rightarrow> [] | Some v \<Rightarrow> v)"
    and "new = (case w of None \<Rightarrow> [] | Some v \<Rightarrow> v)"
  shows "\<exists>t'. map_of (ix_trees (ix_Update pk old new m)) name = Some t' \<and>
    index_in_step fn (tab(pk := w)) t'"
  using ix_update_tree_step [OF assms(4-7) refl assms(8)]
    map_of_update_loop [of "ix_indexes m" name fn pk old new "ix_trees m"] assms(1-3)
  by (simp add: ix_Update_def ix_inv_def)

section \<open>Instances\<close>

text \<open>An engine on an empty directory with one tree, and the same engine after one write.\<close>

definition put_mut :: "bytes \<Rightarrow> bytes \<Rightarrow> mutation" where
  "put_mut k v = \<lparr>m_tree = ''leases'', m_op = OpPut, m_key = k, m_value = v\<rparr>"

definition demo0 :: engine where
  "demo0 = projr (OpenEngine (None, []) [''leases''])"

definition demo1 :: engine where
  "demo1 = fst (eng_tx (\<lambda>ms. Inr [put_mut ''k'' ''v'']) True 0 demo0)"

lemma demo0_open: "OpenEngine (None, []) [''leases''] = Inr demo0"
  using OpenEngine_ok [OF disk_ok_empty, of "[''leases'']"] by (auto simp: demo0_def)

lemma demo0_eq:
  "demo0 = \<lparr>e_trees = [(''leases'', NewBTree)], e_index = NewIndexManager,
     e_wal = \<lparr>wal_dir = [(1, [])], wal_segmentSize = defaultSegmentSize, wal_file = Some 1,
       wal_offset = 0, wal_segmentID = 1\<rparr>,
     e_closed = False, e_sequence = 0, e_nextWatchID = 0, e_watchers = [], e_snap = None\<rparr>"
  by (simp add: demo0_def OpenEngine_def loadSnapshot_def mustTree_def OpenWAL_def openLatest_def
      openSegment_def wal_Replay_def segmentPaths_def replayFile_short)

lemma demo0_reachable: "storage_reachable demo0"
  using reach_open [OF demo0_open] .

lemma put_mut_wf: "wf_mut (put_mut k v)"
  by (simp add: put_mut_def wf_mut_def wf_name_def)

lemma demo1_tx: "eng_tx (\<lambda>ms. Inr [put_mut ''k'' ''v'']) True 0 demo0 = (demo1, None)"
  by (simp add: demo1_def demo0_eq eng_tx_def tx_step_def put_mut_def makeTreeKey_def Let_def
      wal_Append_eq rotateIfNeeded_def defaultSegmentSize_def enc_entry_def mustTree_def)

lemma demo1_reachable: "storage_reachable demo1"
  using reach_step [OF demo0_reachable step_tx [of "\<lambda>ms. Inr [put_mut ''k'' ''v'']" demo0 True 0]]
  by (simp add: demo1_tx put_mut_wf)

lemma demo1_open: "\<not> e_closed demo0" "\<not> e_closed demo1"
  by (simp_all add: demo1_def demo0_eq eng_tx_def tx_step_def put_mut_def makeTreeKey_def Let_def
      wal_Append_eq rotateIfNeeded_def defaultSegmentSize_def enc_entry_def mustTree_def
      notify_watchers_def)

lemma demo1_trees: "e_trees demo1 = [(''leases'', bt_Set ''k'' ''v'' NewBTree)]"
  by (simp add: demo1_def demo0_eq eng_tx_def tx_step_def put_mut_def makeTreeKey_def Let_def
      wal_Append_eq rotateIfNeeded_def defaultSegmentSize_def enc_entry_def mustTree_def
      notify_watchers_def tree_of_def)

lemma demo1_get: "eng_Get demo1 ''leases'' ''k'' = Inr ''v''"
  by (simp add: eng_Get_def demo1_trees)

theorem crash_recovery_witness:
  "\<exists>e'. OpenEngine (disk_of demo1) [] = Inr e' \<and> eng_Get e' ''leases'' ''k'' = Inr ''v''"
  using crash_recovery [OF demo1_reachable, of "[]"] demo1_get by auto

text \<open>The second record of a transaction is torn: its first write is kept.\<close>

theorem torn_write_recovery_witness:
  "\<exists>e1 e2. tx_loop [put_mut ''k'' ''v'', put_mut ''l'' ''w''] demo0 = (e1, None) \<and>
     OpenEngine (lose_tail 5 (disk_of e1)) [] = Inr e2 \<and>
     eng_Get e2 ''leases'' ''k'' = Inr ''v'' \<and> eng_Get e2 ''leases'' ''l'' = Inl ErrNotFound"
proof -
  let ?k = "put_mut ''k'' ''v''" and ?l = "put_mut ''l'' ''w''"
  have "5 \<le> length (enc_entry (entry_of ?l))" by (simp add: enc_entry_def entry_of_def put_mut_def makeTreeKey_def)
  moreover have "\<exists>e1. tx_loop [?k, ?l] demo0 = (e1, None)"
    using tx_loop_ok [of demo0 "[?k, ?l]"] reachable_eng_ok [OF demo0_reachable] demo1_open(1) put_mut_wf
    by (simp add: entry_of_def put_mut_def makeTreeKey_def)
  then obtain e1 where e1: "tx_loop ([?k] @ [?l]) demo0 = (e1, None)" by auto
  ultimately obtain e0 e2 where "eget (e_trees e0) = map_run (map write_of [?k]) (eget (e_trees demo0))"
    "OpenEngine (lose_tail 5 (disk_of e1)) [] = Inr e2" "\<forall>t k. eng_Get e2 t k = eng_Get e0 t k"
    using torn_write_recovery [OF demo0_reachable demo1_open(1) _ put_mut_wf e1, of 5 "[]"] put_mut_wf by auto
  moreover from this(1) have "eng_Get e0 ''leases'' ''k'' = Inr ''v''" "eng_Get e0 ''leases'' ''l'' = Inl ErrNotFound"
    by (simp_all add: eng_Get_eget write_of_def put_mut_def demo0_eq)
  ultimately show ?thesis using e1 by auto
qed

theorem write_after_torn_tail_lost_witness:
  "\<exists>w. wal_Append OpPut ''k'' ''v'' (OpenWAL [(1, [CHR 0x00, CHR 0x00, CHR 0x00])]) = Inr w \<and>
     wal_Replay (\<lambda>op k v s. Inr (s @ [(k, v)])) (OpenWAL (wal_dir w)) [] = Inr []"
proof -
  have r: "replicate 3 (CHR 0x00) = [CHR 0x00, CHR 0x00, CHR 0x00]" by (simp add: numeral_3_eq_3)
  show ?thesis
    using write_after_torn_tail_lost [of "[]" 1 "[]" "[]" 3 "''k''" "''v''" OpPut
        "\<lambda>op k v s. Inr (s @ [(k, v)])" "[]"] dir_holds_empty(1) [of 1]
    by (simp add: defaultSegmentSize_def r)
qed

theorem tx_effect_witness:
  "eget (e_trees demo1) = map_run [((''leases'', ''k''), Some ''v'')] (eget (e_trees demo0))"
  using tx_effect [OF demo0_reachable demo1_open(1) _ _ demo1_tx, of "[put_mut ''k'' ''v'']"] put_mut_wf
  by (auto simp: write_of_def put_mut_def simp del: eget.simps)

theorem tx_not_atomic_witness:
  "\<exists>e' err e2. eng_tx (\<lambda>ms. Inr [put_mut ''k'' ''v'', put_mut (replicate 65536 (CHR ''x'')) ''v'']) True 0 demo0
      = (e', Some err) \<and> OpenEngine (disk_of e') [] = Inr e2 \<and> eng_Get e2 ''leases'' ''k'' = Inr ''v''"
proof -
  have "encodable (entry_of (put_mut ''k'' ''v''))"
    "\<not> encodable (entry_of (put_mut (replicate 65536 (CHR ''x'')) ''v''))"
    by (simp_all add: entry_of_def put_mut_def makeTreeKey_def)
  from tx_not_atomic [OF demo0_reachable demo1_open(1) put_mut_wf put_mut_wf _ this, of 0 "[]"]
  show ?thesis by (auto simp: put_mut_def)
qed

definition demo_backup :: bytes where
  "demo_backup = projr (WriteSnapshot (e_trees demo1))"

lemma demo_backup_ok: "WriteSnapshot (e_trees demo1) = Inr demo_backup"
  by (simp add: demo_backup_def demo1_trees WriteSnapshot_def safeUint32FromInt_def
      safeUint16FromInt_def bt_Snapshot_def bt_Set_def bt_val_def NewBTree_def Let_def)

theorem backup_restore_witness:
  "\<exists>e3. RestoreSnapshot demo_backup demo0 = (e3, None) \<and> eng_Get e3 ''leases'' ''k'' = Inr ''v''"
proof -
  have c: "CreateSnapshot demo1 = (demo1\<lparr>e_snap := Some demo_backup\<rparr>, None)"
    by (simp add: CreateSnapshot_def demo_backup_ok)
  have "trees_inv (e_trees demo1)"
    using reachable_eng_ok [OF demo1_reachable] by (simp add: eng_ok_def)
  then have "ReadSnapshot demo_backup = Inr (e_trees demo1)"
    using ReadSnapshot_Write demo_backup_ok by blast
  then obtain e3 where r: "RestoreSnapshot demo_backup demo0 = (e3, None)"
    using demo_backup_ok by (simp add: RestoreSnapshot_def demo0_eq demo1_trees Let_def)
  then show ?thesis
    using backup_restore [OF demo1_reachable c _ demo0_reachable r, of "[]"] demo1_get by auto
qed

theorem watch_delivery_witness:
  "map_of (e_watchers (fst (eng_tx (\<lambda>ms. Inr [put_mut ''k'' ''v'']) True 7 (fst (WatchTx demo0))))) 1 =
     Some [\<lparr>ev_sequence = 1, ev_timestamp = 7, ev_mutations = [put_mut ''k'' ''v'']\<rparr>]"
proof -
  have "snd (eng_tx (\<lambda>ms. Inr [put_mut ''k'' ''v'']) True 7 (fst (WatchTx demo0))) = None"
    by (simp add: WatchTx_def demo0_eq eng_tx_def tx_step_def put_mut_def makeTreeKey_def Let_def
      wal_Append_eq rotateIfNeeded_def defaultSegmentSize_def enc_entry_def mustTree_def)
  then have "eng_tx (\<lambda>ms. Inr [put_mut ''k'' ''v'']) True 7 (fst (WatchTx demo0)) =
      (fst (eng_tx (\<lambda>ms. Inr [put_mut ''k'' ''v'']) True 7 (fst (WatchTx demo0))), None)"
    by (metis prod.collapse)
  from watch_delivery [OF this, of "[put_mut ''k'' ''v'']" 1 "[]"] show ?thesis
    by (simp add: WatchTx_def demo0_eq Let_def)
qed

theorem index_update_in_step_witness:
  "\<exists>t'. map_of (ix_trees (ix_Update ''p'' [] ''v'' \<lparr>ix_indexes = [(''mac'', \<lambda>k v. [v])],
      ix_trees = [(''mac'', NewBTree)]\<rparr>)) ''mac'' = Some t' \<and>
     index_in_step (\<lambda>k v. [v]) [''p'' \<mapsto> ''v''] t'"
  using index_update_in_step [of "\<lparr>ix_indexes = [(''mac'', \<lambda>k v. [v])], ix_trees = [(''mac'', NewBTree)]\<rparr>"
      "''mac''" "\<lambda>k v. [v]" NewBTree Map.empty "''p''" "[]" "''v''" "Some ''v''"]
  by (simp add: ix_inv_def index_in_step_def sep_free_def)

end
