(* ===== verification/GoStrings.thy ===== *)
theory GoStrings
  imports Prelude
begin

text \<open>
  What the code uses of Go's \<^verbatim>\<open>strings\<close>, \<^verbatim>\<open>strconv\<close> and \<^verbatim>\<open>fmt\<close>:
  white space, letter case, prefixes, decimal and hexadecimal digits. White space is every code
  point that Go's \<^verbatim>\<open>unicode.IsSpace\<close> accepts, as its UTF-8 bytes. Letter case changes the
  ASCII letters only: the strings whose case the code changes are MAC addresses, names and roles.
\<close>

section \<open>White space and letter case\<close>

definition go_spaces :: "bytes list" where
  "go_spaces =
     [[CHR 0x09], [CHR 0x0A], [CHR 0x0B], [CHR 0x0C], [CHR 0x0D], [CHR 0x20],
      [CHR 0xC2, CHR 0x85], [CHR 0xC2, CHR 0xA0], [CHR 0xE1, CHR 0x9A, CHR 0x80],
      [CHR 0xE2, CHR 0x80, CHR 0xA8], [CHR 0xE2, CHR 0x80, CHR 0xA9], [CHR 0xE2, CHR 0x80, CHR 0xAF],
      [CHR 0xE2, CHR 0x81, CHR 0x9F], [CHR 0xE3, CHR 0x80, CHR 0x80]] @
     map (\<lambda>n. [CHR 0xE2, CHR 0x80, nat_byte n]) [0x80..<0x8B]"

definition starts_with :: "bytes \<Rightarrow> bytes \<Rightarrow> bool" where
  "starts_with p s \<longleftrightarrow> take (length p) s = p"

function trim_by :: "bytes list \<Rightarrow> bytes \<Rightarrow> bytes" where
  "trim_by ws s =
     (case filter (\<lambda>w. w \<noteq> [] \<and> starts_with w s) ws of
        [] \<Rightarrow> s
      | w # _ \<Rightarrow> trim_by ws (drop (length w) s))"
  by pat_completeness auto
termination
proof (relation "measure (\<lambda>(ws, s). length s)", goal_cases)
  case (2 ws s w xs)
  then have "w \<in> set (filter (\<lambda>w. w \<noteq> [] \<and> starts_with w s) ws)" by simp
  then have "w \<noteq> []" "starts_with w s" by auto
  then have "s \<noteq> []" by (auto simp: starts_with_def)
  with \<open>w \<noteq> []\<close> show ?case by simp
qed simp

declare trim_by.simps [simp del]

definition TrimSpace :: "bytes \<Rightarrow> bytes" where
  "TrimSpace s = rev (trim_by (map rev go_spaces) (rev (trim_by go_spaces s)))"

definition upper_char :: "byte \<Rightarrow> byte" where
  "upper_char c = (if CHR ''a'' \<le> c \<and> c \<le> CHR ''z'' then nat_byte (byte_nat c - 32) else c)"

definition lower_char :: "byte \<Rightarrow> byte" where
  "lower_char c = (if CHR ''A'' \<le> c \<and> c \<le> CHR ''Z'' then nat_byte (byte_nat c + 32) else c)"

definition ToUpper :: "bytes \<Rightarrow> bytes" where "ToUpper s = map upper_char s"
definition ToLower :: "bytes \<Rightarrow> bytes" where "ToLower s = map lower_char s"

text \<open>\<^verbatim>\<open>strings.EqualFold\<close> on ASCII.\<close>

definition EqualFold :: "bytes \<Rightarrow> bytes \<Rightarrow> bool" where
  "EqualFold a b \<longleftrightarrow> ToLower a = ToLower b"

text \<open>A string that begins and ends with a printable ASCII byte is its own trim.\<close>

definition printable :: "byte \<Rightarrow> bool" where
  "printable c \<longleftrightarrow> 0x20 < byte_nat c \<and> byte_nat c < 0x7F"

lemma space_ends: "w \<in> set go_spaces \<Longrightarrow> w \<noteq> [] \<and> \<not> printable (hd w) \<and> \<not> printable (last w)"
  by (auto simp: go_spaces_def printable_def byte_nat_def nat_byte_def upt_rec)

lemma trim_by_stop:
  assumes "\<And>w. w \<in> set ws \<Longrightarrow> w \<noteq> [] \<Longrightarrow> hd w \<noteq> c"
  shows "trim_by ws (c # s) = c # s"
proof -
  have "hd w = c" if "w \<noteq> []" "starts_with w (c # s)" for w
    using that by (cases w) (auto simp: starts_with_def)
  then have "filter (\<lambda>w. w \<noteq> [] \<and> starts_with w (c # s)) ws = []"
    using assms by (auto simp: filter_empty_conv)
  then show ?thesis by (simp add: trim_by.simps)
qed

lemma TrimSpace_printable:
  assumes "s \<noteq> []" "printable (hd s)" "printable (last s)"
  shows "TrimSpace s = s"
proof -
  obtain c t where s: "s = c # t" using assms(1) by (cases s) auto
  have "trim_by go_spaces s = s"
    unfolding s using space_ends assms(2) by (intro trim_by_stop) (auto simp: s)
  moreover obtain d u where r: "rev s = d # u" using assms(1) by (cases "rev s") auto
  then have d: "d = last s" by (metis assms(1) hd_rev list.sel(1))
  have "trim_by (map rev go_spaces) (rev s) = rev s"
    unfolding r using space_ends assms(3) d by (intro trim_by_stop) (metis hd_rev imageE list.set_map)
  ultimately show ?thesis by (simp add: TrimSpace_def)
qed

text \<open>What the trimming leaves is trimmed, also in upper case.\<close>

lemma trim_by_clean: "w \<in> set ws \<Longrightarrow> w \<noteq> [] \<Longrightarrow> \<not> starts_with w (trim_by ws s)"
proof (induction ws s rule: trim_by.induct)
  case (1 ws s)
  show ?case
  proof (cases "filter (\<lambda>w. w \<noteq> [] \<and> starts_with w s) ws")
    case Nil
    then have "\<not> starts_with w s" using "1.prems" by (auto simp: filter_empty_conv)
    then show ?thesis using Nil by (subst trim_by.simps) simp
  next
    case (Cons v vs)
    then have "\<not> starts_with w (trim_by ws (drop (length v) s))" using "1.IH" "1.prems" by blast
    then show ?thesis using Cons by (subst trim_by.simps) simp
  qed
qed

lemma trim_by_id: "(\<And>w. w \<in> set ws \<Longrightarrow> w \<noteq> [] \<Longrightarrow> \<not> starts_with w s) \<Longrightarrow> trim_by ws s = s"
  by (subst trim_by.simps) (auto split: list.split simp: filter_eq_Cons_iff)

lemma trim_by_suffix: "\<exists>n. trim_by ws s = drop n s"
proof (induction ws s rule: trim_by.induct)
  case (1 ws s)
  show ?case
  proof (cases "filter (\<lambda>w. w \<noteq> [] \<and> starts_with w s) ws")
    case Nil
    then have "trim_by ws s = drop 0 s" by (subst trim_by.simps) simp
    then show ?thesis by blast
  next
    case (Cons v vs)
    then obtain n where "trim_by ws (drop (length v) s) = drop n (drop (length v) s)" using "1.IH" by blast
    then have "trim_by ws s = drop (n + length v) s" using Cons by (subst trim_by.simps) simp
    then show ?thesis by blast
  qed
qed

lemma starts_with_take: "starts_with w (take n s) \<Longrightarrow> starts_with w s"
proof -
  assume a: "starts_with w (take n s)"
  then have e: "take (length w) (take n s) = w" by (simp add: starts_with_def)
  then have "length w \<le> n" by (metis length_take min.bounded_iff min.cobounded1 min.cobounded2)
  then show ?thesis using e by (simp add: starts_with_def min_absorb1)
qed

text \<open>Nothing that the trimming removes is left at either end.\<close>

definition trimmed :: "bytes \<Rightarrow> bool" where
  "trimmed s \<longleftrightarrow> (\<forall>w\<in>set go_spaces. \<not> starts_with w s \<and> \<not> starts_with (rev w) (rev s))"

lemma TrimSpace_trimmed: "trimmed (TrimSpace s)"
  unfolding trimmed_def
proof (intro ballI conjI)
  fix w assume w: "w \<in> set go_spaces"
  then have ne: "w \<noteq> []" using space_ends by blast
  let ?t = "trim_by go_spaces s"
  obtain n where n: "trim_by (map rev go_spaces) (rev ?t) = drop n (rev ?t)" using trim_by_suffix by blast
  have "TrimSpace s = take (length ?t - n) ?t" by (simp add: TrimSpace_def n rev_drop)
  then show "\<not> starts_with w (TrimSpace s)" using trim_by_clean [OF w ne] starts_with_take by metis
  have "rev w \<in> set (map rev go_spaces)" using w by simp
  then show "\<not> starts_with (rev w) (rev (TrimSpace s))"
    using trim_by_clean [of "rev w" "map rev go_spaces" "rev ?t"] ne by (simp add: TrimSpace_def)
qed

lemma trimmed_TrimSpace: "trimmed s \<Longrightarrow> TrimSpace s = s"
  unfolding TrimSpace_def trimmed_def
  by (subst trim_by_id, blast, subst trim_by_id) auto

lemma TrimSpace_idem [simp]: "TrimSpace (TrimSpace s) = TrimSpace s"
  by (simp add: TrimSpace_trimmed trimmed_TrimSpace)

lemma TrimSpace_nil [simp]: "TrimSpace [] = []"
  by (rule trimmed_TrimSpace) (use space_ends in \<open>auto simp: trimmed_def starts_with_def\<close>)

definition letter :: "byte \<Rightarrow> bool" where
  "letter c \<longleftrightarrow> (CHR ''A'' \<le> c \<and> c \<le> CHR ''Z'') \<or> (CHR ''a'' \<le> c \<and> c \<le> CHR ''z'')"

lemma case_shape: "upper_char c = c \<or> (CHR ''A'' \<le> upper_char c \<and> upper_char c \<le> CHR ''Z'')"
  "lower_char c = c \<or> (CHR ''a'' \<le> lower_char c \<and> lower_char c \<le> CHR ''z'')"
proof -
  show "upper_char c = c \<or> (CHR ''A'' \<le> upper_char c \<and> upper_char c \<le> CHR ''Z'')"
  proof (cases "CHR ''a'' \<le> c \<and> c \<le> CHR ''z''")
    case True
    then have "97 \<le> byte_nat c" "byte_nat c \<le> 122" by (auto simp: less_eq_char_def byte_nat_def)
    then show ?thesis using True by (auto simp: upper_char_def less_eq_char_def nat_byte_def byte_nat_def)
  qed (auto simp: upper_char_def)
  show "lower_char c = c \<or> (CHR ''a'' \<le> lower_char c \<and> lower_char c \<le> CHR ''z'')"
  proof (cases "CHR ''A'' \<le> c \<and> c \<le> CHR ''Z''")
    case True
    then have "65 \<le> byte_nat c" "byte_nat c \<le> 90" by (auto simp: less_eq_char_def byte_nat_def)
    then show ?thesis using True by (auto simp: lower_char_def less_eq_char_def nat_byte_def byte_nat_def)
  qed (auto simp: lower_char_def)
qed

lemma upper_char_idem [simp]: "upper_char (upper_char c) = upper_char c"
  using case_shape(1) [of c]
proof
  assume "CHR ''A'' \<le> upper_char c \<and> upper_char c \<le> CHR ''Z''"
  then have "\<not> CHR ''a'' \<le> upper_char c" by (auto simp: less_eq_char_def)
  then show ?thesis by (simp add: upper_char_def)
qed simp

lemma lower_char_idem [simp]: "lower_char (lower_char c) = lower_char c"
  using case_shape(2) [of c]
proof
  assume "CHR ''a'' \<le> lower_char c \<and> lower_char c \<le> CHR ''z''"
  then have "\<not> lower_char c \<le> CHR ''Z''" by (auto simp: less_eq_char_def)
  then show ?thesis by (simp add: lower_char_def)
qed simp

lemma spaces_no_letter: "w \<in> set go_spaces \<Longrightarrow> x \<in> set w \<Longrightarrow> \<not> letter x"
  by (auto simp: go_spaces_def letter_def less_eq_char_def nat_byte_def upt_conv_Cons)

lemma starts_with_map:
  assumes "starts_with w (map f s)" "\<And>x c. x \<in> set w \<Longrightarrow> f c = x \<Longrightarrow> c = x"
  shows "starts_with w s"
proof -
  have "map f (take (length w) s) = w" using assms(1) by (simp add: starts_with_def take_map)
  moreover have "us = zs" if "map f zs = us" "set us \<subseteq> set w" for zs us
    using that assms(2) [OF _ refl] by (induction us arbitrary: zs) fastforce+
  ultimately have "w = take (length w) s" by blast
  then show ?thesis by (simp add: starts_with_def)
qed

lemma trimmed_map:
  assumes "trimmed s" "\<And>c. f c = c \<or> letter (f c)"
  shows "trimmed (map f s)"
proof -
  have k: "c = x" if "w \<in> set go_spaces" "x \<in> set w" "f c = x" for w x c
    using assms(2) [of c] spaces_no_letter [OF that(1,2)] that(3) by auto
  show ?thesis
    unfolding trimmed_def rev_map
  proof (intro ballI conjI notI)
    fix w assume w: "w \<in> set go_spaces"
    { assume "starts_with w (map f s)"
      then have "starts_with w s" by (rule starts_with_map) (use k w in blast)
      then show False using assms(1) w by (auto simp: trimmed_def) }
    { assume "starts_with (rev w) (map f (rev s))"
      then have "starts_with (rev w) (rev s)" by (rule starts_with_map) (use k w in auto)
      then show False using assms(1) w by (auto simp: trimmed_def) }
  qed
qed

lemma letter_case_idem [simp]: "ToUpper (ToUpper s) = ToUpper s" "ToLower (ToLower s) = ToLower s"
  by (simp_all add: ToUpper_def ToLower_def)

lemma TrimSpace_case [simp]: "TrimSpace (ToUpper (TrimSpace s)) = ToUpper (TrimSpace s)"
  "TrimSpace (ToLower (TrimSpace s)) = ToLower (TrimSpace s)"
  unfolding ToUpper_def ToLower_def
  by (rule trimmed_TrimSpace [OF trimmed_map [OF TrimSpace_trimmed]], use case_shape in \<open>auto simp: letter_def\<close>)+

section \<open>Decimal digits\<close>

definition digit :: "nat \<Rightarrow> byte" where
  "digit d = nat_byte (48 + d)"

text \<open>\<^verbatim>\<open>strconv.Itoa\<close> on a natural number.\<close>

fun dec :: "nat \<Rightarrow> bytes" where
  "dec n = (if n < 10 then [digit n] else dec (n div 10) @ [digit (n mod 10)])"

declare dec.simps [simp del]

definition dec_int :: "int \<Rightarrow> bytes" where
  "dec_int i = (if i < 0 then CHR ''-'' # dec (nat (- i)) else dec (nat i))"

text \<open>\<^verbatim>\<open>fmt.Sprintf("%0wd", i)\<close>: the sign counts for the width.\<close>

definition pad_dec :: "nat \<Rightarrow> int \<Rightarrow> bytes" where
  "pad_dec w i =
     (if i < 0 then (let d = dec (nat (- i)) in CHR ''-'' # replicate (w - 1 - length d) (CHR ''0'') @ d)
      else (let d = dec (nat i) in replicate (w - length d) (CHR ''0'') @ d))"

text \<open>The \<open>k\<close> low decimal digits.\<close>

fun fixed :: "nat \<Rightarrow> nat \<Rightarrow> bytes" where
  "fixed 0 n = []"
| "fixed (Suc k) n = fixed k (n div 10) @ [digit (n mod 10)]"

lemma length_fixed [simp]: "length (fixed k n) = k"
  by (induction k arbitrary: n) auto

lemma digit_zero: "digit 0 = CHR ''0''"
  by code_simp

lemma fixed_zero: "fixed k 0 = replicate k (CHR ''0'')"
  by (induction k) (simp_all add: digit_zero replicate_append_same)

lemma dec_pad_fixed: "n < 10 ^ k \<Longrightarrow> 0 < k \<Longrightarrow> replicate (k - length (dec n)) (CHR ''0'') @ dec n = fixed k n \<and> length (dec n) \<le> k"
proof (induction k arbitrary: n)
  case (Suc k)
  show ?case
  proof (cases "n < 10")
    case True
    then show ?thesis by (simp add: dec.simps [of n] fixed_zero)
  next
    case False
    then have k: "0 < k" using Suc.prems(1) by (cases k) auto
    have "n div 10 < 10 ^ k" using Suc.prems(1) by (simp add: less_mult_imp_div_less mult.commute)
    from Suc.IH [OF this k] False show ?thesis by (simp add: dec.simps [of n])
  qed
qed simp

lemma pad_dec_fixed: "0 \<le> i \<Longrightarrow> i < 10 ^ 20 \<Longrightarrow> pad_dec 20 i = fixed 20 (nat i)"
  using dec_pad_fixed [of "nat i" 20] by (simp add: pad_dec_def Let_def nat_less_iff)

lemma digit_less: "a < 10 \<Longrightarrow> b < 10 \<Longrightarrow> digit a < digit b \<longleftrightarrow> a < b"
  by (simp add: digit_def less_char_def nat_byte_def)

lemma list_less_append_same_length:
  fixes xs ys us vs :: "bytes"
  assumes "length xs = length ys"
  shows "xs @ us < ys @ vs \<longleftrightarrow> xs < ys \<or> (xs = ys \<and> us < vs)"
  using assms
proof (induction xs ys rule: list_induct2)
  case Nil
  then show ?case by simp
next
  case (Cons x xs y ys)
  then show ?case by (auto simp: Cons_less_Cons)
qed

lemma fixed_less: "m < 10 ^ k \<Longrightarrow> n < 10 ^ k \<Longrightarrow> fixed k m < fixed k n \<longleftrightarrow> m < n"
proof (induction k arbitrary: m n)
  case (Suc k)
  have d: "m div 10 < 10 ^ k" "n div 10 < 10 ^ k"
    using Suc.prems by (auto simp: less_mult_imp_div_less mult.commute)
  have eq: "fixed k (m div 10) = fixed k (n div 10) \<longleftrightarrow> m div 10 = n div 10"
  proof (cases "m div 10" "n div 10" rule: linorder_cases)
    case less
    then have "fixed k (m div 10) < fixed k (n div 10)" using Suc.IH [OF d] by simp
    with less show ?thesis by simp
  next
    case greater
    then have "fixed k (n div 10) < fixed k (m div 10)" using Suc.IH [OF d(2,1)] by simp
    with greater show ?thesis by simp
  qed simp
  have "fixed (Suc k) m < fixed (Suc k) n \<longleftrightarrow>
      m div 10 < n div 10 \<or> (m div 10 = n div 10 \<and> m mod 10 < n mod 10)"
    using Suc.IH [OF d] eq by (simp add: list_less_append_same_length digit_less)
  also have "\<dots> \<longleftrightarrow> m < n"
  proof -
    have lt: "10 * a + b < 10 * c + e \<longleftrightarrow> a < c \<or> (a = c \<and> b < e)" if "b < 10" "e < 10" for a b c e :: nat
      using that by linarith
    show ?thesis
      using lt [of "m mod 10" "n mod 10" "m div 10" "n div 10"] by simp
  qed
  finally show ?case .
qed simp

lemma fixed_eq: "m < 10 ^ k \<Longrightarrow> n < 10 ^ k \<Longrightarrow> fixed k m = fixed k n \<longleftrightarrow> m = n"
  using fixed_less [of m k n] fixed_less [of n k m] by (metis less_irrefl linorder_neqE_nat)

lemma digits_fixed: "c \<in> set (fixed k n) \<Longrightarrow> CHR ''0'' \<le> c \<and> c \<le> CHR ''9''"
proof (induction k arbitrary: n)
  case (Suc k)
  have "CHR ''0'' \<le> digit (n mod 10) \<and> digit (n mod 10) \<le> CHR ''9''"
    by (simp add: digit_def less_eq_char_def nat_byte_def)
  with Suc show ?case by auto
qed simp

section \<open>Prefixes, suffixes and separators\<close>

definition ends_with :: "bytes \<Rightarrow> bytes \<Rightarrow> bool" where
  "ends_with suf s \<longleftrightarrow> starts_with (rev suf) (rev s)"

definition TrimPrefix :: "bytes \<Rightarrow> bytes \<Rightarrow> bytes" where
  "TrimPrefix s p = (if starts_with p s then drop (length p) s else s)"

definition TrimSuffix :: "bytes \<Rightarrow> bytes \<Rightarrow> bytes" where
  "TrimSuffix s p = (if ends_with p s then take (length s - length p) s else s)"

text \<open>\<^verbatim>\<open>strings.Trim\<close> with a set of ASCII characters, and \<^verbatim>\<open>strings.Split\<close> and \<^verbatim>\<open>strings.Join\<close> with one character.\<close>

definition trim_set :: "string \<Rightarrow> string \<Rightarrow> string" where
  "trim_set cs s = rev (dropWhile (\<lambda>c. c \<in> set cs) (rev (dropWhile (\<lambda>c. c \<in> set cs) s)))"

fun split_on :: "byte \<Rightarrow> bytes \<Rightarrow> bytes list" where
  "split_on c [] = [[]]"
| "split_on c (x # xs) =
     (if x = c then [] # split_on c xs
      else (case split_on c xs of [] \<Rightarrow> [[x]] | p # ps \<Rightarrow> (x # p) # ps))"

fun join_on :: "byte \<Rightarrow> bytes list \<Rightarrow> bytes" where
  "join_on c [] = []"
| "join_on c [x] = x"
| "join_on c (x # y # xs) = x @ c # join_on c (y # xs)"

lemma starts_with_iff: "starts_with p s \<longleftrightarrow> (\<exists>t. s = p @ t)"
proof
  assume "starts_with p s"
  then have "s = p @ drop (length p) s" by (metis append_take_drop_id starts_with_def)
  then show "\<exists>t. s = p @ t" by blast
qed (auto simp: starts_with_def)

lemma ends_with_iff: "ends_with p s \<longleftrightarrow> (\<exists>t. s = t @ p)"
  by (simp add: ends_with_def starts_with_iff) (metis rev_append rev_rev_ident)

lemma split_on_nonempty [simp]: "split_on c s \<noteq> []"
  by (cases s) (auto split: list.split)

lemma split_on_no_sep: "c \<notin> set s \<Longrightarrow> split_on c s = [s]"
  by (induction s) auto

lemma split_on_append: "split_on c (a @ c # b) = split_on c a @ split_on c b"
  by (induction a) (auto split: list.split)

lemma split_on_no_sep_in: "x \<in> set (split_on c s) \<Longrightarrow> c \<notin> set x"
proof (induction s arbitrary: x)
  case (Cons d s)
  obtain y ys where "split_on c s = y # ys" using split_on_nonempty by (metis list.exhaust)
  with Cons show ?case by (auto split: if_splits)
qed simp

lemma split_join: "xs \<noteq> [] \<Longrightarrow> \<forall>x\<in>set xs. c \<notin> set x \<Longrightarrow> split_on c (join_on c xs) = xs"
  by (induction c xs rule: join_on.induct) (auto simp: split_on_no_sep split_on_append)

lemma join_split: "join_on c (split_on c s) = s"
proof (induction s)
  case (Cons d s)
  obtain y ys where y: "split_on c s = y # ys" using split_on_nonempty by (metis list.exhaust)
  with Cons show ?case by (cases ys) auto
qed simp

end
