(* ===== verification/Lease.thy ===== *)
theory Lease
  imports GoStrings
begin

text \<open>
  \<^verbatim>\<open>src/internal/lease/types.go\<close>: the lease record and its states, and the interface
  \<^verbatim>\<open>Store\<close> of \<^verbatim>\<open>store.go\<close> that the DHCP servers, the sweeper and the cluster use.
  \<^verbatim>\<open>LeaseState\<close> is a string in the code, so it is one here. Encoding a lease to JSON and
  back is a parameter of the store, of type \<open>lease_json\<close>.
\<close>

section \<open>Leases\<close>

type_synonym LeaseState = string

definition StateFree :: LeaseState where "StateFree = ''free''"
definition StateOffered :: LeaseState where "StateOffered = ''offered''"
definition StateBound :: LeaseState where "StateBound = ''bound''"
definition StateRenewing :: LeaseState where "StateRenewing = ''renewing''"
definition StateReleased :: LeaseState where "StateReleased = ''released''"
definition StateDeclined :: LeaseState where "StateDeclined = ''declined''"
definition StateQuarantined :: LeaseState where "StateQuarantined = ''quarantined''"
definition StateExpired :: LeaseState where "StateExpired = ''expired''"

lemmas state_defs = StateFree_def StateOffered_def StateBound_def StateRenewing_def
  StateReleased_def StateDeclined_def StateQuarantined_def StateExpired_def

record Lease =
  l_IP :: string
  l_MAC :: string
  l_ClientID :: bytes
  l_Hostname :: string
  l_State :: LeaseState
  l_StartTime :: time
  l_Duration :: duration
  l_T1 :: duration
  l_T2 :: duration
  l_ExpiryTime :: time
  l_QuarantineUntil :: time
  l_SubnetID :: string
  l_RelayAddr :: string
  l_RelayInfo :: bytes
  l_CircuitID :: string
  l_RemoteID :: string
  l_VendorClass :: string
  l_UserClass :: string
  l_LastSeen :: time
  l_DDNSForward :: string
  l_DDNSReverse :: string
  l_Tags :: "(string, string) fmap"
  l_CreatedAt :: time
  l_UpdatedAt :: time

text \<open>The zero value \<^verbatim>\<open>Lease{}\<close>.\<close>

definition zero_lease :: Lease where
  "zero_lease = \<lparr>l_IP = [], l_MAC = [], l_ClientID = [], l_Hostname = [], l_State = [],
     l_StartTime = 0, l_Duration = 0, l_T1 = 0, l_T2 = 0, l_ExpiryTime = 0, l_QuarantineUntil = 0,
     l_SubnetID = [], l_RelayAddr = [], l_RelayInfo = [], l_CircuitID = [], l_RemoteID = [],
     l_VendorClass = [], l_UserClass = [], l_LastSeen = 0, l_DDNSForward = [], l_DDNSReverse = [],
     l_Tags = fmempty, l_CreatedAt = 0, l_UpdatedAt = 0\<rparr>"

definition NormalizeDefaults :: "time \<Rightarrow> duration \<Rightarrow> Lease \<Rightarrow> Lease" where
  "NormalizeDefaults now defaultDuration l =
     (let l1 = (if is_zero_time (l_StartTime l) then l\<lparr>l_StartTime := now\<rparr> else l);
          l2 = (if l_Duration l1 \<le> 0 then l1\<lparr>l_Duration := defaultDuration\<rparr> else l1);
          l3 = (if l_T1 l2 \<le> 0 then l2\<lparr>l_T1 := go_div (l_Duration l2) 2\<rparr> else l2);
          l4 = (if l_T2 l3 \<le> 0 then l3\<lparr>l_T2 := go_div (i64 (l_Duration l3 * 7)) 8\<rparr> else l3);
          l5 = (if is_zero_time (l_ExpiryTime l4)
                then l4\<lparr>l_ExpiryTime := l_StartTime l4 + l_Duration l4\<rparr> else l4);
          l6 = (if is_zero_time (l_CreatedAt l5) then l5\<lparr>l_CreatedAt := now\<rparr> else l5);
          l7 = (if is_zero_time (l_LastSeen l6) then l6\<lparr>l_LastSeen := now\<rparr> else l6)
      in l7\<lparr>l_UpdatedAt := now\<rparr>)"

text \<open>Values are copied, so a clone is the lease itself.\<close>

definition lease_Clone :: "Lease \<Rightarrow> Lease" where
  "lease_Clone l = l"

lemma NormalizeDefaults_fields [simp]:
  "l_IP (NormalizeDefaults now d l) = l_IP l" "l_MAC (NormalizeDefaults now d l) = l_MAC l"
  "l_ClientID (NormalizeDefaults now d l) = l_ClientID l"
  "l_SubnetID (NormalizeDefaults now d l) = l_SubnetID l"
  "l_State (NormalizeDefaults now d l) = l_State l"
  "l_QuarantineUntil (NormalizeDefaults now d l) = l_QuarantineUntil l"
  "l_Hostname (NormalizeDefaults now d l) = l_Hostname l"
  "l_UpdatedAt (NormalizeDefaults now d l) = now"
  by (simp_all add: NormalizeDefaults_def Let_def)

text \<open>A lease that already went through the defaults keeps its times when it is stored again.\<close>

lemma NormalizeDefaults_again:
  assumes "l_StartTime l \<noteq> 0" "0 < l_Duration l" "0 < l_T1 l" "0 < l_T2 l"
    "l_ExpiryTime l \<noteq> 0" "l_CreatedAt l \<noteq> 0" "l_LastSeen l \<noteq> 0"
  shows "NormalizeDefaults now d l = l\<lparr>l_UpdatedAt := now\<rparr>"
  using assms by (simp add: NormalizeDefaults_def Let_def is_zero_time_def)

text \<open>\<^verbatim>\<open>json.Marshal\<close> and \<^verbatim>\<open>json.Unmarshal\<close> of a lease; \<open>None\<close> is their error.\<close>

record lease_json =
  json_marshal :: "Lease \<Rightarrow> bytes option"
  json_unmarshal :: "bytes \<Rightarrow> Lease option"

definition normalizeMAC :: "string \<Rightarrow> string" where
  "normalizeMAC mac = ToUpper (TrimSpace mac)"

lemma normalizeMAC_idem [simp]: "normalizeMAC (normalizeMAC mac) = normalizeMAC mac"
  by (simp add: normalizeMAC_def)

section \<open>The store interface\<close>

text \<open>
  The Go interface \<^verbatim>\<open>Store\<close> as a record of its methods over a state. \<^verbatim>\<open>Upsert\<close> reads
  the clock, so it takes the time; the \<^verbatim>\<open>ctx\<close> arguments are never used.
\<close>

record 's lease_ops =
  op_Upsert :: "time \<Rightarrow> Lease \<Rightarrow> 's \<Rightarrow> 's \<times> go_error option"
  op_GetByIP :: "'s \<Rightarrow> string \<Rightarrow> go_error + Lease"
  op_GetByMAC :: "'s \<Rightarrow> string \<Rightarrow> go_error + Lease list"
  op_GetByClientID :: "'s \<Rightarrow> bytes \<Rightarrow> go_error + Lease list"
  op_ListBySubnet :: "'s \<Rightarrow> string \<Rightarrow> go_error + Lease list"
  op_ListExpiringBefore :: "'s \<Rightarrow> time \<Rightarrow> go_error + Lease list"
  op_Delete :: "time \<Rightarrow> string \<Rightarrow> 's \<Rightarrow> 's \<times> go_error option"
  op_ListAll :: "'s \<Rightarrow> go_error + Lease list"

text \<open>
  What the interface promises: in a state of the invariant the store is a map from addresses to
  leases, an upsert of an acceptable lease succeeds and sets one entry to the lease with its
  defaults, a delete clears one entry, and each lookup returns exactly the leases it asks for; the
  lookup by MAC returns them in the order of their addresses as strings.
\<close>

definition upserted :: "time \<Rightarrow> Lease \<Rightarrow> Lease" where
  "upserted now l = NormalizeDefaults now (12 * hour_ns) l"

locale lease_store =
  fixes ops :: "'s lease_ops"
    and inv :: "'s \<Rightarrow> bool"
    and view :: "'s \<Rightarrow> (string \<rightharpoonup> Lease)"
    and ok :: "Lease \<Rightarrow> bool"
  assumes view_ip: "inv s \<Longrightarrow> view s ip = Some l \<Longrightarrow> l_IP l = ip"
    and upsert: "inv s \<Longrightarrow> ok (upserted now l) \<Longrightarrow>
      \<exists>s'. op_Upsert ops now l s = (s', None) \<and> inv s' \<and>
        view s' = (view s)(l_IP l \<mapsto> upserted now l)"
    and delete: "inv s \<Longrightarrow> \<exists>s'. op_Delete ops now ip s = (s', None) \<and> inv s' \<and>
        view s' = (view s)(ip := None)"
    and by_ip: "inv s \<Longrightarrow> op_GetByIP ops s ip =
        (case view s ip of None \<Rightarrow> Inl ErrNotFound | Some l \<Rightarrow> Inr l)"
    and by_mac: "inv s \<Longrightarrow> \<exists>ls. op_GetByMAC ops s mac = Inr ls \<and>
        (CHR 0x1F \<notin> set (normalizeMAC mac) \<longrightarrow>
          sorted_wrt (<) (map l_IP ls) \<and>
          set ls = {l. view s (l_IP l) = Some l \<and> l_MAC l \<noteq> [] \<and> normalizeMAC (l_MAC l) = normalizeMAC mac})"
    and by_client: "inv s \<Longrightarrow> \<exists>ls. op_GetByClientID ops s cid = Inr ls \<and>
          set ls = {l. view s (l_IP l) = Some l \<and> l_ClientID l \<noteq> [] \<and>
            starts_with (cid @ [CHR 0x1F]) (l_ClientID l @ CHR 0x1F # l_IP l)}"
    and expiring: "inv s \<Longrightarrow> 0 \<le> time_unix t \<Longrightarrow> time_unix t < 10 ^ 20 \<Longrightarrow>
        \<exists>ls. op_ListExpiringBefore ops s t = Inr ls \<and> distinct (map l_IP ls) \<and>
          set ls = {l. view s (l_IP l) = Some l \<and> time_unix (l_ExpiryTime l) < time_unix t}"
    and list_all: "inv s \<Longrightarrow> \<exists>ls. op_ListAll ops s = Inr ls \<and> distinct (map l_IP ls) \<and>
          set ls = {l. view s (l_IP l) = Some l}"
    and ok_view: "inv s \<Longrightarrow> view s ip = Some l \<Longrightarrow> ok l"
begin

lemma upsertE:
  assumes "inv s" "ok (upserted now l)" "op_Upsert ops now l s = (s', r)"
  shows "r = None" "inv s'" "view s' = (view s)(l_IP l \<mapsto> upserted now l)"
  using upsert [OF assms(1,2)] assms(3) by auto

lemma get_upsert:
  assumes "inv s" "ok (upserted now l)"
  shows "op_GetByIP ops (fst (op_Upsert ops now l s)) ip =
    (if ip = l_IP l then Inr (upserted now l) else op_GetByIP ops s ip)"
  using upsert [OF assms] by (auto simp: by_ip assms(1))

lemma get_delete:
  assumes "inv s"
  shows "op_GetByIP ops (fst (op_Delete ops now ip s)) jp =
    (if jp = ip then Inl ErrNotFound else op_GetByIP ops s jp)"
  using delete [OF assms, of now ip] by (auto simp: by_ip assms(1))

end

end
