(* ===== verification/LeaseStore.thy ===== *)
theory LeaseStore
  imports Lease StorageEngine
begin

text \<open>
  \<^verbatim>\<open>src/internal/lease/store.go\<close>: the lease store over the storage engine. A lease is
  one row of the tree \<^verbatim>\<open>leases\<close>, and up to four rows of the secondary trees, whose keys end
  in the separator and the lease's address. The goroutine that forwards transactions to the lease
  watchers is the step \<open>consume_event\<close> over the engine's channel and the watchers' channels.
\<close>

abbreviation treeLeases :: string where "treeLeases \<equiv> ''leases''"
abbreviation treeLeaseByMAC :: string where "treeLeaseByMAC \<equiv> ''leases_by_mac''"
abbreviation treeLeaseByExpiry :: string where "treeLeaseByExpiry \<equiv> ''leases_by_expiry''"
abbreviation treeLeaseBySubnet :: string where "treeLeaseBySubnet \<equiv> ''leases_by_subnet''"
abbreviation treeLeaseByClient :: string where "treeLeaseByClient \<equiv> ''leases_by_client''"
abbreviation indexSep :: bytes where "indexSep \<equiv> [CHR 0x1F]"

section \<open>Reading\<close>

definition ls_GetByIP :: "lease_json \<Rightarrow> engine \<Rightarrow> string \<Rightarrow> go_error + Lease" where
  "ls_GetByIP J e ip =
     rbind (eng_Get e treeLeases ip) (\<lambda>raw.
       case json_unmarshal J raw of None \<Rightarrow> Inl (ErrMsg ''json'') | Some l \<Rightarrow> Inr l)"

fun fetchByIPs :: "lease_json \<Rightarrow> engine \<Rightarrow> string list \<Rightarrow> go_error + Lease list" where
  "fetchByIPs J e [] = Inr []"
| "fetchByIPs J e (ip # ips) =
     (case ls_GetByIP J e ip of
        Inl ErrNotFound \<Rightarrow> fetchByIPs J e ips
      | Inl err \<Rightarrow> Inl err
      | Inr l \<Rightarrow> rbind (fetchByIPs J e ips) (\<lambda>ls. Inr (l # ls)))"

definition fetchBySecondaryPrefix ::
  "lease_json \<Rightarrow> engine \<Rightarrow> string \<Rightarrow> bytes \<Rightarrow> go_error + Lease list" where
  "fetchBySecondaryPrefix J e tree prefix =
     (case eng_Iterate e tree prefix []
        (\<lambda>ips k v. if prefix \<noteq> [] \<and> take (min (length k) (length prefix)) k \<noteq> prefix
                    then (ips, False) else (ips @ [v], True)) [] of
        Inl ErrNotFound \<Rightarrow> Inr []
      | Inl err \<Rightarrow> Inl err
      | Inr ips \<Rightarrow> fetchByIPs J e ips)"

definition ls_GetByMAC :: "lease_json \<Rightarrow> engine \<Rightarrow> string \<Rightarrow> go_error + Lease list" where
  "ls_GetByMAC J e mac = fetchBySecondaryPrefix J e treeLeaseByMAC (normalizeMAC mac @ indexSep)"

definition ls_GetByClientID :: "lease_json \<Rightarrow> engine \<Rightarrow> bytes \<Rightarrow> go_error + Lease list" where
  "ls_GetByClientID J e clientID = fetchBySecondaryPrefix J e treeLeaseByClient (clientID @ indexSep)"

definition ls_ListBySubnet :: "lease_json \<Rightarrow> engine \<Rightarrow> string \<Rightarrow> go_error + Lease list" where
  "ls_ListBySubnet J e subnetID = fetchBySecondaryPrefix J e treeLeaseBySubnet (subnetID @ indexSep)"

definition ls_ListExpiringBefore :: "lease_json \<Rightarrow> engine \<Rightarrow> time \<Rightarrow> go_error + Lease list" where
  "ls_ListExpiringBefore J e t =
     (case eng_Iterate e treeLeaseByExpiry [] (pad_dec 20 (time_unix t)) (\<lambda>ips k v. (ips @ [v], True)) [] of
        Inl ErrNotFound \<Rightarrow> fetchByIPs J e []
      | Inl err \<Rightarrow> Inl err
      | Inr ips \<Rightarrow> fetchByIPs J e ips)"

definition ls_ListAll :: "lease_json \<Rightarrow> engine \<Rightarrow> go_error + Lease list" where
  "ls_ListAll J e =
     (case eng_Iterate e treeLeases [] []
        (\<lambda>out k v. (case json_unmarshal J v of None \<Rightarrow> (out, True) | Some l \<Rightarrow> (out @ [l], True))) [] of
        Inl ErrNotFound \<Rightarrow> Inr []
      | Inl err \<Rightarrow> Inl err
      | Inr out \<Rightarrow> Inr out)"

section \<open>Writing\<close>

definition expiry_key :: "Lease \<Rightarrow> bytes" where
  "expiry_key l = pad_dec 20 (time_unix (l_ExpiryTime l)) @ indexSep @ l_IP l"

definition addSecondaryIndexes :: "Lease \<Rightarrow> mutation list \<Rightarrow> mutation list" where
  "addSecondaryIndexes l ms =
     (let ms1 = (if l_MAC l \<noteq> [] then tx_Put treeLeaseByMAC (normalizeMAC (l_MAC l) @ indexSep @ l_IP l) (l_IP l) ms else ms);
          ms2 = (if l_ClientID l \<noteq> [] then tx_Put treeLeaseByClient (l_ClientID l @ indexSep @ l_IP l) (l_IP l) ms1 else ms1);
          ms3 = (if l_SubnetID l \<noteq> [] then tx_Put treeLeaseBySubnet (l_SubnetID l @ indexSep @ l_IP l) (l_IP l) ms2 else ms2)
      in if \<not> is_zero_time (l_ExpiryTime l) then tx_Put treeLeaseByExpiry (expiry_key l) (l_IP l) ms3 else ms3)"

definition removeSecondaryIndexes :: "Lease \<Rightarrow> mutation list \<Rightarrow> mutation list" where
  "removeSecondaryIndexes l ms =
     (let ms1 = (if l_MAC l \<noteq> [] then tx_Delete treeLeaseByMAC (normalizeMAC (l_MAC l) @ indexSep @ l_IP l) ms else ms);
          ms2 = (if l_ClientID l \<noteq> [] then tx_Delete treeLeaseByClient (l_ClientID l @ indexSep @ l_IP l) ms1 else ms1);
          ms3 = (if l_SubnetID l \<noteq> [] then tx_Delete treeLeaseBySubnet (l_SubnetID l @ indexSep @ l_IP l) ms2 else ms2)
      in if \<not> is_zero_time (l_ExpiryTime l) then tx_Delete treeLeaseByExpiry (expiry_key l) ms3 else ms3)"

text \<open>\<open>now\<close> is the clock of both the defaults and the event's time stamp.\<close>

definition ls_upsert :: "lease_json \<Rightarrow> bool \<Rightarrow> time \<Rightarrow> Lease \<Rightarrow> engine \<Rightarrow> engine \<times> go_error option" where
  "ls_upsert J silent now lease0 e =
     (if TrimSpace (l_IP lease0) = [] then (e, Some (ErrMsg ''lease.ip is required''))
      else
        (let lease = NormalizeDefaults now (12 * hour_ns) lease0 in
         case json_marshal J lease of
           None \<Rightarrow> (e, Some (ErrMsg ''json''))
         | Some raw \<Rightarrow>
             (let old = ls_GetByIP J e (l_IP lease);
                  fn = (\<lambda>ms. Inr (let ms1 = tx_Put treeLeases (l_IP lease) raw ms;
                           ms2 = (case old of Inr o_l \<Rightarrow> removeSecondaryIndexes o_l ms1 | Inl _ \<Rightarrow> ms1)
                       in addSecondaryIndexes lease ms2))
              in case old of
                   Inl err \<Rightarrow>
                     if err \<noteq> ErrNotFound then (e, Some err)
                     else if silent then eng_TxSilent fn now e else eng_Tx fn now e
                 | Inr _ \<Rightarrow> if silent then eng_TxSilent fn now e else eng_Tx fn now e)))"

definition ls_Upsert :: "lease_json \<Rightarrow> time \<Rightarrow> Lease \<Rightarrow> engine \<Rightarrow> engine \<times> go_error option" where
  "ls_Upsert J now l e = ls_upsert J False now l e"

definition ls_UpsertSilent :: "lease_json \<Rightarrow> time \<Rightarrow> Lease \<Rightarrow> engine \<Rightarrow> engine \<times> go_error option" where
  "ls_UpsertSilent J now l e = ls_upsert J True now l e"

definition ls_delete :: "lease_json \<Rightarrow> bool \<Rightarrow> time \<Rightarrow> string \<Rightarrow> engine \<Rightarrow> engine \<times> go_error option" where
  "ls_delete J silent now ip e =
     (case ls_GetByIP J e ip of
        Inl err \<Rightarrow> if err = ErrNotFound then (e, None) else (e, Some err)
      | Inr lease \<Rightarrow>
          (let fn = (\<lambda>ms. Inr (removeSecondaryIndexes lease (tx_Delete treeLeases ip ms)))
           in if silent then eng_TxSilent fn now e else eng_Tx fn now e))"

definition ls_Delete :: "lease_json \<Rightarrow> time \<Rightarrow> string \<Rightarrow> engine \<Rightarrow> engine \<times> go_error option" where
  "ls_Delete J now ip e = ls_delete J False now ip e"

definition ls_DeleteSilent :: "lease_json \<Rightarrow> time \<Rightarrow> string \<Rightarrow> engine \<Rightarrow> engine \<times> go_error option" where
  "ls_DeleteSilent J now ip e = ls_delete J True now ip e"

text \<open>The store as an implementation of the interface.\<close>

definition engine_store :: "lease_json \<Rightarrow> engine lease_ops" where
  "engine_store J = \<lparr>op_Upsert = ls_Upsert J, op_GetByIP = ls_GetByIP J, op_GetByMAC = ls_GetByMAC J,
     op_GetByClientID = ls_GetByClientID J, op_ListBySubnet = ls_ListBySubnet J,
     op_ListExpiringBefore = ls_ListExpiringBefore J, op_Delete = ls_Delete J, op_ListAll = ls_ListAll J\<rparr>"

section \<open>Lease watchers\<close>

record mutation_event =
  me_Sequence :: int
  me_Timestamp :: time
  me_Op :: byte
  me_IP :: string
  me_Lease :: "Lease option"

record lease_hub =
  hub_nextWatchID :: int
  hub_watchers :: "(int \<times> mutation_event list) list"
  hub_watchStarted :: bool
  hub_txID :: int

definition NewLeaseHub :: lease_hub where
  "NewLeaseHub = \<lparr>hub_nextWatchID = 0, hub_watchers = [], hub_watchStarted = False, hub_txID = 0\<rparr>"

fun extract_from :: "lease_json \<Rightarrow> tx_event \<Rightarrow> mutation list \<Rightarrow> mutation_event option" where
  "extract_from J evt [] = None"
| "extract_from J evt (item # items) =
     (if m_tree item \<noteq> treeLeases then extract_from J evt items
      else
        (let out = \<lparr>me_Sequence = ev_sequence evt, me_Timestamp = ev_timestamp evt, me_Op = m_op item,
                     me_IP = m_key item, me_Lease = None\<rparr>
         in if m_op item = OpPut then
              (case json_unmarshal J (m_value item) of
                 None \<Rightarrow> None
               | Some l \<Rightarrow> Some (out\<lparr>me_Lease := Some l\<rparr>))
            else Some out))"

definition extractLeaseMutation :: "lease_json \<Rightarrow> tx_event \<Rightarrow> mutation_event option" where
  "extractLeaseMutation J evt = extract_from J evt (ev_mutations evt)"

definition ensureWatchLoopLocked :: "engine \<Rightarrow> lease_hub \<Rightarrow> engine \<times> lease_hub" where
  "ensureWatchLoopLocked e h =
     (if hub_watchStarted h then (e, h)
      else (case WatchTx e of (e', i) \<Rightarrow> (e', h\<lparr>hub_watchStarted := True, hub_txID := i\<rparr>)))"

definition WatchMutations :: "engine \<Rightarrow> lease_hub \<Rightarrow> engine \<times> lease_hub \<times> int" where
  "WatchMutations e h =
     (case ensureWatchLoopLocked e h of (e', h') \<Rightarrow>
        (let i = i64 (hub_nextWatchID h' + 1)
         in (e', h'\<lparr>hub_nextWatchID := i, hub_watchers := mput i [] (hub_watchers h')\<rparr>, i)))"

definition hub_unsubscribe :: "int \<Rightarrow> lease_hub \<Rightarrow> lease_hub" where
  "hub_unsubscribe i h = h\<lparr>hub_watchers := mdel i (hub_watchers h)\<rparr>"

text \<open>One turn of \<^verbatim>\<open>consumeTxEvents\<close>: it takes the oldest event of the engine's channel.\<close>

definition consume_event :: "lease_json \<Rightarrow> engine \<Rightarrow> lease_hub \<Rightarrow> engine \<times> lease_hub" where
  "consume_event J e h =
     (case map_of (e_watchers e) (hub_txID h) of
        Some (evt # rest) \<Rightarrow>
          (let e' = e\<lparr>e_watchers := mput (hub_txID h) rest (e_watchers e)\<rparr> in
           case extractLeaseMutation J evt of
             None \<Rightarrow> (e', h)
           | Some m \<Rightarrow>
               (e', h\<lparr>hub_watchers :=
                  map (\<lambda>(i, ch). (i, if length ch < 32 then ch @ [m] else ch)) (hub_watchers h)\<rparr>))
      | _ \<Rightarrow> (e, h))"

definition ls_CurrentSequence :: "engine \<Rightarrow> int" where
  "ls_CurrentSequence e = CurrentSequence e"

end
