(* ===== verification/LeaseInv.thy ===== *)
theory LeaseInv
  imports LeaseStore Recovery
begin

text \<open>
  The lease store keeps its four secondary trees in step with the tree of leases: \<open>es_inv\<close>. Every
  upsert and delete keeps that invariant, so the engine's store satisfies the laws of the interface
  \<open>lease_store\<close>; the interpretation at the end makes them available to the DHCP servers.
\<close>

section \<open>Scanning a prefix\<close>

lemma prefix_le: "p \<le> p @ (xs :: bytes)"
  by (induction p) (cases xs; auto simp: list_le_def Cons_less_Cons)+

lemma prefix_between:
  fixes p k x :: bytes
  assumes "p \<le> x" "x \<le> k" "take (length p) k = p"
  shows "take (length p) x = p"
  using assms
proof (induction p arbitrary: x k)
  case (Cons c p)
  obtain k' where k: "k = c # k'" "take (length p) k' = p" using Cons.prems(3) by (cases k) auto
  obtain d x' where x: "x = d # x'" using Cons.prems(1) by (cases x) (auto simp: list_le_def)
  have "d = c" using Cons.prems(1,2) k x by (auto simp: list_le_def Cons_less_Cons)
  then show ?case using Cons.IH [of x' k'] Cons.prems k x by (auto simp: list_le_def Cons_less_Cons)
qed simp

lemma takeWhile_prefix:
  assumes "sorted_wrt (<) ks" "\<forall>k\<in>set ks. p \<le> k"
  shows "takeWhile (\<lambda>k. take (length p) k = p) ks = filter (\<lambda>k. take (length p) k = p) (ks :: bytes list)"
  using assms
proof (induction ks)
  case (Cons k ks)
  show ?case
  proof (cases "take (length p) k = p")
    case False
    have "take (length p) x \<noteq> p" if "x \<in> set ks" for x
      using prefix_between [of p k x] Cons.prems that False by (auto intro: less_imp_le)
    with False show ?thesis by (simp add: filter_empty_conv)
  qed (use Cons in auto)
qed simp

lemma run_rows_while:
  "run_rows (\<lambda>out k v. if P k then (out @ [v], True) else (out, False)) rs s =
     s @ map snd (takeWhile (\<lambda>(k, v). P k) rs)"
  by (induction rs arbitrary: s) auto

lemma run_rows_all: "run_rows (\<lambda>out k v. (out @ f k v, True)) rs s = s @ concat (map (\<lambda>(k, v). f k v) rs)"
  by (induction rs arbitrary: s) auto

lemma scan_prefix:
  assumes "bt_inv t" "p \<noteq> []"
  shows "bt_Iterate t p [] (\<lambda>ips k v. if p \<noteq> [] \<and> take (min (length k) (length p)) k \<noteq> p
      then (ips, False) else (ips @ [v], True)) [] =
    map snd (filter (\<lambda>(k, v). take (length p) k = p) (bt_Snapshot t))"
proof -
  let ?P = "\<lambda>k. take (length p) k = p"
  have s: "sorted_wrt (<) (bt_keys t)" using assms(1) by (rule bt_inv_sorted)
  have fn: "(\<lambda>ips k v. if p \<noteq> [] \<and> take (min (length k) (length p)) k \<noteq> p
      then (ips, False) else (ips @ [v], True)) = (\<lambda>ips k v. if ?P k then (ips @ [v], True) else (ips, False))"
    using assms(2) by (auto simp: fun_eq_iff min_def)
  have ge: "p \<le> k" if "?P k" for k :: bytes
  proof -
    have "k = p @ drop (length p) k" using that by (metis append_take_drop_id)
    then show ?thesis using prefix_le [of p "drop (length p) k"] by simp
  qed
  have rows: "takeWhile (\<lambda>(k, v). ?P k) (filter (\<lambda>(k, v). in_range p [] k) (bt_Snapshot t)) =
      filter (\<lambda>(k, v). ?P k) (bt_Snapshot t)"
  proof -
    let ?f = "\<lambda>k. (k, bt_val t k)"
    have "takeWhile ?P (filter (\<lambda>k. p \<le> k) (bt_keys t)) = filter ?P (filter (\<lambda>k. p \<le> k) (bt_keys t))"
      by (rule takeWhile_prefix) (auto simp: s sorted_wrt_filter)
    also have "\<dots> = filter ?P (bt_keys t)"
      using ge by (auto simp: filter_filter intro: filter_cong)
    finally show ?thesis
      by (simp add: bt_Snapshot_def filter_map takeWhile_map comp_def in_range_def)
  qed
  show ?thesis
    unfolding fn bt_Iterate_rows [OF assms(1)] run_rows_while rows by simp
qed

section \<open>The trees of the lease store\<close>

declare eget.simps [simp del]

lemma row_tree: "map_of (e_trees e) t = Some tree \<Longrightarrow> eget (e_trees e) (t, k) = bt_map tree k"
  by (simp add: eget.simps)

abbreviation row :: "engine \<Rightarrow> string \<Rightarrow> bytes \<Rightarrow> bytes option" where
  "row e t k \<equiv> eget (e_trees e) (t, k)"

definition sec_trees :: "string list" where
  "sec_trees = [treeLeaseByMAC, treeLeaseByClient, treeLeaseBySubnet, treeLeaseByExpiry]"

text \<open>The secondary rows of a lease.\<close>

definition sec_keys :: "Lease \<Rightarrow> (string \<times> bytes) list" where
  "sec_keys l =
     (if l_MAC l \<noteq> [] then [(treeLeaseByMAC, normalizeMAC (l_MAC l) @ indexSep @ l_IP l)] else []) @
     (if l_ClientID l \<noteq> [] then [(treeLeaseByClient, l_ClientID l @ indexSep @ l_IP l)] else []) @
     (if l_SubnetID l \<noteq> [] then [(treeLeaseBySubnet, l_SubnetID l @ indexSep @ l_IP l)] else []) @
     (if \<not> is_zero_time (l_ExpiryTime l) then [(treeLeaseByExpiry, expiry_key l)] else [])"

text \<open>
  The leases the store accepts: the address is not blank and, like the MAC and the subnet, holds no
  separator; the fields fit in a log record; the lease expires after 1970; and its JSON reads back.
\<close>

definition lease_ok :: "lease_json \<Rightarrow> Lease \<Rightarrow> bool" where
  "lease_ok J l \<longleftrightarrow>
     TrimSpace (l_IP l) \<noteq> [] \<and> CHR 0x1F \<notin> set (l_IP l) \<and> CHR 0x1F \<notin> set (normalizeMAC (l_MAC l)) \<and>
     CHR 0x1F \<notin> set (l_SubnetID l) \<and> 0 < l_ExpiryTime l \<and> 0 \<le> time_unix (l_ExpiryTime l) \<and>
     time_unix (l_ExpiryTime l) < 10 ^ 20 \<and>
     length (l_IP l) \<le> 30000 \<and> length (normalizeMAC (l_MAC l)) \<le> 30000 \<and> length (l_ClientID l) \<le> 30000 \<and>
     length (l_SubnetID l) \<le> 30000 \<and>
     (case json_marshal J l of None \<Rightarrow> False
      | Some raw \<Rightarrow> json_unmarshal J raw = Some l \<and> length raw \<le> 0xFFFF0000)"

definition es_view :: "lease_json \<Rightarrow> engine \<Rightarrow> string \<rightharpoonup> Lease" where
  "es_view J e ip = (case row e treeLeases ip of None \<Rightarrow> None | Some raw \<Rightarrow> json_unmarshal J raw)"

definition es_inv :: "lease_json \<Rightarrow> engine \<Rightarrow> bool" where
  "es_inv J e \<longleftrightarrow> eng_ok e \<and> \<not> e_closed e \<and>
     (\<forall>ip raw. row e treeLeases ip = Some raw \<longrightarrow>
        (\<exists>l. json_unmarshal J raw = Some l \<and> l_IP l = ip \<and> lease_ok J l)) \<and>
     (\<forall>t\<in>set sec_trees. \<forall>k v. row e t k = Some v \<longleftrightarrow>
        (\<exists>l. es_view J e v = Some l \<and> (t, k) \<in> set (sec_keys l)))"

lemma sec_keys_trees: "(t, k) \<in> set (sec_keys l) \<Longrightarrow> t \<in> set sec_trees \<and> t \<noteq> treeLeases"
  by (auto simp: sec_keys_def sec_trees_def split: if_splits)

lemma es_inv_eng: "es_inv J e \<Longrightarrow> eng_ok e" "es_inv J e \<Longrightarrow> \<not> e_closed e"
  by (simp_all add: es_inv_def)

lemma es_inv_row:
  assumes "es_inv J e" "row e treeLeases ip = Some raw"
  obtains l where "json_unmarshal J raw = Some l" "l_IP l = ip" "lease_ok J l"
  using assms unfolding es_inv_def by blast

lemma es_inv_sec:
  "es_inv J e \<Longrightarrow> t \<in> set sec_trees \<Longrightarrow>
   row e t k = Some v \<longleftrightarrow> (\<exists>l. es_view J e v = Some l \<and> (t, k) \<in> set (sec_keys l))"
  unfolding es_inv_def by blast

lemma es_inv_view:
  assumes "es_inv J e" "es_view J e ip = Some l"
  shows "l_IP l = ip" "lease_ok J l"
proof -
  obtain raw where raw: "row e treeLeases ip = Some raw" "json_unmarshal J raw = Some l"
    using assms(2) by (auto simp: es_view_def split: option.splits)
  from assms(1) raw(1) obtain l' where "json_unmarshal J raw = Some l'" "l_IP l' = ip" "lease_ok J l'"
    by (rule es_inv_row)
  with raw(2) show "l_IP l = ip" "lease_ok J l" by auto
qed

lemma es_view_None: "es_inv J e \<Longrightarrow> es_view J e ip = None \<longleftrightarrow> row e treeLeases ip = None"
  using es_inv_row by (fastforce simp: es_view_def split: option.splits)

lemma lease_ok_marshal:
  assumes "lease_ok J l"
  obtains raw where "json_marshal J l = Some raw" "json_unmarshal J raw = Some l" "length raw \<le> 0xFFFF0000"
  using assms by (auto simp: lease_ok_def split: option.splits)

text \<open>The separator before the address determines the address.\<close>

lemma after_last_sep:
  assumes "a @ c # x = b @ c # y" "c \<notin> set x" "c \<notin> set y"
  shows "a = b \<and> x = y"
proof -
  have t: "takeWhile (\<lambda>d. d \<noteq> c) (rev (u @ c # z)) = rev z" if "c \<notin> set z" for u z
  proof -
    have "takeWhile (\<lambda>d. d \<noteq> c) (rev z @ c # rev u) = rev z @ takeWhile (\<lambda>d. d \<noteq> c) (c # rev u)"
      using that by (intro takeWhile_append2) auto
    then show ?thesis by simp
  qed
  have "rev x = rev y" using t [OF assms(2), of a] t [OF assms(3), of b] assms(1) by simp
  with assms(1) show ?thesis by simp
qed

lemma sec_keys_suffix: "(t, k) \<in> set (sec_keys l) \<Longrightarrow> \<exists>p. k = p @ CHR 0x1F # l_IP l"
  by (auto simp: sec_keys_def expiry_key_def split: if_splits)

lemma sec_keys_ip:
  assumes "(t, k) \<in> set (sec_keys l)" "(t, k) \<in> set (sec_keys m)" "lease_ok J l" "lease_ok J m"
  shows "l_IP l = l_IP m"
  using sec_keys_suffix [OF assms(1)] sec_keys_suffix [OF assms(2)] after_last_sep assms(3,4)
  unfolding lease_ok_def by metis

lemma sec_keys_once:
  "(t, k) \<in> set (sec_keys l) \<Longrightarrow> (t, k') \<in> set (sec_keys l) \<Longrightarrow> k = k'"
  by (auto simp: sec_keys_def split: if_splits)

section \<open>Lookups\<close>

lemma GetByIP_view:
  assumes "es_inv J e"
  shows "ls_GetByIP J e ip = (case es_view J e ip of None \<Rightarrow> Inl ErrNotFound | Some l \<Rightarrow> Inr l)"
proof (cases "row e treeLeases ip")
  case None
  then show ?thesis by (simp add: ls_GetByIP_def eng_Get_eget es_view_def)
next
  case (Some raw)
  obtain l where "json_unmarshal J raw = Some l" using es_inv_row [OF assms Some] by blast
  with Some show ?thesis by (simp add: ls_GetByIP_def eng_Get_eget es_view_def)
qed

lemma fetchByIPs_view:
  "es_inv J e \<Longrightarrow> fetchByIPs J e ips = Inr (List.map_filter (es_view J e) ips)"
  by (induction ips) (auto simp: GetByIP_view map_filter_simps split: option.split)

lemma set_map_filter: "set (List.map_filter f xs) = {y. \<exists>x\<in>set xs. f x = Some y}"
  by (induction xs) (auto simp: map_filter_simps split: option.splits)

lemma map_map_filter:
  "\<forall>x\<in>set xs. \<exists>y. f x = Some y \<and> g y = x \<Longrightarrow> map g (List.map_filter f xs) = xs"
  by (induction xs) (auto simp: map_filter_simps)

text \<open>The rows of a tree whose key passes a test, as leases.\<close>

lemma sec_rows:
  assumes inv: "es_inv J e" and t: "t \<in> set sec_trees" and m: "map_of (e_trees e) t = Some tree"
  shows "\<exists>ls. fetchByIPs J e (map snd (filter (\<lambda>(k, v). P k) (bt_Snapshot tree))) = Inr ls \<and>
    distinct (map l_IP ls) \<and>
    set ls = {l. es_view J e (l_IP l) = Some l \<and> (\<exists>k. (t, k) \<in> set (sec_keys l) \<and> P k)}"
proof -
  let ?rows = "filter (\<lambda>(k, v). P k) (bt_Snapshot tree)"
  let ?ls = "List.map_filter (es_view J e) (map snd ?rows)"
  have ti: "bt_inv tree"
    using es_inv_eng(1) [OF inv] m by (auto simp: eng_ok_def dest: trees_inv_tree)
  have r: "(k, v) \<in> set (bt_Snapshot tree) \<longleftrightarrow> (\<exists>l. es_view J e v = Some l \<and> (t, k) \<in> set (sec_keys l))" for k v
    using es_inv_sec [OF inv t, of k v] by (simp add: set_bt_Snapshot [OF ti] row_tree [OF m])
  have ip: "es_view J e v = Some l \<Longrightarrow> l_IP l = v" for v l
    using es_inv_view(1) [OF inv] .
  have "\<forall>v\<in>set (map snd ?rows). \<exists>l. es_view J e v = Some l \<and> l_IP l = v"
    using r ip by fastforce
  then have ips: "map l_IP ?ls = map snd ?rows" by (rule map_map_filter)
  have "distinct (bt_Snapshot tree)"
    using bt_inv_distinct [OF ti] by (metis distinct_map map_fst_Snapshot)
  moreover have "inj_on snd (set ?rows)"
  proof (rule inj_onI)
    fix x y assume xy: "x \<in> set ?rows" "y \<in> set ?rows" "snd x = snd y"
    obtain k v where x: "x = (k, v)" by (cases x)
    obtain k' where y: "y = (k', v)" using xy(3) x by (cases y) auto
    have "k = k'" using xy(1,2) r sec_keys_once unfolding x y by auto
    then show "x = y" by (simp add: x y)
  qed
  ultimately have "distinct (map l_IP ?ls)" by (simp add: ips distinct_map)
  moreover have "set ?ls = {l. es_view J e (l_IP l) = Some l \<and> (\<exists>k. (t, k) \<in> set (sec_keys l) \<and> P k)}"
    using r ip by (fastforce simp: set_map_filter)
  ultimately show ?thesis using fetchByIPs_view [OF inv] by blast
qed

lemma sec_absent:
  assumes "es_inv J e" "t \<in> set sec_trees" "map_of (e_trees e) t = None"
  shows "{l. es_view J e (l_IP l) = Some l \<and> (\<exists>k. (t, k) \<in> set (sec_keys l) \<and> P k)} = {}"
proof -
  have "row e t k = None" for k using assms(3) by (simp add: eget.simps)
  then show ?thesis using es_inv_sec [OF assms(1,2)] by fastforce
qed

lemma fetchBySecondaryPrefix_set:
  assumes "es_inv J e" "t \<in> set sec_trees" "p \<noteq> []"
  shows "\<exists>ls. fetchBySecondaryPrefix J e t p = Inr ls \<and> distinct (map l_IP ls) \<and>
    set ls = {l. es_view J e (l_IP l) = Some l \<and> (\<exists>k. (t, k) \<in> set (sec_keys l) \<and> starts_with p k)}"
proof (cases "map_of (e_trees e) t")
  case None
  then show ?thesis
    using sec_absent [OF assms(1,2) None]
    by (simp add: fetchBySecondaryPrefix_def eng_Iterate_def)
next
  case (Some tree)
  then have ti: "bt_inv tree"
    using es_inv_eng(1) [OF assms(1)] by (auto simp: eng_ok_def dest: trees_inv_tree)
  show ?thesis
    unfolding fetchBySecondaryPrefix_def eng_Iterate_def
    using sec_rows [OF assms(1,2) Some] by (simp add: Some scan_prefix [OF ti assms(3)] starts_with_def)
qed

section \<open>Writes\<close>

lemma tx_mutations:
  "map write_of (addSecondaryIndexes l ms) = map write_of ms @ map (\<lambda>p. (p, Some (l_IP l))) (sec_keys l)"
  "map write_of (removeSecondaryIndexes l ms) = map write_of ms @ map (\<lambda>p. (p, None)) (sec_keys l)"
  by (simp_all add: addSecondaryIndexes_def removeSecondaryIndexes_def sec_keys_def tx_Put_def
      tx_Delete_def write_of_def Let_def)

lemma map_run_const: "map_run (map (\<lambda>p. (p, w)) ks) m p = (if p \<in> set ks then w else m p)"
  by (induction ks arbitrary: m) auto

definition logged :: "mutation \<Rightarrow> bool" where
  "logged m \<longleftrightarrow> wf_mut m \<and> encodable (entry_of m)"

lemma tree_names: "wf_name treeLeases" "wf_name treeLeaseByMAC" "wf_name treeLeaseByClient"
  "wf_name treeLeaseBySubnet" "wf_name treeLeaseByExpiry"
  by (simp_all add: wf_name_def)

lemma length_expiry_key: "lease_ok J l \<Longrightarrow> length (expiry_key l) \<le> 65000"
  by (simp add: lease_ok_def expiry_key_def pad_dec_fixed)

lemma logged_add:
  assumes "lease_ok J l" "\<forall>m\<in>set ms. logged m"
  shows "\<forall>m\<in>set (addSecondaryIndexes l ms). logged m"
  using assms length_expiry_key [OF assms(1)]
  by (auto simp: addSecondaryIndexes_def Let_def tx_Put_def logged_def wf_mut_def entry_of_def
      makeTreeKey_def tree_names lease_ok_def)

lemma logged_remove:
  assumes "lease_ok J l" "\<forall>m\<in>set ms. logged m"
  shows "\<forall>m\<in>set (removeSecondaryIndexes l ms). logged m"
  using assms length_expiry_key [OF assms(1)]
  by (auto simp: removeSecondaryIndexes_def Let_def tx_Delete_def logged_def wf_mut_def entry_of_def
      makeTreeKey_def tree_names lease_ok_def)

text \<open>
  What a transaction has to do to the rows: set or clear the row of one address, clear the secondary
  rows of the old lease and set those of the new one.
\<close>

lemma es_inv_replace:
  assumes inv: "es_inv J e" and e': "eng_ok e'" "\<not> e_closed e'"
    and new: "case new of None \<Rightarrow> True | Some (l, raw) \<Rightarrow> lease_ok J l \<and> l_IP l = ip \<and> json_unmarshal J raw = Some l"
    and rows: "\<And>t k. row e' t k =
      (if t = treeLeases then (if k = ip then map_option snd new else row e t k)
       else if \<exists>l raw. new = Some (l, raw) \<and> (t, k) \<in> set (sec_keys l) then Some ip
       else if \<exists>o_l. es_view J e ip = Some o_l \<and> (t, k) \<in> set (sec_keys o_l) then None
       else row e t k)"
  shows "es_inv J e'" "es_view J e' = (es_view J e)(ip := map_option fst new)"
proof -
  show v: "es_view J e' = (es_view J e)(ip := map_option fst new)"
    using new by (auto simp: es_view_def rows fun_eq_iff split: option.splits)
  have view_ok: "lease_ok J l \<and> l_IP l = jp" if "es_view J e jp = Some l" for jp l
    using es_inv_view [OF inv that] by simp
  have "\<exists>l. json_unmarshal J raw = Some l \<and> l_IP l = jp \<and> lease_ok J l"
    if "row e' treeLeases jp = Some raw" for jp raw
    using that new es_inv_row [OF inv, of jp raw] by (auto simp: rows split: if_splits option.splits)
  moreover have "row e' t k = Some x \<longleftrightarrow> (\<exists>l. es_view J e' x = Some l \<and> (t, k) \<in> set (sec_keys l))"
    if t: "t \<in> set sec_trees" for t k x
  proof -
    have tl: "t \<noteq> treeLeases" using t by (auto simp: sec_trees_def)
    note old = es_inv_sec [OF inv t]
    have same_ip: "jp = ip" if "es_view J e jp = Some l" "(t, k) \<in> set (sec_keys l)"
      "(t, k) \<in> set (sec_keys m)" "lease_ok J m" "l_IP m = ip" for jp l m
      using sec_keys_ip [OF that(2,3)] view_ok [OF that(1)] that(4,5) by auto
    show ?thesis
    proof (cases "\<exists>l raw. new = Some (l, raw) \<and> (t, k) \<in> set (sec_keys l)")
      case True
      then obtain l raw where n: "new = Some (l, raw)" "(t, k) \<in> set (sec_keys l)" by blast
      then have "lease_ok J l" "l_IP l = ip" using new by auto
      then show ?thesis
        using n tl same_ip by (auto simp: rows v)
    next
      case F: False
      show ?thesis
      proof (cases "\<exists>o_l. es_view J e ip = Some o_l \<and> (t, k) \<in> set (sec_keys o_l)")
        case True
        then obtain o_l where o: "es_view J e ip = Some o_l" "(t, k) \<in> set (sec_keys o_l)" by blast
        have "row e' t k = None" using True F tl by (simp add: rows)
        then show ?thesis using o same_ip view_ok [OF o(1)] F new by (auto simp: v split: option.splits)
      next
        case False
        have "row e' t k = row e t k" by (subst rows) (simp only: tl F False if_False)
        then show ?thesis using False F by (auto simp: v old)
      qed
    qed
  qed
  ultimately show "es_inv J e'"
    unfolding es_inv_def using e' by blast
qed

lemma leases_not_sec: "(treeLeases, k) \<notin> set (sec_keys l)"
  using sec_keys_trees by blast

lemma upsert_rows:
  "map_run (map write_of (addSecondaryIndexes l
      (case old of Inr o_l \<Rightarrow> removeSecondaryIndexes o_l (tx_Put treeLeases ip raw []) | Inl (_ :: go_error) \<Rightarrow> tx_Put treeLeases ip raw [])))
      m p =
    (if p \<in> set (sec_keys l) then Some (l_IP l)
     else case old of Inr o_l \<Rightarrow> if p \<in> set (sec_keys o_l) then None else (m((treeLeases, ip) \<mapsto> raw)) p
          | Inl _ \<Rightarrow> (m((treeLeases, ip) \<mapsto> raw)) p)"
  by (cases old) (simp_all add: tx_mutations map_run_append map_run_const tx_Put_def write_of_def)

lemma es_upsert:
  assumes inv: "es_inv J e" and ok: "lease_ok J (upserted now l)"
  shows "\<exists>e'. ls_upsert J silent now l e = (e', None) \<and> es_inv J e' \<and>
    es_view J e' = (es_view J e)(l_IP l \<mapsto> upserted now l)"
proof -
  let ?l = "upserted now l" and ?ip = "l_IP l" and ?old = "ls_GetByIP J e (l_IP l)"
  have ip: "l_IP ?l = ?ip" by (simp add: upserted_def)
  obtain raw where raw: "json_marshal J ?l = Some raw" "json_unmarshal J raw = Some ?l" "length raw \<le> 0xFFFF0000"
    using lease_ok_marshal [OF ok] .
  have old: "?old = (case es_view J e ?ip of None \<Rightarrow> Inl ErrNotFound | Some o_l \<Rightarrow> Inr o_l)"
    using GetByIP_view [OF inv] .
  define fn :: "mutation list \<Rightarrow> go_error + mutation list" where
    "fn = (\<lambda>ms. Inr (addSecondaryIndexes ?l (case ?old of Inr o_l \<Rightarrow> removeSecondaryIndexes o_l (tx_Put treeLeases ?ip raw ms)
        | Inl _ \<Rightarrow> tx_Put treeLeases ?ip raw ms)))"
  let ?ms = "addSecondaryIndexes ?l (case ?old of Inr o_l \<Rightarrow> removeSecondaryIndexes o_l (tx_Put treeLeases ?ip raw [])
        | Inl _ \<Rightarrow> tx_Put treeLeases ?ip raw [])"
  have up: "ls_upsert J silent now l e = eng_tx fn (\<not> silent) now e"
  proof -
    have "TrimSpace (l_IP l) \<noteq> []" using ok ip by (simp add: lease_ok_def)
    then show ?thesis
      using raw(1) old
      by (auto simp: ls_upsert_def upserted_def [symmetric] Let_def ip fn_def eng_Tx_def eng_TxSilent_def
          split: option.splits)
  qed
  have base: "\<forall>m\<in>set (tx_Put treeLeases ?ip raw []). logged m"
    using ok raw(3) ip by (simp add: tx_Put_def logged_def wf_mut_def entry_of_def makeTreeKey_def
        tree_names lease_ok_def)
  have "\<forall>m\<in>set ?ms. logged m"
    using es_inv_view(2) [OF inv] base logged_remove [OF _ base]
    by (intro logged_add [OF ok]) (simp add: old split: option.splits, blast)
  then have "\<forall>m\<in>set ?ms. wf_mut m \<and> encodable (entry_of m)" by (simp add: logged_def)
  from eng_tx_ok [OF es_inv_eng [OF inv] _ this, of fn "\<not> silent" now]
  obtain e' where e': "eng_tx fn (\<not> silent) now e = (e', None)" "eng_ok e'" "\<not> e_closed e'"
    "eget (e_trees e') = map_run (map write_of ?ms) (eget (e_trees e))"
    by (auto simp: fn_def)
  have rows: "row e' t k =
      (if t = treeLeases then (if k = ?ip then map_option snd (Some (?l, raw)) else row e t k)
       else if \<exists>l' raw'. Some (?l, raw) = Some (l', raw') \<and> (t, k) \<in> set (sec_keys l') then Some ?ip
       else if \<exists>o_l. es_view J e ?ip = Some o_l \<and> (t, k) \<in> set (sec_keys o_l) then None
       else row e t k)" for t k
    unfolding e'(4) by (auto simp: upsert_rows ip old leases_not_sec split: option.splits)
  have new: "case Some (?l, raw) of None \<Rightarrow> True
      | Some (l', raw') \<Rightarrow> lease_ok J l' \<and> l_IP l' = ?ip \<and> json_unmarshal J raw' = Some l'"
    using ok raw(2) ip by simp
  from es_inv_replace [OF inv e'(2,3) new rows] e'(1) show ?thesis by (simp add: up)
qed

lemma es_delete:
  assumes inv: "es_inv J e"
  shows "\<exists>e'. ls_delete J silent now ip e = (e', None) \<and> es_inv J e' \<and>
    es_view J e' = (es_view J e)(ip := None)"
proof (cases "es_view J e ip")
  case None
  then show ?thesis
    using inv by (auto simp: ls_delete_def GetByIP_view fun_eq_iff)
next
  case (Some o_l)
  note old = es_inv_view [OF inv Some]
  define fn :: "mutation list \<Rightarrow> go_error + mutation list" where
    "fn = (\<lambda>ms. Inr (removeSecondaryIndexes o_l (tx_Delete treeLeases ip ms)))"
  let ?ms = "removeSecondaryIndexes o_l (tx_Delete treeLeases ip [])"
  have up: "ls_delete J silent now ip e = eng_tx fn (\<not> silent) now e"
    by (simp add: ls_delete_def GetByIP_view [OF inv] Some fn_def eng_Tx_def eng_TxSilent_def Let_def)
  have "\<forall>m\<in>set (tx_Delete treeLeases ip []). logged m"
    using old by (simp add: tx_Delete_def logged_def wf_mut_def entry_of_def makeTreeKey_def
        tree_names lease_ok_def)
  then have "\<forall>m\<in>set ?ms. wf_mut m \<and> encodable (entry_of m)"
    using logged_remove [OF old(2)] by (simp add: logged_def)
  from eng_tx_ok [OF es_inv_eng [OF inv] _ this, of fn "\<not> silent" now]
  obtain e' where e': "eng_tx fn (\<not> silent) now e = (e', None)" "eng_ok e'" "\<not> e_closed e'"
    "eget (e_trees e') = map_run (map write_of ?ms) (eget (e_trees e))"
    by (auto simp: fn_def)
  have rows: "row e' t k =
      (if t = treeLeases then (if k = ip then map_option snd (None :: (Lease \<times> bytes) option) else row e t k)
       else if \<exists>l' raw'. None = Some (l' :: Lease, raw' :: bytes) \<and> (t, k) \<in> set (sec_keys l') then Some ip
       else if \<exists>o_l. es_view J e ip = Some o_l \<and> (t, k) \<in> set (sec_keys o_l) then None
       else row e t k)" for t k
    unfolding e'(4)
    by (auto simp: tx_mutations map_run_append map_run_const tx_Delete_def write_of_def Some leases_not_sec)
  from es_inv_replace [OF inv e'(2,3) _ rows] e'(1) show ?thesis by (simp add: up)
qed

section \<open>Reads\<close>

lemma starts_sep:
  assumes "CHR 0x1F \<notin> set p" "CHR 0x1F \<notin> set q"
  shows "starts_with (p @ [CHR 0x1F]) (q @ CHR 0x1F # x) \<longleftrightarrow> p = q"
proof
  assume "starts_with (p @ [CHR 0x1F]) (q @ CHR 0x1F # x)"
  then have "q @ CHR 0x1F # x = (p @ [CHR 0x1F]) @ drop (length (p @ [CHR 0x1F])) (q @ CHR 0x1F # x)"
    unfolding starts_with_def by (metis append_take_drop_id)
  then have e: "q @ CHR 0x1F # x = p @ CHR 0x1F # drop (Suc (length p)) (q @ CHR 0x1F # x)" by simp
  have t: "takeWhile (\<lambda>c. c \<noteq> CHR 0x1F) (r @ CHR 0x1F # y) = r" if "CHR 0x1F \<notin> set r" for r y
  proof -
    have "takeWhile (\<lambda>c. c \<noteq> CHR 0x1F) (r @ CHR 0x1F # y) = r @ takeWhile (\<lambda>c. c \<noteq> CHR 0x1F) (CHR 0x1F # y)"
      using that by (intro takeWhile_append2) auto
    then show ?thesis by simp
  qed
  show "p = q" using t [OF assms(2)] t [OF assms(1)] e by metis
qed (simp add: starts_with_def)

text \<open>The leases of one MAC come in the order of their addresses: their keys share a prefix.\<close>

lemma sorted_suffix:
  "sorted_wrt (<) (map fst rs) \<Longrightarrow> \<forall>(k, v)\<in>set rs. k = p @ v \<Longrightarrow> sorted_wrt (<) (map snd (rs :: (bytes \<times> bytes) list))"
proof (induction rs)
  case (Cons r rs)
  obtain k v where r: "r = (k, v)" by (cases r)
  have "v < w" if "(l, w) \<in> set rs" for l w
  proof -
    have "k < l" "k = p @ v" "l = p @ w" using Cons.prems that r by fastforce+
    then show ?thesis by (simp add: list_less_append_same_length)
  qed
  with Cons r show ?case by auto
qed simp

lemma fetch_mac_sorted:
  assumes inv: "es_inv J e" and mac: "CHR 0x1F \<notin> set (normalizeMAC mac)"
    and ls: "ls_GetByMAC J e mac = Inr ls"
  shows "sorted_wrt (<) (map l_IP ls)"
proof (cases "map_of (e_trees e) treeLeaseByMAC")
  case None
  then show ?thesis using ls by (simp add: ls_GetByMAC_def fetchBySecondaryPrefix_def eng_Iterate_def)
next
  case (Some tree)
  let ?p = "normalizeMAC mac @ indexSep"
  let ?rows = "filter (\<lambda>(k, v). take (length ?p) k = ?p) (bt_Snapshot tree)"
  have tt: "treeLeaseByMAC \<in> set sec_trees" by (simp add: sec_trees_def)
  have ti: "bt_inv tree"
    using es_inv_eng(1) [OF inv] Some by (auto simp: eng_ok_def dest: trees_inv_tree)
  have ne: "?p \<noteq> []" by simp
  have "ls_GetByMAC J e mac = fetchByIPs J e (map snd ?rows)"
    unfolding ls_GetByMAC_def fetchBySecondaryPrefix_def eng_Iterate_def Some
    by (simp only: option.case scan_prefix [OF ti ne] sum.case)
  then have lsq: "ls = List.map_filter (es_view J e) (map snd ?rows)"
    using ls fetchByIPs_view [OF inv] by simp
  have r: "\<exists>l. es_view J e v = Some l \<and> l_IP l = v \<and> k = ?p @ v" if kv: "(k, v) \<in> set ?rows" for k v
  proof -
    have "(k, v) \<in> set (bt_Snapshot tree)" and st: "starts_with ?p k"
      using kv by (auto simp: starts_with_def)
    then have "row e treeLeaseByMAC k = Some v" by (simp add: set_bt_Snapshot [OF ti] row_tree [OF Some])
    then obtain l where l: "es_view J e v = Some l" "(treeLeaseByMAC, k) \<in> set (sec_keys l)"
      using es_inv_sec [OF inv tt] by blast
    have lv: "l_IP l = v" "lease_ok J l" using es_inv_view [OF inv l(1)] .
    have k: "k = normalizeMAC (l_MAC l) @ CHR 0x1F # v"
      using l(2) lv(1) by (auto simp: sec_keys_def split: if_splits)
    have "normalizeMAC mac = normalizeMAC (l_MAC l)"
      using st starts_sep [OF mac, of "normalizeMAC (l_MAC l)" v] lv(2) by (simp add: k lease_ok_def)
    then show ?thesis using l lv k by auto
  qed
  have "map l_IP ls = map snd ?rows"
    unfolding lsq by (rule map_map_filter) (use r in fastforce)
  moreover have "sorted_wrt (<) (map fst ?rows)"
  proof -
    have "map fst ?rows = filter (\<lambda>k. take (length ?p) k = ?p) (bt_keys tree)"
      by (simp add: bt_Snapshot_def filter_map comp_def)
    then show ?thesis using bt_inv_sorted [OF ti] by (simp add: sorted_wrt_filter)
  qed
  ultimately show ?thesis using sorted_suffix [of ?rows ?p] r by fastforce
qed

lemma es_by_mac:
  assumes "es_inv J e"
  shows "\<exists>ls. ls_GetByMAC J e mac = Inr ls \<and> (CHR 0x1F \<notin> set (normalizeMAC mac) \<longrightarrow>
    sorted_wrt (<) (map l_IP ls) \<and> set ls = {l. es_view J e (l_IP l) = Some l \<and> l_MAC l \<noteq> [] \<and> normalizeMAC (l_MAC l) = normalizeMAC mac})"
proof -
  have "(\<exists>k. (treeLeaseByMAC, k) \<in> set (sec_keys l) \<and> starts_with (normalizeMAC mac @ indexSep) k) \<longleftrightarrow>
      l_MAC l \<noteq> [] \<and> normalizeMAC (l_MAC l) = normalizeMAC mac"
    if "es_view J e (l_IP l) = Some l" "CHR 0x1F \<notin> set (normalizeMAC mac)" for l
    using es_inv_view(2) [OF assms that(1)] that(2) starts_sep [of "normalizeMAC mac" "normalizeMAC (l_MAC l)" "l_IP l"]
    by (auto simp: sec_keys_def lease_ok_def)
  then show ?thesis
    using fetchBySecondaryPrefix_set [OF assms, of treeLeaseByMAC "normalizeMAC mac @ indexSep"]
      fetch_mac_sorted [OF assms]
    unfolding ls_GetByMAC_def by (fastforce simp: sec_trees_def)
qed

lemma es_by_client:
  assumes "es_inv J e"
  shows "\<exists>ls. ls_GetByClientID J e cid = Inr ls \<and>
    set ls = {l. es_view J e (l_IP l) = Some l \<and> l_ClientID l \<noteq> [] \<and>
      starts_with (cid @ [CHR 0x1F]) (l_ClientID l @ CHR 0x1F # l_IP l)}"
proof -
  have "(\<exists>k. (treeLeaseByClient, k) \<in> set (sec_keys l) \<and> starts_with (cid @ indexSep) k) \<longleftrightarrow>
      l_ClientID l \<noteq> [] \<and> starts_with (cid @ [CHR 0x1F]) (l_ClientID l @ CHR 0x1F # l_IP l)" for l
    by (auto simp: sec_keys_def)
  then show ?thesis
    using fetchBySecondaryPrefix_set [OF assms, of treeLeaseByClient "cid @ indexSep"]
    unfolding ls_GetByClientID_def by (simp add: sec_trees_def) blast
qed

lemma es_by_subnet:
  assumes "es_inv J e" "CHR 0x1F \<notin> set sid"
  shows "\<exists>ls. ls_ListBySubnet J e sid = Inr ls \<and> distinct (map l_IP ls) \<and>
    set ls = {l. es_view J e (l_IP l) = Some l \<and> l_SubnetID l \<noteq> [] \<and> l_SubnetID l = sid}"
proof -
  have "(\<exists>k. (treeLeaseBySubnet, k) \<in> set (sec_keys l) \<and> starts_with (sid @ indexSep) k) \<longleftrightarrow>
      l_SubnetID l \<noteq> [] \<and> l_SubnetID l = sid"
    if "es_view J e (l_IP l) = Some l" for l
    using es_inv_view(2) [OF assms(1) that] assms(2) starts_sep [of sid "l_SubnetID l" "l_IP l"]
    by (auto simp: sec_keys_def lease_ok_def)
  then show ?thesis
    using fetchBySecondaryPrefix_set [OF assms(1), of treeLeaseBySubnet "sid @ indexSep"]
    unfolding ls_ListBySubnet_def by (fastforce simp: sec_trees_def)
qed

text \<open>The scan by expiry compares the padded seconds; a key is longer than the bound it ties with.\<close>

lemma expiry_key_range:
  assumes "lease_ok J l" "0 \<le> time_unix t" "time_unix t < 10 ^ 20"
  shows "expiry_key l \<le> pad_dec 20 (time_unix t) \<longleftrightarrow> time_unix (l_ExpiryTime l) < time_unix t"
proof -
  let ?a = "nat (time_unix (l_ExpiryTime l))" and ?b = "nat (time_unix t)"
  have x: "0 \<le> time_unix (l_ExpiryTime l)" "time_unix (l_ExpiryTime l) < 10 ^ 20"
    using assms(1) by (auto simp: lease_ok_def)
  then have ab: "?a < 10 ^ 20" "?b < 10 ^ 20" using assms(3) by (simp_all add: nat_less_iff)
  have k: "expiry_key l = fixed 20 ?a @ CHR 0x1F # l_IP l" "pad_dec 20 (time_unix t) = fixed 20 ?b"
    using x assms(2,3) by (simp_all add: expiry_key_def pad_dec_fixed)
  have "fixed 20 ?a @ CHR 0x1F # l_IP l < fixed 20 ?b @ [] \<longleftrightarrow>
      fixed 20 ?a < fixed 20 ?b \<or> fixed 20 ?a = fixed 20 ?b \<and> CHR 0x1F # l_IP l < []"
    by (rule list_less_append_same_length) simp
  then have "expiry_key l < pad_dec 20 (time_unix t) \<longleftrightarrow> ?a < ?b"
    unfolding k using fixed_less [OF ab] by simp
  moreover have "expiry_key l \<noteq> pad_dec 20 (time_unix t)"
  proof
    assume "expiry_key l = pad_dec 20 (time_unix t)"
    then have "length (expiry_key l) = length (pad_dec 20 (time_unix t))" by simp
    then show False unfolding k by simp
  qed
  ultimately show ?thesis using x assms(2) by (auto simp: le_less nat_less_eq_zless)
qed

lemma run_rows_vals:
  "run_rows (\<lambda>ips k v. (ips @ [v], True)) rs s = s @ map snd rs"
  by (induction rs arbitrary: s) auto

lemma es_expiring:
  assumes "es_inv J e" "0 \<le> time_unix t" "time_unix t < 10 ^ 20"
  shows "\<exists>ls. ls_ListExpiringBefore J e t = Inr ls \<and> distinct (map l_IP ls) \<and>
    set ls = {l. es_view J e (l_IP l) = Some l \<and> time_unix (l_ExpiryTime l) < time_unix t}"
proof -
  let ?t = treeLeaseByExpiry and ?hi = "pad_dec 20 (time_unix t)"
  have tt: "?t \<in> set sec_trees" by (simp add: sec_trees_def)
  have ne: "?hi \<noteq> []" using assms(2,3) by (metis length_fixed list.size(3) pad_dec_fixed zero_neq_numeral)
  have in_rng: "in_range [] ?hi k \<longleftrightarrow> k \<le> ?hi" for k
    using ne by (simp add: in_range_def list_le_def) (cases k; simp)
  have sk: "(\<exists>k. (?t, k) \<in> set (sec_keys l) \<and> k \<le> ?hi) \<longleftrightarrow> time_unix (l_ExpiryTime l) < time_unix t"
    if "es_view J e (l_IP l) = Some l" for l
    using expiry_key_range [OF es_inv_view(2) [OF assms(1) that] assms(2,3)] es_inv_view(2) [OF assms(1) that]
    by (auto simp: sec_keys_def lease_ok_def is_zero_time_def)
  show ?thesis
  proof (cases "map_of (e_trees e) ?t")
    case None
    then have "{l. es_view J e (l_IP l) = Some l \<and> time_unix (l_ExpiryTime l) < time_unix t} = {}"
      using sec_absent [OF assms(1) tt None, of "\<lambda>k. k \<le> ?hi"] sk by blast
    then show ?thesis
      using None by (simp add: ls_ListExpiringBefore_def eng_Iterate_def)
  next
    case (Some tree)
    then have ti: "bt_inv tree"
      using es_inv_eng(1) [OF assms(1)] by (auto simp: eng_ok_def dest: trees_inv_tree)
    have "ls_ListExpiringBefore J e t =
        fetchByIPs J e (map snd (filter (\<lambda>(k, v). k \<le> ?hi) (bt_Snapshot tree)))"
      by (simp add: ls_ListExpiringBefore_def eng_Iterate_def Some bt_Iterate_rows [OF ti] run_rows_vals in_rng)
    then show ?thesis
      using sec_rows [OF assms(1) tt Some, of "\<lambda>k. k \<le> ?hi"] sk by fastforce
  qed
qed

lemma run_rows_json:
  "run_rows (\<lambda>out k v. (case f v of None \<Rightarrow> (out, True) | Some l \<Rightarrow> (out @ [l], True))) rs s =
     s @ List.map_filter f (map snd rs)"
  by (induction rs arbitrary: s) (auto simp: map_filter_simps split: option.splits)

lemma map_filter_rows:
  "(\<And>k v. (k, v) \<in> set rs \<Longrightarrow> \<exists>l. f v = Some l \<and> g l = k) \<Longrightarrow>
   map g (List.map_filter f (map snd rs)) = map fst rs"
  by (induction rs) (auto simp: map_filter_simps split: option.split, force+)

lemma es_list_all:
  assumes "es_inv J e"
  shows "\<exists>ls. ls_ListAll J e = Inr ls \<and> distinct (map l_IP ls) \<and> set ls = {l. es_view J e (l_IP l) = Some l}"
proof (cases "map_of (e_trees e) treeLeases")
  case None
  then show ?thesis by (simp add: ls_ListAll_def eng_Iterate_def es_view_def eget.simps)
next
  case (Some tree)
  then have ti: "bt_inv tree"
    using es_inv_eng(1) [OF assms] by (auto simp: eng_ok_def dest: trees_inv_tree)
  let ?rows = "bt_Snapshot tree"
  let ?ls = "List.map_filter (json_unmarshal J) (map snd ?rows)"
  have all: "filter (\<lambda>(k, v). in_range [] [] k) ?rows = ?rows"
    by (auto simp: in_range_def list_le_def intro!: filter_True) (metis Nil_less_Cons neq_Nil_conv)
  have r: "(k, v) \<in> set ?rows \<longleftrightarrow> row e treeLeases k = Some v" for k v
    by (simp add: set_bt_Snapshot [OF ti] row_tree [OF Some])
  have u: "(k, v) \<in> set ?rows \<Longrightarrow> \<exists>l. json_unmarshal J v = Some l \<and> l_IP l = k \<and> es_view J e k = Some l" for k v
    using es_inv_row [OF assms, of k v] r by (fastforce simp: es_view_def)
  have ips: "map l_IP ?ls = map fst ?rows"
    by (rule map_filter_rows) (use u in blast)
  then have "distinct (map l_IP ?ls)" using bt_inv_distinct [OF ti] by simp
  moreover have "set ?ls = {l. es_view J e (l_IP l) = Some l}"
  proof (intro equalityI subsetI)
    fix l assume "l \<in> set ?ls"
    then obtain k v where "(k, v) \<in> set ?rows" "json_unmarshal J v = Some l"
      by (auto simp: set_map_filter)
    with u show "l \<in> {l. es_view J e (l_IP l) = Some l}" by fastforce
  next
    fix l assume "l \<in> {l. es_view J e (l_IP l) = Some l}"
    then obtain raw where "row e treeLeases (l_IP l) = Some raw" "json_unmarshal J raw = Some l"
      by (auto simp: es_view_def split: option.splits)
    with r show "l \<in> set ?ls" by (force simp: set_map_filter)
  qed
  ultimately show ?thesis
    by (simp add: ls_ListAll_def eng_Iterate_def Some bt_Iterate_rows [OF ti] all run_rows_json)
qed

section \<open>The store implements the interface\<close>

interpretation es: lease_store "engine_store J" "es_inv J" "es_view J" "lease_ok J"
proof (unfold_locales, goal_cases)
  case (1 s ip l) then show ?case by (rule es_inv_view(1))
next
  case (2 s now l) then show ?case
    using es_upsert [of J s now l False] by (simp add: engine_store_def ls_Upsert_def)
next
  case (3 s now ip) then show ?case
    using es_delete [of J s False now ip] by (simp add: engine_store_def ls_Delete_def)
next
  case (4 s ip) then show ?case by (simp add: engine_store_def GetByIP_view)
next
  case (5 s mac) then show ?case using es_by_mac by (simp add: engine_store_def)
next
  case (6 s cid) then show ?case using es_by_client by (simp add: engine_store_def)
next
  case (7 s t) then show ?case using es_expiring by (simp add: engine_store_def)
next
  case (8 s) then show ?case using es_list_all by (simp add: engine_store_def)
next
  case (9 s ip l) then show ?case by (rule es_inv_view(2))
qed

end
