(* ===== verification/Sweeper.thy ===== *)
theory Sweeper
  imports LeaseInv
begin

text \<open>
  \<^verbatim>\<open>src/internal/lease/expiry.go\<close>: the sweeper, which expires and frees leases. It works
  on the interface \<open>lease_ops\<close>, as the code does, so what one tick does is proved once inside the
  locale of the interface and used on the engine's store. The ticker and its goroutine are the
  caller: a run of the sweeper is a sequence of ticks at the times of the clock.
\<close>

record sweeper =
  sw_interval :: duration
  sw_quarantine :: duration

definition NewSweeper :: "duration \<Rightarrow> duration \<Rightarrow> sweeper" where
  "NewSweeper interval quarantine =
     \<lparr>sw_interval = (if interval \<le> 0 then second_ns * 30 else interval),
      sw_quarantine = (if quarantine \<le> 0 then 15 * minute_ns else quarantine)\<rparr>"

text \<open>The switch of \<^verbatim>\<open>tick\<close>: the lease afterwards and whether it changed.\<close>

definition sweep_lease :: "duration \<Rightarrow> time \<Rightarrow> Lease \<Rightarrow> Lease \<times> bool" where
  "sweep_lease quarantine now l =
     (if l_State l = StateBound \<or> l_State l = StateRenewing \<or> l_State l = StateOffered then
        (l\<lparr>l_State := StateExpired, l_QuarantineUntil := now + quarantine, l_UpdatedAt := now\<rparr>, True)
      else if l_State l = StateExpired then
        (if is_zero_time (l_QuarantineUntil l) then
           (l\<lparr>l_QuarantineUntil := now + quarantine, l_State := StateQuarantined, l_UpdatedAt := now\<rparr>, True)
         else if now > l_QuarantineUntil l then (l\<lparr>l_State := StateFree, l_UpdatedAt := now\<rparr>, True)
         else (l, False))
      else if l_State l = StateQuarantined then
        (if \<not> is_zero_time (l_QuarantineUntil l) \<and> now > l_QuarantineUntil l
         then (l\<lparr>l_State := StateFree, l_UpdatedAt := now\<rparr>, True) else (l, False))
      else (l, False))"

text \<open>The loop over the leases; the last component lists the leases given to \<^verbatim>\<open>onChange\<close>.\<close>

fun sweep_loop :: "'s lease_ops \<Rightarrow> duration \<Rightarrow> time \<Rightarrow> Lease list \<Rightarrow> 's \<Rightarrow> 's \<times> Lease list" where
  "sweep_loop ops q now [] s = (s, [])"
| "sweep_loop ops q now (l # ls) s =
     (case sweep_lease q now l of
        (l', False) \<Rightarrow> sweep_loop ops q now ls s
      | (l', True) \<Rightarrow>
          (case op_Upsert ops now l' s of
             (s', Some err) \<Rightarrow> sweep_loop ops q now ls s'
           | (s', None) \<Rightarrow>
               (case sweep_loop ops q now ls s' of (s'', changed) \<Rightarrow> (s'', l' # changed))))"

definition sw_tick :: "'s lease_ops \<Rightarrow> sweeper \<Rightarrow> time \<Rightarrow> 's \<Rightarrow> 's \<times> Lease list" where
  "sw_tick ops w now s =
     (case op_ListExpiringBefore ops s now of
        Inl err \<Rightarrow> (s, [])
      | Inr leases \<Rightarrow> sweep_loop ops (sw_quarantine w) now leases s)"

text \<open>What a tick is meant to do to one stored lease.\<close>

definition swept :: "duration \<Rightarrow> time \<Rightarrow> Lease \<Rightarrow> Lease" where
  "swept q now l =
     (if time_unix (l_ExpiryTime l) < time_unix now \<and> snd (sweep_lease q now l)
      then upserted now (fst (sweep_lease q now l)) else l)"

lemma sweep_IP [simp]: "l_IP (fst (sweep_lease q now l)) = l_IP l"
  by (simp add: sweep_lease_def)

context lease_store
begin

lemma sweep_loop_view:
  assumes "inv s" "distinct (map l_IP ls)"
    "\<forall>l\<in>set ls. snd (sweep_lease q now l) \<longrightarrow> ok (upserted now (fst (sweep_lease q now l)))"
  shows "\<exists>s' out. sweep_loop ops q now ls s = (s', out) \<and> inv s' \<and>
    (\<forall>ip. view s' ip = (case map_of (map (\<lambda>l. (l_IP l, l)) ls) ip of
        Some l \<Rightarrow> if snd (sweep_lease q now l) then Some (upserted now (fst (sweep_lease q now l))) else view s ip
      | None \<Rightarrow> view s ip))"
  using assms
proof (induction ls arbitrary: s)
  case Nil
  then show ?case by simp
next
  case (Cons l ls)
  obtain l' b where lb: "sweep_lease q now l = (l', b)" by (cases "sweep_lease q now l")
  have ip: "l_IP l' = l_IP l" using sweep_IP [of q now l] lb by simp
  have fresh: "map_of (map (\<lambda>l. (l_IP l, l)) ls) (l_IP l) = None"
    using Cons.prems(2) by (auto simp: map_of_eq_None_iff)
  show ?case
  proof (cases b)
    case False
    obtain s' out where "sweep_loop ops q now ls s = (s', out)" "inv s'"
      "\<forall>ip. view s' ip = (case map_of (map (\<lambda>l. (l_IP l, l)) ls) ip of
        Some l \<Rightarrow> if snd (sweep_lease q now l) then Some (upserted now (fst (sweep_lease q now l))) else view s ip
      | None \<Rightarrow> view s ip)"
      using Cons by fastforce
    then show ?thesis using fresh lb False by auto
  next
    case True
    obtain s1 where s1: "op_Upsert ops now l' s = (s1, None)" "inv s1"
      "view s1 = (view s)(l_IP l \<mapsto> upserted now l')"
      using upsert [OF Cons.prems(1), of now l'] Cons.prems(3) True lb ip by auto
    obtain s' out where "sweep_loop ops q now ls s1 = (s', out)" "inv s'"
      "\<forall>ip. view s' ip = (case map_of (map (\<lambda>l. (l_IP l, l)) ls) ip of
        Some l \<Rightarrow> if snd (sweep_lease q now l) then Some (upserted now (fst (sweep_lease q now l))) else view s1 ip
      | None \<Rightarrow> view s1 ip)"
      using Cons.IH [OF s1(2)] Cons.prems by fastforce
    then show ?thesis using fresh s1 lb True by (auto split: option.splits)
  qed
qed

lemma tick_view:
  assumes "inv s" "0 \<le> time_unix now" "time_unix now < 10 ^ 20"
    and "\<forall>ip l. view s ip = Some l \<longrightarrow> ok (swept (sw_quarantine w) now l)"
  shows "\<exists>s' out. sw_tick ops w now s = (s', out) \<and> inv s' \<and>
    (\<forall>ip. view s' ip = map_option (swept (sw_quarantine w) now) (view s ip))"
proof -
  let ?q = "sw_quarantine w"
  obtain ls where ls: "op_ListExpiringBefore ops s now = Inr ls" "distinct (map l_IP ls)"
    "set ls = {l. view s (l_IP l) = Some l \<and> time_unix (l_ExpiryTime l) < time_unix now}"
    using expiring [OF assms(1-3)] by blast
  have ok: "\<forall>l\<in>set ls. snd (sweep_lease ?q now l) \<longrightarrow> ok (upserted now (fst (sweep_lease ?q now l)))"
    using assms(4) unfolding ls(3) swept_def by force
  obtain s' out where l: "sweep_loop ops ?q now ls s = (s', out)" "inv s'" and
    v: "\<forall>ip. view s' ip = (case map_of (map (\<lambda>l. (l_IP l, l)) ls) ip of
        Some l \<Rightarrow> if snd (sweep_lease ?q now l) then Some (upserted now (fst (sweep_lease ?q now l))) else view s ip
      | None \<Rightarrow> view s ip)"
    using sweep_loop_view [OF assms(1) ls(2) ok] by blast
  have "view s' ip = map_option (swept ?q now) (view s ip)" for ip
  proof (cases "map_of (map (\<lambda>l. (l_IP l, l)) ls) ip")
    case (Some l)
    then have "l \<in> set ls \<and> l_IP l = ip" by (auto dest!: map_of_SomeD)
    with Some v ls(3) show ?thesis by (auto simp: swept_def)
  next
    case None
    then have "\<forall>l\<in>set ls. l_IP l \<noteq> ip" by (auto simp: map_of_eq_None_iff image_iff)
    then have "\<not> time_unix (l_ExpiryTime l) < time_unix now" if "view s ip = Some l" for l
      using that view_ip [OF assms(1) that] unfolding ls(3) by auto
    with None v show ?thesis by (cases "view s ip") (auto simp: swept_def)
  qed
  with l ls(1) show ?thesis by (simp add: sw_tick_def)
qed

end

section \<open>Properties\<close>

text \<open>one tick of the sweeper over the engine's store applies the transition of the lease state
  machine to every lease whose expiry second is past, and to no other: no lease is missed, none is
  swept twice, and the store's indexes stay in step.\<close>

theorem sweeper_tick:
  assumes "es_inv J e" "0 \<le> time_unix now" "time_unix now < 10 ^ 20"
    and "\<forall>ip l. es_view J e ip = Some l \<longrightarrow> lease_ok J (swept (sw_quarantine w) now l)"
  shows "\<exists>e' out. sw_tick (engine_store J) w now e = (e', out) \<and> es_inv J e' \<and>
    (\<forall>ip. es_view J e' ip = map_option (swept (sw_quarantine w) now) (es_view J e ip))"
  using es.tick_view [OF assms] .

text \<open>The ticks of a run, on one lease.\<close>

definition swept_run :: "duration \<Rightarrow> time list \<Rightarrow> Lease \<Rightarrow> Lease" where
  "swept_run q ts l = fold (swept q) ts l"

text \<open>A lease that is in use, or in quarantine until \<open>u\<close>.\<close>

definition in_use :: "Lease \<Rightarrow> bool" where
  "in_use l \<longleftrightarrow> l_State l = StateBound \<or> l_State l = StateRenewing \<or> l_State l = StateOffered"

definition stored :: "Lease \<Rightarrow> bool" where
  "stored l \<longleftrightarrow> l_ExpiryTime l \<noteq> 0"

lemma upserted_expiry: "stored l \<Longrightarrow> l_ExpiryTime (upserted now l) = l_ExpiryTime l"
  by (simp add: upserted_def NormalizeDefaults_def Let_def is_zero_time_def stored_def)

lemma swept_expiry: "stored l \<Longrightarrow> l_ExpiryTime (swept q now l) = l_ExpiryTime l"
proof -
  assume s: "stored l"
  have e: "l_ExpiryTime (fst (sweep_lease q now l)) = l_ExpiryTime l" by (simp add: sweep_lease_def)
  then have "stored (fst (sweep_lease q now l))" using s by (simp add: stored_def)
  then show ?thesis using upserted_expiry e by (simp add: swept_def)
qed

lemma swept_state:
  "l_State (swept q now l) = (if time_unix (l_ExpiryTime l) < time_unix now then l_State (fst (sweep_lease q now l)) else l_State l)"
  "l_QuarantineUntil (swept q now l) =
     (if time_unix (l_ExpiryTime l) < time_unix now then l_QuarantineUntil (fst (sweep_lease q now l)) else l_QuarantineUntil l)"
  by (auto simp: swept_def upserted_def sweep_lease_def)

lemma swept_stored: "stored l \<Longrightarrow> stored (swept q now l)"
  by (simp add: stored_def swept_expiry [unfolded stored_def])

lemma quarantine_run:
  assumes "l_State l = StateExpired" "l_QuarantineUntil l = u" "0 < u" "stored l"
    and "l_State (swept_run q ts l) \<noteq> StateExpired"
  shows "\<exists>t\<in>set ts. t > u"
  using assms
proof (induction ts arbitrary: l)
  case (Cons t ts)
  show ?case
  proof (cases "t > u")
    case False
    then have "l_State (swept q t l) = StateExpired" "l_QuarantineUntil (swept q t l) = u"
      using Cons.prems(1-3) by (auto simp: swept_state sweep_lease_def is_zero_time_def state_defs)
    then show ?thesis
      using Cons.IH [of "swept q t l"] Cons.prems swept_stored by (auto simp: swept_run_def)
  qed simp
qed (simp add: swept_run_def)

text \<open>C14: an address is not freed before its quarantine is over: when the ticks of a run take a
  lease that was in use to the free state, one tick found it expired and a later one came more than
  the quarantine after it.\<close>

theorem sweeper_quarantine:
  assumes "in_use l" "stored l" "0 \<le> q" "\<forall>t\<in>set ts. 0 < t"
    and "l_State (swept_run q ts l) = StateFree"
  shows "\<exists>us t vs. ts = us @ t # vs \<and> time_unix (l_ExpiryTime l) < time_unix t \<and> (\<exists>v\<in>set vs. v > t + q)"
  using assms
proof (induction ts arbitrary: l)
  case Nil
  then show ?case by (auto simp: swept_run_def in_use_def state_defs)
next
  case (Cons t ts)
  show ?case
  proof (cases "time_unix (l_ExpiryTime l) < time_unix t")
    case True
    let ?l = "swept q t l"
    have "l_State ?l = StateExpired" "l_QuarantineUntil ?l = t + q"
      using Cons.prems(1) True by (auto simp: swept_state sweep_lease_def in_use_def)
    moreover have "l_State (swept_run q ts ?l) \<noteq> StateExpired"
      using Cons.prems(5) by (simp add: swept_run_def state_defs)
    ultimately have "\<exists>v\<in>set ts. v > t + q"
      using quarantine_run [of ?l "t + q" q ts] Cons.prems(2-4) swept_stored by simp
    with True show ?thesis by (intro exI [of _ "[]"]) auto
  next
    case False
    then have "swept q t l = l" by (simp add: swept_def)
    then have "l_State (swept_run q ts l) = StateFree" using Cons.prems(5) by (simp add: swept_run_def)
    from Cons.IH [OF Cons.prems(1-3) _ this] Cons.prems(4) obtain us t' vs where
      "ts = us @ t' # vs" "time_unix (l_ExpiryTime l) < time_unix t'" "\<exists>v\<in>set vs. v > t' + q"
      by auto
    then show ?thesis by (intro exI [of _ "t # us"]) auto
  qed
qed

text \<open>A declined address is never freed: no run of ticks, however long, changes a lease in the
  declined state, although a decline sets the end of its quarantine.\<close>

theorem declined_never_freed:
  assumes "l_State l = StateDeclined"
  shows "swept_run q ts l = l"
  using assms
proof (induction ts)
  case (Cons t ts)
  then have "swept q t l = l" by (simp add: swept_def sweep_lease_def state_defs)
  with Cons show ?case by (simp add: swept_run_def)
qed (simp add: swept_run_def)

end
