(* ===== verification/LeaseProps.thy ===== *)
theory LeaseProps
  imports Sweeper StorageProps
begin

text \<open>
  The properties of the lease store over the engine, and instances of the properties of the store
  and of the sweeper at an engine with one lease.
\<close>

section \<open>Properties\<close>

lemma es_inv_cong:
  assumes "es_inv J e" "eng_ok e'" "\<not> e_closed e'" "eget (e_trees e') = eget (e_trees e)"
  shows "es_inv J e'" "es_view J e' = es_view J e"
proof -
  show v: "es_view J e' = es_view J e" by (simp add: fun_eq_iff es_view_def assms(4))
  show "es_inv J e'" using assms(1-3) unfolding es_inv_def v assms(4) by simp
qed

lemma es_inv_empty:
  assumes "eng_ok e" "\<not> e_closed e" "eget (e_trees e) = Map.empty"
  shows "es_inv J e" "es_view J e = Map.empty"
  using assms by (simp_all add: es_inv_def es_view_def fun_eq_iff)

text \<open>C7: an upsert of an acceptable lease succeeds, sets exactly one entry of the store to the lease
  with its defaults, and leaves the lookup by MAC exact: it returns the stored leases with that
  normalised MAC, the new one among them and a stale one never. A delete removes exactly one entry.\<close>

theorem lease_write_lookup:
  assumes "es_inv J e" "lease_ok J (upserted now l)"
  shows "(\<exists>e' ls. ls_Upsert J now l e = (e', None) \<and> es_inv J e' \<and>
      (\<forall>ip. ls_GetByIP J e' ip = (if ip = l_IP l then Inr (upserted now l) else ls_GetByIP J e ip)) \<and>
      ls_GetByMAC J e' (l_MAC l) = Inr ls \<and>
      set ls = {m. ls_GetByIP J e' (l_IP m) = Inr m \<and> l_MAC m \<noteq> [] \<and> normalizeMAC (l_MAC m) = normalizeMAC (l_MAC l)}) \<and>
    (\<exists>e'. ls_Delete J now ip e = (e', None) \<and> es_inv J e' \<and>
      (\<forall>jp. ls_GetByIP J e' jp = (if jp = ip then Inl ErrNotFound else ls_GetByIP J e jp)))"
proof (intro conjI)
  obtain e' where e': "ls_Upsert J now l e = (e', None)" "es_inv J e'"
    "es_view J e' = (es_view J e)(l_IP l \<mapsto> upserted now l)"
    using es_upsert [OF assms, of False] by (auto simp: ls_Upsert_def)
  have mac: "CHR 0x1F \<notin> set (normalizeMAC (l_MAC l))"
    using assms(2) by (simp add: lease_ok_def upserted_def)
  obtain ls where ls: "ls_GetByMAC J e' (l_MAC l) = Inr ls"
    "set ls = {m. es_view J e' (l_IP m) = Some m \<and> l_MAC m \<noteq> [] \<and> normalizeMAC (l_MAC m) = normalizeMAC (l_MAC l)}"
    using es_by_mac [OF e'(2), of "l_MAC l"] mac by blast
  have v: "es_view J e' ip = Some m \<longleftrightarrow> ls_GetByIP J e' ip = Inr m" for ip m
    by (simp add: GetByIP_view [OF e'(2)] split: option.split)
  show "\<exists>e' ls. ls_Upsert J now l e = (e', None) \<and> es_inv J e' \<and>
      (\<forall>ip. ls_GetByIP J e' ip = (if ip = l_IP l then Inr (upserted now l) else ls_GetByIP J e ip)) \<and>
      ls_GetByMAC J e' (l_MAC l) = Inr ls \<and>
      set ls = {m. ls_GetByIP J e' (l_IP m) = Inr m \<and> l_MAC m \<noteq> [] \<and> normalizeMAC (l_MAC m) = normalizeMAC (l_MAC l)}"
  proof (intro exI conjI allI)
    show "ls_Upsert J now l e = (e', None)" "es_inv J e'" "ls_GetByMAC J e' (l_MAC l) = Inr ls"
      using e' ls by auto
    show "ls_GetByIP J e' ip = (if ip = l_IP l then Inr (upserted now l) else ls_GetByIP J e ip)" for ip
      by (simp add: GetByIP_view [OF e'(2)] GetByIP_view [OF assms(1)] e'(3))
    show "set ls = {m. ls_GetByIP J e' (l_IP m) = Inr m \<and> l_MAC m \<noteq> [] \<and> normalizeMAC (l_MAC m) = normalizeMAC (l_MAC l)}"
      by (simp only: ls(2) v)
  qed
  show "\<exists>e'. ls_Delete J now ip e = (e', None) \<and> es_inv J e' \<and>
      (\<forall>jp. ls_GetByIP J e' jp = (if jp = ip then Inl ErrNotFound else ls_GetByIP J e jp))"
    using es_delete [OF assms(1), of False now ip]
    by (auto simp: ls_Delete_def GetByIP_view assms(1))
qed

text \<open>the scan by expiry returns each lease whose expiry second is before the given second
  exactly once, and no other; so does the list by subnet for the leases of the subnet.\<close>

theorem lease_scans_exact:
  assumes "es_inv J e" "0 \<le> time_unix t" "time_unix t < 10 ^ 20" "CHR 0x1F \<notin> set sid" "sid \<noteq> []"
  shows "\<exists>xs ss. ls_ListExpiringBefore J e t = Inr xs \<and> distinct (map l_IP xs) \<and>
      set xs = {l. ls_GetByIP J e (l_IP l) = Inr l \<and> time_unix (l_ExpiryTime l) < time_unix t} \<and>
      ls_ListBySubnet J e sid = Inr ss \<and> distinct (map l_IP ss) \<and>
      set ss = {l. ls_GetByIP J e (l_IP l) = Inr l \<and> l_SubnetID l = sid}"
proof -
  have v: "es_view J e ip = Some m \<longleftrightarrow> ls_GetByIP J e ip = Inr m" for ip m
    by (simp add: GetByIP_view [OF assms(1)] split: option.split)
  show ?thesis
    using es_expiring [OF assms(1-3)] es_by_subnet [OF assms(1,4)] assms(5) by (auto simp: v)
qed

text \<open>Leases survive a crash: reopening the engine's files gives a store with the same leases,
  its indexes still in step.\<close>

theorem lease_crash_recovery:
  assumes "es_inv J e"
  shows "\<exists>e'. OpenEngine (disk_of e) names = Inr e' \<and> es_inv J e' \<and>
    (\<forall>ip. ls_GetByIP J e' ip = ls_GetByIP J e ip)"
proof -
  have "disk_ok (disk_of e) (eget (e_trees e))"
    using es_inv_eng(1) [OF assms] by (simp add: eng_ok_def)
  from OpenEngine_ok [OF this, of names] obtain e' where e':
    "OpenEngine (disk_of e) names = Inr e'" "eng_ok e'" "eget (e_trees e') = eget (e_trees e)" "\<not> e_closed e'"
    by blast
  note c = es_inv_cong [OF assms e'(2,4,3)]
  then show ?thesis using e'(1) by (auto simp: GetByIP_view assms)
qed

text \<open>The lookup by client identifier is not exact: a client identifier is any bytes, and the
  lookup for one identifier also returns the leases of every client whose identifier continues it
  with the separator byte.\<close>

theorem client_id_collision:
  assumes "es_inv J e" "ls_GetByIP J e ip = Inr l" "l_ClientID l = cid @ CHR 0x1F # rst"
  shows "\<exists>ls. ls_GetByClientID J e cid = Inr ls \<and> l \<in> set ls"
proof -
  have v: "es_view J e ip = Some l" using assms(2) by (auto simp: GetByIP_view [OF assms(1)] split: option.splits)
  then have "es_view J e (l_IP l) = Some l" using es_inv_view(1) [OF assms(1) v] by simp
  moreover have "starts_with (cid @ [CHR 0x1F]) (l_ClientID l @ CHR 0x1F # l_IP l)"
    by (simp add: assms(3) starts_with_def)
  ultimately show ?thesis
    using es_by_client [OF assms(1), of cid] assms(3) by auto
qed

section \<open>Instances\<close>

text \<open>One lease, and a codec that knows it and what the sweeper makes of it.\<close>

definition demo_time :: time where
  "demo_time = (unix_epoch_s + 1700000000) * second_ns"

definition demo_lease :: Lease where
  "demo_lease = zero_lease\<lparr>l_IP := ''10.0.0.5'', l_MAC := ''aa:bb'', l_ClientID := [CHR ''c'', CHR 0x1F, CHR ''d''],
     l_State := StateBound, l_Duration := hour_ns, l_SubnetID := ''lan''\<rparr>"

definition demo_stored :: Lease where
  "demo_stored = upserted demo_time demo_lease"

definition demo_later :: time where
  "demo_later = demo_time + 2 * hour_ns"

definition demo_swept :: Lease where
  "demo_swept = swept (15 * minute_ns) demo_later demo_stored"

definition demo_json :: lease_json where
  "demo_json = \<lparr>json_marshal = (\<lambda>l. if l = demo_stored then Some ''1'' else if l = demo_swept then Some ''2'' else None),
     json_unmarshal = (\<lambda>r. if r = ''1'' then Some demo_stored else if r = ''2'' then Some demo_swept else None)\<rparr>"

lemmas demo_defs = demo_stored_def demo_lease_def upserted_def NormalizeDefaults_def zero_lease_def
  is_zero_time_def demo_time_def unix_epoch_s_def second_ns_def hour_ns_def minute_ns_def i64_def
  go_div_def demo_swept_def demo_later_def swept_def sweep_lease_def state_defs time_unix_def

lemma trim_demo: "TrimSpace ''10.0.0.5'' = ''10.0.0.5''" "TrimSpace ''aa:bb'' = ''aa:bb''"
  by (rule TrimSpace_printable; simp add: printable_def byte_nat_def)+

lemma mac_demo: "normalizeMAC ''aa:bb'' = ''AA:BB''"
  unfolding normalizeMAC_def trim_demo by code_simp

lemma demo_stored_ok: "lease_ok demo_json demo_stored"
proof -
  have "l_IP demo_stored = ''10.0.0.5''" "l_MAC demo_stored = ''aa:bb''" "l_SubnetID demo_stored = ''lan''"
    "l_ClientID demo_stored = [CHR ''c'', CHR 0x1F, CHR ''d'']"
    "l_ExpiryTime demo_stored = (unix_epoch_s + 1700003600) * second_ns"
    by (simp_all add: demo_defs)
  then show ?thesis
    by (simp add: lease_ok_def trim_demo mac_demo demo_json_def time_unix_def second_ns_def unix_epoch_s_def)
qed

lemma demo_swept_fields:
  "l_IP demo_swept = ''10.0.0.5''" "l_MAC demo_swept = ''aa:bb''" "l_SubnetID demo_swept = ''lan''"
  "l_ClientID demo_swept = [CHR ''c'', CHR 0x1F, CHR ''d'']" "l_State demo_swept = StateExpired"
  "l_ExpiryTime demo_swept = (unix_epoch_s + 1700003600) * second_ns"
  by (simp_all add: demo_defs)

lemma demo_swept_ok: "lease_ok demo_json demo_swept"
proof -
  have "demo_swept \<noteq> demo_stored"
  proof
    assume "demo_swept = demo_stored"
    then have "l_State demo_swept = l_State demo_stored" by simp
    then show False by (simp add: demo_swept_fields) (simp add: demo_stored_def upserted_def demo_lease_def state_defs)
  qed
  then show ?thesis
    by (simp add: lease_ok_def demo_swept_fields trim_demo mac_demo demo_json_def time_unix_def
        second_ns_def unix_epoch_s_def)
qed

definition demo_store :: engine where
  "demo_store = fst (ls_Upsert demo_json demo_time demo_lease demo0)"

lemma demo0_inv: "es_inv J demo0" "es_view J demo0 = Map.empty"
proof -
  have "eget (e_trees demo0) = Map.empty" by (rule ext) (auto simp: demo0_eq eget.simps)
  then show "es_inv J demo0" "es_view J demo0 = Map.empty"
    using es_inv_empty reachable_eng_ok [OF demo0_reachable] demo1_open(1) by auto
qed

lemma demo_store_ok: "es_inv demo_json demo_store" "es_view demo_json demo_store = [''10.0.0.5'' \<mapsto> demo_stored]"
proof -
  obtain e' where "ls_upsert demo_json False demo_time demo_lease demo0 = (e', None)" "es_inv demo_json e'"
    "es_view demo_json e' = [l_IP demo_lease \<mapsto> demo_stored]"
    using es_upsert [OF demo0_inv(1), of demo_json demo_time demo_lease False] demo_stored_ok
    by (auto simp: demo0_inv demo_stored_def)
  then show "es_inv demo_json demo_store" "es_view demo_json demo_store = [''10.0.0.5'' \<mapsto> demo_stored]"
    by (auto simp: demo_store_def ls_Upsert_def demo_lease_def)
qed

lemma demo_get: "ls_GetByIP demo_json demo_store ''10.0.0.5'' = Inr demo_stored"
  by (simp add: GetByIP_view [OF demo_store_ok(1)] demo_store_ok(2))

theorem lease_write_lookup_witness:
  "\<exists>e'. ls_Upsert demo_json demo_time demo_lease demo0 = (e', None) \<and>
     ls_GetByIP demo_json e' ''10.0.0.5'' = Inr demo_stored"
proof -
  have "l_IP demo_lease = ''10.0.0.5''" by (simp add: demo_lease_def)
  then show ?thesis
    using lease_write_lookup [OF demo0_inv(1), of demo_json demo_time demo_lease "[]"] demo_stored_ok
    unfolding demo_stored_def by auto
qed

theorem lease_scans_exact_witness:
  "\<exists>xs. ls_ListExpiringBefore demo_json demo_store demo_later = Inr xs \<and> demo_stored \<in> set xs"
proof -
  have "0 \<le> time_unix demo_later" "time_unix demo_later < 10 ^ 20" "l_IP demo_stored = ''10.0.0.5''"
    "time_unix (l_ExpiryTime demo_stored) < time_unix demo_later"
    by (simp_all add: demo_defs)
  then show ?thesis
    using lease_scans_exact [OF demo_store_ok(1), of demo_later "''lan''"] demo_get by auto
qed

theorem lease_crash_recovery_witness:
  "\<exists>e'. OpenEngine (disk_of demo_store) [] = Inr e' \<and> ls_GetByIP demo_json e' ''10.0.0.5'' = Inr demo_stored"
  using lease_crash_recovery [OF demo_store_ok(1), of "[]"] demo_get by auto

theorem client_id_collision_witness:
  "\<exists>ls. ls_GetByClientID demo_json demo_store ''c'' = Inr ls \<and> demo_stored \<in> set ls \<and> l_ClientID demo_stored \<noteq> ''c''"
proof -
  have "l_ClientID demo_stored = ''c'' @ CHR 0x1F # ''d''" by (simp add: demo_stored_def demo_lease_def upserted_def)
  then show ?thesis using client_id_collision [OF demo_store_ok(1) demo_get, of "''c''" "''d''"] by simp
qed

theorem sweeper_tick_witness:
  "\<exists>e' out. sw_tick (engine_store demo_json) (NewSweeper 0 0) demo_later demo_store = (e', out) \<and>
     es_view demo_json e' ''10.0.0.5'' = Some demo_swept \<and> l_State demo_swept = StateExpired"
proof -
  have q: "sw_quarantine (NewSweeper 0 0) = 15 * minute_ns" by (simp add: NewSweeper_def)
  have t: "0 \<le> time_unix demo_later" "time_unix demo_later < 10 ^ 20" by (simp_all add: demo_defs)
  have "\<forall>ip l. es_view demo_json demo_store ip = Some l \<longrightarrow>
      lease_ok demo_json (swept (sw_quarantine (NewSweeper 0 0)) demo_later l)"
    using demo_swept_ok by (auto simp: demo_store_ok q demo_swept_def split: if_splits)
  from sweeper_tick [OF demo_store_ok(1) t this] show ?thesis
    by (auto simp: demo_store_ok(2) q demo_swept_def [symmetric] demo_swept_fields)
qed

theorem sweeper_quarantine_witness:
  "l_State (swept_run 100 [3 * second_ns + unix_epoch_s * second_ns, 4 * second_ns + unix_epoch_s * second_ns]
     (zero_lease\<lparr>l_State := StateOffered, l_ExpiryTime := unix_epoch_s * second_ns\<rparr>)) = StateFree \<and>
   (\<exists>us t vs. [3 * second_ns + unix_epoch_s * second_ns, 4 * second_ns + unix_epoch_s * second_ns] = us @ t # vs \<and>
     (\<exists>v\<in>set vs. v > t + 100))"
proof -
  let ?l = "zero_lease\<lparr>l_State := StateOffered, l_ExpiryTime := unix_epoch_s * second_ns\<rparr>"
  let ?ts = "[3 * second_ns + unix_epoch_s * second_ns, 4 * second_ns + unix_epoch_s * second_ns]"
  have "l_State (swept_run 100 ?ts ?l) = StateFree"
    by (simp add: swept_run_def demo_defs)
  then show ?thesis
    using sweeper_quarantine [of ?l 100 ?ts] by (auto simp: in_use_def stored_def second_ns_def unix_epoch_s_def)
qed

theorem declined_never_freed_witness:
  "l_State (swept_run 100 [unix_epoch_s * second_ns * 2] (zero_lease\<lparr>l_State := StateDeclined\<rparr>)) = StateDeclined"
  using declined_never_freed [of "zero_lease\<lparr>l_State := StateDeclined\<rparr>" 100 "[unix_epoch_s * second_ns * 2]"]
  by simp

end
