(* ===== verification/Net.thy ===== *)
theory Net
  imports GoStrings
begin

text \<open>
  What the code uses of Go's \<^verbatim>\<open>net\<close> and \<^verbatim>\<open>net/netip\<close>: parsing, printing and
  comparing addresses and prefixes. A \<^verbatim>\<open>net.IP\<close> is its bytes (4, 16, or none for nil); a
  \<^verbatim>\<open>netip.Addr\<close> is a 32-bit or a 128-bit word, the latter with its zone. The zero
  \<^verbatim>\<open>netip.Addr\<close> never occurs: the code uses an address only when its parser returned no error.
\<close>

type_synonym ip = bytes

section \<open>net.IP\<close>

definition v4InV6Prefix :: bytes where
  "v4InV6Prefix = replicate 10 (CHR 0x00) @ [CHR 0xFF, CHR 0xFF]"

definition ip_To4 :: "ip \<Rightarrow> ip" where
  "ip_To4 p =
     (if length p = 4 then p
      else if length p = 16 \<and> take 12 p = v4InV6Prefix then drop 12 p
      else [])"

definition ip_To16 :: "ip \<Rightarrow> ip" where
  "ip_To16 p = (if length p = 4 then v4InV6Prefix @ p else if length p = 16 then p else [])"

section \<open>netip.Addr\<close>

datatype addr =
    A4 "32 word"
  | A6 "128 word" string

definition is_digit :: "byte \<Rightarrow> bool" where
  "is_digit c \<longleftrightarrow> CHR ''0'' \<le> c \<and> c \<le> CHR ''9''"

definition digit_val :: "byte \<Rightarrow> nat" where
  "digit_val c = byte_nat c - 48"

text \<open>
  \<^verbatim>\<open>parseIPv4Fields\<close>: no digit yet in the field stands for the code's looks at the first
  character and at the one before.
\<close>

fun v4_fields :: "bytes \<Rightarrow> nat \<Rightarrow> nat \<Rightarrow> nat list \<Rightarrow> nat list option" where
  "v4_fields [] val digLen fs = (if length fs < 3 then None else Some (fs @ [val]))"
| "v4_fields (c # cs) val digLen fs =
     (if is_digit c then
        (if digLen = 1 \<and> val = 0 then None
         else (let v = val * 10 + digit_val c
               in if v > 255 then None else v4_fields cs v (digLen + 1) fs))
      else if c = CHR ''.'' then
        (if digLen = 0 \<or> cs = [] then None
         else if length fs = 3 then None
         else v4_fields cs 0 0 (fs @ [val]))
      else None)"

definition parseIPv4 :: "bytes \<Rightarrow> bytes option" where
  "parseIPv4 s = map_option (map nat_byte) (v4_fields s 0 0 [])"

definition word_of_bytes :: "bytes \<Rightarrow> 'a::len word" where
  "word_of_bytes bs = of_nat (be_nat bs)"

definition hex_val :: "byte \<Rightarrow> nat option" where
  "hex_val c =
     (if CHR ''0'' \<le> c \<and> c \<le> CHR ''9'' then Some (byte_nat c - 48)
      else if CHR ''a'' \<le> c \<and> c \<le> CHR ''f'' then Some (byte_nat c - 87)
      else if CHR ''A'' \<le> c \<and> c \<le> CHR ''F'' then Some (byte_nat c - 55)
      else None)"

text \<open>The hexadecimal digits at the head: their value and the rest; more than four are an error.\<close>

fun hex_group :: "bytes \<Rightarrow> nat \<Rightarrow> nat \<Rightarrow> (nat \<times> nat \<times> bytes) option" where
  "hex_group [] off acc = Some (off, acc, [])"
| "hex_group (c # cs) off acc =
     (case hex_val c of
        None \<Rightarrow> Some (off, acc, c # cs)
      | Some d \<Rightarrow> if off > 3 then None else hex_group cs (off + 1) (acc * 16 + d))"

text \<open>
  The loop of \<^verbatim>\<open>parseIPv6\<close>: \<open>acc6\<close> are the bytes parsed so far and \<open>ell\<close> their
  number at the ellipsis. \<open>n\<close> counts the turns left: each adds two bytes, so eight are enough.
\<close>

fun v6_loop :: "nat \<Rightarrow> bytes \<Rightarrow> bytes \<Rightarrow> nat option \<Rightarrow> (bytes \<times> nat option \<times> bytes) option" where
  "v6_loop 0 s acc6 ell = Some (acc6, ell, s)"
| "v6_loop (Suc n) s acc6 ell =
     (case hex_group s 0 0 of
        None \<Rightarrow> None
      | Some (off, acc, rest) \<Rightarrow>
          if off = 0 then None
          else if rest \<noteq> [] \<and> hd rest = CHR ''.'' then
            (if ell = None \<and> length acc6 \<noteq> 12 then None
             else if length acc6 + 4 > 16 then None
             else (case parseIPv4 s of None \<Rightarrow> None | Some q \<Rightarrow> Some (acc6 @ q, ell, [])))
          else
            (let acc7 = acc6 @ [nat_byte (acc div 256), nat_byte acc] in
             if rest = [] then Some (acc7, ell, [])
             else if hd rest \<noteq> CHR '':'' then None
             else if tl rest = [] then None
             else
               (let s1 = tl rest in
                if hd s1 = CHR '':'' then
                  (if ell \<noteq> None then None
                   else if tl s1 = [] then Some (acc7, Some (length acc7), [])
                   else v6_loop n (tl s1) acc7 (Some (length acc7)))
                else v6_loop n s1 acc7 ell)))"

fun split_byte :: "byte \<Rightarrow> bytes \<Rightarrow> bytes \<times> bytes option" where
  "split_byte c [] = ([], None)"
| "split_byte c (x # xs) =
     (if x = c then ([], Some xs) else (case split_byte c xs of (a, b) \<Rightarrow> (x # a, b)))"

definition parseIPv6 :: "bytes \<Rightarrow> addr option" where
  "parseIPv6 inp =
     (case split_byte (CHR ''%'') inp of (s0, z) \<Rightarrow>
        if z = Some [] then None
        else
          (let zone = (case z of None \<Rightarrow> [] | Some zn \<Rightarrow> zn);
               lead = take 2 s0 = [CHR '':'', CHR '':''];
               s = (if lead then drop 2 s0 else s0)
           in if lead \<and> s = [] then Some (A6 0 zone)
              else
                (case v6_loop 8 s [] (if lead then Some 0 else None) of
                   None \<Rightarrow> None
                 | Some (bs, ell, rest) \<Rightarrow>
                     if rest \<noteq> [] then None
                     else if length bs < 16 then
                       (case ell of
                          None \<Rightarrow> None
                        | Some i \<Rightarrow>
                            Some (A6 (word_of_bytes (take i bs @ replicate (16 - length bs) (CHR 0x00) @ drop i bs)) zone))
                     else if ell \<noteq> None then None
                     else Some (A6 (word_of_bytes bs) zone))))"

fun ParseAddr_scan :: "bytes \<Rightarrow> bytes \<Rightarrow> addr option" where
  "ParseAddr_scan s [] = None"
| "ParseAddr_scan s (c # cs) =
     (if c = CHR ''.'' then map_option (\<lambda>bs. A4 (word_of_bytes bs)) (parseIPv4 s)
      else if c = CHR '':'' then parseIPv6 s
      else if c = CHR ''%'' then None
      else ParseAddr_scan s cs)"

definition ParseAddr :: "bytes \<Rightarrow> addr option" where
  "ParseAddr s = ParseAddr_scan s s"

definition word_bytes :: "nat \<Rightarrow> 'a::len word \<Rightarrow> bytes" where
  "word_bytes k w = be k (unat w)"

text \<open>\<^verbatim>\<open>net.ParseIP\<close>: 16 bytes, and nil for an error or a zone.\<close>

definition net_ParseIP :: "bytes \<Rightarrow> ip" where
  "net_ParseIP s =
     (case ParseAddr s of
        None \<Rightarrow> []
      | Some (A4 w) \<Rightarrow> v4InV6Prefix @ word_bytes 4 w
      | Some (A6 w zone) \<Rightarrow> if zone \<noteq> [] then [] else word_bytes 16 w)"

section \<open>Printing\<close>

definition ip4_string :: "bytes \<Rightarrow> bytes" where
  "ip4_string p =
     dec (byte_nat (p ! 0)) @ [CHR ''.''] @ dec (byte_nat (p ! 1)) @ [CHR ''.''] @
     dec (byte_nat (p ! 2)) @ [CHR ''.''] @ dec (byte_nat (p ! 3))"

definition hex_digit :: "nat \<Rightarrow> byte" where
  "hex_digit n = (if n < 10 then nat_byte (48 + n) else nat_byte (87 + n))"

fun hex_nat :: "nat \<Rightarrow> bytes" where
  "hex_nat n = (if n < 16 then [hex_digit n] else hex_nat (n div 16) @ [hex_digit (n mod 16)])"

declare hex_nat.simps [simp del]

definition group16 :: "128 word \<Rightarrow> nat \<Rightarrow> nat" where
  "group16 w i = unat w div 65536 ^ (7 - i) mod 65536"

text \<open>The longest run of at least two zero groups, the first one of the longest.\<close>

fun zero_run :: "nat list \<Rightarrow> nat" where
  "zero_run [] = 0"
| "zero_run (g # gs) = (if g = 0 then Suc (zero_run gs) else 0)"

fun best_run :: "nat list \<Rightarrow> nat \<Rightarrow> nat \<times> nat" where
  "best_run [] i = (0, 0)"
| "best_run (g # gs) i =
     (case best_run gs (Suc i) of (j, l) \<Rightarrow>
        let l0 = zero_run (g # gs) in if l0 \<ge> 2 \<and> l0 \<ge> l then (i, l0) else (j, l))"

fun join_colon :: "bytes list \<Rightarrow> bytes" where
  "join_colon [] = []"
| "join_colon [x] = x"
| "join_colon (x # y # xs) = x @ [CHR '':''] @ join_colon (y # xs)"

definition ip6_string :: "128 word \<Rightarrow> bytes" where
  "ip6_string w =
     (let gs = map (group16 w) [0..<8] in
      case best_run gs 0 of (i, l) \<Rightarrow>
        if l < 2 then join_colon (map hex_nat gs)
        else join_colon (map hex_nat (take i gs)) @ [CHR '':'', CHR '':''] @
             join_colon (map hex_nat (drop (i + l) gs)))"

text \<open>
  \<^verbatim>\<open>IP.String\<close>. The code prints addresses of four or sixteen bytes, or nil; other lengths
  give \<^verbatim>\<open>?\<close> and the bytes in hexadecimal.
\<close>

definition hex_byte :: "byte \<Rightarrow> bytes" where
  "hex_byte c = [hex_digit (byte_nat c div 16), hex_digit (byte_nat c mod 16)]"

text \<open>\<^verbatim>\<open>hex.EncodeToString\<close>.\<close>

definition hex_encode :: "bytes \<Rightarrow> string" where
  "hex_encode b = concat (map hex_byte b)"

definition ip_String :: "ip \<Rightarrow> bytes" where
  "ip_String p =
     (if p = [] then ''<nil>''
      else if ip_To4 p \<noteq> [] then ip4_string (ip_To4 p)
      else if length p = 16 then ip6_string (word_of_bytes p)
      else CHR ''?'' # concat (map hex_byte p))"

text \<open>\<^verbatim>\<open>HardwareAddr.String\<close>.\<close>

definition hw_String :: "bytes \<Rightarrow> bytes" where
  "hw_String a = join_colon (map hex_byte a)"

section \<open>netip.Prefix\<close>

record prefix =
  pfx_addr :: addr
  pfx_bits :: nat

fun last_index :: "byte \<Rightarrow> bytes \<Rightarrow> nat option" where
  "last_index c [] = None"
| "last_index c (x # xs) =
     (case last_index c xs of Some i \<Rightarrow> Some (Suc i) | None \<Rightarrow> if x = c then Some 0 else None)"

fun dec_val :: "nat \<Rightarrow> bytes \<Rightarrow> nat" where
  "dec_val a [] = a"
| "dec_val a (c # cs) = dec_val (a * 10 + digit_val c) cs"

text \<open>\<^verbatim>\<open>strconv.Atoi\<close>: a sign, digits, and the range of 64 bits.\<close>

definition Atoi :: "string \<Rightarrow> int option" where
  "Atoi s =
     (let neg = (s \<noteq> [] \<and> hd s = CHR ''-'');
          ds = (if s \<noteq> [] \<and> (hd s = CHR ''-'' \<or> hd s = CHR ''+'') then tl s else s);
          n = (if neg then - int (dec_val 0 ds) else int (dec_val 0 ds))
      in if ds = [] \<or> \<not> list_all is_digit ds \<or> n < - (2 ^ 63) \<or> n \<ge> 2 ^ 63 then None else Some n)"

text \<open>\<^verbatim>\<open>net.SplitHostPort\<close>.\<close>

definition index_of :: "byte \<Rightarrow> bytes \<Rightarrow> nat option" where
  "index_of c s = (let i = length (takeWhile (\<lambda>x. x \<noteq> c) s) in if i < length s then Some i else None)"

definition SplitHostPort :: "bytes \<Rightarrow> (bytes \<times> bytes) option" where
  "SplitHostPort s =
     (case last_index (CHR '':'') s of
        None \<Rightarrow> None
      | Some i \<Rightarrow>
          (let hjk = (if hd s = CHR ''['' then
                 (case index_of (CHR '']'') s of
                    None \<Rightarrow> None
                  | Some e \<Rightarrow> if e + 1 = i then Some (drop 1 (take e s), 1, e + 1) else None)
               else if CHR '':'' \<in> set (take i s) then None else Some (take i s, 0, 0))
           in case hjk of
                None \<Rightarrow> None
              | Some (host, j, k) \<Rightarrow>
                  if CHR ''['' \<in> set (drop j s) \<or> CHR '']'' \<in> set (drop k s) then None
                  else Some (host, drop (i + 1) s)))"

definition addr_bitlen :: "addr \<Rightarrow> nat" where
  "addr_bitlen a = (case a of A4 _ \<Rightarrow> 32 | A6 _ _ \<Rightarrow> 128)"

text \<open>
  The bits are one digit, or digits the first of which is not zero; a number that overflows
  \<^verbatim>\<open>int\<close> is above the maximum too.
\<close>

definition ParsePrefix :: "bytes \<Rightarrow> prefix option" where
  "ParsePrefix s =
     (case last_index (CHR ''/'') s of
        None \<Rightarrow> None
      | Some i \<Rightarrow>
          (case ParseAddr (take i s) of
             None \<Rightarrow> None
           | Some a \<Rightarrow>
               (let bitsStr = drop (i + 1) s in
                if (case a of A6 _ z \<Rightarrow> z \<noteq> [] | A4 _ \<Rightarrow> False) then None
                else if length bitsStr > 1 \<and> (hd bitsStr < CHR ''1'' \<or> hd bitsStr > CHR ''9'') then None
                else if bitsStr = [] \<or> \<not> (\<forall>c\<in>set bitsStr. is_digit c) then None
                else if dec_val 0 bitsStr > addr_bitlen a then None
                else Some \<lparr>pfx_addr = a, pfx_bits = dec_val 0 bitsStr\<rparr>)))"

text \<open>\<^verbatim>\<open>Addr.Next\<close>; \<open>None\<close> is the zero \<^verbatim>\<open>Addr\<close> that follows the last one.\<close>

definition addr_Next :: "addr \<Rightarrow> addr option" where
  "addr_Next a =
     (case a of
        A4 w \<Rightarrow> if w = - 1 then None else Some (A4 (w + 1))
      | A6 w z \<Rightarrow> if w = - 1 then None else Some (A6 (w + 1) z))"

definition pfx_Contains :: "prefix \<Rightarrow> addr \<Rightarrow> bool" where
  "pfx_Contains p a =
     (case (pfx_addr p, a) of
        (A4 x, A4 y) \<Rightarrow> drop_bit (32 - pfx_bits p) x = drop_bit (32 - pfx_bits p) y
      | (A6 x _, A6 y z) \<Rightarrow> z = [] \<and> drop_bit (128 - pfx_bits p) x = drop_bit (128 - pfx_bits p) y
      | _ \<Rightarrow> False)"

text \<open>\<^verbatim>\<open>Prefix.Masked\<close> and \<^verbatim>\<open>Prefix.Overlaps\<close>.\<close>

definition pfx_Masked :: "prefix \<Rightarrow> prefix" where
  "pfx_Masked p =
     p\<lparr>pfx_addr := (case pfx_addr p of
        A4 x \<Rightarrow> A4 (push_bit (32 - pfx_bits p) (drop_bit (32 - pfx_bits p) x))
      | A6 x z \<Rightarrow> A6 (push_bit (128 - pfx_bits p) (drop_bit (128 - pfx_bits p) x)) [])\<rparr>"

definition pfx_Overlaps :: "prefix \<Rightarrow> prefix \<Rightarrow> bool" where
  "pfx_Overlaps p q =
     (let b = min (pfx_bits p) (pfx_bits q) in
      case (pfx_addr p, pfx_addr q) of
        (A4 x, A4 y) \<Rightarrow> drop_bit (32 - b) x = drop_bit (32 - b) y
      | (A6 x _, A6 y _) \<Rightarrow> drop_bit (128 - b) x = drop_bit (128 - b) y
      | _ \<Rightarrow> False)"

definition addr_As4 :: "addr \<Rightarrow> go_error + 32 word" where
  "addr_As4 a =
     (case a of
        A4 w \<Rightarrow> Inr w
      | A6 w z \<Rightarrow> if drop_bit 32 w = 0xFFFF then Inr (ucast w) else Inl (Panic ''As4 called on IPv6 address''))"

section \<open>Printing an IPv4 address and reading it back\<close>

lemma digit_ok: "k < 10 \<Longrightarrow> is_digit (digit k) \<and> digit_val (digit k) = k"
proof -
  assume k: "k < 10"
  have "is_digit (digit k)" using k by (simp add: is_digit_def digit_def less_eq_char_def nat_byte_def)
  moreover have "digit_val (digit k) = k" using k by (simp add: digit_val_def digit_def)
  ultimately show ?thesis by simp
qed

lemma v4_field:
  "n < 256 \<Longrightarrow> v4_fields (dec n @ cs) 0 0 fs = v4_fields cs n (length (dec n)) fs \<and> 0 < length (dec n)"
proof -
  assume n: "n < 256"
  have d: "is_digit (digit k) \<and> digit_val (digit k) = k" if "k < 10" for k
    using that digit_ok by simp
  consider "n < 10" | "10 \<le> n" "n < 100" | "100 \<le> n" by linarith
  then show ?thesis
  proof cases
    case 1
    then show ?thesis using d [of n] by (simp add: dec.simps [of n] Let_def)
  next
    case 2
    then have q: "n div 10 < 10" "n div 10 \<noteq> 0" by auto
    have e: "dec n = [digit (n div 10), digit (n mod 10)]"
      using 2 q by (simp add: dec.simps [of n] dec.simps [of "n div 10"])
    show ?thesis using d [OF q(1)] d [of "n mod 10"] q n by (simp add: e Let_def)
  next
    case 3
    then have q: "n div 10 div 10 < 10" "n div 10 div 10 \<noteq> 0" "\<not> n div 10 < 10" using n by auto
    have e: "dec n = [digit (n div 10 div 10), digit (n div 10 mod 10), digit (n mod 10)]"
      using 3 q by (simp add: dec.simps [of n] dec.simps [of "n div 10"] dec.simps [of "n div 10 div 10"])
    have w: "\<not> 255 < n div 10" using n by simp
    have v: "n div 10 div 10 * 10 + n div 10 mod 10 = n div 10" "n div 10 * 10 + n mod 10 = n" by simp_all
    show ?thesis
      using d [OF q(1)] d [of "n div 10 mod 10"] d [of "n mod 10"] q n
      by (simp add: e v w Let_def)
  qed
qed

lemma list4: "length p = 4 \<Longrightarrow> \<exists>a b c d. p = [a, b, c, d]"
  by (auto simp: numeral_eq_Suc length_Suc_conv)

lemma parse_ip4_string:
  assumes "length p = 4"
  shows "parseIPv4 (ip4_string p) = Some p"
proof -
  obtain a b c d where p: "p = [a, b, c, d]" using list4 [OF assms] by blast
  have dot: "\<not> is_digit (CHR ''.'')" by (simp add: is_digit_def less_eq_char_def)
  note f = v4_field [OF byte_nat_less]
  have ne: "dec n \<noteq> []" for n by (simp add: dec.simps [of n])
  have last: "v4_fields (dec (byte_nat d)) 0 0 fs = v4_fields [] (byte_nat d) (length (dec (byte_nat d))) fs" for fs
    using f [of d "[]" fs] by simp
  show ?thesis
    by (simp add: parseIPv4_def ip4_string_def p f dot ne last)
qed

lemma digits_dec: "c \<in> set (dec n) \<Longrightarrow> is_digit c"
proof (induction n rule: dec.induct)
  case (1 n)
  have d: "is_digit (digit k)" if "k < 10" for k
    using that digit_ok by simp
  show ?case
    using 1 d [of n] d [of "n mod 10"] by (cases "n < 10") (auto simp: dec.simps [of n])
qed

lemma ParseAddr_scan_digits:
  "(\<And>c. c \<in> set xs \<Longrightarrow> is_digit c) \<Longrightarrow> ParseAddr_scan s (xs @ CHR ''.'' # ys) = map_option (\<lambda>bs. A4 (word_of_bytes bs)) (parseIPv4 s)"
proof (induction xs)
  case (Cons x xs)
  have "x \<noteq> CHR ''.''" "x \<noteq> CHR '':''" "x \<noteq> CHR ''%''"
    using Cons.prems [of x] by (auto simp: is_digit_def less_eq_char_def)
  with Cons show ?case by simp
qed simp

lemma word_bytes_of [simp]:
  "length p = 4 \<Longrightarrow> word_bytes 4 (word_of_bytes p :: 32 word) = p"
  "length p = 16 \<Longrightarrow> word_bytes 16 (word_of_bytes p :: 128 word) = p"
  using be_nat_bound [of p] by (simp_all add: word_bytes_def word_of_bytes_def unat_of_nat)

lemma word_of_bytes_be [simp]:
  "word_of_bytes (word_bytes 4 w) = (w :: 32 word)"
  "word_of_bytes (word_bytes 16 x) = (x :: 128 word)"
  using unsigned_less [of w, where ?'a = nat] unsigned_less [of x, where ?'a = nat] by (simp_all add: word_bytes_def word_of_bytes_def)

lemma length_word_bytes [simp]: "length (word_bytes k w) = k"
  by (simp add: word_bytes_def)

theorem ParseIP_String:
  assumes "length p = 4"
  shows "ParseAddr (ip_String p) = Some (A4 (word_of_bytes p))" "ip_To4 (net_ParseIP (ip_String p)) = p"
proof -
  have s: "ip_String p = ip4_string p"
    using assms by (auto simp: ip_String_def ip_To4_def)
  have "ParseAddr_scan t (ip4_string p) = map_option (\<lambda>bs. A4 (word_of_bytes bs)) (parseIPv4 t)" for t
    unfolding ip4_string_def append_Cons append_Nil by (rule ParseAddr_scan_digits) (rule digits_dec)
  then show a: "ParseAddr (ip_String p) = Some (A4 (word_of_bytes p))"
    by (simp add: s ParseAddr_def parse_ip4_string [OF assms])
  show "ip_To4 (net_ParseIP (ip_String p)) = p"
    using assms by (simp add: net_ParseIP_def a ip_To4_def v4InV6Prefix_def)
qed

lemma ip_String_inj: "length p = 4 \<Longrightarrow> length q = 4 \<Longrightarrow> ip_String p = ip_String q \<Longrightarrow> p = q"
  using ParseIP_String(2) by metis

end
