(* ===== verification/Dhcp4Packet.thy ===== *)
theory Dhcp4Packet
  imports Net
begin

text \<open>
  \<^verbatim>\<open>src/internal/dhcpv4/packet.go\<close>, \<^verbatim>\<open>options.go\<close>, \<^verbatim>\<open>relay.go\<close>,
  \<^verbatim>\<open>broadcast.go\<close> and \<^verbatim>\<open>rapid_commit.go\<close>: the DHCPv4 message and its wire format. The
  options are a Go map that \<^verbatim>\<open>Encode\<close> ranges over, so they are an association list whose order
  is the order of that range; all the properties hold for every order.
\<close>

abbreviation OptionPad :: byte where "OptionPad \<equiv> CHR 0x00"
abbreviation OptionSubnetMask :: byte where "OptionSubnetMask \<equiv> CHR 0x01"
abbreviation OptionRouter :: byte where "OptionRouter \<equiv> CHR 0x03"
abbreviation OptionDomainNameServer :: byte where "OptionDomainNameServer \<equiv> CHR 0x06"
abbreviation OptionHostName :: byte where "OptionHostName \<equiv> CHR 0x0C"
abbreviation OptionRequestedIP :: byte where "OptionRequestedIP \<equiv> CHR 0x32"
abbreviation OptionIPAddressLeaseTime :: byte where "OptionIPAddressLeaseTime \<equiv> CHR 0x33"
abbreviation OptionMessageType :: byte where "OptionMessageType \<equiv> CHR 0x35"
abbreviation OptionServerIdentifier :: byte where "OptionServerIdentifier \<equiv> CHR 0x36"
abbreviation OptionMessage :: byte where "OptionMessage \<equiv> CHR 0x38"
abbreviation OptionRenewalTimeValue :: byte where "OptionRenewalTimeValue \<equiv> CHR 0x3A"
abbreviation OptionRebindingTimeValue :: byte where "OptionRebindingTimeValue \<equiv> CHR 0x3B"
abbreviation OptionVendorClassID :: byte where "OptionVendorClassID \<equiv> CHR 0x3C"
abbreviation OptionClientIdentifier :: byte where "OptionClientIdentifier \<equiv> CHR 0x3D"
abbreviation OptionUserClass :: byte where "OptionUserClass \<equiv> CHR 0x4D"
abbreviation OptionRapidCommit :: byte where "OptionRapidCommit \<equiv> CHR 0x50"
abbreviation OptionRelayAgentInfo :: byte where "OptionRelayAgentInfo \<equiv> CHR 0x52"
abbreviation OptionEnd :: byte where "OptionEnd \<equiv> CHR 0xFF"

abbreviation MessageDiscover :: byte where "MessageDiscover \<equiv> CHR 0x01"
abbreviation MessageOffer :: byte where "MessageOffer \<equiv> CHR 0x02"
abbreviation MessageRequest :: byte where "MessageRequest \<equiv> CHR 0x03"
abbreviation MessageDecline :: byte where "MessageDecline \<equiv> CHR 0x04"
abbreviation MessageAck :: byte where "MessageAck \<equiv> CHR 0x05"
abbreviation MessageNak :: byte where "MessageNak \<equiv> CHR 0x06"
abbreviation MessageRelease :: byte where "MessageRelease \<equiv> CHR 0x07"
abbreviation MessageInform :: byte where "MessageInform \<equiv> CHR 0x08"

section \<open>Options\<close>

type_synonym Options = "(byte \<times> bytes) list"

function DecodeOptions_loop :: "bytes \<Rightarrow> Options \<Rightarrow> go_error + Options" where
  "DecodeOptions_loop raw opts =
     (case raw of
        [] \<Rightarrow> Inr opts
      | code # r1 \<Rightarrow>
          if code = OptionPad then DecodeOptions_loop r1 opts
          else if code = OptionEnd then Inr opts
          else
            (case r1 of
               [] \<Rightarrow> Inl (ErrMsg ''truncated option length'')
             | lb # r2 \<Rightarrow>
                 let l = byte_nat lb in
                 if length r2 < l then Inl (ErrMsg ''option truncated'')
                 else DecodeOptions_loop (drop l r2) (mput code (take l r2) opts)))"
  by pat_completeness auto
termination
  by (relation "measure (\<lambda>(raw, opts). length raw)") auto

declare DecodeOptions_loop.simps [simp del]

definition DecodeOptions :: "bytes \<Rightarrow> go_error + Options" where
  "DecodeOptions raw = DecodeOptions_loop raw []"

fun Options_Encode_loop :: "Options \<Rightarrow> go_error + bytes" where
  "Options_Encode_loop [] = Inr []"
| "Options_Encode_loop ((code, val) # opts) =
     (if code = OptionPad \<or> code = OptionEnd then Options_Encode_loop opts
      else if length val > 255 then Inl (ErrMsg ''option too large'')
      else rbind (Options_Encode_loop opts) (\<lambda>more.
             Inr ([code, nat_byte (length val)] @ val @ more)))"

definition Options_Encode :: "Options \<Rightarrow> go_error + bytes" where
  "Options_Encode opts = rbind (Options_Encode_loop opts) (\<lambda>out. Inr (out @ [OptionEnd]))"

definition opt_MessageType :: "Options \<Rightarrow> byte option" where
  "opt_MessageType opts =
     (case map_of opts OptionMessageType of
        None \<Rightarrow> None
      | Some v \<Rightarrow> if length v \<noteq> 1 then None else Some (v ! 0))"

definition opt_SetMessageType :: "byte \<Rightarrow> Options \<Rightarrow> Options" where
  "opt_SetMessageType t opts = mput OptionMessageType [t] opts"

text \<open>The nil address, that is \<open>[]\<close>, for a missing or malformed option.\<close>

definition opt_RequestedIP :: "Options \<Rightarrow> ip" where
  "opt_RequestedIP opts =
     (case map_of opts OptionRequestedIP of
        None \<Rightarrow> []
      | Some v \<Rightarrow> if length v \<noteq> 4 then [] else ip_To4 v)"

definition opt_bytes :: "byte \<Rightarrow> Options \<Rightarrow> bytes" where
  "opt_bytes code opts = (case map_of opts code of Some v \<Rightarrow> v | None \<Rightarrow> [])"

definition opt_ClientIdentifier :: "Options \<Rightarrow> bytes" where
  "opt_ClientIdentifier opts = opt_bytes OptionClientIdentifier opts"

definition opt_Hostname :: "Options \<Rightarrow> string" where
  "opt_Hostname opts = opt_bytes OptionHostName opts"

definition opt_VendorClass :: "Options \<Rightarrow> string" where
  "opt_VendorClass opts = opt_bytes OptionVendorClassID opts"

definition opt_UserClass :: "Options \<Rightarrow> string" where
  "opt_UserClass opts = opt_bytes OptionUserClass opts"

definition opt_SetIPv4 :: "byte \<Rightarrow> ip \<Rightarrow> Options \<Rightarrow> Options" where
  "opt_SetIPv4 code p opts = mput code (ip_To4 p) opts"

definition opt_SetIPv4List :: "byte \<Rightarrow> ip list \<Rightarrow> Options \<Rightarrow> Options" where
  "opt_SetIPv4List code ips opts = mput code (concat (map ip_To4 ips)) opts"

definition opt_SetDurationSeconds :: "byte \<Rightarrow> u32 \<Rightarrow> Options \<Rightarrow> Options" where
  "opt_SetDurationSeconds code sec opts = mput code (be 4 (unat sec)) opts"

definition opt_SetString :: "byte \<Rightarrow> string \<Rightarrow> Options \<Rightarrow> Options" where
  "opt_SetString code s opts = mput code s opts"

definition HasRapidCommit :: "Options \<Rightarrow> bool" where
  "HasRapidCommit opts \<longleftrightarrow> map_of opts OptionRapidCommit \<noteq> None"

definition EnableRapidCommit :: "Options \<Rightarrow> Options" where
  "EnableRapidCommit opts = mput OptionRapidCommit [] opts"

section \<open>The packet\<close>

text \<open>A fixed array \<^verbatim>\<open>[n]byte\<close> is a list of that length (\<open>pkt_ok\<close>).\<close>

record Packet =
  p_Op :: byte
  p_HType :: byte
  p_HLen :: byte
  p_Hops :: byte
  p_XID :: u32
  p_Secs :: u16
  p_Flags :: u16
  p_CIAddr :: ip
  p_YIAddr :: ip
  p_SIAddr :: ip
  p_GIAddr :: ip
  p_CHAddr :: bytes
  p_SName :: bytes
  p_File :: bytes
  p_Options :: Options

definition bootpHeaderLen :: nat where "bootpHeaderLen = 236"
definition magicCookie :: nat where "magicCookie = 0x63825363"

definition subslice :: "nat \<Rightarrow> nat \<Rightarrow> bytes \<Rightarrow> bytes" where
  "subslice a b raw = take (b - a) (drop a raw)"

definition DecodePacket :: "bytes \<Rightarrow> go_error + Packet" where
  "DecodePacket raw =
     (if length raw < bootpHeaderLen + 4 then Inl (ErrMsg ''packet too short'')
      else if be_nat (subslice 236 240 raw) \<noteq> magicCookie then Inl (ErrMsg ''invalid magic cookie'')
      else rbind (DecodeOptions (drop 240 raw)) (\<lambda>opts.
        Inr \<lparr>p_Op = raw ! 0, p_HType = raw ! 1, p_HLen = raw ! 2, p_Hops = raw ! 3,
          p_XID = of_nat (be_nat (subslice 4 8 raw)), p_Secs = of_nat (be_nat (subslice 8 10 raw)),
          p_Flags = of_nat (be_nat (subslice 10 12 raw)),
          p_CIAddr = ip_To4 (subslice 12 16 raw), p_YIAddr = ip_To4 (subslice 16 20 raw),
          p_SIAddr = ip_To4 (subslice 20 24 raw), p_GIAddr = ip_To4 (subslice 24 28 raw),
          p_CHAddr = subslice 28 44 raw, p_SName = subslice 44 108 raw, p_File = subslice 108 236 raw,
          p_Options = opts\<rparr>))"

text \<open>\<^verbatim>\<open>copy(out[i:i+4], ip.To4())\<close> into zeros: nil leaves the zeros.\<close>

definition put_ip :: "ip \<Rightarrow> bytes" where
  "put_ip p = (if ip_To4 p = [] then replicate 4 (CHR 0x00) else ip_To4 p)"

definition Packet_Encode :: "Packet \<Rightarrow> go_error + bytes" where
  "Packet_Encode p =
     rbind (Options_Encode (p_Options p)) (\<lambda>opt.
       Inr ([p_Op p, p_HType p, p_HLen p, p_Hops p] @ be 4 (unat (p_XID p)) @
         be 2 (unat (p_Secs p)) @ be 2 (unat (p_Flags p)) @
         put_ip (p_CIAddr p) @ put_ip (p_YIAddr p) @ put_ip (p_SIAddr p) @ put_ip (p_GIAddr p) @
         p_CHAddr p @ p_SName p @ p_File p @ be 4 magicCookie @ opt))"

definition ClientMAC :: "Packet \<Rightarrow> bytes" where
  "ClientMAC p =
     (let hlen = byte_nat (p_HLen p);
          hlen = (if hlen \<le> 0 \<or> hlen > 16 then 6 else hlen)
      in take hlen (p_CHAddr p))"

definition isZeroIPv4 :: "ip \<Rightarrow> bool" where
  "isZeroIPv4 p =
     (let q = ip_To4 p in
      q = [] \<or> (q ! 0 = CHR 0x00 \<and> q ! 1 = CHR 0x00 \<and> q ! 2 = CHR 0x00 \<and> q ! 3 = CHR 0x00))"

text \<open>The destination: an address and a port, or \<open>None\<close> for the sender.\<close>

definition ResponseTarget :: "Packet \<Rightarrow> Packet \<Rightarrow> (ip \<times> nat) option" where
  "ResponseTarget req resp =
     (if p_GIAddr req \<noteq> [] \<and> \<not> isZeroIPv4 (p_GIAddr req) then Some (ip_To4 (p_GIAddr req), 67)
      else if p_CIAddr req \<noteq> [] \<and> \<not> isZeroIPv4 (p_CIAddr req) then Some (ip_To4 (p_CIAddr req), 68)
      else if p_YIAddr resp \<noteq> [] \<and> \<not> isZeroIPv4 (p_YIAddr resp) then Some (ip_To4 (p_YIAddr resp), 68)
      else None)"

section \<open>Relay agent information\<close>

record RelayInfo =
  ri_Raw :: bytes
  ri_CircuitID :: string
  ri_RemoteID :: string

function ParseRelay_loop :: "bytes \<Rightarrow> RelayInfo \<Rightarrow> RelayInfo" where
  "ParseRelay_loop r info =
     (if length r < 2 then info
      else
        (let subCode = r ! 0; subLen = byte_nat (r ! 1); r2 = drop 2 r in
         if length r2 < subLen then info
         else
           (let data = take subLen r2;
                info' = (if subCode = CHR 0x01 then info\<lparr>ri_CircuitID := TrimSpace data\<rparr>
                         else if subCode = CHR 0x02 then info\<lparr>ri_RemoteID := TrimSpace data\<rparr>
                         else info)
            in ParseRelay_loop (drop subLen r2) info')))"
  by pat_completeness auto
termination
  by (relation "measure (\<lambda>(r, i). length r)") auto

declare ParseRelay_loop.simps [simp del]

definition ParseRelayAgentInfo :: "bytes \<Rightarrow> RelayInfo" where
  "ParseRelayAgentInfo raw = ParseRelay_loop raw \<lparr>ri_Raw = raw, ri_CircuitID = [], ri_RemoteID = []\<rparr>"

section \<open>Round trips\<close>

definition codes_ok :: "Options \<Rightarrow> bool" where
  "codes_ok opts \<longleftrightarrow> distinct (mkeys opts) \<and> 
     (\<forall>cv\<in>set opts. fst cv \<noteq> OptionPad \<and> fst cv \<noteq> OptionEnd \<and> length (snd cv) \<le> 255)"

lemma DecodeOptions_loop_Encode:
  assumes "Options_Encode_loop opts = Inr bs" "codes_ok (acc @ opts)"
  shows "DecodeOptions_loop (bs @ OptionEnd # rest) acc = Inr (acc @ opts)"
  using assms
proof (induction opts arbitrary: bs acc)
  case Nil
  then show ?case by (simp add: DecodeOptions_loop.simps)
next
  case (Cons cv opts)
  obtain c v where cv: "cv = (c, v)" by (cases cv)
  have c: "c \<noteq> OptionPad" "c \<noteq> OptionEnd" and fresh: "c \<notin> set (mkeys acc)"
    using Cons.prems(2) by (auto simp: cv codes_ok_def)
  from Cons.prems(1) c obtain more where m: "Options_Encode_loop opts = Inr more"
    "bs = [c, nat_byte (length v)] @ v @ more" "length v \<le> 255"
    by (auto simp: cv rbind_Inr_conv split: if_splits)
  have "codes_ok ((acc @ [(c, v)]) @ opts)" using Cons.prems(2) by (simp add: cv)
  from Cons.IH [OF m(1) this] show ?case
    using c fresh m by (simp add: DecodeOptions_loop.simps [of "c # _"] cv Let_def mput_fresh)
qed

text \<open>Decoding accepts only well-formed maps.\<close>

lemma codes_ok_mput:
  "codes_ok acc \<Longrightarrow> c \<noteq> OptionPad \<Longrightarrow> c \<noteq> OptionEnd \<Longrightarrow> length v \<le> 255 \<Longrightarrow> codes_ok (mput c v acc)"
  using set_mput [of c v acc] unfolding codes_ok_def by (auto dest!: subsetD)

lemma DecodeOptions_loop_codes:
  "DecodeOptions_loop raw acc = Inr opts \<Longrightarrow> codes_ok acc \<Longrightarrow> codes_ok opts"
proof (induction raw acc rule: DecodeOptions_loop.induct)
  case (1 raw acc)
  have b: "byte_nat c \<le> 255" for c using byte_nat_less [of c] by linarith
  show ?case
    using 1 codes_ok_mput b
    by (auto simp: DecodeOptions_loop.simps [of raw] Let_def split: list.splits if_splits)
qed

definition pkt_ok :: "Packet \<Rightarrow> bool" where
  "pkt_ok p \<longleftrightarrow> length (p_CHAddr p) = 16 \<and> length (p_SName p) = 64 \<and> length (p_File p) = 128 \<and>
     length (p_CIAddr p) = 4 \<and> length (p_YIAddr p) = 4 \<and> length (p_SIAddr p) = 4 \<and>
     length (p_GIAddr p) = 4 \<and> codes_ok (p_Options p)"

lemma subslice_skip: "length xs = a \<Longrightarrow> subslice (a + i) (a + j) (xs @ ys) = subslice i j ys"
  by (simp add: subslice_def)

lemma subslice_take: "length xs = j \<Longrightarrow> subslice 0 j (xs @ ys) = xs"
  by (simp add: subslice_def)

lemma put_ip4: "length p = 4 \<Longrightarrow> put_ip p = p" "length p = 4 \<Longrightarrow> ip_To4 p = p"
  by (auto simp: put_ip_def ip_To4_def)

lemma word_be [simp]:
  "be_nat (be 4 (unat (w :: u32))) = unat w" "be_nat (be 2 (unat (v :: u16))) = unat v"
  using unsigned_less [of w, where ?'a = nat] unsigned_less [of v, where ?'a = nat]
  by (intro be_nat_be_id; simp)+

lemma packet_decode_encode:
  assumes "pkt_ok p" "Packet_Encode p = Inr raw"
  shows "DecodePacket raw = Inr p"
proof -
  obtain bs where o: "Options_Encode_loop (p_Options p) = Inr bs" and
    raw: "raw = [p_Op p, p_HType p, p_HLen p, p_Hops p] @ be 4 (unat (p_XID p)) @
         be 2 (unat (p_Secs p)) @ be 2 (unat (p_Flags p)) @ p_CIAddr p @ p_YIAddr p @ p_SIAddr p @
         p_GIAddr p @ p_CHAddr p @ p_SName p @ p_File p @ be 4 magicCookie @ (bs @ [OptionEnd])"
    using assms by (auto simp: Packet_Encode_def Options_Encode_def rbind_Inr_conv pkt_ok_def put_ip4)
  note len = assms(1) [unfolded pkt_ok_def]
  have dec: "DecodeOptions (bs @ [OptionEnd]) = Inr (p_Options p)"
    using DecodeOptions_loop_Encode [OF o, of "[]" "[]"] len by (simp add: DecodeOptions_def)
  have f: "\<not> length raw < bootpHeaderLen + 4" "drop 240 raw = bs @ [OptionEnd]"
    "subslice 236 240 raw = be 4 magicCookie"
    "raw ! 0 = p_Op p" "raw ! Suc 0 = p_HType p" "raw ! 2 = p_HLen p" "raw ! 3 = p_Hops p"
    "subslice 4 8 raw = be 4 (unat (p_XID p))" "subslice 8 10 raw = be 2 (unat (p_Secs p))"
    "subslice 10 12 raw = be 2 (unat (p_Flags p))"
    "subslice 12 16 raw = p_CIAddr p" "subslice 16 20 raw = p_YIAddr p" "subslice 20 24 raw = p_SIAddr p"
    "subslice 24 28 raw = p_GIAddr p" "subslice 28 44 raw = p_CHAddr p" "subslice 44 108 raw = p_SName p"
    "subslice 108 236 raw = p_File p"
    using len by (simp_all add: raw subslice_def bootpHeaderLen_def del: be.simps)
  have "be_nat (be 4 magicCookie) = magicCookie" by (rule be_nat_be_id) (simp add: magicCookie_def)
  then show ?thesis
    using len by (simp add: DecodePacket_def f dec put_ip4)
qed

text \<open>
  What a packet is on the wire: an address that is not an IPv4 address, such as the nil of a field that was not set, is the address of four
  zeros, and pad and end are no options. The lengths of the other fields, and that a code is there once, are given by their Go types.
\<close>

definition on_wire :: "Packet \<Rightarrow> Packet" where
  "on_wire p =
     p\<lparr>p_CIAddr := put_ip (p_CIAddr p), p_YIAddr := put_ip (p_YIAddr p), p_SIAddr := put_ip (p_SIAddr p), p_GIAddr := put_ip (p_GIAddr p),
       p_Options := filter (\<lambda>cv. fst cv \<noteq> OptionPad \<and> fst cv \<noteq> OptionEnd) (p_Options p)\<rparr>"

definition packet_typed :: "Packet \<Rightarrow> bool" where
  "packet_typed p \<longleftrightarrow> length (p_CHAddr p) = 16 \<and> length (p_SName p) = 64 \<and> length (p_File p) = 128 \<and> distinct (mkeys (p_Options p))"

lemma length_put_ip [simp]: "length (put_ip p) = 4"
  by (auto simp: put_ip_def ip_To4_def)

lemma put_ip_idem [simp]: "put_ip (put_ip p) = put_ip p"
  by (simp add: put_ip4)

lemma Options_Encode_wire:
  "Options_Encode_loop (filter (\<lambda>cv. fst cv \<noteq> OptionPad \<and> fst cv \<noteq> OptionEnd) opts) = Options_Encode_loop opts"
  by (induction opts) auto

lemma Options_Encode_sizes:
  "Options_Encode_loop opts = Inr bs \<Longrightarrow> cv \<in> set opts \<Longrightarrow> fst cv \<noteq> OptionPad \<Longrightarrow> fst cv \<noteq> OptionEnd \<Longrightarrow> length (snd cv) \<le> 255"
  by (induction opts arbitrary: bs) (auto simp: rbind_Inr_conv split: if_splits)

lemma Encode_on_wire: "Packet_Encode (on_wire p) = Packet_Encode p"
  by (simp add: Packet_Encode_def Options_Encode_def on_wire_def Options_Encode_wire)

lemma on_wire_ok:
  assumes "packet_typed p" "Packet_Encode p = Inr raw"
  shows "pkt_ok (on_wire p)"
proof -
  obtain bs where "Options_Encode_loop (p_Options p) = Inr bs"
    using assms(2) by (auto simp: Packet_Encode_def Options_Encode_def rbind_Inr_conv)
  moreover have "distinct (mkeys (filter P (p_Options p)))" for P
    using assms(1) by (simp add: packet_typed_def distinct_map inj_on_def)
  ultimately show ?thesis using assms(1) Options_Encode_sizes by (auto simp: pkt_ok_def on_wire_def packet_typed_def codes_ok_def)
qed

lemma on_wire_id: "pkt_ok p \<Longrightarrow> on_wire p = p"
proof -
  assume p: "pkt_ok p"
  then have "filter (\<lambda>cv. fst cv \<noteq> OptionPad \<and> fst cv \<noteq> OptionEnd) (p_Options p) = p_Options p"
    by (auto simp: pkt_ok_def codes_ok_def intro!: filter_True)
  then show ?thesis using p by (simp add: on_wire_def pkt_ok_def put_ip4)
qed

text \<open>C22: Every packet that can be encoded, the server's own replies with their unset addresses among them, decodes to itself as it is
  on the wire: with four zeros for an address that is no IPv4 address, and without pad and end codes. When its addresses are four bytes and
  its options have neither code nor an overlong value, as in every packet that was decoded, that is the packet itself.\<close>

theorem packet_roundtrip:
  assumes "packet_typed p" "Packet_Encode p = Inr raw"
  shows "DecodePacket raw = Inr (on_wire p) \<and> (pkt_ok p \<longrightarrow> on_wire p = p)"
  using packet_decode_encode [OF on_wire_ok [OF assms]] assms(2) on_wire_id by (simp add: Encode_on_wire)

lemma DecodePacket_ok: "DecodePacket raw = Inr p \<Longrightarrow> pkt_ok p"
proof -
  assume d: "DecodePacket raw = Inr p"
  then have l: "240 \<le> length raw" by (auto simp: DecodePacket_def bootpHeaderLen_def split: if_splits)
  have four: "length (subslice i (i + 4) raw) = 4" if "i \<le> 236" for i using l that by (simp add: subslice_def)
  note q = put_ip4(2) [OF four]
  have "codes_ok opts" if "DecodeOptions (drop 240 raw) = Inr opts" for opts
    using that DecodeOptions_loop_codes [of _ "[]"] by (simp add: DecodeOptions_def codes_ok_def)
  then show ?thesis
    using d l q [of 12] q [of 16] q [of 20] q [of 24] four [of 12] four [of 16] four [of 20] four [of 24]
    by (auto simp: DecodePacket_def rbind_Inr_conv pkt_ok_def subslice_def split: if_splits)
qed

lemma Options_Encode_total:
  "\<forall>cv\<in>set opts. length (snd cv) \<le> 255 \<Longrightarrow> \<exists>bs. Options_Encode_loop opts = Inr bs"
  by (induction opts) auto

text \<open>Decoding never misreads: every packet it accepts is well-formed, with options that are a
  map without pad and end codes, and encoding it and decoding that again gives the same packet.\<close>

theorem packet_decode_stable:
  assumes "DecodePacket raw = Inr p"
  shows "pkt_ok p \<and> (\<exists>raw'. Packet_Encode p = Inr raw' \<and> DecodePacket raw' = Inr p)"
proof -
  have ok: "pkt_ok p" using DecodePacket_ok [OF assms] .
  then have "\<forall>cv\<in>set (p_Options p). length (snd cv) \<le> 255" by (simp add: pkt_ok_def codes_ok_def)
  then obtain raw' where "Packet_Encode p = Inr raw'"
    using Options_Encode_total by (fastforce simp: Packet_Encode_def Options_Encode_def)
  with ok show ?thesis using packet_decode_encode by blast
qed

section \<open>Instances\<close>

definition demo_packet :: Packet where
  "demo_packet = \<lparr>p_Op = CHR 0x01, p_HType = CHR 0x01, p_HLen = CHR 0x06, p_Hops = CHR 0x00,
     p_XID = 0x3903F326, p_Secs = 0, p_Flags = 0x8000,
     p_CIAddr = replicate 4 (CHR 0x00), p_YIAddr = replicate 4 (CHR 0x00),
     p_SIAddr = replicate 4 (CHR 0x00), p_GIAddr = replicate 4 (CHR 0x00),
     p_CHAddr = replicate 16 (CHR 0xAA), p_SName = replicate 64 (CHR 0x00),
     p_File = replicate 128 (CHR 0x00),
     p_Options = [(OptionMessageType, [MessageDiscover]), (OptionHostName, ''host'')]\<rparr>"

lemma demo_packet_ok: "pkt_ok demo_packet"
  by (simp add: pkt_ok_def demo_packet_def codes_ok_def)

text \<open>A packet of four-byte addresses, and one as the server's handler builds it, with nil addresses.\<close>

theorem packet_roundtrip_witness:
  "(\<exists>raw. Packet_Encode demo_packet = Inr raw \<and> DecodePacket raw = Inr demo_packet) \<and>
   (\<exists>raw. Packet_Encode (demo_packet\<lparr>p_SIAddr := []\<rparr>) = Inr raw \<and> DecodePacket raw = Inr demo_packet)"
proof -
  have typed: "packet_typed demo_packet" "packet_typed (demo_packet\<lparr>p_SIAddr := []\<rparr>)"
    by (simp_all add: packet_typed_def demo_packet_def)
  obtain raw where raw: "Packet_Encode demo_packet = Inr raw"
    by (simp add: Packet_Encode_def Options_Encode_def demo_packet_def)
  obtain raw' where raw': "Packet_Encode (demo_packet\<lparr>p_SIAddr := []\<rparr>) = Inr raw'"
    by (simp add: Packet_Encode_def Options_Encode_def demo_packet_def)
  have "on_wire (demo_packet\<lparr>p_SIAddr := []\<rparr>) = demo_packet"
    by (simp add: on_wire_def demo_packet_def put_ip_def ip_To4_def numeral_eq_Suc)
  then show ?thesis
    using packet_roundtrip [OF typed(1) raw] packet_roundtrip [OF typed(2) raw'] raw raw' demo_packet_ok by auto
qed

definition demo_raw :: bytes where
  "demo_raw = replicate 236 (CHR 0x00) @ be 4 magicCookie @ [OptionPad, OptionEnd]"

lemma demo_raw_decodes: "\<exists>p. DecodePacket demo_raw = Inr p"
proof -
  have "subslice 236 240 demo_raw = be 4 magicCookie" "drop 240 demo_raw = [OptionPad, OptionEnd]"
    "length demo_raw = 242"
    by (simp_all add: demo_raw_def subslice_def del: be.simps)
  moreover have "be_nat (be 4 magicCookie) = magicCookie"
    by (rule be_nat_be_id) (simp add: magicCookie_def)
  ultimately show ?thesis
    by (simp add: DecodePacket_def bootpHeaderLen_def DecodeOptions_def DecodeOptions_loop.simps)
qed

theorem packet_decode_stable_witness:
  "\<exists>p raw'. DecodePacket demo_raw = Inr p \<and> Packet_Encode p = Inr raw' \<and> DecodePacket raw' = Inr p"
proof -
  obtain p where "DecodePacket demo_raw = Inr p" using demo_raw_decodes by blast
  with packet_decode_stable [OF this] show ?thesis by blast
qed

end
