(* ===== verification/Dhcp4Pool.thy ===== *)
theory Dhcp4Pool
  imports Dhcp4Packet Lease
begin

unbundle bit_operations_syntax

text \<open>
  \<^verbatim>\<open>src/internal/dhcpv4/pool.go\<close>: the address pools of the DHCPv4 server. A pool is a range
  of 32-bit addresses with one bit per address; the manager keeps the pools by their identifier,
  which the code's pointers stand for. The lease store and the provider of the cluster's scope are
  interfaces of the code and arguments of the model. An index out of range is the error \<open>Panic\<close>.
\<close>

section \<open>State\<close>

record AllocationRequest =
  ar_MAC :: string
  ar_ClientID :: bytes
  ar_RequestedIP :: ip
  ar_RelayAddr :: ip

record AllocationResult =
  al_IP :: ip
  al_SubnetID :: string
  al_Prefix :: prefix
  al_Gateway :: ip
  al_DNS :: "ip list"
  al_LeaseDuration :: duration

record subnetPool =
  sp_id :: string
  sp_prefix :: prefix
  sp_start :: u32
  sp_end :: u32
  sp_bitmap :: "bool list"
  sp_gateway :: ip
  sp_dns :: "ip list"
  sp_leaseDur :: duration

type_synonym scope_provider = "string \<Rightarrow> u32 \<Rightarrow> u32 \<Rightarrow> u32 \<times> u32 \<times> bool"

record PoolManager =
  pm_pools :: "(string \<times> subnetPool) list"
  pm_order :: "string list"
  pm_scope :: "scope_provider option"

text \<open>The fields of \<^verbatim>\<open>config.SubnetConfig\<close> that the pools use.\<close>

record subnet_config =
  sc_CIDR :: string
  sc_Gateway :: string
  sc_DNS :: "string list"
  sc_DHCPEnabled :: bool
  sc_PoolStart :: string
  sc_PoolEnd :: string
  sc_LeaseTime :: duration

definition ipv4ToUint32 :: "bytes \<Rightarrow> u32" where
  "ipv4ToUint32 p = word_of_bytes p"

definition uint32ToIPv4 :: "u32 \<Rightarrow> ip" where
  "uint32ToIPv4 v = word_bytes 4 v"

definition parseIPs :: "string list \<Rightarrow> ip list" where
  "parseIPs raw = filter (\<lambda>p. p \<noteq> []) (map (\<lambda>s. ip_To4 (net_ParseIP s)) raw)"

section \<open>Building the pools\<close>

definition build_pool :: "duration \<Rightarrow> subnet_config \<Rightarrow> go_error + subnetPool" where
  "build_pool defaultLease s =
     (case ParsePrefix (sc_CIDR s) of
        None \<Rightarrow> Inl (ErrMsg ''parse subnet'')
      | Some prefix \<Rightarrow>
     (case ParseAddr (sc_PoolStart s) of
        None \<Rightarrow> Inl (ErrMsg ''pool_start'')
      | Some startAddr \<Rightarrow>
     (case ParseAddr (sc_PoolEnd s) of
        None \<Rightarrow> Inl (ErrMsg ''pool_end'')
      | Some endAddr \<Rightarrow>
          rbind (addr_As4 startAddr) (\<lambda>start.
          rbind (addr_As4 endAddr) (\<lambda>endv.
            if endv < start then Inl (ErrMsg ''invalid range'')
            else Inr \<lparr>sp_id = sc_CIDR s, sp_prefix = prefix, sp_start = start, sp_end = endv,
              sp_bitmap = replicate (unat (endv - start + 1)) False,
              sp_gateway = ip_To4 (net_ParseIP (sc_Gateway s)), sp_dns = parseIPs (sc_DNS s),
              sp_leaseDur = (if sc_LeaseTime s \<le> 0 then defaultLease else sc_LeaseTime s)\<rparr>)))))"

fun build_pools :: "duration \<Rightarrow> subnet_config list \<Rightarrow> PoolManager \<Rightarrow> go_error + PoolManager" where
  "build_pools defaultLease [] pm = Inr pm"
| "build_pools defaultLease (s # ss) pm =
     (if \<not> sc_DHCPEnabled s then build_pools defaultLease ss pm
      else rbind (build_pool defaultLease s) (\<lambda>pool.
        build_pools defaultLease ss
          (pm\<lparr>pm_pools := mput (sp_id pool) pool (pm_pools pm), pm_order := pm_order pm @ [sp_id pool]\<rparr>)))"

section \<open>Bits\<close>

definition setUsed :: "subnetPool \<Rightarrow> ip \<Rightarrow> bool \<Rightarrow> go_error + subnetPool" where
  "setUsed pool p used =
     (if p = [] then Inr pool
      else
        (let u = ipv4ToUint32 p in
         if u < sp_start pool \<or> u > sp_end pool then Inr pool
         else
           (let off = unat (u - sp_start pool) in
            if off < length (sp_bitmap pool)
            then Inr (pool\<lparr>sp_bitmap := (sp_bitmap pool)[off := used]\<rparr>)
            else Inl (Panic ''index out of range''))))"

definition pm_setUsed :: "string \<Rightarrow> ip \<Rightarrow> bool \<Rightarrow> PoolManager \<Rightarrow> go_error + PoolManager" where
  "pm_setUsed pid p used pm =
     (case map_of (pm_pools pm) pid of
        None \<Rightarrow> Inr pm
      | Some pool \<Rightarrow> rbind (setUsed pool p used) (\<lambda>pool'. Inr (pm\<lparr>pm_pools := mput pid pool' (pm_pools pm)\<rparr>)))"

text \<open>The pool that \<^verbatim>\<open>markAllocated\<close> and \<^verbatim>\<open>markFree\<close> pick: by identifier, or else the first one
  whose prefix contains the address.\<close>

definition mark_pool :: "ip \<Rightarrow> string \<Rightarrow> PoolManager \<Rightarrow> string option" where
  "mark_pool p subnetID pm =
     (if subnetID \<noteq> [] \<and> map_of (pm_pools pm) subnetID \<noteq> None then Some subnetID
      else map_option fst
        (find (\<lambda>(pid, pool). pfx_Contains (sp_prefix pool) (A4 (ipv4ToUint32 p))) (pm_pools pm)))"

definition markAllocated :: "ip \<Rightarrow> string \<Rightarrow> PoolManager \<Rightarrow> go_error + PoolManager" where
  "markAllocated p subnetID pm =
     (case mark_pool p subnetID pm of None \<Rightarrow> Inr pm | Some pid \<Rightarrow> pm_setUsed pid p True pm)"

definition markFree :: "ip \<Rightarrow> string \<Rightarrow> PoolManager \<Rightarrow> go_error + PoolManager" where
  "markFree p subnetID pm =
     (case mark_pool p subnetID pm of None \<Rightarrow> Inr pm | Some pid \<Rightarrow> pm_setUsed pid p False pm)"

definition Release :: "ip \<Rightarrow> string \<Rightarrow> PoolManager \<Rightarrow> go_error + PoolManager" where
  "Release p subnetID pm = markFree (ip_To4 p) subnetID pm"

section \<open>Loading the leases\<close>

definition clear_bits :: "PoolManager \<Rightarrow> PoolManager" where
  "clear_bits pm = pm\<lparr>pm_pools :=
     map (\<lambda>(pid, p). (pid, p\<lparr>sp_bitmap := replicate (length (sp_bitmap p)) False\<rparr>)) (pm_pools pm)\<rparr>"

definition sync_state :: "Lease \<Rightarrow> bool" where
  "sync_state l \<longleftrightarrow> l_State l \<in> {StateBound, StateRenewing, StateOffered, StateQuarantined, StateDeclined}"

fun sync_loop :: "Lease list \<Rightarrow> PoolManager \<Rightarrow> go_error + PoolManager" where
  "sync_loop [] pm = Inr pm"
| "sync_loop (l # ls) pm =
     (if sync_state l then
        (let p = ip_To4 (net_ParseIP (l_IP l)) in
         if p = [] then sync_loop ls pm
         else rbind (markAllocated p (l_SubnetID l) pm) (sync_loop ls))
      else sync_loop ls pm)"

text \<open>A failing list of the store leaves the cleared bits; a panic ends the program.\<close>

definition SyncFromLeases :: "'s lease_ops \<Rightarrow> 's \<Rightarrow> PoolManager \<Rightarrow> go_error + (PoolManager \<times> go_error option)" where
  "SyncFromLeases ops s pm =
     (case op_ListAll ops s of
        Inl err \<Rightarrow> Inr (clear_bits pm, Some err)
      | Inr leases \<Rightarrow> rbind (sync_loop leases (clear_bits pm)) (\<lambda>pm'. Inr (pm', None)))"

definition NewPoolManager ::
  "subnet_config list \<Rightarrow> duration \<Rightarrow> 's lease_ops \<Rightarrow> 's \<Rightarrow> go_error + PoolManager" where
  "NewPoolManager subnets defaultLease ops s =
     rbind (build_pools defaultLease subnets \<lparr>pm_pools = [], pm_order = [], pm_scope = None\<rparr>) (\<lambda>pm.
     rbind (SyncFromLeases ops s pm) (\<lambda>(pm', err). Inr pm'))"

definition SetScopeProvider :: "scope_provider option \<Rightarrow> PoolManager \<Rightarrow> PoolManager" where
  "SetScopeProvider provider pm = pm\<lparr>pm_scope := provider\<rparr>"

section \<open>Allocating\<close>

definition buildResult :: "subnetPool \<Rightarrow> ip \<Rightarrow> AllocationResult" where
  "buildResult pool p = \<lparr>al_IP = p, al_SubnetID = sp_id pool, al_Prefix = sp_prefix pool,
     al_Gateway = sp_gateway pool, al_DNS = sp_dns pool, al_LeaseDuration = sp_leaseDur pool\<rparr>"

definition effectiveRange :: "PoolManager \<Rightarrow> subnetPool \<Rightarrow> (u32 \<times> u32) option" where
  "effectiveRange pm pool =
     (case pm_scope pm of
        None \<Rightarrow> Some (sp_start pool, sp_end pool)
      | Some provider \<Rightarrow>
          (case provider (sp_id pool) (sp_start pool) (sp_end pool) of (start, endv, ok) \<Rightarrow>
             if \<not> ok then None
             else
               (let start' = (if start < sp_start pool then sp_start pool else start);
                    end' = (if endv > sp_end pool then sp_end pool else endv)
                in if start' > end' then None else Some (start', end'))))"

text \<open>The address of a running lease of the client, with its pool.\<close>

fun existing_lease :: "time \<Rightarrow> PoolManager \<Rightarrow> Lease list \<Rightarrow> (subnetPool \<times> ip) option" where
  "existing_lease now pm [] = None"
| "existing_lease now pm (l # ls) =
     (if l_ExpiryTime l < now then existing_lease now pm ls
      else if l_State l = StateBound \<or> l_State l = StateRenewing \<or> l_State l = StateOffered then
        (case map_of (pm_pools pm) (l_SubnetID l) of
           None \<Rightarrow> existing_lease now pm ls
         | Some pool \<Rightarrow>
             (let p = ip_To4 (net_ParseIP (l_IP l)) in
              if p = [] then existing_lease now pm ls else Some (pool, p)))
      else existing_lease now pm ls)"

definition selectCandidatePools :: "AllocationRequest \<Rightarrow> PoolManager \<Rightarrow> subnetPool list" where
  "selectCandidatePools req pm =
     (let all = map (\<lambda>pid. the (map_of (pm_pools pm) pid)) (pm_order pm);
          relay = ip_To4 (ar_RelayAddr req)
      in if ar_RelayAddr req \<noteq> [] \<and> relay \<noteq> [] then
           (case find (\<lambda>pool. pfx_Contains (sp_prefix pool) (A4 (word_of_bytes relay))) all of
              Some pool \<Rightarrow> [pool]
            | None \<Rightarrow> all)
         else all)"

definition bit_at :: "subnetPool \<Rightarrow> u32 \<Rightarrow> go_error + bool" where
  "bit_at pool u =
     (let off = unat (u - sp_start pool) in
      if off < length (sp_bitmap pool) then Inr (sp_bitmap pool ! off)
      else Inl (Panic ''index out of range''))"

fun tryAllocateSpecific :: "PoolManager \<Rightarrow> subnetPool list \<Rightarrow> ip \<Rightarrow> go_error + subnetPool option" where
  "tryAllocateSpecific pm [] p = Inr None"
| "tryAllocateSpecific pm (pool # pools) p =
     (if p = [] then Inr None
      else
        (let u = ipv4ToUint32 p in
         case effectiveRange pm pool of
           None \<Rightarrow> tryAllocateSpecific pm pools p
         | Some (start, endv) \<Rightarrow>
             if u < start \<or> u > endv then tryAllocateSpecific pm pools p
             else rbind (bit_at pool u) (\<lambda>used.
               if \<not> used then Inr (Some pool) else tryAllocateSpecific pm pools p)))"

function nextFree_loop :: "subnetPool \<Rightarrow> u32 \<Rightarrow> u32 \<Rightarrow> go_error + u32 option" where
  "nextFree_loop pool u endv =
     (if u > endv then Inr None
      else
        (case bit_at pool u of
           Inl err \<Rightarrow> Inl err
         | Inr used \<Rightarrow>
             if \<not> used then Inr (Some u)
             else if u = - 1 then Inr None
             else nextFree_loop pool (u + 1) endv))"
  by pat_completeness auto
termination
proof (relation "measure (\<lambda>(pool, u, endv). 2 ^ 32 - unat u)", goal_cases)
  case (2 pool u endv used)
  then have "unat (u + 1) = unat u + 1"
    by (metis Suc_eq_plus1 add.commute unatSuc add_eq_0_iff)
  moreover have "unat (u + 1) < 2 ^ 32" using unsigned_less [of "u + 1", where ?'a = nat] by simp
  ultimately show ?case by simp
qed simp

declare nextFree_loop.simps [simp del]

definition nextFree :: "PoolManager \<Rightarrow> subnetPool \<Rightarrow> go_error + ip option" where
  "nextFree pm pool =
     (case effectiveRange pm pool of
        None \<Rightarrow> Inr None
      | Some (start, endv) \<Rightarrow> rbind (nextFree_loop pool start endv) (\<lambda>r. Inr (map_option uint32ToIPv4 r)))"

fun allocate_first :: "PoolManager \<Rightarrow> subnetPool list \<Rightarrow> go_error + (subnetPool \<times> ip) option" where
  "allocate_first pm [] = Inr None"
| "allocate_first pm (pool # pools) =
     rbind (nextFree pm pool) (\<lambda>r.
       case r of Some p \<Rightarrow> Inr (Some (pool, p)) | None \<Rightarrow> allocate_first pm pools)"

text \<open>
  \<^verbatim>\<open>Allocate\<close>: the pool and the address, in the code's order. An error of the store's lookup is
  ignored, as in the code.
\<close>

definition choose_address ::
  "'s lease_ops \<Rightarrow> time \<Rightarrow> AllocationRequest \<Rightarrow> 's \<Rightarrow> PoolManager \<Rightarrow> go_error + (subnetPool \<times> ip) option" where
  "choose_address ops now req s pm =
     (let existing = (if ar_MAC req \<noteq> [] then
            (case op_GetByMAC ops s (ar_MAC req) of
               Inl err \<Rightarrow> None | Inr leases \<Rightarrow> existing_lease now pm leases) else None)
      in case existing of
           Some r \<Rightarrow> Inr (Some r)
         | None \<Rightarrow>
             (let candidates = selectCandidatePools req pm in
              rbind (if ar_RequestedIP req \<noteq> []
                     then tryAllocateSpecific pm candidates (ip_To4 (ar_RequestedIP req)) else Inr None)
                (\<lambda>specific.
                  case specific of
                    Some pool \<Rightarrow> Inr (Some (pool, ip_To4 (ar_RequestedIP req)))
                  | None \<Rightarrow> allocate_first pm candidates)))"

definition Allocate ::
  "'s lease_ops \<Rightarrow> time \<Rightarrow> AllocationRequest \<Rightarrow> 's \<Rightarrow> PoolManager \<Rightarrow> PoolManager \<times> (go_error + AllocationResult)" where
  "Allocate ops now req s pm =
     (case choose_address ops now req s pm of
        Inl err \<Rightarrow> (pm, Inl err)
      | Inr None \<Rightarrow> (pm, Inl (ErrMsg ''no free address available''))
      | Inr (Some (pool, p)) \<Rightarrow>
          (case pm_setUsed (sp_id pool) p True pm of
             Inl err \<Rightarrow> (pm, Inl err)
           | Inr pm' \<Rightarrow> (pm', Inr (buildResult pool p))))"

end
