(* ===== verification/Dhcp4Handler.thy ===== *)
theory Dhcp4Handler
  imports Dhcp4Pool
begin

text \<open>
  \<^verbatim>\<open>src/internal/dhcpv4/handler.go\<close>: the DHCPv4 server's answers. A handler works on the
  lease store and the pools (\<open>h4_state\<close>) and reports lease events in the order of its calls of
  \<^verbatim>\<open>onLeaseEvent\<close>. One message reads the clock once.
\<close>

record Handler =
  h_serverIP :: ip
  h_defaultLease :: duration
  h_maxLease :: duration
  h_notify :: bool

definition NewHandler :: "ip \<Rightarrow> duration \<Rightarrow> duration \<Rightarrow> Handler" where
  "NewHandler serverIP defaultLease maxLease =
     \<lparr>h_serverIP = ip_To4 serverIP,
      h_defaultLease = (if defaultLease \<le> 0 then 12 * hour_ns else defaultLease),
      h_maxLease = (if maxLease \<le> 0 then 24 * hour_ns else maxLease), h_notify = False\<rparr>"

definition SetOnLeaseEvent :: "Handler \<Rightarrow> Handler" where
  "SetOnLeaseEvent h = h\<lparr>h_notify := True\<rparr>"

record 's h4_state =
  h4_store :: 's
  h4_pools :: PoolManager
  h4_events :: "(string \<times> Lease) list"

definition emit4 :: "Handler \<Rightarrow> string \<Rightarrow> Lease \<Rightarrow> 's h4_state \<Rightarrow> 's h4_state" where
  "emit4 h name l st = (if h_notify h then st\<lparr>h4_events := h4_events st @ [(name, l)]\<rparr> else st)"

section \<open>Responses\<close>

definition baseResponse :: "Packet \<Rightarrow> Packet" where
  "baseResponse req =
     \<lparr>p_Op = CHR 0x02, p_HType = p_HType req, p_HLen = p_HLen req, p_Hops = CHR 0x00,
      p_XID = p_XID req, p_Secs = 0, p_Flags = p_Flags req, p_CIAddr = p_CIAddr req, p_YIAddr = [],
      p_SIAddr = [], p_GIAddr = p_GIAddr req, p_CHAddr = p_CHAddr req,
      p_SName = replicate 64 (CHR 0x00), p_File = replicate 128 (CHR 0x00), p_Options = []\<rparr>"

definition durationToUint32Seconds :: "duration \<Rightarrow> u32" where
  "durationToUint32Seconds v =
     (if v \<le> 0 then 0
      else
        (let seconds = go_div v second_ns in
         if seconds \<le> 0 then 1
         else if seconds > 4294967295 then - 1
         else of_int seconds))"

text \<open>\<^verbatim>\<open>net.CIDRMask(bits, 32)\<close>: nil when the bits are out of range.\<close>

definition CIDRMask32 :: "nat \<Rightarrow> bytes" where
  "CIDRMask32 bits = (if bits > 32 then [] else word_bytes 4 (push_bit (32 - bits) (- 1) :: u32))"

definition leaseOptions :: "Handler \<Rightarrow> byte \<Rightarrow> AllocationResult \<Rightarrow> Options" where
  "leaseOptions h msgType alloc =
     (let leaseSec = durationToUint32Seconds (al_LeaseDuration alloc);
          o1 = opt_SetMessageType msgType [];
          o2 = opt_SetIPv4 OptionServerIdentifier (h_serverIP h) o1;
          o3 = opt_SetDurationSeconds OptionIPAddressLeaseTime leaseSec o2;
          o4 = opt_SetDurationSeconds OptionRenewalTimeValue (leaseSec div 2) o3;
          o5 = opt_SetDurationSeconds OptionRebindingTimeValue (leaseSec - leaseSec div 8) o4;
          o6 = mput OptionSubnetMask (CIDRMask32 (pfx_bits (al_Prefix alloc))) o5;
          o7 = (if al_Gateway alloc \<noteq> [] then opt_SetIPv4 OptionRouter (al_Gateway alloc) o6 else o6)
      in if al_DNS alloc \<noteq> [] then opt_SetIPv4List OptionDomainNameServer (al_DNS alloc) o7 else o7)"

definition mac_string :: "Packet \<Rightarrow> string" where
  "mac_string req = hw_String (ClientMAC req)"

text \<open>The lease that a discover stores, and the one that a request stores.\<close>

definition discover_lease :: "time \<Rightarrow> Packet \<Rightarrow> bool \<Rightarrow> AllocationResult \<Rightarrow> Lease" where
  "discover_lease now req rapidCommit alloc =
     (let l = zero_lease
        \<lparr>l_IP := ip_String (al_IP alloc), l_MAC := mac_string req,
         l_ClientID := opt_ClientIdentifier (p_Options req), l_Hostname := opt_Hostname (p_Options req),
         l_State := (if rapidCommit then StateBound else StateOffered),
         l_StartTime := now, l_Duration := al_LeaseDuration alloc,
         l_ExpiryTime := now + al_LeaseDuration alloc, l_SubnetID := al_SubnetID alloc,
         l_RelayAddr := ip_String (p_GIAddr req), l_VendorClass := opt_VendorClass (p_Options req),
         l_UserClass := opt_UserClass (p_Options req), l_LastSeen := now\<rparr>
      in case map_of (p_Options req) OptionRelayAgentInfo of
           None \<Rightarrow> l
         | Some rawRelay \<Rightarrow>
             (let ri = ParseRelayAgentInfo rawRelay
              in l\<lparr>l_RelayInfo := ri_Raw ri, l_CircuitID := ri_CircuitID ri, l_RemoteID := ri_RemoteID ri\<rparr>))"

definition request_lease :: "time \<Rightarrow> Packet \<Rightarrow> AllocationResult \<Rightarrow> Lease" where
  "request_lease now req alloc =
     zero_lease
        \<lparr>l_IP := ip_String (al_IP alloc), l_MAC := mac_string req,
         l_ClientID := opt_ClientIdentifier (p_Options req), l_Hostname := opt_Hostname (p_Options req),
         l_State := StateBound, l_StartTime := now, l_Duration := al_LeaseDuration alloc,
         l_ExpiryTime := now + al_LeaseDuration alloc, l_SubnetID := al_SubnetID alloc,
         l_RelayAddr := ip_String (p_GIAddr req), l_VendorClass := opt_VendorClass (p_Options req),
         l_UserClass := opt_UserClass (p_Options req), l_LastSeen := now\<rparr>"

definition alloc_request :: "Packet \<Rightarrow> ip \<Rightarrow> AllocationRequest" where
  "alloc_request req target =
     \<lparr>ar_MAC = mac_string req, ar_ClientID = opt_ClientIdentifier (p_Options req),
      ar_RequestedIP = target, ar_RelayAddr = p_GIAddr req\<rparr>"

section \<open>The message handlers\<close>

type_synonym 's reply = "'s h4_state \<times> (go_error + Packet option)"

definition handleDiscover ::
  "'s lease_ops \<Rightarrow> Handler \<Rightarrow> time \<Rightarrow> Packet \<Rightarrow> bool \<Rightarrow> 's h4_state \<Rightarrow> 's reply" where
  "handleDiscover ops h now req rapidCommit st =
     (let reqIP = opt_RequestedIP (p_Options req) in
      case Allocate ops now (alloc_request req reqIP) (h4_store st) (h4_pools st) of
        (pm, Inl err) \<Rightarrow> (st\<lparr>h4_pools := pm\<rparr>, Inl err)
      | (pm, Inr alloc) \<Rightarrow>
          (let msg = (if rapidCommit then MessageAck else MessageOffer);
               l = discover_lease now req rapidCommit alloc
           in case op_Upsert ops now l (h4_store st) of
                (s', Some err) \<Rightarrow> (st\<lparr>h4_store := s', h4_pools := pm\<rparr>, Inl err)
              | (s', None) \<Rightarrow>
                  (let st1 = st\<lparr>h4_store := s', h4_pools := pm\<rparr>;
                       st2 = (if rapidCommit then emit4 h ''lease.created'' l st1 else st1);
                       resp = (baseResponse req)\<lparr>p_YIAddr := al_IP alloc, p_Options := leaseOptions h msg alloc\<rparr>;
                       resp' = (if rapidCommit then resp\<lparr>p_Options := EnableRapidCommit (p_Options resp)\<rparr> else resp)
                   in (st2, Inr (Some resp')))))"

definition request_target :: "Packet \<Rightarrow> ip" where
  "request_target req =
     (let q = ip_To4 (p_CIAddr req)
      in if q \<noteq> [] \<and> \<not> isZeroIPv4 q then q else opt_RequestedIP (p_Options req))"

definition nak_response :: "Handler \<Rightarrow> Packet \<Rightarrow> Packet" where
  "nak_response h req =
     (baseResponse req)\<lparr>p_Options :=
        opt_SetString OptionMessage ''unable to allocate requested address''
          (opt_SetIPv4 OptionServerIdentifier (h_serverIP h) (opt_SetMessageType MessageNak []))\<rparr>"

definition handleRequest ::
  "'s lease_ops \<Rightarrow> Handler \<Rightarrow> time \<Rightarrow> Packet \<Rightarrow> 's h4_state \<Rightarrow> 's reply" where
  "handleRequest ops h now req st =
     (case Allocate ops now (alloc_request req (request_target req)) (h4_store st) (h4_pools st) of
        (pm, Inl (Panic m)) \<Rightarrow> (st\<lparr>h4_pools := pm\<rparr>, Inl (Panic m))
      | (pm, Inl err) \<Rightarrow> (st\<lparr>h4_pools := pm\<rparr>, Inr (Some (nak_response h req)))
      | (pm, Inr alloc) \<Rightarrow>
          (let old = op_GetByIP ops (h4_store st) (ip_String (al_IP alloc));
               l = request_lease now req alloc
           in case op_Upsert ops now l (h4_store st) of
                (s', Some err) \<Rightarrow> (st\<lparr>h4_store := s', h4_pools := pm\<rparr>, Inl err)
              | (s', None) \<Rightarrow>
                  (let st1 = st\<lparr>h4_store := s', h4_pools := pm\<rparr>;
                       ev = (case old of Inr o_l \<Rightarrow>
                               if l_State o_l \<noteq> StateFree then ''lease.renewed'' else ''lease.created''
                             | Inl _ \<Rightarrow> ''lease.created'');
                       resp = (baseResponse req)\<lparr>p_YIAddr := al_IP alloc, p_Options := leaseOptions h MessageAck alloc\<rparr>
                   in (emit4 h ev l st1, Inr (Some resp)))))"

definition release_target :: "Packet \<Rightarrow> ip" where
  "release_target req =
     (let q = ip_To4 (p_CIAddr req)
      in if q = [] \<or> isZeroIPv4 q then opt_RequestedIP (p_Options req) else q)"

definition handleRelease ::
  "'s lease_ops \<Rightarrow> Handler \<Rightarrow> time \<Rightarrow> Packet \<Rightarrow> 's h4_state \<Rightarrow> 's h4_state \<times> go_error option" where
  "handleRelease ops h now req st =
     (let p = release_target req in
      if p = [] then (st, None)
      else
        (case op_GetByIP ops (h4_store st) (ip_String p) of
           Inl err \<Rightarrow> (st, None)
         | Inr l0 \<Rightarrow>
             (let l = l0\<lparr>l_State := StateReleased, l_UpdatedAt := now, l_ExpiryTime := now\<rparr> in
              case op_Upsert ops now l (h4_store st) of
                (s', Some err) \<Rightarrow> (st\<lparr>h4_store := s'\<rparr>, Some err)
              | (s', None) \<Rightarrow>
                  (let st1 = emit4 h ''lease.released'' l (st\<lparr>h4_store := s'\<rparr>) in
                   case Release p (l_SubnetID l) (h4_pools st1) of
                     Inl err \<Rightarrow> (st1, Some err)
                   | Inr pm \<Rightarrow> (st1\<lparr>h4_pools := pm\<rparr>, None)))))"

definition decline_target :: "Packet \<Rightarrow> ip" where
  "decline_target req =
     (let q = opt_RequestedIP (p_Options req) in if q = [] then ip_To4 (p_CIAddr req) else q)"

definition handleDecline ::
  "'s lease_ops \<Rightarrow> Handler \<Rightarrow> time \<Rightarrow> Packet \<Rightarrow> 's h4_state \<Rightarrow> 's h4_state \<times> go_error option" where
  "handleDecline ops h now req st =
     (let p = decline_target req in
      if p = [] \<or> isZeroIPv4 p then (st, None)
      else
        (case op_GetByIP ops (h4_store st) (ip_String p) of
           Inl err \<Rightarrow> (st, None)
         | Inr l0 \<Rightarrow>
             (let l = l0\<lparr>l_State := StateDeclined, l_QuarantineUntil := now + 15 * minute_ns, l_UpdatedAt := now\<rparr> in
              case op_Upsert ops now l (h4_store st) of
                (s', Some err) \<Rightarrow> (st\<lparr>h4_store := s'\<rparr>, Some err)
              | (s', None) \<Rightarrow> (emit4 h ''lease.conflict'' l (st\<lparr>h4_store := s'\<rparr>), None))))"

definition handleInform :: "Handler \<Rightarrow> Packet \<Rightarrow> Packet" where
  "handleInform h req =
     (baseResponse req)\<lparr>p_YIAddr := [],
        p_Options := opt_SetIPv4 OptionServerIdentifier (h_serverIP h) (opt_SetMessageType MessageAck [])\<rparr>"

fun no_reply :: "'s h4_state \<times> go_error option \<Rightarrow> 's reply" where
  "no_reply (st, None) = (st, Inr None)"
| "no_reply (st, Some err) = (st, Inl err)"

definition Handle :: "'s lease_ops \<Rightarrow> Handler \<Rightarrow> time \<Rightarrow> Packet \<Rightarrow> 's h4_state \<Rightarrow> 's reply" where
  "Handle ops h now req st =
     (case opt_MessageType (p_Options req) of
        None \<Rightarrow> (st, Inl (ErrMsg ''missing dhcp message type''))
      | Some msgType \<Rightarrow>
          if msgType = MessageDiscover then handleDiscover ops h now req (HasRapidCommit (p_Options req)) st
          else if msgType = MessageRequest then handleRequest ops h now req st
          else if msgType = MessageRelease then no_reply (handleRelease ops h now req st)
          else if msgType = MessageDecline then no_reply (handleDecline ops h now req st)
          else if msgType = MessageInform then (st, Inr (Some (handleInform h req)))
          else (st, Inr None))"

text \<open>One datagram of the server's loop: what it sends and to whom (\<open>None\<close>: the sender).\<close>

definition serve4 ::
  "'s lease_ops \<Rightarrow> Handler \<Rightarrow> time \<Rightarrow> bytes \<Rightarrow> 's h4_state \<Rightarrow> 's h4_state \<times> (bytes \<times> (ip \<times> nat) option) option" where
  "serve4 ops h now raw st =
     (case DecodePacket raw of
        Inl err \<Rightarrow> (st, None)
      | Inr req \<Rightarrow>
          (case Handle ops h now req st of
             (st', Inl err) \<Rightarrow> (st', None)
           | (st', Inr None) \<Rightarrow> (st', None)
           | (st', Inr (Some resp)) \<Rightarrow>
               (case Packet_Encode resp of
                  Inl err \<Rightarrow> (st', None)
                | Inr out \<Rightarrow> (st', Some (out, ResponseTarget req resp)))))"

end
