(* ===== verification/Dhcp4Inv.thy ===== *)
theory Dhcp4Inv
  imports Dhcp4Handler Sweeper
begin

text \<open>
  The invariant of the DHCPv4 server: every address that a stored lease holds is marked in the pool
  that contains it. The pools' ranges do not overlap (\<open>pm_ok\<close>); the bitmaps are as long as the
  ranges, so no index is out of range.
\<close>

section \<open>Pools\<close>

definition in_pool :: "subnetPool \<Rightarrow> u32 \<Rightarrow> bool" where
  "in_pool pool w \<longleftrightarrow> sp_start pool \<le> w \<and> w \<le> sp_end pool"

definition pool_ok :: "subnetPool \<Rightarrow> bool" where
  "pool_ok pool \<longleftrightarrow> sp_start pool \<le> sp_end pool \<and>
     length (sp_bitmap pool) = unat (sp_end pool - sp_start pool) + 1"

definition used_bit :: "subnetPool \<Rightarrow> u32 \<Rightarrow> bool" where
  "used_bit pool w = sp_bitmap pool ! unat (w - sp_start pool)"

lemma in_pool_off:
  assumes "pool_ok pool" "in_pool pool w"
  shows "unat (w - sp_start pool) < length (sp_bitmap pool)"
proof -
  have "unat (w - sp_start pool) = unat w - unat (sp_start pool)"
    "unat (sp_end pool - sp_start pool) = unat (sp_end pool) - unat (sp_start pool)"
    using assms by (auto simp: in_pool_def pool_ok_def unat_sub)
  then show ?thesis using assms by (auto simp: in_pool_def pool_ok_def word_le_nat_alt)
qed

lemma bit_at_ok [simp]: "pool_ok pool \<Longrightarrow> in_pool pool w \<Longrightarrow> bit_at pool w = Inr (used_bit pool w)"
  by (simp add: bit_at_def used_bit_def in_pool_off)

definition strip :: "subnetPool \<Rightarrow> subnetPool" where
  "strip pool = pool\<lparr>sp_bitmap := []\<rparr>"

lemma strip_eqD:
  "strip p = strip q \<Longrightarrow> sp_id p = sp_id q \<and> sp_start p = sp_start q \<and> sp_end p = sp_end q \<and>
     sp_prefix p = sp_prefix q \<and> in_pool p = in_pool q"
  by (cases p; cases q) (auto simp: strip_def in_pool_def fun_eq_iff)

lemma setUsed_ok:
  assumes "pool_ok pool" "p \<noteq> []"
  shows "\<exists>pool'. setUsed pool p b = Inr pool' \<and> pool_ok pool' \<and> strip pool' = strip pool \<and>
    (\<forall>w. in_pool pool w \<longrightarrow> used_bit pool' w = (if w = ipv4ToUint32 p then b else used_bit pool w))"
proof (cases "in_pool pool (ipv4ToUint32 p)")
  case False
  then show ?thesis
    using assms by (auto simp: setUsed_def in_pool_def Let_def not_le)
next
  case True
  let ?u = "ipv4ToUint32 p" and ?off = "unat (ipv4ToUint32 p - sp_start pool)"
  let ?pool = "pool\<lparr>sp_bitmap := (sp_bitmap pool)[?off := b]\<rparr>"
  have off: "?off < length (sp_bitmap pool)" using in_pool_off [OF assms(1) True] .
  have "setUsed pool p b = Inr ?pool"
    using True assms(2) off by (auto simp: setUsed_def in_pool_def Let_def not_less)
  moreover have "pool_ok ?pool" using assms(1) by (simp add: pool_ok_def)
  moreover have "used_bit ?pool w = (if w = ?u then b else used_bit pool w)" if "in_pool pool w" for w
  proof -
    have "unat (ipv4ToUint32 p - sp_start pool) = unat (w - sp_start pool) \<Longrightarrow> w = ?u"
      by (simp flip: word_unat_eq_iff)
    then show ?thesis
      using off in_pool_off [OF assms(1) that] by (auto simp: used_bit_def nth_list_update)
  qed
  ultimately show ?thesis by (auto simp: strip_def)
qed

section \<open>The manager\<close>

abbreviation pool_of :: "PoolManager \<Rightarrow> string \<Rightarrow> subnetPool option" where
  "pool_of pm \<equiv> map_of (pm_pools pm)"

definition pm_ok :: "PoolManager \<Rightarrow> bool" where
  "pm_ok pm \<longleftrightarrow>
     (\<forall>pid p. pool_of pm pid = Some p \<longrightarrow> sp_id p = pid \<and> pool_ok p) \<and>
     (\<forall>i p j q w. pool_of pm i = Some p \<and> pool_of pm j = Some q \<and> in_pool p w \<and> in_pool q w \<longrightarrow> i = j) \<and>
     (\<forall>pid\<in>set (pm_order pm). pool_of pm pid \<noteq> None)"

definition marked :: "PoolManager \<Rightarrow> u32 \<Rightarrow> bool" where
  "marked pm w \<longleftrightarrow> (\<forall>pid p. pool_of pm pid = Some p \<and> in_pool p w \<longrightarrow> used_bit p w)"

text \<open>The same pools up to their bits.\<close>

definition same_pools :: "PoolManager \<Rightarrow> PoolManager \<Rightarrow> bool" where
  "same_pools pm pm' \<longleftrightarrow> pm_order pm' = pm_order pm \<and> pm_scope pm' = pm_scope pm \<and>
     (\<forall>pid. map_option strip (pool_of pm' pid) = map_option strip (pool_of pm pid))"

lemma same_pools_refl [simp]: "same_pools pm pm"
  by (simp add: same_pools_def)

lemma same_pools_trans: "same_pools a b \<Longrightarrow> same_pools b c \<Longrightarrow> same_pools a c"
  by (simp add: same_pools_def)

lemma same_poolsE:
  assumes "same_pools pm pm'" "pool_of pm' pid = Some p'"
  obtains p where "pool_of pm pid = Some p" "strip p' = strip p" "in_pool p' = in_pool p"
proof -
  have "map_option strip (pool_of pm pid) = Some (strip p')"
    using assms by (metis same_pools_def option.map(2))
  then obtain p where "pool_of pm pid = Some p" "strip p = strip p'" by auto
  then show ?thesis using that strip_eqD by metis
qed

lemma pm_ok_same:
  assumes "pm_ok pm" "same_pools pm pm'" "\<And>pid p. pool_of pm' pid = Some p \<Longrightarrow> pool_ok p"
  shows "pm_ok pm'"
  unfolding pm_ok_def
proof (intro conjI allI impI ballI)
  fix pid p assume p: "pool_of pm' pid = Some p"
  then show "sp_id p = pid"
    using assms(1) same_poolsE [OF assms(2) p] strip_eqD unfolding pm_ok_def by metis
  show "pool_ok p" using assms(3) p .
next
  fix i p j q w
  assume a: "pool_of pm' i = Some p \<and> pool_of pm' j = Some q \<and> in_pool p w \<and> in_pool q w"
  obtain p0 q0 where "pool_of pm i = Some p0" "in_pool p = in_pool p0"
    "pool_of pm j = Some q0" "in_pool q = in_pool q0"
    using a same_poolsE [OF assms(2)] by metis
  with a assms(1) show "i = j" unfolding pm_ok_def by metis
next
  fix pid assume "pid \<in> set (pm_order pm')"
  then have "pid \<in> set (pm_order pm)" using assms(2) by (simp add: same_pools_def)
  then have "pool_of pm pid \<noteq> None" using assms(1) unfolding pm_ok_def by blast
  then show "pool_of pm' pid \<noteq> None"
    using assms(2) unfolding same_pools_def by (metis option.map_disc_iff)
qed

lemma pm_okD:
  "pm_ok pm \<Longrightarrow> pool_of pm pid = Some p \<Longrightarrow> sp_id p = pid \<and> pool_ok p"
  unfolding pm_ok_def by blast

lemma pm_ok_disjoint:
  "pm_ok pm \<Longrightarrow> pool_of pm i = Some p \<Longrightarrow> pool_of pm j = Some q \<Longrightarrow> in_pool p w \<Longrightarrow> in_pool q w \<Longrightarrow> i = j \<and> p = q"
  unfolding pm_ok_def by (metis option.inject)

lemma pm_setUsed_ok:
  assumes ok: "pm_ok pm" and p: "p \<noteq> []"
  shows "\<exists>pm'. pm_setUsed pid p b pm = Inr pm' \<and> pm_ok pm' \<and> same_pools pm pm' \<and>
    (\<forall>w. marked pm w \<and> (b \<or> w \<noteq> ipv4ToUint32 p) \<longrightarrow> marked pm' w) \<and>
    (\<forall>pool. b \<and> pool_of pm pid = Some pool \<and> in_pool pool (ipv4ToUint32 p) \<longrightarrow> marked pm' (ipv4ToUint32 p))"
proof (cases "pool_of pm pid")
  case None
  then show ?thesis using ok by (simp add: pm_setUsed_def)
next
  case (Some pool)
  let ?u = "ipv4ToUint32 p"
  note po = pm_okD [OF ok Some]
  obtain pool' where s: "setUsed pool p b = Inr pool'" "pool_ok pool'" "strip pool' = strip pool"
    "\<forall>w. in_pool pool w \<longrightarrow> used_bit pool' w = (if w = ?u then b else used_bit pool w)"
    using setUsed_ok [of pool p b] po p by blast
  let ?pm = "pm\<lparr>pm_pools := mput pid pool' (pm_pools pm)\<rparr>"
  have q: "pool_of ?pm i = (if i = pid then Some pool' else pool_of pm i)" for i by simp
  have same: "same_pools pm ?pm" using Some s(3) by (simp add: same_pools_def)
  have ok': "pm_ok ?pm"
    by (rule pm_ok_same [OF ok same]) (use s(2) pm_okD [OF ok] in \<open>auto split: if_splits\<close>)
  have ip: "in_pool pool' = in_pool pool" using strip_eqD [OF s(3)] by simp
  have m1: "marked ?pm w" if "marked pm w" "b \<or> w \<noteq> ?u" for w
    using that s(4) Some unfolding marked_def q by (auto simp: ip)
  have m2: "marked ?pm ?u" if "b" "in_pool pool ?u"
    using that s(4) pm_ok_disjoint [OF ok Some] unfolding marked_def q by (auto simp: ip)
  show ?thesis
    using s(1) Some ok' same m1 m2 by (auto simp: pm_setUsed_def)
qed

lemma ip_To4_length: "ip_To4 p \<noteq> [] \<Longrightarrow> length (ip_To4 p) = 4"
  by (auto simp: ip_To4_def split: if_splits)

lemma ip_To4_id: "length p = 4 \<Longrightarrow> ip_To4 p = p"
  by (simp add: ip_To4_def)

section \<open>Choosing an address\<close>

lemma effectiveRange_sub:
  "effectiveRange pm pool = Some (a, b) \<Longrightarrow> sp_start pool \<le> sp_end pool \<Longrightarrow>
   sp_start pool \<le> a \<and> a \<le> b \<and> b \<le> sp_end pool"
  by (auto simp: effectiveRange_def Let_def split: option.splits prod.splits if_splits)

lemma tryAllocateSpecific_ok:
  assumes "\<forall>pool\<in>set pools. pool_ok pool"
  shows "\<exists>r. tryAllocateSpecific pm pools p = Inr r \<and>
    (\<forall>pool. r = Some pool \<longrightarrow> pool \<in> set pools \<and> p \<noteq> [] \<and> in_pool pool (ipv4ToUint32 p) \<and> \<not> used_bit pool (ipv4ToUint32 p))"
  using assms
proof (induction pools)
  case (Cons pool pools)
  let ?u = "ipv4ToUint32 p"
  have IH: "\<exists>r. tryAllocateSpecific pm pools p = Inr r \<and>
    (\<forall>pool. r = Some pool \<longrightarrow> pool \<in> set pools \<and> p \<noteq> [] \<and> in_pool pool ?u \<and> \<not> used_bit pool ?u)"
    using Cons by simp
  show ?case
  proof (cases "p = [] \<or> effectiveRange pm pool = None")
    case True
    then show ?thesis using IH by (auto simp: Let_def)
  next
    case False
    then obtain a b where r: "effectiveRange pm pool = Some (a, b)" by auto
    have sub: "sp_start pool \<le> a" "b \<le> sp_end pool"
      using effectiveRange_sub [OF r] Cons.prems by (auto simp: pool_ok_def)
    show ?thesis
    proof (cases "?u < a \<or> ?u > b")
      case True
      then show ?thesis using IH r False by (auto simp: Let_def)
    next
      case in_r: False
      then have "in_pool pool ?u" using sub by (auto simp: in_pool_def)
      then show ?thesis using IH r False in_r Cons.prems by (auto simp: Let_def)
    qed
  qed
qed simp

lemma nextFree_loop_ok:
  assumes "pool_ok pool" "sp_start pool \<le> u" "e \<le> sp_end pool"
  shows "\<exists>r. nextFree_loop pool u e = Inr r \<and> (\<forall>w. r = Some w \<longrightarrow> in_pool pool w \<and> \<not> used_bit pool w)"
  using assms
proof (induction pool u e rule: nextFree_loop.induct)
  case (1 pool u e)
  show ?case
  proof (cases "u > e")
    case True
    then show ?thesis by (simp add: nextFree_loop.simps [of pool u e])
  next
    case False
    then have i: "in_pool pool u" using "1.prems" by (auto simp: in_pool_def)
    note b = bit_at_ok [OF "1.prems"(1) i]
    show ?thesis
    proof (cases "\<not> used_bit pool u \<or> u = - 1")
      case True
      then show ?thesis using False b i by (auto simp: nextFree_loop.simps [of pool u e])
    next
      case cont: False
      have "1 + u \<noteq> 0" using cont by (metis add_eq_0_iff)
      then have "u \<le> u + 1" using unatSuc [of u] by (simp add: word_le_nat_alt add.commute)
      then have "sp_start pool \<le> u + 1" using "1.prems"(2) by simp
      then show ?thesis
        using "1.IH" [OF False b] cont "1.prems" False b by (simp add: nextFree_loop.simps [of pool u e])
    qed
  qed
qed

lemma nextFree_ok:
  assumes "pool_ok pool"
  shows "\<exists>r. nextFree pm pool = Inr r \<and>
    (\<forall>p. r = Some p \<longrightarrow> length p = 4 \<and> in_pool pool (ipv4ToUint32 p) \<and> \<not> used_bit pool (ipv4ToUint32 p))"
proof (cases "effectiveRange pm pool")
  case None
  then show ?thesis by (simp add: nextFree_def)
next
  case (Some ab)
  obtain a b where ab: "ab = (a, b)" by (cases ab)
  have "sp_start pool \<le> a" "b \<le> sp_end pool"
    using effectiveRange_sub [OF Some [unfolded ab]] assms by (auto simp: pool_ok_def)
  from nextFree_loop_ok [OF assms this] show ?thesis
    using Some ab by (auto simp: nextFree_def uint32ToIPv4_def ipv4ToUint32_def)
qed

lemma allocate_first_ok:
  assumes "\<forall>pool\<in>set pools. pool_ok pool"
  shows "\<exists>r. allocate_first pm pools = Inr r \<and>
    (\<forall>pool p. r = Some (pool, p) \<longrightarrow> pool \<in> set pools \<and> length p = 4 \<and>
       in_pool pool (ipv4ToUint32 p) \<and> \<not> used_bit pool (ipv4ToUint32 p))"
  using assms
proof (induction pools)
  case (Cons pool pools)
  then show ?case using nextFree_ok [of pool pm] by (fastforce split: option.split)
qed simp

lemma selectCandidatePools_sub:
  assumes "pm_ok pm" "pool \<in> set (selectCandidatePools req pm)"
  shows "pool_of pm (sp_id pool) = Some pool"
proof -
  have all: "pool_of pm (sp_id p) = Some p" if "p \<in> (\<lambda>pid. the (pool_of pm pid)) ` set (pm_order pm)" for p
    using that assms(1) unfolding pm_ok_def by fastforce
  show ?thesis
    using assms(2) all
    by (auto simp: selectCandidatePools_def Let_def find_Some_iff split: if_splits option.splits)
qed

definition running :: "Lease \<Rightarrow> bool" where
  "running l \<longleftrightarrow> l_State l = StateBound \<or> l_State l = StateRenewing \<or> l_State l = StateOffered"

lemma existing_lease_ok:
  "existing_lease now pm ls = Some (pool, p) \<Longrightarrow>
   \<exists>l\<in>set ls. \<not> l_ExpiryTime l < now \<and> running l \<and> pool_of pm (l_SubnetID l) = Some pool \<and>
     p = ip_To4 (net_ParseIP (l_IP l)) \<and> p \<noteq> []"
  by (induction ls) (auto simp: running_def Let_def split: if_splits option.splits)

section \<open>MAC addresses as strings\<close>

lemma hex_byte_chars: "c \<in> set (hex_byte b) \<Longrightarrow> (CHR ''0'' \<le> c \<and> c \<le> CHR ''9'') \<or> (CHR ''a'' \<le> c \<and> c \<le> CHR ''f'')"
proof -
  assume c: "c \<in> set (hex_byte b)"
  have h: "(CHR ''0'' \<le> hex_digit n \<and> hex_digit n \<le> CHR ''9'') \<or> (CHR ''a'' \<le> hex_digit n \<and> hex_digit n \<le> CHR ''f'')"
    if "n < 16" for n
    using that by (auto simp: hex_digit_def less_eq_char_def nat_byte_def)
  have "byte_nat b div 16 < 16" using byte_nat_less [of b] by (simp add: less_mult_imp_div_less del: byte_nat_less)
  from h [OF this] h [of "byte_nat b mod 16"] show ?thesis
    using c by (auto simp del: byte_nat_less simp: hex_byte_def)
qed

lemma join_colon_set: "set (join_colon xs) \<subseteq> insert (CHR '':'') (\<Union>x\<in>set xs. set x)"
  by (induction xs rule: join_colon.induct) auto

lemma trim_by_set: "set (trim_by ws s) \<subseteq> set s"
proof (induction ws s rule: trim_by.induct)
  case (1 ws s)
  show ?case
  proof (cases "filter (\<lambda>w. w \<noteq> [] \<and> starts_with w s) ws")
    case Nil
    then show ?thesis by (simp add: trim_by.simps [of ws s])
  next
    case (Cons w xs)
    then have "set (trim_by ws s) \<subseteq> set (drop (length w) s)"
      using "1.IH" by (simp add: trim_by.simps [of ws s])
    also have "\<dots> \<subseteq> set s" by (rule set_drop_subset)
    finally show ?thesis .
  qed
qed

lemma TrimSpace_set: "set (TrimSpace s) \<subseteq> set s"
  using trim_by_set [of "map rev go_spaces" "rev (trim_by go_spaces s)"] trim_by_set [of go_spaces s]
  by (auto simp: TrimSpace_def)

lemma upper_not_sep: "c \<noteq> CHR 0x1F \<Longrightarrow> upper_char c \<noteq> CHR 0x1F"
proof -
  assume c: "c \<noteq> CHR 0x1F"
  show ?thesis
  proof (cases "CHR ''a'' \<le> c \<and> c \<le> CHR ''z''")
    case True
    then have "97 \<le> byte_nat c" "byte_nat c \<le> 122" by (auto simp: less_eq_char_def byte_nat_def)
    then have "byte_nat (upper_char c) \<ge> 65" using True by (simp add: upper_char_def)
    then show ?thesis by (auto simp: byte_nat_def)
  qed (use c in \<open>auto simp: upper_char_def\<close>)
qed

lemma mac_no_sep: "CHR 0x1F \<notin> set (normalizeMAC (hw_String a))"
proof
  assume "CHR 0x1F \<in> set (normalizeMAC (hw_String a))"
  then obtain c where c: "c \<in> set (TrimSpace (hw_String a))" "upper_char c = CHR 0x1F"
    by (auto simp: normalizeMAC_def ToUpper_def)
  then have "c = CHR 0x1F" using upper_not_sep by blast
  moreover have "c \<in> set (hw_String a)" using c(1) TrimSpace_set by blast
  ultimately have "CHR 0x1F \<in> insert (CHR '':'') (\<Union>x\<in>set (map hex_byte a). set x)"
    using join_colon_set [of "map hex_byte a"] unfolding hw_String_def by blast
  then obtain b where "CHR 0x1F \<in> set (hex_byte b)" by auto
  from hex_byte_chars [OF this] show False by (simp add: less_eq_char_def)
qed

section \<open>The invariant\<close>

definition lease_addr :: "string \<Rightarrow> ip" where
  "lease_addr s = ip_To4 (net_ParseIP s)"

definition inv4 :: "(string \<rightharpoonup> Lease) \<Rightarrow> PoolManager \<Rightarrow> bool" where
  "inv4 v pm \<longleftrightarrow> pm_ok pm \<and>
     (\<forall>s l. v s = Some l \<and> lease_addr s \<noteq> [] \<longrightarrow> s = ip_String (lease_addr s)) \<and>
     (\<forall>s l. v s = Some l \<and> running l \<and> lease_addr s \<noteq> [] \<longrightarrow>
        marked pm (ipv4ToUint32 (lease_addr s)) \<and>
        (\<forall>pid p. pool_of pm pid = Some p \<and> in_pool p (ipv4ToUint32 (lease_addr s)) \<longrightarrow> l_SubnetID l = pid))"

lemma lease_addr_String [simp]: "length p = 4 \<Longrightarrow> lease_addr (ip_String p) = p"
  by (simp add: lease_addr_def ParseIP_String(2))

lemma lease_addr_length: "lease_addr s \<noteq> [] \<Longrightarrow> length (lease_addr s) = 4"
  unfolding lease_addr_def by (rule ip_To4_length)

lemma word4_inj: "length p = 4 \<Longrightarrow> length q = 4 \<Longrightarrow> ipv4ToUint32 p = ipv4ToUint32 q \<Longrightarrow> p = q"
  unfolding ipv4ToUint32_def by (metis word_bytes_of(1))

context lease_store
begin

text \<open>A chosen address is the client's own running lease, or one whose bit is not set.\<close>

lemma choose_address_ok:
  assumes inv: "inv s" and i4: "inv4 (view s) pm" and mac: "CHR 0x1F \<notin> set (normalizeMAC (ar_MAC req))"
  shows "\<exists>r. choose_address ops now req s pm = Inr r \<and>
    (\<forall>pool p. r = Some (pool, p) \<longrightarrow> length p = 4 \<and> pool_of pm (sp_id pool) = Some pool \<and>
      ((\<exists>l. view s (ip_String p) = Some l \<and> running l \<and> \<not> l_ExpiryTime l < now \<and>
          normalizeMAC (l_MAC l) = normalizeMAC (ar_MAC req) \<and> l_SubnetID l = sp_id pool) \<or>
       (in_pool pool (ipv4ToUint32 p) \<and> \<not> used_bit pool (ipv4ToUint32 p))))"
    (is "\<exists>r. _ \<and> ?ok r")
proof -
  have pm: "pm_ok pm" using i4 by (simp add: inv4_def)
  obtain ls where ls: "op_GetByMAC ops s (ar_MAC req) = Inr ls"
    "set ls = {l. view s (l_IP l) = Some l \<and> l_MAC l \<noteq> [] \<and> normalizeMAC (l_MAC l) = normalizeMAC (ar_MAC req)}"
    using by_mac [OF inv] mac by blast
  let ?ex = "if ar_MAC req \<noteq> [] then existing_lease now pm ls else None"
  let ?c = "selectCandidatePools req pm"
  have cands: "pool_of pm (sp_id pool) = Some pool \<and> pool_ok pool" if "pool \<in> set ?c" for pool
    using selectCandidatePools_sub [OF pm that] pm_okD [OF pm] by blast
  show ?thesis
  proof (cases ?ex)
    case (Some r)
    obtain pool p where r: "r = (pool, p)" by (cases r)
    have "existing_lease now pm ls = Some (pool, p)" using Some r by (simp split: if_splits)
    from existing_lease_ok [OF this] obtain l where l: "l \<in> set ls" "\<not> l_ExpiryTime l < now" "running l"
      "pool_of pm (l_SubnetID l) = Some pool" "p = lease_addr (l_IP l)" "p \<noteq> []"
      by (auto simp: lease_addr_def)
    have v: "view s (l_IP l) = Some l" "normalizeMAC (l_MAC l) = normalizeMAC (ar_MAC req)"
      using l(1) ls(2) by auto
    have "l_IP l = ip_String p"
      using i4 v(1) l(5,6) unfolding inv4_def by blast
    moreover have "sp_id pool = l_SubnetID l" using pm_okD [OF pm l(4)] by simp
    moreover have "length p = 4" using lease_addr_length l(5,6) by blast
    ultimately have "?ok (Some r)" using r l v by auto
    then show ?thesis using Some ls(1) by (auto simp: choose_address_def Let_def)
  next
    case None
    obtain sp where sp: "tryAllocateSpecific pm ?c (ip_To4 (ar_RequestedIP req)) = Inr sp"
      "\<forall>pool. sp = Some pool \<longrightarrow> pool \<in> set ?c \<and> ip_To4 (ar_RequestedIP req) \<noteq> [] \<and>
         in_pool pool (ipv4ToUint32 (ip_To4 (ar_RequestedIP req))) \<and> \<not> used_bit pool (ipv4ToUint32 (ip_To4 (ar_RequestedIP req)))"
      using tryAllocateSpecific_ok [of ?c pm] cands by blast
    obtain af where af: "allocate_first pm ?c = Inr af"
      "\<forall>pool p. af = Some (pool, p) \<longrightarrow> pool \<in> set ?c \<and> length p = 4 \<and>
         in_pool pool (ipv4ToUint32 p) \<and> \<not> used_bit pool (ipv4ToUint32 p)"
      using allocate_first_ok [of ?c pm] cands by blast
    let ?sp = "if ar_RequestedIP req \<noteq> [] then sp else None"
    have ch: "choose_address ops now req s pm =
        (case ?sp of Some pool \<Rightarrow> Inr (Some (pool, ip_To4 (ar_RequestedIP req))) | None \<Rightarrow> Inr af)"
      using None ls(1) sp(1) af(1)
      by (auto simp: choose_address_def Let_def split: option.splits if_splits)
    show ?thesis
    proof (cases ?sp)
      case None
      then show ?thesis using ch af(2) cands by auto
    next
      case (Some pool)
      then have "sp = Some pool" by (simp split: if_splits)
      then show ?thesis using ch Some sp(2) cands ip_To4_length by auto
    qed
  qed
qed

lemma Allocate_ok:
  assumes inv: "inv s" and i4: "inv4 (view s) pm" and mac: "CHR 0x1F \<notin> set (normalizeMAC (ar_MAC req))"
    and a: "Allocate ops now req s pm = (pm', r)"
  shows "same_pools pm pm'" "pm_ok pm'" "\<forall>w. marked pm w \<longrightarrow> marked pm' w"
    "r = Inl err \<Longrightarrow> err = ErrMsg ''no free address available'' \<and> pm' = pm"
    "r = Inr alloc \<Longrightarrow> length (al_IP alloc) = 4 \<and> marked pm' (ipv4ToUint32 (al_IP alloc)) \<and>
       (\<forall>pid p. pool_of pm pid = Some p \<and> in_pool p (ipv4ToUint32 (al_IP alloc)) \<longrightarrow> al_SubnetID alloc = pid) \<and>
       (\<forall>l. view s (ip_String (al_IP alloc)) = Some l \<and> running l \<longrightarrow>
          normalizeMAC (l_MAC l) = normalizeMAC (ar_MAC req))"
proof -
  have pm: "pm_ok pm" using i4 by (simp add: inv4_def)
  obtain c where c: "choose_address ops now req s pm = Inr c"
    "\<forall>pool p. c = Some (pool, p) \<longrightarrow> length p = 4 \<and> pool_of pm (sp_id pool) = Some pool \<and>
      ((\<exists>l. view s (ip_String p) = Some l \<and> running l \<and> \<not> l_ExpiryTime l < now \<and>
          normalizeMAC (l_MAC l) = normalizeMAC (ar_MAC req) \<and> l_SubnetID l = sp_id pool) \<or>
       (in_pool pool (ipv4ToUint32 p) \<and> \<not> used_bit pool (ipv4ToUint32 p)))"
    using choose_address_ok [OF inv i4 mac] by blast
  have goals: "same_pools pm pm' \<and> pm_ok pm' \<and> (\<forall>w. marked pm w \<longrightarrow> marked pm' w) \<and>
    (r = Inl err \<longrightarrow> err = ErrMsg ''no free address available'' \<and> pm' = pm) \<and>
    (r = Inr alloc \<longrightarrow> length (al_IP alloc) = 4 \<and> marked pm' (ipv4ToUint32 (al_IP alloc)) \<and>
       (\<forall>pid p. pool_of pm pid = Some p \<and> in_pool p (ipv4ToUint32 (al_IP alloc)) \<longrightarrow> al_SubnetID alloc = pid) \<and>
       (\<forall>l. view s (ip_String (al_IP alloc)) = Some l \<and> running l \<longrightarrow>
          normalizeMAC (l_MAC l) = normalizeMAC (ar_MAC req)))"
  proof (cases c)
    case None
    then show ?thesis using a c(1) pm by (auto simp: Allocate_def)
  next
    case (Some q)
    obtain pool p where q: "q = (pool, p)" by (cases q)
    let ?u = "ipv4ToUint32 p"
    have len: "length p = 4" and po: "pool_of pm (sp_id pool) = Some pool" and
      or: "(\<exists>l. view s (ip_String p) = Some l \<and> running l \<and>
          normalizeMAC (l_MAC l) = normalizeMAC (ar_MAC req) \<and> l_SubnetID l = sp_id pool) \<or>
       (in_pool pool ?u \<and> \<not> used_bit pool ?u)"
      using c(2) Some q by auto
    then have ne: "p \<noteq> []" by auto
    obtain pm1 where s1: "pm_setUsed (sp_id pool) p True pm = Inr pm1" "pm_ok pm1" "same_pools pm pm1"
      "\<forall>w. marked pm w \<longrightarrow> marked pm1 w" "in_pool pool ?u \<longrightarrow> marked pm1 ?u"
      using pm_setUsed_ok [OF pm ne, of "sp_id pool" True] po by auto
    have res: "pm' = pm1" "r = Inr (buildResult pool p)"
      using a c(1) Some q s1(1) by (auto simp: Allocate_def)
    have heldD: "marked pm ?u \<and> (\<forall>pid q. pool_of pm pid = Some q \<and> in_pool q ?u \<longrightarrow> l_SubnetID l = pid)"
      if "view s (ip_String p) = Some l" "running l" for l
      using i4 that len unfolding inv4_def by (metis lease_addr_String list.size(3) zero_neq_numeral)
    have "marked pm1 ?u \<and> (\<forall>pid q. pool_of pm pid = Some q \<and> in_pool q ?u \<longrightarrow> sp_id pool = pid) \<and>
       (\<forall>l. view s (ip_String p) = Some l \<and> running l \<longrightarrow>
          normalizeMAC (l_MAC l) = normalizeMAC (ar_MAC req))"
      using or
    proof
      assume "\<exists>l. view s (ip_String p) = Some l \<and> running l \<and>
          normalizeMAC (l_MAC l) = normalizeMAC (ar_MAC req) \<and> l_SubnetID l = sp_id pool"
      then obtain l where l: "view s (ip_String p) = Some l" "running l"
          "normalizeMAC (l_MAC l) = normalizeMAC (ar_MAC req)" "l_SubnetID l = sp_id pool"
        by blast
      from heldD [OF l(1,2)] l s1(4) show ?thesis by auto
    next
      assume free: "in_pool pool ?u \<and> \<not> used_bit pool ?u"
      then have "\<not> marked pm ?u" using po by (auto simp: marked_def)
      then have "\<forall>l. view s (ip_String p) = Some l \<longrightarrow> \<not> running l" using heldD by blast
      then show ?thesis using free s1(5) pm_ok_disjoint [OF pm po] by blast
    qed
    then show ?thesis using res s1 len by (auto simp: buildResult_def)
  qed
  show "same_pools pm pm'" "pm_ok pm'" "\<forall>w. marked pm w \<longrightarrow> marked pm' w"
    "r = Inl err \<Longrightarrow> err = ErrMsg ''no free address available'' \<and> pm' = pm"
    "r = Inr alloc \<Longrightarrow> length (al_IP alloc) = 4 \<and> marked pm' (ipv4ToUint32 (al_IP alloc)) \<and>
       (\<forall>pid p. pool_of pm pid = Some p \<and> in_pool p (ipv4ToUint32 (al_IP alloc)) \<longrightarrow> al_SubnetID alloc = pid) \<and>
       (\<forall>l. view s (ip_String (al_IP alloc)) = Some l \<and> running l \<longrightarrow>
          normalizeMAC (l_MAC l) = normalizeMAC (ar_MAC req))"
    using goals by auto
qed

end

section \<open>Messages\<close>

lemma inv4_mono:
  assumes "inv4 v pm" "same_pools pm pm'" "pm_ok pm'" "\<forall>w. marked pm w \<longrightarrow> marked pm' w"
  shows "inv4 v pm'"
  unfolding inv4_def
proof (intro conjI allI impI)
  show "pm_ok pm'" using assms(3) .
  show "s = ip_String (lease_addr s)" if "v s = Some l \<and> lease_addr s \<noteq> []" for s l
    using assms(1) that unfolding inv4_def by blast
  fix s l assume l: "v s = Some l \<and> running l \<and> lease_addr s \<noteq> []"
  then show "marked pm' (ipv4ToUint32 (lease_addr s))"
    using assms(1,4) unfolding inv4_def by blast
  fix pid p assume p: "pool_of pm' pid = Some p \<and> in_pool p (ipv4ToUint32 (lease_addr s))"
  then obtain q where "pool_of pm pid = Some q" "in_pool p = in_pool q"
    using same_poolsE [OF assms(2)] by metis
  then show "l_SubnetID l = pid" using assms(1) l p unfolding inv4_def by metis
qed

text \<open>Storing a lease at an address that the pool has marked, in the pool that contains it.\<close>

lemma inv4_put:
  assumes "inv4 v pm" "length p = 4" "k = ip_String p"
    and "running l \<Longrightarrow> marked pm (ipv4ToUint32 p)"
    and "\<And>pid q. running l \<Longrightarrow> pool_of pm pid = Some q \<Longrightarrow> in_pool q (ipv4ToUint32 p) \<Longrightarrow> l_SubnetID l = pid"
  shows "inv4 (v(k \<mapsto> l)) pm"
  using assms unfolding inv4_def by (auto split: if_splits)

text \<open>Storing again at a key of the store, with the same subnet, and not holding more than before.\<close>

lemma inv4_again:
  assumes "inv4 v pm" "v k = Some l0" "l_SubnetID l = l_SubnetID l0" "running l \<Longrightarrow> running l0"
  shows "inv4 (v(k \<mapsto> l)) pm"
  using assms unfolding inv4_def by (auto split: if_splits)

text \<open>A free bit keeps the invariant when no lease holds its address.\<close>

lemma inv4_free:
  assumes "inv4 v pm" "same_pools pm pm'" "pm_ok pm'" "\<forall>w. marked pm w \<and> w \<noteq> ipv4ToUint32 p \<longrightarrow> marked pm' w"
    and "length p = 4" "\<forall>l. v (ip_String p) = Some l \<longrightarrow> \<not> running l"
  shows "inv4 v pm'"
  unfolding inv4_def
proof (intro conjI allI impI)
  show "pm_ok pm'" using assms(3) .
  show "s = ip_String (lease_addr s)" if "v s = Some l \<and> lease_addr s \<noteq> []" for s l
    using assms(1) that unfolding inv4_def by blast
  fix s l assume l: "v s = Some l \<and> running l \<and> lease_addr s \<noteq> []"
  then have "s = ip_String (lease_addr s)" using assms(1) unfolding inv4_def by blast
  then have "ipv4ToUint32 (lease_addr s) \<noteq> ipv4ToUint32 p"
    using word4_inj [OF lease_addr_length assms(5)] l assms(6) by metis
  then show "marked pm' (ipv4ToUint32 (lease_addr s))"
    using assms(1,4) l unfolding inv4_def by blast
  fix pid q assume q: "pool_of pm' pid = Some q \<and> in_pool q (ipv4ToUint32 (lease_addr s))"
  then obtain r where "pool_of pm pid = Some r" "in_pool q = in_pool r"
    using same_poolsE [OF assms(2)] by metis
  then show "l_SubnetID l = pid" using assms(1) l q unfolding inv4_def by metis
qed

text \<open>The leases that a message makes the server store.\<close>

definition stored_by :: "'s lease_ops \<Rightarrow> time \<Rightarrow> Packet \<Rightarrow> 's h4_state \<Rightarrow> Lease list" where
  "stored_by ops now req st =
     (let mt = opt_MessageType (p_Options req) in
      if mt = Some MessageDiscover then
        (case Allocate ops now (alloc_request req (opt_RequestedIP (p_Options req))) (h4_store st) (h4_pools st) of
           (pm, Inr alloc) \<Rightarrow> [discover_lease now req (HasRapidCommit (p_Options req)) alloc]
         | (pm, Inl err) \<Rightarrow> [])
      else if mt = Some MessageRequest then
        (case Allocate ops now (alloc_request req (request_target req)) (h4_store st) (h4_pools st) of
           (pm, Inr alloc) \<Rightarrow> [request_lease now req alloc]
         | (pm, Inl err) \<Rightarrow> [])
      else if mt = Some MessageRelease then
        (case op_GetByIP ops (h4_store st) (ip_String (release_target req)) of
           Inr l0 \<Rightarrow> [l0\<lparr>l_State := StateReleased, l_UpdatedAt := now, l_ExpiryTime := now\<rparr>]
         | Inl err \<Rightarrow> [])
      else if mt = Some MessageDecline then
        (case op_GetByIP ops (h4_store st) (ip_String (decline_target req)) of
           Inr l0 \<Rightarrow> [l0\<lparr>l_State := StateDeclined, l_QuarantineUntil := now + 15 * minute_ns, l_UpdatedAt := now\<rparr>]
         | Inl err \<Rightarrow> [])
      else [])"

lemma discover_lease_fields:
  "l_IP (discover_lease now req r alloc) = ip_String (al_IP alloc)"
  "l_SubnetID (discover_lease now req r alloc) = al_SubnetID alloc"
  "l_MAC (discover_lease now req r alloc) = mac_string req"
  "l_State (discover_lease now req r alloc) = (if r then StateBound else StateOffered)"
  by (simp_all add: discover_lease_def Let_def split: option.split)

lemma request_lease_fields:
  "l_IP (request_lease now req alloc) = ip_String (al_IP alloc)"
  "l_SubnetID (request_lease now req alloc) = al_SubnetID alloc"
  "l_MAC (request_lease now req alloc) = mac_string req" "l_State (request_lease now req alloc) = StateBound"
  by (simp_all add: request_lease_def)

lemma upserted_fields:
  "l_IP (upserted now l) = l_IP l" "l_SubnetID (upserted now l) = l_SubnetID l"
  "l_MAC (upserted now l) = l_MAC l" "l_State (upserted now l) = l_State l"
  "running (upserted now l) = running l"
  by (simp_all add: upserted_def running_def)

lemma request_target_length: "opt_RequestedIP opts \<noteq> [] \<Longrightarrow> length (opt_RequestedIP opts) = 4"
  by (auto simp: opt_RequestedIP_def ip_To4_def split: option.splits if_splits)

lemma target_length:
  "release_target req \<noteq> [] \<Longrightarrow> length (release_target req) = 4"
  "decline_target req \<noteq> [] \<Longrightarrow> length (decline_target req) = 4"
  by (auto simp: release_target_def decline_target_def Let_def ip_To4_length request_target_length split: if_splits)

context lease_store
begin

lemma mac_ok: "CHR 0x1F \<notin> set (normalizeMAC (ar_MAC (alloc_request req p)))"
  by (simp add: alloc_request_def mac_string_def mac_no_sep)

text \<open>Storing the lease of an allocation.\<close>

lemma store_allocated:
  assumes inv: "inv (h4_store st)" and i4: "inv4 (view (h4_store st)) (h4_pools st)"
    and a: "Allocate ops now (alloc_request req t) (h4_store st) (h4_pools st) = (pm, Inr alloc)"
    and l: "l_IP l = ip_String (al_IP alloc)" "l_SubnetID l = al_SubnetID alloc" "ok (upserted now l)"
  shows "\<exists>s'. op_Upsert ops now l (h4_store st) = (s', None) \<and> inv s' \<and>
    view s' = (view (h4_store st))(ip_String (al_IP alloc) \<mapsto> upserted now l) \<and> inv4 (view s') pm"
proof -
  note al = Allocate_ok [OF inv i4 mac_ok a]
  have len: "length (al_IP alloc) = 4" using al(5) by blast
  obtain s' where s': "op_Upsert ops now l (h4_store st) = (s', None)" "inv s'"
    "view s' = (view (h4_store st))(ip_String (al_IP alloc) \<mapsto> upserted now l)"
    using upsert [OF inv l(3)] l(1) by auto
  have i: "inv4 (view (h4_store st)) pm"
    using inv4_mono [OF i4 al(1-3)] .
  have placed: "al_SubnetID alloc = pid"
    if q: "pool_of pm pid = Some q" and iq: "in_pool q (ipv4ToUint32 (al_IP alloc))" for pid q
  proof -
    obtain q0 where "pool_of (h4_pools st) pid = Some q0" "in_pool q = in_pool q0"
      using same_poolsE [OF al(1) q] .
    then show ?thesis using al(5) iq by auto
  qed
  have "inv4 ((view (h4_store st))(ip_String (al_IP alloc) \<mapsto> upserted now l)) pm"
    by (rule inv4_put [OF i len refl]) (use al(5) placed l(2) in \<open>auto simp: upserted_fields\<close>)
  with s' show ?thesis by auto
qed

lemma Release_ok:
  assumes "inv4 v pm" "length p = 4" "\<forall>l. v (ip_String p) = Some l \<longrightarrow> \<not> running l"
  shows "\<exists>pm'. Release p sid pm = Inr pm' \<and> inv4 v pm'"
proof -
  have pm: "pm_ok pm" using assms(1) by (simp add: inv4_def)
  have ne: "p \<noteq> []" using assms(2) by auto
  show ?thesis
  proof (cases "mark_pool p sid pm")
    case None
    then show ?thesis using assms(1) by (simp add: Release_def markFree_def ip_To4_id [OF assms(2)])
  next
    case (Some pid)
    from pm_setUsed_ok [OF pm ne, of pid False] obtain pm' where
      "pm_setUsed pid p False pm = Inr pm'" "pm_ok pm'" "same_pools pm pm'"
      "\<forall>w. marked pm w \<and> w \<noteq> ipv4ToUint32 p \<longrightarrow> marked pm' w"
      by auto
    then show ?thesis
      using inv4_free [OF assms(1)] assms(2,3) Some
      by (auto simp: Release_def markFree_def ip_To4_id [OF assms(2)])
  qed
qed

lemma Handle_ok:
  assumes inv: "inv (h4_store st)" and i4: "inv4 (view (h4_store st)) (h4_pools st)"
    and ok: "\<forall>l\<in>set (stored_by ops now req st). ok (upserted now l)"
    and h: "Handle ops h now req st = (st', r)"
  shows "inv (h4_store st') \<and> inv4 (view (h4_store st')) (h4_pools st') \<and>
    (\<forall>m. r \<noteq> Inl (Panic m)) \<and>
    (\<forall>resp a. r = Inr (Some resp) \<and> p_YIAddr resp = a \<and> a \<noteq> [] \<longrightarrow>
       length a = 4 \<and>
       (\<forall>l. view (h4_store st) (ip_String a) = Some l \<and> running l \<longrightarrow>
          normalizeMAC (l_MAC l) = normalizeMAC (mac_string req)) \<and>
       (\<exists>l. view (h4_store st') (ip_String a) = Some l \<and> running l \<and> l_MAC l = mac_string req))"
    (is "?A \<and> ?B \<and> ?C")
proof -
  let ?s = "h4_store st" and ?pm = "h4_pools st"
  note d = HasRapidCommit_def
  show ?thesis
  proof (cases "opt_MessageType (p_Options req)")
    case None
    then show ?thesis using h inv i4 by (auto simp: Handle_def)
  next
    case (Some mt)
    consider (disc) "mt = MessageDiscover" | (req) "mt = MessageRequest" | (rel) "mt = MessageRelease"
      | (decl) "mt = MessageDecline" | (other) "mt \<notin> {MessageDiscover, MessageRequest, MessageRelease, MessageDecline}"
      by blast
    then show ?thesis
    proof cases
      case disc
      let ?t = "opt_RequestedIP (p_Options req)" and ?rapid = "HasRapidCommit (p_Options req)"
      obtain pm ar where a: "Allocate ops now (alloc_request req ?t) ?s ?pm = (pm, ar)"
        by (cases "Allocate ops now (alloc_request req ?t) ?s ?pm")
      note al = Allocate_ok [OF inv i4 mac_ok a]
      show ?thesis
      proof (cases ar)
        case (Inl err)
        then show ?thesis
          using h Some disc a al(4) inv i4 by (auto simp: Handle_def handleDiscover_def)
      next
        case (Inr alloc)
        let ?l = "discover_lease now req ?rapid alloc"
        have "ok (upserted now ?l)" using ok Some disc a Inr by (simp add: stored_by_def)
        from store_allocated [OF inv i4 a [unfolded Inr] _ _ this] obtain s' where s':
          "op_Upsert ops now ?l ?s = (s', None)" "inv s'"
          "view s' = (view ?s)(ip_String (al_IP alloc) \<mapsto> upserted now ?l)" "inv4 (view s') pm"
          by (auto simp: discover_lease_fields)
        have st': "h4_store st' = s'" "h4_pools st' = pm" and
          r: "\<exists>resp. r = Inr (Some resp) \<and> p_YIAddr resp = al_IP alloc"
          using h Some disc a Inr s'(1)
          by (auto simp: Handle_def handleDiscover_def emit4_def Let_def)
        have "running (upserted now ?l)" "l_MAC (upserted now ?l) = mac_string req"
          by (auto simp: upserted_fields discover_lease_fields running_def)
        then show ?thesis using st' r s' al(5) Inr by (auto simp: alloc_request_def)
      qed
    next
      case req
      let ?t = "request_target req"
      obtain pm ar where a: "Allocate ops now (alloc_request req ?t) ?s ?pm = (pm, ar)"
        by (cases "Allocate ops now (alloc_request req ?t) ?s ?pm")
      note al = Allocate_ok [OF inv i4 mac_ok a]
      show ?thesis
      proof (cases ar)
        case (Inl err)
        then show ?thesis
          using h Some req a al(4) inv i4
          by (auto simp: Handle_def handleRequest_def nak_response_def baseResponse_def)
      next
        case (Inr alloc)
        let ?l = "request_lease now req alloc"
        have "ok (upserted now ?l)" using ok Some req a Inr by (simp add: stored_by_def)
        from store_allocated [OF inv i4 a [unfolded Inr] _ _ this] obtain s' where s':
          "op_Upsert ops now ?l ?s = (s', None)" "inv s'"
          "view s' = (view ?s)(ip_String (al_IP alloc) \<mapsto> upserted now ?l)" "inv4 (view s') pm"
          by (auto simp: request_lease_fields)
        have st': "h4_store st' = s'" "h4_pools st' = pm" and
          r: "\<exists>resp. r = Inr (Some resp) \<and> p_YIAddr resp = al_IP alloc"
          using h Some req a Inr s'(1)
          by (auto simp: Handle_def handleRequest_def emit4_def Let_def)
        have "running (upserted now ?l)" "l_MAC (upserted now ?l) = mac_string req"
          by (auto simp: upserted_fields request_lease_fields running_def)
        then show ?thesis using st' r s' al(5) Inr by (auto simp: alloc_request_def)
      qed
    next
      case rel
      let ?p = "release_target req"
      show ?thesis
      proof (cases "?p = [] \<or> view ?s (ip_String ?p) = None")
        case True
        then show ?thesis
          using h Some rel inv i4
          by (cases "?p = []") (auto simp: Handle_def handleRelease_def by_ip [OF inv] Let_def split: if_splits)
      next
        case False
        then obtain l0 where l0: "view ?s (ip_String ?p) = Some l0" "?p \<noteq> []" by auto
        let ?l = "l0\<lparr>l_State := StateReleased, l_UpdatedAt := now, l_ExpiryTime := now\<rparr>"
        have ipl: "l_IP l0 = ip_String ?p" using view_ip [OF inv l0(1)] .
        have "ok (upserted now ?l)" using ok Some rel l0 by (simp add: stored_by_def by_ip [OF inv])
        from upsert [OF inv this] obtain s' where s': "op_Upsert ops now ?l ?s = (s', None)" "inv s'"
          "view s' = (view ?s)(ip_String ?p \<mapsto> upserted now ?l)"
          using ipl by auto
        have nh: "\<not> running (upserted now ?l)" by (simp add: running_def upserted_fields state_defs)
        have i: "inv4 (view s') ?pm"
          unfolding s'(3) by (rule inv4_again [OF i4 l0(1)]) (use nh in \<open>auto simp: upserted_fields\<close>)
        from Release_ok [OF i target_length(1) [OF l0(2)], of "l_SubnetID l0"] nh obtain pm where
          pm: "Release ?p (l_SubnetID l0) ?pm = Inr pm" "inv4 (view s') pm"
          by (auto simp: s'(3))
        have "h4_store st' = s'" "h4_pools st' = pm" "r = Inr None"
          using h Some rel l0 s'(1) pm(1)
          by (auto simp: Handle_def handleRelease_def by_ip [OF inv] Let_def emit4_def split: if_splits)
        then show ?thesis using s' pm by auto
      qed
    next
      case decl
      let ?p = "decline_target req"
      show ?thesis
      proof (cases "?p = [] \<or> isZeroIPv4 ?p \<or> view ?s (ip_String ?p) = None")
        case True
        then show ?thesis
          using h Some decl inv i4
          by (cases "?p = []") (auto simp: Handle_def handleDecline_def by_ip [OF inv] Let_def split: if_splits)
      next
        case False
        then obtain l0 where l0: "view ?s (ip_String ?p) = Some l0" "?p \<noteq> []" by auto
        let ?l = "l0\<lparr>l_State := StateDeclined, l_QuarantineUntil := now + 15 * minute_ns, l_UpdatedAt := now\<rparr>"
        have ipl: "l_IP l0 = ip_String ?p" using view_ip [OF inv l0(1)] .
        have "ok (upserted now ?l)" using ok Some decl l0 by (simp add: stored_by_def by_ip [OF inv])
        from upsert [OF inv this] obtain s' where s': "op_Upsert ops now ?l ?s = (s', None)" "inv s'"
          "view s' = (view ?s)(ip_String ?p \<mapsto> upserted now ?l)"
          using ipl by auto
        have nh: "\<not> running (upserted now ?l)" by (simp add: running_def upserted_fields state_defs)
        have i: "inv4 (view s') ?pm"
          unfolding s'(3) by (rule inv4_again [OF i4 l0(1)]) (use nh in \<open>auto simp: upserted_fields\<close>)
        have "h4_store st' = s'" "h4_pools st' = ?pm" "r = Inr None"
          using h Some decl l0 s'(1) False
          by (auto simp: Handle_def handleDecline_def by_ip [OF inv] Let_def emit4_def split: if_splits)
        then show ?thesis using s' i by auto
      qed
    next
      case other
      then show ?thesis
        using h Some inv i4
        by (auto simp: Handle_def handleInform_def split: if_splits)
    qed
  qed
qed

end

end
