(* ===== verification/Dhcp4Run.thy ===== *)
theory Dhcp4Run
  imports Dhcp4Inv LeaseProps
begin

text \<open>
  Runs of the DHCPv4 server: messages, ticks of the sweeper, changes of the cluster's scope, and
  restarts, which rebuild the pools from the configuration and mark the stored leases. The
  invariant of \<open>Dhcp4Inv\<close> holds in every reachable state.
\<close>

section \<open>Marking the stored leases\<close>

definition placed :: "PoolManager \<Rightarrow> Lease \<Rightarrow> bool" where
  "placed pm l \<longleftrightarrow> (\<forall>pid p. pool_of pm pid = Some p \<and> in_pool p (ipv4ToUint32 (lease_addr (l_IP l))) \<longrightarrow>
     l_SubnetID l = pid)"

lemma placed_same: "same_pools pm pm' \<Longrightarrow> placed pm l \<Longrightarrow> placed pm' l"
  unfolding placed_def by (metis same_poolsE)

lemma markAllocated_ok:
  assumes "pm_ok pm" "p \<noteq> []"
  shows "\<exists>pm'. markAllocated p sid pm = Inr pm' \<and> pm_ok pm' \<and> same_pools pm pm' \<and>
    (\<forall>w. marked pm w \<longrightarrow> marked pm' w) \<and>
    (pool_of pm [] = None \<and> (\<forall>pid q. pool_of pm pid = Some q \<and> in_pool q (ipv4ToUint32 p) \<longrightarrow> sid = pid) \<longrightarrow>
       marked pm' (ipv4ToUint32 p))"
proof (cases "mark_pool p sid pm")
  case None
  have "marked pm (ipv4ToUint32 p)"
    if "pool_of pm [] = None" "\<forall>pid q. pool_of pm pid = Some q \<and> in_pool q (ipv4ToUint32 p) \<longrightarrow> sid = pid"
    using None that by (auto simp: mark_pool_def marked_def split: if_splits)
  then show ?thesis using assms(1) None by (auto simp: markAllocated_def)
next
  case (Some pid)
  obtain pm' where pm': "pm_setUsed pid p True pm = Inr pm'" "pm_ok pm'" "same_pools pm pm'"
    "\<forall>w. marked pm w \<longrightarrow> marked pm' w"
    "\<forall>pool. pool_of pm pid = Some pool \<and> in_pool pool (ipv4ToUint32 p) \<longrightarrow> marked pm' (ipv4ToUint32 p)"
    using pm_setUsed_ok [OF assms, of pid True] by auto
  have "marked pm' (ipv4ToUint32 p)"
    if no: "pool_of pm [] = None" and pl: "\<forall>pid q. pool_of pm pid = Some q \<and> in_pool q (ipv4ToUint32 p) \<longrightarrow> sid = pid"
  proof (cases "\<exists>i q. pool_of pm i = Some q \<and> in_pool q (ipv4ToUint32 p)")
    case True
    then obtain i q where q: "pool_of pm i = Some q" "in_pool q (ipv4ToUint32 p)" by blast
    then have "sid = i" using pl by blast
    then have "pid = sid" using Some q(1) no by (auto simp: mark_pool_def split: if_splits)
    then show ?thesis using pm'(5) q \<open>sid = i\<close> by blast
  next
    case False
    then have "marked pm (ipv4ToUint32 p)" by (auto simp: marked_def)
    then show ?thesis using pm'(4) by blast
  qed
  then show ?thesis using pm' Some by (auto simp: markAllocated_def)
qed

lemma same_pools_empty: "same_pools pm pm' \<Longrightarrow> pool_of pm [] = None \<Longrightarrow> pool_of pm' [] = None"
  unfolding same_pools_def by (metis option.map_disc_iff)

lemma sync_loop_ok:
  assumes "pm_ok pm" "pool_of pm [] = None"
  shows "\<exists>pm'. sync_loop ls pm = Inr pm' \<and> pm_ok pm' \<and> same_pools pm pm' \<and>
    (\<forall>w. marked pm w \<longrightarrow> marked pm' w) \<and>
    (\<forall>l\<in>set ls. sync_state l \<and> lease_addr (l_IP l) \<noteq> [] \<and> placed pm l \<longrightarrow>
       marked pm' (ipv4ToUint32 (lease_addr (l_IP l))))"
  using assms
proof (induction ls arbitrary: pm)
  case (Cons l ls)
  let ?p = "lease_addr (l_IP l)"
  show ?case
  proof (cases "sync_state l \<and> ?p \<noteq> []")
    case False
    then show ?thesis using Cons by (auto simp: lease_addr_def Let_def)
  next
    case True
    obtain pm1 where pm1: "markAllocated ?p (l_SubnetID l) pm = Inr pm1" "pm_ok pm1" "same_pools pm pm1"
      "\<forall>w. marked pm w \<longrightarrow> marked pm1 w" "placed pm l \<longrightarrow> marked pm1 (ipv4ToUint32 ?p)"
      using markAllocated_ok [OF Cons.prems(1), of ?p "l_SubnetID l"] True Cons.prems(2)
      unfolding placed_def by blast
    obtain pm' where pm': "sync_loop ls pm1 = Inr pm'" "pm_ok pm'" "same_pools pm1 pm'"
      "\<forall>w. marked pm1 w \<longrightarrow> marked pm' w"
      "\<forall>l\<in>set ls. sync_state l \<and> lease_addr (l_IP l) \<noteq> [] \<and> placed pm1 l \<longrightarrow>
         marked pm' (ipv4ToUint32 (lease_addr (l_IP l)))"
      using Cons.IH [OF pm1(2) same_pools_empty [OF pm1(3) Cons.prems(2)]] by blast
    have "sync_loop (l # ls) pm = Inr pm'"
      using True pm1(1) pm'(1) by (simp add: lease_addr_def Let_def)
    moreover have "\<forall>m\<in>set (l # ls). sync_state m \<and> lease_addr (l_IP m) \<noteq> [] \<and> placed pm m \<longrightarrow>
         marked pm' (ipv4ToUint32 (lease_addr (l_IP m)))"
      using pm1(4,5) pm'(4,5) placed_same [OF pm1(3)] by auto
    ultimately show ?thesis
      using pm1(3,4) pm'(2-4) same_pools_trans by blast
  qed
qed simp

lemma clear_bits_ok: "pm_ok pm \<Longrightarrow> pm_ok (clear_bits pm) \<and> same_pools pm (clear_bits pm)"
proof -
  assume pm: "pm_ok pm"
  let ?f = "\<lambda>p. p\<lparr>sp_bitmap := replicate (length (sp_bitmap p)) False\<rparr>"
  have q: "pool_of (clear_bits pm) pid = map_option ?f (pool_of pm pid)" for pid
    by (simp add: clear_bits_def map_of_map)
  have same: "same_pools pm (clear_bits pm)"
    unfolding same_pools_def q by (simp add: clear_bits_def strip_def [abs_def] option.map_comp comp_def)
  moreover have "pm_ok (clear_bits pm)"
    by (rule pm_ok_same [OF pm same]) (use pm_okD [OF pm] in \<open>auto simp: q pool_ok_def\<close>)
  ultimately show ?thesis by simp
qed

lemma running_sync: "running l \<Longrightarrow> sync_state l"
  by (auto simp: running_def sync_state_def)

text \<open>The configuration: its pools can be built, do not overlap, and none is the whole address space.\<close>

definition built_pools :: "duration \<Rightarrow> subnet_config list \<Rightarrow> go_error + PoolManager" where
  "built_pools dur subnets = build_pools dur subnets \<lparr>pm_pools = [], pm_order = [], pm_scope = None\<rparr>"

definition config_ok :: "duration \<Rightarrow> subnet_config list \<Rightarrow> bool" where
  "config_ok dur subnets \<longleftrightarrow> (case built_pools dur subnets of Inr pm \<Rightarrow> pm_ok pm | Inl _ \<Rightarrow> False)"

lemma build_pools_ids:
  "build_pools dur ss pm = Inr pm' \<Longrightarrow> pool_of pm [] = None \<Longrightarrow> pool_of pm' [] = None"
proof (induction ss arbitrary: pm)
  case (Cons s ss)
  have "sp_id p \<noteq> []" if "build_pool dur s = Inr p" for p
    using that by (auto simp: build_pool_def ParsePrefix_def rbind_Inr_conv split: option.splits if_splits)
  with Cons show ?case by (auto simp: rbind_Inr_conv split: if_splits)
qed simp

lemma built_pools_ids: "built_pools dur ss = Inr pm \<Longrightarrow> pool_of pm [] = None"
  using build_pools_ids [of dur ss] by (auto simp: built_pools_def)

text \<open>The same pools up to their bits and the scope.\<close>

definition pools_from :: "PoolManager \<Rightarrow> PoolManager \<Rightarrow> bool" where
  "pools_from pm0 pm \<longleftrightarrow> same_pools pm0 (pm\<lparr>pm_scope := pm_scope pm0\<rparr>)"

lemma pools_from_same: "pools_from pm0 pm \<Longrightarrow> same_pools pm pm' \<Longrightarrow> pools_from pm0 pm'"
  by (simp add: pools_from_def same_pools_def)

lemma inv4_scope: "inv4 v (pm\<lparr>pm_scope := x\<rparr>) = inv4 v pm"
  by (simp add: inv4_def pm_ok_def marked_def)

context lease_store
begin

lemma SyncFromLeases_ok:
  assumes inv: "inv s" and pm: "pm_ok pm" "pool_of pm [] = None"
    and pl: "\<And>k l. view s k = Some l \<Longrightarrow> running l \<Longrightarrow> lease_addr k \<noteq> [] \<Longrightarrow> placed pm l"
    and canon: "\<And>k l. view s k = Some l \<Longrightarrow> lease_addr k \<noteq> [] \<Longrightarrow> k = ip_String (lease_addr k)"
  shows "\<exists>pm'. SyncFromLeases ops s pm = Inr (pm', None) \<and> same_pools pm pm' \<and> inv4 (view s) pm'"
proof -
  obtain ls where ls: "op_ListAll ops s = Inr ls" "set ls = {l. view s (l_IP l) = Some l}"
    using list_all [OF inv] by blast
  have c: "pm_ok (clear_bits pm)" "same_pools pm (clear_bits pm)" using clear_bits_ok [OF pm(1)] by auto
  obtain pm' where pm': "sync_loop ls (clear_bits pm) = Inr pm'" "pm_ok pm'" "same_pools (clear_bits pm) pm'"
    "\<forall>l\<in>set ls. sync_state l \<and> lease_addr (l_IP l) \<noteq> [] \<and> placed (clear_bits pm) l \<longrightarrow>
       marked pm' (ipv4ToUint32 (lease_addr (l_IP l)))"
    using sync_loop_ok [OF c(1) same_pools_empty [OF c(2) pm(2)], of ls] by auto
  have same: "same_pools pm pm'" using c pm'(3) same_pools_trans by blast
  have "inv4 (view s) pm'"
    unfolding inv4_def
  proof (intro conjI allI impI)
    show "pm_ok pm'" using pm'(2) .
    show "k = ip_String (lease_addr k)" if "view s k = Some l \<and> lease_addr k \<noteq> []" for k l
      using canon that by blast
    fix k l assume l: "view s k = Some l \<and> running l \<and> lease_addr k \<noteq> []"
    then have k: "l_IP l = k" using view_ip [OF inv] by blast
    then have "l \<in> set ls" using l ls(2) by auto
    moreover have p: "placed pm l" using pl l by blast
    ultimately show "marked pm' (ipv4ToUint32 (lease_addr k))"
      using pm'(4) placed_same c running_sync l k by blast
    fix pid q assume "pool_of pm' pid = Some q \<and> in_pool q (ipv4ToUint32 (lease_addr k))"
    then show "l_SubnetID l = pid" using placed_same [OF same p] k unfolding placed_def by blast
  qed
  with ls(1) pm'(1) same show ?thesis by (simp add: SyncFromLeases_def)
qed

text \<open>A restart with the same configuration: the new pools mark what the old ones had to.\<close>

lemma NewPoolManager_ok:
  assumes inv: "inv s" and cfg: "built_pools dur subnets = Inr pm0" "pm_ok pm0"
    and i4: "inv4 (view s) pm" "pools_from pm0 pm"
  shows "\<exists>pm'. NewPoolManager subnets dur ops s = Inr pm' \<and> inv4 (view s) pm' \<and> pools_from pm0 pm'"
proof -
  have pl: "placed pm0 l" if "view s k = Some l" "running l" "lease_addr k \<noteq> []" for k l
  proof -
    have k: "l_IP l = k" using view_ip [OF inv that(1)] .
    have "placed pm l" using i4(1) that k unfolding inv4_def placed_def by blast
    moreover have "same_pools (pm\<lparr>pm_scope := pm_scope pm0\<rparr>) pm0"
      using i4(2) by (simp add: pools_from_def same_pools_def)
    ultimately show ?thesis using placed_same [of "pm\<lparr>pm_scope := pm_scope pm0\<rparr>"] by (simp add: placed_def)
  qed
  have canon: "k = ip_String (lease_addr k)" if "view s k = Some l" "lease_addr k \<noteq> []" for k l
    using i4(1) that unfolding inv4_def by blast
  have "\<exists>pm'. SyncFromLeases ops s pm0 = Inr (pm', None) \<and> same_pools pm0 pm' \<and> inv4 (view s) pm'"
    by (rule SyncFromLeases_ok [OF inv cfg(2) built_pools_ids [OF cfg(1)]]) (use pl canon in blast)+
  then obtain pm' where pm': "SyncFromLeases ops s pm0 = Inr (pm', None)" "same_pools pm0 pm'" "inv4 (view s) pm'"
    by blast
  have "NewPoolManager subnets dur ops s = Inr pm'"
    using cfg(1) pm'(1) by (simp add: NewPoolManager_def built_pools_def)
  moreover have "pools_from pm0 pm'" using pm'(2) by (simp add: pools_from_def same_pools_def)
  ultimately show ?thesis using pm'(3) by blast
qed

end

text \<open>The first start, with an empty store.\<close>

lemma inv4_none: "inv4 Map.empty pm = pm_ok pm"
  by (simp add: inv4_def)

section \<open>Sweeping\<close>

lemma swept_running: "running (swept q now l) \<Longrightarrow> running l \<and> swept q now l = l"
  by (auto simp: swept_def upserted_fields sweep_lease_def running_def state_defs split: if_splits)

lemma inv4_sweep:
  assumes "inv4 v pm"
  shows "inv4 (\<lambda>k. map_option (swept q now) (v k)) pm"
  using assms unfolding inv4_def by (auto dest: swept_running)

section \<open>Runs\<close>

text \<open>
  A run over the engine's store: \<open>J\<close> is the codec of leases, \<open>h\<close> the handler, \<open>dur\<close> and
  \<open>subnets\<close> the configuration, \<open>w\<close> the sweeper. The codec has to take the leases that a step
  stores; a scope provider may be set at any time. A restart reads the engine's files again.
\<close>

inductive dhcp4_step ::
  "lease_json \<Rightarrow> Handler \<Rightarrow> duration \<Rightarrow> subnet_config list \<Rightarrow> sweeper \<Rightarrow> engine h4_state \<Rightarrow> engine h4_state \<Rightarrow> bool"
  for J h dur subnets w where
  d4_message: "\<forall>l\<in>set (stored_by (engine_store J) now req st). lease_ok J (upserted now l) \<Longrightarrow>
     Handle (engine_store J) h now req st = (st', r) \<Longrightarrow> dhcp4_step J h dur subnets w st st'"
| d4_sweep: "0 \<le> time_unix now \<Longrightarrow> time_unix now < 10 ^ 20 \<Longrightarrow>
     \<forall>ip l. es_view J (h4_store st) ip = Some l \<longrightarrow> lease_ok J (swept (sw_quarantine w) now l) \<Longrightarrow>
     sw_tick (engine_store J) w now (h4_store st) = (e', out) \<Longrightarrow>
     dhcp4_step J h dur subnets w st (st\<lparr>h4_store := e'\<rparr>)"
| d4_scope: "dhcp4_step J h dur subnets w st (st\<lparr>h4_pools := SetScopeProvider p (h4_pools st)\<rparr>)"
| d4_restart: "OpenEngine (disk_of (h4_store st)) names = Inr e' \<Longrightarrow>
     NewPoolManager subnets dur (engine_store J) e' = Inr pm' \<Longrightarrow>
     dhcp4_step J h dur subnets w st \<lparr>h4_store = e', h4_pools = pm', h4_events = []\<rparr>"

inductive dhcp4_reachable ::
  "lease_json \<Rightarrow> Handler \<Rightarrow> duration \<Rightarrow> subnet_config list \<Rightarrow> sweeper \<Rightarrow> engine h4_state \<Rightarrow> bool"
  for J h dur subnets w where
  d4_init: "OpenEngine (None, []) names = Inr e \<Longrightarrow>
     NewPoolManager subnets dur (engine_store J) e = Inr pm \<Longrightarrow>
     dhcp4_reachable J h dur subnets w \<lparr>h4_store = e, h4_pools = pm, h4_events = []\<rparr>"
| d4_next: "dhcp4_reachable J h dur subnets w st \<Longrightarrow> dhcp4_step J h dur subnets w st st' \<Longrightarrow>
     dhcp4_reachable J h dur subnets w st'"

definition run_inv :: "lease_json \<Rightarrow> PoolManager \<Rightarrow> engine h4_state \<Rightarrow> bool" where
  "run_inv J pm0 st \<longleftrightarrow> es_inv J (h4_store st) \<and> inv4 (es_view J (h4_store st)) (h4_pools st) \<and>
     pools_from pm0 (h4_pools st)"

lemma Handle_pools:
  assumes "es_inv J (h4_store st)" "inv4 (es_view J (h4_store st)) (h4_pools st)"
    and "Handle (engine_store J) h now req st = (st', r)"
  shows "same_pools (h4_pools st) (h4_pools st')"
proof -
  have a: "same_pools (h4_pools st) pm"
    if "Allocate (engine_store J) now (alloc_request req t) (h4_store st) (h4_pools st) = (pm, ar)" for t pm ar
    using es.Allocate_ok(1) [OF assms(1,2) es.mac_ok that] .
  have rel: "same_pools pm pm'" if "Release p sid pm = Inr pm'" "inv4 v pm" for p sid pm pm' v
  proof (cases "mark_pool (ip_To4 p) sid pm")
    case None
    then show ?thesis using that by (simp add: Release_def markFree_def)
  next
    case (Some pid)
    have pm: "pm_ok pm" using that(2) by (simp add: inv4_def)
    show ?thesis
    proof (cases "ip_To4 p = []")
      case True
      then show ?thesis using that Some
        by (auto simp: Release_def markFree_def pm_setUsed_def setUsed_def same_pools_def split: option.splits)
    next
      case False
      then show ?thesis using pm_setUsed_ok [OF pm False, of pid False] that(1) Some
        by (auto simp: Release_def markFree_def)
    qed
  qed
  show ?thesis
    using assms(2,3) a rel
    by (auto simp: Handle_def handleDiscover_def handleRequest_def handleRelease_def handleDecline_def
        emit4_def Let_def split: option.splits if_splits prod.splits sum.splits go_error.splits)
qed

lemma dhcp4_step_inv:
  assumes "dhcp4_step J h dur subnets w st st'" "run_inv J pm0 st"
    and "built_pools dur subnets = Inr pm0" "pm_ok pm0"
  shows "run_inv J pm0 st'"
  using assms
proof (induction rule: dhcp4_step.induct)
  case (d4_message now req st st' r)
  then show ?case
    using es.Handle_ok [OF _ _ d4_message(1,2)] Handle_pools [OF _ _ d4_message(2)] pools_from_same
    unfolding run_inv_def by blast
next
  case (d4_sweep now st e' out)
  obtain e'' out' where "sw_tick (engine_store J) w now (h4_store st) = (e'', out')" "es_inv J e''"
    "\<forall>ip. es_view J e'' ip = map_option (swept (sw_quarantine w) now) (es_view J (h4_store st) ip)"
    using es.tick_view [OF _ d4_sweep(1-3)] d4_sweep(5) unfolding run_inv_def by blast
  moreover from this have "es_view J e' = (\<lambda>k. map_option (swept (sw_quarantine w) now) (es_view J (h4_store st) k))"
    using d4_sweep(4) by auto
  ultimately show ?case
    using d4_sweep(4,5) inv4_sweep by (auto simp: run_inv_def)
next
  case (d4_scope st p)
  then show ?case by (simp add: run_inv_def SetScopeProvider_def inv4_scope pools_from_def)
next
  case (d4_restart st names e' pm')
  have d: "disk_ok (disk_of (h4_store st)) (eget (e_trees (h4_store st)))"
    using d4_restart es_inv_eng by (auto simp: run_inv_def eng_ok_def)
  have e: "eng_ok e'" "eget (e_trees e') = eget (e_trees (h4_store st))" "\<not> e_closed e'"
    using OpenEngine_ok [OF d, of names] d4_restart(1) by auto
  note c = es_inv_cong [OF _ e(1,3,2), of J]
  obtain pm1 where "NewPoolManager subnets dur (engine_store J) e' = Inr pm1" "inv4 (es_view J e') pm1" "pools_from pm0 pm1"
    using es.NewPoolManager_ok [OF c(1) d4_restart(4,5), of "h4_pools st"] d4_restart(3) c(2)
    unfolding run_inv_def by metis
  then show ?case using d4_restart c(1) by (simp add: run_inv_def)
qed

lemma dhcp4_reachable_inv:
  assumes "dhcp4_reachable J h dur subnets w st" "built_pools dur subnets = Inr pm0" "pm_ok pm0"
  shows "run_inv J pm0 st"
  using assms
proof (induction rule: dhcp4_reachable.induct)
  case (d4_init names e pm)
  have e: "eng_ok e" "\<not> e_closed e" "eget (e_trees e) = Map.empty"
    using OpenEngine_ok [OF disk_ok_empty, of names] d4_init(1) by auto
  note em = es_inv_empty [OF e]
  have "inv4 (es_view J e) pm0" by (simp add: em(2) inv4_none d4_init(4))
  moreover have "pools_from pm0 pm0" by (simp add: pools_from_def)
  ultimately show ?case
    using es.NewPoolManager_ok [OF em(1) d4_init(3,4), where pm = pm0 and J = J] d4_init(2) em(1)
    by (auto simp: run_inv_def)
next
  case (d4_next st st')
  then show ?case using dhcp4_step_inv by blast
qed

text \<open>The facts of a reachable state that the properties use.\<close>

lemma reachable_inv:
  assumes "config_ok dur subnets" "dhcp4_reachable J h dur subnets w st"
  shows "es_inv J (h4_store st)" "inv4 (es_view J (h4_store st)) (h4_pools st)"
proof -
  obtain pm0 where "built_pools dur subnets = Inr pm0" "pm_ok pm0"
    using assms(1) by (auto simp: config_ok_def split: sum.splits)
  then have "run_inv J pm0 st" using dhcp4_reachable_inv assms(2) by blast
  then show "es_inv J (h4_store st)" "inv4 (es_view J (h4_store st)) (h4_pools st)"
    by (auto simp: run_inv_def)
qed


end
