(* ===== verification/Dhcp4Demo.thy ===== *)
theory Dhcp4Demo
  imports Dhcp4Run
begin

text \<open>
  A concrete server for the instances of the properties: one subnet with two addresses, two clients,
  and a codec that knows a given list of leases.
\<close>

section \<open>A codec\<close>

definition list_json :: "Lease list \<Rightarrow> lease_json" where
  "list_json ls = \<lparr>json_marshal = (\<lambda>l. map_option (\<lambda>i. replicate i (CHR ''x'')) (find (\<lambda>i. ls ! i = l) [0..<length ls])),
     json_unmarshal = (\<lambda>r. if length r < length ls then Some (ls ! length r) else None)\<rparr>"

lemma list_json_ok:
  assumes "l \<in> set ls"
  shows "\<exists>raw. json_marshal (list_json ls) l = Some raw \<and> json_unmarshal (list_json ls) raw = Some l \<and>
    length raw < length ls"
proof (cases "find (\<lambda>i. ls ! i = l) [0..<length ls]")
  case None
  then have "\<forall>i<length ls. ls ! i \<noteq> l" by (auto simp: find_None_iff)
  then show ?thesis using assms by (auto simp: in_set_conv_nth)
next
  case (Some i)
  then have "i < length ls" "ls ! i = l" by (auto simp: find_Some_iff)
  then show ?thesis using Some by (auto simp: list_json_def)
qed

section \<open>The configuration\<close>

definition demo_dur :: duration where "demo_dur = hour_ns"

definition demo_subnet :: subnet_config where
  "demo_subnet = \<lparr>sc_CIDR = ''10.0.0.0/24'', sc_Gateway = ''10.0.0.1'', sc_DNS = [''10.0.0.2''],
     sc_DHCPEnabled = True, sc_PoolStart = ''10.0.0.10'', sc_PoolEnd = ''10.0.0.11'', sc_LeaseTime = 0\<rparr>"

definition demo_pool :: "bool list \<Rightarrow> subnetPool" where
  "demo_pool bits = \<lparr>sp_id = ''10.0.0.0/24'', sp_prefix = \<lparr>pfx_addr = A4 0x0A000000, pfx_bits = 24\<rparr>,
     sp_start = 0x0A00000A, sp_end = 0x0A00000B, sp_bitmap = bits,
     sp_gateway = [CHR 0x0A, CHR 0x00, CHR 0x00, CHR 0x01], sp_dns = [[CHR 0x0A, CHR 0x00, CHR 0x00, CHR 0x02]],
     sp_leaseDur = hour_ns\<rparr>"

definition demo_pm :: "bool list \<Rightarrow> PoolManager" where
  "demo_pm bits = \<lparr>pm_pools = [(''10.0.0.0/24'', demo_pool bits)], pm_order = [''10.0.0.0/24''], pm_scope = None\<rparr>"

lemmas addr_eval = ParseAddr_def parseIPv4_def is_digit_def less_eq_char_def less_char_def digit_val_def
  byte_nat_def nat_byte_def word_of_bytes_def be_nat_def net_ParseIP_def

lemma demo_parse:
  "ParseAddr ''10.0.0.0'' = Some (A4 0x0A000000)" "ParseAddr ''10.0.0.10'' = Some (A4 0x0A00000A)"
  "ParseAddr ''10.0.0.11'' = Some (A4 0x0A00000B)" "ParseAddr ''10.0.0.1'' = Some (A4 0x0A000001)"
  "ParseAddr ''10.0.0.2'' = Some (A4 0x0A000002)"
  by (simp_all add: addr_eval)

lemma demo_prefix: "ParsePrefix ''10.0.0.0/24'' = Some \<lparr>pfx_addr = A4 0x0A000000, pfx_bits = 24\<rparr>"
proof -
  have "last_index (CHR ''/'') ''10.0.0.0/24'' = Some 8" by simp
  then show ?thesis by (simp add: ParsePrefix_def demo_parse addr_bitlen_def addr_eval)
qed

lemma replicate_two: "replicate 2 x = [x, x]"
  by (simp add: numeral_2_eq_2)

lemma be4: "be 4 n = [nat_byte (n div 256 div 256 div 256 mod 256), nat_byte (n div 256 div 256 mod 256),
  nat_byte (n div 256 mod 256), nat_byte (n mod 256)]"
proof -
  have "4 = Suc (Suc (Suc (Suc 0)))" by simp
  then show ?thesis by (simp only: be.simps append.simps nat_byte_def char_of_mod_256)
qed

lemma demo_chars:
  "char_of (10 :: nat) = CHR 0x0A" "char_of (0 :: nat) = CHR 0x00" "char_of (1 :: nat) = CHR 0x01"
  "char_of (Suc 0) = CHR 0x01" "char_of (2 :: nat) = CHR 0x02" "char_of (11 :: nat) = CHR 0x0B"
  by code_simp+

lemma demo_build: "build_pool demo_dur demo_subnet = Inr (demo_pool [False, False])"
  by (simp add: build_pool_def demo_subnet_def demo_prefix demo_parse addr_As4_def demo_pool_def demo_dur_def
    parseIPs_def net_ParseIP_def ip_To4_def v4InV6Prefix_def word_bytes_def
    be4 nat_byte_def replicate_two demo_chars)

lemma demo_built: "built_pools demo_dur [demo_subnet] = Inr (demo_pm [False, False])"
proof -
  have "sc_DHCPEnabled demo_subnet" by (simp add: demo_subnet_def)
  then show ?thesis by (simp add: built_pools_def demo_build demo_pm_def demo_pool_def)
qed

lemma demo_config: "config_ok demo_dur [demo_subnet]" "pm_ok (demo_pm [a, b])"
proof -
  show ok: "pm_ok (demo_pm [a, b])" for a b
    by (auto simp: pm_ok_def demo_pm_def pool_ok_def demo_pool_def split: if_splits)
  show "config_ok demo_dur [demo_subnet]" by (simp add: config_ok_def demo_built ok)
qed

section \<open>Clients and messages\<close>

definition client_packet :: "byte \<Rightarrow> Options \<Rightarrow> Packet" where
  "client_packet k opts = \<lparr>p_Op = CHR 0x01, p_HType = CHR 0x01, p_HLen = CHR 0x06, p_Hops = CHR 0x00, p_XID = 7,
     p_Secs = 0, p_Flags = 0, p_CIAddr = replicate 4 (CHR 0x00), p_YIAddr = replicate 4 (CHR 0x00),
     p_SIAddr = replicate 4 (CHR 0x00), p_GIAddr = replicate 4 (CHR 0x00),
     p_CHAddr = [CHR 0x02, CHR 0x00, CHR 0x00, CHR 0x00, CHR 0x00, k] @ replicate 10 (CHR 0x00),
     p_SName = replicate 64 (CHR 0x00), p_File = replicate 128 (CHR 0x00), p_Options = opts\<rparr>"

definition disc :: "byte \<Rightarrow> Packet" where
  "disc k = client_packet k [(OptionMessageType, [MessageDiscover])]"

definition requ :: "byte \<Rightarrow> Packet" where
  "requ k = client_packet k [(OptionMessageType, [MessageRequest])]"

definition decl :: "byte \<Rightarrow> Packet" where
  "decl k = client_packet k [(OptionMessageType, [MessageDecline]), (OptionRequestedIP, [CHR 0x0A, CHR 0x00, CHR 0x00, CHR 0x0A])]"

abbreviation mac1 :: string where "mac1 \<equiv> ''02:00:00:00:00:01''"
abbreviation mac2 :: string where "mac2 \<equiv> ''02:00:00:00:00:02''"
abbreviation ip10 :: ip where "ip10 \<equiv> [CHR 0x0A, CHR 0x00, CHR 0x00, CHR 0x0A]"
abbreviation ip11 :: ip where "ip11 \<equiv> [CHR 0x0A, CHR 0x00, CHR 0x00, CHR 0x0B]"

definition al :: "ip \<Rightarrow> AllocationResult" where
  "al p = buildResult (demo_pool []) p"

lemma demo_hw:
  "hw_String [CHR 0x02, CHR 0x00, CHR 0x00, CHR 0x00, CHR 0x00, CHR 0x01] = mac1"
  "hw_String [CHR 0x02, CHR 0x00, CHR 0x00, CHR 0x00, CHR 0x00, CHR 0x02] = mac2"
  by code_simp+

lemma demo_mac [simp]:
  "mac_string (client_packet (CHR 0x01) opts) = mac1" "mac_string (client_packet (CHR 0x02) opts) = mac2"
  by (simp_all add: mac_string_def ClientMAC_def client_packet_def demo_hw byte_nat_def)

lemma demo_normalize: "normalizeMAC mac1 = mac1" "normalizeMAC mac2 = mac2"
proof -
  have "TrimSpace mac1 = mac1" "TrimSpace mac2 = mac2"
    by (rule TrimSpace_printable; simp add: printable_def byte_nat_def)+
  then show "normalizeMAC mac1 = mac1" "normalizeMAC mac2 = mac2"
    by (simp_all add: normalizeMAC_def ToUpper_def upper_char_def less_eq_char_def)
qed

lemma demo_ips: "ip_String ip10 = ''10.0.0.10''" "ip_String ip11 = ''10.0.0.11''"
  by code_simp+

lemma demo_trim: "TrimSpace ''10.0.0.10'' = ''10.0.0.10''" "TrimSpace ''10.0.0.11'' = ''10.0.0.11''"
  by (rule TrimSpace_printable; simp add: printable_def byte_nat_def)+

lemma demo_pkt_ok: "pkt_ok (disc k)"
  by (simp add: pkt_ok_def disc_def client_packet_def codes_ok_def)

section \<open>Allocations\<close>

lemma demo_word:
  "ipv4ToUint32 ip10 = 0x0A00000A" "ipv4ToUint32 ip11 = 0x0A00000B"
  "uint32ToIPv4 0x0A00000A = ip10" "uint32ToIPv4 0x0A00000B = ip11"
  by (simp_all add: ipv4ToUint32_def uint32ToIPv4_def word_of_bytes_def be_nat_def byte_nat_def
    word_bytes_def be4 nat_byte_def demo_chars)

lemma demo_candidates: "ar_RelayAddr rq = replicate 4 (CHR 0x00) \<Longrightarrow> selectCandidatePools rq (demo_pm bits) = [demo_pool bits]"
  by (simp add: selectCandidatePools_def demo_pm_def ip_To4_def pfx_Contains_def demo_pool_def
    word_of_bytes_def be_nat_def byte_nat_def numeral_eq_Suc)

lemma demo_next:
  "nextFree (demo_pm [False, b]) (demo_pool [False, b]) = Inr (Some ip10)"
  "nextFree (demo_pm [True, False]) (demo_pool [True, False]) = Inr (Some ip11)"
  by (simp_all add: nextFree_def effectiveRange_def demo_pm_def demo_pool_def nextFree_loop.simps bit_at_def demo_word)

lemma demo_set:
  "pm_setUsed ''10.0.0.0/24'' ip10 True (demo_pm [a, b]) = Inr (demo_pm [True, b])"
  "pm_setUsed ''10.0.0.0/24'' ip11 True (demo_pm [a, b]) = Inr (demo_pm [a, True])"
  by (simp_all add: pm_setUsed_def setUsed_def demo_pm_def demo_pool_def demo_word)

lemma demo_request_fields:
  "ar_MAC (alloc_request (client_packet k opts) t) = mac_string (client_packet k opts)"
  "ar_RelayAddr (alloc_request (client_packet k opts) t) = replicate 4 (CHR 0x00)"
  "ar_RequestedIP (alloc_request (client_packet k opts) t) = t"
  by (simp_all add: alloc_request_def) (simp add: client_packet_def)

lemma buildResult_demo: "buildResult (demo_pool bits) p = al p"
  by (simp add: al_def buildResult_def demo_pool_def)

lemma demo_id [simp]: "sp_id (demo_pool bits) = ''10.0.0.0/24''"
  by (simp add: demo_pool_def)

lemma demo_choose:
  assumes "op_GetByMAC (engine_store J) e (mac_string (client_packet k opts)) = Inr []"
  shows "Allocate (engine_store J) t (alloc_request (client_packet k opts) []) e (demo_pm [False, b]) =
      (demo_pm [True, b], Inr (al ip10))"
    "Allocate (engine_store J) t (alloc_request (client_packet k opts) []) e (demo_pm [True, False]) =
      (demo_pm [True, True], Inr (al ip11))"
proof -
  show "Allocate (engine_store J) t (alloc_request (client_packet k opts) []) e (demo_pm [False, b]) =
      (demo_pm [True, b], Inr (al ip10))"
    "Allocate (engine_store J) t (alloc_request (client_packet k opts) []) e (demo_pm [True, False]) =
      (demo_pm [True, True], Inr (al ip11))"
    using assms
    by (simp_all add: Allocate_def choose_address_def demo_request_fields demo_candidates demo_next
      demo_set buildResult_demo)
qed

lemma demo_no_lease:
  assumes "es_inv J e" "\<forall>ip l. es_view J e ip = Some l \<longrightarrow> normalizeMAC (l_MAC l) \<noteq> normalizeMAC (mac_string p)"
  shows "op_GetByMAC (engine_store J) e (mac_string p) = Inr []"
proof -
  have "CHR 0x1F \<notin> set (normalizeMAC (mac_string p))" using mac_no_sep by (simp add: mac_string_def)
  then obtain ls where ls: "op_GetByMAC (engine_store J) e (mac_string p) = Inr ls"
    "set ls = {l. es_view J e (l_IP l) = Some l \<and> l_MAC l \<noteq> [] \<and> normalizeMAC (l_MAC l) = normalizeMAC (mac_string p)}"
    using es.by_mac [OF assms(1)] by blast
  then have "set ls = {}" using assms(2) by auto
  then show ?thesis using ls(1) by simp
qed

section \<open>A run\<close>

definition time1 :: time where "time1 = demo_time"
definition time2 :: time where "time2 = demo_time + second_ns"

definition lease_d1 :: Lease where
  "lease_d1 = upserted time1 (discover_lease time1 (disc (CHR 0x01)) False (al ip10))"

definition lease_r1 :: Lease where
  "lease_r1 = upserted time2 (request_lease time2 (requ (CHR 0x01)) (al ip10))"

definition lease_c1 :: Lease where
  "lease_c1 = upserted time2 (lease_d1\<lparr>l_State := StateDeclined, l_QuarantineUntil := time2 + 15 * minute_ns, l_UpdatedAt := time2\<rparr>)"

definition lease_d2 :: Lease where
  "lease_d2 = upserted time2 (discover_lease time2 (disc (CHR 0x02)) False (al ip11))"

definition run_json :: lease_json where
  "run_json = list_json [lease_d1, lease_r1, lease_c1, lease_d2]"

lemma demo_opts:
  "opt_MessageType (p_Options (disc k)) = Some MessageDiscover" "HasRapidCommit (p_Options (disc k)) = False"
  "opt_RequestedIP (p_Options (disc k)) = []" "opt_ClientIdentifier (p_Options (disc k)) = []"
  "map_of (p_Options (disc k)) OptionRelayAgentInfo = None"
  "opt_MessageType (p_Options (requ k)) = Some MessageRequest" "request_target (requ k) = []"
  "opt_ClientIdentifier (p_Options (requ k)) = []"
  "opt_MessageType (p_Options (decl k)) = Some MessageDecline" "decline_target (decl k) = ip10"
  by (simp_all add: disc_def requ_def decl_def client_packet_def opt_MessageType_def HasRapidCommit_def
    opt_RequestedIP_def opt_ClientIdentifier_def request_target_def decline_target_def ip_To4_def
    isZeroIPv4_def opt_bytes_def numeral_eq_Suc)

lemma demo_lease_ok:
  assumes "l \<in> set ls" "length ls \<le> 10" "l_IP l \<in> {''10.0.0.10'', ''10.0.0.11''}" "l_MAC l \<in> {mac1, mac2}"
    and "l_SubnetID l = ''10.0.0.0/24''" "l_ClientID l = []" "l_ExpiryTime l = demo_time + d" "0 \<le> d" "d \<le> 10 ^ 15"
  shows "lease_ok (list_json ls) l"
proof -
  have "0 < l_ExpiryTime l" "0 \<le> time_unix (l_ExpiryTime l)" "time_unix (l_ExpiryTime l) < 10 ^ 20"
    using assms(7-9) by (auto simp: demo_time_def time_unix_def second_ns_def unix_epoch_s_def)
  moreover obtain raw where "json_marshal (list_json ls) l = Some raw" "json_unmarshal (list_json ls) raw = Some l"
    "length raw < length ls"
    using list_json_ok [OF assms(1)] by blast
  ultimately show ?thesis
    using assms(2-6) by (auto simp: lease_ok_def demo_trim demo_normalize)
qed

lemma demo_upserted_expiry: "l_ExpiryTime l \<noteq> 0 \<Longrightarrow> l_ExpiryTime (upserted now l) = l_ExpiryTime l"
  by (simp add: upserted_def NormalizeDefaults_def Let_def is_zero_time_def)

lemma upserted_client: "l_ClientID (upserted now l) = l_ClientID l"
  by (simp add: upserted_def)

lemma demo_al: "al_IP (al p) = p" "al_SubnetID (al p) = ''10.0.0.0/24''" "al_LeaseDuration (al p) = hour_ns"
  by (simp_all add: al_def buildResult_def demo_pool_def)

lemma demo_times:
  "l_ExpiryTime (discover_lease t (disc k) False (al p)) = t + hour_ns"
  "l_ClientID (discover_lease t (disc k) False (al p)) = []"
  "l_ExpiryTime (request_lease t (requ k) (al p)) = t + hour_ns"
  "l_ClientID (request_lease t (requ k) (al p)) = []"
  by (simp_all add: discover_lease_def request_lease_def Let_def demo_opts demo_al)

lemma demo_leases:
  "l_IP lease_d1 = ''10.0.0.10''" "l_MAC lease_d1 = mac1" "l_ExpiryTime lease_d1 = demo_time + hour_ns"
  "lease_ok run_json lease_d1" "lease_ok run_json lease_r1" "lease_ok run_json lease_c1" "lease_ok run_json lease_d2"
  "running lease_d1" "l_IP lease_d2 = ''10.0.0.11''" "l_MAC lease_d2 = mac2"
proof -
  have nz: "demo_time + hour_ns \<noteq> 0" "demo_time + second_ns + hour_ns \<noteq> 0"
    by (simp_all add: demo_time_def hour_ns_def minute_ns_def second_ns_def unix_epoch_s_def)
  have m: "mac_string (disc (CHR 0x01)) = mac1" "mac_string (disc (CHR 0x02)) = mac2" "mac_string (requ (CHR 0x01)) = mac1"
    by (simp_all add: disc_def requ_def)
  note f = upserted_fields demo_upserted_expiry upserted_client discover_lease_fields request_lease_fields
    demo_times demo_al demo_ips m nz time1_def time2_def
  show d1: "l_IP lease_d1 = ''10.0.0.10''" "l_MAC lease_d1 = mac1" "l_ExpiryTime lease_d1 = demo_time + hour_ns"
    "running lease_d1" "l_IP lease_d2 = ''10.0.0.11''" "l_MAC lease_d2 = mac2"
    by (simp_all add: lease_d1_def lease_d2_def f running_def)
  have b: "0 \<le> hour_ns" "hour_ns \<le> 1000000000000000" "0 \<le> second_ns + hour_ns"
    "second_ns + hour_ns \<le> 1000000000000000"
    by (simp_all add: hour_ns_def minute_ns_def second_ns_def)
  show "lease_ok run_json lease_d1"
    unfolding run_json_def by (rule demo_lease_ok [where d = hour_ns]) (simp_all add: b lease_d1_def f)
  show "lease_ok run_json lease_r1"
    unfolding run_json_def by (rule demo_lease_ok [where d = "second_ns + hour_ns"]) (simp_all add: b lease_r1_def f)
  show "lease_ok run_json lease_c1"
    unfolding run_json_def by (rule demo_lease_ok [where d = hour_ns]) (simp_all add: b lease_c1_def lease_d1_def f)
  show "lease_ok run_json lease_d2"
    unfolding run_json_def by (rule demo_lease_ok [where d = "second_ns + hour_ns"]) (simp_all add: b lease_d2_def f)
qed

definition demo_h :: Handler where
  "demo_h = NewHandler [CHR 0x0A, CHR 0x00, CHR 0x00, CHR 0x01] 0 0"

definition st0 :: "engine h4_state" where
  "st0 = \<lparr>h4_store = demo0, h4_pools = demo_pm [False, False], h4_events = []\<rparr>"

definition demo_w :: sweeper where "demo_w = NewSweeper 0 0"

abbreviation demo_run :: "engine h4_state \<Rightarrow> bool" where
  "demo_run \<equiv> dhcp4_reachable run_json demo_h demo_dur [demo_subnet] demo_w"

lemma st0_reachable: "demo_run st0"
proof -
  obtain ls where ls: "op_ListAll (engine_store run_json) demo0 = Inr ls"
    "set ls = {l. es_view run_json demo0 (l_IP l) = Some l}"
    using es.list_all [OF demo0_inv(1)] by blast
  have "ls = []" using ls(2) by (simp add: demo0_inv)
  moreover have "clear_bits (demo_pm [False, False]) = demo_pm [False, False]"
    by (simp add: clear_bits_def demo_pm_def demo_pool_def replicate_two)
  ultimately have "NewPoolManager [demo_subnet] demo_dur (engine_store run_json) demo0 = Inr (demo_pm [False, False])"
    using demo_built ls(1) by (simp add: NewPoolManager_def SyncFromLeases_def built_pools_def)
  from d4_init [OF demo0_open this] show ?thesis by (simp add: st0_def)
qed

text \<open>What a discover does, when the allocation and the codec are known.\<close>

lemma demo_discover:
  assumes "es_inv J (h4_store st)" "inv4 (es_view J (h4_store st)) (h4_pools st)"
    and "Allocate (engine_store J) t (alloc_request (disc k) []) (h4_store st) (h4_pools st) = (pm, Inr alloc)"
    and "lease_ok J (upserted t (discover_lease t (disc k) False alloc))"
  shows "\<exists>st' resp. Handle (engine_store J) demo_h t (disc k) st = (st', Inr (Some resp)) \<and>
    p_YIAddr resp = al_IP alloc \<and> p_Options resp = leaseOptions demo_h MessageOffer alloc \<and> h4_pools st' = pm \<and> es_inv J (h4_store st') \<and>
    es_view J (h4_store st') = (es_view J (h4_store st))(ip_String (al_IP alloc) \<mapsto> upserted t (discover_lease t (disc k) False alloc)) \<and>
    stored_by (engine_store J) t (disc k) st = [discover_lease t (disc k) False alloc]"
proof -
  let ?l = "discover_lease t (disc k) False alloc"
  obtain s' where s': "op_Upsert (engine_store J) t ?l (h4_store st) = (s', None)" "es_inv J s'"
    "es_view J s' = (es_view J (h4_store st))(ip_String (al_IP alloc) \<mapsto> upserted t ?l)"
    using es.store_allocated [OF assms(1-3) _ _ assms(4)] by (auto simp: discover_lease_fields)
  then show ?thesis
    using assms(3) by (auto simp: Handle_def handleDiscover_def stored_by_def demo_opts emit4_def Let_def)
qed

lemma demo_st1:
  obtains st1 resp where "Handle (engine_store run_json) demo_h time1 (disc (CHR 0x01)) st0 = (st1, Inr (Some resp))"
    "p_YIAddr resp = ip10" "h4_pools st1 = demo_pm [True, False]" "demo_run st1"
    "es_view run_json (h4_store st1) = [''10.0.0.10'' \<mapsto> lease_d1]"
    "stored_by (engine_store run_json) time1 (disc (CHR 0x01)) st0 = [discover_lease time1 (disc (CHR 0x01)) False (al ip10)]"
    "p_Options resp = leaseOptions demo_h MessageOffer (al ip10)"
proof -
  note r = reachable_inv [OF demo_config(1) st0_reachable]
  have m: "op_GetByMAC (engine_store run_json) demo0 (mac_string (disc (CHR 0x01))) = Inr []"
    by (rule demo_no_lease) (simp_all add: demo0_inv)
  have a: "Allocate (engine_store run_json) time1 (alloc_request (disc (CHR 0x01)) []) (h4_store st0) (h4_pools st0) =
      (demo_pm [True, False], Inr (al ip10))"
    using demo_choose(1) [OF m [unfolded disc_def], of time1] by (simp add: st0_def disc_def)
  have ok: "lease_ok run_json (upserted time1 (discover_lease time1 (disc (CHR 0x01)) False (al ip10)))"
    using demo_leases(4) by (simp add: lease_d1_def)
  obtain st1 resp where st1: "Handle (engine_store run_json) demo_h time1 (disc (CHR 0x01)) st0 = (st1, Inr (Some resp))"
    "p_YIAddr resp = ip10" "h4_pools st1 = demo_pm [True, False]"
    "es_view run_json (h4_store st1) = [''10.0.0.10'' \<mapsto> lease_d1]"
    "stored_by (engine_store run_json) time1 (disc (CHR 0x01)) st0 = [discover_lease time1 (disc (CHR 0x01)) False (al ip10)]"
    "p_Options resp = leaseOptions demo_h MessageOffer (al ip10)"
    using demo_discover [OF r a ok]
    by (auto simp: demo_al demo_ips lease_d1_def st0_def demo0_inv)
  have "dhcp4_step run_json demo_h demo_dur [demo_subnet] demo_w st0 st1"
    by (rule d4_message [OF _ st1(1)]) (use st1(5) ok in simp)
  then have "demo_run st1" using d4_next st0_reachable by blast
  then show ?thesis using that st1 by blast
qed

end
