(* ===== verification/Dhcp4Props.thy ===== *)
theory Dhcp4Props
  imports Dhcp4Demo
begin

text \<open>The properties of the DHCPv4 server, and their instances at a server with one pool.\<close>

section \<open>The offered address is the acknowledged one\<close>

definition candidate :: "time \<Rightarrow> PoolManager \<Rightarrow> Lease \<Rightarrow> bool" where
  "candidate now pm l \<longleftrightarrow> \<not> l_ExpiryTime l < now \<and> running l \<and> pool_of pm (l_SubnetID l) \<noteq> None \<and>
     lease_addr (l_IP l) \<noteq> []"

lemma existing_lease_find:
  "existing_lease now pm ls = map_option (\<lambda>l. (the (pool_of pm (l_SubnetID l)), lease_addr (l_IP l)))
     (find (candidate now pm) ls)"
  by (induction ls) (auto simp: candidate_def running_def lease_addr_def Let_def split: option.splits)

lemma find_first:
  "sorted_wrt (<) (map f xs) \<Longrightarrow> find P xs = Some x \<Longrightarrow> x \<in> set xs \<and> P x \<and> (\<forall>y\<in>set xs. P y \<longrightarrow> f x \<le> (f y :: bytes))"
  by (induction xs) (auto split: if_splits)

lemma find_least:
  "sorted_wrt (<) (map f xs) \<Longrightarrow> x \<in> set xs \<Longrightarrow> P x \<Longrightarrow> (\<forall>y\<in>set xs. P y \<longrightarrow> f x \<le> (f y :: bytes)) \<Longrightarrow> find P xs = Some x"
proof (induction xs)
  case (Cons y ys)
  then show ?case by (cases "y = x") (auto simp: leD)
qed simp

context lease_store
begin

text \<open>
  After an allocation the client gets the same address again, whatever has happened to the store
  and to the bits since, as long as the client's stored leases are the same.
\<close>

lemma Allocate_again:
  assumes inv: "inv s" "inv s1" and i4: "inv4 (view s) pm"
    and a: "Allocate ops t1 rq1 s pm = (pm1, Inr alloc)"
    and v: "view s1 = (view s)(ip_String (al_IP alloc) \<mapsto> l)"
    and l: "running l" "l_SubnetID l = al_SubnetID alloc" "l_MAC l \<noteq> []"
      "normalizeMAC (l_MAC l) = normalizeMAC (ar_MAC rq1)" "t2 \<le> l_ExpiryTime l"
    and t: "t1 \<le> t2" and m: "ar_MAC rq2 = ar_MAC rq1" "ar_MAC rq1 \<noteq> []" "CHR 0x1F \<notin> set (normalizeMAC (ar_MAC rq1))"
    and same: "op_GetByMAC ops s2 (ar_MAC rq1) = op_GetByMAC ops s1 (ar_MAC rq1)"
    and pm2: "pm_ok pm2" and dom: "\<And>i. pool_of pm2 i = None \<longleftrightarrow> pool_of pm i = None"
  shows "\<exists>pm3 alloc2. Allocate ops t2 rq2 s2 pm2 = (pm3, Inr alloc2) \<and> al_IP alloc2 = al_IP alloc"
proof -
  let ?a = "al_IP alloc" and ?k = "ip_String (al_IP alloc)"
  note al = Allocate_ok [OF inv(1) i4 m(3) a]
  have len: "length ?a = 4" using al(5) by blast
  have pm: "pm_ok pm" using i4 by (simp add: inv4_def)
  obtain ls1 where ls1: "op_GetByMAC ops s (ar_MAC rq1) = Inr ls1" "sorted_wrt (<) (map l_IP ls1)"
    "set ls1 = {l. view s (l_IP l) = Some l \<and> l_MAC l \<noteq> [] \<and> normalizeMAC (l_MAC l) = normalizeMAC (ar_MAC rq1)}"
    using by_mac [OF inv(1)] m(3) by blast
  obtain ls2 where ls2: "op_GetByMAC ops s1 (ar_MAC rq1) = Inr ls2" "sorted_wrt (<) (map l_IP ls2)"
    "set ls2 = {l. view s1 (l_IP l) = Some l \<and> l_MAC l \<noteq> [] \<and> normalizeMAC (l_MAC l) = normalizeMAC (ar_MAC rq1)}"
    using by_mac [OF inv(2)] m(3) by blast
  have ipl: "l_IP l = ?k" using view_ip [OF inv(2), of ?k l] by (simp add: v)
  obtain pool where ch: "choose_address ops t1 rq1 s pm = Inr (Some (pool, ?a))" "sp_id pool = al_SubnetID alloc"
    using a by (auto simp: Allocate_def buildResult_def split: sum.splits option.splits)
  have po: "pool_of pm (sp_id pool) = Some pool"
    using choose_address_ok [OF inv(1) i4 m(3), of t1] ch(1) by auto
  have first: "?k \<le> l_IP x" if x: "x \<in> set ls1" "candidate t1 pm x" for x
  proof (cases "find (candidate t1 pm) ls1")
    case None
    then show ?thesis using x by (auto simp: find_None_iff)
  next
    case (Some y)
    then have "choose_address ops t1 rq1 s pm = Inr (Some (the (pool_of pm (l_SubnetID y)), lease_addr (l_IP y)))"
      using ls1(1) m(2) by (simp add: choose_address_def existing_lease_find)
    then have y: "lease_addr (l_IP y) = ?a" using ch(1) by simp
    note f = find_first [OF ls1(2) Some]
    have "l_IP y = ip_String (lease_addr (l_IP y))"
      using i4 f ls1(3) unfolding inv4_def candidate_def by blast
    then show ?thesis using f x y by auto
  qed
  have "find (candidate t2 pm2) ls2 = Some l"
  proof (rule find_least [OF ls2(2)])
    show "l \<in> set ls2" using ls2(3) v ipl l(3,4) by auto
    show "candidate t2 pm2 l"
      using l po ch(2) dom [of "sp_id pool"] ipl len by (auto simp: candidate_def)
    show "\<forall>y\<in>set ls2. candidate t2 pm2 y \<longrightarrow> l_IP l \<le> l_IP y"
    proof (intro ballI impI)
      fix y assume y: "y \<in> set ls2" "candidate t2 pm2 y"
      show "l_IP l \<le> l_IP y"
      proof (cases "l_IP y = ?k")
        case False
        then have "y \<in> set ls1" using y(1) ls2(3) ls1(3) v by auto
        moreover have "candidate t1 pm y" using y(2) t dom by (auto simp: candidate_def)
        ultimately show ?thesis using first ipl by simp
      qed (simp add: ipl)
    qed
  qed
  then have "choose_address ops t2 rq2 s2 pm2 = Inr (Some (the (pool_of pm2 (l_SubnetID l)), ?a))"
    using ls2(1) same m len by (simp add: choose_address_def existing_lease_find ipl)
  moreover have "?a \<noteq> []" using len by auto
  ultimately show ?thesis
    using pm_setUsed_ok [OF pm2, of ?a "sp_id (the (pool_of pm2 (l_SubnetID l)))" True]
    by (auto simp: Allocate_def buildResult_def)
qed

end

section \<open>Exhausted pools\<close>

lemma nextFree_loop_none:
  "nextFree_loop pool u e = Inr None \<Longrightarrow> pool_ok pool \<Longrightarrow> sp_start pool \<le> u \<Longrightarrow> e \<le> sp_end pool \<Longrightarrow>
   u \<le> w \<Longrightarrow> w \<le> e \<Longrightarrow> used_bit pool w"
proof (induction pool u e rule: nextFree_loop.induct)
  case (1 pool u e)
  have ne: "\<not> u > e" using "1.prems"(5,6) by auto
  then have i: "in_pool pool u" using "1.prems" by (auto simp: in_pool_def)
  note b = bit_at_ok [OF "1.prems"(2) i]
  have used: "used_bit pool u"
    using "1.prems"(1) ne b by (auto simp: nextFree_loop.simps [of pool u e] split: if_splits)
  show ?case
  proof (cases "w = u")
    case False
    then have lt: "u < w" using "1.prems"(5) by simp
    have m: "u \<noteq> - 1" using lt word_n1_ge [of w] by (metis leD)
    have "1 + u \<noteq> 0" using m by (metis add_eq_0_iff)
    then have s: "unat (u + 1) = unat u + 1" using unatSuc [of u] by (simp add: add.commute)
    then have "u + 1 \<le> w" "sp_start pool \<le> u + 1"
      using lt "1.prems"(3) by (auto simp: word_le_nat_alt word_less_nat_alt)
    moreover have "nextFree_loop pool (u + 1) e = Inr None"
      using "1.prems"(1) ne b used m by (simp add: nextFree_loop.simps [of pool u e])
    ultimately show ?thesis using "1.IH" [OF ne b _ m] used "1.prems" by auto
  qed (use used in simp)
qed

lemma allocate_first_none:
  "allocate_first pm pools = Inr None \<Longrightarrow> \<forall>pool\<in>set pools. pool_ok pool \<Longrightarrow> pool \<in> set pools \<Longrightarrow>
   effectiveRange pm pool = Some (a, b) \<Longrightarrow> a \<le> w \<Longrightarrow> w \<le> b \<Longrightarrow> used_bit pool w"
proof (induction pools)
  case (Cons q pools)
  have n: "nextFree pm q = Inr None" "allocate_first pm pools = Inr None"
    using Cons.prems(1) by (auto simp: rbind_Inr_conv split: option.splits)
  show ?case
  proof (cases "pool = q")
    case True
    have ok: "pool_ok pool" using Cons.prems(2,3) by blast
    have "nextFree_loop pool a b = Inr None"
      using n(1) True Cons.prems(4) by (auto simp: nextFree_def rbind_Inr_conv)
    then show ?thesis
      using nextFree_loop_none effectiveRange_sub [OF Cons.prems(4)] ok Cons.prems(5,6)
      by (auto simp: pool_ok_def)
  qed (use Cons n in auto)
qed simp

context lease_store
begin

lemma Allocate_none:
  assumes "inv s" "inv4 (view s) pm" "CHR 0x1F \<notin> set (normalizeMAC (ar_MAC req))"
    and "Allocate ops now req s pm = (pm', Inl err)"
    and "pool \<in> set (selectCandidatePools req pm)" "effectiveRange pm pool = Some (a, b)" "a \<le> w" "w \<le> b"
  shows "used_bit pool w"
proof -
  have pm: "pm_ok pm" using assms(2) by (simp add: inv4_def)
  have ok: "pool_ok p" if "p \<in> set (selectCandidatePools req pm)" for p
    using pm_okD [OF pm selectCandidatePools_sub [OF pm that]] by simp
  obtain c where c: "choose_address ops now req s pm = Inr c"
    "\<forall>pool p. c = Some (pool, p) \<longrightarrow> length p = 4"
    using choose_address_ok [OF assms(1-3), of now] by blast
  have setU: "\<exists>pm''. pm_setUsed i p True pm = Inr pm''" if "length p = 4" for i p
    using pm_setUsed_ok [OF pm, of p i True] that by (cases p) auto
  have "c = None"
  proof (cases c)
    case (Some q)
    obtain pool p where q: "q = (pool, p)" by (cases q)
    then have "length p = 4" using c(2) Some by simp
    from setU [OF this, of "sp_id pool"] obtain pm'' where "pm_setUsed (sp_id pool) p True pm = Inr pm''" by blast
    then show ?thesis using assms(4) c(1) Some q by (simp add: Allocate_def)
  qed
  then have "choose_address ops now req s pm = Inr None" using c(1) by simp
  then have "allocate_first pm (selectCandidatePools req pm) = Inr None"
    by (auto simp: choose_address_def Let_def rbind_Inr_conv split: option.splits)
  then show ?thesis using allocate_first_none assms(5-8) ok by blast
qed

text \<open>An address is given only to its running lease's client or when its bit is free.\<close>

lemma Allocate_fresh:
  assumes "inv s" "inv4 (view s) pm" "CHR 0x1F \<notin> set (normalizeMAC (ar_MAC req))"
    and "Allocate ops now req s pm = (pm', Inr alloc)"
    and "marked pm (ipv4ToUint32 (al_IP alloc))"
  shows "\<exists>l. view s (ip_String (al_IP alloc)) = Some l \<and> running l"
proof -
  obtain c where c: "choose_address ops now req s pm = Inr c"
    "\<forall>pool p. c = Some (pool, p) \<longrightarrow> length p = 4 \<and> pool_of pm (sp_id pool) = Some pool \<and>
      ((\<exists>l. view s (ip_String p) = Some l \<and> running l \<and> \<not> l_ExpiryTime l < now \<and>
          normalizeMAC (l_MAC l) = normalizeMAC (ar_MAC req) \<and> l_SubnetID l = sp_id pool) \<or>
       (in_pool pool (ipv4ToUint32 p) \<and> \<not> used_bit pool (ipv4ToUint32 p)))"
    using choose_address_ok [OF assms(1-3)] by blast
  moreover obtain pool where "c = Some (pool, al_IP alloc)"
    using assms(4) c(1) by (auto simp: Allocate_def buildResult_def split: sum.splits option.splits)
  ultimately show ?thesis using assms(5) unfolding marked_def by blast
qed

end

lemma hw_nonempty: "length a > 0 \<Longrightarrow> hw_String a \<noteq> []"
  by (cases a; cases "tl a") (auto simp: hw_String_def hex_byte_def)

lemma mac_nonempty: "pkt_ok p \<Longrightarrow> mac_string p \<noteq> []"
  by (auto simp: mac_string_def ClientMAC_def pkt_ok_def Let_def intro!: hw_nonempty)

lemma leaseOptions_type: "opt_MessageType (leaseOptions h t alloc) = Some t"
  by (simp add: opt_MessageType_def leaseOptions_def Let_def opt_SetMessageType_def opt_SetIPv4_def
      opt_SetDurationSeconds_def opt_SetIPv4List_def)

section \<open>Properties\<close>


text \<open>The messages, ticks, changes of the scope and restarts that follow a state.\<close>

abbreviation dhcp4_later ::
  "lease_json \<Rightarrow> Handler \<Rightarrow> duration \<Rightarrow> subnet_config list \<Rightarrow> sweeper \<Rightarrow> engine h4_state \<Rightarrow> engine h4_state \<Rightarrow> bool"
where
  "dhcp4_later J h dur subnets w \<equiv> rtranclp (dhcp4_step J h dur subnets w)"

lemma reachable_later:
  assumes "dhcp4_later J h dur subnets w st st'" "dhcp4_reachable J h dur subnets w st"
  shows "dhcp4_reachable J h dur subnets w st'"
  using assms by (induction rule: rtranclp_induct) (auto intro: d4_next)

lemma reachable_pools:
  assumes "config_ok dur subnets" "dhcp4_reachable J h dur subnets w st" "dhcp4_reachable J h dur subnets w st'"
  shows "pool_of (h4_pools st') i = None \<longleftrightarrow> pool_of (h4_pools st) i = None"
proof -
  obtain pm0 where pm0: "built_pools dur subnets = Inr pm0" "pm_ok pm0"
    using assms(1) by (auto simp: config_ok_def split: sum.splits)
  have "pool_of (h4_pools s) i = None \<longleftrightarrow> pool_of pm0 i = None" if "dhcp4_reachable J h dur subnets w s" for s
    using dhcp4_reachable_inv [OF that pm0]
    unfolding run_inv_def pools_from_def same_pools_def by (metis option.map_disc_iff PoolManager.select_convs(1)
        PoolManager.update_convs(3) PoolManager.surjective)
  then show ?thesis using assms(2,3) by simp
qed

text \<open>C20: a client that got an offer and requests before it expires gets an acknowledgement of the
  same address, whatever other address its request names, and whatever the server has done between
  the two messages (messages of other clients, ticks of the sweeper, changes of the cluster's scope,
  crashes and restarts), as long as the leases stored for the client's hardware address are those
  that the discover left. A release or a decline of the address, which the server takes from any
  client, changes them.\<close>

theorem dhcp4_offer_then_ack:
  assumes "config_ok dur subnets" "dhcp4_reachable J h dur subnets w st"
    and "\<forall>l\<in>set (stored_by (engine_store J) t1 req1 st). lease_ok J (upserted t1 l)"
    and "Handle (engine_store J) h t1 req1 st = (st1, Inr (Some resp1))"
    and "opt_MessageType (p_Options req1) = Some MessageDiscover" "pkt_ok req1"
    and "ls_GetByIP J (h4_store st1) (ip_String (p_YIAddr resp1)) = Inr l" "t1 \<le> t2" "t2 \<le> l_ExpiryTime l"
    and "dhcp4_later J h dur subnets w st1 st'"
    and "op_GetByMAC (engine_store J) (h4_store st') (mac_string req1) =
      op_GetByMAC (engine_store J) (h4_store st1) (mac_string req1)"
    and "\<forall>l\<in>set (stored_by (engine_store J) t2 req2 st'). lease_ok J (upserted t2 l)"
    and "opt_MessageType (p_Options req2) = Some MessageRequest" "mac_string req2 = mac_string req1"
  shows "\<exists>st2 ack. Handle (engine_store J) h t2 req2 st' = (st2, Inr (Some ack)) \<and>
    p_YIAddr ack = p_YIAddr resp1 \<and> opt_MessageType (p_Options ack) = Some MessageAck"
proof -
  let ?ops = "engine_store J" and ?s = "h4_store st" and ?pm = "h4_pools st"
  note i1 = reachable_inv [OF assms(1,2)]
  have r1: "dhcp4_reachable J h dur subnets w st1" using d4_next [OF assms(2) d4_message [OF assms(3,4)]] .
  have r': "dhcp4_reachable J h dur subnets w st'" using reachable_later [OF assms(10) r1] .
  note i' = reachable_inv [OF assms(1) r']
  have pm': "pm_ok (h4_pools st')" using i'(2) by (simp add: inv4_def)
  let ?rq1 = "alloc_request req1 (opt_RequestedIP (p_Options req1))"
  let ?rq2 = "alloc_request req2 (request_target req2)"
  let ?rapid = "HasRapidCommit (p_Options req1)"
  obtain pm1 alloc where a: "Allocate ?ops t1 ?rq1 ?s ?pm = (pm1, Inr alloc)"
    and l1: "stored_by ?ops t1 req1 st = [discover_lease t1 req1 ?rapid alloc]"
    using assms(4,5) by (auto simp: Handle_def handleDiscover_def stored_by_def split: prod.splits sum.splits)
  let ?l = "discover_lease t1 req1 ?rapid alloc"
  have ok1: "lease_ok J (upserted t1 ?l)" using assms(3) l1 by simp
  from es.store_allocated [OF i1 a _ _ ok1] obtain s1 where s1: "op_Upsert ?ops t1 ?l ?s = (s1, None)"
    "es_inv J s1" "es_view J s1 = (es_view J ?s)(ip_String (al_IP alloc) \<mapsto> upserted t1 ?l)"
    by (auto simp: discover_lease_fields)
  have st1: "h4_store st1 = s1" "p_YIAddr resp1 = al_IP alloc"
    using assms(4,5) a s1(1) by (auto simp: Handle_def handleDiscover_def emit4_def Let_def split: if_splits)
  have l: "l = upserted t1 ?l"
    using assms(7) s1(2,3) by (simp add: st1 GetByIP_view)
  have mac: "l_MAC ?l = mac_string req1" "mac_string req1 \<noteq> []" "ar_MAC ?rq1 = mac_string req1"
    using mac_nonempty assms(6) by (auto simp: discover_lease_fields alloc_request_def)
  have run: "running (upserted t1 ?l)" by (auto simp: upserted_fields running_def discover_lease_fields)
  have same: "op_GetByMAC ?ops (h4_store st') (ar_MAC ?rq1) = op_GetByMAC ?ops s1 (ar_MAC ?rq1)"
    using assms(11) by (simp only: mac(3) st1(1))
  from es.Allocate_again [OF i1(1) s1(2) i1(2) a s1(3) run, of t2 ?rq2 "h4_store st'" "h4_pools st'"]
  obtain pm2 alloc2 where
    a2: "Allocate ?ops t2 ?rq2 (h4_store st') (h4_pools st') = (pm2, Inr alloc2)" "al_IP alloc2 = al_IP alloc"
    using mac assms(8,9,14) l es.mac_ok [of req1 "opt_RequestedIP (p_Options req1)"] same pm'
      reachable_pools [OF assms(1,2) r']
    by (auto simp: upserted_fields discover_lease_fields alloc_request_def)
  let ?l2 = "request_lease t2 req2 alloc2"
  have "lease_ok J (upserted t2 ?l2)" using assms(12,13) a2(1) by (simp add: stored_by_def)
  from es.store_allocated [OF i' a2(1) _ _ this] obtain s2 where
    "op_Upsert ?ops t2 ?l2 (h4_store st') = (s2, None)"
    by (auto simp: request_lease_fields)
  then show ?thesis
    using a2 assms(13) by (auto simp: Handle_def handleRequest_def st1 Let_def leaseOptions_type)
qed

text \<open>C8: a request is refused only when every address of every candidate pool, within the
  server's share of it, is in use: a client that asks for an address it cannot have gets another
  one acknowledged, not a refusal.\<close>

theorem dhcp4_nak_only_when_full:
  assumes "config_ok dur subnets" "dhcp4_reachable J h dur subnets w st"
    and "Handle (engine_store J) h now req st = (st', Inr (Some resp))"
    and "opt_MessageType (p_Options req) = Some MessageRequest"
    and "opt_MessageType (p_Options resp) = Some MessageNak"
  shows "h4_store st' = h4_store st \<and> h4_pools st' = h4_pools st \<and>
    (\<forall>pool\<in>set (selectCandidatePools (alloc_request req (request_target req)) (h4_pools st)).
      \<forall>a b u. effectiveRange (h4_pools st) pool = Some (a, b) \<and> a \<le> u \<and> u \<le> b \<longrightarrow> used_bit pool u)"
proof -
  note i = reachable_inv [OF assms(1,2)]
  let ?rq = "alloc_request req (request_target req)"
  obtain pm r where a: "Allocate (engine_store J) now ?rq (h4_store st) (h4_pools st) = (pm, r)" by force
  obtain err where err: "r = Inl err"
    using assms(3-5) a
    by (auto simp: Handle_def handleRequest_def Let_def leaseOptions_type split: sum.splits go_error.splits prod.splits option.splits)
  have "err = ErrMsg ''no free address available'' \<and> pm = h4_pools st"
    using es.Allocate_ok(4) [OF i es.mac_ok a] err by blast
  then have "h4_store st' = h4_store st" "h4_pools st' = h4_pools st"
    using assms(3,4) a err by (auto simp: Handle_def handleRequest_def)
  with es.Allocate_none [OF i es.mac_ok a [unfolded err]] show ?thesis by blast
qed

text \<open>Once a client has declined the address of a running lease, the next message, of that
  client or of any other, is never answered with that address.\<close>

theorem dhcp4_decline_blocks:
  assumes "config_ok dur subnets" "dhcp4_reachable J h dur subnets w st"
    and "opt_MessageType (p_Options req) = Some MessageDecline"
    and "ls_GetByIP J (h4_store st) (ip_String (decline_target req)) = Inr l" "running l"
    and "decline_target req \<noteq> []" "\<not> isZeroIPv4 (decline_target req)"
    and "\<forall>l\<in>set (stored_by (engine_store J) now req st). lease_ok J (upserted now l)"
    and "Handle (engine_store J) h now req st = (st', r)"
    and "\<forall>l\<in>set (stored_by (engine_store J) now2 req2 st'). lease_ok J (upserted now2 l)"
    and "Handle (engine_store J) h now2 req2 st' = (st2, Inr (Some resp))"
  shows "p_YIAddr resp \<noteq> decline_target req"
proof
  assume y: "p_YIAddr resp = decline_target req"
  let ?ops = "engine_store J" and ?p = "decline_target req"
  note i = reachable_inv [OF assms(1,2)]
  note H = es.Handle_ok [OF i assms(8,9)]
  have len: "length ?p = 4" using target_length(2) [OF assms(6)] .
  have v: "es_view J (h4_store st) (ip_String ?p) = Some l"
    using assms(4) i(1) by (auto simp: GetByIP_view split: option.splits)
  then have m: "marked (h4_pools st) (ipv4ToUint32 ?p)"
    using i(2) assms(5) len unfolding inv4_def by (metis lease_addr_String list.size(3) zero_neq_numeral)
  have g: "op_GetByIP ?ops (h4_store st) (ip_String ?p) = Inr l"
    using assms(4) by (simp add: engine_store_def)
  let ?l = "l\<lparr>l_State := StateDeclined, l_QuarantineUntil := now + 15 * minute_ns, l_UpdatedAt := now\<rparr>"
  have ipl: "l_IP l = ip_String ?p" using es.view_ip [OF i(1) v] .
  have "lease_ok J (upserted now ?l)" using assms(3,8) g by (simp add: stored_by_def)
  from es.upsert [OF i(1) this] obtain s' where s': "op_Upsert ?ops now ?l (h4_store st) = (s', None)"
    "es_view J s' = (es_view J (h4_store st))(ip_String ?p \<mapsto> upserted now ?l)"
    using ipl by auto
  have st': "h4_store st' = s'" "h4_pools st' = h4_pools st"
    using assms(3,6,7,9) s'(1) g
    by (auto simp: Handle_def handleDecline_def Let_def emit4_def split: if_splits)
  have nr: "\<not> running (upserted now ?l)" by (simp add: running_def upserted_fields state_defs)
  have "\<exists>t pm alloc. Allocate ?ops now2 (alloc_request req2 t) (h4_store st') (h4_pools st') = (pm, Inr alloc) \<and>
      al_IP alloc = ?p"
    using assms(11) y assms(6)
    by (fastforce simp: Handle_def handleDiscover_def handleRequest_def handleInform_def nak_response_def
        baseResponse_def Let_def split: option.splits if_splits sum.splits go_error.splits prod.splits
        elim!: no_reply.elims)
  then obtain t pm alloc where
    a: "Allocate ?ops now2 (alloc_request req2 t) (h4_store st') (h4_pools st') = (pm, Inr alloc)" "al_IP alloc = ?p"
    by blast
  from H have "es_inv J (h4_store st')" "inv4 (es_view J (h4_store st')) (h4_pools st')" by auto
  from es.Allocate_fresh [OF this es.mac_ok a(1)] m a(2) st' s'(2) nr show False by auto
qed

text \<open>the times of an answer: the lease time is the configured one in whole seconds, at least one,
  at most what 32 bits hold, and renewal comes no later than rebinding, which comes no later than
  the lease's end.\<close>

theorem dhcp4_lease_times:
  assumes "0 < al_LeaseDuration alloc"
  shows "\<exists>t1 t2 secs :: u32.
    map_of (leaseOptions h msg alloc) OptionRenewalTimeValue = Some (be 4 (unat t1)) \<and>
    map_of (leaseOptions h msg alloc) OptionRebindingTimeValue = Some (be 4 (unat t2)) \<and>
    map_of (leaseOptions h msg alloc) OptionIPAddressLeaseTime = Some (be 4 (unat secs)) \<and>
    uint secs = max 1 (min (2 ^ 32 - 1) (al_LeaseDuration alloc div second_ns)) \<and> t1 \<le> t2 \<and> t2 \<le> secs"
proof -
  let ?s = "durationToUint32Seconds (al_LeaseDuration alloc)"
  have "0 \<le> al_LeaseDuration alloc div second_ns" using assms by (simp add: second_ns_def)
  then have s: "uint ?s = max 1 (min (2 ^ 32 - 1) (al_LeaseDuration alloc div second_ns))"
    using assms by (auto simp: durationToUint32Seconds_def Let_def second_ns_def word_of_int_inverse uint_word_of_int)
  have "?s div 8 \<le> ?s" "?s div 2 \<le> ?s - ?s div 8"
    by (auto simp: word_le_nat_alt unat_div unat_sub)
  moreover have "?s - ?s div 8 \<le> ?s" by (auto simp: word_le_nat_alt unat_div unat_sub)
  ultimately show ?thesis
    using s by (intro exI [of _ "?s div 2"] exI [of _ "?s - ?s div 8"] exI [of _ ?s])
      (simp add: leaseOptions_def Let_def opt_SetMessageType_def opt_SetIPv4_def
        opt_SetDurationSeconds_def opt_SetIPv4List_def)
qed

section \<open>Instances\<close>

lemma demo_client2:
  assumes "es_view run_json (h4_store st) = [''10.0.0.10'' \<mapsto> l]" "l_MAC l = mac1" "demo_run st"
  shows "op_GetByMAC (engine_store run_json) (h4_store st) (mac_string (client_packet (CHR 0x02) opts)) = Inr []"
  by (rule demo_no_lease [OF reachable_inv(1) [OF demo_config(1) assms(3)]])
    (use assms(1,2) in \<open>auto simp: demo_normalize split: if_splits\<close>)

lemma demo_view:
  "demo_run st \<Longrightarrow> es_view run_json (h4_store st) ip = Some l \<Longrightarrow> ls_GetByIP run_json (h4_store st) ip = Inr l"
  using reachable_inv(1) [OF demo_config(1)] by (simp add: GetByIP_view)

text \<open>The second client's discover gets the second address.\<close>

lemma demo_second:
  assumes "es_view run_json (h4_store st) = [''10.0.0.10'' \<mapsto> l]" "l_MAC l = mac1" "demo_run st"
    and "h4_pools st = demo_pm [True, False]"
  obtains st2 resp where "Handle (engine_store run_json) demo_h time2 (disc (CHR 0x02)) st = (st2, Inr (Some resp))"
    "p_YIAddr resp = ip11"
    "\<forall>l\<in>set (stored_by (engine_store run_json) time2 (disc (CHR 0x02)) st). lease_ok run_json (upserted time2 l)"
proof -
  have ok: "lease_ok run_json (upserted time2 (discover_lease time2 (disc (CHR 0x02)) False (al ip11)))"
    using demo_leases(7) by (simp add: lease_d2_def)
  have "Allocate (engine_store run_json) time2 (alloc_request (disc (CHR 0x02)) []) (h4_store st) (h4_pools st) =
      (demo_pm [True, True], Inr (al ip11))"
    using demo_choose(2) [OF demo_client2 [OF assms(1-3)]] assms(4) by (simp add: disc_def)
  from demo_discover [OF reachable_inv [OF demo_config(1) assms(3)] this ok] that ok show ?thesis
    by (auto simp: demo_al)
qed


lemma demo_scope_set:
  "pm_setUsed pid p b (pm\<lparr>pm_scope := x\<rparr>) = rbind (pm_setUsed pid p b pm) (\<lambda>pm'. Inr (pm'\<lparr>pm_scope := x\<rparr>))"
proof (cases "pool_of pm pid")
  case (Some q)
  then show ?thesis by (cases "setUsed q p b") (simp_all add: pm_setUsed_def)
qed (simp add: pm_setUsed_def)

text \<open>The server's share is cut down to the second address between the offer of the first one and
  its acknowledgement.\<close>

theorem dhcp4_offer_then_ack_witness:
  "\<exists>st1 st2 ack. demo_run st1 \<and> Handle (engine_store run_json) demo_h time2 (requ (CHR 0x01))
       (st1\<lparr>h4_pools := SetScopeProvider (Some (\<lambda>i a b. (b, b, True))) (h4_pools st1)\<rparr>) = (st2, Inr (Some ack)) \<and>
     p_YIAddr ack = ip10"
proof -
  obtain st1 resp where st1: "Handle (engine_store run_json) demo_h time1 (disc (CHR 0x01)) st0 = (st1, Inr (Some resp))"
    "p_YIAddr resp = ip10" "demo_run st1" "es_view run_json (h4_store st1) = [''10.0.0.10'' \<mapsto> lease_d1]"
    "stored_by (engine_store run_json) time1 (disc (CHR 0x01)) st0 = [discover_lease time1 (disc (CHR 0x01)) False (al ip10)]"
    "h4_pools st1 = demo_pm [True, False]"
    by (rule demo_st1)
  have g: "ls_GetByIP run_json (h4_store st1) (ip_String (p_YIAddr resp)) = Inr lease_d1"
    using demo_view [OF st1(3)] st1(2,4) by (simp add: demo_ips)
  have t: "time1 \<le> time2" "time2 \<le> l_ExpiryTime lease_d1"
    by (simp_all add: time1_def time2_def demo_leases hour_ns_def minute_ns_def second_ns_def)
  have m: "mac_string (requ (CHR 0x01)) = mac_string (disc (CHR 0x01))" by (simp add: requ_def disc_def)
  have ok1: "\<forall>l\<in>set (stored_by (engine_store run_json) time1 (disc (CHR 0x01)) st0). lease_ok run_json (upserted time1 l)"
    using st1(5) demo_leases(4) by (simp add: lease_d1_def)
  let ?p = "Some (\<lambda>i a b. (b, b, True)) :: scope_provider option"
  let ?st = "st1\<lparr>h4_pools := SetScopeProvider ?p (h4_pools st1)\<rparr>"
  have later: "dhcp4_later run_json demo_h demo_dur [demo_subnet] demo_w st1 ?st"
    by (rule r_into_rtranclp, rule d4_scope)
  have same: "op_GetByMAC (engine_store run_json) (h4_store ?st) m = op_GetByMAC (engine_store run_json) (h4_store st1) m" for m
    by simp
  have "\<forall>l\<in>set (stored_by (engine_store run_json) time2 (requ (CHR 0x01)) ?st). lease_ok run_json (upserted time2 l)"
  proof -
    note r = reachable_inv [OF demo_config(1) st1(3)]
    let ?rq = "alloc_request (requ (CHR 0x01)) []"
    have mac: "ar_MAC ?rq = mac1" by (simp add: alloc_request_def requ_def)
    obtain ls where ls: "op_GetByMAC (engine_store run_json) (h4_store st1) mac1 = Inr ls"
      "sorted_wrt (<) (map l_IP ls)" "set ls = {lease_d1}"
      using es.by_mac [OF r(1), of mac1] demo_leases(1,2) by (auto simp: st1(4) demo_normalize split: if_splits)
    then have "ls = [lease_d1]"
      by (cases ls; cases "tl ls") auto
    moreover have "l_SubnetID lease_d1 = ''10.0.0.0/24''" "lease_addr ''10.0.0.10'' = ip10"
      using lease_addr_String [of ip10] by (simp_all add: lease_d1_def upserted_fields discover_lease_fields demo_al demo_ips)
    ultimately have "choose_address (engine_store run_json) time2 ?rq (h4_store ?st) (h4_pools ?st) =
        Inr (Some (demo_pool [True, False], ip10))"
      using ls(1) mac t demo_leases(1,8)
      by (simp add: choose_address_def existing_lease_find candidate_def st1(6) demo_pm_def SetScopeProvider_def)
    then have "Allocate (engine_store run_json) time2 ?rq (h4_store ?st) (h4_pools ?st) =
        ((demo_pm [True, False])\<lparr>pm_scope := ?p\<rparr>, Inr (al ip10))"
      using demo_set(1) [of True False]
      by (simp add: Allocate_def st1(6) buildResult_demo demo_scope_set SetScopeProvider_def)
    then show ?thesis using demo_leases(5) by (simp add: stored_by_def demo_opts lease_r1_def)
  qed
  from dhcp4_offer_then_ack [OF demo_config(1) st0_reachable ok1 st1(1) demo_opts(1) demo_pkt_ok g t later same this demo_opts(6) m]
  show ?thesis using st1 by auto
qed

text \<open>With the server's share cut down to the first address, the second client is refused.\<close>

theorem dhcp4_nak_only_when_full_witness:
  "\<exists>st st' resp. demo_run st \<and> Handle (engine_store run_json) demo_h time2 (requ (CHR 0x02)) st = (st', Inr (Some resp)) \<and>
     opt_MessageType (p_Options resp) = Some MessageNak \<and> used_bit (demo_pool [True, False]) 0x0A00000A"
proof -
  obtain st1 where st1: "h4_pools st1 = demo_pm [True, False]" "demo_run st1"
    "es_view run_json (h4_store st1) = [''10.0.0.10'' \<mapsto> lease_d1]"
    by (rule demo_st1)
  let ?p = "Some (\<lambda>i a b. (a, a, True)) :: scope_provider option"
  let ?st = "st1\<lparr>h4_pools := SetScopeProvider ?p (h4_pools st1)\<rparr>"
  let ?rq = "alloc_request (requ (CHR 0x02)) []"
  have run: "demo_run ?st" using d4_next [OF st1(2) d4_scope] .
  have none: "op_GetByMAC (engine_store run_json) (h4_store ?st) (mac_string (requ (CHR 0x02))) = Inr []"
    using demo_client2 [OF _ demo_leases(2) run] st1(3) by (simp add: requ_def)
  have cand: "selectCandidatePools ?rq (h4_pools ?st) = [demo_pool [True, False]]"
    using demo_candidates [of ?rq "[True, False]"] demo_request_fields(2)
    by (simp add: selectCandidatePools_def st1(1) SetScopeProvider_def requ_def)
  have r: "effectiveRange (h4_pools ?st) (demo_pool [True, False]) = Some (0x0A00000A, 0x0A00000A)"
    by (simp add: effectiveRange_def SetScopeProvider_def demo_pool_def)
  have "nextFree_loop (demo_pool [True, False]) 0x0A00000A 0x0A00000A = Inr None"
    by (simp add: nextFree_loop.simps bit_at_def demo_pool_def)
  then have "choose_address (engine_store run_json) time2 ?rq (h4_store ?st) (h4_pools ?st) = Inr None"
    using none cand r by (simp add: choose_address_def nextFree_def requ_def demo_request_fields)
  then have h: "Handle (engine_store run_json) demo_h time2 (requ (CHR 0x02)) ?st = (?st, Inr (Some (nak_response demo_h (requ (CHR 0x02)))))"
    by (simp add: Handle_def handleRequest_def demo_opts Allocate_def)
  have nak: "opt_MessageType (p_Options (nak_response demo_h (requ (CHR 0x02)))) = Some MessageNak"
    by (simp add: nak_response_def opt_MessageType_def opt_SetMessageType_def opt_SetIPv4_def opt_SetString_def)
  have "used_bit (demo_pool [True, False]) 0x0A00000A"
    using dhcp4_nak_only_when_full [OF demo_config(1) run h demo_opts(6) nak] cand r demo_opts(7) by auto
  then show ?thesis using run h nak by blast
qed

theorem dhcp4_decline_blocks_witness:
  "\<exists>st st' st2 r resp. demo_run st \<and> Handle (engine_store run_json) demo_h time2 (decl (CHR 0x01)) st = (st', r) \<and>
     Handle (engine_store run_json) demo_h time2 (disc (CHR 0x02)) st' = (st2, Inr (Some resp)) \<and> p_YIAddr resp \<noteq> ip10"
proof -
  obtain st1 where st1: "h4_pools st1 = demo_pm [True, False]" "demo_run st1"
    "es_view run_json (h4_store st1) = [''10.0.0.10'' \<mapsto> lease_d1]"
    by (rule demo_st1)
  note i = reachable_inv [OF demo_config(1) st1(2)]
  have g: "ls_GetByIP run_json (h4_store st1) (ip_String (decline_target (decl (CHR 0x01)))) = Inr lease_d1"
    using demo_view [OF st1(2)] st1(3) by (simp add: demo_opts demo_ips)
  let ?l = "lease_d1\<lparr>l_State := StateDeclined, l_QuarantineUntil := time2 + 15 * minute_ns, l_UpdatedAt := time2\<rparr>"
  have ok: "\<forall>l\<in>set (stored_by (engine_store run_json) time2 (decl (CHR 0x01)) st1). lease_ok run_json (upserted time2 l)"
    using g demo_leases(6) by (simp add: stored_by_def demo_opts engine_store_def lease_c1_def)
  obtain st' r where h: "Handle (engine_store run_json) demo_h time2 (decl (CHR 0x01)) st1 = (st', r)" by force
  have z: "decline_target (decl (CHR 0x01)) \<noteq> []" "\<not> isZeroIPv4 (decline_target (decl (CHR 0x01)))"
    by (simp_all add: demo_opts isZeroIPv4_def ip_To4_def)
  obtain s' where s': "op_Upsert (engine_store run_json) time2 ?l (h4_store st1) = (s', None)"
    "es_view run_json s' = [''10.0.0.10'' \<mapsto> lease_c1]"
    using es.upsert [OF i(1), of time2 ?l] demo_leases(1,6) st1(3) by (auto simp: lease_c1_def)
  then have st': "h4_pools st' = demo_pm [True, False]" "es_view run_json (h4_store st') = [''10.0.0.10'' \<mapsto> lease_c1]"
    using h g st1(1) by (auto simp: Handle_def handleDecline_def demo_opts engine_store_def isZeroIPv4_def ip_To4_def
        Let_def emit4_def split: if_splits)
  have run: "demo_run st'" using d4_next [OF st1(2) d4_message [OF ok h]] .
  have "l_MAC lease_c1 = mac1" by (simp add: lease_c1_def upserted_fields demo_leases)
  then obtain st2 resp where st2: "Handle (engine_store run_json) demo_h time2 (disc (CHR 0x02)) st' = (st2, Inr (Some resp))"
    "\<forall>l\<in>set (stored_by (engine_store run_json) time2 (disc (CHR 0x02)) st'). lease_ok run_json (upserted time2 l)"
    using demo_second [OF st'(2) _ run st'(1)] by blast
  have "p_YIAddr resp \<noteq> decline_target (decl (CHR 0x01))"
    using dhcp4_decline_blocks [OF demo_config(1) st1(2) demo_opts(9) g demo_leases(8) z ok h st2(2,1)] .
  then show ?thesis using st1(2) h st2(1) by (auto simp: demo_opts)
qed

theorem dhcp4_lease_times_witness:
  "\<exists>secs :: u32. map_of (leaseOptions demo_h MessageAck (al ip10)) OptionIPAddressLeaseTime = Some (be 4 (unat secs)) \<and>
     uint secs = 3600"
proof -
  have "0 < al_LeaseDuration (al ip10)" "al_LeaseDuration (al ip10) div second_ns = 3600"
    by (simp_all add: demo_al hour_ns_def minute_ns_def second_ns_def)
  with dhcp4_lease_times [of "al ip10" demo_h MessageAck] show ?thesis by auto
qed

end
