(* ===== verification/Ha.thy ===== *)
theory Ha
  imports Net LeaseStore
begin

text \<open>
  \<^verbatim>\<open>src/internal/ha\<close>: the pair of servers. A manager elects its role from the heartbeats of its
  peer, is fenced by a witness file that both servers share, replicates lease changes, and limits the
  addresses that its server may allocate. The state of a node is the manager with the lease store.
  The goroutines are the steps \<open>handleConn\<close>, \<open>heartbeat_turn\<close>, \<open>watchdog_turn\<close> and \<open>sync_turn\<close>; what the
  network and the file system answer are their arguments. One step reads the clock once.
\<close>

section \<open>election.go\<close>

datatype Role = RoleUnknown | RolePrimary | RoleSecondary
datatype PeerState = PeerStateUnknown | PeerStateConnected | PeerStateDisconnected

definition normalizeMode :: "string \<Rightarrow> string" where
  "normalizeMode mode =
     (let m = TrimSpace (ToLower mode) in if m = ''load-sharing'' then ''load-sharing'' else ''active-passive'')"

definition electRole ::
  "string \<Rightarrow> string \<Rightarrow> string \<Rightarrow> bool \<Rightarrow> time \<Rightarrow> time \<Rightarrow> bool \<Rightarrow> int \<Rightarrow> int \<Rightarrow> Role" where
  "electRole localNode remoteNode mode peerConnected localStepDownUntil now peerDraining localPriority remotePriority =
     (if peerConnected \<and> \<not> is_zero_time localStepDownUntil \<and> now < localStepDownUntil then RoleSecondary
      else if \<not> peerConnected \<or> TrimSpace remoteNode = [] then RolePrimary
      else if peerDraining then RolePrimary
      else
        (let lp = (if localPriority \<le> 0 then 100 else localPriority);
             rp = (if remotePriority \<le> 0 then 100 else remotePriority)
         in if lp < rp then RolePrimary
            else if lp > rp then RoleSecondary
            else
              (let l0 = ToLower (TrimSpace localNode); remote = ToLower (TrimSpace remoteNode);
                   l = (if l0 = [] then ''local'' else l0)
               in if remote = [] then RolePrimary
                  else if l \<le> remote then RolePrimary
                  else if normalizeMode mode = ''load-sharing'' then RoleSecondary
                  else RoleSecondary)))"

section \<open>witness.go\<close>

record witnessRecord =
  wr_Node :: string
  wr_Priority :: int
  wr_UpdatedAt :: time

text \<open>The witness file: absent, not readable as a record, or a record.\<close>

datatype witness_file = WitnessAbsent | WitnessUnreadable | WitnessFile witnessRecord

datatype witness_error = NotExist | OtherError

definition readWitnessRecord :: "string \<Rightarrow> witness_file \<Rightarrow> witness_error + witnessRecord" where
  "readWitnessRecord path f =
     (if TrimSpace path = [] then Inl OtherError
      else (case f of
          WitnessAbsent \<Rightarrow> Inl NotExist
        | WitnessUnreadable \<Rightarrow> Inl OtherError
        | WitnessFile rec \<Rightarrow> Inr (rec\<lparr>wr_Node := TrimSpace (wr_Node rec)\<rparr>)))"

text \<open>\<open>ok\<close>: the file system carried out the write.\<close>

definition writeWitnessRecord :: "string \<Rightarrow> bool \<Rightarrow> witnessRecord \<Rightarrow> witness_file \<Rightarrow> witness_file option" where
  "writeWitnessRecord path ok rec f =
     (if TrimSpace path = [] then None else if ok then Some (WitnessFile rec) else None)"

definition witnessOwner ::
  "string \<Rightarrow> duration \<Rightarrow> time \<Rightarrow> witness_file \<Rightarrow> witness_error + witnessRecord option" where
  "witnessOwner path hold now f =
     (case readWitnessRecord path f of
        Inl NotExist \<Rightarrow> Inr None
      | Inl OtherError \<Rightarrow> Inl OtherError
      | Inr rec \<Rightarrow>
          if wr_Node rec = [] \<or> is_zero_time (wr_UpdatedAt rec) then Inr None
          else if hold > 0 \<and> now - wr_UpdatedAt rec > hold then Inr None
          else Inr (Some rec))"

section \<open>heartbeat.go\<close>

record heartbeatMessage =
  hb_Type :: string
  hb_Node :: string
  hb_Role :: Role
  hb_Mode :: string
  hb_Priority :: int
  hb_Draining :: bool
  hb_Timestamp :: time
  hb_Secret :: string

definition deriveListenAddr :: "string \<Rightarrow> string" where
  "deriveListenAddr peerAddr =
     (case SplitHostPort (TrimSpace peerAddr) of
        None \<Rightarrow> '':8068''
      | Some (_, port) \<Rightarrow> if TrimSpace port = [] then '':8068'' else CHR '':'' # port)"

text \<open>True: the secret is accepted.\<close>

definition validateSecret :: "string \<Rightarrow> string \<Rightarrow> bool" where
  "validateSecret expected actual \<longleftrightarrow> TrimSpace expected = [] \<or> actual = expected"

section \<open>The manager\<close>

datatype ev_value = VStr string | VRole Role | VPeer PeerState | VTime time | VError

type_synonym ha_event = "string \<times> (string \<times> ev_value) list"

record ha_config =
  hc_Node :: string
  hc_Mode :: string
  hc_Priority :: int
  hc_PeerAddress :: string
  hc_HeartbeatInterval :: duration
  hc_FailoverTimeout :: duration
  hc_LeaseSync :: bool
  hc_SharedSecret :: string
  hc_WitnessPath :: string
  hc_WitnessHold :: duration

record Manager =
  hm_node :: string
  hm_mode :: string
  hm_priority :: int
  hm_peerAddr :: string
  hm_listenAddr :: string
  hm_interval :: duration
  hm_timeout :: duration
  hm_leaseSync :: bool
  hm_secret :: string
  hm_witnessPath :: string
  hm_witnessHold :: duration
  hm_hasStore :: bool
  hm_hasBroker :: bool
  hm_role :: Role
  hm_peer :: PeerState
  hm_peerNode :: string
  hm_lastHeartbeatAt :: time
  hm_heartbeatLatency :: duration
  hm_syncLag :: duration
  hm_failoverCount :: int
  hm_snapshotDone :: bool
  hm_syncSequence :: int
  hm_appliedSequence :: int
  hm_fenced :: bool
  hm_fencingReason :: string
  hm_witnessOwner :: string
  hm_manualStepDownUntil :: time
  hm_events :: "ha_event list"

definition maxDuration :: "duration \<Rightarrow> duration \<Rightarrow> duration" where
  "maxDuration a b = (if a \<ge> b then a else b)"

text \<open>\<open>seq\<close>: the sequence of the store, when it has one.\<close>

definition NewManager :: "ha_config \<Rightarrow> bool \<Rightarrow> bool \<Rightarrow> int option \<Rightarrow> Manager" where
  "NewManager cfg hasStore hasBroker seq =
     (let interval = (if hc_HeartbeatInterval cfg \<le> 0 then second_ns else hc_HeartbeatInterval cfg);
          timeout = (if hc_FailoverTimeout cfg \<le> 0 then 10 * second_ns else hc_FailoverTimeout cfg);
          priority = (if hc_Priority cfg \<le> 0 then 100 else hc_Priority cfg);
          hold = (if hc_WitnessHold cfg \<le> 0 then maxDuration (i64 (timeout * 2)) (15 * second_ns) else hc_WitnessHold cfg);
          node = TrimSpace (hc_Node cfg)
      in \<lparr>hm_node = (if node = [] then ''monsoon'' else node), hm_mode = normalizeMode (hc_Mode cfg),
          hm_priority = priority, hm_peerAddr = TrimSpace (hc_PeerAddress cfg),
          hm_listenAddr = deriveListenAddr (hc_PeerAddress cfg), hm_interval = interval, hm_timeout = timeout,
          hm_leaseSync = hc_LeaseSync cfg, hm_secret = hc_SharedSecret cfg,
          hm_witnessPath = TrimSpace (hc_WitnessPath cfg), hm_witnessHold = hold, hm_hasStore = hasStore,
          hm_hasBroker = hasBroker, hm_role = RolePrimary, hm_peer = PeerStateUnknown, hm_peerNode = [],
          hm_lastHeartbeatAt = 0, hm_heartbeatLatency = 0, hm_syncLag = 0, hm_failoverCount = 0,
          hm_snapshotDone = False, hm_syncSequence = (case seq of None \<Rightarrow> 0 | Some n \<Rightarrow> n),
          hm_appliedSequence = 0, hm_fenced = False, hm_fencingReason = [], hm_witnessOwner = [],
          hm_manualStepDownUntil = 0, hm_events = []\<rparr>)"

definition publishHAEvent :: "string \<Rightarrow> (string \<times> ev_value) list \<Rightarrow> Manager \<Rightarrow> Manager" where
  "publishHAEvent name data m = (if hm_hasBroker m then m\<lparr>hm_events := hm_events m @ [(name, data)]\<rparr> else m)"

section \<open>The share of a scope\<close>

text \<open>64-bit sums of 32-bit values do not wrap.\<close>

definition splitScope :: "u32 \<Rightarrow> u32 \<Rightarrow> u32 \<times> u32 \<times> u32 \<times> u32" where
  "splitScope start endv =
     (if start > endv then (0, 0, 1, 0)
      else
        (let span = unat (endv - start) + 1;
             lowerCount = (span + 1) div 2;
             lowerEnd64 = unat start + lowerCount - 1
         in if lowerEnd64 \<ge> unat endv then (start, endv, 1, 0)
            else if lowerEnd64 > 4294967295 then (start, endv, 1, 0)
            else (let lowerEnd = of_nat lowerEnd64 in
                  if lowerEnd \<ge> endv then (start, lowerEnd, 1, 0)
                  else (start, lowerEnd, lowerEnd + 1, endv))))"

definition AllocationScope :: "Manager \<Rightarrow> string \<Rightarrow> u32 \<Rightarrow> u32 \<Rightarrow> u32 \<times> u32 \<times> bool" where
  "AllocationScope m pool start endv =
     (if start > endv then (0, 0, False)
      else if hm_fenced m then (0, 0, False)
      else if normalizeMode (hm_mode m) = ''load-sharing'' then
        (if hm_peer m \<noteq> PeerStateConnected then (start, endv, True)
         else
           (case splitScope start endv of (ls, le, us, ue) \<Rightarrow>
              if hm_role m = RolePrimary then (ls, le, True)
              else if hm_role m = RoleSecondary then (if us > ue then (0, 0, False) else (us, ue, True))
              else (0, 0, False)))
      else if hm_role m \<noteq> RolePrimary then (0, 0, False)
      else (start, endv, True))"

section \<open>Roles and heartbeats\<close>

definition isManualStepDownActive :: "time \<Rightarrow> Manager \<Rightarrow> bool" where
  "isManualStepDownActive now m \<longleftrightarrow> \<not> is_zero_time (hm_manualStepDownUntil m) \<and> now < hm_manualStepDownUntil m"

definition TriggerManualFailover :: "string \<Rightarrow> time \<Rightarrow> Manager \<Rightarrow> Manager \<times> string option" where
  "TriggerManualFailover reason now m =
     (if TrimSpace (hm_peerAddr m) = [] then (m, Some ''ha peer is not configured'')
      else if hm_peer m \<noteq> PeerStateConnected then (m, Some ''ha peer is not connected'')
      else if hm_role m \<noteq> RolePrimary then
        (m, Some ''manual failover can only be triggered from the current primary node'')
      else
        (let until = now + maxDuration (i64 (hm_timeout m * 2)) hour_ns;
             m1 = m\<lparr>hm_manualStepDownUntil := until, hm_role := RoleSecondary\<rparr>
         in (publishHAEvent ''ha.failover_requested''
               [(''node'', VStr (hm_node m1)), (''peer_node'', VStr (hm_peerNode m1)),
                (''reason'', VStr (TrimSpace reason)), (''manual_step_down_until'', VTime until)] m1, None)))"

definition recordHeartbeat :: "string \<Rightarrow> duration \<Rightarrow> time \<Rightarrow> Manager \<Rightarrow> Manager" where
  "recordHeartbeat peerNode latency now m =
     (let m1 = m\<lparr>hm_peer := PeerStateConnected, hm_peerNode := TrimSpace peerNode, hm_lastHeartbeatAt := now\<rparr>
      in if latency > 0 then m1\<lparr>hm_heartbeatLatency := latency\<rparr> else m1)"

definition markPeerDisconnected :: "Manager \<Rightarrow> Manager" where
  "markPeerDisconnected m =
     m\<lparr>hm_peer := PeerStateDisconnected, hm_peerNode := [], hm_snapshotDone := False,
       hm_appliedSequence := 0, hm_manualStepDownUntil := 0\<rparr>"

definition applyElection :: "string \<Rightarrow> int \<Rightarrow> bool \<Rightarrow> time \<Rightarrow> Manager \<Rightarrow> Manager" where
  "applyElection peerNode peerPriority peerDraining now m =
     (let m1 = (if \<not> is_zero_time (hm_manualStepDownUntil m) \<and> \<not> now < hm_manualStepDownUntil m
                then m\<lparr>hm_manualStepDownUntil := 0\<rparr> else m);
          nxt = electRole (hm_node m1) peerNode (hm_mode m1) True (hm_manualStepDownUntil m1) now peerDraining
                  (hm_priority m1) peerPriority
      in if hm_role m1 \<noteq> nxt then
           publishHAEvent ''ha.role_changed''
             [(''node'', VStr (hm_node m1)), (''role'', VRole nxt), (''peer'', VPeer (hm_peer m1)),
              (''peer_node'', VStr (TrimSpace peerNode))] (m1\<lparr>hm_role := nxt\<rparr>)
         else m1)"

section \<open>The witness\<close>

text \<open>\<open>ok\<close>: whether the file system carries out a write.\<close>

definition own_record :: "time \<Rightarrow> Manager \<Rightarrow> witnessRecord" where
  "own_record now m = \<lparr>wr_Node = hm_node m, wr_Priority = hm_priority m, wr_UpdatedAt = now\<rparr>"

definition refreshWitnessState :: "time \<Rightarrow> bool \<Rightarrow> Manager \<times> witness_file \<Rightarrow> Manager \<times> witness_file" where
  "refreshWitnessState now ok mw =
     (case mw of (m, f) \<Rightarrow>
        let path = TrimSpace (hm_witnessPath m) in
        if path = [] then (m, f)
        else if hm_role m \<noteq> RolePrimary \<or> hm_fenced m then
          (case witnessOwner path (hm_witnessHold m) now f of
             Inr (Some rec) \<Rightarrow> (m\<lparr>hm_witnessOwner := wr_Node rec\<rparr>, f)
           | Inr None \<Rightarrow> (m\<lparr>hm_witnessOwner := []\<rparr>, f)
           | Inl _ \<Rightarrow> (m, f))
        else
          (case writeWitnessRecord path ok (own_record now m) f of
             None \<Rightarrow>
               (publishHAEvent ''ha.fenced''
                  [(''node'', VStr (hm_node m)), (''reason'', VStr ''witness_write_failed''), (''error'', VError)]
                  (m\<lparr>hm_role := RoleSecondary, hm_fenced := True, hm_fencingReason := ''witness_write_failed'',
                     hm_witnessOwner := []\<rparr>), f)
           | Some f' \<Rightarrow> (m\<lparr>hm_witnessOwner := hm_node m, hm_fenced := False, hm_fencingReason := []\<rparr>, f')))"

definition canPromoteLocked :: "time \<Rightarrow> bool \<Rightarrow> Manager \<times> witness_file \<Rightarrow> (Manager \<times> witness_file) \<times> bool" where
  "canPromoteLocked now ok mw =
     (case mw of (m0, f) \<Rightarrow>
        let m = m0\<lparr>hm_fenced := False, hm_fencingReason := []\<rparr>; path = TrimSpace (hm_witnessPath m) in
        if path = [] then ((m\<lparr>hm_witnessOwner := []\<rparr>, f), True)
        else
          (case witnessOwner path (hm_witnessHold m) now f of
             Inl _ \<Rightarrow>
               ((publishHAEvent ''ha.fenced''
                  [(''node'', VStr (hm_node m)), (''reason'', VStr ''witness_unavailable''), (''error'', VError)]
                  (m\<lparr>hm_fenced := True, hm_fencingReason := ''witness_unavailable'', hm_witnessOwner := []\<rparr>), f), False)
           | Inr owner \<Rightarrow>
               (if (case owner of None \<Rightarrow> False
                    | Some rec \<Rightarrow> wr_Node rec \<noteq> [] \<and> \<not> EqualFold (wr_Node rec) (hm_node m)) then
                  ((publishHAEvent ''ha.fenced''
                     [(''node'', VStr (hm_node m)), (''reason'', VStr ''witness_owned_by_peer''),
                      (''witness_node'', VStr (wr_Node (the owner))), (''updated_at'', VTime (wr_UpdatedAt (the owner)))]
                     (m\<lparr>hm_fenced := True, hm_fencingReason := ''witness_owned_by_peer'',
                        hm_witnessOwner := wr_Node (the owner)\<rparr>), f), False)
                else
                  (case writeWitnessRecord path ok (own_record now m) f of
                     None \<Rightarrow>
                       ((publishHAEvent ''ha.fenced''
                          [(''node'', VStr (hm_node m)), (''reason'', VStr ''witness_claim_failed''), (''error'', VError)]
                          (m\<lparr>hm_fenced := True, hm_fencingReason := ''witness_claim_failed'', hm_witnessOwner := []\<rparr>), f),
                        False)
                   | Some f' \<Rightarrow> ((m\<lparr>hm_witnessOwner := hm_node m\<rparr>, f'), True)))))"

text \<open>One tick of \<^verbatim>\<open>watchdogLoop\<close>; the two writes may fail independently.\<close>

definition watchdog_lock :: "time \<Rightarrow> bool \<Rightarrow> Manager \<times> witness_file \<Rightarrow> Manager \<times> witness_file" where
  "watchdog_lock now ok mw =
     (case mw of (m, f) \<Rightarrow>
        if \<not> is_zero_time (hm_lastHeartbeatAt m) \<and> now - hm_lastHeartbeatAt m > hm_timeout m then
          (let m1 = m\<lparr>hm_peer := PeerStateDisconnected, hm_peerNode := [], hm_snapshotDone := False,
                      hm_appliedSequence := 0, hm_manualStepDownUntil := 0\<rparr>
           in if hm_role m \<noteq> RolePrimary then
                (case canPromoteLocked now ok (m1, f) of
                   ((m2, f2), True) \<Rightarrow>
                     (let m3 = m2\<lparr>hm_role := RolePrimary, hm_failoverCount := i64 (hm_failoverCount m2 + 1)\<rparr>
                      in (publishHAEvent ''ha.role_changed''
                            [(''node'', VStr (hm_node m3)), (''role'', VRole (hm_role m3)), (''peer'', VPeer (hm_peer m3)),
                             (''reason'', VStr ''watchdog_promote'')] m3, f2))
                 | ((m2, f2), False) \<Rightarrow> (m2, f2))
              else (m1, f))
        else (m, f))"

definition watchdog_turn :: "time \<Rightarrow> bool \<Rightarrow> bool \<Rightarrow> Manager \<times> witness_file \<Rightarrow> Manager \<times> witness_file" where
  "watchdog_turn now ok1 ok2 mw = refreshWitnessState now ok2 (watchdog_lock now ok1 mw)"

section \<open>Sequences\<close>

definition shouldRequestSnapshot :: "Manager \<Rightarrow> bool" where
  "shouldRequestSnapshot m \<longleftrightarrow> hm_peer m = PeerStateConnected \<and>
     (normalizeMode (hm_mode m) = ''load-sharing'' \<or> hm_role m = RoleSecondary)"

definition shouldReplicateLocalChanges :: "Manager \<Rightarrow> bool" where
  "shouldReplicateLocalChanges m \<longleftrightarrow> hm_peer m = PeerStateConnected \<and> \<not> hm_fenced m \<and>
     (if normalizeMode (hm_mode m) = ''load-sharing'' then hm_role m = RolePrimary \<or> hm_role m = RoleSecondary
      else hm_role m = RolePrimary)"

definition markSnapshotDone :: "int \<Rightarrow> Manager \<Rightarrow> Manager" where
  "markSnapshotDone seq m =
     (let m1 = m\<lparr>hm_snapshotDone := True\<rparr>
      in if seq > hm_appliedSequence m1 then m1\<lparr>hm_appliedSequence := seq\<rparr> else m1)"

definition nextSyncSequence :: "Manager \<Rightarrow> Manager \<times> int" where
  "nextSyncSequence m = (let n = i64 (hm_syncSequence m + 1) in (m\<lparr>hm_syncSequence := n\<rparr>, n))"

definition setAppliedSequence :: "int \<Rightarrow> Manager \<Rightarrow> Manager" where
  "setAppliedSequence seq m =
     (if seq \<le> 0 then m else if seq > hm_appliedSequence m then m\<lparr>hm_appliedSequence := seq\<rparr> else m)"

definition observeSyncSequence :: "int \<Rightarrow> Manager \<Rightarrow> Manager" where
  "observeSyncSequence seq m =
     (if seq \<le> 0 then m else if seq > hm_syncSequence m then m\<lparr>hm_syncSequence := seq\<rparr> else m)"

text \<open>Whether to apply the change, and whether to ask for a snapshot.\<close>

definition classifyIncrementalSequence :: "int \<Rightarrow> Manager \<Rightarrow> Manager \<times> bool \<times> bool" where
  "classifyIncrementalSequence seq m =
     (if seq \<le> 0 then (m, True, False)
      else if hm_appliedSequence m = 0 \<and> seq = 1 then (m, True, False)
      else if hm_appliedSequence m = 0 \<and> seq > 1 then
        (m\<lparr>hm_snapshotDone := False, hm_appliedSequence := 0\<rparr>, False, True)
      else if seq \<le> hm_appliedSequence m then (m, False, False)
      else if seq = i64 (hm_appliedSequence m + 1) then (m, True, False)
      else (m\<lparr>hm_snapshotDone := False, hm_appliedSequence := 0\<rparr>, False, True))"

end
