(* ===== verification/HaSync.thy ===== *)
theory HaSync
  imports Ha LeaseInv
begin

text \<open>
  \<^verbatim>\<open>src/internal/ha/sync.go\<close> and the connections and loops of \<^verbatim>\<open>failover.go\<close>: a node is
  the manager with its lease store (\<open>'s\<close>). The other end of a connection is a function \<open>px\<close> of its
  own state (\<open>'p\<close>), so that two nodes can be put together.
\<close>

section \<open>The replica's store\<close>

text \<open>The store, with the silent operations when it has them.\<close>

record 's replica_ops =
  rp_base :: "'s lease_ops"
  rp_UpsertSilent :: "(time \<Rightarrow> Lease \<Rightarrow> 's \<Rightarrow> 's \<times> go_error option) option"
  rp_DeleteSilent :: "(time \<Rightarrow> string \<Rightarrow> 's \<Rightarrow> 's \<times> go_error option) option"

definition upsertLeaseReplica :: "'s replica_ops \<Rightarrow> time \<Rightarrow> Lease \<Rightarrow> 's \<Rightarrow> 's \<times> go_error option" where
  "upsertLeaseReplica ro now item s =
     (case rp_UpsertSilent ro of Some f \<Rightarrow> f now item s | None \<Rightarrow> op_Upsert (rp_base ro) now item s)"

definition deleteLeaseReplica :: "'s replica_ops \<Rightarrow> time \<Rightarrow> string \<Rightarrow> 's \<Rightarrow> 's \<times> go_error option" where
  "deleteLeaseReplica ro now ip s =
     (case rp_DeleteSilent ro of Some f \<Rightarrow> f now ip s | None \<Rightarrow> op_Delete (rp_base ro) now ip s)"

fun upsert_all :: "'s replica_ops \<Rightarrow> time \<Rightarrow> Lease list \<Rightarrow> 's \<Rightarrow> 's \<times> go_error option" where
  "upsert_all ro now [] s = (s, None)"
| "upsert_all ro now (l # ls) s =
     (case upsertLeaseReplica ro now l s of (s', Some err) \<Rightarrow> (s', Some err) | (s', None) \<Rightarrow> upsert_all ro now ls s')"

fun delete_missing ::
  "'s replica_ops \<Rightarrow> time \<Rightarrow> (string \<times> Lease) list \<Rightarrow> Lease list \<Rightarrow> 's \<Rightarrow> 's \<times> go_error option" where
  "delete_missing ro now desired [] s = (s, None)"
| "delete_missing ro now desired (l # ls) s =
     (if map_of desired (TrimSpace (l_IP l)) \<noteq> None then delete_missing ro now desired ls s
      else (case deleteLeaseReplica ro now (l_IP l) s of
              (s', Some err) \<Rightarrow> (s', Some err)
            | (s', None) \<Rightarrow> delete_missing ro now desired ls s'))"

definition desired_leases :: "Lease list \<Rightarrow> (string \<times> Lease) list" where
  "desired_leases ls =
     foldl (\<lambda>d item. let ip = TrimSpace (l_IP item) in
              if ip = [] then d else mput ip (item\<lparr>l_IP := ip\<rparr>) d) [] ls"

definition applySnapshot :: "'s replica_ops \<Rightarrow> time \<Rightarrow> Manager \<Rightarrow> Lease list \<Rightarrow> 's \<Rightarrow> 's \<times> go_error option" where
  "applySnapshot ro now m leases s =
     (if \<not> hm_hasStore m then (s, None)
      else
        (let desired = desired_leases leases in
         case upsert_all ro now (map snd desired) s of
           (s1, Some err) \<Rightarrow> (s1, Some err)
         | (s1, None) \<Rightarrow>
             if normalizeMode (hm_mode m) = ''load-sharing'' then (s1, None)
             else (case op_ListAll (rp_base ro) s1 of
                     Inl err \<Rightarrow> (s1, Some err)
                   | Inr existing \<Rightarrow> delete_missing ro now desired existing s1)))"

section \<open>Answering the peer\<close>

record syncMessage =
  sm_Type :: string
  sm_Node :: string
  sm_Secret :: string
  sm_Timestamp :: time
  sm_Sequence :: int
  sm_Leases :: "Lease list"
  sm_Lease :: "Lease option"
  sm_DeleteIP :: string

definition sync_base :: "string \<Rightarrow> time \<Rightarrow> Manager \<Rightarrow> int \<Rightarrow> syncMessage" where
  "sync_base ty now m seq = \<lparr>sm_Type = ty, sm_Node = [], sm_Secret = hm_secret m, sm_Timestamp = now,
     sm_Sequence = seq, sm_Leases = [], sm_Lease = None, sm_DeleteIP = []\<rparr>"

definition updateSyncLag :: "duration \<Rightarrow> Manager \<Rightarrow> Manager" where
  "updateSyncLag lag m = m\<lparr>hm_syncLag := lag\<rparr>"

text \<open>A decoded message of the synchronisation, after its secret was accepted.\<close>

definition handle_sync ::
  "'s replica_ops \<Rightarrow> time \<Rightarrow> syncMessage \<Rightarrow> Manager \<times> 's \<Rightarrow> (Manager \<times> 's) \<times> syncMessage option" where
  "handle_sync ro now msg ms =
     (case ms of (m, s) \<Rightarrow>
        if sm_Type msg = ''snapshot_request'' then
          (let leases = (if hm_hasStore m then
               (case op_ListAll (rp_base ro) s of Inl err \<Rightarrow> [] | Inr ls \<Rightarrow> ls) else [])
           in ((m, s), Some ((sync_base ''snapshot'' now m (hm_syncSequence m))
                 \<lparr>sm_Node := hm_node m, sm_Leases := leases\<rparr>)))
        else if sm_Type msg = ''snapshot_push'' then
          (case applySnapshot ro now m (sm_Leases msg) s of
             (s', None) \<Rightarrow>
               ((updateSyncLag (now - sm_Timestamp msg) (markSnapshotDone (sm_Sequence msg) m), s'),
                Some (sync_base ''ack'' now m (sm_Sequence msg)))
           | (s', Some err) \<Rightarrow> ((m, s'), Some (sync_base ''ack'' now m (sm_Sequence msg))))
        else if sm_Type msg = ''lease_upsert'' \<or> sm_Type msg = ''lease_delete'' then
          (case classifyIncrementalSequence (sm_Sequence msg) m of (m1, apply, resync) \<Rightarrow>
             if resync then ((m1, s), Some (sync_base ''resync_required'' now m1 (sm_Sequence msg)))
             else if \<not> apply then ((m1, s), Some (sync_base ''ack'' now m1 (sm_Sequence msg)))
             else
               (let res =
                  (if sm_Type msg = ''lease_upsert'' then
                     (if hm_hasStore m1 then (case sm_Lease msg of None \<Rightarrow> None | Some l \<Rightarrow> Some (upsertLeaseReplica ro now l s))
                      else None)
                   else
                     (if hm_hasStore m1 \<and> TrimSpace (sm_DeleteIP msg) \<noteq> [] then
                        Some (deleteLeaseReplica ro now (sm_DeleteIP msg) s) else None))
                in case res of
                     None \<Rightarrow> ((m1, s), Some (sync_base ''ack'' now m1 (sm_Sequence msg)))
                   | Some (s', Some err) \<Rightarrow> ((m1, s'), Some (sync_base ''ack'' now m1 (sm_Sequence msg)))
                   | Some (s', None) \<Rightarrow>
                       ((updateSyncLag (now - sm_Timestamp msg) (setAppliedSequence (sm_Sequence msg) m1), s'),
                        Some (sync_base ''ack'' now m1 (sm_Sequence msg)))))
        else ((m, s), None))"

datatype ha_reply = ReplyHeartbeat heartbeatMessage | ReplySync syncMessage

definition pong_message :: "string \<Rightarrow> time \<Rightarrow> Manager \<Rightarrow> heartbeatMessage" where
  "pong_message ty now m = \<lparr>hb_Type = ty, hb_Node = hm_node m, hb_Role = hm_role m, hb_Mode = hm_mode m,
     hb_Priority = hm_priority m, hb_Draining = isManualStepDownActive now m, hb_Timestamp = now,
     hb_Secret = hm_secret m\<rparr>"

text \<open>
  One line of a connection: the type and the secret of its envelope, and what its two decodings give
  (\<open>None\<close>: not that message).
\<close>

definition handleConn ::
  "'s replica_ops \<Rightarrow> time \<Rightarrow> string \<Rightarrow> string \<Rightarrow> heartbeatMessage option \<Rightarrow> syncMessage option \<Rightarrow>
   Manager \<times> 's \<Rightarrow> (Manager \<times> 's) \<times> ha_reply option" where
  "handleConn ro now ty secret hb sm ms =
     (if \<not> validateSecret (hm_secret (fst ms)) secret then (ms, None)
      else if ty = ''ping'' then
        (case hb of
           None \<Rightarrow> (ms, None)
         | Some msg \<Rightarrow>
             (let m1 = recordHeartbeat (hb_Node msg) 0 now (fst ms)
              in ((m1, snd ms), Some (ReplyHeartbeat (pong_message ''pong'' now m1)))))
      else if ty \<in> {''snapshot_request'', ''snapshot_push'', ''lease_upsert'', ''lease_delete''} then
        (case sm of
           None \<Rightarrow> (ms, None)
         | Some msg \<Rightarrow> (case handle_sync ro now msg ms of (ms', r) \<Rightarrow> (ms', map_option ReplySync r)))
      else (ms, None))"

section \<open>Sending to the peer\<close>

type_synonym 'p exchange = "'p \<Rightarrow> syncMessage \<Rightarrow> 'p \<times> syncMessage option"

text \<open>The answer, or none when the connection or its secret fails.\<close>

definition send_once :: "'p exchange \<Rightarrow> Manager \<Rightarrow> syncMessage \<Rightarrow> 'p \<Rightarrow> 'p \<times> syncMessage option" where
  "send_once px m msg p =
     (case px p msg of
        (p', None) \<Rightarrow> (p', None)
      | (p', Some resp) \<Rightarrow> if validateSecret (hm_secret m) (sm_Secret resp) then (p', Some resp) else (p', None))"

text \<open>The answer to a pushed snapshot is never pushed again: its type is not an incremental one.\<close>

definition pushSnapshot ::
  "'p exchange \<Rightarrow> 's replica_ops \<Rightarrow> time \<Rightarrow> Manager \<Rightarrow> 's \<Rightarrow> 'p \<Rightarrow> 'p \<times> go_error option" where
  "pushSnapshot px ro now m s p =
     (if \<not> hm_hasStore m then (p, None)
      else (case op_ListAll (rp_base ro) s of
              Inl err \<Rightarrow> (p, Some err)
            | Inr leases \<Rightarrow>
                (case send_once px m ((sync_base ''snapshot_push'' now m (hm_syncSequence m))
                        \<lparr>sm_Node := hm_node m, sm_Leases := leases\<rparr>) p of
                   (p', None) \<Rightarrow> (p', Some (ErrMsg ''sync''))
                 | (p', Some resp) \<Rightarrow> (p', None))))"

definition sendSync ::
  "'p exchange \<Rightarrow> 's replica_ops \<Rightarrow> time \<Rightarrow> Manager \<Rightarrow> 's \<Rightarrow> syncMessage \<Rightarrow> 'p \<Rightarrow> 'p \<times> go_error option" where
  "sendSync px ro now m s msg p =
     (case send_once px m msg p of
        (p', None) \<Rightarrow> (p', Some (ErrMsg ''sync''))
      | (p', Some resp) \<Rightarrow>
          if sm_Type resp = ''resync_required'' \<and> (sm_Type msg = ''lease_upsert'' \<or> sm_Type msg = ''lease_delete'')
          then pushSnapshot px ro now m s p' else (p', None))"

definition pushLeaseUpdateWithSequence ::
  "'p exchange \<Rightarrow> 's replica_ops \<Rightarrow> time \<Rightarrow> Manager \<Rightarrow> 's \<Rightarrow> int \<Rightarrow> Lease \<Rightarrow> 'p \<Rightarrow> 'p \<times> go_error option" where
  "pushLeaseUpdateWithSequence px ro now m s seq item p =
     (if \<not> hm_hasStore m then (p, None)
      else sendSync px ro now m s ((sync_base ''lease_upsert'' now m seq)\<lparr>sm_Node := hm_node m, sm_Lease := Some item\<rparr>) p)"

definition pushLeaseDeleteWithSequence ::
  "'p exchange \<Rightarrow> 's replica_ops \<Rightarrow> time \<Rightarrow> Manager \<Rightarrow> 's \<Rightarrow> int \<Rightarrow> string \<Rightarrow> 'p \<Rightarrow> 'p \<times> go_error option" where
  "pushLeaseDeleteWithSequence px ro now m s seq ip p =
     sendSync px ro now m s ((sync_base ''lease_delete'' now m seq)\<lparr>sm_Node := hm_node m, sm_DeleteIP := ip\<rparr>) p"

definition requestSnapshot ::
  "'p exchange \<Rightarrow> 's replica_ops \<Rightarrow> time \<Rightarrow> (Manager \<times> 's) \<times> 'p \<Rightarrow> ((Manager \<times> 's) \<times> 'p) \<times> go_error option" where
  "requestSnapshot px ro now msp =
     (case msp of ((m, s), p) \<Rightarrow>
        if \<not> hm_hasStore m then (((m, s), p), None)
        else
          (case send_once px m ((sync_base ''snapshot_request'' now m 0)\<lparr>sm_Node := hm_node m\<rparr>) p of
             (p', None) \<Rightarrow> (((m, s), p'), Some (ErrMsg ''sync''))
           | (p', Some resp) \<Rightarrow>
               if sm_Type resp \<noteq> ''snapshot'' then (((m, s), p'), None)
               else (case applySnapshot ro now m (sm_Leases resp) s of
                       (s', Some err) \<Rightarrow> (((m, s'), p'), Some err)
                     | (s', None) \<Rightarrow>
                         (((markSnapshotDone (sm_Sequence resp) (updateSyncLag (now - sm_Timestamp resp) m), s'), p'), None))))"

section \<open>The loops\<close>

text \<open>One tick of \<^verbatim>\<open>heartbeatLoop\<close>: \<open>answer\<close> is the peer's answer to the ping and its latency.\<close>

definition heartbeat_turn ::
  "'p exchange \<Rightarrow> 's replica_ops \<Rightarrow> time \<Rightarrow> bool \<Rightarrow> (heartbeatMessage \<times> duration) option \<Rightarrow>
   (Manager \<times> 's) \<times> 'p \<Rightarrow> witness_file \<Rightarrow> ((Manager \<times> 's) \<times> 'p) \<times> witness_file" where
  "heartbeat_turn px ro now ok answer msp f =
     (case msp of ((m, s), p) \<Rightarrow>
        if TrimSpace (hm_peerAddr m) = [] then (msp, f)
        else (case answer of
            None \<Rightarrow> (((markPeerDisconnected m, s), p), f)
          | Some (resp, latency) \<Rightarrow>
              if \<not> validateSecret (hm_secret m) (hb_Secret resp) then (((markPeerDisconnected m, s), p), f)
              else
                (case refreshWitnessState now ok
                        (applyElection (hb_Node resp) (hb_Priority resp) (hb_Draining resp) now
                           (recordHeartbeat (hb_Node resp) latency now m), f) of
                   (m1, f1) \<Rightarrow>
                     if hm_leaseSync m1 \<and> shouldRequestSnapshot m1 \<and> \<not> hm_snapshotDone m1
                     then (fst (requestSnapshot px ro now ((m1, s), p)), f1)
                     else (((m1, s), p), f1))))"

text \<open>One turn of \<^verbatim>\<open>leaseSyncLoop\<close> over the store's mutations, and over the broker's events.\<close>

definition sync_turn ::
  "'p exchange \<Rightarrow> 's replica_ops \<Rightarrow> time \<Rightarrow> mutation_event \<Rightarrow> (Manager \<times> 's) \<times> 'p \<Rightarrow> (Manager \<times> 's) \<times> 'p" where
  "sync_turn px ro now evt msp =
     (case msp of ((m, s), p) \<Rightarrow>
        if \<not> shouldReplicateLocalChanges m then msp
        else
          (let m1 = observeSyncSequence (me_Sequence evt) m
           in if me_Op evt = OpPut then
                (case me_Lease evt of
                   None \<Rightarrow> ((m1, s), p)
                 | Some l \<Rightarrow> ((m1, s), fst (pushLeaseUpdateWithSequence px ro now m1 s (me_Sequence evt) l p)))
              else if me_Op evt = OpDel then
                (if TrimSpace (me_IP evt) \<noteq> [] then
                   ((m1, s), fst (pushLeaseDeleteWithSequence px ro now m1 s (me_Sequence evt) (me_IP evt) p))
                 else ((m1, s), p))
              else ((m1, s), p)))"

definition broker_turn ::
  "'p exchange \<Rightarrow> 's replica_ops \<Rightarrow> time \<Rightarrow> string \<Rightarrow> string \<Rightarrow> (Manager \<times> 's) \<times> 'p \<Rightarrow> (Manager \<times> 's) \<times> 'p" where
  "broker_turn px ro now evType ip msp =
     (case msp of ((m, s), p) \<Rightarrow>
        if \<not> starts_with ''lease.'' evType \<or> \<not> shouldReplicateLocalChanges m \<or> ip = [] \<or> \<not> hm_hasStore m then msp
        else
          (case nextSyncSequence m of (m1, seq) \<Rightarrow>
             (case op_GetByIP (rp_base ro) s ip of
                Inr item \<Rightarrow> ((m1, s), fst (pushLeaseUpdateWithSequence px ro now m1 s seq item p))
              | Inl _ \<Rightarrow> ((m1, s), fst (pushLeaseDeleteWithSequence px ro now m1 s seq ip p)))))"

section \<open>The interface of a replica\<close>

locale replica_store = lease_store "rp_base ro" inv view ok
  for ro :: "'s replica_ops" and inv view ok +
  assumes upsert_silent: "rp_UpsertSilent ro = Some f \<Longrightarrow> inv s \<Longrightarrow> ok (upserted now l) \<Longrightarrow>
      \<exists>s'. f now l s = (s', None) \<and> inv s' \<and> view s' = (view s)(l_IP l \<mapsto> upserted now l)"
    and delete_silent: "rp_DeleteSilent ro = Some g \<Longrightarrow> inv s \<Longrightarrow>
      \<exists>s'. g now ip s = (s', None) \<and> inv s' \<and> view s' = (view s)(ip := None)"

definition engine_replica :: "lease_json \<Rightarrow> engine replica_ops" where
  "engine_replica J = \<lparr>rp_base = engine_store J, rp_UpsertSilent = Some (ls_UpsertSilent J),
     rp_DeleteSilent = Some (ls_DeleteSilent J)\<rparr>"

interpretation er: replica_store "engine_replica J" "es_inv J" "es_view J" "lease_ok J"
proof -
  have b: "rp_base (engine_replica J) = engine_store J" by (simp add: engine_replica_def)
  show "replica_store (engine_replica J) (es_inv J) (es_view J) (lease_ok J)"
  proof (intro replica_store.intro replica_store_axioms.intro, goal_cases)
    case 1 then show ?case unfolding b by (rule es.lease_store_axioms)
  next
    case (2 f s now l) then show ?case
      using es_upsert [of J s now l True] by (auto simp: engine_replica_def ls_UpsertSilent_def)
  next
    case (3 g s now ip) then show ?case
      using es_delete [of J s True now ip] by (auto simp: engine_replica_def ls_DeleteSilent_def)
  qed
qed

end
