(* ===== verification/HaProps.thy ===== *)
theory HaProps
  imports HaSync Dhcp4Props
begin

text \<open>The properties of the pair of servers.\<close>

section \<open>The split of a scope\<close>

lemma split_unat:
  assumes "start \<le> endv"
  shows "splitScope start endv =
    (if start = endv then (start, endv, 1, 0)
     else (let mid = start + of_nat (unat (endv - start) div 2) in (start, mid, mid + 1, endv)))"
    and "start < endv \<Longrightarrow> unat (start + of_nat (unat (endv - start) div 2)) = unat start + unat (endv - start) div 2"
proof -
  let ?s = "unat start" and ?e = "unat endv" and ?d = "unat (endv - start)"
  have d: "?d = ?e - ?s" "?s \<le> ?e" "?e < 2 ^ 32"
    using assms unsigned_less [of endv, where ?'a = nat] by (auto simp: unat_sub word_le_nat_alt)
  have h: "?s + (?d + 1 + 1) div 2 - 1 = ?s + ?d div 2" by simp
  have mid: "unat (start + of_nat (?d div 2)) = ?s + ?d div 2"
    using d by (subst unat_add_lem [THEN iffD1]) (auto simp: unat_of_nat)
  then show "start < endv \<Longrightarrow> unat (start + of_nat (unat (endv - start) div 2)) = unat start + unat (endv - start) div 2"
    by simp
  have of: "(of_nat (?s + ?d div 2) :: u32) = start + of_nat (?d div 2)" by simp
  show "splitScope start endv =
    (if start = endv then (start, endv, 1, 0)
     else (let mid = start + of_nat (unat (endv - start) div 2) in (start, mid, mid + 1, endv)))"
  proof (cases "start = endv")
    case True
    then show ?thesis by (simp add: splitScope_def)
  next
    case False
    then have "?s < ?e" using d(2) by (simp add: order_less_le word_unat_eq_iff)
    then have lt: "?s + ?d div 2 < ?e" using d(1) by linarith
    then have "start + of_nat (?d div 2) < endv" using mid by (simp add: word_less_nat_alt)
    then have nle: "\<not> endv \<le> start + of_nat (?d div 2)" "\<not> endv < start" using assms by auto
    then show ?thesis
      using False lt d(3) by (simp add: splitScope_def Let_def h of nle del: of_nat_add)
  qed
qed

lemma card_word_range: "card {a..b :: u32} = unat b + 1 - unat a"
proof -
  have u: "unat (of_nat k :: u32) = k" if "k \<le> unat b" for k
    using that unsigned_less [of b, where ?'a = nat] by (simp add: unat_of_nat)
  have "{a..b} = of_nat ` {unat a..unat b}"
  proof safe
    fix x assume "x \<in> {a..b}"
    then show "x \<in> of_nat ` {unat a..unat b}" by (intro image_eqI [of _ _ "unat x"]) (auto simp: word_le_nat_alt)
  next
    fix k assume "k \<in> {unat a..unat b}"
    then show "(of_nat k :: u32) \<in> {a..b}" by (simp add: word_le_nat_alt u)
  qed
  moreover have "inj_on (of_nat :: nat \<Rightarrow> u32) {unat a..unat b}"
    by (rule inj_on_inverseI [where g = unat]) (simp add: u)
  ultimately show ?thesis by (simp add: card_image)
qed

lemma split_partition:
  assumes "start \<le> endv" "splitScope start endv = (ls, le, us, ue)"
  shows "{ls..le} \<union> {us..ue} = {start..endv}" "{ls..le} \<inter> {us..ue} = {}"
    "card {us..ue} \<le> card {ls..le}" "card {ls..le} \<le> card {us..ue} + 1"
proof -
  have "{ls..le} \<union> {us..ue} = {start..endv} \<and> {ls..le} \<inter> {us..ue} = {} \<and>
    card {us..ue} \<le> card {ls..le} \<and> card {ls..le} \<le> card {us..ue} + 1"
  proof (cases "start = endv")
    case True
    then show ?thesis using assms split_unat(1) [OF assms(1)] by auto
  next
    case False
    then have lt: "start < endv" using assms(1) by simp
    let ?d = "unat (endv - start) div 2" and ?mid = "start + of_nat (unat (endv - start) div 2)"
    have m: "unat ?mid = unat start + ?d" using split_unat(2) [OF assms(1) lt] .
    have de: "unat (endv - start) = unat endv - unat start" "unat start < unat endv" "unat endv < 2 ^ 32"
      using lt unsigned_less [of endv, where ?'a = nat] by (auto simp: unat_sub word_le_nat_alt word_less_nat_alt)
    have m1: "unat (?mid + 1) = unat start + ?d + 1"
      using m de by (subst unat_add_lem [THEN iffD1]) auto
    have r: "ls = start" "le = ?mid" "us = ?mid + 1" "ue = endv"
      using assms(2) split_unat(1) [OF assms(1)] False by (auto simp: Let_def)
    have "w \<in> {ls..le} \<union> {us..ue} \<longleftrightarrow> w \<in> {start..endv}" "w \<notin> {ls..le} \<inter> {us..ue}" for w
      unfolding r atLeastAtMost_iff Un_iff Int_iff word_le_nat_alt m m1 using de by linarith+
    then have "{ls..le} \<union> {us..ue} = {start..endv}" "{ls..le} \<inter> {us..ue} = {}" by blast+
    moreover have "card {us..ue} \<le> card {ls..le}" "card {ls..le} \<le> card {us..ue} + 1"
      unfolding r card_word_range m m1 using de by linarith+
    ultimately show ?thesis by blast
  qed
  then show "{ls..le} \<union> {us..ue} = {start..endv}" "{ls..le} \<inter> {us..ue} = {}"
    "card {us..ue} \<le> card {ls..le}" "card {ls..le} \<le> card {us..ue} + 1" by blast+
qed

text \<open>The two halves of a scope are disjoint, cover it, and differ in size by at most one address.\<close>

theorem ha_split_partition:
  assumes "start \<le> endv" "splitScope start endv = (ls, le, us, ue)"
  shows "{ls..le} \<union> {us..ue} = {start..endv} \<and> {ls..le} \<inter> {us..ue} = {} \<and>
    card {us..ue} \<le> card {ls..le} \<and> card {ls..le} \<le> card {us..ue} + 1"
  using split_partition [OF assms] by blast

section \<open>Election\<close>

text \<open>The election of one node from the identity and the state of the other.\<close>

definition elected :: "time \<Rightarrow> Manager \<Rightarrow> Manager \<Rightarrow> Manager" where
  "elected now other m = applyElection (hm_node other) (hm_priority other) (isManualStepDownActive now other) now m"

definition same_identity :: "Manager \<Rightarrow> Manager \<Rightarrow> bool" where
  "same_identity a b \<longleftrightarrow> hm_priority a = hm_priority b \<and> ToLower (TrimSpace (hm_node a)) = ToLower (TrimSpace (hm_node b))"

definition named :: "Manager \<Rightarrow> bool" where
  "named m \<longleftrightarrow> TrimSpace (hm_node m) \<noteq> [] \<and> 0 < hm_priority m"

lemma publishHAEvent_fields [simp]:
  "hm_role (publishHAEvent n d m) = hm_role m" "hm_fenced (publishHAEvent n d m) = hm_fenced m"
  "hm_peer (publishHAEvent n d m) = hm_peer m" "hm_mode (publishHAEvent n d m) = hm_mode m"
  "hm_node (publishHAEvent n d m) = hm_node m" "hm_priority (publishHAEvent n d m) = hm_priority m"
  "hm_witnessPath (publishHAEvent n d m) = hm_witnessPath m"
  "hm_manualStepDownUntil (publishHAEvent n d m) = hm_manualStepDownUntil m"
  "hm_peerAddr (publishHAEvent n d m) = hm_peerAddr m"
  "hm_secret (publishHAEvent n d m) = hm_secret m"
  "hm_timeout (publishHAEvent n d m) = hm_timeout m"
  by (simp_all add: publishHAEvent_def)

lemma ToLower_nonempty [simp]: "ToLower s = [] \<longleftrightarrow> s = []"
  by (simp add: ToLower_def)

lemma electRole_connected:
  assumes "TrimSpace ln \<noteq> []" "TrimSpace rn \<noteq> []" "0 < lp" "0 < rp"
  shows "electRole ln rn mode True until now drain lp rp =
    (if \<not> is_zero_time until \<and> now < until then RoleSecondary
     else if drain then RolePrimary
     else if lp < rp \<or> (lp = rp \<and> ToLower (TrimSpace ln) \<le> ToLower (TrimSpace rn)) then RolePrimary
     else RoleSecondary)"
  using assms by (simp add: electRole_def Let_def)

lemma elected_role:
  assumes "named m" "named other"
  shows "hm_role (elected now other m) =
    (if isManualStepDownActive now m then RoleSecondary
     else if isManualStepDownActive now other then RolePrimary
     else if hm_priority m < hm_priority other \<or>
       (hm_priority m = hm_priority other \<and> ToLower (TrimSpace (hm_node m)) \<le> ToLower (TrimSpace (hm_node other)))
     then RolePrimary else RoleSecondary)"
  using assms
  by (simp add: elected_def applyElection_def Let_def electRole_connected named_def isManualStepDownActive_def
      is_zero_time_def)


text \<open>After a manual failover of the primary, and another one of the new primary within the hour, both
  nodes elect themselves secondary, and in the active-passive mode neither serves any address.\<close>

theorem ha_double_failover_outage:
  assumes "named a" "named b" "normalizeMode (hm_mode a) = ''active-passive''" "normalizeMode (hm_mode b) = ''active-passive''"
    and "TriggerManualFailover r1 t1 a = (a1, None)"
    and "TriggerManualFailover r2 t2 (elected t1 a1 b) = (b1, None)"
    and "0 < t1" "t1 \<le> t2" "t2 \<le> now" "now < t1 + hour_ns"
  shows "hm_role (elected now b1 a1) = RoleSecondary \<and> hm_role (elected now a1 b1) = RoleSecondary \<and>
    AllocationScope (elected now b1 a1) pool lo hi = (0, 0, False) \<and>
    AllocationScope (elected now a1 b1) pool lo hi = (0, 0, False)"
proof -
  have hp: "0 < hour_ns" by (simp add: hour_ns_def minute_ns_def second_ns_def)
  have a1: "t1 + hour_ns \<le> hm_manualStepDownUntil a1" "hm_node a1 = hm_node a" "hm_priority a1 = hm_priority a"
    "hm_mode a1 = hm_mode a"
    using assms(5) by (auto simp: TriggerManualFailover_def Let_def maxDuration_def split: if_splits)
  let ?b = "elected t1 a1 b"
  have b0: "hm_node ?b = hm_node b" "hm_priority ?b = hm_priority b" "hm_mode ?b = hm_mode b"
    by (auto simp: elected_def applyElection_def Let_def)
  have b1: "t2 + hour_ns \<le> hm_manualStepDownUntil b1" "hm_node b1 = hm_node b" "hm_priority b1 = hm_priority b"
    "hm_mode b1 = hm_mode b"
    using assms(6) b0 by (auto simp: TriggerManualFailover_def Let_def maxDuration_def split: if_splits)
  have act: "isManualStepDownActive now a1" "isManualStepDownActive now b1"
    using a1(1) b1(1) assms(7-10) hp by (auto simp: isManualStepDownActive_def is_zero_time_def)
  have n: "named a1" "named b1" using assms(1,2) a1 b1 by (auto simp: named_def)
  have md: "normalizeMode (hm_mode (elected now b1 a1)) = ''active-passive''"
    "normalizeMode (hm_mode (elected now a1 b1)) = ''active-passive''"
    using assms(3,4) a1 b1 by (auto simp: elected_def applyElection_def Let_def)
  have r: "hm_role (elected now b1 a1) = RoleSecondary" "hm_role (elected now a1 b1) = RoleSecondary"
    using act by (simp_all add: elected_role n)
  then show ?thesis using md by (auto simp: AllocationScope_def)
qed

section \<open>Sharing the addresses\<close>

lemma scope_disjoint:
  assumes "AllocationScope a pool start endv = (a1, b1, True)" "AllocationScope b pool start endv = (a2, b2, True)"
    and "normalizeMode (hm_mode a) = normalizeMode (hm_mode b)"
    and "hm_peer a = PeerStateConnected" "hm_peer b = PeerStateConnected"
    and "hm_role a = RolePrimary \<and> hm_role b = RoleSecondary"
  shows "{a1..b1} \<inter> {a2..b2} = {}"
proof -
  have le: "start \<le> endv" using assms(1) by (simp add: AllocationScope_def split: if_splits)
  have ls: "normalizeMode (hm_mode b) = ''load-sharing''" and "\<not> hm_fenced a" "\<not> hm_fenced b"
    using assms by (auto simp: AllocationScope_def split: if_splits)
  obtain ls le us ue where s: "splitScope start endv = (ls, le, us, ue)" by (cases "splitScope start endv")
  have "a1 = ls" "b1 = le" "a2 = us" "b2 = ue"
    using assms ls le s by (auto simp: AllocationScope_def not_less split: if_splits)
  moreover have "{ls..le} \<inter> {us..ue} = {}" using split_partition(2) [OF le s] .
  ultimately show ?thesis by simp
qed

text \<open>An address that a server takes from a pool for a client that has none there.\<close>

definition fresh_choice :: "PoolManager \<Rightarrow> subnetPool \<Rightarrow> ip \<Rightarrow> bool" where
  "fresh_choice pm pool p \<longleftrightarrow> nextFree pm pool = Inr (Some p) \<or> tryAllocateSpecific pm [pool] p = Inr (Some pool)"

lemma nextFree_loop_range:
  "nextFree_loop pool u e = Inr (Some w) \<Longrightarrow> u \<le> w \<and> w \<le> e"
proof (induction pool u e rule: nextFree_loop.induct)
  case (1 pool u e)
  have ne: "\<not> u > e" using "1.prems" by (auto simp: nextFree_loop.simps [of pool u e] split: if_splits)
  obtain used where b: "bit_at pool u = Inr used"
    using "1.prems" ne by (auto simp: nextFree_loop.simps [of pool u e] split: sum.splits)
  show ?case
  proof (cases "\<not> used")
    case True
    then show ?thesis using "1.prems" ne b by (simp add: nextFree_loop.simps [of pool u e])
  next
    case False
    then have m: "u \<noteq> - 1" using "1.prems" ne b by (auto simp: nextFree_loop.simps [of pool u e])
    then have "1 + u \<noteq> 0" by (metis add_eq_0_iff)
    then have "u \<le> u + 1" using unatSuc [of u] by (simp add: word_le_nat_alt add.commute)
    moreover have "u + 1 \<le> w \<and> w \<le> e"
      using "1.IH" [OF ne b _ m] "1.prems" ne b m False by (simp add: nextFree_loop.simps [of pool u e])
    ultimately show ?thesis by auto
  qed
qed

lemma fresh_range:
  assumes "fresh_choice pm pool p"
  shows "\<exists>a b. effectiveRange pm pool = Some (a, b) \<and> a \<le> ipv4ToUint32 p \<and> ipv4ToUint32 p \<le> b"
proof (cases "effectiveRange pm pool")
  case None
  then show ?thesis using assms by (auto simp: fresh_choice_def nextFree_def Let_def split: if_splits)
next
  case (Some ab)
  obtain a b where ab: "ab = (a, b)" by (cases ab)
  show ?thesis
  proof (cases "nextFree pm pool = Inr (Some p)")
    case True
    then obtain z where "nextFree_loop pool a b = Inr (Some z)" "p = uint32ToIPv4 z"
      using Some ab by (auto simp: nextFree_def rbind_Inr_conv)
    then show ?thesis using Some ab nextFree_loop_range by (auto simp: uint32ToIPv4_def ipv4ToUint32_def)
  next
    case False
    then show ?thesis using Some ab assms by (auto simp: fresh_choice_def Let_def not_less split: if_splits)
  qed
qed

lemma effective_scope:
  assumes "pm_scope pm = Some f" "effectiveRange pm pool = Some (a, b)"
  shows "\<exists>a0 b0. f (sp_id pool) (sp_start pool) (sp_end pool) = (a0, b0, True) \<and> a0 \<le> a \<and> b \<le> b0"
  using assms by (auto simp: effectiveRange_def Let_def split: prod.splits if_splits)

text \<open>C9: two named servers in the same mode that are connected, have each elected from the other's heartbeat, and share a
  pool by the scope of their managers, never take the same new address from it, when exactly one of them is stepping down, or
  neither is and their identities differ. With equal identities, as by default, both elect themselves and both serve the whole pool.\<close>

theorem ha_no_double_allocation:
  assumes "named a" "named b" "\<not> (isManualStepDownActive now a \<and> isManualStepDownActive now b)"
    and "isManualStepDownActive now a \<or> isManualStepDownActive now b \<or> \<not> same_identity a b"
    and "hm_peer a = PeerStateConnected" "hm_peer b = PeerStateConnected"
    and "normalizeMode (hm_mode a) = normalizeMode (hm_mode b)"
    and "pm_scope pma = Some (AllocationScope (elected now b a))" "pm_scope pmb = Some (AllocationScope (elected now a b))"
    and "strip poola = strip poolb" "fresh_choice pma poola p" "fresh_choice pmb poolb q"
  shows "p \<noteq> q"
proof
  assume pq: "p = q"
  let ?a = "elected now b a" and ?b = "elected now a b" and ?u = "ipv4ToUint32 p"
  have f: "hm_peer (elected now y x) = hm_peer x" "hm_mode (elected now y x) = hm_mode x" for x y
    by (simp_all add: elected_def applyElection_def Let_def)
  have roles: "hm_role ?a = RolePrimary \<and> hm_role ?b = RoleSecondary \<or> hm_role ?b = RolePrimary \<and> hm_role ?a = RoleSecondary"
    using assms(1-4) by (auto simp: elected_role same_identity_def)
  obtain a1 b1 where r1: "AllocationScope ?a (sp_id poola) (sp_start poola) (sp_end poola) = (a1, b1, True)" "?u \<in> {a1..b1}"
    using fresh_range [OF assms(11)] effective_scope [OF assms(8)] by fastforce
  obtain a2 b2 where r2: "AllocationScope ?b (sp_id poolb) (sp_start poolb) (sp_end poolb) = (a2, b2, True)" "?u \<in> {a2..b2}"
    using fresh_range [OF assms(12)] effective_scope [OF assms(9)] pq by fastforce
  have "sp_id poolb = sp_id poola" "sp_start poolb = sp_start poola" "sp_end poolb = sp_end poola"
    using strip_eqD [OF assms(10)] by auto
  then have r2': "AllocationScope ?b (sp_id poola) (sp_start poola) (sp_end poola) = (a2, b2, True)" using r2(1) by simp
  have md: "normalizeMode (hm_mode ?a) = normalizeMode (hm_mode ?b)" using assms(7) by (simp add: f)
  have pr: "hm_peer ?a = PeerStateConnected" "hm_peer ?b = PeerStateConnected" using assms(5,6) by (simp_all add: f)
  from roles have "{a1..b1} \<inter> {a2..b2} = {}"
    using scope_disjoint [OF r1(1) r2' md pr] scope_disjoint [OF r2' r1(1) md [symmetric] pr(2,1)] by blast
  then show False using r1(2) r2(2) by blast
qed

section \<open>Fencing\<close>

text \<open>C25: with a witness file, a tick of the watchdog makes a node primary only when the file holds no fresh
  claim of another node, and the file then names the new primary, which is not fenced.\<close>

theorem ha_promotion_needs_witness:
  assumes "watchdog_turn now ok1 ok2 (m, f) = (m', f')"
    and "hm_role m \<noteq> RolePrimary" "hm_role m' = RolePrimary" "TrimSpace (hm_witnessPath m) \<noteq> []"
  shows "(\<forall>rec. witnessOwner (TrimSpace (hm_witnessPath m)) (hm_witnessHold m) now f = Inr (Some rec) \<longrightarrow>
        EqualFold (wr_Node rec) (hm_node m)) \<and>
    witnessOwner (TrimSpace (hm_witnessPath m)) (hm_witnessHold m) now f \<noteq> Inl OtherError \<and>
    f' = WitnessFile (own_record now m) \<and> \<not> hm_fenced m'"
proof -
  obtain m1 f1 where l: "watchdog_lock now ok1 (m, f) = (m1, f1)" by force
  have r: "refreshWitnessState now ok2 (m1, f1) = (m', f')" using assms(1) l by (simp add: watchdog_turn_def)
  have keep: "hm_role m1 = RolePrimary"
  proof (rule ccontr)
    assume n: "hm_role m1 \<noteq> RolePrimary"
    then show False using r assms(3)
      by (auto simp: refreshWitnessState_def Let_def split: if_splits sum.splits option.splits)
  qed
  let ?m0 = "m\<lparr>hm_peer := PeerStateDisconnected, hm_peerNode := [], hm_snapshotDone := False,
     hm_appliedSequence := 0, hm_manualStepDownUntil := 0\<rparr>"
  have to: "\<not> is_zero_time (hm_lastHeartbeatAt m) \<and> now - hm_lastHeartbeatAt m > hm_timeout m"
    using l keep assms(2) by (auto simp: watchdog_lock_def split: if_splits)
  obtain m2 f2 b where c: "canPromoteLocked now ok1 (?m0, f) = ((m2, f2), b)" by (metis surj_pair)
  have "b" using l to keep assms(2) c
    by (cases b) (auto simp: watchdog_lock_def Let_def canPromoteLocked_def split: if_splits sum.splits option.splits)
  with l to assms(2) c have m1: "f1 = f2" "hm_fenced m1 = hm_fenced m2" "hm_node m1 = hm_node m2"
    "hm_priority m1 = hm_priority m2" "hm_witnessPath m1 = hm_witnessPath m2"
    by (auto simp: watchdog_lock_def Let_def)
  have m2: "\<not> hm_fenced m2" "hm_node m2 = hm_node m" "hm_priority m2 = hm_priority m" "hm_witnessPath m2 = hm_witnessPath m"
    and own: "\<exists>owner. witnessOwner (TrimSpace (hm_witnessPath m)) (hm_witnessHold m) now f = Inr owner \<and>
      (\<forall>rec. owner = Some rec \<longrightarrow> wr_Node rec = [] \<or> EqualFold (wr_Node rec) (hm_node m))"
    using c \<open>b\<close> assms(4) by (auto simp: canPromoteLocked_def Let_def split: if_splits sum.splits option.splits)
  have ne: "wr_Node rec \<noteq> []" if "witnessOwner path hold t g = Inr (Some rec)" for path hold t g rec
    using that by (auto simp: witnessOwner_def split: sum.splits witness_error.splits if_splits)
  have nf: "\<not> hm_fenced m1" using m1 m2 by simp
  have rec: "own_record now m1 = own_record now m" using m1 m2 by (simp add: own_record_def)
  have "f' = WitnessFile (own_record now m)" "\<not> hm_fenced m'"
    using r keep nf assms(3,4) m1 m2 rec
    by (auto simp: refreshWitnessState_def Let_def writeWitnessRecord_def split: if_splits option.splits)
  then show ?thesis using own ne by auto
qed

text \<open>What the steps other than elections and the witness leave alone.\<close>

definition core :: "Manager \<Rightarrow> Role \<times> bool \<times> time \<times> string \<times> string \<times> int \<times> string \<times> string" where
  "core m = (hm_role m, hm_fenced m, hm_manualStepDownUntil m, hm_node m, hm_mode m, hm_priority m, hm_secret m, hm_peerAddr m)"

lemma core_simps [simp]:
  "core (markSnapshotDone q m) = core m" "core (updateSyncLag lag m) = core m"
  "core (setAppliedSequence q m) = core m" "core (fst (classifyIncrementalSequence q m)) = core m"
  "core (recordHeartbeat pn lat t m) = core m"
  by (simp_all add: core_def markSnapshotDone_def updateSyncLag_def setAppliedSequence_def
      classifyIncrementalSequence_def recordHeartbeat_def Let_def)

lemma core_sync: "core (fst (fst (handle_sync ro now msg ms))) = core (fst ms)"
proof -
  obtain m s where ms: "ms = (m, s)" by (cases ms)
  have c: "core m1 = core m" if "classifyIncrementalSequence q m = (m1, a, r)" for q m1 a r
    using core_simps(4) [of q m] that by simp
  show ?thesis
    unfolding ms by (auto simp: handle_sync_def c split: sum.splits prod.splits option.splits if_splits)
qed

lemma core_request: "core (fst (fst (fst (requestSnapshot px ro now msp)))) = core (fst (fst msp))"
  by (auto simp: requestSnapshot_def split: prod.splits option.splits)

text \<open>The steps of a node without an operator.\<close>

datatype ha_tick =
    TickHeartbeat time bool "(heartbeatMessage \<times> duration) option"
  | TickWatchdog time bool bool
  | TickPing time string
  | TickSync time syncMessage

fun ha_step :: "'p exchange \<Rightarrow> 's replica_ops \<Rightarrow> ha_tick \<Rightarrow>
  ((Manager \<times> 's) \<times> 'p) \<times> witness_file \<Rightarrow> ((Manager \<times> 's) \<times> 'p) \<times> witness_file" where
  "ha_step px ro (TickHeartbeat now ok answer) (msp, f) = heartbeat_turn px ro now ok answer msp f"
| "ha_step px ro (TickWatchdog now ok1 ok2) (((m, s), p), f) =
     (case watchdog_turn now ok1 ok2 (m, f) of (m', f') \<Rightarrow> (((m', s), p), f'))"
| "ha_step px ro (TickPing now node) (((m, s), p), f) = (((recordHeartbeat node 0 now m, s), p), f)"
| "ha_step px ro (TickSync now msg) (((m, s), p), f) = ((fst (handle_sync ro now msg (m, s)), p), f)"

definition ha_run :: "'p exchange \<Rightarrow> 's replica_ops \<Rightarrow> ha_tick list \<Rightarrow>
  ((Manager \<times> 's) \<times> 'p) \<times> witness_file \<Rightarrow> ((Manager \<times> 's) \<times> 'p) \<times> witness_file" where
  "ha_run px ro ticks x = fold (ha_step px ro) ticks x"

text \<open>The peer of a heartbeat loses the election.\<close>

definition beats :: "Manager \<Rightarrow> heartbeatMessage \<Rightarrow> bool" where
  "beats m resp \<longleftrightarrow> electRole (hm_node m) (hb_Node resp) (hm_mode m) True 0 0 (hb_Draining resp) (hm_priority m) (hb_Priority resp) = RolePrimary"

definition wins_all :: "Manager \<Rightarrow> ha_tick list \<Rightarrow> bool" where
  "wins_all m ticks \<longleftrightarrow> (\<forall>now ok resp lat. TickHeartbeat now ok (Some (resp, lat)) \<in> set ticks \<longrightarrow> beats m resp)"

definition stuck :: "Manager \<Rightarrow> Manager \<Rightarrow> bool" where
  "stuck m0 m \<longleftrightarrow> hm_role m = RolePrimary \<and> hm_fenced m \<and> hm_manualStepDownUntil m = 0 \<and>
     hm_node m = hm_node m0 \<and> hm_mode m = hm_mode m0 \<and> hm_priority m = hm_priority m0"

lemma stuck_core: "core m' = core m \<Longrightarrow> stuck m0 m \<Longrightarrow> stuck m0 m'"
  by (simp add: stuck_def core_def)

lemma stuck_witness:
  assumes "stuck m0 m" shows "stuck m0 (fst (refreshWitnessState now ok (m, f)))"
  using assms by (auto simp: refreshWitnessState_def stuck_def Let_def split: sum.splits option.splits)

lemma electRole_until: "electRole ln rn md c 0 now d lp rp = electRole ln rn md c 0 0 d lp rp"
  by (simp add: electRole_def is_zero_time_def)

lemma stuck_election:
  assumes "stuck m0 m" "beats m0 resp"
  shows "applyElection (hb_Node resp) (hb_Priority resp) (hb_Draining resp) now m = m"
proof -
  have "electRole (hm_node m) (hb_Node resp) (hm_mode m) True 0 now (hb_Draining resp) (hm_priority m) (hb_Priority resp) = RolePrimary"
    using assms electRole_until [of "hm_node m" "hb_Node resp" "hm_mode m" True now]
    by (simp add: stuck_def beats_def)
  then show ?thesis using assms(1) by (simp add: applyElection_def Let_def stuck_def is_zero_time_def)
qed

lemma stuck_step:
  assumes "stuck m0 (fst (fst (fst x)))" "wins_all m0 [tick]"
  shows "stuck m0 (fst (fst (fst (ha_step px ro tick x))))"
proof -
  obtain m s p f where x: "x = (((m, s), p), f)" by (metis surj_pair)
  have st: "stuck m0 m" using assms(1) x by simp
  have dis: "stuck m0 (markPeerDisconnected m)" using st by (simp add: stuck_def markPeerDisconnected_def)
  show ?thesis
  proof (cases tick)
    case (TickHeartbeat now ok answer)
    show ?thesis
    proof (cases answer)
      case None
      then show ?thesis using TickHeartbeat x st dis by (simp add: heartbeat_turn_def)
    next
      case (Some rl)
      obtain resp lat where rl: "rl = (resp, lat)" by (cases rl)
      then have b: "beats m0 resp" using assms(2) TickHeartbeat Some by (auto simp: wins_all_def)
      have st1: "stuck m0 (recordHeartbeat (hb_Node resp) lat now m)" using stuck_core [OF core_simps(5) st] .
      obtain m1 f1 where w: "refreshWitnessState now ok (recordHeartbeat (hb_Node resp) lat now m, f) = (m1, f1)" by force
      have st2: "stuck m0 m1" using stuck_witness [OF st1, of now ok f] w by simp
      have "stuck m0 (fst (fst (fst (requestSnapshot px ro now ((m1, s), p)))))"
        using stuck_core [OF core_request] st2 by fastforce
      then show ?thesis
        using TickHeartbeat Some rl x st dis st2 w stuck_election [OF st1 b] by (simp add: heartbeat_turn_def)
    qed
  next
    case (TickWatchdog now ok1 ok2)
    have "stuck m0 (fst (watchdog_lock now ok1 (m, f)))"
      using st by (auto simp: watchdog_lock_def stuck_def Let_def)
    then have "stuck m0 (fst (watchdog_turn now ok1 ok2 (m, f)))"
      using stuck_witness by (metis watchdog_turn_def surj_pair fst_conv)
    then show ?thesis using TickWatchdog x by (auto split: prod.splits)
  next
    case (TickPing now node)
    then show ?thesis using x stuck_core [OF core_simps(5) st] by simp
  next
    case (TickSync now msg)
    then show ?thesis using x stuck_core [OF _ st] core_sync [of ro now msg "(m, s)"] by simp
  qed
qed

text \<open>C26: a node that is fenced while it wins the election stays fenced through every sequence of heartbeats,
  losses of the peer, watchdog ticks and messages, however good the witness file is: it never serves an
  address again until an operator steps in.\<close>

theorem ha_fence_never_lifted:
  assumes "hm_role m = RolePrimary" "hm_fenced m" "hm_manualStepDownUntil m = 0" "wins_all m ticks"
    and "ha_run px ro ticks (((m, s), p), f) = (((m', s'), p'), f')"
  shows "hm_fenced m' \<and> hm_role m' = RolePrimary \<and> AllocationScope m' pool lo hi = (0, 0, False)"
proof -
  have "stuck m (fst (fst (fst (fold (ha_step px ro) ticks x))))" if "stuck m (fst (fst (fst x)))" "wins_all m ticks" for x
    using that
  proof (induction ticks arbitrary: x)
    case (Cons t ts)
    have "wins_all m [t]" "wins_all m ts" using Cons.prems(2) by (auto simp: wins_all_def)
    then show ?case using Cons.IH stuck_step [OF Cons.prems(1)] by simp
  qed simp
  from this [of "(((m, s), p), f)"] assms have "stuck m m'" by (simp add: stuck_def ha_run_def)
  then show ?thesis by (simp add: stuck_def AllocationScope_def)
qed

section \<open>Replication\<close>

text \<open>A list of leases as the map that a snapshot stores.\<close>

definition snap_map :: "time \<Rightarrow> Lease list \<Rightarrow> string \<rightharpoonup> Lease" where
  "snap_map now ls ip = map_option (upserted now) (find (\<lambda>l. l_IP l = ip) ls)"

definition snap_ok :: "(Lease \<Rightarrow> bool) \<Rightarrow> time \<Rightarrow> Lease list \<Rightarrow> bool" where
  "snap_ok ok now ls \<longleftrightarrow> distinct (map l_IP ls) \<and>
     (\<forall>l\<in>set ls. TrimSpace (l_IP l) = l_IP l \<and> l_IP l \<noteq> [] \<and> ok (upserted now l))"

lemma desired_acc:
  "\<forall>l\<in>set ls. TrimSpace (l_IP l) = l_IP l \<and> l_IP l \<noteq> [] \<Longrightarrow> distinct (map fst d @ map l_IP ls) \<Longrightarrow>
   foldl (\<lambda>d item. let ip = TrimSpace (l_IP item) in
              if ip = [] then d else mput ip (item\<lparr>l_IP := ip\<rparr>) d) d ls = d @ map (\<lambda>l. (l_IP l, l)) ls"
  by (induction ls arbitrary: d) (auto simp: Let_def mput_fresh)

lemma desired_ok: "snap_ok ok now ls \<Longrightarrow> desired_leases ls = map (\<lambda>l. (l_IP l, l)) ls"
  using desired_acc [of ls "[]"] by (auto simp: desired_leases_def snap_ok_def)

lemma map_of_desired: "map_of (map (\<lambda>l. (l_IP l, l)) ls) ip = find (\<lambda>l. l_IP l = ip) ls"
  by (induction ls) auto

context replica_store
begin

lemma replica_upsert:
  "inv s \<Longrightarrow> ok (upserted now l) \<Longrightarrow>
   \<exists>s'. upsertLeaseReplica ro now l s = (s', None) \<and> inv s' \<and> view s' = (view s)(l_IP l \<mapsto> upserted now l)"
  using upsert upsert_silent by (auto simp: upsertLeaseReplica_def split: option.splits)

lemma replica_delete:
  "inv s \<Longrightarrow> \<exists>s'. deleteLeaseReplica ro now ip s = (s', None) \<and> inv s' \<and> view s' = (view s)(ip := None)"
  using delete delete_silent by (auto simp: deleteLeaseReplica_def split: option.splits)

lemma upsert_all_ok:
  "inv s \<Longrightarrow> \<forall>l\<in>set ls. ok (upserted now l) \<Longrightarrow> distinct (map l_IP ls) \<Longrightarrow>
   \<exists>s'. upsert_all ro now ls s = (s', None) \<and> inv s' \<and> view s' = view s ++ snap_map now ls"
proof (induction ls arbitrary: s)
  case Nil
  have "snap_map now [] = Map.empty" by (rule ext) (simp add: snap_map_def)
  then show ?case using Nil by simp
next
  case (Cons l ls)
  have "ok (upserted now l)" using Cons.prems(2) by simp
  from replica_upsert [OF Cons.prems(1) this] obtain s1 where
    s1: "upsertLeaseReplica ro now l s = (s1, None)" "inv s1" "view s1 = (view s)(l_IP l \<mapsto> upserted now l)"
    by blast
  obtain s2 where s2: "upsert_all ro now ls s1 = (s2, None)" "inv s2" "view s2 = view s1 ++ snap_map now ls"
    using Cons.IH [OF s1(2)] Cons.prems by auto
  have "find (\<lambda>m. l_IP m = l_IP l) ls = None" using Cons.prems(3) by (auto simp: find_None_iff) (metis image_eqI)
  then have "(view s)(l_IP l \<mapsto> upserted now l) ++ snap_map now ls = view s ++ snap_map now (l # ls)"
    by (auto simp: fun_eq_iff snap_map_def map_add_def split: option.splits)
  then show ?case using s1 s2 by simp
qed

lemma delete_missing_ok:
  "inv s \<Longrightarrow> \<exists>s'. delete_missing ro now desired ls s = (s', None) \<and> inv s' \<and>
     (\<forall>ip. view s' ip = (if \<exists>l\<in>set ls. l_IP l = ip \<and> map_of desired (TrimSpace ip) = None then None else view s ip))"
proof (induction ls arbitrary: s)
  case (Cons l ls)
  show ?case
  proof (cases "map_of desired (TrimSpace (l_IP l))")
    case (Some x)
    then show ?thesis using Cons.IH [OF Cons.prems] by auto
  next
    case None
    obtain s1 where s1: "deleteLeaseReplica ro now (l_IP l) s = (s1, None)" "inv s1" "view s1 = (view s)(l_IP l := None)"
      using replica_delete [OF Cons.prems] by blast
    then show ?thesis using Cons.IH [OF s1(2)] None by auto
  qed
qed simp

lemma applySnapshot_ok:
  assumes "inv s" "hm_hasStore m" "snap_ok ok now ls"
  shows "\<exists>s'. applySnapshot ro now m ls s = (s', None) \<and> inv s' \<and>
    (if normalizeMode (hm_mode m) = ''load-sharing'' then view s' = view s ++ snap_map now ls
     else \<forall>ip. TrimSpace ip = ip \<longrightarrow> view s' ip = snap_map now ls ip)"
proof -
  note d = desired_ok [OF assms(3)]
  have "\<forall>l\<in>set ls. ok (upserted now l)" "distinct (map l_IP ls)" using assms(3) by (auto simp: snap_ok_def)
  from upsert_all_ok [OF assms(1) this] obtain s1 where
    s1: "upsert_all ro now ls s = (s1, None)" "inv s1" "view s1 = view s ++ snap_map now ls"
    by blast
  show ?thesis
  proof (cases "normalizeMode (hm_mode m) = ''load-sharing''")
    case True
    then show ?thesis using s1 assms(2) by (simp add: applySnapshot_def d comp_def)
  next
    case False
    obtain ex where ex: "op_ListAll (rp_base ro) s1 = Inr ex" "set ex = {l. view s1 (l_IP l) = Some l}"
      using list_all [OF s1(2)] by blast
    obtain s2 where s2: "delete_missing ro now (desired_leases ls) ex s1 = (s2, None)" "inv s2"
      "\<forall>ip. view s2 ip = (if \<exists>l\<in>set ex. l_IP l = ip \<and> map_of (desired_leases ls) (TrimSpace ip) = None then None else view s1 ip)"
      using delete_missing_ok [OF s1(2)] by blast
    have "view s2 ip = snap_map now ls ip" if t: "TrimSpace ip = ip" for ip
    proof (cases "find (\<lambda>l. l_IP l = ip) ls")
      case (Some l)
      then show ?thesis using s2(3) s1(3) t by (simp add: d map_of_desired snap_map_def map_add_def)
    next
      case None
      then have "view s2 ip = (if \<exists>l\<in>set ex. l_IP l = ip then None else view s1 ip)"
        using s2(3) t by (simp add: d map_of_desired)
      moreover have "view s1 ip = None" if "\<not> (\<exists>l\<in>set ex. l_IP l = ip)"
      proof (rule ccontr)
        assume "view s1 ip \<noteq> None"
        then obtain l where "view s1 ip = Some l" by auto
        with that show False using ex(2) view_ip [OF s1(2), of ip l] by auto
      qed
      ultimately show ?thesis using None by (auto simp: snap_map_def)
    qed
    then show ?thesis using s1 s2 ex assms(2) False by (auto simp: applySnapshot_def d comp_def)
  qed
qed

end

text \<open>The other node as the end of a connection: its answer to one message at the time \<open>t\<close>.\<close>

definition peer_of :: "'s replica_ops \<Rightarrow> time \<Rightarrow> (Manager \<times> 's) exchange" where
  "peer_of ro t p msg =
     (case handleConn ro t (sm_Type msg) (sm_Secret msg) None (Some msg) p of
        (p', Some (ReplySync resp)) \<Rightarrow> (p', Some resp)
      | (p', _) \<Rightarrow> (p', None))"

text \<open>C24: in the active-passive mode a snapshot makes the leases of the standby exactly the leases of the
  message, each with its defaults, and deletes every other one; in the load-sharing mode it only adds.\<close>

theorem ha_snapshot_exact:
  assumes "es_inv J e" "hm_hasStore m" "snap_ok (lease_ok J) now ls"
    and "applySnapshot (engine_replica J) now m ls e = (e', err)"
  shows "err = None \<and> es_inv J e' \<and>
    (if normalizeMode (hm_mode m) = ''load-sharing'' then es_view J e' = es_view J e ++ snap_map now ls
     else \<forall>ip. TrimSpace ip = ip \<longrightarrow> es_view J e' ip = snap_map now ls ip)"
  using er.applySnapshot_ok [OF assms(1-3)] assms(4) by auto

lemma sync_secret: "validateSecret x x" by (simp add: validateSecret_def)

lemma sync_base_fields [simp]:
  "sm_Type (sync_base ty t m q) = ty" "sm_Secret (sync_base ty t m q) = hm_secret m"
  "sm_Sequence (sync_base ty t m q) = q"
  by (simp_all add: sync_base_def)

text \<open>What pushing the snapshot does to the other node.\<close>

lemma push_snapshot_ok:
  assumes inv: "es_inv J ea" "es_inv J eb" and "hm_hasStore a" "hm_hasStore b" "hm_secret b = hm_secret a"
    and le: "\<forall>k l. es_view J ea k = Some l \<longrightarrow> TrimSpace k = k \<and> k \<noteq> [] \<and> lease_ok J (upserted tb l)"
  shows "\<exists>b' eb'. pushSnapshot (peer_of (engine_replica J) tb) (engine_replica J) ta a ea (b, eb) = ((b', eb'), None) \<and>
    es_inv J eb' \<and> hm_syncSequence a \<le> hm_appliedSequence b' \<and>
    (\<forall>k l. es_view J ea k = Some l \<longrightarrow> es_view J eb' k = Some (upserted tb l)) \<and>
    (normalizeMode (hm_mode b) \<noteq> ''load-sharing'' \<longrightarrow>
      (\<forall>k. TrimSpace k = k \<longrightarrow> es_view J eb' k = map_option (upserted tb) (es_view J ea k)))"
proof -
  have base: "rp_base (engine_replica J) = engine_store J" by (simp add: engine_replica_def)
  obtain ls where ls: "op_ListAll (engine_store J) ea = Inr ls" "distinct (map l_IP ls)"
    "set ls = {l. es_view J ea (l_IP l) = Some l}"
    using es.list_all [OF inv(1)] by blast
  have sn: "snap_ok (lease_ok J) tb ls" using ls(2,3) le by (auto simp: snap_ok_def)
  have fl: "find (\<lambda>l. l_IP l = k) ls = es_view J ea k" for k
  proof (cases "es_view J ea k")
    case None
    then show ?thesis using ls(3) by (auto simp: find_None_iff)
  next
    case (Some l)
    then have k: "l_IP l = k" using es.view_ip [OF inv(1)] by blast
    then have "l \<in> set ls" using Some ls(3) by auto
    then have "find (\<lambda>l. l_IP l = k) ls \<noteq> None" using k by (auto simp: find_None_iff)
    then obtain l' where l': "find (\<lambda>l. l_IP l = k) ls = Some l'" by auto
    then have "l' \<in> set ls" "l_IP l' = k" by (auto simp: find_Some_iff)
    then have "es_view J ea k = Some l'" using ls(3) by auto
    then show ?thesis using l' by simp
  qed
  then have sm: "snap_map tb ls k = map_option (upserted tb) (es_view J ea k)" for k by (simp add: snap_map_def)
  obtain eb' where eb': "applySnapshot (engine_replica J) tb b ls eb = (eb', None)" "es_inv J eb'"
    "if normalizeMode (hm_mode b) = ''load-sharing'' then es_view J eb' = es_view J eb ++ snap_map tb ls
     else \<forall>ip. TrimSpace ip = ip \<longrightarrow> es_view J eb' ip = snap_map tb ls ip"
    using er.applySnapshot_ok [OF inv(2) assms(4) sn] by blast
  have all: "es_view J eb' k = Some (upserted tb l)" if "es_view J ea k = Some l" for k l
    using eb'(3) that le sm [of k] by (auto simp: map_add_def split: if_splits)
  show ?thesis
    using eb' ls(1) assms(3-5) all sm
    by (auto simp: pushSnapshot_def send_once_def peer_of_def handleConn_def handle_sync_def base sync_secret
        markSnapshotDone_def updateSyncLag_def Let_def)
qed

text \<open>C23: when the primary pushes a lease to its connected peer, the peer ends with the lease: it applies the
  change when it is the next one, it asks for and gets the whole snapshot when it has missed a change,
  and only a change that it already has leaves it as it is.\<close>

theorem ha_push_converges:
  assumes "es_inv J ea" "es_inv J eb" "hm_hasStore a" "hm_hasStore b" "hm_secret b = hm_secret a"
    and "\<forall>k l. es_view J ea k = Some l \<longrightarrow> TrimSpace k = k \<and> k \<noteq> [] \<and> lease_ok J (upserted tb l)"
    and "0 < seq" "seq \<le> hm_syncSequence a" "0 \<le> hm_appliedSequence b" "hm_appliedSequence b < 2 ^ 63 - 1"
    and "ls_GetByIP J ea ip = Inr l"
    and "pushLeaseUpdateWithSequence (peer_of (engine_replica J) tb) (engine_replica J) ta a ea seq l (b, eb) = ((b', eb'), err)"
  shows "err = None \<and> es_inv J eb' \<and>
    (if seq \<le> hm_appliedSequence b then eb' = eb
     else ls_GetByIP J eb' ip = Inr (upserted tb l) \<and> seq \<le> hm_appliedSequence b') \<and>
    (hm_appliedSequence b + 1 < seq \<and> normalizeMode (hm_mode b) \<noteq> ''load-sharing'' \<longrightarrow>
      (\<forall>k. TrimSpace k = k \<longrightarrow> es_view J eb' k = map_option (upserted tb) (es_view J ea k)))"
proof -
  let ?ro = "engine_replica J"
  have v: "es_view J ea ip = Some l" using assms(11) by (auto simp: GetByIP_view [OF assms(1)] split: option.splits)
  then have ok: "lease_ok J (upserted tb l)" and ipl: "l_IP l = ip"
    using assms(6) es.view_ip [OF assms(1)] by auto
  have wrap: "i64 (hm_appliedSequence b + 1) = hm_appliedSequence b + 1"
    by (rule i64_id) (use assms(9,10) in auto)
  consider (dup) "seq \<le> hm_appliedSequence b" | (succ) "seq = hm_appliedSequence b + 1" | (gap) "hm_appliedSequence b + 1 < seq"
    by linarith
  then show ?thesis
  proof cases
    case dup
    then have "classifyIncrementalSequence seq b = (b, False, False)"
      using assms(7) by (auto simp: classifyIncrementalSequence_def)
    then show ?thesis
      using assms(2-5,12) dup
      by (auto simp: pushLeaseUpdateWithSequence_def sendSync_def send_once_def peer_of_def handleConn_def
          handle_sync_def sync_secret)
  next
    case succ
    then have c: "classifyIncrementalSequence seq b = (b, True, False)"
      using assms(7) wrap by (auto simp: classifyIncrementalSequence_def)
    obtain s' where s': "upsertLeaseReplica ?ro tb l eb = (s', None)" "es_inv J s'"
      "es_view J s' = (es_view J eb)(ip \<mapsto> upserted tb l)"
      using er.replica_upsert [OF assms(2) ok] ipl by auto
    have "err = None" "eb' = s'" "hm_appliedSequence b' = seq"
      using assms(3-5,7,12) c s'(1) succ
      by (auto simp: pushLeaseUpdateWithSequence_def sendSync_def send_once_def peer_of_def handleConn_def
          handle_sync_def sync_secret updateSyncLag_def setAppliedSequence_def)
    then show ?thesis using s' succ by (simp add: GetByIP_view)
  next
    case gap
    let ?b = "b\<lparr>hm_snapshotDone := False, hm_appliedSequence := 0\<rparr>"
    have c: "classifyIncrementalSequence seq b = (?b, False, True)"
      using gap assms(7,9) wrap by (auto simp: classifyIncrementalSequence_def)
    obtain b1 e1 where p: "pushSnapshot (peer_of ?ro tb) ?ro ta a ea (?b, eb) = ((b1, e1), None)" "es_inv J e1"
      "hm_syncSequence a \<le> hm_appliedSequence b1"
      "\<forall>k l. es_view J ea k = Some l \<longrightarrow> es_view J e1 k = Some (upserted tb l)"
      "normalizeMode (hm_mode b) \<noteq> ''load-sharing'' \<longrightarrow>
        (\<forall>k. TrimSpace k = k \<longrightarrow> es_view J e1 k = map_option (upserted tb) (es_view J ea k))"
      using push_snapshot_ok [OF assms(1,2,3), of ?b tb ta] assms(4-6) by auto
    have "(b', eb') = (b1, e1)" "err = None"
      using assms(3-5,12) c p(1)
      by (auto simp: pushLeaseUpdateWithSequence_def sendSync_def send_once_def peer_of_def handleConn_def
          handle_sync_def sync_secret)
    then show ?thesis using p v assms(8) gap by (auto simp: GetByIP_view)
  qed
qed

section \<open>Instances\<close>

definition ha_cfg :: "string \<Rightarrow> string \<Rightarrow> string \<Rightarrow> ha_config" where
  "ha_cfg node mode witness = \<lparr>hc_Node = node, hc_Mode = mode, hc_Priority = 0, hc_PeerAddress = ''peer:8068'',
     hc_HeartbeatInterval = 0, hc_FailoverTimeout = 0, hc_LeaseSync = True, hc_SharedSecret = [],
     hc_WitnessPath = witness, hc_WitnessHold = 0\<rparr>"

definition demo_mgr :: "string \<Rightarrow> string \<Rightarrow> string \<Rightarrow> Manager" where
  "demo_mgr node mode witness = (NewManager (ha_cfg node mode witness) True False (Some 1))\<lparr>hm_peer := PeerStateConnected\<rparr>"

lemma trim_ha:
  "TrimSpace ''alpha'' = ''alpha''" "TrimSpace ''beta'' = ''beta''" "TrimSpace ''peer:8068'' = ''peer:8068''"
  "TrimSpace ''load-sharing'' = ''load-sharing''" "TrimSpace ''active-passive'' = ''active-passive''"
  "TrimSpace ''/w'' = ''/w''"
  by (rule TrimSpace_printable; simp add: printable_def byte_nat_def)+

lemma mode_ha: "normalizeMode ''load-sharing'' = ''load-sharing''" "normalizeMode ''active-passive'' = ''active-passive''"
proof -
  have "ToLower ''load-sharing'' = ''load-sharing''" "ToLower ''active-passive'' = ''active-passive''"
    by (simp_all add: ToLower_def lower_char_def less_eq_char_def)
  then show "normalizeMode ''load-sharing'' = ''load-sharing''" "normalizeMode ''active-passive'' = ''active-passive''"
    by (simp_all add: normalizeMode_def trim_ha)
qed

lemma lower_ha: "ToLower ''alpha'' = ''alpha''" "ToLower ''beta'' = ''beta''"
  by (simp_all add: ToLower_def lower_char_def less_eq_char_def)

lemma demo_mgr_fields:
  assumes "node = ''alpha'' \<or> node = ''beta''" "mode = ''load-sharing'' \<or> mode = ''active-passive''" "path = [] \<or> path = ''/w''"
  shows "hm_node (demo_mgr node mode path) = node" "hm_priority (demo_mgr node mode path) = 100"
    "hm_mode (demo_mgr node mode path) = mode" "hm_peer (demo_mgr node mode path) = PeerStateConnected"
    "hm_manualStepDownUntil (demo_mgr node mode path) = 0" "hm_role (demo_mgr node mode path) = RolePrimary"
    "hm_fenced (demo_mgr node mode path) = False" "hm_peerAddr (demo_mgr node mode path) = ''peer:8068''"
    "hm_timeout (demo_mgr node mode path) = 10 * second_ns" "hm_witnessPath (demo_mgr node mode path) = path"
    "hm_hasStore (demo_mgr node mode path)" "hm_secret (demo_mgr node mode path) = []"
    "hm_appliedSequence (demo_mgr node mode path) = 0" "hm_syncSequence (demo_mgr node mode path) = 1"
    "named (demo_mgr node mode path)"
  using assms
  by (auto simp: demo_mgr_def NewManager_def ha_cfg_def Let_def trim_ha mode_ha named_def)

lemma ha_times: "maxDuration (i64 (20 * second_ns)) hour_ns = hour_ns"
  by (simp add: maxDuration_def i64_def hour_ns_def minute_ns_def second_ns_def)

abbreviation "alpha_ls \<equiv> demo_mgr ''alpha'' ''load-sharing'' []"
abbreviation "beta_ls \<equiv> demo_mgr ''beta'' ''load-sharing'' []"
abbreviation "alpha_ap \<equiv> demo_mgr ''alpha'' ''active-passive'' []"
abbreviation "beta_ap \<equiv> demo_mgr ''beta'' ''active-passive'' []"
abbreviation "alpha_w \<equiv> demo_mgr ''alpha'' ''active-passive'' ''/w''"

theorem ha_split_partition_witness:
  "splitScope 10 14 = (10, 12, 13, 14) \<and> {10..12} \<union> {13..14} = {10..14 :: u32}"
proof -
  have s: "splitScope 10 14 = (10, 12, 13, 14)" by (simp add: splitScope_def)
  then show ?thesis using ha_split_partition [OF _ s] by simp
qed


theorem ha_double_failover_outage_witness:
  "\<exists>a1 b1. TriggerManualFailover [] 1 alpha_ap = (a1, None) \<and> TriggerManualFailover [] 2 (elected 1 a1 beta_ap) = (b1, None) \<and>
     AllocationScope (elected 3 b1 a1) [] 10 20 = (0, 0, False) \<and> AllocationScope (elected 3 a1 b1) [] 10 20 = (0, 0, False)"
proof -
  obtain a1 where a1: "TriggerManualFailover [] 1 alpha_ap = (a1, None)" "named a1" "hm_manualStepDownUntil a1 = 1 + hour_ns"
    by (simp add: TriggerManualFailover_def demo_mgr_fields trim_ha Let_def ha_times named_def)
  have h: "0 < hour_ns" "3 < 1 + hour_ns" by (simp_all add: hour_ns_def minute_ns_def second_ns_def)
  have "isManualStepDownActive 1 a1" using a1(3) h by (simp add: isManualStepDownActive_def is_zero_time_def)
  then have p: "hm_role (elected 1 a1 beta_ap) = RolePrimary"
    using a1(2) by (simp add: elected_role demo_mgr_fields isManualStepDownActive_def is_zero_time_def)
  have f: "hm_peerAddr (elected 1 a1 beta_ap) = ''peer:8068''" "hm_peer (elected 1 a1 beta_ap) = PeerStateConnected"
    by (auto simp: elected_def applyElection_def Let_def demo_mgr_fields)
  obtain b1 where b1: "TriggerManualFailover [] 2 (elected 1 a1 beta_ap) = (b1, None)"
    using p f by (simp add: TriggerManualFailover_def trim_ha Let_def)
  have "AllocationScope (elected 3 b1 a1) [] 10 20 = (0, 0, False) \<and> AllocationScope (elected 3 a1 b1) [] 10 20 = (0, 0, False)"
    using ha_double_failover_outage [OF _ _ _ _ a1(1) b1, of 3 "[]" 10 20] h(2)
    by (simp add: demo_mgr_fields mode_ha)
  then show ?thesis using a1(1) b1 by blast
qed

theorem ha_no_double_allocation_witness:
  "\<exists>pma pmb. fresh_choice pma (demo_pool [False, False]) ip10 \<and> fresh_choice pmb (demo_pool [False, False]) ip11 \<and> ip10 \<noteq> ip11"
proof -
  let ?a = "elected 1 beta_ls alpha_ls" and ?b = "elected 1 alpha_ls beta_ls"
  let ?pma = "(demo_pm [False, False])\<lparr>pm_scope := Some (AllocationScope ?a)\<rparr>"
  let ?pmb = "(demo_pm [False, False])\<lparr>pm_scope := Some (AllocationScope ?b)\<rparr>"
  have st: "\<not> isManualStepDownActive 1 alpha_ls" "\<not> isManualStepDownActive 1 beta_ls" "\<not> same_identity alpha_ls beta_ls"
    by (simp_all add: demo_mgr_fields isManualStepDownActive_def is_zero_time_def same_identity_def trim_ha lower_ha)
  have r: "hm_role ?a = RolePrimary" "hm_role ?b = RoleSecondary"
    using st by (simp_all add: elected_role demo_mgr_fields trim_ha lower_ha less_char_def)
  have f: "hm_peer ?a = PeerStateConnected" "hm_peer ?b = PeerStateConnected" "hm_mode ?a = ''load-sharing''"
    "hm_mode ?b = ''load-sharing''" "\<not> hm_fenced ?a" "\<not> hm_fenced ?b"
    by (auto simp: elected_def applyElection_def Let_def demo_mgr_fields)
  have sp: "splitScope 0x0A00000A 0x0A00000B = (0x0A00000A, 0x0A00000A, 0x0A00000B, 0x0A00000B)"
    by (simp add: splitScope_def)
  have na: "nextFree ?pma (demo_pool [False, False]) = Inr (Some ip10)" "nextFree ?pmb (demo_pool [False, False]) = Inr (Some ip11)"
    using r f sp by (simp_all add: nextFree_def effectiveRange_def AllocationScope_def mode_ha demo_pool_def
        nextFree_loop.simps bit_at_def demo_word)
  then have fr: "fresh_choice ?pma (demo_pool [False, False]) ip10" "fresh_choice ?pmb (demo_pool [False, False]) ip11"
    by (simp_all add: fresh_choice_def)
  have "ip10 \<noteq> ip11"
    by (rule ha_no_double_allocation [of alpha_ls beta_ls 1 ?pma ?pmb "demo_pool [False, False]" "demo_pool [False, False]"])
      (use st fr in \<open>simp_all add: demo_mgr_fields\<close>)
  then show ?thesis using fr by blast
qed

theorem ha_promotion_needs_witness_witness:
  "\<exists>m m' f'. hm_role m = RoleSecondary \<and> watchdog_turn (30 * second_ns) True True (m, WitnessAbsent) = (m', f') \<and>
     hm_role m' = RolePrimary \<and> f' = WitnessFile (own_record (30 * second_ns) m)"
proof -
  let ?m = "alpha_w\<lparr>hm_role := RoleSecondary, hm_lastHeartbeatAt := second_ns\<rparr>" and ?now = "30 * second_ns"
  obtain m' f' where w: "watchdog_turn ?now True True (?m, WitnessAbsent) = (m', f')" by force
  have p: "TrimSpace (hm_witnessPath ?m) = ''/w''" by (simp add: demo_mgr_fields trim_ha)
  have "hm_role m' = RolePrimary"
    using w by (auto simp: watchdog_turn_def watchdog_lock_def canPromoteLocked_def refreshWitnessState_def witnessOwner_def
        readWitnessRecord_def writeWitnessRecord_def demo_mgr_fields trim_ha Let_def is_zero_time_def second_ns_def)
  with ha_promotion_needs_witness [OF w] p have "f' = WitnessFile (own_record ?now ?m)" by simp
  moreover have "hm_role ?m = RoleSecondary" by simp
  ultimately show ?thesis using w \<open>hm_role m' = RolePrimary\<close> by blast
qed

text \<open>One failing write of the witness file is enough to get there.\<close>

theorem ha_fence_never_lifted_witness:
  "\<exists>m. refreshWitnessState 1 False (alpha_w, WitnessAbsent) = (m, WitnessAbsent) \<and> hm_fenced m \<and>
     hm_fenced (fst (fst (fst (ha_run (\<lambda>p msg. (p, None)) (engine_replica demo_json)
        [TickHeartbeat 2 True None, TickWatchdog 3 True True]
        (((applyElection ''beta'' 100 False 2 m, demo0), ()), WitnessAbsent)))))"
proof -
  obtain m f where w: "refreshWitnessState 1 False (alpha_w, WitnessAbsent) = (m, f)" by force
  have m: "hm_fenced m" "f = WitnessAbsent" "hm_manualStepDownUntil m = 0" "hm_node m = ''alpha''" "hm_priority m = 100"
    using w by (auto simp: refreshWitnessState_def writeWitnessRecord_def demo_mgr_fields trim_ha Let_def)
  let ?m = "applyElection ''beta'' 100 False 2 m"
  have e: "hm_role ?m = RolePrimary" "hm_fenced ?m" "hm_manualStepDownUntil ?m = 0"
    using m by (auto simp: applyElection_def electRole_connected trim_ha lower_ha Let_def is_zero_time_def less_char_def)
  obtain m' s' p' f' where r: "ha_run (\<lambda>p msg. (p, None)) (engine_replica demo_json)
        [TickHeartbeat 2 True None, TickWatchdog 3 True True] (((?m, demo0), ()), WitnessAbsent) = (((m', s'), p'), f')"
    by (metis surj_pair)
  have "wins_all ?m [TickHeartbeat 2 True None, TickWatchdog 3 True True]" by (simp add: wins_all_def)
  from ha_fence_never_lifted [OF e this r] have "hm_fenced m'" by simp
  then have "hm_fenced (fst (fst (fst (ha_run (\<lambda>p msg. (p, None)) (engine_replica demo_json)
        [TickHeartbeat 2 True None, TickWatchdog 3 True True] (((?m, demo0), ()), WitnessAbsent)))))"
    by (simp only: r fst_conv)
  then show ?thesis using w m by auto
qed

definition demo_snap :: "Lease list" where "demo_snap = [demo_lease]"

lemma demo_snap_ok: "snap_ok (lease_ok demo_json) demo_time demo_snap"
proof -
  have "l_IP demo_lease = ''10.0.0.5''" by (simp add: demo_lease_def)
  then show ?thesis using demo_stored_ok by (simp add: snap_ok_def demo_snap_def trim_demo demo_stored_def)
qed

theorem ha_snapshot_exact_witness:
  "\<exists>e'. applySnapshot (engine_replica demo_json) demo_time alpha_ap demo_snap demo0 = (e', None) \<and>
     es_view demo_json e' ''10.0.0.5'' = Some demo_stored"
proof -
  obtain e' err where a: "applySnapshot (engine_replica demo_json) demo_time alpha_ap demo_snap demo0 = (e', err)" by force
  have h: "hm_hasStore alpha_ap" by (simp add: demo_mgr_fields)
  have "normalizeMode (hm_mode alpha_ap) \<noteq> ''load-sharing''" by (simp add: demo_mgr_fields mode_ha)
  then have "err = None" "\<forall>ip. TrimSpace ip = ip \<longrightarrow> es_view demo_json e' ip = snap_map demo_time demo_snap ip"
    using ha_snapshot_exact [OF demo0_inv(1) h demo_snap_ok a] by auto
  moreover have "l_IP demo_lease = ''10.0.0.5''" by (simp add: demo_lease_def)
  ultimately show ?thesis using a by (simp add: trim_demo snap_map_def demo_snap_def demo_stored_def)
qed

lemma demo_stored_again: "upserted demo_time demo_stored = demo_stored"
  by (simp add: demo_defs)

theorem ha_push_converges_witness:
  "\<exists>b' eb'. pushLeaseUpdateWithSequence (peer_of (engine_replica demo_json) demo_time) (engine_replica demo_json)
       demo_time alpha_ap demo_store 1 demo_stored (beta_ap, demo0) = ((b', eb'), None) \<and>
     ls_GetByIP demo_json eb' ''10.0.0.5'' = Inr demo_stored"
proof -
  obtain b' eb' err where p: "pushLeaseUpdateWithSequence (peer_of (engine_replica demo_json) demo_time) (engine_replica demo_json)
       demo_time alpha_ap demo_store 1 demo_stored (beta_ap, demo0) = ((b', eb'), err)" by (metis surj_pair)
  have v: "\<forall>k l. es_view demo_json demo_store k = Some l \<longrightarrow>
      TrimSpace k = k \<and> k \<noteq> [] \<and> lease_ok demo_json (upserted demo_time l)"
    using demo_stored_ok by (auto simp: demo_store_ok trim_demo demo_stored_again split: if_splits)
  have "err = None \<and> ls_GetByIP demo_json eb' ''10.0.0.5'' = Inr (upserted demo_time demo_stored)"
    using ha_push_converges [OF demo_store_ok(1) demo0_inv(1) _ _ _ v _ _ _ _ demo_get p] by (simp add: demo_mgr_fields)
  then show ?thesis using p by (simp add: demo_stored_again)
qed

end
