(* ===== verification/Netip.thy ===== *)
theory Netip
  imports Net
begin

text \<open>
  More of Go's \<^verbatim>\<open>net/netip\<close> and \<^verbatim>\<open>net\<close>: printing addresses and prefixes, comparing
  addresses, parsing hardware addresses; and two facts about prefixes that share an address.
\<close>

section \<open>Printing\<close>

definition zone_suffix :: "string \<Rightarrow> bytes" where
  "zone_suffix z = (if z = [] then [] else CHR ''%'' # z)"

definition addr_Is4 :: "addr \<Rightarrow> bool" where
  "addr_Is4 a = (case a of A4 _ \<Rightarrow> True | A6 _ _ \<Rightarrow> False)"

text \<open>An IPv4-mapped address prints its last four bytes in dotted form.\<close>

definition addr_String :: "addr \<Rightarrow> bytes" where
  "addr_String a =
     (case a of
        A4 w \<Rightarrow> ip4_string (word_bytes 4 w)
      | A6 w z \<Rightarrow>
          (if drop_bit 32 w = 0xFFFF then ''::ffff:'' @ ip4_string (word_bytes 4 (ucast w :: 32 word)) else ip6_string w)
          @ zone_suffix z)"

definition pfx_String :: "prefix \<Rightarrow> bytes" where
  "pfx_String p = addr_String (pfx_addr p) @ [CHR ''/''] @ dec (pfx_bits p)"

section \<open>Comparing\<close>

definition cmp3 :: "'a::linorder \<Rightarrow> 'a \<Rightarrow> int" where
  "cmp3 a b = (if a < b then - 1 else if a > b then 1 else 0)"

text \<open>\<^verbatim>\<open>Addr.Compare\<close>: by length, then by value, then by zone.\<close>

definition addr_Compare :: "addr \<Rightarrow> addr \<Rightarrow> int" where
  "addr_Compare a b =
     (case (a, b) of
        (A4 x, A4 y) \<Rightarrow> cmp3 x y
      | (A4 _, A6 _ _) \<Rightarrow> - 1
      | (A6 _ _, A4 _) \<Rightarrow> 1
      | (A6 x u, A6 y v) \<Rightarrow> if x = y then cmp3 u v else cmp3 x y)"

section \<open>Hardware addresses\<close>

text \<open>\<^verbatim>\<open>xtoi2\<close>: two hexadecimal digits, and then the separator when there is more.\<close>

definition xtoi2 :: "bytes \<Rightarrow> byte \<Rightarrow> byte option" where
  "xtoi2 s e =
     (if length s > 2 \<and> s ! 2 \<noteq> e then None
      else (case s of
              a # b # _ \<Rightarrow>
                (case (hex_val a, hex_val b) of (Some x, Some y) \<Rightarrow> Some (nat_byte (x * 16 + y)) | _ \<Rightarrow> None)
            | _ \<Rightarrow> None))"

fun mac_colon :: "nat \<Rightarrow> bytes \<Rightarrow> byte \<Rightarrow> bytes option" where
  "mac_colon 0 s e = Some []"
| "mac_colon (Suc n) s e =
     (case xtoi2 s e of None \<Rightarrow> None | Some b \<Rightarrow> map_option (\<lambda>bs. b # bs) (mac_colon n (drop 3 s) e))"

fun mac_dot :: "nat \<Rightarrow> bytes \<Rightarrow> byte \<Rightarrow> bytes option" where
  "mac_dot 0 s e = Some []"
| "mac_dot (Suc n) s e =
     (case (xtoi2 (take 2 s) (CHR 0x00), xtoi2 (drop 2 s) e) of
        (Some a, Some b) \<Rightarrow> map_option (\<lambda>bs. a # b # bs) (mac_dot n (drop 5 s) e)
      | _ \<Rightarrow> None)"

definition ParseMAC :: "bytes \<Rightarrow> bytes option" where
  "ParseMAC s =
     (if length s < 14 then None
      else if s ! 2 = CHR '':'' \<or> s ! 2 = CHR ''-'' then
        (if (length s + 1) mod 3 \<noteq> 0 then None
         else (let n = (length s + 1) div 3 in if n \<notin> {6, 8, 20} then None else mac_colon n s (s ! 2)))
      else if s ! 4 = CHR ''.'' then
        (if (length s + 1) mod 5 \<noteq> 0 then None
         else (let n = 2 * (length s + 1) div 5 in if n \<notin> {6, 8, 20} then None else mac_dot (n div 2) s (s ! 4)))
      else None)"

section \<open>Prefixes with a common address\<close>

lemma drop_bit_mono:
  fixes x y :: "'a::len word"
  assumes "drop_bit m x = drop_bit m y" "m \<le> n"
  shows "drop_bit n x = drop_bit n y"
proof -
  have "drop_bit n z = drop_bit (n - m) (drop_bit m z)" for z :: "'a word"
    using assms(2) by simp
  then show ?thesis using assms(1) by metis
qed

lemma drop_push_drop: "drop_bit n (push_bit n (drop_bit n x)) = drop_bit n (x :: 'a::len word)"
  by (rule bit_eqI) (auto simp: bit_simps dest: bit_imp_le_length)

lemma Contains_Masked [simp]: "pfx_Contains (pfx_Masked p) a = pfx_Contains p a"
  by (auto simp: pfx_Contains_def pfx_Masked_def drop_push_drop split: addr.split)

lemma Masked_bits [simp]: "pfx_bits (pfx_Masked p) = pfx_bits p"
  by (simp add: pfx_Masked_def)

text \<open>If two prefixes share an address, the shorter one contains the base of the other.\<close>

lemma Contains_base:
  assumes "pfx_Contains p x" "pfx_Contains q x" "pfx_bits p \<le> pfx_bits q"
  shows "pfx_Contains p (pfx_addr (pfx_Masked q))"
proof (cases "pfx_addr p")
  case (A4 a)
  then obtain y where x: "x = A4 y" using assms(1) by (cases x) (auto simp: pfx_Contains_def)
  then obtain b where q: "pfx_addr q = A4 b" using assms(2) by (cases "pfx_addr q") (auto simp: pfx_Contains_def)
  let ?b = "push_bit (32 - pfx_bits q) (drop_bit (32 - pfx_bits q) b)"
  have "drop_bit (32 - pfx_bits q) ?b = drop_bit (32 - pfx_bits q) y"
    using assms(2) x q by (simp add: pfx_Contains_def drop_push_drop)
  then have "drop_bit (32 - pfx_bits p) ?b = drop_bit (32 - pfx_bits p) y"
    by (rule drop_bit_mono) (use assms(3) in simp)
  then show ?thesis using assms(1) A4 x q by (simp add: pfx_Contains_def pfx_Masked_def)
next
  case (A6 a z)
  then obtain y where x: "x = A6 y []" using assms(1) by (cases x) (auto simp: pfx_Contains_def)
  then obtain b z' where q: "pfx_addr q = A6 b z'" using assms(2) by (cases "pfx_addr q") (auto simp: pfx_Contains_def)
  let ?b = "push_bit (128 - pfx_bits q) (drop_bit (128 - pfx_bits q) b)"
  have "drop_bit (128 - pfx_bits q) ?b = drop_bit (128 - pfx_bits q) y"
    using assms(2) x q by (simp add: pfx_Contains_def drop_push_drop)
  then have "drop_bit (128 - pfx_bits p) ?b = drop_bit (128 - pfx_bits p) y"
    by (rule drop_bit_mono) (use assms(3) in simp)
  then show ?thesis using assms(1) A6 x q by (simp add: pfx_Contains_def pfx_Masked_def)
qed

end
