(* ===== verification/Db.thy ===== *)
theory Db
  imports Recovery Lease
begin

text \<open>
  What the services above the storage engine use of it: rows of named trees that they get, put,
  delete and list in the order of their keys. \<open>db_ops\<close> is that interface as a record of functions,
  \<open>row_db\<close> its laws, and the interpretation at the end discharges them for the engine.
\<close>

record 's db_ops =
  db_Get :: "'s \<Rightarrow> string \<Rightarrow> bytes \<Rightarrow> go_error + bytes"
  db_Put :: "string \<Rightarrow> bytes \<Rightarrow> bytes \<Rightarrow> time \<Rightarrow> 's \<Rightarrow> 's \<times> go_error option"
  db_Delete :: "string \<Rightarrow> bytes \<Rightarrow> time \<Rightarrow> 's \<Rightarrow> 's \<times> go_error option"
  db_Rows :: "'s \<Rightarrow> string \<Rightarrow> go_error + (bytes \<times> bytes) list"

text \<open>The rows are what \<^verbatim>\<open>Iterate\<close> without bounds passes to a callback that never stops.\<close>

definition engine_db :: "engine db_ops" where
  "engine_db = \<lparr>db_Get = eng_Get, db_Put = eng_Put, db_Delete = eng_Delete,
     db_Rows = (\<lambda>e t. eng_Iterate e t [] [] (\<lambda>rows k v. (rows @ [(k, v)], True)) [])\<rparr>"

text \<open>\<^verbatim>\<open>json.Marshal\<close> and \<^verbatim>\<open>json.Unmarshal\<close> of one type.\<close>

record 'a codec =
  c_marshal :: "'a \<Rightarrow> bytes option"
  c_unmarshal :: "bytes \<Rightarrow> 'a option"

text \<open>The values of all rows that decode, in the order of the keys; a missing tree has no rows.\<close>

definition list_rows :: "'s db_ops \<Rightarrow> 'a codec \<Rightarrow> 's \<Rightarrow> string \<Rightarrow> go_error + 'a list" where
  "list_rows db C s tree =
     (case db_Rows db s tree of
        Inl ErrNotFound \<Rightarrow> Inr []
      | Inl err \<Rightarrow> Inl err
      | Inr rows \<Rightarrow> Inr (List.map_filter (\<lambda>(k, v). c_unmarshal C v) rows))"

definition get_row :: "'s db_ops \<Rightarrow> 'a codec \<Rightarrow> 's \<Rightarrow> string \<Rightarrow> bytes \<Rightarrow> go_error + 'a" where
  "get_row db C s tree key =
     rbind (db_Get db s tree key) (\<lambda>raw.
       case c_unmarshal C raw of None \<Rightarrow> Inl (ErrMsg ''json'') | Some x \<Rightarrow> Inr x)"

definition put_row :: "'s db_ops \<Rightarrow> 'a codec \<Rightarrow> string \<Rightarrow> bytes \<Rightarrow> 'a \<Rightarrow> time \<Rightarrow> 's \<Rightarrow> 's \<times> go_error option" where
  "put_row db C tree key x now s =
     (case c_marshal C x of None \<Rightarrow> (s, Some (ErrMsg ''json'')) | Some raw \<Rightarrow> db_Put db tree key raw now s)"

section \<open>The interface\<close>

locale row_db =
  fixes db :: "'s db_ops"
    and inv :: "'s \<Rightarrow> bool"
    and view :: "'s \<Rightarrow> string \<Rightarrow> bytes \<rightharpoonup> bytes"
    and fits :: "string \<Rightarrow> bytes \<Rightarrow> bytes \<Rightarrow> bool"
  assumes db_get: "inv s \<Longrightarrow> db_Get db s t k = (case view s t k of None \<Rightarrow> Inl ErrNotFound | Some v \<Rightarrow> Inr v)"
    and db_put: "inv s \<Longrightarrow> fits t k v \<Longrightarrow>
      \<exists>s'. db_Put db t k v now s = (s', None) \<and> inv s' \<and> view s' = (view s)(t := (view s t)(k \<mapsto> v))"
    and db_delete: "inv s \<Longrightarrow> fits t k [] \<Longrightarrow>
      \<exists>s'. db_Delete db t k now s = (s', None) \<and> inv s' \<and> view s' = (view s)(t := (view s t)(k := None))"
    and db_rows: "inv s \<Longrightarrow> (db_Rows db s t = Inl ErrNotFound \<and> view s t = Map.empty) \<or>
      (\<exists>rows. db_Rows db s t = Inr rows \<and> sorted_wrt (<) (map fst rows) \<and> map_of rows = view s t)"
begin

text \<open>The rows that decode to what a predicate of the key allows.\<close>

definition decodes :: "'a codec \<Rightarrow> 's \<Rightarrow> string \<Rightarrow> (bytes \<Rightarrow> 'a \<Rightarrow> bool) \<Rightarrow> bool" where
  "decodes C s t P \<longleftrightarrow> (\<forall>k v. view s t k = Some v \<longrightarrow> (\<exists>x. c_unmarshal C v = Some x \<and> P k x))"

definition entry :: "'a codec \<Rightarrow> 's \<Rightarrow> string \<Rightarrow> bytes \<Rightarrow> 'a option" where
  "entry C s t k = Option.bind (view s t k) (c_unmarshal C)"

lemma get_row_entry:
  "inv s \<Longrightarrow> get_row db C s t k = Inr x \<longleftrightarrow> entry C s t k = Some x"
  by (auto simp: get_row_def db_get entry_def rbind_Inr_conv split: option.splits)

lemma map_of_sorted_set:
  fixes rows :: "(bytes \<times> bytes) list"
  shows "sorted_wrt (<) (map fst rows) \<Longrightarrow> (k, v) \<in> set rows \<longleftrightarrow> map_of rows k = Some v"
  by (simp add: sorted_lt_distinct)

lemma list_rows_entries:
  assumes "inv s"
  shows "\<exists>xs. list_rows db C s t = Inr xs \<and> set xs = {x. \<exists>k. entry C s t k = Some x}"
proof (cases "db_Rows db s t = Inl ErrNotFound \<and> view s t = Map.empty")
  case True
  then show ?thesis by (simp add: list_rows_def entry_def)
next
  case False
  then obtain rows where r: "db_Rows db s t = Inr rows" "sorted_wrt (<) (map fst rows)" "map_of rows = view s t"
    using db_rows [OF assms] by blast
  have "set (List.map_filter (\<lambda>(k, v). c_unmarshal C v) rows) = {x. \<exists>k. entry C s t k = Some x}"
  proof safe
    fix x assume "x \<in> set (List.map_filter (\<lambda>(k, v). c_unmarshal C v) rows)"
    then obtain k v where "(k, v) \<in> set rows" "c_unmarshal C v = Some x"
      by (auto simp: List.map_filter_def)
    then show "\<exists>k. entry C s t k = Some x"
      using map_of_sorted_set [OF r(2)] r(3) by (auto simp: entry_def intro!: exI [of _ k])
  next
    fix x k assume "entry C s t k = Some x"
    then obtain v where "view s t k = Some v" "c_unmarshal C v = Some x"
      by (auto simp: entry_def bind_eq_Some_conv)
    then have "(k, v) \<in> set rows" "c_unmarshal C v = Some x"
      using map_of_sorted_set [OF r(2)] r(3) by auto
    then show "x \<in> set (List.map_filter (\<lambda>(k, v). c_unmarshal C v) rows)"
      by (force simp: List.map_filter_def)
  qed
  then show ?thesis using r(1) by (simp add: list_rows_def)
qed

lemma put_row_entry:
  assumes "inv s" "c_marshal C x = Some raw" "c_unmarshal C raw = Some x" "fits t k raw"
  shows "\<exists>s'. put_row db C t k x now s = (s', None) \<and> inv s' \<and> entry C s' t = (entry C s t)(k \<mapsto> x) \<and>
    (\<forall>t'. t' \<noteq> t \<longrightarrow> view s' t' = view s t')"
proof -
  obtain s' where "db_Put db t k raw now s = (s', None)" "inv s'" "view s' = (view s)(t := (view s t)(k \<mapsto> raw))"
    using db_put [OF assms(1,4)] by blast
  then show ?thesis using assms(2,3) by (auto simp: put_row_def entry_def fun_eq_iff)
qed

lemma delete_entry:
  assumes "inv s" "fits t k []"
  shows "\<exists>s'. db_Delete db t k now s = (s', None) \<and> inv s' \<and> entry C s' t = (entry C s t)(k := None) \<and>
    (\<forall>t'. t' \<noteq> t \<longrightarrow> view s' t' = view s t')"
  using db_delete [OF assms, of now] by (auto simp: entry_def fun_eq_iff)

end

section \<open>The engine provides it\<close>

definition db_inv :: "engine \<Rightarrow> bool" where
  "db_inv e \<longleftrightarrow> eng_ok e \<and> \<not> e_closed e"

definition db_view :: "engine \<Rightarrow> string \<Rightarrow> bytes \<rightharpoonup> bytes" where
  "db_view e t k = eget (e_trees e) (t, k)"

definition db_fits :: "string \<Rightarrow> bytes \<Rightarrow> bytes \<Rightarrow> bool" where
  "db_fits t k v \<longleftrightarrow>
     (let m = \<lparr>m_tree = t, m_op = OpPut, m_key = k, m_value = v\<rparr> in wf_mut m \<and> encodable (entry_of m))"

lemma engine_write:
  assumes "db_inv e" "wf_mut m" "encodable (entry_of m)"
  shows "\<exists>e'. eng_tx (\<lambda>ms. Inr (ms @ [m])) True now e = (e', None) \<and> db_inv e' \<and>
    db_view e' = (db_view e)(m_tree m := (db_view e (m_tree m))(m_key m := if m_op m = OpPut then Some (m_value m) else None))"
proof -
  obtain e' where e': "eng_tx (\<lambda>ms. Inr (ms @ [m])) True now e = (e', None)" "eng_ok e'" "\<not> e_closed e'"
    "eget (e_trees e') = map_run (map write_of [m]) (eget (e_trees e))"
    using eng_tx_ok [of e "\<lambda>ms. Inr (ms @ [m])" "[m]" True now] assms by (auto simp: db_inv_def)
  then show ?thesis by (auto simp: db_inv_def db_view_def write_of_def fun_eq_iff)
qed

interpretation edb: row_db engine_db db_inv db_view db_fits
proof (unfold_locales, goal_cases)
  case (1 s t k)
  then show ?case by (simp add: engine_db_def eng_Get_eget db_view_def)
next
  case (2 s t k v now)
  let ?m = "\<lparr>m_tree = t, m_op = OpPut, m_key = k, m_value = v\<rparr>"
  show ?case
    using engine_write [OF 2(1), of ?m now] 2(2)
    by (simp add: engine_db_def eng_Put_def eng_Tx_def tx_Put_def db_fits_def Let_def)
next
  case (3 s t k now)
  let ?m = "\<lparr>m_tree = t, m_op = OpDel, m_key = k, m_value = []\<rparr>"
  have "wf_mut ?m" "encodable (entry_of ?m)"
    using 3(2) by (auto simp: db_fits_def Let_def wf_mut_def entry_of_def)
  then show ?case
    using engine_write [OF 3(1), of ?m now]
    by (simp add: engine_db_def eng_Delete_def eng_Tx_def tx_Delete_def)
next
  case (4 s t)
  show ?case
  proof (cases "map_of (e_trees s) t")
    case None
    then show ?thesis by (auto simp: engine_db_def eng_Iterate_def db_view_def eget.simps fun_eq_iff)
  next
    case (Some tree)
    have ti: "bt_inv tree" using 4 Some by (auto simp: db_inv_def eng_ok_def dest: trees_inv_tree)
    have "run_rows (\<lambda>rows k v. (rows @ [(k, v)], True)) rs acc = acc @ rs" for rs acc
      by (induction rs arbitrary: acc) auto
    then have "db_Rows engine_db s t = Inr (bt_Snapshot tree)"
      using Some by (simp add: engine_db_def eng_Iterate_def bt_Iterate_rows [OF ti] in_range_def)
    moreover have "map_of (bt_Snapshot tree) = db_view s t"
      using Some by (simp add: fun_eq_iff db_view_def eget.simps map_of_Snapshot [OF ti])
    ultimately show ?thesis using bt_inv_sorted [OF ti] by (simp add: map_fst_Snapshot)
  qed
qed

section \<open>Transactions of several rows\<close>

text \<open>A service that writes rows together hands a callback to the engine's \<^verbatim>\<open>Tx\<close>.\<close>

type_synonym 's db_tx = "(mutation list \<Rightarrow> go_error + mutation list) \<Rightarrow> time \<Rightarrow> 's \<Rightarrow> 's \<times> go_error option"

definition view_write :: "mutation \<Rightarrow> (string \<Rightarrow> bytes \<rightharpoonup> bytes) \<Rightarrow> string \<Rightarrow> bytes \<rightharpoonup> bytes" where
  "view_write m v = v(m_tree m := (v (m_tree m))(m_key m := if m_op m = OpPut then Some (m_value m) else None))"

definition mut_fits :: "mutation \<Rightarrow> bool" where
  "mut_fits m \<longleftrightarrow> wf_mut m \<and> encodable (entry_of m)"

locale tx_db = row_db +
  fixes tx :: "'a db_tx"
  assumes db_tx: "inv s \<Longrightarrow> fn [] = Inr ms \<Longrightarrow> \<forall>m\<in>set ms. mut_fits m \<Longrightarrow>
    \<exists>s'. tx fn now s = (s', None) \<and> inv s' \<and> view s' = fold view_write ms (view s)"
begin

text \<open>Two rows written together, and two deleted together.\<close>

lemma tx_two:
  assumes "inv s" "mut_fits m1" "mut_fits m2" "m_tree m1 \<noteq> m_tree m2"
  shows "\<exists>s'. tx (\<lambda>ms. Inr (ms @ [m1, m2])) now s = (s', None) \<and> inv s' \<and>
    view s' (m_tree m1) = (view s (m_tree m1))(m_key m1 := if m_op m1 = OpPut then Some (m_value m1) else None) \<and>
    view s' (m_tree m2) = (view s (m_tree m2))(m_key m2 := if m_op m2 = OpPut then Some (m_value m2) else None) \<and>
    (\<forall>t. t \<noteq> m_tree m1 \<and> t \<noteq> m_tree m2 \<longrightarrow> view s' t = view s t)"
  using db_tx [OF assms(1), of "\<lambda>ms. Inr (ms @ [m1, m2])" "[m1, m2]" now] assms(2-4)
  by (auto simp: view_write_def)

end

lemma view_of_writes:
  "(\<lambda>t k. map_run (map write_of ms) f (t, k)) = fold view_write ms (\<lambda>t k. f (t, k))"
proof (induction ms arbitrary: f)
  case Nil
  show ?case by simp
next
  case (Cons m ms)
  let ?g = "f(fst (write_of m) := snd (write_of m))"
  have "map_run (map write_of (m # ms)) f = map_run (map write_of ms) ?g" by (cases "write_of m") simp
  moreover have "(\<lambda>t k. ?g (t, k)) = view_write m (\<lambda>t k. f (t, k))"
    by (auto simp: fun_eq_iff view_write_def write_of_def)
  ultimately show ?case using Cons.IH [of ?g] by (simp only: fold_simps comp_apply list.map)
qed

interpretation edbt: tx_db engine_db db_inv db_view db_fits eng_Tx
proof (unfold_locales, goal_cases)
  case (1 s fn ms now)
  obtain e' where e': "eng_tx fn True now s = (e', None)" "eng_ok e'" "\<not> e_closed e'"
    "eget (e_trees e') = map_run (map write_of ms) (eget (e_trees s))"
    using eng_tx_ok [of s fn ms True now] 1 by (auto simp: db_inv_def mut_fits_def)
  have "db_view x = (\<lambda>t k. eget (e_trees x) (t, k))" for x
    by (simp only: db_view_def fun_eq_iff simp_thms)
  then have "db_view e' = fold view_write ms (db_view s)"
    using view_of_writes [of ms "eget (e_trees s)"] by (simp only: e'(4))
  then show ?case using e' by (simp add: eng_Tx_def db_inv_def)
qed

section \<open>Rows that decode again\<close>

text \<open>What was encoded decodes to itself; a JSON encoder promises that of the structs here.\<close>

definition codec_ok :: "'a codec \<Rightarrow> bool" where
  "codec_ok C \<longleftrightarrow> (\<forall>x raw. c_marshal C x = Some raw \<longrightarrow> c_unmarshal C raw = Some x)"

text \<open>A row is within the limits of the log's format.\<close>

definition row_fits :: "'a codec \<Rightarrow> string \<Rightarrow> bytes \<Rightarrow> 'a \<Rightarrow> bool" where
  "row_fits C t k x \<longleftrightarrow> (case c_marshal C x of None \<Rightarrow> True | Some raw \<Rightarrow> db_fits t k raw)"

text \<open>A write of a row that decodes again updates its entry and nothing else.\<close>

lemma put_row_on_engine:
  assumes "db_inv s" "codec_ok C" "row_fits C t k x" "put_row engine_db C t k x now s = (s', r)"
  shows "db_inv s' \<and> (s' = s \<or> edb.entry C s' t = (edb.entry C s t)(k \<mapsto> x)) \<and>
    (\<forall>t'. t' \<noteq> t \<longrightarrow> db_view s' t' = db_view s t')"
proof (cases "c_marshal C x")
  case None
  then show ?thesis using assms(1,4) by (auto simp: put_row_def)
next
  case (Some raw)
  then show ?thesis
    using edb.put_row_entry [OF assms(1) Some, of t k now] assms(2-4) by (auto simp: codec_ok_def row_fits_def)
qed

lemma entry_frame:
  "\<forall>t'. t' \<noteq> t \<longrightarrow> db_view s' t' = db_view s t' \<Longrightarrow> t' \<noteq> t \<Longrightarrow> edb.entry C s' t' = edb.entry C s t'"
  by (simp add: fun_eq_iff edb.entry_def)

lemma delete_row_on_engine:
  assumes "db_inv s" "db_fits t k []"
  shows "db_inv (fst (db_Delete engine_db t k now s)) \<and>
    edb.entry C (fst (db_Delete engine_db t k now s)) t = (edb.entry C s t)(k := None) \<and>
    (\<forall>t'. t' \<noteq> t \<longrightarrow> db_view (fst (db_Delete engine_db t k now s)) t' = db_view s t')"
  using edb.delete_entry [OF assms, of now C] by auto

lemma get_row_none: "db_inv s \<Longrightarrow> db_view s t k = None \<Longrightarrow> get_row engine_db C s t k = Inl ErrNotFound"
  by (simp add: get_row_def edb.db_get)

end
