(* ===== verification/Ipam.thy ===== *)
theory Ipam
  imports Netip Db Dhcp4Pool
begin

text \<open>
  \<^verbatim>\<open>src/internal/ipam\<close>: subnets, reservations and addresses, each a tree of JSON rows of the
  storage engine. The engine is the interface \<open>db_ops\<close>, the lease store the interface \<open>lease_ops\<close>
  on the same state. Sorting is by insertion; where Go's comparison is not a strict order on the
  items, its result is not determined and the model takes one.
\<close>

section \<open>cidr.go\<close>

definition ipam_Overlaps :: "prefix \<Rightarrow> prefix \<Rightarrow> bool" where
  "ipam_Overlaps a b =
     (let a' = pfx_Masked a; b' = pfx_Masked b in
      pfx_Contains a' (pfx_addr b') \<or> pfx_Contains b' (pfx_addr a'))"

definition ipam_Contains :: "prefix \<Rightarrow> prefix \<Rightarrow> bool" where
  "ipam_Contains parent child =
     (let p = pfx_Masked parent; c = pfx_Masked child in pfx_bits p \<le> pfx_bits c \<and> pfx_Contains p (pfx_addr c))"

definition AddressCount :: "prefix \<Rightarrow> 64 word" where
  "AddressCount p =
     (let bits = addr_bitlen (pfx_addr p) - pfx_bits p in if bits \<ge> 64 then - 1 else 2 ^ bits)"

definition NthAddress :: "prefix \<Rightarrow> 64 word \<Rightarrow> addr option" where
  "NthAddress p n =
     (case pfx_addr (pfx_Masked p) of
        A6 _ _ \<Rightarrow> None
      | A4 w \<Rightarrow>
          (let v = (ucast w :: 64 word) + n in
           if n \<ge> AddressCount p then None else if v > 4294967295 then None else Some (A4 (ucast v))))"

section \<open>types.go\<close>

record DHCPPool =
  dp_Enabled :: bool
  dp_PoolStart :: string
  dp_PoolEnd :: string
  dp_LeaseTimeSec :: int

record Subnet =
  sn_CIDR :: string
  sn_Name :: string
  sn_VLAN :: int
  sn_Gateway :: string
  sn_DNS :: "string list"
  sn_DHCP :: DHCPPool
  sn_CreatedAt :: time
  sn_UpdatedAt :: time

record UpsertSubnetInput =
  si_CIDR :: string
  si_Name :: string
  si_VLAN :: int
  si_Gateway :: string
  si_DNS :: "string list"
  si_DHCPEnable :: bool
  si_PoolStart :: string
  si_PoolEnd :: string
  si_LeaseSec :: int

type_synonym IPState = string

abbreviation IPStateAvailable :: IPState where "IPStateAvailable \<equiv> ''available''"
abbreviation IPStateDHCP :: IPState where "IPStateDHCP \<equiv> ''dhcp''"
abbreviation IPStateReserved :: IPState where "IPStateReserved \<equiv> ''reserved''"
abbreviation IPStateConflict :: IPState where "IPStateConflict \<equiv> ''conflict''"
abbreviation IPStateQuarantined :: IPState where "IPStateQuarantined \<equiv> ''quarantined''"

record AddressRecord =
  ad_IP :: string
  ad_SubnetCIDR :: string
  ad_State :: IPState
  ad_MAC :: string
  ad_Hostname :: string
  ad_LeaseState :: string
  ad_Source :: string
  ad_UpdatedAt :: time

record UpsertAddressInput =
  ai_IP :: string
  ai_SubnetCIDR :: string
  ai_State :: IPState
  ai_MAC :: string
  ai_Hostname :: string
  ai_Source :: string
  ai_UpdatedAt :: time

record AddressFilter =
  af_SubnetCIDR :: string
  af_State :: IPState
  af_Query :: string
  af_Limit :: int

record Reservation =
  rv_MAC :: string
  rv_IP :: string
  rv_Hostname :: string
  rv_SubnetCIDR :: string
  rv_CreatedAt :: time
  rv_UpdatedAt :: time

record UpsertReservationInput =
  ri_MAC :: string
  ri_IP :: string
  ri_Hostname :: string
  ri_SubnetCIDR :: string

text \<open>The engine: its storage and codecs, and the lease store when there is one.\<close>

record 's ipam_engine =
  ie_db :: "'s db_ops"
  ie_leases :: "'s lease_ops option"
  ie_subnet :: "Subnet codec"
  ie_reservation :: "Reservation codec"
  ie_address :: "AddressRecord codec"

abbreviation treeSubnets :: string where "treeSubnets \<equiv> ''subnets''"
abbreviation treeAddresses :: string where "treeAddresses \<equiv> ''addresses''"
abbreviation treeReservations :: string where "treeReservations \<equiv> ''reservations''"

section \<open>The order of addresses\<close>

definition address_less :: "AddressRecord \<Rightarrow> AddressRecord \<Rightarrow> bool" where
  "address_less x y =
     (case (ParseAddr (ad_IP x), ParseAddr (ad_IP y)) of
        (Some a, Some b) \<Rightarrow> addr_Compare a b < 0
      | _ \<Rightarrow> ad_IP x < ad_IP y)"

definition sortAddressRecords :: "AddressRecord list \<Rightarrow> AddressRecord list" where
  "sortAddressRecords items = sort_by address_less items"

section \<open>Reading\<close>

definition GetSubnet :: "'s ipam_engine \<Rightarrow> 's \<Rightarrow> string \<Rightarrow> go_error + Subnet" where
  "GetSubnet e s cidr = get_row (ie_db e) (ie_subnet e) s treeSubnets (TrimSpace cidr)"

definition ListSubnets :: "'s ipam_engine \<Rightarrow> 's \<Rightarrow> go_error + Subnet list" where
  "ListSubnets e s =
     rbind (list_rows (ie_db e) (ie_subnet e) s treeSubnets) (\<lambda>out.
       Inr (sort_by (\<lambda>x y. sn_CIDR x < sn_CIDR y) out))"

definition ListReservations :: "'s ipam_engine \<Rightarrow> 's \<Rightarrow> go_error + Reservation list" where
  "ListReservations e s =
     rbind (list_rows (ie_db e) (ie_reservation e) s treeReservations) (\<lambda>out.
       Inr (sort_by (\<lambda>x y. if rv_IP x = rv_IP y then rv_MAC x < rv_MAC y else rv_IP x < rv_IP y) out))"

definition GetReservationByMAC :: "'s ipam_engine \<Rightarrow> 's \<Rightarrow> string \<Rightarrow> go_error + Reservation" where
  "GetReservationByMAC e s mac = get_row (ie_db e) (ie_reservation e) s treeReservations (normalizeMAC mac)"

definition GetStoredAddress :: "'s ipam_engine \<Rightarrow> 's \<Rightarrow> string \<Rightarrow> go_error + AddressRecord" where
  "GetStoredAddress e s ip = get_row (ie_db e) (ie_address e) s treeAddresses (TrimSpace ip)"

definition ListStoredAddresses :: "'s ipam_engine \<Rightarrow> 's \<Rightarrow> go_error + AddressRecord list" where
  "ListStoredAddresses e s =
     rbind (list_rows (ie_db e) (ie_address e) s treeAddresses) (\<lambda>out. Inr (sortAddressRecords out))"

definition lookupSubnet :: "Subnet list \<Rightarrow> string \<Rightarrow> Subnet option" where
  "lookupSubnet subnets cidr = find (\<lambda>s. sn_CIDR s = TrimSpace cidr) subnets"

definition inferSubnetForAddr :: "addr \<Rightarrow> Subnet list \<Rightarrow> string" where
  "inferSubnetForAddr a subnets =
     (case find (\<lambda>s. case ParsePrefix (sn_CIDR s) of None \<Rightarrow> False | Some p \<Rightarrow> pfx_Contains p a) subnets of
        None \<Rightarrow> [] | Some s \<Rightarrow> sn_CIDR s)"

section \<open>Subnets\<close>

definition normalizeDNS :: "string list \<Rightarrow> string list" where
  "normalizeDNS xs = filter (\<lambda>s. s \<noteq> []) (map TrimSpace xs)"

definition check_gateway :: "prefix \<Rightarrow> UpsertSubnetInput \<Rightarrow> go_error option" where
  "check_gateway p inp =
     (if si_Gateway inp = [] then None
      else (case ParseAddr (TrimSpace (si_Gateway inp)) of
              None \<Rightarrow> Some (ErrMsg ''invalid gateway'')
            | Some gw \<Rightarrow> if pfx_Contains p gw then None else Some (ErrMsg ''gateway outside subnet'')))"

definition check_pool :: "prefix \<Rightarrow> UpsertSubnetInput \<Rightarrow> go_error option" where
  "check_pool p inp =
     (if \<not> si_DHCPEnable inp then None
      else (case ParseAddr (TrimSpace (si_PoolStart inp)) of
              None \<Rightarrow> Some (ErrMsg ''invalid pool_start'')
            | Some start \<Rightarrow>
                (case ParseAddr (TrimSpace (si_PoolEnd inp)) of
                   None \<Rightarrow> Some (ErrMsg ''invalid pool_end'')
                 | Some endv \<Rightarrow>
                     if \<not> pfx_Contains p start \<or> \<not> pfx_Contains p endv then Some (ErrMsg ''pool range outside subnet'')
                     else if addr_Compare start endv > 0 then Some (ErrMsg ''pool_start must be <= pool_end'')
                     else None)))"

definition validateSubnet :: "UpsertSubnetInput \<Rightarrow> go_error + Subnet" where
  "validateSubnet inp =
     (case ParsePrefix (TrimSpace (si_CIDR inp)) of
        None \<Rightarrow> Inl (ErrMsg ''invalid cidr'')
      | Some p \<Rightarrow>
          (case check_gateway p inp of
             Some err \<Rightarrow> Inl err
           | None \<Rightarrow>
               (case check_pool p inp of
                  Some err \<Rightarrow> Inl err
                | None \<Rightarrow>
                    if si_VLAN inp < 0 \<or> si_VLAN inp > 4094 then Inl (ErrMsg ''vlan must be between 0 and 4094'')
                    else Inr \<lparr>sn_CIDR = pfx_String (pfx_Masked p), sn_Name = TrimSpace (si_Name inp),
                      sn_VLAN = si_VLAN inp, sn_Gateway = TrimSpace (si_Gateway inp), sn_DNS = normalizeDNS (si_DNS inp),
                      sn_DHCP = \<lparr>dp_Enabled = si_DHCPEnable inp, dp_PoolStart = TrimSpace (si_PoolStart inp),
                        dp_PoolEnd = TrimSpace (si_PoolEnd inp),
                        dp_LeaseTimeSec = (if si_LeaseSec inp \<le> 0 then 43200 else si_LeaseSec inp)\<rparr>,
                      sn_CreatedAt = 0, sn_UpdatedAt = 0\<rparr>)))"

text \<open>A prefix that does not parse is the zero prefix, which overlaps nothing.\<close>

definition cidr_overlap :: "string \<Rightarrow> string \<Rightarrow> bool" where
  "cidr_overlap x y =
     (case (ParsePrefix x, ParsePrefix y) of (Some a, Some b) \<Rightarrow> ipam_Overlaps a b | _ \<Rightarrow> False)"

text \<open>An error of the list is ignored: there is nothing to compare with.\<close>

definition ValidateSubnet :: "'s ipam_engine \<Rightarrow> 's \<Rightarrow> UpsertSubnetInput \<Rightarrow> go_error + Subnet" where
  "ValidateSubnet e s inp =
     rbind (validateSubnet inp) (\<lambda>n.
       (let current = (case ListSubnets e s of Inl _ \<Rightarrow> [] | Inr xs \<Rightarrow> xs)
        in if \<exists>x\<in>set current. sn_CIDR x \<noteq> sn_CIDR n \<and> cidr_overlap (sn_CIDR x) (sn_CIDR n)
           then Inl (ErrMsg ''subnet overlaps'') else Inr n))"

definition subnet_row :: "'s ipam_engine \<Rightarrow> time \<Rightarrow> 's \<Rightarrow> Subnet \<Rightarrow> Subnet" where
  "subnet_row e now s n =
     n\<lparr>sn_CreatedAt := (case GetSubnet e s (sn_CIDR n) of Inr old \<Rightarrow> sn_CreatedAt old | Inl _ \<Rightarrow> now), sn_UpdatedAt := now\<rparr>"

definition UpsertSubnet :: "'s ipam_engine \<Rightarrow> time \<Rightarrow> UpsertSubnetInput \<Rightarrow> 's \<Rightarrow> 's \<times> (go_error + Subnet)" where
  "UpsertSubnet e now inp s =
     (case ValidateSubnet e s inp of
        Inl err \<Rightarrow> (s, Inl err)
      | Inr n0 \<Rightarrow>
          (let n = subnet_row e now s n0
           in case put_row (ie_db e) (ie_subnet e) treeSubnets (sn_CIDR n) n now s of
                (s', Some err) \<Rightarrow> (s', Inl err)
              | (s', None) \<Rightarrow> (s', Inr n)))"

definition DeleteSubnet :: "'s ipam_engine \<Rightarrow> time \<Rightarrow> string \<Rightarrow> 's \<Rightarrow> 's \<times> go_error option" where
  "DeleteSubnet e now cidr s = db_Delete (ie_db e) treeSubnets (TrimSpace cidr) now s"

text \<open>The configuration's subnets; \<open>secs\<close> is the conversion of a duration to whole seconds through a float.\<close>

record ipam_subnet_config = subnet_config +
  ic_Name :: string
  ic_VLAN :: int

fun SeedFromConfig ::
  "'s ipam_engine \<Rightarrow> (duration \<Rightarrow> int) \<Rightarrow> time \<Rightarrow> ipam_subnet_config list \<Rightarrow> 's \<Rightarrow> 's \<times> go_error option" where
  "SeedFromConfig e secs now [] s = (s, None)"
| "SeedFromConfig e secs now (c # cs) s =
     (if TrimSpace (sc_CIDR c) = [] then SeedFromConfig e secs now cs s
      else (case GetSubnet e s (sc_CIDR c) of
          Inr _ \<Rightarrow> SeedFromConfig e secs now cs s
        | Inl _ \<Rightarrow>
            (let leaseSec = secs (sc_LeaseTime c)
             in case UpsertSubnet e now \<lparr>si_CIDR = sc_CIDR c, si_Name = ic_Name c, si_VLAN = ic_VLAN c,
                  si_Gateway = sc_Gateway c, si_DNS = sc_DNS c, si_DHCPEnable = sc_DHCPEnabled c,
                  si_PoolStart = sc_PoolStart c, si_PoolEnd = sc_PoolEnd c,
                  si_LeaseSec = (if leaseSec \<le> 0 then 43200 else leaseSec)\<rparr> s of
                  (s', Inl err) \<Rightarrow> (s', Some err)
                | (s', Inr _) \<Rightarrow> SeedFromConfig e secs now cs s')))"

section \<open>Reservations\<close>

text \<open>The subnet an address is filed under: the one named, which must hold it, or the first that does.\<close>

definition choose_subnet :: "addr \<Rightarrow> string \<Rightarrow> Subnet list \<Rightarrow> go_error + string" where
  "choose_subnet a cidr subnets =
     (if cidr \<noteq> [] then
        (case lookupSubnet subnets cidr of
           None \<Rightarrow> Inl (ErrMsg ''subnet not found'')
         | Some sn \<Rightarrow>
             (case ParsePrefix (sn_CIDR sn) of
                None \<Rightarrow> Inl (ErrMsg ''ip is outside subnet'')
              | Some p \<Rightarrow> if pfx_Contains p a then Inr (sn_CIDR sn) else Inl (ErrMsg ''ip is outside subnet'')))
      else if inferSubnetForAddr a subnets = [] then Inl (ErrMsg ''ip does not belong to a configured subnet'')
      else Inr (inferSubnetForAddr a subnets))"

definition ValidateReservation ::
  "'s ipam_engine \<Rightarrow> time \<Rightarrow> 's \<Rightarrow> UpsertReservationInput \<Rightarrow> go_error + Reservation" where
  "ValidateReservation e now s inp =
     (let mac = normalizeMAC (ri_MAC inp) in
      if mac = [] then Inl (ErrMsg ''mac is required'')
      else if ParseMAC mac = None then Inl (ErrMsg ''invalid mac'')
      else case ParseAddr (TrimSpace (ri_IP inp)) of
        None \<Rightarrow> Inl (ErrMsg ''invalid ip'')
      | Some a \<Rightarrow>
          rbind (ListSubnets e s) (\<lambda>subnets.
          rbind (choose_subnet a (TrimSpace (ri_SubnetCIDR inp)) subnets) (\<lambda>cidr.
          rbind (ListReservations e s) (\<lambda>records.
            if \<exists>x\<in>set records. rv_IP x = addr_String a \<and> normalizeMAC (rv_MAC x) \<noteq> mac
            then Inl (ErrMsg ''ip is already reserved'')
            else Inr \<lparr>rv_MAC = mac, rv_IP = addr_String a, rv_Hostname = TrimSpace (ri_Hostname inp),
                   rv_SubnetCIDR = cidr,
                   rv_CreatedAt = (case GetReservationByMAC e s mac of Inr old \<Rightarrow> rv_CreatedAt old | Inl _ \<Rightarrow> now),
                   rv_UpdatedAt = now\<rparr>))))"

definition UpsertReservation ::
  "'s ipam_engine \<Rightarrow> time \<Rightarrow> UpsertReservationInput \<Rightarrow> 's \<Rightarrow> 's \<times> (go_error + Reservation)" where
  "UpsertReservation e now inp s =
     (case ValidateReservation e now s inp of
        Inl err \<Rightarrow> (s, Inl err)
      | Inr r \<Rightarrow>
          (case put_row (ie_db e) (ie_reservation e) treeReservations (rv_MAC r) r now s of
             (s', Some err) \<Rightarrow> (s', Inl err)
           | (s', None) \<Rightarrow> (s', Inr r)))"

definition DeleteReservation :: "'s ipam_engine \<Rightarrow> time \<Rightarrow> string \<Rightarrow> 's \<Rightarrow> 's \<times> go_error option" where
  "DeleteReservation e now mac s = db_Delete (ie_db e) treeReservations (normalizeMAC mac) now s"

end
