(* ===== verification/IpamAddress.thy ===== *)
theory IpamAddress
  imports Ipam "HOL-Library.Sublist"
begin

text \<open>
  The addresses of \<^verbatim>\<open>src/internal/ipam/engine.go\<close>: what stored rows, reservations, leases and
  the pool say of an address is merged into one record. A Go map of records is an association list;
  ranging over it has no fixed order, and the list is sorted afterwards.
\<close>

section \<open>Merging what is known of an address\<close>

definition rankState :: "IPState \<Rightarrow> int" where
  "rankState st =
     (if st = IPStateConflict then 5 else if st = IPStateDHCP then 4
      else if st = IPStateQuarantined then 3 else if st = IPStateReserved then 2 else 1)"

definition leaseToIPState :: "Lease \<Rightarrow> IPState" where
  "leaseToIPState l =
     (if l_State l = StateDeclined then IPStateConflict
      else if l_State l = StateQuarantined \<or> l_State l = StateExpired \<or> l_State l = StateReleased then IPStateQuarantined
      else IPStateDHCP)"

definition merge_source :: "string \<Rightarrow> string \<Rightarrow> string" where
  "merge_source cur nxt =
     (if cur = [] then nxt
      else if nxt \<noteq> [] \<and> cur \<noteq> nxt \<and> \<not> sublist nxt cur then cur @ ''+'' @ nxt else cur)"

definition or_else :: "string \<Rightarrow> string \<Rightarrow> string" where
  "or_else x y = (if x = [] then y else x)"

definition mergeAddressRecord :: "AddressRecord \<Rightarrow> AddressRecord \<Rightarrow> AddressRecord" where
  "mergeAddressRecord current nxt =
     (if ad_IP current = [] then nxt
      else (let out = current\<lparr>ad_SubnetCIDR := or_else (ad_SubnetCIDR current) (ad_SubnetCIDR nxt),
                  ad_Hostname := or_else (ad_Hostname current) (ad_Hostname nxt),
                  ad_MAC := or_else (ad_MAC current) (ad_MAC nxt),
                  ad_LeaseState := or_else (ad_LeaseState current) (ad_LeaseState nxt),
                  ad_Source := merge_source (ad_Source current) (ad_Source nxt),
                  ad_UpdatedAt := (if ad_UpdatedAt nxt > ad_UpdatedAt current then ad_UpdatedAt nxt else ad_UpdatedAt current)\<rparr>
            in if ad_MAC out \<noteq> [] \<and> ad_MAC nxt \<noteq> [] \<and> ad_MAC out \<noteq> ad_MAC nxt then out\<lparr>ad_State := IPStateConflict\<rparr>
               else if rankState (ad_State nxt) > rankState (ad_State out) then out\<lparr>ad_State := ad_State nxt\<rparr>
               else out))"

section \<open>Pools and how full they are\<close>

definition poolRange :: "Subnet \<Rightarrow> (u32 \<times> u32) option" where
  "poolRange sn =
     (case (ParseAddr (TrimSpace (dp_PoolStart (sn_DHCP sn))), ParseAddr (TrimSpace (dp_PoolEnd (sn_DHCP sn)))) of
        (Some (A4 start), Some (A4 endv)) \<Rightarrow> if addr_Compare (A4 start) (A4 endv) > 0 then None else Some (start, endv)
      | _ \<Rightarrow> None)"

definition ipv4Span :: "u32 \<Rightarrow> u32 \<Rightarrow> int" where
  "ipv4Span start endv = (if start > endv then 0 else uint (endv - start) + 1)"

definition subnetCapacity :: "Subnet \<Rightarrow> int" where
  "subnetCapacity sn =
     (case poolRange sn of
        Some (start, endv) \<Rightarrow> ipv4Span start endv
      | None \<Rightarrow>
          (case ParsePrefix (TrimSpace (sn_CIDR sn)) of
             None \<Rightarrow> 0
           | Some p \<Rightarrow>
               (let n = AddressCount p;
                    tot = (if addr_Is4 (pfx_addr p) \<and> pfx_bits p \<le> 30 \<and> n \<ge> 2 then n - 2 else n)
                in if tot > 9223372036854775807 then 9223372036854775807 else uint tot)))"

text \<open>\<open>pct\<close> is the percentage computed in floating point.\<close>

definition utilizationPercent :: "(int \<Rightarrow> int \<Rightarrow> int) \<Rightarrow> int \<Rightarrow> int \<Rightarrow> int" where
  "utilizationPercent pct active capacity =
     (if active \<le> 0 \<or> capacity \<le> 0 then 0 else if active \<ge> capacity then 100 else pct active capacity)"

record SubnetSummary =
  ss_CIDR :: string
  ss_Name :: string
  ss_VLAN :: int
  ss_ActiveLeases :: int
  ss_TotalLeases :: int
  ss_Utilization :: int

text \<open>The leases of each subnet: all, and those bound or renewing.\<close>

definition count_lease :: "Lease \<Rightarrow> (string \<times> int \<times> int) list \<Rightarrow> (string \<times> int \<times> int) list" where
  "count_lease l m =
     (let k = (if l_SubnetID l = [] then ''unassigned'' else l_SubnetID l);
          (tot, active) = (case map_of m k of None \<Rightarrow> (0, 0) | Some ta \<Rightarrow> ta)
      in mput k (tot + 1, if l_State l = StateBound \<or> l_State l = StateRenewing then active + 1 else active) m)"

definition lease_counts :: "'s ipam_engine \<Rightarrow> 's \<Rightarrow> (string \<times> int \<times> int) list" where
  "lease_counts e s =
     (case ie_leases e of
        None \<Rightarrow> []
      | Some ops \<Rightarrow> (case op_ListAll ops s of Inl _ \<Rightarrow> [] | Inr leases \<Rightarrow> fold count_lease leases []))"

definition ListSummaries ::
  "'s ipam_engine \<Rightarrow> (int \<Rightarrow> int \<Rightarrow> int) \<Rightarrow> 's \<Rightarrow> go_error + SubnetSummary list" where
  "ListSummaries e pct s =
     rbind (ListSubnets e s) (\<lambda>subnets.
       (let counts = lease_counts e s;
            rows = map (\<lambda>sn. let (tot, active) = (case map_of counts (sn_CIDR sn) of None \<Rightarrow> (0, 0) | Some ta \<Rightarrow> ta) in
                \<lparr>ss_CIDR = sn_CIDR sn, ss_Name = sn_Name sn, ss_VLAN = sn_VLAN sn, ss_ActiveLeases = active,
                 ss_TotalLeases = tot, ss_Utilization = utilizationPercent pct active (subnetCapacity sn)\<rparr>) subnets;
            rest = (case map_of counts ''unassigned'' of
                None \<Rightarrow> []
              | Some (tot, active) \<Rightarrow>
                  [\<lparr>ss_CIDR = ''unassigned'', ss_Name = ''Unassigned'', ss_VLAN = 0, ss_ActiveLeases = active,
                    ss_TotalLeases = tot, ss_Utilization = 0\<rparr>])
        in Inr (sort_by (\<lambda>x y. ss_CIDR x < ss_CIDR y) (rows @ rest))))"

section \<open>Listing addresses\<close>

definition empty_address :: AddressRecord where
  "empty_address = \<lparr>ad_IP = [], ad_SubnetCIDR = [], ad_State = [], ad_MAC = [], ad_Hostname = [],
     ad_LeaseState = [], ad_Source = [], ad_UpdatedAt = 0\<rparr>"

definition merge_into :: "AddressRecord \<Rightarrow> (string \<times> AddressRecord) list \<Rightarrow> (string \<times> AddressRecord) list" where
  "merge_into a m =
     mput (ad_IP a) (mergeAddressRecord (case map_of m (ad_IP a) of None \<Rightarrow> empty_address | Some x \<Rightarrow> x) a) m"

definition reservation_address :: "Reservation \<Rightarrow> AddressRecord" where
  "reservation_address r = \<lparr>ad_IP = rv_IP r, ad_SubnetCIDR = rv_SubnetCIDR r, ad_State = IPStateReserved,
     ad_MAC = rv_MAC r, ad_Hostname = rv_Hostname r, ad_LeaseState = [], ad_Source = ''reservation'',
     ad_UpdatedAt = rv_UpdatedAt r\<rparr>"

definition lease_subnet :: "Subnet list \<Rightarrow> string \<Rightarrow> Lease \<Rightarrow> string" where
  "lease_subnet subnets ip l =
     (if TrimSpace (l_SubnetID l) \<noteq> [] then TrimSpace (l_SubnetID l)
      else (case ParseAddr ip of None \<Rightarrow> [] | Some a \<Rightarrow> inferSubnetForAddr a subnets))"

definition lease_address :: "string \<Rightarrow> Lease \<Rightarrow> AddressRecord" where
  "lease_address cidr l = \<lparr>ad_IP = l_IP l, ad_SubnetCIDR = cidr, ad_State = leaseToIPState l,
     ad_MAC = normalizeMAC (l_MAC l), ad_Hostname = l_Hostname l, ad_LeaseState = l_State l, ad_Source = ''lease'',
     ad_UpdatedAt = l_UpdatedAt l\<rparr>"

definition in_target :: "string \<Rightarrow> AddressRecord \<Rightarrow> bool" where
  "in_target target a \<longleftrightarrow> target = [] \<or> ad_SubnetCIDR a = target"

text \<open>At most \<open>n\<close> addresses of the pool, from its start.\<close>

fun pool_fill :: "nat \<Rightarrow> string \<Rightarrow> u32 \<Rightarrow> u32 \<Rightarrow> (string \<times> AddressRecord) list \<Rightarrow> (string \<times> AddressRecord) list" where
  "pool_fill 0 cidr a endv m = m"
| "pool_fill (Suc n) cidr a endv m =
     (let key = addr_String (A4 a);
          m' = (if map_of m key \<noteq> None then m
                else mput key (empty_address\<lparr>ad_IP := key, ad_SubnetCIDR := cidr, ad_State := IPStateAvailable,
                       ad_Source := ''pool''\<rparr>) m)
      in if a = endv then m' else pool_fill n cidr (a + 1) endv m')"

definition lease_addresses :: "'s ipam_engine \<Rightarrow> 's \<Rightarrow> Subnet list \<Rightarrow> AddressRecord list" where
  "lease_addresses e s subnets =
     (case ie_leases e of
        None \<Rightarrow> []
      | Some ops \<Rightarrow>
          (case op_ListAll ops s of
             Inl _ \<Rightarrow> []
           | Inr leases \<Rightarrow> map (\<lambda>l. lease_address (lease_subnet subnets (TrimSpace (l_IP l)) l) l) leases))"

definition fill_target :: "Subnet list \<Rightarrow> string \<Rightarrow> (string \<times> AddressRecord) list \<Rightarrow> (string \<times> AddressRecord) list" where
  "fill_target subnets target m =
     (if target = [] then m
      else (case lookupSubnet subnets target of
              None \<Rightarrow> m
            | Some sn \<Rightarrow>
                if dp_Enabled (sn_DHCP sn)
                then (case poolRange sn of None \<Rightarrow> m | Some (start, endv) \<Rightarrow> pool_fill 4096 (sn_CIDR sn) start endv m)
                else m))"

definition haystack :: "AddressRecord \<Rightarrow> string" where
  "haystack r = ToLower (ad_IP r @ '' '' @ ad_MAC r @ '' '' @ ad_Hostname r @ '' '' @ ad_SubnetCIDR r @ '' ''
     @ ad_Source r @ '' '' @ ad_LeaseState r)"

definition address_wanted :: "AddressFilter \<Rightarrow> AddressRecord \<Rightarrow> bool" where
  "address_wanted f r \<longleftrightarrow>
     (af_State f = [] \<or> ad_State r = af_State f) \<and>
     (let query = ToLower (TrimSpace (af_Query f)) in query = [] \<or> sublist query (haystack r))"

definition target_subnet :: "Subnet list \<Rightarrow> string \<Rightarrow> go_error + string" where
  "target_subnet subnets t =
     (if t \<noteq> [] \<and> t \<noteq> ''all''
      then (case lookupSubnet subnets t of None \<Rightarrow> Inl (ErrMsg ''subnet not found'') | Some sn \<Rightarrow> Inr (sn_CIDR sn))
      else Inr t)"

definition ListAddresses :: "'s ipam_engine \<Rightarrow> 's \<Rightarrow> AddressFilter \<Rightarrow> go_error + AddressRecord list" where
  "ListAddresses e s f =
     rbind (ListSubnets e s) (\<lambda>subnets.
     rbind (target_subnet subnets (TrimSpace (af_SubnetCIDR f))) (\<lambda>target.
     rbind (ListStoredAddresses e s) (\<lambda>stored.
     rbind (ListReservations e s) (\<lambda>reservations.
       (let found = filter (in_target target)
              (stored @ map reservation_address reservations @ lease_addresses e s subnets);
            records = fill_target subnets target (fold merge_into found []);
            out = sortAddressRecords (filter (address_wanted f) (map snd records))
        in Inr (if af_Limit f > 0 \<and> int (length out) > af_Limit f then take (nat (af_Limit f)) out else out))))))"

section \<open>One address\<close>

definition GetAddress :: "'s ipam_engine \<Rightarrow> 's \<Rightarrow> string \<Rightarrow> go_error + AddressRecord" where
  "GetAddress e s ip0 =
     (let ip = TrimSpace ip0 in
      case ParseAddr ip of
        None \<Rightarrow> Inl (ErrMsg ''invalid ip'')
      | Some a \<Rightarrow>
          rbind (ListSubnets e s) (\<lambda>subnets.
          rbind (ListReservations e s) (\<lambda>reservations.
            (let stored = (case GetStoredAddress e s ip of Inr x \<Rightarrow> [x] | Inl _ \<Rightarrow> []);
                 reserved = map reservation_address (filter (\<lambda>r. rv_IP r = ip) reservations);
                 leased = (case ie_leases e of
                     None \<Rightarrow> []
                   | Some ops \<Rightarrow>
                       (case op_GetByIP ops s ip of
                          Inl _ \<Rightarrow> [] | Inr l \<Rightarrow> [lease_address (lease_subnet subnets ip l) l]));
                 found = stored @ reserved @ leased
             in if found \<noteq> [] then Inr (fold (\<lambda>x out. mergeAddressRecord out x) found empty_address)
                else if inferSubnetForAddr a subnets \<noteq> []
                then Inr (empty_address\<lparr>ad_IP := ip, ad_SubnetCIDR := inferSubnetForAddr a subnets,
                       ad_State := IPStateAvailable, ad_Source := ''subnet''\<rparr>)
                else Inl ErrNotFound))))"

definition ValidateAddress ::
  "'s ipam_engine \<Rightarrow> time \<Rightarrow> 's \<Rightarrow> UpsertAddressInput \<Rightarrow> go_error + AddressRecord" where
  "ValidateAddress e now s inp =
     (case ParseAddr (TrimSpace (ai_IP inp)) of
        None \<Rightarrow> Inl (ErrMsg ''invalid ip'')
      | Some a \<Rightarrow>
          rbind (ListSubnets e s) (\<lambda>subnets.
          rbind (choose_subnet a (TrimSpace (ai_SubnetCIDR inp)) subnets) (\<lambda>cidr.
            (let st = or_else (ai_State inp) IPStateAvailable in
             if st \<notin> {IPStateAvailable, IPStateDHCP, IPStateReserved, IPStateConflict, IPStateQuarantined}
             then Inl (ErrMsg ''invalid address state'')
             else Inr \<lparr>ad_IP = addr_String a, ad_SubnetCIDR = cidr, ad_State = st, ad_MAC = normalizeMAC (ai_MAC inp),
                    ad_Hostname = TrimSpace (ai_Hostname inp), ad_LeaseState = [],
                    ad_Source = or_else (TrimSpace (ai_Source inp)) ''manual'',
                    ad_UpdatedAt = (if is_zero_time (ai_UpdatedAt inp) then now else ai_UpdatedAt inp)\<rparr>))))"

definition UpsertAddress ::
  "'s ipam_engine \<Rightarrow> time \<Rightarrow> UpsertAddressInput \<Rightarrow> 's \<Rightarrow> 's \<times> (go_error + AddressRecord)" where
  "UpsertAddress e now inp s =
     (case ValidateAddress e now s inp of
        Inl err \<Rightarrow> (s, Inl err)
      | Inr r \<Rightarrow>
          (case put_row (ie_db e) (ie_address e) treeAddresses (ad_IP r) r now s of
             (s', Some err) \<Rightarrow> (s', Inl err)
           | (s', None) \<Rightarrow> (s', Inr r)))"

definition DeleteStoredAddress :: "'s ipam_engine \<Rightarrow> time \<Rightarrow> string \<Rightarrow> 's \<Rightarrow> 's \<times> go_error option" where
  "DeleteStoredAddress e now ip s = db_Delete (ie_db e) treeAddresses (TrimSpace ip) now s"

end
