(* ===== verification/DbDemo.thy ===== *)
theory DbDemo
  imports Db LeaseProps
begin

text \<open>For the instances of the properties: a codec that knows a given list of values, and the engine of
  the empty database as a store of rows.\<close>

definition table_codec :: "'a list \<Rightarrow> 'a codec" where
  "table_codec xs = \<lparr>c_marshal = (\<lambda>x. map_option (\<lambda>i. replicate i (CHR ''x'')) (find (\<lambda>i. xs ! i = x) [0..<length xs])),
     c_unmarshal = (\<lambda>r. if length r < length xs then Some (xs ! length r) else None)\<rparr>"

lemma table_codec_ok: "codec_ok (table_codec xs)"
  by (auto simp: codec_ok_def table_codec_def find_Some_iff)

lemma table_codec_mem:
  assumes "x \<in> set xs"
  shows "\<exists>raw. c_marshal (table_codec xs) x = Some raw \<and> c_unmarshal (table_codec xs) raw = Some x \<and> length raw < length xs"
proof (cases "find (\<lambda>i. xs ! i = x) [0..<length xs]")
  case None
  then show ?thesis using assms by (auto simp: find_None_iff in_set_conv_nth)
next
  case (Some i)
  then have "i < length xs" "xs ! i = x" by (auto simp: find_Some_iff)
  then show ?thesis using Some by (auto simp: table_codec_def)
qed

lemma db_inv_demo0: "db_inv demo0" and db_view_demo0: "db_view demo0 t = Map.empty"
  using demo0_inv es_inv_eng by (auto simp: db_inv_def db_view_def demo0_eq eget.simps)

lemma demo_fits: "length k < 100 \<Longrightarrow> length v < 100 \<Longrightarrow> wf_name t \<Longrightarrow> length t < 100 \<Longrightarrow> db_fits t k v"
  by (auto simp: db_fits_def wf_mut_def entry_of_def makeTreeKey_def Let_def)

text \<open>Storing a row of the table in a state of the run.\<close>

lemma demo_put:
  assumes "db_inv s" "x \<in> set xs" "length xs < 100" "length k < 100" "wf_name t" "length t < 100"
  shows "\<exists>s'. put_row engine_db (table_codec xs) t k x now s = (s', None) \<and>
    edb.entry (table_codec xs) s' t = (edb.entry (table_codec xs) s t)(k \<mapsto> x) \<and>
    (\<forall>t'. t' \<noteq> t \<longrightarrow> db_view s' t' = db_view s t')" "row_fits (table_codec xs) t k x"
proof -
  obtain raw where raw: "c_marshal (table_codec xs) x = Some raw" "c_unmarshal (table_codec xs) raw = Some x"
    "length raw < length xs" using table_codec_mem [OF assms(2)] by blast
  have f: "db_fits t k raw" by (rule demo_fits) (use raw(3) assms in auto)
  show "\<exists>s'. put_row engine_db (table_codec xs) t k x now s = (s', None) \<and>
    edb.entry (table_codec xs) s' t = (edb.entry (table_codec xs) s t)(k \<mapsto> x) \<and>
    (\<forall>t'. t' \<noteq> t \<longrightarrow> db_view s' t' = db_view s t')"
    using edb.put_row_entry [OF assms(1) raw(1,2) f] by blast
  show "row_fits (table_codec xs) t k x" using raw(1) f by (simp add: row_fits_def)
qed

end
