(* ===== verification/IpamProps.thy ===== *)
theory IpamProps
  imports IpamAddress Dhcp4Demo DbDemo
begin

text \<open>
  The address management on the storage engine: whatever sequence of its writes has run, no two
  subnets share an address and no two reservations share an address or a hardware address.
\<close>

section \<open>Runs\<close>

datatype ipam_call =
    CallUpsertSubnet UpsertSubnetInput
  | CallDeleteSubnet string
  | CallUpsertReservation UpsertReservationInput
  | CallDeleteReservation string
  | CallUpsertAddress UpsertAddressInput
  | CallDeleteAddress string

fun ipam_run :: "engine ipam_engine \<Rightarrow> time \<Rightarrow> ipam_call \<Rightarrow> engine \<Rightarrow> engine" where
  "ipam_run e now (CallUpsertSubnet inp) s = fst (UpsertSubnet e now inp s)"
| "ipam_run e now (CallDeleteSubnet cidr) s = fst (DeleteSubnet e now cidr s)"
| "ipam_run e now (CallUpsertReservation inp) s = fst (UpsertReservation e now inp s)"
| "ipam_run e now (CallDeleteReservation mac) s = fst (DeleteReservation e now mac s)"
| "ipam_run e now (CallUpsertAddress inp) s = fst (UpsertAddress e now inp s)"
| "ipam_run e now (CallDeleteAddress ip) s = fst (DeleteStoredAddress e now ip s)"

fun call_fits :: "engine ipam_engine \<Rightarrow> time \<Rightarrow> ipam_call \<Rightarrow> engine \<Rightarrow> bool" where
  "call_fits e now (CallUpsertSubnet inp) s =
     (case ValidateSubnet e s inp of Inl _ \<Rightarrow> True
      | Inr n \<Rightarrow> row_fits (ie_subnet e) treeSubnets (sn_CIDR n) (subnet_row e now s n))"
| "call_fits e now (CallDeleteSubnet cidr) s = db_fits treeSubnets (TrimSpace cidr) []"
| "call_fits e now (CallUpsertReservation inp) s =
     (case ValidateReservation e now s inp of Inl _ \<Rightarrow> True
      | Inr r \<Rightarrow> row_fits (ie_reservation e) treeReservations (rv_MAC r) r)"
| "call_fits e now (CallDeleteReservation mac) s = db_fits treeReservations (normalizeMAC mac) []"
| "call_fits e now (CallUpsertAddress inp) s =
     (case ValidateAddress e now s inp of Inl _ \<Rightarrow> True
      | Inr r \<Rightarrow> row_fits (ie_address e) treeAddresses (ad_IP r) r)"
| "call_fits e now (CallDeleteAddress ip) s = db_fits treeAddresses (TrimSpace ip) []"

inductive ipam_reach :: "engine ipam_engine \<Rightarrow> engine \<Rightarrow> bool" for e where
  start: "db_inv s \<Longrightarrow> (\<And>t. t \<in> {treeSubnets, treeReservations, treeAddresses} \<Longrightarrow> db_view s t = Map.empty) \<Longrightarrow> ipam_reach e s"
| call: "ipam_reach e s \<Longrightarrow> call_fits e now c s \<Longrightarrow> ipam_reach e (ipam_run e now c s)"

definition ipam_on_engine :: "engine ipam_engine \<Rightarrow> bool" where
  "ipam_on_engine e \<longleftrightarrow> ie_db e = engine_db \<and> codec_ok (ie_subnet e) \<and> codec_ok (ie_reservation e) \<and> codec_ok (ie_address e)"

section \<open>The invariant\<close>

abbreviation subnet_at :: "engine ipam_engine \<Rightarrow> engine \<Rightarrow> bytes \<Rightarrow> Subnet option" where
  "subnet_at e s \<equiv> edb.entry (ie_subnet e) s treeSubnets"

abbreviation reservation_at :: "engine ipam_engine \<Rightarrow> engine \<Rightarrow> bytes \<Rightarrow> Reservation option" where
  "reservation_at e s \<equiv> edb.entry (ie_reservation e) s treeReservations"

abbreviation address_at :: "engine ipam_engine \<Rightarrow> engine \<Rightarrow> bytes \<Rightarrow> AddressRecord option" where
  "address_at e s \<equiv> edb.entry (ie_address e) s treeAddresses"

definition subnets_inv :: "(bytes \<Rightarrow> Subnet option) \<Rightarrow> bool" where
  "subnets_inv m \<longleftrightarrow> (\<forall>k x. m k = Some x \<longrightarrow> sn_CIDR x = k \<and> CHR ''/'' \<in> set k) \<and>
     (\<forall>j k. m j \<noteq> None \<and> m k \<noteq> None \<and> j \<noteq> k \<longrightarrow> \<not> cidr_overlap j k)"

definition reservations_inv :: "(bytes \<Rightarrow> Reservation option) \<Rightarrow> bool" where
  "reservations_inv m \<longleftrightarrow>
     (\<forall>k x. m k = Some x \<longrightarrow> rv_MAC x = k \<and> normalizeMAC k = k \<and> ParsePrefix (rv_SubnetCIDR x) \<noteq> None) \<and>
     (\<forall>j k x y. m j = Some x \<and> m k = Some y \<and> rv_IP x = rv_IP y \<longrightarrow> j = k)"

definition addresses_inv :: "(bytes \<Rightarrow> AddressRecord option) \<Rightarrow> bool" where
  "addresses_inv m \<longleftrightarrow> (\<forall>k x. m k = Some x \<longrightarrow> ParsePrefix (ad_SubnetCIDR x) \<noteq> None)"

definition ipam_inv :: "engine ipam_engine \<Rightarrow> engine \<Rightarrow> bool" where
  "ipam_inv e s \<longleftrightarrow> db_inv s \<and> subnets_inv (subnet_at e s) \<and> reservations_inv (reservation_at e s) \<and>
     addresses_inv (address_at e s)"

subsection \<open>Subnets\<close>

lemma ListSubnets_entries:
  assumes "ie_db e = engine_db" "db_inv s"
  shows "\<exists>xs. ListSubnets e s = Inr xs \<and> set xs = {x. \<exists>k. subnet_at e s k = Some x}"
  using edb.list_rows_entries [OF assms(2), of "ie_subnet e" treeSubnets] assms(1)
  by (auto simp: ListSubnets_def)

lemma ListReservations_entries:
  assumes "ie_db e = engine_db" "db_inv s"
  shows "\<exists>xs. ListReservations e s = Inr xs \<and> set xs = {x. \<exists>k. reservation_at e s k = Some x}"
  using edb.list_rows_entries [OF assms(2), of "ie_reservation e" treeReservations] assms(1)
  by (auto simp: ListReservations_def)

lemma ListStoredAddresses_entries:
  assumes "ie_db e = engine_db" "db_inv s"
  shows "\<exists>xs. ListStoredAddresses e s = Inr xs \<and> set xs = {x. \<exists>k. address_at e s k = Some x}"
  using edb.list_rows_entries [OF assms(2), of "ie_address e" treeAddresses] assms(1)
  by (auto simp: ListStoredAddresses_def sortAddressRecords_def)

lemma cidr_overlap_sym: "cidr_overlap x y \<longleftrightarrow> cidr_overlap y x"
  by (auto simp: cidr_overlap_def ipam_Overlaps_def Let_def split: option.split)

lemma ValidateSubnet_disjoint:
  assumes "ie_db e = engine_db" "db_inv s" "subnets_inv (subnet_at e s)" "ValidateSubnet e s inp = Inr n"
    "subnet_at e s k = Some x" "k \<noteq> sn_CIDR n"
  shows "\<not> cidr_overlap k (sn_CIDR n)"
proof -
  obtain xs where xs: "ListSubnets e s = Inr xs" "set xs = {x. \<exists>k. subnet_at e s k = Some x}"
    using ListSubnets_entries [OF assms(1,2)] by blast
  have k: "sn_CIDR x = k" using assms(3,5) by (auto simp: subnets_inv_def)
  have "x \<in> set xs" using xs(2) assms(5) by blast
  then show ?thesis
    using assms(4,6) xs(1) k by (auto simp: ValidateSubnet_def rbind_Inr_conv Let_def split: if_splits)
qed

lemma ValidateSubnet_slash: "ValidateSubnet e s inp = Inr n \<Longrightarrow> CHR ''/'' \<in> set (sn_CIDR n)"
  by (auto simp: ValidateSubnet_def validateSubnet_def rbind_Inr_conv Let_def pfx_String_def
      split: if_splits option.splits)

lemma subnets_inv_upd:
  assumes "subnets_inv m" "sn_CIDR n = c" "CHR ''/'' \<in> set c" "\<And>k x. m k = Some x \<Longrightarrow> k \<noteq> c \<Longrightarrow> \<not> cidr_overlap k c"
  shows "subnets_inv (m(c \<mapsto> n))"
  using assms cidr_overlap_sym unfolding subnets_inv_def by (auto split: if_splits)

lemma subnets_inv_del: "subnets_inv m \<Longrightarrow> subnets_inv (m(c := None))"
  by (auto simp: subnets_inv_def split: if_splits)

subsection \<open>Reservations and addresses\<close>

lemma find_Some: "find P xs = Some x \<Longrightarrow> x \<in> set xs \<and> P x"
  by (induction xs) (auto split: if_splits)

lemma choose_subnet_prefix:
  assumes "choose_subnet a c xs = Inr cidr"
  shows "ParsePrefix cidr \<noteq> None"
  using assms unfolding choose_subnet_def inferSubnetForAddr_def
  by (auto split: if_splits option.splits dest!: find_Some)

lemma ValidateReservation_row:
  assumes "ValidateReservation e now s inp = Inr r"
  shows "rv_MAC r = normalizeMAC (ri_MAC inp)" "ParsePrefix (rv_SubnetCIDR r) \<noteq> None"
    "\<exists>xs. ListReservations e s = Inr xs \<and> (\<forall>x\<in>set xs. rv_IP x = rv_IP r \<longrightarrow> normalizeMAC (rv_MAC x) = rv_MAC r)"
  using assms choose_subnet_prefix unfolding ValidateReservation_def
  by (auto simp: Let_def rbind_Inr_conv split: if_splits option.splits)

lemma reservations_inv_upd:
  assumes "reservations_inv m" "rv_MAC n = c" "normalizeMAC c = c" "ParsePrefix (rv_SubnetCIDR n) \<noteq> None"
    "\<And>k x. m k = Some x \<Longrightarrow> rv_IP x = rv_IP n \<Longrightarrow> normalizeMAC (rv_MAC x) = c"
  shows "reservations_inv (m(c \<mapsto> n))"
proof -
  have "k = c" if "m k = Some x" "rv_IP x = rv_IP n" for k x
    using assms(1,5) that unfolding reservations_inv_def by metis
  then show ?thesis using assms(1-4) unfolding reservations_inv_def by (auto split: if_splits)
qed

lemma reservations_inv_del: "reservations_inv m \<Longrightarrow> reservations_inv (m(c := None))"
  by (auto simp: reservations_inv_def split: if_splits)

lemma addresses_inv_upd:
  "addresses_inv m \<Longrightarrow> ParsePrefix (ad_SubnetCIDR n) \<noteq> None \<Longrightarrow> addresses_inv (m(c \<mapsto> n))"
  "addresses_inv m \<Longrightarrow> addresses_inv (m(c := None))"
  by (auto simp: addresses_inv_def split: if_splits)

lemma ValidateAddress_row: "ValidateAddress e now s inp = Inr r \<Longrightarrow> ParsePrefix (ad_SubnetCIDR r) \<noteq> None"
  using choose_subnet_prefix unfolding ValidateAddress_def
  by (auto simp: Let_def rbind_Inr_conv split: if_splits option.splits)

subsection \<open>Every call keeps it\<close>

lemma ipam_inv_subnet:
  assumes "ipam_on_engine e" "ipam_inv e s" "call_fits e now (CallUpsertSubnet inp) s"
  shows "ipam_inv e (fst (UpsertSubnet e now inp s))"
proof (cases "ValidateSubnet e s inp")
  case (Inl err)
  then show ?thesis using assms(2) by (simp add: UpsertSubnet_def)
next
  case (Inr n)
  let ?n = "subnet_row e now s n"
  obtain s' r where p: "put_row engine_db (ie_subnet e) treeSubnets (sn_CIDR n) ?n now s = (s', r)" by (metis surj_pair)
  have e: "ie_db e = engine_db" "codec_ok (ie_subnet e)" using assms(1) by (auto simp: ipam_on_engine_def)
  have i: "db_inv s" "subnets_inv (subnet_at e s)" using assms(2) by (auto simp: ipam_inv_def)
  have w: "db_inv s'" "s' = s \<or> subnet_at e s' = (subnet_at e s)(sn_CIDR n \<mapsto> ?n)"
    "\<forall>t'. t' \<noteq> treeSubnets \<longrightarrow> db_view s' t' = db_view s t'"
    using put_row_on_engine [OF i(1) e(2) _ p] assms(3) Inr by auto
  have "subnets_inv ((subnet_at e s)(sn_CIDR n \<mapsto> ?n))"
    by (rule subnets_inv_upd [OF i(2)]) (use ValidateSubnet_disjoint [OF e(1) i Inr] ValidateSubnet_slash [OF Inr] in \<open>auto simp: subnet_row_def\<close>)
  then have "ipam_inv e s'"
    using w(1,2) assms(2) by (auto simp: ipam_inv_def entry_frame [OF w(3)])
  moreover have "sn_CIDR ?n = sn_CIDR n" by (simp add: subnet_row_def)
  ultimately show ?thesis using Inr p e(1) by (auto simp: UpsertSubnet_def Let_def split: option.split)
qed

lemma ipam_inv_reservation:
  assumes "ipam_on_engine e" "ipam_inv e s" "call_fits e now (CallUpsertReservation inp) s"
  shows "ipam_inv e (fst (UpsertReservation e now inp s))"
proof (cases "ValidateReservation e now s inp")
  case (Inl err)
  then show ?thesis using assms(2) by (simp add: UpsertReservation_def)
next
  case (Inr n)
  obtain s' r where p: "put_row engine_db (ie_reservation e) treeReservations (rv_MAC n) n now s = (s', r)"
    by (metis surj_pair)
  have e: "ie_db e = engine_db" "codec_ok (ie_reservation e)" using assms(1) by (auto simp: ipam_on_engine_def)
  have i: "db_inv s" "reservations_inv (reservation_at e s)" using assms(2) by (auto simp: ipam_inv_def)
  have w: "db_inv s'" "s' = s \<or> reservation_at e s' = (reservation_at e s)(rv_MAC n \<mapsto> n)"
    "\<forall>t'. t' \<noteq> treeReservations \<longrightarrow> db_view s' t' = db_view s t'"
    using put_row_on_engine [OF i(1) e(2) _ p] assms(3) Inr by auto
  obtain xs where xs: "ListReservations e s = Inr xs" "\<forall>x\<in>set xs. rv_IP x = rv_IP n \<longrightarrow> normalizeMAC (rv_MAC x) = rv_MAC n"
    using ValidateReservation_row(3) [OF Inr] by blast
  have "set xs = {x. \<exists>k. reservation_at e s k = Some x}" using ListReservations_entries [OF e(1) i(1)] xs(1) by auto
  then have "reservations_inv ((reservation_at e s)(rv_MAC n \<mapsto> n))"
    by (intro reservations_inv_upd [OF i(2)]) (use xs(2) ValidateReservation_row(1,2) [OF Inr] in auto)
  then have "ipam_inv e s'"
    using w(1,2) assms(2) by (auto simp: ipam_inv_def entry_frame [OF w(3)])
  then show ?thesis using Inr p e(1) by (auto simp: UpsertReservation_def split: option.split)
qed

lemma ipam_inv_address:
  assumes "ipam_on_engine e" "ipam_inv e s" "call_fits e now (CallUpsertAddress inp) s"
  shows "ipam_inv e (fst (UpsertAddress e now inp s))"
proof (cases "ValidateAddress e now s inp")
  case (Inl err)
  then show ?thesis using assms(2) by (simp add: UpsertAddress_def)
next
  case (Inr n)
  obtain s' r where p: "put_row engine_db (ie_address e) treeAddresses (ad_IP n) n now s = (s', r)" by (metis surj_pair)
  have e: "ie_db e = engine_db" "codec_ok (ie_address e)" using assms(1) by (auto simp: ipam_on_engine_def)
  have i: "db_inv s" "addresses_inv (address_at e s)" using assms(2) by (auto simp: ipam_inv_def)
  have w: "db_inv s'" "s' = s \<or> address_at e s' = (address_at e s)(ad_IP n \<mapsto> n)"
    "\<forall>t'. t' \<noteq> treeAddresses \<longrightarrow> db_view s' t' = db_view s t'"
    using put_row_on_engine [OF i(1) e(2) _ p] assms(3) Inr by auto
  have "ipam_inv e s'"
    using w(1,2) addresses_inv_upd(1) [OF i(2) ValidateAddress_row [OF Inr]] assms(2)
    by (auto simp: ipam_inv_def entry_frame [OF w(3)])
  then show ?thesis using Inr p e(1) by (auto simp: UpsertAddress_def split: option.split)
qed

lemma ipam_inv_deletes:
  assumes "ipam_on_engine e" "ipam_inv e s"
  shows "db_fits treeSubnets (TrimSpace cidr) [] \<Longrightarrow> ipam_inv e (fst (DeleteSubnet e now cidr s))"
    "db_fits treeReservations (normalizeMAC mac) [] \<Longrightarrow> ipam_inv e (fst (DeleteReservation e now mac s))"
    "db_fits treeAddresses (TrimSpace ip) [] \<Longrightarrow> ipam_inv e (fst (DeleteStoredAddress e now ip s))"
proof -
  have e: "ie_db e = engine_db" and i: "db_inv s" using assms by (auto simp: ipam_on_engine_def ipam_inv_def)
  note d = delete_row_on_engine [OF i, where now = now]
  show "ipam_inv e (fst (DeleteSubnet e now cidr s))" if "db_fits treeSubnets (TrimSpace cidr) []"
    using d [OF that, of "ie_subnet e"] assms(2) subnets_inv_del e
    by (simp add: DeleteSubnet_def ipam_inv_def entry_frame [OF conjunct2 [OF conjunct2 [OF d [OF that, of "ie_subnet e"]]]])
  show "ipam_inv e (fst (DeleteReservation e now mac s))" if "db_fits treeReservations (normalizeMAC mac) []"
    using d [OF that, of "ie_reservation e"] assms(2) reservations_inv_del e
    by (simp add: DeleteReservation_def ipam_inv_def entry_frame [OF conjunct2 [OF conjunct2 [OF d [OF that, of "ie_reservation e"]]]])
  show "ipam_inv e (fst (DeleteStoredAddress e now ip s))" if "db_fits treeAddresses (TrimSpace ip) []"
    using d [OF that, of "ie_address e"] assms(2) addresses_inv_upd(2) e
    by (simp add: DeleteStoredAddress_def ipam_inv_def entry_frame [OF conjunct2 [OF conjunct2 [OF d [OF that, of "ie_address e"]]]])
qed

lemma ipam_inv_call: "ipam_on_engine e \<Longrightarrow> ipam_inv e s \<Longrightarrow> call_fits e now c s \<Longrightarrow> ipam_inv e (ipam_run e now c s)"
  using ipam_inv_subnet ipam_inv_reservation ipam_inv_address ipam_inv_deletes by (cases c) auto

lemma ipam_reach_inv:
  assumes "ipam_on_engine e" "ipam_reach e s"
  shows "ipam_inv e s"
  using assms(2)
proof induction
  case (start s)
  then show ?case
    by (simp add: ipam_inv_def subnets_inv_def reservations_inv_def addresses_inv_def edb.entry_def)
next
  case (call s now c)
  then show ?case using ipam_inv_call [OF assms(1)] by blast
qed

section \<open>Properties\<close>

definition subnet_holds :: "Subnet \<Rightarrow> addr \<Rightarrow> bool" where
  "subnet_holds x a \<longleftrightarrow> (case ParsePrefix (sn_CIDR x) of None \<Rightarrow> False | Some p \<Rightarrow> pfx_Contains p a)"

text \<open>If two prefixes hold a common address, the code's overlap test says so.\<close>

lemma common_address_overlap:
  assumes "subnet_holds x a" "subnet_holds y a"
  shows "cidr_overlap (sn_CIDR x) (sn_CIDR y)"
proof -
  obtain p q where pq: "ParsePrefix (sn_CIDR x) = Some p" "ParsePrefix (sn_CIDR y) = Some q"
    "pfx_Contains p a" "pfx_Contains q a"
    using assms by (auto simp: subnet_holds_def split: option.splits)
  have "ipam_Overlaps p q"
  proof (cases "pfx_bits p \<le> pfx_bits q")
    case True
    then show ?thesis using Contains_base [OF pq(3,4)] by (simp add: ipam_Overlaps_def Let_def)
  next
    case False
    then show ?thesis using Contains_base [OF pq(4,3)] by (simp add: ipam_Overlaps_def Let_def)
  qed
  then show ?thesis using pq(1,2) by (simp add: cidr_overlap_def)
qed

lemma inferSubnet_unique:
  assumes "x \<in> set xs" "subnet_holds x a" "\<And>y. y \<in> set xs \<Longrightarrow> subnet_holds y a \<Longrightarrow> y = x"
  shows "inferSubnetForAddr a xs = sn_CIDR x"
proof (cases "find (\<lambda>s. subnet_holds s a) xs")
  case None
  then show ?thesis using assms(1,2) by (auto simp: find_None_iff)
next
  case (Some y)
  then have "y = x" using assms(3) find_Some [OF Some] by blast
  then show ?thesis using Some by (simp add: inferSubnetForAddr_def subnet_holds_def)
qed

lemma choose_subnet_holds:
  assumes "choose_subnet a c xs = Inr cidr"
  shows "\<exists>x\<in>set xs. subnet_holds x a \<and> sn_CIDR x = cidr"
  using assms unfolding choose_subnet_def inferSubnetForAddr_def lookupSubnet_def subnet_holds_def
  by (force split: if_splits option.splits dest!: find_Some)

lemma UpsertReservation_filed:
  assumes "UpsertReservation e now inp s = (s', Inr r)" "ListSubnets e s = Inr xs"
  obtains a x where "ParseAddr (TrimSpace (ri_IP inp)) = Some a" "x \<in> set xs" "subnet_holds x a" "rv_SubnetCIDR r = sn_CIDR x"
proof -
  have "ValidateReservation e now s inp = Inr r"
    using assms(1) by (auto simp: UpsertReservation_def split: sum.splits prod.splits option.splits)
  then obtain a where "ParseAddr (TrimSpace (ri_IP inp)) = Some a" "choose_subnet a (TrimSpace (ri_SubnetCIDR inp)) xs = Inr (rv_SubnetCIDR r)"
    using assms(2) unfolding ValidateReservation_def
    by (auto simp: Let_def rbind_Inr_conv split: if_splits option.splits)
  then show ?thesis using that choose_subnet_holds by metis
qed

text \<open>C3: In every state the writes of the address management can reach, the list of subnets can be read, and an address lies in at most
  one of them. That is the one the code's search for the subnet of an address finds, and the one under which a reservation of the address
  that is accepted then is filed. (A subnet that is deleted later leaves its reservations behind.)\<close>

theorem ipam_one_subnet:
  assumes "ipam_on_engine e" "ipam_reach e s"
  shows "\<exists>xs. ListSubnets e s = Inr xs \<and>
    (\<forall>x\<in>set xs. \<forall>a. subnet_holds x a \<longrightarrow>
       inferSubnetForAddr a xs = sn_CIDR x \<and> (\<forall>y\<in>set xs. subnet_holds y a \<longrightarrow> y = x)) \<and>
    (\<forall>now inp s' r. UpsertReservation e now inp s = (s', Inr r) \<longrightarrow>
       (\<exists>a. ParseAddr (TrimSpace (ri_IP inp)) = Some a \<and> (\<exists>!x. x \<in> set xs \<and> subnet_holds x a) \<and> rv_SubnetCIDR r = inferSubnetForAddr a xs))"
proof -
  have i: "db_inv s" "subnets_inv (subnet_at e s)" using ipam_reach_inv [OF assms] by (auto simp: ipam_inv_def)
  obtain xs where xs: "ListSubnets e s = Inr xs" "set xs = {x. \<exists>k. subnet_at e s k = Some x}"
    using ListSubnets_entries [OF _ i(1), of e] assms(1) by (auto simp: ipam_on_engine_def)
  have u: "y = x" if xy: "x \<in> set xs" "y \<in> set xs" "subnet_holds x a" "subnet_holds y a" for x y a
  proof -
    obtain j k where jk: "subnet_at e s j = Some x" "subnet_at e s k = Some y" using xs(2) xy by blast
    then have "sn_CIDR x = j" "sn_CIDR y = k" using i(2) by (auto simp: subnets_inv_def)
    moreover have "j \<noteq> k \<longrightarrow> \<not> cidr_overlap j k"
      using i(2) jk unfolding subnets_inv_def by (metis option.distinct(1))
    ultimately have "j = k" using common_address_overlap [OF xy(3,4)] by auto
    then show ?thesis using jk by simp
  qed
  then have one: "inferSubnetForAddr a xs = sn_CIDR x \<and> (\<forall>y\<in>set xs. subnet_holds y a \<longrightarrow> y = x)"
    if "x \<in> set xs" "subnet_holds x a" for x a using that inferSubnet_unique by metis
  have "\<exists>a. ParseAddr (TrimSpace (ri_IP inp)) = Some a \<and> (\<exists>!x. x \<in> set xs \<and> subnet_holds x a) \<and> rv_SubnetCIDR r = inferSubnetForAddr a xs"
    if w: "UpsertReservation e now inp s = (s', Inr r)" for now inp s' r
  proof -
    obtain a x where "ParseAddr (TrimSpace (ri_IP inp)) = Some a" "x \<in> set xs" "subnet_holds x a" "rv_SubnetCIDR r = sn_CIDR x"
      using UpsertReservation_filed [OF w xs(1)] by metis
    then show ?thesis using one by (intro exI [of _ a]) auto
  qed
  then show ?thesis using xs(1) one by blast
qed

text \<open>C16: In every state the writes of the address management can reach, the list of reservations can
  be read; two of them with the same address are the same, and so are two with the same hardware address.\<close>

theorem ipam_reservation_unique:
  assumes "ipam_on_engine e" "ipam_reach e s"
  shows "\<exists>rs. ListReservations e s = Inr rs \<and>
    (\<forall>x\<in>set rs. \<forall>y\<in>set rs. rv_IP x = rv_IP y \<or> normalizeMAC (rv_MAC x) = normalizeMAC (rv_MAC y) \<longrightarrow> x = y)"
proof -
  have i: "db_inv s" "reservations_inv (reservation_at e s)"
    using ipam_reach_inv [OF assms] by (auto simp: ipam_inv_def)
  obtain rs where rs: "ListReservations e s = Inr rs" "set rs = {x. \<exists>k. reservation_at e s k = Some x}"
    using ListReservations_entries [OF _ i(1), of e] assms(1) by (auto simp: ipam_on_engine_def)
  have "x = y" if xy: "x \<in> set rs" "y \<in> set rs" "rv_IP x = rv_IP y \<or> normalizeMAC (rv_MAC x) = normalizeMAC (rv_MAC y)" for x y
  proof -
    obtain j k where jk: "reservation_at e s j = Some x" "reservation_at e s k = Some y" using rs(2) xy by blast
    then have "rv_MAC x = j" "normalizeMAC j = j" "rv_MAC y = k" "normalizeMAC k = k"
      using i(2) by (auto simp: reservations_inv_def)
    then have "rv_IP x = rv_IP y \<or> j = k" using xy(3) by simp
    then have "j = k" using jk i(2) unfolding reservations_inv_def by blast
    then show ?thesis using jk by simp
  qed
  then show ?thesis using rs(1) by blast
qed

section \<open>The filter for all subnets\<close>

lemma no_prefix_all: "ParsePrefix ''all'' = None"
  by (simp add: ParsePrefix_def)

lemma in_target_all: "ParsePrefix (ad_SubnetCIDR a) \<noteq> None \<or> ad_SubnetCIDR a = [] \<Longrightarrow> \<not> in_target ''all'' a"
  using no_prefix_all by (auto simp: in_target_def)

lemma lease_address_not_all:
  assumes "TrimSpace (l_SubnetID l) \<noteq> ''all''"
  shows "\<not> in_target ''all'' (lease_address (lease_subnet subnets ip l) l)"
proof (cases "TrimSpace (l_SubnetID l) = [] \<and> ParseAddr ip \<noteq> None")
  case True
  then have "lease_subnet subnets ip l = [] \<or> ParsePrefix (lease_subnet subnets ip l) \<noteq> None"
    by (auto simp: lease_subnet_def inferSubnetForAddr_def split: option.splits dest!: find_Some)
  then show ?thesis using in_target_all by (auto simp: lease_address_def)
next
  case False
  then show ?thesis using assms by (auto simp: lease_subnet_def in_target_def lease_address_def)
qed

text \<open>The filter value the code admits for all subnets is compared with the subnet of each record,
  so it selects none: the list is empty in every state the writes can reach, as long as no lease
  carries that word as its subnet.\<close>

theorem ipam_all_lists_nothing:
  assumes "ipam_on_engine e" "ipam_reach e s" "TrimSpace (af_SubnetCIDR f) = ''all''"
    "\<And>ops ls l. ie_leases e = Some ops \<Longrightarrow> op_ListAll ops s = Inr ls \<Longrightarrow> l \<in> set ls \<Longrightarrow> TrimSpace (l_SubnetID l) \<noteq> ''all''"
  shows "ListAddresses e s f = Inr []"
proof -
  have i: "db_inv s" "subnets_inv (subnet_at e s)" "reservations_inv (reservation_at e s)" "addresses_inv (address_at e s)"
    using ipam_reach_inv [OF assms(1,2)] by (auto simp: ipam_inv_def)
  have e: "ie_db e = engine_db" using assms(1) by (simp add: ipam_on_engine_def)
  obtain xs where xs: "ListSubnets e s = Inr xs" "set xs = {x. \<exists>k. subnet_at e s k = Some x}"
    using ListSubnets_entries [OF e i(1)] by blast
  obtain rs where rs: "ListReservations e s = Inr rs" "set rs = {x. \<exists>k. reservation_at e s k = Some x}"
    using ListReservations_entries [OF e i(1)] by blast
  obtain as where as: "ListStoredAddresses e s = Inr as" "set as = {x. \<exists>k. address_at e s k = Some x}"
    using ListStoredAddresses_entries [OF e i(1)] by blast
  have "\<forall>a\<in>set as. \<not> in_target ''all'' a" using as(2) i(4) in_target_all by (auto simp: addresses_inv_def)
  moreover have "\<forall>r\<in>set rs. \<not> in_target ''all'' (reservation_address r)"
    using rs(2) i(3) in_target_all by (auto simp: reservations_inv_def reservation_address_def)
  moreover have "\<forall>a\<in>set (lease_addresses e s xs). \<not> in_target ''all'' a"
    using lease_address_not_all [OF assms(4) [OF sym sym]]
    by (auto simp: lease_addresses_def split: option.splits sum.splits)
  ultimately have "filter (in_target ''all'') (as @ map reservation_address rs @ lease_addresses e s xs) = []"
    by (auto simp: filter_empty_conv)
  moreover have "lookupSubnet xs ''all'' = None"
  proof -
    have "CHR ''/'' \<in> set (sn_CIDR x)" if "x \<in> set xs" for x using that xs(2) i(2) by (auto simp: subnets_inv_def)
    then have "sn_CIDR x \<noteq> ''all''" if "x \<in> set xs" for x using that by fastforce
    moreover have "TrimSpace ''all'' = ''all''" by (rule TrimSpace_printable) (auto simp: printable_def byte_nat_def)
    ultimately show ?thesis by (auto simp: lookupSubnet_def find_None_iff)
  qed
  ultimately show ?thesis
    using xs(1) rs(1) as(1) assms(3)
    by (simp add: ListAddresses_def target_subnet_def fill_target_def sortAddressRecords_def sort_by_def)
qed

section \<open>A concrete run\<close>

definition demo_sn_in :: UpsertSubnetInput where
  "demo_sn_in = \<lparr>si_CIDR = ''10.0.0.0/24'', si_Name = [], si_VLAN = 7, si_Gateway = [], si_DNS = [],
     si_DHCPEnable = False, si_PoolStart = [], si_PoolEnd = [], si_LeaseSec = 0\<rparr>"

definition demo_sn :: Subnet where
  "demo_sn = \<lparr>sn_CIDR = ''10.0.0.0/24'', sn_Name = [], sn_VLAN = 7, sn_Gateway = [], sn_DNS = [],
     sn_DHCP = \<lparr>dp_Enabled = False, dp_PoolStart = [], dp_PoolEnd = [], dp_LeaseTimeSec = 43200\<rparr>,
     sn_CreatedAt = 5, sn_UpdatedAt = 5\<rparr>"

definition demo_rv_in :: UpsertReservationInput where
  "demo_rv_in = \<lparr>ri_MAC = ''aa:bb:cc:dd:ee:0f'', ri_IP = ''10.0.0.10'', ri_Hostname = [], ri_SubnetCIDR = []\<rparr>"

definition demo_rv :: Reservation where
  "demo_rv = \<lparr>rv_MAC = ''AA:BB:CC:DD:EE:0F'', rv_IP = ''10.0.0.10'', rv_Hostname = [],
     rv_SubnetCIDR = ''10.0.0.0/24'', rv_CreatedAt = 6, rv_UpdatedAt = 6\<rparr>"

definition demo_ipam :: "engine ipam_engine" where
  "demo_ipam = \<lparr>ie_db = engine_db, ie_leases = None, ie_subnet = table_codec [demo_sn],
     ie_reservation = table_codec [demo_rv], ie_address = table_codec []\<rparr>"

definition demo_i1 :: engine where "demo_i1 = ipam_run demo_ipam 5 (CallUpsertSubnet demo_sn_in) demo0"
definition demo_i2 :: engine where "demo_i2 = ipam_run demo_ipam 6 (CallUpsertReservation demo_rv_in) demo_i1"

lemma demo_ipam_ok: "ipam_on_engine demo_ipam"
  by (simp add: ipam_on_engine_def demo_ipam_def table_codec_ok)

lemma demo_strings: "TrimSpace ''10.0.0.0/24'' = ''10.0.0.0/24''" "TrimSpace ''10.0.0.10'' = ''10.0.0.10''"
  "normalizeMAC ''aa:bb:cc:dd:ee:0f'' = ''AA:BB:CC:DD:EE:0F''" "ParseMAC ''AA:BB:CC:DD:EE:0F'' \<noteq> None"
  "addr_String (A4 0x0A00000A) = ''10.0.0.10''"
  "pfx_String (pfx_Masked \<lparr>pfx_addr = A4 0x0A000000, pfx_bits = 24\<rparr>) = ''10.0.0.0/24''"
proof -
  show "TrimSpace ''10.0.0.0/24'' = ''10.0.0.0/24''" "TrimSpace ''10.0.0.10'' = ''10.0.0.10''"
    by (rule TrimSpace_printable; simp add: printable_def byte_nat_def)+
  have "TrimSpace ''aa:bb:cc:dd:ee:0f'' = ''aa:bb:cc:dd:ee:0f''"
    by (rule TrimSpace_printable; simp add: printable_def byte_nat_def)
  then show "normalizeMAC ''aa:bb:cc:dd:ee:0f'' = ''AA:BB:CC:DD:EE:0F''"
    by (simp add: normalizeMAC_def) code_simp
  show "ParseMAC ''AA:BB:CC:DD:EE:0F'' \<noteq> None"
    by code_simp
  have b: "word_bytes 4 (0x0A00000A :: u32) = [CHR 0x0A, CHR 0x00, CHR 0x00, CHR 0x0A]"
    "word_bytes 4 (0x0A000000 :: u32) = [CHR 0x0A, CHR 0x00, CHR 0x00, CHR 0x00]"
    by (simp_all add: word_bytes_def be4 nat_byte_def demo_chars)
  have d: "dec 10 = ''10''" "dec 0 = ''0''" "dec 24 = ''24''" by code_simp+
  show "addr_String (A4 0x0A00000A) = ''10.0.0.10''"
    by (simp add: addr_String_def b ip4_string_def byte_nat_def d)
  have "pfx_Masked \<lparr>pfx_addr = A4 0x0A000000, pfx_bits = 24\<rparr> = \<lparr>pfx_addr = A4 0x0A000000, pfx_bits = 24\<rparr>"
    by (simp add: pfx_Masked_def)
  then show "pfx_String (pfx_Masked \<lparr>pfx_addr = A4 0x0A000000, pfx_bits = 24\<rparr>) = ''10.0.0.0/24''"
    by (simp add: pfx_String_def addr_String_def b ip4_string_def byte_nat_def d)
qed

lemma ipam_reach_demo0: "ipam_reach e demo0"
  by (rule ipam_reach.start) (use demo0_inv es_inv_eng in \<open>auto simp: db_inv_def db_view_def demo0_eq eget.simps\<close>)

lemma demo_subnet_valid:
  "validateSubnet demo_sn_in = Inr (demo_sn\<lparr>sn_CreatedAt := 0, sn_UpdatedAt := 0\<rparr>)"
  by (simp add: validateSubnet_def demo_sn_in_def demo_strings demo_prefix check_gateway_def check_pool_def
      normalizeDNS_def demo_sn_def)

lemma demo_lists: "ie_db e = engine_db \<Longrightarrow> ListSubnets e demo0 = Inr []"
  using ListSubnets_entries [of e demo0] db_inv_demo0 by (auto simp: edb.entry_def db_view_demo0)

lemma demo_i1: "ipam_reach demo_ipam demo_i1" "subnet_at demo_ipam demo_i1 = [''10.0.0.0/24'' \<mapsto> demo_sn]"
  "\<forall>t. t \<noteq> treeSubnets \<longrightarrow> db_view demo_i1 t = Map.empty"
proof -
  have e: "ie_db demo_ipam = engine_db" "ie_subnet demo_ipam = table_codec [demo_sn]" by (simp_all add: demo_ipam_def)
  have v: "ValidateSubnet demo_ipam demo0 demo_sn_in = Inr (demo_sn\<lparr>sn_CreatedAt := 0, sn_UpdatedAt := 0\<rparr>)"
    by (simp add: ValidateSubnet_def demo_subnet_valid demo_lists [OF e(1)])
  have r: "subnet_row demo_ipam 5 demo0 (demo_sn\<lparr>sn_CreatedAt := 0, sn_UpdatedAt := 0\<rparr>) = demo_sn"
    by (simp add: subnet_row_def GetSubnet_def e(1) get_row_none [OF db_inv_demo0] db_view_demo0) (simp add: demo_sn_def)
  have k: "sn_CIDR demo_sn = ''10.0.0.0/24''" by (simp add: demo_sn_def)
  note p = demo_put [OF db_inv_demo0, of demo_sn "[demo_sn]" "''10.0.0.0/24''" treeSubnets]
  obtain s' where s': "put_row engine_db (table_codec [demo_sn]) treeSubnets ''10.0.0.0/24'' demo_sn 5 demo0 = (s', None)"
    "edb.entry (table_codec [demo_sn]) s' treeSubnets = (edb.entry (table_codec [demo_sn]) demo0 treeSubnets)(''10.0.0.0/24'' \<mapsto> demo_sn)"
    "\<forall>t'. t' \<noteq> treeSubnets \<longrightarrow> db_view s' t' = db_view demo0 t'"
    using p(1) [of 5] by (auto simp: wf_name_def)
  have "demo_i1 = s'" by (simp add: demo_i1_def UpsertSubnet_def v r k e s'(1))
  then show "subnet_at demo_ipam demo_i1 = [''10.0.0.0/24'' \<mapsto> demo_sn]"
    "\<forall>t. t \<noteq> treeSubnets \<longrightarrow> db_view demo_i1 t = Map.empty"
    using s'(2,3) e(2) by (auto simp: edb.entry_def db_view_demo0)
  show "ipam_reach demo_ipam demo_i1"
    unfolding demo_i1_def
    by (rule ipam_reach.call [OF ipam_reach_demo0]) (use p(2) in \<open>simp add: v r k e(2) wf_name_def\<close>)
qed

lemma demo_holds: "subnet_holds demo_sn (A4 0x0A00000A)"
  by (simp add: subnet_holds_def demo_sn_def demo_prefix pfx_Contains_def)

lemma demo_i1_lists:
  "\<exists>xs. ListSubnets demo_ipam demo_i1 = Inr xs \<and> set xs = {demo_sn}" "ListReservations demo_ipam demo_i1 = Inr []"
proof -
  have e: "ie_db demo_ipam = engine_db" by (simp add: demo_ipam_def)
  have i: "db_inv demo_i1" using ipam_reach_inv [OF demo_ipam_ok demo_i1(1)] by (simp add: ipam_inv_def)
  show "\<exists>xs. ListSubnets demo_ipam demo_i1 = Inr xs \<and> set xs = {demo_sn}"
    using ListSubnets_entries [OF e i] demo_i1(2) by auto
  show "ListReservations demo_ipam demo_i1 = Inr []"
    using ListReservations_entries [OF e i] demo_i1(3) by (auto simp: edb.entry_def)
qed

lemma demo_i2: "ipam_reach demo_ipam demo_i2" "reservation_at demo_ipam demo_i2 = [''AA:BB:CC:DD:EE:0F'' \<mapsto> demo_rv]"
proof -
  have e: "ie_db demo_ipam = engine_db" "ie_reservation demo_ipam = table_codec [demo_rv]" by (simp_all add: demo_ipam_def)
  have i: "db_inv demo_i1" using ipam_reach_inv [OF demo_ipam_ok demo_i1(1)] by (simp add: ipam_inv_def)
  obtain xs where xs: "ListSubnets demo_ipam demo_i1 = Inr xs" "set xs = {demo_sn}" using demo_i1_lists by blast
  have "inferSubnetForAddr (A4 0x0A00000A) xs = ''10.0.0.0/24''"
    using inferSubnet_unique [of demo_sn xs] xs(2) demo_holds by (simp add: demo_sn_def)
  then have v: "ValidateReservation demo_ipam 6 demo_i1 demo_rv_in = Inr demo_rv"
    by (simp add: ValidateReservation_def demo_rv_in_def demo_strings demo_parse xs(1) demo_i1_lists choose_subnet_def
        GetReservationByMAC_def e(1) get_row_none [OF i] demo_i1(3) demo_rv_def)
  have k: "rv_MAC demo_rv = ''AA:BB:CC:DD:EE:0F''" by (simp add: demo_rv_def)
  note p = demo_put [OF i, of demo_rv "[demo_rv]" "''AA:BB:CC:DD:EE:0F''" treeReservations]
  obtain s' where s': "put_row engine_db (table_codec [demo_rv]) treeReservations ''AA:BB:CC:DD:EE:0F'' demo_rv 6 demo_i1 = (s', None)"
    "edb.entry (table_codec [demo_rv]) s' treeReservations = (edb.entry (table_codec [demo_rv]) demo_i1 treeReservations)(''AA:BB:CC:DD:EE:0F'' \<mapsto> demo_rv)"
    using p(1) [of 6] by (auto simp: wf_name_def)
  have "demo_i2 = s'" by (simp add: demo_i2_def UpsertReservation_def v k e s'(1))
  then show "reservation_at demo_ipam demo_i2 = [''AA:BB:CC:DD:EE:0F'' \<mapsto> demo_rv]"
    using s'(2) e(2) demo_i1(3) by (auto simp: edb.entry_def)
  show "ipam_reach demo_ipam demo_i2"
    unfolding demo_i2_def by (rule ipam_reach.call [OF demo_i1(1)]) (use p(2) in \<open>simp add: v k e(2) wf_name_def\<close>)
qed

lemma demo_i2_lists: "\<exists>rs. ListReservations demo_ipam demo_i2 = Inr rs \<and> set rs = {demo_rv}"
proof -
  have "ie_db demo_ipam = engine_db" by (simp add: demo_ipam_def)
  moreover have "db_inv demo_i2" using ipam_reach_inv [OF demo_ipam_ok demo_i2(1)] by (simp add: ipam_inv_def)
  ultimately show ?thesis using ListReservations_entries [of demo_ipam demo_i2] demo_i2(2) by auto
qed

theorem ipam_one_subnet_witness:
  "\<exists>xs. ListSubnets demo_ipam demo_i1 = Inr xs \<and> demo_sn \<in> set xs \<and>
    inferSubnetForAddr (A4 0x0A00000A) xs = ''10.0.0.0/24''"
proof -
  have "ie_db demo_ipam = engine_db" "sn_CIDR demo_sn = ''10.0.0.0/24''" by (simp_all add: demo_ipam_def demo_sn_def)
  moreover have "db_inv demo_i1" using ipam_reach_inv [OF demo_ipam_ok demo_i1(1)] by (simp add: ipam_inv_def)
  ultimately show ?thesis
    using ipam_one_subnet [OF demo_ipam_ok demo_i1(1)] ListSubnets_entries [of demo_ipam demo_i1] demo_i1(2) demo_holds
    by (auto split: if_splits)
qed

theorem ipam_reservation_unique_witness:
  "\<exists>rs. ListReservations demo_ipam demo_i2 = Inr rs \<and> demo_rv \<in> set rs \<and>
    (\<forall>x\<in>set rs. rv_IP x = ''10.0.0.10'' \<longrightarrow> x = demo_rv)"
proof -
  obtain rs where "ListReservations demo_ipam demo_i2 = Inr rs" "set rs = {demo_rv}" using demo_i2_lists by blast
  then show ?thesis using ipam_reservation_unique [OF demo_ipam_ok demo_i2(1)] by (auto simp: demo_rv_def)
qed

theorem ipam_all_lists_nothing_witness:
  "ListAddresses demo_ipam demo_i2 \<lparr>af_SubnetCIDR = ''all'', af_State = [], af_Query = [], af_Limit = 0\<rparr> = Inr [] \<and>
   (\<exists>rs. ListReservations demo_ipam demo_i2 = Inr rs \<and> demo_rv \<in> set rs)"
proof
  have t: "TrimSpace ''all'' = ''all''" by (rule TrimSpace_printable; simp add: printable_def byte_nat_def)
  show "ListAddresses demo_ipam demo_i2 \<lparr>af_SubnetCIDR = ''all'', af_State = [], af_Query = [], af_Limit = 0\<rparr> = Inr []"
    by (rule ipam_all_lists_nothing [OF demo_ipam_ok demo_i2(1)]) (simp_all add: t, simp add: demo_ipam_def)
  show "\<exists>rs. ListReservations demo_ipam demo_i2 = Inr rs \<and> demo_rv \<in> set rs" using demo_i2_lists by auto
qed

end
