(* ===== verification/Auth.thy ===== *)
theory Auth
  imports Db Net
begin

text \<open>
  \<^verbatim>\<open>src/internal/auth\<close>: users, roles, lockouts, sessions and API tokens. Password hashing,
  SHA-256 and the random source are parameters: the hash of a password, the comparison of one with a
  hash, the digest, and what a read of the random source delivers. An error that only the caller's
  message distinguishes is a message; the lock of an account carries its end.
\<close>

section \<open>types.go and rbac.go\<close>

abbreviation DefaultRoleAdmin :: string where "DefaultRoleAdmin \<equiv> ''admin''"
abbreviation DefaultRoleOperator :: string where "DefaultRoleOperator \<equiv> ''operator''"
abbreviation DefaultRoleViewer :: string where "DefaultRoleViewer \<equiv> ''viewer''"

record User =
  us_Username :: string
  us_Role :: string
  us_PasswordHash :: string
  us_CreatedAt :: time
  us_UpdatedAt :: time

record Identity =
  id_Username :: string
  id_Role :: string
  id_AuthType :: string
  id_TokenID :: string

record APIToken =
  at_ID :: string
  at_Name :: string
  at_Role :: string
  at_Prefix :: string
  at_CreatedAt :: time
  at_ExpiresAt :: "time option"
  at_LastUsedAt :: "time option"
  at_Description :: string

record tokenRecord =
  tk_ID :: string
  tk_Name :: string
  tk_Role :: string
  tk_Hash :: string
  tk_Prefix :: string
  tk_CreatedAt :: time
  tk_ExpiresAt :: "time option"
  tk_LastUsedAt :: "time option"
  tk_Description :: string

definition sanitizeRole :: "string \<Rightarrow> string" where
  "sanitizeRole role =
     (if role \<in> {DefaultRoleAdmin, DefaultRoleOperator, DefaultRoleViewer} then role else DefaultRoleViewer)"

definition role_rank :: "string \<Rightarrow> int" where
  "role_rank role =
     (if role = DefaultRoleViewer then 1 else if role = DefaultRoleOperator then 2
      else if role = DefaultRoleAdmin then 3 else 0)"

definition HasRole :: "string \<Rightarrow> string \<Rightarrow> bool" where
  "HasRole required actual \<longleftrightarrow> role_rank (sanitizeRole actual) \<ge> role_rank (sanitizeRole required)"

definition normalizeUsername :: "string \<Rightarrow> string" where
  "normalizeUsername name = ToLower (TrimSpace name)"

abbreviation ErrInvalidCredentials :: go_error where "ErrInvalidCredentials \<equiv> ErrMsg ''invalid credentials''"
abbreviation ErrBootstrapUnavailable :: go_error where
  "ErrBootstrapUnavailable \<equiv> ErrMsg ''admin bootstrap is unavailable''"
abbreviation ErrSessionNotFound :: go_error where "ErrSessionNotFound \<equiv> ErrMsg ''session not found''"

datatype auth_error = AccountLockedError time | AuthError go_error

section \<open>lockout.go\<close>

record lockoutEntry =
  lk_failures :: int
  lk_lockedUntil :: time

record lockoutTracker =
  lt_entries :: "(string \<times> lockoutEntry) list"
  lt_maxFailedAttempts :: int
  lt_lockoutDuration :: duration

definition newLockoutTracker :: "int \<Rightarrow> duration \<Rightarrow> lockoutTracker" where
  "newLockoutTracker maxFailed dur =
     \<lparr>lt_entries = [], lt_maxFailedAttempts = (if maxFailed \<le> 0 then 5 else maxFailed),
      lt_lockoutDuration = (if dur \<le> 0 then 15 * minute_ns else dur)\<rparr>"

definition lockout_Check :: "time \<Rightarrow> string \<Rightarrow> lockoutTracker \<Rightarrow> lockoutTracker \<times> auth_error option" where
  "lockout_Check now name t =
     (let u = normalizeUsername name in
      if u = [] then (t, None)
      else case map_of (lt_entries t) u of
        None \<Rightarrow> (t, None)
      | Some entry \<Rightarrow>
          if is_zero_time (lk_lockedUntil entry) then (t, None)
          else if \<not> now < lk_lockedUntil entry then (t\<lparr>lt_entries := mdel u (lt_entries t)\<rparr>, None)
          else (t, Some (AccountLockedError (lk_lockedUntil entry))))"

definition lockout_RecordFailure :: "time \<Rightarrow> string \<Rightarrow> lockoutTracker \<Rightarrow> lockoutTracker \<times> auth_error option" where
  "lockout_RecordFailure now name t =
     (let u = normalizeUsername name in
      if u = [] then (t, None)
      else
        (let entry = (case map_of (lt_entries t) u of None \<Rightarrow> \<lparr>lk_failures = 0, lk_lockedUntil = 0\<rparr> | Some x \<Rightarrow> x) in
         if \<not> is_zero_time (lk_lockedUntil entry) \<and> now < lk_lockedUntil entry
         then (t, Some (AccountLockedError (lk_lockedUntil entry)))
         else
           (let entry1 = (if is_zero_time (lk_lockedUntil entry) then entry else \<lparr>lk_failures = 0, lk_lockedUntil = 0\<rparr>);
                entry2 = entry1\<lparr>lk_failures := lk_failures entry1 + 1\<rparr>
            in if lk_failures entry2 \<ge> lt_maxFailedAttempts t
               then (let entry3 = entry2\<lparr>lk_lockedUntil := now + lt_lockoutDuration t\<rparr>
                     in (t\<lparr>lt_entries := mput u entry3 (lt_entries t)\<rparr>, Some (AccountLockedError (lk_lockedUntil entry3))))
               else (t\<lparr>lt_entries := mput u entry2 (lt_entries t)\<rparr>, None))))"

definition lockout_Reset :: "string \<Rightarrow> lockoutTracker \<Rightarrow> lockoutTracker" where
  "lockout_Reset name t =
     (let u = normalizeUsername name in if u = [] then t else t\<lparr>lt_entries := mdel u (lt_entries t)\<rparr>)"

text \<open>\<open>secs\<close> is the conversion of a duration to whole seconds through a float; \<open>clock\<close> is the time of
  the call, which is used when \<open>now\<close> is the zero time.\<close>

definition RetryAfter :: "(duration \<Rightarrow> int) \<Rightarrow> time \<Rightarrow> time \<Rightarrow> time \<Rightarrow> int" where
  "RetryAfter secs until clock now =
     (if is_zero_time until then 60
      else (let seconds = secs (until - (if is_zero_time now then clock else now))
            in if seconds < 1 then 1 else seconds))"

section \<open>session.go\<close>

abbreviation treeSessions :: string where "treeSessions \<equiv> ''sessions''"

record sessionEntry =
  se_Identity :: Identity
  se_ExpiresAt :: time

text \<open>The manager's store may be nil.\<close>

record 's session_store =
  st_db :: "'s db_ops"
  st_codec :: "sessionEntry codec"

record SessionManager =
  sm_sessions :: "(string \<times> sessionEntry) list"
  sm_ttl :: duration

definition persistSession ::
  "'s session_store option \<Rightarrow> string \<Rightarrow> sessionEntry \<Rightarrow> time \<Rightarrow> 's \<Rightarrow> 's \<times> go_error option" where
  "persistSession store sid entry now s =
     (case store of None \<Rightarrow> (s, None) | Some st \<Rightarrow> put_row (st_db st) (st_codec st) treeSessions sid entry now s)"

definition deleteSession :: "'s session_store option \<Rightarrow> string \<Rightarrow> time \<Rightarrow> 's \<Rightarrow> 's" where
  "deleteSession store sid now s =
     (case store of None \<Rightarrow> s | Some st \<Rightarrow> fst (db_Delete (st_db st) treeSessions sid now s))"

text \<open>
  \<^verbatim>\<open>Iterate\<close> holds the tree's read lock while the callback runs, and \<^verbatim>\<open>Delete\<close> of a row of the
  same tree waits for its write lock: at a row that has expired the callback never returns, which is
  \<open>None\<close> here. A row that does not decode is skipped.
\<close>

fun load_rows ::
  "sessionEntry codec \<Rightarrow> time \<Rightarrow> (bytes \<times> bytes) list \<Rightarrow> (string \<times> sessionEntry) list \<Rightarrow> (string \<times> sessionEntry) list option" where
  "load_rows C now [] m = Some m"
| "load_rows C now ((k, v) # rows) m =
     (case c_unmarshal C v of
        None \<Rightarrow> load_rows C now rows m
      | Some entry \<Rightarrow> if now > se_ExpiresAt entry then None else load_rows C now rows (mput k entry m))"

text \<open>An error of the iteration, the missing tree in particular, is ignored.\<close>

definition session_load :: "'s session_store option \<Rightarrow> time \<Rightarrow> 's \<Rightarrow> SessionManager \<Rightarrow> SessionManager option" where
  "session_load store now s m =
     (case store of
        None \<Rightarrow> Some m
      | Some st \<Rightarrow>
          (case db_Rows (st_db st) s treeSessions of
             Inl _ \<Rightarrow> Some m
           | Inr rows \<Rightarrow> map_option (\<lambda>ss. m\<lparr>sm_sessions := ss\<rparr>) (load_rows (st_codec st) now rows (sm_sessions m))))"

definition NewSessionManager :: "'s session_store option \<Rightarrow> duration \<Rightarrow> time \<Rightarrow> 's \<Rightarrow> SessionManager option" where
  "NewSessionManager store ttl now s =
     session_load store now s \<lparr>sm_sessions = [], sm_ttl = (if ttl \<le> 0 then 24 * hour_ns else ttl)\<rparr>"

text \<open>\<^verbatim>\<open>randomHex\<close>; \<open>rnd\<close> is what the read of that many random bytes delivers.\<close>

definition randomHex :: "int \<Rightarrow> go_error + bytes \<Rightarrow> go_error + string" where
  "randomHex n rnd = (if n \<le> 0 then Inl (ErrMsg ''invalid byte length'') else rbind rnd (\<lambda>b. Inr (hex_encode b)))"

definition session_Create ::
  "'s session_store option \<Rightarrow> go_error + bytes \<Rightarrow> time \<Rightarrow> Identity \<Rightarrow> 's \<times> SessionManager \<Rightarrow>
   ('s \<times> SessionManager) \<times> (go_error + string \<times> time)" where
  "session_Create store rnd now identity = (\<lambda>(s, m).
     (case randomHex 32 rnd of
        Inl err \<Rightarrow> ((s, m), Inl err)
      | Inr sid \<Rightarrow>
          (let expiry = now + sm_ttl m;
               entry = \<lparr>se_Identity = identity, se_ExpiresAt = expiry\<rparr>;
               m' = m\<lparr>sm_sessions := mput sid entry (sm_sessions m)\<rparr>
           in case persistSession store sid entry now s of
                (s', Some err) \<Rightarrow> ((s', m'\<lparr>sm_sessions := mdel sid (sm_sessions m')\<rparr>), Inl err)
              | (s', None) \<Rightarrow> ((s', m'), Inr (sid, expiry)))))"

definition session_Validate ::
  "'s session_store option \<Rightarrow> time \<Rightarrow> string \<Rightarrow> 's \<times> SessionManager \<Rightarrow> ('s \<times> SessionManager) \<times> (go_error + Identity)" where
  "session_Validate store now sid = (\<lambda>(s, m).
     (case map_of (sm_sessions m) sid of
        None \<Rightarrow> ((s, m), Inl ErrSessionNotFound)
      | Some entry \<Rightarrow>
          if now > se_ExpiresAt entry
          then ((deleteSession store sid now s, m\<lparr>sm_sessions := mdel sid (sm_sessions m)\<rparr>), Inl ErrSessionNotFound)
          else ((s, m), Inr (se_Identity entry))))"

definition session_Revoke ::
  "'s session_store option \<Rightarrow> time \<Rightarrow> string \<Rightarrow> 's \<times> SessionManager \<Rightarrow> 's \<times> SessionManager" where
  "session_Revoke store now sid =
     (\<lambda>(s, m). (deleteSession store sid now s, m\<lparr>sm_sessions := mdel sid (sm_sessions m)\<rparr>))"

definition session_RevokeByUsername ::
  "'s session_store option \<Rightarrow> time \<Rightarrow> string \<Rightarrow> 's \<times> SessionManager \<Rightarrow> ('s \<times> SessionManager) \<times> int" where
  "session_RevokeByUsername store now username = (\<lambda>(s, m).
     (let ids = map fst (filter (\<lambda>(sid, entry). id_Username (se_Identity entry) = username) (sm_sessions m))
      in (fold (session_Revoke store now) ids (s, m), int (length ids))))"

section \<open>service.go and local.go\<close>

abbreviation treeUsers :: string where "treeUsers \<equiv> ''users''"
abbreviation treeTokens :: string where "treeTokens \<equiv> ''api_tokens''"
abbreviation treeTokensByHash :: string where "treeTokensByHash \<equiv> ''api_tokens_by_hash''"

record ServiceOptions =
  so_AuthType :: string
  so_CookieName :: string
  so_SessionDuration :: duration
  so_MaxFailedAttempts :: int
  so_LockoutDuration :: duration

text \<open>What the service calls: the storage with its transactions, the codecs, the comparison of a
  password with a hash, and the digest.\<close>

record 's auth_env =
  ae_db :: "'s db_ops"
  ae_tx :: "'s db_tx"
  ae_user :: "User codec"
  ae_token :: "tokenRecord codec"
  ae_session :: "sessionEntry codec"
  ae_compare :: "bytes \<Rightarrow> bytes \<Rightarrow> bool"
  ae_sha256 :: "bytes \<Rightarrow> bytes"

definition ae_store :: "'s auth_env \<Rightarrow> 's session_store option" where
  "ae_store v = Some \<lparr>st_db = ae_db v, st_codec = ae_session v\<rparr>"

record 's auth_service =
  as_store :: 's
  as_sessions :: SessionManager
  as_lockouts :: lockoutTracker
  as_authType :: string
  as_cookieName :: string

text \<open>\<open>None\<close> when the load of the sessions never returns.\<close>

definition NewService :: "'s auth_env \<Rightarrow> ServiceOptions \<Rightarrow> time \<Rightarrow> 's \<Rightarrow> 's auth_service option" where
  "NewService v opts now s =
     (let authType = ToLower (TrimSpace (so_AuthType opts)) in
      case NewSessionManager (ae_store v) (so_SessionDuration opts) now s of
        None \<Rightarrow> None
      | Some m \<Rightarrow> Some \<lparr>as_store = s, as_sessions = m,
          as_lockouts = newLockoutTracker (so_MaxFailedAttempts opts) (so_LockoutDuration opts),
          as_authType = (if authType = [] then ''local'' else authType),
          as_cookieName = (if so_CookieName opts = [] then ''monsoon_session'' else so_CookieName opts)\<rparr>)"

definition CookieName :: "'s auth_service \<Rightarrow> string" where
  "CookieName a = as_cookieName a"

definition SupportsLocalAuth :: "'s auth_service \<Rightarrow> bool" where
  "SupportsLocalAuth a = EqualFold (as_authType a) ''local''"

definition with_sessions :: "'s auth_service \<Rightarrow> 's \<times> SessionManager \<Rightarrow> 's auth_service" where
  "with_sessions a = (\<lambda>(s, m). a\<lparr>as_store := s, as_sessions := m\<rparr>)"

definition CreateSession ::
  "'s auth_env \<Rightarrow> go_error + bytes \<Rightarrow> time \<Rightarrow> Identity \<Rightarrow> 's auth_service \<Rightarrow> 's auth_service \<times> (go_error + string \<times> time)" where
  "CreateSession v rnd now identity a =
     (case session_Create (ae_store v) rnd now (identity\<lparr>id_AuthType := ''session''\<rparr>) (as_store a, as_sessions a) of
        (sm, r) \<Rightarrow> (with_sessions a sm, r))"

definition ValidateSession ::
  "'s auth_env \<Rightarrow> time \<Rightarrow> string \<Rightarrow> 's auth_service \<Rightarrow> 's auth_service \<times> (go_error + Identity)" where
  "ValidateSession v now sid a =
     (case session_Validate (ae_store v) now sid (as_store a, as_sessions a) of (sm, r) \<Rightarrow> (with_sessions a sm, r))"

definition RevokeSession :: "'s auth_env \<Rightarrow> time \<Rightarrow> string \<Rightarrow> 's auth_service \<Rightarrow> 's auth_service" where
  "RevokeSession v now sid a = with_sessions a (session_Revoke (ae_store v) now sid (as_store a, as_sessions a))"

definition RevokeSessionsForUser ::
  "'s auth_env \<Rightarrow> time \<Rightarrow> string \<Rightarrow> 's auth_service \<Rightarrow> 's auth_service \<times> int" where
  "RevokeSessionsForUser v now username a =
     (case session_RevokeByUsername (ae_store v) now username (as_store a, as_sessions a) of
        (sm, n) \<Rightarrow> (with_sessions a sm, n))"

definition GetUser :: "'s auth_env \<Rightarrow> 's \<Rightarrow> string \<Rightarrow> go_error + User" where
  "GetUser v s name = get_row (ae_db v) (ae_user v) s treeUsers (normalizeUsername name)"

definition HasUsers :: "'s auth_env \<Rightarrow> 's \<Rightarrow> go_error + bool" where
  "HasUsers v s =
     (case db_Rows (ae_db v) s treeUsers of
        Inl ErrNotFound \<Rightarrow> Inr False | Inl err \<Rightarrow> Inl err | Inr rows \<Rightarrow> Inr (rows \<noteq> []))"

definition user_row :: "time \<Rightarrow> User \<Rightarrow> User" where
  "user_row now user = user\<lparr>us_Username := normalizeUsername (us_Username user),
     us_Role := sanitizeRole (TrimSpace (us_Role user)),
     us_CreatedAt := (if is_zero_time (us_CreatedAt user) then now else us_CreatedAt user), us_UpdatedAt := now\<rparr>"

definition upsertUser :: "'s auth_env \<Rightarrow> time \<Rightarrow> User \<Rightarrow> 's \<Rightarrow> 's \<times> go_error option" where
  "upsertUser v now user s =
     (let u = user_row now user in put_row (ae_db v) (ae_user v) treeUsers (us_Username u) u now s)"

definition admin_name :: "string \<Rightarrow> string" where
  "admin_name username = (if normalizeUsername username = [] then ''admin'' else normalizeUsername username)"

definition admin_user :: "string \<Rightarrow> string \<Rightarrow> User" where
  "admin_user username hash = \<lparr>us_Username = admin_name username, us_Role = DefaultRoleAdmin,
     us_PasswordHash = hash, us_CreatedAt = 0, us_UpdatedAt = 0\<rparr>"

definition EnsureAdmin :: "'s auth_env \<Rightarrow> time \<Rightarrow> string \<Rightarrow> string \<Rightarrow> 's \<Rightarrow> 's \<times> go_error option" where
  "EnsureAdmin v now username passwordHash s =
     (case GetUser v s (admin_name username) of
        Inr _ \<Rightarrow> (s, None)
      | Inl _ \<Rightarrow>
          (case HasUsers v s of
             Inl err \<Rightarrow> (s, Some err)
           | Inr True \<Rightarrow> (s, None)
           | Inr False \<Rightarrow>
               if TrimSpace passwordHash = [] then (s, Some (ErrMsg ''admin password hash is required''))
               else upsertUser v now (admin_user username (TrimSpace passwordHash)) s))"

text \<open>\<open>hashed\<close> is what \<^verbatim>\<open>bcrypt.GenerateFromPassword\<close> returns for the password.\<close>

definition BootstrapAdmin ::
  "'s auth_env \<Rightarrow> go_error + string \<Rightarrow> time \<Rightarrow> string \<Rightarrow> string \<Rightarrow> 's \<Rightarrow> 's \<times> go_error option" where
  "BootstrapAdmin v hashed now username password s =
     (if TrimSpace password = [] then (s, Some (ErrMsg ''password is required''))
      else case HasUsers v s of
        Inl err \<Rightarrow> (s, Some err)
      | Inr True \<Rightarrow> (s, Some ErrBootstrapUnavailable)
      | Inr False \<Rightarrow>
          (case hashed of
             Inl err \<Rightarrow> (s, Some err)
           | Inr hash \<Rightarrow> upsertUser v now (admin_user username hash) s))"

definition SetPassword ::
  "'s auth_env \<Rightarrow> go_error + string \<Rightarrow> time \<Rightarrow> string \<Rightarrow> string \<Rightarrow> 's \<Rightarrow> 's \<times> go_error option" where
  "SetPassword v hashed now username newPassword s =
     (let name = normalizeUsername username in
      if name = [] \<or> TrimSpace newPassword = [] then (s, Some (ErrMsg ''username and new password are required''))
      else case GetUser v s name of
        Inl err \<Rightarrow> (s, Some err)
      | Inr user \<Rightarrow>
          (case hashed of
             Inl err \<Rightarrow> (s, Some err)
           | Inr hash \<Rightarrow> upsertUser v now (user\<lparr>us_PasswordHash := hash, us_UpdatedAt := now\<rparr>) s))"

definition fail_login :: "time \<Rightarrow> string \<Rightarrow> 's auth_service \<Rightarrow> 's auth_service \<times> (auth_error + Identity)" where
  "fail_login now name a =
     (case lockout_RecordFailure now name (as_lockouts a) of
        (t, Some err) \<Rightarrow> (a\<lparr>as_lockouts := t\<rparr>, Inl err)
      | (t, None) \<Rightarrow> (a\<lparr>as_lockouts := t\<rparr>, Inl (AuthError ErrInvalidCredentials)))"

definition AuthenticateLocal ::
  "'s auth_env \<Rightarrow> time \<Rightarrow> string \<Rightarrow> bytes \<Rightarrow> 's auth_service \<Rightarrow> 's auth_service \<times> (auth_error + Identity)" where
  "AuthenticateLocal v now username password a0 =
     (let name = normalizeUsername username in
      case lockout_Check now name (as_lockouts a0) of
        (t, Some err) \<Rightarrow> (a0\<lparr>as_lockouts := t\<rparr>, Inl err)
      | (t, None) \<Rightarrow>
          (let a = a0\<lparr>as_lockouts := t\<rparr> in
           case GetUser v (as_store a) name of
             Inl _ \<Rightarrow> fail_login now name a
           | Inr user \<Rightarrow>
               if \<not> ae_compare v (us_PasswordHash user) password then fail_login now name a
               else (a\<lparr>as_lockouts := lockout_Reset name (as_lockouts a)\<rparr>,
                     Inr \<lparr>id_Username = us_Username user, id_Role = us_Role user, id_AuthType = ''session'', id_TokenID = []\<rparr>)))"

section \<open>token.go\<close>

definition tokenHash :: "'s auth_env \<Rightarrow> string \<Rightarrow> string" where
  "tokenHash v token = hex_encode (ae_sha256 v token)"

definition toPublicToken :: "tokenRecord \<Rightarrow> APIToken" where
  "toPublicToken r = \<lparr>at_ID = tk_ID r, at_Name = tk_Name r, at_Role = tk_Role r, at_Prefix = tk_Prefix r,
     at_CreatedAt = tk_CreatedAt r, at_ExpiresAt = tk_ExpiresAt r, at_LastUsedAt = tk_LastUsedAt r,
     at_Description = tk_Description r\<rparr>"

definition token_record ::
  "'s auth_env \<Rightarrow> time \<Rightarrow> string \<Rightarrow> string \<Rightarrow> string \<Rightarrow> string \<Rightarrow> time option \<Rightarrow> string \<Rightarrow> tokenRecord" where
  "token_record v now rawToken tokenID name role expiresAt description =
     \<lparr>tk_ID = tokenID, tk_Name = name, tk_Role = sanitizeRole (TrimSpace role), tk_Hash = tokenHash v rawToken,
      tk_Prefix = take 8 rawToken, tk_CreatedAt = now, tk_ExpiresAt = expiresAt, tk_LastUsedAt = None,
      tk_Description = TrimSpace description\<rparr>"

text \<open>\<open>rnd1\<close> and \<open>rnd2\<close> are the random bytes of the token and of its identifier.\<close>

definition CreateToken ::
  "'s auth_env \<Rightarrow> go_error + bytes \<Rightarrow> go_error + bytes \<Rightarrow> time \<Rightarrow> string \<Rightarrow> string \<Rightarrow> time option \<Rightarrow> string \<Rightarrow> 's \<Rightarrow>
   's \<times> (go_error + APIToken \<times> string)" where
  "CreateToken v rnd1 rnd2 now name0 role expiresAt description s =
     (let name = TrimSpace name0 in
      if name = [] then (s, Inl (ErrMsg ''token name is required''))
      else case randomHex 32 rnd1 of
        Inl err \<Rightarrow> (s, Inl err)
      | Inr rawToken \<Rightarrow>
          (case randomHex 12 rnd2 of
             Inl err \<Rightarrow> (s, Inl err)
           | Inr tokenID \<Rightarrow>
               (let r = token_record v now rawToken tokenID name role expiresAt description in
                case c_marshal (ae_token v) r of
                  None \<Rightarrow> (s, Inl (ErrMsg ''json''))
                | Some raw \<Rightarrow>
                    (case ae_tx v (\<lambda>ms. Inr (tx_Put treeTokensByHash (tk_Hash r) (tk_ID r) (tx_Put treeTokens (tk_ID r) raw ms))) now s of
                       (s', Some err) \<Rightarrow> (s', Inl err)
                     | (s', None) \<Rightarrow> (s', Inr (toPublicToken r, ''msn_'' @ rawToken))))))"

definition ListTokens :: "'s auth_env \<Rightarrow> 's \<Rightarrow> go_error + APIToken list" where
  "ListTokens v s = rbind (list_rows (ae_db v) (ae_token v) s treeTokens) (\<lambda>rs. Inr (map toPublicToken rs))"

definition RevokeToken :: "'s auth_env \<Rightarrow> time \<Rightarrow> string \<Rightarrow> 's \<Rightarrow> 's \<times> go_error option" where
  "RevokeToken v now tokenID s =
     (case get_row (ae_db v) (ae_token v) s treeTokens (TrimSpace tokenID) of
        Inl err \<Rightarrow> (s, Some err)
      | Inr r \<Rightarrow> ae_tx v (\<lambda>ms. Inr (tx_Delete treeTokensByHash (tk_Hash r) (tx_Delete treeTokens (tk_ID r) ms))) now s)"

text \<open>The time of the last use is stored when it can be, and an error of that is ignored.\<close>

definition AuthenticateBearer :: "'s auth_env \<Rightarrow> time \<Rightarrow> string \<Rightarrow> 's \<Rightarrow> 's \<times> (go_error + Identity)" where
  "AuthenticateBearer v now token0 s =
     (let token = TrimSpace token0 in
      if token = [] then (s, Inl ErrInvalidCredentials)
      else case db_Get (ae_db v) s treeTokensByHash (tokenHash v (TrimPrefix token ''msn_'')) of
        Inl _ \<Rightarrow> (s, Inl ErrInvalidCredentials)
      | Inr tokenID \<Rightarrow>
          (case db_Get (ae_db v) s treeTokens tokenID of
             Inl _ \<Rightarrow> (s, Inl ErrInvalidCredentials)
           | Inr raw \<Rightarrow>
               (case c_unmarshal (ae_token v) raw of
                  None \<Rightarrow> (s, Inl (ErrMsg ''json''))
                | Some r \<Rightarrow>
                    if (case tk_ExpiresAt r of None \<Rightarrow> False | Some t \<Rightarrow> now > t) then (s, Inl ErrInvalidCredentials)
                    else
                      (let r' = r\<lparr>tk_LastUsedAt := Some now\<rparr>
                       in (fst (put_row (ae_db v) (ae_token v) treeTokens (tk_ID r') r' now s),
                           Inr \<lparr>id_Username = ''token:'' @ tk_Name r', id_Role = tk_Role r', id_AuthType = ''token'',
                                id_TokenID = tk_ID r'\<rparr>)))))"

end
