(* ===== verification/AuthProps.thy ===== *)
theory AuthProps
  imports Auth DbDemo
begin

text \<open>
  What the authentication promises: a bound on the passwords that can be tried in one lockout period,
  when the service starts, and that a token works until it expires or is revoked.
\<close>

section \<open>Lockouts\<close>

lemma normalizeUsername_idem [simp]: "normalizeUsername (normalizeUsername name) = normalizeUsername name"
  by (simp add: normalizeUsername_def)

text \<open>How many of a sequence of attempts get as far as the comparison of the password.\<close>

fun compared :: "'s auth_env \<Rightarrow> string \<Rightarrow> (time \<times> bytes) list \<Rightarrow> 's auth_service \<Rightarrow> nat" where
  "compared v name [] a = 0"
| "compared v name ((now, pw) # xs) a =
     (if snd (lockout_Check now (normalizeUsername name) (as_lockouts a)) = None then 1 else 0) +
     compared v name xs (fst (AuthenticateLocal v now name pw a))"

definition wrong_password :: "'s auth_env \<Rightarrow> string \<Rightarrow> 's \<Rightarrow> bytes \<Rightarrow> bool" where
  "wrong_password v name s pw \<longleftrightarrow> (\<forall>user. GetUser v s name = Inr user \<longrightarrow> \<not> ae_compare v (us_PasswordHash user) pw)"

text \<open>How many comparisons the tracker still allows before the lock of an account reaches past \<open>horizon\<close>.\<close>

definition budget :: "time \<Rightarrow> string \<Rightarrow> lockoutTracker \<Rightarrow> int" where
  "budget horizon u t =
     (case map_of (lt_entries t) u of
        None \<Rightarrow> lt_maxFailedAttempts t
      | Some en \<Rightarrow>
          if lk_lockedUntil en = 0 then max 1 (lt_maxFailedAttempts t - lk_failures en)
          else if lk_lockedUntil en \<ge> horizon then 0 else lt_maxFailedAttempts t)"

lemma AuthenticateLocal_wrong:
  assumes "wrong_password v name (as_store a) pw" "normalizeUsername name = u"
  shows "as_store (fst (AuthenticateLocal v now name pw a)) = as_store a"
    "as_lockouts (fst (AuthenticateLocal v now name pw a)) =
      (case lockout_Check now u (as_lockouts a) of
         (t, Some err) \<Rightarrow> t | (t, None) \<Rightarrow> fst (lockout_RecordFailure now u t))"
proof -
  have g: "GetUser v s u = GetUser v s name" for s using assms(2) by (auto simp: GetUser_def)
  show "as_store (fst (AuthenticateLocal v now name pw a)) = as_store a"
    "as_lockouts (fst (AuthenticateLocal v now name pw a)) =
      (case lockout_Check now u (as_lockouts a) of
         (t, Some err) \<Rightarrow> t | (t, None) \<Rightarrow> fst (lockout_RecordFailure now u t))"
    using assms(1) unfolding wrong_password_def
    by (auto simp: AuthenticateLocal_def assms(2) g fail_login_def Let_def split: option.splits prod.splits sum.splits)
qed

lemma lockout_step_budget:
  assumes "normalizeUsername u = u" "u \<noteq> []" "0 < lt_maxFailedAttempts t" "0 < now + lt_lockoutDuration t"
    "now < horizon" "horizon \<le> now + lt_lockoutDuration t"
    "t' = (case lockout_Check now u t of (t1, Some err) \<Rightarrow> t1 | (t1, None) \<Rightarrow> fst (lockout_RecordFailure now u t1))"
  shows "(if snd (lockout_Check now u t) = None then 1 else 0) + budget horizon u t' \<le> budget horizon u t"
    "lt_maxFailedAttempts t' = lt_maxFailedAttempts t" "lt_lockoutDuration t' = lt_lockoutDuration t"
  using assms
  by (auto simp: lockout_Check_def lockout_RecordFailure_def budget_def is_zero_time_def Let_def split: option.splits if_splits)

definition tracker_ok :: "lockoutTracker \<Rightarrow> bool" where
  "tracker_ok t \<longleftrightarrow> 0 < lt_maxFailedAttempts t \<and> 0 < lt_lockoutDuration t \<and>
     (\<forall>u en. map_of (lt_entries t) u = Some en \<longrightarrow> 0 \<le> lk_failures en)"

lemma tracker_ok_new: "tracker_ok (newLockoutTracker n d)"
  by (auto simp: tracker_ok_def newLockoutTracker_def minute_ns_def second_ns_def)

lemma tracker_ok_kept:
  assumes "tracker_ok t"
  shows "tracker_ok (fst (lockout_Check now u t))" "tracker_ok (fst (lockout_RecordFailure now u t))"
    "tracker_ok (lockout_Reset u t)"
  using assms
  by (auto simp: tracker_ok_def lockout_Check_def lockout_RecordFailure_def lockout_Reset_def Let_def
      split: option.splits if_splits)

lemma compared_budget:
  assumes "normalizeUsername name = u" "u \<noteq> []" "0 \<le> t0" "tracker_ok (as_lockouts a)"
    "horizon = t0 + lt_lockoutDuration (as_lockouts a)"
    "\<forall>(now, pw)\<in>set xs. t0 \<le> now \<and> now < horizon \<and> wrong_password v name (as_store a) pw"
  shows "int (compared v name xs a) \<le> budget horizon u (as_lockouts a)"
  using assms(4-6)
proof (induction xs arbitrary: a)
  case Nil
  then show ?case by (auto simp: budget_def tracker_ok_def split: option.splits)
next
  case (Cons x xs)
  obtain now pw where x: "x = (now, pw)" by (cases x)
  have u: "normalizeUsername u = u" using assms(1) by auto
  let ?t = "as_lockouts a" and ?a = "fst (AuthenticateLocal v now name pw a)"
  have w: "wrong_password v name (as_store a) pw" "t0 \<le> now" "now < horizon" using Cons.prems(3) x by auto
  note st = AuthenticateLocal_wrong [OF w(1) assms(1), of now]
  have b: "0 < lt_maxFailedAttempts ?t" "0 < now + lt_lockoutDuration ?t" "horizon \<le> now + lt_lockoutDuration ?t"
    using Cons.prems(1,2) w(2) assms(3) by (auto simp: tracker_ok_def)
  note step = lockout_step_budget [OF u assms(2) b(1,2) w(3) b(3) st(2)]
  have "tracker_ok (as_lockouts ?a)"
    using tracker_ok_kept(1) [OF Cons.prems(1), of now u] tracker_ok_kept(2) [of _ now u] unfolding st(2)
    by (auto split: prod.splits option.splits)
  then have "int (compared v name xs ?a) \<le> budget horizon u (as_lockouts ?a)"
    by (rule Cons.IH) (use Cons.prems(2,3) st(1) step(3) x in auto)
  then show ?case using step(1) by (auto simp: x assms(1) split: if_splits)
qed

text \<open>C13: In a window shorter than the lockout period, however the attempts are spread over it, at most the
  configured number of wrong passwords for one account is compared with its hash; every further
  attempt is refused before that.\<close>

theorem auth_lockout_bound:
  assumes "normalizeUsername name \<noteq> []" "tracker_ok (as_lockouts a)" "0 \<le> t0"
    "\<forall>(now, pw)\<in>set xs. t0 \<le> now \<and> now < t0 + lt_lockoutDuration (as_lockouts a) \<and>
       wrong_password v name (as_store a) pw"
  shows "int (compared v name xs a) \<le> lt_maxFailedAttempts (as_lockouts a)"
proof -
  have "int (compared v name xs a) \<le> budget (t0 + lt_lockoutDuration (as_lockouts a)) (normalizeUsername name) (as_lockouts a)"
    using compared_budget [OF refl assms(1,3,2) refl assms(4)] .
  also have "\<dots> \<le> lt_maxFailedAttempts (as_lockouts a)"
    using assms(2) by (auto simp: budget_def tracker_ok_def split: option.splits)
  finally show ?thesis .
qed

section \<open>Starting with stored sessions\<close>

lemma load_rows_blocks:
  "load_rows C now rows m = None \<longleftrightarrow> (\<exists>(k, v)\<in>set rows. \<exists>x. c_unmarshal C v = Some x \<and> se_ExpiresAt x < now)"
  by (induction C now rows m rule: load_rows.induct) (auto split: option.splits)

lemma load_rows_map:
  assumes "load_rows C now rows m = Some m'" "distinct (map fst rows)"
  shows "map_of m' k = (case Option.bind (map_of rows k) (c_unmarshal C) of None \<Rightarrow> map_of m k | Some x \<Rightarrow> Some x)"
  using assms
proof (induction C now rows m arbitrary: m' rule: load_rows.induct)
  case (2 C now k' v rows m)
  have "k = k' \<Longrightarrow> map_of rows k = None" using 2(4) by (auto simp: map_of_eq_None_iff)
  then show ?case using 2 by (auto split: option.splits if_splits)
qed simp

text \<open>The session a row of the store holds.\<close>

definition stored_session :: "engine auth_env \<Rightarrow> engine \<Rightarrow> string \<Rightarrow> sessionEntry option" where
  "stored_session v s k = Option.bind (db_view s treeSessions k) (c_unmarshal (ae_session v))"

text \<open>The service starts only if no stored session has expired: a restart after the end of any
  session that was not removed before never returns. When it starts, it knows exactly the
  stored sessions.\<close>

theorem auth_start_blocks_on_expired:
  assumes "ae_db v = engine_db" "db_inv s"
  shows "(NewService v opts now s = None \<longleftrightarrow> (\<exists>k x. stored_session v s k = Some x \<and> se_ExpiresAt x < now)) \<and>
    (\<forall>a. NewService v opts now s = Some a \<longrightarrow> map_of (sm_sessions (as_sessions a)) = stored_session v s)"
proof (cases "db_Rows engine_db s treeSessions = Inl ErrNotFound \<and> db_view s treeSessions = Map.empty")
  case True
  then show ?thesis
    by (auto simp: NewService_def NewSessionManager_def session_load_def ae_store_def assms(1) stored_session_def
        fun_eq_iff Let_def)
next
  case False
  then obtain rows where rows: "db_Rows engine_db s treeSessions = Inr rows" "sorted_wrt (<) (map fst rows)"
    "map_of rows = db_view s treeSessions" using edb.db_rows [OF assms(2)] by blast
  let ?l = "load_rows (ae_session v) now rows []"
  have "?l = None \<longleftrightarrow> (\<exists>k x. stored_session v s k = Some x \<and> se_ExpiresAt x < now)"
    using edb.map_of_sorted_set [OF rows(2)] rows(3)
    by (auto simp: load_rows_blocks stored_session_def bind_eq_Some_conv Bex_def)
  moreover have "map_of m = stored_session v s" if "?l = Some m" for m
    using load_rows_map [OF that] sorted_lt_distinct [OF rows(2)] rows(3)
    by (auto simp: fun_eq_iff stored_session_def split: option.split)
  ultimately show ?thesis
    by (auto simp: NewService_def NewSessionManager_def session_load_def ae_store_def assms(1) rows(1)
        Let_def split: option.splits)
qed

section \<open>Tokens\<close>

lemma hex_digit_printable: "n < 16 \<Longrightarrow> printable (hex_digit n)"
  by (auto simp: hex_digit_def printable_def nat_byte_def byte_nat_def)

lemma hex_encode_trim: "TrimSpace (hex_encode b) = hex_encode b" "TrimSpace (''msn_'' @ hex_encode b) = ''msn_'' @ hex_encode b"
proof -
  have p: "printable c" if "c \<in> set (hex_encode b)" for c
    using that by (auto simp: hex_encode_def hex_byte_def less_mult_imp_div_less intro!: hex_digit_printable)
  show "TrimSpace (hex_encode b) = hex_encode b"
    by (cases "hex_encode b = []") (simp, use p in \<open>auto intro!: TrimSpace_printable\<close>)
  show "TrimSpace (''msn_'' @ hex_encode b) = ''msn_'' @ hex_encode b"
    by (rule TrimSpace_printable; use p in \<open>auto simp: printable_def byte_nat_def\<close>)
qed

lemma TrimPrefix_app [simp]: "TrimPrefix (p @ s) p = s"
  by (simp add: TrimPrefix_def starts_with_def)

definition auth_on_engine :: "engine auth_env \<Rightarrow> bool" where
  "auth_on_engine v \<longleftrightarrow> ae_db v = engine_db \<and> ae_tx v = eng_Tx \<and> codec_ok (ae_token v)"

text \<open>The token is not expired at a time.\<close>

definition alive :: "time option \<Rightarrow> time \<Rightarrow> bool" where
  "alive exp t \<longleftrightarrow> (case exp of None \<Rightarrow> True | Some x \<Rightarrow> t \<le> x)"

text \<open>The rows that hold a token in a state of the engine.\<close>

definition token_stored :: "engine auth_env \<Rightarrow> engine \<Rightarrow> string \<Rightarrow> tokenRecord \<Rightarrow> bool" where
  "token_stored v s h r \<longleftrightarrow> db_inv s \<and> tk_Hash r = h \<and> db_view s treeTokensByHash h = Some (tk_ID r) \<and>
     edb.entry (ae_token v) s treeTokens (tk_ID r) = Some r"

lemma token_trees: "treeTokens \<noteq> treeTokensByHash" by simp

lemma CreateToken_stored:
  assumes "auth_on_engine v" "db_inv s" "TrimSpace name \<noteq> []"
    "r = token_record v now (hex_encode b1) (hex_encode b2) (TrimSpace name) role exp desc"
    "row_fits (ae_token v) treeTokens (tk_ID r) r" "db_fits treeTokensByHash (tk_Hash r) (tk_ID r)"
    "c_marshal (ae_token v) r = Some raw"
  shows "\<exists>s1. CreateToken v (Inr b1) (Inr b2) now name role exp desc s =
      (s1, Inr (toPublicToken r, ''msn_'' @ hex_encode b1)) \<and> token_stored v s1 (tk_Hash r) r"
proof -
  have e: "ae_tx v = eng_Tx" "codec_ok (ae_token v)" using assms(1) by (auto simp: auth_on_engine_def)
  note raw = assms(7)
  let ?m1 = "\<lparr>m_tree = treeTokens, m_op = OpPut, m_key = tk_ID r, m_value = raw\<rparr>"
  let ?m2 = "\<lparr>m_tree = treeTokensByHash, m_op = OpPut, m_key = tk_Hash r, m_value = tk_ID r\<rparr>"
  have f: "mut_fits ?m1" "mut_fits ?m2"
    using assms(5,6) raw by (auto simp: mut_fits_def row_fits_def db_fits_def Let_def)
  obtain s' where s': "eng_Tx (\<lambda>ms. Inr (ms @ [?m1, ?m2])) now s = (s', None)" "db_inv s'"
    "db_view s' treeTokens = (db_view s treeTokens)(tk_ID r \<mapsto> raw)"
    "db_view s' treeTokensByHash = (db_view s treeTokensByHash)(tk_Hash r \<mapsto> tk_ID r)"
    using edbt.tx_two [OF assms(2) f] by auto
  have "eng_Tx (\<lambda>ms. Inr (tx_Put treeTokensByHash (tk_Hash r) (tk_ID r) (tx_Put treeTokens (tk_ID r) raw ms))) now s =
    (s', None)" using s'(1) by (simp add: tx_Put_def)
  then have "CreateToken v (Inr b1) (Inr b2) now name role exp desc s = (s', Inr (toPublicToken r, ''msn_'' @ hex_encode b1))"
    using assms(3) raw e(1) by (simp add: CreateToken_def randomHex_def Let_def flip: assms(4))
  then show ?thesis
    using s'(2-4) e(2) raw by (auto simp: token_stored_def edb.entry_def codec_ok_def)
qed

text \<open>A use of a token writes its record back with the time of the use.\<close>

lemma AuthenticateBearer_stored:
  assumes "auth_on_engine v" "token_stored v s h r" "h = tokenHash v (hex_encode b)"
    "row_fits (ae_token v) treeTokens (tk_ID r) (r\<lparr>tk_LastUsedAt := Some t\<rparr>)"
  shows "alive (tk_ExpiresAt r) t \<Longrightarrow> \<exists>s2 r2. AuthenticateBearer v t (''msn_'' @ hex_encode b) s =
      (s2, Inr \<lparr>id_Username = ''token:'' @ tk_Name r, id_Role = tk_Role r, id_AuthType = ''token'', id_TokenID = tk_ID r\<rparr>) \<and>
      token_stored v s2 h r2 \<and> (r2 = r \<or> r2 = r\<lparr>tk_LastUsedAt := Some t\<rparr>)"
    "\<not> alive (tk_ExpiresAt r) t \<Longrightarrow> AuthenticateBearer v t (''msn_'' @ hex_encode b) s = (s, Inl ErrInvalidCredentials)"
proof -
  have e: "ae_db v = engine_db" "codec_ok (ae_token v)" using assms(1) by (auto simp: auth_on_engine_def)
  have i: "db_inv s" using assms(2) by (simp add: token_stored_def)
  obtain raw where raw: "db_view s treeTokens (tk_ID r) = Some raw" "c_unmarshal (ae_token v) raw = Some r"
    using assms(2) by (auto simp: token_stored_def edb.entry_def bind_eq_Some_conv)
  let ?r = "r\<lparr>tk_LastUsedAt := Some t\<rparr>"
  obtain s2 err where p: "put_row engine_db (ae_token v) treeTokens (tk_ID r) ?r t s = (s2, err)" by (metis surj_pair)
  have g: "db_Get engine_db s treeTokensByHash h = Inr (tk_ID r)" "db_Get engine_db s treeTokens (tk_ID r) = Inr raw"
    using edb.db_get [OF i] assms(2) raw(1) by (auto simp: token_stored_def)
  have a: "AuthenticateBearer v t (''msn_'' @ hex_encode b) s =
    (if alive (tk_ExpiresAt r) t then (s2, Inr \<lparr>id_Username = ''token:'' @ tk_Name r, id_Role = tk_Role r,
       id_AuthType = ''token'', id_TokenID = tk_ID r\<rparr>) else (s, Inl ErrInvalidCredentials))"
    using g raw(2) p unfolding assms(3)
    by (auto simp: AuthenticateBearer_def hex_encode_trim(2) [simplified] e(1) alive_def Let_def TrimPrefix_app [of "''msn_''", simplified] split: option.splits)
  have "\<exists>r2. token_stored v s2 h r2 \<and> (r2 = r \<or> r2 = r\<lparr>tk_LastUsedAt := Some t\<rparr>)"
  proof (cases "s2 = s")
    case True
    then show ?thesis using assms(2) by blast
  next
    case False
    then have "token_stored v s2 h ?r"
      using put_row_on_engine [OF i e(2) assms(4) p] assms(2) token_trees by (auto simp: token_stored_def)
    then show ?thesis by blast
  qed
  then show "alive (tk_ExpiresAt r) t \<Longrightarrow> \<exists>s2 r2. AuthenticateBearer v t (''msn_'' @ hex_encode b) s =
      (s2, Inr \<lparr>id_Username = ''token:'' @ tk_Name r, id_Role = tk_Role r, id_AuthType = ''token'', id_TokenID = tk_ID r\<rparr>) \<and>
      token_stored v s2 h r2 \<and> (r2 = r \<or> r2 = r\<lparr>tk_LastUsedAt := Some t\<rparr>)"
    using a by auto
  show "\<not> alive (tk_ExpiresAt r) t \<Longrightarrow> AuthenticateBearer v t (''msn_'' @ hex_encode b) s = (s, Inl ErrInvalidCredentials)"
    using a by simp
qed

lemma RevokeToken_stored:
  assumes "auth_on_engine v" "token_stored v s h r" "tk_ID r = hex_encode b2"
    "db_fits treeTokens (tk_ID r) []" "db_fits treeTokensByHash h []"
  shows "\<exists>s3. RevokeToken v now (tk_ID r) s = (s3, None) \<and> db_inv s3 \<and> db_view s3 treeTokensByHash h = None"
proof -
  have e: "ae_db v = engine_db" "ae_tx v = eng_Tx" using assms(1) by (auto simp: auth_on_engine_def)
  have i: "db_inv s" "tk_Hash r = h" using assms(2) by (auto simp: token_stored_def)
  have g: "get_row engine_db (ae_token v) s treeTokens (tk_ID r) = Inr r"
    using assms(2) by (simp add: token_stored_def edb.get_row_entry [OF i(1)])
  let ?m1 = "\<lparr>m_tree = treeTokens, m_op = OpDel, m_key = tk_ID r, m_value = []\<rparr>"
  let ?m2 = "\<lparr>m_tree = treeTokensByHash, m_op = OpDel, m_key = h, m_value = []\<rparr>"
  have f: "mut_fits ?m1" "mut_fits ?m2"
    using assms(4,5) by (auto simp: mut_fits_def db_fits_def Let_def wf_mut_def entry_of_def)
  obtain s' where "eng_Tx (\<lambda>ms. Inr (ms @ [?m1, ?m2])) now s = (s', None)" "db_inv s'"
    "db_view s' treeTokensByHash = (db_view s treeTokensByHash)(h := None)"
    using edbt.tx_two [OF i(1) f] by auto
  then show ?thesis
    using g i(2) e by (auto simp: RevokeToken_def tx_Delete_def assms(3) hex_encode_trim)
qed

lemma AuthenticateBearer_unknown:
  assumes "auth_on_engine v" "db_inv s" "db_view s treeTokensByHash (tokenHash v (hex_encode b)) = None"
  shows "AuthenticateBearer v t (''msn_'' @ hex_encode b) s = (s, Inl ErrInvalidCredentials)"
  using assms edb.db_get [OF assms(2)]
  by (simp add: AuthenticateBearer_def auth_on_engine_def hex_encode_trim(2) [simplified]
      TrimPrefix_app [of "''msn_''", simplified] Let_def)

text \<open>
  What may happen to the service while a token exists: its bearer uses it, any number of times and
  at any times, and anything else that leaves the token's two rows alone (other users, tokens,
  sessions and settings; \<open>h\<close> is the hash under which the token is found, \<open>tid\<close> its identifier).
\<close>

inductive token_run :: "engine auth_env \<Rightarrow> string \<Rightarrow> string \<Rightarrow> string \<Rightarrow> engine \<Rightarrow> engine \<Rightarrow> bool"
  for v tok h tid where
  tr_here: "token_run v tok h tid s s"
| tr_use: "token_run v tok h tid s s1 \<Longrightarrow> AuthenticateBearer v t tok s1 = (s2, res) \<Longrightarrow> token_run v tok h tid s s2"
| tr_other: "token_run v tok h tid s s1 \<Longrightarrow> db_inv s2 \<Longrightarrow>
     db_view s2 treeTokensByHash h = db_view s1 treeTokensByHash h \<Longrightarrow>
     db_view s2 treeTokens tid = db_view s1 treeTokens tid \<Longrightarrow> token_run v tok h tid s s2"

text \<open>A token's record during a run: as created, but for the time of its last use.\<close>

definition token_kept :: "engine auth_env \<Rightarrow> engine \<Rightarrow> tokenRecord \<Rightarrow> bool" where
  "token_kept v s r \<longleftrightarrow> (\<exists>u. token_stored v s (tk_Hash r) (r\<lparr>tk_LastUsedAt := u\<rparr>))"

lemma token_kept_new: "token_stored v s (tk_Hash r) r \<Longrightarrow> token_kept v s r"
  unfolding token_kept_def by (intro exI [of _ "tk_LastUsedAt r"]) simp

lemma token_kept_use:
  assumes "auth_on_engine v" "token_kept v s r" "tk_Hash r = tokenHash v (hex_encode b)"
    "\<forall>t. row_fits (ae_token v) treeTokens (tk_ID r) (r\<lparr>tk_LastUsedAt := Some t\<rparr>)"
  shows "alive (tk_ExpiresAt r) t \<Longrightarrow> \<exists>s2. AuthenticateBearer v t (''msn_'' @ hex_encode b) s =
      (s2, Inr \<lparr>id_Username = ''token:'' @ tk_Name r, id_Role = tk_Role r, id_AuthType = ''token'', id_TokenID = tk_ID r\<rparr>) \<and>
      token_kept v s2 r"
    "\<not> alive (tk_ExpiresAt r) t \<Longrightarrow> AuthenticateBearer v t (''msn_'' @ hex_encode b) s = (s, Inl ErrInvalidCredentials)"
proof -
  obtain u where u: "token_stored v s (tk_Hash r) (r\<lparr>tk_LastUsedAt := u\<rparr>)" using assms(2) by (auto simp: token_kept_def)
  note ab = AuthenticateBearer_stored [OF assms(1) u assms(3), of t]
  have up: "r\<lparr>tk_LastUsedAt := u, tk_LastUsedAt := Some t\<rparr> = r\<lparr>tk_LastUsedAt := Some t\<rparr>" by simp
  have f: "row_fits (ae_token v) treeTokens (tk_ID (r\<lparr>tk_LastUsedAt := u\<rparr>)) (r\<lparr>tk_LastUsedAt := u, tk_LastUsedAt := Some t\<rparr>)"
    using assms(4) by simp
  show "\<not> alive (tk_ExpiresAt r) t \<Longrightarrow> AuthenticateBearer v t (''msn_'' @ hex_encode b) s = (s, Inl ErrInvalidCredentials)"
    using ab(2) [OF f] by simp
  show "alive (tk_ExpiresAt r) t \<Longrightarrow> \<exists>s2. AuthenticateBearer v t (''msn_'' @ hex_encode b) s =
      (s2, Inr \<lparr>id_Username = ''token:'' @ tk_Name r, id_Role = tk_Role r, id_AuthType = ''token'', id_TokenID = tk_ID r\<rparr>) \<and>
      token_kept v s2 r"
    using ab(1) [OF f] unfolding token_kept_def up by auto
qed

lemma token_kept_run:
  assumes "token_run v (''msn_'' @ hex_encode b) (tk_Hash r) (tk_ID r) s s'" "token_kept v s r"
    "auth_on_engine v" "tk_Hash r = tokenHash v (hex_encode b)"
    "\<forall>t. row_fits (ae_token v) treeTokens (tk_ID r) (r\<lparr>tk_LastUsedAt := Some t\<rparr>)"
  shows "token_kept v s' r"
  using assms
proof (induction rule: token_run.induct)
  case (tr_use s s1 t s2 res)
  then have k: "token_kept v s1 r" by blast
  show ?case
    using token_kept_use [OF tr_use.prems(2) k tr_use.prems(3,4), of t] tr_use.hyps(2) k
    by (cases "alive (tk_ExpiresAt r) t") auto
next
  case (tr_other s s1 s2)
  then obtain u where "token_stored v s1 (tk_Hash r) (r\<lparr>tk_LastUsedAt := u\<rparr>)" by (auto simp: token_kept_def)
  then have "token_stored v s2 (tk_Hash r) (r\<lparr>tk_LastUsedAt := u\<rparr>)"
    using tr_other.hyps(2-4) by (simp add: token_stored_def edb.entry_def)
  then show ?case by (auto simp: token_kept_def)
qed simp

lemma token_gone_run:
  assumes "token_run v (''msn_'' @ hex_encode b) (tokenHash v (hex_encode b)) tid s s'" "auth_on_engine v"
    "db_inv s" "db_view s treeTokensByHash (tokenHash v (hex_encode b)) = None"
  shows "db_inv s' \<and> db_view s' treeTokensByHash (tokenHash v (hex_encode b)) = None"
  using assms
proof (induction rule: token_run.induct)
  case (tr_use s s1 t s2 res)
  then show ?case using AuthenticateBearer_unknown [of v s1 b t] by (metis prod.inject)
qed auto

text \<open>C27: A token that was created authenticates its bearer with the name and the role it was created for
  until it expires, however often and whenever it is used before, and is refused after its expiry, used
  before or not; once it was revoked under the identifier that was handed out it is refused for good. Anything
  else that leaves the token's rows alone may happen in between.\<close>

theorem auth_token_lifetime:
  assumes "auth_on_engine v" "db_inv s" "TrimSpace name \<noteq> []"
    "r = token_record v now (hex_encode b1) (hex_encode b2) (TrimSpace name) role exp desc"
    "row_fits (ae_token v) treeTokens (tk_ID r) r" "db_fits treeTokensByHash (tk_Hash r) (tk_ID r)"
    "c_marshal (ae_token v) r = Some raw"
    "\<forall>t. row_fits (ae_token v) treeTokens (tk_ID r) (r\<lparr>tk_LastUsedAt := Some t\<rparr>)"
    "db_fits treeTokens (tk_ID r) []" "db_fits treeTokensByHash (tk_Hash r) []"
  shows "\<exists>s1 pub tok. CreateToken v (Inr b1) (Inr b2) now name role exp desc s = (s1, Inr (pub, tok)) \<and>
    (\<forall>s2. token_run v tok (tk_Hash r) (at_ID pub) s1 s2 \<longrightarrow>
      (\<forall>t. if alive exp t
           then \<exists>s3. AuthenticateBearer v t tok s2 =
             (s3, Inr \<lparr>id_Username = ''token:'' @ TrimSpace name, id_Role = sanitizeRole (TrimSpace role),
                id_AuthType = ''token'', id_TokenID = at_ID pub\<rparr>)
           else AuthenticateBearer v t tok s2 = (s2, Inl ErrInvalidCredentials)) \<and>
      (\<exists>s3. RevokeToken v t' (at_ID pub) s2 = (s3, None) \<and>
        (\<forall>s4. token_run v tok (tk_Hash r) (at_ID pub) s3 s4 \<longrightarrow>
          (\<forall>t. AuthenticateBearer v t tok s4 = (s4, Inl ErrInvalidCredentials)))))"
proof -
  let ?tok = "''msn_'' @ hex_encode b1"
  obtain s1 where s1: "CreateToken v (Inr b1) (Inr b2) now name role exp desc s = (s1, Inr (toPublicToken r, ?tok))"
    "token_stored v s1 (tk_Hash r) r" using CreateToken_stored [OF assms(1-7)] by blast
  have h: "tk_Hash r = tokenHash v (hex_encode b1)" and f: "tk_ExpiresAt r = exp" "tk_ID r = hex_encode b2"
    "tk_Name r = TrimSpace name" "tk_Role r = sanitizeRole (TrimSpace role)" "at_ID (toPublicToken r) = tk_ID r"
    using assms(4) by (simp_all add: token_record_def toPublicToken_def)
  have kept: "token_kept v s2 r" if "token_run v ?tok (tk_Hash r) (tk_ID r) s1 s2" for s2
    using token_kept_run [OF that token_kept_new [OF s1(2)] assms(1) h assms(8)] .
  note use = token_kept_use [OF assms(1) kept h assms(8), unfolded f(1,3,4)]
  have rev: "\<exists>s3. RevokeToken v t' (tk_ID r) s2 = (s3, None) \<and>
        (\<forall>s4. token_run v ?tok (tk_Hash r) (tk_ID r) s3 s4 \<longrightarrow>
          (\<forall>t. AuthenticateBearer v t ?tok s4 = (s4, Inl ErrInvalidCredentials)))"
    if run: "token_run v ?tok (tk_Hash r) (tk_ID r) s1 s2" for s2
  proof -
    obtain u where "token_stored v s2 (tk_Hash r) (r\<lparr>tk_LastUsedAt := u\<rparr>)"
      using kept [OF run] by (auto simp: token_kept_def)
    then obtain s3 where s3: "RevokeToken v t' (tk_ID r) s2 = (s3, None)" "db_inv s3"
      "db_view s3 treeTokensByHash (tk_Hash r) = None"
      using RevokeToken_stored [OF assms(1), of s2 "tk_Hash r" "r\<lparr>tk_LastUsedAt := u\<rparr>" b2 t'] f(2) assms(9,10) by auto
    then show ?thesis
      using token_gone_run [OF _ assms(1) s3(2)] AuthenticateBearer_unknown [OF assms(1)] unfolding h by blast
  qed
  have all: "if alive exp t
           then \<exists>s3. AuthenticateBearer v t ?tok s2 =
             (s3, Inr \<lparr>id_Username = ''token:'' @ TrimSpace name, id_Role = sanitizeRole (TrimSpace role),
                id_AuthType = ''token'', id_TokenID = tk_ID r\<rparr>)
           else AuthenticateBearer v t ?tok s2 = (s2, Inl ErrInvalidCredentials)"
    if "token_run v ?tok (tk_Hash r) (tk_ID r) s1 s2" for s2 t
    using use [OF that] by (cases "alive exp t") (metis, metis)
  show ?thesis
    using s1(1) all rev by (intro exI [of _ s1] exI [of _ "toPublicToken r"] exI [of _ ?tok], unfold f(5)) blast
qed

section \<open>Concrete instances\<close>

definition demo_session :: sessionEntry where
  "demo_session = \<lparr>se_Identity = \<lparr>id_Username = ''bob'', id_Role = ''viewer'', id_AuthType = ''session'', id_TokenID = []\<rparr>,
     se_ExpiresAt = 50\<rparr>"

definition demo_env :: "tokenRecord list \<Rightarrow> engine auth_env" where
  "demo_env tks = \<lparr>ae_db = engine_db, ae_tx = eng_Tx, ae_user = table_codec [], ae_token = table_codec tks,
     ae_session = table_codec [demo_session], ae_compare = (=), ae_sha256 = (\<lambda>b. take 4 b)\<rparr>"

definition demo_opts :: ServiceOptions where
  "demo_opts = \<lparr>so_AuthType = [], so_CookieName = [], so_SessionDuration = 0, so_MaxFailedAttempts = 2,
     so_LockoutDuration = 100\<rparr>"

definition demo_auth :: "engine auth_service" where
  "demo_auth = the (NewService (demo_env []) demo_opts 5 demo0)"

lemma demo_auth_start: "NewService (demo_env []) demo_opts 5 demo0 \<noteq> None"
  using load_rows_blocks edb.db_rows [OF db_inv_demo0, of treeSessions]
  by (auto simp: NewService_def NewSessionManager_def session_load_def ae_store_def demo_env_def Let_def db_view_demo0)

lemma demo_auth_fields: "as_store demo_auth = demo0" "as_lockouts demo_auth = newLockoutTracker 2 100"
  using demo_auth_start by (auto simp: demo_auth_def NewService_def demo_opts_def Let_def split: option.splits)

theorem auth_lockout_bound_witness:
  "int (compared (demo_env []) ''bob'' [(10, ''a''), (11, ''b''), (12, ''c'')] demo_auth) \<le> 2"
proof -
  have n: "normalizeUsername ''bob'' = ''bob''"
  proof -
    have "TrimSpace ''bob'' = ''bob''" by (rule TrimSpace_printable; simp add: printable_def byte_nat_def)
    then show ?thesis by (simp add: normalizeUsername_def) code_simp
  qed
  have w: "wrong_password (demo_env []) ''bob'' demo0 pw" for pw
    by (simp add: wrong_password_def GetUser_def demo_env_def get_row_none [OF db_inv_demo0] db_view_demo0)
  show ?thesis
    using auth_lockout_bound [of "''bob''" demo_auth 10 "[(10, ''a''), (11, ''b''), (12, ''c'')]" "demo_env []"] n w
      tracker_ok_new [of 2 100]
    by (simp add: demo_auth_fields newLockoutTracker_def del: compared.simps)
qed

theorem auth_start_blocks_on_expired_witness:
  "\<exists>s. NewService (demo_env []) demo_opts 51 s = None \<and> NewService (demo_env []) demo_opts 50 s \<noteq> None"
proof -
  obtain s where s: "put_row engine_db (table_codec [demo_session]) treeSessions ''x'' demo_session 0 demo0 = (s, None)"
    "edb.entry (table_codec [demo_session]) s treeSessions = [''x'' \<mapsto> demo_session]"
    using demo_put(1) [OF db_inv_demo0, of demo_session "[demo_session]" "''x''" treeSessions 0]
    by (auto simp: wf_name_def fun_eq_iff edb.entry_def db_view_demo0)
  have i: "db_inv s"
    using put_row_on_engine [OF db_inv_demo0 table_codec_ok _ s(1)] demo_put(2) [OF db_inv_demo0, of demo_session "[demo_session]"]
    by (auto simp: wf_name_def)
  have "stored_session (demo_env []) s = [''x'' \<mapsto> demo_session]"
    using s(2) by (simp add: fun_eq_iff stored_session_def demo_env_def edb.entry_def)
  then show ?thesis
    using auth_start_blocks_on_expired [of "demo_env []" s demo_opts 51] auth_start_blocks_on_expired [of "demo_env []" s demo_opts 50] i
    by (intro exI [of _ s]) (auto simp: demo_env_def demo_session_def split: if_splits)
qed

definition demo_tk :: tokenRecord where
  "demo_tk = token_record (demo_env []) 1 (hex_encode ''k'') (hex_encode ''i'') ''ci'' ''operator'' (Some 50) []"

text \<open>A token that is used twice, has expired then, and is revoked.\<close>

theorem auth_token_lifetime_witness:
  "\<exists>s1 pub tok s2 s3 s4. CreateToken (demo_env [demo_tk]) (Inr ''k'') (Inr ''i'') 1 ''ci'' ''operator'' (Some 50) [] demo0 = (s1, Inr (pub, tok)) \<and>
    AuthenticateBearer (demo_env [demo_tk]) 40 tok s1 =
      (s2, Inr \<lparr>id_Username = ''token:ci'', id_Role = ''operator'', id_AuthType = ''token'', id_TokenID = at_ID pub\<rparr>) \<and>
    AuthenticateBearer (demo_env [demo_tk]) 45 tok s2 =
      (s3, Inr \<lparr>id_Username = ''token:ci'', id_Role = ''operator'', id_AuthType = ''token'', id_TokenID = at_ID pub\<rparr>) \<and>
    AuthenticateBearer (demo_env [demo_tk]) 51 tok s3 = (s3, Inl ErrInvalidCredentials) \<and>
    RevokeToken (demo_env [demo_tk]) 60 (at_ID pub) s3 = (s4, None) \<and>
    AuthenticateBearer (demo_env [demo_tk]) 45 tok s4 = (s4, Inl ErrInvalidCredentials)"
proof -
  let ?v = "demo_env [demo_tk]"
  have trim: "TrimSpace ''ci'' = ''ci''" "TrimSpace ''operator'' = ''operator''"
    by (rule TrimSpace_printable; simp add: printable_def byte_nat_def)+
  have v: "auth_on_engine ?v" by (simp add: auth_on_engine_def demo_env_def table_codec_ok)
  have r: "demo_tk = token_record ?v 1 (hex_encode ''k'') (hex_encode ''i'') (TrimSpace ''ci'') ''operator'' (Some 50) []"
    by (simp add: demo_tk_def token_record_def tokenHash_def demo_env_def trim)
  have len: "length (tk_ID demo_tk) < 100" "length (tk_Hash demo_tk) < 100"
    by (simp_all add: demo_tk_def token_record_def tokenHash_def demo_env_def hex_encode_def hex_byte_def)
  have f: "row_fits (ae_token ?v) treeTokens (tk_ID demo_tk) x" for x
    using len table_codec_def
    by (auto simp: demo_env_def row_fits_def table_codec_def wf_name_def find_Some_iff split: option.split intro!: demo_fits)
  have d: "db_fits treeTokensByHash (tk_Hash demo_tk) (tk_ID demo_tk)" "db_fits treeTokens (tk_ID demo_tk) []"
    "db_fits treeTokensByHash (tk_Hash demo_tk) []"
    using len by (auto simp: wf_name_def intro!: demo_fits)
  obtain raw where raw: "c_marshal (ae_token ?v) demo_tk = Some raw"
    using table_codec_mem [of demo_tk "[demo_tk]"] by (auto simp: demo_env_def)
  let ?id = "\<lambda>pub. \<lparr>id_Username = ''token:ci'', id_Role = ''operator'', id_AuthType = ''token'', id_TokenID = at_ID pub\<rparr>"
  have "TrimSpace ''ci'' \<noteq> []" "\<forall>t. row_fits (ae_token ?v) treeTokens (tk_ID demo_tk) (demo_tk\<lparr>tk_LastUsedAt := Some t\<rparr>)"
    using trim f by auto
  from auth_token_lifetime [OF v db_inv_demo0 this(1) r f d(1) raw this(2) d(2,3), of 60]
  obtain s1 pub tok where c: "CreateToken ?v (Inr ''k'') (Inr ''i'') 1 ''ci'' ''operator'' (Some 50) [] demo0 = (s1, Inr (pub, tok))"
    and life0: "\<forall>s2. token_run ?v tok (tk_Hash demo_tk) (at_ID pub) s1 s2 \<longrightarrow>
      (\<forall>t. if alive (Some 50) t then \<exists>s3. AuthenticateBearer ?v t tok s2 =
             (s3, Inr \<lparr>id_Username = ''token:'' @ TrimSpace ''ci'', id_Role = sanitizeRole (TrimSpace ''operator''),
                id_AuthType = ''token'', id_TokenID = at_ID pub\<rparr>)
           else AuthenticateBearer ?v t tok s2 = (s2, Inl ErrInvalidCredentials)) \<and>
      (\<exists>s3. RevokeToken ?v 60 (at_ID pub) s2 = (s3, None) \<and>
        (\<forall>s4. token_run ?v tok (tk_Hash demo_tk) (at_ID pub) s3 s4 \<longrightarrow>
          (\<forall>t. AuthenticateBearer ?v t tok s4 = (s4, Inl ErrInvalidCredentials))))"
    by blast
  have i: "\<lparr>id_Username = ''token:'' @ TrimSpace ''ci'', id_Role = sanitizeRole (TrimSpace ''operator''),
      id_AuthType = ''token'', id_TokenID = at_ID pub\<rparr> = ?id pub"
    by (simp add: trim sanitizeRole_def)
  note life = life0 [unfolded i, rule_format]
  have a: "alive (Some 50) 40" "alive (Some 50) 45" "\<not> alive (Some 50) 51" by (simp_all add: alive_def)
  obtain s2 where s2: "AuthenticateBearer ?v 40 tok s1 = (s2, Inr (?id pub))"
    using life [OF tr_here] a(1) by metis
  note r2 = tr_use [OF tr_here s2]
  obtain s3 where s3: "AuthenticateBearer ?v 45 tok s2 = (s3, Inr (?id pub))"
    using life [OF r2] a(2) by metis
  note r3 = tr_use [OF r2 s3]
  have e: "AuthenticateBearer ?v 51 tok s3 = (s3, Inl ErrInvalidCredentials)" using life [OF r3] a(3) by metis
  obtain s4 where "RevokeToken ?v 60 (at_ID pub) s3 = (s4, None)"
    "AuthenticateBearer ?v 45 tok s4 = (s4, Inl ErrInvalidCredentials)"
    using life [OF r3] tr_here by blast
  with c s2 s3 e show ?thesis by blast
qed

end
