(* ===== verification/Dhcp6Packet.thy ===== *)
theory Dhcp6Packet
  imports Netip
begin

text \<open>
  \<^verbatim>\<open>src/internal/dhcpv6/packet.go\<close>, \<^verbatim>\<open>options.go\<close>, \<^verbatim>\<open>relay.go\<close> and
  \<^verbatim>\<open>duid.go\<close>: the DHCPv6 message and its wire format. Options are a slice here, so an option may
  occur more than once. Names that DHCPv4 has too carry a 6.
\<close>

abbreviation MessageSolicit6 :: byte where "MessageSolicit6 \<equiv> CHR 0x01"
abbreviation MessageAdvertise6 :: byte where "MessageAdvertise6 \<equiv> CHR 0x02"
abbreviation MessageRequest6 :: byte where "MessageRequest6 \<equiv> CHR 0x03"
abbreviation MessageRenew6 :: byte where "MessageRenew6 \<equiv> CHR 0x05"
abbreviation MessageRebind6 :: byte where "MessageRebind6 \<equiv> CHR 0x06"
abbreviation MessageReply6 :: byte where "MessageReply6 \<equiv> CHR 0x07"
abbreviation MessageRelease6 :: byte where "MessageRelease6 \<equiv> CHR 0x08"
abbreviation MessageDecline6 :: byte where "MessageDecline6 \<equiv> CHR 0x09"
abbreviation MessageInformationRequest6 :: byte where "MessageInformationRequest6 \<equiv> CHR 0x0B"
abbreviation MessageRelayForward6 :: byte where "MessageRelayForward6 \<equiv> CHR 0x0C"
abbreviation MessageRelayReply6 :: byte where "MessageRelayReply6 \<equiv> CHR 0x0D"

abbreviation Option6ClientID :: u16 where "Option6ClientID \<equiv> 1"
abbreviation Option6ServerID :: u16 where "Option6ServerID \<equiv> 2"
abbreviation Option6IANA :: u16 where "Option6IANA \<equiv> 3"
abbreviation Option6IAAddr :: u16 where "Option6IAAddr \<equiv> 5"
abbreviation Option6RelayMessage :: u16 where "Option6RelayMessage \<equiv> 9"
abbreviation Option6StatusCode :: u16 where "Option6StatusCode \<equiv> 13"
abbreviation Option6RapidCommit :: u16 where "Option6RapidCommit \<equiv> 14"
abbreviation Option6InterfaceID :: u16 where "Option6InterfaceID \<equiv> 18"
abbreviation Option6DNSServers :: u16 where "Option6DNSServers \<equiv> 23"
abbreviation Option6DomainList :: u16 where "Option6DomainList \<equiv> 24"

section \<open>Options\<close>

record Option6 =
  o6_Code :: u16
  o6_Value :: bytes

type_synonym Options6 = "Option6 list"

function DecodeOptions6 :: "bytes \<Rightarrow> go_error + Options6" where
  "DecodeOptions6 raw =
     (if raw = [] then Inr []
      else if length raw < 4 then Inl (ErrMsg ''truncated option header'')
      else
        (let code = word_of_bytes (take 2 raw);
             l = be_nat (take 2 (drop 2 raw));
             rest = drop 4 raw
         in if length rest < l then Inl (ErrMsg ''option truncated'')
            else rbind (DecodeOptions6 (drop l rest)) (\<lambda>opts. Inr (\<lparr>o6_Code = code, o6_Value = take l rest\<rparr> # opts))))"
  by pat_completeness auto
termination
  by (relation "measure length") auto

declare DecodeOptions6.simps [simp del]

fun Options6_Encode :: "Options6 \<Rightarrow> go_error + bytes" where
  "Options6_Encode [] = Inr []"
| "Options6_Encode (item # opts) =
     (if length (o6_Value item) > 65535 then Inl (ErrMsg ''option too large'')
      else rbind (Options6_Encode opts) (\<lambda>out.
        Inr (word_bytes 2 (o6_Code item) @ be 2 (length (o6_Value item)) @ o6_Value item @ out)))"

definition opt6_Get :: "Options6 \<Rightarrow> u16 \<Rightarrow> bytes option" where
  "opt6_Get opts code = map_option o6_Value (find (\<lambda>item. o6_Code item = code) opts)"

definition opt6_Values :: "Options6 \<Rightarrow> u16 \<Rightarrow> bytes list" where
  "opt6_Values opts code = map o6_Value (filter (\<lambda>item. o6_Code item = code) opts)"

definition opt6_Add :: "u16 \<Rightarrow> bytes \<Rightarrow> Options6 \<Rightarrow> Options6" where
  "opt6_Add code val opts = opts @ [\<lparr>o6_Code = code, o6_Value = val\<rparr>]"

definition opt6_Set :: "u16 \<Rightarrow> bytes \<Rightarrow> Options6 \<Rightarrow> Options6" where
  "opt6_Set code val opts = opt6_Add code val (filter (\<lambda>item. o6_Code item \<noteq> code) opts)"

definition nil_bytes :: "bytes option \<Rightarrow> bytes" where
  "nil_bytes v = (case v of None \<Rightarrow> [] | Some b \<Rightarrow> b)"

definition opt6_ClientID :: "Options6 \<Rightarrow> bytes" where
  "opt6_ClientID opts = nil_bytes (opt6_Get opts Option6ClientID)"

definition opt6_SetClientID :: "bytes \<Rightarrow> Options6 \<Rightarrow> Options6" where
  "opt6_SetClientID duid = opt6_Set Option6ClientID duid"

definition opt6_ServerID :: "Options6 \<Rightarrow> bytes" where
  "opt6_ServerID opts = nil_bytes (opt6_Get opts Option6ServerID)"

definition opt6_SetServerID :: "bytes \<Rightarrow> Options6 \<Rightarrow> Options6" where
  "opt6_SetServerID duid = opt6_Set Option6ServerID duid"

definition HasRapidCommit6 :: "Options6 \<Rightarrow> bool" where
  "HasRapidCommit6 opts \<longleftrightarrow> opt6_Get opts Option6RapidCommit \<noteq> None"

definition opt6_SetRapidCommit :: "Options6 \<Rightarrow> Options6" where
  "opt6_SetRapidCommit = opt6_Set Option6RapidCommit []"

definition opt6_SetDNSServers :: "ip list \<Rightarrow> Options6 \<Rightarrow> Options6" where
  "opt6_SetDNSServers ips = opt6_Set Option6DNSServers (concat (map ip_To16 ips))"

definition encode_label :: "bytes \<Rightarrow> bytes" where
  "encode_label l = (if l = [] \<or> length l > 63 then [] else nat_byte (length l) # l)"

definition encodeDomainList :: "string list \<Rightarrow> bytes" where
  "encodeDomainList domains =
     concat (map (\<lambda>d. concat (map encode_label (split_on (CHR ''.'') d)) @ [CHR 0x00])
       (filter (\<lambda>d. d \<noteq> []) (map TrimSpace domains)))"

definition opt6_SetDomainList :: "string list \<Rightarrow> Options6 \<Rightarrow> Options6" where
  "opt6_SetDomainList domains = opt6_Set Option6DomainList (encodeDomainList domains)"

definition opt6_SetStatus :: "u16 \<Rightarrow> string \<Rightarrow> Options6 \<Rightarrow> Options6" where
  "opt6_SetStatus code msg = opt6_Set Option6StatusCode (word_bytes 2 code @ msg)"

section \<open>Identity associations\<close>

text \<open>An error of encoding the inner options is ignored: then there are none.\<close>

definition ok_or_nil :: "go_error + bytes \<Rightarrow> bytes" where
  "ok_or_nil r = (case r of Inl _ \<Rightarrow> [] | Inr b \<Rightarrow> b)"

record IANA =
  ia_IAID :: u32
  ia_T1 :: u32
  ia_T2 :: u32
  ia_Options :: Options6

definition IANA_Encode :: "IANA \<Rightarrow> bytes" where
  "IANA_Encode i = word_bytes 4 (ia_IAID i) @ word_bytes 4 (ia_T1 i) @ word_bytes 4 (ia_T2 i) @
     ok_or_nil (Options6_Encode (ia_Options i))"

definition DecodeIANA :: "bytes \<Rightarrow> go_error + IANA" where
  "DecodeIANA raw =
     (if length raw < 12 then Inl (ErrMsg ''iana too short'')
      else rbind (DecodeOptions6 (drop 12 raw)) (\<lambda>opts.
        Inr \<lparr>ia_IAID = word_of_bytes (take 4 raw), ia_T1 = word_of_bytes (take 4 (drop 4 raw)),
          ia_T2 = word_of_bytes (take 4 (drop 8 raw)), ia_Options = opts\<rparr>))"

record IAAddress =
  iaa_Address :: ip
  iaa_PreferredLifetime :: u32
  iaa_ValidLifetime :: u32
  iaa_Options :: Options6

text \<open>The address is copied over 16 zero bytes: nil leaves them zero.\<close>

definition IAAddress_Encode :: "IAAddress \<Rightarrow> bytes" where
  "IAAddress_Encode i =
     (let a = ip_To16 (iaa_Address i) in
      (if a = [] then replicate 16 (CHR 0x00) else a) @ word_bytes 4 (iaa_PreferredLifetime i) @
      word_bytes 4 (iaa_ValidLifetime i) @ ok_or_nil (Options6_Encode (iaa_Options i)))"

definition DecodeIAAddress :: "bytes \<Rightarrow> go_error + IAAddress" where
  "DecodeIAAddress raw =
     (if length raw < 24 then Inl (ErrMsg ''iaaddr too short'')
      else rbind (DecodeOptions6 (drop 24 raw)) (\<lambda>opts.
        Inr \<lparr>iaa_Address = take 16 raw, iaa_PreferredLifetime = word_of_bytes (take 4 (drop 16 raw)),
          iaa_ValidLifetime = word_of_bytes (take 4 (drop 20 raw)), iaa_Options = opts\<rparr>))"

definition opt6_IANAs :: "Options6 \<Rightarrow> IANA list" where
  "opt6_IANAs opts = List.map_filter (\<lambda>v. case DecodeIANA v of Inl _ \<Rightarrow> None | Inr i \<Rightarrow> Some i) (opt6_Values opts Option6IANA)"

definition opt6_AddIANA :: "IANA \<Rightarrow> Options6 \<Rightarrow> Options6" where
  "opt6_AddIANA item = opt6_Add Option6IANA (IANA_Encode item)"

section \<open>Packets\<close>

record Packet6 =
  p6_MessageType :: byte
  p6_TransactionID :: bytes
  p6_HopCount :: byte
  p6_LinkAddress :: ip
  p6_PeerAddress :: ip
  p6_Options :: Options6

definition IsRelay6 :: "Packet6 \<Rightarrow> bool" where
  "IsRelay6 p \<longleftrightarrow> p6_MessageType p = MessageRelayForward6 \<or> p6_MessageType p = MessageRelayReply6"

definition zero_xid :: bytes where
  "zero_xid = replicate 3 (CHR 0x00)"

definition DecodePacket6 :: "bytes \<Rightarrow> go_error + Packet6" where
  "DecodePacket6 raw =
     (if length raw < 4 then Inl (ErrMsg ''packet too short'')
      else if raw ! 0 = MessageRelayForward6 \<or> raw ! 0 = MessageRelayReply6 then
        (if length raw < 34 then Inl (ErrMsg ''relay packet too short'')
         else rbind (DecodeOptions6 (drop 34 raw)) (\<lambda>opts.
           Inr \<lparr>p6_MessageType = raw ! 0, p6_TransactionID = zero_xid, p6_HopCount = raw ! 1,
             p6_LinkAddress = take 16 (drop 2 raw), p6_PeerAddress = take 16 (drop 18 raw), p6_Options = opts\<rparr>))
      else rbind (DecodeOptions6 (drop 4 raw)) (\<lambda>opts.
        Inr \<lparr>p6_MessageType = raw ! 0, p6_TransactionID = take 3 (drop 1 raw), p6_HopCount = CHR 0x00,
          p6_LinkAddress = [], p6_PeerAddress = [], p6_Options = opts\<rparr>))"

definition copyIPv6 :: "ip \<Rightarrow> bytes" where
  "copyIPv6 p = (if ip_To16 p = [] then replicate 16 (CHR 0x00) else ip_To16 p)"

definition Packet6_Encode :: "Packet6 \<Rightarrow> go_error + bytes" where
  "Packet6_Encode p =
     rbind (Options6_Encode (p6_Options p)) (\<lambda>opts.
       if IsRelay6 p
       then Inr ([p6_MessageType p, p6_HopCount p] @ copyIPv6 (p6_LinkAddress p) @ copyIPv6 (p6_PeerAddress p) @ opts)
       else Inr (p6_MessageType p # p6_TransactionID p @ opts))"

text \<open>\<open>None\<close>: no relayed message. The error is that of decoding it.\<close>

definition Encapsulated6 :: "Packet6 \<Rightarrow> (go_error + Packet6) option" where
  "Encapsulated6 p = map_option DecodePacket6 (opt6_Get (p6_Options p) Option6RelayMessage)"

definition encapsulateRelayReply :: "Packet6 \<Rightarrow> Packet6 \<Rightarrow> Packet6" where
  "encapsulateRelayReply req inner =
     (let o1 = (case opt6_Get (p6_Options req) Option6InterfaceID of
                  None \<Rightarrow> [] | Some raw \<Rightarrow> opt6_Add Option6InterfaceID raw [])
      in \<lparr>p6_MessageType = MessageRelayReply6, p6_TransactionID = zero_xid, p6_HopCount = p6_HopCount req,
          p6_LinkAddress = p6_LinkAddress req, p6_PeerAddress = p6_PeerAddress req,
          p6_Options = opt6_Add Option6RelayMessage (ok_or_nil (Packet6_Encode inner)) o1\<rparr>)"

definition GenerateDUIDUUID :: "bytes \<Rightarrow> bytes" where
  "GenerateDUIDUUID uuid = be 2 4 @ uuid"

section \<open>Encoding and decoding are inverse\<close>

lemma Options6_decode_encode: "Options6_Encode opts = Inr out \<Longrightarrow> DecodeOptions6 out = Inr opts"
proof (induction opts arbitrary: out)
  case Nil
  then show ?case by (simp add: DecodeOptions6.simps)
next
  case (Cons item opts)
  then obtain out' where o: "Options6_Encode opts = Inr out'" "length (o6_Value item) < 65536"
    "out = word_bytes 2 (o6_Code item) @ be 2 (length (o6_Value item)) @ o6_Value item @ out'"
    by (auto simp: rbind_Inr_conv split: if_splits)
  have w: "word_of_bytes (word_bytes 2 c) = (c :: u16)" for c
    using unsigned_less [of c, where ?'a = nat] by (simp add: word_bytes_def word_of_bytes_def)
  have l: "length (word_bytes 2 (o6_Code item)) = 2" by (simp add: word_bytes_def)
  then have "word_bytes 2 (o6_Code item) \<noteq> []" by (metis list.size(3) zero_neq_numeral)
  then show ?case
    using l o Cons.IH [OF o(1)] w by (subst DecodeOptions6.simps) (simp add: Let_def)
qed

lemma Options6_encode_decode: "DecodeOptions6 raw = Inr opts \<Longrightarrow> Options6_Encode opts = Inr raw"
proof (induction raw arbitrary: opts rule: DecodeOptions6.induct)
  case (1 raw)
  show ?case
  proof (cases "raw = []")
    case True
    then show ?thesis using "1.prems" by (simp add: DecodeOptions6.simps)
  next
    case False
    let ?l = "be_nat (take 2 (drop 2 raw))" and ?rest = "drop 4 raw"
    have n: "4 \<le> length raw" "?l \<le> length ?rest"
      using "1.prems" False by (subst (asm) DecodeOptions6.simps, auto simp: Let_def split: if_splits)+
    then obtain os where os: "DecodeOptions6 (drop ?l ?rest) = Inr os"
      "opts = \<lparr>o6_Code = word_of_bytes (take 2 raw), o6_Value = take ?l ?rest\<rparr> # os"
      using "1.prems" False by (subst (asm) DecodeOptions6.simps) (auto simp: Let_def rbind_Inr_conv)
    have "Options6_Encode os = Inr (drop ?l ?rest)" using "1.IH" [OF False _ refl refl refl _ os(1)] n by simp
    moreover have "?l < 256 ^ 2" using be_nat_bound [of "take 2 (drop 2 raw)"] n(1) by simp
    moreover have "word_bytes 2 (word_of_bytes (take 2 raw) :: u16) = take 2 raw"
      using be_nat_bound [of "take 2 raw"] n(1) by (simp add: word_bytes_def word_of_bytes_def unat_of_nat)
    moreover have "be 2 ?l = take 2 (drop 2 raw)" using n(1) by simp
    moreover have "take 2 raw @ take 2 (drop 2 raw) @ take ?l ?rest @ drop ?l ?rest = raw"
      by (metis append_take_drop_id drop_drop numeral_Bit0 one_add_one)
    ultimately show ?thesis using os(2) n(2) by (simp add: min_absorb2)
  qed
qed

text \<open>The fields that the message's kind does not carry are empty, and the others have their lengths.\<close>

definition packet6_wf :: "Packet6 \<Rightarrow> bool" where
  "packet6_wf p \<longleftrightarrow>
     (if IsRelay6 p
      then p6_TransactionID p = zero_xid \<and> length (p6_LinkAddress p) = 16 \<and> length (p6_PeerAddress p) = 16
      else length (p6_TransactionID p) = 3 \<and> p6_HopCount p = CHR 0x00 \<and> p6_LinkAddress p = [] \<and> p6_PeerAddress p = [])"

text \<open>C28: Decoding a datagram and encoding the packet again gives exactly the datagram, and encoding a
  packet with its proper fields and decoding it gives the packet: the two are inverse to each other, also for
  relayed messages.\<close>

theorem dhcp6_packet_roundtrip:
  "(DecodePacket6 raw = Inr p \<longrightarrow> packet6_wf p \<and> Packet6_Encode p = Inr raw) \<and>
   (packet6_wf q \<and> Packet6_Encode q = Inr out \<longrightarrow> DecodePacket6 out = Inr q)"
proof (intro conjI impI)
  assume d: "DecodePacket6 raw = Inr p"
  then have n: "4 \<le> length raw" by (auto simp: DecodePacket6_def split: if_splits)
  have "packet6_wf p \<and> Packet6_Encode p = Inr raw"
  proof (cases "raw ! 0 = MessageRelayForward6 \<or> raw ! 0 = MessageRelayReply6")
    case True
    then obtain opts where o: "34 \<le> length raw" "DecodeOptions6 (drop 34 raw) = Inr opts"
      "p = \<lparr>p6_MessageType = raw ! 0, p6_TransactionID = zero_xid, p6_HopCount = raw ! 1,
         p6_LinkAddress = take 16 (drop 2 raw), p6_PeerAddress = take 16 (drop 18 raw), p6_Options = opts\<rparr>"
      using d n by (auto simp: DecodePacket6_def rbind_Inr_conv split: if_splits)
    have "raw = take 2 raw @ take 16 (drop 2 raw) @ take 16 (drop 18 raw) @ drop 34 raw"
      using append_take_drop_id [of 2 raw] append_take_drop_id [of 16 "drop 2 raw"] append_take_drop_id [of 16 "drop 18 raw"]
      by simp
    moreover have "take 2 raw = [raw ! 0, raw ! 1]"
      using o(1) by (cases raw; cases "tl raw") (auto simp: numeral_2_eq_2)
    ultimately have "raw ! 0 # raw ! 1 # take 16 (drop 2 raw) @ take 16 (drop 18 raw) @ drop 34 raw = raw" by simp
    then show ?thesis
      using o True Options6_encode_decode [OF o(2)]
      by (auto simp: packet6_wf_def IsRelay6_def Packet6_Encode_def copyIPv6_def ip_To16_def min_absorb2)
  next
    case False
    then obtain opts where o: "DecodeOptions6 (drop 4 raw) = Inr opts"
      "p = \<lparr>p6_MessageType = raw ! 0, p6_TransactionID = take 3 (drop 1 raw), p6_HopCount = CHR 0x00,
         p6_LinkAddress = [], p6_PeerAddress = [], p6_Options = opts\<rparr>"
      using d n by (auto simp: DecodePacket6_def rbind_Inr_conv split: if_splits)
    have "raw ! 0 # take 3 (drop 1 raw) @ drop 4 raw = raw"
      using n append_take_drop_id [of 3 "drop 1 raw"] by (cases raw) auto
    then show ?thesis
      using o False n Options6_encode_decode [OF o(1)]
      by (auto simp: packet6_wf_def IsRelay6_def Packet6_Encode_def min_absorb2)
  qed
  then show "packet6_wf p" "Packet6_Encode p = Inr raw" by auto
next
  assume q: "packet6_wf q \<and> Packet6_Encode q = Inr out"
  then obtain opts where o: "Options6_Encode (p6_Options q) = Inr opts" by (auto simp: Packet6_Encode_def rbind_Inr_conv)
  note dec = Options6_decode_encode [OF o]
  show "DecodePacket6 out = Inr q"
  proof (cases "IsRelay6 q")
    case True
    then have "out = [p6_MessageType q, p6_HopCount q] @ p6_LinkAddress q @ p6_PeerAddress q @ opts"
      "length (p6_LinkAddress q) = 16" "length (p6_PeerAddress q) = 16" "p6_TransactionID q = zero_xid"
      using q o by (auto simp: Packet6_Encode_def packet6_wf_def copyIPv6_def ip_To16_def split: if_splits)
    then show ?thesis using True dec by (simp add: DecodePacket6_def IsRelay6_def)
  next
    case False
    then have "out = p6_MessageType q # p6_TransactionID q @ opts"
      "length (p6_TransactionID q) = 3" "p6_HopCount q = CHR 0x00" "p6_LinkAddress q = []" "p6_PeerAddress q = []"
      using q o by (auto simp: Packet6_Encode_def packet6_wf_def)
    then show ?thesis using False dec by (simp add: DecodePacket6_def IsRelay6_def)
  qed
qed

definition demo6_bytes :: bytes where
  "demo6_bytes = [CHR 0x01, CHR 0x0A, CHR 0x0B, CHR 0x0C, CHR 0x00, CHR 0x01, CHR 0x00, CHR 0x02, CHR 0x41, CHR 0x42]"

definition demo6_packet :: Packet6 where
  "demo6_packet = \<lparr>p6_MessageType = MessageSolicit6, p6_TransactionID = [CHR 0x0A, CHR 0x0B, CHR 0x0C],
     p6_HopCount = CHR 0x00, p6_LinkAddress = [], p6_PeerAddress = [],
     p6_Options = [\<lparr>o6_Code = Option6ClientID, o6_Value = [CHR 0x41, CHR 0x42]\<rparr>]\<rparr>"

theorem dhcp6_packet_roundtrip_witness:
  "Packet6_Encode demo6_packet = Inr demo6_bytes \<and> DecodePacket6 demo6_bytes = Inr demo6_packet"
proof -
  have be2: "be 2 n = [nat_byte (n div 256), nat_byte n]" for n
    using arg_cong [of 2 "Suc (Suc 0)" "\<lambda>k. be k n"] by simp
  have c: "char_of (0 :: nat) = CHR 0x00" "char_of (1 :: nat) = CHR 0x01" "char_of (2 :: nat) = CHR 0x02" by code_simp+
  have w: "word_bytes 2 (1 :: u16) = [CHR 0x00, CHR 0x01]" "be 2 (Suc (Suc 0)) = [CHR 0x00, CHR 0x02]"
    using c by (simp_all add: word_bytes_def be2 nat_byte_def flip: numeral_2_eq_2)
  have "Options6_Encode (p6_Options demo6_packet) = Inr (drop 4 demo6_bytes)"
    by (simp add: demo6_packet_def demo6_bytes_def w)
  then have o: "DecodeOptions6 (drop 4 demo6_bytes) = Inr (p6_Options demo6_packet)" by (rule Options6_decode_encode)
  have l: "length demo6_bytes = 10" "demo6_bytes ! 0 = MessageSolicit6"
    "take 3 (drop 1 demo6_bytes) = [CHR 0x0A, CHR 0x0B, CHR 0x0C]" by (simp_all add: demo6_bytes_def)
  have d: "DecodePacket6 demo6_bytes = Inr demo6_packet"
    unfolding DecodePacket6_def o l by (simp add: demo6_packet_def)
  note t = dhcp6_packet_roundtrip [of demo6_bytes demo6_packet demo6_packet demo6_bytes]
  have e: "packet6_wf demo6_packet \<and> Packet6_Encode demo6_packet = Inr demo6_bytes"
    using conjunct1 [OF t] d by (rule mp)
  then have "DecodePacket6 demo6_bytes = Inr demo6_packet" by (rule mp [OF conjunct2 [OF t]])
  then show ?thesis by (rule conjI [OF conjunct2 [OF e]])
qed

end
