(* ===== verification/Dhcp6.thy ===== *)
theory Dhcp6
  imports Dhcp6Packet Dhcp4Pool
begin

text \<open>
  \<^verbatim>\<open>src/internal/dhcpv6/pool.go\<close>, \<^verbatim>\<open>handler.go\<close> and \<^verbatim>\<open>numeric.go\<close>: the
  address pools and the message handlers on the interface of the lease store. A handler returns the new state
  and a reply (\<open>None\<close>: no reply) or an error; events are listed in the order in which they are reported.
\<close>

section \<open>Pools\<close>

record AllocationRequest6 =
  ar6_ClientDUID :: bytes
  ar6_IAID :: u32
  ar6_RequestedIP :: ip
  ar6_RelayAddr :: ip

record managedPool =
  mp_id :: string
  mp_prefix :: prefix
  mp_start :: addr
  mp_end :: addr
  mp_gateway :: ip
  mp_dns :: "ip list"
  mp_leaseDur :: duration

record AllocationResult6 =
  al6_IP :: ip
  al6_Prefix :: "prefix option"
  al6_Gateway :: ip
  al6_DNS :: "ip list"
  al6_LeaseDuration :: duration
  al6_SubnetID :: string
  al6_IAID :: u32
  al6_PreferredLifetime :: u32
  al6_ValidLifetime :: u32

record PoolManager6 =
  pm6_pools :: "managedPool list"
  pm6_defaultLease :: duration

definition durationToUint32Seconds6 :: "duration \<Rightarrow> u32" where
  "durationToUint32Seconds6 v =
     (if v \<le> 0 then 0
      else
        (let seconds = go_div v second_ns in
         if seconds \<le> 0 then 1
         else if seconds > 4294967295 then - 1
         else of_int seconds))"

text \<open>A subnet that is not IPv6 or has DHCP off is skipped (\<open>None\<close>).\<close>

definition managed_pool :: "duration \<Rightarrow> subnet_config \<Rightarrow> go_error + managedPool option" where
  "managed_pool defaultLease subnet =
     (case ParsePrefix (TrimSpace (sc_CIDR subnet)) of
        None \<Rightarrow> Inr None
      | Some p \<Rightarrow>
          if addr_Is4 (pfx_addr p) \<or> \<not> sc_DHCPEnabled subnet then Inr None
          else
            (case (ParseAddr (TrimSpace (sc_PoolStart subnet)), ParseAddr (TrimSpace (sc_PoolEnd subnet))) of
               (None, _) \<Rightarrow> Inl (ErrMsg ''invalid dhcpv6 pool_start'')
             | (Some start, e) \<Rightarrow>
                 if \<not> pfx_Contains p start then Inl (ErrMsg ''invalid dhcpv6 pool_start'')
                 else
                   (case e of
                      None \<Rightarrow> Inl (ErrMsg ''invalid dhcpv6 pool_end'')
                    | Some endv \<Rightarrow>
                        if \<not> pfx_Contains p endv \<or> addr_Compare start endv > 0 then Inl (ErrMsg ''invalid dhcpv6 pool_end'')
                        else Inr (Some \<lparr>mp_id = pfx_String p, mp_prefix = p, mp_start = start, mp_end = endv,
                          mp_gateway = ip_To16 (net_ParseIP (TrimSpace (sc_Gateway subnet))),
                          mp_dns = filter (\<lambda>d. d \<noteq> []) (map (\<lambda>d. ip_To16 (net_ParseIP (TrimSpace d))) (sc_DNS subnet)),
                          mp_leaseDur = (if sc_LeaseTime subnet \<le> 0 then defaultLease else sc_LeaseTime subnet)\<rparr>))))"

fun managed_pools :: "duration \<Rightarrow> subnet_config list \<Rightarrow> go_error + managedPool list" where
  "managed_pools d [] = Inr []"
| "managed_pools d (c # cs) =
     rbind (managed_pool d c) (\<lambda>p.
     rbind (managed_pools d cs) (\<lambda>ps. Inr (case p of None \<Rightarrow> ps | Some x \<Rightarrow> x # ps)))"

definition NewPoolManager6 :: "subnet_config list \<Rightarrow> duration \<Rightarrow> go_error + PoolManager6" where
  "NewPoolManager6 subnets defaultLease0 =
     (let defaultLease = (if defaultLease0 \<le> 0 then 12 * hour_ns else defaultLease0) in
      rbind (managed_pools defaultLease subnets) (\<lambda>ps.
        if ps = [] then Inl (ErrMsg ''no dhcpv6 pools configured'')
        else Inr \<lparr>pm6_pools = ps, pm6_defaultLease = defaultLease\<rparr>))"

definition AddrFromSlice :: "ip \<Rightarrow> addr option" where
  "AddrFromSlice p =
     (if length p = 4 then Some (A4 (word_of_bytes p)) else if length p = 16 then Some (A6 (word_of_bytes p) []) else None)"

definition AsSlice :: "addr \<Rightarrow> ip" where
  "AsSlice a = (case a of A4 w \<Rightarrow> word_bytes 4 w | A6 w _ \<Rightarrow> word_bytes 16 w)"

definition pool_holding :: "ip \<Rightarrow> managedPool list \<Rightarrow> managedPool option" where
  "pool_holding p pools =
     (case AddrFromSlice (ip_To16 p) of None \<Rightarrow> None | Some a \<Rightarrow> find (\<lambda>pool. pfx_Contains (mp_prefix pool) a) pools)"

text \<open>There is always a pool (\<^verbatim>\<open>NewPoolManager\<close>), so the index 0 is in range.\<close>

definition selectPool :: "PoolManager6 \<Rightarrow> AllocationRequest6 \<Rightarrow> managedPool" where
  "selectPool m req =
     (case pool_holding (ar6_RequestedIP req) (pm6_pools m) of
        Some pool \<Rightarrow> pool
      | None \<Rightarrow>
          (case pool_holding (ar6_RelayAddr req) (pm6_pools m) of Some pool \<Rightarrow> pool | None \<Rightarrow> hd (pm6_pools m)))"

definition availableForClient :: "'s lease_ops \<Rightarrow> 's \<Rightarrow> bytes \<Rightarrow> string \<Rightarrow> bool" where
  "availableForClient ops s clientID key =
     (case op_GetByIP ops s key of
        Inl _ \<Rightarrow> True
      | Inr item \<Rightarrow>
          (clientID \<noteq> [] \<and> l_ClientID item = clientID) \<or> l_State item \<in> {StateReleased, StateExpired, StateFree})"

definition addr_room :: "addr \<Rightarrow> nat" where
  "addr_room a = (case a of A4 w \<Rightarrow> unat (- 1 - w) | A6 w _ \<Rightarrow> unat (- 1 - w))"

lemma room_shrinks: "w \<noteq> - 1 \<Longrightarrow> unat (- 2 - w) < unat (- 1 - (w :: 'a::len word))"
proof -
  assume "w \<noteq> - 1"
  then have "- 1 - w \<noteq> 0" by (metis eq_iff_diff_eq_0)
  then have "unat (- 1 - w - 1) < unat (- 1 - w)" by (rule measure_unat)
  moreover have "- 1 - w - 1 = - 2 - w" by simp
  ultimately show ?thesis by metis
qed

text \<open>
  The first address from \<open>cur\<close> to the end that is available. The zero \<^verbatim>\<open>Addr\<close> compares below every
  end, so the code tries it too, under its name in the store: the result \<open>Some None\<close>, the allocation of nil.
  (If a lease had that name, the code would go on through the addresses of no family; the model stops.)
\<close>

function scan_pool :: "(string \<Rightarrow> bool) \<Rightarrow> addr \<Rightarrow> addr \<Rightarrow> addr option option" where
  "scan_pool avail cur endv =
     (if addr_Compare cur endv > 0 then None
      else if avail (addr_String cur) then Some (Some cur)
      else (case addr_Next cur of
              None \<Rightarrow> if avail ''invalid IP'' then Some None else None
            | Some nxt \<Rightarrow> scan_pool avail nxt endv))"
  by pat_completeness auto
termination
  by (relation "measure (\<lambda>(avail, cur, endv). addr_room cur)")
    (auto simp: addr_Next_def addr_room_def room_shrinks split: addr.splits if_splits)

declare scan_pool.simps [simp del]

definition resultFor :: "PoolManager6 \<Rightarrow> managedPool \<Rightarrow> ip \<Rightarrow> u32 \<Rightarrow> AllocationResult6" where
  "resultFor m pool p iaid =
     (let s1 = durationToUint32Seconds6 (mp_leaseDur pool);
          s2 = (if s1 = 0 then durationToUint32Seconds6 (pm6_defaultLease m) else s1);
          s3 = (if s2 = 0 then durationToUint32Seconds6 (12 * hour_ns) else s2);
          preferred = (if s3 div 2 = 0 then s3 else s3 div 2)
      in \<lparr>al6_IP = p, al6_Prefix = Some (mp_prefix pool), al6_Gateway = mp_gateway pool, al6_DNS = mp_dns pool,
          al6_LeaseDuration = mp_leaseDur pool, al6_SubnetID = mp_id pool, al6_IAID = iaid,
          al6_PreferredLifetime = preferred, al6_ValidLifetime = s3\<rparr>)"

text \<open>The first of the client's leases whose address lies in the prefix.\<close>

fun existing6 :: "prefix \<Rightarrow> Lease list \<Rightarrow> addr option" where
  "existing6 p [] = None"
| "existing6 p (item # items) =
     (case ParseAddr (TrimSpace (l_IP item)) of
        Some a \<Rightarrow> if pfx_Contains p a then Some a else existing6 p items
      | None \<Rightarrow> existing6 p items)"

definition client_existing6 :: "'s lease_ops \<Rightarrow> prefix \<Rightarrow> 's \<Rightarrow> bytes \<Rightarrow> addr option" where
  "client_existing6 ops p s cid =
     (if cid = [] then None
      else (case op_GetByClientID ops s cid of Inl _ \<Rightarrow> None | Inr items \<Rightarrow> existing6 p items))"

definition usable_request6 :: "(string \<Rightarrow> bool) \<Rightarrow> prefix \<Rightarrow> ip \<Rightarrow> addr option" where
  "usable_request6 avail p requested =
     (case AddrFromSlice (ip_To16 requested) of
        None \<Rightarrow> None
      | Some a \<Rightarrow> if pfx_Contains p a \<and> avail (addr_String a) then Some a else None)"

definition chosen6 :: "'s lease_ops \<Rightarrow> PoolManager6 \<Rightarrow> AllocationRequest6 \<Rightarrow> 's \<Rightarrow> addr option option" where
  "chosen6 ops m req s =
     (let pool = selectPool m req;
          avail = availableForClient ops s (ar6_ClientDUID req)
      in case client_existing6 ops (mp_prefix pool) s (ar6_ClientDUID req) of
           Some a \<Rightarrow> Some (Some a)
         | None \<Rightarrow>
             (case usable_request6 avail (mp_prefix pool) (ar6_RequestedIP req) of
                Some a \<Rightarrow> Some (Some a)
              | None \<Rightarrow> scan_pool avail (mp_start pool) (mp_end pool)))"

definition Allocate6 :: "'s lease_ops \<Rightarrow> PoolManager6 \<Rightarrow> AllocationRequest6 \<Rightarrow> 's \<Rightarrow> go_error + AllocationResult6" where
  "Allocate6 ops m req s =
     (case chosen6 ops m req s of
        None \<Rightarrow> Inl (ErrMsg (''no dhcpv6 addresses available in '' @ pfx_String (mp_prefix (selectPool m req))))
      | Some c \<Rightarrow> Inr (resultFor m (selectPool m req) (case c of None \<Rightarrow> [] | Some a \<Rightarrow> AsSlice a) (ar6_IAID req)))"

section \<open>Handlers\<close>

record Handler6 =
  h6_pools :: PoolManager6
  h6_serverDUID :: bytes
  h6_defaultLease :: duration
  h6_maxLease :: duration
  h6_domainList :: "string list"
  h6_hasEvents :: bool

definition NewHandler6 :: "PoolManager6 \<Rightarrow> bytes \<Rightarrow> duration \<Rightarrow> duration \<Rightarrow> Handler6" where
  "NewHandler6 pools duid defaultLease maxLease = \<lparr>h6_pools = pools, h6_serverDUID = duid,
     h6_defaultLease = (if defaultLease \<le> 0 then 12 * hour_ns else defaultLease),
     h6_maxLease = (if maxLease \<le> 0 then 24 * hour_ns else maxLease), h6_domainList = [], h6_hasEvents = False\<rparr>"

definition SetDomainList6 :: "string list \<Rightarrow> Handler6 \<Rightarrow> Handler6" where
  "SetDomainList6 domains h = h\<lparr>h6_domainList := domains\<rparr>"

definition SetOnLeaseEvent6 :: "Handler6 \<Rightarrow> Handler6" where
  "SetOnLeaseEvent6 h = h\<lparr>h6_hasEvents := True\<rparr>"

record 's h6_state =
  h6_store :: 's
  h6_events :: "(string \<times> Lease) list"

definition emit6 :: "Handler6 \<Rightarrow> string \<Rightarrow> Lease \<Rightarrow> 's h6_state \<Rightarrow> 's h6_state" where
  "emit6 h name l st = (if h6_hasEvents h then st\<lparr>h6_events := h6_events st @ [(name, l)]\<rparr> else st)"

type_synonym 's reply6 = "'s h6_state \<times> (go_error + Packet6 option)"

definition baseResponse6 :: "Packet6 \<Rightarrow> byte \<Rightarrow> Packet6" where
  "baseResponse6 req msgType = \<lparr>p6_MessageType = msgType, p6_TransactionID = p6_TransactionID req,
     p6_HopCount = CHR 0x00, p6_LinkAddress = [], p6_PeerAddress = [], p6_Options = []\<rparr>"

definition with_options :: "Packet6 \<Rightarrow> Options6 \<Rightarrow> Packet6" where
  "with_options p opts = p\<lparr>p6_Options := opts\<rparr>"

definition firstIANA :: "IANA list \<Rightarrow> IANA" where
  "firstIANA items = (case items of [] \<Rightarrow> \<lparr>ia_IAID = 0, ia_T1 = 0, ia_T2 = 0, ia_Options = []\<rparr> | i # _ \<Rightarrow> i)"

fun first_iaaddr :: "Options6 \<Rightarrow> ip" where
  "first_iaaddr [] = []"
| "first_iaaddr (item # items) =
     (if o6_Code item \<noteq> Option6IAAddr then first_iaaddr items
      else (case DecodeIAAddress (o6_Value item) of Inl _ \<Rightarrow> first_iaaddr items | Inr a \<Rightarrow> iaa_Address a))"

definition requestedIAAddr :: "IANA \<Rightarrow> ip" where
  "requestedIAAddr i = first_iaaddr (ia_Options i)"

definition errorReply6 :: "Handler6 \<Rightarrow> Packet6 \<Rightarrow> u16 \<Rightarrow> string \<Rightarrow> Packet6" where
  "errorReply6 h req status msg =
     (let cid = opt6_ClientID (p6_Options req);
          o1 = (if cid = [] then [] else opt6_SetClientID cid [])
      in with_options (baseResponse6 req MessageReply6) (opt6_SetStatus status msg (opt6_SetServerID (h6_serverDUID h) o1)))"

definition statusReply6 :: "Handler6 \<Rightarrow> Packet6 \<Rightarrow> string \<Rightarrow> Packet6" where
  "statusReply6 h req msg = with_options (baseResponse6 req MessageReply6)
     (opt6_SetStatus 0 msg (opt6_SetServerID (h6_serverDUID h) (opt6_SetClientID (opt6_ClientID (p6_Options req)) [])))"

definition serverID_mismatch :: "Handler6 \<Rightarrow> Packet6 \<Rightarrow> bool" where
  "serverID_mismatch h req \<longleftrightarrow>
     (let sid = opt6_ServerID (p6_Options req) in sid \<noteq> [] \<and> sid \<noteq> h6_serverDUID h)"

definition domain_option :: "Handler6 \<Rightarrow> Options6 \<Rightarrow> Options6" where
  "domain_option h opts = (if h6_domainList h = [] then opts else opt6_SetDomainList (h6_domainList h) opts)"

definition replyOptions6 :: "Handler6 \<Rightarrow> Packet6 \<Rightarrow> AllocationResult6 \<Rightarrow> bool \<Rightarrow> Options6" where
  "replyOptions6 h req alloc includeRapid =
     (let o1 = opt6_SetServerID (h6_serverDUID h) (opt6_SetClientID (opt6_ClientID (p6_Options req)) []);
          o2 = (if includeRapid \<and> HasRapidCommit6 (p6_Options req) then opt6_SetRapidCommit o1 else o1);
          a = \<lparr>iaa_Address = al6_IP alloc, iaa_PreferredLifetime = al6_PreferredLifetime alloc,
               iaa_ValidLifetime = al6_ValidLifetime alloc, iaa_Options = []\<rparr>;
          o3 = opt6_AddIANA \<lparr>ia_IAID = al6_IAID alloc, ia_T1 = al6_PreferredLifetime alloc,
                 ia_T2 = al6_ValidLifetime alloc - al6_ValidLifetime alloc div 8,
                 ia_Options = [\<lparr>o6_Code = Option6IAAddr, o6_Value = IAAddress_Encode a\<rparr>]\<rparr> o2;
          o4 = (if al6_DNS alloc = [] then o3 else opt6_SetDNSServers (al6_DNS alloc) o3)
      in domain_option h o4)"

definition buildLeaseRecord6 :: "time \<Rightarrow> Packet6 \<Rightarrow> AllocationResult6 \<Rightarrow> ip \<Rightarrow> LeaseState \<Rightarrow> Lease" where
  "buildLeaseRecord6 now req alloc relayAddr st =
     zero_lease\<lparr>l_IP := ip_String (al6_IP alloc), l_ClientID := opt6_ClientID (p6_Options req), l_State := st,
       l_StartTime := now, l_Duration := al6_LeaseDuration alloc, l_ExpiryTime := now + al6_LeaseDuration alloc,
       l_SubnetID := al6_SubnetID alloc, l_RelayAddr := ip_String relayAddr, l_LastSeen := now\<rparr>"

definition alloc_request6 :: "Packet6 \<Rightarrow> ip \<Rightarrow> AllocationRequest6" where
  "alloc_request6 req relayAddr =
     (let iana = firstIANA (opt6_IANAs (p6_Options req)) in
      \<lparr>ar6_ClientDUID = opt6_ClientID (p6_Options req), ar6_IAID = ia_IAID iana,
       ar6_RequestedIP = requestedIAAddr iana, ar6_RelayAddr = relayAddr\<rparr>)"

text \<open>Storing a lease, with an event and a reply when it succeeds.\<close>

definition store_reply ::
  "'s lease_ops \<Rightarrow> Handler6 \<Rightarrow> time \<Rightarrow> Lease \<Rightarrow> string option \<Rightarrow> Packet6 \<Rightarrow> 's h6_state \<Rightarrow> 's reply6" where
  "store_reply ops h now l event resp st =
     (case op_Upsert ops now l (h6_store st) of
        (s', Some err) \<Rightarrow> (st\<lparr>h6_store := s'\<rparr>, Inl err)
      | (s', None) \<Rightarrow>
          (let st1 = st\<lparr>h6_store := s'\<rparr>
           in (case event of None \<Rightarrow> st1 | Some name \<Rightarrow> emit6 h name l st1, Inr (Some resp))))"

definition handleSolicit ::
  "'s lease_ops \<Rightarrow> Handler6 \<Rightarrow> time \<Rightarrow> Packet6 \<Rightarrow> ip \<Rightarrow> 's h6_state \<Rightarrow> 's reply6" where
  "handleSolicit ops h now req relayAddr st =
     (if opt6_ClientID (p6_Options req) = [] then (st, Inl (ErrMsg ''missing client identifier''))
      else case Allocate6 ops (h6_pools h) (alloc_request6 req relayAddr) (h6_store st) of
        Inl err \<Rightarrow> (st, Inl err)
      | Inr alloc \<Rightarrow>
          (let rapid = HasRapidCommit6 (p6_Options req);
               record = buildLeaseRecord6 now req alloc relayAddr (if rapid then StateBound else StateOffered);
               msgType = (if rapid then MessageReply6 else MessageAdvertise6)
           in store_reply ops h now record (if rapid then Some ''lease.created'' else None)
                (with_options (baseResponse6 req msgType) (replyOptions6 h req alloc True)) st))"

definition handleRequest6 ::
  "'s lease_ops \<Rightarrow> Handler6 \<Rightarrow> time \<Rightarrow> Packet6 \<Rightarrow> ip \<Rightarrow> 's h6_state \<Rightarrow> 's reply6" where
  "handleRequest6 ops h now req relayAddr st =
     (if serverID_mismatch h req then (st, Inr (Some (errorReply6 h req 1 ''server identifier mismatch'')))
      else if opt6_ClientID (p6_Options req) = [] then (st, Inr (Some (errorReply6 h req 1 ''missing client identifier'')))
      else case Allocate6 ops (h6_pools h) (alloc_request6 req relayAddr) (h6_store st) of
        Inl err \<Rightarrow> (st, Inr (Some (errorReply6 h req 2 (case err of ErrMsg m \<Rightarrow> m | _ \<Rightarrow> []))))
      | Inr alloc \<Rightarrow>
          (let renewed = (case op_GetByIP ops (h6_store st) (ip_String (al6_IP alloc)) of
                            Inl _ \<Rightarrow> False | Inr old \<Rightarrow> l_ClientID old \<noteq> [])
           in store_reply ops h now (buildLeaseRecord6 now req alloc relayAddr StateBound)
                (Some (if renewed then ''lease.renewed'' else ''lease.created''))
                (with_options (baseResponse6 req MessageReply6) (replyOptions6 h req alloc False)) st))"

text \<open>The first lease that the store lists for the client.\<close>

definition client_lease :: "'s lease_ops \<Rightarrow> 's \<Rightarrow> bytes \<Rightarrow> Lease option" where
  "client_lease ops s cid =
     (case op_GetByClientID ops s cid of Inl _ \<Rightarrow> None | Inr [] \<Rightarrow> None | Inr (l # _) \<Rightarrow> Some l)"

definition handleRenew ::
  "'s lease_ops \<Rightarrow> Handler6 \<Rightarrow> time \<Rightarrow> Packet6 \<Rightarrow> ip \<Rightarrow> 's h6_state \<Rightarrow> 's reply6" where
  "handleRenew ops h now req relayAddr st =
     (let cid = opt6_ClientID (p6_Options req) in
      if serverID_mismatch h req then (st, Inr (Some (errorReply6 h req 3 ''server identifier mismatch'')))
      else if cid = [] then (st, Inr (Some (errorReply6 h req 3 ''missing client identifier'')))
      else case client_lease ops (h6_store st) cid of
        None \<Rightarrow> (st, Inr (Some (errorReply6 h req 3 ''lease not found'')))
      | Some l0 \<Rightarrow>
          (let item = l0\<lparr>l_State := StateRenewing, l_LastSeen := now, l_ExpiryTime := now + l_Duration l0,
                 l_UpdatedAt := now, l_RelayAddr := ip_String relayAddr\<rparr>;
               leaseSec = durationToUint32Seconds6 (l_Duration item);
               alloc = \<lparr>al6_IP = net_ParseIP (l_IP item), al6_Prefix = None, al6_Gateway = [], al6_DNS = [],
                 al6_LeaseDuration = l_Duration item, al6_SubnetID = l_SubnetID item,
                 al6_IAID = ia_IAID (firstIANA (opt6_IANAs (p6_Options req))),
                 al6_PreferredLifetime = leaseSec div 2, al6_ValidLifetime = leaseSec\<rparr>
           in store_reply ops h now item (Some ''lease.renewed'')
                (with_options (baseResponse6 req MessageReply6) (replyOptions6 h req alloc False)) st))"

text \<open>Release and decline: the client's first lease gets a new state, and the reply a status.\<close>

definition set_client_lease ::
  "'s lease_ops \<Rightarrow> Handler6 \<Rightarrow> time \<Rightarrow> Packet6 \<Rightarrow> (Lease \<Rightarrow> Lease) \<Rightarrow> string \<Rightarrow> string \<Rightarrow> 's h6_state \<Rightarrow> 's reply6" where
  "set_client_lease ops h now req change event msg st =
     (let cid = opt6_ClientID (p6_Options req) in
      if cid = [] then (st, Inr (Some (errorReply6 h req 3 ''missing client identifier'')))
      else case client_lease ops (h6_store st) cid of
        None \<Rightarrow> (st, Inr (Some (errorReply6 h req 3 ''lease not found'')))
      | Some l0 \<Rightarrow> store_reply ops h now (change l0) (Some event) (statusReply6 h req msg) st)"

definition released6 :: "time \<Rightarrow> ip \<Rightarrow> Lease \<Rightarrow> Lease" where
  "released6 now relayAddr l = l\<lparr>l_State := StateReleased, l_ExpiryTime := now, l_UpdatedAt := now, l_LastSeen := now,
     l_RelayAddr := ip_String relayAddr\<rparr>"

definition declined6 :: "time \<Rightarrow> ip \<Rightarrow> Lease \<Rightarrow> Lease" where
  "declined6 now relayAddr l = l\<lparr>l_State := StateDeclined, l_QuarantineUntil := now + 15 * minute_ns,
     l_UpdatedAt := now, l_LastSeen := now, l_RelayAddr := ip_String relayAddr\<rparr>"

definition handleRelease6 ::
  "'s lease_ops \<Rightarrow> Handler6 \<Rightarrow> time \<Rightarrow> Packet6 \<Rightarrow> ip \<Rightarrow> 's h6_state \<Rightarrow> 's reply6" where
  "handleRelease6 ops h now req relayAddr st =
     set_client_lease ops h now req (released6 now relayAddr) ''lease.released'' ''released'' st"

definition handleDecline6 ::
  "'s lease_ops \<Rightarrow> Handler6 \<Rightarrow> time \<Rightarrow> Packet6 \<Rightarrow> ip \<Rightarrow> 's h6_state \<Rightarrow> 's reply6" where
  "handleDecline6 ops h now req relayAddr st =
     set_client_lease ops h now req (declined6 now relayAddr) ''lease.conflict'' ''declined'' st"

definition handleInformationRequest :: "Handler6 \<Rightarrow> Packet6 \<Rightarrow> Packet6" where
  "handleInformationRequest h req =
     (let cid = opt6_ClientID (p6_Options req);
          o1 = (if cid = [] then [] else opt6_SetClientID cid [])
      in with_options (baseResponse6 req MessageReply6) (domain_option h (opt6_SetServerID (h6_serverDUID h) o1)))"

definition handle_direct ::
  "'s lease_ops \<Rightarrow> Handler6 \<Rightarrow> time \<Rightarrow> Packet6 \<Rightarrow> ip \<Rightarrow> 's h6_state \<Rightarrow> 's reply6" where
  "handle_direct ops h now req relayAddr st =
     (let t = p6_MessageType req in
      if t = MessageSolicit6 then handleSolicit ops h now req relayAddr st
      else if t = MessageRequest6 then handleRequest6 ops h now req relayAddr st
      else if t = MessageRenew6 \<or> t = MessageRebind6 then handleRenew ops h now req relayAddr st
      else if t = MessageRelease6 then handleRelease6 ops h now req relayAddr st
      else if t = MessageDecline6 then handleDecline6 ops h now req relayAddr st
      else if t = MessageInformationRequest6 then (st, Inr (Some (handleInformationRequest h req)))
      else (st, Inr None))"

definition handleRelay ::
  "'s lease_ops \<Rightarrow> Handler6 \<Rightarrow> time \<Rightarrow> Packet6 \<Rightarrow> 's h6_state \<Rightarrow> 's reply6" where
  "handleRelay ops h now req st =
     (case Encapsulated6 req of
        Some (Inl err) \<Rightarrow> (st, Inl err)
      | None \<Rightarrow> (st, Inl (ErrMsg ''relay-forward missing relay-message option''))
      | Some (Inr inner) \<Rightarrow>
          (case handle_direct ops h now inner (p6_LinkAddress req) st of
             (st', Inr (Some resp)) \<Rightarrow> (st', Inr (Some (encapsulateRelayReply req resp)))
           | r \<Rightarrow> r))"

definition Handle6 :: "'s lease_ops \<Rightarrow> Handler6 \<Rightarrow> time \<Rightarrow> Packet6 \<Rightarrow> 's h6_state \<Rightarrow> 's reply6" where
  "Handle6 ops h now req st =
     (if IsRelay6 req then handleRelay ops h now req st else handle_direct ops h now req [] st)"

text \<open>One datagram of the server's loop: what it sends back to the sender.\<close>

definition serve6 :: "'s lease_ops \<Rightarrow> Handler6 \<Rightarrow> time \<Rightarrow> bytes \<Rightarrow> 's h6_state \<Rightarrow> 's h6_state \<times> bytes option" where
  "serve6 ops h now raw st =
     (case DecodePacket6 raw of
        Inl err \<Rightarrow> (st, None)
      | Inr req \<Rightarrow>
          (case Handle6 ops h now req st of
             (st', Inr (Some resp)) \<Rightarrow>
               (case Packet6_Encode resp of Inl err \<Rightarrow> (st', None) | Inr out \<Rightarrow> (st', Some out))
           | (st', _) \<Rightarrow> (st', None)))"

end
