(* ===== verification/Dhcp6Props.thy ===== *)
theory Dhcp6Props
  imports Dhcp6 Dhcp4Demo
begin

text \<open>
  The DHCPv6 handlers on a lease store: every handler writes at most one lease, never one over the active
  lease of another client; and what becomes of a declined address.
\<close>

section \<open>The lease a message writes\<close>

definition written_direct :: "'s lease_ops \<Rightarrow> Handler6 \<Rightarrow> time \<Rightarrow> Packet6 \<Rightarrow> ip \<Rightarrow> 's \<Rightarrow> Lease option" where
  "written_direct ops h now req relayAddr s =
     (let t = p6_MessageType req; cid = opt6_ClientID (p6_Options req);
          alloc = Allocate6 ops (h6_pools h) (alloc_request6 req relayAddr) s;
          build = (\<lambda>st. case alloc of Inl _ \<Rightarrow> None | Inr a \<Rightarrow> Some (buildLeaseRecord6 now req a relayAddr st));
          change = (\<lambda>f. map_option f (client_lease ops s cid))
      in if cid = [] then None
         else if t = MessageSolicit6 then build (if HasRapidCommit6 (p6_Options req) then StateBound else StateOffered)
         else if t = MessageRequest6 then (if serverID_mismatch h req then None else build StateBound)
         else if t = MessageRenew6 \<or> t = MessageRebind6 then
           (if serverID_mismatch h req then None
            else change (\<lambda>l. l\<lparr>l_State := StateRenewing, l_LastSeen := now, l_ExpiryTime := now + l_Duration l,
                   l_UpdatedAt := now, l_RelayAddr := ip_String relayAddr\<rparr>))
         else if t = MessageRelease6 then change (released6 now relayAddr)
         else if t = MessageDecline6 then change (declined6 now relayAddr)
         else None)"

text \<open>The message the handlers see: the datagram's own, or the relayed one with the relay's link address.\<close>

definition inner6 :: "Packet6 \<Rightarrow> (Packet6 \<times> ip) option" where
  "inner6 req =
     (if IsRelay6 req
      then (case Encapsulated6 req of Some (Inr inner) \<Rightarrow> Some (inner, p6_LinkAddress req) | _ \<Rightarrow> None)
      else Some (req, []))"

definition written6 :: "'s lease_ops \<Rightarrow> Handler6 \<Rightarrow> time \<Rightarrow> Packet6 \<Rightarrow> 's \<Rightarrow> Lease option" where
  "written6 ops h now req s =
     (case inner6 req of None \<Rightarrow> None | Some (inner, relayAddr) \<Rightarrow> written_direct ops h now inner relayAddr s)"

definition write_lease :: "'s lease_ops \<Rightarrow> time \<Rightarrow> Lease option \<Rightarrow> 's \<Rightarrow> 's" where
  "write_lease ops now w s = (case w of None \<Rightarrow> s | Some l \<Rightarrow> fst (op_Upsert ops now l s))"

lemma emit6_store [simp]: "h6_store (emit6 h name l st) = h6_store st"
  by (simp add: emit6_def)

lemma store_reply_store [simp]: "h6_store (fst (store_reply ops h now l ev resp st)) = fst (op_Upsert ops now l (h6_store st))"
  by (auto simp: store_reply_def Let_def split: prod.split option.split)

lemma handle_direct_store:
  "h6_store (fst (handle_direct ops h now req relayAddr st)) =
    write_lease ops now (written_direct ops h now req relayAddr (h6_store st)) (h6_store st)"
  by (auto simp: handle_direct_def Let_def handleSolicit_def handleRequest6_def handleRenew_def handleRelease6_def
      handleDecline6_def set_client_lease_def written_direct_def write_lease_def alloc_request6_def
      split: sum.split option.split)

lemma Handle6_store:
  "h6_store (fst (Handle6 ops h now req st)) = write_lease ops now (written6 ops h now req (h6_store st)) (h6_store st)"
proof (cases "IsRelay6 req")
  case False
  then show ?thesis using handle_direct_store [of ops h now req "[]" st] by (simp add: Handle6_def written6_def inner6_def)
next
  case True
  have "h6_store (fst (case r of (st', Inr (Some resp)) \<Rightarrow> (st', Inr (Some (f resp))) | r \<Rightarrow> r)) = h6_store (fst r)"
    for r :: "'a reply6" and f
    by (cases r) (auto split: sum.split option.split)
  then show ?thesis
    using True handle_direct_store [of ops h now _ "p6_LinkAddress req" st]
    by (auto simp: Handle6_def handleRelay_def written6_def inner6_def write_lease_def split: option.split sum.split)
qed

section \<open>Addresses and their names\<close>

text \<open>Not an IPv4-mapped address: the two packages print it alike.\<close>

definition unmapped :: "128 word \<Rightarrow> bool" where
  "unmapped w \<longleftrightarrow> drop_bit 32 w \<noteq> 0xFFFF"

lemma be_nat_acc_split: "be_nat_acc a cs = a * 256 ^ length cs + be_nat cs"
proof (induction cs arbitrary: a)
  case (Cons c cs)
  have "be_nat (c # cs) = byte_nat c * 256 ^ length cs + be_nat cs"
    using Cons.IH [of "byte_nat c"] by (simp add: be_nat_def)
  then show ?case using Cons.IH [of "a * 256 + byte_nat c"] by (simp add: algebra_simps)
qed (simp add: be_nat_def)

lemma be_nat_append: "be_nat (xs @ ys) = be_nat xs * 256 ^ length ys + be_nat ys"
  using be_nat_acc_split [of "be_nat xs" ys] by (simp add: be_nat_def be_nat_acc_append)

lemma be_nat_zeros6: "be_nat (replicate n (CHR 0x00) @ cs) = be_nat cs"
  by (induction n) (simp_all add: be_nat_def byte_nat_def)

lemma take12_mapped:
  assumes "take 12 (word_bytes 16 w) = v4InV6Prefix"
  shows "drop_bit 32 (w :: 128 word) = 0xFFFF"
proof -
  have l: "length (word_bytes 16 w) = 16" by (simp add: word_bytes_def)
  let ?b = "word_bytes 16 w"
  have "be_nat ?b = unat w" using unsigned_less [of w, where ?'a = nat] by (simp add: word_bytes_def)
  moreover have "be_nat ?b = be_nat (take 12 ?b) * 256 ^ 4 + be_nat (drop 12 ?b)"
    using be_nat_append [of "take 12 ?b" "drop 12 ?b"] l by simp
  moreover have "be_nat v4InV6Prefix = 65535"
    by (simp add: v4InV6Prefix_def be_nat_zeros6) (simp add: be_nat_def byte_nat_def)
  moreover have "be_nat (drop 12 ?b) < 256 ^ 4" using be_nat_bound [of "drop 12 ?b"] l by simp
  ultimately have "unat w div 2 ^ 32 = 65535" using assms by simp
  then have "drop_bit 32 (unat w) = 65535" by (simp only: drop_bit_eq_div)
  then have "unat (drop_bit 32 w) = 65535" by (simp only: unat_drop_bit_eq)
  then have "unat (drop_bit 32 w) = unat (0xFFFF :: 128 word)" by simp
  then show ?thesis by (simp only: word_unat_eq_iff)
qed

lemma unmapped_String: "unmapped w \<Longrightarrow> ip_String (AsSlice (A6 w z)) = addr_String (A6 w [])"
proof -
  assume u: "unmapped w"
  have l: "length (word_bytes 16 w) = 16" by (simp add: word_bytes_def)
  then have "ip_To4 (word_bytes 16 w) = []" using take12_mapped [of w] u by (auto simp: ip_To4_def unmapped_def)
  moreover have "word_bytes 16 w \<noteq> []" using l by (metis list.size(3) zero_neq_numeral)
  ultimately have "ip_String (word_bytes 16 w) = ip6_string w" by (simp add: ip_String_def l)
  then show ?thesis using u by (simp add: AsSlice_def addr_String_def unmapped_def zone_suffix_def)
qed

text \<open>The addresses that a pool can hand out: its prefix and its range hold no mapped address, and the
  range does not end at the last address of all.\<close>

definition pool6_ok :: "managedPool \<Rightarrow> bool" where
  "pool6_ok pool \<longleftrightarrow> (\<exists>ws we. mp_start pool = A6 ws [] \<and> mp_end pool = A6 we [] \<and> we \<noteq> - 1 \<and>
     (\<forall>w. ws \<le> w \<and> w \<le> we \<or> pfx_Contains (mp_prefix pool) (A6 w []) \<longrightarrow> unmapped w))"

lemma scan_pool_range:
  assumes "scan_pool avail (A6 w []) (A6 we []) = Some c" "we \<noteq> - 1"
  shows "\<exists>x. c = Some (A6 x []) \<and> w \<le> x \<and> x \<le> we \<and> avail (addr_String (A6 x []))"
  using assms(1)
proof (induction "unat (- 1 - w)" arbitrary: w rule: less_induct)
  case less
  show ?case
  proof (cases "w \<le> we \<and> \<not> avail (addr_String (A6 w []))")
    case False
    then show ?thesis
      using less.prems by (subst (asm) scan_pool.simps) (auto simp: addr_Compare_def cmp3_def split: if_splits)
  next
    case True
    then have w: "w \<noteq> - 1" using assms(2) by (metis word_order.extremum_unique)
    then have "scan_pool avail (A6 (w + 1) []) (A6 we []) = Some c"
      using less.prems True by (subst (asm) scan_pool.simps) (auto simp: addr_Compare_def cmp3_def addr_Next_def split: if_splits)
    moreover have "unat (- 1 - (w + 1)) < unat (- 1 - w)" using room_shrinks [OF w] by simp
    ultimately obtain x where "c = Some (A6 x [])" "w + 1 \<le> x" "x \<le> we" "avail (addr_String (A6 x []))"
      using less.hyps by blast
    moreover have "w \<le> w + 1"
    proof -
      have "1 + w \<noteq> 0" using w by (metis add.commute eq_neg_iff_add_eq_0)
      then have "unat (1 + w) = Suc (unat w)" by (rule unatSuc)
      then show ?thesis by (simp add: word_le_nat_alt add.commute)
    qed
    ultimately show ?thesis by force
  qed
qed

section \<open>No message takes an active lease from another client\<close>

definition inactive6 :: "Lease \<Rightarrow> bool" where
  "inactive6 l \<longleftrightarrow> l_State l \<in> {StateReleased, StateExpired, StateFree}"

text \<open>
  Three conditions on what is stored: no client identifier continues this client's one behind the separator
  of the index; the addresses of this client's leases are written the way the code prints addresses.
\<close>

definition separate6 :: "(string \<rightharpoonup> Lease) \<Rightarrow> bytes \<Rightarrow> bool" where
  "separate6 m cid \<longleftrightarrow> (\<forall>ip l. m ip = Some l \<longrightarrow> starts_with (cid @ [CHR 0x1F]) (l_ClientID l @ CHR 0x1F # ip) \<longrightarrow> l_ClientID l = cid)"

definition printed6 :: "(string \<rightharpoonup> Lease) \<Rightarrow> bytes \<Rightarrow> bool" where
  "printed6 m cid \<longleftrightarrow> (\<forall>ip l a. m ip = Some l \<and> l_ClientID l = cid \<and> ParseAddr (TrimSpace ip) = Some a \<longrightarrow> ip_String (AsSlice a) = ip)"

definition held6 :: "(string \<rightharpoonup> Lease) \<Rightarrow> bytes \<Rightarrow> string \<Rightarrow> bool" where
  "held6 m cid ip \<longleftrightarrow> (\<exists>l. m ip = Some l \<and> l_ClientID l \<noteq> cid \<and> \<not> inactive6 l)"

lemma existing6_mem: "existing6 p items = Some a \<Longrightarrow> \<exists>l\<in>set items. ParseAddr (TrimSpace (l_IP l)) = Some a \<and> pfx_Contains p a"
  by (induction p items rule: existing6.induct) (auto split: option.splits if_splits)

lemma chosen6_cases:
  assumes "chosen6 ops m req s = Some c" "pool = selectPool m req" "avail = availableForClient ops s (ar6_ClientDUID req)"
  shows "(\<exists>a. client_existing6 ops (mp_prefix pool) s (ar6_ClientDUID req) = Some a \<and> c = Some a) \<or>
    (\<exists>a. usable_request6 avail (mp_prefix pool) (ar6_RequestedIP req) = Some a \<and> c = Some a) \<or>
    scan_pool avail (mp_start pool) (mp_end pool) = Some c"
  using assms(1) unfolding chosen6_def Let_def assms(2,3) [symmetric]
  by (cases "client_existing6 ops (mp_prefix pool) s (ar6_ClientDUID req)";
      cases "usable_request6 avail (mp_prefix pool) (ar6_RequestedIP req)") auto

context lease_store begin

lemma own_leases:
  assumes "inv s" "separate6 (view s) cid" "op_GetByClientID ops s cid = Inr ls" "l \<in> set ls"
  shows "view s (l_IP l) = Some l" "l_ClientID l = cid"
  using by_client [OF assms(1), of cid] assms(2-4) by (auto simp: separate6_def)

lemma client_lease_own:
  assumes "inv s" "separate6 (view s) cid" "client_lease ops s cid = Some l"
  shows "view s (l_IP l) = Some l" "l_ClientID l = cid"
proof -
  obtain ls where "op_GetByClientID ops s cid = Inr ls" "l \<in> set ls"
    using assms(3) by (auto simp: client_lease_def split: sum.splits list.splits)
  then show "view s (l_IP l) = Some l" "l_ClientID l = cid" using own_leases [OF assms(1,2)] by auto
qed

lemma available_not_held:
  assumes "inv s" "availableForClient ops s cid ip"
  shows "\<not> held6 (view s) cid ip"
  using assms(2) by (auto simp: availableForClient_def by_ip [OF assms(1)] held6_def inactive6_def split: option.splits)

lemma Allocate6_free:
  assumes "inv s" "separate6 (view s) (ar6_ClientDUID req)" "printed6 (view s) (ar6_ClientDUID req)"
    "pool6_ok (selectPool m req)" "Allocate6 ops m req s = Inr alloc"
  shows "\<not> held6 (view s) (ar6_ClientDUID req) (ip_String (al6_IP alloc))"
proof -
  let ?cid = "ar6_ClientDUID req" and ?pool = "selectPool m req"
  let ?avail = "availableForClient ops s ?cid"
  obtain c where c: "chosen6 ops m req s = Some c" "al6_IP alloc = (case c of None \<Rightarrow> [] | Some a \<Rightarrow> AsSlice a)"
    using assms(5) by (auto simp: Allocate6_def resultFor_def Let_def split: option.splits)
  have scan: ?thesis if sc: "scan_pool ?avail (mp_start ?pool) (mp_end ?pool) = Some c"
  proof -
    obtain ws we where p: "mp_start ?pool = A6 ws []" "mp_end ?pool = A6 we []" "we \<noteq> - 1"
      "\<forall>w. ws \<le> w \<and> w \<le> we \<longrightarrow> unmapped w" using assms(4) by (auto simp: pool6_ok_def)
    obtain x where x: "c = Some (A6 x [])" "ws \<le> x" "x \<le> we" "?avail (addr_String (A6 x []))"
      using scan_pool_range [OF sc [unfolded p(1,2)] p(3)] by blast
    then have "ip_String (al6_IP alloc) = addr_String (A6 x [])" using p(4) c(2) unmapped_String by simp
    then show ?thesis using available_not_held [OF assms(1) x(4)] by simp
  qed
  consider (existing) a where "client_existing6 ops (mp_prefix ?pool) s ?cid = Some a" "c = Some a"
    | (requested) a where "usable_request6 ?avail (mp_prefix ?pool) (ar6_RequestedIP req) = Some a" "c = Some a"
    | (scanned) "scan_pool ?avail (mp_start ?pool) (mp_end ?pool) = Some c"
    using chosen6_cases [OF c(1) refl refl] by blast
  then show ?thesis
  proof cases
    case existing
    then obtain items where it: "op_GetByClientID ops s ?cid = Inr items" "existing6 (mp_prefix ?pool) items = Some a"
      by (auto simp: client_existing6_def split: if_splits sum.splits)
    then obtain l where l: "l \<in> set items" "ParseAddr (TrimSpace (l_IP l)) = Some a" using existing6_mem by blast
    note o = own_leases [OF assms(1,2) it(1) l(1)]
    have "ip_String (al6_IP alloc) = l_IP l" using assms(3) o l(2) c(2) existing(2) by (auto simp: printed6_def)
    then show ?thesis using o by (simp add: held6_def)
  next
    case requested
    then have r: "AddrFromSlice (ip_To16 (ar6_RequestedIP req)) = Some a" "pfx_Contains (mp_prefix ?pool) a" "?avail (addr_String a)"
      by (auto simp: usable_request6_def split: option.splits if_splits)
    then obtain w where w: "a = A6 w []" by (auto simp: AddrFromSlice_def ip_To16_def v4InV6Prefix_def split: if_splits)
    then have "unmapped w" using assms(4) r(2) by (auto simp: pool6_ok_def)
    then have "ip_String (al6_IP alloc) = addr_String a" using c(2) requested(2) w unmapped_String by simp
    then show ?thesis using available_not_held [OF assms(1) r(3)] by simp
  next
    case scanned
    then show ?thesis by (rule scan)
  qed
qed

lemma written_direct_free:
  assumes "inv s" "cid = opt6_ClientID (p6_Options req)" "separate6 (view s) cid" "printed6 (view s) cid"
    "\<forall>pool\<in>set (pm6_pools (h6_pools h)). pool6_ok pool" "pm6_pools (h6_pools h) \<noteq> []"
    "written_direct ops h now req relayAddr s = Some l"
  shows "\<not> held6 (view s) cid (l_IP l)"
proof -
  have a: "ar6_ClientDUID (alloc_request6 req relayAddr) = cid" by (simp add: alloc_request6_def assms(2) Let_def)
  have "selectPool m r \<in> set (pm6_pools m)" if "pm6_pools m \<noteq> []" for m r
    using that by (auto simp: selectPool_def pool_holding_def find_Some_iff split: option.splits)
  then have pool: "pool6_ok (selectPool (h6_pools h) (alloc_request6 req relayAddr))" using assms(5,6) by blast
  have built: ?thesis if "Allocate6 ops (h6_pools h) (alloc_request6 req relayAddr) s = Inr al"
    "l = buildLeaseRecord6 now req al relayAddr st" for al st
    using Allocate6_free [OF assms(1) _ _ pool that(1)] a assms(3,4) that(2) by (simp add: buildLeaseRecord6_def)
  have changed: ?thesis if "client_lease ops s cid = Some l0" "l_IP l = l_IP l0" for l0
    using client_lease_own [OF assms(1,3) that(1)] that(2) by (simp add: held6_def)
  show ?thesis
    using assms(7) built changed unfolding written_direct_def assms(2) [symmetric]
    by (auto simp: Let_def released6_def declined6_def split: if_splits sum.splits)
qed

lemma Handle6_keeps:
  assumes "inv (h6_store st)" "inner6 req = Some (inner, relayAddr)" "cid = opt6_ClientID (p6_Options inner)"
    "separate6 (view (h6_store st)) cid" "printed6 (view (h6_store st)) cid"
    "\<forall>pool\<in>set (pm6_pools (h6_pools h)). pool6_ok pool" "pm6_pools (h6_pools h) \<noteq> []"
    "\<forall>l. written6 ops h now req (h6_store st) = Some l \<longrightarrow> ok (upserted now l)"
    "held6 (view (h6_store st)) cid ip"
  shows "view (h6_store (fst (Handle6 ops h now req st))) ip = view (h6_store st) ip"
proof (cases "written6 ops h now req (h6_store st)")
  case None
  then show ?thesis by (simp add: Handle6_store write_lease_def)
next
  case (Some l)
  then have "written_direct ops h now inner relayAddr (h6_store st) = Some l" by (simp add: written6_def assms(2))
  then have "\<not> held6 (view (h6_store st)) cid (l_IP l)" by (rule written_direct_free [OF assms(1,3-7)])
  then have "ip \<noteq> l_IP l" using assms(9) by blast
  then show ?thesis using upsert [OF assms(1), of now l] assms(8) Some by (auto simp: Handle6_store write_lease_def)
qed

lemma client_existing_only:
  assumes "inv s" "cid \<noteq> []" "view s (l_IP l) = Some l" "l_ClientID l = cid"
    and only: "\<And>ip x. view s ip = Some x \<Longrightarrow> starts_with (cid @ [CHR 0x1F]) (l_ClientID x @ CHR 0x1F # ip) \<Longrightarrow> x = l"
  shows "client_lease ops s cid = Some l"
    "ParseAddr (TrimSpace (l_IP l)) = Some a \<Longrightarrow> pfx_Contains p a \<Longrightarrow> client_existing6 ops p s cid = Some a"
proof -
  obtain ls where ls: "op_GetByClientID ops s cid = Inr ls"
    "set ls = {l. view s (l_IP l) = Some l \<and> l_ClientID l \<noteq> [] \<and> starts_with (cid @ [CHR 0x1F]) (l_ClientID l @ CHR 0x1F # l_IP l)}"
    using by_client [OF assms(1), of cid] by blast
  have "starts_with (cid @ [CHR 0x1F]) (l_ClientID l @ CHR 0x1F # l_IP l)" using assms(4) by (simp add: starts_with_def)
  then have "l \<in> set ls" using ls(2) assms(2-4) by simp
  moreover have "x = l" if "x \<in> set ls" for x
  proof -
    have "view s (l_IP x) = Some x" "starts_with (cid @ [CHR 0x1F]) (l_ClientID x @ CHR 0x1F # l_IP x)"
      using that unfolding ls(2) by simp_all
    then show ?thesis by (rule only)
  qed
  ultimately have "set ls = {l}" by blast
  then obtain xs where xs: "ls = l # xs" "set xs \<subseteq> {l}" by (cases ls) auto
  show "client_lease ops s cid = Some l" by (simp add: client_lease_def ls(1) xs(1))
  show "ParseAddr (TrimSpace (l_IP l)) = Some a \<Longrightarrow> pfx_Contains p a \<Longrightarrow> client_existing6 ops p s cid = Some a"
    by (simp add: client_existing6_def assms(2) ls(1) xs(1))
qed

text \<open>What a decline and then a solicit of the same client do.\<close>

lemma decline_then_solicit:
  assumes "inv (h6_store st)" "view (h6_store st) (l_IP l) = Some l" "cid = l_ClientID l" "cid \<noteq> []"
    and only: "\<And>ip x. view (h6_store st) ip = Some x \<Longrightarrow> starts_with (cid @ [CHR 0x1F]) (l_ClientID x @ CHR 0x1F # ip) \<Longrightarrow> x = l"
    and d: "p6_MessageType d = MessageDecline6" "opt6_ClientID (p6_Options d) = cid"
    and q: "p6_MessageType q = MessageSolicit6" "opt6_ClientID (p6_Options q) = cid"
    and a: "ParseAddr (TrimSpace (l_IP l)) = Some a" "ip_String (AsSlice a) = l_IP l"
      "pfx_Contains (mp_prefix (selectPool (h6_pools h) (alloc_request6 q []))) a"
    and w: "\<forall>x. written6 ops h t1 d (h6_store st) = Some x \<longrightarrow> ok (upserted t1 x)"
      "\<forall>x. written6 ops h t2 q (h6_store (fst (Handle6 ops h t1 d st))) = Some x \<longrightarrow> ok (upserted t2 x)"
  shows "\<exists>st1 r1 st2 resp l'. Handle6 ops h t1 d st = (st1, r1) \<and>
    view (h6_store st1) (l_IP l) = Some (upserted t1 (declined6 t1 [] l)) \<and>
    Handle6 ops h t2 q st1 = (st2, Inr (Some resp)) \<and> view (h6_store st2) (l_IP l) = Some l' \<and>
    l_State l' \<in> {StateOffered, StateBound} \<and> l_QuarantineUntil l' = 0"
proof -
  let ?s = "h6_store st" and ?l1 = "upserted t1 (declined6 t1 [] l)"
  have dr: "inner6 d = Some (d, [])" "inner6 q = Some (q, [])" using d(1) q(1) by (auto simp: inner6_def IsRelay6_def)
  have "written6 ops h t1 d ?s = Some (declined6 t1 [] l)"
    using client_existing_only(1) [OF assms(1,4,2) assms(3) [symmetric] only] d assms(4)
    by (simp add: written6_def dr written_direct_def Let_def)
  moreover have ip: "l_IP ?l1 = l_IP l" "l_ClientID ?l1 = cid" by (simp_all add: upserted_def declined6_def assms(3))
  obtain st1 r1 where st1: "Handle6 ops h t1 d st = (st1, r1)" by (metis surj_pair)
  ultimately have s1: "inv (h6_store st1)" "view (h6_store st1) = (view ?s)(l_IP l \<mapsto> ?l1)"
    using upsert [OF assms(1), of t1 "declined6 t1 [] l"] w(1) Handle6_store [of ops h t1 d st]
    by (auto simp: write_lease_def declined6_def)
  have only1: "x = ?l1" if "view (h6_store st1) k = Some x" "starts_with (cid @ [CHR 0x1F]) (l_ClientID x @ CHR 0x1F # k)" for k x
  proof (cases "k = l_IP l")
    case False
    then have "view ?s k = Some x" using that(1) s1(2) by simp
    then have "x = l" "l_IP x = k" using only that(2) view_ip [OF assms(1)] by auto
    then show ?thesis using False by simp
  qed (use that(1) s1(2) in simp)
  have e: "client_existing6 ops (mp_prefix (selectPool (h6_pools h) (alloc_request6 q []))) (h6_store st1) cid = Some a"
    by (rule client_existing_only(2) [OF s1(1) assms(4) _ _ only1]) (use s1(2) ip a in auto)
  obtain al where al: "Allocate6 ops (h6_pools h) (alloc_request6 q []) (h6_store st1) = Inr al" "al6_IP al = AsSlice a"
    using e q(2) by (simp add: Allocate6_def chosen6_def alloc_request6_def resultFor_def Let_def)
  let ?st = "if HasRapidCommit6 (p6_Options q) then StateBound else StateOffered"
  let ?b = "buildLeaseRecord6 t2 q al [] ?st"
  have wq: "written6 ops h t2 q (h6_store st1) = Some ?b"
    using q assms(4) al(1) by (simp add: written6_def dr written_direct_def Let_def)
  then have okb: "ok (upserted t2 ?b)" using w(2) st1 by simp
  obtain s2 where s2: "op_Upsert ops t2 ?b (h6_store st1) = (s2, None)" "view s2 = (view (h6_store st1))(l_IP ?b \<mapsto> upserted t2 ?b)"
    using upsert [OF s1(1) okb] by blast
  have "Handle6 ops h t2 q st1 = handleSolicit ops h t2 q [] st1"
    using q(1) by (simp add: Handle6_def IsRelay6_def handle_direct_def Let_def)
  then obtain st2 resp where "Handle6 ops h t2 q st1 = (st2, Inr (Some resp))" "h6_store st2 = s2"
    using q(2) assms(4) al(1) s2(1) by (auto simp: handleSolicit_def store_reply_def Let_def)
  moreover have "l_IP ?b = l_IP l" "l_State (upserted t2 ?b) \<in> {StateOffered, StateBound}" "l_QuarantineUntil (upserted t2 ?b) = 0"
    using al(2) a(2) by (simp_all add: buildLeaseRecord6_def upserted_def zero_lease_def)
  ultimately show ?thesis using st1 s1(2) s2(2) by (metis fun_upd_same)
qed

end

section \<open>Properties\<close>

text \<open>C10: No DHCPv6 message, direct or relayed, changes the lease of another client while it is offered,
  bound, renewing, declined or quarantined: an address in another client's hands stays there. For this the client's identifier must
  not be the beginning of another one up to the separator of the index (\<open>separate6\<close>: the code takes such a lease for the client's own),
  the client's stored addresses must be spelt as the code prints them (\<open>printed6\<close>), and the pools be IPv6 pools without IPv4-mapped
  addresses that do not end at the last address of all (\<open>pool6_ok\<close>).\<close>

theorem dhcp6_no_takeover:
  assumes "es_inv J (h6_store st)" "inner6 req = Some (inner, relayAddr)" "cid = opt6_ClientID (p6_Options inner)"
    "separate6 (es_view J (h6_store st)) cid" "printed6 (es_view J (h6_store st)) cid"
    "\<forall>pool\<in>set (pm6_pools (h6_pools h)). pool6_ok pool" "pm6_pools (h6_pools h) \<noteq> []"
    "\<forall>l. written6 (engine_store J) h now req (h6_store st) = Some l \<longrightarrow> lease_ok J (upserted now l)"
    "ls_GetByIP J (h6_store st) ip = Inr other" "l_ClientID other \<noteq> cid"
    "l_State other \<notin> {StateReleased, StateExpired, StateFree}"
  shows "es_view J (h6_store (fst (Handle6 (engine_store J) h now req st))) ip = Some other"
proof -
  have "es_view J (h6_store st) ip = Some other"
    using assms(9) by (auto simp: GetByIP_view [OF assms(1)] split: option.splits)
  moreover then have "held6 (es_view J (h6_store st)) cid ip" using assms(10,11) by (simp add: held6_def inactive6_def)
  ultimately show ?thesis using es.Handle6_keeps [OF assms(1-8)] by simp
qed

text \<open>An address that a client declined because it is in use by a stranger is given to the same client
  again by its next solicit, and the end of its quarantine is erased.\<close>

theorem dhcp6_declined_offered_again:
  assumes "es_inv J (h6_store st)" "es_view J (h6_store st) (l_IP l) = Some l" "cid = l_ClientID l" "cid \<noteq> []"
    "\<And>ip x. es_view J (h6_store st) ip = Some x \<Longrightarrow> starts_with (cid @ [CHR 0x1F]) (l_ClientID x @ CHR 0x1F # ip) \<Longrightarrow> x = l"
    "p6_MessageType d = MessageDecline6" "opt6_ClientID (p6_Options d) = cid"
    "p6_MessageType q = MessageSolicit6" "opt6_ClientID (p6_Options q) = cid"
    "ParseAddr (TrimSpace (l_IP l)) = Some a" "ip_String (AsSlice a) = l_IP l"
    "pfx_Contains (mp_prefix (selectPool (h6_pools h) (alloc_request6 q []))) a"
    "\<forall>x. written6 (engine_store J) h t1 d (h6_store st) = Some x \<longrightarrow> lease_ok J (upserted t1 x)"
    "\<forall>x. written6 (engine_store J) h t2 q (h6_store (fst (Handle6 (engine_store J) h t1 d st))) = Some x \<longrightarrow> lease_ok J (upserted t2 x)"
  shows "\<exists>st1 r1 st2 resp l'. Handle6 (engine_store J) h t1 d st = (st1, r1) \<and>
    es_view J (h6_store st1) (l_IP l) = Some (upserted t1 (declined6 t1 [] l)) \<and>
    Handle6 (engine_store J) h t2 q st1 = (st2, Inr (Some resp)) \<and> es_view J (h6_store st2) (l_IP l) = Some l' \<and>
    l_State l' \<in> {StateOffered, StateBound} \<and> l_QuarantineUntil l' = 0"
  by (rule es.decline_then_solicit [OF assms])

section \<open>A concrete server\<close>

lemma chars6: "char_of (5 :: nat) = CHR 0x05" "char_of (6 :: nat) = CHR 0x06" "char_of (53 :: nat) = CHR ''5''"
  "char_of (54 :: nat) = CHR ''6''"
  by code_simp+

lemma parse_five: "ParseAddr ''::5'' = Some (A6 5 [])" "ParseAddr ''::6'' = Some (A6 6 [])"
proof -
  have h: "hex_group ''5'' 0 0 = Some (1, 5, [])" "hex_group ''6'' 0 0 = Some (1, 6, [])"
    by (simp_all add: hex_val_def less_eq_char_def byte_nat_def)
  have e: "8 = Suc 7" by simp
  have v: "v6_loop 8 ''5'' [] (Some 0) = Some ([CHR 0x00, CHR 0x05], Some 0, [])"
    "v6_loop 8 ''6'' [] (Some 0) = Some ([CHR 0x00, CHR 0x06], Some 0, [])"
    unfolding e by (simp_all only: v6_loop.simps h) (simp_all add: nat_byte_def demo_chars chars6)
  show "ParseAddr ''::5'' = Some (A6 5 [])" "ParseAddr ''::6'' = Some (A6 6 [])"
    by (simp_all add: ParseAddr_def parseIPv6_def v word_of_bytes_def be_nat_zeros6)
      (simp_all add: be_nat_def byte_nat_def)
qed

lemma print_five: "addr_String (A6 5 []) = ''::5''" "addr_String (A6 6 []) = ''::6''"
proof -
  have g: "map (group16 5) [0..<8] = [0, 0, 0, 0, 0, 0, 0, 5]" "map (group16 6) [0..<8] = [0, 0, 0, 0, 0, 0, 0, 6]"
    by (simp_all add: group16_def upt_conv_Cons)
  have d: "hex_nat 5 = ''5''" "hex_nat 6 = ''6''"
    by (simp_all add: hex_nat.simps hex_digit_def nat_byte_def chars6)
  have i: "ip6_string 5 = ''::5''" "ip6_string 6 = ''::6''"
    by (simp_all add: ip6_string_def g d)
  show "addr_String (A6 5 []) = ''::5''" "addr_String (A6 6 []) = ''::6''"
    by (simp_all add: addr_String_def i zone_suffix_def)
qed
definition demo_pool6 :: managedPool where
  "demo_pool6 = \<lparr>mp_id = ''::/120'', mp_prefix = \<lparr>pfx_addr = A6 0 [], pfx_bits = 120\<rparr>, mp_start = A6 5 [],
     mp_end = A6 6 [], mp_gateway = [], mp_dns = [], mp_leaseDur = hour_ns\<rparr>"

definition demo_h6 :: Handler6 where
  "demo_h6 = NewHandler6 \<lparr>pm6_pools = [demo_pool6], pm6_defaultLease = hour_ns\<rparr> ''srv'' 0 0"

definition msg6 :: "byte \<Rightarrow> bytes \<Rightarrow> Packet6" where
  "msg6 t cid = \<lparr>p6_MessageType = t, p6_TransactionID = zero_xid, p6_HopCount = CHR 0x00, p6_LinkAddress = [],
     p6_PeerAddress = [], p6_Options = [\<lparr>o6_Code = Option6ClientID, o6_Value = cid\<rparr>]\<rparr>"

definition record6 :: "bytes \<Rightarrow> 128 word \<Rightarrow> Lease" where
  "record6 cid w = buildLeaseRecord6 demo_time (msg6 MessageSolicit6 cid)
     (resultFor (h6_pools demo_h6) demo_pool6 (AsSlice (A6 w [])) 0) [] StateOffered"

definition lease6_A :: Lease where "lease6_A = upserted demo_time (record6 ''A'' 5)"
definition lease6_B :: Lease where "lease6_B = upserted demo_time (record6 ''B'' 6)"
definition lease6_D :: Lease where "lease6_D = upserted demo_time (declined6 demo_time [] lease6_A)"

definition json6 :: lease_json where "json6 = list_json [lease6_A, lease6_B, lease6_D]"

lemma msg6_fields [simp]: "p6_MessageType (msg6 t cid) = t" "opt6_ClientID (p6_Options (msg6 t cid)) = cid"
  "HasRapidCommit6 (p6_Options (msg6 t cid)) = False" "opt6_IANAs (p6_Options (msg6 t cid)) = []"
  by (simp_all add: msg6_def opt6_ClientID_def opt6_Get_def nil_bytes_def HasRapidCommit6_def opt6_IANAs_def
      opt6_Values_def List.map_filter_def)

lemma demo_pool6_range: "mp_start demo_pool6 = A6 5 []" "mp_end demo_pool6 = A6 6 []"
  by (simp_all add: demo_pool6_def)

lemma demo_pool6_ok: "pool6_ok demo_pool6"
proof -
  have small: "unmapped w" if "w < 256" for w :: "128 word"
  proof -
    have "unat w < 256" using that by (simp add: word_less_nat_alt)
    then have "drop_bit 32 (unat w) = 0" by (simp add: drop_bit_eq_div)
    then have "unat (drop_bit 32 w) = 0" by (simp only: unat_drop_bit_eq)
    then show ?thesis by (auto simp: unmapped_def)
  qed
  have "w < 256" if "drop_bit 8 w = (0 :: 128 word)" for w
  proof -
    have "drop_bit 8 (unat w) = unat (drop_bit 8 w)" by (rule unat_drop_bit_eq [symmetric])
    then have "unat w div 256 = 0" using that by (simp add: drop_bit_eq_div [of 8 "unat w"])
    then have "unat w < 256" by simp
    then show ?thesis by (simp add: word_less_nat_alt)
  qed
  moreover have "w < 256" if "w \<le> 6" for w :: "128 word" using that by (simp add: le_less_trans)
  ultimately have "\<forall>w. 5 \<le> w \<and> w \<le> 6 \<or> pfx_Contains (mp_prefix demo_pool6) (A6 w []) \<longrightarrow> unmapped w"
    using small by (auto simp: demo_pool6_def pfx_Contains_def)
  then show ?thesis by (simp add: pool6_ok_def demo_pool6_def)
qed

lemma print6: "ip_String (AsSlice (A6 5 [])) = ''::5''" "ip_String (AsSlice (A6 6 [])) = ''::6''"
proof -
  have "unmapped 5" "unmapped 6" by (simp_all add: unmapped_def)
  then show "ip_String (AsSlice (A6 5 [])) = ''::5''" "ip_String (AsSlice (A6 6 [])) = ''::6''"
    using unmapped_String print_five by simp_all
qed

lemma record6_fields: "l_IP (record6 cid w) = ip_String (AsSlice (A6 w []))" "l_ClientID (record6 cid w) = cid"
  "l_State (record6 cid w) = StateOffered" "l_MAC (record6 cid w) = []" "l_SubnetID (record6 cid w) = ''::/120''"
  "l_ExpiryTime (record6 cid w) = demo_time + hour_ns"
  by (simp_all add: record6_def buildLeaseRecord6_def resultFor_def demo_pool6_def zero_lease_def Let_def)

lemma demo6_ok:
  assumes "l \<in> {lease6_A, lease6_B, lease6_D}"
  shows "lease_ok json6 l"
proof -
  have nz: "demo_time + hour_ns \<noteq> 0"
    by (simp add: demo_time_def hour_ns_def minute_ns_def second_ns_def unix_epoch_s_def)
  have t: "TrimSpace ''::5'' = ''::5''" "TrimSpace ''::6'' = ''::6''"
    by (rule TrimSpace_printable; simp add: printable_def byte_nat_def)+
  have x: "l_ExpiryTime l = demo_time + hour_ns"
    using assms nz by (auto simp: lease6_A_def lease6_B_def lease6_D_def declined6_def demo_upserted_expiry record6_fields)
  have f: "l_IP l \<in> {''::5'', ''::6''}" "l_MAC l = []" "l_SubnetID l = ''::/120''" "length (l_ClientID l) = 1"
    using assms by (auto simp: lease6_A_def lease6_B_def lease6_D_def declined6_def upserted_def record6_fields print6)
  obtain raw where "json_marshal json6 l = Some raw" "json_unmarshal json6 raw = Some l" "length raw < 3"
    using list_json_ok [of l "[lease6_A, lease6_B, lease6_D]"] assms by (auto simp: json6_def)
  moreover have "0 < l_ExpiryTime l" "0 \<le> time_unix (l_ExpiryTime l)" "time_unix (l_ExpiryTime l) < 10 ^ 20"
    unfolding x by (simp_all add: demo_time_def time_unix_def second_ns_def unix_epoch_s_def hour_ns_def minute_ns_def)
  ultimately show ?thesis using f t by (auto simp: lease_ok_def normalizeMAC_def ToUpper_def)
qed

lemma demo6_store:
  obtains s where "es_inv json6 s" "es_view json6 s = [''::5'' \<mapsto> lease6_A]"
proof -
  have "lease_ok json6 (upserted demo_time (record6 ''A'' 5))" using demo6_ok [of lease6_A] by (simp add: lease6_A_def)
  from es.upsert [OF demo0_inv(1) this] show ?thesis
    using that by (auto simp: demo0_inv(2) record6_fields print6 lease6_A_def)
qed

lemma demo6_select: "selectPool (h6_pools demo_h6) (alloc_request6 (msg6 MessageSolicit6 cid) []) = demo_pool6"
  by (simp add: selectPool_def alloc_request6_def firstIANA_def requestedIAAddr_def pool_holding_def ip_To16_def
      AddrFromSlice_def demo_h6_def NewHandler6_def Let_def)

lemma demo6_written_solicit:
  assumes "Allocate6 (engine_store json6) (h6_pools demo_h6) (alloc_request6 (msg6 MessageSolicit6 cid) []) s =
    Inr (resultFor (h6_pools demo_h6) demo_pool6 (AsSlice (A6 w [])) 0)" "cid \<noteq> []"
  shows "written6 (engine_store json6) demo_h6 demo_time (msg6 MessageSolicit6 cid) s = Some (record6 cid w)"
proof -
  have "\<not> IsRelay6 (msg6 MessageSolicit6 cid)" by (simp add: IsRelay6_def)
  then show ?thesis using assms by (simp add: written6_def inner6_def written_direct_def record6_def Let_def)
qed

lemma starts_B: "\<not> starts_with (''B'' @ [CHR 0x1F]) (''A'' @ CHR 0x1F # ''::5'')"
  by (simp add: starts_with_def)

theorem dhcp6_no_takeover_witness:
  "\<exists>s. es_inv json6 s \<and>
    es_view json6 (h6_store (fst (Handle6 (engine_store json6) demo_h6 demo_time (msg6 MessageSolicit6 ''B'')
      \<lparr>h6_store = s, h6_events = []\<rparr>))) ''::5'' = Some lease6_A \<and>
    written6 (engine_store json6) demo_h6 demo_time (msg6 MessageSolicit6 ''B'') s = Some (record6 ''B'' 6)"
proof -
  obtain s where s: "es_inv json6 s" "es_view json6 s = [''::5'' \<mapsto> lease6_A]" by (rule demo6_store)
  have A: "l_ClientID lease6_A = ''A''" "l_State lease6_A = StateOffered" "l_IP lease6_A = ''::5''"
    by (simp_all add: lease6_A_def upserted_def record6_fields print6)
  obtain ls where ls: "op_GetByClientID (engine_store json6) s ''B'' = Inr ls"
    "set ls = {l. es_view json6 s (l_IP l) = Some l \<and> l_ClientID l \<noteq> [] \<and>
       starts_with (''B'' @ [CHR 0x1F]) (l_ClientID l @ CHR 0x1F # l_IP l)}"
    using es.by_client [OF s(1), of "''B''"] by blast
  have "l \<notin> set ls" for l
  proof
    assume "l \<in> set ls"
    then have "es_view json6 s (l_IP l) = Some l" "starts_with (''B'' @ [CHR 0x1F]) (l_ClientID l @ CHR 0x1F # l_IP l)"
      unfolding ls(2) by simp_all
    moreover from this(1) have "l = lease6_A" by (simp add: s(2) split: if_splits)
    ultimately show False using starts_B A by simp
  qed
  then have "op_GetByClientID (engine_store json6) s ''B'' = Inr []" using ls(1) by (cases ls) auto
  then have e: "client_existing6 (engine_store json6) p s ''B'' = None" for p by (simp add: client_existing6_def)
  have r: "ar6_ClientDUID (alloc_request6 (msg6 MessageSolicit6 ''B'') []) = ''B''"
    "ar6_RequestedIP (alloc_request6 (msg6 MessageSolicit6 ''B'') []) = []" "ar6_IAID (alloc_request6 (msg6 MessageSolicit6 ''B'') []) = 0"
    by (simp_all add: alloc_request6_def firstIANA_def requestedIAAddr_def Let_def)
  have av: "\<not> availableForClient (engine_store json6) s ''B'' ''::5''" "availableForClient (engine_store json6) s ''B'' ''::6''"
    using A by (simp_all add: availableForClient_def es.by_ip [OF s(1)] s(2) state_defs)
  have "scan_pool (availableForClient (engine_store json6) s ''B'') (A6 5 []) (A6 6 []) = Some (Some (A6 6 []))"
    by (subst scan_pool.simps, simp add: addr_Compare_def cmp3_def print_five av addr_Next_def)
      (subst scan_pool.simps, simp add: addr_Compare_def cmp3_def print_five av)
  then have al: "Allocate6 (engine_store json6) (h6_pools demo_h6) (alloc_request6 (msg6 MessageSolicit6 ''B'') []) s =
    Inr (resultFor (h6_pools demo_h6) demo_pool6 (AsSlice (A6 6 [])) 0)"
    using r e by (simp add: Allocate6_def chosen6_def demo6_select demo_pool6_range usable_request6_def ip_To16_def AddrFromSlice_def)
  note w = demo6_written_solicit [OF al]
  have "separate6 (es_view json6 s) ''B''" "printed6 (es_view json6 s) ''B''"
    using starts_B A by (simp_all add: separate6_def printed6_def s(2))
  moreover have "inner6 (msg6 MessageSolicit6 ''B'') = Some (msg6 MessageSolicit6 ''B'', [])" by (simp add: inner6_def IsRelay6_def)
  moreover have "\<forall>pool\<in>set (pm6_pools (h6_pools demo_h6)). pool6_ok pool" "pm6_pools (h6_pools demo_h6) \<noteq> []"
    using demo_pool6_ok by (simp_all add: demo_h6_def NewHandler6_def)
  moreover have "ls_GetByIP json6 s ''::5'' = Inr lease6_A" by (simp add: GetByIP_view [OF s(1)] s(2))
  moreover have "lease_ok json6 (upserted demo_time (record6 ''B'' 6))" using demo6_ok [of lease6_B] by (simp add: lease6_B_def)
  ultimately have "es_view json6 (h6_store (fst (Handle6 (engine_store json6) demo_h6 demo_time (msg6 MessageSolicit6 ''B'')
      \<lparr>h6_store = s, h6_events = []\<rparr>))) ''::5'' = Some lease6_A"
    using dhcp6_no_takeover [of json6 "\<lparr>h6_store = s, h6_events = []\<rparr>" "msg6 MessageSolicit6 ''B''" "msg6 MessageSolicit6 ''B''" "[]" "''B''" demo_h6 demo_time "''::5''" lease6_A]
      s(1) w A by (simp add: state_defs)
  then show ?thesis using s(1) w by auto
qed

theorem dhcp6_declined_offered_again_witness:
  "\<exists>st st1 r1 st2 resp l'. Handle6 (engine_store json6) demo_h6 demo_time (msg6 MessageDecline6 ''A'') st = (st1, r1) \<and>
    es_view json6 (h6_store st1) ''::5'' = Some lease6_D \<and>
    Handle6 (engine_store json6) demo_h6 demo_time (msg6 MessageSolicit6 ''A'') st1 = (st2, Inr (Some resp)) \<and>
    es_view json6 (h6_store st2) ''::5'' = Some l' \<and> l_QuarantineUntil l' = 0"
proof -
  let ?E = "engine_store json6"
  obtain s where s: "es_inv json6 s" "es_view json6 s = [''::5'' \<mapsto> lease6_A]" by (rule demo6_store)
  let ?st = "\<lparr>h6_store = s, h6_events = []\<rparr>"
  have A: "l_ClientID lease6_A = ''A''" "l_IP lease6_A = ''::5''" "l_ClientID lease6_D = ''A''" "l_IP lease6_D = ''::5''"
    by (simp_all add: lease6_A_def lease6_D_def declined6_def upserted_def record6_fields print6)
  have trim: "TrimSpace ''::5'' = ''::5''" by (rule TrimSpace_printable; simp add: printable_def byte_nat_def)
  have only: "x = lease6_A" if "es_view json6 s ip = Some x" for ip x using that s(2) by (auto split: if_splits)
  have cl: "client_lease ?E s ''A'' = Some lease6_A"
    by (rule es.client_existing_only(1) [OF s(1)]) (use A s(2) only in auto)
  have wd: "written6 ?E demo_h6 demo_time (msg6 MessageDecline6 ''A'') s = Some (declined6 demo_time [] lease6_A)"
    using cl by (simp add: written6_def inner6_def IsRelay6_def written_direct_def Let_def)
  have okD: "lease_ok json6 (upserted demo_time (declined6 demo_time [] lease6_A))" using demo6_ok [of lease6_D] by (simp add: lease6_D_def)
  let ?s1 = "h6_store (fst (Handle6 ?E demo_h6 demo_time (msg6 MessageDecline6 ''A'') ?st))"
  have s1: "es_inv json6 ?s1" "es_view json6 ?s1 = [''::5'' \<mapsto> lease6_D]"
    using es.upsert [OF s(1) okD] wd s(2) A(2) by (auto simp: Handle6_store write_lease_def lease6_D_def declined6_def)
  have only1: "x = lease6_D" if "es_view json6 ?s1 ip = Some x" for ip x using that s1(2) by (auto split: if_splits)
  have holds: "pfx_Contains (mp_prefix demo_pool6) (A6 5 [])" by (simp add: demo_pool6_def pfx_Contains_def)
  have e: "client_existing6 ?E (mp_prefix demo_pool6) ?s1 ''A'' = Some (A6 5 [])"
    by (rule es.client_existing_only(2) [OF s1(1) _ _ A(3)]) (use A s1(2) only1 trim parse_five holds in auto)
  have r: "ar6_ClientDUID (alloc_request6 (msg6 MessageSolicit6 ''A'') []) = ''A''" "ar6_IAID (alloc_request6 (msg6 MessageSolicit6 ''A'') []) = 0"
    by (simp_all add: alloc_request6_def firstIANA_def requestedIAAddr_def Let_def)
  have "Allocate6 ?E (h6_pools demo_h6) (alloc_request6 (msg6 MessageSolicit6 ''A'') []) ?s1 =
    Inr (resultFor (h6_pools demo_h6) demo_pool6 (AsSlice (A6 5 [])) 0)"
    using r e by (simp add: Allocate6_def chosen6_def demo6_select)
  from demo6_written_solicit [OF this]
  have wq: "written6 ?E demo_h6 demo_time (msg6 MessageSolicit6 ''A'') ?s1 = Some (record6 ''A'' 5)" by simp
  have okA: "lease_ok json6 (upserted demo_time (record6 ''A'' 5))" using demo6_ok [of lease6_A] by (simp add: lease6_A_def)
  show ?thesis
    using dhcp6_declined_offered_again [of json6 ?st lease6_A "''A''" "msg6 MessageDecline6 ''A''" "msg6 MessageSolicit6 ''A''" "A6 5 []" demo_h6 demo_time demo_time]
      s only A trim parse_five print6 demo6_select holds wd okD wq okA
    by (auto simp: lease6_D_def)
qed

end
