(* ===== verification/AuditLog.thy ===== *)
theory AuditLog
  imports Db Net "HOL-Library.Sublist"
begin

text \<open>
  \<^verbatim>\<open>src/internal/audit\<close> and \<^verbatim>\<open>src/internal/settings\<close>: the log of what was done through the
  interfaces, and the settings of the user interface, as rows of the storage engine. A row of the log has
  the time in its key, so the log is read in the order of time. The values inside an entry's maps are a
  type parameter.
\<close>

section \<open>Rows between two keys\<close>

type_synonym 's db_range = "'s \<Rightarrow> string \<Rightarrow> bytes \<Rightarrow> bytes \<Rightarrow> go_error + (bytes \<times> bytes) list"

text \<open>The rows that \<^verbatim>\<open>Iterate\<close> passes to a callback that never stops, from one key to another.\<close>

definition engine_range :: "engine db_range" where
  "engine_range e t start endv = eng_Iterate e t start endv (\<lambda>rows k v. (rows @ [(k, v)], True)) []"

locale range_db = row_db +
  fixes range :: "'a db_range"
  assumes range_rows: "inv s \<Longrightarrow>
    range s t a b = (case db_Rows db s t of Inl err \<Rightarrow> Inl err | Inr rows \<Rightarrow> Inr (filter (\<lambda>(k, v). in_range a b k) rows))"

lemma collect_rows: "run_rows (\<lambda>rows k v. (rows @ [(k, v)], True)) rs acc = acc @ rs"
  by (induction rs arbitrary: acc) auto

interpretation edbr: range_db engine_db db_inv db_view db_fits engine_range
proof (unfold_locales, goal_cases)
  case (1 s t a b)
  show ?case
  proof (cases "map_of (e_trees s) t")
    case None
    then show ?thesis by (simp add: engine_range_def engine_db_def eng_Iterate_def)
  next
    case (Some tree)
    then have "bt_inv tree" using 1 by (auto simp: db_inv_def eng_ok_def dest: trees_inv_tree)
    then show ?thesis
      using Some by (simp add: engine_range_def engine_db_def eng_Iterate_def bt_Iterate_rows collect_rows in_range_def)
  qed
qed

section \<open>types.go\<close>

record 'v audit_entry =
  en_ID :: string
  en_Timestamp :: time
  en_Actor :: string
  en_Action :: string
  en_ObjectType :: string
  en_ObjectID :: string
  en_Source :: string
  en_Before :: "(string \<times> 'v) list"
  en_After :: "(string \<times> 'v) list"
  en_Meta :: "(string \<times> 'v) list"

record QueryFilter =
  qf_Actor :: string
  qf_Action :: string
  qf_ObjectType :: string
  qf_ObjectID :: string
  qf_Source :: string
  qf_Query :: string
  qf_From :: time
  qf_To :: time
  qf_Limit :: int

section \<open>logger.go\<close>

abbreviation treeAudit :: string where "treeAudit \<equiv> ''audit''"

record ('s, 'v) audit_logger =
  au_db :: "'s db_ops"
  au_range :: "'s db_range"
  au_codec :: "'v audit_entry codec"

text \<open>\<^verbatim>\<open>Time.UnixNano\<close>.\<close>

definition time_unixnano :: "time \<Rightarrow> int" where
  "time_unixnano t = i64 (t - unix_epoch_s * second_ns)"

definition audit_key :: "'v audit_entry \<Rightarrow> bytes" where
  "audit_key x = pad_dec 20 (time_unixnano (en_Timestamp x)) @ CHR 0x1F # en_ID x"

text \<open>\<open>rnd\<close> is what the read of eight random bytes delivers.\<close>

definition audit_stamp :: "go_error + bytes \<Rightarrow> time \<Rightarrow> 'v audit_entry \<Rightarrow> go_error + 'v audit_entry" where
  "audit_stamp rnd now e0 =
     (let e1 = (if is_zero_time (en_Timestamp e0) then e0\<lparr>en_Timestamp := now\<rparr> else e0) in
      rbind (if TrimSpace (en_ID e1) = [] then rbind rnd (\<lambda>b. Inr (e1\<lparr>en_ID := hex_encode b\<rparr>)) else Inr e1) (\<lambda>e2.
        Inr (if TrimSpace (en_Source e2) = [] then e2\<lparr>en_Source := ''api''\<rparr> else e2)))"

definition audit_Log ::
  "('s, 'v) audit_logger \<Rightarrow> go_error + bytes \<Rightarrow> time \<Rightarrow> 'v audit_entry \<Rightarrow> 's \<Rightarrow> 's \<times> go_error option" where
  "audit_Log v rnd now e0 s =
     (case audit_stamp rnd now e0 of
        Inl err \<Rightarrow> (s, Some err)
      | Inr x \<Rightarrow> put_row (au_db v) (au_codec v) treeAudit (audit_key x) x now s)"

definition field_matches :: "string \<Rightarrow> string \<Rightarrow> bool" where
  "field_matches wanted actual \<longleftrightarrow> wanted = [] \<or> EqualFold actual wanted"

definition matchesFilter :: "'v audit_entry \<Rightarrow> QueryFilter \<Rightarrow> bool" where
  "matchesFilter x f \<longleftrightarrow>
     field_matches (qf_Actor f) (en_Actor x) \<and> field_matches (qf_Action f) (en_Action x) \<and>
     field_matches (qf_ObjectType f) (en_ObjectType x) \<and> field_matches (qf_ObjectID f) (en_ObjectID x) \<and>
     field_matches (qf_Source f) (en_Source x) \<and>
     (qf_Query f = [] \<or>
      sublist (ToLower (TrimSpace (qf_Query f)))
        (ToLower (en_Actor x @ '' '' @ en_Action x @ '' '' @ en_ObjectType x @ '' '' @ en_ObjectID x @ '' '' @ en_Source x)))"

text \<open>The callback of the iteration: the entries collected so far, until there are as many as the limit.\<close>

fun query_rows :: "'v audit_entry codec \<Rightarrow> QueryFilter \<Rightarrow> (bytes \<times> bytes) list \<Rightarrow> 'v audit_entry list \<Rightarrow> 'v audit_entry list" where
  "query_rows C f [] out = out"
| "query_rows C f ((k, v) # rows) out =
     (case c_unmarshal C v of
        None \<Rightarrow> query_rows C f rows out
      | Some x \<Rightarrow>
          if \<not> matchesFilter x f then query_rows C f rows out
          else if qf_Limit f > 0 \<and> int (length (out @ [x])) \<ge> qf_Limit f then out @ [x]
          else query_rows C f rows (out @ [x]))"

definition query_start :: "QueryFilter \<Rightarrow> bytes" where
  "query_start f = (if is_zero_time (qf_From f) then [] else pad_dec 20 (time_unixnano (qf_From f)))"

definition query_end :: "QueryFilter \<Rightarrow> bytes" where
  "query_end f = (if is_zero_time (qf_To f) then [] else pad_dec 20 (time_unixnano (qf_To f)) @ [CHR 0x1F, CHR 0xFF])"

definition audit_Query :: "('s, 'v) audit_logger \<Rightarrow> 's \<Rightarrow> QueryFilter \<Rightarrow> go_error + 'v audit_entry list" where
  "audit_Query v s f =
     (case au_range v s treeAudit (query_start f) (query_end f) of
        Inl ErrNotFound \<Rightarrow> Inr []
      | Inl err \<Rightarrow> Inl err
      | Inr rows \<Rightarrow>
          Inr (sort_by (\<lambda>x y. en_Timestamp x > en_Timestamp y) (query_rows (au_codec v) f rows [])))"

section \<open>ui_store.go\<close>

abbreviation treeSettings :: string where "treeSettings \<equiv> ''settings''"
abbreviation keyUI :: bytes where "keyUI \<equiv> ''ui''"

record UISettings =
  ui_Theme :: string
  ui_Density :: string
  ui_AutoRefresh :: bool

record 's ui_store =
  us_db :: "'s db_ops"
  us_codec :: "UISettings codec"

definition DefaultUISettings :: UISettings where
  "DefaultUISettings = \<lparr>ui_Theme = ''system'', ui_Density = ''comfortable'', ui_AutoRefresh = True\<rparr>"

definition ui_defaults :: "UISettings \<Rightarrow> UISettings" where
  "ui_defaults u =
     u\<lparr>ui_Theme := (if ui_Theme u = [] then ''system'' else ui_Theme u),
       ui_Density := (if ui_Density u = [] then ''comfortable'' else ui_Density u)\<rparr>"

definition ui_Get :: "'s ui_store \<Rightarrow> 's \<Rightarrow> go_error + UISettings" where
  "ui_Get v s =
     (case db_Get (us_db v) s treeSettings keyUI of
        Inl ErrNotFound \<Rightarrow> Inr DefaultUISettings
      | Inl err \<Rightarrow> Inl err
      | Inr raw \<Rightarrow>
          (case c_unmarshal (us_codec v) raw of None \<Rightarrow> Inl (ErrMsg ''json'') | Some u \<Rightarrow> Inr (ui_defaults u)))"

definition ui_Set :: "'s ui_store \<Rightarrow> time \<Rightarrow> UISettings \<Rightarrow> 's \<Rightarrow> 's \<times> go_error option" where
  "ui_Set v now u s = put_row (us_db v) (us_codec v) treeSettings keyUI (ui_defaults u) now s"

end
