(* ===== verification/AuditProps.thy ===== *)
theory AuditProps
  imports AuditLog DbDemo
begin

text \<open>
  The audit log on the storage engine: what a query returns of the entries that were logged, and that the
  settings come back as they were stored.
\<close>

section \<open>Keys and times\<close>

definition unix_range :: "time \<Rightarrow> bool" where
  "unix_range t \<longleftrightarrow> unix_epoch_s * second_ns \<le> t \<and> t < unix_epoch_s * second_ns + 2 ^ 63"

text \<open>An entry of our times, whose identifier does not begin with a byte that no UTF-8 text has.\<close>

definition good_entry :: "'v audit_entry \<Rightarrow> bool" where
  "good_entry x \<longleftrightarrow> unix_range (en_Timestamp x) \<and> (en_ID x = [] \<or> hd (en_ID x) < CHR 0xFF)"

definition nano_digits :: "time \<Rightarrow> bytes" where
  "nano_digits t = fixed 20 (nat (t - unix_epoch_s * second_ns))"

lemma pad_nano: "unix_range t \<Longrightarrow> pad_dec 20 (time_unixnano t) = nano_digits t"
  by (simp add: unix_range_def time_unixnano_def nano_digits_def pad_dec_fixed)

lemma nano_less: "unix_range t \<Longrightarrow> unix_range u \<Longrightarrow> nano_digits t < nano_digits u \<longleftrightarrow> t < u"
  unfolding nano_digits_def by (subst fixed_less) (auto simp: unix_range_def nat_less_iff)

lemma nano_eq: "unix_range t \<Longrightarrow> unix_range u \<Longrightarrow> nano_digits t = nano_digits u \<longleftrightarrow> t = u"
  using nano_less [of t u] nano_less [of u t] by (metis less_irrefl linorder_less_linear)

lemma length_nano [simp]: "length (nano_digits t) = 20"
  by (simp add: nano_digits_def)

lemma audit_key_good: "good_entry x \<Longrightarrow> audit_key x = nano_digits (en_Timestamp x) @ CHR 0x1F # en_ID x"
  by (simp add: good_entry_def audit_key_def pad_nano)

lemma key_order:
  assumes "good_entry x" "good_entry y" "audit_key x < audit_key y"
  shows "en_Timestamp x \<le> en_Timestamp y"
proof -
  have "nano_digits (en_Timestamp x) < nano_digits (en_Timestamp y) \<or> nano_digits (en_Timestamp x) = nano_digits (en_Timestamp y)"
    using assms(3) by (auto simp: audit_key_good [OF assms(1)] audit_key_good [OF assms(2)] list_less_append_same_length)
  then show ?thesis using nano_less nano_eq assms(1,2) by (auto simp: good_entry_def)
qed

lemma query_window:
  assumes "good_entry x" "is_zero_time (qf_From f) \<or> unix_range (qf_From f)" "is_zero_time (qf_To f) \<or> unix_range (qf_To f)"
  shows "in_range (query_start f) (query_end f) (audit_key x) \<longleftrightarrow>
    (is_zero_time (qf_From f) \<or> qf_From f \<le> en_Timestamp x) \<and> (is_zero_time (qf_To f) \<or> en_Timestamp x \<le> qf_To f)"
proof -
  let ?d = nano_digits
  have x: "unix_range (en_Timestamp x)" using assms(1) by (simp add: good_entry_def)
  have lo: "?d t \<le> ?d u @ r \<longleftrightarrow> t \<le> u" if "unix_range t" "unix_range u" for t u r
  proof -
    have "?d u @ r < ?d t @ [] \<longleftrightarrow> u < t"
      using list_less_append_same_length [of "?d u" "?d t" r "[]"] nano_less [of u t] that by auto
    then show ?thesis by (simp add: not_less [symmetric])
  qed
  have idl: "\<not> [CHR 0xFF] < en_ID x" using assms(1) by (cases "en_ID x") (auto simp: good_entry_def)
  have hi: "?d (en_Timestamp x) @ CHR 0x1F # en_ID x \<le> ?d t @ [CHR 0x1F, CHR 0xFF] \<longleftrightarrow> en_Timestamp x \<le> t" if "unix_range t" for t
  proof -
    have "?d t @ [CHR 0x1F, CHR 0xFF] < ?d (en_Timestamp x) @ CHR 0x1F # en_ID x \<longleftrightarrow> t < en_Timestamp x"
      using list_less_append_same_length [of "?d t" "?d (en_Timestamp x)" "[CHR 0x1F, CHR 0xFF]" "CHR 0x1F # en_ID x"]
        nano_less [OF that x] nano_eq [OF that x] idl by (auto simp: Cons_less_Cons)
    then show ?thesis by (simp add: not_less [symmetric])
  qed
  show ?thesis
    using assms(2,3) lo [OF _ x] hi
    by (auto simp: in_range_def query_start_def query_end_def audit_key_good [OF assms(1)] pad_nano is_zero_time_def)
qed

section \<open>Sorting\<close>

lemma length_insert_by [simp]: "length (insert_by lt x xs) = Suc (length xs)"
  by (induction xs) auto

lemma length_sort_by [simp]: "length (sort_by lt xs) = length xs"
  by (induction xs) (auto simp: sort_by_def)

lemma distinct_insert_by [simp]: "distinct (insert_by lt x xs) \<longleftrightarrow> x \<notin> set xs \<and> distinct xs"
  by (induction xs) auto

lemma distinct_sort_by [simp]: "distinct (sort_by lt xs) \<longleftrightarrow> distinct xs"
proof (induction xs)
  case (Cons x xs)
  have "sort_by lt (x # xs) = insert_by lt x (sort_by lt xs)" by (simp add: sort_by_def)
  then show ?case using Cons by simp
qed (simp add: sort_by_def)

lemma insert_newest:
  fixes g :: "'a \<Rightarrow> int"
  shows "sorted_wrt (\<lambda>x y. g y \<le> g x) xs \<Longrightarrow> sorted_wrt (\<lambda>x y. g y \<le> g x) (insert_by (\<lambda>x y. g y < g x) z xs)"
  by (induction xs) (auto simp: not_less intro: order_trans)

lemma sort_newest: "sorted_wrt (\<lambda>x y. g y \<le> g x) (sort_by (\<lambda>x y. g y < (g x :: int)) xs)"
  by (induction xs) (auto simp: sort_by_def insert_newest)

section \<open>What the callback collects\<close>

definition row_entry :: "'v audit_entry codec \<Rightarrow> QueryFilter \<Rightarrow> bytes \<times> bytes \<Rightarrow> 'v audit_entry option" where
  "row_entry C f = (\<lambda>(k, v). case c_unmarshal C v of None \<Rightarrow> None | Some x \<Rightarrow> if matchesFilter x f then Some x else None)"

definition row_entries :: "'v audit_entry codec \<Rightarrow> QueryFilter \<Rightarrow> (bytes \<times> bytes) list \<Rightarrow> 'v audit_entry list" where
  "row_entries C f = List.map_filter (row_entry C f)"

lemma row_entries_simps [simp]:
  "row_entries C f [] = []"
  "row_entries C f (r # rows) = (case row_entry C f r of None \<Rightarrow> row_entries C f rows | Some x \<Rightarrow> x # row_entries C f rows)"
  by (simp_all add: row_entries_def split: option.split)

lemma query_rows_take:
  "0 < qf_Limit f \<Longrightarrow> int (length out) < qf_Limit f \<Longrightarrow>
   query_rows C f rows out = out @ take (nat (qf_Limit f) - length out) (row_entries C f rows)"
proof (induction C f rows out rule: query_rows.induct)
  case (2 C f k v rows out)
  show ?case
  proof (cases "row_entry C f (k, v)")
    case None
    then show ?thesis using 2 by (auto simp: row_entry_def split: option.splits if_splits)
  next
    case (Some x)
    then have x: "c_unmarshal C v = Some x" "matchesFilter x f" by (auto simp: row_entry_def split: option.splits if_splits)
    show ?thesis
    proof (cases "int (length (out @ [x])) < qf_Limit f")
      case True
      then have "nat (qf_Limit f) - length out = Suc (nat (qf_Limit f) - length (out @ [x]))" by simp
      then show ?thesis using 2(3) [OF x(1)] 2(4) x True Some by simp
    next
      case False
      then have "nat (qf_Limit f) - length out = 1" using 2(5) by simp
      then show ?thesis using x False 2(4) Some by simp
    qed
  qed
qed simp

lemma row_entries_keys:
  assumes "\<forall>(k, v)\<in>set rows. \<forall>x. c_unmarshal C v = Some x \<longrightarrow> audit_key x = k" "sorted_wrt (<) (map fst rows)"
  shows "sorted_wrt (<) (map audit_key (row_entries C f rows)) \<and> audit_key ` set (row_entries C f rows) \<subseteq> set (map fst rows)"
  using assms
proof (induction rows)
  case (Cons r rows)
  have "audit_key x = fst r" if "row_entry C f r = Some x" for x
    using that Cons.prems(1) by (cases r) (auto simp: row_entry_def split: option.splits if_splits)
  moreover have i: "audit_key ` set (row_entries C f rows) \<subseteq> fst ` set rows"
    "sorted_wrt (<) (map audit_key (row_entries C f rows))" using Cons by auto
  moreover have "fst r < audit_key x" if "x \<in> set (row_entries C f rows)" for x
  proof -
    have "audit_key x \<in> fst ` set rows" using i(1) that by blast
    then show ?thesis using Cons.prems(2) by auto
  qed
  ultimately show ?case by (cases "row_entry C f r") auto
qed simp

section \<open>Runs of the log\<close>

definition audit_on_engine :: "(engine, 'v) audit_logger \<Rightarrow> bool" where
  "audit_on_engine v \<longleftrightarrow> au_db v = engine_db \<and> au_range v = engine_range \<and> codec_ok (au_codec v)"

abbreviation logged_at :: "(engine, 'v) audit_logger \<Rightarrow> engine \<Rightarrow> bytes \<Rightarrow> 'v audit_entry option" where
  "logged_at v s \<equiv> edb.entry (au_codec v) s treeAudit"

text \<open>
  The runs of the log over an engine, with the entries that were logged, newest first: each is the entry that was given with its time,
  identifier and source filled in. A call that gets no random bytes or an entry that cannot be encoded logs nothing; other writes leave the
  tree of the log alone.
\<close>

inductive audit_reach :: "(engine, 'v) audit_logger \<Rightarrow> 'v audit_entry list \<Rightarrow> engine \<Rightarrow> bool" for v where
  start: "db_inv s \<Longrightarrow> db_view s treeAudit = Map.empty \<Longrightarrow> audit_reach v [] s"
| log: "audit_reach v log s \<Longrightarrow> audit_stamp rnd now e0 = Inr x \<Longrightarrow> c_marshal (au_codec v) x \<noteq> None \<Longrightarrow> good_entry x \<Longrightarrow>
     row_fits (au_codec v) treeAudit (audit_key x) x \<Longrightarrow> audit_reach v (x # log) (fst (audit_Log v rnd now e0 s))"
| refused: "audit_reach v log s \<Longrightarrow> (\<And>x. audit_stamp rnd now e0 = Inr x \<Longrightarrow> c_marshal (au_codec v) x = None) \<Longrightarrow>
     audit_reach v log (fst (audit_Log v rnd now e0 s))"
| other: "audit_reach v log s \<Longrightarrow> db_inv s' \<Longrightarrow> db_view s' treeAudit = db_view s treeAudit \<Longrightarrow> audit_reach v log s'"

text \<open>The entry that the log keeps under a key: the newest, where two have the same time and identifier.\<close>

definition kept_at :: "'v audit_entry list \<Rightarrow> bytes \<Rightarrow> 'v audit_entry option" where
  "kept_at log = map_of (map (\<lambda>x. (audit_key x, x)) log)"

lemma kept_at_simps [simp]: "kept_at [] = Map.empty" "kept_at (x # log) = (kept_at log)(audit_key x \<mapsto> x)"
  by (simp_all add: kept_at_def)

lemma kept_at_key: "kept_at log k = Some x \<Longrightarrow> audit_key x = k \<and> x \<in> set log"
  by (induction log) (auto split: if_splits)

definition log_inv :: "(engine, 'v) audit_logger \<Rightarrow> 'v audit_entry list \<Rightarrow> engine \<Rightarrow> bool" where
  "log_inv v log s \<longleftrightarrow> db_inv s \<and> logged_at v s = kept_at log \<and> (\<forall>x\<in>set log. good_entry x)"

lemma audit_reach_inv:
  assumes "audit_on_engine v" "audit_reach v log s"
  shows "log_inv v log s"
  using assms(2)
proof induction
  case (start s)
  then show ?case by (simp add: log_inv_def edb.entry_def fun_eq_iff)
next
  case (log log s rnd now e0 x)
  then obtain raw where raw: "c_marshal (au_codec v) x = Some raw" by auto
  have "db_fits treeAudit (audit_key x) raw" using log(5) raw by (simp add: row_fits_def)
  then have "db_inv (fst (audit_Log v rnd now e0 s)) \<and>
      logged_at v (fst (audit_Log v rnd now e0 s)) = (logged_at v s)(audit_key x \<mapsto> x)"
    using edb.put_row_entry [of s "au_codec v" x raw treeAudit "audit_key x" now] raw log(2,6) assms(1)
    by (auto simp: log_inv_def audit_on_engine_def codec_ok_def audit_Log_def)
  then show ?case using log(4,6) by (simp add: log_inv_def)
next
  case (refused log s rnd now e0)
  then have "fst (audit_Log v rnd now e0 s) = s" by (auto simp: audit_Log_def put_row_def split: sum.split)
  then show ?case using refused by simp
next
  case (other log s s')
  then show ?case by (simp add: log_inv_def edb.entry_def fun_eq_iff)
qed

text \<open>The logged entries that a filter asks for.\<close>

definition wanted_entries :: "'v audit_entry list \<Rightarrow> QueryFilter \<Rightarrow> 'v audit_entry set" where
  "wanted_entries log f = {x. kept_at log (audit_key x) = Some x \<and> matchesFilter x f \<and>
     (is_zero_time (qf_From f) \<or> qf_From f \<le> en_Timestamp x) \<and> (is_zero_time (qf_To f) \<or> en_Timestamp x \<le> qf_To f)}"

text \<open>How many of a number of matches a query returns; no limit, or a negative one, is none.\<close>

definition limited :: "QueryFilter \<Rightarrow> nat \<Rightarrow> nat" where
  "limited f n = (if 0 < qf_Limit f then min (nat (qf_Limit f)) n else n)"

lemma query_rows_all: "\<not> 0 < qf_Limit f \<Longrightarrow> query_rows C f rows out = out @ row_entries C f rows"
proof (induction C f rows out rule: query_rows.induct)
  case (2 C f k v rows out)
  then show ?case by (simp add: row_entry_def split: option.split)
qed simp

lemma query_rows_limited:
  "query_rows C f rows [] = take (limited f (length (row_entries C f rows))) (row_entries C f rows)"
  using query_rows_take [of f "[]" C rows] query_rows_all [of f C rows "[]"] by (auto simp: limited_def min_def)

lemma query_entries:
  assumes "audit_on_engine v" "audit_reach v log s"
    "is_zero_time (qf_From f) \<or> unix_range (qf_From f)" "is_zero_time (qf_To f) \<or> unix_range (qf_To f)"
  obtains E where "set E = wanted_entries log f" "sorted_wrt (<) (map audit_key E)"
    "audit_Query v s f = Inr (sort_by (\<lambda>x y. en_Timestamp x > en_Timestamp y) (take (limited f (length E)) E))"
proof -
  have i: "db_inv s" "logged_at v s = kept_at log" "\<forall>x\<in>set log. good_entry x"
    using audit_reach_inv [OF assms(1,2)] by (auto simp: log_inv_def)
  show ?thesis
  proof (cases "db_Rows engine_db s treeAudit = Inl ErrNotFound \<and> db_view s treeAudit = Map.empty")
    case True
    then have "audit_Query v s f = Inr []"
      using i assms(1) edbr.range_rows [of s treeAudit] by (simp add: audit_Query_def audit_on_engine_def)
    moreover have "kept_at log = Map.empty" using True i(2) by (simp add: edb.entry_def fun_eq_iff)
    ultimately show ?thesis using that [of "[]"] by (simp add: wanted_entries_def sort_by_def)
  next
    case False
    then obtain rows where r: "db_Rows engine_db s treeAudit = Inr rows" "sorted_wrt (<) (map fst rows)"
      "map_of rows = db_view s treeAudit" using edb.db_rows [of s treeAudit] i(1) by auto
    let ?R = "filter (\<lambda>(k, v). in_range (query_start f) (query_end f) k) rows"
    let ?E = "row_entries (au_codec v) f ?R"
    have mem: "(k, w) \<in> set rows \<longleftrightarrow> db_view s treeAudit k = Some w" for k w
      using edb.map_of_sorted_set [OF r(2)] r(3) by simp
    have at: "kept_at log k = Some x \<longleftrightarrow> (\<exists>w. (k, w) \<in> set rows \<and> c_unmarshal (au_codec v) w = Some x)" for k x
      unfolding i(2) [symmetric] by (auto simp: edb.entry_def mem bind_eq_Some_conv)
    have key: "audit_key x = k \<and> good_entry x" if "(k, w) \<in> set rows" "c_unmarshal (au_codec v) w = Some x" for k w x
      using kept_at_key [of log k x] at that i(3) by blast
    have "sorted_wrt (<) (map fst ?R)" using r(2) by (simp add: sorted_wrt_map sorted_wrt_filter)
    then have "sorted_wrt (<) (map audit_key ?E)" using row_entries_keys [of ?R "au_codec v" f] key by auto
    moreover have "set ?E = wanted_entries log f"
    proof -
      have "set ?E = {x. \<exists>k w. (k, w) \<in> set ?R \<and> c_unmarshal (au_codec v) w = Some x \<and> matchesFilter x f}"
        by (force simp: row_entries_def row_entry_def List.map_filter_def split: option.splits if_splits)
      also have "\<dots> = wanted_entries log f"
      proof (rule set_eqI)
        fix x
        have "x \<in> {x. \<exists>k w. (k, w) \<in> set ?R \<and> c_unmarshal (au_codec v) w = Some x \<and> matchesFilter x f} \<longleftrightarrow>
            kept_at log (audit_key x) = Some x \<and> in_range (query_start f) (query_end f) (audit_key x) \<and> matchesFilter x f"
          using key unfolding at by auto
        then show "x \<in> {x. \<exists>k w. (k, w) \<in> set ?R \<and> c_unmarshal (au_codec v) w = Some x \<and> matchesFilter x f} \<longleftrightarrow> x \<in> wanted_entries log f"
          using query_window [OF _ assms(3,4), of x] i(3) kept_at_key [of log "audit_key x" x] by (auto simp: wanted_entries_def)
      qed
      finally show ?thesis .
    qed
    moreover have "audit_Query v s f = Inr (sort_by (\<lambda>x y. en_Timestamp x > en_Timestamp y) (take (limited f (length ?E)) ?E))"
      using assms(1) i edbr.range_rows [of s treeAudit] r(1) by (simp add: audit_Query_def audit_on_engine_def query_rows_limited)
    ultimately show ?thesis using that by blast
  qed
qed

text \<open>C19: However entries are logged and other rows are written on the engine, a query without a limit returns exactly the logged entries
  that match the filter within its window of time, newest first (of two entries with the same time and identifier the later one
  counts; the times are those that a 64-bit count of nanoseconds since 1970 can represent). With a limit it returns no more than that many, and those are the oldest:
  every matching entry left out is at least as new as every entry returned.\<close>

theorem audit_limit_keeps_oldest:
  assumes "audit_on_engine v" "audit_reach v log s"
    "is_zero_time (qf_From f) \<or> unix_range (qf_From f)" "is_zero_time (qf_To f) \<or> unix_range (qf_To f)"
  shows "\<exists>out. audit_Query v s f = Inr out \<and> distinct out \<and> set out \<subseteq> wanted_entries log f \<and>
    length out = (if 0 < qf_Limit f then min (nat (qf_Limit f)) (card (wanted_entries log f)) else card (wanted_entries log f)) \<and>
    sorted_wrt (\<lambda>x y. en_Timestamp y \<le> en_Timestamp x) out \<and> (\<not> 0 < qf_Limit f \<longrightarrow> set out = wanted_entries log f) \<and>
    (\<forall>x\<in>set out. \<forall>y\<in>wanted_entries log f - set out. en_Timestamp x \<le> en_Timestamp y)"
proof -
  obtain E where E: "set E = wanted_entries log f" "sorted_wrt (<) (map audit_key E)"
    "audit_Query v s f = Inr (sort_by (\<lambda>x y. en_Timestamp x > en_Timestamp y) (take (limited f (length E)) E))"
    by (rule query_entries [OF assms])
  let ?n = "limited f (length E)"
  have d: "distinct E" using E(2) by (simp add: strict_sorted_iff distinct_map)
  have good: "good_entry x" if "x \<in> set E" for x
    using audit_reach_inv [OF assms(1,2)] that E(1) by (auto simp: log_inv_def wanted_entries_def dest: kept_at_key)
  have lt: "audit_key x < audit_key y" if "x \<in> set (take ?n E)" "y \<in> set (drop ?n E)" for x y
  proof -
    have "sorted_wrt (<) (map audit_key (take ?n E @ drop ?n E))" using E(2) by simp
    then show ?thesis using that by (simp only: map_append sorted_wrt_append set_map) blast
  qed
  then have old: "en_Timestamp x \<le> en_Timestamp y" if "x \<in> set (take ?n E)" "y \<in> set E - set (take ?n E)" for x y
  proof -
    have "set E = set (take ?n E) \<union> set (drop ?n E)" by (metis append_take_drop_id set_append)
    then have "y \<in> set (drop ?n E)" "x \<in> set E" "y \<in> set E" using that by auto
    then show ?thesis using key_order [OF good good] lt that(1) by blast
  qed
  have "card (wanted_entries log f) = length E" using d E(1) by (metis distinct_card)
  then have "length (take ?n E) = (if 0 < qf_Limit f then min (nat (qf_Limit f)) (card (wanted_entries log f)) else card (wanted_entries log f))"
    by (auto simp: limited_def)
  moreover have "\<not> 0 < qf_Limit f \<longrightarrow> take ?n E = E" by (simp add: limited_def)
  ultimately show ?thesis
    using E(1,3) d old sort_newest [of en_Timestamp "take ?n E"] set_take_subset [of ?n E]
    by (intro exI [of _ "sort_by (\<lambda>x y. en_Timestamp x > en_Timestamp y) (take ?n E)"]) auto
qed

section \<open>Settings\<close>

lemma ui_defaults_idem [simp]: "ui_defaults (ui_defaults u) = ui_defaults u"
  by (simp add: ui_defaults_def)

lemma ui_settings_roundtrip:
  assumes "us_db v = engine_db" "codec_ok (us_codec v)" "db_inv s" "row_fits (us_codec v) treeSettings keyUI (ui_defaults u)"
    "ui_Set v now u s = (s', None)"
  shows "ui_Get v s' = Inr (ui_defaults u)"
proof -
  obtain raw where raw: "c_marshal (us_codec v) (ui_defaults u) = Some raw"
    using assms(5) by (cases "c_marshal (us_codec v) (ui_defaults u)") (auto simp: ui_Set_def put_row_def)
  then have "db_Put engine_db treeSettings keyUI raw now s = (s', None)" "db_fits treeSettings keyUI raw"
    using assms(1,4,5) by (auto simp: ui_Set_def put_row_def row_fits_def)
  then have "db_inv s'" "db_view s' treeSettings keyUI = Some raw"
    using edb.db_put [OF assms(3), of treeSettings keyUI raw now] by auto
  moreover have "c_unmarshal (us_codec v) raw = Some (ui_defaults u)" using raw assms(2) by (simp add: codec_ok_def)
  ultimately show ?thesis using assms(1) by (simp add: ui_Get_def edb.db_get)
qed

section \<open>A log of two entries\<close>

definition demo_entry :: "nat \<Rightarrow> string \<Rightarrow> unit audit_entry" where
  "demo_entry n ident = \<lparr>en_ID = ident, en_Timestamp = unix_epoch_s * second_ns + int n, en_Actor = ''ann'', en_Action = ''login'',
     en_ObjectType = [], en_ObjectID = [], en_Source = ''api'', en_Before = [], en_After = [], en_Meta = []\<rparr>"

definition demo_logger :: "(engine, unit) audit_logger" where
  "demo_logger = \<lparr>au_db = engine_db, au_range = engine_range, au_codec = table_codec [demo_entry 5 ''a'', demo_entry 7 ''b'']\<rparr>"

definition demo_filter :: QueryFilter where
  "demo_filter = \<lparr>qf_Actor = [], qf_Action = [], qf_ObjectType = [], qf_ObjectID = [], qf_Source = [], qf_Query = [],
     qf_From = 0, qf_To = 0, qf_Limit = 1\<rparr>"

lemma demo_log:
  assumes "audit_reach demo_logger log s" "x \<in> {demo_entry 5 ''a'', demo_entry 7 ''b''}"
  shows "\<exists>s'. audit_reach demo_logger (x # log) s'"
proof -
  have on: "audit_on_engine demo_logger" by (simp add: audit_on_engine_def demo_logger_def table_codec_ok)
  have i: "db_inv s" using audit_reach_inv [OF on assms(1)] by (simp add: log_inv_def)
  have trim: "TrimSpace ''a'' = ''a''" "TrimSpace ''b'' = ''b''" "TrimSpace ''api'' = ''api''"
    by (rule TrimSpace_printable; simp add: printable_def byte_nat_def)+
  have st: "audit_stamp rnd now x = Inr x" for rnd now
    using assms(2) trim by (auto simp: audit_stamp_def demo_entry_def is_zero_time_def unix_epoch_s_def second_ns_def)
  have g: "good_entry x"
    using assms(2) by (auto simp: good_entry_def unix_range_def demo_entry_def less_char_def)
  have k: "length (audit_key x) < 100" using assms(2) by (auto simp: audit_key_good [OF g]) (auto simp: demo_entry_def)
  have "\<exists>s'. put_row engine_db (table_codec [demo_entry 5 ''a'', demo_entry 7 ''b'']) treeAudit (audit_key x) x 0 s = (s', None)"
    using demo_put(1) [OF i, of x "[demo_entry 5 ''a'', demo_entry 7 ''b'']" "audit_key x" treeAudit 0] assms(2) k
    by (auto simp: wf_name_def)
  then have "c_marshal (au_codec demo_logger) x \<noteq> None" by (auto simp: put_row_def demo_logger_def split: option.splits)
  then show ?thesis
    using audit_reach.log [OF assms(1) st [of "Inr []" 0] _ g] k
      demo_put(2) [OF i, of x "[demo_entry 5 ''a'', demo_entry 7 ''b'']" "audit_key x" treeAudit] assms(2)
    by (auto simp: demo_logger_def wf_name_def)
qed

theorem audit_limit_keeps_oldest_witness:
  "\<exists>log s. audit_reach demo_logger log s \<and> demo_entry 7 ''b'' \<in> wanted_entries log demo_filter \<and>
    audit_Query demo_logger s demo_filter = Inr [demo_entry 5 ''a''] \<and>
    (\<exists>out. audit_Query demo_logger s (demo_filter\<lparr>qf_Limit := 0\<rparr>) = Inr out \<and> set out = {demo_entry 5 ''a'', demo_entry 7 ''b''})"
proof -
  let ?a = "demo_entry 5 ''a''" and ?b = "demo_entry 7 ''b''"
  have on: "audit_on_engine demo_logger" by (simp add: audit_on_engine_def demo_logger_def table_codec_ok)
  have r0: "audit_reach demo_logger [] demo0" by (rule audit_reach.start) (simp_all add: db_inv_demo0 db_view_demo0)
  then obtain s where s: "audit_reach demo_logger [?b, ?a] s" using demo_log by blast
  have "audit_key ?a \<noteq> audit_key ?b" by (simp add: audit_key_def demo_entry_def)
  then have w: "wanted_entries [?b, ?a] (demo_filter\<lparr>qf_Limit := n\<rparr>) = {?a, ?b}" for n
    by (auto simp: wanted_entries_def demo_filter_def matchesFilter_def field_matches_def is_zero_time_def split: if_splits)
  have w1: "wanted_entries [?b, ?a] demo_filter = {?a, ?b}" using w [of 1] by (simp add: demo_filter_def)
  have ab: "?a \<noteq> ?b" "en_Timestamp ?a < en_Timestamp ?b" by (simp_all add: demo_entry_def)
  obtain out where out: "audit_Query demo_logger s demo_filter = Inr out" "set out \<subseteq> {?a, ?b}" "length out = 1"
    "\<forall>x\<in>set out. \<forall>y\<in>{?a, ?b} - set out. en_Timestamp x \<le> en_Timestamp y"
    using audit_limit_keeps_oldest [OF on s, of demo_filter] ab(1) unfolding w1 by (auto simp: demo_filter_def is_zero_time_def)
  then obtain x where x: "out = [x]" by (cases out) auto
  have "x \<noteq> ?b"
  proof
    assume "x = ?b"
    then have "?b \<in> set out" "?a \<in> {?a, ?b} - set out" using ab(1) by (simp_all add: x)
    then have "en_Timestamp ?b \<le> en_Timestamp ?a" using out(4) by blast
    then show False using ab(2) by simp
  qed
  then have "out = [?a]" using out(2) by (simp add: x)
  moreover obtain all where "audit_Query demo_logger s (demo_filter\<lparr>qf_Limit := 0\<rparr>) = Inr all" "set all = {?a, ?b}"
    using audit_limit_keeps_oldest [OF on s, of "demo_filter\<lparr>qf_Limit := 0\<rparr>"] unfolding w by (auto simp: demo_filter_def is_zero_time_def)
  ultimately show ?thesis using s w1 out(1) by blast
qed

end
