(* ===== verification/Events.thy ===== *)
theory Events
  imports GoStrings "HOL-Library.Sublist"
begin

text \<open>
  \<^verbatim>\<open>src/internal/events/broker.go\<close> and \<^verbatim>\<open>src/internal/webhook\<close>: the broker that hands events to its
  subscribers, and the webhooks among them. A channel is the list of what it holds, with the capacity of
  the broker; receiving from it is a step of its own. What the values of an event are is a type parameter,
  and the HTTP exchange of a delivery is an argument: what each attempt returns.
\<close>

section \<open>broker.go\<close>

record 'v event =
  ev_Type :: string
  ev_Timestamp :: time
  ev_Data :: "(string \<times> 'v) list"

record 'v broker =
  bk_nextID :: int
  bk_subs :: "(int \<times> 'v event list) list"
  bk_bufSize :: int

definition NewBroker :: "int \<Rightarrow> 'v broker" where
  "NewBroker bufferSize = \<lparr>bk_nextID = 0, bk_subs = [], bk_bufSize = (if bufferSize \<le> 0 then 32 else bufferSize)\<rparr>"

definition Subscribe :: "'v broker \<Rightarrow> 'v broker \<times> int" where
  "Subscribe b =
     (let i = i64 (bk_nextID b + 1) in (b\<lparr>bk_nextID := i, bk_subs := mput i [] (bk_subs b)\<rparr>, i))"

text \<open>The function that \<^verbatim>\<open>Subscribe\<close> returns.\<close>

definition bk_unsubscribe :: "int \<Rightarrow> 'v broker \<Rightarrow> 'v broker" where
  "bk_unsubscribe i b = b\<lparr>bk_subs := mdel i (bk_subs b)\<rparr>"

definition stamped :: "time \<Rightarrow> 'v event \<Rightarrow> 'v event" where
  "stamped now evt = (if is_zero_time (ev_Timestamp evt) then evt\<lparr>ev_Timestamp := now\<rparr> else evt)"

definition Publish :: "time \<Rightarrow> 'v event \<Rightarrow> 'v broker \<Rightarrow> 'v broker" where
  "Publish now evt b =
     b\<lparr>bk_subs := map (\<lambda>(i, ch). (i, if int (length ch) < bk_bufSize b then ch @ [stamped now evt] else ch)) (bk_subs b)\<rparr>"

text \<open>A subscriber takes the next event off its channel.\<close>

definition bk_receive :: "int \<Rightarrow> 'v broker \<Rightarrow> 'v broker \<times> 'v event option" where
  "bk_receive i b =
     (case map_of (bk_subs b) i of
        None \<Rightarrow> (b, None)
      | Some [] \<Rightarrow> (b, None)
      | Some (evt # ch) \<Rightarrow> (b\<lparr>bk_subs := mput i ch (bk_subs b)\<rparr>, Some evt))"

section \<open>dispatcher.go\<close>

record hook_config =
  hk_Name :: string
  hk_URL :: string
  hk_Events :: "string list"
  hk_Format :: string
  hk_Headers :: "(string \<times> string) list"
  hk_MaxAttempts :: int
  hk_Backoff :: string

fun matchesAny :: "string list \<Rightarrow> string \<Rightarrow> bool" where
  "matchesAny [] eventType \<longleftrightarrow> True"
| "matchesAny (p # ps) eventType \<longleftrightarrow>
     (let pattern = TrimSpace p in
      pattern = [] \<or> pattern = ''*'' \<or>
      (if ends_with ''.*'' pattern then starts_with (butlast pattern) eventType
       else EqualFold pattern eventType) \<or>
      (ps \<noteq> [] \<and> matchesAny ps eventType))"

definition normalizeHook :: "hook_config \<Rightarrow> hook_config" where
  "normalizeHook hook =
     hook\<lparr>hk_MaxAttempts := (if hk_MaxAttempts hook \<le> 0 then 3 else hk_MaxAttempts hook),
       hk_Format := (if TrimSpace (hk_Format hook) = [] then ''json'' else hk_Format hook),
       hk_Backoff := (if TrimSpace (hk_Backoff hook) = [] then ''exponential'' else hk_Backoff hook),
       hk_Events := (if hk_Events hook = [] then [''*''] else hk_Events hook)\<rparr>"

text \<open>What the dispatcher's first goroutine puts into its queue for one event, in the order of the hooks.\<close>

definition dispatch :: "hook_config list \<Rightarrow> 'v event \<Rightarrow> (hook_config \<times> 'v event) list" where
  "dispatch hooks evt = map (\<lambda>h. (h, evt)) (filter (\<lambda>h. matchesAny (hk_Events h) (ev_Type evt)) hooks)"

section \<open>delivery.go\<close>

text \<open>The shift and the product are 64-bit; a shift by 64 or more is zero.\<close>

definition retryDelay :: "nat \<Rightarrow> string \<Rightarrow> duration" where
  "retryDelay attempt mode =
     (if EqualFold mode ''fixed'' then second_ns
      else (let delay = i64 (second_ns * i64 (2 ^ (attempt - 1)))
            in if delay > 8 * second_ns then 8 * second_ns else delay))"

record DeliveryStatus =
  ds_Webhook :: string
  ds_EventType :: string
  ds_Attempts :: nat
  ds_Success :: bool
  ds_StatusCode :: int
  ds_Error :: string
  ds_Duration :: duration

text \<open>
  What attempt \<open>n\<close> returns (the status code and the error of \<^verbatim>\<open>sendOnce\<close>), and whether the context is
  done when the delivery would wait after it, with its error. The result has the waits as well.
\<close>

record exchange =
  ex_result :: "nat \<Rightarrow> int \<times> string option"
  ex_done :: "nat \<Rightarrow> string option"

definition attempt_error :: "int \<times> string option \<Rightarrow> string" where
  "attempt_error r = (case snd r of Some err \<Rightarrow> err | None \<Rightarrow> ''unexpected status code '' @ dec_int (fst r))"

definition attempt_ok :: "int \<times> string option \<Rightarrow> bool" where
  "attempt_ok r \<longleftrightarrow> snd r = None \<and> 200 \<le> fst r \<and> fst r < 300"

text \<open>\<open>n\<close> attempts are left, \<open>attempt\<close> is the next one's number.\<close>

fun send_loop :: "exchange \<Rightarrow> string \<Rightarrow> nat \<Rightarrow> nat \<Rightarrow> DeliveryStatus \<Rightarrow> DeliveryStatus \<times> duration list" where
  "send_loop x backoff 0 attempt st = (st, [])"
| "send_loop x backoff (Suc n) attempt st =
     (let r = ex_result x attempt;
          st1 = st\<lparr>ds_Attempts := attempt, ds_StatusCode := fst r\<rparr>
      in if attempt_ok r then (st1\<lparr>ds_Success := True\<rparr>, [])
         else if n = 0 then (st1\<lparr>ds_Error := attempt_error r\<rparr>, [])
         else (case ex_done x attempt of
                 Some err \<Rightarrow> (st1\<lparr>ds_Error := err\<rparr>, [])
               | None \<Rightarrow>
                   (case send_loop x backoff n (attempt + 1) st1 of
                      (st2, waits) \<Rightarrow> (st2, retryDelay attempt backoff # waits))))"

definition send_attempts :: "hook_config \<Rightarrow> nat" where
  "send_attempts hook = (if hk_MaxAttempts hook \<le> 0 then 3 else nat (hk_MaxAttempts hook))"

definition send_backoff :: "hook_config \<Rightarrow> string" where
  "send_backoff hook = (let b = ToLower (TrimSpace (hk_Backoff hook)) in if b = [] then ''exponential'' else b)"

text \<open>\<open>elapsed\<close> is the time since the start.\<close>

definition Send :: "exchange \<Rightarrow> duration \<Rightarrow> hook_config \<Rightarrow> 'v event \<Rightarrow> DeliveryStatus \<times> duration list" where
  "Send x elapsed hook evt =
     (case send_loop x (send_backoff hook) (send_attempts hook) 1
        \<lparr>ds_Webhook = hk_Name hook, ds_EventType = ev_Type evt, ds_Attempts = 0, ds_Success = False,
         ds_StatusCode = 0, ds_Error = [], ds_Duration = 0\<rparr> of
        (st, waits) \<Rightarrow> (st\<lparr>ds_Duration := elapsed\<rparr>, waits))"

definition slackColor :: "string \<Rightarrow> string" where
  "slackColor eventType =
     (if sublist ''conflict'' eventType \<or> sublist ''rogue'' eventType then ''danger''
      else if sublist ''expired'' eventType \<or> sublist ''deleted'' eventType then ''warning''
      else ''good'')"

end
