(* ===== verification/EventsProps.thy ===== *)
theory EventsProps
  imports Events
begin

text \<open>
  The broker and the webhooks: a subscriber that keeps up gets every event once and in order, and what the
  waits between the attempts of a delivery are.
\<close>

section \<open>Subscribers\<close>

text \<open>A sequence of publications and receipts of one subscriber; the events it got, oldest first.\<close>

datatype 'v broker_call = CallPublish time "'v event" | CallReceive

fun broker_run :: "int \<Rightarrow> 'v broker_call list \<Rightarrow> 'v broker \<Rightarrow> 'v broker \<times> 'v event list" where
  "broker_run i [] b = (b, [])"
| "broker_run i (CallPublish now evt # cs) b = broker_run i cs (Publish now evt b)"
| "broker_run i (CallReceive # cs) b =
     (case bk_receive i b of
        (b', None) \<Rightarrow> broker_run i cs b'
      | (b', Some evt) \<Rightarrow> (case broker_run i cs b' of (b'', got) \<Rightarrow> (b'', evt # got)))"

fun published :: "'v broker_call list \<Rightarrow> 'v event list" where
  "published [] = []"
| "published (CallPublish now evt # cs) = stamped now evt # published cs"
| "published (CallReceive # cs) = published cs"

text \<open>The channel never has to hold more than the broker's buffer.\<close>

fun keeps_up :: "int \<Rightarrow> nat \<Rightarrow> 'v broker_call list \<Rightarrow> bool" where
  "keeps_up cap n [] \<longleftrightarrow> True"
| "keeps_up cap n (CallPublish now evt # cs) \<longleftrightarrow> int n < cap \<and> keeps_up cap (Suc n) cs"
| "keeps_up cap n (CallReceive # cs) \<longleftrightarrow> keeps_up cap (n - 1) cs"

lemma map_of_channels: "map_of (map (\<lambda>(i, ch). (i, f ch)) m) k = map_option f (map_of m k)"
  by (induction m) auto

lemma subscriber_gets_all:
  assumes "map_of (bk_subs b) i = Some ch" "keeps_up (bk_bufSize b) (length ch) cs"
  shows "\<exists>ch'. map_of (bk_subs (fst (broker_run i cs b))) i = Some ch' \<and>
    snd (broker_run i cs b) @ ch' = ch @ published cs"
  using assms
proof (induction i cs b arbitrary: ch rule: broker_run.induct)
  case (2 i now evt cs b)
  have "map_of (bk_subs (Publish now evt b)) i = Some (ch @ [stamped now evt])"
    using 2(2,3) by (simp add: Publish_def map_of_channels)
  then show ?case using 2(1) [of "ch @ [stamped now evt]"] 2(3) by (simp add: Publish_def)
next
  case (3 i cs b)
  show ?case
  proof (cases ch)
    case Nil
    then have r: "bk_receive i b = (b, None)" using 3(3) by (simp add: bk_receive_def)
    then show ?thesis using 3(1) [OF r [symmetric]] 3(3,4) Nil by simp
  next
    case (Cons evt rest)
    let ?b = "b\<lparr>bk_subs := mput i rest (bk_subs b)\<rparr>"
    have r: "bk_receive i b = (?b, Some evt)" using 3(3) Cons by (simp add: bk_receive_def)
    have "\<exists>ch'. map_of (bk_subs (fst (broker_run i cs ?b))) i = Some ch' \<and> snd (broker_run i cs ?b) @ ch' = rest @ published cs"
      by (rule 3(2) [OF r [symmetric]]) (use 3(4) Cons in auto)
    then show ?thesis using r Cons by (auto split: prod.splits)
  qed
qed simp

section \<open>Waits between attempts\<close>

lemma i64_absorb: "i64 (a * i64 b) = i64 (a * b)"
proof -
  have "(a * ((b + 2 ^ 63) mod 2 ^ 64 - 2 ^ 63) + 2 ^ 63) mod 2 ^ 64 = (a * b + 2 ^ 63) mod (2 ^ 64 :: int)"
    by (metis (no_types, opaque_lifting) add_diff_cancel_right' mod_add_left_eq mod_diff_left_eq mod_mult_right_eq)
  then show ?thesis by (simp add: i64_def)
qed

lemma i64_multiple: "i64 (2 ^ 64 * x) = 0"
proof -
  have "(2 ^ 64 * x + 2 ^ 63) mod 2 ^ 64 = (2 ^ 63 :: int) mod 2 ^ 64" by (rule mod_mult_self4)
  then show ?thesis by (simp add: i64_def)
qed

lemma delay_product: "\<not> EqualFold mode ''fixed'' \<Longrightarrow>
    retryDelay (k + 1) mode = (let d = i64 (second_ns * 2 ^ k) in if d > 8 * second_ns then 8 * second_ns else d)"
  by (simp add: retryDelay_def i64_absorb)

lemma delay_short:
  assumes "k < 34" "\<not> EqualFold mode ''fixed''"
  shows "retryDelay (k + 1) mode = second_ns * min (2 ^ k) 8"
proof -
  have b: "i64 (second_ns * m) = second_ns * m" if "0 \<le> m" "m \<le> 2 ^ 33" for m :: int
    using that by (intro i64_id) (simp_all add: second_ns_def)
  have "(2 :: int) ^ k \<le> 2 ^ 33" using assms(1) by (intro power_increasing) auto
  then have "i64 (second_ns * 2 ^ k) = second_ns * 2 ^ k" by (intro b) simp_all
  then show ?thesis unfolding delay_product [OF assms(2)] by (simp add: second_ns_def min_def)
qed

lemma delay_negative:
  assumes "\<not> EqualFold mode ''fixed''"
  shows "retryDelay (34 + 1) mode < 0"
  unfolding delay_product [OF assms] by (simp add: i64_def second_ns_def)

lemma delay_zero:
  assumes "55 \<le> k" "\<not> EqualFold mode ''fixed''"
  shows "retryDelay (k + 1) mode = 0"
proof -
  have "(2 :: int) ^ k = 2 ^ 55 * 2 ^ (k - 55)" using assms(1) by (metis le_add_diff_inverse power_add)
  then have "second_ns * 2 ^ k = (second_ns * 2 ^ 55) * 2 ^ (k - 55)" by simp
  also have "\<dots> = 2 ^ 64 * (1953125 * 2 ^ (k - 55))" by (simp add: second_ns_def)
  finally have "i64 (second_ns * 2 ^ k) = 0" by (simp only: i64_multiple)
  then show ?thesis unfolding delay_product [OF assms(2)] by (simp add: second_ns_def)
qed

text \<open>A delivery whose attempts all fail, in a context that is never done.\<close>

lemma send_loop_waits:
  assumes "\<forall>k. \<not> attempt_ok (ex_result x k)" "\<forall>k. ex_done x k = None"
  shows "snd (send_loop x mode n attempt st) = map (\<lambda>k. retryDelay k mode) [attempt..<attempt + n - 1] \<and>
    (\<not> ds_Success st \<longrightarrow> \<not> ds_Success (fst (send_loop x mode n attempt st))) \<and>
    (0 < n \<longrightarrow> ds_Attempts (fst (send_loop x mode n attempt st)) = attempt + n - 1)"
proof (induction n arbitrary: attempt st)
  case (Suc n)
  show ?case
  proof (cases "n = 0")
    case True
    then show ?thesis using assms by (simp add: Let_def)
  next
    case False
    let ?st = "st\<lparr>ds_Attempts := attempt, ds_StatusCode := fst (ex_result x attempt)\<rparr>"
    have "send_loop x mode (Suc n) attempt st =
        (fst (send_loop x mode n (attempt + 1) ?st), retryDelay attempt mode # snd (send_loop x mode n (attempt + 1) ?st))"
      using assms False by (simp add: Let_def split: prod.splits)
    moreover have "[attempt..<attempt + Suc n - 1] = attempt # [attempt + 1..<attempt + 1 + n - 1]"
      using False by (simp add: upt_conv_Cons)
    ultimately show ?thesis using Suc.IH [of "attempt + 1" ?st] False by simp
  qed
qed simp

text \<open>A delivery that keeps failing waits one, two, four and then eight seconds, until the doubling
  overflows 64 bits: the wait after the 35th attempt is negative, and from the 56th attempt on every wait
  is zero, so that the remaining attempts follow each other at once.
\<close>

theorem webhook_backoff_overflow:
  assumes "\<forall>k. \<not> attempt_ok (ex_result x k)" "\<forall>k. ex_done x k = None" "send_backoff hook = ''exponential''"
    "Send x elapsed hook evt = (st, waits)"
  shows "\<not> ds_Success st \<and> ds_Attempts st = send_attempts hook \<and> length waits = send_attempts hook - 1 \<and>
    (\<forall>k<length waits. (k < 34 \<longrightarrow> waits ! k = second_ns * min (2 ^ k) 8) \<and> (k = 34 \<longrightarrow> waits ! k < 0) \<and>
      (55 \<le> k \<longrightarrow> waits ! k = 0))"
proof -
  have nf: "\<not> EqualFold ''exponential'' ''fixed''" by (simp add: EqualFold_def ToLower_def)
  have n: "0 < send_attempts hook" by (auto simp: send_attempts_def)
  let ?st = "\<lparr>ds_Webhook = hk_Name hook, ds_EventType = ev_Type evt, ds_Attempts = 0, ds_Success = False,
         ds_StatusCode = 0, ds_Error = [], ds_Duration = 0\<rparr>"
  note l = send_loop_waits [OF assms(1,2), of "''exponential''" "send_attempts hook" 1 ?st]
  have w: "waits = map (\<lambda>k. retryDelay k ''exponential'') [1..<send_attempts hook]"
    "\<not> ds_Success st" "ds_Attempts st = send_attempts hook"
    using assms(4) l n unfolding Send_def assms(3) by (auto split: prod.splits)
  have "waits ! k = retryDelay (k + 1) ''exponential''" if "k < length waits" for k
    using that by (simp add: w(1))
  then show ?thesis using w(2,3) delay_short [OF _ nf] delay_negative [OF nf] delay_zero [OF _ nf] by (simp add: w(1))
qed

theorem webhook_backoff_overflow_witness:
  "\<exists>st waits. Send \<lparr>ex_result = (\<lambda>_. (503, None)), ex_done = (\<lambda>_. None)\<rparr> 7
      \<lparr>hk_Name = ''ops'', hk_URL = [], hk_Events = [], hk_Format = [], hk_Headers = [], hk_MaxAttempts = 60, hk_Backoff = []\<rparr>
      (\<lparr>ev_Type = ''lease.created'', ev_Timestamp = 1, ev_Data = []\<rparr> :: unit event) = (st, waits) \<and>
    length waits = 59 \<and> waits ! 4 = 8 * second_ns \<and> waits ! 34 < 0 \<and> waits ! 58 = 0"
proof -
  let ?x = "\<lparr>ex_result = (\<lambda>_. (503, None)), ex_done = (\<lambda>_. None)\<rparr> :: exchange"
  let ?h = "\<lparr>hk_Name = ''ops'', hk_URL = [], hk_Events = [], hk_Format = [], hk_Headers = [], hk_MaxAttempts = 60, hk_Backoff = []\<rparr>"
  let ?e = "\<lparr>ev_Type = ''lease.created'', ev_Timestamp = 1, ev_Data = []\<rparr> :: unit event"
  obtain st waits where s: "Send ?x 7 ?h ?e = (st, waits)" by fastforce
  have n: "send_attempts ?h = 60" by (simp add: send_attempts_def)
  have b: "send_backoff ?h = ''exponential''" by (simp add: send_backoff_def ToLower_def)
  have w: "length waits = 59 \<and> (\<forall>k<length waits. (k < 34 \<longrightarrow> waits ! k = second_ns * min (2 ^ k) 8) \<and>
      (k = 34 \<longrightarrow> waits ! k < 0) \<and> (55 \<le> k \<longrightarrow> waits ! k = 0))"
    using webhook_backoff_overflow [OF _ _ b s] unfolding n by (simp add: attempt_ok_def)
  then have "length waits = 59" "waits ! 4 = 8 * second_ns" "waits ! 58 = 0" by simp_all
  moreover have "waits ! 34 < 0" using spec [OF conjunct2 [OF w], of 34] conjunct1 [OF w] by simp
  ultimately show ?thesis using s by blast
qed

text \<open>A subscriber that keeps up with the broker, so that its channel never has to hold more than the
  buffer, gets every event published after it subscribed exactly once and in order, whatever other
  subscribers do not take.
\<close>

theorem broker_delivers_in_order:
  assumes "Subscribe b = (b0, i)" "keeps_up (bk_bufSize b) 0 cs" "broker_run i cs b0 = (b1, got)"
  shows "\<exists>pending. map_of (bk_subs b1) i = Some pending \<and> got @ pending = published cs"
proof -
  have "map_of (bk_subs b0) i = Some []" "bk_bufSize b0 = bk_bufSize b"
    using assms(1) by (auto simp: Subscribe_def Let_def)
  then show ?thesis using subscriber_gets_all [of b0 i "[]" cs] assms(2,3) by simp
qed

theorem broker_delivers_in_order_witness:
  "\<exists>b1 pending. map_of (bk_subs b1) 1 = Some pending \<and>
    (\<exists>got. broker_run 1 [CallPublish 3 \<lparr>ev_Type = ''a'', ev_Timestamp = 0, ev_Data = []\<rparr>, CallReceive,
        CallPublish 4 \<lparr>ev_Type = ''b'', ev_Timestamp = 2, ev_Data = []\<rparr>] (fst (Subscribe (NewBroker 1 :: unit broker))) = (b1, got) \<and>
      got @ pending = [\<lparr>ev_Type = ''a'', ev_Timestamp = 3, ev_Data = []\<rparr>, \<lparr>ev_Type = ''b'', ev_Timestamp = 2, ev_Data = []\<rparr>])"
proof -
  let ?cs = "[CallPublish 3 \<lparr>ev_Type = ''a'', ev_Timestamp = 0, ev_Data = []\<rparr>, CallReceive,
        CallPublish 4 \<lparr>ev_Type = ''b'', ev_Timestamp = 2, ev_Data = []\<rparr>] :: unit broker_call list"
  let ?b = "NewBroker 1 :: unit broker"
  have s: "Subscribe ?b = (fst (Subscribe ?b), 1)" by (simp add: Subscribe_def NewBroker_def Let_def)
  obtain b1 got where r: "broker_run 1 ?cs (fst (Subscribe ?b)) = (b1, got)" by fastforce
  have "keeps_up (bk_bufSize ?b) 0 ?cs" by (simp add: NewBroker_def)
  then obtain pending where "map_of (bk_subs b1) 1 = Some pending" "got @ pending = published ?cs"
    using broker_delivers_in_order [OF s _ r] by blast
  then show ?thesis using r by (auto simp: stamped_def is_zero_time_def)
qed

end
