(* ===== verification/Rogue.thy ===== *)
theory Rogue
  imports Dhcp4Handler Db
begin

text \<open>
  \<^verbatim>\<open>src/internal/discovery/rogue.go\<close> and \<^verbatim>\<open>oui.go\<close>, the list of rogue servers that
  \<^verbatim>\<open>src/internal/discovery/engine.go\<close> keeps, and how \<^verbatim>\<open>src/cmd/monsoon/main.go\<close> chooses the server
  identifier and the servers that are allowed. The detector inspects the DHCPv4 datagrams of other servers;
  the neighbour table and the addresses of the host's interfaces are arguments.
\<close>

section \<open>oui.go\<close>

definition ouiVendors :: "(string \<times> string) list" where
  "ouiVendors =
     [(''000C29'', ''VMware, Inc.''), (''00163E'', ''Cisco Systems''), (''001A2B'', ''Ayecom Technology Co., Ltd.''),
      (''001B63'', ''Apple, Inc.''), (''00236C'', ''Juniper Networks''), (''002590'', ''Super Micro Computer, Inc.''),
      (''0026B9'', ''Dell Inc.''), (''005056'', ''VMware, Inc.''), (''0080C2'', ''IEEE Registration Authority''),
      (''0C4DE9'', ''Hewlett Packard Enterprise''), (''3C52A1'', ''Hewlett Packard''), (''40A8F0'', ''Ubiquiti Inc''),
      (''44D9E7'', ''Dell Inc.''), (''485D60'', ''AzureWave Technology Inc.''), (''525400'', ''QEMU''),
      (''58EF68'', ''TP-Link Corporation Limited''), (''5C514F'', ''Intel Corporate''),
      (''5CF370'', ''Samsung Electronics Co.,Ltd''), (''7071BC'', ''Apple, Inc.''),
      (''8C8590'', ''Hikvision Digital Technology Co.,Ltd.''), (''9CFC01'', ''Espressif Inc.''),
      (''A4B197'', ''Amazon Technologies Inc.''), (''B827EB'', ''Raspberry Pi Foundation''),
      (''DCA632'', ''Ruckus Wireless''), (''F4F5D8'', ''Google, Inc.'')]"

definition upper_hex :: "byte \<Rightarrow> bool" where
  "upper_hex c \<longleftrightarrow> (CHR ''0'' \<le> c \<and> c \<le> CHR ''9'') \<or> (CHR ''A'' \<le> c \<and> c \<le> CHR ''F'')"

definition macPrefix :: "string \<Rightarrow> string" where
  "macPrefix mac =
     (let cleaned = filter (\<lambda>c. c \<notin> set '':-.'') (ToUpper (TrimSpace mac)) in
      if length cleaned < 6 then [] else if \<not> list_all upper_hex (take 6 cleaned) then [] else take 6 cleaned)"

definition LookupVendor :: "string \<Rightarrow> string" where
  "LookupVendor mac =
     (if macPrefix mac = [] then [] else (case map_of ouiVendors (macPrefix mac) of None \<Rightarrow> [] | Some v \<Rightarrow> v))"

section \<open>rogue.go\<close>

record RogueServer =
  rs_IP :: string
  rs_MAC :: string
  rs_Vendor :: string
  rs_Source :: string
  rs_Detected :: time

definition normalizeIP :: "string \<Rightarrow> string" where
  "normalizeIP value =
     (let p = net_ParseIP (TrimSpace value) in
      if TrimSpace value = [] \<or> p = [] then []
      else if ip_To4 p \<noteq> [] then ip_String (ip_To4 p) else ip_String p)"

text \<open>The detector is its set of allowed servers.\<close>

definition NewRogueDetector :: "string list \<Rightarrow> string list" where
  "NewRogueDetector allowed = filter (\<lambda>s. s \<noteq> []) (map normalizeIP allowed)"

text \<open>The address of a datagram's sender is nil when it is not a UDP address.\<close>

definition ipFromAddr :: "ip \<Rightarrow> string" where
  "ipFromAddr p = (if p = [] then [] else ip_String p)"

definition serverIdentifier :: "Packet \<Rightarrow> string" where
  "serverIdentifier packet =
     (case map_of (p_Options packet) OptionServerIdentifier of
        Some raw \<Rightarrow> if length raw = 4 then ip_String raw
                    else if p_SIAddr packet \<noteq> [] then ip_String (p_SIAddr packet) else []
      | None \<Rightarrow> if p_SIAddr packet \<noteq> [] then ip_String (p_SIAddr packet) else [])"

definition rogueSource :: "string \<Rightarrow> string \<Rightarrow> string" where
  "rogueSource sourceIP serverID =
     (if sourceIP \<noteq> [] \<and> serverID \<noteq> [] \<and> sourceIP \<noteq> serverID
      then ''dhcp_offer:'' @ sourceIP @ '' server_id:'' @ serverID
      else if sourceIP \<noteq> [] then ''dhcp_offer:'' @ sourceIP
      else if serverID \<noteq> [] then ''server_id:'' @ serverID
      else ''dhcp_offer'')"

definition inspectPacket :: "string list \<Rightarrow> (string \<times> string) list \<Rightarrow> time \<Rightarrow> bytes \<Rightarrow> ip \<Rightarrow> RogueServer option" where
  "inspectPacket allowed arp now raw sender =
     (case DecodePacket raw of
        Inl _ \<Rightarrow> None
      | Inr packet \<Rightarrow>
          if opt_MessageType (p_Options packet) \<noteq> Some MessageOffer then None
          else
            (let sourceIP = normalizeIP (ipFromAddr sender);
                 serverID = normalizeIP (serverIdentifier packet)
             in if (sourceIP \<noteq> [] \<and> sourceIP \<in> set allowed) \<or> (serverID \<noteq> [] \<and> serverID \<in> set allowed) then None
                else
                  (let suspectIP = (if serverID = [] then sourceIP else serverID) in
                   if suspectIP = [] then None
                   else
                     (let mac = ToUpper (TrimSpace (case map_of arp suspectIP of None \<Rightarrow> [] | Some m \<Rightarrow> m))
                      in Some \<lparr>rs_IP = suspectIP, rs_MAC = mac, rs_Vendor = LookupVendor mac,
                           rs_Source = rogueSource sourceIP serverID, rs_Detected = now\<rparr>))))"

section \<open>The servers found, in engine.go\<close>

text \<open>At most sixteen, the latest first, one per address.\<close>

fun keep_others :: "string \<Rightarrow> nat \<Rightarrow> RogueServer list \<Rightarrow> RogueServer list" where
  "keep_others ip n [] = []"
| "keep_others ip n (x # xs) =
     (if EqualFold (rs_IP x) ip then keep_others ip n xs
      else x # (if n + 1 \<ge> 16 then [] else keep_others ip (n + 1) xs))"

definition rogue_item :: "time \<Rightarrow> RogueServer \<Rightarrow> RogueServer" where
  "rogue_item now item0 =
     (let mac = ToUpper (TrimSpace (rs_MAC item0)) in
      item0\<lparr>rs_IP := TrimSpace (rs_IP item0), rs_MAC := mac,
        rs_Vendor := (if rs_Vendor item0 = [] then LookupVendor mac else rs_Vendor item0),
        rs_Detected := (if is_zero_time (rs_Detected item0) then now else rs_Detected item0)\<rparr>)"

definition RecordRogueServer ::
  "'s db_tx \<Rightarrow> (RogueServer list \<Rightarrow> bytes option) \<Rightarrow> time \<Rightarrow> RogueServer \<Rightarrow> 's \<times> RogueServer list \<Rightarrow>
   ('s \<times> RogueServer list) \<times> go_error option" where
  "RecordRogueServer tx encode now item0 = (\<lambda>(s, latest).
     (if TrimSpace (rs_IP item0) = [] then ((s, latest), None)
      else
        (let item = rogue_item now item0; merged = item # keep_others (rs_IP item) 1 latest
         in case encode merged of
              None \<Rightarrow> ((s, merged), Some (ErrMsg ''json''))
            | Some raw \<Rightarrow>
                (case tx (\<lambda>ms. Inr (tx_Put ''discovery_meta'' ''latest_rogue'' raw ms)) now s of
                   (s', err) \<Rightarrow> ((s', merged), err)))))"

section \<open>Server identifier and allowed servers, in main.go\<close>

text \<open>The first gateway that is an IPv4 address, else the host of the listening address, else the loopback.\<close>

fun first_gateway :: "subnet_config list \<Rightarrow> ip option" where
  "first_gateway [] = None"
| "first_gateway (s # ss) =
     (let p = ip_To4 (net_ParseIP (sc_Gateway s)) in if p \<noteq> [] then Some p else first_gateway ss)"

definition listen_ip :: "string \<Rightarrow> ip option" where
  "listen_ip listen =
     (case SplitHostPort listen of
        None \<Rightarrow> None
      | Some (host, _) \<Rightarrow>
          if host = [] \<or> host = ''0.0.0.0'' then None
          else (let p = ip_To4 (net_ParseIP host) in if p \<noteq> [] then Some p else None))"

definition pickServerIdentifier :: "subnet_config list \<Rightarrow> string \<Rightarrow> ip" where
  "pickServerIdentifier subnets listen =
     (case first_gateway subnets of
        Some p \<Rightarrow> p
      | None \<Rightarrow>
          (case listen_ip listen of Some p \<Rightarrow> p | None \<Rightarrow> [CHR 0x7F, CHR 0x00, CHR 0x00, CHR 0x01]))"

fun uniqueStrings :: "string list \<Rightarrow> string list \<Rightarrow> string list" where
  "uniqueStrings [] seen = []"
| "uniqueStrings (x # xs) seen =
     (let item = TrimSpace x in
      if item = [] \<or> item \<in> set seen then uniqueStrings xs seen
      else item # uniqueStrings xs (item # seen))"

text \<open>\<open>local\<close> is what \<^verbatim>\<open>localIPv4Addrs\<close> returns.\<close>

definition configuredDHCPServers :: "subnet_config list \<Rightarrow> string \<Rightarrow> string list \<Rightarrow> string list" where
  "configuredDHCPServers subnets listen local =
     uniqueStrings (ip_String (pickServerIdentifier subnets listen) # local) []"

end
