(* ===== verification/RogueProps.thy ===== *)
theory RogueProps
  imports Rogue Dhcp4Demo
begin

text \<open>
  The detector of rogue servers beside the server's own loop: it never reports what the server itself sends,
  it reports every offer of a server that is not allowed, and the list that it fills is bounded.
\<close>

section \<open>What the server sends\<close>

definition own_options :: "ip \<Rightarrow> Options \<Rightarrow> bool" where
  "own_options sid opts \<longleftrightarrow> distinct (mkeys opts) \<and> OptionPad \<notin> set (mkeys opts) \<and> OptionEnd \<notin> set (mkeys opts) \<and>
     map_of opts OptionServerIdentifier = Some (ip_To4 sid)"

lemma own_options_mput:
  "own_options sid opts \<Longrightarrow> c \<noteq> OptionPad \<Longrightarrow> c \<noteq> OptionEnd \<Longrightarrow> c \<noteq> OptionServerIdentifier \<Longrightarrow>
   own_options sid (mput c v opts)"
  using set_mput [of c v opts] by (auto simp: own_options_def)

lemma own_options_start:
  "own_options sid (opt_SetIPv4 OptionServerIdentifier sid (opt_SetMessageType m []))"
  by (simp add: own_options_def opt_SetIPv4_def opt_SetMessageType_def)

lemmas option_setters = opt_SetIPv4_def opt_SetIPv4List_def opt_SetDurationSeconds_def opt_SetString_def
  EnableRapidCommit_def

lemma own_options_lease: "own_options (h_serverIP h) (leaseOptions h m alloc)"
  unfolding leaseOptions_def Let_def
  using own_options_start [of "h_serverIP h" m]
  by (auto simp: option_setters intro!: own_options_mput)

definition own_reply :: "Handler \<Rightarrow> Packet \<Rightarrow> Packet \<Rightarrow> bool" where
  "own_reply h req resp \<longleftrightarrow> own_options (h_serverIP h) (p_Options resp) \<and> p_CHAddr resp = p_CHAddr req \<and>
     length (p_SName resp) = 64 \<and> length (p_File resp) = 128"

lemma own_reply_base:
  "own_options (h_serverIP h) opts \<Longrightarrow> own_reply h req ((baseResponse req)\<lparr>p_YIAddr := y, p_Options := opts\<rparr>)"
  "own_options (h_serverIP h) opts \<Longrightarrow> own_reply h req ((baseResponse req)\<lparr>p_Options := opts\<rparr>)"
  by (simp_all add: own_reply_def baseResponse_def)

lemma own_reply_discover:
  assumes "handleDiscover ops h now req rapid st = (st', Inr (Some resp))"
  shows "own_reply h req resp"
proof -
  obtain m alloc where "resp = (baseResponse req)\<lparr>p_YIAddr := al_IP alloc, p_Options := leaseOptions h m alloc\<rparr> \<or>
      resp = (baseResponse req)\<lparr>p_YIAddr := al_IP alloc, p_Options := EnableRapidCommit (leaseOptions h m alloc)\<rparr>"
    using assms by (fastforce simp: handleDiscover_def Let_def split: prod.splits sum.splits option.splits if_splits)
  then show ?thesis
    using own_options_lease [of h m alloc]
    by (auto intro!: own_reply_base own_options_mput simp: EnableRapidCommit_def)
qed

lemma own_reply_request:
  assumes "handleRequest ops h now req st = (st', Inr (Some resp))"
  shows "own_reply h req resp"
proof -
  have "resp = nak_response h req \<or>
      (\<exists>alloc. resp = (baseResponse req)\<lparr>p_YIAddr := al_IP alloc, p_Options := leaseOptions h MessageAck alloc\<rparr>)"
    using assms by (fastforce simp: handleRequest_def Let_def split: prod.splits sum.splits option.splits go_error.splits if_splits)
  then show ?thesis
    using own_options_lease own_options_start
    by (auto intro!: own_reply_base own_options_mput simp: nak_response_def opt_SetString_def)
qed

lemma no_reply_silent [simp]: "no_reply r \<noteq> (st, Inr (Some resp))"
  by (cases r rule: no_reply.cases) simp_all

lemma own_reply_Handle:
  "Handle ops h now req st = (st', Inr (Some resp)) \<Longrightarrow> own_reply h req resp"
  using own_options_start [of "h_serverIP h" MessageAck]
  by (auto simp: Handle_def handleInform_def dest: own_reply_discover own_reply_request intro!: own_reply_base
      split: option.splits if_splits)

text \<open>What goes out decodes to the same options: the encoder has checked the lengths.\<close>

lemma put_ip_put_ip [simp]: "put_ip (put_ip p) = put_ip p" "length (put_ip p) = 4"
  by (auto simp: put_ip_def ip_To4_def)

lemma Options_Encode_lengths:
  "Options_Encode_loop opts = Inr bs \<Longrightarrow> (c, v) \<in> set opts \<Longrightarrow> c \<noteq> OptionPad \<Longrightarrow> c \<noteq> OptionEnd \<Longrightarrow> length v \<le> 255"
  by (induction opts arbitrary: bs) (auto simp: rbind_Inr_conv split: if_splits)

lemma own_reply_decodes:
  assumes r: "own_reply h req resp" and c: "length (p_CHAddr req) = 16" and e: "Packet_Encode resp = Inr out"
  shows "\<exists>p. DecodePacket out = Inr p \<and> p_Options p = p_Options resp"
proof -
  let ?n = "resp\<lparr>p_CIAddr := put_ip (p_CIAddr resp), p_YIAddr := put_ip (p_YIAddr resp),
     p_SIAddr := put_ip (p_SIAddr resp), p_GIAddr := put_ip (p_GIAddr resp)\<rparr>"
  obtain bs where "Options_Encode_loop (p_Options resp) = Inr bs"
    using e by (auto simp: Packet_Encode_def Options_Encode_def rbind_Inr_conv)
  then have "codes_ok (p_Options resp)"
    using r Options_Encode_lengths [of "p_Options resp" bs]
    by (force simp: own_reply_def own_options_def codes_ok_def)
  then have "pkt_ok ?n" using r c by (simp add: pkt_ok_def own_reply_def)
  moreover have "Packet_Encode ?n = Inr out" using e by (simp add: Packet_Encode_def)
  ultimately show ?thesis using packet_decode_encode by force
qed

section \<open>What the detector does\<close>

lemma ip4_string_ends: "length p = 4 \<Longrightarrow> ip_String p \<noteq> [] \<and> is_digit (hd (ip_String p)) \<and> is_digit (last (ip_String p))"
proof -
  assume l: "length p = 4"
  have ne: "dec n \<noteq> []" for n by (simp add: dec.simps [of n])
  have s: "ip_String p = ip4_string p" using l by (auto simp: ip_String_def ip_To4_def)
  show ?thesis
    using digits_dec [OF hd_in_set [OF ne]] digits_dec [OF last_in_set [OF ne]] by (simp add: s ip4_string_def ne)
qed

lemma TrimSpace_ip_String [simp]: "length p = 4 \<Longrightarrow> TrimSpace (ip_String p) = ip_String p"
  using ip4_string_ends [of p]
  by (intro TrimSpace_printable) (auto simp: printable_def is_digit_def less_eq_char_def byte_nat_def)

lemma normalizeIP_String [simp]: "length p = 4 \<Longrightarrow> normalizeIP (ip_String p) = ip_String p"
  using ip4_string_ends [of p] ParseIP_String(2) [of p]
  by (auto simp: normalizeIP_def Let_def) (auto simp: ip_To4_def)

lemma To4_length [simp]: "ip_To4 p \<noteq> [] \<Longrightarrow> length (ip_To4 p) = 4"
  by (auto simp: ip_To4_def split: if_splits)

lemma pickServerIdentifier_length [simp]: "length (pickServerIdentifier subnets listen) = 4"
proof -
  have "first_gateway subnets = Some p \<Longrightarrow> length p = 4" for p
    by (induction subnets rule: first_gateway.induct) (auto simp: Let_def split: if_splits)
  moreover have "listen_ip listen = Some p \<Longrightarrow> length p = 4" for p
    by (auto simp: listen_ip_def Let_def split: option.splits prod.splits if_splits)
  ultimately show ?thesis by (auto simp: pickServerIdentifier_def split: option.splits)
qed

lemma own_address_allowed:
  "ip_String (pickServerIdentifier subnets listen) \<in> set (NewRogueDetector (configuredDHCPServers subnets listen local))"
  using ip4_string_ends [of "pickServerIdentifier subnets listen"]
  by (simp add: NewRogueDetector_def configuredDHCPServers_def Let_def)

text \<open>An offer is reported exactly when neither the sender nor its server identifier is allowed.\<close>

lemma rogue_offer_reported:
  assumes "DecodePacket raw = Inr packet" "opt_MessageType (p_Options packet) = Some MessageOffer"
    and "map_of (p_Options packet) OptionServerIdentifier = Some sid" "length sid = 4" "length sender = 4"
  shows "(case inspectPacket allowed arp now raw sender of
      None \<Rightarrow> ip_String sid \<in> set allowed \<or> ip_String sender \<in> set allowed
    | Some r \<Rightarrow> ip_String sid \<notin> set allowed \<and> ip_String sender \<notin> set allowed \<and> rs_IP r = ip_String sid)"
  using assms ip4_string_ends [of sid] ip4_string_ends [of sender]
  by (auto simp: inspectPacket_def serverIdentifier_def ipFromAddr_def Let_def)

text \<open>C18: the detector never takes the server's own answers for a rogue's: whatever datagram the server sends, from
  whatever address it arrives, the detector with the configured servers does not report it.
\<close>

theorem rogue_own_offers_silent:
  assumes h: "h = NewHandler (pickServerIdentifier subnets listen) dl ml \<or>
      h = SetOnLeaseEvent (NewHandler (pickServerIdentifier subnets listen) dl ml)"
    and s: "serve4 ops h now raw st = (st', Some (out, target))"
  shows "inspectPacket (NewRogueDetector (configuredDHCPServers subnets listen local)) arp t out sender = None"
proof -
  obtain req resp where r: "DecodePacket raw = Inr req" "Handle ops h now req st = (st', Inr (Some resp))"
    "Packet_Encode resp = Inr out"
    using s by (auto simp: serve4_def split: sum.splits prod.splits option.splits)
  have own: "own_reply h req resp" using own_reply_Handle [OF r(2)] .
  obtain p where p: "DecodePacket out = Inr p" "p_Options p = p_Options resp"
    using own_reply_decodes [OF own _ r(3)] DecodePacket_ok [OF r(1)] by (auto simp: pkt_ok_def)
  have "map_of (p_Options p) OptionServerIdentifier = Some (pickServerIdentifier subnets listen)"
    using own h by (auto simp: p own_reply_def own_options_def NewHandler_def SetOnLeaseEvent_def ip_To4_def)
  then have "serverIdentifier p = ip_String (pickServerIdentifier subnets listen)" by (simp add: serverIdentifier_def)
  then show ?thesis
    using own_address_allowed [of subnets listen "local"] ip4_string_ends [of "pickServerIdentifier subnets listen"]
    by (auto simp: inspectPacket_def p Let_def)
qed

section \<open>The list of rogue servers\<close>

lemma keep_others_take:
  "0 < n \<Longrightarrow> n < 16 \<Longrightarrow> keep_others ip n xs = take (16 - n) (filter (\<lambda>x. \<not> EqualFold (rs_IP x) ip) xs)"
proof (induction xs arbitrary: n)
  case (Cons x xs)
  show ?case
  proof (cases "n = 15")
    case False
    then have "16 - n = Suc (16 - (n + 1))" using Cons.prems by simp
    then show ?thesis using Cons False by simp
  qed (use Cons in simp)
qed simp

definition rogues_ok :: "RogueServer list \<Rightarrow> bool" where
  "rogues_ok l \<longleftrightarrow> length l \<le> 16 \<and> sorted_wrt (\<lambda>x y. \<not> EqualFold (rs_IP y) (rs_IP x)) l"

lemma sorted_wrt_take: "sorted_wrt P l \<Longrightarrow> sorted_wrt P (take n l)"
  by (metis append_take_drop_id sorted_wrt_append)

text \<open>
  Every report keeps the list within sixteen servers with different addresses, the reported one first, and
  drops no other server while there is room.
\<close>

lemma rogue_list_kept:
  assumes "rogues_ok latest" "TrimSpace (rs_IP x) \<noteq> []" "RecordRogueServer tx encode now x (s, latest) = ((s', l), r)"
  shows "rogues_ok l \<and> l \<noteq> [] \<and> hd l = rogue_item now x \<and>
    (length latest < 16 \<longrightarrow> (\<forall>y\<in>set latest. y \<in> set l \<or> EqualFold (rs_IP y) (TrimSpace (rs_IP x))))"
proof -
  let ?keep = "filter (\<lambda>y. \<not> EqualFold (rs_IP y) (TrimSpace (rs_IP x))) latest"
  have ip: "rs_IP (rogue_item now x) = TrimSpace (rs_IP x)" by (simp add: rogue_item_def Let_def)
  have l: "l = rogue_item now x # take 15 ?keep"
    using assms by (auto simp: RecordRogueServer_def Let_def keep_others_take ip split: option.splits prod.splits)
  have "set (take 15 ?keep) \<subseteq> {y. \<not> EqualFold (rs_IP y) (TrimSpace (rs_IP x))}"
    by (rule order.trans [OF set_take_subset]) auto
  moreover have "sorted_wrt (\<lambda>x y. \<not> EqualFold (rs_IP y) (rs_IP x)) (take 15 ?keep)"
    using assms(1) by (intro sorted_wrt_take sorted_wrt_filter) (simp add: rogues_ok_def)
  ultimately have "rogues_ok l" by (auto simp: rogues_ok_def l ip)
  moreover have "take 15 ?keep = ?keep" if "length latest < 16"
  proof -
    have "length ?keep \<le> length latest" by (rule length_filter_le)
    then show ?thesis using that by (intro take_all) linarith
  qed
  ultimately show ?thesis by (auto simp: l)
qed

section \<open>An instance\<close>

theorem rogue_own_offers_silent_witness:
  "\<exists>raw st' out target. serve4 (engine_store run_json) demo_h time1 raw st0 = (st', Some (out, target)) \<and>
     (\<forall>sender. inspectPacket (NewRogueDetector (configuredDHCPServers [demo_subnet] '':67'' [])) [] 0 out sender = None)"
proof -
  have len: "\<forall>cv\<in>set (p_Options p). length (snd cv) \<le> 255 \<Longrightarrow> \<exists>raw. Packet_Encode p = Inr raw" for p
    using Options_Encode_total [of "p_Options p"] by (auto simp: Packet_Encode_def Options_Encode_def)
  obtain raw where raw: "Packet_Encode (disc (CHR 0x01)) = Inr raw"
    using len [of "disc (CHR 0x01)"] by (auto simp: disc_def client_packet_def)
  obtain st1 resp where h: "Handle (engine_store run_json) demo_h time1 (disc (CHR 0x01)) st0 = (st1, Inr (Some resp))"
    "p_Options resp = leaseOptions demo_h MessageOffer (al ip10)"
    by (rule demo_st1)
  obtain out where out: "Packet_Encode resp = Inr out"
    using len [of resp]
    by (auto simp: h leaseOptions_def Let_def option_setters opt_SetMessageType_def al_def buildResult_def demo_pool_def
        demo_h_def NewHandler_def ip_To4_def CIDRMask32_def)
  have srv: "serve4 (engine_store run_json) demo_h time1 raw st0 = (st1, Some (out, ResponseTarget (disc (CHR 0x01)) resp))"
    by (simp add: serve4_def packet_decode_encode [OF demo_pkt_ok raw] h out)
  have "pickServerIdentifier [demo_subnet] '':67'' = [CHR 0x0A, CHR 0x00, CHR 0x00, CHR 0x01]"
    by (simp add: pickServerIdentifier_def demo_subnet_def demo_parse net_ParseIP_def ip_To4_def v4InV6Prefix_def
        word_bytes_def be4 demo_chars nat_byte_def)
  then have "demo_h = NewHandler (pickServerIdentifier [demo_subnet] '':67'') 0 0" by (simp add: demo_h_def)
  then show ?thesis using rogue_own_offers_silent [OF disjI1 srv] srv by blast
qed

end
