(* ===== verification/Config.thy ===== *)
theory Config
  imports Ipam Events Netip
begin

text \<open>
  \<^verbatim>\<open>src/internal/config\<close>: the configuration, its defaults, the overrides from the environment, its
  validation and its reload. The look-up of a port's name and the parser of URLs are arguments, and so is
  the YAML decoder. A message of the validation that ends in the error of a library is modelled up to that error.
\<close>

section \<open>config.go\<close>

record ServerConfig =
  cs_Hostname :: string
  cs_DataDir :: string
  cs_LogLevel :: string
  cs_LogFormat :: string

record DHCPV4Config =
  c4_Enabled :: bool
  c4_Listen :: string
  c4_Interface :: string
  c4_Authoritative :: bool

record DHCPV6Config =
  c6_Enabled :: bool
  c6_Listen :: string
  c6_Interface :: string

record DDNSConfig =
  cd_Enabled :: bool
  cd_ForwardZone :: string
  cd_ReverseZone :: string
  cd_DNSServer :: string
  cd_TSIGKey :: string
  cd_TSIGSecret :: string
  cd_TSIGAlgorithm :: string

record DHCPConfig =
  cd_V4 :: DHCPV4Config
  cd_V6 :: DHCPV6Config
  cd_DefaultLeaseTime :: duration
  cd_MaxLeaseTime :: duration
  cd_DDNS :: DDNSConfig

record ReservationConfig =
  cr_MAC :: string
  cr_IP :: string
  cr_Hostname :: string

text \<open>The fields that the pools and the address management use, and the others.\<close>

record SubnetConfig = ipam_subnet_config +
  cn_MaxLeaseTime :: duration
  cn_Template :: string
  cn_Reservations :: "ReservationConfig list"

record DiscoveryConfig =
  cy_Enabled :: bool
  cy_DefaultInterval :: duration
  cy_Methods :: "string list"
  cy_ConflictDetection :: bool
  cy_RogueDHCPDetection :: bool
  cy_QuarantinePeriod :: duration
  cy_AbandonedThreshold :: duration

record RESTConfig =
  ct_Enabled :: bool
  ct_Listen :: string
  ct_CORSOrigins :: "string list"
  ct_TrustedProxies :: "string list"
  ct_RateLimit :: int
  ct_AuthRateLimit :: int
  ct_TLSCertFile :: string
  ct_TLSKeyFile :: string

text \<open>The gRPC and the MCP interface have the same fields.\<close>

record ListenConfig =
  cl_Enabled :: bool
  cl_Listen :: string
  cl_TLSCertFile :: string
  cl_TLSKeyFile :: string

record APIConfig =
  ci_REST :: RESTConfig
  ci_GRPC :: ListenConfig
  ci_WebSocket :: bool
  ci_MCP :: ListenConfig

record DashboardConfig =
  cb_Enabled :: bool
  cb_BasePath :: string

record LocalAuthConfig =
  ca_AdminUsername :: string
  ca_AdminPasswordHash :: string
  ca_MaxFailedAttempts :: int
  ca_LockoutDuration :: duration

record LDAPAuthConfig =
  cp_Server :: string
  cp_BaseDN :: string
  cp_BindDN :: string
  cp_BindPassword :: string
  cp_UserFilter :: string
  cp_GroupFilter :: string
  cp_AdminGroup :: string

record SessionAuthConfig =
  cx_Duration :: duration
  cx_CookieName :: string
  cx_Secure :: bool

record AuthConfig =
  ca_Enabled :: bool
  ca_Type :: string
  ca_Local :: LocalAuthConfig
  ca_LDAP :: LDAPAuthConfig
  ca_APITokens :: bool
  ca_Session :: SessionAuthConfig

record HAConfig =
  ch_Enabled :: bool
  ch_Mode :: string
  ch_Priority :: int
  ch_PeerAddress :: string
  ch_HeartbeatInterval :: duration
  ch_FailoverTimeout :: duration
  ch_LeaseSync :: bool
  ch_SharedSecret :: string
  ch_WitnessPath :: string
  ch_WitnessHoldTime :: duration

record PrometheusConfig =
  cm_Enabled :: bool
  cm_Path :: string

record BackupAutoConfig =
  cu_Enabled :: bool
  cu_Interval :: duration
  cu_Retention :: int
  cu_Path :: string

record Config =
  c_Server :: ServerConfig
  c_DHCP :: DHCPConfig
  c_Subnets :: "SubnetConfig list"
  c_Discovery :: DiscoveryConfig
  c_API :: APIConfig
  c_Dashboard :: DashboardConfig
  c_Auth :: AuthConfig
  c_HA :: HAConfig
  c_Metrics :: PrometheusConfig
  c_Backup :: BackupAutoConfig
  c_Webhooks :: "hook_config list"

definition DefaultConfig :: Config where
  "DefaultConfig =
     \<lparr>c_Server = \<lparr>cs_Hostname = ''monsoon-01'', cs_DataDir = ''/var/lib/monsoon'', cs_LogLevel = ''info'',
        cs_LogFormat = ''json''\<rparr>,
      c_DHCP = \<lparr>cd_V4 = \<lparr>c4_Enabled = True, c4_Listen = ''0.0.0.0:67'', c4_Interface = [], c4_Authoritative = True\<rparr>,
        cd_V6 = \<lparr>c6_Enabled = False, c6_Listen = ''[::]:547'', c6_Interface = []\<rparr>,
        cd_DefaultLeaseTime = 12 * hour_ns, cd_MaxLeaseTime = 24 * hour_ns,
        cd_DDNS = \<lparr>cd_Enabled = False, cd_ForwardZone = [], cd_ReverseZone = [], cd_DNSServer = [], cd_TSIGKey = [],
          cd_TSIGSecret = [], cd_TSIGAlgorithm = []\<rparr>\<rparr>,
      c_Subnets = [],
      c_Discovery = \<lparr>cy_Enabled = True, cy_DefaultInterval = hour_ns, cy_Methods = [''arp'', ''ping''],
        cy_ConflictDetection = True, cy_RogueDHCPDetection = True, cy_QuarantinePeriod = 15 * minute_ns,
        cy_AbandonedThreshold = 7 * 24 * hour_ns\<rparr>,
      c_API = \<lparr>ci_REST = \<lparr>ct_Enabled = True, ct_Listen = '':8067'', ct_CORSOrigins = [], ct_TrustedProxies = [],
          ct_RateLimit = 100, ct_AuthRateLimit = 5, ct_TLSCertFile = [], ct_TLSKeyFile = []\<rparr>,
        ci_GRPC = \<lparr>cl_Enabled = True, cl_Listen = '':9067'', cl_TLSCertFile = [], cl_TLSKeyFile = []\<rparr>,
        ci_WebSocket = True,
        ci_MCP = \<lparr>cl_Enabled = True, cl_Listen = '':7067'', cl_TLSCertFile = [], cl_TLSKeyFile = []\<rparr>\<rparr>,
      c_Dashboard = \<lparr>cb_Enabled = True, cb_BasePath = ''/''\<rparr>,
      c_Auth = \<lparr>ca_Enabled = True, ca_Type = ''local'',
        ca_Local = \<lparr>ca_AdminUsername = ''admin'', ca_AdminPasswordHash = [], ca_MaxFailedAttempts = 5,
          ca_LockoutDuration = 15 * minute_ns\<rparr>,
        ca_LDAP = \<lparr>cp_Server = [], cp_BaseDN = [], cp_BindDN = [], cp_BindPassword = [], cp_UserFilter = [],
          cp_GroupFilter = [], cp_AdminGroup = []\<rparr>,
        ca_APITokens = True,
        ca_Session = \<lparr>cx_Duration = 24 * hour_ns, cx_CookieName = ''monsoon_session'', cx_Secure = True\<rparr>\<rparr>,
      c_HA = \<lparr>ch_Enabled = False, ch_Mode = ''active-passive'', ch_Priority = 100, ch_PeerAddress = [],
        ch_HeartbeatInterval = second_ns, ch_FailoverTimeout = 10 * second_ns, ch_LeaseSync = True,
        ch_SharedSecret = [], ch_WitnessPath = [], ch_WitnessHoldTime = 15 * second_ns\<rparr>,
      c_Metrics = \<lparr>cm_Enabled = True, cm_Path = ''/metrics''\<rparr>,
      c_Backup = \<lparr>cu_Enabled = True, cu_Interval = 6 * hour_ns, cu_Retention = 7, cu_Path = ''/var/lib/monsoon/backups''\<rparr>,
      c_Webhooks = []\<rparr>"

section \<open>validate.go\<close>

record config_env =
  ce_LookupPort :: "string \<Rightarrow> int option"
  ce_ParseURL :: "string \<Rightarrow> (string \<times> string) option"

definition complain :: "bool \<Rightarrow> string \<Rightarrow> string list" where
  "complain b msg = (if b then [msg] else [])"

definition prefixesOverlap :: "prefix \<Rightarrow> prefix \<Rightarrow> bool" where
  "prefixesOverlap a b \<longleftrightarrow>
     pfx_Contains (pfx_Masked a) (pfx_addr (pfx_Masked b)) \<or> pfx_Contains (pfx_Masked b) (pfx_addr (pfx_Masked a))"

text \<open>The host without the brackets around it.\<close>

definition bare_host :: "string \<Rightarrow> string" where
  "bare_host host = (if starts_with ''['' host \<and> ends_with '']'' host then drop 1 (butlast host) else host)"

definition validateListenAddr :: "config_env \<Rightarrow> string \<Rightarrow> string option" where
  "validateListenAddr E addr0 =
     (let addr = TrimSpace addr0 in
      if addr = [] then Some ''address is empty''
      else
        (case (case SplitHostPort addr of
                 Some hp \<Rightarrow> Some hp
               | None \<Rightarrow> if starts_with '':'' addr then Some ([], drop 1 addr) else None) of
           None \<Rightarrow> Some ''address''
         | Some (host, port) \<Rightarrow>
             if host \<noteq> [] \<and> net_ParseIP (bare_host host) = [] then Some ''invalid host''
             else
               (case ce_LookupPort E port of
                  None \<Rightarrow> Some ''unknown port''
                | Some p \<Rightarrow> if p < 1 \<or> p > 65535 then Some ''invalid port'' else None)))"

definition validateTLSPair :: "string \<Rightarrow> string \<Rightarrow> string \<Rightarrow> string list" where
  "validateTLSPair what certFile keyFile =
     complain ((TrimSpace certFile \<noteq> []) \<noteq> (TrimSpace keyFile \<noteq> []))
       (what @ ''.tls_cert_file and '' @ what @ ''.tls_key_file must either both be set or both be empty'')"

definition validateTrustedProxy :: "string \<Rightarrow> string option" where
  "validateTrustedProxy value0 =
     (let value = TrimSpace value0 in
      if value = [] then Some ''must not be empty''
      else if ParseAddr value \<noteq> None then None
      else if ParsePrefix value \<noteq> None then None
      else Some ''must be an IP address or CIDR'')"

text \<open>A message with the index of the item it is about.\<close>

definition indexed :: "string \<Rightarrow> nat \<Rightarrow> string \<Rightarrow> string" where
  "indexed what i msg = what @ ''['' @ dec i @ '']'' @ msg"

definition list_errors :: "('a \<Rightarrow> nat \<Rightarrow> string list) \<Rightarrow> 'a list \<Rightarrow> string list" where
  "list_errors f xs = concat (map (\<lambda>(i, x). f x i) (enumerate 0 xs))"

definition server_errors :: "ServerConfig \<Rightarrow> string list" where
  "server_errors s =
     complain (TrimSpace (cs_DataDir s) = []) ''server.data_dir is required'' @
     complain (ToLower (cs_LogLevel s) \<notin> set [''debug'', ''info'', ''warn'', ''error''])
       ''server.log_level must be one of debug, info, warn, error'' @
     complain (ToLower (cs_LogFormat s) \<notin> set [''json'', ''text'']) ''server.log_format must be one of json, text''"

definition dhcp_errors :: "DHCPConfig \<Rightarrow> string list" where
  "dhcp_errors d =
     complain (cd_DefaultLeaseTime d \<le> 0) ''dhcp.default_lease_time must be > 0'' @
     complain (cd_MaxLeaseTime d \<le> 0) ''dhcp.max_lease_time must be > 0'' @
     complain (cd_MaxLeaseTime d < cd_DefaultLeaseTime d) ''dhcp.max_lease_time must be >= dhcp.default_lease_time'' @
     (if cd_Enabled (cd_DDNS d) then
        complain (TrimSpace (cd_DNSServer (cd_DDNS d)) = []) ''dhcp.ddns.dns_server is required when dhcp.ddns.enabled=true'' @
        (let algorithm = ToLower (TrimSpace (cd_TSIGAlgorithm (cd_DDNS d))) in
         complain (algorithm \<noteq> [] \<and> algorithm \<noteq> ''hmac-sha256'') ''dhcp.ddns.tsig_algorithm must be hmac-sha256'')
      else [])"

definition opt_error :: "string \<Rightarrow> string option \<Rightarrow> string list" where
  "opt_error what e = (case e of None \<Rightarrow> [] | Some msg \<Rightarrow> [what @ msg])"

definition api_errors :: "config_env \<Rightarrow> bool \<Rightarrow> APIConfig \<Rightarrow> string list" where
  "api_errors E auth a =
     (let r = ci_REST a in
      opt_error ''api.rest.listen: '' (validateListenAddr E (ct_Listen r)) @
      opt_error ''api.grpc.listen: '' (validateListenAddr E (cl_Listen (ci_GRPC a))) @
      complain (ct_RateLimit r \<le> 0) ''api.rest.rate_limit must be > 0'' @
      complain (ct_AuthRateLimit r \<le> 0) ''api.rest.auth_rate_limit must be > 0'' @
      list_errors (\<lambda>proxy idx. opt_error (indexed ''api.rest.trusted_proxies'' idx '': '') (validateTrustedProxy proxy))
        (ct_TrustedProxies r) @
      validateTLSPair ''api.rest'' (ct_TLSCertFile r) (ct_TLSKeyFile r) @
      validateTLSPair ''api.grpc'' (cl_TLSCertFile (ci_GRPC a)) (cl_TLSKeyFile (ci_GRPC a)) @
      validateTLSPair ''api.mcp'' (cl_TLSCertFile (ci_MCP a)) (cl_TLSKeyFile (ci_MCP a)) @
      complain (auth \<and> (\<exists>origin\<in>set (ct_CORSOrigins r). TrimSpace origin = ''*''))
        ''api.rest.cors_origins must not contain * when auth.enabled=true'')"

definition hook_errors :: "config_env \<Rightarrow> hook_config \<Rightarrow> nat \<Rightarrow> string list" where
  "hook_errors E hook idx =
     complain (TrimSpace (hk_Name hook) = []) (indexed ''webhooks'' idx ''.name is required'') @
     (if TrimSpace (hk_URL hook) = [] then [indexed ''webhooks'' idx ''.url is required'']
      else complain (case ce_ParseURL E (TrimSpace (hk_URL hook)) of
                       None \<Rightarrow> True | Some (scheme, host) \<Rightarrow> scheme = [] \<or> host = [])
             (indexed ''webhooks'' idx ''.url is invalid'')) @
     (let f0 = ToLower (TrimSpace (hk_Format hook)); f = (if f0 = [] then ''json'' else f0) in
      complain (f \<notin> set [''json'', ''slack'']) (indexed ''webhooks'' idx ''.format must be json or slack'')) @
     complain (hk_Events hook = []) (indexed ''webhooks'' idx ''.events must not be empty'') @
     complain (hk_MaxAttempts hook < 0) (indexed ''webhooks'' idx ''.retry.max_attempts must be >= 0'') @
     (let backoff = TrimSpace (ToLower (hk_Backoff hook)) in
      complain (backoff \<noteq> [] \<and> backoff \<noteq> ''exponential'' \<and> backoff \<noteq> ''fixed'')
        (indexed ''webhooks'' idx ''.retry.backoff must be exponential or fixed''))"

definition auth_errors :: "AuthConfig \<Rightarrow> string list" where
  "auth_errors a =
     complain (ca_Enabled a \<and> TrimSpace (ca_Type a) = []) ''auth.type is required when auth.enabled=true'' @
     complain (ca_Enabled a \<and> \<not> EqualFold (TrimSpace (ca_Type a)) ''local'') ''auth.type must be local in this build'' @
     (if ca_Enabled a \<and> EqualFold (TrimSpace (ca_Type a)) ''local'' then
        complain (ca_MaxFailedAttempts (ca_Local a) \<le> 0) ''auth.local.max_failed_attempts must be > 0'' @
        complain (ca_LockoutDuration (ca_Local a) \<le> 0) ''auth.local.lockout_duration must be > 0''
      else [])"

definition ha_errors :: "config_env \<Rightarrow> HAConfig \<Rightarrow> string list" where
  "ha_errors E h =
     (if ch_Enabled h then
        (if TrimSpace (ch_PeerAddress h) = [] then [''ha.peer_address is required when ha.enabled=true'']
         else opt_error ''ha.peer_address: '' (validateListenAddr E (ch_PeerAddress h))) @
        complain (ch_Priority h \<le> 0) ''ha.priority must be > 0'' @
        complain (ch_WitnessHoldTime h < 0) ''ha.witness_hold_time must be >= 0''
      else [])"

definition overlap_errors :: "nat \<Rightarrow> prefix \<Rightarrow> prefix list \<Rightarrow> string list" where
  "overlap_errors idx p seen =
     list_errors (\<lambda>q pidx. complain (prefixesOverlap p q) (indexed ''subnets'' idx (indexed ''.cidr overlaps subnets'' pidx ''.cidr''))) seen"

definition gateway_errors :: "nat \<Rightarrow> prefix \<Rightarrow> string \<Rightarrow> string list" where
  "gateway_errors idx p gateway =
     (if gateway = [] then []
      else (case ParseAddr gateway of
              None \<Rightarrow> [indexed ''subnets'' idx ''.gateway invalid: '']
            | Some gw \<Rightarrow> complain (\<not> pfx_Contains p gw) (indexed ''subnets'' idx ''.gateway not in cidr'')))"

definition reservation_errors :: "nat \<Rightarrow> prefix \<Rightarrow> ReservationConfig \<Rightarrow> nat \<Rightarrow> string list" where
  "reservation_errors idx p r ridx =
     complain (ParseMAC (cr_MAC r) = None) (indexed ''subnets'' idx (indexed ''.reservations'' ridx ''.mac invalid: '')) @
     (case ParseAddr (cr_IP r) of
        None \<Rightarrow> [indexed ''subnets'' idx (indexed ''.reservations'' ridx ''.ip invalid: '')]
      | Some a \<Rightarrow> complain (\<not> pfx_Contains p a) (indexed ''subnets'' idx (indexed ''.reservations'' ridx ''.ip outside subnet'')))"

definition range_errors :: "nat \<Rightarrow> prefix \<Rightarrow> SubnetConfig \<Rightarrow> string list" where
  "range_errors idx p s =
     (if \<not> sc_DHCPEnabled s then []
      else
        (case (ParseAddr (sc_PoolStart s), ParseAddr (sc_PoolEnd s)) of
           (Some start, Some endv) \<Rightarrow>
             complain (\<not> pfx_Contains p start \<or> \<not> pfx_Contains p endv) (indexed ''subnets'' idx ''.dhcp pool range outside subnet'') @
             complain (addr_Compare start endv > 0) (indexed ''subnets'' idx ''.dhcp pool_start must be <= pool_end'')
         | _ \<Rightarrow> [indexed ''subnets'' idx ''.dhcp pool_start/pool_end invalid'']) @
        complain (sc_LeaseTime s < 0 \<or> cn_MaxLeaseTime s < 0) (indexed ''subnets'' idx ''.dhcp lease durations must be >= 0'') @
        complain (cn_MaxLeaseTime s > 0 \<and> sc_LeaseTime s > 0 \<and> cn_MaxLeaseTime s < sc_LeaseTime s)
          (indexed ''subnets'' idx ''.dhcp.max_lease_time must be >= lease_time''))"

text \<open>The loop over the subnets, with the prefixes read so far.\<close>

fun subnet_errors :: "nat \<Rightarrow> prefix list \<Rightarrow> SubnetConfig list \<Rightarrow> string list" where
  "subnet_errors idx seen [] = []"
| "subnet_errors idx seen (s # ss) =
     (case ParsePrefix (sc_CIDR s) of
        None \<Rightarrow> indexed ''subnets'' idx ''.cidr invalid: '' # subnet_errors (Suc idx) seen ss
      | Some p \<Rightarrow>
          overlap_errors idx p seen @ gateway_errors idx p (sc_Gateway s) @
          list_errors (reservation_errors idx p) (cn_Reservations s) @ range_errors idx p s @
          subnet_errors (Suc idx) (seen @ [p]) ss)"

definition validation_errors :: "config_env \<Rightarrow> Config \<Rightarrow> string list" where
  "validation_errors E c =
     server_errors (c_Server c) @ dhcp_errors (c_DHCP c) @ api_errors E (ca_Enabled (c_Auth c)) (c_API c) @
     list_errors (hook_errors E) (c_Webhooks c) @ auth_errors (c_Auth c) @ ha_errors E (c_HA c) @
     subnet_errors 0 [] (c_Subnets c)"

fun join_semi :: "string list \<Rightarrow> string" where
  "join_semi [] = []"
| "join_semi [x] = x"
| "join_semi (x # y # xs) = x @ ''; '' @ join_semi (y # xs)"

definition Validate :: "config_env \<Rightarrow> Config \<Rightarrow> go_error option" where
  "Validate E c =
     (if validation_errors E c \<noteq> [] then Some (ErrMsg (join_semi (validation_errors E c))) else None)"

end
