(* ===== verification/RuntimeConfig.thy ===== *)
theory RuntimeConfig
  imports Config
begin

text \<open>
  How a configuration is read, overridden, merged and put into force: \<^verbatim>\<open>env.go\<close>, \<^verbatim>\<open>Load\<close> of
  \<^verbatim>\<open>config.go\<close> and \<^verbatim>\<open>reload.go\<close> in \<^verbatim>\<open>src/internal/config\<close>, and \<^verbatim>\<open>runtime_config.go\<close> and
  \<^verbatim>\<open>config_merge.go\<close> in \<^verbatim>\<open>src/cmd/monsoon\<close>. A configuration that is walked by reflection is a tree of
  named fields; what turns a configuration into its tree and back is an argument.
\<close>

section \<open>env.go\<close>

datatype field =
    FString string
  | FBool bool
  | FInt int
  | FDuration duration
  | FStrings "string list"
  | FStruct "(string \<times> field) list"
  | FOther string

record env_fns =
  ef_ParseDuration :: "string \<Rightarrow> duration option"
  ef_ParseBool :: "string \<Rightarrow> bool option"
  ef_ParseInt :: "string \<Rightarrow> int option"

fun split_comma :: "string \<Rightarrow> string list" where
  "split_comma [] = [[]]"
| "split_comma (c # cs) =
     (if c = CHR '','' then [] # split_comma cs
      else (case split_comma cs of [] \<Rightarrow> [[c]] | p # ps \<Rightarrow> (c # p) # ps))"

text \<open>The new value of a field that is not a struct; \<open>None\<close> for an error.\<close>

definition setValue :: "env_fns \<Rightarrow> field \<Rightarrow> string \<Rightarrow> field option" where
  "setValue F v raw =
     (case v of
        FDuration _ \<Rightarrow> map_option FDuration (ef_ParseDuration F (TrimSpace raw))
      | FString _ \<Rightarrow> Some (FString raw)
      | FBool _ \<Rightarrow> map_option FBool (ef_ParseBool F raw)
      | FInt _ \<Rightarrow> map_option FInt (ef_ParseInt F raw)
      | FStrings _ \<Rightarrow> Some (FStrings (filter (\<lambda>p. p \<noteq> []) (map TrimSpace (split_comma raw))))
      | _ \<Rightarrow> None)"

definition env_name :: "string \<Rightarrow> string \<Rightarrow> string" where
  "env_name pre yamlName = pre @ ''_'' @ ToUpper (map (\<lambda>c. if c = CHR ''-'' then CHR ''_'' else c) yamlName)"

text \<open>The fields of a struct in their order, each with the name of its tag, up to the first error.\<close>

fun applyEnv :: "env_fns \<Rightarrow> (string \<Rightarrow> string option) \<Rightarrow> string \<Rightarrow> (string \<times> field) list \<Rightarrow> (string \<times> field) list option" where
  "applyEnv F env pre [] = Some []"
| "applyEnv F env pre ((n, v) # fs) =
     (let name = env_name pre n in
      case (case v of
              FStruct sub \<Rightarrow> map_option FStruct (applyEnv F env name sub)
            | _ \<Rightarrow> (case env name of None \<Rightarrow> Some v | Some raw \<Rightarrow> setValue F v raw)) of
        None \<Rightarrow> None
      | Some v' \<Rightarrow> map_option (\<lambda>fs'. (n, v') # fs') (applyEnv F env pre fs))"

section \<open>Load and reload.go\<close>

datatype config_file = FileAbsent | FileUnreadable | FileBody bytes

text \<open>The decoder overlays a configuration; \<open>cd_override\<close> is \<^verbatim>\<open>ApplyEnvOverrides\<close>.\<close>

record config_io =
  cd_yaml :: "bytes \<Rightarrow> Config \<Rightarrow> Config option"
  cd_override :: "Config \<Rightarrow> Config option"
  cd_env :: config_env

definition ApplyEnvOverrides ::
  "env_fns \<Rightarrow> (string \<Rightarrow> string option) \<Rightarrow> (Config \<Rightarrow> (string \<times> field) list) \<Rightarrow> ((string \<times> field) list \<Rightarrow> Config) \<Rightarrow> Config \<Rightarrow> Config option" where
  "ApplyEnvOverrides F env to_fields of_fields c = map_option of_fields (applyEnv F env ''MONSOON'' (to_fields c))"

definition load_checked :: "config_io \<Rightarrow> Config \<Rightarrow> go_error + Config" where
  "load_checked io c =
     (case cd_override io c of
        None \<Rightarrow> Inl (ErrMsg ''env'')
      | Some c' \<Rightarrow> (case Validate (cd_env io) c' of Some err \<Rightarrow> Inl err | None \<Rightarrow> Inr c'))"

definition Load :: "config_io \<Rightarrow> config_file \<Rightarrow> go_error + Config" where
  "Load io file =
     (case file of
        FileAbsent \<Rightarrow> load_checked io DefaultConfig
      | FileUnreadable \<Rightarrow> Inl (ErrMsg ''read config'')
      | FileBody data \<Rightarrow>
          (case cd_yaml io data DefaultConfig of None \<Rightarrow> Inl (ErrMsg ''parse yaml'') | Some c \<Rightarrow> load_checked io c))"

text \<open>The manager is its configuration; the callbacks run in the order of their registration.\<close>

definition NewConfigManager :: "config_io \<Rightarrow> config_file \<Rightarrow> go_error + Config" where
  "NewConfigManager io file = Load io file"

definition Reload :: "config_io \<Rightarrow> (Config \<Rightarrow> 's \<Rightarrow> 's) list \<Rightarrow> config_file \<Rightarrow> Config \<times> 's \<Rightarrow> (Config \<times> 's) \<times> go_error option" where
  "Reload io callbacks file = (\<lambda>(c, st).
     (case Load io file of
        Inl err \<Rightarrow> ((c, st), Some err)
      | Inr c' \<Rightarrow> ((c', fold (\<lambda>cb. cb c') callbacks st), None)))"

section \<open>runtime_config.go\<close>

record runtimeSettings =
  rt_CORSOrigins :: "string list"
  rt_TrustedProxies :: "string list"
  rt_RateLimit :: int
  rt_AuthRateLimit :: int
  rt_authEnforced :: bool
  rt_authSecureCookie :: bool

definition runtimeAuthEnforced :: "Config \<Rightarrow> bool" where
  "runtimeAuthEnforced c \<longleftrightarrow> ca_Enabled (c_Auth c) \<and> EqualFold (ca_Type (c_Auth c)) ''local''"

definition runtime_Apply :: "Config \<Rightarrow> runtimeSettings \<Rightarrow> runtimeSettings" where
  "runtime_Apply c s =
     \<lparr>rt_CORSOrigins = ct_CORSOrigins (ci_REST (c_API c)), rt_TrustedProxies = ct_TrustedProxies (ci_REST (c_API c)),
      rt_RateLimit = ct_RateLimit (ci_REST (c_API c)), rt_AuthRateLimit = ct_AuthRateLimit (ci_REST (c_API c)),
      rt_authEnforced = runtimeAuthEnforced c, rt_authSecureCookie = cx_Secure (ca_Session (c_Auth c))\<rparr>"

definition applyRuntimeOverrides :: "string \<Rightarrow> bool \<Rightarrow> Config \<Rightarrow> Config" where
  "applyRuntimeOverrides dataDirFlag debug c =
     c\<lparr>c_Server := (let s = c_Server c;
           s1 = (if dataDirFlag \<noteq> [] then s\<lparr>cs_DataDir := dataDirFlag\<rparr> else s)
         in if debug then s1\<lparr>cs_LogLevel := ''debug''\<rparr> else s1)\<rparr>"

text \<open>
  The labels of the parts that differ. \<^verbatim>\<open>reloadValuesEqual\<close> is equality here: a nil and an empty slice,
  which it identifies, are the same list.
\<close>

definition restartRequiredConfigChanges :: "Config \<Rightarrow> Config \<Rightarrow> string list" where
  "restartRequiredConfigChanges b a =
     (let br = ci_REST (c_API b); ar = ci_REST (c_API a) in
      complain (cs_Hostname (c_Server b) \<noteq> cs_Hostname (c_Server a)) ''server.hostname'' @
      complain (cs_DataDir (c_Server b) \<noteq> cs_DataDir (c_Server a)) ''server.data_dir'' @
      complain (cd_V4 (c_DHCP b) \<noteq> cd_V4 (c_DHCP a)) ''dhcp.v4'' @
      complain (cd_V6 (c_DHCP b) \<noteq> cd_V6 (c_DHCP a)) ''dhcp.v6'' @
      complain (cd_DefaultLeaseTime (c_DHCP b) \<noteq> cd_DefaultLeaseTime (c_DHCP a)) ''dhcp.default_lease_time'' @
      complain (cd_MaxLeaseTime (c_DHCP b) \<noteq> cd_MaxLeaseTime (c_DHCP a)) ''dhcp.max_lease_time'' @
      complain (cd_DDNS (c_DHCP b) \<noteq> cd_DDNS (c_DHCP a)) ''dhcp.ddns'' @
      complain (c_Subnets b \<noteq> c_Subnets a) ''subnets'' @
      complain (c_Discovery b \<noteq> c_Discovery a) ''ipam.discovery'' @
      complain (ct_Listen br \<noteq> ct_Listen ar) ''api.rest.listen'' @
      complain ([ct_TLSCertFile br, ct_TLSKeyFile br] \<noteq> [ct_TLSCertFile ar, ct_TLSKeyFile ar]) ''api.rest.tls'' @
      complain (ci_GRPC (c_API b) \<noteq> ci_GRPC (c_API a)) ''api.grpc'' @
      complain (ci_WebSocket (c_API b) \<noteq> ci_WebSocket (c_API a)) ''api.websocket'' @
      complain (ci_MCP (c_API b) \<noteq> ci_MCP (c_API a)) ''api.mcp'' @
      complain (c_Dashboard b \<noteq> c_Dashboard a) ''dashboard'' @
      complain (ca_Type (c_Auth b) \<noteq> ca_Type (c_Auth a)) ''auth.type'' @
      complain (ca_Local (c_Auth b) \<noteq> ca_Local (c_Auth a)) ''auth.local'' @
      complain (ca_LDAP (c_Auth b) \<noteq> ca_LDAP (c_Auth a)) ''auth.ldap'' @
      complain (ca_APITokens (c_Auth b) \<noteq> ca_APITokens (c_Auth a)) ''auth.api_tokens'' @
      complain (cx_CookieName (ca_Session (c_Auth b)) \<noteq> cx_CookieName (ca_Session (c_Auth a))) ''auth.session.cookie_name'' @
      complain (cx_Duration (ca_Session (c_Auth b)) \<noteq> cx_Duration (ca_Session (c_Auth a))) ''auth.session.duration'' @
      complain (c_HA b \<noteq> c_HA a) ''ha'' @
      complain (cm_Path (c_Metrics b) \<noteq> cm_Path (c_Metrics a)) ''metrics.prometheus.path'' @
      complain (c_Webhooks b \<noteq> c_Webhooks a) ''webhooks'')"

record runtimeReloadState =
  rl_lastReloadAt :: time
  rl_restartRequired :: "string list"

definition newRuntimeReloadState :: runtimeReloadState where
  "newRuntimeReloadState = \<lparr>rl_lastReloadAt = 0, rl_restartRequired = []\<rparr>"

definition reload_Mark :: "time \<Rightarrow> string list \<Rightarrow> runtimeReloadState \<Rightarrow> runtimeReloadState" where
  "reload_Mark now restartRequired s = \<lparr>rl_lastReloadAt = now, rl_restartRequired = restartRequired\<rparr>"

record reload_snapshot =
  sn_lastReloaded :: "time option"
  sn_restartRequired :: "string list"
  sn_pending :: bool

definition reload_Snapshot :: "runtimeReloadState \<Rightarrow> reload_snapshot" where
  "reload_Snapshot s =
     \<lparr>sn_lastReloaded = (if is_zero_time (rl_lastReloadAt s) then None else Some (rl_lastReloadAt s)),
      sn_restartRequired = rl_restartRequired s, sn_pending = (rl_restartRequired s \<noteq> [])\<rparr>"

text \<open>The running program's view: the manager's configuration, the settings, the reload state, and the
  variable \<^verbatim>\<open>cfg\<close> of \<^verbatim>\<open>main\<close>. A hang-up signal reloads.\<close>

record main_state =
  ms_manager :: Config
  ms_cfg :: Config
  ms_runtime :: runtimeSettings
  ms_reload :: runtimeReloadState

definition on_hangup :: "config_io \<Rightarrow> string \<Rightarrow> bool \<Rightarrow> time \<Rightarrow> config_file \<Rightarrow> main_state \<Rightarrow> main_state" where
  "on_hangup io dataDirFlag debug now file m =
     (case Reload io [\<lambda>next. runtime_Apply (applyRuntimeOverrides dataDirFlag debug next)] file (ms_manager m, ms_runtime m) of
        (_, Some err) \<Rightarrow> m
      | ((c, rt), None) \<Rightarrow>
          (let cfg = applyRuntimeOverrides dataDirFlag debug c in
           \<lparr>ms_manager = c, ms_cfg = cfg, ms_runtime = runtime_Apply cfg rt,
            ms_reload = reload_Mark now (restartRequiredConfigChanges (ms_cfg m) cfg) (ms_reload m)\<rparr>))"

text \<open>The start of \<^verbatim>\<open>main\<close>.\<close>

definition main_start :: "config_io \<Rightarrow> string \<Rightarrow> bool \<Rightarrow> config_file \<Rightarrow> go_error + main_state" where
  "main_start io dataDirFlag debug file =
     rbind (NewConfigManager io file) (\<lambda>c.
       (let cfg = applyRuntimeOverrides dataDirFlag debug c in
        Inr \<lparr>ms_manager = c, ms_cfg = cfg,
          ms_runtime = runtime_Apply cfg \<lparr>rt_CORSOrigins = [], rt_TrustedProxies = [], rt_RateLimit = 0,
            rt_AuthRateLimit = 0, rt_authEnforced = False, rt_authSecureCookie = False\<rparr>,
          ms_reload = newRuntimeReloadState\<rparr>))"

section \<open>config_merge.go\<close>

text \<open>A decoded document: maps with distinct keys over other values.\<close>

datatype 'v yaml = YMap "(string \<times> 'v yaml) list" | YLeaf 'v

fun mergeMaps :: "(string \<times> 'v yaml) list \<Rightarrow> (string \<times> 'v yaml) list \<Rightarrow> (string \<times> 'v yaml) list" where
  "mergeMaps dst [] = dst"
| "mergeMaps dst ((key, YLeaf v) # src) = mergeMaps (mput key (YLeaf v) dst) src"
| "mergeMaps dst ((key, YMap m) # src) =
     mergeMaps (mput key (YMap (mergeMaps (case map_of dst key of Some (YMap d) \<Rightarrow> d | _ \<Rightarrow> []) m)) dst) src"

end
