(* ===== verification/ConfigProps.thy ===== *)
theory ConfigProps
  imports RuntimeConfig Dhcp6Props
begin

text \<open>
  What a validated configuration guarantees to the parts that are built from it, and what a reload puts into
  force: the DHCPv4 pools, the enforcement of the authentication, the report of what needs a restart, and the
  merge of a partial configuration.
\<close>

section \<open>Subnets and pools\<close>

definition pool_configs :: "Config \<Rightarrow> subnet_config list" where
  "pool_configs c = map subnet_config.truncate (c_Subnets c)"

lemma truncate_fields [simp]:
  "sc_CIDR (subnet_config.truncate s) = sc_CIDR s" "sc_Gateway (subnet_config.truncate s) = sc_Gateway s"
  "sc_DNS (subnet_config.truncate s) = sc_DNS s" "sc_DHCPEnabled (subnet_config.truncate s) = sc_DHCPEnabled s"
  "sc_PoolStart (subnet_config.truncate s) = sc_PoolStart s" "sc_PoolEnd (subnet_config.truncate s) = sc_PoolEnd s"
  "sc_LeaseTime (subnet_config.truncate s) = sc_LeaseTime s"
  by (simp_all add: subnet_config.truncate_def)

lemma complain_Nil [simp]: "complain b m = [] \<longleftrightarrow> \<not> b"
  by (simp add: complain_def)

lemma list_errors_Nil: "list_errors f xs = [] \<longleftrightarrow> (\<forall>i<length xs. f (xs ! i) i = [])"
proof -
  have "list_errors f xs = [] \<longleftrightarrow> (\<forall>(i, x)\<in>set (enumerate 0 xs). f x i = [])" by (auto simp: list_errors_def)
  also have "\<dots> \<longleftrightarrow> (\<forall>i<length xs. f (xs ! i) i = [])" by (auto simp: in_set_enumerate_eq)
  finally show ?thesis .
qed

lemma no_overlap_errors: "overlap_errors idx p seen = [] \<longleftrightarrow> (\<forall>q\<in>set seen. \<not> prefixesOverlap p q)"
  unfolding overlap_errors_def list_errors_Nil by (simp add: all_set_conv_all_nth)

lemma shared_address_overlaps:
  assumes "pfx_Contains p a" "pfx_Contains q a"
  shows "prefixesOverlap p q"
proof (cases "pfx_bits p \<le> pfx_bits q")
  case True
  then show ?thesis using Contains_base [OF assms True] by (simp add: prefixesOverlap_def)
next
  case False
  then have "pfx_bits q \<le> pfx_bits p" by simp
  then show ?thesis using Contains_base [OF assms(2,1)] by (simp add: prefixesOverlap_def)
qed

text \<open>A range between two addresses of a prefix lies in the prefix.\<close>

lemma drop_bit_between:
  fixes a b w :: "'a::len word"
  assumes "a \<le> w" "w \<le> b" "drop_bit n a = drop_bit n x" "drop_bit n b = drop_bit n x"
  shows "drop_bit n x = drop_bit n w"
proof -
  have "unat (drop_bit n a) \<le> unat (drop_bit n w)" "unat (drop_bit n w) \<le> unat (drop_bit n b)"
    using assms(1,2) unfolding word_le_nat_alt unat_drop_bit_eq by (simp_all add: drop_bit_eq_div div_le_mono)
  then show ?thesis using assms(3,4) by (simp flip: word_unat_eq_iff)
qed

text \<open>A subnet of the DHCPv4 server, whose pool is not the whole address space.\<close>

definition v4_subnet :: "'a subnet_config_scheme \<Rightarrow> bool" where
  "v4_subnet s \<longleftrightarrow> (case ParsePrefix (sc_CIDR s) of None \<Rightarrow> False | Some p \<Rightarrow> addr_Is4 (pfx_addr p)) \<and>
     \<not> (ParseAddr (sc_PoolStart s) = Some (A4 0) \<and> ParseAddr (sc_PoolEnd s) = Some (A4 (- 1)))"

text \<open>The pools built so far, whose prefixes are among those that the validation has seen.\<close>

definition pools_of_config :: "prefix list \<Rightarrow> PoolManager \<Rightarrow> bool" where
  "pools_of_config seen pm \<longleftrightarrow> pm_ok pm \<and>
     (\<forall>pid p. pool_of pm pid = Some p \<longrightarrow> sp_prefix p \<in> set seen \<and> ParsePrefix pid = Some (sp_prefix p) \<and>
        (\<forall>w. in_pool p w \<longrightarrow> pfx_Contains (sp_prefix p) (A4 w)))"

lemma build_validated_pool:
  assumes "ParsePrefix (sc_CIDR s) = Some p" "range_errors idx p s = []" "sc_DHCPEnabled s" "v4_subnet s"
  obtains pool where "build_pool dur (subnet_config.truncate s) = Inr pool" "sp_id pool = sc_CIDR s" "sp_prefix pool = p"
    "pool_ok pool" "\<And>w. in_pool pool w \<Longrightarrow> pfx_Contains p (A4 w)"
proof -
  obtain x where x: "pfx_addr p = A4 x" using assms(1,4) by (auto simp: v4_subnet_def addr_Is4_def split: addr.splits)
  obtain a b where ab: "ParseAddr (sc_PoolStart s) = Some a" "ParseAddr (sc_PoolEnd s) = Some b"
    "pfx_Contains p a" "pfx_Contains p b" "\<not> 0 < addr_Compare a b"
    using assms(2,3) by (auto simp: range_errors_def split: option.splits)
  obtain u v where uv: "a = A4 u" "b = A4 v" using ab(3,4) x by (auto simp: pfx_Contains_def split: addr.splits)
  have le: "u \<le> v" using ab(5) by (auto simp: uv addr_Compare_def cmp3_def split: if_splits)
  have ne: "v - u \<noteq> - 1"
  proof
    assume d: "v - u = - 1"
    have "unat (v - u) = unat v - unat u" using le by (simp add: unat_sub)
    moreover have "unat (v - u) = 2 ^ 32 - 1" by (simp add: d unsigned_minus_1_eq_mask mask_eq_exp_minus_1)
    ultimately have "unat u = 0" using unsigned_less [of v, where ?'a = nat] by simp
    then have "u = 0" by (simp add: unat_eq_zero)
    with d show False using assms(4) ab by (simp add: uv v4_subnet_def)
  qed
  then have len: "unat (v - u + 1) = unat (v - u) + 1"
    by (metis Suc_eq_plus1 add.commute unatSuc add_eq_0_iff)
  show ?thesis
  proof (rule that)
    show "build_pool dur (subnet_config.truncate s) = Inr
        \<lparr>sp_id = sc_CIDR s, sp_prefix = p, sp_start = u, sp_end = v, sp_bitmap = replicate (unat (v - u + 1)) False,
         sp_gateway = ip_To4 (net_ParseIP (sc_Gateway s)), sp_dns = parseIPs (sc_DNS s),
         sp_leaseDur = (if sc_LeaseTime s \<le> 0 then dur else sc_LeaseTime s)\<rparr>" (is "_ = Inr ?pool")
      using le by (simp add: build_pool_def assms(1) ab(1,2) uv addr_As4_def)
    show "pool_ok ?pool" using le len by (simp add: pool_ok_def)
    show "pfx_Contains p (A4 w)" if "in_pool ?pool w" for w
    proof -
      have d: "drop_bit (32 - pfx_bits p) u = drop_bit (32 - pfx_bits p) x" "drop_bit (32 - pfx_bits p) v = drop_bit (32 - pfx_bits p) x"
        using ab(3,4) by (simp_all add: pfx_Contains_def x uv)
      have "u \<le> w" "w \<le> v" using that by (simp_all add: in_pool_def)
      from drop_bit_between [OF this d] show ?thesis by (simp add: pfx_Contains_def x)
    qed
  qed simp_all
qed

lemma pools_from_add:
  assumes P: "pools_of_config seen pm" and fresh: "\<forall>q\<in>set seen. \<not> prefixesOverlap p q" and id: "ParsePrefix (sp_id pool) = Some p"
    and pool: "sp_prefix pool = p" "pool_ok pool" "\<And>w. in_pool pool w \<Longrightarrow> pfx_Contains p (A4 w)"
  shows "pools_of_config (seen @ [p])
    (pm\<lparr>pm_pools := mput (sp_id pool) pool (pm_pools pm), pm_order := pm_order pm @ [sp_id pool]\<rparr>)"
proof -
  note old = P [unfolded pools_of_config_def pm_ok_def]
  have "\<not> in_pool pool w" if "pool_of pm i = Some q" "in_pool q w" for i q w
  proof
    assume "in_pool pool w"
    then have "pfx_Contains p (A4 w)" "pfx_Contains (sp_prefix q) (A4 w)" "sp_prefix q \<in> set seen"
      using pool(3) that old by blast+
    then show False using fresh shared_address_overlaps by blast
  qed
  then have uniq: "i = j" if "((pool_of pm)(sp_id pool \<mapsto> pool)) i = Some q" "((pool_of pm)(sp_id pool \<mapsto> pool)) j = Some r"
      "in_pool q w" "in_pool r w" for i j q r w
  proof (cases "i = sp_id pool \<or> j = sp_id pool")
    case True
    then show ?thesis using that \<open>\<And>w q i. pool_of pm i = Some q \<Longrightarrow> in_pool q w \<Longrightarrow> \<not> in_pool pool w\<close> by (auto split: if_splits)
  next
    case False
    then have "pool_of pm i = Some q" "pool_of pm j = Some r" using that by auto
    then show ?thesis using old that(3,4) by blast
  qed
  have each: "sp_id q = i \<and> pool_ok q" "sp_prefix q \<in> set (seen @ [p]) \<and> ParsePrefix i = Some (sp_prefix q) \<and>
      (\<forall>w. in_pool q w \<longrightarrow> pfx_Contains (sp_prefix q) (A4 w))"
    if "((pool_of pm)(sp_id pool \<mapsto> pool)) i = Some q" for i q
    using that old pool id by (auto split: if_splits)
  have ord: "\<forall>i\<in>set (pm_order pm @ [sp_id pool]). ((pool_of pm)(sp_id pool \<mapsto> pool)) i \<noteq> None" using old by auto
  have sel: "pool_of (pm\<lparr>pm_pools := mput (sp_id pool) pool (pm_pools pm), pm_order := pm_order pm @ [sp_id pool]\<rparr>) =
      (pool_of pm)(sp_id pool \<mapsto> pool)"
    "pm_order (pm\<lparr>pm_pools := mput (sp_id pool) pool (pm_pools pm), pm_order := pm_order pm @ [sp_id pool]\<rparr>) =
      pm_order pm @ [sp_id pool]"
    by simp_all
  show ?thesis unfolding pools_of_config_def pm_ok_def sel using uniq each ord by blast
qed

lemma pools_from_more: "pools_of_config seen pm \<Longrightarrow> pools_of_config (seen @ ps) pm"
  by (auto simp: pools_of_config_def)

lemma build_validated_pools:
  "subnet_errors idx seen ss = [] \<Longrightarrow> \<forall>s\<in>set ss. sc_DHCPEnabled s \<longrightarrow> v4_subnet s \<Longrightarrow> pools_of_config seen pm \<Longrightarrow>
   \<exists>pm' seen'. build_pools dur (map subnet_config.truncate ss) pm = Inr pm' \<and> pools_of_config seen' pm'"
proof (induction ss arbitrary: idx seen pm)
  case (Cons s ss)
  obtain p where p: "ParsePrefix (sc_CIDR s) = Some p" "\<forall>q\<in>set seen. \<not> prefixesOverlap p q" "range_errors idx p s = []"
    "subnet_errors (Suc idx) (seen @ [p]) ss = []"
    using Cons.prems(1) by (auto simp: no_overlap_errors split: option.splits)
  show ?case
  proof (cases "sc_DHCPEnabled s")
    case True
    then obtain pool where pool: "build_pool dur (subnet_config.truncate s) = Inr pool" "sp_id pool = sc_CIDR s"
      "sp_prefix pool = p" "pool_ok pool" "\<And>w. in_pool pool w \<Longrightarrow> pfx_Contains p (A4 w)"
      using build_validated_pool [OF p(1) p(3)] Cons.prems(2) by (metis list.set_intros(1))
    show ?thesis
      using Cons.IH [OF p(4) _ pools_from_add [OF Cons.prems(3) p(2) _ pool(3-5)]] Cons.prems(2) True p(1) pool(1,2)
      by simp
  next
    case False
    then show ?thesis using Cons.IH [OF p(4) _ pools_from_more [OF Cons.prems(3)]] Cons.prems(2) by simp
  qed
qed auto

lemma no_errors_parts:
  "Validate E c = None \<Longrightarrow> subnet_errors 0 [] (c_Subnets c) = [] \<and> auth_errors (c_Auth c) = [] \<and>
     dhcp_errors (c_DHCP c) = [] \<and> ha_errors E (c_HA c) = [] \<and> server_errors (c_Server c) = []"
  by (auto simp: Validate_def validation_errors_def split: if_splits)

text \<open>C11: a validated configuration in which every subnet that serves DHCP is IPv4, and none has the whole address space as its
  pool, is well-formed for the DHCPv4 server: the pools can be built, every pool's bitmap fits its range, and no address is in
  two pools; so the server's properties hold of it. One with an IPv6 subnet makes the server panic (\<open>dual_stack_panics\<close>).
\<close>

theorem validated_config_pools:
  assumes "Validate E c = None" "\<forall>s\<in>set (c_Subnets c). sc_DHCPEnabled s \<longrightarrow> v4_subnet s"
  shows "config_ok dur (pool_configs c)"
proof -
  have "pools_of_config [] \<lparr>pm_pools = [], pm_order = [], pm_scope = None\<rparr>" by (simp add: pools_of_config_def pm_ok_def)
  then show ?thesis
    using build_validated_pools [of 0 "[]" "c_Subnets c" _ dur] no_errors_parts [OF assms(1)] assms(2)
    by (fastforce simp: config_ok_def built_pools_def pool_configs_def pools_of_config_def)
qed

section \<open>IPv6 subnets\<close>

text \<open>An IPv6 subnet; its pool does not begin with an IPv4-mapped address.\<close>

definition v6_subnet :: "'a subnet_config_scheme \<Rightarrow> bool" where
  "v6_subnet s \<longleftrightarrow> (case ParseAddr (sc_PoolStart s) of Some (A6 u z) \<Rightarrow> drop_bit 32 u \<noteq> 0xFFFF | _ \<Rightarrow> False)"

lemma build_v6_pool:
  assumes "ParsePrefix (sc_CIDR s) = Some p" "range_errors idx p s = []" "sc_DHCPEnabled s" "v6_subnet s"
  shows "build_pool dur (subnet_config.truncate s) = Inl (Panic ''As4 called on IPv6 address'')"
proof -
  obtain a b where "ParseAddr (sc_PoolStart s) = Some a" "ParseAddr (sc_PoolEnd s) = Some b"
    using assms(2,3) by (auto simp: range_errors_def split: option.splits)
  then show ?thesis
    using assms(4) by (auto simp: build_pool_def assms(1) v6_subnet_def addr_As4_def split: addr.splits)
qed

lemma build_dual_stack:
  "subnet_errors idx seen ss = [] \<Longrightarrow> \<forall>s\<in>set ss. sc_DHCPEnabled s \<longrightarrow> v4_subnet s \<or> v6_subnet s \<Longrightarrow>
   \<exists>s\<in>set ss. sc_DHCPEnabled s \<and> v6_subnet s \<Longrightarrow>
   build_pools dur (map subnet_config.truncate ss) pm = Inl (Panic ''As4 called on IPv6 address'')"
proof (induction ss arbitrary: idx seen pm)
  case (Cons s ss)
  obtain p where p: "ParsePrefix (sc_CIDR s) = Some p" "range_errors idx p s = []"
    "subnet_errors (Suc idx) (seen @ [p]) ss = []"
    using Cons.prems(1) by (auto split: option.splits)
  consider "\<not> sc_DHCPEnabled s" | "sc_DHCPEnabled s" "v6_subnet s" | "sc_DHCPEnabled s" "\<not> v6_subnet s" by blast
  then show ?case
  proof cases
    case 1
    then show ?thesis using Cons.IH [OF p(3)] Cons.prems(2,3) by simp
  next
    case 2
    then show ?thesis using build_v6_pool [OF p(1,2)] by simp
  next
    case 3
    then have v4: "v4_subnet s" using Cons.prems(2) by simp
    obtain pool where "build_pool dur (subnet_config.truncate s) = Inr pool"
      using build_validated_pool [OF p(1,2) 3(1) v4] by metis
    then show ?thesis using Cons.IH [OF p(3)] Cons.prems(2,3) 3 by simp
  qed
qed simp

text \<open>a validated configuration whose subnets serve DHCP over IPv4 and at least one over IPv6 cannot be started
  with the DHCPv4 server enabled (the default): the pool manager of DHCPv4 takes every subnet that serves
  DHCP, and the conversion of an IPv6 address to four bytes panics.
\<close>

theorem dual_stack_panics:
  assumes "Validate E c = None" "\<forall>s\<in>set (c_Subnets c). sc_DHCPEnabled s \<longrightarrow> v4_subnet s \<or> v6_subnet s"
    and "s \<in> set (c_Subnets c)" "sc_DHCPEnabled s" "v6_subnet s"
  shows "NewPoolManager (pool_configs c) dur ops st = Inl (Panic ''As4 called on IPv6 address'')"
proof -
  have "subnet_errors 0 [] (c_Subnets c) = []" using no_errors_parts [OF assms(1)] by blast
  moreover have "\<exists>s\<in>set (c_Subnets c). sc_DHCPEnabled s \<and> v6_subnet s" using assms(3-5) by blast
  ultimately show ?thesis by (simp add: NewPoolManager_def pool_configs_def build_dual_stack [OF _ assms(2)])
qed

section \<open>Authentication\<close>

lemma lower_printable: "printable (lower_char c) \<Longrightarrow> printable c"
  by (auto simp: lower_char_def printable_def less_eq_char_def byte_nat_def nat_byte_def split: if_splits)

lemma fold_printable_trim:
  assumes "ToLower s = t" "t \<noteq> []" "printable (hd t)" "printable (last t)"
  shows "TrimSpace s = s"
proof (rule TrimSpace_printable)
  show ne: "s \<noteq> []" using assms(1,2) by (auto simp: ToLower_def)
  show "printable (hd s)" using assms(1,3) ne by (auto simp: ToLower_def hd_map intro: lower_printable)
  show "printable (last s)" using assms(1,4) ne by (auto simp: ToLower_def last_map intro: lower_printable)
qed

text \<open>a validated configuration with authentication enabled enforces it exactly when its \<open>auth.type\<close> has no white
  space around it: the validation trims the value, the enforcement does not, so with \<open>" local"\<close> the
  configuration is accepted and every interface is open.
\<close>

theorem auth_type_spaces_open:
  assumes "Validate E c = None" "ca_Enabled (c_Auth c)"
  shows "runtimeAuthEnforced c \<longleftrightarrow> TrimSpace (ca_Type (c_Auth c)) = ca_Type (c_Auth c)"
proof -
  have "auth_errors (c_Auth c) = []" using no_errors_parts [OF assms(1)] by blast
  then have "EqualFold (TrimSpace (ca_Type (c_Auth c))) ''local''"
    using assms(2) by (simp add: auth_errors_def)
  moreover have "EqualFold t ''local'' \<Longrightarrow> TrimSpace t = t" for t
    unfolding EqualFold_def
    by (rule fold_printable_trim) (auto simp: ToLower_def lower_char_def less_eq_char_def printable_def byte_nat_def)
  ultimately show ?thesis using assms(2) by (auto simp: runtimeAuthEnforced_def)
qed

section \<open>Reloading\<close>

lemma changes_refl [simp]: "restartRequiredConfigChanges c c = []"
  by (simp add: restartRequiredConfigChanges_def Let_def)

text \<open>A configuration without what is put into force by a reload, and without what the report leaves out.\<close>

definition cold :: "Config \<Rightarrow> Config" where
  "cold c = c\<lparr>c_Server := (c_Server c)\<lparr>cs_LogLevel := [], cs_LogFormat := []\<rparr>,
     c_API := (c_API c)\<lparr>ci_REST := (ci_REST (c_API c))\<lparr>ct_Enabled := True, ct_CORSOrigins := [], ct_TrustedProxies := [],
       ct_RateLimit := 0, ct_AuthRateLimit := 0\<rparr>\<rparr>,
     c_Auth := (c_Auth c)\<lparr>ca_Enabled := True, ca_Session := (ca_Session (c_Auth c))\<lparr>cx_Secure := True\<rparr>\<rparr>,
     c_Metrics := (c_Metrics c)\<lparr>cm_Enabled := True\<rparr>, c_Backup := c_Backup DefaultConfig\<rparr>"

lemma cold_parts:
  "s\<lparr>cs_LogLevel := l, cs_LogFormat := f\<rparr> = s'\<lparr>cs_LogLevel := l, cs_LogFormat := f\<rparr> \<longleftrightarrow>
     cs_Hostname s = cs_Hostname s' \<and> cs_DataDir s = cs_DataDir s'"
  "x\<lparr>cx_Secure := b\<rparr> = x'\<lparr>cx_Secure := b\<rparr> \<longleftrightarrow> cx_Duration x = cx_Duration x' \<and> cx_CookieName x = cx_CookieName x'"
  "m\<lparr>cm_Enabled := b\<rparr> = m'\<lparr>cm_Enabled := b\<rparr> \<longleftrightarrow> cm_Path m = cm_Path m'"
  for s s' :: ServerConfig and x x' :: SessionAuthConfig and m m' :: PrometheusConfig
  by ((cases s; cases s'; auto), (cases x; cases x'; auto), (cases m; cases m'; auto))

lemma cold_rest:
  "r\<lparr>ct_Enabled := b, ct_CORSOrigins := o1, ct_TrustedProxies := t, ct_RateLimit := n, ct_AuthRateLimit := k\<rparr> =
   r'\<lparr>ct_Enabled := b, ct_CORSOrigins := o1, ct_TrustedProxies := t, ct_RateLimit := n, ct_AuthRateLimit := k\<rparr> \<longleftrightarrow>
     ct_Listen r = ct_Listen r' \<and> ct_TLSCertFile r = ct_TLSCertFile r' \<and> ct_TLSKeyFile r = ct_TLSKeyFile r'"
  for r r' :: RESTConfig
  by (cases r; cases r') auto

lemma cold_groups:
  "a\<lparr>ci_REST := r\<rparr> = a'\<lparr>ci_REST := r'\<rparr> \<longleftrightarrow>
     r = r' \<and> ci_GRPC a = ci_GRPC a' \<and> ci_WebSocket a = ci_WebSocket a' \<and> ci_MCP a = ci_MCP a'"
  "u\<lparr>ca_Enabled := b, ca_Session := x\<rparr> = u'\<lparr>ca_Enabled := b, ca_Session := x'\<rparr> \<longleftrightarrow>
     x = x' \<and> ca_Type u = ca_Type u' \<and> ca_Local u = ca_Local u' \<and> ca_LDAP u = ca_LDAP u' \<and> ca_APITokens u = ca_APITokens u'"
  for a a' :: APIConfig and u u' :: AuthConfig
  by ((cases a; cases a'; auto), (cases u; cases u'; auto))

lemma cold_config:
  "c\<lparr>c_Server := s, c_API := a, c_Auth := u, c_Metrics := m, c_Backup := k\<rparr> =
   c'\<lparr>c_Server := s', c_API := a', c_Auth := u', c_Metrics := m', c_Backup := k\<rparr> \<longleftrightarrow>
     s = s' \<and> a = a' \<and> u = u' \<and> m = m' \<and> c_DHCP c = c_DHCP c' \<and> c_Subnets c = c_Subnets c' \<and> c_Discovery c = c_Discovery c' \<and>
     c_Dashboard c = c_Dashboard c' \<and> c_HA c = c_HA c' \<and> c_Webhooks c = c_Webhooks c'"
  for c c' :: Config
  by (cases c; cases c') auto

lemma dhcp_equal: "d = d' \<longleftrightarrow> cd_V4 d = cd_V4 d' \<and> cd_V6 d = cd_V6 d' \<and> cd_DefaultLeaseTime d = cd_DefaultLeaseTime d' \<and>
    cd_MaxLeaseTime d = cd_MaxLeaseTime d' \<and> cd_DDNS d = cd_DDNS d'"
  for d d' :: DHCPConfig
  by (cases d; cases d') auto

lemma restart_report_exact: "restartRequiredConfigChanges b a = [] \<longleftrightarrow> cold b = cold a"
  by (simp add: restartRequiredConfigChanges_def cold_def cold_config cold_groups cold_rest cold_parts Let_def
      dhcp_equal [of "c_DHCP b"]) blast

lemma on_hangup_ok:
  assumes "Load io file = Inr c"
  shows "ms_cfg (on_hangup io dir debug t file m) = applyRuntimeOverrides dir debug c"
    "rl_restartRequired (ms_reload (on_hangup io dir debug t file m)) =
       restartRequiredConfigChanges (ms_cfg m) (applyRuntimeOverrides dir debug c)"
    "ms_runtime (on_hangup io dir debug t file m) = runtime_Apply (applyRuntimeOverrides dir debug c) (ms_runtime m)"
  using assms by (simp_all add: on_hangup_def Reload_def reload_Mark_def runtime_Apply_def Let_def)

text \<open>a reload reports exactly the parts that need a restart, but a second reload of the same file reports
  none, although the parts still run with the configuration of the start: the comparison is with the
  configuration last read, not with the one in force.
\<close>

theorem reload_forgets_pending:
  assumes "Load io file = Inr c" "m1 = on_hangup io dir debug t1 file m" "m2 = on_hangup io dir debug t2 file m1"
  shows "sn_restartRequired (reload_Snapshot (ms_reload m1)) = restartRequiredConfigChanges (ms_cfg m) (ms_cfg m1) \<and>
    ms_cfg m2 = ms_cfg m1 \<and> \<not> sn_pending (reload_Snapshot (ms_reload m2))"
  using assms(1) by (simp add: assms(2,3) on_hangup_ok reload_Snapshot_def)

text \<open>A reload that fails changes nothing.\<close>

lemma reload_failure_keeps: "Load io file = Inl err \<Longrightarrow> on_hangup io dir debug t file m = m"
  by (simp add: on_hangup_def Reload_def)

section \<open>Merging\<close>

text \<open>The value of a key after a merge, given by the value in both.\<close>

definition merged :: "'v yaml option \<Rightarrow> 'v yaml option \<Rightarrow> 'v yaml option" where
  "merged d s =
     (case s of
        None \<Rightarrow> d
      | Some (YLeaf v) \<Rightarrow> Some (YLeaf v)
      | Some (YMap m) \<Rightarrow> Some (YMap (mergeMaps (case d of Some (YMap x) \<Rightarrow> x | _ \<Rightarrow> []) m)))"

lemma mergeMaps_lookup:
  "distinct (mkeys src) \<Longrightarrow> map_of (mergeMaps dst src) k = merged (map_of dst k) (map_of src k)"
proof (induction src arbitrary: dst)
  case (Cons kv src)
  obtain key v where kv: "kv = (key, v)" by (cases kv)
  have "key = k \<Longrightarrow> map_of src k = None" using Cons.prems by (auto simp: kv map_of_eq_None_iff)
  then show ?case
    using Cons by (cases v) (auto simp: kv merged_def split: option.splits yaml.splits)
qed (simp add: merged_def)

section \<open>Instances\<close>

text \<open>The defaults are valid, with two subnets for DHCP over IPv4 and IPv6.\<close>

definition port_env :: config_env where
  "port_env = \<lparr>ce_LookupPort = (\<lambda>p. if p \<noteq> [] \<and> list_all is_digit p then Some (int (dec_val 0 p)) else None),
     ce_ParseURL = (\<lambda>_. None)\<rparr>"

definition subnet_v4 :: SubnetConfig where
  "subnet_v4 = \<lparr>sc_CIDR = ''10.0.0.0/24'', sc_Gateway = [], sc_DNS = [], sc_DHCPEnabled = True, sc_PoolStart = ''10.0.0.10'',
     sc_PoolEnd = ''10.0.0.11'', sc_LeaseTime = 0, ic_Name = ''office'', ic_VLAN = 0, cn_MaxLeaseTime = 0,
     cn_Template = [], cn_Reservations = []\<rparr>"

definition subnet_v6 :: SubnetConfig where
  "subnet_v6 = subnet_v4\<lparr>sc_CIDR := ''::/120'', sc_PoolStart := ''::5'', sc_PoolEnd := ''::6''\<rparr>"

definition config_v4 :: Config where
  "config_v4 = DefaultConfig\<lparr>c_Subnets := [subnet_v4]\<rparr>"

definition config_dual :: Config where
  "config_dual = DefaultConfig\<lparr>c_Subnets := [subnet_v4, subnet_v6]\<rparr>"

lemma default_listen: "validateListenAddr port_env '':8067'' = None" "validateListenAddr port_env '':9067'' = None"
  by code_simp+

lemma default_api: "api_errors port_env b (c_API DefaultConfig) = []"
  by (simp add: DefaultConfig_def api_errors_def default_listen opt_error_def list_errors_def validateTLSPair_def)

lemma default_parts:
  "server_errors (c_Server DefaultConfig) = []" "dhcp_errors (c_DHCP DefaultConfig) = []"
  "auth_errors (c_Auth DefaultConfig) = []" "ha_errors port_env (c_HA DefaultConfig) = []"
  "list_errors (hook_errors port_env) (c_Webhooks DefaultConfig) = []"
  by (code_simp, code_simp, code_simp, code_simp) (simp add: DefaultConfig_def list_errors_def)

lemma default_valid:
  "subnet_errors 0 [] ss = [] \<Longrightarrow> Validate port_env (DefaultConfig\<lparr>c_Subnets := ss\<rparr>) = None"
  using default_parts default_api by (simp add: Validate_def validation_errors_def)

lemma parse_v6_net: "ParsePrefix ''::/120'' = Some \<lparr>pfx_addr = A6 0 [], pfx_bits = 120\<rparr>"
proof -
  have "last_index (CHR ''/'') ''::/120'' = Some 2" by simp
  moreover have "ParseAddr ''::'' = Some (A6 0 [])" by (simp add: ParseAddr_def parseIPv6_def)
  ultimately show ?thesis by (simp add: ParsePrefix_def addr_bitlen_def addr_eval)
qed

lemma subnet_v4_valid:
  "range_errors 0 \<lparr>pfx_addr = A4 0x0A000000, pfx_bits = 24\<rparr> subnet_v4 = []" "v4_subnet subnet_v4"
  by (simp_all add: range_errors_def subnet_v4_def demo_parse demo_prefix pfx_Contains_def addr_Compare_def cmp3_def
      v4_subnet_def addr_Is4_def)

lemma subnet_v6_valid:
  "range_errors 1 \<lparr>pfx_addr = A6 0 [], pfx_bits = 120\<rparr> subnet_v6 = []" "v6_subnet subnet_v6"
  by (simp_all add: range_errors_def subnet_v6_def subnet_v4_def parse_five pfx_Contains_def addr_Compare_def cmp3_def
      v6_subnet_def)

lemma subnets_valid: "subnet_errors 0 [] [subnet_v4] = []" "subnet_errors 0 [] [subnet_v4, subnet_v6] = []"
proof -
  have f: "sc_CIDR subnet_v4 = ''10.0.0.0/24''" "sc_CIDR subnet_v6 = ''::/120''" "sc_Gateway subnet_v4 = []"
    "sc_Gateway subnet_v6 = []" "cn_Reservations subnet_v4 = []" "cn_Reservations subnet_v6 = []"
    by (simp_all add: subnet_v4_def subnet_v6_def)
  have o1: "\<not> prefixesOverlap \<lparr>pfx_addr = A6 0 [], pfx_bits = 120\<rparr> \<lparr>pfx_addr = A4 0x0A000000, pfx_bits = 24\<rparr>"
    by (simp add: prefixesOverlap_def pfx_Masked_def pfx_Contains_def)
  show "subnet_errors 0 [] [subnet_v4] = []" "subnet_errors 0 [] [subnet_v4, subnet_v6] = []"
    using subnet_v4_valid(1) subnet_v6_valid(1) o1
    by (simp_all add: f demo_prefix parse_v6_net gateway_errors_def no_overlap_errors list_errors_def)
qed

theorem validated_config_pools_witness:
  "Validate port_env config_v4 = None \<and> config_ok demo_dur (pool_configs config_v4)"
proof -
  have v: "Validate port_env config_v4 = None" unfolding config_v4_def by (rule default_valid [OF subnets_valid(1)])
  have "\<forall>s\<in>set (c_Subnets config_v4). sc_DHCPEnabled s \<longrightarrow> v4_subnet s"
    using subnet_v4_valid(2) by (simp add: config_v4_def)
  from v validated_config_pools [OF v this] show ?thesis by blast
qed

theorem dual_stack_panics_witness:
  "Validate port_env config_dual = None \<and>
   NewPoolManager (pool_configs config_dual) demo_dur (engine_store run_json) demo0 = Inl (Panic ''As4 called on IPv6 address'')"
proof -
  have v: "Validate port_env config_dual = None" unfolding config_dual_def by (rule default_valid [OF subnets_valid(2)])
  have "\<forall>s\<in>set (c_Subnets config_dual). sc_DHCPEnabled s \<longrightarrow> v4_subnet s \<or> v6_subnet s"
    "subnet_v6 \<in> set (c_Subnets config_dual)" "sc_DHCPEnabled subnet_v6"
    using subnet_v4_valid(2) subnet_v6_valid(2) by (simp_all add: config_dual_def subnet_v6_def subnet_v4_def)
  from v dual_stack_panics [OF v this subnet_v6_valid(2)] show ?thesis by simp
qed

definition config_open :: Config where
  "config_open = DefaultConfig\<lparr>c_Auth := (c_Auth DefaultConfig)\<lparr>ca_Type := '' local''\<rparr>\<rparr>"

theorem auth_type_spaces_open_witness:
  "Validate port_env config_open = None \<and> ca_Enabled (c_Auth config_open) \<and> \<not> runtimeAuthEnforced config_open"
proof -
  have t: "TrimSpace '' local'' = ''local''" by code_simp
  have "auth_errors (c_Auth config_open) = []" by code_simp
  then have v: "Validate port_env config_open = None"
    using default_parts default_api by (simp add: Validate_def validation_errors_def config_open_def DefaultConfig_def)
  have e: "ca_Enabled (c_Auth config_open)" "ca_Type (c_Auth config_open) = '' local''"
    by (simp_all add: config_open_def DefaultConfig_def)
  show ?thesis using auth_type_spaces_open [OF v e(1)] v e t by simp
qed

text \<open>A file that changes the host name, read twice.\<close>

definition renamed_io :: config_io where
  "renamed_io = \<lparr>cd_yaml = (\<lambda>data c. Some (c\<lparr>c_Server := (c_Server c)\<lparr>cs_Hostname := data\<rparr>\<rparr>)), cd_override = Some,
     cd_env = port_env\<rparr>"

theorem reload_forgets_pending_witness:
  "\<exists>m0 m1 m2. main_start renamed_io [] False (FileBody ''a'') = Inr m0 \<and>
     m1 = on_hangup renamed_io [] False 1 (FileBody ''b'') m0 \<and> m2 = on_hangup renamed_io [] False 2 (FileBody ''b'') m1 \<and>
     sn_restartRequired (reload_Snapshot (ms_reload m1)) = [''server.hostname''] \<and> \<not> sn_pending (reload_Snapshot (ms_reload m2))"
proof -
  have l: "Load renamed_io (FileBody n) = Inr (DefaultConfig\<lparr>c_Server := (c_Server DefaultConfig)\<lparr>cs_Hostname := n\<rparr>\<rparr>)" for n
    using default_parts default_api
    by (simp add: Load_def load_checked_def renamed_io_def Validate_def validation_errors_def server_errors_def DefaultConfig_def)
  let ?c = "\<lambda>n. applyRuntimeOverrides [] False (DefaultConfig\<lparr>c_Server := (c_Server DefaultConfig)\<lparr>cs_Hostname := n\<rparr>\<rparr>)"
  obtain m0 where m0: "main_start renamed_io [] False (FileBody ''a'') = Inr m0" "ms_cfg m0 = ?c ''a''"
    by (simp add: main_start_def NewConfigManager_def l Let_def)
  have "restartRequiredConfigChanges (?c ''a'') (?c ''b'') = [''server.hostname'']"
    by (simp add: restartRequiredConfigChanges_def applyRuntimeOverrides_def complain_def Let_def)
  with reload_forgets_pending [OF l refl refl, of "[]" False 1 "''b''" m0 2] m0 show ?thesis
    by (auto simp: on_hangup_ok [OF l])
qed

end
