(* ===== verification/Discovery.thy ===== *)
theory Discovery
  imports Rogue AuditLog IpamAddress
begin

text \<open>
  \<^verbatim>\<open>src/internal/discovery/engine.go\<close>: a scan compares the hosts that leases, reservations, the
  neighbour table and probes show with those of the scans before, and keeps its result as rows of the storage
  engine. The probes of the network (ping, TCP, the reverse look-up of names), the neighbour table, the JSON codecs,
  the formats of times and the percentage, which the code computes in floating point, are arguments. A set of strings is a
  list without duplicates. Of a list of subnets that only restricts the scan, the CIDRs are kept.
\<close>

section \<open>types.go\<close>

record Progress =
  pg_ScanID :: string
  pg_Phase :: string
  pg_Total :: int
  pg_Processed :: int
  pg_Percent :: int
  pg_StartedAt :: time
  pg_UpdatedAt :: time
  pg_InProgress :: bool

record ObservedHost =
  oh_IP :: string
  oh_MAC :: string
  oh_Vendor :: string
  oh_Hostname :: string
  oh_Subnet :: string
  oh_State :: string
  oh_SeenAt :: time

record Conflict =
  cf_IP :: string
  cf_MACs :: "string list"
  cf_Severity :: string
  cf_Note :: string

record ScanRequest =
  sq_Reason :: string
  sq_Subnets :: "string list"

record ScanResult =
  sr_ScanID :: string
  sr_Status :: string
  sr_Reason :: string
  sr_Subnets :: "string list"
  sr_StartedAt :: time
  sr_CompletedAt :: time
  sr_DurationMS :: int
  sr_TotalHosts :: int
  sr_NewHosts :: int
  sr_KnownHosts :: int
  sr_MissingHosts :: int
  sr_ChangedHosts :: int
  sr_Conflicts :: "Conflict list"
  sr_RogueServers :: "RogueServer list"
  sr_Hosts :: "ObservedHost list"

record discovery_status =
  st_SensorOnline :: bool
  st_LastScanAt :: time
  st_RogueDetected :: bool
  st_ActiveConflicts :: int
  st_NextScheduledScan :: time
  st_Scanning :: bool
  st_LatestScanID :: string
  st_Progress :: Progress

section \<open>Options\<close>

record discovery_options =
  dc_Methods :: "string list"
  dc_TCPPorts :: "int list"
  dc_ProbeTimeout :: duration
  dc_MaxTargetsPerSubnet :: int
  dc_MaxConcurrency :: int

definition containsMethod :: "string list \<Rightarrow> string \<Rightarrow> bool" where
  "containsMethod methods method \<longleftrightarrow> (\<exists>x\<in>set methods. EqualFold (TrimSpace x) method)"

definition hasActiveProbe :: "string list \<Rightarrow> bool" where
  "hasActiveProbe methods \<longleftrightarrow>
     containsMethod methods ''ping'' \<or> containsMethod methods ''tcp'' \<or> containsMethod methods ''arp''"

fun unique_methods :: "string list \<Rightarrow> string list \<Rightarrow> string list" where
  "unique_methods [] seen = []"
| "unique_methods (x # xs) seen =
     (let method = ToLower (TrimSpace x) in
      if method = [] \<or> method \<in> set seen then unique_methods xs seen
      else method # unique_methods xs (method # seen))"

definition normalizeMethods :: "string list \<Rightarrow> string list" where
  "normalizeMethods methods =
     (let out = unique_methods methods [] in if out = [] then [''passive''] else out)"

definition NormalizeOptions :: "discovery_options \<Rightarrow> discovery_options" where
  "NormalizeOptions o1 =
     \<lparr>dc_Methods = normalizeMethods (if dc_Methods o1 = [] then [''passive''] else dc_Methods o1),
      dc_TCPPorts = (if dc_TCPPorts o1 = [] then [22, 80, 443] else dc_TCPPorts o1),
      dc_ProbeTimeout = (if dc_ProbeTimeout o1 \<le> 0 then 900000000 else dc_ProbeTimeout o1),
      dc_MaxTargetsPerSubnet = (if dc_MaxTargetsPerSubnet o1 \<le> 0 then 32 else dc_MaxTargetsPerSubnet o1),
      dc_MaxConcurrency = (if dc_MaxConcurrency o1 \<le> 0 then 12 else dc_MaxConcurrency o1)\<rparr>"

section \<open>The known hosts\<close>

record knownHost =
  kh_ip :: string
  kh_mac :: string
  kh_hostname :: string
  kh_subnet :: string
  kh_source :: string

definition no_host :: knownHost where
  "no_host = \<lparr>kh_ip = [], kh_mac = [], kh_hostname = [], kh_subnet = [], kh_source = []\<rparr>"

definition lookup_host :: "(string \<times> knownHost) list \<Rightarrow> string \<Rightarrow> knownHost" where
  "lookup_host m ip = (case map_of m ip of None \<Rightarrow> no_host | Some h \<Rightarrow> h)"

definition known_lease :: "Lease \<Rightarrow> (string \<times> knownHost) list \<Rightarrow> (string \<times> knownHost) list" where
  "known_lease l m =
     (let ip = TrimSpace (l_IP l) in
      if ip = [] then m
      else mput ip \<lparr>kh_ip = ip, kh_mac = ToUpper (TrimSpace (l_MAC l)), kh_hostname = TrimSpace (l_Hostname l),
             kh_subnet = TrimSpace (l_SubnetID l), kh_source = ''lease''\<rparr> m)"

definition known_reservation :: "Reservation \<Rightarrow> (string \<times> knownHost) list \<Rightarrow> (string \<times> knownHost) list" where
  "known_reservation r m =
     (let ip = TrimSpace (rv_IP r) in
      if ip = [] then m
      else
        (let h0 = lookup_host m ip;
             h = (if kh_ip h0 = [] then no_host\<lparr>kh_ip := ip, kh_source := ''reservation''\<rparr> else h0)
         in mput ip
              (h\<lparr>kh_mac := (if kh_mac h = [] then ToUpper (TrimSpace (rv_MAC r)) else kh_mac h),
                 kh_hostname := (if kh_hostname h = [] then TrimSpace (rv_Hostname r) else kh_hostname h),
                 kh_subnet := (if kh_subnet h = [] then TrimSpace (rv_SubnetCIDR r) else kh_subnet h)\<rparr>) m))"

definition collectKnownHosts :: "Lease list \<Rightarrow> Reservation list \<Rightarrow> (string \<times> knownHost) list" where
  "collectKnownHosts leases reservations = fold known_reservation reservations (fold known_lease leases [])"

definition ipMatchesSubnets :: "string \<Rightarrow> string \<Rightarrow> string list \<Rightarrow> bool" where
  "ipMatchesSubnets ip subnet cidrs \<longleftrightarrow>
     cidrs = [] \<or>
     (\<exists>c\<in>set cidrs.
        (TrimSpace subnet \<noteq> [] \<and> EqualFold (TrimSpace subnet) c) \<or>
        (case ParsePrefix (TrimSpace c) of
           None \<Rightarrow> False
         | Some p \<Rightarrow> (case ParseAddr (TrimSpace ip) of None \<Rightarrow> False | Some a \<Rightarrow> pfx_Contains p a)))"

definition filterKnownHostsForSubnets :: "string list \<Rightarrow> (string \<times> knownHost) list \<Rightarrow> (string \<times> knownHost) list" where
  "filterKnownHostsForSubnets cidrs m =
     (if cidrs = [] then m else filter (\<lambda>(ip, h). ipMatchesSubnets ip (kh_subnet h) cidrs) m)"

definition filterObservedHostsForSubnets :: "string list \<Rightarrow> (string \<times> ObservedHost) list \<Rightarrow> (string \<times> ObservedHost) list" where
  "filterObservedHostsForSubnets cidrs m =
     (if cidrs = [] then m else filter (\<lambda>(ip, h). ipMatchesSubnets ip (oh_Subnet h) cidrs) m)"

definition arp_host :: "string list \<Rightarrow> string \<times> string \<Rightarrow> (string \<times> knownHost) list \<Rightarrow> (string \<times> knownHost) list" where
  "arp_host cidrs = (\<lambda>(ip, mac) m.
     (if \<not> ipMatchesSubnets ip [] cidrs then m
      else
        (let h0 = lookup_host m ip;
             h = (if kh_ip h0 = [] then no_host\<lparr>kh_ip := ip, kh_source := ''arp''\<rparr> else h0)
         in mput ip (if kh_mac h = [] then h\<lparr>kh_mac := mac\<rparr> else h) m)))"

section \<open>Conflicts\<close>

definition conflict_add :: "string \<times> string \<Rightarrow> (string \<times> string list) list \<Rightarrow> (string \<times> string list) list" where
  "conflict_add = (\<lambda>(ip, mac) m.
     (if ip = [] \<or> mac = [] then m
      else (let macs = (case map_of m ip of None \<Rightarrow> [] | Some ms \<Rightarrow> ms) in mput ip (List.insert mac macs) m)))"

definition collectConflictMap :: "Lease list \<Rightarrow> Reservation list \<Rightarrow> (string \<times> string list) list" where
  "collectConflictMap leases reservations =
     fold conflict_add
       (map (\<lambda>l. (TrimSpace (l_IP l), ToUpper (TrimSpace (l_MAC l)))) leases @
        map (\<lambda>r. (TrimSpace (rv_IP r), ToUpper (TrimSpace (rv_MAC r)))) reservations) []"

definition filterConflictMapForSubnets :: "string list \<Rightarrow> (string \<times> string list) list \<Rightarrow> (string \<times> string list) list" where
  "filterConflictMapForSubnets cidrs m = (if cidrs = [] then m else filter (\<lambda>(ip, macs). ipMatchesSubnets ip [] cidrs) m)"

fun unique_vendors :: "string list \<Rightarrow> string list \<Rightarrow> string list" where
  "unique_vendors [] seen = []"
| "unique_vendors (mac # macs) seen =
     (let vendor = LookupVendor mac in
      if vendor = [] \<or> vendor \<in> set seen then unique_vendors macs seen
      else vendor # unique_vendors macs (vendor # seen))"

fun join_comma :: "string list \<Rightarrow> string" where
  "join_comma [] = []"
| "join_comma [x] = x"
| "join_comma (x # y # xs) = x @ '', '' @ join_comma (y # xs)"

definition conflictNoteForMACs :: "string list \<Rightarrow> string" where
  "conflictNoteForMACs macs =
     (let vendors = unique_vendors macs [] in
      if vendors = [] then ''multiple MAC addresses observed for the same IP''
      else ''multiple MAC addresses observed for the same IP ('' @ join_comma vendors @ '')'')"

definition scan_conflicts :: "(string \<times> string list) list \<Rightarrow> Conflict list" where
  "scan_conflicts m =
     sort_by (\<lambda>x y. cf_IP x < cf_IP y)
       (List.map_filter (\<lambda>(ip, macSet).
          if length macSet \<le> 1 then None
          else (let macs = sort_by (<) macSet in
                Some \<lparr>cf_IP = ip, cf_MACs = macs, cf_Severity = ''high'', cf_Note = conflictNoteForMACs macs\<rparr>)) m)"

section \<open>Targets and probes\<close>

definition poolBounds :: "Subnet \<Rightarrow> (u32 \<times> u32) option" where
  "poolBounds s =
     (if \<not> dp_Enabled (sn_DHCP s) then None
      else
        (case (ParseAddr (TrimSpace (dp_PoolStart (sn_DHCP s))), ParseAddr (TrimSpace (dp_PoolEnd (sn_DHCP s)))) of
           (Some (A4 a), Some (A4 b)) \<Rightarrow> if a > b then None else Some (a, b)
         | _ \<Rightarrow> None))"

text \<open>From the first address of the pool, at most as many as the option allows.\<close>

fun pool_targets :: "nat \<Rightarrow> u32 \<Rightarrow> u32 \<Rightarrow> string list" where
  "pool_targets 0 a b = []"
| "pool_targets (Suc n) a b = addr_String (A4 a) # (if a = b then [] else pool_targets n (a + 1) b)"

definition compareIPString :: "string \<Rightarrow> string \<Rightarrow> int" where
  "compareIPString a b =
     (case (ParseAddr a, ParseAddr b) of
        (Some x, Some y) \<Rightarrow> addr_Compare x y
      | _ \<Rightarrow> if a < b then - 1 else if a > b then 1 else 0)"

definition subnet_targets :: "discovery_options \<Rightarrow> Subnet list \<Rightarrow> string list" where
  "subnet_targets opt subnets =
     (if hasActiveProbe (dc_Methods opt)
      then concat (map (\<lambda>s. case poolBounds s of None \<Rightarrow> [] | Some (a, b) \<Rightarrow> pool_targets (nat (dc_MaxTargetsPerSubnet opt)) a b) subnets)
      else [])"

definition buildTargets ::
  "discovery_options \<Rightarrow> Subnet list \<Rightarrow> (string \<times> knownHost) list \<Rightarrow> (string \<times> ObservedHost) list \<Rightarrow> string list" where
  "buildTargets opt subnets known previous =
     sort_by (\<lambda>x y. compareIPString x y < 0) (remdups (mkeys known @ mkeys previous @ subnet_targets opt subnets))"

record probeOutcome =
  po_alive :: bool
  po_method :: string
  po_hostname :: string

definition no_outcome :: probeOutcome where
  "no_outcome = \<lparr>po_alive = False, po_method = [], po_hostname = []\<rparr>"

record probes =
  pb_ping :: "string \<Rightarrow> duration \<Rightarrow> bool"
  pb_tcp :: "string \<Rightarrow> int \<Rightarrow> duration \<Rightarrow> bool"
  pb_names :: "string \<Rightarrow> string list option"
  pb_arp :: "(string \<times> string) list"

definition tcpReachable :: "probes \<Rightarrow> string \<Rightarrow> int list \<Rightarrow> duration \<Rightarrow> bool" where
  "tcpReachable net ip ports timeout \<longleftrightarrow> (\<exists>port\<in>set ports. pb_tcp net ip port timeout)"

definition trim_dot :: "string \<Rightarrow> string" where
  "trim_dot s = (if s \<noteq> [] \<and> last s = CHR ''.'' then butlast s else s)"

definition probeIP :: "probes \<Rightarrow> discovery_options \<Rightarrow> string \<Rightarrow> probeOutcome" where
  "probeIP net opt ip =
     (let o1 = (if containsMethod (dc_Methods opt) ''ping'' \<and> pb_ping net ip (dc_ProbeTimeout opt)
                then no_outcome\<lparr>po_alive := True, po_method := ''ping''\<rparr> else no_outcome);
          o2 = (if \<not> po_alive o1 \<and> containsMethod (dc_Methods opt) ''tcp'' \<and> tcpReachable net ip (dc_TCPPorts opt) (dc_ProbeTimeout opt)
                then o1\<lparr>po_alive := True, po_method := ''tcp''\<rparr> else o1)
      in if containsMethod (dc_Methods opt) ''dns''
         then (case pb_names net ip of
                 Some (n # ns) \<Rightarrow> o2\<lparr>po_hostname := trim_dot (TrimSpace n), po_method := (if po_method o2 = [] then ''dns'' else po_method o2)\<rparr>
               | _ \<Rightarrow> o2)
         else o2)"

definition probeTargets :: "probes \<Rightarrow> discovery_options \<Rightarrow> string list \<Rightarrow> (string \<times> probeOutcome) list" where
  "probeTargets net opt targets =
     (if \<not> hasActiveProbe (dc_Methods opt) \<and> \<not> containsMethod (dc_Methods opt) ''dns'' then []
      else map (\<lambda>ip. (ip, probeIP net opt ip)) targets)"

section \<open>The hosts of a scan\<close>

definition deriveState :: "string \<Rightarrow> bool \<Rightarrow> knownHost \<Rightarrow> probeOutcome \<Rightarrow> (string \<times> ObservedHost) list \<Rightarrow> string" where
  "deriveState ip known base outcome previous =
     (if (case map_of previous ip of
            None \<Rightarrow> False
          | Some prev \<Rightarrow> oh_MAC prev \<noteq> [] \<and> kh_mac base \<noteq> [] \<and> \<not> EqualFold (oh_MAC prev) (kh_mac base))
      then ''changed''
      else if \<not> known then (if po_alive outcome then ''new'' else ''unknown'')
      else if po_method outcome = [] then ''known''
      else if po_alive outcome then ''known'' else ''missing'')"

definition pickHostname :: "string \<Rightarrow> string \<Rightarrow> string" where
  "pickHostname base probe = (if TrimSpace base \<noteq> [] then base else TrimSpace probe)"

definition seen_host ::
  "time \<Rightarrow> (string \<times> knownHost) list \<Rightarrow> (string \<times> probeOutcome) list \<Rightarrow> (string \<times> ObservedHost) list \<Rightarrow> string \<Rightarrow> ObservedHost option" where
  "seen_host now known outcomes previous ip =
     (let isKnown = (map_of known ip \<noteq> None); base = lookup_host known ip;
          outcome = (case map_of outcomes ip of None \<Rightarrow> no_outcome | Some x \<Rightarrow> x)
      in if \<not> isKnown \<and> \<not> po_alive outcome then None
         else Some \<lparr>oh_IP = ip, oh_MAC = kh_mac base, oh_Vendor = LookupVendor (kh_mac base),
                oh_Hostname = pickHostname (kh_hostname base) (po_hostname outcome), oh_Subnet = kh_subnet base,
                oh_State = deriveState ip isKnown base outcome previous, oh_SeenAt = now\<rparr>)"

definition missing_host :: "time \<Rightarrow> string \<times> ObservedHost \<Rightarrow> ObservedHost" where
  "missing_host now = (\<lambda>(ip, prev). prev\<lparr>oh_IP := ip, oh_State := ''missing'', oh_SeenAt := now\<rparr>)"

text \<open>The hosts that the targets show, and then those of the scans before that they do not.\<close>

definition scan_hosts ::
  "time \<Rightarrow> string list \<Rightarrow> (string \<times> knownHost) list \<Rightarrow> (string \<times> probeOutcome) list \<Rightarrow> (string \<times> ObservedHost) list \<Rightarrow> ObservedHost list" where
  "scan_hosts now targets known outcomes previous =
     (let current = List.map_filter (seen_host now known outcomes previous) targets in
      sort_by (\<lambda>x y. compareIPString (oh_IP x) (oh_IP y) < 0)
        (current @ map (missing_host now) (filter (\<lambda>(ip, prev). ip \<notin> oh_IP ` set current) previous)))"

definition count_state :: "string \<Rightarrow> ObservedHost list \<Rightarrow> int" where
  "count_state st hosts = int (length (filter (\<lambda>h. oh_State h = st) hosts))"

section \<open>The engine\<close>

abbreviation treeDiscoveryScans :: string where "treeDiscoveryScans \<equiv> ''discovery_scans''"
abbreviation treeDiscoveryMeta :: string where "treeDiscoveryMeta \<equiv> ''discovery_meta''"
abbreviation keyLatestHosts :: bytes where "keyLatestHosts \<equiv> ''latest_hosts''"
abbreviation keyLatestRogue :: bytes where "keyLatestRogue \<equiv> ''latest_rogue''"
abbreviation keyLatestScanID :: bytes where "keyLatestScanID \<equiv> ''latest_scan_id''"
abbreviation keyLastScanAt :: bytes where "keyLastScanAt \<equiv> ''last_scan_at''"

record 's discovery_env =
  dv_db :: "'s db_ops"
  dv_tx :: "'s db_tx"
  dv_leases :: "'s lease_ops"
  dv_ipam :: "'s ipam_engine"
  dv_scan :: "ScanResult codec"
  dv_hosts :: "(string \<times> ObservedHost) list codec"
  dv_rogue :: "RogueServer list codec"
  dv_time :: "time codec"
  dv_scanID :: "time \<Rightarrow> string"
  dv_percent :: "int \<Rightarrow> int \<Rightarrow> int"

record discovery_engine =
  de_interval :: duration
  de_options :: discovery_options
  de_scanning :: bool
  de_lastScanAt :: time
  de_nextScanAt :: time
  de_latestID :: string
  de_latestRogue :: "RogueServer list"
  de_progress :: Progress

definition ok_or :: "'a \<Rightarrow> 'e + 'a \<Rightarrow> 'a" where
  "ok_or d r = (case r of Inl _ \<Rightarrow> d | Inr x \<Rightarrow> x)"

definition loadPreviousHosts :: "'s discovery_env \<Rightarrow> 's \<Rightarrow> (string \<times> ObservedHost) list" where
  "loadPreviousHosts v s = ok_or [] (get_row (dv_db v) (dv_hosts v) s treeDiscoveryMeta keyLatestHosts)"

definition loadMeta :: "'s discovery_env \<Rightarrow> time \<Rightarrow> 's \<Rightarrow> discovery_engine \<Rightarrow> discovery_engine" where
  "loadMeta v now s e =
     e\<lparr>de_lastScanAt := ok_or (de_lastScanAt e) (get_row (dv_db v) (dv_time v) s treeDiscoveryMeta keyLastScanAt),
       de_latestID := ok_or (de_latestID e) (db_Get (dv_db v) s treeDiscoveryMeta keyLatestScanID),
       de_latestRogue := ok_or (de_latestRogue e) (get_row (dv_db v) (dv_rogue v) s treeDiscoveryMeta keyLatestRogue),
       de_nextScanAt := now + de_interval e\<rparr>"

definition idle_progress :: Progress where
  "idle_progress = \<lparr>pg_ScanID = [], pg_Phase = ''idle'', pg_Total = 0, pg_Processed = 0, pg_Percent = 0,
     pg_StartedAt = 0, pg_UpdatedAt = 0, pg_InProgress = False\<rparr>"

definition NewEngineWithOptions :: "'s discovery_env \<Rightarrow> duration \<Rightarrow> discovery_options \<Rightarrow> time \<Rightarrow> 's \<Rightarrow> discovery_engine" where
  "NewEngineWithOptions v interval opt now s =
     loadMeta v now s
       \<lparr>de_interval = (if interval \<le> 0 then hour_ns else interval), de_options = NormalizeOptions opt,
        de_scanning = False, de_lastScanAt = 0, de_nextScanAt = 0, de_latestID = [], de_latestRogue = [],
        de_progress = idle_progress\<rparr>"

definition updateProgress :: "time \<Rightarrow> (Progress \<Rightarrow> Progress) \<Rightarrow> discovery_engine \<Rightarrow> discovery_engine" where
  "updateProgress now mut e = e\<lparr>de_progress := (mut (de_progress e))\<lparr>pg_UpdatedAt := now\<rparr>\<rparr>"

text \<open>The scan that it starts runs on its own; \<open>None\<close> when one is running.\<close>

definition TriggerScan :: "'s discovery_env \<Rightarrow> time \<Rightarrow> discovery_engine \<Rightarrow> (discovery_engine \<times> string) option" where
  "TriggerScan v now e =
     (if de_scanning e then None
      else
        (let scanID = dv_scanID v now;
             e1 = e\<lparr>de_scanning := True, de_progress := \<lparr>pg_ScanID = [], pg_Phase = ''initializing'', pg_Total = 0,
               pg_Processed = 0, pg_Percent = 0, pg_StartedAt = now, pg_UpdatedAt = now, pg_InProgress = True\<rparr>\<rparr>
         in Some (updateProgress now (\<lambda>p. p\<lparr>pg_ScanID := scanID, pg_Phase := ''collecting''\<rparr>) e1, scanID)))"

definition markScanDone :: "time \<Rightarrow> discovery_engine \<Rightarrow> discovery_engine" where
  "markScanDone now e =
     (let e1 = e\<lparr>de_scanning := False\<rparr>;
          e2 = (if pg_InProgress (de_progress e1)
                then e1\<lparr>de_progress := (de_progress e1)\<lparr>pg_InProgress := False,
                      pg_Phase := (if pg_Phase (de_progress e1) \<noteq> ''completed'' then ''idle'' else pg_Phase (de_progress e1)),
                      pg_UpdatedAt := now\<rparr>\<rparr>
                else e1)
      in if de_nextScanAt e2 < now then e2\<lparr>de_nextScanAt := now + de_interval e2\<rparr> else e2)"

definition normalizeReason :: "string \<Rightarrow> string" where
  "normalizeReason reason0 = (let reason = TrimSpace reason0 in if reason = [] then ''manual'' else reason)"

definition resolveTargetSubnets :: "'s discovery_env \<Rightarrow> 's \<Rightarrow> string list \<Rightarrow> Subnet list" where
  "resolveTargetSubnets v s explicit =
     (case ListSubnets (dv_ipam v) s of
        Inl _ \<Rightarrow> []
      | Inr subnets \<Rightarrow>
          if explicit = [] then subnets
          else filter (\<lambda>x. sn_CIDR x \<in> set (filter (\<lambda>c. c \<noteq> []) (map TrimSpace explicit))) subnets)"

text \<open>The progress after the outcome of one probe.\<close>

definition probe_progress :: "(int \<Rightarrow> int \<Rightarrow> int) \<Rightarrow> Progress \<Rightarrow> Progress" where
  "probe_progress percent p =
     (if pg_Total p \<le> 0 then p
      else
        (let n = (if pg_Processed p + 1 > pg_Total p then pg_Total p else pg_Processed p + 1);
             pct0 = percent n (pg_Total p);
             pct1 = (if pct0 < 1 \<and> n > 0 then 1 else pct0)
         in p\<lparr>pg_Processed := n, pg_Percent := (if pct1 > 80 then 80 else pct1)\<rparr>))"

definition scan_key :: "ScanResult \<Rightarrow> bytes" where
  "scan_key r = pad_dec 20 (time_unixnano (sr_StartedAt r)) @ CHR 0x1F # sr_ScanID r"

text \<open>The hosts that are kept for the next scan: those outside the scan's subnets, and those of the scan.\<close>

definition kept_hosts :: "(string \<times> ObservedHost) list \<Rightarrow> ScanResult \<Rightarrow> (string \<times> ObservedHost) list" where
  "kept_hosts existing r =
     fold (\<lambda>h m. mput (oh_IP h) h m) (sr_Hosts r)
       (if sr_Subnets r \<noteq> [] then filter (\<lambda>(ip, h). \<not> ipMatchesSubnets ip (oh_Subnet h) (sr_Subnets r)) existing else [])"

definition persistResult ::
  "'s discovery_env \<Rightarrow> time \<Rightarrow> ScanResult \<Rightarrow> 's \<times> discovery_engine \<Rightarrow> ('s \<times> discovery_engine) \<times> go_error option" where
  "persistResult v now r = (\<lambda>(s, e).
     (case (c_marshal (dv_scan v) r, c_marshal (dv_hosts v) (kept_hosts (loadPreviousHosts v s) r), c_marshal (dv_time v) (sr_CompletedAt r)) of
        (Some resultRaw, Some hostsRaw, Some metaLastRaw) \<Rightarrow>
          (case dv_tx v (\<lambda>ms. Inr (tx_Put treeDiscoveryMeta keyLastScanAt metaLastRaw
                  (tx_Put treeDiscoveryMeta keyLatestScanID (sr_ScanID r)
                  (tx_Put treeDiscoveryMeta keyLatestHosts hostsRaw
                  (tx_Put treeDiscoveryScans (scan_key r) resultRaw ms))))) now s of
             (s', Some err) \<Rightarrow> ((s', e), Some err)
           | (s', None) \<Rightarrow>
               ((s', e\<lparr>de_lastScanAt := sr_CompletedAt r, de_nextScanAt := now + de_interval e, de_latestID := sr_ScanID r\<rparr>), None))
      | _ \<Rightarrow> ((s, e), Some (ErrMsg ''marshal''))))"

section \<open>A scan\<close>

text \<open>What a scan collects before it probes: the hosts known, the conflicts, the hosts before, the targets.\<close>

record scan_input =
  sg_Subnets :: "Subnet list"
  sg_Known :: "(string \<times> knownHost) list"
  sg_Conflicts :: "(string \<times> string list) list"
  sg_Previous :: "(string \<times> ObservedHost) list"
  sg_Targets :: "string list"

definition collect_scan :: "'s discovery_env \<Rightarrow> probes \<Rightarrow> discovery_options \<Rightarrow> ScanRequest \<Rightarrow> 's \<Rightarrow> scan_input" where
  "collect_scan v net opt request s =
     (let leases = ok_or [] (op_ListAll (dv_leases v) s);
          reservations = ok_or [] (ListReservations (dv_ipam v) s);
          subnets = resolveTargetSubnets v s (sq_Subnets request);
          cidrs = map sn_CIDR subnets;
          previous = filterObservedHostsForSubnets cidrs (loadPreviousHosts v s);
          known0 = filterKnownHostsForSubnets cidrs (collectKnownHosts leases reservations);
          known = (if containsMethod (dc_Methods opt) ''arp'' then fold (arp_host cidrs) (pb_arp net) known0 else known0)
      in \<lparr>sg_Subnets = subnets, sg_Known = known,
          sg_Conflicts = filterConflictMapForSubnets cidrs (collectConflictMap leases reservations),
          sg_Previous = previous, sg_Targets = buildTargets opt subnets known previous\<rparr>)"

definition scan_result ::
  "probes \<Rightarrow> discovery_engine \<Rightarrow> time \<Rightarrow> time \<Rightarrow> string \<Rightarrow> ScanRequest \<Rightarrow> scan_input \<Rightarrow> ScanResult" where
  "scan_result net e started finished scanID request g =
     (let hosts = scan_hosts finished (sg_Targets g) (sg_Known g) (probeTargets net (de_options e) (sg_Targets g)) (sg_Previous g) in
      \<lparr>sr_ScanID = scanID, sr_Status = ''completed'', sr_Reason = normalizeReason (sq_Reason request),
       sr_Subnets = (if sq_Subnets request = [] then map sn_CIDR (sg_Subnets g) else sq_Subnets request),
       sr_StartedAt = started, sr_CompletedAt = finished, sr_DurationMS = go_div (finished - started) 1000000,
       sr_TotalHosts = int (length hosts), sr_NewHosts = count_state ''new'' hosts,
       sr_KnownHosts = int (length hosts) - count_state ''new'' hosts - count_state ''changed'' hosts - count_state ''missing'' hosts,
       sr_MissingHosts = count_state ''missing'' hosts, sr_ChangedHosts = count_state ''changed'' hosts,
       sr_Conflicts = scan_conflicts (sg_Conflicts g), sr_RogueServers = de_latestRogue e, sr_Hosts = hosts\<rparr>)"

text \<open>
  A whole scan, from the state that \<open>TriggerScan\<close> leaves; the store is read at its start. The last component is
  what it hands to the callback.
\<close>

definition runScan ::
  "'s discovery_env \<Rightarrow> probes \<Rightarrow> time \<Rightarrow> time \<Rightarrow> string \<Rightarrow> ScanRequest \<Rightarrow> 's \<times> discovery_engine \<Rightarrow> ('s \<times> discovery_engine) \<times> ScanResult" where
  "runScan v net started finished scanID request = (\<lambda>(s, e).
     (let g = collect_scan v net (de_options e) request s;
          e1 = updateProgress started (\<lambda>p. p\<lparr>pg_Phase := ''probing'', pg_Total := int (length (sg_Targets g)), pg_Processed := 0, pg_Percent := 0\<rparr>) e;
          e2 = fold (\<lambda>_. updateProgress started (probe_progress (dv_percent v))) (probeTargets net (de_options e) (sg_Targets g)) e1;
          e3 = updateProgress finished (\<lambda>p. p\<lparr>pg_Phase := ''analyzing'', pg_Processed := pg_Total p, pg_Percent := 85\<rparr>) e2;
          r = scan_result net e3 started finished scanID request g;
          e4 = updateProgress finished (\<lambda>p. p\<lparr>pg_Phase := ''persisting'', pg_Percent := 95\<rparr>) e3
      in case persistResult v finished r (s, e4) of
           ((s', e5), _) \<Rightarrow>
             ((s', markScanDone finished
                (updateProgress finished (\<lambda>p. p\<lparr>pg_Phase := ''completed'', pg_Percent := 100, pg_InProgress := False\<rparr>) e5)), r)))"

section \<open>Reading\<close>

definition ListResults :: "'s discovery_env \<Rightarrow> 's \<Rightarrow> int \<Rightarrow> go_error + ScanResult list" where
  "ListResults v s limit =
     rbind (list_rows (dv_db v) (dv_scan v) s treeDiscoveryScans) (\<lambda>out.
       (let sorted = sort_by (\<lambda>x y. sr_StartedAt x > sr_StartedAt y) out
        in Inr (if limit > 0 \<and> int (length sorted) > limit then take (nat limit) sorted else sorted)))"

definition GetResult :: "'s discovery_env \<Rightarrow> 's \<Rightarrow> string \<Rightarrow> go_error + ScanResult" where
  "GetResult v s scanID =
     rbind (ListResults v s 0) (\<lambda>results.
       case find (\<lambda>r. sr_ScanID r = scanID) results of None \<Rightarrow> Inl ErrNotFound | Some r \<Rightarrow> Inr r)"

definition LatestResult :: "'s discovery_env \<Rightarrow> 's \<times> discovery_engine \<Rightarrow> go_error + ScanResult" where
  "LatestResult v = (\<lambda>(s, e).
     (if de_latestID e \<noteq> [] then GetResult v s (de_latestID e)
      else rbind (ListResults v s 1) (\<lambda>results. case results of [] \<Rightarrow> Inl ErrNotFound | r # _ \<Rightarrow> Inr r)))"

definition LatestConflicts :: "'s discovery_env \<Rightarrow> 's \<times> discovery_engine \<Rightarrow> go_error + Conflict list" where
  "LatestConflicts v st =
     (case LatestResult v st of
        Inl ErrNotFound \<Rightarrow> Inr []
      | Inl err \<Rightarrow> Inl err
      | Inr r \<Rightarrow> Inr (sr_Conflicts r))"

definition LatestRogueServers :: "'s discovery_env \<Rightarrow> 's \<times> discovery_engine \<Rightarrow> go_error + RogueServer list" where
  "LatestRogueServers v st =
     (if de_latestRogue (snd st) \<noteq> [] then Inr (de_latestRogue (snd st))
      else
        (case LatestResult v st of
           Inl ErrNotFound \<Rightarrow> Inr []
         | Inl err \<Rightarrow> Inl err
         | Inr r \<Rightarrow> Inr (sr_RogueServers r)))"

definition discovery_Status :: "'s discovery_env \<Rightarrow> 's \<times> discovery_engine \<Rightarrow> discovery_status" where
  "discovery_Status v = (\<lambda>(s, e).
     \<lparr>st_SensorOnline = True, st_LastScanAt = de_lastScanAt e, st_RogueDetected = (de_latestRogue e \<noteq> []),
      st_ActiveConflicts = (case LatestResult v (s, e) of Inl _ \<Rightarrow> 0 | Inr r \<Rightarrow> int (length (sr_Conflicts r))),
      st_NextScheduledScan = de_nextScanAt e, st_Scanning = de_scanning e, st_LatestScanID = de_latestID e,
      st_Progress = de_progress e\<rparr>)"

end
