(* ===== verification/RestHttp.thy ===== *)
theory RestHttp
  imports Auth AuditLog RuntimeConfig Discovery
begin

text \<open>
  \<^verbatim>\<open>src/internal/api/rest/middleware.go\<close> and \<^verbatim>\<open>response.go\<close>: what a request passes on its way to a
  route. A handler maps what the response writer can do, the request and the state to the new state and the
  response; a panic is a value too. The headers of a response are the calls of \<^verbatim>\<open>Set\<close> and \<^verbatim>\<open>SetCookie\<close> in their order. The
  clock is read once per request. Metrics and log lines are left out, and the arithmetic of floating point and
  the parser of URLs are arguments.
\<close>

section \<open>Requests, responses and handlers\<close>

text \<open>The last fields are the values that the middleware puts into the request's context.\<close>

record http_request =
  rq_Method :: string
  rq_Path :: string
  rq_Host :: string
  rq_RemoteAddr :: string
  rq_TLS :: bool
  rq_Header :: "string \<Rightarrow> string"
  rq_Cookie :: "string \<Rightarrow> string option"
  rq_Query :: "string \<Rightarrow> string"
  rq_PathValue :: "string \<Rightarrow> string"
  rq_Body :: bytes
  rq_now :: time
  rq_random :: "string \<Rightarrow> go_error + bytes"
  rq_requestID :: "string option"
  rq_proxyTrusted :: "bool option"
  rq_authEnforced :: "bool option"
  rq_identity :: "Identity option"

record writer =
  w_Flusher :: bool
  w_Hijacker :: bool

record http_cookie =
  ck_Name :: string
  ck_Value :: string
  ck_Path :: string
  ck_MaxAge :: int
  ck_HttpOnly :: bool
  ck_Secure :: bool
  ck_SameSiteStrict :: bool
  ck_Expires :: "time option"

datatype header_call = SetHeader string string | SetCookie http_cookie

record 'd http_response =
  rs_status :: nat
  rs_error :: "string option"
  rs_headers :: "header_call list"
  rs_data :: "'d option"

text \<open>A panic has the headers that were set before it.\<close>

type_synonym 'd outcome = "header_call list + 'd http_response"
type_synonym ('s, 'd) handler = "writer \<Rightarrow> http_request \<Rightarrow> 's \<Rightarrow> 's \<times> 'd outcome"
type_synonym ('s, 'd) middleware = "('s, 'd) handler \<Rightarrow> ('s, 'd) handler"

definition Chain :: "('s, 'd) handler \<Rightarrow> ('s, 'd) middleware list \<Rightarrow> ('s, 'd) handler" where
  "Chain next m = foldr (\<lambda>f h. f h) m next"

definition WriteJSON :: "nat \<Rightarrow> 'd \<Rightarrow> 'd outcome" where
  "WriteJSON status data =
     Inr \<lparr>rs_status = status, rs_error = None, rs_headers = [SetHeader ''Content-Type'' ''application/json''], rs_data = Some data\<rparr>"

definition WriteError :: "nat \<Rightarrow> string \<Rightarrow> 'd outcome" where
  "WriteError status code =
     Inr \<lparr>rs_status = status, rs_error = Some code, rs_headers = [SetHeader ''Content-Type'' ''application/json''], rs_data = None\<rparr>"

fun with_headers :: "header_call list \<Rightarrow> 's \<times> 'd outcome \<Rightarrow> 's \<times> 'd outcome" where
  "with_headers hs (s, Inl before) = (s, Inl (hs @ before))"
| "with_headers hs (s, Inr r) = (s, Inr (r\<lparr>rs_headers := hs @ rs_headers r\<rparr>))"

section \<open>The state behind the interfaces\<close>

datatype audit_value = AVString string | AVInt int | AVBool bool | AVStrings "string list" | AVConflicts "Conflict list"

record 'f float_ops =
  fo_int :: "int \<Rightarrow> 'f"
  fo_seconds :: "duration \<Rightarrow> 'f"
  fo_add :: "'f \<Rightarrow> 'f \<Rightarrow> 'f"
  fo_sub :: "'f \<Rightarrow> 'f \<Rightarrow> 'f"
  fo_mul :: "'f \<Rightarrow> 'f \<Rightarrow> 'f"
  fo_less :: "'f \<Rightarrow> 'f \<Rightarrow> bool"

record 'f tokenBucketLimiter =
  tb_last :: time
  tb_tokens :: 'f
  tb_rate :: 'f
  tb_capacity :: 'f

record ('s, 'f) api_state =
  ap_auth :: "'s auth_service"
  ap_runtime :: runtimeSettings
  ap_limits :: "(string \<times> 'f tokenBucketLimiter) list"
  ap_authLimits :: "(string \<times> 'f tokenBucketLimiter) list"
  ap_broker :: "audit_value broker"

record ('s, 'f) api_env =
  ev_auth :: "'s auth_env"
  ev_audit :: "('s, audit_value) audit_logger"
  ev_float :: "'f float_ops"
  ev_ParseURL :: "string \<Rightarrow> (string \<times> string) option"

definition audit_into :: "('s, 'f) api_env \<Rightarrow> http_request \<Rightarrow> audit_value audit_entry \<Rightarrow> ('s, 'f) api_state \<Rightarrow> ('s, 'f) api_state" where
  "audit_into v r entry s =
     s\<lparr>ap_auth := (ap_auth s)\<lparr>as_store :=
       fst (audit_Log (ev_audit v) (rq_random r ''audit'') (rq_now r) entry (as_store (ap_auth s)))\<rparr>\<rparr>"

section \<open>Trusted proxies\<close>

fun newTrustedProxyMatcher :: "string list \<Rightarrow> addr list \<times> prefix list" where
  "newTrustedProxyMatcher [] = ([], [])"
| "newTrustedProxyMatcher (x # xs) =
     (let value = TrimSpace x in
      case newTrustedProxyMatcher xs of (addrs, ps) \<Rightarrow>
        if value = [] then (addrs, ps)
        else (case ParseAddr value of
                Some a \<Rightarrow> (a # addrs, ps)
              | None \<Rightarrow> (case ParsePrefix value of Some p \<Rightarrow> (addrs, pfx_Masked p # ps) | None \<Rightarrow> (addrs, ps))))"

definition isTrusted :: "addr list \<times> prefix list \<Rightarrow> string \<Rightarrow> bool" where
  "isTrusted m remoteAddr =
     (let host = (case SplitHostPort remoteAddr of Some (h, _) \<Rightarrow> h | None \<Rightarrow> remoteAddr) in
      case ParseAddr (trim_set ''[]'' host) of
        None \<Rightarrow> False
      | Some a \<Rightarrow> a \<in> set (fst m) \<or> (\<exists>p\<in>set (snd m). pfx_Contains p a))"

definition forwardedHeadersTrusted :: "http_request \<Rightarrow> bool" where
  "forwardedHeadersTrusted r \<longleftrightarrow> rq_proxyTrusted r = Some True"

definition first_of_list :: "string \<Rightarrow> string" where
  "first_of_list s = TrimSpace (fst (split_byte (CHR '','') s))"

definition isHTTPSRequest :: "http_request \<Rightarrow> bool" where
  "isHTTPSRequest r \<longleftrightarrow>
     rq_TLS r \<or>
     (forwardedHeadersTrusted r \<and> TrimSpace (rq_Header r ''X-Forwarded-Proto'') \<noteq> [] \<and>
      EqualFold (first_of_list (TrimSpace (rq_Header r ''X-Forwarded-Proto''))) ''https'')"

definition requestHost :: "http_request \<Rightarrow> string" where
  "requestHost r =
     (let forwardedHost = TrimSpace (rq_Header r ''X-Forwarded-Host'') in
      if forwardedHeadersTrusted r \<and> forwardedHost \<noteq> [] then first_of_list forwardedHost else rq_Host r)"

definition remote_host :: "http_request \<Rightarrow> string" where
  "remote_host r = (case SplitHostPort (rq_RemoteAddr r) of Some (h, _) \<Rightarrow> h | None \<Rightarrow> rq_RemoteAddr r)"

definition clientIP :: "http_request \<Rightarrow> string" where
  "clientIP r =
     (let forwardedFor = TrimSpace (rq_Header r ''X-Forwarded-For'') in
      if forwardedHeadersTrusted r \<and> forwardedFor \<noteq> [] then first_of_list forwardedFor else remote_host r)"

section \<open>Audit entries\<close>

definition requestActor :: "http_request \<Rightarrow> string" where
  "requestActor r = (case rq_identity r of Some i \<Rightarrow> id_Username i | None \<Rightarrow> ''anonymous'')"

definition new_entry :: "string \<Rightarrow> string \<Rightarrow> string \<Rightarrow> string \<Rightarrow> string \<Rightarrow> audit_value audit_entry" where
  "new_entry actor action objectType objectID source =
     \<lparr>en_ID = [], en_Timestamp = 0, en_Actor = actor, en_Action = action, en_ObjectType = objectType,
      en_ObjectID = objectID, en_Source = source, en_Before = [], en_After = [], en_Meta = []\<rparr>"

definition logAuditEntry :: "('s, 'f) api_env \<Rightarrow> http_request \<Rightarrow> audit_value audit_entry \<Rightarrow> ('s, 'f) api_state \<Rightarrow> ('s, 'f) api_state" where
  "logAuditEntry v r entry s = audit_into v r entry s"

definition security_meta :: "http_request \<Rightarrow> (string \<times> audit_value) list \<Rightarrow> (string \<times> audit_value) list" where
  "security_meta r m =
     (let m1 = mput ''remote_ip'' (AVString (clientIP r))
           (mput ''path'' (AVString (rq_Path r)) (mput ''method'' (AVString (rq_Method r)) m));
          userAgent = TrimSpace (rq_Header r ''User-Agent'');
          m2 = (if userAgent \<noteq> [] then mput ''user_agent'' (AVString userAgent) m1 else m1)
      in case rq_requestID r of
           Some rid \<Rightarrow> if rid \<noteq> [] then mput ''request_id'' (AVString rid) m2 else m2
         | None \<Rightarrow> m2)"

definition logSecurityAuditEntry ::
  "('s, 'f) api_env \<Rightarrow> http_request \<Rightarrow> audit_value audit_entry \<Rightarrow> ('s, 'f) api_state \<Rightarrow> ('s, 'f) api_state" where
  "logSecurityAuditEntry v r entry s =
     audit_into v r
       (entry\<lparr>en_Source := (if TrimSpace (en_Source entry) = [] then ''security'' else en_Source entry),
          en_Meta := security_meta r (en_Meta entry)\<rparr>) s"

section \<open>Middleware without authentication\<close>

fun base36 :: "nat \<Rightarrow> string" where
  "base36 n =
     (let d = (if n mod 36 < 10 then nat_byte (48 + n mod 36) else nat_byte (87 + n mod 36)) in
      if n < 36 then [d] else base36 (n div 36) @ [d])"

declare base36.simps [simp del]

definition format36 :: "int \<Rightarrow> string" where
  "format36 i = (if i < 0 then CHR ''-'' # base36 (nat (- i)) else base36 (nat i))"

definition RequestIDMiddleware :: "('s, 'd) middleware" where
  "RequestIDMiddleware next w r s =
     (let rid = format36 (time_unixnano (rq_now r)) in
      with_headers [SetHeader ''X-Request-ID'' rid] (next w (r\<lparr>rq_requestID := Some rid\<rparr>) s))"

definition TrustedProxyHeadersMiddlewareFunc :: "('s \<Rightarrow> string list) \<Rightarrow> ('s, 'd) middleware" where
  "TrustedProxyHeadersMiddlewareFunc trusted next w r s =
     next w (r\<lparr>rq_proxyTrusted := Some (isTrusted (newTrustedProxyMatcher (trusted s)) (rq_RemoteAddr r))\<rparr>) s"

definition RecoveryMiddleware :: "('s, 'd) middleware" where
  "RecoveryMiddleware next w r s =
     (case next w r s of
        (s', Inl before) \<Rightarrow> with_headers before (s', WriteError 500 ''internal_error'')
      | (s', Inr resp) \<Rightarrow> (s', Inr resp))"

definition security_headers :: "http_request \<Rightarrow> header_call list" where
  "security_headers r =
     [SetHeader ''Content-Security-Policy'' ''default-src 'self'; base-uri 'self'; form-action 'self'; frame-ancestors 'none'; object-src 'none'; script-src 'self'; style-src 'self' 'unsafe-inline'; img-src 'self' data: blob:; connect-src 'self' ws: wss:'',
      SetHeader ''Permissions-Policy'' ''camera=(), geolocation=(), microphone=()'',
      SetHeader ''Referrer-Policy'' ''no-referrer'', SetHeader ''X-Content-Type-Options'' ''nosniff'', SetHeader ''X-Frame-Options'' ''DENY''] @
     (if isHTTPSRequest r then [SetHeader ''Strict-Transport-Security'' ''max-age=31536000; includeSubDomains''] else [])"

definition SecurityHeadersMiddleware :: "('s, 'd) middleware" where
  "SecurityHeadersMiddleware next w r s = with_headers (security_headers r) (next w r s)"

text \<open>
  The recorder wraps the writer in a struct with an embedded \<^verbatim>\<open>http.ResponseWriter\<close>, which has the three methods of
  that interface only: it is neither a \<^verbatim>\<open>Flusher\<close> nor a \<^verbatim>\<open>Hijacker\<close>.
\<close>

definition responseRecorder :: "writer \<Rightarrow> writer" where
  "responseRecorder w = \<lparr>w_Flusher = False, w_Hijacker = False\<rparr>"

definition LoggingMiddleware :: "('s, 'd) middleware" where
  "LoggingMiddleware next w r s = next (responseRecorder w) r s"

definition cors_headers :: "string list \<Rightarrow> http_request \<Rightarrow> header_call list" where
  "cors_headers currentOrigins r =
     (let origin = rq_Header r ''Origin'';
          grant = [SetHeader ''Access-Control-Allow-Origin'' origin, SetHeader ''Access-Control-Allow-Credentials'' ''true'']
      in (if currentOrigins = [''*''] \<and> origin \<noteq> [] then grant
          else if origin \<in> set currentOrigins then grant else []) @
         [SetHeader ''Vary'' ''Origin'', SetHeader ''Access-Control-Allow-Methods'' ''GET, POST, PUT, PATCH, DELETE, OPTIONS'',
          SetHeader ''Access-Control-Allow-Headers'' ''Authorization, Content-Type, X-Request-ID''])"

definition no_content :: "'d outcome" where
  "no_content = Inr \<lparr>rs_status = 204, rs_error = None, rs_headers = [], rs_data = None\<rparr>"

definition CORSMiddlewareFunc :: "('s \<Rightarrow> string list) \<Rightarrow> ('s, 'd) middleware" where
  "CORSMiddlewareFunc origins next w r s =
     with_headers (cors_headers (origins s) r)
       (if rq_Method r = ''OPTIONS'' then (s, no_content) else next w r s)"

definition isUnsafeMethod :: "string \<Rightarrow> bool" where
  "isUnsafeMethod method \<longleftrightarrow> method \<in> set [''POST'', ''PUT'', ''PATCH'', ''DELETE'']"

definition expected_scheme :: "http_request \<Rightarrow> string" where
  "expected_scheme r = (if isHTTPSRequest r then ''https'' else ''http'')"

definition isCrossSiteFetch :: "(string \<Rightarrow> (string \<times> string) option) \<Rightarrow> http_request \<Rightarrow> bool" where
  "isCrossSiteFetch parse r \<longleftrightarrow>
     (let site = ToLower (TrimSpace (rq_Header r ''Sec-Fetch-Site'')); origin = TrimSpace (rq_Header r ''Origin'') in
      if site \<notin> set ['''', ''none'', ''same-origin'', ''same-site''] then True
      else if origin = [] then False
      else (case parse origin of
              None \<Rightarrow> True
            | Some (scheme, host) \<Rightarrow>
                if \<not> EqualFold host (requestHost r) then True else \<not> EqualFold scheme (expected_scheme r)))"

definition isTrustedCSRFRequest :: "(string \<Rightarrow> (string \<times> string) option) \<Rightarrow> http_request \<Rightarrow> bool" where
  "isTrustedCSRFRequest parse r \<longleftrightarrow>
     (let origin = TrimSpace (rq_Header r ''Origin'') in
      if \<not> isCrossSiteFetch parse r then True
      else if origin = [] then False
      else (case parse origin of
              None \<Rightarrow> False
            | Some (scheme, host) \<Rightarrow>
                if \<not> EqualFold host (requestHost r) then False else EqualFold scheme (expected_scheme r)))"

definition csrf_entry :: "http_request \<Rightarrow> audit_value audit_entry" where
  "csrf_entry r = (new_entry (requestActor r) ''security.csrf.reject'' ''http_request'' (rq_Path r) [])
     \<lparr>en_Meta := [(''reason'', AVString ''cross_site_session_request'')]\<rparr>"

definition CSRFMiddleware :: "('s, 'f) api_env \<Rightarrow> (('s, 'f) api_state, 'd) middleware" where
  "CSRFMiddleware v next w r s =
     (if \<not> isUnsafeMethod (rq_Method r) then next w r s
      else if rq_Cookie r (CookieName (ap_auth s)) = None then next w r s
      else if isTrustedCSRFRequest (ev_ParseURL v) r then next w r s
      else (logSecurityAuditEntry v r (csrf_entry r) s, WriteError 403 ''csrf_rejected''))"

section \<open>Rate limits\<close>

definition newLimiter :: "'f float_ops \<Rightarrow> time \<Rightarrow> int \<Rightarrow> 'f tokenBucketLimiter" where
  "newLimiter F now rate =
     (let r = (if \<not> fo_less F (fo_int F 0) (fo_int F rate) then fo_int F 1 else fo_int F rate) in
      \<lparr>tb_last = now, tb_tokens = r, tb_rate = r, tb_capacity = r\<rparr>)"

definition bucket_allow :: "'f float_ops \<Rightarrow> time \<Rightarrow> 'f tokenBucketLimiter \<Rightarrow> 'f tokenBucketLimiter \<times> bool" where
  "bucket_allow F now l =
     (let t = fo_add F (tb_tokens l) (fo_mul F (fo_seconds F (now - tb_last l)) (tb_rate l));
          t' = (if fo_less F (tb_capacity l) t then tb_capacity l else t);
          l' = l\<lparr>tb_last := now, tb_tokens := t'\<rparr>
      in if fo_less F t' (fo_int F 1) then (l', False) else (l'\<lparr>tb_tokens := fo_sub F t' (fo_int F 1)\<rparr>, True))"

definition limit_by :: "'f float_ops \<Rightarrow> time \<Rightarrow> int \<Rightarrow> string \<Rightarrow> (string \<times> 'f tokenBucketLimiter) list \<Rightarrow>
    (string \<times> 'f tokenBucketLimiter) list \<times> bool" where
  "limit_by F now rps key m =
     (case bucket_allow F now (case map_of m key of Some l \<Rightarrow> l | None \<Rightarrow> newLimiter F now rps) of
        (l, ok) \<Rightarrow> (mput key l m, ok))"

definition RateLimitMiddlewareFunc :: "('s, 'f) api_env \<Rightarrow> (('s, 'f) api_state, 'd) middleware" where
  "RateLimitMiddlewareFunc v next w r s =
     (let rps = rt_RateLimit (ap_runtime s) in
      case limit_by (ev_float v) (rq_now r) rps (remote_host r @ ''|'' @ dec_int rps) (ap_limits s) of
        (m, ok) \<Rightarrow>
          if ok then next w r (s\<lparr>ap_limits := m\<rparr>) else (s\<lparr>ap_limits := m\<rparr>, WriteError 429 ''rate_limited''))"

definition authRateLimitKey :: "http_request \<Rightarrow> string option" where
  "authRateLimitKey r =
     (if rq_Method r = ''POST'' \<and> rq_Path r = ''/api/v1/auth/bootstrap'' then Some ''bootstrap''
      else if rq_Method r = ''POST'' \<and> rq_Path r = ''/api/v1/auth/login'' then Some ''login''
      else if rq_Method r = ''POST'' \<and> rq_Path r = ''/api/v1/auth/logout'' then Some ''logout''
      else if rq_Method r = ''POST'' \<and> rq_Path r = ''/api/v1/auth/password'' then Some ''password''
      else if rq_Method r = ''POST'' \<and> rq_Path r = ''/api/v1/auth/tokens'' then Some ''tokens.create''
      else if rq_Method r = ''DELETE'' \<and> starts_with ''/api/v1/auth/tokens/'' (rq_Path r) then Some ''tokens.revoke''
      else None)"

definition limit_entry :: "http_request \<Rightarrow> string \<Rightarrow> audit_value audit_entry" where
  "limit_entry r key = (new_entry (requestActor r) ''security.auth.rate_limit'' ''auth_endpoint'' key [])
     \<lparr>en_Meta := [(''endpoint'', AVString key)]\<rparr>"

definition AuthRateLimitMiddlewareFunc :: "('s, 'f) api_env \<Rightarrow> (('s, 'f) api_state, 'd) middleware" where
  "AuthRateLimitMiddlewareFunc v next w r s =
     (case authRateLimitKey r of
        None \<Rightarrow> next w r s
      | Some key \<Rightarrow>
          (let rps = rt_AuthRateLimit (ap_runtime s) in
           case limit_by (ev_float v) (rq_now r) rps (remote_host r @ ''|'' @ key @ ''|'' @ dec_int rps) (ap_authLimits s) of
             (m, ok) \<Rightarrow>
               if ok then next w r (s\<lparr>ap_authLimits := m\<rparr>)
               else (logSecurityAuditEntry v r (limit_entry r key) (s\<lparr>ap_authLimits := m\<rparr>), WriteError 429 ''rate_limited'')))"

section \<open>Authentication\<close>

definition isPublicAuthPath :: "string \<Rightarrow> bool" where
  "isPublicAuthPath path \<longleftrightarrow>
     path \<in> set [''/api/v1/system/health'', ''/api/v1/auth/login'', ''/api/v1/auth/bootstrap'']"

definition bearer_token :: "http_request \<Rightarrow> string option" where
  "bearer_token r =
     (let authHeader = TrimSpace (rq_Header r ''Authorization'') in
      if starts_with ''bearer '' (ToLower authHeader) then Some (TrimSpace (drop 7 authHeader)) else None)"

definition cookie_identity ::
  "'s auth_env \<Rightarrow> http_request \<Rightarrow> 's auth_service \<Rightarrow> 's auth_service \<times> Identity option" where
  "cookie_identity v r a =
     (case rq_Cookie r (CookieName a) of
        None \<Rightarrow> (a, None)
      | Some value \<Rightarrow>
          (case ValidateSession v (rq_now r) value a of
             (a', Inr i) \<Rightarrow> (a', Some i)
           | (a', Inl _) \<Rightarrow> (a', None)))"

definition resolveIdentity ::
  "'s auth_env \<Rightarrow> http_request \<Rightarrow> 's auth_service \<Rightarrow> 's auth_service \<times> Identity option" where
  "resolveIdentity v r a =
     (case bearer_token r of
        None \<Rightarrow> cookie_identity v r a
      | Some token \<Rightarrow>
          (case AuthenticateBearer v (rq_now r) token (as_store a) of
             (st, Inr i) \<Rightarrow> (a\<lparr>as_store := st\<rparr>, Some i)
           | (st, Inl _) \<Rightarrow> cookie_identity v r (a\<lparr>as_store := st\<rparr>)))"

definition AuthMiddlewareFunc :: "('s, 'f) api_env \<Rightarrow> (('s, 'f) api_state, 'd) middleware" where
  "AuthMiddlewareFunc v next w r s =
     (if \<not> rt_authEnforced (ap_runtime s) then next w (r\<lparr>rq_authEnforced := Some False\<rparr>) s
      else if isPublicAuthPath (rq_Path r) then next w (r\<lparr>rq_authEnforced := Some True\<rparr>) s
      else
        (case resolveIdentity (ev_auth v) r (ap_auth s) of
           (a, None) \<Rightarrow> (s\<lparr>ap_auth := a\<rparr>, WriteError 401 ''unauthorized'')
         | (a, Some i) \<Rightarrow> next w (r\<lparr>rq_authEnforced := Some True, rq_identity := Some i\<rparr>) (s\<lparr>ap_auth := a\<rparr>)))"

definition AuthEnforcedFromContext :: "http_request \<Rightarrow> bool" where
  "AuthEnforcedFromContext r \<longleftrightarrow> rq_authEnforced r = Some True"

text \<open>The error that a role check writes, if it refuses.\<close>

definition requireRole :: "http_request \<Rightarrow> string \<Rightarrow> 'd outcome option" where
  "requireRole r required =
     (case rq_identity r of
        None \<Rightarrow> if AuthEnforcedFromContext r then Some (WriteError 401 ''unauthorized'') else None
      | Some i \<Rightarrow> if \<not> HasRole required (id_Role i) then Some (WriteError 403 ''forbidden'') else None)"

section \<open>The chains of main.go\<close>

definition rest_middleware :: "('s, 'f) api_env \<Rightarrow> (('s, 'f) api_state, 'd) middleware list" where
  "rest_middleware v =
     [RequestIDMiddleware, TrustedProxyHeadersMiddlewareFunc (\<lambda>s. rt_TrustedProxies (ap_runtime s)), RecoveryMiddleware,
      SecurityHeadersMiddleware, CORSMiddlewareFunc (\<lambda>s. rt_CORSOrigins (ap_runtime s)), CSRFMiddleware v,
      AuthRateLimitMiddlewareFunc v, RateLimitMiddlewareFunc v, AuthMiddlewareFunc v, LoggingMiddleware]"

text \<open>The gRPC interface has no CORS.\<close>

definition grpc_middleware :: "('s, 'f) api_env \<Rightarrow> (('s, 'f) api_state, 'd) middleware list" where
  "grpc_middleware v =
     [RequestIDMiddleware, TrustedProxyHeadersMiddlewareFunc (\<lambda>s. rt_TrustedProxies (ap_runtime s)), RecoveryMiddleware,
      SecurityHeadersMiddleware, CSRFMiddleware v,
      AuthRateLimitMiddlewareFunc v, RateLimitMiddlewareFunc v, AuthMiddlewareFunc v, LoggingMiddleware]"

end
