(* ===== verification/Health.thy ===== *)
theory Health
  imports Discovery
begin

text \<open>
  Of \<^verbatim>\<open>src/internal/api/rest/router.go\<close>: the report on the health of the system, and the removal of secrets
  from the configuration that the interface shows. Values that end as JSON are JSON terms, with objects as association
  lists and numbers as their text. The functions that \<^verbatim>\<open>main.go\<close> passes in are fields of a record, as in Go, and read the state;
  the formats of times and durations are arguments.
\<close>

datatype json =
    JNull
  | JBool bool
  | JNum string
  | JStr string
  | JArr "json list"
  | JObj "(string \<times> json) list"

definition JInt :: "int \<Rightarrow> json" where
  "JInt n = JNum (dec_int n)"

section \<open>Health\<close>

record 's health_deps =
  hd_Discovery :: "('s \<Rightarrow> discovery_status) option"
  hd_DiscoveryEnabled :: bool
  hd_DiscoveryEnabledFunc :: "('s \<Rightarrow> bool) option"
  hd_Version :: string
  hd_StorageReady :: "('s \<Rightarrow> go_error option) option"
  hd_DHCPv4Enabled :: bool
  hd_DHCPv4Listen :: string
  hd_DHCPv4EnabledFunc :: "('s \<Rightarrow> bool) option"
  hd_DHCPv4ListenFunc :: "('s \<Rightarrow> string) option"
  hd_DHCPv4Running :: "('s \<Rightarrow> bool) option"
  hd_HAEnabled :: bool
  hd_HAEnabledFunc :: "('s \<Rightarrow> bool) option"
  hd_HAStatus :: "('s \<Rightarrow> json) option"
  hd_StartedAt :: time
  hd_time :: "time \<Rightarrow> json"
  hd_duration :: "duration \<Rightarrow> string"
  hd_error :: "go_error \<Rightarrow> string"

definition dep_value :: "'a \<Rightarrow> ('s \<Rightarrow> 'a) option \<Rightarrow> 's \<Rightarrow> 'a" where
  "dep_value x f s = (case f of None \<Rightarrow> x | Some g \<Rightarrow> g s)"

definition DiscoveryEnabledValue :: "'s health_deps \<Rightarrow> 's \<Rightarrow> bool" where
  "DiscoveryEnabledValue d = dep_value (hd_DiscoveryEnabled d) (hd_DiscoveryEnabledFunc d)"

definition DHCPv4EnabledValue :: "'s health_deps \<Rightarrow> 's \<Rightarrow> bool" where
  "DHCPv4EnabledValue d = dep_value (hd_DHCPv4Enabled d) (hd_DHCPv4EnabledFunc d)"

definition DHCPv4ListenValue :: "'s health_deps \<Rightarrow> 's \<Rightarrow> string" where
  "DHCPv4ListenValue d = dep_value (hd_DHCPv4Listen d) (hd_DHCPv4ListenFunc d)"

definition HAEnabledValue :: "'s health_deps \<Rightarrow> 's \<Rightarrow> bool" where
  "HAEnabledValue d = dep_value (hd_HAEnabled d) (hd_HAEnabledFunc d)"

definition HAStatusValue :: "'s health_deps \<Rightarrow> 's \<Rightarrow> json" where
  "HAStatusValue d s =
     (case hd_HAStatus d of
        None \<Rightarrow> JObj [(''status'', JStr ''disabled'')]
      | Some f \<Rightarrow> if f s \<noteq> JNull then f s else JObj [(''status'', JStr ''unknown'')])"

type_synonym component_health = "(string \<times> json) list \<times> bool"

definition evaluateStorageHealth :: "'s health_deps \<Rightarrow> 's \<Rightarrow> component_health" where
  "evaluateStorageHealth d s =
     (let c = [(''enabled'', JBool True), (''status'', JStr ''up''), (''ready'', JBool True)] in
      case hd_StorageReady d of
        None \<Rightarrow> (mput ''status'' (JStr ''unknown'') c, True)
      | Some f \<Rightarrow>
          (case f s of
             Some err \<Rightarrow>
               (mput ''error'' (JStr (hd_error d err)) (mput ''ready'' (JBool False) (mput ''status'' (JStr ''down'') c)), False)
           | None \<Rightarrow> (c, True)))"

definition evaluateDHCPv4Health :: "'s health_deps \<Rightarrow> 's \<Rightarrow> component_health" where
  "evaluateDHCPv4Health d s =
     (let c = [(''enabled'', JBool (DHCPv4EnabledValue d s)), (''listen'', JStr (DHCPv4ListenValue d s))] in
      if \<not> DHCPv4EnabledValue d s then (mput ''ready'' (JBool True) (mput ''status'' (JStr ''disabled'') c), True)
      else
        (let running = (case hd_DHCPv4Running d of None \<Rightarrow> False | Some f \<Rightarrow> f s);
             c1 = mput ''ready'' (JBool running) (mput ''running'' (JBool running) c)
         in if running then (mput ''status'' (JStr ''up'') c1, True) else (mput ''status'' (JStr ''down'') c1, False)))"

definition evaluateDiscoveryHealth :: "'s health_deps \<Rightarrow> 's \<Rightarrow> component_health" where
  "evaluateDiscoveryHealth d s =
     (let c = [(''enabled'', JBool (DiscoveryEnabledValue d s))];
          off = (mput ''ready'' (JBool True) (mput ''status'' (JStr ''disabled'') c), True)
      in case hd_Discovery d of
           None \<Rightarrow> off
         | Some f \<Rightarrow>
             (if \<not> DiscoveryEnabledValue d s then off
              else
                (let status = f s;
                     c1 = c @ [(''sensor_online'', JBool (st_SensorOnline status)), (''last_scan_at'', hd_time d (st_LastScanAt status)),
                       (''next_scheduled_scan'', hd_time d (st_NextScheduledScan status)), (''scanning'', JBool (st_Scanning status)),
                       (''latest_scan_id'', JStr (st_LatestScanID status)), (''active_conflicts'', JInt (st_ActiveConflicts status)),
                       (''rogue_detected'', JBool (st_RogueDetected status)), (''ready'', JBool (st_SensorOnline status))]
                 in if st_SensorOnline status then (c1 @ [(''status'', JStr ''up'')], True)
                    else (c1 @ [(''status'', JStr ''down'')], False))))"

text \<open>The fields of an object; a struct counts as its JSON form.\<close>

fun toStringAnyMap :: "json \<Rightarrow> (string \<times> json) list" where
  "toStringAnyMap (JObj m) = m"
| "toStringAnyMap x = []"

definition json_flag :: "(string \<times> json) list \<Rightarrow> string \<Rightarrow> bool" where
  "json_flag m k = (case map_of m k of Some (JBool b) \<Rightarrow> b | _ \<Rightarrow> False)"

definition json_text :: "(string \<times> json) list \<Rightarrow> string \<Rightarrow> string" where
  "json_text m k = (case map_of m k of Some (JStr t) \<Rightarrow> t | _ \<Rightarrow> [])"

definition evaluateHAHealth :: "'s health_deps \<Rightarrow> 's \<Rightarrow> component_health" where
  "evaluateHAHealth d s =
     (let c = [(''enabled'', JBool (HAEnabledValue d s))];
          answer = (\<lambda>c status ready. (c @ [(''status'', JStr status), (''ready'', JBool ready)], ready))
      in if \<not> HAEnabledValue d s \<or> hd_HAStatus d = None then answer c ''disabled'' True
         else
           (let raw = HAStatusValue d s; details = toStringAnyMap raw; c1 = c @ [(''details'', raw)] in
            if json_flag details ''fenced'' then answer c1 ''down'' False
            else if EqualFold (TrimSpace (json_text details ''role'')) ''unknown'' then answer c1 ''degraded'' False
            else if EqualFold (TrimSpace (json_text details ''peer'')) ''disconnected'' then answer c1 ''degraded'' True
            else answer c1 ''up'' True))"

text \<open>A positive duration rounded to seconds, halves up.\<close>

definition round_seconds :: "duration \<Rightarrow> duration" where
  "round_seconds d = (let r = d mod second_ns in if r + r < second_ns then d - r else d + second_ns - r)"

definition BuildSystemHealthPayload :: "'s health_deps \<Rightarrow> time \<Rightarrow> 's \<Rightarrow> (string \<times> json) list \<times> bool" where
  "BuildSystemHealthPayload d now s =
     (let started = hd_StartedAt d;
          uptime = (if \<not> is_zero_time started \<and> now > started then hd_duration d (round_seconds (now - started)) else ''0s'');
          storage = evaluateStorageHealth d s; dhcp = evaluateDHCPv4Health d s;
          discovery = evaluateDiscoveryHealth d s; ha = evaluateHAHealth d s;
          ready = (snd storage \<and> snd dhcp \<and> snd discovery \<and> snd ha)
      in ([(''status'', JStr (if ready then ''healthy'' else ''degraded'')), (''ready'', JBool ready), (''version'', JStr (hd_Version d)),
           (''started_at'', hd_time d started), (''uptime'', JStr uptime),
           (''components'', JObj [(''storage'', JObj (fst storage)), (''dhcpv4'', JObj (fst dhcp)),
              (''discovery'', JObj (fst discovery)), (''ha'', JObj (fst ha))])], ready))"

section \<open>Secrets\<close>

definition sensitive_markers :: "string list" where
  "sensitive_markers = [''password'', ''secret'', ''hash'', ''token'', ''client_secret'', ''private_key'', ''privatekey'',
     ''api_key'', ''apikey'', ''credential'']"

definition isSensitiveConfigKey :: "string \<Rightarrow> bool" where
  "isSensitiveConfigKey key \<longleftrightarrow> (\<exists>marker\<in>set sensitive_markers. sublist marker (ToLower (TrimSpace key)))"

definition masked_text :: "string \<Rightarrow> json \<Rightarrow> bool" where
  "masked_text key item \<longleftrightarrow> isSensitiveConfigKey key \<and> (case item of JStr t \<Rightarrow> TrimSpace t \<noteq> [] | _ \<Rightarrow> False)"

fun maskSecrets :: "json \<Rightarrow> json" where
  "maskSecrets (JObj m) = JObj (map (\<lambda>(key, item). (key, if masked_text key item then JStr ''***'' else maskSecrets item)) m)"
| "maskSecrets (JArr xs) = JArr (map maskSecrets xs)"
| "maskSecrets x = x"

text \<open>The JSON form of the value stands for its encoding and decoding.\<close>

definition sanitizeConfigSnapshot :: "json \<Rightarrow> json" where
  "sanitizeConfigSnapshot input = (if input = JNull then JNull else maskSecrets input)"

end
