(* ===== verification/RestAuth.thy ===== *)
theory RestAuth
  imports RestHttp IpamAddress Health
begin

text \<open>
  \<^verbatim>\<open>src/internal/api/rest/auth.go\<close>: the routes of the authentication, with the helpers of \<^verbatim>\<open>router.go\<close>
  that they use. The JSON decoders of the bodies, bcrypt and the conversion of a duration to seconds are
  arguments; \<open>rq_random\<close> delivers the random bytes by their purpose.
\<close>

section \<open>What the routes work on\<close>

record createTokenRequest =
  ct_Name :: string
  ct_Role :: string
  ct_ExpiresInHours :: int
  ct_Description :: string

record ('s, 'f) rest_env = "('s, 'f) api_env" +
  re_leases :: "'s lease_ops"
  re_ipam :: "'s ipam_engine"
  re_ui :: "'s ui_store"
  re_login :: "bytes \<Rightarrow> (string \<times> string) option"
  re_bootstrap :: "bytes \<Rightarrow> (string \<times> string) option"
  re_password :: "bytes \<Rightarrow> (string \<times> string) option"
  re_token :: "bytes \<Rightarrow> createTokenRequest option"
  re_subnet :: "bytes \<Rightarrow> UpsertSubnetInput option"
  re_reservation :: "bytes \<Rightarrow> UpsertReservationInput option"
  re_settings :: "bytes \<Rightarrow> UISettings option"
  re_bcrypt :: "string \<Rightarrow> go_error + string"
  re_seconds :: "duration \<Rightarrow> int"

record SystemBackup =
  sb_Name :: string
  sb_Path :: string
  sb_SizeBytes :: nat
  sb_CreatedAt :: time

record RestoreRequest =
  rr_Name :: string
  rr_Path :: string

datatype rest_data =
    DStatus "(string \<times> string) list"
  | DIdentity Identity
  | DTokens "APIToken list"
  | DToken APIToken string
  | DLeases "Lease list"
  | DLease Lease
  | DReservations "Reservation list"
  | DReservation Reservation
  | DSubnets "Subnet list"
  | DSubnet Subnet
  | DSummaries "SubnetSummary list"
  | DAddresses "AddressRecord list"
  | DAddress AddressRecord
  | DAudit "audit_value audit_entry list"
  | DSettings UISettings
  | DStream
  | DJson json
  | DBackup SystemBackup
  | DBackups "SystemBackup list"
  | DBytes bytes
  | DScanStatus discovery_status
  | DProgress Progress
  | DScans "ScanResult list"
  | DScan ScanResult
  | DConflicts "Conflict list"
  | DRogues "RogueServer list"

type_synonym ('s, 'f) route = "(('s, 'f) api_state, rest_data) handler"

definition with_auth :: "('s, 'f) api_state \<Rightarrow> 's auth_service \<Rightarrow> ('s, 'f) api_state" where
  "with_auth s a = s\<lparr>ap_auth := a\<rparr>"

definition with_store :: "('s, 'f) api_state \<Rightarrow> 's \<Rightarrow> ('s, 'f) api_state" where
  "with_store s st = s\<lparr>ap_auth := (ap_auth s)\<lparr>as_store := st\<rparr>\<rparr>"

abbreviation store_of :: "('s, 'f) api_state \<Rightarrow> 's" where
  "store_of s \<equiv> as_store (ap_auth s)"

section \<open>Helpers\<close>

definition setNoStore :: "header_call list" where
  "setNoStore = [SetHeader ''Cache-Control'' ''no-store'', SetHeader ''Pragma'' ''no-cache'']"

definition setSessionCookie :: "string \<Rightarrow> string \<Rightarrow> time \<Rightarrow> bool \<Rightarrow> header_call" where
  "setSessionCookie name sessionID expiresAt secureCookie =
     SetCookie \<lparr>ck_Name = name, ck_Value = sessionID, ck_Path = ''/'', ck_MaxAge = 0, ck_HttpOnly = True,
       ck_Secure = secureCookie, ck_SameSiteStrict = True, ck_Expires = Some expiresAt\<rparr>"

definition clearSessionCookie :: "string \<Rightarrow> bool \<Rightarrow> header_call" where
  "clearSessionCookie name secureCookie =
     SetCookie \<lparr>ck_Name = name, ck_Value = [], ck_Path = ''/'', ck_MaxAge = - 1, ck_HttpOnly = True,
       ck_Secure = secureCookie, ck_SameSiteStrict = True, ck_Expires = None\<rparr>"

definition writeLockedAuthError :: "(duration \<Rightarrow> int) \<Rightarrow> time \<Rightarrow> auth_error \<Rightarrow> (header_call list \<times> 'd outcome) option" where
  "writeLockedAuthError secs now err =
     (case err of
        AccountLockedError until \<Rightarrow>
          Some ([SetHeader ''Retry-After'' (dec_int (RetryAfter secs until now now))], WriteError 429 ''account_locked'')
      | AuthError _ \<Rightarrow> None)"

definition security_entry :: "string \<Rightarrow> string \<Rightarrow> (string \<times> audit_value) list \<Rightarrow> audit_value audit_entry" where
  "security_entry who action meta = (new_entry who action ''user'' who [])\<lparr>en_Meta := meta\<rparr>"

definition requireRoleWithService ::
  "'s auth_env \<Rightarrow> http_request \<Rightarrow> string \<Rightarrow> 's auth_service \<Rightarrow> 's auth_service \<times> 'd outcome option" where
  "requireRoleWithService v r required a =
     (case (case rq_identity r of Some i \<Rightarrow> (a, Some i) | None \<Rightarrow> resolveIdentity v r a) of
        (a', None) \<Rightarrow> (a', Some (WriteError 401 ''unauthorized''))
      | (a', Some i) \<Rightarrow> (a', if \<not> HasRole required (id_Role i) then Some (WriteError 403 ''forbidden'') else None))"

text \<open>The guard of the routes that need a local password: its error.\<close>

definition requireLocalAuthMode :: "'s auth_service \<Rightarrow> 'd outcome option" where
  "requireLocalAuthMode a = (if SupportsLocalAuth a then None else Some (WriteError 501 ''auth_mode_unsupported''))"

section \<open>The routes\<close>

definition bootstrap_route :: "('s, 'f) rest_env \<Rightarrow> ('s, 'f) route" where
  "bootstrap_route v w r s = with_headers setNoStore
     (case requireLocalAuthMode (ap_auth s) of
        Some e \<Rightarrow> (s, e)
      | None \<Rightarrow>
     (case re_bootstrap v (rq_Body r) of
        None \<Rightarrow> (s, WriteError 400 ''invalid_payload'')
      | Some (username0, password) \<Rightarrow>
          (let username = (if TrimSpace username0 = [] then ''admin'' else TrimSpace username0) in
           if TrimSpace password = [] then (s, WriteError 400 ''invalid_password'')
           else
             (case BootstrapAdmin (ev_auth v) (re_bcrypt v password) (rq_now r) username password (store_of s) of
                (st, Some err) \<Rightarrow>
                  (with_store s st,
                   if err = ErrBootstrapUnavailable then WriteError 409 ''bootstrap_unavailable''
                   else WriteError 500 ''bootstrap_failed'')
              | (st, None) \<Rightarrow>
                  (logAuditEntry (api_env.truncate v) r (new_entry username ''auth.bootstrap'' ''user'' username ''api'') (with_store s st),
                   WriteJSON 200 (DStatus [(''status'', ''ready''), (''username'', username)]))))))"

definition login_failed ::
  "('s, 'f) rest_env \<Rightarrow> http_request \<Rightarrow> string \<Rightarrow> auth_error \<Rightarrow> ('s, 'f) api_state \<Rightarrow> ('s, 'f) api_state \<times> rest_data outcome" where
  "login_failed v r who err s =
     (case writeLockedAuthError (re_seconds v) (rq_now r) err of
        Some (hs, e) \<Rightarrow>
          with_headers hs
            (logSecurityAuditEntry (api_env.truncate v) r
               (security_entry who ''auth.login.locked'' [(''endpoint'', AVString ''login'')]) s, e)
      | None \<Rightarrow>
          (logSecurityAuditEntry (api_env.truncate v) r
             (security_entry who ''auth.login.failed''
                [(''endpoint'', AVString ''login''), (''reason'', AVString ''invalid_credentials'')]) s,
           WriteError 401 ''invalid_credentials''))"

definition login_route :: "('s, 'f) rest_env \<Rightarrow> ('s, 'f) route" where
  "login_route v w r s = with_headers setNoStore
     (case requireLocalAuthMode (ap_auth s) of
        Some e \<Rightarrow> (s, e)
      | None \<Rightarrow>
     (case re_login v (rq_Body r) of
        None \<Rightarrow> (s, WriteError 400 ''invalid_payload'')
      | Some (username, password) \<Rightarrow>
          (case AuthenticateLocal (ev_auth v) (rq_now r) username password (ap_auth s) of
             (a, Inl err) \<Rightarrow> login_failed v r (TrimSpace username) err (with_auth s a)
           | (a, Inr identity) \<Rightarrow>
               (case CreateSession (ev_auth v) (rq_random r ''session'') (rq_now r) identity a of
                  (a', Inl err) \<Rightarrow> (with_auth s a', WriteError 500 ''session_create_failed'')
                | (a', Inr (sessionID, expiresAt)) \<Rightarrow>
                    with_headers [setSessionCookie (CookieName a') sessionID expiresAt (rt_authSecureCookie (ap_runtime s))]
                      (logAuditEntry (api_env.truncate v) r
                         (new_entry (id_Username identity) ''auth.login'' ''session'' sessionID ''api'') (with_auth s a'),
                       WriteJSON 200 (DIdentity identity))))))"

definition logout_route :: "('s, 'f) rest_env \<Rightarrow> ('s, 'f) route" where
  "logout_route v w r s =
     (let actor = requestActor r; name = CookieName (ap_auth s);
          a = (case rq_Cookie r name of
                 Some value \<Rightarrow> RevokeSession (ev_auth v) (rq_now r) value (ap_auth s)
               | None \<Rightarrow> ap_auth s)
      in with_headers (setNoStore @ [clearSessionCookie name (rt_authSecureCookie (ap_runtime s))])
           (logAuditEntry (api_env.truncate v) r (new_entry actor ''auth.logout'' ''session'' actor ''api'') (with_auth s a),
            WriteJSON 200 (DStatus [(''status'', ''logged_out'')])))"

definition me_route :: "('s, 'f) rest_env \<Rightarrow> ('s, 'f) route" where
  "me_route v w r s = with_headers setNoStore
     (case (case rq_identity r of Some i \<Rightarrow> (ap_auth s, Some i) | None \<Rightarrow> resolveIdentity (ev_auth v) r (ap_auth s)) of
        (a, None) \<Rightarrow> (with_auth s a, WriteError 401 ''unauthorized'')
      | (a, Some i) \<Rightarrow> (with_auth s a, WriteJSON 200 (DIdentity i)))"

definition password_failed ::
  "('s, 'f) rest_env \<Rightarrow> http_request \<Rightarrow> string \<Rightarrow> auth_error \<Rightarrow> ('s, 'f) api_state \<Rightarrow> ('s, 'f) api_state \<times> rest_data outcome" where
  "password_failed v r who err s =
     (case writeLockedAuthError (re_seconds v) (rq_now r) err of
        Some (hs, e) \<Rightarrow>
          with_headers hs
            (logSecurityAuditEntry (api_env.truncate v) r
               (security_entry who ''auth.password.locked'' [(''endpoint'', AVString ''password'')]) s, e)
      | None \<Rightarrow>
          (logSecurityAuditEntry (api_env.truncate v) r
             (security_entry who ''auth.password.verify_failed''
                [(''endpoint'', AVString ''password''), (''reason'', AVString ''invalid_credentials'')]) s,
           WriteError 401 ''invalid_credentials''))"

text \<open>After the new password is stored: the sessions of the user are revoked, and a session is replaced.\<close>

definition password_changed ::
  "('s, 'f) rest_env \<Rightarrow> http_request \<Rightarrow> Identity \<Rightarrow> ('s, 'f) api_state \<Rightarrow> ('s, 'f) api_state \<times> rest_data outcome" where
  "password_changed v r identity s =
     (let a = fst (RevokeSessionsForUser (ev_auth v) (rq_now r) (id_Username identity) (ap_auth s));
          finish = (\<lambda>hs a'. with_headers hs
            (logAuditEntry (api_env.truncate v) r
               (new_entry (id_Username identity) ''auth.password.update'' ''user'' (id_Username identity) ''api'') (with_auth s a'),
             WriteJSON 200 (DStatus [(''status'', ''updated'')])))
      in if id_AuthType identity = ''session''
         then (case CreateSession (ev_auth v) (rq_random r ''session'') (rq_now r) identity a of
                 (a', Inl err) \<Rightarrow> (with_auth s a', WriteError 500 ''session_create_failed'')
               | (a', Inr (sessionID, expiresAt)) \<Rightarrow>
                   finish [setSessionCookie (CookieName a') sessionID expiresAt (rt_authSecureCookie (ap_runtime s))] a')
         else finish [] a)"

definition password_route :: "('s, 'f) rest_env \<Rightarrow> ('s, 'f) route" where
  "password_route v w r s = with_headers setNoStore
     (case requireLocalAuthMode (ap_auth s) of
        Some e \<Rightarrow> (s, e)
      | None \<Rightarrow>
     (case rq_identity r of
        None \<Rightarrow> (s, WriteError 401 ''unauthorized'')
      | Some identity \<Rightarrow>
     (case re_password v (rq_Body r) of
        None \<Rightarrow> (s, WriteError 400 ''invalid_payload'')
      | Some (current, new) \<Rightarrow>
          (case AuthenticateLocal (ev_auth v) (rq_now r) (id_Username identity) current (ap_auth s) of
             (a, Inl err) \<Rightarrow> password_failed v r (id_Username identity) err (with_auth s a)
           | (a, Inr _) \<Rightarrow>
               (case SetPassword (ev_auth v) (re_bcrypt v new) (rq_now r) (id_Username identity) new (as_store a) of
                  (st, Some err) \<Rightarrow> (with_auth s (a\<lparr>as_store := st\<rparr>), WriteError 400 ''password_update_failed'')
                | (st, None) \<Rightarrow> password_changed v r identity (with_auth s (a\<lparr>as_store := st\<rparr>)))))))"

text \<open>A role check in front of a route; its identity may come from the request's credentials.\<close>

definition guarded :: "('s, 'f) rest_env \<Rightarrow> http_request \<Rightarrow> ('s, 'f) api_state \<Rightarrow>
    (('s, 'f) api_state \<Rightarrow> ('s, 'f) api_state \<times> rest_data outcome) \<Rightarrow> ('s, 'f) api_state \<times> rest_data outcome" where
  "guarded v r s body = with_headers setNoStore
     (case requireRoleWithService (ev_auth v) r DefaultRoleAdmin (ap_auth s) of
        (a, Some e) \<Rightarrow> (with_auth s a, e)
      | (a, None) \<Rightarrow> body (with_auth s a))"

definition tokens_list_route :: "('s, 'f) rest_env \<Rightarrow> ('s, 'f) route" where
  "tokens_list_route v w r s0 = guarded v r s0 (\<lambda>s.
     (case ListTokens (ev_auth v) (store_of s) of
        Inl err \<Rightarrow> (s, WriteError 500 ''token_list_failed'')
      | Inr tokens \<Rightarrow> (s, WriteJSON 200 (DTokens tokens))))"

text \<open>The product of the hours and \<^verbatim>\<open>time.Hour\<close> is 64-bit.\<close>

definition token_expiry :: "time \<Rightarrow> int \<Rightarrow> time option" where
  "token_expiry now hours = (if hours > 0 then Some (now + i64 (hours * hour_ns)) else None)"

definition tokens_create_route :: "('s, 'f) rest_env \<Rightarrow> ('s, 'f) route" where
  "tokens_create_route v w r s0 = guarded v r s0 (\<lambda>s.
     (case re_token v (rq_Body r) of
        None \<Rightarrow> (s, WriteError 400 ''invalid_payload'')
      | Some p \<Rightarrow>
          (case CreateToken (ev_auth v) (rq_random r ''token'') (rq_random r ''token_id'') (rq_now r) (ct_Name p) (ct_Role p)
                  (token_expiry (rq_now r) (ct_ExpiresInHours p)) (ct_Description p) (store_of s) of
             (st, Inl err) \<Rightarrow> (with_store s st, WriteError 400 ''token_create_failed'')
           | (st, Inr (token, secret)) \<Rightarrow>
               (logAuditEntry (api_env.truncate v) r
                  ((new_entry (requestActor r) ''auth.token.create'' ''api_token'' (at_ID token) ''api'')
                     \<lparr>en_After := [(''name'', AVString (at_Name token)), (''role'', AVString (at_Role token))]\<rparr>) (with_store s st),
                WriteJSON 200 (DToken token secret)))))"

definition tokens_revoke_route :: "('s, 'f) rest_env \<Rightarrow> ('s, 'f) route" where
  "tokens_revoke_route v w r s0 = guarded v r s0 (\<lambda>s.
     (let tokenID = TrimSpace (rq_PathValue r ''id'') in
      if tokenID = [] then (s, WriteError 400 ''missing_id'')
      else
        (case RevokeToken (ev_auth v) (rq_now r) tokenID (store_of s) of
           (st, Some err) \<Rightarrow> (with_store s st, WriteError 404 ''token_not_found'')
         | (st, None) \<Rightarrow>
             (logAuditEntry (api_env.truncate v) r
                (new_entry (requestActor r) ''auth.token.revoke'' ''api_token'' tokenID ''api'') (with_store s st),
              WriteJSON 200 (DStatus [(''status'', ''revoked''), (''id'', tokenID)])))))"

end
