(* ===== verification/RestRoutes.thy ===== *)
theory RestRoutes
  imports RestAuth
begin

text \<open>
  \<^verbatim>\<open>src/internal/api/rest/router.go\<close>: the routes over leases, subnets, reservations, addresses, the audit log, the
  settings and the stream of events, each a handler on the state. The parser of times is an argument. The
  payload of the streaming route is left out: what matters is whether it starts.
\<close>

section \<open>Numbers and limits\<close>

definition parseBoundedPositiveLimit :: "string \<Rightarrow> int \<Rightarrow> int \<Rightarrow> int option" where
  "parseBoundedPositiveLimit raw defaultLimit maxLimit =
     (let value = TrimSpace raw in
      if value = [] then Some defaultLimit
      else (case Atoi value of
              None \<Rightarrow> None
            | Some parsed \<Rightarrow>
                if parsed \<le> 0 then None
                else if maxLimit > 0 \<and> parsed > maxLimit then Some maxLimit else Some parsed))"

section \<open>Changes: event, audit entry, answer\<close>

definition publish_event :: "http_request \<Rightarrow> string \<Rightarrow> (string \<times> audit_value) list \<Rightarrow> ('s, 'f) api_state \<Rightarrow> ('s, 'f) api_state" where
  "publish_event r typ data s =
     s\<lparr>ap_broker := Publish (rq_now r) \<lparr>ev_Type = typ, ev_Timestamp = 0, ev_Data = data\<rparr> (ap_broker s)\<rparr>"

definition api_entry :: "http_request \<Rightarrow> string \<Rightarrow> string \<Rightarrow> string \<Rightarrow> (string \<times> audit_value) list \<Rightarrow> audit_value audit_entry" where
  "api_entry r action objectType objectID after =
     (new_entry (requestActor r) action objectType objectID ''api'')\<lparr>en_After := after\<rparr>"

text \<open>A route that changes something first checks the role.\<close>

definition mutation_route ::
  "string \<Rightarrow> http_request \<Rightarrow> ('s, 'f) api_state \<Rightarrow> (('s, 'f) api_state \<times> rest_data outcome) \<Rightarrow> ('s, 'f) api_state \<times> rest_data outcome" where
  "mutation_route role r s body = (case requireRole r role of Some e \<Rightarrow> (s, e) | None \<Rightarrow> body)"

section \<open>Leases\<close>

definition lease_wanted :: "string \<Rightarrow> string \<Rightarrow> Lease \<Rightarrow> bool" where
  "lease_wanted st subnet l \<longleftrightarrow> (st = [] \<or> l_State l = st) \<and> (subnet = [] \<or> l_SubnetID l = subnet)"

definition leases_list_route :: "('s, 'f) rest_env \<Rightarrow> ('s, 'f) route" where
  "leases_list_route v w r s =
     (case op_ListAll (re_leases v) (store_of s) of
        Inl err \<Rightarrow> (s, WriteError 500 ''lease_list_failed'')
      | Inr all \<Rightarrow>
          (s, WriteJSON 200 (DLeases (sort_by (\<lambda>x y. l_IP x < l_IP y)
                (filter (lease_wanted (rq_Query r ''state'') (rq_Query r ''subnet'')) all)))))"

definition lease_get_route :: "('s, 'f) rest_env \<Rightarrow> ('s, 'f) route" where
  "lease_get_route v w r s =
     (case op_GetByIP (re_leases v) (store_of s) (rq_PathValue r ''ip'') of
        Inl err \<Rightarrow> (s, WriteError 404 ''lease_not_found'')
      | Inr l \<Rightarrow> (s, WriteJSON 200 (DLease l)))"

definition released_now :: "time \<Rightarrow> Lease \<Rightarrow> Lease" where
  "released_now now l = l\<lparr>l_State := StateReleased, l_ExpiryTime := now, l_UpdatedAt := now\<rparr>"

definition lease_release_route :: "('s, 'f) rest_env \<Rightarrow> ('s, 'f) route" where
  "lease_release_route v w r s = mutation_route DefaultRoleOperator r s
     (let ip = rq_PathValue r ''ip'' in
      case op_GetByIP (re_leases v) (store_of s) ip of
        Inl err \<Rightarrow> (s, WriteError 404 ''lease_not_found'')
      | Inr l \<Rightarrow>
          (case op_Upsert (re_leases v) (rq_now r) (released_now (rq_now r) l) (store_of s) of
             (st, Some err) \<Rightarrow> (with_store s st, WriteError 500 ''lease_release_failed'')
           | (st, None) \<Rightarrow>
               (logAuditEntry (api_env.truncate v) r
                  (api_entry r ''lease.release'' ''lease'' ip [(''state'', AVString ''released'')])
                  (publish_event r ''lease.released'' [(''ip'', AVString ip)] (with_store s st)),
                WriteJSON 200 (DStatus [(''status'', ''released''), (''ip'', ip)]))))"

definition upserted_reservation ::
  "('s, 'f) rest_env \<Rightarrow> http_request \<Rightarrow> string \<Rightarrow> bool \<Rightarrow> string \<Rightarrow> UpsertReservationInput \<Rightarrow> ('s, 'f) api_state \<Rightarrow>
   ('s, 'f) api_state \<times> rest_data outcome" where
  "upserted_reservation v r action with_mac failed inp s =
     (case UpsertReservation (re_ipam v) (rq_now r) inp (store_of s) of
        (st, Inl err) \<Rightarrow> (with_store s st, WriteError 400 failed)
      | (st, Inr item) \<Rightarrow>
          (logAuditEntry (api_env.truncate v) r
             (api_entry r action ''reservation'' (rv_MAC item)
                ([(''ip'', AVString (rv_IP item))] @ (if with_mac then [(''mac'', AVString (rv_MAC item))] else []) @
                 [(''subnet'', AVString (rv_SubnetCIDR item))]))
             (publish_event r ''reservation.upserted'' [(''mac'', AVString (rv_MAC item)), (''ip'', AVString (rv_IP item))] (with_store s st)),
           WriteJSON 200 (DReservation item)))"

definition lease_reservation_route :: "('s, 'f) rest_env \<Rightarrow> ('s, 'f) route" where
  "lease_reservation_route v w r s = mutation_route DefaultRoleOperator r s
     (case op_GetByIP (re_leases v) (store_of s) (rq_PathValue r ''ip'') of
        Inl err \<Rightarrow> (s, WriteError 404 ''lease_not_found'')
      | Inr l \<Rightarrow>
          upserted_reservation v r ''reservation.create_from_lease'' True ''reservation_create_failed''
            \<lparr>ri_MAC = l_MAC l, ri_IP = l_IP l, ri_Hostname = l_Hostname l, ri_SubnetCIDR = l_SubnetID l\<rparr> s)"

section \<open>Subnets\<close>

definition subnets_list_route :: "(int \<Rightarrow> int \<Rightarrow> int) \<Rightarrow> ('s, 'f) rest_env \<Rightarrow> ('s, 'f) route" where
  "subnets_list_route percent v w r s =
     (case ListSummaries (re_ipam v) percent (store_of s) of
        Inl err \<Rightarrow> (s, WriteError 500 ''subnet_list_failed'')
      | Inr subnets \<Rightarrow> (s, WriteJSON 200 (DSummaries subnets)))"

definition subnets_raw_route :: "('s, 'f) rest_env \<Rightarrow> ('s, 'f) route" where
  "subnets_raw_route v w r s =
     (case ListSubnets (re_ipam v) (store_of s) of
        Inl err \<Rightarrow> (s, WriteError 500 ''subnet_list_failed'')
      | Inr subnets \<Rightarrow> (s, WriteJSON 200 (DSubnets subnets)))"

definition subnet_upsert_route :: "('s, 'f) rest_env \<Rightarrow> ('s, 'f) route" where
  "subnet_upsert_route v w r s = mutation_route DefaultRoleOperator r s
     (case re_subnet v (rq_Body r) of
        None \<Rightarrow> (s, WriteError 400 ''invalid_payload'')
      | Some payload \<Rightarrow>
          (case UpsertSubnet (re_ipam v) (rq_now r) payload (store_of s) of
             (st, Inl err) \<Rightarrow> (with_store s st, WriteError 400 ''subnet_upsert_failed'')
           | (st, Inr result) \<Rightarrow>
               (logAuditEntry (api_env.truncate v) r
                  (api_entry r ''subnet.upsert'' ''subnet'' (sn_CIDR result)
                     [(''name'', AVString (sn_Name result)), (''vlan'', AVInt (sn_VLAN result)),
                      (''gateway'', AVString (sn_Gateway result)), (''dhcp_enabled'', AVBool (dp_Enabled (sn_DHCP result)))])
                  (publish_event r ''subnet.upserted'' [(''cidr'', AVString (sn_CIDR result))] (with_store s st)),
                WriteJSON 200 (DSubnet result))))"

definition subnet_delete_route :: "('s, 'f) rest_env \<Rightarrow> ('s, 'f) route" where
  "subnet_delete_route v w r s = mutation_route DefaultRoleOperator r s
     (let cidr = TrimSpace (rq_Query r ''cidr'') in
      if cidr = [] then (s, WriteError 400 ''missing_cidr'')
      else
        (case DeleteSubnet (re_ipam v) (rq_now r) cidr (store_of s) of
           (st, Some err) \<Rightarrow> (with_store s st, WriteError 500 ''subnet_delete_failed'')
         | (st, None) \<Rightarrow>
             (logAuditEntry (api_env.truncate v) r (api_entry r ''subnet.delete'' ''subnet'' cidr [])
                (publish_event r ''subnet.deleted'' [(''cidr'', AVString cidr)] (with_store s st)),
              WriteJSON 200 (DStatus [(''status'', ''deleted''), (''cidr'', cidr)]))))"

section \<open>Reservations\<close>

definition reservation_wanted :: "string \<Rightarrow> string \<Rightarrow> string \<Rightarrow> Reservation \<Rightarrow> bool" where
  "reservation_wanted q subnet mac x \<longleftrightarrow>
     (subnet = [] \<or> rv_SubnetCIDR x = subnet) \<and> (mac = [] \<or> rv_MAC x = mac) \<and>
     (q = [] \<or> sublist q (ToLower (rv_IP x @ '' '' @ rv_MAC x @ '' '' @ rv_Hostname x @ '' '' @ rv_SubnetCIDR x)))"

definition reservations_list_route :: "('s, 'f) rest_env \<Rightarrow> ('s, 'f) route" where
  "reservations_list_route v w r s =
     (case ListReservations (re_ipam v) (store_of s) of
        Inl err \<Rightarrow> (s, WriteError 500 ''reservation_list_failed'')
      | Inr records \<Rightarrow>
          (s, WriteJSON 200 (DReservations
                (filter (reservation_wanted (ToLower (TrimSpace (rq_Query r ''q''))) (TrimSpace (rq_Query r ''subnet''))
                           (ToUpper (TrimSpace (rq_Query r ''mac'')))) records))))"

definition reservation_get_route :: "('s, 'f) rest_env \<Rightarrow> ('s, 'f) route" where
  "reservation_get_route v w r s =
     (case GetReservationByMAC (re_ipam v) (store_of s) (TrimSpace (rq_PathValue r ''mac'')) of
        Inl err \<Rightarrow> (s, WriteError 404 ''reservation_not_found'')
      | Inr item \<Rightarrow> (s, WriteJSON 200 (DReservation item)))"

definition reservation_upsert_route :: "('s, 'f) rest_env \<Rightarrow> ('s, 'f) route" where
  "reservation_upsert_route v w r s = mutation_route DefaultRoleOperator r s
     (case re_reservation v (rq_Body r) of
        None \<Rightarrow> (s, WriteError 400 ''invalid_payload'')
      | Some payload \<Rightarrow> upserted_reservation v r ''reservation.upsert'' False ''reservation_upsert_failed'' payload s)"

definition reservation_delete_route :: "('s, 'f) rest_env \<Rightarrow> ('s, 'f) route" where
  "reservation_delete_route v w r s = mutation_route DefaultRoleOperator r s
     (let mac = TrimSpace (rq_Query r ''mac'') in
      if mac = [] then (s, WriteError 400 ''missing_mac'')
      else
        (case DeleteReservation (re_ipam v) (rq_now r) mac (store_of s) of
           (st, Some err) \<Rightarrow> (with_store s st, WriteError 500 ''reservation_delete_failed'')
         | (st, None) \<Rightarrow>
             (logAuditEntry (api_env.truncate v) r (api_entry r ''reservation.delete'' ''reservation'' (ToUpper mac) [])
                (publish_event r ''reservation.deleted'' [(''mac'', AVString (ToUpper mac))] (with_store s st)),
              WriteJSON 200 (DStatus [(''status'', ''deleted''), (''mac'', ToUpper mac)]))))"

section \<open>Addresses\<close>

definition addresses_list_route :: "('s, 'f) rest_env \<Rightarrow> ('s, 'f) route" where
  "addresses_list_route v w r s =
     (let raw = TrimSpace (rq_Query r ''limit'') in
      case (if raw = [] then Some 0
            else (case Atoi raw of None \<Rightarrow> None | Some parsed \<Rightarrow> if parsed < 0 then None else Some parsed)) of
        None \<Rightarrow> (s, WriteError 400 ''invalid_limit'')
      | Some limit \<Rightarrow>
          (case ListAddresses (re_ipam v) (store_of s)
                  \<lparr>af_SubnetCIDR = TrimSpace (rq_Query r ''subnet''), af_State = TrimSpace (rq_Query r ''state''),
                   af_Query = TrimSpace (rq_Query r ''q''), af_Limit = limit\<rparr> of
             Inl err \<Rightarrow> (s, WriteError 400 ''address_list_failed'')
           | Inr records \<Rightarrow> (s, WriteJSON 200 (DAddresses records))))"

definition address_get_route :: "('s, 'f) rest_env \<Rightarrow> ('s, 'f) route" where
  "address_get_route v w r s =
     (case GetAddress (re_ipam v) (store_of s) (rq_PathValue r ''ip'') of
        Inl err \<Rightarrow> (s, WriteError 404 ''address_not_found'')
      | Inr record \<Rightarrow> (s, WriteJSON 200 (DAddress record)))"

section \<open>Audit log\<close>

definition time_param :: "(string \<Rightarrow> time option) \<Rightarrow> string \<Rightarrow> time option" where
  "time_param parse raw0 = (let raw = TrimSpace raw0 in if raw = [] then Some 0 else parse raw)"

text \<open>The entries in the format that was asked for; the three formats carry the same entries.\<close>

definition audit_answer :: "string \<Rightarrow> audit_value audit_entry list \<Rightarrow> rest_data outcome" where
  "audit_answer fmt0 entries =
     (let fmt = ToLower (TrimSpace fmt0) in
      if fmt \<in> set ['''', ''envelope'', ''json'', ''csv''] then WriteJSON 200 (DAudit entries)
      else WriteError 400 ''invalid_format'')"

definition audit_route :: "(string \<Rightarrow> time option) \<Rightarrow> ('s, 'f) rest_env \<Rightarrow> ('s, 'f) route" where
  "audit_route parse v w r s =
     (case requireRole r DefaultRoleAdmin of
        Some e \<Rightarrow> (s, e)
      | None \<Rightarrow>
     (case parseBoundedPositiveLimit (rq_Query r ''limit'') 100 500 of
        None \<Rightarrow> (s, WriteError 400 ''invalid_limit'')
      | Some limit \<Rightarrow>
     (case time_param parse (rq_Query r ''from'') of
        None \<Rightarrow> (s, WriteError 400 ''invalid_from'')
      | Some fromT \<Rightarrow>
     (case time_param parse (rq_Query r ''to'') of
        None \<Rightarrow> (s, WriteError 400 ''invalid_to'')
      | Some toT \<Rightarrow>
     (case audit_Query (ev_audit v) (store_of s)
             \<lparr>qf_Actor = TrimSpace (rq_Query r ''actor''), qf_Action = TrimSpace (rq_Query r ''action''),
              qf_ObjectType = TrimSpace (rq_Query r ''object_type''), qf_ObjectID = TrimSpace (rq_Query r ''object_id''),
              qf_Source = TrimSpace (rq_Query r ''source''), qf_Query = TrimSpace (rq_Query r ''q''),
              qf_From = fromT, qf_To = toT, qf_Limit = limit\<rparr> of
        Inl err \<Rightarrow> (s, WriteError 500 ''audit_query_failed'')
      | Inr entries \<Rightarrow> (s, audit_answer (rq_Query r ''format'') entries))))))"

section \<open>Settings\<close>

definition read_settings :: "('s, 'f) rest_env \<Rightarrow> ('s, 'f) api_state \<Rightarrow> ('s, 'f) api_state \<times> rest_data outcome" where
  "read_settings v s =
     (case ui_Get (re_ui v) (store_of s) of
        Inl err \<Rightarrow> (s, WriteError 500 ''settings_read_failed'')
      | Inr current \<Rightarrow> (s, WriteJSON 200 (DSettings current)))"

definition settings_get_route :: "('s, 'f) rest_env \<Rightarrow> ('s, 'f) route" where
  "settings_get_route v w r s = read_settings v s"

definition settings_put_route :: "('s, 'f) rest_env \<Rightarrow> ('s, 'f) route" where
  "settings_put_route v w r s = mutation_route DefaultRoleOperator r s
     (case re_settings v (rq_Body r) of
        None \<Rightarrow> (s, WriteError 400 ''invalid_payload'')
      | Some payload \<Rightarrow>
          (case ui_Set (re_ui v) (rq_now r) payload (store_of s) of
             (st, Some err) \<Rightarrow> (with_store s st, WriteError 500 ''settings_write_failed'')
           | (st, None) \<Rightarrow>
               read_settings v
                 (logAuditEntry (api_env.truncate v) r
                    (api_entry r ''settings.ui.update'' ''settings'' ''ui''
                       [(''theme'', AVString (ui_Theme payload)), (''density'', AVString (ui_Density payload)),
                        (''auto_refresh'', AVBool (ui_AutoRefresh payload))])
                    (publish_event r ''settings.ui_updated''
                       [(''theme'', AVString (ui_Theme payload)), (''density'', AVString (ui_Density payload))] (with_store s st)))))"

section \<open>Events\<close>

definition stream_headers :: "header_call list" where
  "stream_headers = [SetHeader ''Content-Type'' ''text/event-stream'', SetHeader ''Cache-Control'' ''no-cache'',
     SetHeader ''Connection'' ''keep-alive'']"

text \<open>The stream starts with a subscription; it needs a writer that can flush.\<close>

definition events_route :: "('s, 'f) route" where
  "events_route w r s =
     (if \<not> w_Flusher w then (s, WriteError 500 ''sse_not_supported'')
      else with_headers stream_headers
        (s\<lparr>ap_broker := fst (Subscribe (ap_broker s))\<rparr>,
         Inr \<lparr>rs_status = 200, rs_error = None, rs_headers = [], rs_data = Some DStream\<rparr>))"

end
