(* ===== verification/RestSystem.thy ===== *)
theory RestSystem
  imports RestRoutes
begin

text \<open>
  \<^verbatim>\<open>src/internal/api/rest/router.go\<close>: the routes over the system, the high availability and the discovery. The functions that
  \<^verbatim>\<open>main.go\<close> passes to the router are fields of a record, absent where the field is nil in Go; they work on the state that the
  other routes work on, which for these routes also holds the configuration, the files, the discovery engine and the role of the node. The
  decoders of bodies and the encoders of the exported configuration are fields as well.
\<close>

record 's system_deps =
  sd_health :: "'s health_deps"
  sd_ReloadStatus :: "('s \<Rightarrow> json) option"
  sd_ConfigSnapshot :: "('s \<Rightarrow> json) option"
  sd_UpdateConfig :: "(time \<Rightarrow> (string \<times> json) list \<Rightarrow> 's \<Rightarrow> 's \<times> (go_error + json)) option"
  sd_CreateBackup :: "(time \<Rightarrow> 's \<Rightarrow> 's \<times> (go_error + SystemBackup)) option"
  sd_ListBackups :: "('s \<Rightarrow> go_error + SystemBackup list) option"
  sd_RestoreBackup :: "(RestoreRequest \<Rightarrow> 's \<Rightarrow> 's \<times> (go_error + SystemBackup)) option"
  sd_HATriggerFailover :: "(time \<Rightarrow> string \<Rightarrow> 's \<Rightarrow> 's \<times> (go_error + json)) option"
  sd_discovery :: "'s discovery_env"
  sd_engine :: "'s \<Rightarrow> discovery_engine"
  sd_withEngine :: "discovery_engine \<Rightarrow> 's \<Rightarrow> 's"
  sd_runtime :: json
  sd_configBody :: "bytes \<Rightarrow> (string \<times> json) list option"
  sd_restoreBody :: "bytes \<Rightarrow> RestoreRequest option"
  sd_failoverBody :: "bytes \<Rightarrow> string option"
  sd_scanBody :: "bytes \<Rightarrow> ScanRequest option"
  sd_yaml :: "json \<Rightarrow> bytes option"
  sd_indented :: "json \<Rightarrow> bytes option"
  sd_auditValue :: "json \<Rightarrow> audit_value"

section \<open>System\<close>

definition ReloadStatusValue :: "'s system_deps \<Rightarrow> 's \<Rightarrow> json" where
  "ReloadStatusValue d s = (case sd_ReloadStatus d of None \<Rightarrow> JNull | Some f \<Rightarrow> f s)"

definition health_route :: "'s system_deps \<Rightarrow> ('s, 'f) route" where
  "health_route d w r s =
     (s, WriteJSON 200 (DJson (JObj (fst (BuildSystemHealthPayload (sd_health d) (rq_now r) (store_of s))))))"

definition ready_route :: "'s system_deps \<Rightarrow> ('s, 'f) route" where
  "ready_route d w r s =
     (case BuildSystemHealthPayload (sd_health d) (rq_now r) (store_of s) of
        (payload, ready) \<Rightarrow> (s, WriteJSON (if ready then 200 else 503) (DJson (JObj payload))))"

text \<open>The seconds since the start, which the code takes from a float.\<close>

definition info_route :: "'s system_deps \<Rightarrow> ('s, 'f) rest_env \<Rightarrow> ('s, 'f) route" where
  "info_route d v w r s =
     (let now = rq_now r; startedAt = hd_StartedAt (sd_health d);
          uptimeSec = (if \<not> is_zero_time startedAt \<and> now > startedAt then re_seconds v (now - startedAt) else 0)
      in (s, WriteJSON 200 (DJson (JObj
            [(''version'', JStr (hd_Version (sd_health d))), (''started_at'', hd_time (sd_health d) startedAt),
             (''now'', hd_time (sd_health d) now), (''uptime_sec'', JInt uptimeSec), (''ha'', HAStatusValue (sd_health d) (store_of s)),
             (''config_reload'', ReloadStatusValue d (store_of s)), (''runtime'', sd_runtime d)]))))"

definition config_get_route :: "'s system_deps \<Rightarrow> ('s, 'f) route" where
  "config_get_route d w r s =
     (case requireRole r DefaultRoleAdmin of
        Some e \<Rightarrow> (s, e)
      | None \<Rightarrow>
          (case sd_ConfigSnapshot d of
             None \<Rightarrow> (s, WriteError 501 ''config_unavailable'')
           | Some snapshot \<Rightarrow> (s, WriteJSON 200 (DJson (sanitizeConfigSnapshot (snapshot (store_of s)))))))"

definition config_put_route :: "'s system_deps \<Rightarrow> ('s, 'f) route" where
  "config_put_route d w r s = mutation_route DefaultRoleAdmin r s
     (case sd_UpdateConfig d of
        None \<Rightarrow> (s, WriteError 501 ''config_update_unavailable'')
      | Some update \<Rightarrow>
          (case sd_configBody d (rq_Body r) of
             None \<Rightarrow> (s, WriteError 400 ''invalid_payload'')
           | Some payload \<Rightarrow>
               (case update (rq_now r) payload (store_of s) of
                  (st, Inl err) \<Rightarrow> (with_store s st, WriteError 400 ''config_update_failed'')
                | (st, Inr updated) \<Rightarrow> (with_store s st, WriteJSON 200 (DJson (sanitizeConfigSnapshot updated))))))"

definition exported :: "string \<Rightarrow> string \<Rightarrow> bytes option \<Rightarrow> rest_data outcome" where
  "exported ctype name raw =
     (case raw of
        None \<Rightarrow> WriteError 500 ''config_export_failed''
      | Some body \<Rightarrow>
          Inr \<lparr>rs_status = 200, rs_error = None,
               rs_headers = [SetHeader ''Content-Type'' ctype,
                 SetHeader ''Content-Disposition'' (''attachment; filename='' @ CHR 0x22 # name @ [CHR 0x22])],
               rs_data = Some (DBytes body)\<rparr>)"

definition config_export_route :: "'s system_deps \<Rightarrow> ('s, 'f) route" where
  "config_export_route d w r s =
     (case requireRole r DefaultRoleAdmin of
        Some e \<Rightarrow> (s, e)
      | None \<Rightarrow>
          (case sd_ConfigSnapshot d of
             None \<Rightarrow> (s, WriteError 501 ''config_unavailable'')
           | Some f \<Rightarrow>
               (let snapshot = sanitizeConfigSnapshot (f (store_of s)); fmt = ToLower (TrimSpace (rq_Query r ''format'')) in
                (s, if fmt \<in> {[], ''yaml'', ''yml''} then exported ''application/yaml'' ''monsoon-config.yaml'' (sd_yaml d snapshot)
                    else if fmt = ''json'' then exported ''application/json'' ''monsoon-config.json'' (sd_indented d snapshot)
                    else WriteError 400 ''invalid_format''))))"

definition backups_list_route :: "'s system_deps \<Rightarrow> ('s, 'f) route" where
  "backups_list_route d w r s =
     (case requireRole r DefaultRoleAdmin of
        Some e \<Rightarrow> (s, e)
      | None \<Rightarrow>
          (case sd_ListBackups d of
             None \<Rightarrow> (s, WriteJSON 200 (DBackups []))
           | Some f \<Rightarrow>
               (case f (store_of s) of
                  Inl err \<Rightarrow> (s, WriteError 500 ''backup_list_failed'')
                | Inr backups \<Rightarrow> (s, WriteJSON 200 (DBackups backups)))))"

definition backup_create_route :: "'s system_deps \<Rightarrow> ('s, 'f) route" where
  "backup_create_route d w r s = mutation_route DefaultRoleAdmin r s
     (case sd_CreateBackup d of
        None \<Rightarrow> (s, WriteError 501 ''backup_unavailable'')
      | Some create \<Rightarrow>
          (case create (rq_now r) (store_of s) of
             (st, Inl err) \<Rightarrow> (with_store s st, WriteError 500 ''backup_create_failed'')
           | (st, Inr backup) \<Rightarrow> (with_store s st, WriteJSON 200 (DBackup backup))))"

definition restore_route :: "'s system_deps \<Rightarrow> ('s, 'f) route" where
  "restore_route d w r s = mutation_route DefaultRoleAdmin r s
     (case sd_RestoreBackup d of
        None \<Rightarrow> (s, WriteError 501 ''restore_unavailable'')
      | Some restore \<Rightarrow>
          (case sd_restoreBody d (rq_Body r) of
             None \<Rightarrow> (s, WriteError 400 ''invalid_payload'')
           | Some payload \<Rightarrow>
               (case restore payload (store_of s) of
                  (st, Inl err) \<Rightarrow> (with_store s st, WriteError 400 ''backup_restore_failed'')
                | (st, Inr restored) \<Rightarrow> (with_store s st, WriteJSON 200 (DBackup restored)))))"

section \<open>High availability\<close>

definition ha_status_route :: "'s system_deps \<Rightarrow> ('s, 'f) route" where
  "ha_status_route d w r s = (s, WriteJSON 200 (DJson (HAStatusValue (sd_health d) (store_of s))))"

definition failover_route :: "'s system_deps \<Rightarrow> ('s, 'f) rest_env \<Rightarrow> ('s, 'f) route" where
  "failover_route d v w r s = mutation_route DefaultRoleAdmin r s
     (case sd_HATriggerFailover d of
        None \<Rightarrow> (s, WriteError 501 ''ha_failover_unavailable'')
      | Some failover \<Rightarrow>
          (case sd_failoverBody d (rq_Body r) of
             None \<Rightarrow> (s, WriteError 400 ''invalid_payload'')
           | Some reason \<Rightarrow>
               (case failover (rq_now r) reason (store_of s) of
                  (st, Inl err) \<Rightarrow> (with_store s st, WriteError 409 ''ha_failover_failed'')
                | (st, Inr status) \<Rightarrow>
                    (logAuditEntry (api_env.truncate v) r
                       ((new_entry (requestActor r) ''ha.failover.triggered'' ''ha'' ''cluster'' ''rest'')
                          \<lparr>en_After := [(''reason'', AVString (TrimSpace reason)), (''status'', sd_auditValue d status)]\<rparr>)
                       (with_store s st),
                     WriteJSON 202 (DJson status)))))"

section \<open>Discovery\<close>

definition discovery_status_route :: "'s system_deps \<Rightarrow> ('s, 'f) route" where
  "discovery_status_route d w r s =
     (s, WriteJSON 200 (DScanStatus (discovery_Status (sd_discovery d) (store_of s, sd_engine d (store_of s)))))"

definition discovery_progress_route :: "'s system_deps \<Rightarrow> ('s, 'f) route" where
  "discovery_progress_route d w r s = (s, WriteJSON 200 (DProgress (de_progress (sd_engine d (store_of s)))))"

text \<open>A request without a body asks for a scan of everything. The scan itself runs on its own.\<close>

definition scan_route :: "'s system_deps \<Rightarrow> ('s, 'f) rest_env \<Rightarrow> ('s, 'f) route" where
  "scan_route d v w r s = mutation_route DefaultRoleOperator r s
     (case (if rq_Body r \<noteq> [] then sd_scanBody d (rq_Body r) else Some \<lparr>sq_Reason = [], sq_Subnets = []\<rparr>) of
        None \<Rightarrow> (s, WriteError 400 ''invalid_payload'')
      | Some payload \<Rightarrow>
          (case TriggerScan (sd_discovery d) (rq_now r) (sd_engine d (store_of s)) of
             None \<Rightarrow> (s, WriteError 409 ''scan_in_progress'')
           | Some (e, scanID) \<Rightarrow>
               (logAuditEntry (api_env.truncate v) r
                  (api_entry r ''discovery.scan.trigger'' ''discovery_scan'' scanID [(''reason'', AVString (sq_Reason payload))])
                  (publish_event r ''discovery.scan_queued'' [(''scan_id'', AVString scanID)]
                     (with_store s (sd_withEngine d e (store_of s)))),
                WriteJSON 202 (DStatus [(''status'', ''queued''), (''scan_id'', scanID), (''estimated_in'', ''15s'')]))))"

definition scans_list_route :: "'s system_deps \<Rightarrow> ('s, 'f) route" where
  "scans_list_route d w r s =
     (case parseBoundedPositiveLimit (rq_Query r ''limit'') 50 200 of
        None \<Rightarrow> (s, WriteError 400 ''invalid_limit'')
      | Some limit \<Rightarrow>
          (case ListResults (sd_discovery d) (store_of s) limit of
             Inl err \<Rightarrow> (s, WriteError 500 ''discovery_results_failed'')
           | Inr results \<Rightarrow> (s, WriteJSON 200 (DScans results))))"

definition scan_get_route :: "'s system_deps \<Rightarrow> ('s, 'f) route" where
  "scan_get_route d w r s =
     (case GetResult (sd_discovery d) (store_of s) (TrimSpace (rq_PathValue r ''id'')) of
        Inl err \<Rightarrow> (s, WriteError 404 ''discovery_result_not_found'')
      | Inr result \<Rightarrow> (s, WriteJSON 200 (DScan result)))"

definition conflicts_route :: "'s system_deps \<Rightarrow> ('s, 'f) route" where
  "conflicts_route d w r s =
     (case LatestConflicts (sd_discovery d) (store_of s, sd_engine d (store_of s)) of
        Inl err \<Rightarrow> (s, WriteError 500 ''discovery_conflicts_failed'')
      | Inr conflicts \<Rightarrow> (s, WriteJSON 200 (DConflicts conflicts)))"

definition rogue_route :: "'s system_deps \<Rightarrow> ('s, 'f) route" where
  "rogue_route d w r s =
     (case LatestRogueServers (sd_discovery d) (store_of s, sd_engine d (store_of s)) of
        Inl err \<Rightarrow> (s, WriteError 500 ''discovery_rogue_failed'')
      | Inr rogues \<Rightarrow> (s, WriteJSON 200 (DRogues rogues)))"

end
