(* ===== verification/RestProps.thy ===== *)
theory RestProps
  imports RestSystem AuthProps
begin

text \<open>
  What the chain of middleware guarantees to the routes behind it: no change without a sufficient role, the
  defence against cross-site requests as one condition, the sessions after a change of the password; and what it
  takes away: behind the logging no route can stream.
\<close>

section \<open>The gate\<close>

text \<open>The middleware changes only the request's context.\<close>

definition same_request :: "http_request \<Rightarrow> http_request \<Rightarrow> bool" where
  "same_request r r' \<longleftrightarrow> rq_Header r' = rq_Header r \<and> rq_Cookie r' = rq_Cookie r \<and> rq_now r' = rq_now r \<and>
     rq_Path r' = rq_Path r \<and> rq_random r' = rq_random r"

lemma same_request_resolve:
  assumes "same_request r r'"
  shows "resolveIdentity v r' a = resolveIdentity v r a"
proof -
  have eqs: "rq_Header r' = rq_Header r" "rq_Cookie r' = rq_Cookie r" "rq_now r' = rq_now r"
    using assms by (simp_all add: same_request_def)
  show ?thesis unfolding resolveIdentity_def bearer_token_def cookie_identity_def eqs by (rule refl)
qed

text \<open>A refusal: its status, and what it may have written: the use of a token, the end of a session, an audit entry. No event is
  published.\<close>

definition refused ::
  "('s, 'f) api_env \<Rightarrow> http_request \<Rightarrow> ('s, 'f) api_state \<Rightarrow> ('s, 'f) api_state \<times> 'd outcome \<Rightarrow> bool" where
  "refused v r s res \<longleftrightarrow>
     (\<exists>s' resp. res = (s', Inr resp) \<and> rs_status resp \<in> {204, 401, 403, 429} \<and>
        ap_broker s' = ap_broker s \<and> ap_runtime s' = ap_runtime s \<and>
        (store_of s' = store_of s \<or> store_of s' = as_store (fst (resolveIdentity (ev_auth v) r (ap_auth s))) \<or>
         (\<exists>entry. store_of s' = fst (audit_Log (ev_audit v) (rq_random r ''audit'') (rq_now r) entry (store_of s)))))"

lemma refused_headers [simp]: "refused v r s (with_headers hs res) = refused v r s res"
proof -
  obtain s' x where res: "res = (s', x)" by (cases res)
  then show ?thesis by (cases x) (auto simp: refused_def)
qed

lemma refused_error:
  "refused v r s (s', WriteError n code) \<longleftrightarrow> n \<in> {204, 401, 403, 429} \<and> ap_broker s' = ap_broker s \<and> ap_runtime s' = ap_runtime s \<and>
     (store_of s' = store_of s \<or> store_of s' = as_store (fst (resolveIdentity (ev_auth v) r (ap_auth s))) \<or>
      (\<exists>entry. store_of s' = fst (audit_Log (ev_audit v) (rq_random r ''audit'') (rq_now r) entry (store_of s))))"
  by (simp add: refused_def WriteError_def)

lemma refused_no_content: "refused v r s (s, no_content)"
  by (simp add: refused_def no_content_def)

lemma refused_recovery:
  "refused v r s (next w r' s1) \<Longrightarrow> refused v r s (RecoveryMiddleware next w r' s1)"
  by (auto simp: refused_def RecoveryMiddleware_def)

text \<open>The credentials do not give the role.\<close>

definition lacks_role :: "'s auth_env \<Rightarrow> http_request \<Rightarrow> 's auth_service \<Rightarrow> string \<Rightarrow> bool" where
  "lacks_role v r a role \<longleftrightarrow>
     (case snd (resolveIdentity v r a) of None \<Rightarrow> True | Some i \<Rightarrow> \<not> HasRole role (id_Role i))"

text \<open>A request reaches its route in a state that the middleware before it has left: what it may have changed are the buckets of the limits.\<close>

definition same_state :: "('s, 'f) api_state \<Rightarrow> ('s, 'f) api_state \<Rightarrow> bool" where
  "same_state s s1 \<longleftrightarrow> ap_auth s1 = ap_auth s \<and> ap_runtime s1 = ap_runtime s \<and> ap_broker s1 = ap_broker s"

text \<open>A route that lets nobody pass without a role, whoever the request says it comes from.\<close>

definition guards :: "('s, 'f) api_env \<Rightarrow> string \<Rightarrow> ('s, 'f) route \<Rightarrow> bool" where
  "guards v role route \<longleftrightarrow>
     (\<forall>w r s i. rq_identity r = Some i \<and> \<not> HasRole role (id_Role i) \<longrightarrow>
        (\<exists>hs. route w r s = with_headers hs (s, WriteError 403 ''forbidden'')))"

lemma gate_refuses:
  assumes "same_request r r'" "same_state s s1" "guards v' role route"
    and "rt_authEnforced (ap_runtime s)" "\<not> isPublicAuthPath (rq_Path r)" "lacks_role (ev_auth v) r (ap_auth s) role"
  shows "refused v r s (AuthMiddlewareFunc v (LoggingMiddleware route) w r' s1)"
proof -
  have p: "rq_Path r' = rq_Path r" using assms(1) by (simp add: same_request_def)
  obtain a i where ai: "resolveIdentity (ev_auth v) r (ap_auth s) = (a, i)" by (cases "resolveIdentity (ev_auth v) r (ap_auth s)")
  have s1: "ap_auth s1 = ap_auth s" "ap_runtime s1 = ap_runtime s" "ap_broker s1 = ap_broker s" using assms(2) by (simp_all add: same_state_def)
  show ?thesis
  proof (cases i)
    case None
    then show ?thesis
      using assms(4,5) ai by (simp add: AuthMiddlewareFunc_def p s1 same_request_resolve [OF assms(1)] refused_error)
  next
    case (Some x)
    let ?r = "r'\<lparr>rq_authEnforced := Some True, rq_identity := Some x\<rparr>" and ?s = "s1\<lparr>ap_auth := a\<rparr>"
    have "\<not> HasRole role (id_Role x)" using assms(6) ai Some by (simp add: lacks_role_def)
    then obtain hs where hs: "route (responseRecorder w) ?r ?s = with_headers hs (?s, WriteError 403 ''forbidden'')"
      using assms(3) by (fastforce simp: guards_def)
    have "refused v r s (with_headers hs (?s, WriteError 403 ''forbidden''))"
      using ai by (simp only: refused_headers) (simp add: refused_error s1)
    then show ?thesis
      using assms(4,5) ai Some hs by (simp add: AuthMiddlewareFunc_def LoggingMiddleware_def p s1 same_request_resolve [OF assms(1)])
  qed
qed

lemma audited_refuses:
  assumes "same_request r r'" "same_state s s1" "n \<in> {403, 429}"
  shows "refused v r s (logSecurityAuditEntry v r' entry s1, WriteError n code)"
  using assms by (auto simp: refused_error logSecurityAuditEntry_def audit_into_def same_request_def same_state_def)

text \<open>The rest of the chain lets the gate decide, or refuses itself.\<close>

lemma chain_refuses:
  assumes "\<And>w' r' s1. same_request r r' \<Longrightarrow> same_state s s1 \<Longrightarrow> refused v r s (AuthMiddlewareFunc v (LoggingMiddleware next) w' r' s1)"
  shows "refused v r s (Chain next (rest_middleware v) w r s)"
proof -
  let ?gate = "AuthMiddlewareFunc v (LoggingMiddleware next)"
  have limit: "refused v r s (RateLimitMiddlewareFunc v ?gate w' r' s1)"
    if "same_request r r'" "same_state s s1" for w' r' s1
    using that assms by (auto simp: RateLimitMiddlewareFunc_def refused_error Let_def same_state_def split: prod.split)
  have auth_limit: "refused v r s (AuthRateLimitMiddlewareFunc v (RateLimitMiddlewareFunc v ?gate) w' r' s1)"
    if "same_request r r'" "same_state s s1" for w' r' s1
  proof -
    have "same_state s (s1\<lparr>ap_authLimits := m\<rparr>)" for m using that(2) by (simp add: same_state_def)
    then show ?thesis
      using that limit
      by (auto simp: AuthRateLimitMiddlewareFunc_def audited_refuses [OF that(1)] Let_def split: prod.split option.split)
  qed
  have csrf: "refused v r s (CSRFMiddleware v (AuthRateLimitMiddlewareFunc v (RateLimitMiddlewareFunc v ?gate)) w' r' s)"
    if "same_request r r'" for w' r'
    using that auth_limit by (auto simp: CSRFMiddleware_def same_state_def intro!: audited_refuses [OF that])
  have same: "same_request r (r\<lparr>rq_requestID := a, rq_proxyTrusted := b\<rparr>)" for a b by (simp add: same_request_def)
  show ?thesis
    using csrf [OF same]
    by (auto simp: Chain_def rest_middleware_def RequestIDMiddleware_def TrustedProxyHeadersMiddlewareFunc_def
        SecurityHeadersMiddleware_def CORSMiddlewareFunc_def Let_def refused_no_content intro!: refused_recovery)
qed

text \<open>
  Every route that changes something, with the role it asks for. Left out are those that anybody may call for themselves: logging in and
  out, the first user, and the change of one's own password.
\<close>

definition changing_routes :: "'s system_deps \<Rightarrow> ('s, 'f) rest_env \<Rightarrow> (string \<times> ('s, 'f) route) list" where
  "changing_routes d v =
     [(DefaultRoleOperator, lease_release_route v), (DefaultRoleOperator, lease_reservation_route v),
      (DefaultRoleOperator, subnet_upsert_route v), (DefaultRoleOperator, subnet_delete_route v),
      (DefaultRoleOperator, reservation_upsert_route v), (DefaultRoleOperator, reservation_delete_route v),
      (DefaultRoleOperator, settings_put_route v), (DefaultRoleOperator, scan_route d v),
      (DefaultRoleAdmin, tokens_create_route v), (DefaultRoleAdmin, tokens_revoke_route v),
      (DefaultRoleAdmin, config_put_route d), (DefaultRoleAdmin, backup_create_route d), (DefaultRoleAdmin, restore_route d),
      (DefaultRoleAdmin, failover_route d v)]"

lemma mutation_guards: "guards v role (\<lambda>w r s. mutation_route role r s (body w r s))"
  unfolding guards_def
proof (intro allI impI, elim conjE)
  fix w i and r :: http_request and s :: "('a, 'b) api_state"
  assume "rq_identity r = Some i" "\<not> HasRole role (id_Role i)"
  then have "mutation_route role r s (body w r s) = with_headers [] (s, WriteError 403 ''forbidden'')"
    by (simp add: mutation_route_def requireRole_def WriteError_def)
  then show "\<exists>hs. mutation_route role r s (body w r s) = with_headers hs (s, WriteError 403 ''forbidden'')" by (rule exI [of _ "[]"])
qed

lemma guarded_guards: "guards v' DefaultRoleAdmin (\<lambda>w r s. guarded v r s (body w r))"
  unfolding guards_def
proof (intro allI impI, elim conjE)
  fix w i and r :: http_request and s :: "('a, 'b) api_state"
  assume "rq_identity r = Some i" "\<not> HasRole DefaultRoleAdmin (id_Role i)"
  then have "guarded v r s (body w r) = with_headers setNoStore (s, WriteError 403 ''forbidden'')"
    by (simp add: guarded_def requireRoleWithService_def with_auth_def)
  then show "\<exists>hs. guarded v r s (body w r) = with_headers hs (s, WriteError 403 ''forbidden'')" by (rule exI [of _ setNoStore])
qed

lemma changing_routes_guarded:
  assumes "(role, route) \<in> set (changing_routes d v)"
  shows "guards v' role route"
  using assms unfolding changing_routes_def
  by (auto simp: lease_release_route_def [abs_def] lease_reservation_route_def [abs_def] subnet_upsert_route_def [abs_def]
      subnet_delete_route_def [abs_def] reservation_upsert_route_def [abs_def] reservation_delete_route_def [abs_def]
      settings_put_route_def [abs_def] scan_route_def [abs_def] tokens_create_route_def [abs_def] tokens_revoke_route_def [abs_def]
      config_put_route_def [abs_def] backup_create_route_def [abs_def] restore_route_def [abs_def] failover_route_def [abs_def]
      mutation_guards guarded_guards)

text \<open>C4: With authentication enforced, no request without credentials for the role that the route asks for changes a lease, a subnet, a
  reservation, the settings, a token, the configuration, a backup or the role of the node, or starts a scan: it is refused, no event is
  published, and all that it may have written is the use of a token, the removal of an expired session, or an audit entry. The routes that
  are left out are those of a user's own login and password.
\<close>

theorem rest_changes_need_role:
  assumes "rt_authEnforced (ap_runtime s)" "\<not> isPublicAuthPath (rq_Path r)"
    and "(role, route) \<in> set (changing_routes d v)" "lacks_role (ev_auth v) r (ap_auth s) role"
  shows "refused (api_env.truncate v) r s (Chain route (rest_middleware (api_env.truncate v)) w r s)"
proof -
  have "ev_auth (api_env.truncate v) = ev_auth v" by (simp add: api_env.truncate_def)
  then show ?thesis
    using assms(4) by (intro chain_refuses gate_refuses [OF _ _ changing_routes_guarded [OF assms(3)] assms(1,2)]) simp_all
qed

section \<open>Cross-site requests\<close>

text \<open>The origin names this server.\<close>

definition same_origin :: "(string \<Rightarrow> (string \<times> string) option) \<Rightarrow> http_request \<Rightarrow> bool" where
  "same_origin parse r \<longleftrightarrow>
     (case parse (TrimSpace (rq_Header r ''Origin'')) of
        None \<Rightarrow> False
      | Some (scheme, host) \<Rightarrow> EqualFold host (requestHost r) \<and> EqualFold scheme (expected_scheme r))"

text \<open>the two nested checks of the defence against cross-site requests are one condition: a request is trusted
  exactly when its origin is this server, or it names no origin and the browser does not call it cross-site. In
  particular \<open>Sec-Fetch-Site\<close> does not matter to a request with an origin.
\<close>

theorem csrf_trusted_exact:
  "isTrustedCSRFRequest parse r \<longleftrightarrow>
     (if TrimSpace (rq_Header r ''Origin'') = []
      then ToLower (TrimSpace (rq_Header r ''Sec-Fetch-Site'')) \<in> {'''', ''none'', ''same-origin'', ''same-site''}
      else same_origin parse r)"
  by (auto simp: isTrustedCSRFRequest_def isCrossSiteFetch_def same_origin_def Let_def split: option.splits)

section \<open>Streams\<close>

definition no_stream :: "('s, 'f) api_state \<times> rest_data outcome \<Rightarrow> bool" where
  "no_stream res \<longleftrightarrow> (\<exists>s' resp. res = (s', Inr resp) \<and> rs_status resp \<notin> {101, 200} \<and> rs_data resp = None)"

lemma no_stream_headers [simp]: "no_stream (with_headers hs res) = no_stream res"
proof -
  obtain s' x where res: "res = (s', x)" by (cases res)
  then show ?thesis by (cases x) (auto simp: no_stream_def)
qed

lemma no_stream_error [simp]: "no_stream (s, WriteError n code) \<longleftrightarrow> n \<notin> {101, 200}"
  by (simp add: no_stream_def WriteError_def)

lemma no_stream_no_content [simp]: "no_stream (s, no_content)"
  by (simp add: no_stream_def no_content_def)

lemma no_stream_recovery: "no_stream (next w r s) \<Longrightarrow> no_stream (RecoveryMiddleware next w r s)"
  by (auto simp: no_stream_def RecoveryMiddleware_def)

lemma events_behind_logging: "no_stream (LoggingMiddleware events_route w r s)"
  by (simp add: LoggingMiddleware_def responseRecorder_def events_route_def)

text \<open>What does not stream behind the logging does not stream in the chain of the program.\<close>

lemma chain_no_stream:
  assumes "\<And>w r s. no_stream (LoggingMiddleware route w r s)"
  shows "no_stream (Chain route (rest_middleware v) w r s)"
proof -
  let ?gate = "AuthMiddlewareFunc v (LoggingMiddleware route)"
  have gate: "no_stream (?gate w r s)" for w r s
    by (auto simp: AuthMiddlewareFunc_def assms split: prod.split option.split)
  have limit: "no_stream (RateLimitMiddlewareFunc v ?gate w r s)" for w r s
    by (auto simp: RateLimitMiddlewareFunc_def Let_def gate split: prod.split)
  have auth_limit: "no_stream (AuthRateLimitMiddlewareFunc v (RateLimitMiddlewareFunc v ?gate) w r s)" for w r s
    by (auto simp: AuthRateLimitMiddlewareFunc_def Let_def limit split: prod.split option.split)
  have csrf: "no_stream (CSRFMiddleware v (AuthRateLimitMiddlewareFunc v (RateLimitMiddlewareFunc v ?gate)) w r s)" for w r s
    by (auto simp: CSRFMiddleware_def auth_limit)
  then show ?thesis
    by (auto simp: Chain_def rest_middleware_def RequestIDMiddleware_def TrustedProxyHeadersMiddlewareFunc_def Let_def
        SecurityHeadersMiddleware_def CORSMiddlewareFunc_def intro!: no_stream_recovery)
qed

section \<open>After a change of the password\<close>

lemma revoke_all:
  "map_of (sm_sessions (snd (fold (session_Revoke store now) ids (s, m)))) sid =
     (if sid \<in> set ids then None else map_of (sm_sessions m) sid) \<and>
   sm_ttl (snd (fold (session_Revoke store now) ids (s, m))) = sm_ttl m"
  by (induction ids arbitrary: s m) (auto simp: session_Revoke_def)

lemma revoked_user:
  assumes "distinct (mkeys (sm_sessions m))"
  shows "map_of (sm_sessions (snd (fst (session_RevokeByUsername store now u (s, m))))) sid =
    (case map_of (sm_sessions m) sid of None \<Rightarrow> None | Some e \<Rightarrow> if id_Username (se_Identity e) = u then None else Some e)"
proof -
  have "sid \<in> set (map fst (filter (\<lambda>(sid, entry). id_Username (se_Identity entry) = u) (sm_sessions m))) \<longleftrightarrow>
      (\<exists>e. map_of (sm_sessions m) sid = Some e \<and> id_Username (se_Identity e) = u)"
    using assms by force
  then show ?thesis
    by (cases "map_of (sm_sessions m) sid") (simp_all add: session_RevokeByUsername_def Let_def revoke_all)
qed

lemma user_sessions_revoked:
  assumes "distinct (mkeys (sm_sessions (as_sessions a)))"
  shows "map_of (sm_sessions (as_sessions (fst (RevokeSessionsForUser v now u a)))) sid =
    (case map_of (sm_sessions (as_sessions a)) sid of None \<Rightarrow> None | Some e \<Rightarrow> if id_Username (se_Identity e) = u then None else Some e)"
  using revoked_user [OF assms, of "ae_store v" now u "as_store a" sid]
  by (auto simp: RevokeSessionsForUser_def with_sessions_def split: prod.splits)

text \<open>The cookies that an answer sets.\<close>

definition set_cookies :: "'d http_response \<Rightarrow> string set" where
  "set_cookies resp = {ck_Value c | c. SetCookie c \<in> set (rs_headers resp)}"

lemma audited_sessions [simp]: "as_sessions (ap_auth (logAuditEntry v r x s)) = as_sessions (ap_auth s)"
  by (simp add: logAuditEntry_def audit_into_def)

lemma created_session:
  assumes "CreateSession v rnd now i a = (a', Inr (sid, expiry))"
  shows "map_of (sm_sessions (as_sessions a')) x =
    (if x = sid then Some \<lparr>se_Identity = i\<lparr>id_AuthType := ''session''\<rparr>, se_ExpiresAt = now + sm_ttl (as_sessions a)\<rparr>
     else map_of (sm_sessions (as_sessions a)) x)"
  using assms by (auto simp: CreateSession_def session_Create_def with_sessions_def Let_def split: prod.splits sum.splits option.splits)

lemma login_keeps_sessions:
  "AuthenticateLocal v now name pw a = (a', res) \<Longrightarrow> as_sessions a' = as_sessions a"
  by (auto simp: AuthenticateLocal_def fail_login_def Let_def split: prod.splits option.splits sum.splits if_splits)

lemma with_headers_ok:
  assumes "with_headers hs res = (s', Inr resp)"
  shows "\<exists>sc. res = (s', Inr sc) \<and> resp = sc\<lparr>rs_headers := hs @ rs_headers sc\<rparr>"
proof -
  obtain s0 x where res: "res = (s0, x)" by (cases res)
  then show ?thesis using assms by (cases x) auto
qed

lemma set_cookies_headers:
  "set_cookies (sc\<lparr>rs_headers := hs @ rs_headers sc\<rparr>) = {ck_Value c | c. SetCookie c \<in> set hs} \<union> set_cookies sc"
  by (auto simp: set_cookies_def)

lemma no_store_cookies [simp]: "SetCookie c \<notin> set setNoStore"
  by (simp add: setNoStore_def)

lemma password_failed_status: "password_failed v r who err s = (s', Inr sc) \<Longrightarrow> rs_status sc \<noteq> 200"
  by (auto simp: password_failed_def writeLockedAuthError_def WriteError_def split: auth_error.splits)

lemma password_reaches_change:
  assumes "password_route v w r s = (s', Inr resp)" "rs_status resp = 200" "rq_identity r = Some i"
  shows "\<exists>s1 sc. password_changed v r i s1 = (s', Inr sc) \<and> set_cookies sc = set_cookies resp \<and>
    rs_status sc = 200 \<and> as_sessions (ap_auth s1) = as_sessions (ap_auth s)"
proof -
  obtain sc where sc: "resp = sc\<lparr>rs_headers := setNoStore @ rs_headers sc\<rparr>" "rs_status sc = 200"
    and run: "(case requireLocalAuthMode (ap_auth s) of Some e \<Rightarrow> (s, e) | None \<Rightarrow>
     (case re_password v (rq_Body r) of
        None \<Rightarrow> (s, WriteError 400 ''invalid_payload'')
      | Some (current, new) \<Rightarrow>
          (case AuthenticateLocal (ev_auth v) (rq_now r) (id_Username i) current (ap_auth s) of
             (a, Inl err) \<Rightarrow> password_failed v r (id_Username i) err (with_auth s a)
           | (a, Inr _) \<Rightarrow>
               (case SetPassword (ev_auth v) (re_bcrypt v new) (rq_now r) (id_Username i) new (as_store a) of
                  (st, Some err) \<Rightarrow> (with_auth s (a\<lparr>as_store := st\<rparr>), WriteError 400 ''password_update_failed'')
                | (st, None) \<Rightarrow> password_changed v r i (with_auth s (a\<lparr>as_store := st\<rparr>)))))) = (s', Inr sc)"
    using with_headers_ok [OF assms(1) [unfolded password_route_def assms(3) option.case]] assms(2) by auto
  have cookies: "set_cookies sc = set_cookies resp" by (simp add: sc(1) set_cookies_headers)
  show ?thesis
    using run sc(2) cookies
    apply (auto simp: requireLocalAuthMode_def WriteError_def with_auth_def
        dest: password_failed_status split: if_splits option.splits prod.splits sum.splits)
    apply (intro exI conjI, assumption, assumption, assumption)
    apply (simp add: login_keeps_sessions)
    done
qed

lemma set_cookies_mem: "SetCookie c \<in> set (rs_headers resp) \<Longrightarrow> ck_Value c \<in> set_cookies resp"
  by (auto simp: set_cookies_def)

lemma change_replaces_sessions:
  assumes "password_changed v r i s1 = (s', Inr sc)" "rs_status sc = 200" "sid \<notin> set_cookies sc"
  shows "map_of (sm_sessions (as_sessions (ap_auth s'))) sid =
    map_of (sm_sessions (as_sessions (fst (RevokeSessionsForUser (ev_auth v) (rq_now r) (id_Username i) (ap_auth s1))))) sid"
proof (cases "id_AuthType i = ''session''")
  case False
  then show ?thesis using assms(1) by (auto simp: password_changed_def Let_def WriteJSON_def with_auth_def)
next
  case True
  let ?a = "fst (RevokeSessionsForUser (ev_auth v) (rq_now r) (id_Username i) (ap_auth s1))"
  obtain a' x where c: "CreateSession (ev_auth v) (rq_random r ''session'') (rq_now r) i ?a = (a', x)" by (cases "CreateSession (ev_auth v) (rq_random r ''session'') (rq_now r) i ?a")
  obtain new expiry where x: "x = Inr (new, expiry)"
    using assms(1,2) True c by (cases x) (auto simp: password_changed_def Let_def WriteError_def)
  have "as_sessions (ap_auth s') = as_sessions a'" "sid \<noteq> new"
    using assms(1,3) True c x set_cookies_mem [of _ sc]
    by (fastforce simp: password_changed_def Let_def WriteJSON_def with_auth_def setSessionCookie_def)+
  then show ?thesis using created_session [OF c [unfolded x], of sid] by simp
qed

text \<open>C12: when a password is changed, every session of that user ends except the one that the answer hands out, and
  every session of every other user stays as it was: an identifier that the answer does not hand out has a session afterwards
  exactly if it had the same session before, and that is another user's.
\<close>

theorem password_change_ends_sessions:
  assumes "password_route v w r s = (s', Inr resp)" "rs_status resp = 200" "rq_identity r = Some i"
    and "distinct (mkeys (sm_sessions (as_sessions (ap_auth s))))" "sid \<notin> set_cookies resp"
  shows "map_of (sm_sessions (as_sessions (ap_auth s'))) sid = Some e \<longleftrightarrow>
    map_of (sm_sessions (as_sessions (ap_auth s))) sid = Some e \<and> id_Username (se_Identity e) \<noteq> id_Username i"
proof -
  obtain s1 sc where c: "password_changed v r i s1 = (s', Inr sc)" "set_cookies sc = set_cookies resp"
    "rs_status sc = 200" "as_sessions (ap_auth s1) = as_sessions (ap_auth s)"
    using password_reaches_change [OF assms(1-3)] by blast
  let ?old = "map_of (sm_sessions (as_sessions (ap_auth s))) sid"
  have "map_of (sm_sessions (as_sessions (ap_auth s'))) sid =
      map_of (sm_sessions (as_sessions (fst (RevokeSessionsForUser (ev_auth v) (rq_now r) (id_Username i) (ap_auth s1))))) sid"
    using change_replaces_sessions [OF c(1,3)] assms(5) c(2) by simp
  also have "\<dots> = (case ?old of None \<Rightarrow> None | Some x \<Rightarrow> if id_Username (se_Identity x) = id_Username i then None else Some x)"
    using user_sessions_revoked [of "ap_auth s1"] assms(4) c(4) by simp
  finally show ?thesis by (cases ?old) auto
qed

section \<open>Instances\<close>

text \<open>A viewer's session on the engine of the empty database, and requests that carry its cookie.\<close>

definition demo_service :: "engine \<Rightarrow> engine auth_service" where
  "demo_service s = \<lparr>as_store = s, as_sessions = \<lparr>sm_sessions =
       [(''b'', demo_session),
        (''a'', demo_session\<lparr>se_Identity := \<lparr>id_Username = ''alice'', id_Role = ''viewer'', id_AuthType = ''session'', id_TokenID = []\<rparr>\<rparr>)],
       sm_ttl = 9\<rparr>, as_lockouts = newLockoutTracker 2 100, as_authType = ''local'', as_cookieName = ''c''\<rparr>"

definition demo_api :: "engine \<Rightarrow> (engine, 'f) api_state" where
  "demo_api s = \<lparr>ap_auth = demo_service s, ap_runtime = \<lparr>rt_CORSOrigins = [], rt_TrustedProxies = [], rt_RateLimit = 0,
     rt_AuthRateLimit = 0, rt_authEnforced = True, rt_authSecureCookie = True\<rparr>, ap_limits = [], ap_authLimits = [],
     ap_broker = NewBroker 4\<rparr>"

definition demo_request :: http_request where
  "demo_request = \<lparr>rq_Method = ''DELETE'', rq_Path = ''/api/v1/subnets/x'', rq_Host = ''h'', rq_RemoteAddr = ''1.2.3.4:5'',
     rq_TLS = False, rq_Header = (\<lambda>_. []), rq_Cookie = [''c'' \<mapsto> ''b''], rq_Query = (\<lambda>_. []), rq_PathValue = (\<lambda>_. ''x''),
     rq_Body = [], rq_now = 40, rq_random = (\<lambda>_. Inr ''r''), rq_requestID = None, rq_proxyTrusted = None,
     rq_authEnforced = None, rq_identity = Some (se_Identity demo_session)\<rparr>"

lemma demo_request_identity: "resolveIdentity v demo_request (demo_service s) = (demo_service s, Some (se_Identity demo_session))"
proof -
  have "bearer_token demo_request = None" by (simp add: bearer_token_def demo_request_def starts_with_def ToLower_def)
  then show ?thesis
    by (simp add: resolveIdentity_def cookie_identity_def CookieName_def demo_service_def demo_request_def ValidateSession_def
        session_Validate_def demo_session_def with_sessions_def)
qed

theorem rest_changes_need_role_witness:
  "\<forall>v d w. list_all (\<lambda>route. refused (api_env.truncate (v\<lparr>ev_auth := demo_env []\<rparr>)) demo_request (demo_api demo0)
       (Chain route (rest_middleware (api_env.truncate (v\<lparr>ev_auth := demo_env []\<rparr>))) w demo_request (demo_api demo0)))
     [subnet_delete_route (v\<lparr>ev_auth := demo_env []\<rparr>), restore_route d]"
proof (intro allI)
  fix v :: "(engine, 'f) rest_env" and d w
  let ?v = "v\<lparr>ev_auth := demo_env []\<rparr>"
  have r: "refused (api_env.truncate ?v) demo_request (demo_api demo0)
     (Chain route (rest_middleware (api_env.truncate ?v)) w demo_request (demo_api demo0))"
    if role: "(role, route) \<in> set (changing_routes d ?v)" "role \<in> {''operator'', ''admin''}" for role route
  proof -
    have "\<not> HasRole role ''viewer''" using role(2) by (auto simp: HasRole_def sanitizeRole_def role_rank_def)
    then have l: "lacks_role (ev_auth ?v) demo_request (ap_auth (demo_api demo0)) role"
      by (simp add: lacks_role_def demo_api_def demo_request_identity demo_session_def)
    show ?thesis
      by (rule rest_changes_need_role [OF _ _ role(1) l])
        (simp_all add: demo_api_def demo_request_def isPublicAuthPath_def)
  qed
  have "(''operator'', subnet_delete_route ?v) \<in> set (changing_routes d ?v)" "(''admin'', restore_route d) \<in> set (changing_routes d ?v)"
    by (simp_all add: changing_routes_def)
  then show "list_all (\<lambda>route. refused (api_env.truncate ?v) demo_request (demo_api demo0)
       (Chain route (rest_middleware (api_env.truncate ?v)) w demo_request (demo_api demo0)))
     [subnet_delete_route ?v, restore_route d]"
    using r by simp
qed

text \<open>A user whose password is changed, on the engine.\<close>

definition demo_user :: "string \<Rightarrow> time \<Rightarrow> User" where
  "demo_user h t = \<lparr>us_Username = ''bob'', us_Role = ''viewer'', us_PasswordHash = h, us_CreatedAt = 1, us_UpdatedAt = t\<rparr>"

definition demo_users :: "User list" where
  "demo_users = [demo_user ''old'' 1, demo_user ''new'' 40]"

definition demo_env2 :: "engine auth_env" where
  "demo_env2 = (demo_env [])\<lparr>ae_user := table_codec demo_users,
     ae_session := table_codec [\<lparr>se_Identity = se_Identity demo_session, se_ExpiresAt = 49\<rparr>]\<rparr>"

lemma demo_user_put:
  assumes "db_inv s" "x \<in> set demo_users"
  shows "\<exists>s'. put_row engine_db (table_codec demo_users) treeUsers ''bob'' x now s = (s', None) \<and> db_inv s' \<and>
    get_row engine_db (table_codec demo_users) s' treeUsers ''bob'' = Inr x"
proof -
  have f: "row_fits (table_codec demo_users) treeUsers ''bob'' x"
    by (rule demo_put(2) [OF assms]) (simp_all add: demo_users_def wf_name_def)
  obtain s' where s': "put_row engine_db (table_codec demo_users) treeUsers ''bob'' x now s = (s', None)"
    "edb.entry (table_codec demo_users) s' treeUsers = (edb.entry (table_codec demo_users) s treeUsers)(''bob'' \<mapsto> x)"
    using demo_put(1) [OF assms, of "''bob''" treeUsers now] by (auto simp: demo_users_def wf_name_def)
  have "db_inv s'" using put_row_on_engine [OF assms(1) table_codec_ok f s'(1)] by simp
  then show ?thesis using s' by (simp add: edb.get_row_entry)
qed

text \<open>A token of the user asks for the change; the session of \<open>''alice''\<close> is the one that stays.\<close>

definition demo_request2 :: http_request where
  "demo_request2 = demo_request\<lparr>rq_identity := Some \<lparr>id_Username = ''bob'', id_Role = ''viewer'', id_AuthType = ''token'', id_TokenID = ''t''\<rparr>\<rparr>"

definition demo_rest :: "(engine, 'f) rest_env \<Rightarrow> (engine, 'f) rest_env" where
  "demo_rest v = v\<lparr>ev_auth := demo_env2, re_password := \<lambda>_. Some (''old'', ''new''), re_bcrypt := Inr\<rparr>"

lemma demo_names: "normalizeUsername ''bob'' = ''bob''" "sanitizeRole (TrimSpace ''viewer'') = ''viewer''" "TrimSpace ''new'' \<noteq> []"
  "EqualFold ''local'' ''local''"
proof -
  have t: "TrimSpace ''bob'' = ''bob''" "TrimSpace ''viewer'' = ''viewer''" "TrimSpace ''new'' = ''new''"
    by (rule TrimSpace_printable; simp add: printable_def byte_nat_def)+
  then show "normalizeUsername ''bob'' = ''bob''" "sanitizeRole (TrimSpace ''viewer'') = ''viewer''" "TrimSpace ''new'' \<noteq> []"
    "EqualFold ''local'' ''local''"
    by (simp_all add: normalizeUsername_def sanitizeRole_def ToLower_def lower_char_def EqualFold_def)
qed

lemma demo_login:
  assumes "get_row engine_db (table_codec demo_users) s treeUsers ''bob'' = Inr (demo_user ''old'' 1)"
  shows "\<exists>a i. AuthenticateLocal demo_env2 40 ''bob'' ''old'' (demo_service s) = (a, Inr i) \<and> as_store a = s \<and> as_sessions a = as_sessions (demo_service s)"
  using assms
  by (simp add: AuthenticateLocal_def demo_names Let_def demo_service_def lockout_Check_def newLockoutTracker_def GetUser_def
      demo_env2_def demo_env_def demo_user_def)

lemma demo_password:
  assumes "get_row engine_db (table_codec demo_users) s treeUsers ''bob'' = Inr (demo_user ''old'' 1)" "db_inv s"
  shows "\<exists>s'. SetPassword demo_env2 (Inr ''new'') 40 ''bob'' ''new'' s = (s', None)"
proof -
  have "user_row 40 (demo_user ''old'' 1\<lparr>us_PasswordHash := ''new'', us_UpdatedAt := 40\<rparr>) = demo_user ''new'' 40"
    by (simp add: user_row_def demo_user_def demo_names is_zero_time_def)
  then show ?thesis
    using assms(1) demo_user_put [OF assms(2), of "demo_user ''new'' 40" 40]
    by (auto simp: SetPassword_def demo_names Let_def GetUser_def upsertUser_def demo_env2_def demo_env_def demo_users_def
        demo_user_def [of "''new''"])
qed

lemma demo_change:
  "\<exists>s. \<forall>v w. \<exists>s' resp. password_route (demo_rest v) w demo_request2 (demo_api s) = (s', Inr resp) \<and>
     rs_status resp = 200 \<and> set_cookies resp = {}"
proof -
  obtain s where s: "db_inv s" "get_row engine_db (table_codec demo_users) s treeUsers ''bob'' = Inr (demo_user ''old'' 1)"
    using demo_user_put [OF db_inv_demo0, of "demo_user ''old'' 1"] by (auto simp: demo_users_def)
  obtain a i where a: "AuthenticateLocal demo_env2 40 ''bob'' ''old'' (demo_service s) = (a, Inr i)" "as_store a = s"
    using demo_login [OF s(2)] by blast
  obtain s2 where s2: "SetPassword demo_env2 (Inr ''new'') 40 ''bob'' ''new'' s = (s2, None)"
    using demo_password [OF s(2,1)] by blast
  have sup: "SupportsLocalAuth (demo_service s)" by (simp add: SupportsLocalAuth_def demo_service_def demo_names)
  show ?thesis
    by (intro exI [of _ s] allI)
      (simp add: password_route_def requireLocalAuthMode_def demo_request2_def demo_request_def demo_rest_def demo_api_def sup a s2
        with_auth_def password_changed_def Let_def WriteJSON_def set_cookies_def setNoStore_def)
qed

lemma demo_names_differ: "''alice'' \<noteq> ''bob''"
  by simp

text \<open>The session of \<open>''bob''\<close> is gone, that of \<open>''alice''\<close> is as it was.\<close>

theorem password_change_ends_sessions_witness:
  "\<exists>s. \<forall>(v :: (engine, 'f) rest_env) w. \<exists>s' resp. password_route (demo_rest v) w demo_request2 (demo_api s) = (s', Inr resp) \<and>
     map_of (sm_sessions (as_sessions (ap_auth s'))) ''b'' = None \<and>
     (\<exists>e. map_of (sm_sessions (as_sessions (ap_auth s'))) ''a'' = Some e \<and> id_Username (se_Identity e) = ''alice'')"
proof -
  obtain s where run: "\<And>(v :: (engine, 'f) rest_env) w. \<exists>s' resp. password_route (demo_rest v) w demo_request2 (demo_api s) = (s', Inr resp) \<and>
     rs_status resp = 200 \<and> set_cookies resp = {}"
    using demo_change by blast
  show ?thesis
  proof (intro exI [of _ s] allI)
    fix v :: "(engine, 'f) rest_env" and w
    obtain s' resp where r: "password_route (demo_rest v) w demo_request2 (demo_api s) = (s', Inr resp)" "rs_status resp = 200"
      "set_cookies resp = {}"
      using run [of v w] by blast
    let ?old = "map_of (sm_sessions (as_sessions (ap_auth (demo_api s :: (engine, 'f) api_state))))"
      and ?new = "map_of (sm_sessions (as_sessions (ap_auth s')))"
    have "distinct (mkeys (sm_sessions (as_sessions (ap_auth (demo_api s :: (engine, 'f) api_state)))))" by (simp add: demo_api_def demo_service_def)
    then have "?new sid = Some e \<longleftrightarrow> ?old sid = Some e \<and> id_Username (se_Identity e) \<noteq> ''bob''" for sid e
      using password_change_ends_sessions [OF r(1,2)] r(3) by (simp add: demo_request2_def)
    moreover have "?old ''b'' = Some demo_session" "id_Username (se_Identity demo_session) = ''bob''"
      "\<exists>e. ?old ''a'' = Some e \<and> id_Username (se_Identity e) = ''alice''"
      by (simp_all add: demo_api_def demo_service_def demo_session_def)
    ultimately have "?new ''b'' = None \<and> (\<exists>e. ?new ''a'' = Some e \<and> id_Username (se_Identity e) = ''alice'')"
      by (metis option.exhaust option.inject demo_names_differ)
    then show "\<exists>s' resp. password_route (demo_rest v) w demo_request2 (demo_api s) = (s', Inr resp) \<and>
     map_of (sm_sessions (as_sessions (ap_auth s'))) ''b'' = None \<and>
     (\<exists>e. map_of (sm_sessions (as_sessions (ap_auth s'))) ''a'' = Some e \<and> id_Username (se_Identity e) = ''alice'')"
      using r(1) by blast
  qed
qed

end
