(* ===== verification/DiscoveryProps.thy ===== *)
theory DiscoveryProps
  imports Discovery DbDemo Dhcp4Demo
begin

text \<open>
  What a scan keeps of the hosts that the scans before it found, on the storage engine, and what its states of
  hosts mean.
\<close>

section \<open>The hosts of a scan\<close>

lemma ipMatchesSubnets_set: "set c1 = set c2 \<Longrightarrow> ipMatchesSubnets ip subnet c1 = ipMatchesSubnets ip subnet c2"
  by (auto simp: ipMatchesSubnets_def)

text \<open>A scan shows a host: something leases, reserves or lists its address, or it answers a probe.\<close>

definition shown :: "(string \<times> knownHost) list \<Rightarrow> (string \<times> probeOutcome) list \<Rightarrow> string \<Rightarrow> bool" where
  "shown known outcomes ip \<longleftrightarrow> map_of known ip \<noteq> None \<or> (\<exists>x. map_of outcomes ip = Some x \<and> po_alive x)"

lemma seen_host_shown: "seen_host now known outcomes previous ip = Some h \<Longrightarrow> oh_IP h = ip \<and> shown known outcomes ip"
  by (auto simp: seen_host_def shown_def no_outcome_def Let_def split: if_splits option.splits)

lemma current_shown:
  "x \<in> set (List.map_filter (seen_host now known outcomes previous) targets) \<Longrightarrow> shown known outcomes (oh_IP x)"
  by (auto simp: List.map_filter_def dest: seen_host_shown)

lemma missing_host_IP [simp]: "oh_IP (missing_host now (ip, h)) = ip"
  by (simp add: missing_host_def)

text \<open>Every host of the scans before is among those of the scan.\<close>

lemma scan_hosts_previous:
  fixes now targets known outcomes previous
  defines "hosts \<equiv> scan_hosts now targets known outcomes previous"
  assumes "map_of previous ip = Some h" "distinct (mkeys previous)"
  shows "ip \<in> oh_IP ` set hosts" "x \<in> set hosts \<Longrightarrow> oh_IP x = ip \<Longrightarrow> x = missing_host now (ip, h) \<or> shown known outcomes ip"
proof -
  let ?cur = "List.map_filter (seen_host now known outcomes previous) targets"
  have mem: "(ip, h) \<in> set previous" and only: "(ip, g) \<in> set previous \<Longrightarrow> g = h" for g
    using assms(2,3) by (auto dest: map_of_SomeD)
  have set: "set hosts = set ?cur \<union> missing_host now ` {(i, p) \<in> set previous. i \<notin> oh_IP ` set ?cur}"
    by (auto simp: hosts_def scan_hosts_def Let_def)
  show "ip \<in> oh_IP ` set hosts"
  proof (cases "ip \<in> oh_IP ` set ?cur")
    case False
    then have "missing_host now (ip, h) \<in> set hosts" using mem set by blast
    then show ?thesis by (rule rev_image_eqI) simp
  qed (auto simp: set)
  show "x = missing_host now (ip, h) \<or> shown known outcomes ip" if "x \<in> set hosts" "oh_IP x = ip"
    using that only by (auto simp: set dest: current_shown)
qed

lemma map_of_hosts:
  "map_of (fold (\<lambda>h. mput (oh_IP h) h) hs m) ip = map_of m ip \<and> ip \<notin> oh_IP ` set hs \<or>
   (\<exists>x\<in>set hs. oh_IP x = ip \<and> map_of (fold (\<lambda>h. mput (oh_IP h) h) hs m) ip = Some x)"
proof (induction hs arbitrary: m)
  case (Cons a hs)
  show ?case using Cons.IH [of "mput (oh_IP a) a m"] by (cases "oh_IP a = ip") auto
qed simp

section \<open>What is kept\<close>

text \<open>A codec of a Go map: what it reads has each key once, and what it wrote reads back as the same map.\<close>

definition map_codec_ok :: "('k \<times> 'v) list codec \<Rightarrow> bool" where
  "map_codec_ok C \<longleftrightarrow> (\<forall>raw m. c_unmarshal C raw = Some m \<longrightarrow> distinct (mkeys m)) \<and>
     (\<forall>m raw. c_marshal C m = Some raw \<longrightarrow> (\<exists>m'. c_unmarshal C raw = Some m' \<and> map_of m' = map_of m))"

definition discovery_on_engine :: "engine discovery_env \<Rightarrow> bool" where
  "discovery_on_engine v \<longleftrightarrow> dv_db v = engine_db \<and> dv_tx v = eng_Tx \<and> map_codec_ok (dv_hosts v)"

text \<open>The rows of a result are within the limits of the log's format.\<close>

definition scan_fits :: "engine discovery_env \<Rightarrow> engine \<Rightarrow> ScanResult \<Rightarrow> bool" where
  "scan_fits v s r \<longleftrightarrow>
     row_fits (dv_scan v) treeDiscoveryScans (scan_key r) r \<and>
     row_fits (dv_hosts v) treeDiscoveryMeta keyLatestHosts (kept_hosts (loadPreviousHosts v s) r) \<and>
     row_fits (dv_time v) treeDiscoveryMeta keyLastScanAt (sr_CompletedAt r) \<and>
     db_fits treeDiscoveryMeta keyLatestScanID (sr_ScanID r)"

text \<open>A scan of everything, or of subnets that are configured.\<close>

definition scan_scope :: "'s discovery_env \<Rightarrow> 's \<Rightarrow> ScanRequest \<Rightarrow> bool" where
  "scan_scope v s request \<longleftrightarrow>
     (\<forall>c\<in>set (sq_Subnets request). TrimSpace c = c \<and> (\<exists>x\<in>set (resolveTargetSubnets v s (sq_Subnets request)). sn_CIDR x = c))"

lemma load_previous:
  assumes "discovery_on_engine v" "db_inv s"
  shows "distinct (mkeys (loadPreviousHosts v s))"
    "db_view s treeDiscoveryMeta keyLatestHosts = Some raw \<Longrightarrow> c_unmarshal (dv_hosts v) raw = Some m \<Longrightarrow> loadPreviousHosts v s = m"
  using assms by (auto simp: discovery_on_engine_def map_codec_ok_def loadPreviousHosts_def ok_or_def get_row_def edb.db_get
      split: option.splits sum.splits)

lemma persist_keeps:
  assumes "discovery_on_engine v" "db_inv s" "persistResult v now r (s, e) = ((s', e'), err)" "scan_fits v s r"
  shows "map_of (loadPreviousHosts v s') = map_of (loadPreviousHosts v s) \<or>
    map_of (loadPreviousHosts v s') = map_of (kept_hosts (loadPreviousHosts v s) r)"
proof (cases "\<exists>a b c. c_marshal (dv_scan v) r = Some a \<and> c_marshal (dv_hosts v) (kept_hosts (loadPreviousHosts v s) r) = Some b \<and>
    c_marshal (dv_time v) (sr_CompletedAt r) = Some c")
  case False
  then show ?thesis using assms(3) by (auto simp: persistResult_def split: option.splits)
next
  case True
  then obtain a b c where m: "c_marshal (dv_scan v) r = Some a" "c_marshal (dv_hosts v) (kept_hosts (loadPreviousHosts v s) r) = Some b"
    "c_marshal (dv_time v) (sr_CompletedAt r) = Some c" by blast
  let ?fn = "\<lambda>ms. Inr (tx_Put treeDiscoveryMeta keyLastScanAt c (tx_Put treeDiscoveryMeta keyLatestScanID (sr_ScanID r)
      (tx_Put treeDiscoveryMeta keyLatestHosts b (tx_Put treeDiscoveryScans (scan_key r) a ms)))) :: go_error + mutation list"
  have f: "\<forall>m\<in>set (projr (?fn [])). mut_fits m"
    using assms(4) m by (auto simp: tx_Put_def mut_fits_def scan_fits_def row_fits_def db_fits_def Let_def)
  obtain s1 where s1: "eng_Tx ?fn now s = (s1, None)" "db_inv s1" "db_view s1 = fold view_write (projr (?fn [])) (db_view s)"
    using edbt.db_tx [OF assms(2), of ?fn "projr (?fn [])" now] f by auto
  have "s' = s1" using assms(1,3) m s1(1) by (simp add: persistResult_def discovery_on_engine_def)
  moreover have "db_view s1 treeDiscoveryMeta keyLatestHosts = Some b"
    by (simp add: s1(3) tx_Put_def view_write_def)
  moreover obtain m' where "c_unmarshal (dv_hosts v) b = Some m'" "map_of m' = map_of (kept_hosts (loadPreviousHosts v s) r)"
    using assms(1) m(2) unfolding discovery_on_engine_def map_codec_ok_def by blast
  ultimately show ?thesis using load_previous(2) [OF assms(1) s1(2)] by metis
qed

text \<open>What a scan's result keeps of the hosts before it.\<close>

lemma kept_hosts_previous:
  fixes net e t0 now ident g and request :: ScanRequest
  defines "r \<equiv> scan_result net e t0 now ident request g"
  assumes "sg_Previous g = filterObservedHostsForSubnets (map sn_CIDR (sg_Subnets g)) E" "distinct (mkeys E)" "map_of E ip = Some h"
    and "set (sr_Subnets r) = sn_CIDR ` set (sg_Subnets g)"
  shows "\<exists>h'. map_of (kept_hosts E r) ip = Some h' \<and>
    (h' = h \<or> h' = missing_host now (ip, h) \<or> shown (sg_Known g) (probeTargets net (de_options e) (sg_Targets g)) ip)"
proof -
  let ?cidrs = "map sn_CIDR (sg_Subnets g)"
  have same: "ipMatchesSubnets i x (sr_Subnets r) = ipMatchesSubnets i x ?cidrs" for i x
    by (rule ipMatchesSubnets_set) (simp add: assms(5))
  have hosts: "sr_Hosts r = scan_hosts now (sg_Targets g) (sg_Known g) (probeTargets net (de_options e) (sg_Targets g)) (sg_Previous g)"
    by (simp add: r_def scan_result_def Let_def)
  have dp: "distinct (mkeys (sg_Previous g))"
    using assms(2,3) by (auto simp: filterObservedHostsForSubnets_def distinct_map_filter)
  note kept = map_of_hosts [of "sr_Hosts r" "if sr_Subnets r \<noteq> [] then filter (\<lambda>(ip, h). \<not> ipMatchesSubnets ip (oh_Subnet h) (sr_Subnets r)) E else []" ip]
  show ?thesis
  proof (cases "ipMatchesSubnets ip (oh_Subnet h) ?cidrs")
    case True
    have "(ip, h) \<in> set (sg_Previous g)"
      using assms(2,4) True by (auto simp: filterObservedHostsForSubnets_def dest: map_of_SomeD)
    then have p: "map_of (sg_Previous g) ip = Some h" using dp by simp
    show ?thesis
      using kept scan_hosts_previous [OF p dp, where now = now and targets = "sg_Targets g" and known = "sg_Known g"
          and outcomes = "probeTargets net (de_options e) (sg_Targets g)"]
      unfolding kept_hosts_def hosts [symmetric] by fastforce
  next
    case False
    then have ne: "sr_Subnets r \<noteq> []" using assms(5) by (auto simp: ipMatchesSubnets_def)
    have "(ip, h) \<in> set (filter (\<lambda>(ip, h). \<not> ipMatchesSubnets ip (oh_Subnet h) (sr_Subnets r)) E)"
      using assms(4) False same by (auto dest: map_of_SomeD)
    then have m: "map_of (filter (\<lambda>(ip, h). \<not> ipMatchesSubnets ip (oh_Subnet h) (sr_Subnets r)) E) ip = Some h"
      using assms(3) by (simp add: distinct_map_filter)
    have np: "(ip, p) \<notin> set (sg_Previous g)" for p
    proof
      assume n: "(ip, p) \<in> set (sg_Previous g)"
      have "?cidrs \<noteq> []" using False by (auto simp: ipMatchesSubnets_def)
      then have "(ip, p) \<in> set E" "ipMatchesSubnets ip (oh_Subnet p) ?cidrs"
        using n assms(2) by (auto simp: filterObservedHostsForSubnets_def)
      then show False using False assms(3,4) by simp
    qed
    have "x \<in> set (sr_Hosts r) \<Longrightarrow> oh_IP x = ip \<Longrightarrow>
        shown (sg_Known g) (probeTargets net (de_options e) (sg_Targets g)) ip" for x
      using np by (auto simp: hosts scan_hosts_def Let_def dest: current_shown)
    then show ?thesis using kept ne m unfolding kept_hosts_def by auto
  qed
qed

lemma runScan_result:
  assumes "runScan v net started finished scanID request (s, e) = ((s', e'), r)"
  obtains e3 e4 e5 err where "r = scan_result net e3 started finished scanID request (collect_scan v net (de_options e) request s)"
    "persistResult v finished r (s, e4) = ((s', e5), err)" "de_options e3 = de_options e"
proof -
  have opts: "de_options (updateProgress t f x) = de_options x" for t f x by (simp add: updateProgress_def)
  have optf: "de_options (fold (\<lambda>_. updateProgress t f) xs x) = de_options x" for t f xs x
    by (induction xs arbitrary: x) (auto simp: opts)
  show ?thesis using that assms by (auto simp: runScan_def Let_def opts optf split: prod.splits)
qed

text \<open>C29: Scans forget no host: on the storage engine, when a scan of everything (or of configured subnets)
  ends, a host that was recorded before it is still recorded. It is as it was (outside the scan's subnets,
  or the result could not be stored), it is marked missing with its address, MAC and names unchanged, or the scan shows it again,
  because its address is leased, reserved or in the neighbour table, or because it answers a probe.\<close>

theorem scan_forgets_no_host:
  assumes "discovery_on_engine v" "db_inv s" "scan_scope v s request"
    and "runScan v net started finished scanID request (s, e) = ((s', e'), r)" "scan_fits v s r"
    and "map_of (loadPreviousHosts v s) ip = Some h"
  shows "\<exists>h'. map_of (loadPreviousHosts v s') ip = Some h' \<and>
    (h' = h \<or> h' = h\<lparr>oh_IP := ip, oh_State := ''missing'', oh_SeenAt := finished\<rparr> \<or>
     (let g = collect_scan v net (de_options e) request s
      in shown (sg_Known g) (probeTargets net (de_options e) (sg_Targets g)) ip))"
proof -
  let ?g = "collect_scan v net (de_options e) request s"
  obtain e3 e4 e5 err where run: "r = scan_result net e3 started finished scanID request ?g"
    "persistResult v finished r (s, e4) = ((s', e5), err)" "de_options e3 = de_options e"
    using runScan_result [OF assms(4)] by metis
  have subs: "set (sr_Subnets r) = sn_CIDR ` set (sg_Subnets ?g)"
  proof (cases "sq_Subnets request = []")
    case False
    have trim: "set (map TrimSpace (sq_Subnets request)) = set (sq_Subnets request)"
      using assms(3) by (auto simp: scan_scope_def image_iff)
    have "sn_CIDR x \<in> set (sq_Subnets request)" if "x \<in> set (resolveTargetSubnets v s (sq_Subnets request))" for x
      using that False trim by (auto simp: resolveTargetSubnets_def simp del: set_map split: sum.splits)
    then show ?thesis using assms(3) False by (auto simp: run(1) scan_result_def Let_def scan_scope_def collect_scan_def)
  qed (simp add: run(1) scan_result_def Let_def)
  have prev: "sg_Previous ?g = filterObservedHostsForSubnets (map sn_CIDR (sg_Subnets ?g)) (loadPreviousHosts v s)"
    by (simp add: collect_scan_def Let_def)
  note k = kept_hosts_previous [OF prev load_previous(1) [OF assms(1,2)] assms(6), of net e3 started finished scanID request,
      folded run(1), OF subs]
  show ?thesis
    using persist_keeps [OF assms(1,2) run(2) assms(5)] k assms(6) run(3) by (auto simp: missing_host_def)
qed

text \<open>A scan calls the holder of a leased, reserved or listed address missing only on the word of the name
  service: such a host keeps its MAC, does not answer, and has a name in the reverse look-up. Without that name it is
  known, whether or not it answers, so that scans by ping or TCP alone never report it missing.\<close>

theorem known_host_missing_iff:
  assumes "map_of known ip = Some base" "ip \<in> set targets" "hasActiveProbe (dc_Methods opt) \<or> containsMethod (dc_Methods opt) ''dns''"
    and "seen_host now known (probeTargets net opt targets) previous ip = Some h"
  shows "oh_State h = ''missing'' \<longleftrightarrow>
    oh_State h \<noteq> ''changed'' \<and>
    \<not> (containsMethod (dc_Methods opt) ''ping'' \<and> pb_ping net ip (dc_ProbeTimeout opt)) \<and>
    \<not> (containsMethod (dc_Methods opt) ''tcp'' \<and> (\<exists>port\<in>set (dc_TCPPorts opt). pb_tcp net ip port (dc_ProbeTimeout opt))) \<and>
    containsMethod (dc_Methods opt) ''dns'' \<and> (\<exists>n ns. pb_names net ip = Some (n # ns))"
proof -
  have "map_of (probeTargets net opt targets) ip = Some (probeIP net opt ip)"
    using assms(2,3) by (auto simp: probeTargets_def map_of_map_restrict)
  then have h: "oh_State h = deriveState ip True base (probeIP net opt ip) previous"
    using assms(1,4) by (auto simp: seen_host_def lookup_host_def Let_def)
  show ?thesis
    unfolding h by (auto simp: deriveState_def probeIP_def no_outcome_def tcpReachable_def Let_def split: option.splits list.splits)
qed

section \<open>Instances\<close>

definition demo_host :: ObservedHost where
  "demo_host = \<lparr>oh_IP = ''10.0.0.9'', oh_MAC = [], oh_Vendor = [], oh_Hostname = ''h'', oh_Subnet = [], oh_State = ''new'', oh_SeenAt = 5\<rparr>"

definition demo_missing :: ObservedHost where
  "demo_missing = demo_host\<lparr>oh_State := ''missing'', oh_SeenAt := 62135596800001000000\<rparr>"

definition demo_scan :: ScanResult where
  "demo_scan = \<lparr>sr_ScanID = ''b'', sr_Status = ''completed'', sr_Reason = ''manual'', sr_Subnets = [], sr_StartedAt = 62135596800000000000,
     sr_CompletedAt = 62135596800001000000, sr_DurationMS = 1, sr_TotalHosts = 1, sr_NewHosts = 0, sr_KnownHosts = 0, sr_MissingHosts = 1,
     sr_ChangedHosts = 0, sr_Conflicts = [], sr_RogueServers = [], sr_Hosts = [demo_missing]\<rparr>"

definition demo_subnets :: "engine ipam_engine" where
  "demo_subnets = \<lparr>ie_db = engine_db, ie_leases = None, ie_subnet = table_codec [], ie_reservation = table_codec [], ie_address = table_codec []\<rparr>"

definition demo_discovery :: "engine discovery_env" where
  "demo_discovery = \<lparr>dv_db = engine_db, dv_tx = eng_Tx, dv_leases = (engine_store run_json)\<lparr>op_ListAll := \<lambda>_. Inr []\<rparr>,
     dv_ipam = demo_subnets, dv_scan = table_codec [demo_scan],
     dv_hosts = table_codec [[(''10.0.0.9'', demo_host)], [(''10.0.0.9'', demo_missing)]],
     dv_rogue = table_codec [], dv_time = table_codec [62135596800001000000], dv_scanID = (\<lambda>_. ''b''), dv_percent = (\<lambda>a b. a * 80 div b)\<rparr>"

definition demo_net :: probes where
  "demo_net = \<lparr>pb_ping = (\<lambda>_ _. False), pb_tcp = (\<lambda>_ _ _. False), pb_names = (\<lambda>_. Some [''a.'']), pb_arp = []\<rparr>"

definition demo_request_all :: ScanRequest where
  "demo_request_all = \<lparr>sq_Reason = [], sq_Subnets = []\<rparr>"

definition demo_dengine :: discovery_engine where
  "demo_dengine = \<lparr>de_interval = 1, de_options = NormalizeOptions \<lparr>dc_Methods = [''tcp''], dc_TCPPorts = [], dc_ProbeTimeout = 0,
     dc_MaxTargetsPerSubnet = 0, dc_MaxConcurrency = 0\<rparr>, de_scanning = True, de_lastScanAt = 0, de_nextScanAt = 0,
     de_latestID = [], de_latestRogue = [], de_progress = idle_progress\<rparr>"

lemma demo_discovery_fields:
  "dv_db demo_discovery = engine_db" "dv_ipam demo_discovery = demo_subnets"
  "op_ListAll (dv_leases demo_discovery) s = Inr []" "dv_scan demo_discovery = table_codec [demo_scan]"
  "dv_hosts demo_discovery = table_codec [[(''10.0.0.9'', demo_host)], [(''10.0.0.9'', demo_missing)]]"
  "dv_time demo_discovery = table_codec [62135596800001000000]"
  by (simp_all add: demo_discovery_def)

lemma demo_row_fits:
  assumes "length xs < 100" "length k < 100" "wf_name t" "length t < 100"
  shows "row_fits (table_codec xs) t k x"
proof (cases "c_marshal (table_codec xs) x")
  case (Some raw)
  then have "length raw < length xs" by (auto simp: table_codec_def find_Some_iff)
  then show ?thesis using Some demo_fits assms by (simp add: row_fits_def)
qed (simp add: row_fits_def)

lemma demo_discovery_ok: "discovery_on_engine demo_discovery"
  using table_codec_ok [of "[[(''10.0.0.9'', demo_host)], [(''10.0.0.9'', demo_missing)]]"]
  by (auto simp: discovery_on_engine_def demo_discovery_def map_codec_ok_def codec_ok_def table_codec_def less_Suc_eq split: if_splits)

lemma demo_options:
  "de_options demo_dengine = \<lparr>dc_Methods = [''tcp''], dc_TCPPorts = [22, 80, 443], dc_ProbeTimeout = 900000000,
     dc_MaxTargetsPerSubnet = 32, dc_MaxConcurrency = 12\<rparr>"
  by code_simp

lemma demo_methods:
  "containsMethod [''tcp''] ''tcp''" "\<not> containsMethod [''tcp''] ''ping''" "\<not> containsMethod [''tcp''] ''dns''"
  "\<not> containsMethod [''tcp''] ''arp''" "normalizeReason [] = ''manual''"
  by code_simp+

text \<open>The store of a scan that found one host.\<close>

lemma demo_found:
  "\<exists>s. db_inv s \<and> loadPreviousHosts demo_discovery s = [(''10.0.0.9'', demo_host)] \<and>
    (\<forall>t. t \<noteq> treeDiscoveryMeta \<longrightarrow> db_view s t = Map.empty)"
proof -
  let ?C = "[[(''10.0.0.9'', demo_host)], [(''10.0.0.9'', demo_missing)]]"
  note p = demo_put [OF db_inv_demo0, of "[(''10.0.0.9'', demo_host)]" ?C keyLatestHosts treeDiscoveryMeta]
  obtain s where s: "put_row engine_db (table_codec ?C) treeDiscoveryMeta keyLatestHosts [(''10.0.0.9'', demo_host)] 5 demo0 = (s, None)"
    "edb.entry (table_codec ?C) s treeDiscoveryMeta = (edb.entry (table_codec ?C) demo0 treeDiscoveryMeta)(keyLatestHosts \<mapsto> [(''10.0.0.9'', demo_host)])"
    "\<forall>t'. t' \<noteq> treeDiscoveryMeta \<longrightarrow> db_view s t' = db_view demo0 t'"
    using p(1) [of 5] by (auto simp: wf_name_def)
  have i: "db_inv s"
    using put_row_on_engine [OF db_inv_demo0 table_codec_ok p(2) s(1)] by (simp add: wf_name_def)
  have "get_row engine_db (table_codec ?C) s treeDiscoveryMeta keyLatestHosts = Inr [(''10.0.0.9'', demo_host)]"
    by (simp add: edb.get_row_entry [OF i] s(2))
  then show ?thesis using i s(3) by (auto simp: loadPreviousHosts_def demo_discovery_def ok_or_def db_view_demo0)
qed

lemma demo_collect:
  assumes "db_inv s" "loadPreviousHosts demo_discovery s = [(''10.0.0.9'', demo_host)]"
    "\<forall>t. t \<noteq> treeDiscoveryMeta \<longrightarrow> db_view s t = Map.empty"
  shows "collect_scan demo_discovery demo_net (de_options demo_dengine) demo_request_all s =
    \<lparr>sg_Subnets = [], sg_Known = [], sg_Conflicts = [], sg_Previous = [(''10.0.0.9'', demo_host)], sg_Targets = [''10.0.0.9'']\<rparr>"
proof -
  have l: "ListSubnets demo_subnets s = Inr []" "ListReservations demo_subnets s = Inr []"
    using edb.list_rows_entries [OF assms(1), of "ie_subnet demo_subnets" treeSubnets]
      edb.list_rows_entries [OF assms(1), of "ie_reservation demo_subnets" treeReservations] assms(3)
    by (auto simp: ListSubnets_def ListReservations_def demo_subnets_def edb.entry_def sort_by_def)
  show ?thesis
    using l by (simp add: collect_scan_def assms(2) resolveTargetSubnets_def demo_request_all_def demo_options demo_methods
        demo_discovery_fields ok_or_def collectKnownHosts_def collectConflictMap_def filterObservedHostsForSubnets_def
        filterKnownHostsForSubnets_def filterConflictMapForSubnets_def buildTargets_def subnet_targets_def sort_by_def Let_def)
qed

theorem scan_forgets_no_host_witness:
  "\<exists>s s' e' r h'. db_inv s \<and> runScan demo_discovery demo_net 62135596800000000000 62135596800001000000 ''b'' demo_request_all (s, demo_dengine) = ((s', e'), r) \<and>
    map_of (loadPreviousHosts demo_discovery s) ''10.0.0.9'' = Some demo_host \<and>
    map_of (loadPreviousHosts demo_discovery s') ''10.0.0.9'' = Some h' \<and> (h' = demo_host \<or> h' = demo_missing)"
proof -
  obtain s where s: "db_inv s" "loadPreviousHosts demo_discovery s = [(''10.0.0.9'', demo_host)]"
    "\<forall>t. t \<noteq> treeDiscoveryMeta \<longrightarrow> db_view s t = Map.empty"
    using demo_found by blast
  note g = demo_collect [OF s]
  obtain s' e' r where run: "runScan demo_discovery demo_net 62135596800000000000 62135596800001000000 ''b'' demo_request_all (s, demo_dengine) = ((s', e'), r)"
    by (metis surj_pair)
  have hosts: "probeTargets demo_net (de_options demo_dengine) [''10.0.0.9''] = [(''10.0.0.9'', no_outcome)]"
    by (simp add: probeTargets_def probeIP_def demo_options demo_methods demo_net_def hasActiveProbe_def no_outcome_def tcpReachable_def)
  have r: "sr_Hosts r = [demo_missing]" "sr_StartedAt r = 62135596800000000000" "sr_CompletedAt r = 62135596800001000000" "sr_ScanID r = ''b''" "sr_Subnets r = []"
  proof -
    obtain e3 where e3: "r = scan_result demo_net e3 62135596800000000000 62135596800001000000 ''b'' demo_request_all
        \<lparr>sg_Subnets = [], sg_Known = [], sg_Conflicts = [], sg_Previous = [(''10.0.0.9'', demo_host)], sg_Targets = [''10.0.0.9'']\<rparr>"
      "de_options e3 = de_options demo_dengine"
      using runScan_result [OF run, unfolded g] by blast
    have h: "scan_hosts 62135596800001000000 [''10.0.0.9''] [] [(''10.0.0.9'', no_outcome)] [(''10.0.0.9'', demo_host)] = [demo_missing]"
      by (simp add: scan_hosts_def seen_host_def lookup_host_def List.map_filter_def no_outcome_def missing_host_def
          demo_missing_def demo_host_def sort_by_def)
    show "sr_Hosts r = [demo_missing]" "sr_StartedAt r = 62135596800000000000" "sr_CompletedAt r = 62135596800001000000" "sr_ScanID r = ''b''" "sr_Subnets r = []"
      by (simp_all add: e3(1) scan_result_def e3(2) hosts h demo_request_all_def Let_def)
  qed
  have kept: "kept_hosts (loadPreviousHosts demo_discovery s) r = [(''10.0.0.9'', demo_missing)]"
    by (simp add: kept_hosts_def r demo_missing_def demo_host_def)
  have key: "length (scan_key r) < 100" by (simp add: scan_key_def r time_unixnano_def pad_dec_def unix_epoch_s_def second_ns_def i64_def dec.simps [of 0] Let_def)
  have fits: "scan_fits demo_discovery s r"
    unfolding scan_fits_def demo_discovery_fields kept r
    by (intro conjI demo_row_fits demo_fits) (use key in \<open>simp_all add: wf_name_def\<close>)
  have sc: "scan_scope demo_discovery s demo_request_all" by (simp add: scan_scope_def demo_request_all_def)
  show ?thesis
    using scan_forgets_no_host [OF demo_discovery_ok s(1) sc run fits, of "''10.0.0.9''" demo_host] run s
    by (auto simp: g hosts shown_def no_outcome_def demo_missing_def demo_host_def Let_def)
qed

theorem known_host_missing_iff_witness:
  "\<exists>h. seen_host 9 [(''10.0.0.9'', no_host)] (probeTargets demo_net \<lparr>dc_Methods = [''dns''], dc_TCPPorts = [], dc_ProbeTimeout = 1,
      dc_MaxTargetsPerSubnet = 1, dc_MaxConcurrency = 1\<rparr> [''10.0.0.9'']) [] ''10.0.0.9'' = Some h \<and> oh_State h = ''missing''"
proof -
  let ?opt = "\<lparr>dc_Methods = [''dns''], dc_TCPPorts = [], dc_ProbeTimeout = 1, dc_MaxTargetsPerSubnet = 1, dc_MaxConcurrency = 1\<rparr>"
  have m: "containsMethod [''dns''] ''dns''" "\<not> containsMethod [''dns''] ''tcp''" "\<not> containsMethod [''dns''] ''ping''"
    by code_simp+
  obtain h where h: "seen_host 9 [(''10.0.0.9'', no_host)] (probeTargets demo_net ?opt [''10.0.0.9'']) [] ''10.0.0.9'' = Some h"
    "oh_State h \<noteq> ''changed''"
    by (auto simp: seen_host_def deriveState_def Let_def)
  show ?thesis
    using known_host_missing_iff [OF _ _ _ h(1)] h m by (simp add: demo_net_def)
qed

end
