(* ===== verification/Proto.thy ===== *)
theory Proto
  imports GoStrings
begin

text \<open>
  \<^verbatim>\<open>src/internal/api/grpc/proto.go\<close> and the frames of \<^verbatim>\<open>server.go\<close>: the wire format of the messages of the gRPC
  interface, with the \<^verbatim>\<open>Uvarint\<close> functions of Go's \<^verbatim>\<open>encoding/binary\<close> that it uses. A \<^verbatim>\<open>uint64\<close> is a natural
  number below \<open>2 ^ 64\<close>.
\<close>

section \<open>Variable-length integers\<close>

fun uvarint :: "nat \<Rightarrow> bytes" where
  "uvarint n = (if n < 128 then [nat_byte n] else nat_byte (n mod 128 + 128) # uvarint (n div 128))"

declare uvarint.simps [simp del]

definition AppendUvarint :: "bytes \<Rightarrow> nat \<Rightarrow> bytes" where
  "AppendUvarint dst n = dst @ uvarint n"

text \<open>The zig-zag form of a signed integer.\<close>

definition AppendVarint :: "bytes \<Rightarrow> int \<Rightarrow> bytes" where
  "AppendVarint dst x = AppendUvarint dst (nat (if x < 0 then - 2 * x - 1 else 2 * x))"

fun uvarint_from :: "nat \<Rightarrow> nat \<Rightarrow> bytes \<Rightarrow> (nat \<times> bytes) option" where
  "uvarint_from i x [] = None"
| "uvarint_from i x (b # bs) =
     (if i = 10 then None
      else if byte_nat b < 128 then (if i = 9 \<and> byte_nat b > 1 then None else Some (x + byte_nat b * 2 ^ (7 * i), bs))
      else uvarint_from (i + 1) (x + (byte_nat b - 128) * 2 ^ (7 * i)) bs)"

text \<open>The value and the bytes after it; \<open>None\<close> where Go returns a count that is not positive.\<close>

definition Uvarint :: "bytes \<Rightarrow> (nat \<times> bytes) option" where
  "Uvarint data = uvarint_from 0 0 data"

section \<open>proto.go\<close>

abbreviation wireVarint :: nat where "wireVarint \<equiv> 0"
abbreviation wireBytes :: nat where "wireBytes \<equiv> 2"

definition appendTag :: "bytes \<Rightarrow> nat \<Rightarrow> nat \<Rightarrow> bytes" where
  "appendTag dst field wireType =
     (if field \<le> 0 \<or> wireType > 7 \<or> field > 2 ^ 32 - 1 then dst else AppendUvarint dst (field * 8 + wireType))"

definition appendBool :: "bytes \<Rightarrow> nat \<Rightarrow> bool \<Rightarrow> bytes" where
  "appendBool dst field v = (if \<not> v then dst else AppendUvarint (appendTag dst field wireVarint) 1)"

definition appendInt64 :: "bytes \<Rightarrow> nat \<Rightarrow> int \<Rightarrow> bytes" where
  "appendInt64 dst field v =
     (if v = 0 then dst
      else
        (let dst1 = appendTag dst field wireVarint
         in if v < 0 then AppendVarint dst1 v else AppendUvarint dst1 (nat v)))"

definition appendBytes :: "bytes \<Rightarrow> nat \<Rightarrow> bytes \<Rightarrow> bytes" where
  "appendBytes dst field v =
     (if v = [] then dst else AppendUvarint (appendTag dst field wireBytes) (length v) @ v)"

definition appendString :: "bytes \<Rightarrow> nat \<Rightarrow> string \<Rightarrow> bytes" where
  "appendString dst field v = (if v = [] then dst else appendBytes dst field v)"

definition appendStrings :: "bytes \<Rightarrow> nat \<Rightarrow> string list \<Rightarrow> bytes" where
  "appendStrings dst field vs = fold (\<lambda>v d. appendString d field v) vs dst"

text \<open>The body is what the message's \<^verbatim>\<open>marshalProto\<close> returns.\<close>

definition appendMessage :: "bytes \<Rightarrow> nat \<Rightarrow> bytes \<Rightarrow> bytes" where
  "appendMessage dst field body = AppendUvarint (appendTag dst field wireBytes) (length body) @ body"

definition protoUint64ToInt :: "nat \<Rightarrow> nat option" where
  "protoUint64ToInt v = (if v > 2 ^ 63 - 1 then None else Some v)"

definition parseBool :: "nat \<Rightarrow> bool" where
  "parseBool v \<longleftrightarrow> v \<noteq> 0"

lemma uvarint_from_shorter: "uvarint_from i x data = Some (v, rest) \<Longrightarrow> length rest < length data"
  by (induction i x data rule: uvarint_from.induct) (auto split: if_splits)

lemma Uvarint_shorter: "Uvarint data = Some (v, rest) \<Longrightarrow> length rest < length data"
  by (auto simp: Uvarint_def dest: uvarint_from_shorter)

text \<open>The callback gets the field, its wire type, the bytes and the integer, and what it has read so far.\<close>

function readProtoFields ::
  "(nat \<Rightarrow> nat \<Rightarrow> bytes \<Rightarrow> nat \<Rightarrow> 'm \<Rightarrow> go_error + 'm) \<Rightarrow> bytes \<Rightarrow> 'm \<Rightarrow> go_error + 'm" where
  "readProtoFields fn data m =
     (if data = [] then Inr m
      else
        (case Uvarint data of
           None \<Rightarrow> Inl (ErrMsg ''invalid protobuf tag'')
         | Some (tag, data1) \<Rightarrow>
        (case protoUint64ToInt (tag div 8) of
           None \<Rightarrow> Inl (ErrMsg ''protobuf field number out of range'')
         | Some field \<Rightarrow>
             (let wireType = tag mod 8 in
              if wireType = wireVarint then
                (case Uvarint data1 of
                   None \<Rightarrow> Inl (ErrMsg ''invalid protobuf varint'')
                 | Some (v, data2) \<Rightarrow>
                     (case fn field wireType [] v m of Inl err \<Rightarrow> Inl err | Inr m' \<Rightarrow> readProtoFields fn data2 m'))
              else if wireType = wireBytes then
                (case Uvarint data1 of
                   None \<Rightarrow> Inl (ErrMsg ''invalid protobuf length'')
                 | Some (n, data2) \<Rightarrow>
                     (if length data2 < n then Inl (ErrMsg ''protobuf field truncated'')
                      else
                        (case fn field wireType (take n data2) 0 m of
                           Inl err \<Rightarrow> Inl err
                         | Inr m' \<Rightarrow> readProtoFields fn (drop n data2) m')))
              else Inl (ErrMsg ''unsupported protobuf wire type'')))))"
  by pat_completeness auto
termination
  by (relation "measure (\<lambda>(fn, data, m). length data)") (auto dest!: Uvarint_shorter)

declare readProtoFields.simps [simp del]

section \<open>Frames\<close>

definition lenToUint32 :: "nat \<Rightarrow> go_error + u32" where
  "lenToUint32 n = (if n > 2 ^ 32 - 1 then Inl (ErrMsg ''grpc payload too large'') else Inr (of_nat n))"

definition encodeGRPCFrame :: "bytes \<Rightarrow> go_error + bytes" where
  "encodeGRPCFrame payload = rbind (lenToUint32 (length payload)) (\<lambda>n. Inr (CHR 0x00 # be 4 (unat n) @ payload))"

definition decodeGRPCFrame :: "bytes \<Rightarrow> go_error + bytes" where
  "decodeGRPCFrame data =
     (if length data < 5 then Inl (ErrMsg ''grpc frame too short'')
      else if hd data \<noteq> CHR 0x00 then Inl (ErrMsg ''compressed grpc frames are not supported'')
      else
        (let n = be_nat (take 4 (drop 1 data)); payload = drop 5 data in
         if length payload > 2 ^ 32 - 1 then Inl (ErrMsg ''grpc frame payload too large'')
         else if length payload \<noteq> n then Inl (ErrMsg ''grpc frame length mismatch'')
         else Inr payload))"

section \<open>What is written is read back\<close>

lemma byte_nat_nat_byte: "n < 256 \<Longrightarrow> byte_nat (nat_byte n) = n"
  by (simp add: byte_nat_def nat_byte_def)

lemma uvarint_from_uvarint:
  "i \<le> 9 \<Longrightarrow> n < 2 ^ (64 - 7 * i) \<Longrightarrow> uvarint_from i x (uvarint n @ rest) = Some (x + n * 2 ^ (7 * i), rest)"
proof (induction n arbitrary: i x rule: uvarint.induct)
  case (1 n)
  show ?case
  proof (cases "n < 128")
    case True
    have "i = 9 \<longrightarrow> n < 2" using "1.prems" by auto
    then show ?thesis using True "1.prems"(1) by (subst uvarint.simps) (auto simp: byte_nat_nat_byte)
  next
    case False
    have i: "i \<le> 8"
    proof (rule ccontr)
      assume "\<not> i \<le> 8"
      then have "i = 9" using "1.prems"(1) by simp
      then have "n < 2" using "1.prems"(2) by simp
      then show False using False by simp
    qed
    have "(2 :: nat) ^ (64 - 7 * i) = 128 * 2 ^ (64 - 7 * (i + 1))"
    proof -
      have e: "64 - 7 * i = 7 + (64 - 7 * (i + 1))" using i by simp
      show ?thesis by (subst e, subst power_add) simp
    qed
    then have d: "n div 128 < 2 ^ (64 - 7 * (i + 1))" using "1.prems"(2) by (simp add: less_mult_imp_div_less mult.commute)
    have b: "byte_nat (nat_byte (n mod 128 + 128)) = n mod 128 + 128" by (rule byte_nat_nat_byte) simp
    have e: "n mod 128 * 2 ^ (7 * i) + n div 128 * 2 ^ (7 * (i + 1)) = n * 2 ^ (7 * i)"
    proof -
      have g: "a * p + b * (128 * p) = (b * 128 + a) * p" for a b p :: nat by (simp add: distrib_right)
      have w: "(2 :: nat) ^ (7 * (i + 1)) = 128 * 2 ^ (7 * i)" by (simp add: power_add)
      show ?thesis unfolding w g by (simp only: div_mult_mod_eq)
    qed
    have "uvarint_from (i + 1) (x + n mod 128 * 2 ^ (7 * i)) (uvarint (n div 128) @ rest) = Some (x + n * 2 ^ (7 * i), rest)"
      using "1.IH" [OF False _ d, of "x + n mod 128 * 2 ^ (7 * i)"] i by (simp only: add.assoc e)
    then show ?thesis using i False by (subst uvarint.simps) (simp add: b)
  qed
qed

lemma Uvarint_uvarint [simp]: "n < 2 ^ 64 \<Longrightarrow> Uvarint (uvarint n @ rest) = Some (n, rest)"
  unfolding Uvarint_def using uvarint_from_uvarint [of 0 n 0 rest] by simp

lemma uvarint_not_Nil [simp]: "uvarint n \<noteq> []"
  by (subst uvarint.simps) simp

text \<open>The pieces that the append functions add.\<close>

definition int_field :: "nat \<Rightarrow> nat \<Rightarrow> bytes" where
  "int_field f v = uvarint (f * 8 + wireVarint) @ uvarint v"

definition bytes_field :: "nat \<Rightarrow> bytes \<Rightarrow> bytes" where
  "bytes_field f v = uvarint (f * 8 + wireBytes) @ uvarint (length v) @ v"

definition good_field :: "nat \<Rightarrow> bool" where
  "good_field f \<longleftrightarrow> 0 < f \<and> f < 2 ^ 32"

text \<open>A field that is left out when it is empty or zero.\<close>

definition maybe_bytes :: "nat \<Rightarrow> bytes \<Rightarrow> bytes" where
  "maybe_bytes f w = (if w = [] then [] else bytes_field f w)"

definition maybe_int :: "nat \<Rightarrow> nat \<Rightarrow> bytes" where
  "maybe_int f v = (if v = 0 then [] else int_field f v)"

definition wire_int :: "int \<Rightarrow> nat" where
  "wire_int v = nat (if v < 0 then - 2 * v - 1 else v)"

lemma append_fields:
  assumes "good_field f"
  shows "appendBool dst f b = dst @ maybe_int f (if b then 1 else 0)"
    "appendInt64 dst f v = dst @ maybe_int f (wire_int v)"
    "appendBytes dst f w = dst @ maybe_bytes f w"
    "appendString dst f s = dst @ maybe_bytes f s"
    "appendMessage dst f w = dst @ bytes_field f w"
  using assms by (auto simp: good_field_def appendBool_def appendInt64_def appendString_def appendBytes_def appendMessage_def
      appendTag_def AppendUvarint_def AppendVarint_def int_field_def bytes_field_def maybe_int_def maybe_bytes_def wire_int_def Let_def)

definition strings_field :: "nat \<Rightarrow> string list \<Rightarrow> bytes" where
  "strings_field f vs = concat (map (bytes_field f) (filter (\<lambda>v. v \<noteq> []) vs))"

lemma append_strings_field: "good_field f \<Longrightarrow> appendStrings dst f vs = dst @ strings_field f vs"
  by (induction vs arbitrary: dst) (auto simp: appendStrings_def append_fields strings_field_def maybe_bytes_def)

lemma tag_div: "Suc (Suc (f * 8)) div 8 = f" "Suc (Suc (f * 8)) mod 8 = 2"
  by presburger+

lemma read_int_field:
  "good_field f \<Longrightarrow> v < 2 ^ 64 \<Longrightarrow>
   readProtoFields fn (int_field f v @ rest) m =
     (case fn f wireVarint [] v m of Inl err \<Rightarrow> Inl err | Inr m' \<Rightarrow> readProtoFields fn rest m')"
  by (subst readProtoFields.simps) (simp add: int_field_def good_field_def protoUint64ToInt_def)

lemma read_bytes_field:
  "good_field f \<Longrightarrow> length w < 2 ^ 64 \<Longrightarrow>
   readProtoFields fn (bytes_field f w @ rest) m =
     (case fn f wireBytes w 0 m of Inl err \<Rightarrow> Inl err | Inr m' \<Rightarrow> readProtoFields fn rest m')"
  by (subst readProtoFields.simps, cases "fn f wireBytes w 0 m")
    (simp_all add: bytes_field_def good_field_def protoUint64ToInt_def tag_div)

lemma read_end: "readProtoFields fn [] m = Inr m"
  by (subst readProtoFields.simps) simp

lemma read_maybe_bytes:
  assumes "good_field f" "length w < 2 ^ 64" "fn f wireBytes w 0 m = Inr m'" "w = [] \<Longrightarrow> m' = m"
  shows "readProtoFields fn (maybe_bytes f w @ rest) m = readProtoFields fn rest m'"
  using assms by (auto simp: read_bytes_field maybe_bytes_def)

lemma read_maybe_int:
  assumes "good_field f" "v < 2 ^ 64" "fn f wireVarint [] v m = Inr m'" "v = 0 \<Longrightarrow> m' = m"
  shows "readProtoFields fn (maybe_int f v @ rest) m = readProtoFields fn rest m'"
  using assms by (auto simp: read_int_field maybe_int_def)

lemma read_strings:
  assumes "good_field f" "\<forall>w\<in>set ws. w \<noteq> [] \<and> length w < 2 ^ 64 \<and> (\<forall>m. fn f wireBytes w 0 m = Inr (upd w m))"
  shows "readProtoFields fn (strings_field f ws @ rest) m = readProtoFields fn rest (fold upd ws m)"
  using assms(2)
proof (induction ws arbitrary: m)
  case (Cons w ws)
  then show ?case using assms(1) by (simp add: strings_field_def read_bytes_field)
qed (simp add: strings_field_def)

lemma decode_encode_frame: "encodeGRPCFrame payload = Inr frame \<Longrightarrow> decodeGRPCFrame frame = Inr payload"
  by (auto simp: encodeGRPCFrame_def decodeGRPCFrame_def lenToUint32_def Let_def unat_of_nat take_bit_eq_mod split: if_splits)

end
