(* ===== verification/GrpcMessages.thy ===== *)
theory GrpcMessages
  imports Proto Rogue IpamAddress Discovery
begin

text \<open>
  \<^verbatim>\<open>src/internal/api/grpc/messages.go\<close>: the requests and responses of the gRPC interface, and how they are
  written and read. A Go \<^verbatim>\<open>int\<close> has 64 bits. A request that fails to decode is an error; Go leaves open whether
  \<^verbatim>\<open>return req, req.unmarshalProto(data)\<close> reads \<^verbatim>\<open>req\<close> before or after the call, and the model
  takes the order in which the compiler does it, the call first.
\<close>

section \<open>Integers out of range\<close>

definition uint64ToInt :: "nat \<Rightarrow> int option" where
  "uint64ToInt v = (if v > 2 ^ 63 - 1 then None else Some (int v))"

definition uint64ToInt64 :: "nat \<Rightarrow> int option" where
  "uint64ToInt64 v = (if v > 2 ^ 63 - 1 then None else Some (int v))"

section \<open>Requests\<close>

text \<open>The requests with one text field.\<close>

record cidrRequest = cr_CIDR :: string
record ipRequest = ir_IP :: string
record watchLeasesRequest = wl_SubnetCIDR :: string
record nextAvailableRequest = na_SubnetCIDR :: string

definition text_field :: "(string \<Rightarrow> 'm \<Rightarrow> 'm) \<Rightarrow> nat \<Rightarrow> nat \<Rightarrow> bytes \<Rightarrow> nat \<Rightarrow> 'm \<Rightarrow> go_error + 'm" where
  "text_field upd field wireType raw v m =
     Inr (if field = 1 \<and> wireType = wireBytes then upd (TrimSpace raw) m else m)"

definition cidr_marshal :: "cidrRequest \<Rightarrow> bytes" where
  "cidr_marshal r = appendString [] 1 (cr_CIDR r)"

definition decodeCIDRRequest :: "bytes \<Rightarrow> go_error + cidrRequest" where
  "decodeCIDRRequest data = readProtoFields (text_field (\<lambda>s m. m\<lparr>cr_CIDR := s\<rparr>)) data \<lparr>cr_CIDR = []\<rparr>"

definition ip_marshal :: "ipRequest \<Rightarrow> bytes" where
  "ip_marshal r = appendString [] 1 (ir_IP r)"

definition decodeIPRequest :: "bytes \<Rightarrow> go_error + ipRequest" where
  "decodeIPRequest data = readProtoFields (text_field (\<lambda>s m. m\<lparr>ir_IP := s\<rparr>)) data \<lparr>ir_IP = []\<rparr>"

definition watch_marshal :: "watchLeasesRequest \<Rightarrow> bytes" where
  "watch_marshal r = appendString [] 1 (wl_SubnetCIDR r)"

definition decodeWatchLeasesRequest :: "bytes \<Rightarrow> go_error + watchLeasesRequest" where
  "decodeWatchLeasesRequest data = readProtoFields (text_field (\<lambda>s m. m\<lparr>wl_SubnetCIDR := s\<rparr>)) data \<lparr>wl_SubnetCIDR = []\<rparr>"

definition next_marshal :: "nextAvailableRequest \<Rightarrow> bytes" where
  "next_marshal r = appendString [] 1 (na_SubnetCIDR r)"

definition decodeNextAvailableRequest :: "bytes \<Rightarrow> go_error + nextAvailableRequest" where
  "decodeNextAvailableRequest data = readProtoFields (text_field (\<lambda>s m. m\<lparr>na_SubnetCIDR := s\<rparr>)) data \<lparr>na_SubnetCIDR = []\<rparr>"

record subnetMutationRequest =
  sm_CIDR :: string
  sm_Name :: string
  sm_VLAN :: int
  sm_Gateway :: string
  sm_DNS :: "string list"
  sm_DHCPEnable :: bool
  sm_PoolStart :: string
  sm_PoolEnd :: string
  sm_LeaseSec :: int

definition mutation_marshal :: "subnetMutationRequest \<Rightarrow> bytes" where
  "mutation_marshal r =
     (let d1 = appendString [] 1 (sm_CIDR r);
          d2 = appendString d1 2 (sm_Name r);
          d3 = appendInt64 d2 3 (sm_VLAN r);
          d4 = appendString d3 4 (sm_Gateway r);
          d5 = appendStrings d4 5 (sm_DNS r);
          d6 = appendBool d5 6 (sm_DHCPEnable r);
          d7 = appendString d6 7 (sm_PoolStart r);
          d8 = appendString d7 8 (sm_PoolEnd r)
      in appendInt64 d8 9 (sm_LeaseSec r))"

definition mutation_field :: "nat \<Rightarrow> nat \<Rightarrow> bytes \<Rightarrow> nat \<Rightarrow> subnetMutationRequest \<Rightarrow> go_error + subnetMutationRequest" where
  "mutation_field field wireType raw v r =
     (if field = 1 then Inr (r\<lparr>sm_CIDR := TrimSpace raw\<rparr>)
      else if field = 2 then Inr (r\<lparr>sm_Name := TrimSpace raw\<rparr>)
      else if field = 3 then
        (case uint64ToInt v of None \<Rightarrow> Inl (ErrMsg ''vlan value out of range'') | Some vlan \<Rightarrow> Inr (r\<lparr>sm_VLAN := vlan\<rparr>))
      else if field = 4 then Inr (r\<lparr>sm_Gateway := TrimSpace raw\<rparr>)
      else if field = 5 then Inr (r\<lparr>sm_DNS := sm_DNS r @ [TrimSpace raw]\<rparr>)
      else if field = 6 then Inr (r\<lparr>sm_DHCPEnable := parseBool v\<rparr>)
      else if field = 7 then Inr (r\<lparr>sm_PoolStart := TrimSpace raw\<rparr>)
      else if field = 8 then Inr (r\<lparr>sm_PoolEnd := TrimSpace raw\<rparr>)
      else if field = 9 then
        (case uint64ToInt64 v of
           None \<Rightarrow> Inl (ErrMsg ''lease duration value out of range'')
         | Some leaseSec \<Rightarrow> Inr (r\<lparr>sm_LeaseSec := leaseSec\<rparr>))
      else Inr r)"

definition empty_mutation :: subnetMutationRequest where
  "empty_mutation = \<lparr>sm_CIDR = [], sm_Name = [], sm_VLAN = 0, sm_Gateway = [], sm_DNS = [], sm_DHCPEnable = False,
     sm_PoolStart = [], sm_PoolEnd = [], sm_LeaseSec = 0\<rparr>"

definition decodeSubnetMutationRequest :: "bytes \<Rightarrow> go_error + subnetMutationRequest" where
  "decodeSubnetMutationRequest data = readProtoFields mutation_field data empty_mutation"

text \<open>The filters of leases and of addresses have the same four fields.\<close>

record searchRequest =
  fq_SubnetCIDR :: string
  fq_State :: string
  fq_Query :: string
  fq_Limit :: int

definition search_marshal :: "searchRequest \<Rightarrow> bytes" where
  "search_marshal r =
     appendInt64 (appendString (appendString (appendString [] 1 (fq_SubnetCIDR r)) 2 (fq_State r)) 3 (fq_Query r)) 4 (fq_Limit r)"

definition search_field :: "nat \<Rightarrow> nat \<Rightarrow> bytes \<Rightarrow> nat \<Rightarrow> searchRequest \<Rightarrow> go_error + searchRequest" where
  "search_field field wireType raw v r =
     (if field = 1 then Inr (r\<lparr>fq_SubnetCIDR := TrimSpace raw\<rparr>)
      else if field = 2 then Inr (r\<lparr>fq_State := TrimSpace raw\<rparr>)
      else if field = 3 then Inr (r\<lparr>fq_Query := TrimSpace raw\<rparr>)
      else if field = 4 then
        (case uint64ToInt v of None \<Rightarrow> Inl (ErrMsg ''limit value out of range'') | Some limit \<Rightarrow> Inr (r\<lparr>fq_Limit := limit\<rparr>))
      else Inr r)"

definition empty_search :: searchRequest where
  "empty_search = \<lparr>fq_SubnetCIDR = [], fq_State = [], fq_Query = [], fq_Limit = 0\<rparr>"

definition decodeListLeasesRequest :: "bytes \<Rightarrow> go_error + searchRequest" where
  "decodeListLeasesRequest data = readProtoFields search_field data empty_search"

definition decodeSearchAddressesRequest :: "bytes \<Rightarrow> go_error + searchRequest" where
  "decodeSearchAddressesRequest data = readProtoFields search_field data empty_search"

record reserveAddressRequest =
  ra_IP :: string
  ra_SubnetCIDR :: string
  ra_MAC :: string
  ra_Hostname :: string

definition reserve_marshal :: "reserveAddressRequest \<Rightarrow> bytes" where
  "reserve_marshal r =
     appendString (appendString (appendString (appendString [] 1 (ra_IP r)) 2 (ra_SubnetCIDR r)) 3 (ra_MAC r)) 4 (ra_Hostname r)"

definition reserve_field :: "nat \<Rightarrow> nat \<Rightarrow> bytes \<Rightarrow> nat \<Rightarrow> reserveAddressRequest \<Rightarrow> go_error + reserveAddressRequest" where
  "reserve_field field wireType raw v r =
     Inr (if field = 1 then r\<lparr>ra_IP := TrimSpace raw\<rparr>
          else if field = 2 then r\<lparr>ra_SubnetCIDR := TrimSpace raw\<rparr>
          else if field = 3 then r\<lparr>ra_MAC := TrimSpace raw\<rparr>
          else if field = 4 then r\<lparr>ra_Hostname := TrimSpace raw\<rparr>
          else r)"

definition decodeReserveAddressRequest :: "bytes \<Rightarrow> go_error + reserveAddressRequest" where
  "decodeReserveAddressRequest data =
     readProtoFields reserve_field data \<lparr>ra_IP = [], ra_SubnetCIDR = [], ra_MAC = [], ra_Hostname = []\<rparr>"

record triggerScanRequest =
  tr_Reason :: string
  tr_Subnets :: "string list"

definition trigger_marshal :: "triggerScanRequest \<Rightarrow> bytes" where
  "trigger_marshal r = appendStrings (appendString [] 1 (tr_Reason r)) 2 (tr_Subnets r)"

definition trigger_field :: "nat \<Rightarrow> nat \<Rightarrow> bytes \<Rightarrow> nat \<Rightarrow> triggerScanRequest \<Rightarrow> go_error + triggerScanRequest" where
  "trigger_field field wireType raw v r =
     Inr (if field = 1 then r\<lparr>tr_Reason := TrimSpace raw\<rparr>
          else if field = 2 then r\<lparr>tr_Subnets := tr_Subnets r @ [TrimSpace raw]\<rparr>
          else r)"

definition decodeTriggerScanRequest :: "bytes \<Rightarrow> go_error + triggerScanRequest" where
  "decodeTriggerScanRequest data = readProtoFields trigger_field data \<lparr>tr_Reason = [], tr_Subnets = []\<rparr>"

text \<open>Requests without fields: the first takes any bytes, the other checks that they parse.\<close>

definition decodeEmpty :: "bytes \<Rightarrow> go_error + unit" where
  "decodeEmpty data = Inr ()"

definition decode_no_fields :: "bytes \<Rightarrow> go_error + unit" where
  "decode_no_fields data = (if data = [] then Inr () else readProtoFields (\<lambda>field wireType raw v m. Inr m) data ())"

section \<open>Responses\<close>

record systemHealthResponse =
  hr_Status :: string
  hr_Ready :: bool
  hr_Version :: string
  hr_Uptime :: string
  hr_PayloadJSON :: string

definition health_marshal :: "systemHealthResponse \<Rightarrow> bytes" where
  "health_marshal m =
     appendString (appendString (appendString (appendBool (appendString [] 1 (hr_Status m)) 2 (hr_Ready m)) 3 (hr_Version m))
       4 (hr_Uptime m)) 5 (hr_PayloadJSON m)"

record subnetMessage =
  ms_CIDR :: string
  ms_Name :: string
  ms_VLAN :: int
  ms_Gateway :: string
  ms_DNS :: "string list"
  ms_DHCP :: bool
  ms_PoolStart :: string
  ms_PoolEnd :: string
  ms_LeaseSec :: int
  ms_CreatedAt :: int
  ms_UpdatedAt :: int

definition newSubnetMessage :: "Subnet \<Rightarrow> subnetMessage" where
  "newSubnetMessage x =
     \<lparr>ms_CIDR = sn_CIDR x, ms_Name = sn_Name x, ms_VLAN = sn_VLAN x, ms_Gateway = sn_Gateway x, ms_DNS = sn_DNS x,
      ms_DHCP = dp_Enabled (sn_DHCP x), ms_PoolStart = dp_PoolStart (sn_DHCP x), ms_PoolEnd = dp_PoolEnd (sn_DHCP x),
      ms_LeaseSec = dp_LeaseTimeSec (sn_DHCP x), ms_CreatedAt = time_unix (sn_CreatedAt x), ms_UpdatedAt = time_unix (sn_UpdatedAt x)\<rparr>"

definition subnet_marshal :: "subnetMessage \<Rightarrow> bytes" where
  "subnet_marshal m =
     (let d1 = appendString [] 1 (ms_CIDR m);
          d2 = appendString d1 2 (ms_Name m);
          d3 = appendInt64 d2 3 (ms_VLAN m);
          d4 = appendString d3 4 (ms_Gateway m);
          d5 = appendStrings d4 5 (ms_DNS m);
          d6 = appendBool d5 6 (ms_DHCP m);
          d7 = appendString d6 7 (ms_PoolStart m);
          d8 = appendString d7 8 (ms_PoolEnd m);
          d9 = appendInt64 d8 9 (ms_LeaseSec m);
          d10 = appendInt64 d9 10 (ms_CreatedAt m)
      in appendInt64 d10 11 (ms_UpdatedAt m))"

text \<open>A list is a message whose first field repeats.\<close>

definition items_marshal :: "('a \<Rightarrow> bytes) \<Rightarrow> 'a list \<Rightarrow> bytes" where
  "items_marshal marshal items = fold (\<lambda>x out. appendMessage out 1 (marshal x)) items []"

definition utilization_marshal :: "SubnetSummary \<Rightarrow> bytes" where
  "utilization_marshal m =
     appendInt64 (appendInt64 (appendInt64 (appendString (appendString [] 1 (ss_CIDR m)) 2 (ss_Name m)) 3 (ss_ActiveLeases m))
       4 (ss_TotalLeases m)) 5 (ss_Utilization m)"

record leaseMessage =
  ml_IP :: string
  ml_MAC :: string
  ml_Hostname :: string
  ml_State :: string
  ml_SubnetID :: string
  ml_RelayAddr :: string
  ml_ExpiryUnix :: int
  ml_UpdatedAt :: int
  ml_Duration :: int

definition newLeaseMessage :: "Lease \<Rightarrow> leaseMessage" where
  "newLeaseMessage x =
     \<lparr>ml_IP = l_IP x, ml_MAC = l_MAC x, ml_Hostname = l_Hostname x, ml_State = l_State x, ml_SubnetID = l_SubnetID x,
      ml_RelayAddr = l_RelayAddr x, ml_ExpiryUnix = time_unix (l_ExpiryTime x), ml_UpdatedAt = time_unix (l_UpdatedAt x),
      ml_Duration = go_div (l_Duration x) second_ns\<rparr>"

definition lease_marshal :: "leaseMessage \<Rightarrow> bytes" where
  "lease_marshal m =
     (let d1 = appendString [] 1 (ml_IP m);
          d2 = appendString d1 2 (ml_MAC m);
          d3 = appendString d2 3 (ml_Hostname m);
          d4 = appendString d3 4 (ml_State m);
          d5 = appendString d4 5 (ml_SubnetID m);
          d6 = appendString d5 6 (ml_RelayAddr m);
          d7 = appendInt64 d6 7 (ml_ExpiryUnix m);
          d8 = appendInt64 d7 8 (ml_UpdatedAt m)
      in appendInt64 d8 9 (ml_Duration m))"

record leaseEventMessage =
  me_Type :: string
  me_IP :: string
  me_OccurredAt :: int
  me_Lease :: "leaseMessage option"

definition lease_event_marshal :: "leaseEventMessage \<Rightarrow> bytes" where
  "lease_event_marshal m =
     (let d1 = appendString (appendString [] 1 (me_Type m)) 2 (me_IP m);
          d2 = (case me_Lease m of None \<Rightarrow> d1 | Some l \<Rightarrow> appendMessage d1 3 (lease_marshal l))
      in appendInt64 d2 4 (me_OccurredAt m))"

record ipAddressMessage =
  ma_IP :: string
  ma_SubnetCIDR :: string
  ma_State :: string
  ma_MAC :: string
  ma_Hostname :: string
  ma_LeaseState :: string
  ma_Source :: string
  ma_UpdatedAt :: int

definition newIPAddressMessage :: "AddressRecord \<Rightarrow> ipAddressMessage" where
  "newIPAddressMessage x =
     \<lparr>ma_IP = ad_IP x, ma_SubnetCIDR = ad_SubnetCIDR x, ma_State = ad_State x, ma_MAC = ad_MAC x, ma_Hostname = ad_Hostname x,
      ma_LeaseState = ad_LeaseState x, ma_Source = ad_Source x, ma_UpdatedAt = time_unix (ad_UpdatedAt x)\<rparr>"

definition address_marshal :: "ipAddressMessage \<Rightarrow> bytes" where
  "address_marshal m =
     (let d1 = appendString [] 1 (ma_IP m);
          d2 = appendString d1 2 (ma_SubnetCIDR m);
          d3 = appendString d2 3 (ma_State m);
          d4 = appendString d3 4 (ma_MAC m);
          d5 = appendString d4 5 (ma_Hostname m);
          d6 = appendString d5 6 (ma_LeaseState m);
          d7 = appendString d6 7 (ma_Source m)
      in appendInt64 d7 8 (ma_UpdatedAt m))"

record scanResponse =
  sp_Status :: string
  sp_ScanID :: string
  sp_EstimatedIn :: string

definition scan_marshal :: "scanResponse \<Rightarrow> bytes" where
  "scan_marshal m = appendString (appendString (appendString [] 1 (sp_Status m)) 2 (sp_ScanID m)) 3 (sp_EstimatedIn m)"

definition conflict_marshal :: "Conflict \<Rightarrow> bytes" where
  "conflict_marshal m =
     appendString (appendString (appendStrings (appendString [] 1 (cf_IP m)) 2 (cf_MACs m)) 3 (cf_Severity m)) 4 (cf_Note m)"

record discoveryEventMessage =
  md_Type :: string
  md_ScanID :: string
  md_Subnet :: string
  md_IP :: string
  md_Found :: int
  md_MACs :: "string list"
  md_OccurredAt :: int
  md_Note :: string

definition discovery_event_marshal :: "discoveryEventMessage \<Rightarrow> bytes" where
  "discovery_event_marshal m =
     (let d1 = appendString [] 1 (md_Type m);
          d2 = appendString d1 2 (md_ScanID m);
          d3 = appendString d2 3 (md_Subnet m);
          d4 = appendString d3 4 (md_IP m);
          d5 = appendInt64 d4 5 (md_Found m);
          d6 = appendStrings d5 6 (md_MACs m);
          d7 = appendInt64 d6 7 (md_OccurredAt m)
      in appendString d7 8 (md_Note m))"

end
