(* ===== verification/Websocket.thy ===== *)
theory Websocket
  imports RestHttp Health
begin

text \<open>
  \<^verbatim>\<open>src/internal/api/websocket\<close>: the handshake, the frames, the subscriptions of a client and the hub that passes
  the events of the broker to the clients. A connection is the bytes that are still to be read; the two loops of a
  client are the steps of what it reads and of what it is sent. SHA-1, base64, the JSON codecs and the parser of URLs are
  arguments. Reading past the end of the connection is the error of \<^verbatim>\<open>io.EOF\<close>.
\<close>

unbundle bit_operations_syntax

section \<open>events.go\<close>

definition cloneMap :: "(string \<times> 'v) list \<Rightarrow> (string \<times> 'v) list" where
  "cloneMap m = m"

definition firstString :: "audit_value option list \<Rightarrow> string" where
  "firstString vs =
     (case find (\<lambda>v. case v of Some (AVString t) \<Rightarrow> t \<noteq> [] | _ \<Rightarrow> False) vs of Some (Some (AVString t)) \<Rightarrow> t | _ \<Rightarrow> [])"

text \<open>A missing value of a Go map that is copied to another becomes a nil; such entries are left out here.\<close>

definition copied :: "string \<Rightarrow> audit_value option \<Rightarrow> (string \<times> audit_value) list" where
  "copied k v = (case v of None \<Rightarrow> [] | Some x \<Rightarrow> [(k, x)])"

definition conflict_events :: "time \<Rightarrow> audit_value option \<Rightarrow> audit_value event list" where
  "conflict_events t v =
     (case v of
        Some (AVConflicts cs) \<Rightarrow>
          map (\<lambda>c. \<lparr>ev_Type = ''discovery.conflict'', ev_Timestamp = t,
                 ev_Data = [(''ip'', AVString (cf_IP c)), (''macs'', AVStrings (cf_MACs c))]\<rparr>) cs
      | Some (AVInt n) \<Rightarrow>
          if n > 0 then [\<lparr>ev_Type = ''discovery.conflict'', ev_Timestamp = t, ev_Data = [(''count'', AVInt n)]\<rparr>] else []
      | _ \<Rightarrow> [])"

definition NormalizeEvent :: "time \<Rightarrow> audit_value event \<Rightarrow> audit_value event list" where
  "NormalizeEvent now evt0 =
     (let evt = stamped now evt0; t = ev_Timestamp evt; data = ev_Data evt;
          also_as = (\<lambda>typ d. [evt\<lparr>ev_Data := cloneMap data\<rparr>, \<lparr>ev_Type = typ, ev_Timestamp = t, ev_Data = d\<rparr>])
      in if ev_Type evt = ''subnet.upserted'' then also_as ''subnet.created'' (cloneMap data)
         else if ev_Type evt = ''reservation.upserted'' then
           also_as ''address.reserved''
             (if map_of data ''owner'' = None then mput ''owner'' (AVString ''system'') data else cloneMap data)
         else if ev_Type evt = ''discovery.scan_queued'' then also_as ''discovery.started'' (cloneMap data)
         else if ev_Type evt = ''discovery.scan_completed'' then
           also_as ''discovery.completed''
             (copied ''scan_id'' (map_of data ''scan_id'') @ copied ''found'' (map_of data ''total_hosts'') @
              [(''subnet'', AVString (firstString [map_of data ''subnet'', map_of data ''subnet_cidr'']))]) @
           conflict_events t (map_of data ''conflicts'')
         else [evt\<lparr>ev_Data := cloneMap data\<rparr>])"

section \<open>Subscriptions\<close>

definition matchesSubscription :: "string \<Rightarrow> string \<Rightarrow> bool" where
  "matchesSubscription pattern0 eventType \<longleftrightarrow>
     (let pattern = TrimSpace pattern0 in
      if pattern = [] \<or> pattern = ''*'' then True
      else if ends_with ''.*'' pattern then starts_with (butlast pattern) eventType
      else EqualFold pattern eventType)"

record subscriptionMessage =
  su_Action :: string
  su_Events :: "string list"

definition applySubscription :: "subscriptionMessage \<Rightarrow> string list \<Rightarrow> string list" where
  "applySubscription message subs =
     (let events0 = filter (\<lambda>x. x \<noteq> []) (map TrimSpace (su_Events message));
          events = (if events0 = [] then [''*''] else events0);
          action = ToLower (TrimSpace (su_Action message))
      in if action = ''subscribe'' \<or> action = [] then events
         else if action = ''unsubscribe'' then
           (let remaining = filter (\<lambda>current. \<not> (\<exists>item\<in>set events. EqualFold current item)) subs
            in if remaining = [] then [''*''] else remaining)
         else subs)"

section \<open>Frames\<close>

abbreviation opcodeContinuation :: nat where "opcodeContinuation \<equiv> 0"
abbreviation opcodeText :: nat where "opcodeText \<equiv> 1"
abbreviation opcodeBinary :: nat where "opcodeBinary \<equiv> 2"
abbreviation opcodeClose :: nat where "opcodeClose \<equiv> 8"
abbreviation opcodePing :: nat where "opcodePing \<equiv> 9"
abbreviation opcodePong :: nat where "opcodePong \<equiv> 10"
abbreviation maxFramePayload :: nat where "maxFramePayload \<equiv> 1048576"

definition writeFrame :: "nat \<Rightarrow> bytes \<Rightarrow> go_error + bytes" where
  "writeFrame opcode payload =
     (if length payload > maxFramePayload then Inl (ErrMsg ''websocket frame payload too large'')
      else
        (let n = length payload;
             header = nat_byte (128 OR opcode) #
               (if n < 126 then [nat_byte n]
                else if n \<le> 65535 then nat_byte 126 # be 2 n
                else nat_byte 127 # be 8 n)
         in Inr (header @ payload)))"

record frameHeader =
  fh_opcode :: nat
  fh_masked :: bool
  fh_length :: nat

definition frame_bytes :: "nat \<Rightarrow> bytes \<Rightarrow> go_error + bytes \<times> bytes" where
  "frame_bytes n s = (if length s < n then Inl (ErrMsg ''EOF'') else Inr (take n s, drop n s))"

definition xor_byte :: "byte \<Rightarrow> byte \<Rightarrow> byte" where
  "xor_byte a b = nat_byte (unat ((of_nat (byte_nat a) :: u8) XOR of_nat (byte_nat b)))"

definition apply_mask :: "bytes \<Rightarrow> bytes \<Rightarrow> bytes" where
  "apply_mask key payload = map (\<lambda>i. xor_byte (payload ! i) (key ! (i mod 4))) [0..<length payload]"

text \<open>The header, the payload and the rest of the connection.\<close>

definition readFrame :: "bytes \<Rightarrow> go_error + frameHeader \<times> bytes \<times> bytes" where
  "readFrame s0 =
     rbind (frame_bytes 2 s0) (\<lambda>(two, s1).
       (let second = byte_nat (two ! 1); masked = (second AND 0x80 \<noteq> 0); short = second AND 0x7F in
        rbind (if short = 126 then rbind (frame_bytes 2 s1) (\<lambda>(buf, s2). Inr (be_nat buf, s2))
               else if short = 127 then rbind (frame_bytes 8 s1) (\<lambda>(buf, s2). Inr (be_nat buf, s2))
               else Inr (short, s1)) (\<lambda>(n, s2).
          if n > maxFramePayload then Inl (ErrMsg ''websocket frame payload too large'')
          else
            rbind (if masked then frame_bytes 4 s2 else Inr (replicate 4 (CHR 0x00), s2)) (\<lambda>(key, s3).
              rbind (frame_bytes n s3) (\<lambda>(payload, s4).
                Inr (\<lparr>fh_opcode = byte_nat (two ! 0) AND 0x0F, fh_masked = masked, fh_length = n\<rparr>,
                     if masked then apply_mask key payload else payload, s4))))))"

section \<open>Clients\<close>

record ws_client =
  cl_subscriptions :: "string list"
  cl_send :: "audit_value event list"
  cl_done :: bool

abbreviation writeBufferSize :: nat where "writeBufferSize \<equiv> 32"

definition new_client :: ws_client where
  "new_client = \<lparr>cl_subscriptions = [''*''], cl_send = [], cl_done = False\<rparr>"

definition isSubscribed :: "ws_client \<Rightarrow> string \<Rightarrow> bool" where
  "isSubscribed c eventType \<longleftrightarrow> (\<exists>p\<in>set (cl_subscriptions c). matchesSubscription p eventType)"

text \<open>A message for a client that is closed, or whose channel is full, is dropped.\<close>

definition client_Send :: "audit_value event \<Rightarrow> ws_client \<Rightarrow> ws_client" where
  "client_Send message c =
     (if \<not> isSubscribed c (ev_Type message) then c
      else if cl_done c \<or> length (cl_send c) \<ge> writeBufferSize then c
      else c\<lparr>cl_send := cl_send c @ [message]\<rparr>)"

datatype read_step = ReadOn ws_client bytes | ReadAnswer ws_client bytes bytes | ReadEnd

text \<open>One turn of the loop that reads: it goes on, it goes on after the bytes that it writes, or it ends.\<close>

definition read_turn :: "(bytes \<Rightarrow> subscriptionMessage option) \<Rightarrow> ws_client \<Rightarrow> bytes \<Rightarrow> read_step" where
  "read_turn decode c s =
     (case readFrame s of
        Inl _ \<Rightarrow> ReadEnd
      | Inr (header, payload, s') \<Rightarrow>
          (if fh_opcode header = opcodeText then
             (case decode payload of
                None \<Rightarrow> ReadOn c s'
              | Some msg \<Rightarrow> ReadOn (c\<lparr>cl_subscriptions := applySubscription msg (cl_subscriptions c)\<rparr>) s')
           else if fh_opcode header = opcodePing then
             (case writeFrame opcodePong payload of Inl _ \<Rightarrow> ReadEnd | Inr raw \<Rightarrow> ReadAnswer c raw s')
           else if fh_opcode header = opcodeClose then ReadEnd
           else ReadOn c s'))"

lemma readFrame_shorter: "readFrame s = Inr (h, p, s') \<Longrightarrow> length s' < length s"
  by (auto simp: readFrame_def rbind_Inr_conv frame_bytes_def Let_def split: if_splits)

text \<open>The loop: the client at its end, and what was written meanwhile.\<close>

function readLoop :: "(bytes \<Rightarrow> subscriptionMessage option) \<Rightarrow> ws_client \<Rightarrow> bytes \<Rightarrow> ws_client \<times> bytes" where
  "readLoop decode c s =
     (case read_turn decode c s of
        ReadEnd \<Rightarrow> (c, [])
      | ReadOn c' s' \<Rightarrow> readLoop decode c' s'
      | ReadAnswer c' raw s' \<Rightarrow> (case readLoop decode c' s' of (c'', out) \<Rightarrow> (c'', raw @ out)))"
  by pat_completeness auto
termination
  by (relation "measure (\<lambda>(decode, c, s). length s)")
    (auto simp: read_turn_def dest!: readFrame_shorter split: sum.splits if_splits option.splits)

text \<open>The turn of the loop that writes which takes the next message, and the one of the ticker.\<close>

definition write_turn :: "(audit_value event \<Rightarrow> bytes) \<Rightarrow> ws_client \<Rightarrow> (ws_client \<times> (go_error + bytes)) option" where
  "write_turn encode c =
     (case cl_send c of
        [] \<Rightarrow> None
      | message # rest \<Rightarrow> Some (c\<lparr>cl_send := rest\<rparr>, writeFrame opcodeText (encode message)))"

definition ping_turn :: "go_error + bytes" where
  "ping_turn = writeFrame opcodePing ''ping''"

section \<open>The handshake\<close>

datatype handshake = Refused nat string | Unsupported | Accepted string

definition ws_sameOrigin :: "(string \<Rightarrow> (string \<times> string) option) \<Rightarrow> http_request \<Rightarrow> bool" where
  "ws_sameOrigin parse r =
     (let origin = TrimSpace (rq_Header r ''Origin'') in
      if origin = [] then True
      else (case parse origin of None \<Rightarrow> False | Some (scheme, host) \<Rightarrow> EqualFold host (rq_Host r)))"

abbreviation websocketGUID :: string where "websocketGUID \<equiv> ''258EAFA5-E914-47DA-95CA-C5AB0DC85B11''"

definition websocketAccept :: "(bytes \<Rightarrow> bytes) \<Rightarrow> (bytes \<Rightarrow> string) \<Rightarrow> string \<Rightarrow> string" where
  "websocketAccept sha1 base64 key = base64 (sha1 (key @ websocketGUID))"

definition Upgrade :: "(string \<Rightarrow> (string \<times> string) option) \<Rightarrow> (bytes \<Rightarrow> bytes) \<Rightarrow> (bytes \<Rightarrow> string) \<Rightarrow> writer \<Rightarrow> http_request \<Rightarrow> handshake" where
  "Upgrade parse sha1 base64 w r =
     (let connection = rq_Header r ''Connection''; key = TrimSpace (rq_Header r ''Sec-WebSocket-Key'') in
      if \<not> EqualFold connection ''Upgrade'' \<and> \<not> sublist ''upgrade'' (ToLower connection)
      then Refused 400 ''missing websocket upgrade header''
      else if \<not> EqualFold (rq_Header r ''Upgrade'') ''websocket'' then Refused 400 ''missing websocket protocol upgrade''
      else if key = [] then Refused 400 ''missing websocket key''
      else if AuthEnforcedFromContext r \<and> \<not> ws_sameOrigin parse r then Refused 403 ''websocket origin rejected''
      else if AuthEnforcedFromContext r \<and> rq_identity r = None then Refused 401 ''authentication required''
      else if \<not> w_Hijacker w then Unsupported
      else Accepted (websocketAccept sha1 base64 key))"

section \<open>The hub\<close>

text \<open>The clients by a number that stands for their pointer.\<close>

type_synonym ws_hub = "(nat \<times> ws_client) list"

definition hub_register :: "nat \<Rightarrow> ws_hub \<Rightarrow> ws_hub" where
  "hub_register i h = mput i new_client h"

definition client_Close :: "nat \<Rightarrow> ws_hub \<Rightarrow> ws_hub" where
  "client_Close i h = mdel i h"

definition Broadcast :: "audit_value event \<Rightarrow> ws_hub \<Rightarrow> ws_hub" where
  "Broadcast message h = map (\<lambda>(i, c). (i, client_Send message c)) h"

text \<open>What the hub does with an event of the broker.\<close>

definition hub_event :: "time \<Rightarrow> audit_value event \<Rightarrow> ws_hub \<Rightarrow> ws_hub" where
  "hub_event now evt h = fold Broadcast (NormalizeEvent now evt) h"

definition http_error :: "nat \<Rightarrow> string \<Rightarrow> 'd outcome" where
  "http_error status msg =
     Inr \<lparr>rs_status = status, rs_error = Some msg,
       rs_headers = [SetHeader ''Content-Type'' ''text/plain; charset=utf-8'', SetHeader ''X-Content-Type-Options'' ''nosniff''], rs_data = None\<rparr>"

text \<open>\<^verbatim>\<open>Handler\<close>: a refusal, or the hub with the client and the greeting that it is sent first.\<close>

definition hub_Handler ::
  "(string \<Rightarrow> (string \<times> string) option) \<Rightarrow> (bytes \<Rightarrow> bytes) \<Rightarrow> (bytes \<Rightarrow> string) \<Rightarrow> nat \<Rightarrow> writer \<Rightarrow> http_request \<Rightarrow> ws_hub \<Rightarrow>
   ws_hub \<times> 'd outcome" where
  "hub_Handler parse sha1 base64 i w r h =
     (case Upgrade parse sha1 base64 w r of
        Refused status msg \<Rightarrow> (h, http_error status msg)
      | Unsupported \<Rightarrow> (h, http_error 400 ''websocket hijacking unsupported'')
      | Accepted accept \<Rightarrow>
          (mput i (client_Send \<lparr>ev_Type = ''system.connected'', ev_Timestamp = rq_now r, ev_Data = [(''ok'', AVBool True)]\<rparr> new_client)
             (hub_register i h),
           Inr \<lparr>rs_status = 101, rs_error = None,
             rs_headers = [SetHeader ''Upgrade'' ''websocket'', SetHeader ''Connection'' ''Upgrade'', SetHeader ''Sec-WebSocket-Accept'' accept],
             rs_data = None\<rparr>))"

text \<open>The route \<^verbatim>\<open>/ws\<close>, which leaves the state of the interface alone.\<close>

definition ws_route ::
  "(string \<Rightarrow> (string \<times> string) option) \<Rightarrow> (bytes \<Rightarrow> bytes) \<Rightarrow> (bytes \<Rightarrow> string) \<Rightarrow> nat \<Rightarrow> ws_hub \<Rightarrow> ('s, 'd) handler" where
  "ws_route parse sha1 base64 i h w r s = (s, snd (hub_Handler parse sha1 base64 i w r h))"

end
