(* ===== verification/Grpc.thy ===== *)
theory Grpc
  imports GrpcMessages Websocket
begin

text \<open>
  \<^verbatim>\<open>src/internal/api/grpc/server.go\<close> and the services beside it: the methods, the role that each needs, and what
  a call does. A call is an HTTP request with the context that the middleware of the REST interface left; the
  response is the HTTP status, the status of gRPC in the trailer, and the frames. A stream sees the events that its channel
  gives until the context ends, each with the store at that time; they are an argument. Without the text that other
  packages give their errors, the text of an error is the model's.
\<close>

section \<open>Status\<close>

datatype grpc_error = StatusError nat string | OtherError go_error

abbreviation codeOK :: nat where "codeOK \<equiv> 0"
abbreviation codeInvalidArgument :: nat where "codeInvalidArgument \<equiv> 3"
abbreviation codeNotFound :: nat where "codeNotFound \<equiv> 5"
abbreviation codePermissionDenied :: nat where "codePermissionDenied \<equiv> 7"
abbreviation codeFailedPrecondition :: nat where "codeFailedPrecondition \<equiv> 9"
abbreviation codeInternal :: nat where "codeInternal \<equiv> 13"
abbreviation codeUnauthenticated :: nat where "codeUnauthenticated \<equiv> 16"

definition statusFromError :: "grpc_error option \<Rightarrow> nat \<times> string" where
  "statusFromError err =
     (case err of
        None \<Rightarrow> (codeOK, [])
      | Some (StatusError code message) \<Rightarrow> (code, message)
      | Some (OtherError ErrNotFound) \<Rightarrow> (codeNotFound, ''resource not found'')
      | Some (OtherError e) \<Rightarrow> (codeInternal, go_error_text e))"

section \<open>The handler\<close>

record 's grpc_state =
  gs_store :: 's
  gs_broker :: "audit_value broker option"
  gs_discovery :: "discovery_engine option"

record 's grpc_deps =
  gd_leases :: "'s lease_ops option"
  gd_ipam :: "'s ipam_engine option"
  gd_discovery :: "'s discovery_env"
  gd_ratio :: "int \<Rightarrow> int \<Rightarrow> int"
  gd_health :: "'s grpc_state health_deps"
  gd_json :: "(string \<times> json) list \<Rightarrow> bytes option"

text \<open>What the request's context and body hold, and for streams what their channel gives.\<close>

record 's grpc_request =
  gq_http :: http_request
  gq_ProtoMajor :: nat
  gq_channel :: "('s \<times> audit_value event) list"

datatype grpc_response = HttpError nat | GrpcStatus nat string "bytes list"

definition publish_grpc :: "time \<Rightarrow> string \<Rightarrow> (string \<times> audit_value) list \<Rightarrow> 's grpc_state \<Rightarrow> 's grpc_state" where
  "publish_grpc now typ data s =
     s\<lparr>gs_broker := map_option (Publish now \<lparr>ev_Type = typ, ev_Timestamp = 0, ev_Data = data\<rparr>) (gs_broker s)\<rparr>"

type_synonym 's unary = "'s grpc_state \<Rightarrow> 's grpc_state \<times> (grpc_error + bytes)"

definition grpc_fail :: "nat \<Rightarrow> string \<Rightarrow> 's unary" where
  "grpc_fail code message s = (s, Inl (StatusError code message))"

section \<open>Subnets\<close>

definition no_ipam :: "'s unary" where
  "no_ipam = grpc_fail codeFailedPrecondition ''ipam engine is not configured''"

definition grpc_listSubnets :: "'s grpc_deps \<Rightarrow> 's unary" where
  "grpc_listSubnets d s =
     (case gd_ipam d of
        None \<Rightarrow> no_ipam s
      | Some e \<Rightarrow>
          (case ListSubnets e (gs_store s) of
             Inl err \<Rightarrow> (s, Inl (OtherError err))
           | Inr subnets \<Rightarrow> (s, Inr (items_marshal (\<lambda>x. subnet_marshal (newSubnetMessage x)) subnets))))"

definition grpc_upsertSubnet :: "'s grpc_deps \<Rightarrow> time \<Rightarrow> subnetMutationRequest \<Rightarrow> 's unary" where
  "grpc_upsertSubnet d now req s =
     (case gd_ipam d of
        None \<Rightarrow> no_ipam s
      | Some e \<Rightarrow>
          (case UpsertSubnet e now
                  \<lparr>si_CIDR = sm_CIDR req, si_Name = sm_Name req, si_VLAN = sm_VLAN req, si_Gateway = sm_Gateway req,
                   si_DNS = sm_DNS req, si_DHCPEnable = sm_DHCPEnable req, si_PoolStart = sm_PoolStart req,
                   si_PoolEnd = sm_PoolEnd req, si_LeaseSec = sm_LeaseSec req\<rparr> (gs_store s) of
             (st, Inl err) \<Rightarrow> (s\<lparr>gs_store := st\<rparr>, Inl (StatusError codeInvalidArgument (go_error_text err)))
           | (st, Inr result) \<Rightarrow>
               (publish_grpc now ''subnet.upserted'' [(''cidr'', AVString (sn_CIDR result)), (''name'', AVString (sn_Name result))]
                  (s\<lparr>gs_store := st\<rparr>),
                Inr (subnet_marshal (newSubnetMessage result)))))"

definition grpc_getSubnet :: "'s grpc_deps \<Rightarrow> cidrRequest \<Rightarrow> 's unary" where
  "grpc_getSubnet d req s =
     (case gd_ipam d of
        None \<Rightarrow> no_ipam s
      | Some e \<Rightarrow>
          (case GetSubnet e (gs_store s) (cr_CIDR req) of
             Inl err \<Rightarrow> grpc_fail codeNotFound ''subnet not found'' s
           | Inr item \<Rightarrow> (s, Inr (subnet_marshal (newSubnetMessage item)))))"

definition grpc_deleteSubnet :: "'s grpc_deps \<Rightarrow> time \<Rightarrow> cidrRequest \<Rightarrow> 's unary" where
  "grpc_deleteSubnet d now req s =
     (case gd_ipam d of
        None \<Rightarrow> no_ipam s
      | Some e \<Rightarrow>
          (let cidr = TrimSpace (cr_CIDR req) in
           if cidr = [] then grpc_fail codeInvalidArgument ''cidr is required'' s
           else
             (case DeleteSubnet e now cidr (gs_store s) of
                (st, Some err) \<Rightarrow> (s\<lparr>gs_store := st\<rparr>, Inl (StatusError codeInternal (go_error_text err)))
              | (st, None) \<Rightarrow> (publish_grpc now ''subnet.deleted'' [(''cidr'', AVString cidr)] (s\<lparr>gs_store := st\<rparr>), Inr []))))"

definition grpc_getSubnetUtilization :: "'s grpc_deps \<Rightarrow> cidrRequest \<Rightarrow> 's unary" where
  "grpc_getSubnetUtilization d req s =
     (case gd_ipam d of
        None \<Rightarrow> no_ipam s
      | Some e \<Rightarrow>
          (let target = TrimSpace (cr_CIDR req) in
           if target = [] then grpc_fail codeInvalidArgument ''cidr is required'' s
           else
             (case ListSummaries e (gd_ratio d) (gs_store s) of
                Inl err \<Rightarrow> (s, Inl (OtherError err))
              | Inr items \<Rightarrow>
                  (case find (\<lambda>x. ss_CIDR x = target) items of
                     None \<Rightarrow> grpc_fail codeNotFound ''subnet not found'' s
                   | Some item \<Rightarrow> (s, Inr (utilization_marshal item))))))"

section \<open>Leases\<close>

definition no_leases :: "'s unary" where
  "no_leases = grpc_fail codeFailedPrecondition ''lease store is not configured''"

definition lease_listed :: "searchRequest \<Rightarrow> Lease \<Rightarrow> bool" where
  "lease_listed req x \<longleftrightarrow>
     (let state = ToLower (TrimSpace (fq_State req)); query = ToLower (TrimSpace (fq_Query req)) in
      (fq_SubnetCIDR req = [] \<or> l_SubnetID x = fq_SubnetCIDR req) \<and>
      (state = [] \<or> ToLower (l_State x) = state) \<and>
      (query = [] \<or>
       sublist query (ToLower (l_IP x @ '' '' @ l_MAC x @ '' '' @ l_Hostname x @ '' '' @ l_SubnetID x @ '' '' @ l_State x))))"

definition grpc_listLeases :: "'s grpc_deps \<Rightarrow> searchRequest \<Rightarrow> 's unary" where
  "grpc_listLeases d req s =
     (case gd_leases d of
        None \<Rightarrow> no_leases s
      | Some ops \<Rightarrow>
          (case op_ListAll ops (gs_store s) of
             Inl err \<Rightarrow> (s, Inl (OtherError err))
           | Inr leases \<Rightarrow>
               (let items = filter (lease_listed req) leases;
                    shown = (if fq_Limit req > 0 \<and> int (length items) > fq_Limit req then take (nat (fq_Limit req)) items else items)
                in (s, Inr (items_marshal (\<lambda>x. lease_marshal (newLeaseMessage x)) shown)))))"

definition grpc_getLease :: "'s grpc_deps \<Rightarrow> ipRequest \<Rightarrow> 's unary" where
  "grpc_getLease d req s =
     (case gd_leases d of
        None \<Rightarrow> no_leases s
      | Some ops \<Rightarrow>
          (case op_GetByIP ops (gs_store s) (ir_IP req) of
             Inl err \<Rightarrow> grpc_fail codeNotFound ''lease not found'' s
           | Inr item \<Rightarrow> (s, Inr (lease_marshal (newLeaseMessage item)))))"

definition grpc_releaseLease :: "'s grpc_deps \<Rightarrow> time \<Rightarrow> ipRequest \<Rightarrow> 's unary" where
  "grpc_releaseLease d now req s =
     (case gd_leases d of
        None \<Rightarrow> no_leases s
      | Some ops \<Rightarrow>
          (case op_GetByIP ops (gs_store s) (ir_IP req) of
             Inl err \<Rightarrow> grpc_fail codeNotFound ''lease not found'' s
           | Inr item0 \<Rightarrow>
               (let item = item0\<lparr>l_State := StateReleased, l_ExpiryTime := now, l_UpdatedAt := now\<rparr> in
                case op_Upsert ops now item (gs_store s) of
                  (st, Some err) \<Rightarrow> (s\<lparr>gs_store := st\<rparr>, Inl (StatusError codeInternal (go_error_text err)))
                | (st, None) \<Rightarrow>
                    (publish_grpc now ''lease.released'' [(''ip'', AVString (l_IP item)), (''subnet'', AVString (l_SubnetID item))]
                       (s\<lparr>gs_store := st\<rparr>), Inr []))))"

section \<open>Addresses\<close>

definition grpc_searchAddresses :: "'s grpc_deps \<Rightarrow> searchRequest \<Rightarrow> 's unary" where
  "grpc_searchAddresses d req s =
     (case gd_ipam d of
        None \<Rightarrow> no_ipam s
      | Some e \<Rightarrow>
          (case ListAddresses e (gs_store s)
                  \<lparr>af_SubnetCIDR = fq_SubnetCIDR req, af_State = fq_State req, af_Query = fq_Query req, af_Limit = fq_Limit req\<rparr> of
             Inl err \<Rightarrow> (s, Inl (StatusError codeInvalidArgument (go_error_text err)))
           | Inr records \<Rightarrow> (s, Inr (items_marshal (\<lambda>x. address_marshal (newIPAddressMessage x)) records))))"

definition grpc_getAddress :: "'s grpc_deps \<Rightarrow> ipRequest \<Rightarrow> 's unary" where
  "grpc_getAddress d req s =
     (case gd_ipam d of
        None \<Rightarrow> no_ipam s
      | Some e \<Rightarrow>
          (case GetAddress e (gs_store s) (ir_IP req) of
             Inl err \<Rightarrow> grpc_fail codeNotFound ''address not found'' s
           | Inr record \<Rightarrow> (s, Inr (address_marshal (newIPAddressMessage record)))))"

definition grpc_reserveAddress :: "'s grpc_deps \<Rightarrow> time \<Rightarrow> reserveAddressRequest \<Rightarrow> 's unary" where
  "grpc_reserveAddress d now req s =
     (case gd_ipam d of
        None \<Rightarrow> no_ipam s
      | Some e \<Rightarrow>
          if TrimSpace (ra_MAC req) = [] then grpc_fail codeInvalidArgument ''mac is required'' s
          else if TrimSpace (ra_IP req) = [] then grpc_fail codeInvalidArgument ''ip is required'' s
          else
            (case UpsertReservation e now
                    \<lparr>ri_MAC = ra_MAC req, ri_IP = ra_IP req, ri_Hostname = ra_Hostname req, ri_SubnetCIDR = ra_SubnetCIDR req\<rparr>
                    (gs_store s) of
               (st, Inl err) \<Rightarrow> (s\<lparr>gs_store := st\<rparr>, Inl (StatusError codeInvalidArgument (go_error_text err)))
             | (st, Inr record) \<Rightarrow>
                 (let s1 = publish_grpc now ''reservation.upserted''
                             [(''mac'', AVString (rv_MAC record)), (''ip'', AVString (rv_IP record)), (''subnet'', AVString (rv_SubnetCIDR record))]
                             (s\<lparr>gs_store := st\<rparr>)
                  in case GetAddress e st (rv_IP record) of
                       Inl err \<Rightarrow> (s1, Inl (OtherError err))
                     | Inr current \<Rightarrow> (s1, Inr (address_marshal (newIPAddressMessage current))))))"

definition grpc_releaseAddress :: "'s grpc_deps \<Rightarrow> time \<Rightarrow> ipRequest \<Rightarrow> 's unary" where
  "grpc_releaseAddress d now req s =
     (case gd_ipam d of
        None \<Rightarrow> no_ipam s
      | Some e \<Rightarrow>
          (case GetAddress e (gs_store s) (ir_IP req) of
             Inl err \<Rightarrow> grpc_fail codeNotFound ''address not found'' s
           | Inr record \<Rightarrow>
               (let s1 = (if ad_MAC record \<noteq> []
                          then publish_grpc now ''reservation.deleted'' [(''mac'', AVString (ad_MAC record)), (''ip'', AVString (ad_IP record))]
                                 (s\<lparr>gs_store := fst (DeleteReservation e now (ad_MAC record) (gs_store s))\<rparr>)
                          else s)
                in (s1\<lparr>gs_store := fst (DeleteStoredAddress e now (ad_IP record) (gs_store s1))\<rparr>, Inr []))))"

definition grpc_nextAvailable :: "'s grpc_deps \<Rightarrow> nextAvailableRequest \<Rightarrow> 's unary" where
  "grpc_nextAvailable d req s =
     (case gd_ipam d of
        None \<Rightarrow> no_ipam s
      | Some e \<Rightarrow>
          if TrimSpace (na_SubnetCIDR req) = [] then grpc_fail codeInvalidArgument ''subnet_cidr is required'' s
          else
            (case GetSubnet e (gs_store s) (na_SubnetCIDR req) of
               Inl err \<Rightarrow> grpc_fail codeNotFound ''subnet not found'' s
             | Inr subnet \<Rightarrow>
                 (case ListAddresses e (gs_store s) \<lparr>af_SubnetCIDR = sn_CIDR subnet, af_State = [], af_Query = [], af_Limit = 0\<rparr> of
                    Inl err \<Rightarrow> (s, Inl (StatusError codeInvalidArgument (go_error_text err)))
                  | Inr records \<Rightarrow>
                      (case find (\<lambda>x. ad_State x = IPStateAvailable) records of
                         None \<Rightarrow> grpc_fail codeNotFound ''no available addresses in subnet'' s
                       | Some item \<Rightarrow> (s, Inr (address_marshal (newIPAddressMessage item)))))))"

section \<open>Discovery\<close>

definition no_discovery :: "'s unary" where
  "no_discovery = grpc_fail codeFailedPrecondition ''discovery engine is not configured''"

definition grpc_triggerScan :: "'s grpc_deps \<Rightarrow> time \<Rightarrow> triggerScanRequest \<Rightarrow> 's unary" where
  "grpc_triggerScan d now req s =
     (case gs_discovery s of
        None \<Rightarrow> no_discovery s
      | Some e \<Rightarrow>
          (case TriggerScan (gd_discovery d) now e of
             None \<Rightarrow> grpc_fail codeFailedPrecondition ''scan already in progress'' s
           | Some (e', scanID) \<Rightarrow>
               (publish_grpc now ''discovery.scan_queued'' [(''scan_id'', AVString scanID)] (s\<lparr>gs_discovery := Some e'\<rparr>),
                Inr (scan_marshal \<lparr>sp_Status = ''queued'', sp_ScanID = scanID, sp_EstimatedIn = ''15s''\<rparr>))))"

definition grpc_getConflicts :: "'s grpc_deps \<Rightarrow> 's unary" where
  "grpc_getConflicts d s =
     (case gs_discovery s of
        None \<Rightarrow> no_discovery s
      | Some e \<Rightarrow>
          (case LatestConflicts (gd_discovery d) (gs_store s, e) of
             Inl err \<Rightarrow> (s, Inl (OtherError err))
           | Inr conflicts \<Rightarrow> (s, Inr (items_marshal conflict_marshal conflicts))))"

section \<open>System\<close>

definition grpc_systemHealth :: "'s grpc_deps \<Rightarrow> time \<Rightarrow> 's unary" where
  "grpc_systemHealth d now s =
     (let (payload, ready) = BuildSystemHealthPayload (gd_health d) now s in
      case gd_json d payload of
        None \<Rightarrow> grpc_fail codeInternal ''json'' s
      | Some raw \<Rightarrow>
          (s, Inr (health_marshal \<lparr>hr_Status = json_text payload ''status'', hr_Ready = ready, hr_Version = json_text payload ''version'',
                     hr_Uptime = json_text payload ''uptime'', hr_PayloadJSON = raw\<rparr>)))"

section \<open>Streams\<close>

fun join_space :: "string list \<Rightarrow> string" where
  "join_space [] = []"
| "join_space [x] = x"
| "join_space (x # y # xs) = x @ '' '' @ join_space (y # xs)"

definition bracketed :: "string list \<Rightarrow> string" where
  "bracketed xs = ''['' @ join_space xs @ '']''"

text \<open>A value that is not a string, as \<^verbatim>\<open>fmt.Sprint\<close> writes it.\<close>

fun sprint :: "audit_value \<Rightarrow> string" where
  "sprint (AVString t) = t"
| "sprint (AVInt n) = dec_int n"
| "sprint (AVBool b) = (if b then ''true'' else ''false'')"
| "sprint (AVStrings xs) = bracketed xs"
| "sprint (AVConflicts cs) =
     bracketed (map (\<lambda>c. ''{'' @ join_space [cf_IP c, bracketed (cf_MACs c), cf_Severity c, cf_Note c] @ ''}'') cs)"

definition mustString :: "audit_value option \<Rightarrow> string" where
  "mustString v = (case v of None \<Rightarrow> [] | Some x \<Rightarrow> sprint x)"

text \<open>\<^verbatim>\<open>strconv.Atoi\<close> without its error: no digits give zero, too many the nearest integer.\<close>

definition atoi_value :: "string \<Rightarrow> int" where
  "atoi_value t =
     (let neg = (t \<noteq> [] \<and> hd t = CHR ''-''); ds = (if t \<noteq> [] \<and> hd t \<in> set ''+-'' then tl t else t) in
      if ds = [] \<or> \<not> list_all is_digit ds then 0
      else
        (let n = int (dec_val 0 ds) in if neg then max (- n) (- (2 ^ 63)) else min n (2 ^ 63 - 1)))"

definition mustInt :: "audit_value option \<Rightarrow> int" where
  "mustInt v = (case v of Some (AVInt n) \<Rightarrow> n | Some (AVString t) \<Rightarrow> atoi_value (TrimSpace t) | _ \<Rightarrow> 0)"

definition mustStrings :: "audit_value option \<Rightarrow> string list" where
  "mustStrings v = (case v of Some (AVStrings xs) \<Rightarrow> xs | _ \<Rightarrow> [])"

definition firstNonEmpty :: "string list \<Rightarrow> string" where
  "firstNonEmpty vs = (case find (\<lambda>v. TrimSpace v \<noteq> []) vs of None \<Rightarrow> [] | Some v \<Rightarrow> v)"

definition firstNonZero :: "int list \<Rightarrow> int" where
  "firstNonZero vs = (case find (\<lambda>v. v \<noteq> 0) vs of None \<Rightarrow> 0 | Some v \<Rightarrow> v)"

definition lease_by_ip :: "'s grpc_deps \<Rightarrow> 's \<Rightarrow> string \<Rightarrow> Lease option" where
  "lease_by_ip d s ip =
     (case gd_leases d of
        None \<Rightarrow> None
      | Some ops \<Rightarrow> if ip = [] then None else (case op_GetByIP ops s ip of Inl _ \<Rightarrow> None | Inr l \<Rightarrow> Some l))"

definition leaseEventMatchesSubnet :: "'s grpc_deps \<Rightarrow> 's \<Rightarrow> string \<Rightarrow> (string \<times> audit_value) list \<Rightarrow> bool" where
  "leaseEventMatchesSubnet d s target data \<longleftrightarrow>
     mustString (map_of data ''subnet'') = target \<or> mustString (map_of data ''subnet_cidr'') = target \<or>
     (case lease_by_ip d s (mustString (map_of data ''ip'')) of None \<Rightarrow> False | Some l \<Rightarrow> l_SubnetID l = target)"

definition lease_event_message :: "'s grpc_deps \<Rightarrow> 's \<Rightarrow> audit_value event \<Rightarrow> leaseEventMessage" where
  "lease_event_message d s item =
     (let ip = mustString (map_of (ev_Data item) ''ip'') in
      \<lparr>me_Type = ev_Type item, me_IP = ip, me_OccurredAt = time_unix (ev_Timestamp item),
       me_Lease = map_option newLeaseMessage (lease_by_ip d s ip)\<rparr>)"

text \<open>The messages that the streams send for one event.\<close>

definition watch_lease_event :: "'s grpc_deps \<Rightarrow> time \<Rightarrow> watchLeasesRequest \<Rightarrow> 's \<times> audit_value event \<Rightarrow> bytes list" where
  "watch_lease_event d now req = (\<lambda>(s, evt).
     map (\<lambda>item. lease_event_marshal (lease_event_message d s item))
       (filter (\<lambda>item. starts_with ''lease.'' (ev_Type item) \<and>
            (wl_SubnetCIDR req = [] \<or> leaseEventMatchesSubnet d s (wl_SubnetCIDR req) (ev_Data item)))
          (NormalizeEvent now evt)))"

definition discovery_event_message :: "audit_value event \<Rightarrow> discoveryEventMessage" where
  "discovery_event_message item =
     (let v = map_of (ev_Data item) in
      \<lparr>md_Type = ev_Type item, md_ScanID = mustString (v ''scan_id''),
       md_Subnet = firstNonEmpty [mustString (v ''subnet''), mustString (v ''subnet_cidr'')], md_IP = mustString (v ''ip''),
       md_Found = firstNonZero [mustInt (v ''found''), mustInt (v ''total_hosts'')], md_MACs = mustStrings (v ''macs''),
       md_OccurredAt = time_unix (ev_Timestamp item), md_Note = mustString (v ''note'')\<rparr>)"

definition watch_discovery_event :: "time \<Rightarrow> 's \<times> audit_value event \<Rightarrow> bytes list" where
  "watch_discovery_event now = (\<lambda>(s, evt).
     map (\<lambda>item. discovery_event_marshal (discovery_event_message item))
       (filter (\<lambda>item. starts_with ''discovery.'' (ev_Type item) \<and> \<not> sublist ''scan_'' (ev_Type item)) (NormalizeEvent now evt)))"

text \<open>The frames that are sent until one is too large, and the error of that one.\<close>

fun send_all :: "bytes list \<Rightarrow> bytes list \<times> grpc_error option" where
  "send_all [] = ([], None)"
| "send_all (m # ms) =
     (case encodeGRPCFrame m of
        Inl err \<Rightarrow> ([], Some (OtherError err))
      | Inr raw \<Rightarrow> (case send_all ms of (frames, err) \<Rightarrow> (raw # frames, err)))"

type_synonym 's streaming = "'s grpc_request \<Rightarrow> 's grpc_state \<Rightarrow> 's grpc_state \<times> bytes list \<times> grpc_error option"

text \<open>The stream subscribes for as long as it runs.\<close>

definition grpc_stream :: "('s \<times> audit_value event \<Rightarrow> bytes list) \<Rightarrow> 's streaming" where
  "grpc_stream messages q s =
     (case gs_broker s of
        None \<Rightarrow> (s, [], Some (StatusError codeFailedPrecondition ''event broker is not configured''))
      | Some b \<Rightarrow>
          (case Subscribe b of
             (b', i) \<Rightarrow> (s\<lparr>gs_broker := Some (bk_unsubscribe i b')\<rparr>, send_all (concat (map messages (gq_channel q))))))"

section \<open>Methods\<close>

text \<open>A method decodes its request and then answers, or streams.\<close>

datatype 's grpc_body =
    Unary "bytes \<Rightarrow> go_error + 's unary"
  | Streaming "bytes \<Rightarrow> go_error + 's streaming"

definition decoded :: "(bytes \<Rightarrow> go_error + 'a) \<Rightarrow> ('a \<Rightarrow> 'b) \<Rightarrow> bytes \<Rightarrow> go_error + 'b" where
  "decoded decode run data = rbind (decode data) (\<lambda>x. Inr (run x))"

type_synonym 's method_table = "(string \<times> string \<times> 's grpc_body) list"

definition registerSubnetService :: "'s grpc_deps \<Rightarrow> time \<Rightarrow> 's method_table" where
  "registerSubnetService d now =
    [(''/monsoon.v1.SubnetService/ListSubnets'', DefaultRoleViewer, Unary (decoded decodeEmpty (\<lambda>_. grpc_listSubnets d))),
     (''/monsoon.v1.SubnetService/CreateSubnet'', DefaultRoleOperator, Unary (decoded decodeSubnetMutationRequest (grpc_upsertSubnet d now))),
     (''/monsoon.v1.SubnetService/GetSubnet'', DefaultRoleViewer, Unary (decoded decodeCIDRRequest (grpc_getSubnet d))),
     (''/monsoon.v1.SubnetService/UpdateSubnet'', DefaultRoleOperator, Unary (decoded decodeSubnetMutationRequest (grpc_upsertSubnet d now))),
     (''/monsoon.v1.SubnetService/DeleteSubnet'', DefaultRoleOperator, Unary (decoded decodeCIDRRequest (grpc_deleteSubnet d now))),
     (''/monsoon.v1.SubnetService/GetSubnetUtilization'', DefaultRoleViewer, Unary (decoded decodeCIDRRequest (grpc_getSubnetUtilization d)))]"

definition registerLeaseService :: "'s grpc_deps \<Rightarrow> time \<Rightarrow> 's method_table" where
  "registerLeaseService d now =
    [(''/monsoon.v1.LeaseService/ListLeases'', DefaultRoleViewer, Unary (decoded decodeListLeasesRequest (grpc_listLeases d))),
     (''/monsoon.v1.LeaseService/GetLease'', DefaultRoleViewer, Unary (decoded decodeIPRequest (grpc_getLease d))),
     (''/monsoon.v1.LeaseService/ReleaseLease'', DefaultRoleOperator, Unary (decoded decodeIPRequest (grpc_releaseLease d now))),
     (''/monsoon.v1.LeaseService/WatchLeases'', DefaultRoleViewer,
        Streaming (decoded decodeWatchLeasesRequest (\<lambda>req. grpc_stream (watch_lease_event d now req))))]"

definition registerAddressService :: "'s grpc_deps \<Rightarrow> time \<Rightarrow> 's method_table" where
  "registerAddressService d now =
    [(''/monsoon.v1.AddressService/SearchAddresses'', DefaultRoleViewer, Unary (decoded decodeSearchAddressesRequest (grpc_searchAddresses d))),
     (''/monsoon.v1.AddressService/GetAddress'', DefaultRoleViewer, Unary (decoded decodeIPRequest (grpc_getAddress d))),
     (''/monsoon.v1.AddressService/ReserveAddress'', DefaultRoleOperator, Unary (decoded decodeReserveAddressRequest (grpc_reserveAddress d now))),
     (''/monsoon.v1.AddressService/ReleaseAddress'', DefaultRoleOperator, Unary (decoded decodeIPRequest (grpc_releaseAddress d now))),
     (''/monsoon.v1.AddressService/NextAvailable'', DefaultRoleViewer, Unary (decoded decodeNextAvailableRequest (grpc_nextAvailable d)))]"

definition registerDiscoveryService :: "'s grpc_deps \<Rightarrow> time \<Rightarrow> 's method_table" where
  "registerDiscoveryService d now =
    [(''/monsoon.v1.DiscoveryService/TriggerScan'', DefaultRoleOperator, Unary (decoded decodeTriggerScanRequest (grpc_triggerScan d now))),
     (''/monsoon.v1.DiscoveryService/GetConflicts'', DefaultRoleViewer, Unary (decoded decode_no_fields (\<lambda>_. grpc_getConflicts d))),
     (''/monsoon.v1.DiscoveryService/WatchDiscovery'', DefaultRoleViewer,
        Streaming (decoded decode_no_fields (\<lambda>_. grpc_stream (watch_discovery_event now))))]"

definition registerSystemService :: "'s grpc_deps \<Rightarrow> time \<Rightarrow> 's method_table" where
  "registerSystemService d now =
    [(''/monsoon.v1.SystemService/GetHealth'', [], Unary (decoded decodeEmpty (\<lambda>_. grpc_systemHealth d now))),
     (''/monsoon.v1.SystemService/GetReadiness'', [], Unary (decoded decodeEmpty (\<lambda>_. grpc_systemHealth d now)))]"

definition grpc_methods :: "'s grpc_deps \<Rightarrow> time \<Rightarrow> 's method_table" where
  "grpc_methods d now =
     registerSubnetService d now @ registerLeaseService d now @ registerAddressService d now @ registerDiscoveryService d now @ registerSystemService d now"

section \<open>Requests\<close>

definition grpc_authorize :: "http_request \<Rightarrow> string \<Rightarrow> grpc_error option" where
  "grpc_authorize r requiredRole =
     (if requiredRole = [] then None
      else
        (case rq_identity r of
           None \<Rightarrow> if AuthEnforcedFromContext r then Some (StatusError codeUnauthenticated ''authentication required'') else None
         | Some identity \<Rightarrow>
             if \<not> HasRole requiredRole (id_Role identity) then Some (StatusError codePermissionDenied ''permission denied'') else None))"

definition grpc_status :: "nat \<times> string \<Rightarrow> grpc_response" where
  "grpc_status = (\<lambda>(code, message). GrpcStatus code message [])"

definition unary_response :: "grpc_error + bytes \<Rightarrow> grpc_response" where
  "unary_response r =
     (case r of
        Inl err \<Rightarrow> grpc_status (statusFromError (Some err))
      | Inr body \<Rightarrow>
          (case encodeGRPCFrame body of
             Inl err \<Rightarrow> GrpcStatus codeInternal (go_error_text err) []
           | Inr raw \<Rightarrow> GrpcStatus codeOK [] [raw]))"

definition grpc_ServeHTTP :: "'s grpc_deps \<Rightarrow> 's grpc_request \<Rightarrow> 's grpc_state \<Rightarrow> 's grpc_state \<times> grpc_response" where
  "grpc_ServeHTTP d q s =
     (let r = gq_http q in
      if rq_Method r \<noteq> ''POST'' then (s, HttpError 405)
      else if gq_ProtoMajor q < 2 then (s, HttpError 505)
      else if \<not> starts_with ''application/grpc'' (ToLower (TrimSpace (rq_Header r ''Content-Type''))) then (s, HttpError 415)
      else
        (case map_of (grpc_methods d (rq_now r)) (rq_Path r) of
           None \<Rightarrow> (s, GrpcStatus codeNotFound ''unknown rpc method'' [])
         | Some (requiredRole, body) \<Rightarrow>
        (case grpc_authorize r requiredRole of
           Some err \<Rightarrow> (s, grpc_status (statusFromError (Some err)))
         | None \<Rightarrow>
        (case decodeGRPCFrame (rq_Body r) of
           Inl err \<Rightarrow> (s, GrpcStatus codeInvalidArgument (go_error_text err) [])
         | Inr payload \<Rightarrow>
             (case body of
                Unary f \<Rightarrow>
                  (case f payload of
                     Inl err \<Rightarrow> (s, GrpcStatus codeInvalidArgument (go_error_text err) [])
                   | Inr run \<Rightarrow> (case run s of (s', result) \<Rightarrow> (s', unary_response result)))
              | Streaming f \<Rightarrow>
                  (case f payload of
                     Inl err \<Rightarrow> (s, GrpcStatus codeInvalidArgument (go_error_text err) [])
                   | Inr run \<Rightarrow>
                       (case run q s of (s', frames, err) \<Rightarrow> (s', case statusFromError err of (code, message) \<Rightarrow> GrpcStatus code message frames))))))))"

end
