(* ===== verification/GrpcProps.thy ===== *)
theory GrpcProps
  imports Grpc DbDemo
begin

text \<open>
  The gRPC interface: what is written in a request is what is read, with the exception of negative numbers; and
  what a call may change.
\<close>

section \<open>Requests\<close>

text \<open>Texts as a client sends them, which the server's trimming leaves alone.\<close>

definition wire_text :: "string \<Rightarrow> bool" where
  "wire_text t \<longleftrightarrow> TrimSpace t = t \<and> length t < 2 ^ 64"

definition good_mutation :: "subnetMutationRequest \<Rightarrow> bool" where
  "good_mutation r \<longleftrightarrow> wire_text (sm_CIDR r) \<and> wire_text (sm_Name r) \<and> wire_text (sm_Gateway r) \<and> wire_text (sm_PoolStart r) \<and>
     wire_text (sm_PoolEnd r) \<and> (\<forall>x\<in>set (sm_DNS r). wire_text x \<and> x \<noteq> []) \<and>
     0 \<le> sm_VLAN r \<and> sm_VLAN r < 2 ^ 63 \<and> 0 \<le> sm_LeaseSec r \<and> sm_LeaseSec r < 2 ^ 63"

lemma mutation_steps:
  "wire_text w \<Longrightarrow> sm_CIDR m = [] \<Longrightarrow>
     readProtoFields mutation_field (maybe_bytes 1 w @ rest) m = readProtoFields mutation_field rest (m\<lparr>sm_CIDR := w\<rparr>)"
  "wire_text w \<Longrightarrow> sm_Name m = [] \<Longrightarrow>
     readProtoFields mutation_field (maybe_bytes 2 w @ rest) m = readProtoFields mutation_field rest (m\<lparr>sm_Name := w\<rparr>)"
  "wire_text w \<Longrightarrow> sm_Gateway m = [] \<Longrightarrow>
     readProtoFields mutation_field (maybe_bytes 4 w @ rest) m = readProtoFields mutation_field rest (m\<lparr>sm_Gateway := w\<rparr>)"
  "wire_text w \<Longrightarrow> sm_PoolStart m = [] \<Longrightarrow>
     readProtoFields mutation_field (maybe_bytes 7 w @ rest) m = readProtoFields mutation_field rest (m\<lparr>sm_PoolStart := w\<rparr>)"
  "wire_text w \<Longrightarrow> sm_PoolEnd m = [] \<Longrightarrow>
     readProtoFields mutation_field (maybe_bytes 8 w @ rest) m = readProtoFields mutation_field rest (m\<lparr>sm_PoolEnd := w\<rparr>)"
  by (rule read_maybe_bytes; simp add: mutation_field_def good_field_def wire_text_def)+

lemma mutation_int_steps:
  "wire_int v < 2 ^ 63 \<Longrightarrow> sm_VLAN m = 0 \<Longrightarrow>
     readProtoFields mutation_field (maybe_int 3 (wire_int v) @ rest) m = readProtoFields mutation_field rest (m\<lparr>sm_VLAN := int (wire_int v)\<rparr>)"
  "\<not> sm_DHCPEnable m \<Longrightarrow>
     readProtoFields mutation_field (maybe_int 6 (if b then 1 else 0) @ rest) m = readProtoFields mutation_field rest (m\<lparr>sm_DHCPEnable := b\<rparr>)"
  "wire_int v < 2 ^ 63 \<Longrightarrow> sm_LeaseSec m = 0 \<Longrightarrow>
     readProtoFields mutation_field (maybe_int 9 (wire_int v) @ rest) m = readProtoFields mutation_field rest (m\<lparr>sm_LeaseSec := int (wire_int v)\<rparr>)"
  by (cases m, rule read_maybe_int; auto simp: mutation_field_def good_field_def uint64ToInt_def uint64ToInt64_def parseBool_def)+

lemma fold_append: "fold (\<lambda>x m. m\<lparr>sm_DNS := sm_DNS m @ [x]\<rparr>) xs m = m\<lparr>sm_DNS := sm_DNS m @ xs\<rparr>"
  by (induction xs arbitrary: m) auto

lemma mutation_dns:
  "\<forall>x\<in>set xs. wire_text x \<and> x \<noteq> [] \<Longrightarrow>
   readProtoFields mutation_field (strings_field 5 xs @ rest) m = readProtoFields mutation_field rest (m\<lparr>sm_DNS := sm_DNS m @ xs\<rparr>)"
  using read_strings [of 5 xs mutation_field "\<lambda>x m. m\<lparr>sm_DNS := sm_DNS m @ [x]\<rparr>" rest m]
  by (simp add: fold_append good_field_def mutation_field_def wire_text_def)

lemma fields_good: "good_field 1" "good_field 2" "good_field 3" "good_field 4" "good_field 5" "good_field 6" "good_field 7"
  "good_field 8" "good_field 9" "good_field (Suc 0)"
  by (simp_all add: good_field_def)

text \<open>What a mutation request reads as: itself, with its numbers as they are on the wire.\<close>

lemma mutation_reads:
  assumes "wire_text (sm_CIDR r)" "wire_text (sm_Name r)" "wire_text (sm_Gateway r)" "wire_text (sm_PoolStart r)"
    "wire_text (sm_PoolEnd r)" "\<forall>x\<in>set (sm_DNS r). wire_text x \<and> x \<noteq> []"
    "wire_int (sm_VLAN r) < 2 ^ 63" "wire_int (sm_LeaseSec r) < 2 ^ 63"
  shows "decodeSubnetMutationRequest (mutation_marshal r) =
    Inr (r\<lparr>sm_VLAN := int (wire_int (sm_VLAN r)), sm_LeaseSec := int (wire_int (sm_LeaseSec r))\<rparr>)"
proof -
  have "mutation_marshal r = maybe_bytes 1 (sm_CIDR r) @ maybe_bytes 2 (sm_Name r) @ maybe_int 3 (wire_int (sm_VLAN r)) @
      maybe_bytes 4 (sm_Gateway r) @ strings_field 5 (sm_DNS r) @ maybe_int 6 (if sm_DHCPEnable r then 1 else 0) @
      maybe_bytes 7 (sm_PoolStart r) @ maybe_bytes 8 (sm_PoolEnd r) @ maybe_int 9 (wire_int (sm_LeaseSec r)) @ []"
    by (simp add: mutation_marshal_def append_fields append_strings_field fields_good del: One_nat_def)
  then show ?thesis
    using assms by (simp add: decodeSubnetMutationRequest_def mutation_steps mutation_int_steps mutation_dns empty_mutation_def
        read_end split del: if_split del: One_nat_def append_Nil2)
qed

lemma wire_int_nonneg: "0 \<le> v \<Longrightarrow> int (wire_int v) = v" "0 \<le> v \<Longrightarrow> v < 2 ^ 63 \<Longrightarrow> wire_int v < 2 ^ 63"
  by (auto simp: wire_int_def nat_less_iff)

lemma wire_int_neg: "0 < v \<Longrightarrow> int (wire_int (- v)) = 2 * v - 1" "0 < v \<Longrightarrow> v \<le> 2 ^ 62 \<Longrightarrow> wire_int (- v) < 2 ^ 63"
  by (auto simp: wire_int_def nat_less_iff)

definition good_search :: "searchRequest \<Rightarrow> bool" where
  "good_search q \<longleftrightarrow> wire_text (fq_SubnetCIDR q) \<and> wire_text (fq_State q) \<and> wire_text (fq_Query q) \<and>
     0 \<le> fq_Limit q \<and> fq_Limit q < 2 ^ 63"

lemma search_steps:
  "wire_text w \<Longrightarrow> fq_SubnetCIDR m = [] \<Longrightarrow>
     readProtoFields search_field (maybe_bytes 1 w @ rest) m = readProtoFields search_field rest (m\<lparr>fq_SubnetCIDR := w\<rparr>)"
  "wire_text w \<Longrightarrow> fq_State m = [] \<Longrightarrow>
     readProtoFields search_field (maybe_bytes 2 w @ rest) m = readProtoFields search_field rest (m\<lparr>fq_State := w\<rparr>)"
  "wire_text w \<Longrightarrow> fq_Query m = [] \<Longrightarrow>
     readProtoFields search_field (maybe_bytes 3 w @ rest) m = readProtoFields search_field rest (m\<lparr>fq_Query := w\<rparr>)"
  by (rule read_maybe_bytes; simp add: search_field_def good_field_def wire_text_def)+

lemma search_limit:
  "wire_int v < 2 ^ 63 \<Longrightarrow> fq_Limit m = 0 \<Longrightarrow>
   readProtoFields search_field (maybe_int 4 (wire_int v) @ rest) m = readProtoFields search_field rest (m\<lparr>fq_Limit := int (wire_int v)\<rparr>)"
  by (cases m, rule read_maybe_int; auto simp: search_field_def good_field_def uint64ToInt_def)

lemma search_reads:
  assumes "good_search q"
  shows "readProtoFields search_field (search_marshal q) empty_search = Inr q"
proof -
  have "search_marshal q = maybe_bytes 1 (fq_SubnetCIDR q) @ maybe_bytes 2 (fq_State q) @ maybe_bytes 3 (fq_Query q) @
      maybe_int 4 (wire_int (fq_Limit q)) @ []"
    by (simp add: search_marshal_def append_fields fields_good del: One_nat_def)
  then show ?thesis
    using assms wire_int_nonneg [of "fq_Limit q"] by (simp add: good_search_def search_steps search_limit empty_search_def read_end
        del: One_nat_def append_Nil2)
qed

definition good_reserve :: "reserveAddressRequest \<Rightarrow> bool" where
  "good_reserve a \<longleftrightarrow> wire_text (ra_IP a) \<and> wire_text (ra_SubnetCIDR a) \<and> wire_text (ra_MAC a) \<and> wire_text (ra_Hostname a)"

lemma reserve_steps:
  "wire_text w \<Longrightarrow> ra_IP m = [] \<Longrightarrow>
     readProtoFields reserve_field (maybe_bytes 1 w @ rest) m = readProtoFields reserve_field rest (m\<lparr>ra_IP := w\<rparr>)"
  "wire_text w \<Longrightarrow> ra_SubnetCIDR m = [] \<Longrightarrow>
     readProtoFields reserve_field (maybe_bytes 2 w @ rest) m = readProtoFields reserve_field rest (m\<lparr>ra_SubnetCIDR := w\<rparr>)"
  "wire_text w \<Longrightarrow> ra_MAC m = [] \<Longrightarrow>
     readProtoFields reserve_field (maybe_bytes 3 w @ rest) m = readProtoFields reserve_field rest (m\<lparr>ra_MAC := w\<rparr>)"
  "wire_text w \<Longrightarrow> ra_Hostname m = [] \<Longrightarrow>
     readProtoFields reserve_field (maybe_bytes 4 w @ rest) m = readProtoFields reserve_field rest (m\<lparr>ra_Hostname := w\<rparr>)"
  by (rule read_maybe_bytes; simp add: reserve_field_def good_field_def wire_text_def)+

lemma reserve_reads:
  assumes "good_reserve a"
  shows "decodeReserveAddressRequest (reserve_marshal a) = Inr a"
proof -
  have "reserve_marshal a = maybe_bytes 1 (ra_IP a) @ maybe_bytes 2 (ra_SubnetCIDR a) @ maybe_bytes 3 (ra_MAC a) @
      maybe_bytes 4 (ra_Hostname a) @ []"
    by (simp add: reserve_marshal_def append_fields fields_good del: One_nat_def)
  then show ?thesis
    using assms by (simp add: decodeReserveAddressRequest_def good_reserve_def reserve_steps read_end del: One_nat_def append_Nil2)
qed

definition good_trigger :: "triggerScanRequest \<Rightarrow> bool" where
  "good_trigger t \<longleftrightarrow> wire_text (tr_Reason t) \<and> (\<forall>x\<in>set (tr_Subnets t). wire_text x \<and> x \<noteq> [])"

lemma trigger_reads:
  assumes "good_trigger t"
  shows "decodeTriggerScanRequest (trigger_marshal t) = Inr t"
proof -
  have m: "trigger_marshal t = maybe_bytes 1 (tr_Reason t) @ strings_field 2 (tr_Subnets t) @ []"
    by (simp add: trigger_marshal_def append_fields append_strings_field fields_good del: One_nat_def)
  have f: "fold (\<lambda>x m. m\<lparr>tr_Subnets := tr_Subnets m @ [x]\<rparr>) xs m = m\<lparr>tr_Subnets := tr_Subnets m @ xs\<rparr>" for xs m
    by (induction xs arbitrary: m) auto
  have reason: "readProtoFields trigger_field (maybe_bytes 1 (tr_Reason t) @ rest) \<lparr>tr_Reason = [], tr_Subnets = []\<rparr> =
      readProtoFields trigger_field rest \<lparr>tr_Reason = tr_Reason t, tr_Subnets = []\<rparr>" for rest
    by (rule read_maybe_bytes) (use assms in \<open>simp_all add: good_trigger_def wire_text_def good_field_def trigger_field_def\<close>)
  have "readProtoFields trigger_field (strings_field 2 (tr_Subnets t) @ []) m =
      readProtoFields trigger_field [] (fold (\<lambda>x m. m\<lparr>tr_Subnets := tr_Subnets m @ [x]\<rparr>) (tr_Subnets t) m)" for m
    by (rule read_strings) (use assms in \<open>auto simp: good_trigger_def wire_text_def good_field_def trigger_field_def\<close>)
  then show ?thesis unfolding decodeTriggerScanRequest_def m reason by (simp add: f read_end)
qed

lemma text_reads:
  assumes "wire_text w" "w = [] \<Longrightarrow> upd w m = m"
  shows "readProtoFields (text_field upd) (appendString [] 1 w) m = Inr (upd w m)"
  using read_maybe_bytes [of 1 w "text_field upd" m "upd w m" "[]"] assms
  by (simp add: append_fields fields_good good_field_def text_field_def wire_text_def read_end)

text \<open>C31: Every request of the gRPC interface comes back as it was written: decoding what the request's encoder
  writes gives the request, for all requests whose texts have no white space around them, whose
  lists have no empty text, and whose numbers are not negative.\<close>

theorem grpc_request_roundtrip:
  assumes "good_mutation m" "good_search q" "good_reserve a" "good_trigger t" "wire_text w"
  shows "decodeSubnetMutationRequest (mutation_marshal m) = Inr m \<and>
    decodeListLeasesRequest (search_marshal q) = Inr q \<and> decodeSearchAddressesRequest (search_marshal q) = Inr q \<and>
    decodeReserveAddressRequest (reserve_marshal a) = Inr a \<and> decodeTriggerScanRequest (trigger_marshal t) = Inr t \<and>
    decodeCIDRRequest (cidr_marshal \<lparr>cr_CIDR = w\<rparr>) = Inr \<lparr>cr_CIDR = w\<rparr> \<and>
    decodeIPRequest (ip_marshal \<lparr>ir_IP = w\<rparr>) = Inr \<lparr>ir_IP = w\<rparr> \<and>
    decodeWatchLeasesRequest (watch_marshal \<lparr>wl_SubnetCIDR = w\<rparr>) = Inr \<lparr>wl_SubnetCIDR = w\<rparr> \<and>
    decodeNextAvailableRequest (next_marshal \<lparr>na_SubnetCIDR = w\<rparr>) = Inr \<lparr>na_SubnetCIDR = w\<rparr>"
proof -
  have "decodeSubnetMutationRequest (mutation_marshal m) = Inr m"
    using mutation_reads [of m] assms(1) wire_int_nonneg [of "sm_VLAN m"] wire_int_nonneg [of "sm_LeaseSec m"]
    by (simp add: good_mutation_def)
  then show ?thesis
    using assms by (simp add: decodeListLeasesRequest_def decodeSearchAddressesRequest_def search_reads reserve_reads trigger_reads
        decodeCIDRRequest_def cidr_marshal_def decodeIPRequest_def ip_marshal_def decodeWatchLeasesRequest_def watch_marshal_def
        decodeNextAvailableRequest_def next_marshal_def text_reads del: One_nat_def)
qed

text \<open>A negative number does not come back: a request to store a subnet with the lease time \<open>- v\<close>, for a positive
  \<open>v\<close> up to \<open>2 ^ 62\<close>, is read as one with the lease time \<open>2 * v - 1\<close>, because the
  writer uses the zig-zag form for negative numbers only and the reader never does.\<close>

theorem grpc_negative_misread:
  assumes "good_mutation m" "0 < v" "v \<le> 2 ^ 62"
  shows "decodeSubnetMutationRequest (mutation_marshal (m\<lparr>sm_LeaseSec := - v\<rparr>)) = Inr (m\<lparr>sm_LeaseSec := 2 * v - 1\<rparr>)"
  using mutation_reads [of "m\<lparr>sm_LeaseSec := - v\<rparr>"] assms wire_int_nonneg [of "sm_VLAN m"] wire_int_neg [of v]
  by (simp add: good_mutation_def)

section \<open>What a call changes\<close>

definition keeps_state :: "'s grpc_state \<Rightarrow> 's grpc_state \<Rightarrow> bool" where
  "keeps_state s s' \<longleftrightarrow> gs_store s' = gs_store s \<and> gs_discovery s' = gs_discovery s"

definition reads_only :: "'s grpc_body \<Rightarrow> bool" where
  "reads_only body \<longleftrightarrow>
     (case body of
        Unary f \<Rightarrow> \<forall>payload run s. f payload = Inr run \<longrightarrow> keeps_state s (fst (run s))
      | Streaming f \<Rightarrow> \<forall>payload run q s. f payload = Inr run \<longrightarrow> keeps_state s (fst (run q s)))"

lemma keeps_state_refl [simp]: "keeps_state s s"
  by (simp add: keeps_state_def)

lemma reads_only_unary: "(\<And>x s. keeps_state s (fst (run x s))) \<Longrightarrow> reads_only (Unary (decoded decode run))"
  by (auto simp: reads_only_def decoded_def rbind_Inr_conv)

lemma reads_only_streaming: "(\<And>x q s. keeps_state s (fst (run x q s))) \<Longrightarrow> reads_only (Streaming (decoded decode run))"
  by (auto simp: reads_only_def decoded_def rbind_Inr_conv)

lemma grpc_readers:
  "keeps_state s (fst (grpc_listSubnets d s))" "keeps_state s (fst (grpc_getSubnet d r1 s))"
  "keeps_state s (fst (grpc_getSubnetUtilization d r1 s))" "keeps_state s (fst (grpc_listLeases d r2 s))"
  "keeps_state s (fst (grpc_getLease d r3 s))" "keeps_state s (fst (grpc_searchAddresses d r2 s))"
  "keeps_state s (fst (grpc_getAddress d r3 s))" "keeps_state s (fst (grpc_nextAvailable d r4 s))"
  "keeps_state s (fst (grpc_getConflicts d s))" "keeps_state s (fst (grpc_systemHealth d now s))"
  "keeps_state s (fst (grpc_stream f q s))"
  by (auto simp: grpc_listSubnets_def grpc_getSubnet_def grpc_getSubnetUtilization_def grpc_listLeases_def grpc_getLease_def
      grpc_searchAddresses_def grpc_getAddress_def grpc_nextAvailable_def grpc_getConflicts_def grpc_systemHealth_def grpc_stream_def
      no_ipam_def no_leases_def no_discovery_def grpc_fail_def Let_def keeps_state_def split: option.split sum.split prod.split)

lemmas method_tables = grpc_methods_def registerSubnetService_def registerLeaseService_def registerAddressService_def
  registerDiscoveryService_def registerSystemService_def

lemma methods_roles: "\<forall>(path, role, body)\<in>set (grpc_methods d now). role = DefaultRoleOperator \<or> reads_only body"
  by (simp add: method_tables reads_only_unary reads_only_streaming grpc_readers)

text \<open>C30: Through the gRPC interface nothing that is stored changes without the role of an operator: when a call changes the
  store or the discovery engine, the caller is someone whose role includes the operator's, or nobody, while
  authentication is not enforced.\<close>

theorem grpc_changes_need_role:
  assumes "grpc_ServeHTTP d q s = (s', resp)" "\<not> (gs_store s' = gs_store s \<and> gs_discovery s' = gs_discovery s)"
  shows "case rq_identity (gq_http q) of
      None \<Rightarrow> \<not> AuthEnforcedFromContext (gq_http q)
    | Some i \<Rightarrow> HasRole DefaultRoleOperator (id_Role i)"
proof -
  have ch: "\<not> keeps_state s s'" using assms(2) by (simp add: keeps_state_def)
  obtain role body where m: "map_of (grpc_methods d (rq_now (gq_http q))) (rq_Path (gq_http q)) = Some (role, body)"
    using assms(1) ch by (cases "map_of (grpc_methods d (rq_now (gq_http q))) (rq_Path (gq_http q))")
      (auto simp: grpc_ServeHTTP_def Let_def split: if_splits)
  have ok: "grpc_authorize (gq_http q) role = None"
    using assms(1) ch m by (cases "grpc_authorize (gq_http q) role") (auto simp: grpc_ServeHTTP_def Let_def split: if_splits)
  have "\<not> reads_only body"
  proof
    assume r: "reads_only body"
    have "keeps_state s s'"
      using assms(1) m ok r
      by (auto simp: grpc_ServeHTTP_def reads_only_def Let_def split: if_splits sum.splits grpc_body.splits prod.splits)
        (metis fst_conv)+
    then show False using ch by simp
  qed
  then have "role = DefaultRoleOperator" using methods_roles [of d "rq_now (gq_http q)"] map_of_SomeD [OF m] by blast
  then show ?thesis using ok by (auto simp: grpc_authorize_def split: option.splits if_splits)
qed

section \<open>Instances\<close>

definition demo_mutation :: subnetMutationRequest where
  "demo_mutation = \<lparr>sm_CIDR = ''10.0.0.0/24'', sm_Name = [], sm_VLAN = 7, sm_Gateway = [], sm_DNS = [''10.0.0.1''], sm_DHCPEnable = True,
     sm_PoolStart = [], sm_PoolEnd = [], sm_LeaseSec = 60\<rparr>"

lemma demo_texts: "wire_text ''10.0.0.0/24''" "wire_text ''10.0.0.1''" "wire_text []" "wire_text ''x''"
proof -
  have "TrimSpace ''10.0.0.0/24'' = ''10.0.0.0/24''" "TrimSpace ''10.0.0.1'' = ''10.0.0.1''" "TrimSpace [] = []" "TrimSpace ''x'' = ''x''"
    by code_simp+
  then show "wire_text ''10.0.0.0/24''" "wire_text ''10.0.0.1''" "wire_text []" "wire_text ''x''" by (simp_all add: wire_text_def)
qed

lemma demo_mutation_good: "good_mutation demo_mutation"
  by (simp add: good_mutation_def demo_mutation_def demo_texts)

theorem grpc_request_roundtrip_witness:
  "decodeSubnetMutationRequest (mutation_marshal demo_mutation) = Inr demo_mutation"
  using grpc_request_roundtrip [of demo_mutation "\<lparr>fq_SubnetCIDR = [], fq_State = [], fq_Query = ''x'', fq_Limit = 3\<rparr>"
      "\<lparr>ra_IP = ''10.0.0.1'', ra_SubnetCIDR = [], ra_MAC = ''x'', ra_Hostname = []\<rparr>"
      "\<lparr>tr_Reason = ''x'', tr_Subnets = [''10.0.0.0/24'']\<rparr>" "''10.0.0.1''"]
  by (simp add: demo_mutation_good good_search_def good_reserve_def good_trigger_def demo_texts)

theorem grpc_negative_misread_witness:
  "decodeSubnetMutationRequest (mutation_marshal (demo_mutation\<lparr>sm_LeaseSec := - 1800\<rparr>)) = Inr (demo_mutation\<lparr>sm_LeaseSec := 3599\<rparr>)"
  using grpc_negative_misread [OF demo_mutation_good, of 1800] by simp

text \<open>A call by nobody, without authentication, that starts a scan.\<close>

definition demo_grpc :: "unit grpc_deps" where
  "demo_grpc = \<lparr>gd_leases = None, gd_ipam = None,
     gd_discovery = \<lparr>dv_db = \<lparr>db_Get = (\<lambda>s t k. Inl ErrNotFound), db_Put = (\<lambda>t k v now s. (s, None)), db_Delete = (\<lambda>t k now s. (s, None)),
         db_Rows = (\<lambda>s t. Inr [])\<rparr>,
       dv_tx = (\<lambda>f now s. (s, None)),
       dv_leases = \<lparr>op_Upsert = (\<lambda>now l s. (s, None)), op_GetByIP = (\<lambda>s ip. Inl ErrNotFound), op_GetByMAC = (\<lambda>s m. Inr []),
         op_GetByClientID = (\<lambda>s c. Inr []), op_ListBySubnet = (\<lambda>s i. Inr []), op_ListExpiringBefore = (\<lambda>s t. Inr []),
         op_Delete = (\<lambda>now ip s. (s, None)), op_ListAll = (\<lambda>s. Inr [])\<rparr>,
       dv_ipam = \<lparr>ie_db = \<lparr>db_Get = (\<lambda>s t k. Inl ErrNotFound), db_Put = (\<lambda>t k v now s. (s, None)), db_Delete = (\<lambda>t k now s. (s, None)),
         db_Rows = (\<lambda>s t. Inr [])\<rparr>, ie_leases = None, ie_subnet = table_codec [], ie_reservation = table_codec [], ie_address = table_codec []\<rparr>,
       dv_scan = table_codec [], dv_hosts = table_codec [], dv_rogue = table_codec [], dv_time = table_codec [],
       dv_scanID = (\<lambda>_. ''s''), dv_percent = (\<lambda>a b. 1)\<rparr>,
     gd_ratio = (\<lambda>a b. 0),
     gd_health = \<lparr>hd_Discovery = None, hd_DiscoveryEnabled = False, hd_DiscoveryEnabledFunc = None, hd_Version = [], hd_StorageReady = None,
       hd_DHCPv4Enabled = False, hd_DHCPv4Listen = [], hd_DHCPv4EnabledFunc = None, hd_DHCPv4ListenFunc = None, hd_DHCPv4Running = None,
       hd_HAEnabled = False, hd_HAEnabledFunc = None, hd_HAStatus = None, hd_StartedAt = 0, hd_time = (\<lambda>_. JNull),
       hd_duration = (\<lambda>_. []), hd_error = (\<lambda>_. [])\<rparr>,
     gd_json = (\<lambda>_. None)\<rparr>"

definition demo_call :: "unit grpc_request" where
  "demo_call = \<lparr>gq_http = \<lparr>rq_Method = ''POST'', rq_Path = ''/monsoon.v1.DiscoveryService/TriggerScan'', rq_Host = [], rq_RemoteAddr = [],
       rq_TLS = False, rq_Header = (\<lambda>_. ''application/grpc''), rq_Cookie = Map.empty, rq_Query = (\<lambda>_. []), rq_PathValue = (\<lambda>_. []),
       rq_Body = [CHR 0x00, CHR 0x00, CHR 0x00, CHR 0x00, CHR 0x00], rq_now = 40, rq_random = (\<lambda>_. Inr []), rq_requestID = None, rq_proxyTrusted = None,
       rq_authEnforced = None, rq_identity = None\<rparr>, gq_ProtoMajor = 2, gq_channel = []\<rparr>"

definition demo_grpc_state :: "unit grpc_state" where
  "demo_grpc_state = \<lparr>gs_store = (), gs_broker = None, gs_discovery = Some
     \<lparr>de_interval = 1, de_options = \<lparr>dc_Methods = [], dc_TCPPorts = [], dc_ProbeTimeout = 1, dc_MaxTargetsPerSubnet = 1, dc_MaxConcurrency = 1\<rparr>,
      de_scanning = False, de_lastScanAt = 0, de_nextScanAt = 0, de_latestID = [], de_latestRogue = [], de_progress = idle_progress\<rparr>\<rparr>"

lemma demo_call_starts:
  "gs_discovery (fst (grpc_ServeHTTP demo_grpc demo_call demo_grpc_state)) \<noteq> gs_discovery demo_grpc_state"
proof -
  have ct: "starts_with ''application/grpc'' (ToLower (TrimSpace ''application/grpc''))" by code_simp
  have frame: "decodeGRPCFrame ([CHR 0x00, CHR 0x00, CHR 0x00, CHR 0x00, CHR 0x00]) = Inr []"
    by (simp add: decodeGRPCFrame_def be_nat_def byte_nat_def)
  have r: "rq_Method (gq_http demo_call) = ''POST''" "rq_Path (gq_http demo_call) = ''/monsoon.v1.DiscoveryService/TriggerScan''"
    "rq_Header (gq_http demo_call) k = ''application/grpc''" "rq_Body (gq_http demo_call) = [CHR 0x00, CHR 0x00, CHR 0x00, CHR 0x00, CHR 0x00]"
    "rq_identity (gq_http demo_call) = None" "rq_authEnforced (gq_http demo_call) = None" "gq_ProtoMajor demo_call = 2" for k
    by (simp_all add: demo_call_def)
  have dec: "decodeTriggerScanRequest [] = Inr \<lparr>tr_Reason = [], tr_Subnets = []\<rparr>"
    by (simp add: decodeTriggerScanRequest_def read_end)
  show ?thesis
    by (simp add: grpc_ServeHTTP_def r ct frame method_tables grpc_authorize_def AuthEnforcedFromContext_def decoded_def dec
        grpc_triggerScan_def demo_grpc_state_def TriggerScan_def publish_grpc_def updateProgress_def Let_def)
qed

theorem grpc_changes_need_role_witness:
  "\<not> AuthEnforcedFromContext (gq_http demo_call)"
proof -
  obtain s' resp where run: "grpc_ServeHTTP demo_grpc demo_call demo_grpc_state = (s', resp)" by (metis surj_pair)
  have "case rq_identity (gq_http demo_call) of
      None \<Rightarrow> \<not> AuthEnforcedFromContext (gq_http demo_call)
    | Some i \<Rightarrow> HasRole DefaultRoleOperator (id_Role i)"
    using grpc_changes_need_role [OF run] demo_call_starts run by simp
  then show ?thesis by (simp add: demo_call_def)
qed

end
