(* ===== verification/WebsocketProps.thy ===== *)
theory WebsocketProps
  imports Websocket RestProps
begin

text \<open>
  The interface that streams: its frames read back, what a client gets, and that in the program as it is put
  together no stream starts.
\<close>

section \<open>Streams in the chain\<close>

lemma ws_behind_logging: "no_stream (LoggingMiddleware (ws_route parse sha1 base64 i h) w r s)"
  by (auto simp: LoggingMiddleware_def responseRecorder_def ws_route_def hub_Handler_def Upgrade_def http_error_def no_stream_def
      Let_def)

text \<open>Neither the stream of events nor a WebSocket ever starts. The route of the events works with a writer that
  can flush, and the one of the WebSocket needs a writer that can be hijacked; but in the chain of the program, whatever the configuration, the
  request and the writer, both answer with an error, because the logging hands them a writer that can do neither.\<close>

theorem streams_never_start:
  "(\<exists>s' resp. events_route \<lparr>w_Flusher = True, w_Hijacker = b\<rparr> r s = (s', Inr resp) \<and> rs_status resp = 200 \<and> rs_data resp = Some DStream) \<and>
   no_stream (Chain events_route (rest_middleware v) w r s) \<and>
   no_stream (Chain (ws_route parse sha1 base64 i h) (rest_middleware v) w r s)"
  by (auto simp: events_route_def intro!: chain_no_stream events_behind_logging ws_behind_logging)

section \<open>Frames\<close>

lemma and_127: "n AND 127 = n mod (128 :: nat)"
  using take_bit_eq_mask [of 7 n] by (simp add: mask_eq_exp_minus_1 take_bit_eq_mod)

lemma and_15: "n AND 15 = n mod (16 :: nat)"
  using take_bit_eq_mask [of 4 n] by (simp add: mask_eq_exp_minus_1 take_bit_eq_mod)

lemma and_128: "n AND 128 = 0 \<longleftrightarrow> even (n div (128 :: nat))"
  using and_exp_eq_0_iff_not_bit [of n 7] by (simp add: bit_iff_odd)

lemma or_128:
  assumes "n < 128"
  shows "128 OR n = 128 + (n :: nat)"
proof -
  have "128 + n = 128 OR n"
  proof (rule disjunctive_add)
    fix k
    show "\<not> bit (128 :: nat) k \<or> \<not> bit n k"
      using assms bit_exp_iff [of 7 k, where 'a = nat] by (auto simp: bit_iff_odd)
  qed
  then show ?thesis by simp
qed

lemma xor_byte_twice: "xor_byte (xor_byte a k) k = a"
proof -
  have b: "byte_nat (nat_byte (unat (w :: u8))) = unat w" for w
    using unsigned_less [of w, where 'a = nat] by simp
  have "xor_byte (xor_byte a k) k = nat_byte (unat (of_nat (byte_nat a) :: u8))"
    by (simp add: xor_byte_def b xor.assoc del: byte_nat_of)
  also have "\<dots> = a" by (simp add: unat_of_nat byte_nat_def nat_byte_def)
  finally show ?thesis .
qed

lemma mask_twice: "apply_mask key (apply_mask key payload) = payload"
  by (rule nth_equalityI) (auto simp: apply_mask_def xor_byte_twice)

text \<open>A frame as RFC 6455 has a client send it: the length of the second byte has the high bit, and the payload is masked with
  the four bytes before it.\<close>

definition client_frame :: "nat \<Rightarrow> bytes \<Rightarrow> bytes \<Rightarrow> bytes" where
  "client_frame opcode key payload =
     (let n = length payload in
      nat_byte (128 + opcode) #
      (if n < 126 then [nat_byte (128 + n)]
       else if n \<le> 65535 then nat_byte (128 + 126) # be 2 n
       else nat_byte (128 + 127) # be 8 n) @ key @ apply_mask key payload)"

lemma length_apply_mask [simp]: "length (apply_mask key payload) = length payload"
  by (simp add: apply_mask_def)

lemma byte_nat_small: "n < 256 \<Longrightarrow> byte_nat (nat_byte n) = n"
  by (simp add: byte_nat_def nat_byte_def)

text \<open>What is read after the two bytes of the header.\<close>

definition read_body :: "nat \<Rightarrow> bool \<Rightarrow> nat \<Rightarrow> bytes \<Rightarrow> go_error + frameHeader \<times> bytes \<times> bytes" where
  "read_body opcode masked n s =
     (if n > maxFramePayload then Inl (ErrMsg ''websocket frame payload too large'')
      else
        rbind (if masked then frame_bytes 4 s else Inr (replicate 4 (CHR 0x00), s)) (\<lambda>(key, s3).
          rbind (frame_bytes n s3) (\<lambda>(payload, s4).
            Inr (\<lparr>fh_opcode = opcode, fh_masked = masked, fh_length = n\<rparr>, if masked then apply_mask key payload else payload, s4))))"

lemma read_header:
  assumes "opcode < 16" "short < 128"
  shows "readFrame (nat_byte (128 + opcode) # nat_byte ((if masked then 128 else 0) + short) # s) =
    (if short = 126 then rbind (frame_bytes 2 s) (\<lambda>(buf, s2). read_body opcode masked (be_nat buf) s2)
     else if short = 127 then rbind (frame_bytes 8 s) (\<lambda>(buf, s2). read_body opcode masked (be_nat buf) s2)
     else read_body opcode masked short s)"
proof -
  let ?m = "if masked then 128 else 0 :: nat"
  have op: "byte_nat (nat_byte (128 + opcode)) AND 15 = opcode"
  proof -
    have "(opcode + 8 * 16) mod 16 = opcode" using assms(1) by (subst mod_mult_self1) simp
    then show ?thesis using assms(1) by (simp add: and_15 add.commute)
  qed
  have second: "byte_nat (nat_byte (?m + short)) = ?m + short" using assms(2) by simp
  have len: "(?m + short) AND 127 = short" using assms(2) by (simp add: and_127)
  have mask: "(?m + short) AND 128 \<noteq> 0 \<longleftrightarrow> masked" using assms(2) by (simp add: and_128)
  have two: "frame_bytes 2 (nat_byte (128 + opcode) # nat_byte (?m + short) # s) =
      Inr ([nat_byte (128 + opcode), nat_byte (?m + short)], s)"
    by (simp add: frame_bytes_def)
  have nth: "[a, b] ! 0 = a" "[a, b] ! 1 = b" for a b :: byte by simp_all
  show ?thesis
    unfolding readFrame_def two rbind.simps prod.case nth op second mask len Let_def read_body_def
    by (auto simp: frame_bytes_def)
qed

lemma read_length:
  assumes "opcode < 16" "n \<le> maxFramePayload"
  shows "readFrame (nat_byte (128 + opcode) #
      (if n < 126 then [nat_byte ((if masked then 128 else 0) + n)]
       else if n \<le> 65535 then nat_byte ((if masked then 128 else 0) + 126) # be 2 n
       else nat_byte ((if masked then 128 else 0) + 127) # be 8 n) @ s) = read_body opcode masked n s"
  using assms by (auto simp: read_header frame_bytes_def)

text \<open>C32: Frames come back as they were sent: what the server writes is read with the same opcode and payload and
  leaves the rest of the connection, and a frame that a client sends as RFC 6455 has it, masked with any key, is read with
  the payload unmasked. This holds for every opcode and every payload up to the limit of one megabyte.\<close>

theorem ws_frame_roundtrip:
  assumes "opcode < 16" "length key = 4" "length payload \<le> maxFramePayload"
  shows "(\<exists>raw. writeFrame opcode payload = Inr raw \<and>
      readFrame (raw @ rest) = Inr (\<lparr>fh_opcode = opcode, fh_masked = False, fh_length = length payload\<rparr>, payload, rest)) \<and>
    readFrame (client_frame opcode key payload @ rest) =
      Inr (\<lparr>fh_opcode = opcode, fh_masked = True, fh_length = length payload\<rparr>, payload, rest)"
proof
  show "\<exists>raw. writeFrame opcode payload = Inr raw \<and>
      readFrame (raw @ rest) = Inr (\<lparr>fh_opcode = opcode, fh_masked = False, fh_length = length payload\<rparr>, payload, rest)"
  proof -
    let ?raw = "nat_byte (128 + opcode) # (if length payload < 126 then [nat_byte ((if False then 128 else 0) + length payload)]
       else if length payload \<le> 65535 then nat_byte ((if False then 128 else 0) + 126) # be 2 (length payload)
       else nat_byte ((if False then 128 else 0) + 127) # be 8 (length payload)) @ payload"
    have "writeFrame opcode payload = Inr ?raw" using assms(1,3) by (simp add: writeFrame_def or_128 Let_def)
    moreover have "readFrame (?raw @ rest) = read_body opcode False (length payload) (payload @ rest)"
      using read_length [OF assms(1,3)] by (simp only: append_Cons append_assoc)
    ultimately show ?thesis using assms(3) by (simp add: read_body_def frame_bytes_def)
  qed
  have "readFrame (client_frame opcode key payload @ rest) = read_body opcode True (length payload) (key @ apply_mask key payload @ rest)"
    using read_length [OF assms(1,3), of True "key @ apply_mask key payload @ rest"]
    by (simp only: client_frame_def Let_def append_Cons append_assoc if_True)
  then show "readFrame (client_frame opcode key payload @ rest) =
      Inr (\<lparr>fh_opcode = opcode, fh_masked = True, fh_length = length payload\<rparr>, payload, rest)"
    using assms(2,3) by (simp add: read_body_def frame_bytes_def mask_twice)
qed

theorem ws_frame_roundtrip_witness:
  "readFrame (client_frame opcodeText ''abcd'' ''{}'' @ ''x'') =
     Inr (\<lparr>fh_opcode = opcodeText, fh_masked = True, fh_length = 2\<rparr>, ''{}'', ''x'')"
  using ws_frame_roundtrip [of opcodeText "''abcd''" "''{}''" "''x''"] by simp

section \<open>Subscriptions\<close>

text \<open>A client that unsubscribes from everything that it subscribed to gets every event.\<close>

lemma unsubscribe_all:
  assumes "\<forall>x\<in>set subs. TrimSpace x = x \<and> x \<noteq> []" "subs \<noteq> []"
  shows "applySubscription \<lparr>su_Action = ''unsubscribe'', su_Events = subs\<rparr> subs = [''*'']"
    "matchesSubscription ''*'' eventType"
proof -
  have action: "ToLower (TrimSpace ''unsubscribe'') = ''unsubscribe''" by code_simp
  have ev: "filter (\<lambda>x. x \<noteq> []) (map TrimSpace subs) = subs"
    using assms(1) by (induction subs) auto
  have none: "filter (\<lambda>c. \<forall>x\<in>set subs. \<not> EqualFold c x) subs = []"
    by (auto simp: filter_empty_conv EqualFold_def)
  show "applySubscription \<lparr>su_Action = ''unsubscribe'', su_Events = subs\<rparr> subs = [''*'']"
    using assms(2) none by (simp add: applySubscription_def action ev)
  have "TrimSpace ''*'' = ''*''" by code_simp
  then show "matchesSubscription ''*'' eventType" by (simp add: matchesSubscription_def)
qed

end
