(* ===== verification/Ddns.thy ===== *)
theory Ddns
  imports Netip Lease
begin

text \<open>
  \<^verbatim>\<open>src/internal/ddns\<close>: the client that keeps the DNS records of leases up to date by the DNS UPDATE of RFC 2136,
  signed by the TSIG of RFC 8945. The decoder of base64, HMAC-SHA-256, the random message numbers, the clock and the
  exchange of one datagram with the server are fields of an environment, by the number of the update. The texts of
  errors leave out the values that they quote.
\<close>

section \<open>Names\<close>

abbreviation dot :: byte where "dot \<equiv> CHR ''.''"

definition normalizeZone :: "string \<Rightarrow> string" where
  "normalizeZone zone = trim_set ''.'' (TrimSpace zone)"

definition normalizeHostname :: "string \<Rightarrow> string" where
  "normalizeHostname host = trim_set ''.'' (TrimSpace host)"

definition ensureFQDN :: "string \<Rightarrow> string" where
  "ensureFQDN name0 =
     (let name = TrimSpace name0 in
      if name = [] then ''.''
      else (let name = trim_set ''.'' name in if name = [] then ''.'' else name @ ''.''))"

definition validateDNSName :: "string \<Rightarrow> go_error option" where
  "validateDNSName name0 =
     (let name = TrimSpace name0 in
      if name = [] then Some (ErrMsg ''dns name is empty'')
      else if name = ''@'' then None
      else
        (let trimmed = TrimSuffix (ensureFQDN name) ''.'' in
         if trimmed = [] then None
         else if length trimmed > 253 then Some (ErrMsg ''dns name length exceeds max 253'')
         else
           (case List.find (\<lambda>label. label = [] \<or> length label > 63) (split_on dot trimmed) of
              None \<Rightarrow> None
            | Some label \<Rightarrow>
                Some (ErrMsg (if label = [] then ''dns name contains empty label'' else ''dns label length exceeds max 63'')))))"

text \<open>The length of a label is written in one byte.\<close>

definition ddns_label :: "string \<Rightarrow> bytes" where
  "ddns_label label = nat_byte (length label) # label"

definition encodeName :: "string \<Rightarrow> bytes" where
  "encodeName name0 =
     (let name = ensureFQDN name0 in
      if name = ''.'' then [CHR 0x00]
      else concat (map ddns_label (split_on dot (TrimSuffix name ''.''))) @ [CHR 0x00])"

definition encodeNameCanonical :: "string \<Rightarrow> bytes" where
  "encodeNameCanonical name = encodeName (ToLower (ensureFQDN name))"

section \<open>Records and updates\<close>

abbreviation (input) typeTSIG :: nat where "typeTSIG \<equiv> 250"
abbreviation (input) classINET :: nat where "classINET \<equiv> 1"
abbreviation (input) classNONE :: nat where "classNONE \<equiv> 254"
abbreviation (input) classANY :: nat where "classANY \<equiv> 255"
abbreviation (input) typeSOA :: nat where "typeSOA \<equiv> 6"
abbreviation (input) typePTR :: nat where "typePTR \<equiv> 12"
abbreviation (input) opcodeUpdate :: nat where "opcodeUpdate \<equiv> 5"

record rr =
  rr_name :: string
  rr_typ :: nat
  rr_class :: nat
  rr_ttl :: nat
  rr_rdata :: bytes

record zoneUpdate =
  zu_zone :: string
  zu_records :: "rr list"

datatype ddns_action = ActionUpsert | ActionDelete

definition ipType :: "ip \<Rightarrow> nat" where
  "ipType p = (if ip_To4 p \<noteq> [] then 1 else 28)"

definition ipRData :: "ip \<Rightarrow> bytes" where
  "ipRData p = (if ip_To4 p \<noteq> [] then ip_To4 p else ip_To16 p)"

text \<open>The duration in whole seconds, within 32 bits.\<close>

definition defaultTTLLease :: "duration \<Rightarrow> nat" where
  "defaultTTLLease d =
     (if d \<le> 0 then 300
      else (let secs = d div second_ns in
            if secs = 0 then 300 else if secs > 2 ^ 32 - 1 then 2 ^ 32 - 1 else nat secs))"

definition reverseIPv4Name :: "bytes \<Rightarrow> string" where
  "reverseIPv4Name p = join_on dot (map (\<lambda>i. dec (byte_nat (p ! i))) [3, 2, 1, 0] @ [''in-addr'', ''arpa''])"

definition nibbles :: "byte \<Rightarrow> string list" where
  "nibbles c = [[hex_digit (byte_nat c mod 16)], [hex_digit (byte_nat c div 16)]]"

definition reverseIPv6Name :: "bytes \<Rightarrow> string" where
  "reverseIPv6Name p = join_on dot (concat (map nibbles (rev p))) @ ''.ip6.arpa''"

definition trimZoneName :: "string \<Rightarrow> string \<Rightarrow> string \<times> string" where
  "trimZoneName full0 configuredZone0 =
     (let full = normalizeZone full0; configuredZone = normalizeZone configuredZone0 in
      if full = [] then ([], [])
      else if configuredZone = [] then
        (let parts = split_on dot full in
         if length parts < 2 then (full, full) else (join_on dot (take 1 parts), join_on dot (drop 1 parts)))
      else if full = configuredZone then (''@'', configuredZone)
      else if ends_with (dot # configuredZone) full then
        (let name = TrimSuffix (TrimSuffix full (dot # configuredZone)) ''.'' in
         (if name = [] then ''@'' else name, configuredZone))
      else (full, configuredZone))"

definition reverseNames :: "ip \<Rightarrow> string \<Rightarrow> string \<times> string" where
  "reverseNames p configuredZone =
     (if p = [] then ([], [])
      else if ip_To4 p \<noteq> [] then trimZoneName (reverseIPv4Name (ip_To4 p)) configuredZone
      else if ip_To16 p = [] then ([], [])
      else trimZoneName (reverseIPv6Name (ip_To16 p)) configuredZone)"

section \<open>Signatures\<close>

record tsigSigner =
  ts_keyName :: string
  ts_algorithm :: string
  ts_secret :: bytes
  ts_fudge :: nat

record ddns_env =
  dn_base64 :: "string \<Rightarrow> go_error + bytes"
  dn_hmac :: "bytes \<Rightarrow> bytes \<Rightarrow> bytes"
  dn_msgID :: "nat \<Rightarrow> go_error + nat"
  dn_now :: "nat \<Rightarrow> time"
  dn_exchange :: "nat \<Rightarrow> bytes \<Rightarrow> go_error + bytes"

abbreviation algorithmSHA256 :: string where "algorithmSHA256 \<equiv> ''hmac-sha256.''"

definition newTSIGSigner :: "ddns_env \<Rightarrow> string \<Rightarrow> string \<Rightarrow> string \<Rightarrow> go_error + tsigSigner option" where
  "newTSIGSigner v keyName0 secret0 algorithm =
     (let keyName = TrimSpace keyName0; secret = TrimSpace secret0 in
      if keyName = [] \<or> secret = [] then Inr None
      else
        (let algo = ToLower (trim_set ''.'' (TrimSpace algorithm));
             algo = (if algo = [] then ''hmac-sha256'' else algo)
         in if algo \<noteq> ''hmac-sha256'' then Inl (ErrMsg ''unsupported tsig algorithm'')
            else (case validateDNSName keyName of
                    Some err \<Rightarrow> Inl err
                  | None \<Rightarrow>
                      rbind (dn_base64 v secret) (\<lambda>decoded.
                        Inr (Some \<lparr>ts_keyName = ensureFQDN keyName, ts_algorithm = algorithmSHA256,
                               ts_secret = decoded, ts_fudge = 300\<rparr>)))))"

text \<open>What the signature covers besides the message.\<close>

definition tsig_variables :: "tsigSigner \<Rightarrow> nat \<Rightarrow> bytes" where
  "tsig_variables s timeSigned =
     encodeNameCanonical (ts_keyName s) @ be 2 classANY @ be 4 0 @ encodeNameCanonical (ts_algorithm s) @
     be 6 timeSigned @ be 2 (ts_fudge s) @ be 2 0 @ be 2 0"

definition tsig_rdata :: "tsigSigner \<Rightarrow> nat \<Rightarrow> nat \<Rightarrow> bytes \<Rightarrow> bytes" where
  "tsig_rdata s timeSigned msgID mac =
     encodeName (ts_algorithm s) @ be 6 timeSigned @ be 2 (ts_fudge s) @ be 2 (length mac) @ mac @
     be 2 msgID @ be 2 0 @ be 2 0"

definition tsig_sign :: "ddns_env \<Rightarrow> tsigSigner \<Rightarrow> bytes \<Rightarrow> nat \<Rightarrow> time \<Rightarrow> go_error + bytes" where
  "tsig_sign v s message msgID now =
     (let unix = time_unix now in
      if unix < 0 then Inl (ErrMsg ''tsig timestamp before unix epoch is not supported'')
      else
        (let mac = dn_hmac v (ts_secret s) (message @ tsig_variables s (nat unix)); rdata = tsig_rdata s (nat unix) msgID mac in
         if length mac > 65535 then Inl (ErrMsg ''tsig mac too long'')
         else if length rdata > 65535 then Inl (ErrMsg ''tsig rdata too long'')
         else Inr (encodeName (ts_keyName s) @ be 2 typeTSIG @ be 2 classANY @ be 4 0 @ be 2 (length rdata) @ rdata)))"

section \<open>The client\<close>

record ddns_client =
  dc_serverAddr :: string
  dc_forwardZone :: string
  dc_reverseZone :: string
  dc_timeout :: duration
  dc_signer :: "tsigSigner option"

record ddns_config =
  dg_ServerAddr :: string
  dg_ForwardZone :: string
  dg_ReverseZone :: string
  dg_TSIGKey :: string
  dg_TSIGSecret :: string
  dg_TSIGAlgorithm :: string
  dg_Timeout :: duration

text \<open>\<^verbatim>\<open>net.JoinHostPort\<close>.\<close>

definition JoinHostPort :: "string \<Rightarrow> string \<Rightarrow> string" where
  "JoinHostPort host port =
     (if CHR '':'' \<in> set host \<or> CHR ''%'' \<in> set host then ''['' @ host @ '']:'' @ port else host @ '':'' @ port)"

definition ddns_NewClient :: "ddns_env \<Rightarrow> ddns_config \<Rightarrow> go_error + ddns_client" where
  "ddns_NewClient v cfg =
     (let addr = TrimSpace (dg_ServerAddr cfg) in
      if addr = [] then Inl (ErrMsg ''ddns server address is required'')
      else
        rbind (newTSIGSigner v (dg_TSIGKey cfg) (dg_TSIGSecret cfg) (dg_TSIGAlgorithm cfg)) (\<lambda>signer.
          Inr \<lparr>dc_serverAddr = (if SplitHostPort addr = None then JoinHostPort addr ''53'' else addr),
               dc_forwardZone = normalizeZone (dg_ForwardZone cfg), dc_reverseZone = normalizeZone (dg_ReverseZone cfg),
               dc_timeout = (if dg_Timeout cfg \<le> 0 then 3 * second_ns else dg_Timeout cfg), dc_signer = signer\<rparr>))"

definition forwardName :: "ddns_client \<Rightarrow> string \<Rightarrow> string" where
  "forwardName c host0 =
     (let host = normalizeHostname host0 in
      if host = [] then []
      else if dot \<in> set host then host
      else if dc_forwardZone c = [] then []
      else host @ ''.'' @ dc_forwardZone c)"

definition forward_update :: "ddns_client \<Rightarrow> ddns_action \<Rightarrow> string \<Rightarrow> ip \<Rightarrow> nat \<Rightarrow> zoneUpdate" where
  "forward_update c action fqdn p ttl =
     \<lparr>zu_zone = dc_forwardZone c,
      zu_records =
        (case action of
           ActionUpsert \<Rightarrow>
             [\<lparr>rr_name = fqdn, rr_typ = ipType p, rr_class = classANY, rr_ttl = 0, rr_rdata = []\<rparr>,
              \<lparr>rr_name = fqdn, rr_typ = ipType p, rr_class = classINET, rr_ttl = ttl, rr_rdata = ipRData p\<rparr>]
         | ActionDelete \<Rightarrow>
             [\<lparr>rr_name = fqdn, rr_typ = ipType p, rr_class = classNONE, rr_ttl = 0, rr_rdata = ipRData p\<rparr>])\<rparr>"

definition ptr_update :: "ddns_action \<Rightarrow> string \<Rightarrow> string \<Rightarrow> string \<Rightarrow> nat \<Rightarrow> zoneUpdate" where
  "ptr_update action ptrName ptrZone ptrTarget ttl =
     \<lparr>zu_zone = ptrZone,
      zu_records =
        (case action of
           ActionUpsert \<Rightarrow>
             [\<lparr>rr_name = ptrName, rr_typ = typePTR, rr_class = classANY, rr_ttl = 0, rr_rdata = []\<rparr>,
              \<lparr>rr_name = ptrName, rr_typ = typePTR, rr_class = classINET, rr_ttl = ttl, rr_rdata = encodeName ptrTarget\<rparr>]
         | ActionDelete \<Rightarrow>
             [\<lparr>rr_name = ptrName, rr_typ = typePTR, rr_class = classNONE, rr_ttl = 0, rr_rdata = encodeName ptrTarget\<rparr>])\<rparr>"

text \<open>The first of some checks that fails.\<close>

definition checked :: "go_error option list \<Rightarrow> 'a \<Rightarrow> go_error + 'a" where
  "checked cs x = (case List.find (\<lambda>e. e \<noteq> None) cs of Some (Some err) \<Rightarrow> Inl err | _ \<Rightarrow> Inr x)"

definition buildUpdates :: "ddns_client \<Rightarrow> ddns_action \<Rightarrow> Lease \<Rightarrow> go_error + zoneUpdate list" where
  "buildUpdates c action item =
     (let p = net_ParseIP (TrimSpace (l_IP item)); host = normalizeHostname (l_Hostname item);
          ttl = defaultTTLLease (l_Duration item); fqdn = forwardName c host
      in if p = [] then Inl (ErrMsg ''invalid lease ip'')
         else if host = [] \<or> fqdn = [] then Inr []
         else
           rbind (checked [validateDNSName fqdn, if dc_forwardZone c \<noteq> [] then validateDNSName (dc_forwardZone c) else None] ()) (\<lambda>_.
             let fwd = (if dc_forwardZone c \<noteq> [] then [forward_update c action fqdn p ttl] else []);
                 (ptrName, ptrZone) = reverseNames p (dc_reverseZone c); ptrTarget = ensureFQDN fqdn
             in if ptrName \<noteq> [] \<and> ptrZone \<noteq> []
                then checked [validateDNSName ptrName, validateDNSName ptrZone, validateDNSName ptrTarget]
                       (fwd @ [ptr_update action ptrName ptrZone ptrTarget ttl])
                else Inr fwd))"

section \<open>Messages\<close>

definition encodeRR :: "rr \<Rightarrow> go_error + bytes" where
  "encodeRR r =
     (if length (rr_rdata r) > 65535 then Inl (ErrMsg ''record rdata too long'')
      else Inr (encodeName (rr_name r) @ be 2 (rr_typ r) @ be 2 (rr_class r) @ be 4 (rr_ttl r) @
             be 2 (length (rr_rdata r)) @ rr_rdata r))"

fun encode_records :: "rr list \<Rightarrow> go_error + bytes" where
  "encode_records [] = Inr []"
| "encode_records (r # rs) = rbind (encodeRR r) (\<lambda>a. rbind (encode_records rs) (\<lambda>b. Inr (a @ b)))"

definition ddns_header :: "nat \<Rightarrow> nat \<Rightarrow> nat \<Rightarrow> bytes" where
  "ddns_header msgID updates additional =
     be 2 msgID @ be 2 (opcodeUpdate * 2 ^ 11) @ be 2 1 @ be 2 0 @ be 2 updates @ be 2 additional"

text \<open>The signature covers the message without it, whose additional section is empty.\<close>

definition buildMessage :: "ddns_env \<Rightarrow> ddns_client \<Rightarrow> nat \<Rightarrow> zoneUpdate \<Rightarrow> time \<Rightarrow> go_error + bytes" where
  "buildMessage v c msgID update now =
     (if length (zu_records update) > 65535 then Inl (ErrMsg ''too many dns update records'')
      else
        rbind (encode_records (zu_records update)) (\<lambda>records.
          let tail = encodeName (zu_zone update) @ be 2 typeSOA @ be 2 classINET @ records;
              n = length (zu_records update);
              body = ddns_header msgID n 0 @ tail
          in case dc_signer c of
               None \<Rightarrow> Inr body
             | Some s \<Rightarrow> rbind (tsig_sign v s body msgID now) (\<lambda>tsig. Inr (ddns_header msgID n 1 @ tail @ tsig))))"

definition validateResponse :: "bytes \<Rightarrow> nat \<Rightarrow> go_error option" where
  "validateResponse msg i =
     (if length msg < 12 then Some (ErrMsg ''short dns response'')
      else if be_nat (take 2 msg) \<noteq> i then Some (ErrMsg ''dns response id mismatch'')
      else (let rcode = be_nat (take 2 (drop 2 msg)) mod 16 in
            if rcode \<noteq> 0 then Some (ErrMsg ''dns update rejected'') else None))"

definition validateZoneUpdate :: "zoneUpdate \<Rightarrow> go_error option" where
  "validateZoneUpdate u =
     (case checked (map validateDNSName (zu_zone u # map rr_name (zu_records u))) () of Inl err \<Rightarrow> Some err | Inr _ \<Rightarrow> None)"

text \<open>One update: the datagrams that went out, and the error. An answer is cut at 1500 bytes.\<close>

definition sendUpdate :: "ddns_env \<Rightarrow> ddns_client \<Rightarrow> nat \<Rightarrow> zoneUpdate \<Rightarrow> bytes list \<times> go_error option" where
  "sendUpdate v c i update =
     (if TrimSpace (zu_zone update) = [] \<or> zu_records update = [] then ([], None)
      else (case validateZoneUpdate update of
              Some err \<Rightarrow> ([], Some err)
            | None \<Rightarrow>
           (case dn_msgID v i of
              Inl err \<Rightarrow> ([], Some err)
            | Inr msgID \<Rightarrow>
           (case buildMessage v c msgID update (dn_now v i) of
              Inl err \<Rightarrow> ([], Some err)
            | Inr wire \<Rightarrow>
                ([wire], case dn_exchange v i wire of Inl err \<Rightarrow> Some err | Inr resp \<Rightarrow> validateResponse (take 1500 resp) msgID)))))"

text \<open>The updates of a lease, until one fails.\<close>

fun send_updates :: "ddns_env \<Rightarrow> ddns_client \<Rightarrow> nat \<Rightarrow> zoneUpdate list \<Rightarrow> bytes list \<times> go_error option" where
  "send_updates v c i [] = ([], None)"
| "send_updates v c i (u # us) =
     (case sendUpdate v c i u of
        (sent, Some err) \<Rightarrow> (sent, Some err)
      | (sent, None) \<Rightarrow> (case send_updates v c (Suc i) us of (rest, err) \<Rightarrow> (sent @ rest, err)))"

definition ddns_run :: "ddns_env \<Rightarrow> ddns_client \<Rightarrow> ddns_action \<Rightarrow> Lease \<Rightarrow> bytes list \<times> go_error option" where
  "ddns_run v c action item =
     (case buildUpdates c action item of Inl err \<Rightarrow> ([], Some err) | Inr updates \<Rightarrow> send_updates v c 0 updates)"

definition ddns_Apply :: "ddns_env \<Rightarrow> ddns_client \<Rightarrow> Lease \<Rightarrow> bytes list \<times> go_error option" where
  "ddns_Apply v c = ddns_run v c ActionUpsert"

definition ddns_Delete :: "ddns_env \<Rightarrow> ddns_client \<Rightarrow> Lease \<Rightarrow> bytes list \<times> go_error option" where
  "ddns_Delete v c = ddns_run v c ActionDelete"

end
