(* ===== verification/DdnsProps.thy ===== *)
theory DdnsProps
  imports Ddns "HOL-Library.Sublist"
begin

text \<open>
  What the dynamic DNS client sends: a reader of the messages of RFC 1035 and RFC 2136 finds the update and a signature over
  it in every datagram; but the records that map addresses to names are outside of their zone.
\<close>

section \<open>Labels\<close>

text \<open>The labels of a name as the encoder sees them.\<close>

definition name_labels :: "string \<Rightarrow> string list" where
  "name_labels name = (if ensureFQDN name = ''.'' then [] else split_on dot (TrimSuffix (ensureFQDN name) ''.''))"

lemma encodeName_labels: "encodeName name = concat (map ddns_label (name_labels name)) @ [CHR 0x00]"
  by (simp add: encodeName_def name_labels_def Let_def)

definition valid_labels :: "string list \<Rightarrow> bool" where
  "valid_labels ls \<longleftrightarrow> (\<forall>l\<in>set ls. l \<noteq> [] \<and> length l \<le> 63)"

lemma validated_labels:
  assumes "validateDNSName name = None"
  shows "valid_labels (name_labels name)"
proof -
  have "TrimSpace ''@'' = ''@''" by (rule TrimSpace_printable) (simp_all add: printable_def byte_nat_def)
  then have at: "ensureFQDN ''@'' = ''@.''" by (simp add: ensureFQDN_def trim_set_def)
  have trim: "ensureFQDN (TrimSpace name) = ensureFQDN name" by (simp add: ensureFQDN_def Let_def)
  show ?thesis
  proof (cases "TrimSpace name = ''@''")
    case True
    then have "ensureFQDN name = ''@.''" using at trim by simp
    then show ?thesis by (simp add: name_labels_def valid_labels_def TrimSuffix_def ends_with_def starts_with_def)
  next
    case False
    then show ?thesis
      using assms
      by (auto simp: validateDNSName_def Let_def trim name_labels_def valid_labels_def find_None_iff
          TrimSuffix_def ensureFQDN_def ends_with_def starts_with_def split: if_splits option.splits)
  qed
qed

section \<open>A reader of messages\<close>

function read_name :: "bytes \<Rightarrow> (string list \<times> bytes) option" where
  "read_name [] = None"
| "read_name (c # cs) =
     (let n = byte_nat c in
      if n = 0 then Some ([], cs)
      else if n > 63 \<or> length cs < n then None
      else map_option (\<lambda>(ls, rest). (take n cs # ls, rest)) (read_name (drop n cs)))"
  by pat_completeness auto
termination by (relation "measure length") auto

lemma read_labels:
  assumes "valid_labels ls"
  shows "read_name (concat (map ddns_label ls) @ CHR 0x00 # rest) = Some (ls, rest)"
  using assms
proof (induction ls)
  case Nil
  show ?case by (simp add: byte_nat_def)
next
  case (Cons l ls)
  then have "valid_labels ls" "l \<noteq> []" "length l \<le> 63" by (auto simp: valid_labels_def)
  then show ?case using Cons.IH by (simp add: ddns_label_def)
qed

lemma read_encoded: "validateDNSName name = None \<Longrightarrow> read_name (encodeName name @ rest) = Some (name_labels name, rest)"
  by (simp add: encodeName_labels read_labels validated_labels)

definition read_be :: "nat \<Rightarrow> bytes \<Rightarrow> (nat \<times> bytes) option" where
  "read_be k bs = (if length bs < k then None else Some (be_nat (take k bs), drop k bs))"

lemma read_be_app [simp]: "n < 256 ^ k \<Longrightarrow> read_be k (be k n @ rest) = Some (n, rest)"
  by (simp add: read_be_def)

lemma read_be_empty [simp]: "n < 256 ^ k \<Longrightarrow> read_be k (be k n) = Some (n, [])"
  using read_be_app [of n k "[]"] by simp

record dns_record =
  nr_name :: "string list"
  nr_type :: nat
  nr_class :: nat
  nr_ttl :: nat
  nr_rdata :: bytes

definition read_record :: "bytes \<Rightarrow> (dns_record \<times> bytes) option" where
  "read_record bs =
     Option.bind (read_name bs) (\<lambda>(name, bs).
     Option.bind (read_be 2 bs) (\<lambda>(typ, bs).
     Option.bind (read_be 2 bs) (\<lambda>(cls, bs).
     Option.bind (read_be 4 bs) (\<lambda>(ttl, bs).
     Option.bind (read_be 2 bs) (\<lambda>(n, bs).
       if length bs < n then None
       else Some (\<lparr>nr_name = name, nr_type = typ, nr_class = cls, nr_ttl = ttl, nr_rdata = take n bs\<rparr>, drop n bs))))))"

fun read_records :: "nat \<Rightarrow> bytes \<Rightarrow> (dns_record list \<times> bytes) option" where
  "read_records 0 bs = Some ([], bs)"
| "read_records (Suc n) bs =
     Option.bind (read_record bs) (\<lambda>(r, bs). map_option (\<lambda>(rs, rest). (r # rs, rest)) (read_records n bs))"

record dns_message =
  dm_id :: nat
  dm_opcode :: nat
  dm_zone :: "string list"
  dm_updates :: "dns_record list"
  dm_additional :: "dns_record list"

text \<open>A request of RFC 2136: one zone, of type SOA, no prerequisites, updates, and additional records.\<close>

definition read_message :: "bytes \<Rightarrow> dns_message option" where
  "read_message bs =
     Option.bind (read_be 2 bs) (\<lambda>(i, bs).
     Option.bind (read_be 2 bs) (\<lambda>(flags, bs).
     Option.bind (read_be 2 bs) (\<lambda>(zones, bs).
     Option.bind (read_be 2 bs) (\<lambda>(prerequisites, bs).
     Option.bind (read_be 2 bs) (\<lambda>(updates, bs).
     Option.bind (read_be 2 bs) (\<lambda>(additional, bs).
     Option.bind (read_name bs) (\<lambda>(zone, bs).
     Option.bind (read_be 2 bs) (\<lambda>(zt, bs).
     Option.bind (read_be 2 bs) (\<lambda>(zc, bs).
     Option.bind (read_records updates bs) (\<lambda>(us, bs).
     Option.bind (read_records additional bs) (\<lambda>(as, bs).
       if zones = 1 \<and> prerequisites = 0 \<and> zt = typeSOA \<and> zc = classINET \<and> bs = []
       then Some \<lparr>dm_id = i, dm_opcode = flags div 2 ^ 11 mod 16, dm_zone = zone, dm_updates = us, dm_additional = as\<rparr>
       else None)))))))))))"

definition record_meaning :: "rr \<Rightarrow> dns_record" where
  "record_meaning r = \<lparr>nr_name = name_labels (rr_name r), nr_type = rr_typ r, nr_class = rr_class r, nr_ttl = rr_ttl r, nr_rdata = rr_rdata r\<rparr>"

definition rr_fits :: "rr \<Rightarrow> bool" where
  "rr_fits r \<longleftrightarrow> validateDNSName (rr_name r) = None \<and> rr_typ r < 65536 \<and> rr_class r < 65536 \<and> rr_ttl r < 2 ^ 32"

lemma read_encodeRR:
  assumes "encodeRR r = Inr bs" "rr_fits r"
  shows "read_record (bs @ rest) = Some (record_meaning r, rest)"
  using assms by (auto simp: encodeRR_def rr_fits_def read_record_def read_encoded record_meaning_def split: if_splits)

lemma read_encode_records:
  assumes "encode_records rs = Inr bs" "\<forall>r\<in>set rs. rr_fits r"
  shows "read_records (length rs) (bs @ rest) = Some (map record_meaning rs, rest)"
  using assms
proof (induction rs arbitrary: bs)
  case (Cons r rs)
  then show ?case by (auto simp: rbind_Inr_conv read_encodeRR)
qed simp

section \<open>What is sent\<close>

text \<open>The record of the signature, whose code covers the message without it.\<close>

definition signature_record :: "ddns_env \<Rightarrow> tsigSigner \<Rightarrow> bytes \<Rightarrow> nat \<Rightarrow> time \<Rightarrow> dns_record" where
  "signature_record v s body0 m now =
     (let t = nat (time_unix now) in
      \<lparr>nr_name = name_labels (ts_keyName s), nr_type = typeTSIG, nr_class = classANY, nr_ttl = 0,
       nr_rdata = tsig_rdata s t m (dn_hmac v (ts_secret s) (body0 @ tsig_variables s t))\<rparr>)"

definition update_message :: "nat \<Rightarrow> zoneUpdate \<Rightarrow> dns_record list \<Rightarrow> dns_message" where
  "update_message m u as =
     \<lparr>dm_id = m, dm_opcode = opcodeUpdate, dm_zone = name_labels (zu_zone u), dm_updates = map record_meaning (zu_records u),
      dm_additional = as\<rparr>"

lemma read_unsigned:
  assumes "m < 65536" "length (zu_records u) \<le> 65535" "encode_records (zu_records u) = Inr records"
    "validateDNSName (zu_zone u) = None" "\<forall>r\<in>set (zu_records u). rr_fits r"
    "n < 65536" "read_records n extra = Some (as, [])"
  shows "read_message (ddns_header m (length (zu_records u)) n @ encodeName (zu_zone u) @ be 2 typeSOA @ be 2 classINET @ records @ extra) =
    Some (update_message m u as)"
  using assms by (simp add: update_message_def read_message_def ddns_header_def read_encoded read_encode_records)

lemma read_signature:
  assumes "tsig_sign v s body m now = Inr bs" "validateDNSName (ts_keyName s) = None"
  shows "read_records 1 bs = Some ([signature_record v s body m now], [])"
  using assms read_encoded [OF assms(2)]
  by (auto simp: tsig_sign_def Let_def read_record_def signature_record_def One_nat_def simp del: be.simps split: if_splits)

lemma update_fits:
  assumes "buildUpdates c action item = Inr us" "u \<in> set us" "r \<in> set (zu_records u)"
  shows "rr_typ r < 65536 \<and> rr_class r < 65536 \<and> rr_ttl r < 2 ^ 32"
proof -
  have ttl: "defaultTTLLease d < 2 ^ 32" for d by (auto simp: defaultTTLLease_def Let_def nat_less_iff)
  have fwd: "rr_typ r < 65536 \<and> rr_class r < 65536 \<and> rr_ttl r < 2 ^ 32"
    if "r \<in> set (zu_records (forward_update c action fqdn p (defaultTTLLease d)))" for fqdn p d
    using that ttl [of d] by (cases action) (auto simp: forward_update_def ipType_def)
  have ptr: "rr_typ r < 65536 \<and> rr_class r < 65536 \<and> rr_ttl r < 2 ^ 32"
    if "r \<in> set (zu_records (ptr_update action a b t (defaultTTLLease d)))" for a b t d
    using that ttl [of d] by (cases action) (auto simp: ptr_update_def)
  show ?thesis
    using assms fwd ptr
    by (auto simp: buildUpdates_def Let_def rbind_Inr_conv checked_def split: if_splits prod.splits option.splits)
qed

lemma checked_all: "checked cs x = Inr y \<longleftrightarrow> (\<forall>e\<in>set cs. e = None) \<and> x = y"
proof (cases "List.find (\<lambda>e. e \<noteq> None) cs")
  case None
  moreover from this have "\<forall>e\<in>set cs. e = None" by (simp add: find_None_iff)
  ultimately show ?thesis by (auto simp: checked_def)
next
  case (Some e)
  then have e: "e \<in> set cs" "e \<noteq> None" by (auto simp: find_Some_iff in_set_conv_nth)
  then obtain x where "e = Some x" by blast
  then show ?thesis using Some e by (auto simp: checked_def)
qed

lemma zone_update_valid:
  "validateZoneUpdate u = None \<longleftrightarrow> validateDNSName (zu_zone u) = None \<and> (\<forall>r\<in>set (zu_records u). validateDNSName (rr_name r) = None)"
  using checked_all [of "map validateDNSName (zu_zone u # map rr_name (zu_records u))" "()" "()"]
  by (auto simp: validateZoneUpdate_def split: sum.splits)

text \<open>C33: every datagram that the dynamic DNS client sends is read, by a reader of RFC 1035 and RFC 2136, as the update of
  one zone with exactly the zone and the records that were built, and with a signing key as an update with one signature, whose
  code is computed over the same message without it.
\<close>

theorem ddns_message_roundtrip:
  assumes "buildUpdates c action item = Inr us" "u \<in> set us" "wire \<in> set (fst (sendUpdate v c i u))"
    and "\<And>m. dn_msgID v i = Inr m \<Longrightarrow> m < 65536"
    and "\<And>s. dc_signer c = Some s \<Longrightarrow> validateDNSName (ts_keyName s) = None"
  shows "\<exists>m body0. dn_msgID v i = Inr m \<and> read_message body0 = Some (update_message m u []) \<and>
    read_message wire = Some (update_message m u (case dc_signer c of None \<Rightarrow> [] | Some s \<Rightarrow> [signature_record v s body0 m (dn_now v i)]))"
proof -
  obtain m where m: "dn_msgID v i = Inr m" "validateZoneUpdate u = None" "buildMessage v c m u (dn_now v i) = Inr wire"
    using assms(3) by (auto simp: sendUpdate_def split: if_splits option.splits sum.splits)
  obtain records where r: "encode_records (zu_records u) = Inr records" "length (zu_records u) \<le> 65535"
    using m(3) by (auto simp: buildMessage_def rbind_Inr_conv split: if_splits)
  have fits: "\<forall>r\<in>set (zu_records u). rr_fits r" "validateDNSName (zu_zone u) = None"
    using m(2) update_fits [OF assms(1,2)] by (auto simp: zone_update_valid rr_fits_def)
  define tail where "tail = encodeName (zu_zone u) @ be 2 typeSOA @ be 2 classINET @ records"
  define body0 where "body0 = ddns_header m (length (zu_records u)) 0 @ tail"
  note read = read_unsigned [OF assms(4) [OF m(1)] r(2) r(1) fits(2) fits(1)]
  have plain: "read_message body0 = Some (update_message m u [])"
    using read [of 0 "[]" "[]"] by (simp add: body0_def tail_def)
  show ?thesis
  proof (cases "dc_signer c")
    case None
    then have "wire = body0" using m(3) r by (simp add: buildMessage_def body0_def tail_def Let_def)
    with None plain m(1) show ?thesis by auto
  next
    case (Some s)
    then obtain tsig where t: "tsig_sign v s body0 m (dn_now v i) = Inr tsig" "wire = ddns_header m (length (zu_records u)) 1 @ tail @ tsig"
      using m(3) r by (auto simp: buildMessage_def body0_def tail_def Let_def rbind_Inr_conv)
    have "read_message wire = Some (update_message m u [signature_record v s body0 m (dn_now v i)])"
      using read [OF _ read_signature [OF t(1) assms(5) [OF Some]]] by (simp add: t(2) tail_def)
    with Some plain m(1) show ?thesis by auto
  qed
qed

section \<open>Zones\<close>

text \<open>A name is in a zone when its labels end with the labels of the zone, in any letter case.\<close>

definition in_zone :: "string \<Rightarrow> string \<Rightarrow> bool" where
  "in_zone zone name \<longleftrightarrow> suffix (map ToLower (name_labels zone)) (map ToLower (name_labels name))"

definition okchar :: "byte \<Rightarrow> bool" where
  "okchar c \<longleftrightarrow> printable c \<and> c \<noteq> dot \<and> lower_char c = c"

definition clean_labels :: "string list \<Rightarrow> bool" where
  "clean_labels ls \<longleftrightarrow> ls \<noteq> [] \<and> (\<forall>l\<in>set ls. l \<noteq> [] \<and> list_all okchar l)"

lemma join_ends:
  assumes "clean_labels ls"
  shows "join_on dot ls \<noteq> [] \<and> okchar (hd (join_on dot ls)) \<and> okchar (last (join_on dot ls)) \<and>
    ToLower (join_on dot ls) = join_on dot ls \<and> split_on dot (join_on dot ls) = ls"
proof -
  have sp: "split_on dot (join_on dot ls) = ls"
    using assms by (intro split_join) (auto simp: clean_labels_def okchar_def list_all_iff)
  have "join_on dot ls \<noteq> [] \<and> okchar (hd (join_on dot ls)) \<and> okchar (last (join_on dot ls)) \<and> ToLower (join_on dot ls) = join_on dot ls"
    using assms
  proof (induction dot ls rule: join_on.induct)
    case (2 x)
    then show ?case by (auto simp: clean_labels_def list_all_iff ToLower_def okchar_def intro!: map_idI)
  next
    case (3 x y xs)
    have "clean_labels (y # xs)" using 3 by (simp add: clean_labels_def)
    moreover have "x \<noteq> []" "list_all okchar x" using 3 by (simp_all add: clean_labels_def)
    moreover have "ToLower x = x" using \<open>list_all okchar x\<close> by (auto simp: ToLower_def list_all_iff okchar_def intro!: map_idI)
    ultimately show ?case using 3 by (auto simp: ToLower_def list_all_iff lower_char_def)
  qed (simp add: clean_labels_def)
  with sp show ?thesis by simp
qed

lemma dropWhile_hd: "s \<noteq> [] \<Longrightarrow> \<not> P (hd s) \<Longrightarrow> dropWhile P s = s"
  by (cases s) auto

lemma trim_dots: "s \<noteq> [] \<Longrightarrow> hd s \<noteq> dot \<Longrightarrow> last s \<noteq> dot \<Longrightarrow> trim_set ''.'' s = s"
  by (simp add: trim_set_def dropWhile_hd hd_rev)

lemma clean_name:
  assumes "clean_labels ls"
  shows "TrimSpace (join_on dot ls) = join_on dot ls \<and> trim_set ''.'' (join_on dot ls) = join_on dot ls"
  using join_ends [OF assms] by (auto simp: okchar_def intro: TrimSpace_printable trim_dots)

lemma plain_labels:
  assumes "s \<noteq> []" "TrimSpace s = s" "trim_set ''.'' s = s"
  shows "name_labels s = split_on dot s"
proof -
  have "ensureFQDN s = s @ [dot]" using assms by (simp add: ensureFQDN_def)
  then show ?thesis using assms(1) by (simp add: name_labels_def TrimSuffix_def ends_with_iff)
qed

lemma clean_name_labels: "clean_labels ls \<Longrightarrow> name_labels (join_on dot ls) = ls"
  using clean_name [of ls] join_ends [of ls] by (simp add: plain_labels)

lemma clean_normal: "clean_labels ls \<Longrightarrow> normalizeZone (join_on dot ls) = join_on dot ls"
  using clean_name [of ls] by (simp add: normalizeZone_def)

text \<open>A reverse zone as it is usually written: in lower case, without spaces or dots around it.\<close>

definition plain_zone :: "string \<Rightarrow> bool" where
  "plain_zone z \<longleftrightarrow> TrimSpace z = z \<and> trim_set ''.'' z = z \<and> ToLower z = z"

definition reverse_labels :: "string list \<Rightarrow> bool" where
  "reverse_labels ls \<longleftrightarrow> clean_labels ls \<and> length ls > 2 \<and> last ls = ''arpa'' \<and> ''arpa'' \<notin> set (butlast ls)"

lemma lower_okchars: "list_all okchar l \<Longrightarrow> ToLower l = l"
  unfolding ToLower_def by (rule map_idI) (simp add: list_all_iff okchar_def)

lemma lower_labels: "clean_labels ls \<Longrightarrow> map ToLower ls = ls"
  by (rule map_idI) (simp add: clean_labels_def lower_okchars)

lemma lower_dot: "lower_char c = dot \<longleftrightarrow> c = dot"
proof (cases "CHR ''A'' \<le> c \<and> c \<le> CHR ''Z''")
  case True
  then have b: "65 \<le> byte_nat c" "byte_nat c \<le> 90" by (auto simp: less_eq_char_def byte_nat_def)
  then have "byte_nat (lower_char c) = byte_nat c + 32" using True by (simp add: lower_char_def)
  then have "byte_nat (lower_char c) \<noteq> byte_nat dot" "byte_nat c \<noteq> byte_nat dot" using b by (simp_all add: byte_nat_def)
  then show ?thesis by metis
qed (auto simp: lower_char_def)

lemma split_lower: "split_on dot (ToLower s) = map ToLower (split_on dot s)"
proof (induction s)
  case (Cons c s)
  then show ?case by (cases "split_on dot s") (auto simp: ToLower_def lower_dot)
qed (simp add: ToLower_def)

lemma in_zone_clean:
  assumes "clean_labels zs" "clean_labels ns"
  shows "in_zone (join_on dot zs) (join_on dot ns) \<longleftrightarrow> suffix zs ns"
  unfolding in_zone_def clean_name_labels [OF assms(1)] clean_name_labels [OF assms(2)] lower_labels [OF assms(1)] lower_labels [OF assms(2)]
  by (rule refl)

lemma reverse_split:
  assumes "reverse_labels (ns @ zs)" "zs \<noteq> []"
  shows "\<not> suffix zs ns"
proof
  assume "suffix zs ns"
  then have "last zs \<in> set ns" using assms(2) by (auto simp: suffix_def)
  moreover have "last zs = ''arpa''" "set ns \<subseteq> set (butlast (ns @ zs))"
    using assms by (auto simp: reverse_labels_def butlast_append)
  ultimately show False using assms(1) by (auto simp: reverse_labels_def)
qed

lemma join_append: "xs \<noteq> [] \<Longrightarrow> ys \<noteq> [] \<Longrightarrow> join_on c (xs @ ys) = join_on c xs @ c # join_on c ys"
proof (induction c xs rule: join_on.induct)
  case (2 c x)
  then show ?case by (cases ys) auto
qed auto

lemma clean_split: "clean_labels (a @ b) \<Longrightarrow> (a \<noteq> [] \<longrightarrow> clean_labels a) \<and> (b \<noteq> [] \<longrightarrow> clean_labels b)"
  by (auto simp: clean_labels_def)

lemma trimmed_outside_zone:
  assumes "reverse_labels ls" "plain_zone z" "trimZoneName (join_on dot ls) z = (name, zone)"
  shows "\<not> in_zone zone name"
proof -
  let ?full = "join_on dot ls"
  have ls: "clean_labels ls" "length ls > 2" using assms(1) by (auto simp: reverse_labels_def)
  have full: "normalizeZone ?full = ?full" "?full \<noteq> []" "split_on dot ?full = ls"
    using clean_normal [OF ls(1)] join_ends [OF ls(1)] by auto
  have z: "normalizeZone z = z" using assms(2) by (simp add: plain_zone_def normalizeZone_def)
  consider (none) "z = []" | (same) "z \<noteq> []" "?full = z" | (inside) "z \<noteq> []" "?full \<noteq> z" "ends_with (dot # z) ?full"
    | (outside) "z \<noteq> []" "?full \<noteq> z" "\<not> ends_with (dot # z) ?full" by blast
  then show ?thesis
  proof cases
    case none
    obtain l m where lm: "ls = l # m" using ls(2) by (cases ls) auto
    then have l: "ls = l # m" "m \<noteq> []" using ls(2) by auto
    have "name = join_on dot [l]" "zone = join_on dot m"
      using assms(3) l(2) full z unfolding l(1) none by (auto simp: trimZoneName_def Let_def)
    then show ?thesis using reverse_split [of "[l]" m] assms(1) l ls(1) clean_split [of "[l]" m] in_zone_clean [of m "[l]"] by simp
  next
    case same
    have at: "name_labels ''@'' = [''@'']"
      using plain_labels [of "''@''"] trim_dots [of "''@''"] TrimSpace_printable [of "''@''"] by (simp add: printable_def byte_nat_def)
    have "name = ''@''" "zone = ?full" using assms(3) same z by (auto simp: trimZoneName_def Let_def full)
    then have "in_zone zone name \<longleftrightarrow> suffix ls [ToLower ''@'']"
      unfolding in_zone_def by (simp only: clean_name_labels [OF ls(1)] lower_labels [OF ls(1)] at list.map)
    then show ?thesis using ls(2) by (auto dest: suffix_length_le)
  next
    case inside
    then obtain a where a: "?full = a @ dot # z" by (auto simp: ends_with_iff)
    have parts: "ls = split_on dot a @ split_on dot z" using full(3) unfolding a split_on_append by (rule sym)
    then have clean: "clean_labels (split_on dot a)" "clean_labels (split_on dot z)" using clean_split [OF ls(1) [unfolded parts]] by simp_all
    have "a \<noteq> []" "last a \<noteq> dot" using join_ends [OF clean(1)] by (auto simp: join_split okchar_def)
    then have "\<not> ends_with ''.'' a" by (auto simp: ends_with_iff)
    then have "name = a" "zone = z"
      using assms(3) inside z \<open>a \<noteq> []\<close> full(1) unfolding a by (auto simp: trimZoneName_def Let_def TrimSuffix_def)
    then show ?thesis
      using in_zone_clean [OF clean(2,1)] reverse_split [of "split_on dot a" "split_on dot z"] assms(1) parts by (simp add: join_split)
  next
    case outside
    have labels: "name_labels z = split_on dot z" using assms(2) outside by (simp add: plain_labels plain_zone_def)
    have lower: "map ToLower (split_on dot z) = split_on dot z"
      using split_lower [of z] assms(2) by (simp add: plain_zone_def)
    have "name = ?full" "zone = z" using assms(3) outside z by (auto simp: trimZoneName_def Let_def full)
    moreover have "\<not> suffix (split_on dot z) ls"
    proof
      assume "suffix (split_on dot z) ls"
      then obtain A where A: "ls = A @ split_on dot z" by (auto simp: suffix_def)
      show False
      proof (cases "A = []")
        case True
        then show False using outside A by (simp add: join_split)
      next
        case False
        then have "?full = join_on dot A @ dot # z" by (simp add: A join_append join_split)
        then show False using outside by (auto simp: ends_with_iff)
      qed
    qed
    ultimately show ?thesis using ls(1) by (simp add: in_zone_def labels lower clean_name_labels lower_labels)
  qed
qed

lemma digit_okchar: "is_digit c \<Longrightarrow> okchar c"
proof -
  assume "is_digit c"
  then have c: "48 \<le> byte_nat c" "byte_nat c \<le> 57" by (auto simp: is_digit_def less_eq_char_def byte_nat_def)
  then show ?thesis by (auto simp: okchar_def printable_def lower_char_def less_eq_char_def byte_nat_def)
qed

lemma dec_nonempty: "dec n \<noteq> []"
  by (subst dec.simps) simp

lemma hex_okchar: "n < 16 \<Longrightarrow> okchar (hex_digit n)"
proof -
  assume n: "n < 16"
  show ?thesis
  proof (cases "n < 10")
    case True
    then have "byte_nat (hex_digit n) = 48 + n" by (simp add: hex_digit_def)
    then show ?thesis using True by (intro digit_okchar) (simp add: is_digit_def less_eq_char_def byte_nat_def)
  next
    case False
    then have b: "byte_nat (hex_digit n) = 87 + n" using n by (simp add: hex_digit_def)
    then have "\<not> hex_digit n \<le> CHR ''Z''" "hex_digit n \<noteq> dot" using False by (auto simp: less_eq_char_def byte_nat_def)
    then show ?thesis using b n by (simp add: okchar_def printable_def lower_char_def)
  qed
qed

lemma ipv4_labels: "\<exists>ls. reverseIPv4Name p = join_on dot ls \<and> reverse_labels ls"
proof -
  let ?ls = "map (\<lambda>i. dec (byte_nat (p ! i))) [3, 2, 1, 0] @ [''in-addr'', ''arpa'']"
  have n: "dec n \<noteq> [] \<and> list_all okchar (dec n) \<and> dec n \<noteq> ''arpa''" for n
  proof -
    have "CHR ''a'' \<notin> set (dec n)" using digits_dec [of "CHR ''a''" n] by (auto simp: is_digit_def less_eq_char_def)
    then have "dec n \<noteq> ''arpa''" by auto
    then show ?thesis using digits_dec [of _ n] digit_okchar dec_nonempty [of n] by (auto simp: list_all_iff)
  qed
  have "clean_labels ?ls" using n by (simp add: clean_labels_def okchar_def printable_def byte_nat_def lower_char_def less_eq_char_def)
  moreover have "''arpa'' \<noteq> dec k" for k using n [of k] by metis
  ultimately have "reverse_labels ?ls" by (simp add: reverse_labels_def)
  then show ?thesis unfolding reverseIPv4Name_def by blast
qed

lemma ipv6_labels: "p \<noteq> [] \<Longrightarrow> \<exists>ls. reverseIPv6Name p = join_on dot ls \<and> reverse_labels ls"
proof -
  assume p: "p \<noteq> []"
  let ?n = "concat (map nibbles (rev p))"
  have div16: "byte_nat c div 16 < 16" for c using byte_nat_less [of c] by linarith
  have h: "\<forall>l\<in>set ?n. l \<noteq> [] \<and> list_all okchar l \<and> l \<noteq> ''arpa''"
    using div16 by (auto simp: nibbles_def intro!: hex_okchar)
  have ne: "?n \<noteq> []" using p by (cases p) (auto simp: nibbles_def)
  have "clean_labels (?n @ [''ip6'', ''arpa''])"
    using h ne by (auto simp: clean_labels_def okchar_def printable_def byte_nat_def lower_char_def less_eq_char_def)
  then have "reverse_labels (?n @ [''ip6'', ''arpa''])" using h ne by (auto simp: reverse_labels_def butlast_append)
  moreover have "reverseIPv6Name p = join_on dot (?n @ [''ip6'', ''arpa''])"
    using join_append [OF ne, of "[''ip6'', ''arpa'']" dot] by (simp add: reverseIPv6Name_def)
  ultimately show ?thesis by blast
qed

lemma reverse_outside_zone:
  assumes "reverseNames p z = (name, zone)" "name \<noteq> []" "plain_zone z"
  shows "\<not> in_zone zone name"
proof (cases "ip_To4 p \<noteq> []")
  case True
  obtain ls where "reverseIPv4Name (ip_To4 p) = join_on dot ls" "reverse_labels ls" using ipv4_labels by blast
  then show ?thesis using assms True trimmed_outside_zone [of ls z name zone] by (simp add: reverseNames_def split: if_splits)
next
  case False
  then have "ip_To16 p \<noteq> []" using assms by (auto simp: reverseNames_def split: if_splits)
  then obtain ls where "reverseIPv6Name (ip_To16 p) = join_on dot ls" "reverse_labels ls" using ipv6_labels by blast
  then show ?thesis using assms False trimmed_outside_zone [of ls z name zone] by (simp add: reverseNames_def split: if_splits)
qed

text \<open>C34: with a reverse zone written in lower case, or with none configured, no update of address-to-name records ever
  names a record of its zone: the names are cut off at the zone and sent without it, so that RFC 2136 has the server refuse every
  such update.
\<close>

theorem ddns_ptr_outside_zone:
  assumes "buildUpdates c action item = Inr us" "u \<in> set us" "r \<in> set (zu_records u)" "rr_typ r = typePTR"
    and "plain_zone (dc_reverseZone c)"
  shows "\<not> in_zone (zu_zone u) (rr_name r)"
proof -
  have "u \<noteq> forward_update c action fqdn p ttl" for fqdn p ttl
    using assms(3,4) by (cases action) (auto simp: forward_update_def ipType_def split: if_splits)
  then obtain p name zone target ttl where u: "u = ptr_update action name zone target ttl" "reverseNames p (dc_reverseZone c) = (name, zone)" "name \<noteq> []"
    using assms(1,2) by (auto simp: buildUpdates_def Let_def rbind_Inr_conv checked_all split: if_splits prod.splits)
  then have "rr_name r = name" "zu_zone u = zone" using assms(3) by (cases action; auto simp: ptr_update_def)+
  then show ?thesis using reverse_outside_zone [OF u(2,3) assms(5)] by simp
qed

section \<open>Instances\<close>

definition demo_ddns :: ddns_env where
  "demo_ddns = \<lparr>dn_base64 = Inr, dn_hmac = (\<lambda>k m. replicate 32 (CHR ''m'')), dn_msgID = (\<lambda>_. Inr 7),
     dn_now = (\<lambda>_. 62135596801 * second_ns), dn_exchange = (\<lambda>_. Inr)\<rparr>"

definition demo_client :: ddns_client where
  "demo_client = \<lparr>dc_serverAddr = ''ns:53'', dc_forwardZone = ''lan'', dc_reverseZone = ''1.168.192.in-addr.arpa'', dc_timeout = 1,
     dc_signer = Some \<lparr>ts_keyName = ''key.'', ts_algorithm = algorithmSHA256, ts_secret = ''s'', ts_fudge = 300\<rparr>\<rparr>"

definition demo_item :: Lease where
  "demo_item = zero_lease\<lparr>l_IP := ''192.168.1.5'', l_Hostname := ''pc''\<rparr>"

definition demo_ptr :: zoneUpdate where
  "demo_ptr = \<lparr>zu_zone = ''1.168.192.in-addr.arpa'', zu_records = [\<lparr>rr_name = ''5'', rr_typ = 12, rr_class = 254, rr_ttl = 0,
     rr_rdata = [CHR 0x02, CHR ''p'', CHR ''c'', CHR 0x03, CHR ''l'', CHR ''a'', CHR ''n'', CHR 0x00]\<rparr>]\<rparr>"

definition demo_forward :: zoneUpdate where
  "demo_forward = \<lparr>zu_zone = ''lan'', zu_records = [\<lparr>rr_name = ''pc.lan'', rr_typ = 1, rr_class = 254, rr_ttl = 0,
     rr_rdata = [CHR 0xC0, CHR 0xA8, CHR 0x01, CHR 0x05]\<rparr>]\<rparr>"

lemma demo_ip: "net_ParseIP (TrimSpace (l_IP demo_item)) = v4InV6Prefix @ [CHR 0xC0, CHR 0xA8, CHR 0x01, CHR 0x05]"
proof -
  let ?p = "[CHR 0xC0, CHR 0xA8, CHR 0x01, CHR 0x05]"
  have "TrimSpace (l_IP demo_item) = ip_String ?p" by code_simp
  then show ?thesis using ParseIP_String(1) [of ?p] by (simp add: net_ParseIP_def)
qed

lemma demo_hosts: "normalizeHostname ''pc'' = ''pc''" "TrimSpace ''pc.lan'' = ''pc.lan''" "TrimSpace ''lan'' = ''lan''" "TrimSpace ''5'' =
    ''5''" "TrimSpace ''1.168.192.in-addr.arpa'' = ''1.168.192.in-addr.arpa''" "TrimSpace ''pc.lan.'' = ''pc.lan.''" "TrimSpace ''key.'' =
    ''key.''"
  by code_simp+

lemma demo_fqdn: "ensureFQDN ''pc.lan'' = ''pc.lan.''" "ensureFQDN ''lan'' = ''lan.''" "ensureFQDN ''5'' = ''5.''" "ensureFQDN
    ''1.168.192.in-addr.arpa'' = ''1.168.192.in-addr.arpa.''" "ensureFQDN ''pc.lan.'' = ''pc.lan.''" "ensureFQDN ''key.'' = ''key.''"
  by code_simp+

lemma demo_valid: "validateDNSName ''pc.lan'' = None" "validateDNSName ''lan'' = None" "validateDNSName ''5'' = None" "validateDNSName
    ''1.168.192.in-addr.arpa'' = None" "validateDNSName ''pc.lan.'' = None" "validateDNSName ''key.'' = None"
  by (simp_all add: validateDNSName_def demo_hosts demo_fqdn TrimSuffix_def ends_with_def starts_with_def)

lemma demo_reverse4: "reverseIPv4Name [CHR 0xC0, CHR 0xA8, CHR 0x01, CHR 0x05] = ''5.1.168.192.in-addr.arpa''"
  by code_simp

lemma demo_dns_trim: "trimZoneName ''5.1.168.192.in-addr.arpa'' ''1.168.192.in-addr.arpa'' = (''5'', ''1.168.192.in-addr.arpa'')"
  by code_simp

lemma demo_reverse:
  "reverseNames (v4InV6Prefix @ [CHR 0xC0, CHR 0xA8, CHR 0x01, CHR 0x05]) ''1.168.192.in-addr.arpa'' = (''5'', ''1.168.192.in-addr.arpa'')"
  by (simp add: reverseNames_def ip_To4_def v4InV6Prefix_def demo_reverse4 demo_dns_trim)

lemma demo_target: "encodeName ''pc.lan.'' = [CHR 0x02, CHR ''p'', CHR ''c'', CHR 0x03, CHR ''l'', CHR ''a'', CHR ''n'', CHR 0x00]"
  by code_simp

lemma demo_dns_names:
  "normalizeHostname (l_Hostname demo_item) = ''pc''" "forwardName demo_client ''pc'' = ''pc.lan''"
  "reverseNames (v4InV6Prefix @ [CHR 0xC0, CHR 0xA8, CHR 0x01, CHR 0x05]) (dc_reverseZone demo_client) = (''5'', ''1.168.192.in-addr.arpa'')"
  using demo_hosts demo_reverse by (simp_all add: demo_item_def demo_client_def forwardName_def)

lemma demo_address:
  "ipType (v4InV6Prefix @ [CHR 0xC0, CHR 0xA8, CHR 0x01, CHR 0x05]) = 1"
  "ipRData (v4InV6Prefix @ [CHR 0xC0, CHR 0xA8, CHR 0x01, CHR 0x05]) = [CHR 0xC0, CHR 0xA8, CHR 0x01, CHR 0x05]"
  "v4InV6Prefix @ x \<noteq> []" "dc_forwardZone demo_client = ''lan''"
  by (simp_all add: ipType_def ipRData_def ip_To4_def v4InV6Prefix_def demo_client_def)

lemma demo_updates: "buildUpdates demo_client ActionDelete demo_item = Inr [demo_forward, demo_ptr]"
  by (simp add: buildUpdates_def demo_ip demo_dns_names demo_fqdn demo_valid demo_target demo_address checked_all Let_def checked_def forward_update_def ptr_update_def
      demo_forward_def demo_ptr_def)

lemma demo_zone: "plain_zone ''1.168.192.in-addr.arpa''"
  by code_simp

theorem ddns_ptr_outside_zone_witness: "\<not> in_zone ''1.168.192.in-addr.arpa'' ''5''"
  using ddns_ptr_outside_zone [OF demo_updates, of demo_ptr "hd (zu_records demo_ptr)"] demo_zone
  by (simp add: demo_ptr_def demo_client_def)

lemma demo_unix: "time_unix (62135596801 * second_ns) = 1"
  by (simp add: time_unix_def second_ns_def unix_epoch_s_def)

lemma demo_sizes: "length (encodeName ''pc.lan'') = 8" "length (encodeName ''key.'') = 5" "length (encodeName algorithmSHA256) = 13"
  by code_simp+

lemma demo_wire: "\<exists>wire. fst (sendUpdate demo_ddns demo_client 0 demo_forward) = [wire]"
proof -
  have v: "validateZoneUpdate demo_forward = None" by (simp add: zone_update_valid demo_forward_def demo_valid)
  have "\<exists>wire. buildMessage demo_ddns demo_client 7 demo_forward (62135596801 * second_ns) = Inr wire"
    by (simp add: buildMessage_def demo_forward_def encodeRR_def Let_def demo_client_def tsig_sign_def demo_unix tsig_rdata_def demo_sizes
        demo_ddns_def)
  then obtain wire where "buildMessage demo_ddns demo_client 7 demo_forward (62135596801 * second_ns) = Inr wire" by blast
  then show ?thesis using v demo_hosts by (simp add: sendUpdate_def demo_forward_def demo_ddns_def)
qed

theorem ddns_message_roundtrip_witness:
  "\<exists>wire body0. fst (sendUpdate demo_ddns demo_client 0 demo_forward) = [wire] \<and>
     read_message wire = Some (update_message 7 demo_forward
       [signature_record demo_ddns \<lparr>ts_keyName = ''key.'', ts_algorithm = algorithmSHA256, ts_secret = ''s'', ts_fudge = 300\<rparr> body0 7
          (62135596801 * second_ns)])"
proof -
  obtain wire where w: "fst (sendUpdate demo_ddns demo_client 0 demo_forward) = [wire]" using demo_wire by blast
  have "\<exists>m body0. dn_msgID demo_ddns 0 = Inr m \<and> read_message body0 = Some (update_message m demo_forward []) \<and>
    read_message wire = Some (update_message m demo_forward
      (case dc_signer demo_client of None \<Rightarrow> [] | Some s \<Rightarrow> [signature_record demo_ddns s body0 m (dn_now demo_ddns 0)]))"
    by (rule ddns_message_roundtrip [OF demo_updates]) (use w demo_valid in \<open>auto simp: demo_ddns_def demo_client_def\<close>)
  then show ?thesis using w by (auto simp: demo_ddns_def demo_client_def)
qed

end
