(* ===== verification/McpPlan.thy ===== *)
theory McpPlan
  imports IpamAddress
begin

text \<open>
  The planner of \<^verbatim>\<open>src/internal/api/mcp/handlers.go\<close>: the size of a subnet for a number of hosts, the first free block of
  that size inside a parent, and its gateway and pool. Only IPv4 is planned. The lists of existing subnets and the parent are
  arguments here; the handler in \<^verbatim>\<open>Mcp\<close> reads them.
\<close>

section \<open>Sizes\<close>

definition prefixAddressCount :: "nat \<Rightarrow> nat" where
  "prefixAddressCount bits = 2 ^ (32 - bits)"

definition addressCountAsInt :: "prefix \<Rightarrow> int" where
  "addressCountAsInt p = (let count = uint (AddressCount p) in if count > 2 ^ 63 - 1 then 2 ^ 63 - 1 else count)"

definition nonNegativeIntToUint64 :: "int \<Rightarrow> 64 word" where
  "nonNegativeIntToUint64 value = (if value \<le> 0 then 0 else word_of_int value)"

definition usableHosts :: "prefix \<Rightarrow> int" where
  "usableHosts p = (let count = addressCountAsInt p in if count \<le> 2 then 0 else count - 2)"

text \<open>The longest prefix with room for the hosts, from 30 bits down to one.\<close>

fun smallest_from :: "int \<Rightarrow> nat \<Rightarrow> nat option" where
  "smallest_from requiredUsable 0 = None"
| "smallest_from requiredUsable (Suc b) =
     (if usableHosts \<lparr>pfx_addr = A4 0x0A000000, pfx_bits = Suc b\<rparr> \<ge> requiredUsable then Some (Suc b)
      else smallest_from requiredUsable b)"

definition smallestIPv4Prefix :: "int \<Rightarrow> nat option" where
  "smallestIPv4Prefix requiredUsable = (if requiredUsable \<le> 0 then None else smallest_from requiredUsable 30)"

section \<open>The first free block\<close>

function candidate_from :: "prefix \<Rightarrow> nat \<Rightarrow> prefix list \<Rightarrow> nat \<Rightarrow> prefix option" where
  "candidate_from parent bits existing offset =
     (let block = prefixAddressCount bits in
      if offset + block > unat (AddressCount parent) then None
      else
        (case NthAddress parent (of_nat offset) of
           None \<Rightarrow> None
         | Some a \<Rightarrow>
             (let candidate = pfx_Masked \<lparr>pfx_addr = a, pfx_bits = bits\<rparr> in
              if ipam_Contains parent candidate \<and> \<not> list_ex (ipam_Overlaps candidate) existing then Some candidate
              else candidate_from parent bits existing (offset + block))))"
  by pat_completeness auto
termination
proof (relation "measure (\<lambda>(parent, bits, existing, offset). unat (AddressCount parent) - offset)", goal_cases)
  case (2 parent bits existing offset)
  have "0 < prefixAddressCount bits" by (simp add: prefixAddressCount_def)
  with 2 show ?case by (simp add: Let_def diff_less_mono2)
qed simp

declare candidate_from.simps [simp del]

section \<open>Gateway and pool\<close>

text \<open>No address is the zero \<^verbatim>\<open>Addr\<close>, which prints as such.\<close>

definition addr_text :: "addr option \<Rightarrow> string" where
  "addr_text a = (case a of None \<Rightarrow> ''invalid IP'' | Some x \<Rightarrow> addr_String x)"

text \<open>The addresses that the plan names, when the block has four of them at least.\<close>

definition plan_addresses :: "prefix \<Rightarrow> addr option \<times> addr option \<times> addr option" where
  "plan_addresses p =
     (let total = addressCountAsInt p; gw = NthAddress p 1; lastUsable = NthAddress p (nonNegativeIntToUint64 (total - 2));
          start = NthAddress p (if usableHosts p \<le> 20 then 2 else 10)
      in (gw,
          (case start of
             None \<Rightarrow> Option.bind gw addr_Next
           | Some s \<Rightarrow>
               if (case lastUsable of None \<Rightarrow> True | Some l \<Rightarrow> addr_Compare l s < 0) then Option.bind gw addr_Next else Some s),
          lastUsable))"

definition defaultPlanAddresses :: "prefix \<Rightarrow> string \<times> string \<times> string" where
  "defaultPlanAddresses p =
     (if addressCountAsInt p < 4 then ([], [], [])
      else (case plan_addresses p of (gw, start, lastUsable) \<Rightarrow> (addr_text gw, addr_text start, addr_text lastUsable)))"

end
