(* ===== verification/Mcp.thy ===== *)
theory Mcp
  imports Grpc RestRoutes McpPlan
begin

text \<open>
  \<^verbatim>\<open>src/internal/api/mcp\<close>: the tools for language models, and the server that answers their JSON-RPC requests. A tool
  maps the request's context, its arguments and the state to the new state and an error or the fields of its result. The JSON decoders of
  the request, the writer of indented JSON, the parsers of URLs and times and the arithmetic of floating point are fields of an
  environment. Arguments are JSON terms whose numbers are their text, as \<^verbatim>\<open>UseNumber\<close> leaves them. Titles and descriptions of the tools are left
  out, as are the texts that quote values in errors.
\<close>

section \<open>Tools and results\<close>

datatype arg_type = ArgString | ArgInteger | ArgBoolean | ArgStrings

record ToolDefinition =
  td_Name :: string
  td_Properties :: "(string \<times> arg_type) list"
  td_Required :: "string list"
  td_ReadOnly :: bool

definition tool :: "bool \<Rightarrow> string \<Rightarrow> (string \<times> arg_type) list \<Rightarrow> string list \<Rightarrow> ToolDefinition" where
  "tool readOnly name properties required =
     \<lparr>td_Name = name, td_Properties = properties, td_Required = required, td_ReadOnly = readOnly\<rparr>"

definition DefaultTools :: "ToolDefinition list" where
  "DefaultTools =
    [tool True ''monsoon_list_subnets'' [] [],
     tool True ''monsoon_get_subnet'' [(''cidr'', ArgString)] [''cidr''],
     tool False ''monsoon_create_subnet''
       [(''cidr'', ArgString), (''name'', ArgString), (''vlan'', ArgInteger), (''gateway'', ArgString), (''dns'', ArgStrings),
        (''dhcp_enabled'', ArgBoolean), (''pool_start'', ArgString), (''pool_end'', ArgString), (''lease_time_sec'', ArgInteger)] [''cidr''],
     tool True ''monsoon_find_available_ip'' [(''subnet_cidr'', ArgString)] [''subnet_cidr''],
     tool False ''monsoon_reserve_ip''
       [(''mac'', ArgString), (''ip'', ArgString), (''hostname'', ArgString), (''subnet_cidr'', ArgString)] [''mac'', ''ip''],
     tool True ''monsoon_list_leases'' [(''subnet_cidr'', ArgString), (''state'', ArgString), (''include_inactive'', ArgBoolean)] [],
     tool True ''monsoon_get_lease'' [(''ip'', ArgString)] [''ip''],
     tool True ''monsoon_search_by_mac'' [(''mac'', ArgString)] [''mac''],
     tool True ''monsoon_search_by_hostname'' [(''hostname'', ArgString)] [''hostname''],
     tool True ''monsoon_subnet_utilization'' [(''subnet_cidr'', ArgString)] [],
     tool False ''monsoon_run_discovery'' [(''reason'', ArgString), (''subnets'', ArgStrings)] [],
     tool True ''monsoon_get_conflicts'' [] [],
     tool True ''monsoon_audit_query''
       [(''actor'', ArgString), (''action'', ArgString), (''object_type'', ArgString), (''object_id'', ArgString), (''source'', ArgString),
        (''q'', ArgString), (''from'', ArgString), (''to'', ArgString), (''limit'', ArgInteger)] [],
     tool True ''monsoon_get_health'' [] [],
     tool True ''monsoon_plan_subnet''
       [(''prompt'', ArgString), (''required_addresses'', ArgInteger), (''growth_percent'', ArgInteger), (''parent_cidr'', ArgString),
        (''name'', ArgString), (''vlan'', ArgInteger)] []]"

datatype mcp_value =
    MText string
  | MInt int
  | MBool bool
  | MNull
  | MCounts "(string \<times> int) list"
  | MSubnet Subnet
  | MSummaries "SubnetSummary list"
  | MReservation Reservation
  | MReservations "Reservation list"
  | MLease Lease
  | MLeases "Lease list"
  | MAddress AddressRecord
  | MAddresses "AddressRecord list"
  | MConflicts "Conflict list"
  | MEntries "audit_value audit_entry list"
  | MObjects "(string \<times> mcp_value) list list"
  | MJson json

type_synonym tool_value = "(string \<times> mcp_value) list"

datatype tool_error = ParamError string | ToolError go_error

record CallToolResult =
  ct_Content :: "string list"
  ct_StructuredContent :: tool_value
  ct_IsError :: bool

abbreviation (input) defaultProtocolVersion :: string where
  "defaultProtocolVersion \<equiv> ''2025-06-18''"

section \<open>The state\<close>

record rpcRequest =
  rq_JSONRPC :: string
  rq_ID :: "json option"
  rq_RpcMethod :: string
  rq_Params :: "bytes option"

record rpcError =
  er_Code :: int
  er_Message :: string

datatype rpc_result =
    InitializeResult string string
  | EmptyResult
  | ToolsResult "ToolDefinition list"
  | CallResult CallToolResult

record rpcResponse =
  rp_ID :: "json option"
  rp_Result :: "rpc_result option"
  rp_Error :: "rpcError option"

record mcp_session =
  ms_messages :: "rpcResponse list"
  ms_protocolVersion :: string
  ms_initialized :: bool

record 's mcp_state =
  mc_store :: 's
  mc_broker :: "audit_value broker option"
  mc_discovery :: "discovery_engine option"
  mc_sessions :: "(string \<times> mcp_session) list"

record 's mcp_env =
  mv_leases :: "'s lease_ops option"
  mv_ipam :: "'s ipam_engine option"
  mv_discovery :: "'s discovery_env"
  mv_audit :: "('s, audit_value) audit_logger option"
  mv_health :: "'s mcp_state health_deps"
  mv_listen :: string
  mv_ratio :: "int \<Rightarrow> int \<Rightarrow> int"
  mv_percent :: "int \<Rightarrow> int \<Rightarrow> int"
  mv_grow :: "int \<Rightarrow> int \<Rightarrow> int"
  mv_time :: "string \<Rightarrow> time option"
  mv_indent :: "tool_value \<Rightarrow> string"
  mv_hostname :: "string \<Rightarrow> string option"
  mv_request :: "bytes \<Rightarrow> rpcRequest option"
  mv_initialize :: "bytes \<Rightarrow> string option"
  mv_call :: "bytes \<Rightarrow> (string \<times> (string \<times> json) list) option"
  mv_response :: "rpcResponse \<Rightarrow> string"

type_synonym 's mcp_tool =
  "'s mcp_env \<Rightarrow> http_request \<Rightarrow> (string \<times> json) list \<Rightarrow> 's mcp_state \<Rightarrow> 's mcp_state \<times> (tool_error + tool_value)"

definition tool_failed :: "'s mcp_state \<Rightarrow> string \<Rightarrow> 's mcp_state \<times> (tool_error + tool_value)" where
  "tool_failed s message = (s, Inl (ToolError (ErrMsg message)))"

section \<open>Arguments\<close>

text \<open>A value that is not a string, as \<^verbatim>\<open>fmt.Sprint\<close> writes it; the keys of an object are sorted.\<close>

fun sprint_json :: "json \<Rightarrow> string" where
  "sprint_json JNull = ''<nil>''"
| "sprint_json (JBool b) = (if b then ''true'' else ''false'')"
| "sprint_json (JNum t) = t"
| "sprint_json (JStr t) = t"
| "sprint_json (JArr xs) = bracketed (map sprint_json xs)"
| "sprint_json (JObj m) =
     ''map'' @ bracketed (map (\<lambda>(k, t). k @ '':'' @ t) (sort_by (\<lambda>x y. fst x < fst y) (map (\<lambda>(k, x). (k, sprint_json x)) m)))"

definition argument :: "(string \<times> json) list \<Rightarrow> string \<Rightarrow> json option" where
  "argument args key = (case map_of args key of Some JNull \<Rightarrow> None | x \<Rightarrow> x)"

definition optionalString :: "(string \<times> json) list \<Rightarrow> string \<Rightarrow> string" where
  "optionalString args key = (case argument args key of None \<Rightarrow> [] | Some x \<Rightarrow> TrimSpace (sprint_json x))"

definition requireString :: "(string \<times> json) list \<Rightarrow> string \<Rightarrow> tool_error + string" where
  "requireString args key =
     (let value = optionalString args key in if value = [] then Inl (ParamError (key @ '' is required'')) else Inr value)"

fun json_texts :: "json list \<Rightarrow> string list option" where
  "json_texts [] = Some []"
| "json_texts (x # xs) =
     (case x of
        JStr t \<Rightarrow> map_option (\<lambda>out. if TrimSpace t = [] then out else TrimSpace t # out) (json_texts xs)
      | _ \<Rightarrow> None)"

definition optionalStringSlice :: "(string \<times> json) list \<Rightarrow> string \<Rightarrow> tool_error + string list" where
  "optionalStringSlice args key =
     (case argument args key of
        None \<Rightarrow> Inr []
      | Some (JArr items) \<Rightarrow>
          (case json_texts items of None \<Rightarrow> Inl (ParamError (key @ '' must be an array of strings'')) | Some out \<Rightarrow> Inr out)
      | Some _ \<Rightarrow> Inl (ParamError (key @ '' must be an array of strings'')))"

definition optionalBool :: "(string \<times> json) list \<Rightarrow> string \<Rightarrow> bool \<Rightarrow> tool_error + bool" where
  "optionalBool args key fallback =
     (case argument args key of
        None \<Rightarrow> Inr fallback
      | Some (JBool b) \<Rightarrow> Inr b
      | Some _ \<Rightarrow> Inl (ParamError (key @ '' must be a boolean'')))"

definition optionalInt :: "(string \<times> json) list \<Rightarrow> string \<Rightarrow> int \<Rightarrow> tool_error + int" where
  "optionalInt args key fallback =
     (let err = Inl (ParamError (key @ '' must be an integer''));
          parsed = (\<lambda>t. case Atoi t of None \<Rightarrow> err | Some n \<Rightarrow> Inr n)
      in case argument args key of
           None \<Rightarrow> Inr fallback
         | Some (JNum t) \<Rightarrow> parsed t
         | Some (JStr t) \<Rightarrow> parsed (TrimSpace t)
         | Some _ \<Rightarrow> err)"

definition optionalIntOrZero :: "(string \<times> json) list \<Rightarrow> string \<Rightarrow> int" where
  "optionalIntOrZero args key = (case optionalInt args key 0 of Inl _ \<Rightarrow> 0 | Inr n \<Rightarrow> n)"

definition optionalTime :: "'s mcp_env \<Rightarrow> (string \<times> json) list \<Rightarrow> string \<Rightarrow> tool_error + time" where
  "optionalTime v args key =
     (let raw = optionalString args key in
      if raw = [] then Inr 0
      else (case mv_time v raw of None \<Rightarrow> Inl (ParamError (key @ '' must be RFC3339'')) | Some t \<Rightarrow> Inr t))"

section \<open>Roles, events and the audit log\<close>

definition mcp_requireRole :: "http_request \<Rightarrow> string \<Rightarrow> go_error option" where
  "mcp_requireRole r required =
     (if required = [] then None
      else
        (case rq_identity r of
           None \<Rightarrow> if AuthEnforcedFromContext r then Some (ErrMsg ''unauthorized: authentication required'') else None
         | Some i \<Rightarrow> if HasRole required (id_Role i) then None else Some (ErrMsg (''forbidden: '' @ required @ '' role required''))))"

definition with_role ::
  "http_request \<Rightarrow> 's mcp_state \<Rightarrow> ('s mcp_state \<times> (tool_error + tool_value)) \<Rightarrow> 's mcp_state \<times> (tool_error + tool_value)" where
  "with_role r s body = (case mcp_requireRole r DefaultRoleOperator of Some err \<Rightarrow> (s, Inl (ToolError err)) | None \<Rightarrow> body)"

definition mcp_publish :: "time \<Rightarrow> string \<Rightarrow> (string \<times> audit_value) list \<Rightarrow> 's mcp_state \<Rightarrow> 's mcp_state" where
  "mcp_publish now typ data s =
     s\<lparr>mc_broker := map_option (Publish now \<lparr>ev_Type = typ, ev_Timestamp = 0, ev_Data = data\<rparr>) (mc_broker s)\<rparr>"

definition mcp_logAudit :: "'s mcp_env \<Rightarrow> http_request \<Rightarrow> audit_value audit_entry \<Rightarrow> 's mcp_state \<Rightarrow> 's mcp_state" where
  "mcp_logAudit v r entry s =
     (case mv_audit v of
        None \<Rightarrow> s
      | Some logger \<Rightarrow> s\<lparr>mc_store := fst (audit_Log logger (rq_random r ''audit'') (rq_now r) entry (mc_store s))\<rparr>)"

definition mcp_entry :: "http_request \<Rightarrow> string \<Rightarrow> string \<Rightarrow> string \<Rightarrow> (string \<times> audit_value) list \<Rightarrow> audit_value audit_entry" where
  "mcp_entry r action objectType objectID after =
     (new_entry (requestActor r) action objectType objectID ''mcp'')\<lparr>en_After := after\<rparr>"

section \<open>Subnets\<close>

definition mcp_no_ipam :: "'s mcp_state \<Rightarrow> 's mcp_state \<times> (tool_error + tool_value)" where
  "mcp_no_ipam s = tool_failed s ''ipam engine is unavailable''"

definition listSubnets :: "'s mcp_tool" where
  "listSubnets v r args s =
     (case mv_ipam v of
        None \<Rightarrow> mcp_no_ipam s
      | Some e \<Rightarrow>
          (case ListSummaries e (mv_ratio v) (mc_store s) of
             Inl err \<Rightarrow> (s, Inl (ToolError err))
           | Inr summaries \<Rightarrow> (s, Inr [(''subnets'', MSummaries summaries), (''count'', MInt (int (length summaries)))])))"

definition mcp_poolRange :: "Subnet \<Rightarrow> (addr \<times> addr) option" where
  "mcp_poolRange sn =
     (case (ParseAddr (TrimSpace (dp_PoolStart (sn_DHCP sn))), ParseAddr (TrimSpace (dp_PoolEnd (sn_DHCP sn)))) of
        (Some a, Some b) \<Rightarrow> if addr_Compare a b \<le> 0 then Some (a, b) else None
      | _ \<Rightarrow> None)"

text \<open>The number of steps from one address to the other, which the code counts; a range of two kinds of address is counted forever.\<close>

definition hostSpan :: "addr \<Rightarrow> addr \<Rightarrow> int" where
  "hostSpan a b =
     (if addr_Compare a b > 0 then 0
      else (case (a, b) of (A4 x, A4 y) \<Rightarrow> uint y - uint x + 1 | (A6 x _, A6 y _) \<Rightarrow> uint y - uint x + 1 | _ \<Rightarrow> undefined))"

definition pool_has :: "addr \<times> addr \<Rightarrow> AddressRecord \<Rightarrow> bool" where
  "pool_has rg item \<longleftrightarrow>
     (case ParseAddr (ad_IP item) of
        None \<Rightarrow> False
      | Some a \<Rightarrow> \<not> (addr_Compare a (fst rg) < 0 \<or> addr_Compare a (snd rg) > 0))"

definition state_breakdown :: "AddressRecord list \<Rightarrow> (string \<times> int) list" where
  "state_breakdown items =
     fold (\<lambda>item m. mput (ad_State item) ((case map_of m (ad_State item) of None \<Rightarrow> 0 | Some n \<Rightarrow> n) + 1) m) items []"

definition computeUtilization :: "'s mcp_env \<Rightarrow> 's ipam_engine \<Rightarrow> 's \<Rightarrow> Subnet \<Rightarrow> go_error + tool_value" where
  "computeUtilization v e s subnet =
     rbind (ListAddresses e s \<lparr>af_SubnetCIDR = sn_CIDR subnet, af_State = [], af_Query = [], af_Limit = 0\<rparr>) (\<lambda>addresses.
       let rg = (if dp_Enabled (sn_DHCP subnet) then mcp_poolRange subnet else None);
           filtered = (case rg of None \<Rightarrow> addresses | Some p \<Rightarrow> filter (pool_has p) addresses);
           total0 = (case rg of None \<Rightarrow> int (length filtered) | Some (a, b) \<Rightarrow> hostSpan a b);
           used = int (length (filter (\<lambda>item. ad_State item \<noteq> IPStateAvailable) filtered));
           total = (if total0 \<le> 0 then int (length filtered) else total0);
           available = max 0 (total - used)
       in Inr
         [(''subnet_cidr'', MText (sn_CIDR subnet)), (''name'', MText (sn_Name subnet)), (''dhcp_enabled'', MBool (dp_Enabled (sn_DHCP subnet))),
          (''pool_start'', MText (dp_PoolStart (sn_DHCP subnet))), (''pool_end'', MText (dp_PoolEnd (sn_DHCP subnet))),
          (''capacity_total'', MInt total), (''capacity_used'', MInt used), (''capacity_available'', MInt available),
          (''utilization_percent'', MInt (if total > 0 then mv_percent v used total else 0)),
          (''state_breakdown'', MCounts (state_breakdown filtered))])"

definition getSubnet :: "'s mcp_tool" where
  "getSubnet v r args s =
     (case mv_ipam v of
        None \<Rightarrow> mcp_no_ipam s
      | Some e \<Rightarrow>
     (case requireString args ''cidr'' of
        Inl err \<Rightarrow> (s, Inl err)
      | Inr cidr \<Rightarrow>
     (case GetSubnet e (mc_store s) cidr of
        Inl err \<Rightarrow> (s, Inl (ToolError err))
      | Inr subnet \<Rightarrow>
     (case computeUtilization v e (mc_store s) subnet of
        Inl err \<Rightarrow> (s, Inl (ToolError err))
      | Inr utilization \<Rightarrow> (s, Inr [(''subnet'', MSubnet subnet), (''utilization'', MObjects [utilization])])))))"

text \<open>The input of a subnet: the first argument that is wrong is the error.\<close>

definition subnet_input :: "(string \<times> json) list \<Rightarrow> tool_error + UpsertSubnetInput" where
  "subnet_input args =
     rbind (requireString args ''cidr'') (\<lambda>cidr.
     rbind (optionalStringSlice args ''dns'') (\<lambda>dns.
     rbind (optionalInt args ''vlan'' 0) (\<lambda>vlan.
     rbind (optionalBool args ''dhcp_enabled'' False) (\<lambda>enabled.
     rbind (optionalInt args ''lease_time_sec'' 0) (\<lambda>lease_sec.
       Inr \<lparr>si_CIDR = cidr, si_Name = optionalString args ''name'', si_VLAN = vlan, si_Gateway = optionalString args ''gateway'',
            si_DNS = dns, si_DHCPEnable = enabled, si_PoolStart = optionalString args ''pool_start'',
            si_PoolEnd = optionalString args ''pool_end'', si_LeaseSec = lease_sec\<rparr>)))))"

definition createSubnet :: "'s mcp_tool" where
  "createSubnet v r args s =
     (case mv_ipam v of
        None \<Rightarrow> mcp_no_ipam s
      | Some e \<Rightarrow> with_role r s
     (case subnet_input args of
        Inl err \<Rightarrow> (s, Inl err)
      | Inr inp \<Rightarrow>
     (case UpsertSubnet e (rq_now r) inp (mc_store s) of
        (st, Inl err) \<Rightarrow> (s\<lparr>mc_store := st\<rparr>, Inl (ToolError err))
      | (st, Inr subnet) \<Rightarrow>
          (mcp_logAudit v r
             (mcp_entry r ''mcp.subnet.upsert'' ''subnet'' (sn_CIDR subnet)
                [(''name'', AVString (sn_Name subnet)), (''gateway'', AVString (sn_Gateway subnet)), (''vlan'', AVInt (sn_VLAN subnet)),
                 (''dhcp_enabled'', AVBool (dp_Enabled (sn_DHCP subnet)))])
             (mcp_publish (rq_now r) ''subnet.upserted'' [(''cidr'', AVString (sn_CIDR subnet))] (s\<lparr>mc_store := st\<rparr>)),
           Inr [(''subnet'', MSubnet subnet)]))))"

definition findAvailableIP :: "'s mcp_tool" where
  "findAvailableIP v r args s =
     (case mv_ipam v of
        None \<Rightarrow> mcp_no_ipam s
      | Some e \<Rightarrow>
     (case requireString args ''subnet_cidr'' of
        Inl err \<Rightarrow> (s, Inl err)
      | Inr cidr \<Rightarrow>
     (case GetSubnet e (mc_store s) cidr of
        Inl err \<Rightarrow> (s, Inl (ToolError err))
      | Inr subnet \<Rightarrow>
          if \<not> dp_Enabled (sn_DHCP subnet) then tool_failed s (''dhcp is disabled for subnet '' @ sn_CIDR subnet)
          else
            (case ListAddresses e (mc_store s) \<lparr>af_SubnetCIDR = sn_CIDR subnet, af_State = [], af_Query = [], af_Limit = 0\<rparr> of
               Inl err \<Rightarrow> (s, Inl (ToolError err))
             | Inr addresses \<Rightarrow>
                 (case List.find (\<lambda>item. ad_State item = IPStateAvailable) addresses of
                    None \<Rightarrow> tool_failed s (''no available IP found in subnet '' @ sn_CIDR subnet)
                  | Some item \<Rightarrow>
                      (s, Inr [(''subnet_cidr'', MText (sn_CIDR subnet)), (''available_ip'', MText (ad_IP item)),
                         (''address_record'', MAddress item)]))))))"

definition reserveIP :: "'s mcp_tool" where
  "reserveIP v r args s =
     (case mv_ipam v of
        None \<Rightarrow> mcp_no_ipam s
      | Some e \<Rightarrow> with_role r s
     (case requireString args ''mac'' of
        Inl err \<Rightarrow> (s, Inl err)
      | Inr mac \<Rightarrow>
     (case requireString args ''ip'' of
        Inl err \<Rightarrow> (s, Inl err)
      | Inr ip \<Rightarrow>
     (case UpsertReservation e (rq_now r)
             \<lparr>ri_MAC = mac, ri_IP = ip, ri_Hostname = optionalString args ''hostname'', ri_SubnetCIDR = optionalString args ''subnet_cidr''\<rparr>
             (mc_store s) of
        (st, Inl err) \<Rightarrow> (s\<lparr>mc_store := st\<rparr>, Inl (ToolError err))
      | (st, Inr record) \<Rightarrow>
          (mcp_logAudit v r
             (mcp_entry r ''mcp.reservation.upsert'' ''reservation'' (rv_MAC record)
                [(''ip'', AVString (rv_IP record)), (''subnet'', AVString (rv_SubnetCIDR record))])
             (mcp_publish (rq_now r) ''reservation.upserted'' [(''mac'', AVString (rv_MAC record)), (''ip'', AVString (rv_IP record))]
                (s\<lparr>mc_store := st\<rparr>)),
           Inr [(''reservation'', MReservation record)])))))"

section \<open>Leases and searches\<close>

definition isActiveLease :: "LeaseState \<Rightarrow> bool" where
  "isActiveLease st \<longleftrightarrow> st = StateBound \<or> st = StateRenewing \<or> st = StateOffered"

definition lease_shown :: "string \<Rightarrow> string \<Rightarrow> bool \<Rightarrow> Lease \<Rightarrow> bool" where
  "lease_shown subnet st includeInactive item \<longleftrightarrow>
     \<not> (subnet \<noteq> [] \<and> l_SubnetID item \<noteq> subnet) \<and> \<not> (st \<noteq> [] \<and> \<not> EqualFold (l_State item) st) \<and>
     \<not> (st = [] \<and> \<not> includeInactive \<and> \<not> isActiveLease (l_State item))"

definition mcp_no_leases :: "'s mcp_state \<Rightarrow> 's mcp_state \<times> (tool_error + tool_value)" where
  "mcp_no_leases s = tool_failed s ''lease store is unavailable''"

definition listLeases :: "'s mcp_tool" where
  "listLeases v r args s =
     (case mv_leases v of
        None \<Rightarrow> mcp_no_leases s
      | Some ops \<Rightarrow>
     (case optionalBool args ''include_inactive'' False of
        Inl err \<Rightarrow> (s, Inl err)
      | Inr includeInactive \<Rightarrow>
     (case op_ListAll ops (mc_store s) of
        Inl err \<Rightarrow> (s, Inl (ToolError err))
      | Inr leases \<Rightarrow>
          (let filtered = sort_by (\<lambda>x y. compareIPString (l_IP x) (l_IP y) < 0)
                 (filter (lease_shown (optionalString args ''subnet_cidr'') (optionalString args ''state'') includeInactive) leases)
           in (s, Inr [(''leases'', MLeases filtered), (''count'', MInt (int (length filtered)))])))))"

definition getLease :: "'s mcp_tool" where
  "getLease v r args s =
     (case mv_leases v of
        None \<Rightarrow> mcp_no_leases s
      | Some ops \<Rightarrow>
     (case requireString args ''ip'' of
        Inl err \<Rightarrow> (s, Inl err)
      | Inr ip \<Rightarrow>
     (case op_GetByIP ops (mc_store s) ip of
        Inl err \<Rightarrow> (s, Inl (ToolError err))
      | Inr item \<Rightarrow> (s, Inr [(''lease'', MLease item)]))))"

text \<open>What a list gives when its error is ignored.\<close>

definition listed :: "go_error + 'a list \<Rightarrow> 'a list" where
  "listed r = (case r of Inl _ \<Rightarrow> [] | Inr xs \<Rightarrow> xs)"

definition matching_addresses :: "'s mcp_env \<Rightarrow> 's \<Rightarrow> string \<Rightarrow> (AddressRecord \<Rightarrow> bool) \<Rightarrow> AddressRecord list" where
  "matching_addresses v s query ok =
     (case mv_ipam v of
        None \<Rightarrow> []
      | Some e \<Rightarrow> filter ok (listed (ListAddresses e s \<lparr>af_SubnetCIDR = [], af_State = [], af_Query = query, af_Limit = 0\<rparr>)))"

definition searchByMAC :: "'s mcp_tool" where
  "searchByMAC v r args s =
     (if mv_ipam v = None \<and> mv_leases v = None then tool_failed s ''search backends are unavailable''
      else
        (case requireString args ''mac'' of
           Inl err \<Rightarrow> (s, Inl err)
         | Inr mac0 \<Rightarrow>
             (let mac = ToUpper (TrimSpace mac0);
                  reservation = (case mv_ipam v of
                      None \<Rightarrow> None
                    | Some e \<Rightarrow> (case GetReservationByMAC e (mc_store s) mac of Inl _ \<Rightarrow> None | Inr item \<Rightarrow> Some item));
                  leases = (case mv_leases v of None \<Rightarrow> [] | Some ops \<Rightarrow> listed (op_GetByMAC ops (mc_store s) mac));
                  addresses = matching_addresses v (mc_store s) mac (\<lambda>item. EqualFold (ad_MAC item) mac)
              in (s, Inr [(''mac'', MText mac), (''reservation'', case reservation of None \<Rightarrow> MNull | Some item \<Rightarrow> MReservation item),
                     (''leases'', MLeases leases), (''addresses'', MAddresses addresses),
                     (''found'', MBool (reservation \<noteq> None \<or> leases \<noteq> [] \<or> addresses \<noteq> []))]))))"

definition searchByHostname :: "'s mcp_tool" where
  "searchByHostname v r args s =
     (case requireString args ''hostname'' of
        Inl err \<Rightarrow> (s, Inl err)
      | Inr hostname \<Rightarrow>
          (let query = ToLower (TrimSpace hostname); hit = (\<lambda>name. sublist query (ToLower name));
               reservations = (case mv_ipam v of None \<Rightarrow> [] | Some e \<Rightarrow> filter (\<lambda>item. hit (rv_Hostname item)) (listed (ListReservations e (mc_store s))));
               addresses = matching_addresses v (mc_store s) query (\<lambda>item. hit (ad_Hostname item));
               leases = (case mv_leases v of None \<Rightarrow> [] | Some ops \<Rightarrow> filter (\<lambda>item. hit (l_Hostname item)) (listed (op_ListAll ops (mc_store s))))
           in if query = [] then (s, Inl (ParamError ''hostname is required''))
              else (s, Inr [(''hostname_query'', MText query), (''reservations'', MReservations reservations), (''leases'', MLeases leases),
                      (''addresses'', MAddresses addresses), (''found'', MBool (reservations \<noteq> [] \<or> leases \<noteq> [] \<or> addresses \<noteq> []))])))"

text \<open>The utilization of several subnets, up to the first error.\<close>

fun utilizations :: "'s mcp_env \<Rightarrow> 's ipam_engine \<Rightarrow> 's \<Rightarrow> Subnet list \<Rightarrow> go_error + tool_value list" where
  "utilizations v e s [] = Inr []"
| "utilizations v e s (x # xs) =
     rbind (computeUtilization v e s x) (\<lambda>u. rbind (utilizations v e s xs) (\<lambda>us. Inr (u # us)))"

definition subnetUtilization :: "'s mcp_tool" where
  "subnetUtilization v r args s =
     (case mv_ipam v of
        None \<Rightarrow> mcp_no_ipam s
      | Some e \<Rightarrow>
          (let cidr = optionalString args ''subnet_cidr'' in
           if cidr \<noteq> [] then
             (case rbind (GetSubnet e (mc_store s) cidr) (computeUtilization v e (mc_store s)) of
                Inl err \<Rightarrow> (s, Inl (ToolError err))
              | Inr utilization \<Rightarrow> (s, Inr utilization))
           else
             (case rbind (ListSubnets e (mc_store s)) (utilizations v e (mc_store s)) of
                Inl err \<Rightarrow> (s, Inl (ToolError err))
              | Inr items \<Rightarrow> (s, Inr [(''subnets'', MObjects items), (''count'', MInt (int (length items)))]))))"

section \<open>Discovery, audit log and health\<close>

definition mcp_no_discovery :: "'s mcp_state \<Rightarrow> 's mcp_state \<times> (tool_error + tool_value)" where
  "mcp_no_discovery s = tool_failed s ''discovery engine is unavailable''"

definition runDiscovery :: "'s mcp_tool" where
  "runDiscovery v r args s =
     (case mc_discovery s of
        None \<Rightarrow> mcp_no_discovery s
      | Some e \<Rightarrow> with_role r s
     (case optionalStringSlice args ''subnets'' of
        Inl err \<Rightarrow> (s, Inl err)
      | Inr subnets \<Rightarrow>
     (case TriggerScan (mv_discovery v) (rq_now r) e of
        None \<Rightarrow> tool_failed s ''scan already in progress''
      | Some (e', scanID) \<Rightarrow>
          (mcp_logAudit v r
             (mcp_entry r ''mcp.discovery.scan'' ''discovery_scan'' scanID
                [(''subnets'', AVStrings subnets), (''reason'', AVString (optionalString args ''reason''))])
             (mcp_publish (rq_now r) ''discovery.scan_queued'' [(''scan_id'', AVString scanID)] (s\<lparr>mc_discovery := Some e'\<rparr>)),
           Inr [(''scan_id'', MText scanID), (''status'', MText ''queued'')]))))"

definition getConflicts :: "'s mcp_tool" where
  "getConflicts v r args s =
     (case mc_discovery s of
        None \<Rightarrow> mcp_no_discovery s
      | Some e \<Rightarrow>
          (case LatestConflicts (mv_discovery v) (mc_store s, e) of
             Inl err \<Rightarrow> (s, Inl (ToolError err))
           | Inr conflicts \<Rightarrow> (s, Inr [(''conflicts'', MConflicts conflicts), (''count'', MInt (int (length conflicts)))])))"

definition audit_filter_of :: "(string \<times> json) list \<Rightarrow> time \<Rightarrow> time \<Rightarrow> int \<Rightarrow> QueryFilter" where
  "audit_filter_of args fromT toT limit =
     \<lparr>qf_Actor = optionalString args ''actor'', qf_Action = optionalString args ''action'', qf_ObjectType = optionalString args ''object_type'',
      qf_ObjectID = optionalString args ''object_id'', qf_Source = optionalString args ''source'', qf_Query = optionalString args ''q'',
      qf_From = fromT, qf_To = toT, qf_Limit = limit\<rparr>"

definition auditQuery :: "'s mcp_tool" where
  "auditQuery v r args s =
     (case mv_audit v of
        None \<Rightarrow> tool_failed s ''audit logger is unavailable''
      | Some logger \<Rightarrow>
     (case optionalInt args ''limit'' 50 of
        Inl err \<Rightarrow> (s, Inl err)
      | Inr limit \<Rightarrow>
     (case optionalTime v args ''from'' of
        Inl err \<Rightarrow> (s, Inl err)
      | Inr fromT \<Rightarrow>
     (case optionalTime v args ''to'' of
        Inl err \<Rightarrow> (s, Inl err)
      | Inr toT \<Rightarrow>
     (case audit_Query logger (mc_store s) (audit_filter_of args fromT toT limit) of
        Inl err \<Rightarrow> (s, Inl (ToolError err))
      | Inr entries \<Rightarrow> (s, Inr [(''entries'', MEntries entries), (''count'', MInt (int (length entries)))]))))))"

definition mcp_component :: "'s mcp_env \<Rightarrow> json" where
  "mcp_component v =
     JObj [(''enabled'', JBool True), (''ready'', JBool True), (''status'', JStr ''up''), (''listen'', JStr (mv_listen v)),
       (''protocol_version'', JStr defaultProtocolVersion)]"

definition getHealth :: "'s mcp_tool" where
  "getHealth v r args s =
     (let (result, ready) = BuildSystemHealthPayload (mv_health v) (rq_now r) s;
          components = (case map_of result ''components'' of Some (JObj m) \<Rightarrow> m | _ \<Rightarrow> []);
          result = mput ''ready'' (JBool ready) (mput ''components'' (JObj (mput ''mcp'' (mcp_component v) components)) result)
      in (s, Inr (map (\<lambda>(k, x). (k, MJson x)) result)))"

section \<open>Planning\<close>

definition extractRequiredAddresses :: "string \<Rightarrow> int" where
  "extractRequiredAddresses prompt =
     (let digits = takeWhile is_digit (dropWhile (\<lambda>c. \<not> is_digit c) prompt) in
      if digits = [] then 0 else (case Atoi digits of None \<Rightarrow> 0 | Some n \<Rightarrow> n))"

text \<open>The subnets that block a plan: an error of listing them gives none, and a name that is no prefix is skipped.\<close>

definition known_subnets :: "'s mcp_env \<Rightarrow> 's \<Rightarrow> Subnet list" where
  "known_subnets v s = (case mv_ipam v of None \<Rightarrow> [] | Some e \<Rightarrow> listed (ListSubnets e s))"

definition findCandidatePrefix :: "Subnet list \<Rightarrow> prefix \<Rightarrow> nat \<Rightarrow> prefix option" where
  "findCandidatePrefix subnets parent bits = candidate_from parent bits (List.map_filter (\<lambda>x. ParsePrefix (sn_CIDR x)) subnets) 0"

definition plan_request :: "(string \<times> json) list \<Rightarrow> tool_error + (int \<times> int \<times> prefix)" where
  "plan_request args =
     rbind (optionalInt args ''required_addresses'' 0) (\<lambda>required0.
       let required = (if required0 \<le> 0 then extractRequiredAddresses (optionalString args ''prompt'') else required0) in
       if required \<le> 0 then Inl (ParamError ''required_addresses or a numeric prompt is required'')
       else
         rbind (optionalInt args ''growth_percent'' 15) (\<lambda>growth.
           let parentCIDR = optionalString args ''parent_cidr'' in
           case ParsePrefix (if parentCIDR = [] then ''10.0.0.0/8'' else parentCIDR) of
             None \<Rightarrow> Inl (ParamError ''invalid parent_cidr'')
           | Some parent \<Rightarrow>
               if \<not> addr_Is4 (pfx_addr (pfx_Masked parent)) then Inl (ParamError ''only IPv4 subnet planning is currently supported'')
               else Inr (required, growth, pfx_Masked parent)))"

definition planSubnet :: "'s mcp_tool" where
  "planSubnet v r args s =
     (case plan_request args of
        Inl err \<Rightarrow> (s, Inl err)
      | Inr (required, growth, parent) \<Rightarrow>
          (let targetUsable = mv_grow v required growth; subnets = known_subnets v (mc_store s) in
           case smallestIPv4Prefix targetUsable of
             None \<Rightarrow> tool_failed s ''unable to calculate subnet size''
           | Some bits \<Rightarrow>
               if bits < pfx_bits parent then tool_failed s ''parent subnet is too small''
               else
                 (case findCandidatePrefix subnets parent bits of
                    None \<Rightarrow> tool_failed s ''no free subnet was found''
                  | Some suggested \<Rightarrow>
                      (case defaultPlanAddresses suggested of
                         (gateway, poolStart, poolEnd) \<Rightarrow>
                           (s, Inr [(''prompt'', MText (optionalString args ''prompt'')), (''name'', MText (optionalString args ''name'')),
                              (''vlan'', MInt (optionalIntOrZero args ''vlan'')), (''required_addresses'', MInt required),
                              (''target_usable_hosts'', MInt targetUsable), (''suggested_cidr'', MText (pfx_String suggested)),
                              (''parent_cidr'', MText (pfx_String parent)), (''usable_hosts'', MInt (usableHosts suggested)),
                              (''gateway'', MText gateway), (''dhcp_pool_start'', MText poolStart), (''dhcp_pool_end'', MText poolEnd),
                              (''growth_percent'', MInt growth), (''planning_protocol'', MText ''ipv4''),
                              (''existing_subnet_count'', MInt (int (length subnets)))])))))"

section \<open>Calling a tool\<close>

definition tool_handlers :: "(string \<times> 's mcp_tool) list" where
  "tool_handlers =
    [(''monsoon_list_subnets'', listSubnets), (''monsoon_get_subnet'', getSubnet), (''monsoon_create_subnet'', createSubnet),
     (''monsoon_find_available_ip'', findAvailableIP), (''monsoon_reserve_ip'', reserveIP), (''monsoon_list_leases'', listLeases),
     (''monsoon_get_lease'', getLease), (''monsoon_search_by_mac'', searchByMAC), (''monsoon_search_by_hostname'', searchByHostname),
     (''monsoon_subnet_utilization'', subnetUtilization), (''monsoon_run_discovery'', runDiscovery),
     (''monsoon_get_conflicts'', getConflicts), (''monsoon_audit_query'', auditQuery), (''monsoon_get_health'', getHealth),
     (''monsoon_plan_subnet'', planSubnet)]"

definition toolResultJSON :: "'s mcp_env \<Rightarrow> tool_value \<Rightarrow> CallToolResult" where
  "toolResultJSON v x = \<lparr>ct_Content = [mv_indent v x], ct_StructuredContent = x, ct_IsError = False\<rparr>"

definition tool_error_result :: "go_error \<Rightarrow> CallToolResult" where
  "tool_error_result err =
     \<lparr>ct_Content = [go_error_text err], ct_StructuredContent = [(''error'', MText (go_error_text err))], ct_IsError = True\<rparr>"

text \<open>A wrong argument is an error of the protocol, any other error a result.\<close>

definition tool_Call ::
  "'s mcp_env \<Rightarrow> http_request \<Rightarrow> string \<Rightarrow> (string \<times> json) list \<Rightarrow> 's mcp_state \<Rightarrow> 's mcp_state \<times> (string + CallToolResult)" where
  "tool_Call v r name args s =
     (case map_of tool_handlers (TrimSpace name) of
        None \<Rightarrow> (s, Inl (''unknown tool: '' @ TrimSpace name))
      | Some handler \<Rightarrow>
          (case handler v r args s of
             (s', Inr x) \<Rightarrow> (s', Inr (toolResultJSON v x))
           | (s', Inl (ParamError t)) \<Rightarrow> (s', Inl t)
           | (s', Inl (ToolError err)) \<Rightarrow> (s', Inr (tool_error_result err))))"

section \<open>The server\<close>

definition rpc_error :: "json option \<Rightarrow> int \<Rightarrow> string \<Rightarrow> rpcResponse" where
  "rpc_error i code message = \<lparr>rp_ID = i, rp_Result = None, rp_Error = Some \<lparr>er_Code = code, er_Message = message\<rparr>\<rparr>"

definition rpc_answer :: "json option \<Rightarrow> rpc_result \<Rightarrow> rpcResponse" where
  "rpc_answer i x = \<lparr>rp_ID = i, rp_Result = Some x, rp_Error = None\<rparr>"

definition negotiateProtocolVersion :: "string \<Rightarrow> string" where
  "negotiateProtocolVersion requested = defaultProtocolVersion"

definition update_session :: "string \<Rightarrow> (mcp_session \<Rightarrow> mcp_session) \<Rightarrow> 's mcp_state \<Rightarrow> 's mcp_state" where
  "update_session sid f s =
     (case map_of (mc_sessions s) sid of None \<Rightarrow> s | Some x \<Rightarrow> s\<lparr>mc_sessions := mput sid (f x) (mc_sessions s)\<rparr>)"

text \<open>Parameters that are absent decode to the zero value.\<close>

definition decode_params :: "(bytes \<Rightarrow> 'a option) \<Rightarrow> 'a \<Rightarrow> bytes option \<Rightarrow> 'a option" where
  "decode_params decode zero raw = (case raw of None \<Rightarrow> Some zero | Some b \<Rightarrow> if b = [] then Some zero else decode b)"

definition mcp_dispatch :: "'s mcp_env \<Rightarrow> http_request \<Rightarrow> string \<Rightarrow> rpcRequest \<Rightarrow> 's mcp_state \<Rightarrow> 's mcp_state \<times> rpcResponse option" where
  "mcp_dispatch v r sessionID req s =
     (let i = rq_ID req; meth = rq_RpcMethod req in
      if meth = ''initialize'' then
        (case decode_params (mv_initialize v) [] (rq_Params req) of
           None \<Rightarrow> (s, Some (rpc_error i (- 32602) ''invalid params''))
         | Some requested \<Rightarrow>
             (let version = negotiateProtocolVersion requested in
              (if sessionID \<noteq> [] then update_session sessionID (\<lambda>x. x\<lparr>ms_protocolVersion := version\<rparr>) s else s,
               Some (rpc_answer i (InitializeResult version (hd_Version (mv_health v)))))))
      else if meth = ''notifications/initialized'' then
        (if sessionID \<noteq> [] then update_session sessionID (\<lambda>x. x\<lparr>ms_initialized := True\<rparr>) s else s, None)
      else if meth = ''ping'' then (s, Some (rpc_answer i EmptyResult))
      else if meth = ''tools/list'' then (s, Some (rpc_answer i (ToolsResult DefaultTools)))
      else if meth = ''tools/call'' then
        (case decode_params (mv_call v) ([], []) (rq_Params req) of
           None \<Rightarrow> (s, Some (rpc_error i (- 32602) ''invalid params''))
         | Some (name, args) \<Rightarrow>
             (case tool_Call v r name args s of
                (s', Inl t) \<Rightarrow> (s', Some (rpc_error i (- 32602) ''invalid params''))
              | (s', Inr result) \<Rightarrow> (s', Some (rpc_answer i (CallResult result)))))
      else (s, Some (rpc_error i (- 32601) ''method not found'')))"

definition mcp_normalizeHost :: "string \<Rightarrow> string" where
  "mcp_normalizeHost host = ToLower (TrimSpace (trim_set ''[]'' host))"

definition requestHostName :: "string \<Rightarrow> string" where
  "requestHostName hostport = (case SplitHostPort hostport of None \<Rightarrow> hostport | Some (host, _) \<Rightarrow> host)"

definition allowOrigin :: "'s mcp_env \<Rightarrow> http_request \<Rightarrow> bool" where
  "allowOrigin v r \<longleftrightarrow>
     (let origin = TrimSpace (rq_Header r ''Origin'') in
      origin = [] \<or>
      (case mv_hostname v origin of
         None \<Rightarrow> False
       | Some host \<Rightarrow>
           mcp_normalizeHost host = mcp_normalizeHost (requestHostName (rq_Host r)) \<or>
           mcp_normalizeHost host \<in> set [''localhost'', ''127.0.0.1'', ''::1'']))"

definition protocolVersionOrDefault :: "mcp_session \<Rightarrow> string" where
  "protocolVersionOrDefault x = (if TrimSpace (ms_protocolVersion x) = [] then defaultProtocolVersion else ms_protocolVersion x)"

text \<open>An answer in the body, or one that a session's stream will carry, with the version that the header names.\<close>

datatype mcp_reply = McpError nat | McpInline rpcResponse | McpAccepted "string option"

abbreviation (input) session_queue :: nat where "session_queue \<equiv> 16"

definition handleMessage :: "'s mcp_env \<Rightarrow> http_request \<Rightarrow> 's mcp_state \<Rightarrow> 's mcp_state \<times> mcp_reply" where
  "handleMessage v r s =
     (if \<not> allowOrigin v r then (s, McpError 403)
      else
        (case mv_request v (rq_Body r) of
           None \<Rightarrow> (s, McpInline (rpc_error None (- 32700) ''parse error''))
         | Some req \<Rightarrow>
             if rq_JSONRPC req \<noteq> ''2.0'' \<or> TrimSpace (rq_RpcMethod req) = [] then
               (s, McpInline (rpc_error (rq_ID req) (- 32600) ''invalid request''))
             else
               (case mcp_dispatch v r (rq_Query r ''session_id'') req s of
                  (s', None) \<Rightarrow> (s', McpAccepted None)
                | (s', Some resp) \<Rightarrow>
                    (let sessionID = TrimSpace (rq_Query r ''session_id'') in
                     case (if sessionID = [] then None else map_of (mc_sessions s') sessionID) of
                       None \<Rightarrow> (s', McpInline resp)
                     | Some x \<Rightarrow>
                         if length (ms_messages x) < session_queue
                         then (s'\<lparr>mc_sessions := mput sessionID (x\<lparr>ms_messages := ms_messages x @ [resp]\<rparr>) (mc_sessions s')\<rparr>,
                               McpAccepted (Some (protocolVersionOrDefault x)))
                         else (s', McpInline (rpc_error (rq_ID req) (- 32001) ''session queue full''))))))"

text \<open>A stream: its start, then a message or a sign of life at a time, and its end.\<close>

definition writeSSE :: "string \<Rightarrow> string \<Rightarrow> string" where
  "writeSSE event data =
     ''event: '' @ event @ [CHR 0x0A] @ concat (map (\<lambda>line. ''data: '' @ line @ [CHR 0x0A]) (split_on (CHR 0x0A) data)) @ [CHR 0x0A]"

definition handleSSE_start ::
  "'s mcp_env \<Rightarrow> writer \<Rightarrow> http_request \<Rightarrow> 's mcp_state \<Rightarrow> 's mcp_state \<times> (nat + string \<times> string)" where
  "handleSSE_start v w r s =
     (if \<not> allowOrigin v r then (s, Inl 403)
      else if \<not> w_Flusher w then (s, Inl 500)
      else
        (case rq_random r ''mcp_session'' of
           Inl err \<Rightarrow> (s, Inl 500)
         | Inr rnd \<Rightarrow>
             (let sid = hex_encode rnd in
              (s\<lparr>mc_sessions := mput sid \<lparr>ms_messages = [], ms_protocolVersion = [], ms_initialized = False\<rparr> (mc_sessions s)\<rparr>,
               Inr (sid, writeSSE ''endpoint'' (''/message?session_id='' @ sid) @ ''retry: 5000'' @ [CHR 0x0A, CHR 0x0A])))))"

definition handleSSE_next :: "'s mcp_env \<Rightarrow> string \<Rightarrow> 's mcp_state \<Rightarrow> 's mcp_state \<times> string" where
  "handleSSE_next v sid s =
     (case map_of (mc_sessions s) sid of
        None \<Rightarrow> (s, [])
      | Some x \<Rightarrow>
          (case ms_messages x of
             [] \<Rightarrow> (s, '': keepalive'' @ [CHR 0x0A, CHR 0x0A])
           | msg # rest \<Rightarrow> (update_session sid (\<lambda>x. x\<lparr>ms_messages := rest\<rparr>) s, writeSSE ''message'' (mv_response v msg))))"

definition handleSSE_end :: "string \<Rightarrow> 's mcp_state \<Rightarrow> 's mcp_state" where
  "handleSSE_end sid s = s\<lparr>mc_sessions := mdel sid (mc_sessions s)\<rparr>"

text \<open>The stream's route behind the chain of the program; the sessions are beside its state.\<close>

definition sse_route :: "'m mcp_env \<Rightarrow> 'm mcp_state \<Rightarrow> ('s, 'd) handler" where
  "sse_route v m w r s =
     (s, case snd (handleSSE_start v w r m) of
           Inl status \<Rightarrow> Inr \<lparr>rs_status = status, rs_error = None, rs_headers = [SetHeader ''Content-Type'' ''text/plain; charset=utf-8''], rs_data = None\<rparr>
         | Inr _ \<Rightarrow> Inr \<lparr>rs_status = 200, rs_error = None,
             rs_headers = [SetHeader ''Content-Type'' ''text/event-stream'', SetHeader ''Cache-Control'' ''no-cache'',
               SetHeader ''Connection'' ''keep-alive'', SetHeader ''X-Accel-Buffering'' ''no'',
               SetHeader ''MCP-Protocol-Version'' defaultProtocolVersion], rs_data = None\<rparr>)"

end
