(* ===== verification/McpProps.thy ===== *)
theory McpProps
  imports Mcp IpamProps RestProps GrpcProps
begin

text \<open>
  What the tools for language models guarantee: a planned subnet is free, large enough and accepted when it is created, and none is
  missed; only an operator changes anything; the read-only tools keep their promise. And what they do not: the audit log, which the REST
  interface shows to administrators only, is open to every user.
\<close>

section \<open>Blocks of addresses\<close>

text \<open>The block with a base and a number of bits, and when it is aligned.\<close>

definition v4_block :: "u32 \<Rightarrow> nat \<Rightarrow> prefix" where
  "v4_block w bits = \<lparr>pfx_addr = A4 w, pfx_bits = bits\<rparr>"

lemma unat_bound: "unat (w :: u32) < 2 ^ 32"
  using unsigned_less [of w, where ?'a = nat] by simp

lemma unat_drop: "unat (drop_bit k (w :: u32)) = unat w div 2 ^ k"
proof -
  have "unat (drop_bit k w) = drop_bit k (unat w)" using unat_bound [of w] by (simp add: unsigned_drop_bit_eq take_bit_nat_eq_self)
  also have "\<dots> = unat w div 2 ^ k" by (rule drop_bit_eq_div)
  finally show ?thesis .
qed

lemma aligned_masked: "pfx_Masked (v4_block w bits) = v4_block w bits \<longleftrightarrow> unat w mod 2 ^ (32 - bits) = 0"
proof -
  let ?k = "32 - bits"
  have "push_bit ?k (drop_bit ?k w) = w \<longleftrightarrow> take_bit ?k w = 0" using bits_ident [of ?k w] by (metis add_cancel_right_right)
  also have "\<dots> \<longleftrightarrow> unat (take_bit ?k w) = 0" by (simp add: word_unat_eq_iff)
  also have "\<dots> \<longleftrightarrow> unat w mod 2 ^ ?k = 0" unfolding unsigned_take_bit_eq by (simp add: take_bit_eq_mod)
  finally show ?thesis by (simp add: v4_block_def pfx_Masked_def)
qed

lemma same_block: "drop_bit k (x :: u32) = drop_bit k y \<longleftrightarrow> unat x div 2 ^ k = unat y div 2 ^ k"
  by (simp add: word_unat_eq_iff unat_drop)

lemma block_holds: "pfx_Contains (v4_block w bits) (A4 x) \<longleftrightarrow> unat w div 2 ^ (32 - bits) = unat x div 2 ^ (32 - bits)"
  by (simp add: pfx_Contains_def v4_block_def same_block)

text \<open>Adding to an aligned base stays inside and does not wrap.\<close>

lemma block_add:
  assumes "unat (w :: u32) mod 2 ^ (32 - bits) = 0" "n < 2 ^ (32 - bits)"
  shows "unat (w + of_nat n) = unat w + n" "pfx_Contains (v4_block w bits) (A4 (w + of_nat n))"
proof -
  let ?k = "32 - bits"
  obtain q where q: "unat w = q * 2 ^ ?k" using assms(1) by (metis mod_0_imp_dvd dvd_def mult.commute)
  have "(2::nat) ^ 32 = 2 ^ (32 - ?k) * 2 ^ ?k" by (simp flip: power_add)
  moreover have "unat w < 2 ^ 32" by (rule unat_bound)
  ultimately have "q < 2 ^ (32 - ?k)" using q by (metis mult_less_cancel2)
  then have "(q + 1) * 2 ^ ?k \<le> 2 ^ (32 - ?k) * 2 ^ ?k" by (intro mult_right_mono) auto
  then have "unat w + 2 ^ ?k \<le> 2 ^ 32" using q \<open>(2::nat) ^ 32 = _\<close> by simp
  then have b: "unat w + n < 2 ^ 32" using assms(2) by linarith
  then have "unat (of_nat n :: u32) = n" by (simp add: unsigned_of_nat take_bit_nat_eq_self)
  then show u: "unat (w + of_nat n) = unat w + n" using b by (simp add: unat_plus_if')
  show "pfx_Contains (v4_block w bits) (A4 (w + of_nat n))" using assms(2) by (simp add: block_holds u q)
qed

lemma block_count: "AddressCount (v4_block w bits) = 2 ^ (32 - bits)" "unat (AddressCount (v4_block w bits)) = 2 ^ (32 - bits)"
proof -
  show c: "AddressCount (v4_block w bits) = 2 ^ (32 - bits)" by (auto simp: AddressCount_def v4_block_def addr_bitlen_def Let_def)
  have p: "(2::nat) ^ (32 - bits) < 2 ^ 64" by (intro power_strict_increasing) auto
  have "unat (of_nat (2 ^ (32 - bits)) :: u64) = 2 ^ (32 - bits)" using p unfolding unsigned_of_nat by (simp add: take_bit_nat_eq_self)
  then show "unat (AddressCount (v4_block w bits)) = 2 ^ (32 - bits)" unfolding c by simp
qed

lemma block_nth:
  assumes "unat (w :: u32) mod 2 ^ (32 - bits) = 0" "n < 2 ^ (32 - bits)"
  shows "NthAddress (v4_block w bits) (of_nat n) = Some (A4 (w + of_nat n))"
proof -
  have m: "pfx_addr (pfx_Masked (v4_block w bits)) = A4 w"
    using aligned_masked [of w bits] assms(1) by (simp add: v4_block_def)
  have u: "unat w + n < 2 ^ 32" using block_add(1) [OF assms] unat_bound [of "w + of_nat n"] by simp
  have n: "unat (of_nat n :: u64) = n" using u by (simp add: unsigned_of_nat take_bit_nat_eq_self)
  have "unat (ucast w :: u64) = unat w" using unat_bound [of w] by (simp add: unsigned_ucast_eq take_bit_nat_eq_self)
  then have v: "unat ((ucast w :: u64) + of_nat n) = unat w + n" using u n by (simp add: unat_plus_if')
  have "\<not> of_nat n \<ge> AddressCount (v4_block w bits)" using assms(2) n block_count(2) [of w bits] by (simp add: word_le_nat_alt)
  moreover have "\<not> (ucast w :: u64) + of_nat n > 4294967295" using u v by (simp add: word_less_nat_alt)
  moreover have "(ucast ((ucast w :: u64) + of_nat n) :: u32) = w + of_nat n"
    using v block_add(1) [OF assms] u by (simp add: word_unat_eq_iff unsigned_ucast_eq take_bit_nat_eq_self)
  ultimately show ?thesis by (simp add: NthAddress_def m Let_def)
qed

section \<open>The first free block\<close>

text \<open>The \<open>j\<close>-th block of a size inside a parent.\<close>

definition sub_block :: "u32 \<Rightarrow> nat \<Rightarrow> nat \<Rightarrow> prefix" where
  "sub_block w bits j = v4_block (w + of_nat (j * 2 ^ (32 - bits))) bits"

lemma room: "(j + 1) * b \<le> (m :: nat) \<Longrightarrow> 0 < b \<Longrightarrow> j * b < m" "(j + 1) * b \<le> m \<Longrightarrow> 0 < b \<Longrightarrow> m - (j + 1) * b < m - j * b"
  by (auto simp: add_mult_distrib)

text \<open>There are as many as fit; each is aligned and inside.\<close>

lemma sub_block_inside:
  assumes "unat w mod 2 ^ (32 - pb) = 0" "pb \<le> bits" "bits \<le> 32" "(j + 1) * 2 ^ (32 - bits) \<le> 2 ^ (32 - pb)"
  shows "unat (w + of_nat (j * 2 ^ (32 - bits))) = unat w + j * 2 ^ (32 - bits)"
    "unat (w + of_nat (j * 2 ^ (32 - bits))) mod 2 ^ (32 - bits) = 0"
    "pfx_Masked (sub_block w bits j) = sub_block w bits j" "ipam_Contains (v4_block w pb) (sub_block w bits j)"
proof -
  let ?k = "32 - bits"
  have n: "j * 2 ^ ?k < 2 ^ (32 - pb)" by (rule room(1) [OF assms(4)]) simp
  show u: "unat (w + of_nat (j * 2 ^ ?k)) = unat w + j * 2 ^ ?k" by (rule block_add(1) [OF assms(1) n])
  have "(2::nat) ^ (32 - pb) = 2 ^ (bits - pb) * 2 ^ ?k" using assms(2,3) by (simp flip: power_add)
  then have "(2::nat) ^ ?k dvd 2 ^ (32 - pb)" by simp
  then have "unat w mod 2 ^ ?k = 0" using assms(1) by (metis dvd_imp_mod_0 mod_0_imp_dvd dvd_trans)
  then show a: "unat (w + of_nat (j * 2 ^ ?k)) mod 2 ^ ?k = 0" unfolding u by simp
  show m: "pfx_Masked (sub_block w bits j) = sub_block w bits j" unfolding sub_block_def aligned_masked by (rule a)
  have "pfx_Masked (v4_block w pb) = v4_block w pb" unfolding aligned_masked by (rule assms(1))
  then show "ipam_Contains (v4_block w pb) (sub_block w bits j)"
    using block_add(2) [OF assms(1) n] assms(2) m by (simp add: ipam_Contains_def sub_block_def Let_def) (simp add: v4_block_def)
qed

lemma candidate_step:
  assumes "unat w mod 2 ^ (32 - pb) = 0" "pb \<le> bits" "bits \<le> 32"
  shows "candidate_from (v4_block w pb) bits existing (j * 2 ^ (32 - bits)) =
    (if (j + 1) * 2 ^ (32 - bits) > 2 ^ (32 - pb) then None
     else if list_ex (ipam_Overlaps (sub_block w bits j)) existing
     then candidate_from (v4_block w pb) bits existing ((j + 1) * 2 ^ (32 - bits))
     else Some (sub_block w bits j))"
proof (cases "(j + 1) * 2 ^ (32 - bits) > (2::nat) ^ (32 - pb)")
  case True
  then show ?thesis
    by (subst candidate_from.simps) (simp add: Let_def prefixAddressCount_def block_count(2) add_mult_distrib add.commute)
next
  case False
  then have le: "(j + 1) * 2 ^ (32 - bits) \<le> (2::nat) ^ (32 - pb)" by simp
  have n: "j * 2 ^ (32 - bits) < (2::nat) ^ (32 - pb)" by (rule room(1) [OF le]) simp
  note inside = sub_block_inside [OF assms le]
  have "NthAddress (v4_block w pb) (of_nat (j * 2 ^ (32 - bits))) = Some (A4 (w + of_nat (j * 2 ^ (32 - bits))))"
    by (rule block_nth [OF assms(1) n])
  moreover have "pfx_Masked \<lparr>pfx_addr = A4 (w + of_nat (j * 2 ^ (32 - bits))), pfx_bits = bits\<rparr> = sub_block w bits j"
    using inside(3) by (simp add: sub_block_def v4_block_def)
  ultimately show ?thesis
    using inside(4) le
    by (subst candidate_from.simps)
      (simp add: Let_def prefixAddressCount_def block_count(2) add_mult_distrib add.commute del: of_nat_mult of_nat_power)
qed

text \<open>The search returns the first block that overlaps nothing, and nothing only if there is none.\<close>

lemma candidate_first:
  assumes "unat w mod 2 ^ (32 - pb) = 0" "pb \<le> bits" "bits \<le> 32"
  shows "case candidate_from (v4_block w pb) bits existing (j * 2 ^ (32 - bits)) of
      Some c \<Rightarrow> \<exists>i\<ge>j. (i + 1) * 2 ^ (32 - bits) \<le> 2 ^ (32 - pb) \<and> c = sub_block w bits i \<and> \<not> list_ex (ipam_Overlaps c) existing
    | None \<Rightarrow> \<forall>i\<ge>j. (i + 1) * 2 ^ (32 - bits) \<le> 2 ^ (32 - pb) \<longrightarrow> list_ex (ipam_Overlaps (sub_block w bits i)) existing"
proof (induction "2 ^ (32 - pb) - j * 2 ^ (32 - bits)" arbitrary: j rule: less_induct)
  case less
  note step = candidate_step [OF assms, of existing j]
  show ?case
  proof (cases "(j + 1) * 2 ^ (32 - bits) > (2::nat) ^ (32 - pb)")
    case True
    have "\<not> (i + 1) * 2 ^ (32 - bits) \<le> (2::nat) ^ (32 - pb)" if "i \<ge> j" for i
    proof -
      have "(j + 1) * 2 ^ (32 - bits) \<le> (i + 1) * (2::nat) ^ (32 - bits)" using that by (intro mult_right_mono) auto
      then show ?thesis using True by linarith
    qed
    with True show ?thesis unfolding step by auto
  next
    case False
    have smaller: "(2::nat) ^ (32 - pb) - (j + 1) * 2 ^ (32 - bits) < 2 ^ (32 - pb) - j * 2 ^ (32 - bits)"
      by (rule room(2)) (use False in simp_all)
    show ?thesis
    proof (cases "list_ex (ipam_Overlaps (sub_block w bits j)) existing")
      case True
      have e: "candidate_from (v4_block w pb) bits existing (j * 2 ^ (32 - bits)) =
          candidate_from (v4_block w pb) bits existing ((j + 1) * 2 ^ (32 - bits))" unfolding step using False True by simp
      note later = less.hyps [OF smaller]
      show ?thesis
      proof (cases "candidate_from (v4_block w pb) bits existing ((j + 1) * 2 ^ (32 - bits))")
        case None
        have "list_ex (ipam_Overlaps (sub_block w bits i)) existing" if "i \<ge> j" "(i + 1) * 2 ^ (32 - bits) \<le> 2 ^ (32 - pb)" for i
        proof (cases "i = j")
          case i: False
          then have "i \<ge> j + 1" using that(1) by simp
          then show ?thesis using later that(2) unfolding None option.case by blast
        qed (use True in simp)
        then show ?thesis unfolding e None option.case by blast
      next
        case (Some c)
        then obtain i where "i \<ge> j + 1" "(i + 1) * 2 ^ (32 - bits) \<le> 2 ^ (32 - pb)" "c = sub_block w bits i"
          "\<not> list_ex (ipam_Overlaps c) existing" using later by auto
        then show ?thesis unfolding e Some option.case by (intro exI [of _ i]) simp
      qed
    next
      case ok: False
      then show ?thesis unfolding step using False by auto
    qed
  qed
qed

text \<open>Every aligned block of the size inside the parent is one of them.\<close>

lemma block_is_sub:
  assumes "unat w mod 2 ^ (32 - pb) = 0" "pb \<le> bits" "bits \<le> 32"
    and "pfx_addr p = A4 x" "pfx_bits p = bits" "pfx_Masked p = p" "ipam_Contains (v4_block w pb) p"
  shows "\<exists>i. (i + 1) * 2 ^ (32 - bits) \<le> 2 ^ (32 - pb) \<and> p = sub_block w bits i"
proof -
  let ?B = "(2::nat) ^ (32 - bits)" and ?P = "(2::nat) ^ (32 - pb)"
  have p: "p = v4_block x bits" using assms(4,5) by (simp add: v4_block_def)
  have a: "unat x mod ?B = 0" using assms(6) aligned_masked [of x bits] by (simp add: p)
  have m: "pfx_Masked (v4_block w pb) = v4_block w pb" unfolding aligned_masked by (rule assms(1))
  have "pfx_Contains (v4_block w pb) (A4 x)" using assms(7) by (simp add: ipam_Contains_def Let_def m assms(6) assms(4))
  then have q: "unat w div ?P = unat x div ?P" by (simp add: block_holds)
  have PB: "?P = 2 ^ (bits - pb) * ?B" using assms(2,3) by (simp flip: power_add)
  then have "?B dvd ?P" by simp
  then have "unat x mod ?P mod ?B = unat x mod ?B" by (rule mod_mod_cancel)
  then have d0: "unat x mod ?P mod ?B = 0" using a by simp
  define i where "i = unat x mod ?P div ?B"
  have i: "unat x mod ?P = i * ?B" using d0 unfolding i_def by (metis add.right_neutral div_mult_mod_eq)
  have "unat x = unat x div ?P * ?P + unat x mod ?P" by (rule div_mult_mod_eq [symmetric])
  also have "unat x div ?P * ?P = unat w" using assms(1) q by (metis add.right_neutral div_mult_mod_eq)
  finally have x: "unat x = unat w + i * ?B" by (simp add: i)
  have "i * ?B < 2 ^ (bits - pb) * ?B" using i PB by (metis mod_less_divisor zero_less_numeral zero_less_power)
  then have "i < 2 ^ (bits - pb)" by simp
  then have "(i + 1) * ?B \<le> ?P" unfolding PB by (intro mult_right_mono) auto
  moreover from this have "unat (w + of_nat (i * ?B)) = unat w + i * ?B" by (rule sub_block_inside(1) [OF assms(1-3)])
  then have "x = w + of_nat (i * ?B)" using x by (simp add: word_unat_eq_iff)
  ultimately show ?thesis unfolding p sub_block_def by blast
qed

section \<open>Printed addresses and prefixes\<close>

lemma v4_text: "addr_String (A4 w) = ip4_string (word_bytes 4 w)"
  by (simp add: addr_String_def)

lemma parse_v4 [simp]: "ParseAddr (addr_String (A4 w)) = Some (A4 w)"
proof -
  have l: "length (word_bytes 4 w) = 4" by simp
  then have "word_bytes 4 w \<noteq> []" by (cases "word_bytes 4 w") simp_all
  then have "ip_String (word_bytes 4 w) = ip4_string (word_bytes 4 w)" using l by (simp add: ip_String_def ip_To4_def)
  then show ?thesis using ParseIP_String(1) [of "word_bytes 4 w"] unfolding v4_text by simp
qed

lemma dec_shape: "dec k \<noteq> [] \<and> is_digit (hd (dec k)) \<and> is_digit (last (dec k)) \<and> CHR ''/'' \<notin> set (dec k)"
proof -
  have n: "dec k \<noteq> []" by (subst dec.simps) simp
  moreover have "CHR ''/'' \<notin> set (dec k)" using digits_dec [of "CHR ''/''" k] by (auto simp: is_digit_def less_eq_char_def)
  ultimately show ?thesis using digits_dec [of _ k] by simp
qed

lemma v4_shape: "addr_String (A4 w) \<noteq> [] \<and> is_digit (hd (addr_String (A4 w))) \<and> is_digit (last (addr_String (A4 w))) \<and>
    CHR ''/'' \<notin> set (addr_String (A4 w))"
  using dec_shape by (simp add: v4_text ip4_string_def hd_append last_append)

lemma digit_printable: "is_digit c \<Longrightarrow> printable c"
  by (auto simp: is_digit_def printable_def less_eq_char_def byte_nat_def)

lemma trim_v4 [simp]: "TrimSpace (addr_String (A4 w)) = addr_String (A4 w)"
  using v4_shape [of w] by (intro TrimSpace_printable) (auto intro: digit_printable)

lemma last_index_app: "c \<notin> set b \<Longrightarrow> last_index c (a @ c # b) = Some (length a)"
proof -
  assume b: "c \<notin> set b"
  then have "last_index c b = None" by (induction b) auto
  then show ?thesis by (induction a) auto
qed

lemma small_dec: "b \<le> 32 \<Longrightarrow> (length (dec b) > 1 \<longrightarrow> \<not> hd (dec b) < CHR ''1'' \<and> \<not> hd (dec b) > CHR ''9'') \<and> dec_val 0 (dec b) = b"
proof -
  assume "b \<le> 32"
  then have "b \<in> set [0..<33]" by simp
  moreover have "\<forall>b\<in>set [0..<33]. (length (dec b) > 1 \<longrightarrow> \<not> hd (dec b) < CHR ''1'' \<and> \<not> hd (dec b) > CHR ''9'') \<and> dec_val 0 (dec b) = b"
    by code_simp
  ultimately show ?thesis by blast
qed

lemma parse_block: "bits \<le> 32 \<Longrightarrow> ParsePrefix (pfx_String (v4_block w bits)) = Some (v4_block w bits)"
proof -
  assume b: "bits \<le> 32"
  have "\<forall>c\<in>set (dec bits). is_digit c" using digits_dec [of _ bits] by blast
  then show ?thesis
    using small_dec [OF b] dec_shape [of bits] b by (simp add: ParsePrefix_def pfx_String_def v4_block_def last_index_app addr_bitlen_def Let_def)
qed

lemma trim_block: "TrimSpace (pfx_String (v4_block w bits)) = pfx_String (v4_block w bits)"
  using v4_shape [of w] dec_shape [of bits]
  by (intro TrimSpace_printable) (auto simp: pfx_String_def v4_block_def intro: digit_printable)

section \<open>Gateway, pool and size\<close>

lemma block_size: "addressCountAsInt (v4_block w bits) = int (2 ^ (32 - bits))" "(2::nat) ^ (32 - bits) \<le> 2 ^ 32"
proof -
  show b: "(2::nat) ^ (32 - bits) \<le> 2 ^ 32" by (rule power_increasing) simp_all
  have "uint (AddressCount (v4_block w bits)) = int (2 ^ (32 - bits))" using block_count(2) [of w bits] by (simp only: uint_nat)
  moreover have "\<not> int (2 ^ (32 - bits)) > 2 ^ 63 - 1"
  proof -
    have "int (2 ^ (32 - bits)) \<le> int (2 ^ 32)" using b by (simp only: of_nat_le_iff)
    then show ?thesis by simp
  qed
  ultimately show "addressCountAsInt (v4_block w bits) = int (2 ^ (32 - bits))" unfolding addressCountAsInt_def Let_def by metis
qed

definition block_room :: "nat \<Rightarrow> int" where
  "block_room bits = max 0 (int (2 ^ (32 - bits)) - 2)"

lemma block_hosts: "usableHosts (v4_block w bits) = block_room bits"
  by (auto simp: usableHosts_def Let_def block_size(1) block_room_def)

lemma block_plan:
  assumes "unat w mod 2 ^ (32 - bits) = 0" "bits \<le> 30"
  obtains n where "n \<in> {2, 10}" "n \<le> 2 ^ (32 - bits) - 2"
    "defaultPlanAddresses (v4_block w bits) =
       (addr_String (A4 (w + 1)), addr_String (A4 (w + of_nat n)), addr_String (A4 (w + of_nat (2 ^ (32 - bits) - 2))))"
proof -
  let ?m = "(2::nat) ^ (32 - bits)" and ?p = "v4_block w bits"
  have "(2::nat) ^ 2 \<le> ?m" by (rule power_increasing) (use assms(2) in simp_all)
  then have four: "?m \<ge> 4" by simp
  note c = block_size(1) [of w bits]
  have h: "usableHosts ?p = int ?m - 2" unfolding block_hosts block_room_def using four by linarith
  define n :: nat where "n = (if usableHosts ?p \<le> 20 then 2 else 10)"
  have "(if u \<le> 20 then 2 else 10) \<le> m - 2" if "4 \<le> m" "u = int m - 2" for u :: int and m :: nat using that by auto
  from this [OF four h] have n: "n \<in> {2, 10}" "n \<le> ?m - 2" unfolding n_def by simp_all
  have "nonNegativeIntToUint64 (int m - 2) = of_nat (m - 2)" if "4 \<le> m" for m
    using that by (auto simp: nonNegativeIntToUint64_def of_nat_diff)
  from this [OF four] have l: "nonNegativeIntToUint64 (addressCountAsInt ?p - 2) = of_nat (?m - 2)" unfolding c .
  note nth = block_nth [OF assms(1)]
  have g: "NthAddress ?p 1 = Some (A4 (w + 1))" using nth [of 1] four by simp
  have st: "NthAddress ?p (if usableHosts ?p \<le> 20 then 2 else 10) = Some (A4 (w + of_nat n))"
    using nth [of n] n(2) four by (auto simp: n_def)
  have la: "NthAddress ?p (of_nat (?m - 2)) = Some (A4 (w + of_nat (?m - 2)))" by (rule nth) (use four in simp)
  have "unat (w + of_nat n) \<le> unat (w + of_nat (?m - 2))"
    using block_add(1) [OF assms(1), of n] block_add(1) [OF assms(1), of "?m - 2"] n(2) four by simp
  then have "\<not> addr_Compare (A4 (w + of_nat (?m - 2))) (A4 (w + of_nat n)) < 0"
    by (auto simp: addr_Compare_def cmp3_def word_less_nat_alt split: if_splits)
  then have "plan_addresses ?p = (Some (A4 (w + 1)), Some (A4 (w + of_nat n)), Some (A4 (w + of_nat (?m - 2))))"
    unfolding plan_addresses_def Let_def l g st la by simp
  moreover have "\<not> addressCountAsInt ?p < 4" using four unfolding c by linarith
  ultimately have "defaultPlanAddresses ?p = (addr_String (A4 (w + 1)), addr_String (A4 (w + of_nat n)), addr_String (A4 (w + of_nat (?m - 2))))"
    by (simp only: defaultPlanAddresses_def addr_text_def prod.case option.case if_False)
  then show ?thesis by (rule that [OF n])
qed

text \<open>The size is the smallest with room enough.\<close>

lemma smallest_ok:
  assumes "smallest_from required b = Some bits" "b \<le> 30"
  shows "1 \<le> bits" "bits \<le> b" "required \<le> usableHosts (v4_block w bits)"
    "\<And>longer. bits < longer \<Longrightarrow> longer \<le> b \<Longrightarrow> usableHosts (v4_block w longer) < required"
proof -
  have same: "usableHosts \<lparr>pfx_addr = A4 0x0A000000, pfx_bits = k\<rparr> = usableHosts (v4_block w k)" for k
    using block_hosts [of "0x0A000000" k] block_hosts [of w k] by (simp add: v4_block_def)
  have "1 \<le> bits \<and> bits \<le> b \<and> required \<le> usableHosts (v4_block w bits) \<and>
      (\<forall>longer. bits < longer \<and> longer \<le> b \<longrightarrow> usableHosts (v4_block w longer) < required)"
    using assms(1)
  proof (induction b)
    case (Suc b)
    then show ?case by (auto simp: same not_le le_Suc_eq split: if_splits)
  qed simp
  then show "1 \<le> bits" "bits \<le> b" "required \<le> usableHosts (v4_block w bits)"
    "\<And>longer. bits < longer \<Longrightarrow> longer \<le> b \<Longrightarrow> usableHosts (v4_block w longer) < required" by auto
qed

section \<open>Plans\<close>

text \<open>The subnet can be created as planned.\<close>

definition accepts_plan :: "'s ipam_engine \<Rightarrow> 's \<Rightarrow> string \<Rightarrow> string \<Rightarrow> string \<Rightarrow> string \<Rightarrow> bool" where
  "accepts_plan e s cidr gw a b \<longleftrightarrow>
     (\<forall>inp. si_CIDR inp = cidr \<and> si_Gateway inp = gw \<and> si_PoolStart inp = a \<and> si_PoolEnd inp = b \<and> si_VLAN inp \<in> {0..4094} \<longrightarrow>
        (\<exists>n. ValidateSubnet e s inp = Inr n \<and> sn_CIDR n = cidr))"

lemma plan_parent:
  assumes "plan_request args = Inr (required, growth, parent)"
  obtains w pb where "parent = v4_block w pb" "unat w mod 2 ^ (32 - pb) = 0"
proof -
  from assms obtain q where q: "parent = pfx_Masked q" "addr_Is4 (pfx_addr (pfx_Masked q))"
    by (auto simp: plan_request_def rbind_Inr_conv Let_def split: option.splits if_splits)
  obtain w where w: "pfx_addr parent = A4 w" using q by (cases "pfx_addr parent") (auto simp: addr_Is4_def)
  have "pfx_Masked (pfx_Masked q) = pfx_Masked q" by (simp add: pfx_Masked_def drop_push_drop split: addr.split)
  moreover have p: "parent = v4_block w (pfx_bits parent)" using w by (simp add: v4_block_def)
  ultimately have "unat w mod 2 ^ (32 - pfx_bits parent) = 0" using q(1) aligned_masked [of w "pfx_bits parent"] by metis
  then show ?thesis by (rule that [OF p])
qed

lemma overlap_known:
  assumes "bits \<le> 32"
  shows "list_ex (ipam_Overlaps (v4_block x bits)) (List.map_filter (\<lambda>x. ParsePrefix (sn_CIDR x)) subnets) \<longleftrightarrow>
    (\<exists>y\<in>set subnets. cidr_overlap (pfx_String (v4_block x bits)) (sn_CIDR y))"
  by (induction subnets) (auto simp: map_filter_simps cidr_overlap_def parse_block [OF assms] split: option.splits)

lemma block_accepted:
  assumes "unat x mod 2 ^ (32 - bits) = 0" "bits \<le> 30"
    and "defaultPlanAddresses (v4_block x bits) = (gw, a, b)"
    and "\<forall>y\<in>set (listed (ListSubnets e s)). \<not> cidr_overlap (pfx_String (v4_block x bits)) (sn_CIDR y)"
  shows "accepts_plan e s (pfx_String (v4_block x bits)) gw a b"
  unfolding accepts_plan_def
proof (intro allI impI, elim conjE)
  fix inp :: UpsertSubnetInput
  assume i: "si_CIDR inp = pfx_String (v4_block x bits)" "si_Gateway inp = gw" "si_PoolStart inp = a" "si_PoolEnd inp = b" "si_VLAN inp \<in> {0..4094}"
  let ?m = "(2::nat) ^ (32 - bits)" and ?p = "v4_block x bits"
  obtain n where n: "n \<in> {2, 10}" "n \<le> ?m - 2"
    and d: "defaultPlanAddresses ?p = (addr_String (A4 (x + 1)), addr_String (A4 (x + of_nat n)), addr_String (A4 (x + of_nat (?m - 2))))"
    by (rule block_plan [OF assms(1,2)])
  have m: "n < ?m" "?m - 2 < ?m" "1 < ?m" using n by auto
  note inside = block_add [OF assms(1)]
  have c: "pfx_Contains ?p (A4 (x + 1))" "pfx_Contains ?p (A4 (x + of_nat n))" "pfx_Contains ?p (A4 (x + of_nat (?m - 2)))"
    using inside(2) [OF m(3)] inside(2) [OF m(1)] inside(2) [OF m(2)] by simp_all
  have "\<not> addr_Compare (A4 (x + of_nat n)) (A4 (x + of_nat (?m - 2))) > 0"
    using inside(1) [OF m(1)] inside(1) [OF m(2)] n(2) by (auto simp: addr_Compare_def cmp3_def word_less_nat_alt split: if_splits)
  then have pool: "check_pool ?p inp = None" using i(3,4) c d assms(3) by (simp add: check_pool_def)
  have gate: "check_gateway ?p inp = None" using i(2) c d assms(3) by (simp add: check_gateway_def)
  have mk: "pfx_Masked ?p = ?p" unfolding aligned_masked by (rule assms(1))
  have "\<exists>out. validateSubnet inp = Inr out \<and> sn_CIDR out = pfx_String ?p"
    using i(1,5) assms(2) by (simp add: validateSubnet_def trim_block parse_block gate pool mk)
  then obtain out where out: "validateSubnet inp = Inr out" "sn_CIDR out = pfx_String ?p" by blast
  then show "\<exists>n. ValidateSubnet e s inp = Inr n \<and> sn_CIDR n = pfx_String ?p"
    using assms(4) cidr_overlap_sym unfolding listed_def by (auto simp: ValidateSubnet_def Let_def)
qed

text \<open>What a plan says, and what no plan means.\<close>

definition plan_ok :: "'s mcp_env \<Rightarrow> 's ipam_engine \<Rightarrow> 's \<Rightarrow> prefix \<Rightarrow> int \<Rightarrow> tool_value \<Rightarrow> bool" where
  "plan_ok v e st parent hosts out \<longleftrightarrow>
     (\<exists>p gw a b.
        map_of out ''suggested_cidr'' = Some (MText (pfx_String p)) \<and> map_of out ''gateway'' = Some (MText gw) \<and>
        map_of out ''dhcp_pool_start'' = Some (MText a) \<and> map_of out ''dhcp_pool_end'' = Some (MText b) \<and>
        ipam_Contains parent p \<and> hosts \<le> usableHosts p \<and>
        (\<forall>q. addr_Is4 (pfx_addr q) \<and> pfx_bits p < pfx_bits q \<and> pfx_bits q \<le> 30 \<longrightarrow> usableHosts q < hosts) \<and>
        (\<forall>x\<in>set (known_subnets v st). \<not> cidr_overlap (pfx_String p) (sn_CIDR x)) \<and> accepts_plan e st (pfx_String p) gw a b)"

definition none_free :: "'s mcp_env \<Rightarrow> 's \<Rightarrow> prefix \<Rightarrow> int \<Rightarrow> bool" where
  "none_free v st parent hosts \<longleftrightarrow>
     (\<exists>bits. smallestIPv4Prefix hosts = Some bits \<and>
        (\<forall>p. pfx_bits p = bits \<and> pfx_Masked p = p \<and> ipam_Contains parent p \<longrightarrow>
           (\<exists>x\<in>set (known_subnets v st). cidr_overlap (pfx_String p) (sn_CIDR x))))"

lemma block_of_Is4: "addr_Is4 (pfx_addr q) \<Longrightarrow> \<exists>w. q = v4_block w (pfx_bits q)"
  by (cases q; cases "pfx_addr q") (auto simp: v4_block_def addr_Is4_def)

text \<open>C35: A plan is a block inside the parent with room for the hosts and their growth and no larger than needed; it overlaps no known
  subnet, and creating it with the gateway and the pool of the plan is accepted. The answer that there is no free subnet is given only
  when every block of that size in the parent overlaps a known one. Planning changes nothing.
\<close>

theorem mcp_plan_accepted:
  assumes "mv_ipam v = Some e" "plan_request args = Inr (required, growth, parent)"
  shows "case planSubnet v r args s of
      (s', Inr out) \<Rightarrow> s' = s \<and> plan_ok v e (mc_store s) parent (mv_grow v required growth) out
    | (s', Inl err) \<Rightarrow> s' = s \<and>
        (err = ToolError (ErrMsg ''no free subnet was found'') \<longrightarrow> none_free v (mc_store s) parent (mv_grow v required growth))"
proof -
  let ?hosts = "mv_grow v required growth" and ?known = "known_subnets v (mc_store s)"
  obtain w pb where parent: "parent = v4_block w pb" and al: "unat w mod 2 ^ (32 - pb) = 0" by (rule plan_parent [OF assms(2)])
  have pbits: "pfx_bits parent = pb" by (simp add: parent v4_block_def)
  show ?thesis
  proof (cases "smallestIPv4Prefix ?hosts")
    case None
    then show ?thesis using assms(2) by (simp add: planSubnet_def tool_failed_def)
  next
    case (Some bits)
    then have sm: "smallest_from ?hosts 30 = Some bits" by (auto simp: smallestIPv4Prefix_def split: if_splits)
    note size = smallest_ok [OF sm order_refl]
    show ?thesis
    proof (cases "bits < pb")
      case True
      then show ?thesis using assms(2) Some pbits by (simp add: planSubnet_def tool_failed_def)
    next
      case False
      then have b: "pb \<le> bits" "bits \<le> 32" "bits \<le> 30" using size(2) by simp_all
      note first = candidate_first [OF al b(1,2), of 0 "List.map_filter (\<lambda>x. ParsePrefix (sn_CIDR x)) ?known", simplified]
      show ?thesis
      proof (cases "findCandidatePrefix ?known parent bits")
        case none: None
        have "\<exists>x\<in>set ?known. cidr_overlap (pfx_String p) (sn_CIDR x)"
          if p: "pfx_bits p = bits" "pfx_Masked p = p" "ipam_Contains parent p" for p
        proof -
          obtain y where y: "pfx_addr p = A4 y"
            using p(2,3) by (auto simp: ipam_Contains_def Let_def parent v4_block_def pfx_Contains_def pfx_Masked_def split: addr.splits)
          obtain i where "(i + 1) * 2 ^ (32 - bits) \<le> 2 ^ (32 - pb)" "p = sub_block w bits i"
            using block_is_sub [OF al b(1,2) y p(1,2)] p(3) parent by blast
          then show ?thesis
            using first none unfolding findCandidatePrefix_def parent sub_block_def by (auto simp: overlap_known [OF b(2)])
        qed
        then have "none_free v (mc_store s) parent ?hosts" unfolding none_free_def using Some by blast
        then show ?thesis using assms(2) Some False none pbits by (simp add: planSubnet_def tool_failed_def)
      next
        case found: (Some c)
        then obtain i where i: "(i + 1) * 2 ^ (32 - bits) \<le> 2 ^ (32 - pb)" "c = sub_block w bits i"
          "\<not> list_ex (ipam_Overlaps c) (List.map_filter (\<lambda>x. ParsePrefix (sn_CIDR x)) ?known)"
          using first unfolding findCandidatePrefix_def parent by auto
        define x where "x = w + of_nat (i * 2 ^ (32 - bits))"
        note inside = sub_block_inside [OF al b(1,2) i(1)]
        have c: "c = v4_block x bits" by (simp add: i(2) sub_block_def x_def)
        have ax: "unat x mod 2 ^ (32 - bits) = 0" unfolding x_def by (rule inside(2))
        have free: "\<forall>y\<in>set ?known. \<not> cidr_overlap (pfx_String c) (sn_CIDR y)" using i(3) unfolding c overlap_known [OF b(2)] by blast
        obtain gw a e' where d: "defaultPlanAddresses c = (gw, a, e')" by (cases "defaultPlanAddresses c")
        have acc: "accepts_plan e (mc_store s) (pfx_String c) gw a e'"
          using block_accepted [OF ax b(3) d [unfolded c], of e "mc_store s"] free assms(1) by (simp add: c known_subnets_def)
        have least: "usableHosts q < ?hosts" if "addr_Is4 (pfx_addr q)" "pfx_bits c < pfx_bits q" "pfx_bits q \<le> 30" for q
          using block_of_Is4 [OF that(1)] size(4) [of "pfx_bits q"] that(2,3) by (metis block_hosts c prefix.select_convs(2) v4_block_def)
        have "ipam_Contains parent c" using inside(4) by (simp add: parent i(2))
        moreover have "?hosts \<le> usableHosts c" unfolding c by (rule size(3))
        ultimately show ?thesis
          using assms(2) Some False found pbits d free acc least by (auto simp: planSubnet_def plan_ok_def Let_def)
      qed
    qed
  qed
qed

section \<open>Who may change what\<close>

text \<open>What the tools share with the rest of the program.\<close>

definition mcp_shared :: "'s mcp_state \<Rightarrow> 's \<times> audit_value broker option \<times> discovery_engine option" where
  "mcp_shared s = (mc_store s, mc_broker s, mc_discovery s)"

lemma read_only_tools:
  "fst (listSubnets v r args s) = s" "fst (getSubnet v r args s) = s" "fst (findAvailableIP v r args s) = s"
  "fst (listLeases v r args s) = s" "fst (getLease v r args s) = s" "fst (searchByMAC v r args s) = s"
  "fst (searchByHostname v r args s) = s" "fst (subnetUtilization v r args s) = s" "fst (getConflicts v r args s) = s"
  "fst (auditQuery v r args s) = s" "fst (getHealth v r args s) = s" "fst (planSubnet v r args s) = s"
  by (simp_all add: listSubnets_def getSubnet_def findAvailableIP_def listLeases_def getLease_def searchByMAC_def searchByHostname_def
      subnetUtilization_def getConflicts_def auditQuery_def getHealth_def planSubnet_def tool_failed_def mcp_no_ipam_def mcp_no_leases_def
      mcp_no_discovery_def Let_def split: option.split sum.split prod.split)

lemma operator_tools:
  assumes "mcp_requireRole r DefaultRoleOperator = Some err"
  shows "fst (createSubnet v r args s) = s" "fst (reserveIP v r args s) = s" "fst (runDiscovery v r args s) = s"
  by (simp_all add: createSubnet_def reserveIP_def runDiscovery_def with_role_def assms tool_failed_def mcp_no_ipam_def
      mcp_no_discovery_def split: option.split)

text \<open>A tool that changes anything is not called read-only, and its caller is an operator, or authentication is off.\<close>

definition operator_call :: "http_request \<Rightarrow> string \<Rightarrow> bool" where
  "operator_call r name \<longleftrightarrow>
     (\<exists>t\<in>set DefaultTools. td_Name t = name \<and> \<not> td_ReadOnly t) \<and>
     (case rq_identity r of None \<Rightarrow> \<not> AuthEnforcedFromContext r | Some i \<Rightarrow> HasRole DefaultRoleOperator (id_Role i))"

lemma role_ok:
  "mcp_requireRole r DefaultRoleOperator = None \<longleftrightarrow>
   (case rq_identity r of None \<Rightarrow> \<not> AuthEnforcedFromContext r | Some i \<Rightarrow> HasRole DefaultRoleOperator (id_Role i))"
  by (simp add: mcp_requireRole_def split: option.split)

lemma tool_Call_state:
  "fst (tool_Call v r name args s) = (case map_of tool_handlers (TrimSpace name) of None \<Rightarrow> s | Some h \<Rightarrow> fst (h v r args s))"
  by (simp add: tool_Call_def split: option.split prod.split sum.split tool_error.split)

lemma tool_changes:
  assumes "tool_Call v r name args s = (s', out)" "s' \<noteq> s"
  shows "operator_call r (TrimSpace name)"
proof -
  obtain h where h: "map_of tool_handlers (TrimSpace name) = Some h" "fst (h v r args s) = s'"
    using assms by (auto simp: tool_Call_def split: option.splits prod.splits sum.splits tool_error.splits)
  have "TrimSpace name \<in> set [''monsoon_create_subnet'', ''monsoon_reserve_ip'', ''monsoon_run_discovery'']"
    using h assms(2) by (auto simp: tool_handlers_def read_only_tools split: if_splits)
  moreover have "mcp_requireRole r DefaultRoleOperator = None"
    using h assms(2) by (cases "mcp_requireRole r DefaultRoleOperator")
      (auto simp: tool_handlers_def read_only_tools operator_tools split: if_splits)
  ultimately show ?thesis unfolding operator_call_def role_ok by (auto simp: DefaultTools_def tool_def)
qed

lemma dispatch_changes:
  assumes "mcp_dispatch v r sid req s = (s', resp)" "mcp_shared s' \<noteq> mcp_shared s"
  shows "\<exists>name args. rq_RpcMethod req = ''tools/call'' \<and> decode_params (mv_call v) ([], []) (rq_Params req) = Some (name, args) \<and>
    operator_call r (TrimSpace name)"
proof -
  have u: "mcp_shared (update_session sid f s) = mcp_shared s" for f
    by (simp add: update_session_def mcp_shared_def split: option.split)
  have t: "rq_RpcMethod req = ''tools/call''"
    using assms u by (auto simp: mcp_dispatch_def Let_def split: if_splits option.splits)
  with assms obtain name args out where n: "decode_params (mv_call v) ([], []) (rq_Params req) = Some (name, args)"
    "tool_Call v r name args s = (s', out)"
    by (auto simp: mcp_dispatch_def Let_def split: option.splits prod.splits sum.splits)
  have "s' \<noteq> s" using assms(2) by blast
  then show ?thesis using tool_changes [OF n(2)] t n(1) by blast
qed

text \<open>C36: Nothing that the tools share with the program - the store, the events, the discovery - changes but by a call of a tool that is not
  marked as read-only, made by an operator, or by anybody where authentication is off. So the mark that clients read can be relied on, and a
  viewer changes nothing, whatever it sends.
\<close>

theorem mcp_changes_need_role:
  assumes "handleMessage v r s = (s', reply)" "mcp_shared s' \<noteq> mcp_shared s"
  shows "\<exists>req name args. mv_request v (rq_Body r) = Some req \<and> rq_RpcMethod req = ''tools/call'' \<and>
    decode_params (mv_call v) ([], []) (rq_Params req) = Some (name, args) \<and> operator_call r (TrimSpace name)"
proof -
  obtain req s1 resp where d: "mv_request v (rq_Body r) = Some req" "mcp_dispatch v r (rq_Query r ''session_id'') req s = (s1, resp)"
    "mcp_shared s' = mcp_shared s1"
    using assms by (auto simp: handleMessage_def Let_def mcp_shared_def split: if_splits option.splits prod.splits)
  then show ?thesis using dispatch_changes [OF d(2)] assms(2) by auto
qed

text \<open>
  The audit log is not for everybody in the REST interface, but its tool asks for no role: whoever the REST interface refuses reads the same
  entries here.
\<close>

lemma mcp_audit_open:
  assumes "rq_identity r = Some i" "\<not> HasRole DefaultRoleAdmin (id_Role i)" "mv_audit v = Some (ev_audit w)" "mc_store m = store_of s"
    and "audit_Query (ev_audit w) (store_of s) (audit_filter_of [] 0 0 50) = Inr entries"
  shows "snd (audit_route parse w wr r s) = WriteError 403 ''forbidden''"
    "auditQuery v r [] m = (m, Inr [(''entries'', MEntries entries), (''count'', MInt (int (length entries)))])"
  using assms by (simp_all add: audit_route_def requireRole_def auditQuery_def optionalInt_def optionalTime_def optionalString_def
      argument_def Let_def)

section \<open>Sessions\<close>

text \<open>
  A stream would start for a writer that can flush; behind the logging of the program's chain it never does, so there are no sessions, and
  every message is answered in its own response.
\<close>

lemma mcp_stream_never_starts:
  "allowOrigin v r \<Longrightarrow> rq_random r ''mcp_session'' = Inr rnd \<Longrightarrow> w_Flusher w \<Longrightarrow> \<exists>m' sid text. handleSSE_start v w r m = (m', Inr (sid, text))"
  "no_stream (Chain (sse_route v m) (rest_middleware e) w r s)"
proof -
  show "no_stream (Chain (sse_route v m) (rest_middleware e) w r s)"
    by (rule chain_no_stream) (auto simp: LoggingMiddleware_def responseRecorder_def sse_route_def handleSSE_start_def no_stream_def
        Let_def split: sum.split)
qed (simp add: handleSSE_start_def Let_def)

lemma mcp_answers_inline:
  assumes "mc_sessions s = []" "handleMessage v r s = (s', reply)"
  shows "mc_sessions s' = [] \<and> (\<forall>version. reply \<noteq> McpAccepted (Some version))"
proof -
  have keep: "mc_sessions (mcp_logAudit v r e s) = mc_sessions s" "mc_sessions (mcp_publish t n d s) = mc_sessions s" for e t n d s
    by (simp_all add: mcp_logAudit_def mcp_publish_def split: option.split)
  have "mc_sessions (fst (h v r args s)) = mc_sessions s" if "map_of tool_handlers name = Some h" for h name args
    using that by (auto simp: tool_handlers_def read_only_tools createSubnet_def reserveIP_def runDiscovery_def with_role_def keep
        tool_failed_def mcp_no_ipam_def mcp_no_discovery_def split: if_splits option.splits sum.splits prod.splits)
  then have tools: "mc_sessions (fst (tool_Call v r name args s)) = mc_sessions s" for name args
    by (auto simp: tool_Call_state split: option.split)
  have "mc_sessions (fst (mcp_dispatch v r sid req s)) = []" for sid req
    using assms(1) tools by (auto simp: mcp_dispatch_def Let_def update_session_def prod.case_distrib [of fst] split: option.split)
      (auto split: prod.split sum.split, (metis fst_conv)+)?
  then show ?thesis
    using assms by (auto simp: handleMessage_def Let_def split: if_splits option.splits prod.splits)
      (metis fst_conv map_of.simps(1) option.distinct(1))+
qed

section \<open>Instances\<close>

text \<open>A plan for fifty hosts beside the subnet of the IPAM instance.\<close>

definition demo_plan :: "(string \<times> json) list" where
  "demo_plan = [(''required_addresses'', JNum ''50'')]"

definition demo_planner :: "engine mcp_env \<Rightarrow> engine mcp_env" where
  "demo_planner v = v\<lparr>mv_ipam := Some demo_ipam, mv_grow := (\<lambda>n g. n + n * g div 100)\<rparr>"

lemma demo_plan_request: "plan_request demo_plan = Inr (50, 15, v4_block 0x0A000000 8)"
proof -
  have "Atoi ''50'' = Some 50" "TrimSpace [] = []" by code_simp+
  moreover have "pfx_String (v4_block 0x0A000000 8) = ''10.0.0.0/8''"
  proof -
    have b: "word_bytes 4 (0x0A000000 :: u32) = [CHR 0x0A, CHR 0x00, CHR 0x00, CHR 0x00]"
      by (simp add: word_bytes_def be4 nat_byte_def demo_chars)
    have d: "dec 10 = ''10''" "dec 0 = ''0''" "dec 8 = ''8''" by code_simp+
    show ?thesis by (simp add: v4_block_def pfx_String_def addr_String_def b ip4_string_def byte_nat_def d)
  qed
  then have "ParsePrefix ''10.0.0.0/8'' = Some (v4_block 0x0A000000 8)" using parse_block [of 8 "0x0A000000"] by simp
  moreover have "pfx_Masked (v4_block 0x0A000000 8) = v4_block 0x0A000000 8" by (simp add: aligned_masked)
  ultimately show ?thesis
    by (simp add: plan_request_def demo_plan_def optionalInt_def optionalString_def argument_def Let_def v4_block_def addr_Is4_def)
qed

lemma demo_plan_found: "\<exists>out. planSubnet (demo_planner v) r demo_plan (m\<lparr>mc_store := demo_i1\<rparr>) = (m\<lparr>mc_store := demo_i1\<rparr>, Inr out)"
proof -
  obtain xs where xs: "ListSubnets demo_ipam demo_i1 = Inr xs" "set xs = {demo_sn}" using demo_i1_lists(1) by blast
  have k: "known_subnets (demo_planner v) demo_i1 = xs" by (simp add: known_subnets_def demo_planner_def listed_def xs(1))
  have size: "smallestIPv4Prefix 57 = Some 26" by code_simp
  have "ParsePrefix (sn_CIDR demo_sn) = Some (v4_block 0x0A000000 24)" by (simp add: demo_sn_def demo_prefix v4_block_def)
  then have "set (List.map_filter (\<lambda>x. ParsePrefix (sn_CIDR x)) xs) = {v4_block 0x0A000000 24}" using xs(2) by (auto simp: List.map_filter_def)
  moreover have "sub_block 0x0A000000 26 4 = v4_block 0x0A000100 26" by (simp add: sub_block_def)
  moreover have "\<not> ipam_Overlaps (v4_block 0x0A000100 26) (v4_block 0x0A000000 24)"
    by (simp add: ipam_Overlaps_def v4_block_def pfx_Masked_def pfx_Contains_def Let_def)
  ultimately have free: "\<not> list_ex (ipam_Overlaps (sub_block 0x0A000000 26 4)) (List.map_filter (\<lambda>x. ParsePrefix (sn_CIDR x)) xs)"
    by (simp add: list_ex_iff)
  have "findCandidatePrefix xs (v4_block 0x0A000000 8) 26 \<noteq> None"
  proof
    assume "findCandidatePrefix xs (v4_block 0x0A000000 8) 26 = None"
    then show False
      using candidate_first [of "0x0A000000" 8 26 0 "List.map_filter (\<lambda>x. ParsePrefix (sn_CIDR x)) xs"] free
      by (auto simp: findCandidatePrefix_def dest: spec [of _ 4])
  qed
  moreover have "mv_grow (demo_planner v) 50 15 = 57" by (simp add: demo_planner_def)
  moreover have "pfx_bits (v4_block 0x0A000000 8) = 8" by (simp add: v4_block_def)
  ultimately show ?thesis by (auto simp: planSubnet_def demo_plan_request size k split: prod.split)
qed

theorem mcp_plan_accepted_witness:
  "\<forall>v r m. \<exists>out. planSubnet (demo_planner v) r demo_plan (m\<lparr>mc_store := demo_i1\<rparr>) = (m\<lparr>mc_store := demo_i1\<rparr>, Inr out) \<and>
     plan_ok (demo_planner v) demo_ipam demo_i1 (v4_block 0x0A000000 8) 57 out"
proof (intro allI)
  fix v r and m :: "engine mcp_state"
  obtain out where out: "planSubnet (demo_planner v) r demo_plan (m\<lparr>mc_store := demo_i1\<rparr>) = (m\<lparr>mc_store := demo_i1\<rparr>, Inr out)"
    using demo_plan_found by blast
  have "mv_ipam (demo_planner v) = Some demo_ipam" "mv_grow (demo_planner v) 50 15 = 57" by (simp_all add: demo_planner_def)
  then show "\<exists>out. planSubnet (demo_planner v) r demo_plan (m\<lparr>mc_store := demo_i1\<rparr>) = (m\<lparr>mc_store := demo_i1\<rparr>, Inr out) \<and>
     plan_ok (demo_planner v) demo_ipam demo_i1 (v4_block 0x0A000000 8) 57 out"
    using mcp_plan_accepted [OF _ demo_plan_request, of "demo_planner v" demo_ipam "m\<lparr>mc_store := demo_i1\<rparr>" r] out by simp
qed

text \<open>Nobody starts a scan where authentication is off.\<close>

definition demo_mcp :: "unit mcp_env \<Rightarrow> unit mcp_env" where
  "demo_mcp v = v\<lparr>mv_discovery := gd_discovery demo_grpc, mv_audit := None,
     mv_request := (\<lambda>_. Some \<lparr>rq_JSONRPC = ''2.0'', rq_ID = None, rq_RpcMethod = ''tools/call'', rq_Params = Some ''x''\<rparr>),
     mv_call := (\<lambda>_. Some (''monsoon_run_discovery'', []))\<rparr>"

definition demo_message :: http_request where
  "demo_message = (gq_http demo_call)\<lparr>rq_Header := \<lambda>_. []\<rparr>"

definition demo_mcp_state :: "unit mcp_state" where
  "demo_mcp_state = \<lparr>mc_store = (), mc_broker = None, mc_discovery = gs_discovery demo_grpc_state, mc_sessions = []\<rparr>"

lemma demo_message_scans: "mcp_shared (fst (handleMessage (demo_mcp v) demo_message demo_mcp_state)) \<noteq> mcp_shared demo_mcp_state"
proof -
  have t: "TrimSpace [] = []" "TrimSpace ''tools/call'' \<noteq> []" "TrimSpace ''monsoon_run_discovery'' = ''monsoon_run_discovery''"
    by code_simp+
  have m: "rq_Header demo_message k = []" "rq_Query demo_message k = []" for k by (simp_all add: demo_message_def demo_call_def)
  have role: "mcp_requireRole demo_message DefaultRoleOperator = None"
    by (simp add: role_ok demo_message_def demo_call_def AuthEnforcedFromContext_def)
  show ?thesis
    by (simp add: handleMessage_def allowOrigin_def m role demo_mcp_def t Let_def mcp_dispatch_def decode_params_def
        tool_Call_def tool_handlers_def runDiscovery_def with_role_def optionalStringSlice_def argument_def
        demo_mcp_state_def demo_grpc_state_def TriggerScan_def updateProgress_def mcp_logAudit_def mcp_publish_def mcp_shared_def)
qed

theorem mcp_changes_need_role_witness:
  "\<forall>v. operator_call demo_message ''monsoon_run_discovery'' \<and>
     mcp_shared (fst (handleMessage (demo_mcp v) demo_message demo_mcp_state)) \<noteq> mcp_shared demo_mcp_state"
proof (intro allI conjI)
  fix v :: "unit mcp_env"
  obtain s' reply where run: "handleMessage (demo_mcp v) demo_message demo_mcp_state = (s', reply)" by (metis surj_pair)
  have "TrimSpace ''monsoon_run_discovery'' = ''monsoon_run_discovery''" by code_simp
  then show "operator_call demo_message ''monsoon_run_discovery''"
    using mcp_changes_need_role [OF run] demo_message_scans [of v] run by (auto simp: demo_mcp_def decode_params_def)
qed (rule demo_message_scans)

end
