(* ===== verification/Migrate.thy ===== *)
theory Migrate
  imports IpamAddress
begin

text \<open>
  \<^verbatim>\<open>src/internal/migrate/migrate.go\<close> and \<^verbatim>\<open>csv.go\<close>: the options and reports of a migration, the fields of a row and the
  importers of the rows of the four CSV files. The contents of files, the CSV reader and the parsers of times and durations are fields of
  an environment, with the clock. The context is never cancelled: the command runs with the background context. The texts
  of errors leave out the values that they quote.
\<close>

section \<open>Options and reports\<close>

abbreviation SourceCSV :: string where "SourceCSV \<equiv> ''csv''"
abbreviation SourceISCDHCP :: string where "SourceISCDHCP \<equiv> ''isc-dhcp''"
abbreviation SourceKea :: string where "SourceKea \<equiv> ''kea''"
abbreviation SourceNetBox :: string where "SourceNetBox \<equiv> ''netbox''"
abbreviation SourcePHPIPAM :: string where "SourcePHPIPAM \<equiv> ''phpipam''"
abbreviation ConflictOverwrite :: string where "ConflictOverwrite \<equiv> ''overwrite''"
abbreviation ConflictSkip :: string where "ConflictSkip \<equiv> ''skip''"

record CSVOptions =
  co_SubnetsPath :: string
  co_AddressesPath :: string
  co_ReservationsPath :: string
  co_LeasesPath :: string

record migrate_options =
  mo_Source :: string
  mo_DryRun :: bool
  mo_ConflictPolicy :: string
  mo_SourceConfig :: string
  mo_APIURL :: string
  mo_APIToken :: string
  mo_CSV :: CSVOptions

record RowError =
  re_Row :: nat
  re_Message :: string

record FileReport =
  fr_Kind :: string
  fr_Path :: string
  fr_Rows :: nat
  fr_Applied :: nat
  fr_Skipped :: nat
  fr_Errors :: "RowError list"

record migrate_report =
  mr_Source :: string
  mr_DryRun :: bool
  mr_StartedAt :: time
  mr_CompletedAt :: time
  mr_Files :: "FileReport list"
  mr_Warnings :: "string list"

definition countRowErrors :: "FileReport list \<Rightarrow> nat" where
  "countRowErrors files = sum_list (map (\<lambda>f. length (fr_Errors f)) files)"

definition hasRowErrors :: "FileReport list \<Rightarrow> bool" where
  "hasRowErrors files \<longleftrightarrow> countRowErrors files > 0"

definition new_file :: "string \<Rightarrow> string \<Rightarrow> nat \<Rightarrow> FileReport" where
  "new_file kind path rows =
     \<lparr>fr_Kind = kind, fr_Path = path, fr_Rows = rows, fr_Applied = 0, fr_Skipped = 0, fr_Errors = []\<rparr>"

definition row_error :: "nat \<Rightarrow> string \<Rightarrow> FileReport \<Rightarrow> FileReport" where
  "row_error row message f = f\<lparr>fr_Errors := fr_Errors f @ [\<lparr>re_Row = row, re_Message = message\<rparr>]\<rparr>"

definition row_applied :: "FileReport \<Rightarrow> FileReport" where
  "row_applied f = f\<lparr>fr_Applied := fr_Applied f + 1\<rparr>"

definition row_skipped :: "FileReport \<Rightarrow> FileReport" where
  "row_skipped f = f\<lparr>fr_Skipped := fr_Skipped f + 1\<rparr>"

text \<open>The loop of every importer: an item with its number changes the state and the report.\<close>

fun each_item :: "(nat \<Rightarrow> 'a \<Rightarrow> 's \<times> FileReport \<Rightarrow> 's \<times> FileReport) \<Rightarrow> nat \<Rightarrow> 'a list \<Rightarrow> 's \<times> FileReport \<Rightarrow> 's \<times> FileReport" where
  "each_item f i [] x = x"
| "each_item f i (a # as) x = each_item f (i + 1) as (f i a x)"

text \<open>The error of an import whose report has errors.\<close>

definition report_error :: "string \<Rightarrow> FileReport \<Rightarrow> go_error option" where
  "report_error message f = (if fr_Errors f \<noteq> [] then Some (ErrMsg message) else None)"

section \<open>The environment\<close>

record 's migrate_env =
  mg_read :: "string \<Rightarrow> go_error + bytes"
  mg_csv :: "bytes \<Rightarrow> go_error + string list list"
  mg_time :: "string \<Rightarrow> time option"
  mg_duration :: "string \<Rightarrow> duration option"
  mg_seconds :: "duration \<Rightarrow> int"
  mg_isc_time :: "string \<Rightarrow> time option"
  mg_now :: time
  mg_ipam :: "'s ipam_engine"
  mg_leases :: "'s lease_ops"

section \<open>Fields of a row\<close>

type_synonym csvRow = "(string \<times> string) list"

definition normalizeHeader :: "string \<Rightarrow> string" where
  "normalizeHeader s = ToLower (TrimSpace (map (\<lambda>c. if c \<in> set '' -./'' then CHR ''_'' else c) s))"

fun row_field :: "csvRow \<Rightarrow> string list \<Rightarrow> string" where
  "row_field row [] = []"
| "row_field row (key # keys) =
     (let value = TrimSpace (case map_of row (normalizeHeader key) of None \<Rightarrow> [] | Some x \<Rightarrow> x) in
      if value \<noteq> [] then value else row_field row keys)"

text \<open>\<^verbatim>\<open>strings.FieldsFunc\<close>: the parts between separators that are not empty.\<close>

fun fields_func :: "(byte \<Rightarrow> bool) \<Rightarrow> string \<Rightarrow> string \<Rightarrow> string list" where
  "fields_func p cur [] = (if cur = [] then [] else [cur])"
| "fields_func p cur (c # cs) =
     (if p c then (if cur = [] then [] else [cur]) @ fields_func p [] cs else fields_func p (cur @ [c]) cs)"

definition splitList :: "string \<Rightarrow> string list" where
  "splitList s = filter (\<lambda>x. x \<noteq> []) (map TrimSpace (fields_func (\<lambda>c. c \<in> set '',;|'') [] (TrimSpace s)))"

definition boolField :: "csvRow \<Rightarrow> string list \<Rightarrow> bool" where
  "boolField row keys \<longleftrightarrow> ToLower (row_field row keys) \<in> set [''1'', ''true'', ''yes'', ''y'', ''on'']"

definition intField :: "csvRow \<Rightarrow> string list \<Rightarrow> int" where
  "intField row keys = (case Atoi (row_field row keys) of None \<Rightarrow> 0 | Some n \<Rightarrow> n)"

definition durationSecondsField :: "('s, 'z) migrate_env_scheme \<Rightarrow> csvRow \<Rightarrow> string list \<Rightarrow> int" where
  "durationSecondsField v row keys =
     (let value = row_field row keys in
      if value = [] then 0
      else (case Atoi value of
              Some n \<Rightarrow> n
            | None \<Rightarrow> (case mg_duration v value of Some d \<Rightarrow> mg_seconds v d | None \<Rightarrow> 0)))"

definition durationField :: "('s, 'z) migrate_env_scheme \<Rightarrow> csvRow \<Rightarrow> string list \<Rightarrow> duration" where
  "durationField v row keys =
     (let value = row_field row keys in
      if value = [] then 0
      else (case Atoi value of
              Some n \<Rightarrow> i64 (n * second_ns)
            | None \<Rightarrow> (case mg_duration v value of Some d \<Rightarrow> d | None \<Rightarrow> 0)))"

text \<open>\<^verbatim>\<open>time.Unix\<close> and \<^verbatim>\<open>Time.Sub\<close>, which stops at the ends of its range.\<close>

definition unix_time :: "int \<Rightarrow> time" where
  "unix_time n = i64 (n + unix_epoch_s) * second_ns"

definition time_sub :: "time \<Rightarrow> time \<Rightarrow> duration" where
  "time_sub a b = max (- (2 ^ 63)) (min (2 ^ 63 - 1) (a - b))"

definition timeField :: "('s, 'z) migrate_env_scheme \<Rightarrow> csvRow \<Rightarrow> string list \<Rightarrow> time" where
  "timeField v row keys =
     (let value = row_field row keys in
      if value = [] then 0
      else (case mg_time v value of
              Some t \<Rightarrow> t
            | None \<Rightarrow> (case Atoi value of Some n \<Rightarrow> unix_time n | None \<Rightarrow> 0)))"

definition leaseStateField :: "csvRow \<Rightarrow> string \<Rightarrow> LeaseState" where
  "leaseStateField row key =
     (let value = ToLower (row_field row [key]) in
      if value = ''0'' then StateBound
      else if value = ''1'' then StateDeclined
      else if value = ''2'' then StateExpired
      else if value \<in> {StateFree, StateOffered, StateBound, StateRenewing, StateReleased, StateDeclined, StateQuarantined, StateExpired}
      then value
      else StateBound)"

text \<open>The rows of a file: the header names the columns, and a column that is missing is empty.\<close>

definition row_of :: "string list \<Rightarrow> string list \<Rightarrow> csvRow" where
  "row_of header record =
     fold (\<lambda>(i, key). mput key (if i < length record then TrimSpace (record ! i) else [])) (zip [0..<length header] header) []"

definition readCSVRows :: "('s, 'z) migrate_env_scheme \<Rightarrow> string \<Rightarrow> go_error + csvRow list" where
  "readCSVRows v path =
     rbind (mg_read v path) (\<lambda>content.
     rbind (mg_csv v content) (\<lambda>records.
       Inr (case records of [] \<Rightarrow> [] | header # rest \<Rightarrow> map (row_of (map normalizeHeader header)) rest)))"

section \<open>Importers of rows\<close>

text \<open>A row is checked in a dry run and written otherwise; the result tells whether it was skipped.\<close>

type_synonym ('s, 'z) row_importer =
  "('s, 'z) migrate_env_scheme \<Rightarrow> bool \<Rightarrow> string \<Rightarrow> csvRow \<Rightarrow> 's \<Rightarrow> 's \<times> (go_error + bool)"

definition check_or_write :: "bool \<Rightarrow> 'e + 'a \<Rightarrow> 's \<times> ('e + 'b) \<Rightarrow> 's \<Rightarrow> 's \<times> ('e + bool)" where
  "check_or_write dryRun check write s =
     (if dryRun then (s, rbind check (\<lambda>_. Inr False)) else (fst write, rbind (snd write) (\<lambda>_. Inr False)))"

definition subnet_payload :: "('s, 'z) migrate_env_scheme \<Rightarrow> csvRow \<Rightarrow> UpsertSubnetInput" where
  "subnet_payload v row =
     (let p = \<lparr>si_CIDR = row_field row [''cidr'', ''subnet'', ''prefix''], si_Name = row_field row [''name''],
            si_VLAN = intField row [''vlan'', ''vlan_id''], si_Gateway = row_field row [''gateway''],
            si_DNS = splitList (row_field row [''dns'', ''dns_servers'']), si_DHCPEnable = boolField row [''dhcp_enabled'', ''dhcp'', ''enabled''],
            si_PoolStart = row_field row [''pool_start'', ''range_start''], si_PoolEnd = row_field row [''pool_end'', ''range_end''],
            si_LeaseSec = durationSecondsField v row [''lease_time_sec'', ''lease_seconds'', ''lease_duration'', ''lease_time'']\<rparr>
      in if si_PoolStart p \<noteq> [] \<or> si_PoolEnd p \<noteq> [] then p\<lparr>si_DHCPEnable := True\<rparr> else p)"

definition importSubnetRow :: "('s, 'z) row_importer" where
  "importSubnetRow v dryRun policy row s =
     (if row_field row [''cidr'', ''subnet'', ''prefix''] = [] then (s, Inl (ErrMsg ''cidr is required''))
      else
        (let payload = subnet_payload v row; e = mg_ipam v in
         if policy = ConflictSkip \<and> is_ok (GetSubnet e s (si_CIDR payload)) then (s, Inr True)
         else check_or_write dryRun (ValidateSubnet e s payload) (UpsertSubnet e (mg_now v) payload s) s))"

definition address_payload :: "('s, 'z) migrate_env_scheme \<Rightarrow> csvRow \<Rightarrow> UpsertAddressInput" where
  "address_payload v row =
     \<lparr>ai_IP = row_field row [''ip'', ''address''], ai_SubnetCIDR = row_field row [''subnet_cidr'', ''subnet'', ''cidr''],
      ai_State = ToLower (row_field row [''state'']), ai_MAC = row_field row [''mac''], ai_Hostname = row_field row [''hostname'', ''dns_name''],
      ai_Source = row_field row [''source''], ai_UpdatedAt = timeField v row [''updated_at'', ''last_seen'']\<rparr>"

definition importAddressRow :: "('s, 'z) row_importer" where
  "importAddressRow v dryRun policy row s =
     (if row_field row [''ip'', ''address''] = [] then (s, Inl (ErrMsg ''ip is required''))
      else
        (let payload = address_payload v row; e = mg_ipam v in
         if policy = ConflictSkip \<and> is_ok (GetStoredAddress e s (ai_IP payload)) then (s, Inr True)
         else check_or_write dryRun (ValidateAddress e (mg_now v) s payload) (UpsertAddress e (mg_now v) payload s) s))"

definition reservation_payload :: "csvRow \<Rightarrow> UpsertReservationInput" where
  "reservation_payload row =
     \<lparr>ri_MAC = row_field row [''mac''], ri_IP = row_field row [''ip'', ''address''], ri_Hostname = row_field row [''hostname'', ''name''],
      ri_SubnetCIDR = row_field row [''subnet_cidr'', ''subnet'', ''cidr'']\<rparr>"

definition importReservationRow :: "('s, 'z) row_importer" where
  "importReservationRow v dryRun policy row s =
     (let payload = reservation_payload row; e = mg_ipam v in
      if ri_MAC payload = [] \<or> ri_IP payload = [] then (s, Inl (ErrMsg ''mac and ip are required''))
      else if policy = ConflictSkip \<and> is_ok (GetReservationByMAC e s (ri_MAC payload)) then (s, Inr True)
      else check_or_write dryRun (ValidateReservation e (mg_now v) s payload) (UpsertReservation e (mg_now v) payload s) s)"

definition validateLeaseRecord :: "Lease \<Rightarrow> go_error option" where
  "validateLeaseRecord l =
     (if ParseAddr (TrimSpace (l_IP l)) = None then Some (ErrMsg ''invalid ip'')
      else if TrimSpace (l_MAC l) = [] then Some (ErrMsg ''mac is required'')
      else None)"

text \<open>A lease is checked in a dry run and written otherwise.\<close>

definition check_or_upsert :: "('s, 'z) migrate_env_scheme \<Rightarrow> bool \<Rightarrow> Lease \<Rightarrow> 's \<Rightarrow> 's \<times> go_error option" where
  "check_or_upsert v dryRun l s =
     (if dryRun then (s, validateLeaseRecord l) else op_Upsert (mg_leases v) (mg_now v) l s)"

abbreviation (input) half_day :: duration where "half_day \<equiv> 12 * 3600 * second_ns"

text \<open>The start, the duration and the end of a lease, where each may be missing.\<close>

definition lease_times :: "('s, 'z) migrate_env_scheme \<Rightarrow> csvRow \<Rightarrow> time \<times> duration \<times> time" where
  "lease_times v row =
     (let start0 = timeField v row [''start_time'', ''starts_at'', ''created_at'', ''cltt''];
          start = (if is_zero_time start0 then mg_now v else start0);
          duration0 = durationField v row [''duration'', ''duration_sec'', ''lease_time'', ''lease_duration'', ''valid_lft''];
          expiry0 = timeField v row [''expiry_time'', ''expires_at'', ''end_time''];
          duration1 = (if duration0 \<le> 0 \<and> \<not> is_zero_time expiry0 \<and> expiry0 > start then time_sub expiry0 start else duration0);
          expiry1 = (if is_zero_time expiry0 \<and> row_field row [''expire''] \<noteq> []
             then (case Atoi (row_field row [''expire'']) of Some n \<Rightarrow> unix_time n | None \<Rightarrow> expiry0) else expiry0);
          duration2 = (if duration1 \<le> 0 then half_day else duration1);
          expiry2 = (if is_zero_time expiry1 then start + duration2 else expiry1)
      in (start, duration2, expiry2))"

definition lease_payload :: "('s, 'z) migrate_env_scheme \<Rightarrow> csvRow \<Rightarrow> Lease" where
  "lease_payload v row =
     (case lease_times v row of (start, duration, expiry) \<Rightarrow>
        zero_lease\<lparr>l_IP := row_field row [''ip'', ''address'', ''ip_address''], l_MAC := row_field row [''mac'', ''hw_address''],
          l_Hostname := row_field row [''hostname'', ''name''], l_State := leaseStateField row ''state'', l_StartTime := start,
          l_Duration := duration, l_ExpiryTime := expiry, l_SubnetID := row_field row [''subnet_id'', ''subnet_cidr'', ''subnet''],
          l_RelayAddr := row_field row [''relay_addr''], l_CircuitID := row_field row [''circuit_id''], l_RemoteID := row_field row [''remote_id''],
          l_VendorClass := row_field row [''vendor_class''], l_UserClass := row_field row [''user_class''],
          l_LastSeen := timeField v row [''last_seen'', ''updated_at''], l_CreatedAt := timeField v row [''created_at''],
          l_UpdatedAt := timeField v row [''updated_at'']\<rparr>)"

definition importLeaseRow :: "('s, 'z) row_importer" where
  "importLeaseRow v dryRun policy row s =
     (let ip = row_field row [''ip'', ''address'', ''ip_address'']; mac = row_field row [''mac'', ''hw_address''] in
      if ip = [] \<or> mac = [] then (s, Inl (ErrMsg ''ip and mac are required''))
      else if ParseAddr ip = None then (s, Inl (ErrMsg ''invalid ip''))
      else if policy = ConflictSkip \<and> is_ok (op_GetByIP (mg_leases v) s ip) then (s, Inr True)
      else (case check_or_upsert v dryRun (lease_payload v row) s of
              (s', Some err) \<Rightarrow> (s', Inl err)
            | (s', None) \<Rightarrow> (s', Inr False)))"

section \<open>Files\<close>

text \<open>Rows are counted from two, after the header.\<close>

definition import_row ::
  "('s, 'z) row_importer \<Rightarrow> ('s, 'z) migrate_env_scheme \<Rightarrow> bool \<Rightarrow> string \<Rightarrow> nat \<Rightarrow> csvRow \<Rightarrow> 's \<times> FileReport \<Rightarrow> 's \<times> FileReport" where
  "import_row importer v dryRun policy i row x =
     (case importer v dryRun policy row (fst x) of
        (s', Inl err) \<Rightarrow> (s', row_error (i + 2) (go_error_text err) (snd x))
      | (s', Inr skipped) \<Rightarrow> (s', if skipped then row_skipped (snd x) else row_applied (snd x)))"

definition importCSVFile ::
  "('s, 'z) migrate_env_scheme \<Rightarrow> string \<Rightarrow> string \<Rightarrow> bool \<Rightarrow> string \<Rightarrow> ('s, 'z) row_importer \<Rightarrow> 's \<Rightarrow> 's \<times> FileReport \<times> go_error option" where
  "importCSVFile v kind path dryRun policy importer s =
     (case readCSVRows v path of
        Inl err \<Rightarrow> (s, row_error 0 (go_error_text err) (new_file kind path 0), Some err)
      | Inr rows \<Rightarrow>
          (case each_item (import_row importer v dryRun policy) 0 rows (s, new_file kind path (length rows)) of
             (s', f) \<Rightarrow> (s', f, report_error (kind @ '' import reported row errors'') f)))"

definition csv_files :: "CSVOptions \<Rightarrow> (string \<times> string \<times> ('s, 'z) row_importer) list" where
  "csv_files opts =
     [(''subnets'', co_SubnetsPath opts, importSubnetRow), (''addresses'', co_AddressesPath opts, importAddressRow),
      (''reservations'', co_ReservationsPath opts, importReservationRow), (''leases'', co_LeasesPath opts, importLeaseRow)]"

fun import_files ::
  "('s, 'z) migrate_env_scheme \<Rightarrow> bool \<Rightarrow> string \<Rightarrow> (string \<times> string \<times> ('s, 'z) row_importer) list \<Rightarrow> 's \<Rightarrow>
   's \<times> FileReport list \<times> string list" where
  "import_files v dryRun policy [] s = (s, [], [])"
| "import_files v dryRun policy ((kind, path, importer) # files) s =
     (if TrimSpace path = [] then import_files v dryRun policy files s
      else
        (case importCSVFile v kind path dryRun policy importer s of
           (s1, f, err) \<Rightarrow>
             (case import_files v dryRun policy files s1 of
                (s2, fs, ws) \<Rightarrow> (s2, f # fs, (case err of None \<Rightarrow> [] | Some e \<Rightarrow> [go_error_text e]) @ ws))))"

text \<open>The run of a source: the new state, the reports of its files, the warnings and the error.\<close>

type_synonym 's source_run = "'s \<times> FileReport list \<times> string list \<times> go_error option"

definition runCSV :: "('s, 'z) migrate_env_scheme \<Rightarrow> CSVOptions \<Rightarrow> bool \<Rightarrow> string \<Rightarrow> 's \<Rightarrow> 's source_run" where
  "runCSV v opts dryRun policy s =
     (case import_files v dryRun policy (csv_files opts) s of
        (s', files, warnings) \<Rightarrow>
          (s', files, warnings,
           if files = [] then Some (ErrMsg ''csv migration requires at least one input file'') else None))"

end
