(* ===== verification/MigrateIsc.thy ===== *)
theory MigrateIsc
  imports Migrate
begin

text \<open>
  \<^verbatim>\<open>src/internal/migrate/isc_dhcp.go\<close>: the reader of the configuration and of the leases of ISC DHCP and their
  import. The parser's position is the list of the tokens that are left. Its functions call each other for blocks inside blocks; here
  they are one function with fuel, and \<open>MigrateProps\<close> shows that one more than the number of tokens is always enough.
\<close>

section \<open>Data\<close>

record iscRange =
  ir_Start :: string
  ir_End :: string

record iscHost =
  ih_Name :: string
  ih_MAC :: string
  ih_FixedAddress :: string
  ih_Hostname :: string
  ih_SubnetCIDR :: string

record iscSubnet =
  is_Network :: string
  is_Netmask :: string
  is_LeaseTimeSec :: int
  is_Ranges :: "iscRange list"
  is_Gateway :: string
  is_DNS :: "string list"
  is_Reservations :: "iscHost list"

record iscConfigData =
  ic_Subnets :: "iscSubnet list"
  ic_Hosts :: "iscHost list"

record iscLeaseRecord =
  il_IP :: string
  il_MAC :: string
  il_Hostname :: string
  il_State :: LeaseState
  il_StartTime :: time
  il_ExpiryTime :: time
  il_SubnetID :: string

section \<open>Tokens\<close>

definition flush_token :: "string \<Rightarrow> string list" where
  "flush_token current = (if current = [] then [] else [current])"

function tokenize :: "bool \<Rightarrow> string \<Rightarrow> string \<Rightarrow> string list" where
  "tokenize inString current [] = flush_token current"
| "tokenize inString current (ch # rest) =
     (if inString then
        (if ch = CHR 0x22 then flush_token current @ tokenize False [] rest else tokenize True (current @ [ch]) rest)
      else if ch = CHR 0x22 then flush_token current @ tokenize True [] rest
      else if ch = CHR ''#'' then flush_token current @ tokenize False [] (drop 1 (dropWhile (\<lambda>c. c \<noteq> CHR 0x0A) rest))
      else if ch \<in> set ''{};,'' then flush_token current @ [ch] # tokenize False [] rest
      else if ch \<in> {CHR '' '', CHR 0x09, CHR 0x0D, CHR 0x0A} then flush_token current @ tokenize False [] rest
      else tokenize False (current @ [ch]) rest)"
  by pat_completeness auto
termination
proof (relation "measure (\<lambda>(_, _, s). length s)", goal_cases)
  case (5 inString current ch rest)
  have "length (dropWhile (\<lambda>c. c \<noteq> CHR 0x0A) rest) \<le> length rest" by (rule length_dropWhile_le)
  then show ?case by (simp only: in_measure prod.case length_drop list.size)
qed simp_all

declare tokenize.simps [simp del]

definition tokenizeISCConfig :: "string \<Rightarrow> string list" where
  "tokenizeISCConfig s = tokenize False [] s"

section \<open>Steps of the parser\<close>

abbreviation (input) isc_end :: "go_error" where "isc_end \<equiv> ErrMsg ''unexpected end of input''"

definition isc_peek :: "string list \<Rightarrow> string" where
  "isc_peek ts = (case ts of [] \<Rightarrow> [] | t # _ \<Rightarrow> t)"

definition isc_next :: "string list \<Rightarrow> go_error + string \<times> string list" where
  "isc_next ts = (case ts of [] \<Rightarrow> Inl isc_end | t # r \<Rightarrow> Inr (t, r))"

definition isc_consume :: "string \<Rightarrow> string list \<Rightarrow> go_error + string list" where
  "isc_consume expected ts =
     rbind (isc_next ts) (\<lambda>(t, r). if t \<noteq> expected then Inl (ErrMsg ''expected another token'') else Inr r)"

fun collectUntilSemicolon :: "string list \<Rightarrow> string list \<times> string list" where
  "collectUntilSemicolon [] = ([], [])"
| "collectUntilSemicolon (t # r) =
     (if t = '';'' then ([], r)
      else (case collectUntilSemicolon r of (vs, r') \<Rightarrow> (if t = '','' then vs else t # vs, r')))"

fun skipStatementOrBlock :: "nat \<Rightarrow> string list \<Rightarrow> string list" where
  "skipStatementOrBlock depth [] = []"
| "skipStatementOrBlock depth (t # r) =
     (if t = ''{'' then skipStatementOrBlock (depth + 1) r
      else if t = ''}'' then (if depth \<le> 1 then r else skipStatementOrBlock (depth - 1) r)
      else if t = '';'' then (if depth = 0 then r else skipStatementOrBlock depth r)
      else skipStatementOrBlock depth r)"

lemma collect_length: "length (snd (collectUntilSemicolon ts)) \<le> length ts"
  by (induction ts) (auto split: prod.split)

lemma skip_length: "length (skipStatementOrBlock d ts) \<le> length ts" "ts \<noteq> [] \<Longrightarrow> length (skipStatementOrBlock d ts) < length ts"
proof -
  show a: "length (skipStatementOrBlock d ts) \<le> length ts" for d ts
    by (induction d ts rule: skipStatementOrBlock.induct) auto
  show "ts \<noteq> [] \<Longrightarrow> length (skipStatementOrBlock d ts) < length ts"
    by (cases ts) (auto simp: le_imp_less_Suc a)
qed

section \<open>Statements\<close>

definition subnetCIDR :: "string \<Rightarrow> string \<Rightarrow> go_error + string" where
  "subnetCIDR network netmask =
     (let ip = ip_To4 (net_ParseIP (TrimSpace network)); maskIP = ip_To4 (net_ParseIP (TrimSpace netmask)) in
      if ip = [] \<or> maskIP = [] then Inl (ErrMsg ''invalid subnet definition'')
      else
        (case List.find (\<lambda>n. (of_nat (be_nat maskIP) :: u32) = push_bit (32 - n) (- 1)) [0..<33] of
           None \<Rightarrow> Inl (ErrMsg ''invalid netmask'')
         | Some ones \<Rightarrow> Inr (pfx_String (pfx_Masked \<lparr>pfx_addr = A4 (of_nat (be_nat ip)), pfx_bits = ones\<rparr>))))"

text \<open>The statements inside the block of a host.\<close>

definition host_hardware :: "string list \<Rightarrow> iscHost \<Rightarrow> go_error + iscHost \<times> string list" where
  "host_hardware r host =
     rbind (isc_next (if isc_peek r = ''ethernet'' then tl r else r)) (\<lambda>(x, r1).
     rbind (isc_consume '';'' r1) (\<lambda>r2. Inr (host\<lparr>ih_MAC := x\<rparr>, r2)))"

definition host_address :: "string list \<Rightarrow> iscHost \<Rightarrow> go_error + iscHost \<times> string list" where
  "host_address r host =
     rbind (isc_next r) (\<lambda>(x, r1). rbind (isc_consume '';'' r1) (\<lambda>r2. Inr (host\<lparr>ih_FixedAddress := x\<rparr>, r2)))"

definition host_option :: "string list \<Rightarrow> iscHost \<Rightarrow> go_error + iscHost \<times> string list" where
  "host_option r host =
     rbind (isc_next r) (\<lambda>(name, r1).
       (case collectUntilSemicolon r1 of (values, r2) \<Rightarrow>
          Inr (if EqualFold name ''host-name'' \<and> values \<noteq> [] then host\<lparr>ih_Hostname := hd values\<rparr> else host, r2)))"

definition host_statement :: "string \<Rightarrow> string list \<Rightarrow> iscHost \<Rightarrow> go_error + iscHost \<times> string list" where
  "host_statement t r host =
     (if t = ''hardware'' then host_hardware r host
      else if t = ''fixed-address'' then host_address r host
      else if t = ''option'' then host_option r host
      else Inr (host, skipStatementOrBlock 0 (t # r)))"

lemma next_length: "isc_next ts = Inr (t, r) \<Longrightarrow> length r < length ts"
  by (cases ts) (auto simp: isc_next_def)

lemma consume_length: "isc_consume x ts = Inr r \<Longrightarrow> length r < length ts"
  by (auto simp: isc_consume_def rbind_Inr_conv next_length split: if_splits)

lemma hardware_length: "host_hardware r host = Inr (host', r') \<Longrightarrow> length r' < Suc (length r)"
proof -
  assume "host_hardware r host = Inr (host', r')"
  then obtain x r1 where 1: "isc_next (if isc_peek r = ''ethernet'' then tl r else r) = Inr (x, r1)" "isc_consume '';'' r1 = Inr r'"
    by (auto simp: host_hardware_def rbind_Inr_conv)
  have "length (if isc_peek r = ''ethernet'' then tl r else r) \<le> length r" by simp
  then show ?thesis using next_length [OF 1(1)] consume_length [OF 1(2)] by linarith
qed

lemma address_length: "host_address r host = Inr (host', r') \<Longrightarrow> length r' < Suc (length r)"
proof -
  assume "host_address r host = Inr (host', r')"
  then obtain x r1 where "isc_next r = Inr (x, r1)" "isc_consume '';'' r1 = Inr r'" by (auto simp: host_address_def rbind_Inr_conv)
  then show ?thesis using next_length [of r x r1] consume_length [of "'';''" r1 r'] by simp
qed

lemma option_length: "host_option r host = Inr (host', r') \<Longrightarrow> length r' < Suc (length r)"
proof -
  assume "host_option r host = Inr (host', r')"
  then obtain x r1 where "isc_next r = Inr (x, r1)" "r' = snd (collectUntilSemicolon r1)"
    by (auto simp: host_option_def rbind_Inr_conv split: prod.splits) (metis surj_pair snd_conv)
  then show ?thesis using next_length [of r x r1] collect_length [of r1] by simp
qed

lemma host_statement_length: "host_statement t r host = Inr (host', r') \<Longrightarrow> length r' < Suc (length r)"
  using skip_length(2) [of "t # r" 0]
  by (auto simp: host_statement_def simp del: skipStatementOrBlock.simps split: if_splits
      dest: hardware_length address_length option_length)

function host_block :: "string list \<Rightarrow> iscHost \<Rightarrow> go_error + iscHost \<times> string list" where
  "host_block [] host = Inr (host, [])"
| "host_block (t # r) host =
     (if t = ''}'' then Inr (host, r)
      else (case host_statement t r host of Inl err \<Rightarrow> Inl err | Inr (host', r') \<Rightarrow> host_block r' host'))"
  by pat_completeness auto
termination
  by (relation "measure (\<lambda>(ts, _). length ts)") (auto dest: host_statement_length)

definition parseHost :: "iscSubnet option \<Rightarrow> string list \<Rightarrow> go_error + iscHost \<times> string list" where
  "parseHost currentSubnet ts =
     rbind (isc_consume ''host'' ts) (\<lambda>r0.
     rbind (isc_next r0) (\<lambda>(name, r1).
     rbind (isc_consume ''{'' r1) (\<lambda>r2.
       let cidr = (case currentSubnet of
             None \<Rightarrow> [] | Some sn \<Rightarrow> (case subnetCIDR (is_Network sn) (is_Netmask sn) of Inl _ \<Rightarrow> [] | Inr c \<Rightarrow> c))
       in rbind (host_block r2 \<lparr>ih_Name = name, ih_MAC = [], ih_FixedAddress = [], ih_Hostname = [], ih_SubnetCIDR = cidr\<rparr>) (\<lambda>(host, r3).
            Inr (if ih_Hostname host = [] then host\<lparr>ih_Hostname := ih_Name host\<rparr> else host, r3)))))"

definition parseOption :: "iscSubnet option \<Rightarrow> string list \<Rightarrow> go_error + iscSubnet option \<times> string list" where
  "parseOption currentSubnet ts =
     rbind (isc_consume ''option'' ts) (\<lambda>r0.
     rbind (isc_next r0) (\<lambda>(name, r1).
       (case collectUntilSemicolon r1 of (values, r2) \<Rightarrow>
          Inr (map_option (\<lambda>sn.
                 if ToLower name = ''routers'' then (if values \<noteq> [] then sn\<lparr>is_Gateway := hd values\<rparr> else sn)
                 else if ToLower name = ''domain-name-servers'' then sn\<lparr>is_DNS := values\<rparr>
                 else sn) currentSubnet, r2))))"

definition parseRange :: "iscSubnet option \<Rightarrow> string list \<Rightarrow> go_error + iscSubnet option \<times> string list" where
  "parseRange currentSubnet ts =
     rbind (isc_consume ''range'' ts) (\<lambda>r0.
       (case currentSubnet of
          None \<Rightarrow> Inr (None, snd (collectUntilSemicolon r0))
        | Some sn \<Rightarrow>
            rbind (isc_next r0) (\<lambda>(start0, r1).
            rbind (if EqualFold start0 ''dynamic-bootp'' then isc_next r1 else Inr (start0, r1)) (\<lambda>(start, r2).
            rbind (isc_next r2) (\<lambda>(end0, r3).
            rbind (isc_consume '';'' r3) (\<lambda>r4.
              Inr (Some (sn\<lparr>is_Ranges := is_Ranges sn @ [\<lparr>ir_Start = start, ir_End = end0\<rparr>]\<rparr>), r4)))))))"

definition parseLeaseTime :: "iscSubnet option \<Rightarrow> string list \<Rightarrow> go_error + iscSubnet option \<times> string list" where
  "parseLeaseTime currentSubnet ts =
     rbind (isc_consume ''default-lease-time'' ts) (\<lambda>r0.
     rbind (isc_next r0) (\<lambda>(x, r1).
       (case Atoi x of
          None \<Rightarrow> Inl (ErrMsg ''invalid syntax'')
        | Some seconds \<Rightarrow>
            rbind (isc_consume '';'' r1) (\<lambda>r2. Inr (map_option (\<lambda>sn. sn\<lparr>is_LeaseTimeSec := seconds\<rparr>) currentSubnet, r2)))))"

text \<open>A statement that changes the subnet only.\<close>

definition subnet_statement :: "iscSubnet option \<Rightarrow> string list \<Rightarrow> go_error + iscSubnet option \<times> string list" where
  "subnet_statement currentSubnet ts =
     (let t = isc_peek ts in
      if t = ''option'' then parseOption currentSubnet ts
      else if t = ''range'' then parseRange currentSubnet ts
      else if t = ''default-lease-time'' then parseLeaseTime currentSubnet ts
      else Inr (currentSubnet, skipStatementOrBlock 0 ts))"

definition host_into :: "iscHost \<Rightarrow> iscSubnet option \<times> iscConfigData \<Rightarrow> iscSubnet option \<times> iscConfigData" where
  "host_into host x =
     (case x of
        (Some sn, d) \<Rightarrow> (Some (sn\<lparr>is_Reservations := is_Reservations sn @ [host]\<rparr>), d)
      | (None, d) \<Rightarrow> (None, d\<lparr>ic_Hosts := ic_Hosts d @ [host]\<rparr>))"

text \<open>The beginning of a subnet up to its brace, and of a block without a meaning of its own: \<open>None\<close> when it is a statement only.\<close>

definition subnet_header :: "string list \<Rightarrow> go_error + iscSubnet \<times> string list" where
  "subnet_header ts =
     rbind (isc_consume ''subnet'' ts) (\<lambda>r0.
     rbind (isc_next r0) (\<lambda>(network, r1).
     rbind (isc_consume ''netmask'' r1) (\<lambda>r2.
     rbind (isc_next r2) (\<lambda>(netmask, r3).
     rbind (isc_consume ''{'' r3) (\<lambda>r4.
       Inr (\<lparr>is_Network = network, is_Netmask = netmask, is_LeaseTimeSec = 0, is_Ranges = [], is_Gateway = [], is_DNS = [],
             is_Reservations = []\<rparr>, r4))))))"

definition wrapper_header :: "string list \<Rightarrow> go_error + bool \<times> string list" where
  "wrapper_header ts =
     (case dropWhile (\<lambda>t. t \<noteq> ''{'' \<and> t \<noteq> '';'') (tl ts) of
        [] \<Rightarrow> Inl (ErrMsg ''unterminated block'')
      | t # r \<Rightarrow> Inr (t = ''{'', r))"

section \<open>The parser\<close>

abbreviation (input) isc_fuel :: go_error where "isc_fuel \<equiv> ErrMsg ''the parser ran out of fuel''"

text \<open>The statements of a block, up to its closing brace or the end.\<close>

fun parseStatements ::
  "nat \<Rightarrow> iscSubnet option \<Rightarrow> string list \<Rightarrow> iscConfigData \<Rightarrow> go_error + (iscSubnet option \<times> string list \<times> iscConfigData)" where
  "parseStatements 0 cur ts d = Inl isc_fuel"
| "parseStatements (Suc n) cur ts d =
     (if ts = [] then Inr (cur, [], d)
      else if hd ts = ''}'' then Inr (cur, tl ts, d)
      else if hd ts = ''subnet'' then
        (case subnet_header ts of
           Inl err \<Rightarrow> Inl err
         | Inr (sn, r) \<Rightarrow>
             (case parseStatements n (Some sn) r d of
                Inl err \<Rightarrow> Inl err
              | Inr (inner, r', d') \<Rightarrow>
                  parseStatements n cur r' (case inner of None \<Rightarrow> d' | Some x \<Rightarrow> d'\<lparr>ic_Subnets := ic_Subnets d' @ [x]\<rparr>)))
      else if hd ts = ''host'' then
        (case parseHost cur ts of
           Inl err \<Rightarrow> Inl err
         | Inr (host, r) \<Rightarrow> (case host_into host (cur, d) of (cur', d') \<Rightarrow> parseStatements n cur' r d'))
      else if hd ts \<in> {''group'', ''shared-network'', ''pool''} then
        (case wrapper_header ts of
           Inl err \<Rightarrow> Inl err
         | Inr (block, r) \<Rightarrow>
             if block then
               (case parseStatements n cur r d of
                  Inl err \<Rightarrow> Inl err
                | Inr (cur', r', d') \<Rightarrow> parseStatements n cur' r' d')
             else parseStatements n cur r d)
      else
        (case subnet_statement cur ts of
           Inl err \<Rightarrow> Inl err
         | Inr (cur', r) \<Rightarrow> parseStatements n cur' r d))"

text \<open>A host outside of all subnets goes to the first that holds its address.\<close>

definition isc_subnet_holds :: "addr \<Rightarrow> iscSubnet \<Rightarrow> bool" where
  "isc_subnet_holds a sn \<longleftrightarrow>
     (case subnetCIDR (is_Network sn) (is_Netmask sn) of
        Inl _ \<Rightarrow> False
      | Inr cidr \<Rightarrow> (case ParsePrefix cidr of None \<Rightarrow> False | Some p \<Rightarrow> pfx_Contains p a))"

fun give_host :: "addr \<Rightarrow> iscHost \<Rightarrow> iscSubnet list \<Rightarrow> iscSubnet list" where
  "give_host a host [] = []"
| "give_host a host (sn # sns) =
     (if isc_subnet_holds a sn
      then sn\<lparr>is_Reservations := is_Reservations sn @
             [host\<lparr>ih_SubnetCIDR := (case subnetCIDR (is_Network sn) (is_Netmask sn) of Inl _ \<Rightarrow> [] | Inr c \<Rightarrow> c)\<rparr>]\<rparr> # sns
      else sn # give_host a host sns)"

definition assignGlobalHosts :: "iscConfigData \<Rightarrow> iscConfigData" where
  "assignGlobalHosts d =
     d\<lparr>ic_Subnets := fold (\<lambda>host sns.
         case ParseAddr (TrimSpace (ih_FixedAddress host)) of None \<Rightarrow> sns | Some a \<Rightarrow> give_host a host sns) (ic_Hosts d) (ic_Subnets d)\<rparr>"

definition parseISCDHCPConfig :: "string \<Rightarrow> go_error + iscConfigData" where
  "parseISCDHCPConfig raw =
     (let ts = tokenizeISCConfig raw in
      rbind (parseStatements (Suc (length ts)) None ts \<lparr>ic_Subnets = [], ic_Hosts = []\<rparr>) (\<lambda>(_, _, d). Inr (assignGlobalHosts d)))"

section \<open>Import of the configuration\<close>

text \<open>The sort of the code: every pair that is out of order is exchanged.\<close>

fun swap_pass :: "(addr \<times> addr) \<Rightarrow> (addr \<times> addr) list \<Rightarrow> (addr \<times> addr) \<times> (addr \<times> addr) list" where
  "swap_pass x [] = (x, [])"
| "swap_pass x (y # ys) =
     (if addr_Compare (fst y) (fst x) < 0
      then (case swap_pass y ys of (m, zs) \<Rightarrow> (m, x # zs))
      else (case swap_pass x ys of (m, zs) \<Rightarrow> (m, y # zs)))"

lemma swap_pass_length: "length (snd (swap_pass x ys)) = length ys"
  by (induction x ys rule: swap_pass.induct) (auto split: prod.split)

function exchange_sort :: "(addr \<times> addr) list \<Rightarrow> (addr \<times> addr) list" where
  "exchange_sort [] = []"
| "exchange_sort (x # xs) = (case swap_pass x xs of (m, zs) \<Rightarrow> m # exchange_sort zs)"
  by pat_completeness auto
termination
  by (relation "measure length") (auto, metis lessI snd_conv swap_pass_length)

text \<open>Ranges that touch are one; a gap is an error. \<open>Next\<close> of the last address is no address.\<close>

fun merge_ranges :: "addr \<Rightarrow> (addr \<times> addr) list \<Rightarrow> addr option" where
  "merge_ranges e [] = Some e"
| "merge_ranges e ((a, b) # rest) =
     (case addr_Next e of
        None \<Rightarrow> None
      | Some n \<Rightarrow> if addr_Compare a n \<le> 0 then merge_ranges (if addr_Compare b e > 0 then b else e) rest else None)"

fun parse_ranges :: "iscRange list \<Rightarrow> (addr \<times> addr) list option" where
  "parse_ranges [] = Some []"
| "parse_ranges (r # rs) =
     (case (ParseAddr (TrimSpace (ir_Start r)), ParseAddr (TrimSpace (ir_End r))) of
        (Some a, Some b) \<Rightarrow> map_option (\<lambda>xs. (a, b) # xs) (parse_ranges rs)
      | _ \<Rightarrow> None)"

definition mergeISCRanges :: "iscRange list \<Rightarrow> go_error + string \<times> string \<times> string list" where
  "mergeISCRanges ranges =
     (if ranges = [] then Inr ([], [], [])
      else
        (case parse_ranges ranges of
           None \<Rightarrow> Inl (ErrMsg ''unable to parse IP'')
         | Some items0 \<Rightarrow>
             (case exchange_sort items0 of
                [] \<Rightarrow> Inr ([], [], [])
              | (start, e) # rest \<Rightarrow>
                  (case merge_ranges e rest of
                     None \<Rightarrow> Inl (ErrMsg ''multiple non-contiguous ISC ranges are not supported'')
                   | Some final \<Rightarrow>
                       Inr (addr_String start, addr_String final,
                         if rest \<noteq> [] then [''multiple ISC ranges were merged into a single Monsoon DHCP range''] else [])))))"

definition isc_reservation :: "string \<Rightarrow> iscHost \<Rightarrow> UpsertReservationInput option" where
  "isc_reservation cidr host =
     (if TrimSpace (ih_MAC host) = [] \<or> TrimSpace (ih_FixedAddress host) = [] then None
      else Some \<lparr>ri_MAC = ih_MAC host, ri_IP = ih_FixedAddress host, ri_Hostname = ih_Hostname host, ri_SubnetCIDR = cidr\<rparr>)"

definition buildISCSubnetImport :: "iscSubnet \<Rightarrow> go_error + UpsertSubnetInput \<times> UpsertReservationInput list \<times> string list" where
  "buildISCSubnetImport sn =
     rbind (subnetCIDR (is_Network sn) (is_Netmask sn)) (\<lambda>cidr.
     rbind (mergeISCRanges (is_Ranges sn)) (\<lambda>(poolStart, poolEnd, warnings).
       Inr (\<lparr>si_CIDR = cidr, si_Name = cidr, si_VLAN = 0, si_Gateway = is_Gateway sn, si_DNS = is_DNS sn,
              si_DHCPEnable = (poolStart \<noteq> [] \<and> poolEnd \<noteq> []), si_PoolStart = poolStart, si_PoolEnd = poolEnd,
              si_LeaseSec = (if is_LeaseTimeSec sn \<le> 0 then 43200 else is_LeaseTimeSec sn)\<rparr>,
            List.map_filter (isc_reservation cidr) (is_Reservations sn), warnings)))"

text \<open>The reservations of a subnet, up to the first error.\<close>

fun write_reservations :: "'s ipam_engine \<Rightarrow> time \<Rightarrow> UpsertReservationInput list \<Rightarrow> 's \<Rightarrow> 's \<times> go_error option" where
  "write_reservations e now [] s = (s, None)"
| "write_reservations e now (r # rs) s =
     (case UpsertReservation e now r s of
        (s', Inl err) \<Rightarrow> (s', Some err)
      | (s', Inr _) \<Rightarrow> write_reservations e now rs s')"

fun check_reservations :: "'s ipam_engine \<Rightarrow> time \<Rightarrow> UpsertReservationInput list \<Rightarrow> 's \<Rightarrow> go_error option" where
  "check_reservations e now [] s = None"
| "check_reservations e now (r # rs) s =
     (case ValidateReservation e now s r of Inl err \<Rightarrow> Some err | Inr _ \<Rightarrow> check_reservations e now rs s)"

text \<open>A subnet with its reservations: the errors, when there are any, stand for the row.\<close>

definition write_subnet ::
  "('s, 'z) migrate_env_scheme \<Rightarrow> bool \<Rightarrow> UpsertSubnetInput \<Rightarrow> UpsertReservationInput list \<Rightarrow> 's \<Rightarrow> 's \<times> go_error option" where
  "write_subnet v dryRun payload reservations s =
     (let e = mg_ipam v in
      if dryRun then
        (s, case ValidateSubnet e s payload of Inl err \<Rightarrow> Some err | Inr _ \<Rightarrow> check_reservations e (mg_now v) reservations s)
      else
        (case UpsertSubnet e (mg_now v) payload s of
           (s', Inl err) \<Rightarrow> (s', Some err)
         | (s', Inr _) \<Rightarrow> write_reservations e (mg_now v) reservations s'))"

definition isc_subnet_item ::
  "('s, 'z) migrate_env_scheme \<Rightarrow> bool \<Rightarrow> string \<Rightarrow> nat \<Rightarrow> iscSubnet \<Rightarrow> 's \<times> FileReport \<Rightarrow> 's \<times> FileReport" where
  "isc_subnet_item v dryRun policy i sn x =
     (case buildISCSubnetImport sn of
        Inl err \<Rightarrow> (fst x, row_error (i + 1) (go_error_text err) (snd x))
      | Inr (payload, reservations, _) \<Rightarrow>
          if policy = ConflictSkip \<and> is_ok (GetSubnet (mg_ipam v) (fst x) (si_CIDR payload)) then (fst x, row_skipped (snd x))
          else
            (case write_subnet v dryRun payload reservations (fst x) of
               (s', Some err) \<Rightarrow> (s', row_error (i + 1) (go_error_text err) (snd x))
             | (s', None) \<Rightarrow> (s', row_applied (snd x))))"

definition isc_warnings :: "iscSubnet list \<Rightarrow> string list" where
  "isc_warnings sns = concat (map (\<lambda>sn. case buildISCSubnetImport sn of Inl _ \<Rightarrow> [] | Inr (_, _, ws) \<Rightarrow> ws) sns)"

definition importISCDHCPConfig ::
  "('s, 'z) migrate_env_scheme \<Rightarrow> string \<Rightarrow> bool \<Rightarrow> string \<Rightarrow> 's \<Rightarrow> 's \<times> FileReport \<times> string list \<times> (go_error + iscConfigData)" where
  "importISCDHCPConfig v path dryRun policy s =
     (let file = (\<lambda>n. new_file ''isc_dhcp_config'' path n) in
      case rbind (mg_read v path) parseISCDHCPConfig of
        Inl err \<Rightarrow> (s, row_error 0 (go_error_text err) (file 0), [], Inl err)
      | Inr parsed \<Rightarrow>
          (case each_item (isc_subnet_item v dryRun policy) 0 (ic_Subnets parsed) (s, file (length (ic_Subnets parsed))) of
             (s', f) \<Rightarrow>
               (s', f, isc_warnings (ic_Subnets parsed),
                case report_error ''isc config import reported row errors'' f of Some err \<Rightarrow> Inl err | None \<Rightarrow> Inr parsed)))"

section \<open>Leases\<close>

text \<open>\<^verbatim>\<open>bufio.Scanner\<close>: lines without their end, none after the last; a line that fills the buffer is an error.\<close>

definition scan_lines :: "bytes \<Rightarrow> go_error + string list" where
  "scan_lines content =
     (let raw = split_on (CHR 0x0A) content; raw = (if last raw = [] then butlast raw else raw) in
      if list_ex (\<lambda>l. length l \<ge> 65536) raw then Inl (ErrMsg ''bufio.Scanner: token too long'')
      else Inr (map (\<lambda>l. if l \<noteq> [] \<and> last l = CHR 0x0D then butlast l else l) raw))"

fun strip_comment :: "bool \<Rightarrow> string \<Rightarrow> string" where
  "strip_comment inString [] = []"
| "strip_comment inString (ch # rest) =
     (if ch = CHR 0x22 then ch # strip_comment (\<not> inString) rest
      else if ch = CHR ''#'' \<and> \<not> inString then []
      else ch # strip_comment inString rest)"

definition stripInlineComment :: "string \<Rightarrow> string" where
  "stripInlineComment s = strip_comment False s"

definition mapISCBindingState :: "string \<Rightarrow> LeaseState" where
  "mapISCBindingState x =
     (let t = ToLower (TrimSpace x) in
      if t = ''active'' then StateBound else if t = ''free'' then StateReleased else if t = ''expired'' then StateExpired
      else if t = ''released'' then StateReleased else if t = ''abandoned'' then StateDeclined
      else if t = ''backup'' then StateRenewing else StateBound)"

text \<open>\<^verbatim>\<open>strings.Fields\<close> on ASCII: the parts between white space.\<close>

definition Fields :: "string \<Rightarrow> string list" where
  "Fields s = fields_func (\<lambda>c. c \<in> set [CHR 0x09, CHR 0x0A, CHR 0x0B, CHR 0x0C, CHR 0x0D, CHR 0x20]) [] s"

definition parseISCTimestamp :: "('s, 'z) migrate_env_scheme \<Rightarrow> string \<Rightarrow> time option" where
  "parseISCTimestamp v x =
     (if EqualFold (TrimSpace x) ''never'' then Some 0
      else (case Fields (TrimSpace x) of
              [_, day, clock] \<Rightarrow> mg_isc_time v (day @ '' '' @ clock)
            | [day, clock] \<Rightarrow> mg_isc_time v (day @ '' '' @ clock)
            | _ \<Rightarrow> None))"

fun first_isc_subnet :: "addr \<Rightarrow> iscSubnet list \<Rightarrow> string" where
  "first_isc_subnet a [] = []"
| "first_isc_subnet a (sn # sns) =
     (if isc_subnet_holds a sn then (case subnetCIDR (is_Network sn) (is_Netmask sn) of Inl _ \<Rightarrow> [] | Inr c \<Rightarrow> c)
      else first_isc_subnet a sns)"

definition inferISCSubnetForIP :: "string \<Rightarrow> iscSubnet list \<Rightarrow> string" where
  "inferISCSubnetForIP ip sns = (case ParseAddr (TrimSpace ip) of None \<Rightarrow> [] | Some a \<Rightarrow> first_isc_subnet a sns)"

definition line_after :: "string \<Rightarrow> string \<Rightarrow> string option" where
  "line_after p line = (if starts_with p line then Some (TrimSpace (TrimPrefix line p)) else None)"

text \<open>A line inside the block of a lease.\<close>

definition lease_line :: "('s, 'z) migrate_env_scheme \<Rightarrow> string \<Rightarrow> iscLeaseRecord \<Rightarrow> iscLeaseRecord" where
  "lease_line v line0 r =
     (let line = TrimSuffix line0 '';'' in
      case line_after ''binding state '' line of Some x \<Rightarrow> r\<lparr>il_State := mapISCBindingState x\<rparr>
    | None \<Rightarrow>
     (case line_after ''hardware ethernet '' line of Some x \<Rightarrow> r\<lparr>il_MAC := x\<rparr>
    | None \<Rightarrow>
     (case line_after ''client-hostname '' line of Some x \<Rightarrow> r\<lparr>il_Hostname := trim_set [CHR 0x22] x\<rparr>
    | None \<Rightarrow>
     (case line_after ''starts '' line of
        Some x \<Rightarrow> (case parseISCTimestamp v x of Some t \<Rightarrow> r\<lparr>il_StartTime := t\<rparr> | None \<Rightarrow> r)
    | None \<Rightarrow>
     (case line_after ''ends '' line of
        Some x \<Rightarrow> (case parseISCTimestamp v x of Some t \<Rightarrow> r\<lparr>il_ExpiryTime := t\<rparr> | None \<Rightarrow> r)
    | None \<Rightarrow>
     (case line_after ''cltt '' line of
        Some x \<Rightarrow> (case parseISCTimestamp v x of Some t \<Rightarrow> if is_zero_time (il_StartTime r) then r\<lparr>il_StartTime := t\<rparr> else r | None \<Rightarrow> r)
    | None \<Rightarrow> r))))))"

definition lease_head :: "string \<Rightarrow> iscLeaseRecord option" where
  "lease_head line =
     (if starts_with ''lease '' line \<and> ends_with ''{'' line
      then Some \<lparr>il_IP = TrimSpace (TrimSuffix (TrimPrefix line ''lease '') ''{''), il_MAC = [], il_Hostname = [], il_State = StateBound,
             il_StartTime = 0, il_ExpiryTime = 0, il_SubnetID = []\<rparr>
      else None)"

fun lease_records :: "('s, 'z) migrate_env_scheme \<Rightarrow> iscSubnet list \<Rightarrow> iscLeaseRecord option \<Rightarrow> string list \<Rightarrow> iscLeaseRecord list" where
  "lease_records v sns current [] = []"
| "lease_records v sns current (raw # rest) =
     (let line = TrimSpace (stripInlineComment raw) in
      if line = [] then lease_records v sns current rest
      else
        (case lease_head line of
           Some r \<Rightarrow> lease_records v sns (Some r) rest
         | None \<Rightarrow>
             (case current of
                None \<Rightarrow> lease_records v sns None rest
              | Some r \<Rightarrow>
                  if line = ''}'' then r\<lparr>il_SubnetID := inferISCSubnetForIP (il_IP r) sns\<rparr> # lease_records v sns None rest
                  else lease_records v sns (Some (lease_line v line r)) rest)))"

definition parseISCDHCPLeases :: "('s, 'z) migrate_env_scheme \<Rightarrow> string \<Rightarrow> iscSubnet list \<Rightarrow> go_error + iscLeaseRecord list" where
  "parseISCDHCPLeases v path sns =
     rbind (mg_read v path) (\<lambda>content. rbind (scan_lines content) (\<lambda>ls. Inr (lease_records v sns None ls)))"

definition isc_lease :: "iscLeaseRecord \<Rightarrow> Lease" where
  "isc_lease r =
     (let duration = time_sub (il_ExpiryTime r) (il_StartTime r) in
      zero_lease\<lparr>l_IP := il_IP r, l_MAC := il_MAC r, l_Hostname := il_Hostname r, l_State := il_State r, l_StartTime := il_StartTime r,
        l_ExpiryTime := il_ExpiryTime r, l_Duration := (if duration \<le> 0 then half_day else duration), l_SubnetID := il_SubnetID r\<rparr>)"

definition isc_lease_item ::
  "('s, 'z) migrate_env_scheme \<Rightarrow> bool \<Rightarrow> string \<Rightarrow> nat \<Rightarrow> iscLeaseRecord \<Rightarrow> 's \<times> FileReport \<Rightarrow> 's \<times> FileReport" where
  "isc_lease_item v dryRun policy i r x =
     (if il_State r \<noteq> StateBound \<and> il_State r \<noteq> StateRenewing then (fst x, row_skipped (snd x))
      else if policy = ConflictSkip \<and> is_ok (op_GetByIP (mg_leases v) (fst x) (il_IP r)) then (fst x, row_skipped (snd x))
      else
        (case check_or_upsert v dryRun (isc_lease r) (fst x) of
           (s', Some err) \<Rightarrow> (s', row_error (i + 1) (go_error_text err) (snd x))
         | (s', None) \<Rightarrow> (s', row_applied (snd x))))"

definition importISCDHCPLeases ::
  "('s, 'z) migrate_env_scheme \<Rightarrow> string \<Rightarrow> iscConfigData \<Rightarrow> bool \<Rightarrow> string \<Rightarrow> 's \<Rightarrow> 's \<times> FileReport \<times> go_error option" where
  "importISCDHCPLeases v path config dryRun policy s =
     (case parseISCDHCPLeases v path (ic_Subnets config) of
        Inl err \<Rightarrow> (s, row_error 0 (go_error_text err) (new_file ''isc_dhcp_leases'' path 0), Some err)
      | Inr records \<Rightarrow>
          (case each_item (isc_lease_item v dryRun policy) 0 records (s, new_file ''isc_dhcp_leases'' path (length records)) of
             (s', f) \<Rightarrow> (s', f, report_error ''isc lease import reported row errors'' f)))"

definition runISCDHCP :: "('s, 'z) migrate_env_scheme \<Rightarrow> string \<Rightarrow> string \<Rightarrow> bool \<Rightarrow> string \<Rightarrow> 's \<Rightarrow> 's source_run" where
  "runISCDHCP v configPath0 leasesPath dryRun policy s =
     (let configPath = TrimSpace configPath0 in
      if configPath = [] then (s, [], [], Some (ErrMsg ''isc-dhcp migration requires --source-config''))
      else
        (case importISCDHCPConfig v configPath dryRun policy s of
           (s1, f1, ws, Inl err) \<Rightarrow> (s1, [f1], ws, Some err)
         | (s1, f1, ws, Inr config) \<Rightarrow>
             if TrimSpace leasesPath = [] then (s1, [f1], ws, None)
             else (case importISCDHCPLeases v leasesPath config dryRun policy s1 of
                     (s2, f2, err) \<Rightarrow> (s2, [f1, f2], ws, err))))"

end
