(* ===== verification/MigrateKea.thy ===== *)
theory MigrateKea
  imports MigrateIsc
begin

text \<open>
  \<^verbatim>\<open>src/internal/migrate/kea.go\<close>: the import of a configuration of Kea and of its leases. The decoder of the configuration and
  those of a pool - a string or an object with one - are arguments; a pool is its JSON text.
\<close>

section \<open>Data\<close>

record keaReservation =
  kr_HWAddress :: string
  kr_IPAddress :: string
  kr_Hostname :: string

record keaOption =
  ko_Name :: string
  ko_Data :: string

record 'j keaSubnet4 =
  ks_ID :: int
  ks_Subnet :: string
  ks_ValidLifetime :: int
  ks_Pools :: "bytes list"
  ks_Reservations :: "keaReservation list"
  ks_OptionData :: "keaOption list"
  ks_UserContext :: "(string \<times> 'j) list"

record 'j keaSharedNetwork =
  kn_Name :: string
  kn_Subnet4 :: "'j keaSubnet4 list"

record 'j keaDHCP4 =
  kd_ValidLifetime :: int
  kd_Subnet4 :: "'j keaSubnet4 list"
  kd_SharedNetworks :: "'j keaSharedNetwork list"

text \<open>JSON as the code uses it: the decoders, what strings are, and the JSON of a string.\<close>

record 'j kea_json =
  kj_config :: "bytes \<Rightarrow> go_error + 'j keaDHCP4"
  kj_string :: "bytes \<Rightarrow> string option"
  kj_pool :: "bytes \<Rightarrow> string option"
  kj_text :: "'j \<Rightarrow> string option"
  kj_of :: "string \<Rightarrow> 'j"

section \<open>Comments\<close>

datatype json_state = StateNormal | StateString bool | StateLineComment | StateBlockComment

text \<open>The state of a string says whether the last character was a backslash.\<close>

fun strip_json :: "json_state \<Rightarrow> bytes \<Rightarrow> bytes" where
  "strip_json st [] = []"
| "strip_json StateNormal [ch] = [ch]"
| "strip_json StateNormal (ch # ch2 # rest) =
     (if ch = CHR 0x22 then ch # strip_json (StateString False) (ch2 # rest)
      else if ch = CHR ''/'' \<and> ch2 = CHR ''/'' then strip_json StateLineComment rest
      else if ch = CHR ''/'' \<and> ch2 = CHR ''*'' then strip_json StateBlockComment rest
      else ch # strip_json StateNormal (ch2 # rest))"
| "strip_json (StateString escaped) (ch # rest) =
     ch # strip_json
       (if escaped then StateString False
        else if ch = CHR 0x5C then StateString True
        else if ch = CHR 0x22 then StateNormal
        else StateString False) rest"
| "strip_json StateLineComment (ch # rest) =
     (if ch = CHR 0x0A then ch # strip_json StateNormal rest else strip_json StateLineComment rest)"
| "strip_json StateBlockComment [ch] = []"
| "strip_json StateBlockComment (ch # ch2 # rest) =
     (if ch = CHR ''*'' \<and> ch2 = CHR ''/'' then strip_json StateNormal rest else strip_json StateBlockComment (ch2 # rest))"

definition stripJSONComments :: "bytes \<Rightarrow> bytes" where
  "stripJSONComments s = strip_json StateNormal s"

section \<open>Pools\<close>

definition lastIPv4InPrefix :: "u32 \<Rightarrow> nat \<Rightarrow> u32" where
  "lastIPv4InPrefix base bits =
     (let hostBits = 32 - bits in or base (if hostBits \<ge> 32 then - 1 else if hostBits > 0 then push_bit hostBits 1 - 1 else 0))"

definition parseKeaPool :: "string \<Rightarrow> go_error + addr \<times> addr" where
  "parseKeaPool value0 =
     (let value = TrimSpace value0 in
      if value = [] then Inl (ErrMsg ''empty pool value'')
      else if CHR ''-'' \<in> set value then
        (case split_byte (CHR ''-'') value of
           (a, b) \<Rightarrow>
             (case ParseAddr (TrimSpace a) of
                None \<Rightarrow> Inl (ErrMsg ''invalid pool start'')
              | Some start \<Rightarrow>
             (case ParseAddr (TrimSpace (case b of None \<Rightarrow> [] | Some x \<Rightarrow> x)) of
                None \<Rightarrow> Inl (ErrMsg ''invalid pool end'')
              | Some endv \<Rightarrow> if addr_Compare start endv > 0 then Inl (ErrMsg ''pool start must be <= pool end'') else Inr (start, endv))))
      else
        (case ParsePrefix value of
           None \<Rightarrow> Inl (ErrMsg ''unsupported pool format'')
         | Some p \<Rightarrow>
             (case pfx_addr (pfx_Masked p) of
                A6 _ _ \<Rightarrow> Inl (ErrMsg ''only DHCPv4 pools are supported'')
              | A4 base \<Rightarrow> Inr (A4 base, A4 (lastIPv4InPrefix base (pfx_bits p))))))"

fun kea_ranges :: "'j kea_json \<Rightarrow> bytes list \<Rightarrow> go_error + (addr \<times> addr) list" where
  "kea_ranges J [] = Inr []"
| "kea_ranges J (raw # rest) =
     (case (case kj_string J raw of Some t \<Rightarrow> Some t | None \<Rightarrow> kj_pool J raw) of
        None \<Rightarrow> Inl (ErrMsg ''invalid pool definition'')
      | Some t \<Rightarrow> rbind (parseKeaPool t) (\<lambda>r. rbind (kea_ranges J rest) (\<lambda>rs. Inr (r # rs))))"

definition normalizeKeaPools :: "'j kea_json \<Rightarrow> bytes list \<Rightarrow> go_error + string \<times> string \<times> string list" where
  "normalizeKeaPools J pools =
     rbind (kea_ranges J pools) (\<lambda>ranges.
       (case sort_by (\<lambda>x y. addr_Compare (fst x) (fst y) < 0) ranges of
          [] \<Rightarrow> Inr ([], [], [])
        | (start, e) # rest \<Rightarrow>
            (case merge_ranges e rest of
               None \<Rightarrow> Inl (ErrMsg ''multiple non-contiguous pools are not supported'')
             | Some final \<Rightarrow>
                 Inr (addr_String start, addr_String final,
                   if rest \<noteq> [] then [''multiple Kea pools were merged into a single Monsoon DHCP range''] else []))))"

section \<open>Subnets\<close>

definition share_context :: "'j kea_json \<Rightarrow> string \<Rightarrow> 'j keaSubnet4 \<Rightarrow> 'j keaSubnet4" where
  "share_context J name sn =
     (if map_of (ks_UserContext sn) ''shared_network'' = None \<and> TrimSpace name \<noteq> []
      then sn\<lparr>ks_UserContext := mput ''shared_network'' (kj_of J name) (ks_UserContext sn)\<rparr> else sn)"

definition flattenKeaSubnets :: "'j kea_json \<Rightarrow> 'j keaDHCP4 \<Rightarrow> 'j keaSubnet4 list" where
  "flattenKeaSubnets J d =
     kd_Subnet4 d @
     concat (map (\<lambda>n. map (share_context J (kn_Name n)) (filter (\<lambda>sn. TrimSpace (ks_Subnet sn) \<noteq> []) (kn_Subnet4 n))) (kd_SharedNetworks d))"

definition context_text :: "'j kea_json \<Rightarrow> string \<Rightarrow> 'j keaSubnet4 \<Rightarrow> string" where
  "context_text J key sn =
     (case map_of (ks_UserContext sn) key of None \<Rightarrow> [] | Some x \<Rightarrow> (case kj_text J x of None \<Rightarrow> [] | Some t \<Rightarrow> TrimSpace t))"

definition inferKeaSubnetName :: "'j kea_json \<Rightarrow> 'j keaSubnet4 \<Rightarrow> string" where
  "inferKeaSubnetName J sn =
     (if context_text J ''name'' sn \<noteq> [] then context_text J ''name'' sn
      else if context_text J ''shared_network'' sn \<noteq> [] then context_text J ''shared_network'' sn @ '' '' @ TrimSpace (ks_Subnet sn)
      else if ks_ID sn > 0 then ''Kea Subnet '' @ dec (nat (ks_ID sn))
      else TrimSpace (ks_Subnet sn))"

text \<open>The router, which an option without one leaves as it was, and the servers of names.\<close>

definition kea_option :: "keaOption \<Rightarrow> string \<times> string list \<Rightarrow> string \<times> string list" where
  "kea_option opt x =
     (let name = ToLower (TrimSpace (ko_Name opt)); parts = splitList (ko_Data opt) in
      if name = ''routers'' then (if parts \<noteq> [] then hd parts else fst x, snd x)
      else if name = ''domain-name-servers'' then (fst x, parts)
      else x)"

definition extractKeaOptions :: "keaOption list \<Rightarrow> string \<times> string list" where
  "extractKeaOptions options = fold kea_option options ([], [])"

definition kea_reservation :: "string \<Rightarrow> keaReservation \<Rightarrow> UpsertReservationInput option" where
  "kea_reservation cidr r =
     (if TrimSpace (kr_HWAddress r) = [] \<or> TrimSpace (kr_IPAddress r) = [] then None
      else Some \<lparr>ri_MAC = kr_HWAddress r, ri_IP = kr_IPAddress r, ri_Hostname = kr_Hostname r, ri_SubnetCIDR = cidr\<rparr>)"

definition kea_lease_seconds :: "int \<Rightarrow> int \<Rightarrow> int" where
  "kea_lease_seconds own general = (if own > 0 then own else if general > 0 then general else 43200)"

definition buildKeaSubnetImport ::
  "'j kea_json \<Rightarrow> int \<Rightarrow> 'j keaSubnet4 \<Rightarrow> go_error + UpsertSubnetInput \<times> UpsertReservationInput list \<times> string list" where
  "buildKeaSubnetImport J defaultLifetime sn =
     (let cidr = TrimSpace (ks_Subnet sn) in
      if cidr = [] then Inl (ErrMsg ''subnet is required'')
      else
        rbind (normalizeKeaPools J (ks_Pools sn)) (\<lambda>(poolStart, poolEnd, warnings).
          (case extractKeaOptions (ks_OptionData sn) of
             (gateway, dns) \<Rightarrow>
               Inr (\<lparr>si_CIDR = cidr, si_Name = inferKeaSubnetName J sn, si_VLAN = 0, si_Gateway = gateway, si_DNS = dns,
                      si_DHCPEnable = (poolStart \<noteq> [] \<and> poolEnd \<noteq> []), si_PoolStart = poolStart, si_PoolEnd = poolEnd,
                      si_LeaseSec = kea_lease_seconds (ks_ValidLifetime sn) defaultLifetime\<rparr>,
                    List.map_filter (kea_reservation cidr) (ks_Reservations sn), warnings))))"

section \<open>Import\<close>

text \<open>In a dry run a subnet whose reservations fail is an error and counts as applied as well.\<close>

definition kea_dry_item ::
  "('s, 'z) migrate_env_scheme \<Rightarrow> nat \<Rightarrow> UpsertSubnetInput \<Rightarrow> UpsertReservationInput list \<Rightarrow> 's \<Rightarrow> FileReport \<Rightarrow> FileReport" where
  "kea_dry_item v i payload reservations s f =
     (case ValidateSubnet (mg_ipam v) s payload of
        Inl err \<Rightarrow> row_error (i + 1) (go_error_text err) f
      | Inr _ \<Rightarrow>
          row_applied
            (case check_reservations (mg_ipam v) (mg_now v) reservations s of
               Some err \<Rightarrow> row_error (i + 1) (go_error_text err) f
             | None \<Rightarrow> f))"

definition kea_subnet_item ::
  "('s, 'z) migrate_env_scheme \<Rightarrow> 'j kea_json \<Rightarrow> int \<Rightarrow> bool \<Rightarrow> string \<Rightarrow> nat \<Rightarrow> 'j keaSubnet4 \<Rightarrow> 's \<times> FileReport \<Rightarrow> 's \<times> FileReport" where
  "kea_subnet_item v J defaultLifetime dryRun policy i sn x =
     (case buildKeaSubnetImport J defaultLifetime sn of
        Inl err \<Rightarrow> (fst x, row_error (i + 1) (go_error_text err) (snd x))
      | Inr (payload, reservations, _) \<Rightarrow>
          if policy = ConflictSkip \<and> is_ok (GetSubnet (mg_ipam v) (fst x) (si_CIDR payload)) then (fst x, row_skipped (snd x))
          else if dryRun then (fst x, kea_dry_item v i payload reservations (fst x) (snd x))
          else
            (case write_subnet v False payload reservations (fst x) of
               (s', Some err) \<Rightarrow> (s', row_error (i + 1) (go_error_text err) (snd x))
             | (s', None) \<Rightarrow> (s', row_applied (snd x))))"

definition kea_warnings :: "'j kea_json \<Rightarrow> int \<Rightarrow> 'j keaSubnet4 list \<Rightarrow> string list" where
  "kea_warnings J defaultLifetime sns =
     concat (map (\<lambda>sn. case buildKeaSubnetImport J defaultLifetime sn of Inl _ \<Rightarrow> [] | Inr (_, _, ws) \<Rightarrow> ws) sns)"

definition importKeaConfig ::
  "('s, 'z) migrate_env_scheme \<Rightarrow> 'j kea_json \<Rightarrow> string \<Rightarrow> bool \<Rightarrow> string \<Rightarrow> 's \<Rightarrow> 's \<times> FileReport \<times> string list \<times> go_error option" where
  "importKeaConfig v J path dryRun policy s =
     (let file = (\<lambda>n. new_file ''kea_config'' path n) in
      case rbind (mg_read v path) (\<lambda>raw. kj_config J (stripJSONComments raw)) of
        Inl err \<Rightarrow> (s, row_error 0 (go_error_text err) (file 0), [], Some err)
      | Inr d \<Rightarrow>
          (let sns = flattenKeaSubnets J d in
           case each_item (kea_subnet_item v J (kd_ValidLifetime d) dryRun policy) 0 sns (s, file (length sns)) of
             (s', f) \<Rightarrow> (s', f, kea_warnings J (kd_ValidLifetime d) sns, report_error ''kea config import reported row errors'' f)))"

definition runKea :: "('s, 'z) migrate_env_scheme \<Rightarrow> 'j kea_json \<Rightarrow> string \<Rightarrow> string \<Rightarrow> bool \<Rightarrow> string \<Rightarrow> 's \<Rightarrow> 's source_run" where
  "runKea v J configPath0 leasesPath dryRun policy s =
     (let configPath = TrimSpace configPath0 in
      if configPath = [] then (s, [], [], Some (ErrMsg ''kea migration requires --source-config''))
      else
        (case importKeaConfig v J configPath dryRun policy s of
           (s1, f1, ws, Some err) \<Rightarrow> (s1, [f1], ws, Some err)
         | (s1, f1, ws, None) \<Rightarrow>
             if TrimSpace leasesPath = [] then (s1, [f1], ws, None)
             else (case importCSVFile v ''kea_leases'' leasesPath dryRun policy importLeaseRow s1 of
                     (s2, f2, err) \<Rightarrow> (s2, [f1, f2], ws @ (case err of None \<Rightarrow> [] | Some e \<Rightarrow> [go_error_text e]), err))))"

end
