(* ===== verification/MigrateApi.thy ===== *)
theory MigrateApi
  imports MigrateKea
begin

text \<open>
  \<^verbatim>\<open>src/internal/migrate/netbox.go\<close>, \<^verbatim>\<open>phpipam.go\<close> and the dispatch of \<^verbatim>\<open>migrate.go\<close>: the import from the HTTP
  interfaces of NetBox and phpIPAM. What a server answers to a URL is a function, and the decoders of its pages are arguments; a
  number of JSON is its integer part and whether it has a fraction: the code looks at nothing else. The pages of NetBox may go on for ever: reading them
  is a partial function.
\<close>

section \<open>The servers\<close>

record netboxPrefix =
  np_Prefix :: string
  np_Description :: string
  np_VLAN :: "int option"
  np_Role :: "string option"
  np_Site :: "string option"

record netboxIPAddress =
  na_Address :: string
  na_DNSName :: string
  na_Description :: string
  na_Status :: string

datatype php_value = PhpString string | PhpNumber int bool | PhpOther

record phpipamSubnet =
  ps_ID :: string
  ps_Subnet :: php_value
  ps_Mask :: php_value
  ps_Description :: string
  ps_SectionID :: string
  ps_VLANID :: string

record phpipamAddress =
  pa_SubnetID :: string
  pa_IPAddress :: php_value
  pa_Hostname :: string
  pa_Description :: string
  pa_MAC :: string
  pa_Tag :: php_value

record 'a netboxPage =
  pg_Next :: "string option"
  pg_Results :: "'a list"

record 'a phpipamEnvelope =
  pe_Code :: int
  pe_Success :: bool
  pe_Data :: 'a

text \<open>
  A request is a URL with its headers; the answer is an error, or the status and the body. The decoders of pages, and of the
  sections and tags as lists of numbers with a name, and of VLANs with their number.
\<close>

type_synonym http_get = "string \<Rightarrow> (string \<times> string) list \<Rightarrow> go_error + nat \<times> bytes"

record api_decoders =
  dj_prefixes :: "bytes \<Rightarrow> go_error + netboxPrefix netboxPage"
  dj_addresses :: "bytes \<Rightarrow> go_error + netboxIPAddress netboxPage"
  dj_sections :: "bytes \<Rightarrow> go_error + (string \<times> string) list phpipamEnvelope"
  dj_subnets :: "bytes \<Rightarrow> go_error + phpipamSubnet list phpipamEnvelope"
  dj_vlans :: "bytes \<Rightarrow> go_error + (string \<times> php_value) list phpipamEnvelope"
  dj_tags :: "bytes \<Rightarrow> go_error + (string \<times> string \<times> string) list phpipamEnvelope"
  dj_php_addresses :: "bytes \<Rightarrow> go_error + phpipamAddress list phpipamEnvelope"

text \<open>\<^verbatim>\<open>strings.TrimRight\<close> with a slash.\<close>

definition base_url :: "string \<Rightarrow> string" where
  "base_url apiURL = rev (dropWhile (\<lambda>c. c = CHR ''/'') (rev (TrimSpace apiURL)))"

section \<open>NetBox\<close>

definition netbox_headers :: "string \<Rightarrow> (string \<times> string) list" where
  "netbox_headers token =
     (''Accept'', ''application/json'') # (if token \<noteq> [] then [(''Authorization'', ''Token '' @ token)] else [])"

definition netbox_page :: "http_get \<Rightarrow> string \<Rightarrow> (bytes \<Rightarrow> go_error + 'a netboxPage) \<Rightarrow> string \<Rightarrow> go_error + 'a netboxPage" where
  "netbox_page get token decode url =
     rbind (get url (netbox_headers token)) (\<lambda>(status, body).
       if status < 200 \<or> status \<ge> 300 then Inl (ErrMsg ''netbox api request failed'') else decode body)"

partial_function (option) fetchNetBoxPaginated ::
  "http_get \<Rightarrow> string \<Rightarrow> (bytes \<Rightarrow> go_error + 'a netboxPage) \<Rightarrow> string \<Rightarrow> 'a list \<Rightarrow> (go_error + 'a list) option" where
  "fetchNetBoxPaginated get token decode nextURL out =
     (if nextURL = [] then Some (Inr out)
      else
        (case netbox_page get token decode nextURL of
           Inl err \<Rightarrow> Some (Inl err)
         | Inr page \<Rightarrow>
             fetchNetBoxPaginated get token decode (case pg_Next page of None \<Rightarrow> [] | Some u \<Rightarrow> TrimSpace u) (out @ pg_Results page)))"

definition netbox_name :: "netboxPrefix \<Rightarrow> prefix \<Rightarrow> string" where
  "netbox_name item p =
     (let description = TrimSpace (np_Description item);
          role = (case np_Role item of None \<Rightarrow> [] | Some r \<Rightarrow> TrimSpace r);
          site = (case np_Site item of None \<Rightarrow> [] | Some r \<Rightarrow> TrimSpace r)
      in if description \<noteq> [] then description
         else if role \<noteq> [] then role
         else if site \<noteq> [] then site @ '' '' @ pfx_String p
         else pfx_String p)"

definition buildNetBoxSubnetImport :: "netboxPrefix \<Rightarrow> go_error + UpsertSubnetInput \<times> prefix \<times> string list" where
  "buildNetBoxSubnetImport item =
     (case ParsePrefix (TrimSpace (np_Prefix item)) of
        None \<Rightarrow> Inl (ErrMsg ''invalid prefix'')
      | Some p \<Rightarrow>
          Inr (\<lparr>si_CIDR = pfx_String p, si_Name = netbox_name item p, si_VLAN = (case np_VLAN item of None \<Rightarrow> 0 | Some n \<Rightarrow> n),
                 si_Gateway = [], si_DNS = [], si_DHCPEnable = False, si_PoolStart = [], si_PoolEnd = [], si_LeaseSec = 0\<rparr>, p,
               if addr_Is4 (pfx_addr p) then []
               else [''netbox prefix '' @ pfx_String p @ '' imported as IPv6 subnet without DHCP pool'']))"

fun longest_prefix :: "addr \<Rightarrow> int \<Rightarrow> string \<Rightarrow> prefix list \<Rightarrow> string" where
  "longest_prefix a bestBits best [] = best"
| "longest_prefix a bestBits best (p # ps) =
     (if pfx_Contains p a \<and> int (pfx_bits p) > bestBits then longest_prefix a (int (pfx_bits p)) (pfx_String p) ps
      else longest_prefix a bestBits best ps)"

definition longestContainingPrefix :: "addr \<Rightarrow> prefix list \<Rightarrow> string" where
  "longestContainingPrefix a ps = longest_prefix a (- 1) [] ps"

definition mapNetBoxStatus :: "string \<Rightarrow> IPState" where
  "mapNetBoxStatus x =
     (let t = ToLower (TrimSpace x) in
      if t = ''dhcp'' then IPStateDHCP else if t = ''deprecated'' then IPStateQuarantined
      else if t \<in> {''reserved'', ''active'', ''slaac''} then IPStateReserved else IPStateAvailable)"

definition buildNetBoxAddressImport :: "netboxIPAddress \<Rightarrow> prefix list \<Rightarrow> go_error + UpsertAddressInput" where
  "buildNetBoxAddressImport item ps =
     (case ParsePrefix (TrimSpace (na_Address item)) of
        None \<Rightarrow> Inl (ErrMsg ''invalid netbox address'')
      | Some p \<Rightarrow>
          (let subnet = longestContainingPrefix (pfx_addr p) ps; description = TrimSpace (na_Description item);
               hostname = TrimSpace (na_DNSName item)
           in Inr \<lparr>ai_IP = addr_String (pfx_addr p), ai_SubnetCIDR = or_else subnet (pfx_String p), ai_State = mapNetBoxStatus (na_Status item),
                ai_MAC = [], ai_Hostname = or_else hostname description,
                ai_Source = (if description \<noteq> [] then ''netbox:'' @ description else ''netbox''), ai_UpdatedAt = 0\<rparr>))"

text \<open>A subnet or an address that is checked or written; the result tells whether the item stays.\<close>

definition subnet_item ::
  "('s, 'z) migrate_env_scheme \<Rightarrow> bool \<Rightarrow> string \<Rightarrow> nat \<Rightarrow> UpsertSubnetInput \<Rightarrow> 's \<times> FileReport \<Rightarrow> ('s \<times> FileReport) \<times> bool" where
  "subnet_item v dryRun policy i payload x =
     (if policy = ConflictSkip \<and> is_ok (GetSubnet (mg_ipam v) (fst x) (si_CIDR payload)) then ((fst x, row_skipped (snd x)), True)
      else
        (case write_subnet v dryRun payload [] (fst x) of
           (s', Some err) \<Rightarrow> ((s', row_error (i + 1) (go_error_text err) (snd x)), False)
         | (s', None) \<Rightarrow> ((s', row_applied (snd x)), True)))"

definition address_item ::
  "('s, 'z) migrate_env_scheme \<Rightarrow> bool \<Rightarrow> string \<Rightarrow> nat \<Rightarrow> UpsertAddressInput \<Rightarrow> 's \<times> FileReport \<Rightarrow> 's \<times> FileReport" where
  "address_item v dryRun policy i payload x =
     (let e = mg_ipam v in
      if policy = ConflictSkip \<and> is_ok (GetStoredAddress e (fst x) (ai_IP payload)) then (fst x, row_skipped (snd x))
      else
        (case check_or_write dryRun (ValidateAddress e (mg_now v) (fst x) payload) (UpsertAddress e (mg_now v) payload (fst x)) (fst x) of
           (s', Inl err) \<Rightarrow> (s', row_error (i + 1) (go_error_text err) (snd x))
         | (s', Inr _) \<Rightarrow> (s', row_applied (snd x))))"

text \<open>The prefixes that are in the store afterwards, or would be, for the addresses.\<close>

fun importNetBoxPrefixes ::
  "('s, 'z) migrate_env_scheme \<Rightarrow> bool \<Rightarrow> string \<Rightarrow> nat \<Rightarrow> netboxPrefix list \<Rightarrow> 's \<times> FileReport \<Rightarrow> ('s \<times> FileReport) \<times> prefix list" where
  "importNetBoxPrefixes v dryRun policy i [] x = (x, [])"
| "importNetBoxPrefixes v dryRun policy i (item # items) x =
     (case (case buildNetBoxSubnetImport item of
              Inl err \<Rightarrow> ((fst x, row_error (i + 1) (go_error_text err) (snd x)), [])
            | Inr (payload, p, _) \<Rightarrow> (case subnet_item v dryRun policy i payload x of (x', keep) \<Rightarrow> (x', if keep then [p] else []))) of
        (x1, ps1) \<Rightarrow> (case importNetBoxPrefixes v dryRun policy (i + 1) items x1 of (x2, ps2) \<Rightarrow> (x2, ps1 @ ps2)))"

definition netbox_warnings :: "netboxPrefix list \<Rightarrow> string list" where
  "netbox_warnings items = concat (map (\<lambda>item. case buildNetBoxSubnetImport item of Inl _ \<Rightarrow> [] | Inr (_, _, ws) \<Rightarrow> ws) items)"

definition netbox_address_item ::
  "('s, 'z) migrate_env_scheme \<Rightarrow> prefix list \<Rightarrow> bool \<Rightarrow> string \<Rightarrow> nat \<Rightarrow> netboxIPAddress \<Rightarrow> 's \<times> FileReport \<Rightarrow> 's \<times> FileReport" where
  "netbox_address_item v ps dryRun policy i item x =
     (case buildNetBoxAddressImport item ps of
        Inl err \<Rightarrow> (fst x, row_error (i + 1) (go_error_text err) (snd x))
      | Inr payload \<Rightarrow> address_item v dryRun policy i payload x)"

definition importNetBoxAddresses ::
  "('s, 'z) migrate_env_scheme \<Rightarrow> string \<Rightarrow> netboxIPAddress list \<Rightarrow> prefix list \<Rightarrow> bool \<Rightarrow> string \<Rightarrow> 's \<Rightarrow> 's \<times> FileReport \<times> go_error option" where
  "importNetBoxAddresses v apiURL items ps dryRun policy s =
     (case each_item (netbox_address_item v ps dryRun policy) 0 items (s, new_file ''netbox_ip_addresses'' apiURL (length items)) of
        (s', f) \<Rightarrow> (s', f, report_error ''netbox address import reported row errors'' f))"

definition netbox_addresses_run ::
  "('s, 'z) migrate_env_scheme \<Rightarrow> http_get \<Rightarrow> api_decoders \<Rightarrow> string \<Rightarrow> string \<Rightarrow> bool \<Rightarrow> string \<Rightarrow> prefix list \<Rightarrow> FileReport \<Rightarrow>
   string list \<Rightarrow> 's \<Rightarrow> 's source_run option" where
  "netbox_addresses_run v get D apiURL token dryRun policy ps f1 ws s =
     (case fetchNetBoxPaginated get token (dj_addresses D) (base_url apiURL @ ''/api/ipam/ip-addresses/'') [] of
        None \<Rightarrow> None
      | Some (Inl err) \<Rightarrow> Some (s, [f1], ws, Some err)
      | Some (Inr addresses) \<Rightarrow>
          (case importNetBoxAddresses v apiURL addresses ps dryRun policy s of
             (s', f2, err) \<Rightarrow> Some (s', [f1, f2], ws, err)))"

definition runNetBox ::
  "('s, 'z) migrate_env_scheme \<Rightarrow> http_get \<Rightarrow> api_decoders \<Rightarrow> string \<Rightarrow> string \<Rightarrow> bool \<Rightarrow> string \<Rightarrow> 's \<Rightarrow> 's source_run option" where
  "runNetBox v get D apiURL apiToken dryRun policy s =
     (let base = base_url apiURL; token = TrimSpace apiToken in
      if base = [] then Some (s, [], [], Some (ErrMsg ''netbox migration requires --api-url''))
      else
        (case fetchNetBoxPaginated get token (dj_prefixes D) (base @ ''/api/ipam/prefixes/'') [] of
           None \<Rightarrow> None
         | Some (Inl err) \<Rightarrow> Some (s, [], [], Some err)
         | Some (Inr items) \<Rightarrow>
             (case importNetBoxPrefixes v dryRun policy 0 items (s, new_file ''netbox_prefixes'' apiURL (length items)) of
                ((s1, f1), ps) \<Rightarrow>
                  (case report_error ''netbox prefix import reported row errors'' f1 of
                     Some err \<Rightarrow> Some (s1, [f1], netbox_warnings items, Some err)
                   | None \<Rightarrow> netbox_addresses_run v get D apiURL token dryRun policy ps f1 (netbox_warnings items) s1))))"

section \<open>phpIPAM\<close>

definition php_get :: "http_get \<Rightarrow> string \<Rightarrow> (bytes \<Rightarrow> go_error + 'a phpipamEnvelope) \<Rightarrow> string \<Rightarrow> go_error + 'a" where
  "php_get get token decode url =
     rbind (get url [(''Accept'', ''application/json''), (''token'', token), (''phpipam-token'', token)]) (\<lambda>(status, body).
       if status < 200 \<or> status \<ge> 300 then Inl (ErrMsg ''phpipam api request failed'')
       else rbind (decode body) (\<lambda>e.
         if \<not> pe_Success e \<and> pe_Code e \<noteq> 200 then Inl (ErrMsg ''phpipam api request failed'') else Inr (pe_Data e)))"

text \<open>A number that is whole and fits, or its text, or an address.\<close>

definition parsePHPIPAMIPv4 :: "php_value \<Rightarrow> go_error + u32" where
  "parsePHPIPAMIPv4 x =
     (case x of
        PhpString t0 \<Rightarrow>
          (let t = TrimSpace t0; ip = ip_To4 (net_ParseIP t) in
           if t = [] then Inl (ErrMsg ''empty ipv4 value'')
           else if ip \<noteq> [] then Inr (of_nat (be_nat ip))
           else if list_all is_digit t \<and> dec_val 0 t < 2 ^ 32 then Inr (of_nat (dec_val 0 t))
           else Inl (ErrMsg ''invalid syntax''))
      | PhpNumber n fraction \<Rightarrow>
          if n < 0 \<or> n > 4294967295 \<or> fraction then Inl (ErrMsg ''ipv4 numeric value out of range'') else Inr (word_of_int n)
      | PhpOther \<Rightarrow> Inl (ErrMsg ''unsupported ipv4 value type''))"

text \<open>The integer part of a number; one beyond 64 bits, whose conversion Go leaves open, is outside of every range that the code accepts.\<close>

definition parsePHPIPAMInt :: "php_value \<Rightarrow> go_error + int" where
  "parsePHPIPAMInt x =
     (case x of
        PhpString t \<Rightarrow> (case Atoi (TrimSpace t) of None \<Rightarrow> Inl (ErrMsg ''invalid syntax'') | Some n \<Rightarrow> Inr n)
      | PhpNumber n _ \<Rightarrow> Inr n
      | PhpOther \<Rightarrow> Inl (ErrMsg ''unsupported int value type''))"

definition anyToString :: "php_value \<Rightarrow> string" where
  "anyToString x = (case x of PhpString t \<Rightarrow> t | PhpNumber n _ \<Rightarrow> dec_int n | PhpOther \<Rightarrow> [])"

definition mapPHPIPAMTag :: "string \<Rightarrow> IPState" where
  "mapPHPIPAMTag label0 =
     (let t = ToLower (TrimSpace label0) in
      if t \<in> {''offline'', ''reserved''} then IPStateReserved else if t \<in> {''used'', ''active''} then IPStateDHCP
      else if t = ''deprecated'' then IPStateQuarantined else IPStateAvailable)"

definition buildPHPIPAMSubnetImport :: "phpipamSubnet \<Rightarrow> string \<Rightarrow> php_value \<Rightarrow> go_error + UpsertSubnetInput" where
  "buildPHPIPAMSubnetImport item section_name vlan =
     rbind (parsePHPIPAMIPv4 (ps_Subnet item)) (\<lambda>a.
     rbind (parsePHPIPAMInt (ps_Mask item)) (\<lambda>mask.
       if mask < 0 \<or> mask > 32 then Inl (ErrMsg ''invalid phpipam mask'')
       else
         (let cidr = pfx_String (pfx_Masked \<lparr>pfx_addr = A4 a, pfx_bits = nat mask\<rparr>) in
          Inr \<lparr>si_CIDR = cidr, si_Name = or_else (TrimSpace (ps_Description item)) (or_else (TrimSpace section_name) cidr),
               si_VLAN = (case parsePHPIPAMInt vlan of Inl _ \<Rightarrow> 0 | Inr n \<Rightarrow> n), si_Gateway = [], si_DNS = [], si_DHCPEnable = False,
               si_PoolStart = [], si_PoolEnd = [], si_LeaseSec = 0\<rparr>)))"

definition buildPHPIPAMAddressImport ::
  "phpipamAddress \<Rightarrow> (string \<times> string) list \<Rightarrow> (string \<times> string) list \<Rightarrow> go_error + UpsertAddressInput" where
  "buildPHPIPAMAddressImport item subnetIndex tagMap =
     rbind (parsePHPIPAMIPv4 (pa_IPAddress item)) (\<lambda>a.
       let subnet = TrimSpace (case map_of subnetIndex (TrimSpace (pa_SubnetID item)) of None \<Rightarrow> [] | Some c \<Rightarrow> c);
           description = TrimSpace (pa_Description item);
           label = (case map_of tagMap (TrimSpace (anyToString (pa_Tag item))) of None \<Rightarrow> [] | Some t \<Rightarrow> t)
       in if subnet = [] then Inl (ErrMsg ''unknown phpipam subnet id'')
          else Inr \<lparr>ai_IP = addr_String (A4 a), ai_SubnetCIDR = subnet, ai_State = mapPHPIPAMTag label, ai_MAC = TrimSpace (pa_MAC item),
                 ai_Hostname = or_else (TrimSpace (pa_Hostname item)) description,
                 ai_Source = (if description \<noteq> [] then ''phpipam:'' @ description else ''phpipam''), ai_UpdatedAt = 0\<rparr>)"

text \<open>A later entry of a list replaces an earlier one; identifiers are trimmed when they are stored, not when they are looked up.\<close>

definition by_id :: "(string \<times> 'a) list \<Rightarrow> (string \<times> 'a) list" where
  "by_id xs = fold (\<lambda>(k, x). mput (TrimSpace k) x) xs []"

text \<open>The names of the subnets by their identifier: they are kept for the addresses before the subnet is checked or written.\<close>

fun importPHPIPAMSubnets ::
  "('s, 'z) migrate_env_scheme \<Rightarrow> (string \<times> string) list \<Rightarrow> (string \<times> php_value) list \<Rightarrow> bool \<Rightarrow> string \<Rightarrow> nat \<Rightarrow> phpipamSubnet list \<Rightarrow>
   ('s \<times> FileReport) \<times> (string \<times> string) list \<Rightarrow> ('s \<times> FileReport) \<times> (string \<times> string) list" where
  "importPHPIPAMSubnets v sections vlans dryRun policy i [] x = x"
| "importPHPIPAMSubnets v sections vlans dryRun policy i (item # items) x =
     importPHPIPAMSubnets v sections vlans dryRun policy (i + 1) items
       (case buildPHPIPAMSubnetImport item (case map_of sections (ps_SectionID item) of None \<Rightarrow> [] | Some n \<Rightarrow> n)
               (case map_of vlans (ps_VLANID item) of None \<Rightarrow> PhpOther | Some n \<Rightarrow> n) of
          Inl err \<Rightarrow> ((fst (fst x), row_error (i + 1) (go_error_text err) (snd (fst x))), snd x)
        | Inr payload \<Rightarrow>
            (fst (subnet_item v dryRun policy i payload (fst x)), mput (TrimSpace (ps_ID item)) (si_CIDR payload) (snd x)))"

definition php_address_item ::
  "('s, 'z) migrate_env_scheme \<Rightarrow> (string \<times> string) list \<Rightarrow> (string \<times> string) list \<Rightarrow> bool \<Rightarrow> string \<Rightarrow> nat \<Rightarrow> phpipamAddress \<Rightarrow>
   's \<times> FileReport \<Rightarrow> 's \<times> FileReport" where
  "php_address_item v subnetIndex tagMap dryRun policy i item x =
     (case buildPHPIPAMAddressImport item subnetIndex tagMap of
        Inl err \<Rightarrow> (fst x, row_error (i + 1) (go_error_text err) (snd x))
      | Inr payload \<Rightarrow> address_item v dryRun policy i payload x)"

definition php_tags :: "(string \<times> string \<times> string) list \<Rightarrow> (string \<times> string) list" where
  "php_tags tags = by_id (map (\<lambda>(k, typ, name). (k, ToLower (or_else (TrimSpace typ) (TrimSpace name)))) tags)"

definition importPHPIPAMAddresses ::
  "('s, 'z) migrate_env_scheme \<Rightarrow> string \<Rightarrow> phpipamAddress list \<Rightarrow> (string \<times> string) list \<Rightarrow> (string \<times> string \<times> string) list \<Rightarrow> bool \<Rightarrow>
   string \<Rightarrow> 's \<Rightarrow> 's \<times> FileReport \<times> go_error option" where
  "importPHPIPAMAddresses v apiURL items subnetIndex tags dryRun policy s =
     (case each_item (php_address_item v subnetIndex (php_tags tags) dryRun policy) 0 items
             (s, new_file ''phpipam_addresses'' apiURL (length items)) of
        (s', f) \<Rightarrow> (s', f, report_error ''phpipam address import reported row errors'' f))"

text \<open>The five lists that the import needs.\<close>

definition fetchVLANs :: "http_get \<Rightarrow> string \<Rightarrow> api_decoders \<Rightarrow> string \<Rightarrow> go_error + (string \<times> php_value) list" where
  "fetchVLANs get token D base =
     (case php_get get token (dj_vlans D) (base @ ''/vlan/'') of
        Inr x \<Rightarrow> Inr x
      | Inl _ \<Rightarrow> php_get get token (dj_vlans D) (base @ ''/tools/vlans/''))"

definition php_import ::
  "('s, 'z) migrate_env_scheme \<Rightarrow> string \<Rightarrow> bool \<Rightarrow> string \<Rightarrow> (string \<times> string) list \<Rightarrow> phpipamSubnet list \<Rightarrow> (string \<times> php_value) list \<Rightarrow>
   (string \<times> string \<times> string) list \<Rightarrow> phpipamAddress list \<Rightarrow> 's \<Rightarrow> 's source_run" where
  "php_import v apiURL dryRun policy sections subnets vlans tags addresses s =
     (case importPHPIPAMSubnets v (by_id sections) (by_id vlans) dryRun policy 0 subnets
             ((s, new_file ''phpipam_subnets'' apiURL (length subnets)), []) of
        ((s1, f1), index) \<Rightarrow>
          (case report_error ''phpipam subnet import reported row errors'' f1 of
             Some err \<Rightarrow> (s1, [f1], [], Some err)
           | None \<Rightarrow>
               (case importPHPIPAMAddresses v apiURL addresses index tags dryRun policy s1 of
                  (s2, f2, err) \<Rightarrow> (s2, [f1, f2], [], err))))"

definition runPHPIPAM ::
  "('s, 'z) migrate_env_scheme \<Rightarrow> http_get \<Rightarrow> api_decoders \<Rightarrow> string \<Rightarrow> string \<Rightarrow> bool \<Rightarrow> string \<Rightarrow> 's \<Rightarrow> 's source_run" where
  "runPHPIPAM v get D apiURL apiToken dryRun policy s =
     (let base = base_url apiURL; token = TrimSpace apiToken;
          fetched =
            (if base = [] then Inl (ErrMsg ''phpipam migration requires --api-url'')
             else if token = [] then Inl (ErrMsg ''phpipam migration requires --api-token'')
             else
               rbind (php_get get token (dj_sections D) (base @ ''/sections/'')) (\<lambda>sections.
               rbind (php_get get token (dj_subnets D) (base @ ''/subnets/'')) (\<lambda>subnets.
               rbind (fetchVLANs get token D base) (\<lambda>vlans.
               rbind (php_get get token (dj_tags D) (base @ ''/addresses/tags/'')) (\<lambda>tags.
               rbind (php_get get token (dj_php_addresses D) (base @ ''/addresses/all/'')) (\<lambda>addresses.
                 Inr (sections, subnets, vlans, tags, addresses)))))))
      in case fetched of
           Inl err \<Rightarrow> (s, [], [], Some err)
         | Inr (sections, subnets, vlans, tags, addresses) \<Rightarrow> php_import v apiURL dryRun policy sections subnets vlans tags addresses s)"

section \<open>The dispatch\<close>

definition migrate_source :: "migrate_options \<Rightarrow> string" where
  "migrate_source opts =
     (let source = ToLower (TrimSpace (mo_Source opts)); csv = mo_CSV opts in
      if source \<noteq> [] then source
      else if co_SubnetsPath csv \<noteq> [] \<or> co_AddressesPath csv \<noteq> [] \<or> co_ReservationsPath csv \<noteq> [] \<or> co_LeasesPath csv \<noteq> [] then SourceCSV
      else if TrimSpace (mo_SourceConfig opts) \<noteq> [] then SourceKea
      else if TrimSpace (mo_APIURL opts) \<noteq> [] then SourceNetBox
      else [])"

definition run_source ::
  "('s, 'z) migrate_env_scheme \<Rightarrow> 'j kea_json \<Rightarrow> http_get \<Rightarrow> api_decoders \<Rightarrow> migrate_options \<Rightarrow> string \<Rightarrow> string \<Rightarrow> 's \<Rightarrow> 's source_run option" where
  "run_source v J get D opts source policy s =
     (let dryRun = mo_DryRun opts; leases = co_LeasesPath (mo_CSV opts) in
      if source = SourceCSV then Some (runCSV v (mo_CSV opts) dryRun policy s)
      else if source = SourceISCDHCP then Some (runISCDHCP v (mo_SourceConfig opts) leases dryRun policy s)
      else if source = SourceNetBox then runNetBox v get D (mo_APIURL opts) (mo_APIToken opts) dryRun policy s
      else if source = SourcePHPIPAM then Some (runPHPIPAM v get D (mo_APIURL opts) (mo_APIToken opts) dryRun policy s)
      else if source = SourceKea then Some (runKea v J (mo_SourceConfig opts) leases dryRun policy s)
      else Some (s, [], [], Some (ErrMsg ''unsupported migration source'')))"

text \<open>A report is complete when its source was run; errors of rows are the error of the run when there is no other.\<close>

definition migrate_Run ::
  "('s, 'z) migrate_env_scheme \<Rightarrow> 'j kea_json \<Rightarrow> http_get \<Rightarrow> api_decoders \<Rightarrow> migrate_options \<Rightarrow> 's \<Rightarrow>
   ('s \<times> migrate_report \<times> go_error option) option" where
  "migrate_Run v J get D opts s =
     (let source = migrate_source opts;
          report = \<lparr>mr_Source = source, mr_DryRun = mo_DryRun opts, mr_StartedAt = mg_now v, mr_CompletedAt = 0, mr_Files = [], mr_Warnings = []\<rparr>;
          policy0 = ToLower (TrimSpace (mo_ConflictPolicy opts));
          policy = (if policy0 = [] then ConflictOverwrite else policy0)
      in if policy \<notin> {ConflictOverwrite, ConflictSkip} then Some (s, report, Some (ErrMsg ''invalid conflict policy''))
         else
           map_option (\<lambda>(s', files, warnings, err).
               (s', report\<lparr>mr_Files := files, mr_Warnings := warnings, mr_CompletedAt := mg_now v\<rparr>,
                case err of
                  Some e \<Rightarrow> Some e
                | None \<Rightarrow> if hasRowErrors files then Some (ErrMsg ''migration completed with row errors'') else None))
             (run_source v J get D opts source policy s))"

end
