(* ===== verification/MigrateProps.thy ===== *)
theory MigrateProps
  imports MigrateApi IpamProps LeaseProps
begin

text \<open>
  Properties of the migration: the parser of ISC configurations returns for every text and gives back what was printed, a dry run
  changes nothing, and the policy that skips conflicts keeps the reservations that are stored.
\<close>

section \<open>The parser returns\<close>

text \<open>No step of the parser fails for fuel, and every step that succeeds uses up a token.\<close>

lemma rbind_Inl_conv: "rbind r f = Inl e \<longleftrightarrow> r = Inl e \<or> (\<exists>x. r = Inr x \<and> f x = Inl e)"
  by (cases r) simp_all

lemma rbind_case: "rbind r f = (case r of Inl e \<Rightarrow> Inl e | Inr x \<Rightarrow> f x)"
  by (cases r) simp_all

lemma next_error: "isc_next ts \<noteq> Inl isc_fuel"
  by (cases ts) (auto simp: isc_next_def)

lemma consume_error: "isc_consume x ts \<noteq> Inl isc_fuel"
  by (auto simp: isc_consume_def rbind_Inl_conv next_error split: if_splits)

lemmas step_errors = next_error consume_error

lemma subnet_header_error: "subnet_header ts \<noteq> Inl isc_fuel"
  by (auto simp: subnet_header_def rbind_Inl_conv step_errors)

lemma wrapper_header_error: "wrapper_header ts \<noteq> Inl isc_fuel"
  by (auto simp: wrapper_header_def split: list.split)

lemma host_statement_error: "host_statement t r host \<noteq> Inl isc_fuel"
  by (auto simp: host_statement_def host_hardware_def host_address_def host_option_def rbind_Inl_conv step_errors split: prod.splits)

lemma host_block_error: "host_block ts host \<noteq> Inl isc_fuel"
  by (induction ts host rule: host_block.induct) (auto simp: host_statement_error split: sum.split)

lemma parseHost_error: "parseHost cur ts \<noteq> Inl isc_fuel"
  by (auto simp: parseHost_def rbind_Inl_conv step_errors host_block_error Let_def)

lemma subnet_statement_error: "subnet_statement cur ts \<noteq> Inl isc_fuel"
proof -
  have "parseOption cur ts \<noteq> Inl isc_fuel"
    by (auto simp: parseOption_def rbind_Inl_conv step_errors split: prod.splits)
  moreover have "parseRange cur ts \<noteq> Inl isc_fuel"
    by (auto simp: parseRange_def rbind_Inl_conv step_errors split: option.splits if_splits)
  moreover have "parseLeaseTime cur ts \<noteq> Inl isc_fuel"
    by (auto simp: parseLeaseTime_def rbind_Inl_conv step_errors split: option.splits)
  ultimately show ?thesis by (simp add: subnet_statement_def Let_def)
qed

lemma subnet_header_length: "subnet_header ts = Inr (sn, r) \<Longrightarrow> length r < length ts"
  unfolding subnet_header_def by (auto simp: rbind_Inr_conv dest!: next_length consume_length)

lemma host_block_length: "host_block ts host = Inr (host', r) \<Longrightarrow> length r \<le> length ts"
proof (induction ts host rule: host_block.induct)
  case (2 t r0 host)
  show ?case
  proof (cases "t = ''}''")
    case False
    then obtain h r1 where s: "host_statement t r0 host = Inr (h, r1)" "host_block r1 h = Inr (host', r)"
      using 2(2) by (auto split: sum.splits)
    then have "length r \<le> length r1" using 2(1) False by auto
    then show ?thesis using host_statement_length [OF s(1)] by simp
  qed (use 2(2) in auto)
qed auto

lemma parseHost_length: "parseHost cur ts = Inr (host, r) \<Longrightarrow> length r < length ts"
  unfolding parseHost_def by (auto simp: rbind_Inr_conv Let_def dest!: next_length consume_length host_block_length)

lemma wrapper_header_length: "wrapper_header ts = Inr (b, r) \<Longrightarrow> length r < length ts"
proof -
  assume "wrapper_header ts = Inr (b, r)"
  then obtain t where "dropWhile (\<lambda>t. t \<noteq> ''{'' \<and> t \<noteq> '';'') (tl ts) = t # r"
    by (auto simp: wrapper_header_def split: list.splits)
  then have "length (t # r) \<le> length (tl ts)" by (metis length_dropWhile_le)
  then show ?thesis by simp
qed

lemma subnet_statement_length: "ts \<noteq> [] \<Longrightarrow> subnet_statement cur ts = Inr (cur', r) \<Longrightarrow> length r < length ts"
proof -
  assume a: "ts \<noteq> []" "subnet_statement cur ts = Inr (cur', r)"
  have "length r < length ts" if o: "parseOption cur ts = Inr (cur', r)"
  proof -
    obtain r0 n r1 where "isc_consume ''option'' ts = Inr r0" "isc_next r0 = Inr (n, r1)" "r = snd (collectUntilSemicolon r1)"
      using o unfolding parseOption_def case_prod_beta by (auto simp: rbind_Inr_conv)
    then show ?thesis using consume_length [of "''option''" ts r0] next_length [of r0 n r1] collect_length [of r1] by simp
  qed
  moreover have "length r < length ts" if g: "parseRange cur ts = Inr (cur', r)"
  proof -
    obtain r0 where r0: "isc_consume ''range'' ts = Inr r0" using g by (auto simp: parseRange_def rbind_Inr_conv)
    have "length r \<le> length r0"
    proof (cases cur)
      case None
      then show ?thesis using g collect_length [of r0] by (auto simp: parseRange_def r0)
    next
      case (Some sn)
      obtain x r1 y r2 z r3 where "isc_next r0 = Inr (x, r1)" and y: "(if EqualFold x ''dynamic-bootp'' then isc_next r1 else Inr (x, r1)) = Inr (y, r2)"
        and "isc_next r2 = Inr (z, r3)" "isc_consume '';'' r3 = Inr r"
        using g by (auto simp: parseRange_def r0 Some rbind_Inr_conv)
      moreover have "length r2 \<le> length r1" using y next_length [of r1 y r2] by (auto split: if_splits)
      ultimately show ?thesis using next_length [of r0 x r1] next_length [of r2 z r3] consume_length [of "'';''" r3 r] by simp
    qed
    then show ?thesis using consume_length [OF r0] by simp
  qed
  moreover have "length r < length ts" if l: "parseLeaseTime cur ts = Inr (cur', r)"
  proof -
    obtain r0 n r1 where "isc_consume ''default-lease-time'' ts = Inr r0" "isc_next r0 = Inr (n, r1)" "isc_consume '';'' r1 = Inr r"
      using l by (auto simp: parseLeaseTime_def rbind_Inr_conv split: option.splits)
    then show ?thesis using consume_length [of "''default-lease-time''" ts r0] next_length [of r0 n r1] consume_length [of "'';''" r1 r] by simp
  qed
  ultimately show ?thesis using a skip_length(2) [of ts 0] by (auto simp: subnet_statement_def Let_def split: if_splits)
qed

text \<open>One equation for each kind of statement.\<close>

abbreviation (input) isc_wrappers :: "string set" where "isc_wrappers \<equiv> {''group'', ''shared-network'', ''pool''}"

lemma parse_end: "parseStatements (Suc n) cur [] d = Inr (cur, [], d)"
  "parseStatements (Suc n) cur (''}'' # r) d = Inr (cur, r, d)"
  by simp_all

lemma parse_subnet:
  "parseStatements (Suc n) cur (''subnet'' # r0) d =
     rbind (subnet_header (''subnet'' # r0)) (\<lambda>(sn, r). rbind (parseStatements n (Some sn) r d) (\<lambda>(inner, r', d').
       parseStatements n cur r' (case inner of None \<Rightarrow> d' | Some x \<Rightarrow> d'\<lparr>ic_Subnets := ic_Subnets d' @ [x]\<rparr>)))"
  by (auto simp: rbind_case split: sum.split)

lemma parse_host:
  "parseStatements (Suc n) cur (''host'' # r0) d =
     rbind (parseHost cur (''host'' # r0)) (\<lambda>(host, r). parseStatements n (fst (host_into host (cur, d))) r (snd (host_into host (cur, d))))"
  by (auto simp: rbind_case split: sum.split prod.split)

lemma parse_wrapper:
  "t \<in> isc_wrappers \<Longrightarrow> parseStatements (Suc n) cur (t # r0) d =
     rbind (wrapper_header (t # r0)) (\<lambda>(block, r).
       if block then rbind (parseStatements n cur r d) (\<lambda>(cur', r', d'). parseStatements n cur' r' d') else parseStatements n cur r d)"
  by (subgoal_tac "t \<noteq> ''}'' \<and> t \<noteq> ''subnet'' \<and> t \<noteq> ''host''")
    (simp add: rbind_case del: insert_iff split: sum.split, auto)

lemma parse_other:
  "t \<notin> {''}'', ''subnet'', ''host''} \<union> isc_wrappers \<Longrightarrow> parseStatements (Suc n) cur (t # r0) d =
     rbind (subnet_statement cur (t # r0)) (\<lambda>(cur', r). parseStatements n cur' r d)"
  by (auto simp: rbind_case split: sum.split)

lemma statement_cases:
  obtains "ts = []" | r where "ts = ''}'' # r" | r where "ts = ''subnet'' # r" | r where "ts = ''host'' # r"
    | t r where "ts = t # r" "t \<in> isc_wrappers" | t r where "ts = t # r" "t \<notin> {''}'', ''subnet'', ''host''} \<union> isc_wrappers"
  by (cases ts) (simp, metis Un_iff insertE singletonD)

declare parseStatements.simps(2) [simp del]

text \<open>What is left is never longer than what was read.\<close>

lemma parse_length: "parseStatements n cur ts d = Inr (cur', r, d') \<Longrightarrow> length r \<le> length ts"
proof (induction n arbitrary: cur ts d cur' r d')
  case (Suc n cur ts d cur' r d')
  show ?case
  proof (cases ts rule: statement_cases)
    case (3 r0)
    obtain sn r1 c r2 d2 d3 where "subnet_header ts = Inr (sn, r1)" "parseStatements n (Some sn) r1 d = Inr (c, r2, d2)"
      "parseStatements n cur r2 d3 = Inr (cur', r, d')"
      using Suc.prems by (auto simp: 3 parse_subnet rbind_Inr_conv)
    then show ?thesis using Suc.IH [of "Some sn" r1 d c r2 d2] Suc.IH [of cur r2 d3 cur' r d'] subnet_header_length [of ts sn r1] by simp
  next
    case (4 r0)
    obtain h r1 c d1 where "parseHost cur ts = Inr (h, r1)" "parseStatements n c r1 d1 = Inr (cur', r, d')"
      using Suc.prems by (auto simp: 4 parse_host rbind_Inr_conv)
    then show ?thesis using Suc.IH [of c r1 d1 cur' r d'] parseHost_length [of cur ts h r1] by simp
  next
    case (5 t r0)
    obtain b r1 where w: "wrapper_header ts = Inr (b, r1)"
      "(if b then rbind (parseStatements n cur r1 d) (\<lambda>(cur', r', d'). parseStatements n cur' r' d') else parseStatements n cur r1 d)
         = Inr (cur', r, d')"
      using Suc.prems 5(2) by (auto simp: 5(1) parse_wrapper rbind_Inr_conv)
    have "length r \<le> length r1"
    proof (cases b)
      case True
      then obtain c r2 d2 where "parseStatements n cur r1 d = Inr (c, r2, d2)" "parseStatements n c r2 d2 = Inr (cur', r, d')"
        using w(2) by (auto simp: rbind_Inr_conv)
      then show ?thesis using Suc.IH [of cur r1 d c r2 d2] Suc.IH [of c r2 d2 cur' r d'] by simp
    qed (use w(2) Suc.IH [of cur r1 d cur' r d'] in auto)
    then show ?thesis using wrapper_header_length [OF w(1)] by simp
  next
    case (6 t r0)
    obtain c r1 where "subnet_statement cur ts = Inr (c, r1)" "parseStatements n c r1 d = Inr (cur', r, d')"
      using Suc.prems 6(2) by (auto simp: 6(1) parse_other rbind_Inr_conv)
    then show ?thesis using Suc.IH [of c r1 d cur' r d'] subnet_statement_length [of ts cur c r1] 6(1) by simp
  qed (use Suc.prems in \<open>auto simp: parse_end\<close>)
qed simp

text \<open>With more fuel than tokens the parser does not run out of it, and the result is that of any larger fuel.\<close>

definition parses :: "nat \<Rightarrow> nat \<Rightarrow> iscSubnet option \<Rightarrow> string list \<Rightarrow> iscConfigData \<Rightarrow> bool" where
  "parses n k cur ts d \<longleftrightarrow>
     parseStatements n cur ts d \<noteq> Inl isc_fuel \<and> parseStatements (n + k) cur ts d = parseStatements n cur ts d"

lemma parse_enough: "length ts < n \<Longrightarrow> parses n k cur ts d"
proof (induction n arbitrary: cur ts d)
  case (Suc n cur ts d)
  have IH: "length r < length ts \<Longrightarrow> parses n k c r d1" for c r d1
    using Suc by simp
  show ?case
  proof (cases ts rule: statement_cases)
    case (3 r0)
    show ?thesis
    proof (cases "subnet_header ts")
      case (Inr x)
      obtain sn r where x: "x = (sn, r)" by (cases x)
      have l: "length r < length ts" using subnet_header_length Inr x by blast
      have "parses n k c r' d1" if "parseStatements n (Some sn) r d = Inr (i, r', d')" for c i r' d' d1
        using IH parse_length [OF that] l by simp
      then show ?thesis using IH [OF l, of "Some sn" d] Inr x
        by (cases "parseStatements n (Some sn) r d") (auto simp: parses_def 3 parse_subnet)
    qed (use subnet_header_error [of ts] in \<open>auto simp: parses_def 3 parse_subnet\<close>)
  next
    case (4 r0)
    show ?thesis
    proof (cases "parseHost cur ts")
      case (Inr x)
      obtain h r where x: "x = (h, r)" by (cases x)
      then show ?thesis using IH [of r "fst (host_into h (cur, d))" "snd (host_into h (cur, d))"] parseHost_length [of cur ts h r] Inr
        by (simp add: parses_def 4 parse_host)
    qed (use parseHost_error [of cur ts] in \<open>auto simp: parses_def 4 parse_host\<close>)
  next
    case (5 t r0)
    show ?thesis
    proof (cases "wrapper_header ts")
      case (Inr x)
      obtain b r where x: "x = (b, r)" by (cases x)
      have l: "length r < length ts" using wrapper_header_length Inr x by blast
      have "parses n k c r' d'" if "parseStatements n cur r d = Inr (c, r', d')" for c r' d'
        using IH parse_length [OF that] l by simp
      then show ?thesis using IH [OF l, of cur d] Inr x 5(2)
        by (cases "parseStatements n cur r d") (auto simp: parses_def 5(1) parse_wrapper)
    qed (use wrapper_header_error [of ts] 5(2) in \<open>auto simp: parses_def 5(1) parse_wrapper\<close>)
  next
    case (6 t r0)
    show ?thesis
    proof (cases "subnet_statement cur ts")
      case (Inr x)
      obtain c r where x: "x = (c, r)" by (cases x)
      then show ?thesis using IH [of r c d] subnet_statement_length [of ts cur c r] Inr 6(2) by (simp add: parses_def 6(1) parse_other)
    qed (use subnet_statement_error [of cur ts] 6(2) in \<open>auto simp: parses_def 6(1) parse_other\<close>)
  qed (simp_all add: parses_def parse_end)
qed simp

text \<open>C37: The parser of ISC DHCP configurations returns for every text: one more than the number of tokens is always fuel enough, and
  more of it gives the same result.\<close>

theorem isc_parser_returns:
  "parseISCDHCPConfig raw \<noteq> Inl isc_fuel \<and>
   parseStatements (Suc (length (tokenizeISCConfig raw)) + k) cur (tokenizeISCConfig raw) d =
   parseStatements (Suc (length (tokenizeISCConfig raw))) cur (tokenizeISCConfig raw) d"
  using parse_enough [of "tokenizeISCConfig raw" "Suc (length (tokenizeISCConfig raw))"]
  by (auto simp: parses_def parseISCDHCPConfig_def Let_def rbind_Inl_conv)

section \<open>A configuration in print\<close>

text \<open>The tokens of a configuration: words of plain characters and marks; a word is followed by a space, a mark by a new line.\<close>

definition isc_word :: "string \<Rightarrow> bool" where
  "isc_word w \<longleftrightarrow> w \<noteq> [] \<and> (\<forall>c\<in>set w. c \<notin> set ''{};,#'' \<and> c \<notin> {CHR '' '', CHR 0x09, CHR 0x0D, CHR 0x0A, CHR 0x22})"

definition isc_mark :: "string \<Rightarrow> bool" where
  "isc_mark t \<longleftrightarrow> t \<in> {''{'', ''}'', '';'', '',''}"

definition print_tokens :: "string list \<Rightarrow> string" where
  "print_tokens ts = concat (map (\<lambda>t. t @ (if isc_mark t then [CHR 0x0A] else '' '')) ts)"

fun word_list :: "string list \<Rightarrow> string list" where
  "word_list [] = []"
| "word_list [w] = [w]"
| "word_list (w # ws) = w # '','' # word_list ws"

definition option_tokens :: "string \<Rightarrow> string list \<Rightarrow> string list" where
  "option_tokens name ws = (if ws = [] then [] else ''option'' # name # word_list ws @ ['';''])"

definition range_tokens :: "iscRange \<Rightarrow> string list" where
  "range_tokens r = [''range'', ir_Start r, ir_End r, '';'']"

definition host_tokens :: "iscHost \<Rightarrow> string list" where
  "host_tokens h =
     [''host'', ih_Name h, ''{'', ''hardware'', ''ethernet'', ih_MAC h, '';'', ''fixed-address'', ih_FixedAddress h, '';'',
      ''option'', ''host-name'', ih_Hostname h, '';'', ''}'']"

definition subnet_tokens :: "iscSubnet \<Rightarrow> string list" where
  "subnet_tokens sn =
     [''subnet'', is_Network sn, ''netmask'', is_Netmask sn, ''{''] @
     option_tokens ''routers'' (if is_Gateway sn = [] then [] else [is_Gateway sn]) @
     option_tokens ''domain-name-servers'' (is_DNS sn) @
     [''default-lease-time'', dec_int (is_LeaseTimeSec sn), '';''] @
     concat (map range_tokens (is_Ranges sn)) @ concat (map host_tokens (is_Reservations sn)) @ [''}'']"

definition print_isc :: "iscSubnet list \<Rightarrow> string" where
  "print_isc sns = print_tokens (concat (map subnet_tokens sns))"

text \<open>What can be printed: the parts are words, the lease time is a 64-bit number and a host carries the name of its subnet.\<close>

definition plain_range :: "iscRange \<Rightarrow> bool" where
  "plain_range r \<longleftrightarrow> isc_word (ir_Start r) \<and> isc_word (ir_End r) \<and> \<not> EqualFold (ir_Start r) ''dynamic-bootp''"

definition own_cidr :: "iscSubnet \<Rightarrow> string" where
  "own_cidr sn = (case subnetCIDR (is_Network sn) (is_Netmask sn) of Inl _ \<Rightarrow> [] | Inr c \<Rightarrow> c)"

definition plain_host :: "string \<Rightarrow> iscHost \<Rightarrow> bool" where
  "plain_host cidr h \<longleftrightarrow>
     isc_word (ih_Name h) \<and> isc_word (ih_MAC h) \<and> isc_word (ih_FixedAddress h) \<and> isc_word (ih_Hostname h) \<and> ih_SubnetCIDR h = cidr"

definition plain_subnet :: "iscSubnet \<Rightarrow> bool" where
  "plain_subnet sn \<longleftrightarrow>
     isc_word (is_Network sn) \<and> isc_word (is_Netmask sn) \<and> (is_Gateway sn = [] \<or> isc_word (is_Gateway sn)) \<and>
     list_all isc_word (is_DNS sn) \<and> - (2 ^ 63) \<le> is_LeaseTimeSec sn \<and> is_LeaseTimeSec sn < 2 ^ 63 \<and>
     list_all plain_range (is_Ranges sn) \<and> list_all (plain_host (own_cidr sn)) (is_Reservations sn)"

subsection \<open>The tokens come back\<close>

lemma tokenize_word: "(\<forall>c\<in>set w. c \<notin> set ''{};,#'' \<and> c \<notin> {CHR '' '', CHR 0x09, CHR 0x0D, CHR 0x0A, CHR 0x22}) \<Longrightarrow>
    tokenize False cur (w @ rest) = tokenize False (cur @ w) rest"
  by (induction w arbitrary: cur) (auto simp: tokenize.simps)

lemma tokenize_token:
  assumes "isc_word t \<or> isc_mark t"
  shows "tokenize False [] ((t @ (if isc_mark t then [CHR 0x0A] else '' '')) @ rest) = t # tokenize False [] rest"
proof (cases "isc_mark t")
  case True
  then show ?thesis by (auto simp: isc_mark_def tokenize.simps flush_token_def)
next
  case False
  then have w: "isc_word t" using assms by simp
  then show ?thesis using tokenize_word [of t "[]" "CHR '' '' # rest"] False
    by (simp add: isc_word_def tokenize.simps flush_token_def)
qed

lemma tokenize_print: "list_all (\<lambda>t. isc_word t \<or> isc_mark t) ts \<Longrightarrow> tokenizeISCConfig (print_tokens ts) = ts"
proof (induction ts)
  case Nil
  then show ?case by (simp add: tokenizeISCConfig_def print_tokens_def tokenize.simps flush_token_def)
next
  case (Cons t ts)
  then show ?case using tokenize_token [of t "print_tokens ts"] by (simp add: tokenizeISCConfig_def print_tokens_def)
qed

lemma word_list_tokens: "list_all isc_word ws \<Longrightarrow> list_all (\<lambda>t. isc_word t \<or> isc_mark t) (word_list ws)"
  by (induction ws rule: word_list.induct) (auto simp: isc_mark_def)

lemma dec_val_snoc: "dec_val a (xs @ [c]) = dec_val a xs * 10 + digit_val c"
  by (induction xs arbitrary: a) auto

lemma dec_val_dec: "dec_val 0 (dec n) = n"
proof (induction n rule: dec.induct)
  case (1 n)
  then show ?case by (subst dec.simps) (auto simp: dec_val_snoc digit_ok)
qed

lemma dec_nat_word: "isc_word (dec n)" "dec n \<noteq> []" "list_all is_digit (dec n)" "is_digit (hd (dec n))"
proof -
  have d: "is_digit c" if "c \<in> set (dec n)" for c using that by (rule digits_dec)
  show n: "dec n \<noteq> []" by (subst dec.simps) simp
  show "list_all is_digit (dec n)" using d by (simp add: list_all_iff)
  show "is_digit (hd (dec n))" using d n by simp
  have "c \<notin> set ''{};,#'' \<and> c \<notin> {CHR '' '', CHR 0x09, CHR 0x0D, CHR 0x0A, CHR 0x22}" if "is_digit c" for c
    using that by (auto simp: is_digit_def less_eq_char_def)
  then show "isc_word (dec n)" using d n by (simp add: isc_word_def)
qed

lemma dec_int_word: "isc_word (dec_int n)"
  using dec_nat_word(1) by (auto simp: dec_int_def isc_word_def)

lemma Atoi_dec_int: "- (2 ^ 63) \<le> n \<Longrightarrow> n < 2 ^ 63 \<Longrightarrow> Atoi (dec_int n) = Some n"
proof (cases "n < 0")
  case False
  assume "n < 2 ^ 63"
  have "hd (dec (nat n)) \<noteq> CHR ''-''" "hd (dec (nat n)) \<noteq> CHR ''+''"
    using dec_nat_word(4) [of "nat n"] by (auto simp: is_digit_def less_eq_char_def)
  then show ?thesis using False \<open>n < 2 ^ 63\<close> dec_nat_word(2,3) [of "nat n"]
    by (simp add: Atoi_def dec_int_def dec_val_dec)
qed (use dec_nat_word(2,3) in \<open>simp add: Atoi_def dec_int_def dec_val_dec\<close>)

lemma subnet_tokens_print: "plain_subnet sn \<Longrightarrow> list_all (\<lambda>t. isc_word t \<or> isc_mark t) (subnet_tokens sn)"
proof -
  assume p: "plain_subnet sn"
  have k: "isc_word ''subnet''" "isc_word ''netmask''" "isc_word ''option''" "isc_word ''range''" "isc_word ''host''"
    "isc_word ''hardware''" "isc_word ''ethernet''" "isc_word ''fixed-address''" "isc_word ''host-name''" "isc_word ''routers''"
    "isc_word ''domain-name-servers''" "isc_word ''default-lease-time''" by (simp_all add: isc_word_def)
  have m: "isc_mark ''{''" "isc_mark ''}''" "isc_mark '';''" by (simp_all add: isc_mark_def)
  have o: "list_all (\<lambda>t. isc_word t \<or> isc_mark t) (option_tokens name ws)" if "isc_word name" "list_all isc_word ws" for name ws
    using that k m word_list_tokens by (simp add: option_tokens_def)
  have r: "list_all (\<lambda>t. isc_word t \<or> isc_mark t) (concat (map range_tokens rs))" if "list_all plain_range rs" for rs
    using that k m by (induction rs) (auto simp: range_tokens_def plain_range_def)
  have h: "list_all (\<lambda>t. isc_word t \<or> isc_mark t) (concat (map host_tokens hs))" if "list_all (plain_host c) hs" for c hs
    using that k m by (induction hs) (auto simp: host_tokens_def plain_host_def)
  have p': "isc_word (is_Network sn)" "isc_word (is_Netmask sn)" "list_all isc_word (is_DNS sn)" "list_all plain_range (is_Ranges sn)"
    "list_all isc_word (if is_Gateway sn = [] then [] else [is_Gateway sn])" "list_all (plain_host (own_cidr sn)) (is_Reservations sn)"
    using p by (auto simp: plain_subnet_def)
  show ?thesis unfolding subnet_tokens_def list_all_append
    by (intro conjI o r h [OF p'(6)]) (use p' k m dec_int_word in \<open>simp_all del: if_split_mem2\<close>)
qed

subsection \<open>The statements come back\<close>

definition parse_isc ::
  "iscSubnet option \<Rightarrow> string list \<Rightarrow> iscConfigData \<Rightarrow> go_error + (iscSubnet option \<times> string list \<times> iscConfigData)" where
  "parse_isc cur ts d = parseStatements (Suc (length ts)) cur ts d"

lemma parse_isc_fuel: "length ts < n \<Longrightarrow> parseStatements n cur ts d = parse_isc cur ts d"
  using parse_enough [of ts "Suc (length ts)" "n - Suc (length ts)" cur d] by (simp add: parses_def parse_isc_def)

lemma parse_isc_end: "parse_isc cur [] d = Inr (cur, [], d)" "parse_isc cur (''}'' # r) d = Inr (cur, r, d)"
  by (simp_all add: parse_isc_def parse_end)

lemma parse_isc_other:
  assumes "t \<notin> {''}'', ''subnet'', ''host''} \<union> isc_wrappers" "subnet_statement cur (t # r0) = Inr (cur', r)"
  shows "parse_isc cur (t # r0) d = parse_isc cur' r d"
proof -
  have "length r < Suc (length r0)" using subnet_statement_length [OF _ assms(2)] by simp
  then show ?thesis using assms(2) by (simp only: parse_isc_def list.size parse_other [OF assms(1)] rbind.simps prod.case)
      (rule parse_isc_fuel [unfolded parse_isc_def], simp)
qed

lemma word_no_mark: "isc_word w \<Longrightarrow> w \<noteq> '';'' \<and> w \<noteq> '','' \<and> w \<noteq> ''{'' \<and> w \<noteq> ''}''"
  by (intro conjI notI) (simp_all add: isc_word_def)

lemma collect_words: "list_all isc_word ws \<Longrightarrow> collectUntilSemicolon (word_list ws @ '';'' # r) = (ws, r)"
  by (induction ws rule: word_list.induct) (simp_all add: word_no_mark)

lemma parse_option_tokens:
  assumes "list_all isc_word ws" "name \<in> {''routers'', ''domain-name-servers''}"
  shows "parse_isc (Some sn) (option_tokens name ws @ r) d =
    parse_isc (Some (if ws = [] then sn else if name = ''routers'' then sn\<lparr>is_Gateway := hd ws\<rparr> else sn\<lparr>is_DNS := ws\<rparr>)) r d"
proof (cases "ws = []")
  case False
  have "ToLower ''routers'' = ''routers''" "ToLower ''domain-name-servers'' = ''domain-name-servers''"
    by (simp_all add: ToLower_def lower_char_def)
  then have "subnet_statement (Some sn) (''option'' # name # word_list ws @ '';'' # r) =
    Inr (Some (if name = ''routers'' then sn\<lparr>is_Gateway := hd ws\<rparr> else sn\<lparr>is_DNS := ws\<rparr>), r)"
    using assms False collect_words [OF assms(1), of r]
    by (auto simp: subnet_statement_def isc_peek_def parseOption_def isc_consume_def isc_next_def)
  then show ?thesis using False by (simp add: option_tokens_def parse_isc_other)
qed (simp add: option_tokens_def)

lemma parse_lease_tokens:
  assumes "- (2 ^ 63) \<le> n" "n < 2 ^ 63"
  shows "parse_isc (Some sn) (''default-lease-time'' # dec_int n # '';'' # r) d = parse_isc (Some (sn\<lparr>is_LeaseTimeSec := n\<rparr>)) r d"
proof -
  have "subnet_statement (Some sn) (''default-lease-time'' # dec_int n # '';'' # r) = Inr (Some (sn\<lparr>is_LeaseTimeSec := n\<rparr>), r)"
    using Atoi_dec_int [OF assms] by (simp add: subnet_statement_def isc_peek_def parseLeaseTime_def isc_consume_def isc_next_def)
  then show ?thesis by (rule parse_isc_other [rotated]) simp
qed

lemma parse_range_tokens:
  "list_all plain_range rs \<Longrightarrow>
     parse_isc (Some sn) (concat (map range_tokens rs) @ r) d = parse_isc (Some (sn\<lparr>is_Ranges := is_Ranges sn @ rs\<rparr>)) r d"
proof (induction rs arbitrary: sn)
  case (Cons x rs)
  let ?r = "concat (map range_tokens rs) @ r"
  have "subnet_statement (Some sn) (''range'' # ir_Start x # ir_End x # '';'' # ?r) = Inr (Some (sn\<lparr>is_Ranges := is_Ranges sn @ [x]\<rparr>), ?r)"
    using Cons.prems by (simp add: subnet_statement_def isc_peek_def parseRange_def isc_consume_def isc_next_def plain_range_def)
  then have "parse_isc (Some sn) (''range'' # ir_Start x # ir_End x # '';'' # ?r) d = parse_isc (Some (sn\<lparr>is_Ranges := is_Ranges sn @ [x]\<rparr>)) ?r d"
    by (rule parse_isc_other [rotated]) simp
  then show ?case using Cons by (simp add: range_tokens_def [of x])
qed simp

lemma parseHost_tokens:
  assumes "plain_host (own_cidr sn) h"
  shows "parseHost (Some sn) (host_tokens h @ r) = Inr (h, r)"
proof -
  let ?o = "[''option'', ''host-name'', ih_Hostname h, '';'', ''}'']"
  let ?f = "[''fixed-address'', ih_FixedAddress h, '';''] @ ?o"
  let ?h = "\<lparr>ih_Name = ih_Name h, ih_MAC = [], ih_FixedAddress = [], ih_Hostname = [], ih_SubnetCIDR = own_cidr sn\<rparr>"
  have w: "ih_Hostname h \<noteq> []" "ih_Hostname h \<noteq> '';''" "ih_Hostname h \<noteq> '',''" "ih_SubnetCIDR h = own_cidr sn"
    using assms word_no_mark by (auto simp: plain_host_def isc_word_def)
  have e: "EqualFold ''host-name'' ''host-name''" by (simp add: EqualFold_def)
  have "host_statement ''option'' (tl ?o @ r) x = Inr (x\<lparr>ih_Hostname := ih_Hostname h\<rparr>, ''}'' # r)" for x
    using w e by (simp add: host_statement_def host_option_def isc_next_def)
  then have 3: "host_block (?o @ r) x = Inr (x\<lparr>ih_Hostname := ih_Hostname h\<rparr>, r)" for x by simp
  have "host_statement ''fixed-address'' (tl ?f @ r) x = Inr (x\<lparr>ih_FixedAddress := ih_FixedAddress h\<rparr>, ?o @ r)" for x
    by (simp add: host_statement_def host_address_def isc_consume_def isc_next_def)
  then have 2: "host_block (?f @ r) x = Inr (x\<lparr>ih_FixedAddress := ih_FixedAddress h, ih_Hostname := ih_Hostname h\<rparr>, r)" for x
    using 3 by simp
  have "host_statement ''hardware'' (''ethernet'' # ih_MAC h # '';'' # ?f @ r) x = Inr (x\<lparr>ih_MAC := ih_MAC h\<rparr>, ?f @ r)" for x
    by (simp add: host_statement_def host_hardware_def isc_peek_def isc_consume_def isc_next_def)
  then have "host_block (''hardware'' # ''ethernet'' # ih_MAC h # '';'' # ?f @ r) ?h = Inr (h, r)"
    using 2 w(4) by simp
  then show ?thesis using w(1)
    by (simp add: parseHost_def host_tokens_def isc_consume_def isc_next_def own_cidr_def Let_def del: host_block.simps)
qed

lemma parse_host_tokens:
  "list_all (plain_host (own_cidr sn)) hs \<Longrightarrow>
     parse_isc (Some sn) (concat (map host_tokens hs) @ r) d = parse_isc (Some (sn\<lparr>is_Reservations := is_Reservations sn @ hs\<rparr>)) r d"
proof (induction hs arbitrary: sn)
  case (Cons h hs sn)
  let ?r = "concat (map host_tokens hs) @ r" and ?sn = "sn\<lparr>is_Reservations := is_Reservations sn @ [h]\<rparr>"
  obtain ts where ts: "host_tokens h = ''host'' # ts" by (simp add: host_tokens_def)
  have "parseHost (Some sn) (''host'' # ts @ ?r) = Inr (h, ?r)" using parseHost_tokens [of sn h ?r] Cons.prems ts by simp
  then have "parse_isc (Some sn) (''host'' # ts @ ?r) d = parseStatements (Suc (length (ts @ ?r))) (Some ?sn) ?r d"
    by (simp add: parse_isc_def parse_host host_into_def)
  also have "\<dots> = parse_isc (Some ?sn) ?r d" by (rule parse_isc_fuel) simp
  also have "own_cidr ?sn = own_cidr sn" by (simp add: own_cidr_def)
  ultimately show ?case using Cons.IH [of ?sn] Cons.prems ts by simp
qed simp

lemma parse_subnet_tokens:
  assumes "plain_subnet sn"
  shows "parse_isc None (subnet_tokens sn @ r) d = parse_isc None r (d\<lparr>ic_Subnets := ic_Subnets d @ [sn]\<rparr>)"
proof -
  let ?s0 = "\<lparr>is_Network = is_Network sn, is_Netmask = is_Netmask sn, is_LeaseTimeSec = 0, is_Ranges = [], is_Gateway = [], is_DNS = [],
     is_Reservations = []\<rparr>"
  let ?h = "concat (map host_tokens (is_Reservations sn)) @ ''}'' # r"
  let ?t = "concat (map range_tokens (is_Ranges sn)) @ ?h"
  let ?l = "''default-lease-time'' # dec_int (is_LeaseTimeSec sn) # '';'' # ?t"
  let ?g = "if is_Gateway sn = [] then [] else [is_Gateway sn]"
  let ?d = "option_tokens ''domain-name-servers'' (is_DNS sn) @ ?l"
  let ?b = "option_tokens ''routers'' ?g @ ?d"
  have p: "list_all isc_word ?g" "list_all isc_word (is_DNS sn)" "- (2 ^ 63) \<le> is_LeaseTimeSec sn" "is_LeaseTimeSec sn < 2 ^ 63"
    "list_all plain_range (is_Ranges sn)" "list_all (plain_host (own_cidr sn)) (is_Reservations sn)"
    using assms by (auto simp: plain_subnet_def)
  let ?s4 = "?s0\<lparr>is_Gateway := is_Gateway sn, is_DNS := is_DNS sn, is_LeaseTimeSec := is_LeaseTimeSec sn, is_Ranges := is_Ranges sn\<rparr>"
  have c: "own_cidr ?s4 = own_cidr sn" by (simp add: own_cidr_def)
  have "parse_isc (Some ?s0) ?b d = parse_isc (Some (?s0\<lparr>is_Gateway := is_Gateway sn\<rparr>)) ?d d"
    using parse_option_tokens [OF p(1), of "''routers''" ?s0 ?d d] by simp
  also have "\<dots> = parse_isc (Some (?s0\<lparr>is_Gateway := is_Gateway sn, is_DNS := is_DNS sn\<rparr>)) ?l d"
    using parse_option_tokens [OF p(2), of "''domain-name-servers''" "?s0\<lparr>is_Gateway := is_Gateway sn\<rparr>" ?l d] by (cases "is_DNS sn") simp_all
  also have "\<dots> = parse_isc (Some ?s4) ?h d"
    using parse_lease_tokens [OF p(3,4), of _ ?t d] parse_range_tokens [OF p(5), of _ ?h d] by simp
  also have "\<dots> = Inr (Some sn, r, d)"
    using parse_host_tokens [of ?s4 "is_Reservations sn" "''}'' # r" d] p(6) c by (simp add: parse_isc_end)
  finally have body: "parse_isc (Some ?s0) ?b d = Inr (Some sn, r, d)" .
  let ?ts = "''subnet'' # is_Network sn # ''netmask'' # is_Netmask sn # ''{'' # ?b"
  have "subnet_header ?ts = Inr (?s0, ?b)" by (simp add: subnet_header_def isc_consume_def isc_next_def)
  then have "parse_isc None ?ts d = parseStatements (length ?ts) None r (d\<lparr>ic_Subnets := ic_Subnets d @ [sn]\<rparr>)"
    using parse_isc_fuel [of ?b "length ?ts" "Some ?s0" d] body by (simp add: parse_isc_def [of None] parse_subnet)
  also have "\<dots> = parse_isc None r (d\<lparr>ic_Subnets := ic_Subnets d @ [sn]\<rparr>)" by (rule parse_isc_fuel) simp
  finally show ?thesis by (simp add: subnet_tokens_def)
qed

lemma parse_subnets:
  "list_all plain_subnet sns \<Longrightarrow>
     parse_isc None (concat (map subnet_tokens sns)) d = Inr (None, [], d\<lparr>ic_Subnets := ic_Subnets d @ sns\<rparr>)"
  by (induction sns arbitrary: d) (simp_all add: parse_isc_end parse_subnet_tokens)

text \<open>C38: A configuration of ISC DHCP that is printed comes back: the subnets with their routers, name servers, lease times, ranges and
  hosts are those that the parser reads.\<close>

theorem isc_config_roundtrip:
  assumes "list_all plain_subnet sns"
  shows "parseISCDHCPConfig (print_isc sns) = Inr \<lparr>ic_Subnets = sns, ic_Hosts = []\<rparr>"
proof -
  have "list_all (\<lambda>t. isc_word t \<or> isc_mark t) (concat (map subnet_tokens sns))"
    using assms subnet_tokens_print by (induction sns) auto
  then show ?thesis using parse_subnets [OF assms]
    by (simp add: parseISCDHCPConfig_def print_isc_def tokenize_print parse_isc_def assignGlobalHosts_def)
qed

definition demo_isc :: iscSubnet where
  "demo_isc =
     \<lparr>is_Network = ''10.0.0.0'', is_Netmask = ''255.255.255.0'', is_LeaseTimeSec = 600,
      is_Ranges = [\<lparr>ir_Start = ''10.0.0.10'', ir_End = ''10.0.0.20''\<rparr>], is_Gateway = ''10.0.0.1'', is_DNS = [''8.8.8.8'', ''1.1.1.1''],
      is_Reservations = []\<rparr>"

theorem isc_config_roundtrip_witness:
  "parseISCDHCPConfig (print_isc [demo_isc]) = Inr \<lparr>ic_Subnets = [demo_isc], ic_Hosts = []\<rparr>"
  by (rule isc_config_roundtrip)
    (simp add: plain_subnet_def demo_isc_def isc_word_def plain_range_def EqualFold_def ToLower_def lower_char_def)

section \<open>A dry run changes nothing\<close>

named_theorems dry

lemma each_item_keeps: "(\<And>i a x. fst (f i a x) = fst x) \<Longrightarrow> fst (each_item f i as x) = fst x"
  by (induction as arbitrary: i x) simp_all

lemma dry_check [dry]: "fst (check_or_write True c w s) = s" "fst (check_or_upsert v True l s) = s"
  "fst (write_subnet v True p rs s) = s"
  by (simp_all add: check_or_write_def check_or_upsert_def write_subnet_def Let_def)

lemma fst_sum_case: "fst (case y of (s', Inl e) \<Rightarrow> (s', g e) | (s', Inr b) \<Rightarrow> (s', h b)) = fst y"
  by (cases y) (auto split: sum.split)

lemma fst_option_case: "fst (case y of (s', Some e) \<Rightarrow> (s', g e) | (s', None) \<Rightarrow> (s', h)) = fst y"
  by (cases y) (auto split: option.split)

lemmas report_cases = fst_sum_case fst_option_case

lemma dry_rows [dry]:
  "fst (importSubnetRow v True policy rw s) = s" "fst (importAddressRow v True policy rw s) = s"
  "fst (importReservationRow v True policy rw s) = s" "fst (importLeaseRow v True policy rw s) = s"
  by (simp_all add: importSubnetRow_def importAddressRow_def importReservationRow_def importLeaseRow_def Let_def dry report_cases)

lemma import_row_fst: "fst (import_row importer v dryRun policy i rw x) = fst (importer v dryRun policy rw (fst x))"
  by (simp add: import_row_def report_cases)

lemma dry_file:
  "(\<And>rw s. fst (importer v True policy rw s) = s) \<Longrightarrow> fst (importCSVFile v kind path True policy importer s) = s"
  using each_item_keeps [of "import_row importer v True policy"]
  by (auto simp: importCSVFile_def import_row_fst split: sum.split prod.splits) (metis fst_conv)

lemma dry_files: "(\<forall>(k, p, importer)\<in>set files. \<forall>rw s. fst (importer v True policy rw s) = s) \<Longrightarrow>
    fst (import_files v True policy files s) = s"
proof (induction files arbitrary: s)
  case (Cons f files)
  obtain k p importer where f: "f = (k, p, importer)" by (cases f)
  then show ?case using Cons dry_file [of importer v policy k p s]
    by (auto split: prod.splits) (metis fst_conv)+
qed simp

lemma dry_csv [dry]: "fst (runCSV v opts True policy s) = s"
  using dry_files [of "csv_files opts" v policy s] by (auto simp: runCSV_def csv_files_def dry split: prod.splits)

lemma dry_isc_items [dry]:
  "fst (isc_subnet_item v True policy i sn x) = fst x" "fst (isc_lease_item v True policy i r x) = fst x"
  "fst (kea_subnet_item v J general True policy i ks x) = fst x"
  by (auto simp: isc_subnet_item_def isc_lease_item_def kea_subnet_item_def report_cases dry split: sum.split prod.split)

lemma dry_isc [dry]: "fst (runISCDHCP v config leases True policy s) = s"
proof -
  have c: "fst (importISCDHCPConfig v path True policy s) = s" for path s
    using each_item_keeps [of "isc_subnet_item v True policy"]
    by (auto simp: importISCDHCPConfig_def dry Let_def split: sum.split prod.splits option.split) (metis fst_conv)+
  have l: "fst (importISCDHCPLeases v path conf True policy s) = s" for path conf s
    using each_item_keeps [of "isc_lease_item v True policy"]
    by (auto simp: importISCDHCPLeases_def dry split: sum.split prod.splits) (metis fst_conv)
  obtain s1 f1 ws r where 1: "importISCDHCPConfig v (TrimSpace config) True policy s = (s1, f1, ws, r)" by (metis surj_pair)
  then have "s1 = s" using c [of "TrimSpace config" s] by simp
  then show ?thesis using 1 l by (auto simp: runISCDHCP_def Let_def split: sum.split prod.splits) (metis fst_conv)
qed

lemma dry_kea [dry]: "fst (runKea v J config leases True policy s) = s"
proof -
  have c: "fst (importKeaConfig v J path True policy s) = s" for path s
    using each_item_keeps [of "kea_subnet_item v J general True policy" for general]
    by (auto simp: importKeaConfig_def dry Let_def split: sum.split prod.splits) (metis fst_conv)
  have l: "fst (importCSVFile v kind path True policy importLeaseRow s) = s" for kind path s
    by (rule dry_file) (rule dry)
  obtain s1 f1 ws r where 1: "importKeaConfig v J (TrimSpace config) True policy s = (s1, f1, ws, r)" by (metis surj_pair)
  then have "s1 = s" using c [of "TrimSpace config" s] by simp
  then show ?thesis using 1 l by (auto simp: runKea_def Let_def split: option.split prod.splits) (metis fst_conv)
qed

lemma dry_api_items [dry]:
  "fst (fst (subnet_item v True policy i payload x)) = fst x" "fst (address_item v True policy i pl x) = fst x"
  "fst (netbox_address_item v ps True policy i na x) = fst x" "fst (php_address_item v idx tags True policy i pa x) = fst x"
proof -
  show s: "fst (fst (subnet_item v True policy i payload x)) = fst x"
    using dry(3) [of v payload "[]" "fst x"] by (auto simp: subnet_item_def split: option.split prod.splits)
  show a: "fst (address_item v True policy i pl x) = fst x" for pl
    by (simp add: address_item_def Let_def report_cases dry)
  show "fst (netbox_address_item v ps True policy i na x) = fst x"
    by (auto simp: netbox_address_item_def a split: sum.split)
  show "fst (php_address_item v idx tags True policy i pa x) = fst x"
    by (auto simp: php_address_item_def a split: sum.split)
qed

lemma dry_prefixes: "fst (fst (importNetBoxPrefixes v True policy i items x)) = fst x"
proof (induction items arbitrary: i x)
  case (Cons item items)
  show ?case
    by (simp only: importNetBoxPrefixes.simps case_prod_beta fst_conv Cons.IH) (auto simp: dry split: sum.split)
qed simp

lemma dry_php_subnets: "fst (fst (importPHPIPAMSubnets v sections vlans True policy i items x)) = fst (fst x)"
proof (induction items arbitrary: i x)
  case (Cons item items)
  show ?case by (simp only: importPHPIPAMSubnets.simps Cons.IH) (simp add: dry split: sum.split)
qed simp

lemma dry_netbox: "runNetBox v get D url token True policy s = Some r \<Longrightarrow> fst r = s"
proof -
  have a: "fst (importNetBoxAddresses v url items ps True policy s) = s" for items ps s
    using each_item_keeps [of "netbox_address_item v ps True policy"]
    by (auto simp: importNetBoxAddresses_def dry split: prod.splits) (metis fst_conv)
  have r: "fst r = s" if "netbox_addresses_run v get D url token True policy ps f ws s = Some r" for token ps f ws s
    using that a by (auto simp: netbox_addresses_run_def split: option.splits sum.splits prod.splits) (metis fst_conv)
  assume r0: "runNetBox v get D url token True policy s = Some r"
  have "fst r = s" if "fetchNetBoxPaginated get (TrimSpace token) (dj_prefixes D) u [] = Some (Inr items)"
    "base_url url @ ''/api/ipam/prefixes/'' = u" "base_url url \<noteq> []" for items u
  proof -
    obtain s1 f1 ps where p: "importNetBoxPrefixes v True policy 0 items (s, new_file ''netbox_prefixes'' url (length items)) = ((s1, f1), ps)"
      by (metis surj_pair)
    then have "s1 = s" using dry_prefixes [of v policy 0 items "(s, new_file ''netbox_prefixes'' url (length items))"] by simp
    then show ?thesis using r0 that p r [of "TrimSpace token" ps f1 "netbox_warnings items" s]
      by (auto simp: runNetBox_def Let_def split: option.splits)
  qed
  then show ?thesis using r0 by (auto simp: runNetBox_def Let_def split: if_splits option.splits sum.splits)
qed

lemma dry_phpipam [dry]: "fst (runPHPIPAM v get D url token True policy s) = s"
proof -
  have a: "fst (importPHPIPAMAddresses v url items idx tags True policy s) = s" for items idx tags s
    using each_item_keeps [of "php_address_item v idx (php_tags tags) True policy"]
    by (auto simp: importPHPIPAMAddresses_def dry split: prod.splits) (metis fst_conv)
  have "fst (php_import v url True policy sections subnets vlans tags addresses s) = s" for sections subnets vlans tags addresses
  proof -
    let ?x = "((s, new_file ''phpipam_subnets'' url (length subnets)), [])"
    obtain s1 f1 idx where p: "importPHPIPAMSubnets v (by_id sections) (by_id vlans) True policy 0 subnets ?x = ((s1, f1), idx)"
      by (metis surj_pair)
    then have "s1 = s" using dry_php_subnets [of v "by_id sections" "by_id vlans" policy 0 subnets ?x] by simp
    moreover obtain f2 err where "importPHPIPAMAddresses v url addresses idx tags True policy s = (s, f2, err)"
      using a [of addresses idx tags s] by (metis prod.collapse)
    ultimately show ?thesis using p by (simp add: php_import_def split: option.split)
  qed
  then show ?thesis by (auto simp: runPHPIPAM_def Let_def split: sum.split prod.split)
qed

text \<open>C39: A migration that is a dry run leaves the store as it was, whatever the source answers, the files hold and the policy is.\<close>

theorem migrate_dry_run:
  assumes "mo_DryRun opts"
  shows "map_option fst (migrate_Run v J get D opts s) \<in> {None, Some s}"
proof -
  have "fst r = s" if "run_source v J get D opts source policy s = Some r" for source policy r
    using that assms dry_netbox [of v get D _ _ policy s r]
    by (auto simp: run_source_def Let_def dry split: if_splits)
  then have r: "run_source v J get D opts source policy s = None \<or> (\<exists>rest. run_source v J get D opts source policy s = Some (s, rest))"
    for source policy
    by (metis not_Some_eq prod.collapse)
  show ?thesis
    using r [of "migrate_source opts" ConflictOverwrite] r [of "migrate_source opts" ConflictSkip]
    by (auto simp: migrate_Run_def Let_def)
qed

section \<open>Skipped conflicts\<close>

text \<open>The rows that are written have an encoding that fits the log; a row that is skipped need not.\<close>

fun rows_fit :: "(engine, 'z) migrate_env_scheme \<Rightarrow> csvRow list \<Rightarrow> engine \<Rightarrow> bool" where
  "rows_fit v [] s \<longleftrightarrow> True"
| "rows_fit v (rw # rws) s \<longleftrightarrow>
     (snd (importReservationRow v False ConflictSkip rw s) = Inr True \<or>
      call_fits (mg_ipam v) (mg_now v) (CallUpsertReservation (reservation_payload rw)) s) \<and>
     rows_fit v rws (fst (importReservationRow v False ConflictSkip rw s))"

lemma reservation_lookup:
  "db_inv s \<Longrightarrow> ie_db e = engine_db \<Longrightarrow> GetReservationByMAC e s mac = Inr x \<longleftrightarrow> reservation_at e s (normalizeMAC mac) = Some x"
  by (simp add: GetReservationByMAC_def edb.get_row_entry)

lemma reservation_written:
  assumes "ipam_on_engine e" "ipam_inv e s" "call_fits e now (CallUpsertReservation inp) s"
    "reservation_at e s (normalizeMAC (ri_MAC inp)) = None" "reservation_at e s m = Some x"
  shows "reservation_at e (fst (UpsertReservation e now inp s)) m = Some x"
proof (cases "ValidateReservation e now s inp")
  case (Inr n)
  obtain s' r where p: "put_row engine_db (ie_reservation e) treeReservations (rv_MAC n) n now s = (s', r)"
    by (metis surj_pair)
  have e: "ie_db e = engine_db" "codec_ok (ie_reservation e)" using assms(1) by (auto simp: ipam_on_engine_def)
  have "s' = s \<or> reservation_at e s' = (reservation_at e s)(rv_MAC n \<mapsto> n)"
    using put_row_on_engine [OF _ e(2) _ p] assms(2,3) Inr by (auto simp: ipam_inv_def)
  moreover have "m \<noteq> rv_MAC n" using ValidateReservation_row(1) [OF Inr] assms(4,5) by auto
  moreover have "fst (UpsertReservation e now inp s) = s'" using Inr p e(1) by (simp add: UpsertReservation_def split: option.split)
  ultimately show ?thesis using assms(5) by auto
qed (simp add: UpsertReservation_def assms(5))

lemma skip_row:
  assumes "ipam_on_engine (mg_ipam v)" "ipam_inv (mg_ipam v) s" "rows_fit v (rw # rws) s" "reservation_at (mg_ipam v) s m = Some x"
  shows "ipam_inv (mg_ipam v) (fst (importReservationRow v False ConflictSkip rw s)) \<and>
    reservation_at (mg_ipam v) (fst (importReservationRow v False ConflictSkip rw s)) m = Some x"
proof -
  let ?e = "mg_ipam v" and ?p = "reservation_payload rw"
  show ?thesis
  proof (cases "ri_MAC ?p = [] \<or> ri_IP ?p = [] \<or> is_ok (GetReservationByMAC ?e s (ri_MAC ?p))")
    case True
    then have "fst (importReservationRow v False ConflictSkip rw s) = s" by (auto simp: importReservationRow_def Let_def)
    then show ?thesis using assms(2,4) by simp
  next
    case False
    then have w: "importReservationRow v False ConflictSkip rw s =
        (fst (UpsertReservation ?e (mg_now v) ?p s), rbind (snd (UpsertReservation ?e (mg_now v) ?p s)) (\<lambda>_. Inr False))"
      by (simp add: importReservationRow_def check_or_write_def Let_def)
    have i: "db_inv s" "ie_db ?e = engine_db" using assms(1,2) by (simp_all add: ipam_inv_def ipam_on_engine_def)
    have "reservation_at ?e s (normalizeMAC (ri_MAC ?p)) = None"
      using False reservation_lookup [OF i, of "ri_MAC ?p"]
      by (metis is_ok.simps(2) not_Some_eq)
    moreover have "call_fits ?e (mg_now v) (CallUpsertReservation ?p) s"
      using assms(3) by (auto simp: w rbind_Inr_conv simp del: call_fits.simps)
    ultimately show ?thesis
      using reservation_written ipam_inv_reservation assms(1,2,4) by (simp only: w fst_conv)
  qed
qed

lemma skip_rows:
  assumes "ipam_on_engine (mg_ipam v)" "ipam_inv (mg_ipam v) s" "rows_fit v rws s" "reservation_at (mg_ipam v) s m = Some x"
  shows "ipam_inv (mg_ipam v) (fst (each_item (import_row importReservationRow v False ConflictSkip) i rws (s, f))) \<and>
    reservation_at (mg_ipam v) (fst (each_item (import_row importReservationRow v False ConflictSkip) i rws (s, f))) m = Some x"
  using assms(2-4)
proof (induction rws arbitrary: s i f)
  case (Cons rw rws)
  let ?s = "fst (importReservationRow v False ConflictSkip rw s)"
  obtain g where g: "import_row importReservationRow v False ConflictSkip i rw (s, f) = (?s, g)"
    using import_row_fst [of importReservationRow v False ConflictSkip i rw "(s, f)"] by (metis fst_conv prod.collapse)
  have "ipam_inv (mg_ipam v) ?s \<and> reservation_at (mg_ipam v) ?s m = Some x" using skip_row [OF assms(1) Cons.prems] .
  then show ?case using Cons.IH [of ?s "i + 1" g] Cons.prems(2) by (simp add: g)
qed simp

text \<open>C40: The import of a CSV file of reservations with conflicts skipped keeps every reservation that is stored (the imports of ISC and Kea
  configurations overwrite them): whatever the rows of the file are, the look-up of an address of a card that had one gives the same reservation afterwards, and the invariant of the store is kept.\<close>

theorem migrate_skip_keeps:
  assumes "ipam_on_engine (mg_ipam v)" "ipam_inv (mg_ipam v) s" "readCSVRows v path = Inr rws" "rows_fit v rws s"
    and "GetReservationByMAC (mg_ipam v) s mac = Inr r"
  shows "ipam_inv (mg_ipam v) (fst (importCSVFile v kind path False ConflictSkip importReservationRow s)) \<and>
    GetReservationByMAC (mg_ipam v) (fst (importCSVFile v kind path False ConflictSkip importReservationRow s)) mac = Inr r"
proof -
  let ?s = "fst (importCSVFile v kind path False ConflictSkip importReservationRow s)"
  have e: "ie_db (mg_ipam v) = engine_db" using assms(1) by (simp add: ipam_on_engine_def)
  have "reservation_at (mg_ipam v) s (normalizeMAC mac) = Some r"
    using assms(2,5) reservation_lookup [OF _ e] by (simp add: ipam_inv_def)
  then have "ipam_inv (mg_ipam v) ?s \<and> reservation_at (mg_ipam v) ?s (normalizeMAC mac) = Some r"
    using skip_rows [OF assms(1,2,4), of "normalizeMAC mac" r 0 "new_file kind path (length rws)"]
    by (simp add: importCSVFile_def assms(3) case_prod_beta)
  then show ?thesis using reservation_lookup [OF _ e] by (simp add: ipam_inv_def)
qed

section \<open>Instances\<close>

text \<open>A file of two reservations, over the store that holds one of them: the first row is a conflict, the second has no card.\<close>

definition demo_csv_header :: "string list" where "demo_csv_header = [''mac'', ''ip'']"

definition demo_records :: "string list list" where
  "demo_records = [[''aa:bb:cc:dd:ee:0f'', ''10.0.0.99''], [[], ''10.0.0.10'']]"

definition demo_migrate :: "engine migrate_env" where
  "demo_migrate =
     \<lparr>mg_read = (\<lambda>_. Inr []), mg_csv = (\<lambda>_. Inr (demo_csv_header # demo_records)), mg_time = (\<lambda>_. None), mg_duration = (\<lambda>_. None),
      mg_seconds = (\<lambda>d. d div second_ns), mg_isc_time = (\<lambda>_. None), mg_now = 7, mg_ipam = demo_ipam,
      mg_leases = engine_store demo_json\<rparr>"

definition demo_row1 :: csvRow where
  "demo_row1 = [(''mac'', ''aa:bb:cc:dd:ee:0f''), (''ip'', ''10.0.0.99'')]"

definition demo_row2 :: csvRow where "demo_row2 = [(''mac'', []), (''ip'', ''10.0.0.10'')]"

lemma demo_csv_texts: "TrimSpace ''aa:bb:cc:dd:ee:0f'' = ''aa:bb:cc:dd:ee:0f''" "TrimSpace ''10.0.0.99'' = ''10.0.0.99''"
  "TrimSpace ''mac'' = ''mac''" "TrimSpace ''ip'' = ''ip''" "TrimSpace ''r.csv'' = ''r.csv''"
  by (rule TrimSpace_printable; simp add: printable_def byte_nat_def)+

lemma demo_csv_headers: "normalizeHeader ''mac'' = ''mac''" "normalizeHeader ''ip'' = ''ip''"
  by (simp_all add: normalizeHeader_def demo_csv_texts ToLower_def lower_char_def)

lemma demo_csv: "readCSVRows demo_migrate path = Inr [demo_row1, demo_row2]"
proof -
  have "map (row_of (map normalizeHeader demo_csv_header)) demo_records = [demo_row1, demo_row2]"
    by (simp add: demo_csv_header_def demo_records_def demo_row1_def demo_row2_def row_of_def demo_csv_headers demo_csv_texts demo_strings upt_rec)
  then show ?thesis by (simp add: readCSVRows_def demo_migrate_def)
qed

lemma demo_payload:
  "ri_MAC (reservation_payload demo_row1) = ''aa:bb:cc:dd:ee:0f''" "ri_IP (reservation_payload demo_row1) = ''10.0.0.99''"
  "ri_MAC (reservation_payload demo_row2) = []" "normalizeMAC [] = []"
  by (simp_all add: reservation_payload_def demo_row1_def demo_row2_def demo_csv_headers demo_csv_texts normalizeMAC_def ToUpper_def)

lemma demo_i2_lookup: "GetReservationByMAC demo_ipam demo_i2 ''aa:bb:cc:dd:ee:0f'' = Inr demo_rv"
  using ipam_reach_inv [OF demo_ipam_ok demo_i2(1)] demo_i2(2)
  by (subst reservation_lookup) (simp_all add: ipam_inv_def demo_ipam_def demo_strings)

lemma demo_imports:
  "importReservationRow demo_migrate False ConflictSkip demo_row1 demo_i2 = (demo_i2, Inr True)"
  "importReservationRow demo_migrate False ConflictSkip demo_row2 demo_i2 = (demo_i2, Inl (ErrMsg ''mac and ip are required''))"
  by (simp_all add: importReservationRow_def demo_payload Let_def demo_i2_lookup demo_migrate_def)

lemma demo_rows_fit: "rows_fit demo_migrate [demo_row1, demo_row2] demo_i2"
proof -
  have "ValidateReservation demo_ipam 7 demo_i2 (reservation_payload demo_row2) = Inl (ErrMsg ''mac is required'')"
    by (simp add: ValidateReservation_def demo_payload)
  then show ?thesis by (simp add: demo_imports) (simp add: demo_migrate_def)
qed

theorem migrate_skip_keeps_witness:
  "GetReservationByMAC demo_ipam (fst (importCSVFile demo_migrate ''reservations'' ''r.csv'' False ConflictSkip importReservationRow demo_i2))
     ''aa:bb:cc:dd:ee:0f'' = Inr demo_rv"
proof -
  have "mg_ipam demo_migrate = demo_ipam" by (simp add: demo_migrate_def)
  then show ?thesis
    using migrate_skip_keeps [OF _ _ demo_csv demo_rows_fit, of "''aa:bb:cc:dd:ee:0f''" demo_rv "''reservations''" "''r.csv''"]
      demo_ipam_ok ipam_reach_inv [OF demo_ipam_ok demo_i2(1)] demo_i2_lookup by simp
qed

definition demo_migrate_options :: migrate_options where
  "demo_migrate_options =
     \<lparr>mo_Source = [], mo_DryRun = True, mo_ConflictPolicy = [], mo_SourceConfig = [], mo_APIURL = [], mo_APIToken = [],
      mo_CSV = \<lparr>co_SubnetsPath = [], co_AddressesPath = [], co_ReservationsPath = ''r.csv'', co_LeasesPath = []\<rparr>\<rparr>"

text \<open>Neither a server that answers nothing nor a decoder that reads nothing is asked by a migration from files.\<close>

definition demo_kea_json :: "unit kea_json" where
  "demo_kea_json =
     \<lparr>kj_config = (\<lambda>_. Inl (ErrMsg ''unexpected end of JSON input'')), kj_string = (\<lambda>_. None), kj_pool = (\<lambda>_. None), kj_text = (\<lambda>_. None),
      kj_of = (\<lambda>_. ())\<rparr>"

definition demo_get :: http_get where "demo_get = (\<lambda>_ _. Inl (ErrMsg ''connection refused''))"

definition demo_decoders :: api_decoders where
  "demo_decoders =
     \<lparr>dj_prefixes = (\<lambda>_. Inl (ErrMsg [])), dj_addresses = (\<lambda>_. Inl (ErrMsg [])), dj_sections = (\<lambda>_. Inl (ErrMsg [])), dj_subnets = (\<lambda>_. Inl (ErrMsg [])),
      dj_vlans = (\<lambda>_. Inl (ErrMsg [])), dj_tags = (\<lambda>_. Inl (ErrMsg [])), dj_php_addresses = (\<lambda>_. Inl (ErrMsg []))\<rparr>"

theorem migrate_dry_run_witness:
  "map_option fst (migrate_Run demo_migrate demo_kea_json demo_get demo_decoders demo_migrate_options demo_i2) = Some demo_i2"
proof -
  have "map_option fst (migrate_Run demo_migrate demo_kea_json demo_get demo_decoders demo_migrate_options demo_i2) \<in> {None, Some demo_i2}"
    by (rule migrate_dry_run) (simp add: demo_migrate_options_def)
  moreover have "migrate_source demo_migrate_options = SourceCSV" "ToLower (TrimSpace (mo_ConflictPolicy demo_migrate_options)) = []"
    by (simp_all add: migrate_source_def demo_migrate_options_def ToLower_def)
  then have "migrate_Run demo_migrate demo_kea_json demo_get demo_decoders demo_migrate_options demo_i2 \<noteq> None"
    by (simp add: migrate_Run_def run_source_def Let_def)
  ultimately show ?thesis by auto
qed

end
