(* ===== verification/Filepath.thy ===== *)
theory Filepath
  imports GoStrings
begin

text \<open>
  The functions of Go's \<^verbatim>\<open>path\<close> and \<^verbatim>\<open>path/filepath\<close> that the code uses, on a system whose paths have slashes: a path is
  cleaned element by element. \<open>path_Rel\<close> is for two absolute paths, which is how the code calls it.
\<close>

abbreviation slash :: byte where "slash \<equiv> CHR ''/''"

definition is_abs :: "string \<Rightarrow> bool" where
  "is_abs s \<longleftrightarrow> starts_with ''/'' s"

text \<open>The elements of a path; the empty ones and the dots mean nothing.\<close>

definition path_parts :: "string \<Rightarrow> string list" where
  "path_parts s = filter (\<lambda>p. p \<noteq> [] \<and> p \<noteq> ''.'') (split_on slash s)"

fun clean_parts :: "bool \<Rightarrow> string list \<Rightarrow> string list \<Rightarrow> string list" where
  "clean_parts rooted out [] = rev out"
| "clean_parts rooted out (p # ps) =
     (if p = ''..'' then
        (case out of
           [] \<Rightarrow> clean_parts rooted (if rooted then [] else [''..'']) ps
         | o1 # os \<Rightarrow> if o1 = ''..'' then clean_parts rooted (''..'' # out) ps else clean_parts rooted os ps)
      else clean_parts rooted (p # out) ps)"

definition path_Clean :: "string \<Rightarrow> string" where
  "path_Clean s =
     (let parts = clean_parts (is_abs s) [] (path_parts s) in
      if is_abs s then ''/'' @ join_on slash parts else if parts = [] then ''.'' else join_on slash parts)"

definition path_Base :: "string \<Rightarrow> string" where
  "path_Base s =
     (if s = [] then ''.''
      else (let t = rev (takeWhile (\<lambda>c. c \<noteq> slash) (dropWhile (\<lambda>c. c = slash) (rev s))) in if t = [] then ''/'' else t))"

definition path_Join :: "string \<Rightarrow> string \<Rightarrow> string" where
  "path_Join a b = (if a \<noteq> [] then path_Clean (a @ ''/'' @ b) else if b \<noteq> [] then path_Clean b else [])"

definition path_Abs :: "string \<Rightarrow> string \<Rightarrow> string" where
  "path_Abs cwd s = (if is_abs s then path_Clean s else path_Join cwd s)"

fun rel_parts :: "string list \<Rightarrow> string list \<Rightarrow> string list" where
  "rel_parts (b # bs) (t # ts) = (if b = t then rel_parts bs ts else map (\<lambda>_. ''..'') (b # bs) @ t # ts)"
| "rel_parts bs ts = map (\<lambda>_. ''..'') bs @ ts"

definition path_Rel :: "string \<Rightarrow> string \<Rightarrow> string" where
  "path_Rel base targ =
     (let parts = rel_parts (path_parts (path_Clean base)) (path_parts (path_Clean targ)) in
      if parts = [] then ''.'' else join_on slash parts)"

section \<open>Clean paths\<close>

text \<open>The elements of a clean absolute path: no dots, no slashes.\<close>

definition part_ok :: "string \<Rightarrow> bool" where
  "part_ok p \<longleftrightarrow> p \<noteq> [] \<and> p \<noteq> ''.'' \<and> slash \<notin> set p"

definition plain_parts :: "string list \<Rightarrow> bool" where
  "plain_parts ps \<longleftrightarrow> (\<forall>p\<in>set ps. part_ok p \<and> p \<noteq> ''..'')"

lemma plain_parts_simps [simp]:
  "plain_parts []" "plain_parts (p # ps) \<longleftrightarrow> part_ok p \<and> p \<noteq> ''..'' \<and> plain_parts ps"
  "plain_parts (ps @ qs) \<longleftrightarrow> plain_parts ps \<and> plain_parts qs" "plain_parts (rev ps) \<longleftrightarrow> plain_parts ps"
  unfolding plain_parts_def by auto

lemma plain_parts_ok: "plain_parts ps \<Longrightarrow> \<forall>p\<in>set ps. part_ok p"
  by (simp add: plain_parts_def)

lemma path_parts_app: "path_parts (a @ slash # b) = path_parts a @ path_parts b"
  by (simp add: path_parts_def split_on_append)

lemma path_parts_word: "part_ok p \<Longrightarrow> path_parts p = [p]"
  by (simp add: part_ok_def path_parts_def split_on_no_sep)

lemma path_parts_root [simp]: "path_parts (slash # s) = path_parts s"
  by (simp add: path_parts_def)

lemma path_parts_nil [simp]: "path_parts [] = []"
  by (simp add: path_parts_def)

lemma path_parts_join: "\<forall>p\<in>set ps. part_ok p \<Longrightarrow> path_parts (join_on slash ps) = ps"
proof (cases "ps = []")
  case False
  assume a: "\<forall>p\<in>set ps. part_ok p"
  then have "split_on slash (join_on slash ps) = ps" using False by (intro split_join) (simp_all add: part_ok_def)
  moreover have "filter (\<lambda>p. p \<noteq> [] \<and> p \<noteq> ''.'') ps = ps" using a unfolding filter_id_conv by (simp add: part_ok_def)
  ultimately show ?thesis by (simp only: path_parts_def)
qed simp

lemma path_parts_ok: "\<forall>p\<in>set (path_parts s). part_ok p"
  using split_on_no_sep_in [of _ slash s] by (auto simp only: path_parts_def part_ok_def set_filter mem_Collect_eq)

text \<open>Cleaning an absolute path leaves plain elements, and does nothing to them.\<close>

lemma clean_rooted: "plain_parts out \<Longrightarrow> \<forall>p\<in>set ps. part_ok p \<Longrightarrow> plain_parts (clean_parts True out ps)"
proof (induction ps arbitrary: out)
  case (Cons p ps)
  show ?case
  proof (cases "p = ''..''")
    case True
    then show ?thesis using Cons by (cases out) simp_all
  next
    case False
    then show ?thesis using Cons by simp
  qed
qed simp

lemma clean_plain: "plain_parts ps \<Longrightarrow> clean_parts r out (ps @ qs) = clean_parts r (rev ps @ out) qs"
  by (induction ps arbitrary: out) simp_all

lemma clean_plain_end: "plain_parts ps \<Longrightarrow> clean_parts r out ps = rev out @ ps"
  using clean_plain [of ps r out "[]"] by simp

text \<open>A clean absolute path and its elements.\<close>

definition clean_path :: "string \<Rightarrow> string list \<Rightarrow> bool" where
  "clean_path s ps \<longleftrightarrow> s = slash # join_on slash ps \<and> plain_parts ps"

lemma clean_path_parts: "clean_path s ps \<Longrightarrow> path_parts s = ps \<and> is_abs s \<and> path_Clean s = s"
proof -
  assume a: "clean_path s ps"
  then have p: "path_parts s = ps" using path_parts_join [OF plain_parts_ok] by (simp add: clean_path_def)
  moreover have "is_abs s" using a by (simp add: clean_path_def is_abs_def starts_with_def)
  moreover have "clean_parts True [] ps = ps" using a clean_plain_end [of ps True "[]"] by (simp add: clean_path_def)
  ultimately show ?thesis using a by (simp add: path_Clean_def clean_path_def)
qed

lemma clean_abs: "is_abs s \<Longrightarrow> clean_path (path_Clean s) (clean_parts True [] (path_parts s))"
  using clean_rooted [of "[]" "path_parts s"] path_parts_ok [of s] by (simp add: path_Clean_def clean_path_def)

lemma clean_join:
  assumes "clean_path s ps"
  shows "clean_path (path_Join s x) (clean_parts True (rev ps) (path_parts x))"
proof -
  note p = clean_path_parts [OF assms]
  have a: "is_abs (s @ slash # x)" "s \<noteq> []" using p by (auto simp: is_abs_def starts_with_iff)
  have "clean_parts True [] (path_parts (s @ slash # x)) = clean_parts True (rev ps) (path_parts x)"
    using clean_plain [of ps True "[]"] assms p by (simp add: path_parts_app clean_path_def)
  then show ?thesis using clean_abs [OF a(1)] a(2) by (simp add: path_Join_def)
qed

lemma clean_Abs:
  assumes "clean_path cwd cs"
  obtains ps where "clean_path (path_Abs cwd s) ps"
proof (cases "is_abs s")
  case True
  then show ?thesis using clean_abs [OF True] that by (simp add: path_Abs_def)
next
  case False
  then show ?thesis using clean_join [OF assms, of s] that by (simp add: path_Abs_def)
qed

text \<open>The way from one clean path to another that does not start upwards stays inside.\<close>

lemma rel_inside: "rel_parts bs ts = [] \<or> hd (rel_parts bs ts) \<noteq> ''..'' \<Longrightarrow> \<exists>rest. ts = bs @ rest"
proof (induction bs arbitrary: ts)
  case (Cons b bs)
  then show ?case by (cases ts) (auto split: if_splits)
qed simp

end
