(* ===== verification/Backup.thy ===== *)
theory Backup
  imports Filepath RestAuth
begin

text \<open>
  \<^verbatim>\<open>src/cmd/monsoon/backup_restore.go\<close>, \<^verbatim>\<open>atomic_write.go\<close> and the functions of \<^verbatim>\<open>main.go\<close> that take, list and restore
  backups. Files are kept by their absolute path with their content and the time of their change; which step of a write fails is an
  argument, with the working directory, the names of temporary files and the format of times. A directory that is missing lists as an empty one.
\<close>

section \<open>Files\<close>

type_synonym file_system = "(string \<times> (bytes \<times> time)) list"

datatype write_step =
    StepMkdir | StepTemp | StepChmod | StepWrite | StepSync | StepClose | StepRename | StepStat | StepBackup | StepReplace | StepUndo

record file_env =
  fe_cwd :: string
  fe_temp :: "string \<Rightarrow> string"
  fe_ok :: "write_step \<Rightarrow> bool"
  fe_dirError :: "string \<Rightarrow> go_error option"

abbreviation (input) write_failed :: go_error where "write_failed \<equiv> ErrMsg ''write failed''"

text \<open>The temporary file takes the place of the file; where that is not possible, the file is moved aside first.\<close>

definition replace_aside :: "'z file_env_scheme \<Rightarrow> time \<Rightarrow> string \<Rightarrow> bytes \<Rightarrow> file_system \<Rightarrow> file_system \<times> go_error option" where
  "replace_aside v now path raw fs =
     (let key = path_Abs (fe_cwd v) path; bak = path_Abs (fe_cwd v) (path @ ''.bak''); tmp = fe_temp v path; fs1 = mdel bak fs in
      if \<not> fe_ok v StepStat then (mdel tmp fs1, Some write_failed)
      else
        (case map_of fs1 key of
           None \<Rightarrow>
             if fe_ok v StepReplace then (mput key (raw, now) (mdel tmp fs1), None) else (mdel tmp fs1, Some write_failed)
         | Some old \<Rightarrow>
             if \<not> fe_ok v StepBackup then (mdel tmp fs1, Some (ErrMsg ''prepare atomic replace''))
             else
               (let fs2 = mput bak old (mdel key fs1) in
                if fe_ok v StepReplace then (mdel bak (mput key (raw, now) (mdel tmp fs2)), None)
                else (mdel tmp (if fe_ok v StepUndo then mput key old (mdel bak fs2) else fs2), Some write_failed))))"

definition atomicWriteFile :: "'z file_env_scheme \<Rightarrow> time \<Rightarrow> string \<Rightarrow> bytes \<Rightarrow> file_system \<Rightarrow> file_system \<times> go_error option" where
  "atomicWriteFile v now path raw fs =
     (let key = path_Abs (fe_cwd v) path; tmp = fe_temp v path in
      if \<not> fe_ok v StepMkdir \<or> \<not> fe_ok v StepTemp then (fs, Some write_failed)
      else if \<not> fe_ok v StepChmod \<or> \<not> fe_ok v StepWrite \<or> \<not> fe_ok v StepSync \<or> \<not> fe_ok v StepClose
      then (mdel tmp (mput tmp ([], now) fs), Some write_failed)
      else
        (let fs1 = mput tmp (raw, now) fs in
         if fe_ok v StepRename then (mput key (raw, now) (mdel tmp fs1), None) else replace_aside v now path raw fs1))"

section \<open>Backups\<close>

text \<open>The engine writes its snapshot to a file of its own; that file is a part of the engine.\<close>

record backup_env = file_env +
  be_snapshot :: string
  be_snapshotTime :: time
  be_stamp :: "time \<Rightarrow> string"

record backup_state =
  bs_engine :: engine
  bs_files :: file_system

definition file_at :: "backup_env \<Rightarrow> string \<Rightarrow> backup_state \<Rightarrow> (bytes \<times> time) option" where
  "file_at v path s =
     (let key = path_Abs (fe_cwd v) path in
      if key = be_snapshot v then map_option (\<lambda>b. (b, be_snapshotTime v)) (e_snap (bs_engine s)) else map_of (bs_files s) key)"

definition configuredBackupDir :: "Config \<Rightarrow> string \<Rightarrow> string" where
  "configuredBackupDir cfg dataDirOverride =
     (let dataDir = (if TrimSpace dataDirOverride \<noteq> [] then dataDirOverride else cs_DataDir (c_Server cfg));
          backupDir = cu_Path (c_Backup cfg)
      in if TrimSpace backupDir = [] then path_Join dataDir ''backups'' else backupDir)"

definition resolveRestorePath :: "string \<Rightarrow> string \<Rightarrow> RestoreRequest \<Rightarrow> go_error + string" where
  "resolveRestorePath cwd backupDir0 req =
     (let backupDir = TrimSpace backupDir0; baseDir = path_Abs cwd backupDir; name = TrimSpace (rr_Name req) in
      if backupDir = [] then Inl (ErrMsg ''backup directory is not configured'')
      else if name \<noteq> [] then
        (if path_Base name \<noteq> name then Inl (ErrMsg ''backup name must not contain path separators'')
         else Inr (path_Join baseDir name))
      else if TrimSpace (rr_Path req) \<noteq> [] then
        (let target = path_Abs cwd (TrimSpace (rr_Path req)); rel = path_Rel baseDir target in
         if rel = ''..'' \<or> starts_with ''../'' rel then Inl (ErrMsg ''restore path must stay within backup directory'')
         else Inr target)
      else Inl (ErrMsg ''backup name or path is required''))"

definition restoreSnapshotIntoEngine :: "backup_env \<Rightarrow> string \<Rightarrow> backup_state \<Rightarrow> backup_state \<times> go_error option" where
  "restoreSnapshotIntoEngine v path s =
     (if TrimSpace path = [] then (s, Some (ErrMsg ''snapshot path is required''))
      else
        (case file_at v path s of
           None \<Rightarrow> (s, Some (ErrMsg ''no such file or directory''))
         | Some (file, _) \<Rightarrow> (case RestoreSnapshot file (bs_engine s) of (e, err) \<Rightarrow> (s\<lparr>bs_engine := e\<rparr>, err))))"

definition restoreBackupFromRequest ::
  "backup_env \<Rightarrow> Config \<Rightarrow> string \<Rightarrow> RestoreRequest \<Rightarrow> backup_state \<Rightarrow> backup_state \<times> (go_error + SystemBackup)" where
  "restoreBackupFromRequest v cfg dataDirOverride req s =
     (case resolveRestorePath (fe_cwd v) (configuredBackupDir cfg dataDirOverride) req of
        Inl err \<Rightarrow> (s, Inl err)
      | Inr path \<Rightarrow>
          (case restoreSnapshotIntoEngine v path s of
             (s', Some err) \<Rightarrow> (s', Inl err)
           | (s', None) \<Rightarrow>
               (case file_at v path s' of
                  None \<Rightarrow> (s', Inl (ErrMsg ''no such file or directory''))
                | Some (body, changed) \<Rightarrow>
                    (let p = path_Abs (fe_cwd v) path in
                     (s', Inr \<lparr>sb_Name = path_Base p, sb_Path = p, sb_SizeBytes = length body, sb_CreatedAt = changed\<rparr>)))))"

text \<open>The functions of \<^verbatim>\<open>main.go\<close>: the data directory of the command line replaces that of the configuration.\<close>

definition snapshot_config :: "string \<Rightarrow> Config \<Rightarrow> Config" where
  "snapshot_config dataDirFlag cfg =
     (if dataDirFlag \<noteq> [] then cfg\<lparr>c_Server := (c_Server cfg)\<lparr>cs_DataDir := dataDirFlag\<rparr>\<rparr> else cfg)"

definition snapshot_dir :: "Config \<Rightarrow> string" where
  "snapshot_dir cfg =
     (if TrimSpace (cu_Path (c_Backup cfg)) = [] then path_Join (cs_DataDir (c_Server cfg)) ''backups'' else cu_Path (c_Backup cfg))"

definition backup_name :: "string \<Rightarrow> string" where "backup_name stamp = ''monsoon-'' @ stamp @ ''.snapshot''"

definition CreateBackup :: "backup_env \<Rightarrow> Config \<Rightarrow> string \<Rightarrow> time \<Rightarrow> backup_state \<Rightarrow> backup_state \<times> (go_error + SystemBackup)" where
  "CreateBackup v cfg0 dataDirFlag now s =
     (let cfg = snapshot_config dataDirFlag cfg0 in
      case CreateSnapshot (bs_engine s) of
        (e, Some err) \<Rightarrow> (s\<lparr>bs_engine := e\<rparr>, Inl err)
      | (e, None) \<Rightarrow>
          (let s1 = s\<lparr>bs_engine := e\<rparr>; name = backup_name (be_stamp v now);
               src = path_Join (path_Join (cs_DataDir (c_Server cfg)) ''storage'') ''snapshot.bin'';
               dst = path_Join (snapshot_dir cfg) name
           in if \<not> fe_ok v StepMkdir then (s1, Inl write_failed)
              else
                (case file_at v src s1 of
                   None \<Rightarrow> (s1, Inl (ErrMsg ''no such file or directory''))
                 | Some (body, _) \<Rightarrow>
                     (case atomicWriteFile v now dst body (bs_files s1) of
                        (fs, Some err) \<Rightarrow> (s1\<lparr>bs_files := fs\<rparr>, Inl err)
                      | (fs, None) \<Rightarrow>
                          (s1\<lparr>bs_files := fs\<rparr>,
                           Inr \<lparr>sb_Name = name, sb_Path = path_Abs (fe_cwd v) dst, sb_SizeBytes = length body, sb_CreatedAt = now\<rparr>)))))"

text \<open>The entries of the directory come in the order of their names; those of one time keep that order.\<close>

definition entry_in :: "string \<Rightarrow> string \<times> (bytes \<times> time) \<Rightarrow> SystemBackup option" where
  "entry_in dir x =
     (case x of (path, body, changed) \<Rightarrow>
        if path_parts path \<noteq> [] \<and> butlast (path_parts path) = path_parts dir
        then Some \<lparr>sb_Name = last (path_parts path), sb_Path = path, sb_SizeBytes = length body, sb_CreatedAt = changed\<rparr>
        else None)"

definition all_files :: "backup_env \<Rightarrow> backup_state \<Rightarrow> file_system" where
  "all_files v s =
     (case e_snap (bs_engine s) of None \<Rightarrow> [] | Some b \<Rightarrow> [(be_snapshot v, b, be_snapshotTime v)]) @
     filter (\<lambda>(k, _). k \<noteq> be_snapshot v) (bs_files s)"

definition ListBackups :: "backup_env \<Rightarrow> Config \<Rightarrow> string \<Rightarrow> backup_state \<Rightarrow> go_error + SystemBackup list" where
  "ListBackups v cfg dataDirFlag s =
     (let dir = path_Abs (fe_cwd v) (snapshot_dir (snapshot_config dataDirFlag cfg)) in
      case fe_dirError v dir of
        Some err \<Rightarrow> Inl err
      | None \<Rightarrow>
          Inr (sort_by (\<lambda>x y. sb_CreatedAt x > sb_CreatedAt y)
                 (sort_by (\<lambda>x y. sb_Name x < sb_Name y) (List.map_filter (entry_in dir) (all_files v s)))))"

definition RestoreBackup ::
  "backup_env \<Rightarrow> Config \<Rightarrow> string \<Rightarrow> RestoreRequest \<Rightarrow> backup_state \<Rightarrow> backup_state \<times> (go_error + SystemBackup)" where
  "RestoreBackup v cfg dataDirFlag req s =
     restoreBackupFromRequest v (snapshot_config dataDirFlag cfg) dataDirFlag req s"

end
