(* ===== verification/BackupProps.thy ===== *)
theory BackupProps
  imports Backup StorageProps
begin

text \<open>
  Properties of the backups: what a request can restore, a backup that is taken and restored through the interface, and what a
  write of a file leaves behind when a step of it fails.
\<close>

section \<open>Restored paths\<close>

definition path_within :: "string \<Rightarrow> string \<Rightarrow> bool" where
  "path_within base p \<longleftrightarrow> (\<exists>bs rest. clean_path base bs \<and> clean_path p (bs @ rest))"

lemma path_Base_part:
  assumes "path_Base s = s" "s \<noteq> []"
  shows "slash \<notin> set s \<or> s = ''/''"
proof -
  let ?t = "rev (takeWhile (\<lambda>c. c \<noteq> slash) (dropWhile (\<lambda>c. c = slash) (rev s)))"
  have "s = ?t \<or> s = ''/''" using assms by (auto simp: path_Base_def Let_def split: if_splits)
  moreover have "slash \<notin> set ?t" by (auto dest: set_takeWhileD)
  ultimately show ?thesis by metis
qed

lemma clean_up: "plain_parts ps \<Longrightarrow> clean_parts True (rev ps) [''..''] = butlast ps"
  by (cases ps rule: rev_cases) simp_all

text \<open>A restore reads inside the directory of the backups only: the path that a request names is the directory itself or below it. The one
  exception is the name of two dots, which is the parent directory itself.\<close>

theorem restore_path_inside:
  assumes "clean_path cwd cs" "resolveRestorePath cwd dir req = Inr p"
  shows "path_within (path_Abs cwd (TrimSpace dir)) p \<or>
    TrimSpace (rr_Name req) = ''..'' \<and> path_parts p = butlast (path_parts (path_Abs cwd (TrimSpace dir)))"
proof -
  let ?base = "path_Abs cwd (TrimSpace dir)" and ?name = "TrimSpace (rr_Name req)" and ?path = "TrimSpace (rr_Path req)"
  obtain bs where b: "clean_path ?base bs" using clean_Abs [OF assms(1)] .
  show ?thesis
  proof (cases "?name = []")
    case False
    then have n: "path_Base ?name = ?name" "p = path_Join ?base ?name"
      using assms(2) by (auto simp: resolveRestorePath_def Let_def split: if_splits)
    have p: "clean_path p (clean_parts True (rev bs) (path_parts ?name))" unfolding n(2) by (rule clean_join [OF b])
    consider "path_parts ?name = []" | "?name = ''..''" "path_parts ?name = [''..'']" | "part_ok ?name" "?name \<noteq> ''..''"
      using path_Base_part [OF n(1) False] False path_parts_word [of ?name]
      by (cases "?name = ''.''"; cases "?name = ''..''") (auto simp: part_ok_def path_parts_def)
    then show ?thesis
    proof cases
      case 1
      then have "clean_path p (bs @ [])" using p b by (simp add: clean_path_def)
      then show ?thesis using b unfolding path_within_def by blast
    next
      case 2
      then show ?thesis using p clean_path_parts [OF b] clean_path_parts [OF p] clean_up [of bs] b by (simp add: clean_path_def)
    next
      case 3
      then have "clean_path p (bs @ [?name])" using p by (simp add: path_parts_word)
      then show ?thesis using b by (auto simp: path_within_def)
    qed
  next
    case True
    then have n: "?path \<noteq> []" "p = path_Abs cwd ?path" "path_Rel ?base p \<noteq> ''..''" "\<not> starts_with ''../'' (path_Rel ?base p)"
      using assms(2) by (auto simp: resolveRestorePath_def Let_def split: if_splits)
    obtain ts where t: "clean_path p ts" unfolding n(2) using clean_Abs [OF assms(1)] .
    let ?rel = "rel_parts bs ts"
    have rel: "path_Rel ?base p = (if ?rel = [] then ''.'' else join_on slash ?rel)"
      using clean_path_parts [OF b] clean_path_parts [OF t] by (simp add: path_Rel_def Let_def)
    have "?rel = [] \<or> hd ?rel \<noteq> ''..''"
    proof (cases ?rel rule: list.exhaust)
      case (Cons x xs)
      then show ?thesis using n(3,4) rel by (cases xs) (auto simp: starts_with_def)
    qed simp
    then show ?thesis using rel_inside [of bs ts] b t by (auto simp: path_within_def)
  qed
qed

section \<open>Writes that fail\<close>

text \<open>A write of a file is whole or it is not done: after a success the file has the new content; after an error it has its old content, or,
  where the file could be moved aside and not back, the old content is in the file of the suffix \<^verbatim>\<open>.bak\<close>. No other file is touched, and
  no temporary file stays.\<close>

theorem atomic_write_whole:
  assumes "atomicWriteFile v now path raw fs = (fs', err)"
    and "distinct [path_Abs (fe_cwd v) path, path_Abs (fe_cwd v) (path @ ''.bak''), fe_temp v path]" "map_of fs (fe_temp v path) = None"
  shows "(err = None \<longrightarrow> map_of fs' (path_Abs (fe_cwd v) path) = Some (raw, now)) \<and>
    (err \<noteq> None \<longrightarrow> map_of fs' (path_Abs (fe_cwd v) path) = map_of fs (path_Abs (fe_cwd v) path) \<or>
       map_of fs' (path_Abs (fe_cwd v) path) = None \<and>
       map_of fs' (path_Abs (fe_cwd v) (path @ ''.bak'')) = map_of fs (path_Abs (fe_cwd v) path)) \<and>
    (\<forall>k. k \<notin> {path_Abs (fe_cwd v) path, path_Abs (fe_cwd v) (path @ ''.bak'')} \<longrightarrow> map_of fs' k = map_of fs k)"
proof -
  let ?key = "path_Abs (fe_cwd v) path" and ?bak = "path_Abs (fe_cwd v) (path @ ''.bak'')" and ?tmp = "fe_temp v path"
  have d: "?key \<noteq> ?bak" "?key \<noteq> ?tmp" "?bak \<noteq> ?tmp" using assms(2) by auto
  show ?thesis
    using assms(1,3) d
    by (auto simp: atomicWriteFile_def replace_aside_def Let_def fun_eq_iff split: if_splits option.splits)
qed

section \<open>A backup comes back\<close>

lemma clean_parts_split: "clean_parts r out (xs @ ys) = clean_parts r (rev (clean_parts r out xs)) ys"
  by (induction r out xs rule: clean_parts.induct) (auto split: list.split)

lemma clean_pop: "o1 \<noteq> ''..'' \<Longrightarrow> clean_parts r out (xs @ o1 # ''..'' # ys) = clean_parts r out (xs @ ys)"
  by (simp add: clean_parts_split [of r out xs])

lemma clean_relative: "clean_parts True out (clean_parts False st ps) = clean_parts True out (rev st @ ps)"
proof (induction ps arbitrary: st)
  case (Cons p ps)
  show ?case
  proof (cases "p = ''..''")
    case True
    show ?thesis
    proof (cases st)
      case (Cons o1 os)
      then show ?thesis using True Cons.IH clean_pop [of o1 True out "rev os" ps] by (cases "o1 = ''..''") simp_all
    qed (simp add: True Cons.IH)
  qed (simp add: Cons.IH)
qed simp

lemma clean_path_unique: "clean_path a ps \<Longrightarrow> clean_path b ps \<Longrightarrow> a = b"
  by (simp add: clean_path_def)

lemma clean_parts_ok: "\<forall>p\<in>set out. part_ok p \<Longrightarrow> \<forall>p\<in>set ps. part_ok p \<Longrightarrow> \<forall>p\<in>set (clean_parts False out ps). part_ok p"
proof (induction ps arbitrary: out)
  case (Cons p ps)
  have p: "part_ok p" "\<forall>p\<in>set ps. part_ok p" using Cons.prems(2) by simp_all
  have "clean_parts False out (p # ps) \<in> {clean_parts False (p # out) ps, clean_parts False (tl out) ps}"
    by (cases out; cases "p = ''..''"; cases "hd out = ''..''") simp_all
  moreover have "\<forall>q\<in>set (tl out). part_ok q" using Cons.prems(1) list.set_sel(2) by (cases out) simp_all
  ultimately show ?case
    using Cons.IH [OF _ p(2), of "p # out"] Cons.IH [OF _ p(2), of "tl out"] p(1) Cons.prems(1) by (metis insertE list.set(2) set_ConsD singletonD)
qed simp

lemma part_ok_hd: "part_ok p \<Longrightarrow> p \<noteq> [] \<and> hd p \<noteq> slash"
  by (cases p) (auto simp: part_ok_def)

lemma relative_parts:
  assumes "\<not> is_abs s"
  shows "path_parts (path_Clean s) = clean_parts False [] (path_parts s) \<and> \<not> is_abs (path_Clean s)"
proof -
  let ?ps = "clean_parts False [] (path_parts s)"
  have ok: "\<forall>p\<in>set ?ps. part_ok p" by (rule clean_parts_ok) (simp_all add: path_parts_ok)
  have "\<not> is_abs (join_on slash ?ps)"
  proof (cases ?ps)
    case (Cons p ps)
    then have "p \<noteq> []" "hd p \<noteq> slash" using ok part_ok_hd [of p] by simp_all
    then show ?thesis using Cons by (cases ps; cases p) (simp_all add: is_abs_def starts_with_def)
  qed (simp add: is_abs_def starts_with_def)
  then show ?thesis
    using assms path_parts_join [OF ok] by (auto simp: path_Clean_def Let_def is_abs_def starts_with_def path_parts_def)
qed

lemma is_abs_app: "a \<noteq> [] \<Longrightarrow> is_abs (a @ b) = is_abs a"
  by (cases a) (simp_all add: is_abs_def starts_with_def)

lemma Abs_Join:
  assumes "clean_path cwd cs" "a \<noteq> []"
  shows "path_Abs cwd (path_Join a b) = path_Join (path_Abs cwd a) b"
proof (cases "is_abs a")
  case True
  have j: "clean_path (path_Join a b) (clean_parts True [] (path_parts a @ path_parts b))"
    using clean_abs [of "a @ slash # b"] True assms(2) by (simp add: path_Join_def is_abs_app path_parts_app)
  then have "path_Abs cwd (path_Join a b) = path_Join a b" using clean_path_parts by (simp add: path_Abs_def)
  moreover have "clean_path (path_Join (path_Clean a) b) (clean_parts True [] (path_parts a @ path_parts b))"
    using clean_join [OF clean_abs [OF True], of b] by (simp add: clean_parts_split)
  ultimately show ?thesis using clean_path_unique [OF j] True by (simp add: path_Abs_def)
next
  case False
  then have n: "\<not> is_abs (a @ slash # b)" using assms(2) by (simp add: is_abs_app)
  have "path_Abs cwd (path_Join a b) = path_Join cwd (path_Clean (a @ slash # b))"
    using relative_parts [OF n] assms(2) by (simp add: path_Abs_def path_Join_def)
  moreover have "clean_path (path_Join cwd (path_Clean (a @ slash # b))) (clean_parts True (rev cs) (path_parts a @ path_parts b))"
    using clean_join [OF assms(1), of "path_Clean (a @ slash # b)"] relative_parts [OF n] by (simp add: clean_relative path_parts_app)
  moreover have "clean_path (path_Join (path_Abs cwd a) b) (clean_parts True (rev cs) (path_parts a @ path_parts b))"
    using clean_join [OF clean_join [OF assms(1), of a], of b] False by (simp add: path_Abs_def clean_parts_split)
  ultimately show ?thesis using clean_path_unique by metis
qed

text \<open>The file of a backup and its copy aside have names of their own.\<close>

lemma clean_last: "part_ok n \<Longrightarrow> n \<noteq> ''..'' \<Longrightarrow> clean_parts r out (ps @ [n]) = clean_parts r out ps @ [n]"
  by (simp add: clean_parts_split [of r out ps])

lemma join_suffix: "join_on c (ps @ [n @ x]) = join_on c (ps @ [n]) @ x"
  by (induction ps rule: induct_list012) simp_all

lemma Join_suffix:
  assumes "a \<noteq> []" "part_ok n" "n \<noteq> ''..''" "part_ok (n @ x)" "n @ x \<noteq> ''..''"
  shows "path_Join a n @ x = path_Join a (n @ x)"
  using assms
  by (simp add: path_Join_def path_Clean_def is_abs_app path_parts_app path_parts_word clean_last Let_def join_suffix)

lemma part_ok_long: "length s > 2 \<Longrightarrow> slash \<notin> set s \<Longrightarrow> part_ok s \<and> s \<noteq> ''..''"
  by (auto simp: part_ok_def)

lemma Base_word:
  assumes "part_ok n"
  shows "path_Base n = n"
proof -
  have "slash \<notin> set (rev n)" "n \<noteq> []" using assms by (simp_all add: part_ok_def)
  then have "dropWhile (\<lambda>c. c = slash) (rev n) = rev n" "takeWhile (\<lambda>c. c \<noteq> slash) (rev n) = rev n"
    by (cases "rev n"; auto simp: takeWhile_eq_all_conv)+
  then have "rev (takeWhile (\<lambda>c. c \<noteq> slash) (dropWhile (\<lambda>c. c = slash) (rev n))) = n" by (simp only: rev_rev_ident)
  then show ?thesis using \<open>n \<noteq> []\<close> by (simp only: path_Base_def Let_def if_False)
qed

lemma Join_word:
  assumes "clean_path base bs" "part_ok n" "n \<noteq> ''..''"
  shows "clean_path (path_Join base n) (bs @ [n])"
  using clean_join [OF assms(1), of n] assms(2,3) by (simp add: path_parts_word)

lemma Clean_nonempty: "path_Clean s \<noteq> []"
proof (cases "is_abs s")
  case False
  have ok: "\<forall>p\<in>set (clean_parts False [] (path_parts s)). part_ok p" by (rule clean_parts_ok) (simp_all add: path_parts_ok)
  then show ?thesis using False path_parts_join [OF ok] by (auto simp: path_Clean_def Let_def)
qed (simp add: path_Clean_def Let_def)

lemma snapshot_file_path:
  assumes "clean_path cwd cs" "path_Abs cwd (path_Join (path_Join dir ''storage'') ''snapshot.bin'') = file"
  obtains ds where "clean_path file (ds @ [''snapshot.bin''])"
proof -
  have "path_Join dir ''storage'' \<noteq> []" by (simp add: path_Join_def Clean_nonempty)
  then have "file = path_Join (path_Abs cwd (path_Join dir ''storage'')) ''snapshot.bin''"
    using Abs_Join [OF assms(1)] assms(2) by simp
  moreover obtain ds where "clean_path (path_Abs cwd (path_Join dir ''storage'')) ds" using clean_Abs [OF assms(1)] .
  ultimately show ?thesis using that Join_word [of _ ds "''snapshot.bin''"] part_ok_long [of "''snapshot.bin''"] by auto
qed

lemma configured_dir: "configuredBackupDir (snapshot_config flag cfg) flag = snapshot_dir (snapshot_config flag cfg)"
  by (auto simp: configuredBackupDir_def snapshot_dir_def snapshot_config_def TrimSpace_nil)

lemma snapshot_dir_nonempty: "snapshot_dir cfg \<noteq> []"
  by (auto simp: snapshot_dir_def path_Join_def Clean_nonempty TrimSpace_nil)

lemma backup_name_ok:
  assumes "slash \<notin> set stamp"
  shows "part_ok (backup_name stamp)" "backup_name stamp \<noteq> ''..''" "part_ok (backup_name stamp @ ''.bak'')"
    "backup_name stamp @ ''.bak'' \<noteq> ''..''" "TrimSpace (backup_name stamp) = backup_name stamp" "backup_name stamp \<noteq> []"
proof -
  have "slash \<notin> set (backup_name stamp)" "slash \<notin> set (backup_name stamp @ ''.bak'')" "length (backup_name stamp) > 2"
    using assms by (simp_all add: backup_name_def)
  then show "part_ok (backup_name stamp)" "backup_name stamp \<noteq> ''..''" "part_ok (backup_name stamp @ ''.bak'')"
    "backup_name stamp @ ''.bak'' \<noteq> ''..''"
    using part_ok_long [of "backup_name stamp"] part_ok_long [of "backup_name stamp @ ''.bak''"] by simp_all
  show "backup_name stamp \<noteq> []" by (simp add: backup_name_def)
  show "TrimSpace (backup_name stamp) = backup_name stamp"
    by (rule TrimSpace_printable) (simp_all add: backup_name_def printable_def byte_nat_def)
qed

lemma atomic_write_content:
  assumes "atomicWriteFile v now path raw fs = (fs', None)" "path_Abs (fe_cwd v) (path @ ''.bak'') \<noteq> path_Abs (fe_cwd v) path"
  shows "map_of fs' (path_Abs (fe_cwd v) path) = Some (raw, now)"
  using assms by (auto simp: atomicWriteFile_def replace_aside_def Let_def split: if_splits option.splits)

text \<open>What \<^verbatim>\<open>CreateBackup\<close> leaves: a snapshot of the engine, in the engine and in the file that it names.\<close>

definition data_snapshot :: "Config \<Rightarrow> string" where
  "data_snapshot cfg = path_Join (path_Join (cs_DataDir (c_Server cfg)) ''storage'') ''snapshot.bin''"

lemma CreateBackup_file:
  assumes "CreateBackup v cfg flag now s = (s1, Inr b)" "clean_path (fe_cwd v) cs" "slash \<notin> set (be_stamp v now)"
    and "path_Abs (fe_cwd v) (data_snapshot (snapshot_config flag cfg)) = be_snapshot v"
  defines "key \<equiv> path_Join (path_Abs (fe_cwd v) (snapshot_dir (snapshot_config flag cfg))) (backup_name (be_stamp v now))"
  obtains snap e where "CreateSnapshot (bs_engine s) = (e, None)" "e_snap e = Some snap" "map_of (bs_files s1) key = Some (snap, now)"
    "b = \<lparr>sb_Name = backup_name (be_stamp v now), sb_Path = key, sb_SizeBytes = length snap, sb_CreatedAt = now\<rparr>" "path_Abs (fe_cwd v) key = key"
proof -
  let ?n = "backup_name (be_stamp v now)" and ?dir = "snapshot_dir (snapshot_config flag cfg)"
  note n = backup_name_ok [OF assms(3)]
  obtain bs where base: "clean_path (path_Abs (fe_cwd v) ?dir) bs" using clean_Abs [OF assms(2)] .
  have key: "path_Abs (fe_cwd v) (path_Join ?dir ?n) = key"
    unfolding key_def by (rule Abs_Join [OF assms(2) snapshot_dir_nonempty])
  have bak: "path_Abs (fe_cwd v) (path_Join ?dir ?n @ ''.bak'') = path_Join (path_Abs (fe_cwd v) ?dir) (?n @ ''.bak'')"
    using Join_suffix [OF snapshot_dir_nonempty n(1,2,3,4)] Abs_Join [OF assms(2) snapshot_dir_nonempty] by simp
  have c: "clean_path key (bs @ [?n])" "clean_path (path_Join (path_Abs (fe_cwd v) ?dir) (?n @ ''.bak'')) (bs @ [?n @ ''.bak''])"
    unfolding key_def using Join_word [OF base] n by simp_all
  have ne: "path_Abs (fe_cwd v) (path_Join ?dir ?n @ ''.bak'') \<noteq> path_Abs (fe_cwd v) (path_Join ?dir ?n)"
    using clean_path_parts [OF c(1)] clean_path_parts [OF c(2)] unfolding key bak by auto
  have self: "path_Abs (fe_cwd v) key = key" using clean_path_parts [OF c(1)] by (simp add: path_Abs_def)
  obtain e snap fs where w: "CreateSnapshot (bs_engine s) = (e, None)" "e_snap e = Some snap"
      "atomicWriteFile v now (path_Join ?dir ?n) snap (bs_files s) = (fs, None)" "s1 = s\<lparr>bs_engine := e, bs_files := fs\<rparr>"
      "b = \<lparr>sb_Name = ?n, sb_Path = key, sb_SizeBytes = length snap, sb_CreatedAt = now\<rparr>"
    using assms(1,4) key
    by (auto simp: CreateBackup_def data_snapshot_def file_at_def Let_def split: if_splits option.splits prod.splits)
  show ?thesis using that [OF w(1,2)] w(4,5) self atomic_write_content [OF w(3) ne] key by simp
qed

lemma clean_prefix: "clean_path k (ps @ [n]) \<Longrightarrow> \<exists>a. k = a @ slash # n"
proof -
  have "\<exists>a. slash # join_on slash (ps @ [n]) = a @ slash # n" for ps
  proof (induction ps rule: induct_list012)
    case (2 x)
    have "slash # join_on slash ([x] @ [n]) = (slash # x) @ slash # n" by simp
    then show ?case by (rule exI)
  next
    case (3 x y zs)
    then obtain a where "slash # join_on slash ((y # zs) @ [n]) = a @ slash # n" by auto
    then have "slash # join_on slash ((x # y # zs) @ [n]) = (slash # x @ a) @ slash # n" by simp
    then show ?case by (rule exI)
  qed simp
  then show "clean_path k (ps @ [n]) \<Longrightarrow> \<exists>a. k = a @ slash # n" by (simp add: clean_path_def)
qed

lemma Base_suffix:
  assumes "part_ok n"
  shows "path_Base (a @ slash # n) = n"
proof -
  have n: "slash \<notin> set (rev n)" "rev n \<noteq> []" using assms by (simp_all add: part_ok_def)
  then have "dropWhile (\<lambda>c. c = slash) (rev n @ slash # rev a) = rev n @ slash # rev a" by (cases "rev n") auto
  moreover have "takeWhile (\<lambda>c. c \<noteq> slash) (rev n @ slash # rev a) = rev n"
    using n(1) by (subst takeWhile_append2) auto
  ultimately have "rev (takeWhile (\<lambda>c. c \<noteq> slash) (dropWhile (\<lambda>c. c = slash) (rev (a @ slash # n)))) = n"
    by (simp only: rev.simps rev_append append_assoc append_Cons append_Nil rev_rev_ident)
  moreover have "a @ slash # n \<noteq> []" "n \<noteq> []" using n by simp_all
  ultimately show ?thesis by (simp only: path_Base_def Let_def if_False)
qed

text \<open>What \<^verbatim>\<open>RestoreBackup\<close> does with such a file, named as the backup is: the engine reads it.\<close>

lemma RestoreBackup_file:
  fixes v :: backup_env
  assumes "clean_path (fe_cwd v) cs" "slash \<notin> set stamp"
    and "path_Abs (fe_cwd v) (data_snapshot (snapshot_config flag cfg)) = be_snapshot v"
    and "TrimSpace (snapshot_dir (snapshot_config flag cfg)) = snapshot_dir (snapshot_config flag cfg)"
  defines "key \<equiv> path_Join (path_Abs (fe_cwd v) (snapshot_dir (snapshot_config flag cfg))) (backup_name stamp)"
  assumes "map_of (bs_files s) key = Some (snap, at)"
  shows "RestoreBackup v cfg flag \<lparr>rr_Name = backup_name stamp, rr_Path = []\<rparr> s =
    (case RestoreSnapshot snap (bs_engine s) of
       (e, None) \<Rightarrow>
         (s\<lparr>bs_engine := e\<rparr>, Inr \<lparr>sb_Name = backup_name stamp, sb_Path = key, sb_SizeBytes = length snap, sb_CreatedAt = at\<rparr>)
     | (e, Some err) \<Rightarrow> (s\<lparr>bs_engine := e\<rparr>, Inl err))"
proof -
  let ?dir = "snapshot_dir (snapshot_config flag cfg)" and ?n = "backup_name stamp"
  note n = backup_name_ok [OF assms(2)]
  obtain bs where base: "clean_path (path_Abs (fe_cwd v) ?dir) bs" using clean_Abs [OF assms(1)] .
  have key: "clean_path key (bs @ [?n])" using Join_word [OF base] n by (simp add: key_def)
  obtain ds where d: "clean_path (be_snapshot v) (ds @ [''snapshot.bin''])"
    using snapshot_file_path [OF assms(1) assms(3) [unfolded data_snapshot_def]] .
  have ne: "key \<noteq> be_snapshot v" using clean_path_parts [OF key] clean_path_parts [OF d] by (auto simp: backup_name_def)
  have self: "path_Abs (fe_cwd v) key = key" using clean_path_parts [OF key] by (simp add: path_Abs_def)
  have at: "file_at v key (s\<lparr>bs_engine := e\<rparr>) = Some (snap, at)" "file_at v key s = Some (snap, at)" for e
    using assms(6) ne self by (simp_all add: file_at_def Let_def)
  have r: "resolveRestorePath (fe_cwd v) ?dir \<lparr>rr_Name = ?n, rr_Path = []\<rparr> = Inr key"
    using assms(4) n snapshot_dir_nonempty Base_word [OF n(1)] by (simp add: resolveRestorePath_def Let_def key_def)
  obtain a where a: "key = a @ slash # ?n" using clean_prefix [OF key] by auto
  have "last key = CHR ''t''" unfolding a by (simp add: backup_name_def)
  moreover have "hd key = slash \<and> key \<noteq> []" using key unfolding clean_path_def by (metis list.distinct(1) list.sel(1))
  ultimately have t: "TrimSpace key = key" "key \<noteq> []"
    using TrimSpace_printable [of key] by (simp_all add: printable_def byte_nat_def)
  have b: "path_Base key = ?n" unfolding a by (rule Base_suffix [OF n(1)])
  show ?thesis
    by (simp add: RestoreBackup_def restoreBackupFromRequest_def restoreSnapshotIntoEngine_def configured_dir r t b at self Let_def
        split: option.split prod.split)
qed

text \<open>A backup that is taken and later restored by its name, through the functions of the interface, gives any running engine the contents
  of the engine that was backed up, and they survive a crash. The restore answers the backup as it was announced. The directory of the backups
  has no spaces around it.\<close>

theorem backup_route_roundtrip:
  assumes "clean_path (fe_cwd v) cs" "slash \<notin> set (be_stamp v now)"
    and "path_Abs (fe_cwd v) (data_snapshot (snapshot_config flag cfg)) = be_snapshot v"
    and "TrimSpace (snapshot_dir (snapshot_config flag cfg)) = snapshot_dir (snapshot_config flag cfg)"
    and "storage_reachable (bs_engine s)" "CreateBackup v cfg flag now s = (s1, Inr b)"
    and "storage_reachable (bs_engine s2)" "map_of (bs_files s2) (sb_Path b) = map_of (bs_files s1) (sb_Path b)"
    and "RestoreBackup v cfg flag \<lparr>rr_Name = sb_Name b, rr_Path = []\<rparr> s2 = (s3, Inr b')"
  shows "b' = b \<and> (\<exists>e4. OpenEngine (disk_of (bs_engine s3)) names = Inr e4 \<and>
    (\<forall>n k. eng_Get (bs_engine s3) n k = eng_Get (bs_engine s) n k \<and> eng_Get e4 n k = eng_Get (bs_engine s) n k))"
proof -
  let ?key = "path_Join (path_Abs (fe_cwd v) (snapshot_dir (snapshot_config flag cfg))) (backup_name (be_stamp v now))"
  obtain snap e where c: "CreateSnapshot (bs_engine s) = (e, None)" "e_snap e = Some snap" "map_of (bs_files s1) ?key = Some (snap, now)"
      "b = \<lparr>sb_Name = backup_name (be_stamp v now), sb_Path = ?key, sb_SizeBytes = length snap, sb_CreatedAt = now\<rparr>"
    by (rule CreateBackup_file [OF assms(6,1,2,3)])
  then have "map_of (bs_files s2) ?key = Some (snap, now)" using assms(8) by simp
  from RestoreBackup_file [OF assms(1-4) this] obtain e3
    where e3: "RestoreSnapshot snap (bs_engine s2) = (e3, None)" "s3 = s2\<lparr>bs_engine := e3\<rparr>" "b' = b"
    using assms(9) c(4) by (auto split: prod.splits option.splits)
  then show ?thesis using restored_contents [OF assms(5) c(1,2) assms(7) e3(1), of names] by simp
qed

section \<open>Instances\<close>

definition demo_files :: "(write_step \<Rightarrow> bool) \<Rightarrow> file_env" where
  "demo_files ok = \<lparr>fe_cwd = ''/d'', fe_temp = (\<lambda>_. ''/d/t''), fe_ok = ok, fe_dirError = (\<lambda>_. None)\<rparr>"

lemma backup_word: "part_ok ''d'' \<and> ''d'' \<noteq> ''..''" "part_ok ''b'' \<and> ''b'' \<noteq> ''..''" "part_ok ''f'' \<and> ''f'' \<noteq> ''..''"
  "part_ok ''f.bak'' \<and> ''f.bak'' \<noteq> ''..''"
  by (simp_all add: part_ok_def)

lemma demo_clean: "clean_path ''/d'' [''d'']" "clean_path ''/d/b'' [''d'', ''b'']"
  by (simp_all add: clean_path_def backup_word)

lemma demo_relative: "path_Abs ''/d'' ''f'' = ''/d/f''" "path_Abs ''/d'' ''f.bak'' = ''/d/f.bak''" "path_Abs ''/d'' ''b'' = ''/d/b''"
  using Join_word [OF demo_clean(1), of "''f''"] Join_word [OF demo_clean(1), of "''f.bak''"] Join_word [OF demo_clean(1), of "''b''"] backup_word
  by (simp_all add: path_Abs_def is_abs_def starts_with_def clean_path_def)

lemma backup_trim: "TrimSpace ''b'' = ''b''" "TrimSpace ''f'' = ''f''" "TrimSpace ''/d/b'' = ''/d/b''"
  by (rule TrimSpace_printable; simp add: printable_def byte_nat_def)+

theorem restore_path_inside_witness:
  "\<exists>p. resolveRestorePath ''/d'' ''b'' \<lparr>rr_Name = ''f'', rr_Path = []\<rparr> = Inr p \<and> path_within ''/d/b'' p"
proof -
  have r: "resolveRestorePath ''/d'' ''b'' \<lparr>rr_Name = ''f'', rr_Path = []\<rparr> = Inr (path_Join ''/d/b'' ''f'')"
    using Base_word [of "''f''"] backup_word by (simp add: resolveRestorePath_def backup_trim demo_relative Let_def)
  then show ?thesis using restore_path_inside [OF demo_clean(1) r] by (simp add: backup_trim demo_relative)
qed

theorem atomic_write_whole_witness:
  "\<exists>fs err. atomicWriteFile (demo_files (\<lambda>x. x \<noteq> StepRename \<and> x \<noteq> StepReplace \<and> x \<noteq> StepUndo)) 7 ''f'' ''new'' [(''/d/f'', ''old'', 1)] = (fs, Some err) \<and>
     map_of fs ''/d/f'' = None \<and> map_of fs ''/d/f.bak'' = Some (''old'', 1) \<and> map_of fs ''/d/t'' = None"
proof -
  let ?v = "demo_files (\<lambda>x. x \<noteq> StepRename \<and> x \<noteq> StepReplace \<and> x \<noteq> StepUndo)"
  have w: "atomicWriteFile ?v 7 ''f'' ''new'' [(''/d/f'', ''old'', 1)] = ([(''/d/f.bak'', ''old'', 1)], Some write_failed)"
    by (simp add: atomicWriteFile_def replace_aside_def demo_files_def demo_relative Let_def)
  then show ?thesis using atomic_write_whole [OF w] by (simp add: demo_files_def demo_relative)
qed

definition demo_backup_config :: Config where
  "demo_backup_config =
     DefaultConfig\<lparr>c_Server := (c_Server DefaultConfig)\<lparr>cs_DataDir := ''/d''\<rparr>, c_Backup := (c_Backup DefaultConfig)\<lparr>cu_Path := ''/d/b''\<rparr>\<rparr>"

definition demo_backup_env :: backup_env where
  "demo_backup_env =
     \<lparr>fe_cwd = ''/d'', fe_temp = (\<lambda>_. ''/d/t''), fe_ok = (\<lambda>_. True), fe_dirError = (\<lambda>_. None),
      be_snapshot = data_snapshot demo_backup_config, be_snapshotTime = 7, be_stamp = (\<lambda>_. ''20250102-030405'')\<rparr>"

lemma demo_backup_paths:
  "snapshot_config [] demo_backup_config = demo_backup_config" "snapshot_dir demo_backup_config = ''/d/b''" "fe_cwd demo_backup_env = ''/d''"
  "slash \<notin> set (be_stamp demo_backup_env now)" "path_Abs ''/d'' (data_snapshot demo_backup_config) = be_snapshot demo_backup_env"
proof -
  show "snapshot_config [] demo_backup_config = demo_backup_config" "snapshot_dir demo_backup_config = ''/d/b''"
    "fe_cwd demo_backup_env = ''/d''" "slash \<notin> set (be_stamp demo_backup_env now)"
    by (simp_all add: snapshot_config_def snapshot_dir_def demo_backup_config_def demo_backup_env_def backup_trim)
  have "clean_path (path_Join ''/d'' ''storage'') ([''d''] @ [''storage''])"
    using Join_word [OF demo_clean(1)] part_ok_long [of "''storage''"] by simp
  then obtain ds where "clean_path (data_snapshot demo_backup_config) ds"
    using clean_join [of _ _ "''snapshot.bin''"] by (auto simp: data_snapshot_def demo_backup_config_def)
  then show "path_Abs ''/d'' (data_snapshot demo_backup_config) = be_snapshot demo_backup_env"
    using clean_path_parts by (simp add: path_Abs_def demo_backup_env_def)
qed

lemma demo_restored:
  obtains e3 where "RestoreSnapshot demo_backup demo0 = (e3, None)"
proof -
  have "trees_inv (e_trees demo1)" using reachable_eng_ok [OF demo1_reachable] by (simp add: eng_ok_def)
  then have "ReadSnapshot demo_backup = Inr (e_trees demo1)" using ReadSnapshot_Write demo_backup_ok by blast
  then show ?thesis using that demo_backup_ok by (simp add: RestoreSnapshot_def demo0_eq demo1_trees Let_def)
qed

definition demo_backup_state :: backup_state where "demo_backup_state = \<lparr>bs_engine = demo1, bs_files = []\<rparr>"

lemma demo_created:
  obtains s1 b where "CreateBackup demo_backup_env demo_backup_config [] 7 demo_backup_state = (s1, Inr b)"
proof -
  have "CreateSnapshot demo1 = (demo1\<lparr>e_snap := Some demo_backup\<rparr>, None)" by (simp add: CreateSnapshot_def demo_backup_ok)
  then have "\<exists>s1 b. CreateBackup demo_backup_env demo_backup_config [] 7 demo_backup_state = (s1, Inr b)"
    using demo_backup_paths(5)
    by (simp add: CreateBackup_def demo_backup_paths file_at_def data_snapshot_def [symmetric] demo_backup_state_def Let_def
        atomicWriteFile_def) (simp add: demo_backup_env_def)
  then show ?thesis using that by blast
qed

theorem backup_route_roundtrip_witness:
  "\<exists>s1 b s3 b'. CreateBackup demo_backup_env demo_backup_config [] 7 demo_backup_state = (s1, Inr b) \<and>
     RestoreBackup demo_backup_env demo_backup_config [] \<lparr>rr_Name = sb_Name b, rr_Path = []\<rparr> (s1\<lparr>bs_engine := demo0\<rparr>) = (s3, Inr b') \<and>
     eng_Get (bs_engine s3) ''leases'' ''k'' = Inr ''v''"
proof -
  obtain s1 b where c: "CreateBackup demo_backup_env demo_backup_config [] 7 demo_backup_state = (s1, Inr b)" by (rule demo_created)
  have cwd: "clean_path (fe_cwd demo_backup_env) [''d'']" by (simp add: demo_backup_paths demo_clean)
  have key: "path_Abs (fe_cwd demo_backup_env) (snapshot_dir (snapshot_config [] demo_backup_config)) = ''/d/b''"
    using clean_path_parts [OF demo_clean(2)] by (simp add: demo_backup_paths path_Abs_def)
  have src: "path_Abs (fe_cwd demo_backup_env) (data_snapshot (snapshot_config [] demo_backup_config)) = be_snapshot demo_backup_env"
    by (simp only: demo_backup_paths)
  have dir: "TrimSpace (snapshot_dir (snapshot_config [] demo_backup_config)) = snapshot_dir (snapshot_config [] demo_backup_config)"
    by (simp add: demo_backup_paths backup_trim)
  obtain snap e where f: "CreateSnapshot (bs_engine demo_backup_state) = (e, None)" "e_snap e = Some snap"
      "map_of (bs_files s1) (path_Join ''/d/b'' (backup_name (be_stamp demo_backup_env 7))) = Some (snap, 7)"
      "sb_Name b = backup_name (be_stamp demo_backup_env 7)"
    by (rule CreateBackup_file [OF c cwd demo_backup_paths(4) src, unfolded key]) simp
  have "snap = demo_backup" using f(1,2) by (auto simp: CreateSnapshot_def demo_backup_ok demo_backup_state_def)
  moreover obtain e3 where "RestoreSnapshot demo_backup demo0 = (e3, None)" using demo_restored .
  ultimately obtain s3 b' where r: "RestoreBackup demo_backup_env demo_backup_config [] \<lparr>rr_Name = sb_Name b, rr_Path = []\<rparr>
      (s1\<lparr>bs_engine := demo0\<rparr>) = (s3, Inr b')"
    using RestoreBackup_file [OF cwd demo_backup_paths(4) src dir, unfolded key, of "s1\<lparr>bs_engine := demo0\<rparr>" 7 snap 7] f(3,4) by auto
  have "eng_Get (bs_engine s3) ''leases'' ''k'' = Inr ''v''"
    using backup_route_roundtrip [OF cwd demo_backup_paths(4) src dir _ c _ _ r, of "[]"] demo1_reachable demo0_reachable demo1_get
    by (auto simp: demo_backup_state_def)
  with c r show ?thesis by blast
qed

end
