(* ===== verification/Spec2Isabelle.thy ===== *)
theory Spec2Isabelle
  imports StorageProps LeaseProps Dhcp4Props HaProps IpamProps AuthProps Dhcp6Props AuditProps EventsProps RogueProps ConfigProps RestProps
    DiscoveryProps GrpcProps WebsocketProps DdnsProps McpProps MigrateProps BackupProps
begin

text \<open>
  A verification of Monsoon, a DHCP and address-management server: its storage engine, the
  lease store, the DHCPv4 and DHCPv6 servers, the high-availability pair, the address management,
  the authentication, the interfaces for programs and the services around them. The parts and how they interact:

  \<^item> \<^verbatim>\<open>src/internal/storage\<close> keeps named trees of rows, a write-ahead log and a snapshot file. Every
    other part writes through its transactions.
  \<^item> \<^verbatim>\<open>src/internal/lease\<close> keeps the leases as rows of one tree with four trees of secondary keys, and
    the sweeper that expires and frees them.
  \<^item> \<^verbatim>\<open>src/internal/dhcpv4\<close> and \<^verbatim>\<open>src/internal/dhcpv6\<close> decode a datagram, choose an address, store
    the lease and answer.
  \<^item> \<^verbatim>\<open>src/internal/ha\<close> elects a primary of two servers, splits the pool between them and replicates
    the leases.
  \<^item> \<^verbatim>\<open>src/internal/ipam\<close> keeps subnets, reservations and addresses; \<^verbatim>\<open>src/internal/auth\<close> keeps
    users, lockouts, sessions and API tokens. Both are rows of the storage engine.
  \<^item> \<^verbatim>\<open>src/internal/audit\<close>, \<^verbatim>\<open>src/internal/settings\<close>, \<^verbatim>\<open>src/internal/events\<close>, \<^verbatim>\<open>src/internal/webhook\<close> and
    \<^verbatim>\<open>src/internal/discovery\<close> keep the log of changes and the settings, deliver events, and look for hosts and foreign DHCP servers.
  \<^item> \<^verbatim>\<open>src/internal/config\<close> checks the configuration, and \<^verbatim>\<open>src/cmd/monsoon\<close> starts and reloads it, and takes and
    restores backups.
  \<^item> \<^verbatim>\<open>src/internal/api\<close> has the interfaces: REST with its middleware, gRPC, WebSocket and MCP, all over the same services.
  \<^item> \<^verbatim>\<open>src/internal/ddns\<close> sends signed updates of the DNS for leases; \<^verbatim>\<open>src/internal/migrate\<close> imports the data of other products.

  \<^bold>\<open>Theories.\<close>

  \<^item> \<open>Prelude\<close>, \<open>GoStrings\<close>, \<open>Net\<close>, \<open>Netip\<close>: the values and library functions of Go that the code
    uses (byte strings, words and their bytes, errors, ordered maps; white space, letter case, digits;
    addresses, prefixes and hardware addresses, parsed and printed).
  \<^item> \<open>Kv\<close>: the locale \<open>kv_map\<close>, a key-value store and the replay of a log over it.
  \<^item> \<open>BTree\<close> (\<^verbatim>\<open>btree.go\<close>), \<open>Wal\<close> (\<^verbatim>\<open>wal.go\<close>, \<^verbatim>\<open>numeric.go\<close>), \<open>Snapshot\<close>
    (\<^verbatim>\<open>snapshot.go\<close>), \<open>Index\<close> (\<^verbatim>\<open>index.go\<close>), \<open>StorageEngine\<close> (\<^verbatim>\<open>engine.go\<close>): the storage.
    \<open>Recovery\<close> has the engine's invariant \<open>eng_ok\<close>, the steps that reach an engine, and what
    reopening the files gives; \<open>StorageProps\<close> has the properties.
  \<^item> \<open>Lease\<close> (\<^verbatim>\<open>types.go\<close> and the interface \<^verbatim>\<open>Store\<close>), \<open>LeaseStore\<close> (\<^verbatim>\<open>store.go\<close>), \<open>LeaseInv\<close>
    (the invariant \<open>es_inv\<close> of its trees, the interpretation of the locale \<open>lease_store\<close>), \<open>Sweeper\<close>
    (\<^verbatim>\<open>expiry.go\<close>), \<open>LeaseProps\<close>.
  \<^item> \<open>Dhcp4Packet\<close>, \<open>Dhcp4Pool\<close>, \<open>Dhcp4Handler\<close> (the files of \<^verbatim>\<open>src/internal/dhcpv4\<close>); \<open>Dhcp4Inv\<close>
    (the invariant of the pools' bitmaps and the store), \<open>Dhcp4Run\<close> (the reachable servers, through
    messages, sweeps, crashes and restarts), \<open>Dhcp4Demo\<close> (a small server for the instances), \<open>Dhcp4Props\<close>.
  \<^item> \<open>Ha\<close> (\<^verbatim>\<open>election.go\<close>, \<^verbatim>\<open>witness.go\<close>, \<^verbatim>\<open>heartbeat.go\<close> and the decisions of
    \<^verbatim>\<open>failover.go\<close>), \<open>HaSync\<close> (\<^verbatim>\<open>sync.go\<close> and the connections of \<^verbatim>\<open>failover.go\<close>), \<open>HaProps\<close>.
  \<^item> \<open>Db\<close>: the rows of a tree as the services use them, the locales \<open>row_db\<close> and \<open>tx_db\<close> and their
    interpretations on the engine; \<open>DbDemo\<close>: a codec and an engine for the instances.
  \<^item> \<open>Ipam\<close> and \<open>IpamAddress\<close> (\<^verbatim>\<open>src/internal/ipam\<close>), \<open>IpamProps\<close>; \<open>Auth\<close> (\<^verbatim>\<open>src/internal/auth\<close>),
    \<open>AuthProps\<close>.
  \<^item> \<open>Dhcp6Packet\<close>, \<open>Dhcp6\<close> (the files of \<^verbatim>\<open>src/internal/dhcpv6\<close>), \<open>Dhcp6Props\<close>.
  \<^item> \<open>AuditLog\<close> (the log of changes and the settings), \<open>AuditProps\<close>; \<open>Events\<close> (the broker of events and the webhooks), \<open>EventsProps\<close>;
    \<open>Rogue\<close> (\<^verbatim>\<open>rogue.go\<close>, \<^verbatim>\<open>oui.go\<close>), \<open>RogueProps\<close>; \<open>Discovery\<close> (the scans), \<open>DiscoveryProps\<close>; \<open>Health\<close>.
  \<^item> \<open>Config\<close> (\<^verbatim>\<open>src/internal/config\<close>), \<open>RuntimeConfig\<close> (\<^verbatim>\<open>runtime_config.go\<close>, \<^verbatim>\<open>config_merge.go\<close> and the start and the reload of
    \<^verbatim>\<open>main.go\<close>), \<open>ConfigProps\<close>.
  \<^item> \<open>RestHttp\<close> (the middleware), \<open>RestAuth\<close> (\<^verbatim>\<open>auth.go\<close>), \<open>RestRoutes\<close> and \<open>RestSystem\<close> (\<^verbatim>\<open>router.go\<close>), \<open>RestProps\<close>; \<open>Websocket\<close> with
    \<open>WebsocketProps\<close>; \<open>Proto\<close> (the wire format), \<open>GrpcMessages\<close>, \<open>Grpc\<close>, \<open>GrpcProps\<close>; \<open>McpPlan\<close> (the planner of subnets), \<open>Mcp\<close>, \<open>McpProps\<close>.
  \<^item> \<open>Ddns\<close> (\<^verbatim>\<open>src/internal/ddns\<close>), \<open>DdnsProps\<close>; \<open>Migrate\<close> (\<^verbatim>\<open>csv.go\<close>), \<open>MigrateIsc\<close>, \<open>MigrateKea\<close>, \<open>MigrateApi\<close> (NetBox, phpIPAM and
    the dispatch of \<^verbatim>\<open>migrate.go\<close>), \<open>MigrateProps\<close>.
  \<^item> \<open>Filepath\<close> (the paths of Go's library, as on Unix), \<open>Backup\<close> (\<^verbatim>\<open>backup_restore.go\<close>, \<^verbatim>\<open>atomic_write.go\<close> and the functions of
    \<^verbatim>\<open>main.go\<close> that the routes for backups call), \<open>BackupProps\<close>.

  \<^bold>\<open>How the state corresponds.\<close> A Go struct is a record with the fields that matter (mutexes,
  connections and wait groups have none). A string and a byte slice are both a list of bytes; a
  nil slice and an empty one are both \<open>[]\<close>; \<^verbatim>\<open>net.IP\<close> is its bytes, \<^verbatim>\<open>netip.Addr\<close> a word with its
  zone. A Go map that is ranged over is an association list, whose order stands for any iteration
  order. Integers have their width where it can matter (addresses, lifetimes, sequence numbers of the
  wire, bitmaps); a Go \<^verbatim>\<open>int\<close> that counts items is an integer or a natural number, and times and durations
  are integers, nanoseconds from the zero time. A function that reads the clock has the time as an
  argument \<open>now\<close>; where the code reads it several times in one operation the model reads it once.
  Errors are values of \<open>go_error\<close> (the sentinel \<open>ErrNotFound\<close>, a message, or a panic such as an index
  out of range). A lock makes an operation atomic. An interface of the code is a record of
  functions with a locale that states its laws: \<open>lease_ops\<close> with \<open>lease_store\<close>, \<open>db_ops\<close> with
  \<open>row_db\<close>; the interpretations (\<open>es\<close>, \<open>er\<close>, \<open>edb\<close>, \<open>edbt\<close>, \<open>edbr\<close>) prove the laws of the code's own
  implementation on the storage engine, so the properties hold of the composed program, down to the
  rows and the log.

  An HTTP handler maps a writer, a request and the state to the state and an outcome, a panic or an answer.

  \<^bold>\<open>Parameters.\<close> The JSON codecs (with the hypothesis that decoding an encoded value gives it back),
  bcrypt, SHA-256, SHA-1, HMAC and base64, the random source, computations in floating point, the readers of URLs, YAML, CSV and times,
  the look-up of ports, the probes of hosts and the exchange with name servers, and the other end of a
  connection. Operating-system calls on the log and the snapshot succeed, except that a crash may
  cut the last segment short.

  \<^bold>\<open>What is shown.\<close> For the storage: recovery after crashes between records, and what a crash in the middle of a
  record leaves (a beginning of its transaction; runs that write on after it are not covered, since the code then loses writes); the
  effect of transactions; backup and restore; the tree as an ordered map; the delivery of events; the
  indexes; and two ways to lose or keep writes that the code does not mean. For the leases: exact
  look-ups and scans, recovery, what a sweep does and does not do. For DHCPv4: in every reachable
  state no answer gives an address away that another client holds, an offer is
  honoured while the client's leases stay as they are, when a request is refused, the codec, the times. For the pair: one primary, disjoint
  halves of the pool for nodes with different identities, replication, the witness, and three ways to lose service. For the
  address management: subnets stay disjoint and reservations unique. For the authentication: a bound on
  the passwords tried, when the service starts, the life of a token through all its uses. For DHCPv6: an exact codec, no client
  takes over another's active lease when their identifiers do not collide in the index, and the fate of a declined address. For the interfaces: what is stored changes only for a
  caller with the role that the operation asks for, over REST, gRPC and MCP, a new password ends the sessions of its user, streams never
  start behind the program's logging, and the codecs of gRPC and WebSocket give back what was encoded. For the services: a valid configuration of
  IPv4 subnets has disjoint pools, what a reload forgets, own offers never raise the alarm of a foreign server, a scan forgets no host, the
  log of changes gives back what was logged, and how it is cut, the exact DNS messages, and planned subnets that can be created. For the migration: the parser of
  ISC configurations returns and reads what was printed, a dry run changes nothing, and a CSV import that skips conflicts leaves the stored
  reservations as they were. For the backups: what a request can restore, a write that fails leaves the old file, and a backup comes back.

  \<^bold>\<open>Bounds.\<close> Loops are structural or have a measure: the replay of a segment consumes bytes, the scan of a
  DHCPv6 pool climbs to the last address, the search for a free DHCPv4 address runs through the bits of
  the pool, an IPv6 text has at most eight groups. The fill of a subnet's addresses stops
  after 4096 addresses as in the code. A load of sessions that blocks forever is \<open>None\<close>, and so are the pages of NetBox when they go on for
  ever. The parser of ISC configurations has fuel: one more than the number of tokens, which \<open>isc_parser_returns\<close> proves to be enough, since each
  statement uses up a token.

  \<^bold>\<open>Not modelled.\<close> The files of the dashboard, the gauges, and the reading of flags, the printing of tables, the assembly of the components
  and the rewriting of the configuration file in \<^verbatim>\<open>src/cmd/monsoon\<close>; the texts of errors leave out the values that they quote.
  Sockets and goroutine scheduling inside one operation are the
  operating system's and the runtime's.
\<close>

end
